(* ===== verification/GW_Prelude.thy ===== *)
theory GW_Prelude
  imports Main "HOL-Library.Word" "HOL-Library.Char_ord" "HOL-Library.List_Lexorder"
begin

text \<open>
  Shared vocabulary of the development: the machine types of the C++ sources, the exceptions
  they raise, and the generic facts on lists, words and characters that several components use.
  The named collections group the facts that carry the component proofs:
  \<open>gw_map\<close> (laws of the ordered maps), \<open>gw_frame\<close> (what an operation leaves unchanged),
  \<open>gw_inv\<close> (preservation of component invariants).
\<close>

named_theorems gw_map \<open>laws of the maps the components keep\<close>
named_theorems gw_frame \<open>fields an operation does not write\<close>
named_theorems gw_inv \<open>preservation of component invariants\<close>

unbundle bit_operations_syntax

section \<open>Machine types\<close>

type_synonym u8 = "8 word"
type_synonym u16 = "16 word"
type_synonym u32 = "32 word"
type_synonym u64 = "64 word"

type_synonym bytes = "u8 list"

section \<open>Exceptions as values\<close>

text \<open>
  \<open>Invalid_Argument\<close> and \<open>Out_Of_Range\<close> are the exceptions of the standard library's
  conversions, \<open>Runtime_Error\<close> the one the sources throw themselves, \<open>Poco_Exception\<close> any
  exception of the Poco library, and \<open>Undefined_Behaviour\<close> marks the inputs on which the C++
  program has none: a read outside an object, a shift by the width of the type or more.
\<close>

datatype cpp_exn =
    Invalid_Argument
  | Out_Of_Range
  | Runtime_Error string
  | Poco_Exception string
  | Undefined_Behaviour string

text \<open>How a REST handler ends a request.\<close>

datatype 'a rest_reply =
    Rest_OK
  | Rest_Object 'a
  | Rest_BadRequest string
  | Rest_NotFound
  | Rest_UnAuthorized string
  | Rest_InternalError string

section \<open>Characters\<close>

definition isdigit :: "char \<Rightarrow> bool" where
  "isdigit c \<longleftrightarrow> CHR ''0'' \<le> c \<and> c \<le> CHR ''9''"

definition isxdigit :: "char \<Rightarrow> bool" where
  "isxdigit c \<longleftrightarrow> isdigit c \<or> (CHR ''a'' \<le> c \<and> c \<le> CHR ''f'') \<or> (CHR ''A'' \<le> c \<and> c \<le> CHR ''F'')"

definition isspace :: "char \<Rightarrow> bool" where
  "isspace c \<longleftrightarrow> (of_char c :: nat) = 32 \<or> (9 \<le> (of_char c :: nat) \<and> (of_char c :: nat) \<le> 13)"

definition char_code :: "char \<Rightarrow> nat" where
  "char_code c = of_char c"

definition hex_value :: "char \<Rightarrow> nat" where
  "hex_value c =
     (if isdigit c then char_code c - 48
      else if CHR ''a'' \<le> c \<and> c \<le> CHR ''f'' then char_code c - 97 + 10
      else if CHR ''A'' \<le> c \<and> c \<le> CHR ''F'' then char_code c - 65 + 10
      else 0)"

definition hex_digit :: "nat \<Rightarrow> char" where
  "hex_digit n = ''0123456789abcdef'' ! n"

lemma all_less_16: "(\<forall>n<16. P n) \<longleftrightarrow> P 0 \<and> P 1 \<and> P 2 \<and> P 3 \<and> P 4 \<and> P 5 \<and> P 6 \<and> P 7 \<and>
    P 8 \<and> P 9 \<and> P 10 \<and> P 11 \<and> P 12 \<and> P 13 \<and> P 14 \<and> P (15::nat)"
  by (simp add: numeral_eq_Suc All_less_Suc conj_ac)

lemma hex_digit_facts:
  "\<forall>n<16. isxdigit (hex_digit n) \<and> hex_value (hex_digit n) = n \<and>
          \<not> isspace (hex_digit n) \<and> hex_digit n \<noteq> CHR ''-'' \<and> hex_digit n \<noteq> CHR ''+'' \<and>
          hex_digit n \<noteq> CHR '':'' \<and> hex_digit n \<noteq> CHR ''x'' \<and> hex_digit n \<noteq> CHR ''X''"
  unfolding all_less_16 by code_simp

lemma isxdigit_hex_digit [simp]: "n < 16 \<Longrightarrow> isxdigit (hex_digit n)"
  and hex_value_hex_digit [simp]: "n < 16 \<Longrightarrow> hex_value (hex_digit n) = n"
  and isspace_hex_digit [simp]: "n < 16 \<Longrightarrow> \<not> isspace (hex_digit n)"
  using hex_digit_facts by blast+

lemma hex_value_less: "hex_value c < 16"
proof -
  have d: "CHR ''9'' = (char_of (57::nat) :: char)" "CHR ''f'' = (char_of (102::nat) :: char)"
    "CHR ''F'' = (char_of (70::nat) :: char)" by code_simp+
  have "c \<le> CHR ''9'' \<Longrightarrow> char_code c \<le> 57" "c \<le> CHR ''f'' \<Longrightarrow> char_code c \<le> 102"
    "c \<le> CHR ''F'' \<Longrightarrow> char_code c \<le> 70"
    by (simp_all add: less_eq_char_def char_code_def)
  then show ?thesis by (auto simp: hex_value_def isdigit_def)
qed

section \<open>Lists\<close>

lemma takeWhile_all: "list_all P xs \<Longrightarrow> takeWhile P xs = xs"
  by (induction xs) auto

lemma dropWhile_all: "list_all P xs \<Longrightarrow> dropWhile P xs = []"
  by (induction xs) auto

lemma takeWhile_append_stop: "list_all P xs \<Longrightarrow> \<not> P y \<Longrightarrow> takeWhile P (xs @ y # ys) = xs"
  by (induction xs) auto

lemma dropWhile_append_stop: "list_all P xs \<Longrightarrow> \<not> P y \<Longrightarrow> dropWhile P (xs @ y # ys) = y # ys"
  by (induction xs) auto

lemma length_dropWhile_less: "dropWhile P xs = y # ys \<Longrightarrow> length ys < length xs"
  using length_dropWhile_le [of P xs] by simp

text \<open>Joining words with a separator, the inverse of every tokenizer in the sources.\<close>

fun join :: "'a \<Rightarrow> 'a list list \<Rightarrow> 'a list" where
  "join sep [] = []"
| "join sep [w] = w"
| "join sep (w # ws) = w @ sep # join sep ws"

lemma join_Cons: "ws \<noteq> [] \<Longrightarrow> join sep (w # ws) = w @ sep # join sep ws"
  by (cases ws) auto

section \<open>Folding digits\<close>

fun base_value :: "nat \<Rightarrow> nat list \<Rightarrow> nat" where
  "base_value b [] = 0"
| "base_value b (d # ds) = d * b ^ length ds + base_value b ds"

lemma foldl_base_value: "foldl (\<lambda>acc d. acc * b + d) a ds = a * b ^ length ds + base_value b ds"
  by (induction ds arbitrary: a) (auto simp: algebra_simps)

lemma base_value_append: "base_value b (xs @ ys) = base_value b xs * b ^ length ys + base_value b ys"
  by (induction xs) (auto simp: algebra_simps power_add)

lemma base_value_less: "\<forall>d\<in>set ds. d < b \<Longrightarrow> base_value b ds < b ^ length ds"
proof (induction ds)
  case (Cons d ds)
  then have "base_value b ds < b ^ length ds" and "d + 1 \<le> b" by auto
  moreover from \<open>d + 1 \<le> b\<close> have "(d + 1) * b ^ length ds \<le> b * b ^ length ds"
    by (rule mult_le_mono1)
  ultimately show ?case by (simp add: algebra_simps)
qed simp

end
