(* ===== verification/GW_Utils.thy ===== *)
theory GW_Utils
  imports GW_Prelude "HOL-Library.Product_Lexorder"
begin

text \<open>
  The text utilities of \<^verbatim>\<open>src/framework/utils.cpp\<close> and \<^verbatim>\<open>utils.h\<close>: serial numbers and MAC
  addresses, tokenising, tokens and times. Functions of Poco and zlib are arguments: \<open>repl\<close> is
  \<^verbatim>\<open>Poco::replaceInPlace\<close>, \<open>lower\<close> is \<^verbatim>\<open>Poco::toLower\<close>, \<open>tok\<close> is
  \<^verbatim>\<open>Poco::StringTokenizer\<close>, \<open>try_ip\<close> is \<^verbatim>\<open>Poco::Net::IPAddress::tryParse\<close>.
\<close>

section \<open>Standard library conversions\<close>

text \<open>A C++ string built from a character buffer ends at the first NUL.\<close>

definition c_str :: "string \<Rightarrow> string" where
  "c_str s = takeWhile (\<lambda>c. char_code c \<noteq> 0) s"

text \<open>
  \<^verbatim>\<open>std::stoull(s, nullptr, 16)\<close>: leading white space, an optional sign, an optional
  \<^verbatim>\<open>0x\<close>, then the longest run of hexadecimal digits; no digit is \<^verbatim>\<open>std::invalid_argument\<close>, a
  value of 64 bits or more is \<^verbatim>\<open>std::out_of_range\<close>, and a minus sign negates modulo \<^verbatim>\<open>2^64\<close>.
\<close>

definition strip_sign :: "string \<Rightarrow> bool \<times> string" where
  "strip_sign s = (case s of
      c # cs \<Rightarrow> if c = CHR ''-'' then (True, cs) else if c = CHR ''+'' then (False, cs) else (False, s)
    | [] \<Rightarrow> (False, []))"

definition strip_0x :: "string \<Rightarrow> string" where
  "strip_0x s = (case s of
      a # b # c # cs \<Rightarrow>
        if a = CHR ''0'' \<and> (b = CHR ''x'' \<or> b = CHR ''X'') \<and> isxdigit c then c # cs else s
    | _ \<Rightarrow> s)"

definition stoull16 :: "string \<Rightarrow> cpp_exn + u64" where
  "stoull16 s =
     (let (neg, body) = strip_sign (dropWhile isspace s);
          ds = takeWhile isxdigit (strip_0x body);
          v = base_value 16 (map hex_value ds)
      in if ds = [] then Inl Invalid_Argument
         else if 2 ^ 64 \<le> v then Inl Out_Of_Range
         else Inr (if neg then - of_nat v else of_nat v))"

text \<open>\<^verbatim>\<open>std::atoi\<close>: zero when there is no number, undefined when it does not fit an \<^verbatim>\<open>int\<close>.\<close>

definition atoi :: "string \<Rightarrow> cpp_exn + int" where
  "atoi s =
     (let (neg, body) = strip_sign (dropWhile isspace (c_str s));
          v = int (base_value 10 (map (\<lambda>c. char_code c - 48) (takeWhile isdigit body)));
          r = (if neg then - v else v)
      in if - (2 ^ 31) \<le> r \<and> r < 2 ^ 31 then Inr r
         else Inl (Undefined_Behaviour ''atoi overflow''))"

section \<open>MAC addresses and serial numbers\<close>

definition NormalizeMac ::
    "(string \<Rightarrow> string \<Rightarrow> string \<Rightarrow> string) \<Rightarrow> (string \<Rightarrow> string) \<Rightarrow> string \<Rightarrow> bool \<times> string" where
  "NormalizeMac repl lower mac =
     (let m = repl (repl mac '':'' []) ''-'' [] in
      if length m \<noteq> 12 then (False, m)
      else if \<not> list_all isxdigit m then (False, m)
      else (True, lower m))"

definition SERIAL_NUMBER_LENGTH :: nat where
  "SERIAL_NUMBER_LENGTH = 30"

definition ValidSerialNumber :: "string \<Rightarrow> bool" where
  "ValidSerialNumber serial \<longleftrightarrow> length serial < SERIAL_NUMBER_LENGTH \<and> list_all isxdigit serial"

definition ValidSerialNumbers :: "string list \<Rightarrow> bool" where
  "ValidSerialNumbers numbers \<longleftrightarrow> list_all ValidSerialNumber numbers"

definition ValidUUID :: "string \<Rightarrow> bool" where
  "ValidUUID uuid \<longleftrightarrow>
     (if length uuid > 36 then False
      else list_all (\<lambda>i. i = CHR ''-'' \<or> isxdigit i) uuid \<and>
           length (filter (\<lambda>i. i = CHR ''-'') uuid) > 0)"

function Split :: "string \<Rightarrow> char \<Rightarrow> string list" where
  "Split xs d =
     (if xs = [] then []
      else case dropWhile (\<lambda>c. c \<noteq> d) xs of
             [] \<Rightarrow> [xs]
           | _ # rest \<Rightarrow> takeWhile (\<lambda>c. c \<noteq> d) xs # Split rest d)"
  by pat_completeness auto
termination
  by (relation "measure (\<lambda>(xs, d). length xs)") (auto dest: length_dropWhile_less)

declare Split.simps [simp del]

fun find_first :: "char \<Rightarrow> string \<Rightarrow> nat option" where
  "find_first c [] = None"
| "find_first c (x # xs) = (if x = c then Some 0 else map_option Suc (find_first c xs))"

text \<open>
  With no closing bracket \<^verbatim>\<open>find_first_of\<close> gives \<^verbatim>\<open>npos\<close>, whose successor is zero: the
  whole input is appended as the port.
\<close>

definition FormatIPv6 :: "string \<Rightarrow> string" where
  "FormatIPv6 s =
     (if take 8 s = ''[::ffff:'' then
        (case find_first (CHR '']'') s of
           Some p \<Rightarrow> take (p - 8) (drop 8 s) @ drop (p + 1) s
         | None \<Rightarrow> drop 8 s @ s)
      else s)"

definition padTo :: "string \<Rightarrow> nat \<Rightarrow> char \<Rightarrow> string" where
  "padTo s num c = s @ replicate (num - length s mod num) c"

definition SerialToMAC :: "string \<Rightarrow> string" where
  "SerialToMAC serial =
     (let r = (if length serial < 12 then padTo serial 12 (CHR ''0'')
               else if length serial > 12 then take 12 serial else serial)
      in c_str [r!0, r!1, CHR '':'', r!2, r!3, CHR '':'', r!4, r!5, CHR '':'',
                r!6, r!7, CHR '':'', r!8, r!9, CHR '':'', r!10, r!11])"

fun MACToInt_loop :: "u64 \<Rightarrow> string \<Rightarrow> u64" where
  "MACToInt_loop r [] = r"
| "MACToInt_loop r (c # cs) =
     (if c = CHR '':'' then MACToInt_loop r cs
      else MACToInt_loop (push_bit 4 r + of_nat (hex_value c)) cs)"

definition MACToInt :: "string \<Rightarrow> u64" where
  "MACToInt mac = MACToInt_loop 0 mac"

definition ToHex :: "bytes \<Rightarrow> string" where
  "ToHex bs = concat (map (\<lambda>i. [hex_digit (unat (drop_bit 4 (i AND 0xf0))),
                               hex_digit (unat (i AND 0x0f))]) bs)"

definition SerialNumberToInt :: "string \<Rightarrow> cpp_exn + u64" where
  "SerialNumberToInt s = stoull16 s"

fun nibbles :: "nat \<Rightarrow> u64 \<Rightarrow> string \<Rightarrow> string" where
  "nibbles 0 s acc = acc"
| "nibbles (Suc n) s acc = nibbles n (drop_bit 4 s) (hex_digit (unat (s AND 0x0f)) # acc)"

definition IntToSerialNumber :: "u64 \<Rightarrow> string" where
  "IntToSerialNumber s = nibbles 12 s []"

definition SerialNumberMatch :: "string \<Rightarrow> string \<Rightarrow> int \<Rightarrow> cpp_exn + bool" where
  "SerialNumberMatch s1 s2 bits =
     (case SerialNumberToInt s1 of Inl e \<Rightarrow> Inl e
      | Inr i1 \<Rightarrow> (case SerialNumberToInt s2 of Inl e \<Rightarrow> Inl e
        | Inr i2 \<Rightarrow> if bits < 0 \<or> 64 \<le> bits then Inl (Undefined_Behaviour ''shift count'')
                    else Inr (drop_bit (nat bits) i1 = drop_bit (nat bits) i2)))"

fun OUI_loop :: "u64 \<Rightarrow> nat \<Rightarrow> string \<Rightarrow> u64" where
  "OUI_loop r digits [] = r"
| "OUI_loop r digits (i # is) =
     (if isxdigit i then
        (let r' = push_bit 4 r + of_nat (hex_value i)
         in if Suc digits = 6 then r' else OUI_loop r' (Suc digits) is)
      else OUI_loop r digits is)"

definition SerialNumberToOUI :: "string \<Rightarrow> u64" where
  "SerialNumberToOUI s = OUI_loop 0 0 s"

definition IPtoInt :: "(string \<Rightarrow> bytes option) \<Rightarrow> string \<Rightarrow> u32" where
  "IPtoInt try_ip a =
     (case try_ip a of None \<Rightarrow> 0
      | Some bs \<Rightarrow> foldl (\<lambda>r i. push_bit 8 r + ucast i) 0 bs)"

definition IsAlphaNumeric :: "string \<Rightarrow> bool" where
  "IsAlphaNumeric s \<longleftrightarrow> list_all (\<lambda>c. isdigit c \<or> (CHR ''a'' \<le> c \<and> c \<le> CHR ''z'') \<or>
                                       (CHR ''A'' \<le> c \<and> c \<le> CHR ''Z'')) s"

definition SanitizeToken :: "string \<Rightarrow> string" where
  "SanitizeToken token =
     (if length token > 8 then take 4 token @ ''****'' @ take 4 (drop (length token - 4) token)
      else ''*******'')"

definition ReplaceVariables ::
    "(string \<Rightarrow> string \<Rightarrow> string \<Rightarrow> string) \<Rightarrow> string \<Rightarrow> (string \<times> string) list \<Rightarrow> string" where
  "ReplaceVariables repl content p =
     foldl (\<lambda>c (variable, value). repl c (''${'' @ variable @ ''}'') value) content p"

section \<open>Times and dates\<close>

fun ParseTime :: "(string \<Rightarrow> char \<Rightarrow> string list) \<Rightarrow> string \<Rightarrow> cpp_exn + (int \<times> int \<times> int) option" where
  "ParseTime tok t =
     (case tok t (CHR '':'') of
        [h] \<Rightarrow> (case atoi h of Inl e \<Rightarrow> Inl e | Inr hh \<Rightarrow> Inr (Some (hh, 0, 0)))
      | [h, m] \<Rightarrow> (case (atoi h, atoi m) of (Inr hh, Inr mm) \<Rightarrow> Inr (Some (hh, mm, 0))
                  | (Inl e, _) \<Rightarrow> Inl e | (_, Inl e) \<Rightarrow> Inl e)
      | [h, m, s] \<Rightarrow> (case (atoi h, atoi m, atoi s) of
                    (Inr hh, Inr mm, Inr ss) \<Rightarrow> Inr (Some (hh, mm, ss))
                  | (Inl e, _, _) \<Rightarrow> Inl e | (_, Inl e, _) \<Rightarrow> Inl e | (_, _, Inl e) \<Rightarrow> Inl e)
      | _ \<Rightarrow> Inr None)"

fun ParseDate :: "(string \<Rightarrow> char \<Rightarrow> string list) \<Rightarrow> string \<Rightarrow> cpp_exn + (int \<times> int \<times> int) option" where
  "ParseDate tok t =
     (case tok t (CHR ''-'') of
        [y, m, d] \<Rightarrow> (case (atoi y, atoi m, atoi d) of
                    (Inr yy, Inr mm, Inr dd) \<Rightarrow> Inr (Some (yy, mm, dd))
                  | (Inl e, _, _) \<Rightarrow> Inl e | (_, Inl e, _) \<Rightarrow> Inl e | (_, _, Inl e) \<Rightarrow> Inl e)
      | _ \<Rightarrow> Inr None)"

definition CompareTime :: "int \<Rightarrow> int \<Rightarrow> int \<Rightarrow> int \<Rightarrow> int \<Rightarrow> int \<Rightarrow> bool" where
  "CompareTime h1 h2 m1 m2 s1 s2 =
     (if h1 < h2 then True
      else if h1 > h2 then False
      else if m1 < m2 then True
      else if m2 > m1 then False
      else if s1 \<le> s2 then True
      else False)"

section \<open>Serial numbers round-trip\<close>

lemma unat_low_nibble: "unat (s AND (0x0f::u64)) = unat s mod 16"
proof -
  have "s AND 0x0f = take_bit 4 s" by (simp add: take_bit_eq_mask mask_eq_exp_minus_1)
  then show ?thesis by (simp add: take_bit_eq_mod unat_mod_distrib)
qed

lemma unat_drop_nibble: "unat (drop_bit 4 (s::u64)) = unat s div 16"
  by (simp add: drop_bit_eq_div unat_div_distrib)

lemma nibbles_spec:
  "\<exists>ds. nibbles k s acc = map hex_digit ds @ acc \<and> length ds = k \<and> (\<forall>d\<in>set ds. d < 16) \<and>
        base_value 16 ds = unat s mod 16 ^ k"
proof (induction k arbitrary: s acc)
  case (Suc k)
  let ?d = "unat s mod 16"
  from Suc.IH [of "drop_bit 4 s" "hex_digit ?d # acc"] obtain ds where
    ds: "nibbles k (drop_bit 4 s) (hex_digit ?d # acc) = map hex_digit ds @ hex_digit ?d # acc"
      "length ds = k" "\<forall>d\<in>set ds. d < 16" "base_value 16 ds = unat (drop_bit 4 s) mod 16 ^ k"
    by blast
  have "base_value 16 (ds @ [?d]) = unat s mod 16 ^ Suc k"
    using ds(4) by (simp add: base_value_append unat_drop_nibble mod_mult2_eq)
  with ds show ?case
    by (intro exI [of _ "ds @ [?d]"]) (auto simp: unat_low_nibble)
qed simp

lemma nibbles_of_base_value:
  assumes "\<forall>d\<in>set ds. d < 16" and "length ds \<le> 16"
  shows "nibbles (length ds) (of_nat (base_value 16 ds)) acc = map hex_digit ds @ acc"
  using assms
proof (induction ds arbitrary: acc rule: rev_induct)
  case (snoc d ds)
  have "base_value 16 (ds @ [d]) < 16 ^ length (ds @ [d])"
    by (rule base_value_less) (use snoc.prems in auto)
  also have "\<dots> \<le> 16 ^ 16" using snoc.prems by (intro power_increasing) auto
  finally have b: "base_value 16 (ds @ [d]) < 2 ^ 64" by simp
  let ?w = "of_nat (base_value 16 (ds @ [d])) :: u64"
  have "unat ?w = base_value 16 (ds @ [d])" using b by (simp add: unat_of_nat del: base_value.simps of_nat_add)
  then have u: "unat ?w = base_value 16 ds * 16 + d" by (simp add: base_value_append)
  have d: "d < 16" using snoc.prems by simp
  have "unat (drop_bit 4 ?w) = base_value 16 ds" using u d by (simp add: unat_drop_nibble)
  moreover have "base_value 16 ds < 2 ^ 64" using b by (simp add: base_value_append)
  ultimately have "drop_bit 4 ?w = of_nat (base_value 16 ds)"
    by (simp add: word_unat_eq_iff unat_of_nat)
  moreover have "unat (?w AND 0x0f) = d" using u d by (simp add: unat_low_nibble)
  ultimately show ?case using snoc by simp
qed simp

lemma stoull16_hex:
  assumes "ds \<noteq> []" and "\<forall>d\<in>set ds. d < 16" and "length ds \<le> 16"
  shows "stoull16 (map hex_digit ds) = Inr (of_nat (base_value 16 ds))"
proof -
  let ?s = "map hex_digit ds"
  have hx: "list_all isxdigit ?s" using assms(2) by (simp add: list_all_iff)
  have ns: "dropWhile isspace ?s = ?s" using assms(1,2) by (cases ds) auto
  have sg: "strip_sign ?s = (False, ?s)"
    using assms(1,2) hex_digit_facts by (cases ds) (auto simp: strip_sign_def)
  have x: "strip_0x ?s = ?s"
    using assms(2) hex_digit_facts by (auto simp: strip_0x_def split: list.splits)
  have m: "map hex_value ?s = ds" using assms(2) by (simp add: map_idI)
  have "base_value 16 ds < 16 ^ length ds" using assms(2) by (rule base_value_less)
  also have "\<dots> \<le> 16 ^ 16" using assms(3) by (intro power_increasing) auto
  finally have "base_value 16 ds < 2 ^ 64" by simp
  with assms(1) m show ?thesis
    by (simp add: stoull16_def Let_def ns sg x takeWhile_all [OF hx])
qed

text \<open>
  Printing a serial number as twelve hexadecimal digits and parsing it back with
  \<^verbatim>\<open>std::stoull\<close> gives the low 48 bits of the number: nothing is lost for a MAC address.
\<close>

theorem serial_number_roundtrip: "SerialNumberToInt (IntToSerialNumber n) = Inr (take_bit 48 n)"
proof -
  obtain ds where ds: "IntToSerialNumber n = map hex_digit ds" "length ds = 12"
      "\<forall>d\<in>set ds. d < 16" "base_value 16 ds = unat n mod 16 ^ 12"
    using nibbles_spec [of 12 n "[]"] by (auto simp: IntToSerialNumber_def)
  have "of_nat (unat n mod 16 ^ 12) = (take_bit 48 n :: u64)"
    by (simp add: word_unat_eq_iff unat_of_nat take_bit_eq_mod unat_mod_distrib)
  with ds show ?thesis
    by (simp add: SerialNumberToInt_def stoull16_hex [of ds] flip: length_greater_0_conv)
qed


text \<open>
  Conversely, a text of twelve lower-case hexadecimal digits parses without an
  exception, and printing the number gives the same text.
\<close>

theorem serial_text_roundtrip:
  assumes "length s = 12" and "list_all (\<lambda>c. c \<in> set ''0123456789abcdef'') s"
  shows "\<exists>v. SerialNumberToInt s = Inr v \<and> IntToSerialNumber v = s"
proof -
  have "\<forall>c\<in>set s. \<exists>d<16. c = hex_digit d"
  proof
    fix c assume "c \<in> set s"
    with assms(2) have "c \<in> set ''0123456789abcdef''" by (auto simp: list_all_iff)
    then obtain i where "i < length ''0123456789abcdef''" "c = ''0123456789abcdef'' ! i"
      by (metis in_set_conv_nth)
    then show "\<exists>d<16. c = hex_digit d"
      unfolding hex_digit_def by (intro exI [of _ i]) simp
  qed
  then obtain f where f: "\<forall>c\<in>set s. f c < 16 \<and> c = hex_digit (f c)" by metis
  define ds where "ds = map f s"
  have ds: "s = map hex_digit ds" "\<forall>d\<in>set ds. d < 16" "length ds = 12"
    using f assms(1) by (auto simp: ds_def map_idI)
  have "SerialNumberToInt s = Inr (of_nat (base_value 16 ds))"
    using ds by (simp add: SerialNumberToInt_def stoull16_hex flip: length_greater_0_conv)
  moreover have "IntToSerialNumber (of_nat (base_value 16 ds)) = s"
    using nibbles_of_base_value [of ds "[]"] ds by (simp add: IntToSerialNumber_def)
  ultimately show ?thesis by blast
qed

theorem serial_text_roundtrip_witness:
  "length ''24f5a207a130'' = 12 \<and> list_all (\<lambda>c. c \<in> set ''0123456789abcdef'') ''24f5a207a130'' \<and>
   (\<exists>v. SerialNumberToInt ''24f5a207a130'' = Inr v \<and> IntToSerialNumber v = ''24f5a207a130'')"
  using serial_text_roundtrip [of "''24f5a207a130''"] by simp

lemma IntToSerialNumber_wf:
  "length (IntToSerialNumber n) = 12 \<and> ValidSerialNumber (IntToSerialNumber n)"
proof -
  obtain ds where "IntToSerialNumber n = map hex_digit ds" "length ds = 12" "\<forall>d\<in>set ds. d < 16"
    using nibbles_spec [of 12 n "[]"] by (auto simp: IntToSerialNumber_def)
  then show ?thesis by (simp add: ValidSerialNumber_def SERIAL_NUMBER_LENGTH_def list_all_iff)
qed

section \<open>Tokenising and times\<close>

lemma Split_Nil [simp]: "Split [] d = []"
  by (simp add: Split.simps)

lemma Split_no_delimiter:
  assumes "d \<notin> set w" and "w \<noteq> []"
  shows "Split w d = [w]"
proof -
  have dw: "dropWhile (\<lambda>c. c \<noteq> d) w = []" using assms(1) by auto
  show ?thesis using assms(2) by (subst Split.simps) (simp only: dw list.case if_False)
qed

lemma Split_step:
  assumes "d \<notin> set w"
  shows "Split (w @ d # rest) d = w # Split rest d"
proof -
  have "list_all (\<lambda>c. c \<noteq> d) w" using assms by (auto simp: list_all_iff)
  then have "dropWhile (\<lambda>c. c \<noteq> d) (w @ d # rest) = d # rest"
    and "takeWhile (\<lambda>c. c \<noteq> d) (w @ d # rest) = w"
    by (simp_all add: dropWhile_append_stop takeWhile_append_stop)
  then show ?thesis by (subst Split.simps) simp
qed

text \<open>
  Splitting the text made by joining delimiter-free words gives the words back, when
  the last word is not empty (an empty last word is dropped by the loop).
\<close>

theorem Split_join:
  assumes "ws \<noteq> []" and "\<forall>w\<in>set ws. d \<notin> set w" and "last ws \<noteq> []"
  shows "Split (join d ws) d = ws"
  using assms
proof (induction ws rule: join.induct)
  case (3 sep w w' ws)
  then show ?case by (simp add: Split_step)
qed (simp_all add: Split_no_delimiter)

theorem Split_join_witness:
  "Split (join (CHR '':'') [''ab'', [], ''c'']) (CHR '':'') = [''ab'', [], ''c'']"
  using Split_join [of "[''ab'', [], ''c'']" "CHR '':''"] by simp

text \<open>
  The time comparison answers true exactly when the first time is not after the
  second in lexicographic order, or, through its third test, when the hours agree, the first
  minute is the later one and the seconds are in order.
\<close>

theorem CompareTime_exact:
  "CompareTime h1 h2 m1 m2 s1 s2 \<longleftrightarrow>
     (h1, m1, s1) \<le> (h2, m2, s2) \<or> (h1 = h2 \<and> m1 > m2 \<and> s1 \<le> s2)"
  by (auto simp: CompareTime_def)


end
