(* ===== verification/GW_StdMap.thy ===== *)
theory GW_StdMap
  imports GW_Utils
begin

text \<open>
  The associative containers of the sources. A \<^verbatim>\<open>std::map\<close> is an association list in key order,
  which is the order its iterators follow; the session registries keep arrays of such maps and
  choose the element by a hash of the key. The locale \<open>std_map\<close> is the contract both kinds of
  container meet; the components use its facts through the interpretations at the end.
\<close>

section \<open>Ordered association lists\<close>

type_synonym ('k, 'v) omap = "('k \<times> 'v) list"

definition om_find :: "('k, 'v) omap \<Rightarrow> 'k \<Rightarrow> 'v option" where
  "om_find m k = map_of m k"

fun om_set :: "'k::linorder \<Rightarrow> 'v \<Rightarrow> ('k, 'v) omap \<Rightarrow> ('k, 'v) omap" where
  "om_set k v [] = [(k, v)]"
| "om_set k v ((k', v') # m) =
     (if k < k' then (k, v) # (k', v') # m
      else if k = k' then (k, v) # m
      else (k', v') # om_set k v m)"

definition om_erase :: "'k \<Rightarrow> ('k, 'v) omap \<Rightarrow> ('k, 'v) omap" where
  "om_erase k m = filter (\<lambda>p. fst p \<noteq> k) m"

definition om_wf :: "('k::linorder, 'v) omap \<Rightarrow> bool" where
  "om_wf m \<longleftrightarrow> sorted_wrt (<) (map fst m)"

lemma om_wf_Nil [simp, gw_inv]: "om_wf []"
  by (simp add: om_wf_def)

lemma om_find_Nil [simp]: "om_find [] k = None"
  by (simp add: om_find_def)

lemma om_keys_set: "fst ` set (om_set k v m) = insert k (fst ` set m)"
  by (induction k v m rule: om_set.induct) auto

lemma om_in_set: "(a, b) \<in> set (om_set k v m) \<Longrightarrow> a = k \<or> (\<exists>c. (a, c) \<in> set m)"
  using om_keys_set [of k v m] by force

lemma om_in_erase: "(a, b) \<in> set (om_erase k m) \<Longrightarrow> (a, b) \<in> set m"
  by (simp add: om_erase_def)

lemma om_wf_set: "om_wf m \<Longrightarrow> om_wf (om_set k v m)"
proof (induction k v m rule: om_set.induct)
  case (2 k v k' v' m)
  then have rest: "sorted_wrt (<) (map fst m)" "\<forall>x\<in>fst ` set m. k' < x"
    by (auto simp: om_wf_def)
  consider "k < k'" | "k = k'" | "k' < k" by (rule linorder_cases)
  then show ?case
  proof cases
    case 1
    with rest show ?thesis by (auto simp: om_wf_def)
  next
    case 2
    with rest show ?thesis by (simp add: om_wf_def)
  next
    case 3
    then have "om_wf (om_set k v m)" using 2 rest by (simp add: om_wf_def)
    moreover have "\<forall>x\<in>fst ` set (om_set k v m). k' < x" using 3 rest by (simp add: om_keys_set)
    ultimately show ?thesis using 3 by (auto simp: om_wf_def)
  qed
qed (simp add: om_wf_def)

lemma om_find_set: "om_wf m \<Longrightarrow> om_find (om_set k v m) k' = (if k' = k then Some v else om_find m k')"
  by (induction k v m rule: om_set.induct) (auto simp: om_find_def om_wf_def)

lemma om_find_set_any: "om_find (om_set k v m) k' = (if k' = k then Some v else om_find m k')"
  by (induction k v m rule: om_set.induct) (auto simp: om_find_def)

lemma om_wf_filter: "om_wf m \<Longrightarrow> om_wf (filter P m)"
  by (induction m) (auto simp: om_wf_def)

lemma om_wf_erase: "om_wf m \<Longrightarrow> om_wf (om_erase k m)"
  by (simp add: om_erase_def om_wf_filter)

lemma om_find_erase: "om_find (om_erase k m) k' = (if k' = k then None else om_find m k')"
  by (induction m) (auto simp: om_find_def om_erase_def)

lemma om_wf_distinct: "om_wf m \<Longrightarrow> distinct (map fst m)"
  by (simp add: om_wf_def strict_sorted_iff)

lemma om_find_in_set: "om_find m k = Some v \<Longrightarrow> (k, v) \<in> set m"
  by (simp add: om_find_def map_of_SomeD)

lemma om_find_iff: "om_wf m \<Longrightarrow> om_find m k = Some v \<longleftrightarrow> (k, v) \<in> set m"
  by (simp add: om_find_def om_wf_distinct)

lemma om_find_filter:
  "om_wf m \<Longrightarrow> om_find (filter P m) k =
     (case om_find m k of Some v \<Rightarrow> if P (k, v) then Some v else None | None \<Rightarrow> None)"
proof (induction m)
  case (Cons p m)
  then have "om_wf m" "fst p \<notin> set (map fst m)" by (auto simp: om_wf_def)
  moreover have "om_find m (fst p) = None"
    using calculation(2) by (simp add: om_find_def map_of_eq_None_iff)
  ultimately show ?case using Cons.IH by (cases p) (auto simp: om_find_def split: option.splits)
qed simp

section \<open>The contract\<close>

locale std_map =
  fixes lookup :: "'m \<Rightarrow> 'k \<Rightarrow> 'v option"
    and store :: "'k \<Rightarrow> 'v \<Rightarrow> 'm \<Rightarrow> 'm"
    and drop_key :: "'k \<Rightarrow> 'm \<Rightarrow> 'm"
    and wf :: "'m \<Rightarrow> bool"
  assumes lookup_store: "wf m \<Longrightarrow> lookup (store k v m) k' = (if k' = k then Some v else lookup m k')"
    and lookup_drop: "wf m \<Longrightarrow> lookup (drop_key k m) k' = (if k' = k then None else lookup m k')"
    and wf_store: "wf m \<Longrightarrow> wf (store k v m)"
    and wf_drop: "wf m \<Longrightarrow> wf (drop_key k m)"
begin

lemma lookup_same: "wf m \<Longrightarrow> lookup (store k v m) k = Some v"
  by (simp add: lookup_store)

lemma lookup_other: "wf m \<Longrightarrow> k' \<noteq> k \<Longrightarrow> lookup (store k v m) k' = lookup m k'"
  by (simp add: lookup_store)

lemma lookup_dropped: "wf m \<Longrightarrow> lookup (drop_key k m) k = None"
  by (simp add: lookup_drop)

lemma lookup_drop_other: "wf m \<Longrightarrow> k' \<noteq> k \<Longrightarrow> lookup (drop_key k m) k' = lookup m k'"
  by (simp add: lookup_drop)

text \<open>A loading loop: entries are stored one after the other, so the last one for a key stays.\<close>

lemma wf_store_all: "wf m \<Longrightarrow> wf (foldl (\<lambda>m (k, v). store k v m) m kvs)"
  by (induction kvs arbitrary: m) (auto simp: wf_store)

lemma lookup_store_all:
  "wf m \<Longrightarrow> lookup (foldl (\<lambda>m (k, v). store k v m) m kvs) k =
     (case map_of (rev kvs) k of Some v \<Rightarrow> Some v | None \<Rightarrow> lookup m k)"
proof (induction kvs rule: rev_induct)
  case (snoc p kvs)
  obtain a b where "p = (a, b)" by force
  with snoc show ?case by (simp add: lookup_store wf_store_all)
qed simp

end

section \<open>Sharded maps\<close>

text \<open>An array of maps, indexed by a hash of the key; a function stands for the array.\<close>

type_synonym ('k, 'v) shards = "nat \<Rightarrow> ('k, 'v) omap"

definition sh_find :: "('k \<Rightarrow> nat) \<Rightarrow> ('k, 'v) shards \<Rightarrow> 'k \<Rightarrow> 'v option" where
  "sh_find h a k = om_find (a (h k)) k"

definition sh_set :: "('k \<Rightarrow> nat) \<Rightarrow> 'k::linorder \<Rightarrow> 'v \<Rightarrow> ('k, 'v) shards \<Rightarrow> ('k, 'v) shards" where
  "sh_set h k v a = a(h k := om_set k v (a (h k)))"

definition sh_erase :: "('k \<Rightarrow> nat) \<Rightarrow> 'k \<Rightarrow> ('k, 'v) shards \<Rightarrow> ('k, 'v) shards" where
  "sh_erase h k a = a(h k := om_erase k (a (h k)))"

definition sh_wf :: "('k \<Rightarrow> nat) \<Rightarrow> ('k::linorder, 'v) shards \<Rightarrow> bool" where
  "sh_wf h a \<longleftrightarrow> (\<forall>i. om_wf (a i) \<and> (\<forall>k\<in>fst ` set (a i). h k = i))"

section \<open>The implementations meet the contract\<close>

interpretation om: std_map om_find om_set om_erase om_wf
  by unfold_locales (simp_all add: om_find_set om_find_erase om_wf_set om_wf_erase)

interpretation sh: std_map "sh_find h" "sh_set h" "sh_erase h" "sh_wf h" for h
proof unfold_locales
  fix m :: "('a, 'b) shards" and k k' v
  assume wf: "sh_wf h m"
  then have o: "om_wf (m i)" and key: "(x, y) \<in> set (m i) \<Longrightarrow> h x = i" for i x y
    by (force simp: sh_wf_def)+
  show "sh_find h (sh_set h k v m) k' = (if k' = k then Some v else sh_find h m k')"
    using o by (auto simp: sh_find_def sh_set_def om_find_set)
  show "sh_find h (sh_erase h k m) k' = (if k' = k then None else sh_find h m k')"
    by (auto simp: sh_find_def sh_erase_def om_find_erase)
  show "sh_wf h (sh_set h k v m)"
    using o key by (auto simp: sh_wf_def sh_set_def om_wf_set dest: om_in_set)
  show "sh_wf h (sh_erase h k m)"
    using o key by (auto simp: sh_wf_def sh_erase_def om_wf_erase dest: om_in_erase)
qed

lemmas om_laws [gw_map] = om.lookup_store om.lookup_drop om.wf_store om.wf_drop
lemmas sh_laws [gw_map] = sh.lookup_store sh.lookup_drop sh.wf_store sh.wf_drop

lemma sh_wf_empty [simp, gw_inv]: "sh_wf h (\<lambda>_. [])"
  by (simp add: sh_wf_def)

lemma sh_find_empty [simp]: "sh_find h (\<lambda>_. []) k = None"
  by (simp add: sh_find_def)

end
