(* ===== verification/GW_Json.thy ===== *)
theory GW_Json
  imports GW_StdMap
begin

text \<open>
  JSON values as the sources use them through \<^verbatim>\<open>Poco::JSON\<close>, and the two components that are
  functions of such values: the configuration and capability texts of \<^verbatim>\<open>src/CentralConfig.cpp\<close>
  and the association counters of \<^verbatim>\<open>src/StateUtils.cpp\<close>. A \<^verbatim>\<open>Poco::JSON::Object\<close> keeps its
  members in a \<^verbatim>\<open>std::map\<close>. Parsing, printing and the conversions of \<^verbatim>\<open>Poco::Dynamic::Var\<close> are
  the fields of the record \<open>poco\<close>, the library the sources are linked with.
\<close>

section \<open>Values\<close>

datatype json =
    JNull
  | JBool bool
  | JInt int
  | JReal string
  | JStr string
  | JArr "json list"
  | JObj "(string, json) omap"

type_synonym jobject = "(string, json) omap"

record poco =
  p_parse :: "string \<Rightarrow> cpp_exn + json"
  p_stringify :: "jobject \<Rightarrow> string"
  p_u64 :: "json \<Rightarrow> cpp_exn + u64"
  p_string :: "json \<Rightarrow> cpp_exn + string"
  p_toLower :: "string \<Rightarrow> string"

definition try_bind :: "'e + 'a \<Rightarrow> ('a \<Rightarrow> 'e + 'b) \<Rightarrow> 'e + 'b" where
  "try_bind r f = (case r of Inl e \<Rightarrow> Inl e | Inr x \<Rightarrow> f x)"

lemma try_bind_simps [simp]: "try_bind (Inl e) f = Inl e" "try_bind (Inr x) f = f x"
  by (simp_all add: try_bind_def)

definition j_has :: "jobject \<Rightarrow> string \<Rightarrow> bool" where
  "j_has obj k \<longleftrightarrow> om_find obj k \<noteq> None"

text \<open>\<^verbatim>\<open>Object::get\<close> of a member that is not there is an empty value.\<close>

definition j_get :: "jobject \<Rightarrow> string \<Rightarrow> json" where
  "j_get obj k = (case om_find obj k of Some v \<Rightarrow> v | None \<Rightarrow> JNull)"

definition j_isArray :: "jobject \<Rightarrow> string \<Rightarrow> bool" where
  "j_isArray obj k \<longleftrightarrow> (case om_find obj k of Some (JArr _) \<Rightarrow> True | _ \<Rightarrow> False)"

definition j_isObject :: "jobject \<Rightarrow> string \<Rightarrow> bool" where
  "j_isObject obj k \<longleftrightarrow> (case om_find obj k of Some (JObj _) \<Rightarrow> True | _ \<Rightarrow> False)"

definition j_isNull :: "jobject \<Rightarrow> string \<Rightarrow> bool" where
  "j_isNull obj k \<longleftrightarrow> (case om_find obj k of None \<Rightarrow> True | Some JNull \<Rightarrow> True | _ \<Rightarrow> False)"

definition j_getArray :: "jobject \<Rightarrow> string \<Rightarrow> json list" where
  "j_getArray obj k = (case om_find obj k of Some (JArr xs) \<Rightarrow> xs | _ \<Rightarrow> [])"

definition j_getObject :: "jobject \<Rightarrow> string \<Rightarrow> jobject" where
  "j_getObject obj k = (case om_find obj k of Some (JObj o') \<Rightarrow> o' | _ \<Rightarrow> [])"

text \<open>\<^verbatim>\<open>Var::extract<Object::Ptr>\<close>: any other value is a bad cast.\<close>

definition extract_object :: "json \<Rightarrow> cpp_exn + jobject" where
  "extract_object j = (case j of JObj obj \<Rightarrow> Inr obj | _ \<Rightarrow> Inl (Poco_Exception ''BadCastException''))"

definition parse_object :: "poco \<Rightarrow> string \<Rightarrow> cpp_exn + jobject" where
  "parse_object p s = try_bind (p_parse p s) extract_object"

section \<open>Configurations and capabilities\<close>

text \<open>
  A \<^verbatim>\<open>Config\<close> object is its text. \<^verbatim>\<open>SetUUID\<close> answers whether it could store the identifier; an
  exception of another kind than Poco's leaves it.
\<close>

definition poco_exn :: "cpp_exn \<Rightarrow> bool" where
  "poco_exn e \<longleftrightarrow> (case e of Poco_Exception _ \<Rightarrow> True | _ \<Rightarrow> False)"

definition Config_SetUUID :: "poco \<Rightarrow> string \<Rightarrow> u64 \<Rightarrow> cpp_exn + bool \<times> string" where
  "Config_SetUUID p config uuid =
     (case parse_object p config of
        Inr obj \<Rightarrow> Inr (True, p_stringify p (om_set ''uuid'' (JInt (uint uuid)) obj))
      | Inl e \<Rightarrow> if poco_exn e then Inr (False, config) else Inl e)"

definition Config_UUID :: "poco \<Rightarrow> string \<Rightarrow> u64" where
  "Config_UUID p config =
     (case parse_object p config of
        Inr obj \<Rightarrow> if j_has obj ''uuid''
                  then (case p_u64 p (j_get obj ''uuid'') of Inr u \<Rightarrow> u | Inl _ \<Rightarrow> 0) else 0
      | Inl _ \<Rightarrow> 0)"

definition Config_Valid :: "poco \<Rightarrow> string \<Rightarrow> bool" where
  "Config_Valid p config =
     (case parse_object p config of Inr obj \<Rightarrow> j_has obj ''uuid'' | Inl _ \<Rightarrow> False)"

definition Config_to_json :: "poco \<Rightarrow> string \<Rightarrow> cpp_exn + jobject" where
  "Config_to_json p config = parse_object p config"

text \<open>
  The default configuration is read once from \<^verbatim>\<open>default_config.json\<close>; a missing file is created
  from the built-in text. The argument is what reading the file gives: \<open>None\<close> when there is none,
  \<open>Some (Inl e)\<close> when it fails; the result is the static text and the file.
\<close>

definition Config_Init ::
    "string \<Rightarrow> string \<Rightarrow> (cpp_exn + string) option \<Rightarrow> string \<times> (cpp_exn + string) option" where
  "Config_Init BasicConfig DefaultConfiguration file =
     (if DefaultConfiguration = [] then
        (case file of
           None \<Rightarrow> (BasicConfig, Some (Inr BasicConfig))
         | Some (Inr text) \<Rightarrow> (text, file)
         | Some (Inl _) \<Rightarrow> (BasicConfig, Some (Inr BasicConfig)))
      else (DefaultConfiguration, file))"

record capabilities =
  Compatible :: string
  Model :: string
  Platform :: string
  AsString :: string

text \<open>
  The constructor stops at the first Poco exception and keeps what it has read; an exception of
  another kind leaves it.
\<close>

definition read_member :: "poco \<Rightarrow> jobject \<Rightarrow> string \<Rightarrow> string \<Rightarrow> cpp_exn + string" where
  "read_member p obj k old = (if j_has obj k then p_string p (j_get obj k) else Inr old)"

definition make_Capabilities :: "poco \<Rightarrow> jobject \<Rightarrow> cpp_exn + capabilities" where
  "make_Capabilities p caps =
     (let c0 = \<lparr> Compatible = [], Model = [], Platform = [], AsString = [] \<rparr>;
          stop = (\<lambda>e c. if poco_exn e then Inr c else Inl e)
      in case read_member p caps ''compatible'' [] of Inl e \<Rightarrow> stop e c0 | Inr cname \<Rightarrow>
         let c1 = c0\<lparr> Compatible := cname \<rparr> in
         case read_member p caps ''model'' [] of Inl e \<Rightarrow> stop e c1 | Inr model \<Rightarrow>
         let c2 = c1\<lparr> Model := model \<rparr> in
         case (if j_has caps ''platform''
               then map_sum id (p_toLower p) (p_string p (j_get caps ''platform'')) else Inr []) of
           Inl e \<Rightarrow> stop e c2
         | Inr plat \<Rightarrow>
             let c3 = c2\<lparr> Platform := plat \<rparr>;
                 c4 = (if Compatible c3 = [] then c3\<lparr> Compatible := model \<rparr> else c3)
             in Inr (c4\<lparr> AsString := p_stringify p caps \<rparr>))"

text \<open>
  Storing an identifier in a configuration that is a JSON object succeeds, makes the
  configuration valid and is read back unchanged, whatever identifier it held before.
\<close>

theorem Config_SetUUID_UUID:
  assumes "parse_object p config = Inr obj" and "om_wf obj"
    and "p_parse p (p_stringify p (om_set ''uuid'' (JInt (uint u)) obj)) =
           Inr (JObj (om_set ''uuid'' (JInt (uint u)) obj))"
    and "p_u64 p (JInt (uint u)) = Inr u"
  shows "\<exists>config'. Config_SetUUID p config u = Inr (True, config') \<and>
           Config_Valid p config' \<and> Config_UUID p config' = u"
proof -
  have f: "om_find (om_set ''uuid'' (JInt (uint u)) obj) ''uuid'' = Some (JInt (uint u))"
    using assms(2) by (rule om.lookup_same)
  show ?thesis
    using assms(1,3,4) f
    by (simp add: Config_SetUUID_def Config_Valid_def Config_UUID_def parse_object_def
        extract_object_def j_has_def j_get_def)
qed

text \<open>
  A library that knows the texts of a table, to evaluate the properties on: a value is printed as
  the text the table has for it.
\<close>

definition poco_of :: "(string \<times> jobject) list \<Rightarrow> poco" where
  "poco_of tbl =
     \<lparr> p_parse = (\<lambda>s. case map_of tbl s of Some j \<Rightarrow> Inr (JObj j) | None \<Rightarrow> Inl (Poco_Exception ''SyntaxException'')),
       p_stringify = (\<lambda>j. case find (\<lambda>e. snd e = j) tbl of Some e \<Rightarrow> fst e | None \<Rightarrow> []),
       p_u64 = (\<lambda>j. case j of JInt i \<Rightarrow> if 0 \<le> i then Inr (word_of_int i) else Inl (Poco_Exception ''RangeException'')
                    | _ \<Rightarrow> Inl (Poco_Exception ''BadCastException'')),
       p_string = (\<lambda>j. case j of JStr s \<Rightarrow> Inr s | _ \<Rightarrow> Inl (Poco_Exception ''BadCastException'')),
       p_toLower = (\<lambda>s. s) \<rparr>"

theorem Config_SetUUID_UUID_witness:
  "let p = poco_of [(''old'', [(''uuid'', JInt 2)]), (''new'', [(''uuid'', JInt 7)])]
   in \<exists>c. Config_SetUUID p ''old'' 7 = Inr (True, c) \<and> Config_Valid p c \<and> Config_UUID p c = 7"
  using Config_SetUUID_UUID
    [of "poco_of [(''old'', [(''uuid'', JInt 2)]), (''new'', [(''uuid'', JInt 7)])]" "''old''"
        "[(''uuid'', JInt 2)]" 7]
  by (simp add: poco_of_def parse_object_def extract_object_def om_wf_def Let_def)

section \<open>Association counters\<close>

definition ChannelToBand :: "u64 \<Rightarrow> int" where
  "ChannelToBand c = (if 1 \<le> c \<and> c \<le> 16 then 2 else 5)"

definition BandToInt :: "string \<Rightarrow> int" where
  "BandToInt band = (if band = ''2G'' then 2 else if band = ''5G'' then 5 else if band = ''6G'' then 6 else 2)"

text \<open>The first loop: whether band information is used, and the band of each radio by its phy.\<close>

fun radio_phys :: "poco \<Rightarrow> json list \<Rightarrow> bool \<Rightarrow> (string, int) omap \<Rightarrow> cpp_exn + bool \<times> (string, int) omap" where
  "radio_phys p [] use phys = Inr (use, phys)"
| "radio_phys p (i # is) use phys =
     try_bind (extract_object i) (\<lambda>radio.
       if j_has radio ''band'' then radio_phys p is True phys
       else if j_has radio ''phy'' \<and> j_has radio ''channel'' then
         (if j_isArray radio ''channel'' then
            (case j_getArray radio ''channel'' of
               [] \<Rightarrow> radio_phys p is use phys
             | ch # _ \<Rightarrow> try_bind (p_u64 p ch) (\<lambda>c. try_bind (p_string p (j_get radio ''phy'')) (\<lambda>phy.
                 radio_phys p is use (om_set phy (ChannelToBand c) phys))))
          else try_bind (p_u64 p (j_get radio ''channel'')) (\<lambda>c. try_bind (p_string p (j_get radio ''phy'')) (\<lambda>phy.
                 radio_phys p is use (om_set phy (ChannelToBand c) phys))))
       else radio_phys p is use phys)"

record counters =
  Radios_2G :: u64
  Radios_5G :: u64
  Radios_6G :: u64

definition count_in :: "int \<Rightarrow> nat \<Rightarrow> counters \<Rightarrow> counters" where
  "count_in radio n c =
     (if radio = 5 then c\<lparr> Radios_5G := Radios_5G c + of_nat n \<rparr>
      else if radio = 6 then c\<lparr> Radios_6G := Radios_6G c + of_nat n \<rparr>
      else c\<lparr> Radios_2G := Radios_2G c + of_nat n \<rparr>)"

fun count_ssids :: "poco \<Rightarrow> bool \<Rightarrow> (string, int) omap \<Rightarrow> json list \<Rightarrow> counters \<Rightarrow> cpp_exn + counters" where
  "count_ssids p use phys [] c = Inr c"
| "count_ssids p use phys (s # ss) c =
     try_bind (extract_object s) (\<lambda>info.
       if j_isArray info ''associations'' \<and> j_has info ''phy'' then
         try_bind (if use then map_sum id BandToInt (p_string p (j_get info ''band''))
               else map_sum id (\<lambda>phy. case om_find phys phy of Some r \<Rightarrow> r | None \<Rightarrow> 2)
                      (p_string p (j_get info ''phy''))) (\<lambda>radio.
           count_ssids p use phys ss (count_in radio (length (j_getArray info ''associations'')) c))
       else count_ssids p use phys ss c)"

fun count_interfaces :: "poco \<Rightarrow> bool \<Rightarrow> (string, int) omap \<Rightarrow> json list \<Rightarrow> counters \<Rightarrow> cpp_exn + counters" where
  "count_interfaces p use phys [] c = Inr c"
| "count_interfaces p use phys (i # is) c =
     try_bind (extract_object i) (\<lambda>obj.
       if j_isArray obj ''ssids'' then
         try_bind (count_ssids p use phys (j_getArray obj ''ssids'') c) (count_interfaces p use phys is)
       else count_interfaces p use phys is c)"

text \<open>The uptime is read only on the path that finds no radios or no interfaces.\<close>

definition ComputeAssociations ::
    "poco \<Rightarrow> jobject \<Rightarrow> u64 \<Rightarrow> cpp_exn + bool \<times> counters \<times> u64" where
  "ComputeAssociations p raw uptime =
     (let c0 = \<lparr> Radios_2G = 0, Radios_5G = 0, Radios_6G = 0 \<rparr> in
      if j_isArray raw ''radios'' \<and> j_isArray raw ''interfaces'' then
        try_bind (radio_phys p (j_getArray raw ''radios'') False []) (\<lambda>(use, phys).
          try_bind (count_interfaces p use phys (j_getArray raw ''interfaces'') c0) (\<lambda>c.
            Inr (True, c, uptime)))
      else if j_has raw ''unit'' \<and> \<not> j_isNull raw ''unit'' \<and> j_isObject raw ''unit'' then
        (if j_has (j_getObject raw ''unit'') ''uptime''
         then try_bind (p_u64 p (j_get (j_getObject raw ''unit'') ''uptime'')) (\<lambda>u. Inr (False, c0, u))
         else Inr (False, c0, uptime))
      else Inr (False, c0, uptime))"

section \<open>What the counters count\<close>

text \<open>The associations of one SSID entry, and of a whole state message.\<close>

definition ssid_clients :: "json \<Rightarrow> nat" where
  "ssid_clients s = (case s of
     JObj info \<Rightarrow> if j_isArray info ''associations'' \<and> j_has info ''phy''
                 then length (j_getArray info ''associations'') else 0
   | _ \<Rightarrow> 0)"

definition interface_clients :: "json \<Rightarrow> nat" where
  "interface_clients i = (case i of
     JObj obj \<Rightarrow> if j_isArray obj ''ssids'' then sum_list (map ssid_clients (j_getArray obj ''ssids'')) else 0
   | _ \<Rightarrow> 0)"

definition all_clients :: "counters \<Rightarrow> u64" where
  "all_clients c = Radios_2G c + Radios_5G c + Radios_6G c"

lemma all_clients_count_in: "all_clients (count_in r n c) = all_clients c + of_nat n"
  by (simp add: all_clients_def count_in_def)

lemma extract_objectE: "extract_object j = Inr obj \<Longrightarrow> j = JObj obj"
  by (simp add: extract_object_def split: json.splits)

lemma bind_Inr: "try_bind r f = Inr y \<longleftrightarrow> (\<exists>x. r = Inr x \<and> f x = Inr y)"
  by (cases r) auto

lemma count_ssids_total:
  "count_ssids p use phys ss c = Inr c' \<Longrightarrow>
   all_clients c' = all_clients c + of_nat (sum_list (map ssid_clients ss))"
proof (induction ss arbitrary: c)
  case (Cons s ss)
  from Cons.prems obtain info where s: "s = JObj info" by (auto simp: bind_Inr dest: extract_objectE)
  show ?case
  proof (cases "j_isArray info ''associations'' \<and> j_has info ''phy''")
    case True
    with Cons.prems obtain r where
      "count_ssids p use phys ss (count_in r (length (j_getArray info ''associations'')) c) = Inr c'"
      by (auto simp: s extract_object_def bind_Inr)
    from Cons.IH [OF this] True show ?thesis by (simp add: s ssid_clients_def all_clients_count_in)
  next
    case False
    with Cons show ?thesis by (auto simp: s extract_object_def ssid_clients_def)
  qed
qed simp

lemma count_interfaces_total:
  "count_interfaces p use phys is c = Inr c' \<Longrightarrow>
   all_clients c' = all_clients c + of_nat (sum_list (map interface_clients is))"
proof (induction "is" arbitrary: c)
  case (Cons i "is")
  from Cons.prems obtain obj where i: "i = JObj obj" by (auto simp: bind_Inr dest: extract_objectE)
  show ?case
  proof (cases "j_isArray obj ''ssids''")
    case True
    with Cons.prems obtain c1 where 1: "count_ssids p use phys (j_getArray obj ''ssids'') c = Inr c1"
      and 2: "count_interfaces p use phys is c1 = Inr c'"
      by (auto simp: i extract_object_def bind_Inr)
    from Cons.IH [OF 2] count_ssids_total [OF 1] True show ?thesis
      by (simp add: i interface_clients_def)
  next
    case False
    with Cons show ?thesis by (auto simp: i extract_object_def interface_clients_def)
  qed
qed simp

text \<open>
  When the association counting returns, every association of every SSID entry has been
  counted in exactly one of the three bands: the three counters add up (in 64 bits) to the number of
  associations listed in the message.
\<close>

theorem ComputeAssociations_total:
  assumes "ComputeAssociations p raw uptime = Inr (True, c, uptime')"
  shows "all_clients c = of_nat (sum_list (map interface_clients (j_getArray raw ''interfaces'')))"
proof -
  from assms obtain use phys where
    "count_interfaces p use phys (j_getArray raw ''interfaces'')
       \<lparr> Radios_2G = 0, Radios_5G = 0, Radios_6G = 0 \<rparr> = Inr c"
    by (auto simp: ComputeAssociations_def bind_Inr Let_def split: if_splits)
  from count_interfaces_total [OF this] show ?thesis by (simp add: all_clients_def)
qed

theorem ComputeAssociations_total_witness:
  "\<exists>c. ComputeAssociations (poco_of [])
         [(''interfaces'', JArr [JObj [(''ssids'', JArr [JObj [(''associations'', JArr [JNull, JNull]),
              (''band'', JStr ''5G''), (''phy'', JStr ''p0'')]])]]),
          (''radios'', JArr [JObj [(''band'', JStr ''5G'')]])] 0 = Inr (True, c, 0) \<and> all_clients c = 2"
  (is "\<exists>c. ?run = _ \<and> _")
proof -
  have "?run = Inr (True, \<lparr> Radios_2G = 0, Radios_5G = 2, Radios_6G = 0 \<rparr>, 0)"
    by (simp add: ComputeAssociations_def poco_of_def j_isArray_def j_getArray_def j_has_def j_get_def
        om_find_def extract_object_def count_in_def BandToInt_def)
  from this ComputeAssociations_total [OF this] show ?thesis
    by (simp add: j_isArray_def j_getArray_def j_has_def om_find_def ssid_clients_def interface_clients_def)
qed

lemma ComputeAssociations_uptime:
  "ComputeAssociations p raw uptime = Inr (True, c, uptime') \<Longrightarrow> uptime' = uptime"
  by (auto simp: ComputeAssociations_def bind_Inr Let_def split: if_splits)

end
