(* ===== verification/GW_Caches.thy ===== *)
theory GW_Caches
  imports GW_Json
begin

text \<open>
  The in-memory caches of \<^verbatim>\<open>src/ConfigurationCache.h\<close> (the identifier of the configuration each
  device should run) and \<^verbatim>\<open>src/CapabilitiesCache.h\<close> (platform and capabilities by device type,
  each loaded lazily from a file and written back on every change). A cache file is the list of
  the members of the JSON object it holds, \<open>None\<close> when it cannot be read; a platform that is not a
  string is \<open>None\<close> too and ends the loading loop with an exception that is swallowed.
\<close>

section \<open>The configuration cache\<close>

type_synonym config_cache = "(u64, u64) omap"

definition GetCurrentConfig :: "u64 \<Rightarrow> config_cache \<Rightarrow> u64" where
  "GetCurrentConfig serial c = (case om_find c serial of None \<Rightarrow> 0 | Some v \<Rightarrow> v)"

definition SetCurrentConfig :: "u64 \<Rightarrow> u64 \<Rightarrow> config_cache \<Rightarrow> config_cache" where
  "SetCurrentConfig serial i c = om_set serial i c"

text \<open>The overload that takes the serial number's text; parsing it may raise.\<close>

definition SetCurrentConfigurationID :: "string \<Rightarrow> u64 \<Rightarrow> config_cache \<Rightarrow> cpp_exn + config_cache" where
  "SetCurrentConfigurationID s i c = map_sum id (\<lambda>n. SetCurrentConfig n i c) (SerialNumberToInt s)"

lemma GetCurrentConfig_Set [gw_map]:
  "om_wf c \<Longrightarrow> GetCurrentConfig k (SetCurrentConfig k' i c) = (if k = k' then i else GetCurrentConfig k c)"
  by (simp add: GetCurrentConfig_def SetCurrentConfig_def om.lookup_store)

section \<open>The capabilities cache\<close>

record 'j caps_cache =
  PlatformsLoaded :: bool
  CapabilitiesLoaded :: bool
  Platforms :: "(string, string) omap"
  Capabilities :: "(string, 'j) omap"
  PlatformFile :: "(string \<times> string option) list option"
  CapsFile :: "(string \<times> 'j) list option"

text \<open>A process starts with nothing loaded, whatever the files hold.\<close>

definition cc_restart :: "'j caps_cache \<Rightarrow> 'j caps_cache" where
  "cc_restart c = c\<lparr> PlatformsLoaded := False, CapabilitiesLoaded := False, Platforms := [], Capabilities := [] \<rparr>"

fun load_platform_items ::
    "(string \<Rightarrow> string) \<Rightarrow> (string \<times> string option) list \<Rightarrow> (string, string) omap \<Rightarrow> (string, string) omap" where
  "load_platform_items lower [] m = m"
| "load_platform_items lower ((t, Some plat) # items) m =
     load_platform_items lower items (om_set t (lower plat) m)"
| "load_platform_items lower ((t, None) # items) m = m"

definition LoadPlatforms :: "(string \<Rightarrow> string) \<Rightarrow> 'j caps_cache \<Rightarrow> 'j caps_cache" where
  "LoadPlatforms lower c =
     c\<lparr> Platforms := (case PlatformFile c of None \<Rightarrow> Platforms c
                     | Some items \<Rightarrow> load_platform_items lower items (Platforms c)),
        PlatformsLoaded := True \<rparr>"

definition SavePlatforms :: "'j caps_cache \<Rightarrow> 'j caps_cache" where
  "SavePlatforms c = c\<lparr> PlatformFile := Some (map (map_prod id Some) (Platforms c)) \<rparr>"

definition LoadCapabilities :: "'j caps_cache \<Rightarrow> 'j caps_cache" where
  "LoadCapabilities c =
     c\<lparr> Capabilities := (case CapsFile c of None \<Rightarrow> Capabilities c
                        | Some items \<Rightarrow> foldl (\<lambda>m (k, v). om_set k v m) (Capabilities c) items),
        CapabilitiesLoaded := True \<rparr>"

definition SaveCapabilities :: "'j caps_cache \<Rightarrow> 'j caps_cache" where
  "SaveCapabilities c = c\<lparr> CapsFile := Some (Capabilities c) \<rparr>"

text \<open>
  \<^verbatim>\<open>Add\<close> in its two halves. \<open>json_parse\<close> is \<^verbatim>\<open>nlohmann::json::parse\<close>; for a new type the text is parsed
  twice and the copy whose \<open>restrictions\<close> are erased (\<open>json_erase\<close>) is not the one stored.
\<close>

definition Add_platform :: "(string \<Rightarrow> string) \<Rightarrow> capabilities \<Rightarrow> 'j caps_cache \<Rightarrow> 'j caps_cache" where
  "Add_platform lower caps c =
     (let c = (if PlatformsLoaded c then c else LoadPlatforms lower c);
          plat = lower (Platform caps)
      in case om_find (Platforms c) (Compatible caps) of
           None \<Rightarrow> SavePlatforms (c\<lparr> Platforms := om_set (Compatible caps) plat (Platforms c) \<rparr>)
         | Some old \<Rightarrow>
             if old \<noteq> plat then SavePlatforms (c\<lparr> Platforms := om_set (Compatible caps) plat (Platforms c) \<rparr>)
             else c)"

definition Add_capabilities ::
    "(string \<Rightarrow> cpp_exn + 'j) \<Rightarrow> (string \<Rightarrow> 'j \<Rightarrow> cpp_exn + 'j) \<Rightarrow> capabilities \<Rightarrow> 'j caps_cache \<Rightarrow>
     (cpp_exn + unit) \<times> 'j caps_cache" where
  "Add_capabilities json_parse json_erase caps c =
     (let c = (if CapabilitiesLoaded c then c else LoadCapabilities c);
          store = (\<lambda>j. (Inr (), SaveCapabilities (c\<lparr> Capabilities := om_set (Compatible caps) j (Capabilities c) \<rparr>)))
      in case json_parse (AsString caps) of
           Inl e \<Rightarrow> (Inl e, c)
         | Inr j \<Rightarrow>
             (case om_find (Capabilities c) (Compatible caps) of
                None \<Rightarrow> (case json_erase ''restrictions'' j of Inl e \<Rightarrow> (Inl e, c) | Inr _ \<Rightarrow> store j)
              | Some _ \<Rightarrow> store j))"

definition Caps_Add ::
    "(string \<Rightarrow> string) \<Rightarrow> (string \<Rightarrow> cpp_exn + 'j) \<Rightarrow> (string \<Rightarrow> 'j \<Rightarrow> cpp_exn + 'j) \<Rightarrow> capabilities \<Rightarrow>
     'j caps_cache \<Rightarrow> (cpp_exn + unit) \<times> 'j caps_cache" where
  "Caps_Add lower json_parse json_erase caps c =
     (if Compatible caps = [] \<or> Platform caps = [] then (Inr (), c)
      else Add_capabilities json_parse json_erase caps (Add_platform lower caps c))"

definition GetPlatform :: "(string \<Rightarrow> string) \<Rightarrow> string \<Rightarrow> 'j caps_cache \<Rightarrow> string \<times> 'j caps_cache" where
  "GetPlatform lower t c =
     (let c = (if PlatformsLoaded c then c else LoadPlatforms lower c)
      in (case om_find (Platforms c) t of None \<Rightarrow> ''ap'' | Some plat \<Rightarrow> plat, c))"

definition GetCapabilities :: "string \<Rightarrow> 'j caps_cache \<Rightarrow> 'j option \<times> 'j caps_cache" where
  "GetCapabilities t c =
     (let c = (if CapabilitiesLoaded c then c else LoadCapabilities c)
      in (om_find (Capabilities c) t, c))"

definition AllCapabilities :: "'j caps_cache \<Rightarrow> (string, 'j) omap \<times> 'j caps_cache" where
  "AllCapabilities c =
     (let c = (if CapabilitiesLoaded c then c else LoadCapabilities c) in (Capabilities c, c))"

section \<open>Memory and file agree\<close>

lemma load_platform_items_Some:
  "load_platform_items lower (map (map_prod id Some) m) m0 = foldl (\<lambda>m (k, v). om_set k v m) m0 (map (map_prod id lower) m)"
  by (induction m arbitrary: m0) auto

lemma om_wf_load_items: "om_wf m \<Longrightarrow> om_wf (load_platform_items lower items m)"
  by (induction lower items m rule: load_platform_items.induct) (auto simp: om_wf_set)

lemma map_of_rev_wf: "om_wf m \<Longrightarrow> map_of (rev m) k = om_find m k"
  by (metis distinct_map distinct_rev map_of_inject_set om_find_def om_wf_distinct rev_map set_rev)

text \<open>
  What the two halves keep: once loaded, the memory is what a new process would load from the file;
  before that it is empty. Platforms are stored in lower case.
\<close>

definition cc_inv :: "(string \<Rightarrow> string) \<Rightarrow> 'j caps_cache \<Rightarrow> bool" where
  "cc_inv lower c \<longleftrightarrow>
     om_wf (Platforms c) \<and> om_wf (Capabilities c) \<and>
     (\<forall>(k, v)\<in>set (Platforms c). lower v = v) \<and>
     (if PlatformsLoaded c
      then \<forall>k. om_find (Platforms (LoadPlatforms lower (cc_restart c))) k = om_find (Platforms c) k
      else Platforms c = []) \<and>
     (if CapabilitiesLoaded c
      then \<forall>k. om_find (Capabilities (LoadCapabilities (cc_restart c))) k = om_find (Capabilities c) k
      else Capabilities c = [])"

lemma lower_load_items:
  "(\<forall>s. lower (lower s) = lower s) \<Longrightarrow> (\<forall>(k, v)\<in>set m. lower v = v) \<Longrightarrow>
   (\<forall>(k, v)\<in>set (load_platform_items lower items m). lower v = v)"
proof (induction lower items m rule: load_platform_items.induct)
  case (2 lower t plat items m)
  have "set (om_set t (lower plat) m) \<subseteq> insert (t, lower plat) (set m)" for m
    by (induction t "lower plat" m rule: om_set.induct) auto
  with 2 show ?case by fastforce
qed auto

lemma map_id_lower: "(\<forall>(k, v)\<in>set m. lower v = v) \<Longrightarrow> map (map_prod id lower) m = m"
  by (induction m) auto

lemma reload_saved:
  assumes "om_wf m" and "\<forall>(k, v)\<in>set m. lower v = v"
  shows "om_find (load_platform_items lower (map (map_prod id Some) m) []) k = om_find m k"
  using assms by (simp add: load_platform_items_Some map_id_lower om.lookup_store_all map_of_rev_wf split: option.splits)

lemma set_om_set: "set (om_set k v m) \<subseteq> insert (k, v) (set m)"
  by (induction k v m rule: om_set.induct) auto

lemma cc_inv_LoadPlatforms:
  assumes "\<forall>s. lower (lower s) = lower s" and "cc_inv lower c" and "\<not> PlatformsLoaded c"
  shows "cc_inv lower (LoadPlatforms lower c)"
  using assms lower_load_items [of lower "[]"]
  by (auto simp: cc_inv_def LoadPlatforms_def cc_restart_def LoadCapabilities_def om_wf_load_items
      split: option.splits if_splits)

lemma cc_inv_LoadCapabilities:
  assumes "cc_inv lower c" and "\<not> CapabilitiesLoaded c"
  shows "cc_inv lower (LoadCapabilities c)"
  using assms
  by (auto simp: cc_inv_def LoadPlatforms_def cc_restart_def LoadCapabilities_def
      om.wf_store_all split: option.splits if_splits)

lemma cc_inv_store_platform:
  assumes "\<forall>s. lower (lower s) = lower s" and "cc_inv lower c" and "PlatformsLoaded c"
  shows "cc_inv lower (SavePlatforms (c\<lparr> Platforms := om_set k (lower v) (Platforms c) \<rparr>))"
proof -
  let ?m = "om_set k (lower v) (Platforms c)"
  have wf: "om_wf ?m" using assms(2) by (simp add: cc_inv_def om_wf_set)
  have low: "\<forall>(k, v)\<in>set ?m. lower v = v"
    using assms(1,2) set_om_set [of k "lower v" "Platforms c"] by (fastforce simp: cc_inv_def)
  show ?thesis
    using assms(2,3) wf low reload_saved [OF wf low]
    by (auto simp: cc_inv_def SavePlatforms_def LoadPlatforms_def LoadCapabilities_def cc_restart_def
        split: option.splits if_splits)
qed

lemma cc_inv_Add_platform:
  assumes "\<forall>s. lower (lower s) = lower s" and "cc_inv lower c"
  shows "cc_inv lower (Add_platform lower caps c)"
proof -
  define c1 where "c1 = (if PlatformsLoaded c then c else LoadPlatforms lower c)"
  have 1: "cc_inv lower c1" "PlatformsLoaded c1"
    using assms cc_inv_LoadPlatforms by (auto simp: c1_def LoadPlatforms_def)
  show ?thesis
    using 1 cc_inv_store_platform [OF assms(1) 1]
    by (simp add: Add_platform_def c1_def [symmetric] Let_def split: option.split)
qed

lemma cc_inv_Add_capabilities:
  assumes "cc_inv lower c"
  shows "cc_inv lower (snd (Add_capabilities json_parse json_erase caps c))"
proof -
  define c1 where "c1 = (if CapabilitiesLoaded c then c else LoadCapabilities c)"
  have 1: "cc_inv lower c1" "CapabilitiesLoaded c1"
    using assms cc_inv_LoadCapabilities by (auto simp: c1_def LoadCapabilities_def)
  have "cc_inv lower (SaveCapabilities (c1\<lparr> Capabilities := om_set k j (Capabilities c1) \<rparr>))" for k j
  proof -
    have "om_wf (om_set k j (Capabilities c1))" using 1 by (simp add: cc_inv_def om_wf_set)
    then show ?thesis
      using 1 by (auto simp: cc_inv_def SaveCapabilities_def LoadPlatforms_def LoadCapabilities_def
          cc_restart_def om.lookup_store_all map_of_rev_wf split: option.splits)
  qed
  with 1 show ?thesis
    by (auto simp: Add_capabilities_def c1_def [symmetric] Let_def split: sum.split option.split)
qed

lemma cc_inv_Caps_Add:
  "\<forall>s. lower (lower s) = lower s \<Longrightarrow> cc_inv lower c \<Longrightarrow>
   cc_inv lower (snd (Caps_Add lower json_parse json_erase caps c))"
  by (simp add: Caps_Add_def cc_inv_Add_platform cc_inv_Add_capabilities)

lemma cc_inv_GetPlatform:
  "\<forall>s. lower (lower s) = lower s \<Longrightarrow> cc_inv lower c \<Longrightarrow> cc_inv lower (snd (GetPlatform lower t c))"
  by (simp add: GetPlatform_def Let_def cc_inv_LoadPlatforms)

lemma cc_inv_restart: "cc_inv lower (cc_restart c)"
  by (simp add: cc_inv_def cc_restart_def)

lemma GetPlatform_restart:
  assumes "cc_inv lower c"
  shows "fst (GetPlatform lower t (cc_restart c)) = fst (GetPlatform lower t c)"
  using assms
  by (auto simp: cc_inv_def GetPlatform_def Let_def LoadPlatforms_def cc_restart_def split: option.splits if_splits)

text \<open>
  After capabilities with a type and a platform have been added to a consistent cache, the
  platform answered for this type is theirs in lower case, and a restarted process that reads
  the files answers the same for every type.
\<close>

theorem Caps_Add_persistent:
  assumes "\<forall>s. lower (lower s) = lower s" and "cc_inv lower c"
    and "Compatible caps \<noteq> []" and "Platform caps \<noteq> []"
  shows "let c' = snd (Caps_Add lower json_parse json_erase caps c)
         in fst (GetPlatform lower (Compatible caps) c') = lower (Platform caps) \<and> cc_inv lower c' \<and>
            (\<forall>t. fst (GetPlatform lower t (cc_restart c')) = fst (GetPlatform lower t c'))"
proof -
  let ?c' = "snd (Caps_Add lower json_parse json_erase caps c)"
  have inv: "cc_inv lower ?c'" using assms(1,2) by (rule cc_inv_Caps_Add)
  define c1 where "c1 = (if PlatformsLoaded c then c else LoadPlatforms lower c)"
  have 1: "cc_inv lower c1" "PlatformsLoaded c1"
    using assms cc_inv_LoadPlatforms by (auto simp: c1_def LoadPlatforms_def)
  then have wf: "om_wf (Platforms c1)" by (simp add: cc_inv_def)
  have f: "om_find (Platforms (Add_platform lower caps c)) (Compatible caps) = Some (lower (Platform caps))"
    and l: "PlatformsLoaded (Add_platform lower caps c)"
    using wf 1(2) by (auto simp: Add_platform_def c1_def [symmetric] Let_def SavePlatforms_def om.lookup_same
        split: option.split)
  have k: "Platforms (snd (Add_capabilities json_parse json_erase caps c2)) = Platforms c2"
    "PlatformsLoaded (snd (Add_capabilities json_parse json_erase caps c2)) = PlatformsLoaded c2" for c2 :: "'a caps_cache"
    by (auto simp: Add_capabilities_def Let_def SaveCapabilities_def LoadCapabilities_def split: sum.split option.split)
  have "fst (GetPlatform lower (Compatible caps) ?c') = lower (Platform caps)"
    using assms(3,4) f l k by (simp add: Caps_Add_def GetPlatform_def)
  with inv GetPlatform_restart [OF inv] show ?thesis by (simp add: Let_def)
qed

theorem Caps_Add_persistent_witness:
  "let caps = \<lparr> Compatible = ''cig_wf188n'', Model = ''WF188'', Platform = ''ap'', AsString = ''{}'' \<rparr>;
       c = \<lparr> PlatformsLoaded = False, CapabilitiesLoaded = False, Platforms = [], Capabilities = [],
             PlatformFile = None, CapsFile = None \<rparr>;
       c' = snd (Caps_Add id (\<lambda>s. Inr s) (\<lambda>k j. Inr j) caps c)
   in fst (GetPlatform id ''cig_wf188n'' (cc_restart c')) = ''ap''"
  using Caps_Add_persistent
    [of id "\<lparr> PlatformsLoaded = False, CapabilitiesLoaded = False, Platforms = [], Capabilities = [],
             PlatformFile = None, CapsFile = None \<rparr>"
        "\<lparr> Compatible = ''cig_wf188n'', Model = ''WF188'', Platform = ''ap'', AsString = ''{}'' \<rparr>"
        "\<lambda>s. Inr s" "\<lambda>k j. Inr j"]
  by (simp add: cc_inv_def Let_def)

end
