(* ===== verification/GW_SerialCache.thy ===== *)
theory GW_SerialCache
  imports GW_Utils "HOL-Library.Multiset"
begin

text \<open>
  The serial number cache, \<^verbatim>\<open>src/SerialNumberCache.cpp\<close> and \<^verbatim>\<open>SerialNumberCache.h\<close>: two sorted
  vectors, one of the serial numbers and one of the numbers read backwards, so that a prefix of
  either can be found by binary search. \<^verbatim>\<open>Start\<close> fills the cache from the database and has no
  state of its own; every other operation is modelled. An operation that raises has still
  performed the writes it made before, so it returns its outcome with the state.
\<close>

section \<open>State and operations\<close>

record serial_cache =
  SNs :: "u64 list"
  Reverse_SNs :: "u64 list"

definition sc_empty :: serial_cache where
  "sc_empty = \<lparr> SNs = [], Reverse_SNs = [] \<rparr>"

definition sc_Stop :: "serial_cache \<Rightarrow> serial_cache" where
  "sc_Stop c = c\<lparr> SNs := [], Reverse_SNs := [] \<rparr>"

definition ReverseSerialNumber :: "string \<Rightarrow> string" where
  "ReverseSerialNumber s = rev s"

text \<open>\<^verbatim>\<open>std::lower_bound\<close> splits a sorted vector before the first element not below the value.\<close>

definition insert_at_lower_bound :: "u64 \<Rightarrow> u64 list \<Rightarrow> u64 list" where
  "insert_at_lower_bound x xs = takeWhile (\<lambda>y. y < x) xs @ x # dropWhile (\<lambda>y. y < x) xs"

definition AddSerialNumber :: "string \<Rightarrow> serial_cache \<Rightarrow> (cpp_exn + unit) \<times> serial_cache" where
  "AddSerialNumber s c =
     (case stoull16 s of
        Inl e \<Rightarrow> (Inl e, c)
      | Inr sn \<Rightarrow>
          if sn \<in> set (SNs c) then (Inr (), c)
          else
            let c = c\<lparr> SNs := insert_at_lower_bound sn (SNs c) \<rparr> in
            case stoull16 (ReverseSerialNumber s) of
              Inl e \<Rightarrow> (Inl e, c)
            | Inr rsn \<Rightarrow> (Inr (), c\<lparr> Reverse_SNs := insert_at_lower_bound rsn (Reverse_SNs c) \<rparr>))"

definition DeleteSerialNumber :: "string \<Rightarrow> serial_cache \<Rightarrow> (cpp_exn + unit) \<times> serial_cache" where
  "DeleteSerialNumber s c =
     (case stoull16 s of
        Inl e \<Rightarrow> (Inl e, c)
      | Inr sn \<Rightarrow>
          if sn \<in> set (SNs c) then
            let c = c\<lparr> SNs := remove1 sn (SNs c) \<rparr> in
            case stoull16 (ReverseSerialNumber s) of
              Inl e \<Rightarrow> (Inl e, c)
            | Inr rsn \<Rightarrow> (Inr (), c\<lparr> Reverse_SNs := remove1 rsn (Reverse_SNs c) \<rparr>)
          else (Inr (), c))"

definition NumberExists :: "u64 \<Rightarrow> serial_cache \<Rightarrow> bool" where
  "NumberExists sn c \<longleftrightarrow> sn \<in> set (SNs c)"

fun Reverse_loop :: "nat \<Rightarrow> u64 \<Rightarrow> u64 \<Rightarrow> u64" where
  "Reverse_loop 0 n res = res"
| "Reverse_loop (Suc k) n res =
     Reverse_loop k (drop_bit 4 n) (push_bit 4 res + (n AND 0x000000000000000f))"

definition Reverse :: "u64 \<Rightarrow> u64" where
  "Reverse n = drop_bit 16 (Reverse_loop 16 n 0)"

text \<open>The loop from the lower bound: it stops at the first number without the prefix.\<close>

fun ReturnNumbers_loop :: "string \<Rightarrow> nat \<Rightarrow> bool \<Rightarrow> u64 list \<Rightarrow> u64 list" where
  "ReturnNumbers_loop s howmany reverse_result [] = []"
| "ReturnNumbers_loop s howmany reverse_result (x # xs) =
     (if howmany = 0 then []
      else if reverse_result then
        (if s = take (length s) (ReverseSerialNumber (IntToSerialNumber (Reverse x)))
         then Reverse x # ReturnNumbers_loop s (howmany - 1) reverse_result xs else [])
      else
        (if s = take (length s) (IntToSerialNumber x)
         then x # ReturnNumbers_loop s (howmany - 1) reverse_result xs else []))"

definition ReturnNumbers :: "string \<Rightarrow> u32 \<Rightarrow> u64 list \<Rightarrow> bool \<Rightarrow> cpp_exn + u64 list" where
  "ReturnNumbers s howmany sn_arr reverse_result =
     (if length s = 12 then
        (case stoull16 s of
           Inl e \<Rightarrow> Inl e
         | Inr sn \<Rightarrow> if sn \<in> set sn_arr then Inr [if reverse_result then Reverse sn else sn] else Inr [])
      else if length s < 12 then
        (case stoull16 (s @ replicate (12 - length s) (CHR ''0'')) of
           Inl e \<Rightarrow> Inl e
         | Inr sn \<Rightarrow>
             Inr (ReturnNumbers_loop s (unat howmany) reverse_result (dropWhile (\<lambda>y. y < sn) sn_arr)))
      else Inr [])"

definition FindNumbers :: "string \<Rightarrow> u32 \<Rightarrow> serial_cache \<Rightarrow> cpp_exn + u64 list" where
  "FindNumbers s howmany c =
     (case s of
        [] \<Rightarrow> Inr []
      | d # ds \<Rightarrow>
          if d = CHR ''*'' then
            (if rev ds = [] then Inr [] else ReturnNumbers (rev ds) howmany (Reverse_SNs c) True)
          else ReturnNumbers s howmany (SNs c) False)"

section \<open>Numbers and their hexadecimal digits\<close>

fun digs :: "nat \<Rightarrow> nat \<Rightarrow> nat list" where
  "digs 0 n = []"
| "digs (Suc k) n = digs k (n div 16) @ [n mod 16]"

lemma length_digs [simp]: "length (digs k n) = k"
  by (induction k arbitrary: n) auto

lemma digs_bound: "d \<in> set (digs k n) \<Longrightarrow> d < 16"
  by (induction k arbitrary: n) auto

lemma base_value_digs: "base_value 16 (digs k n) = n mod 16 ^ k"
  by (induction k arbitrary: n) (auto simp: base_value_append mod_mult2_eq)

lemma digs_base_value: "\<forall>d\<in>set ds. d < 16 \<Longrightarrow> digs (length ds) (base_value 16 ds) = ds"
  by (induction ds rule: rev_induct) (auto simp: base_value_append)

lemma take_digs: "take k (digs (k + j) n) = digs k (n div 16 ^ j)"
proof (induction j arbitrary: n)
  case (Suc j)
  then show ?case by (simp add: div_mult2_eq)
qed simp

lemma nibbles_digs: "nibbles k s acc = map hex_digit (digs k (unat s)) @ acc"
  by (induction k arbitrary: s acc) (simp_all add: unat_drop_nibble unat_low_nibble)

lemma IntToSerialNumber_digs: "IntToSerialNumber n = map hex_digit (digs 12 (unat n))"
  by (simp add: IntToSerialNumber_def nibbles_digs)

lemma hex_digit_inj: "map hex_digit xs = map hex_digit ys \<Longrightarrow> \<forall>d\<in>set xs \<union> set ys. d < 16 \<Longrightarrow> xs = ys"
  by (metis (no_types, lifting) UnCI hex_value_hex_digit list.map_comp map_idI o_apply)

text \<open>The texts the cache is used with: lower-case hexadecimal digits.\<close>

definition hex_text :: "string \<Rightarrow> bool" where
  "hex_text s \<longleftrightarrow> list_all (\<lambda>c. c \<in> set ''0123456789abcdef'') s"

lemma hex_text_digits:
  assumes "hex_text s"
  obtains ds where "s = map hex_digit ds" "\<forall>d\<in>set ds. d < 16" "length ds = length s"
proof -
  have "\<forall>c\<in>set s. \<exists>d<16. c = hex_digit d"
  proof
    fix c assume "c \<in> set s"
    with assms have "c \<in> set ''0123456789abcdef''" by (auto simp: hex_text_def list_all_iff)
    then obtain i where "i < length ''0123456789abcdef''" "c = ''0123456789abcdef'' ! i"
      by (metis in_set_conv_nth)
    then show "\<exists>d<16. c = hex_digit d"
      unfolding hex_digit_def by (intro exI [of _ i]) simp
  qed
  then obtain f where f: "\<forall>c\<in>set s. f c < 16 \<and> c = hex_digit (f c)" by metis
  show ?thesis by (rule that [of "map f s"]) (use f in \<open>auto simp: map_idI\<close>)
qed

lemma base_value_12: "length ds = 12 \<Longrightarrow> \<forall>d\<in>set ds. d < 16 \<Longrightarrow> base_value 16 ds < 2 ^ 48"
  using base_value_less [of ds 16] by simp

lemma unat_base_12:
  "length ds = 12 \<Longrightarrow> \<forall>d\<in>set ds. d < 16 \<Longrightarrow> unat (of_nat (base_value 16 ds) :: u64) = base_value 16 ds"
  using base_value_12 [of ds] by (simp add: unat_of_nat)

section \<open>Reading a number backwards\<close>

lemma Reverse_loop_spec:
  "Reverse_loop k n res = of_nat (unat res * 16 ^ k + base_value 16 (rev (digs k (unat n))))"
proof (induction k arbitrary: n res)
  case (Suc k)
  have e: "push_bit 4 res + (n AND 15) = of_nat (unat res * 16 + unat n mod 16)"
    by (simp add: push_bit_eq_mult flip: unat_low_nibble)
  let ?b = "base_value 16 (rev (digs k (unat n div 16)))"
  have "Reverse_loop (Suc k) n res =
      of_nat (unat (of_nat (unat res * 16 + unat n mod 16) :: u64)) * of_nat (16 ^ k) + of_nat ?b"
    by (simp add: Suc.IH e unat_drop_nibble del: of_nat_add of_nat_mult) simp
  also have "\<dots> = of_nat ((unat res * 16 + unat n mod 16) * 16 ^ k + ?b)" by simp
  also have "(unat res * 16 + unat n mod 16) * 16 ^ k + ?b =
      unat res * 16 ^ Suc k + base_value 16 (rev (digs (Suc k) (unat n)))"
    by (simp add: algebra_simps)
  finally show ?case .
qed simp

lemma base_value_zeros: "base_value b (replicate n 0) = 0"
  by (induction n) auto

lemma digs_0: "digs k 0 = replicate k 0"
  by (induction k) (auto simp: replicate_append_same)

lemma digs_prefix_zeros: "n < 16 ^ k \<Longrightarrow> digs (j + k) n = replicate j 0 @ digs k n"
proof (induction k arbitrary: n)
  case 0
  then show ?case by (simp add: digs_0)
next
  case (Suc k)
  then have "n div 16 < 16 ^ k" by (simp add: less_mult_imp_div_less)
  with Suc.IH show ?case by simp
qed

lemma Reverse_digs:
  assumes "unat n < 2 ^ 48"
  shows "unat (Reverse n) = base_value 16 (rev (digs 12 (unat n)))"
proof -
  let ?b = "base_value 16 (rev (digs 12 (unat n)))"
  have "digs 16 (unat n) = replicate 4 0 @ digs 12 (unat n)"
    using digs_prefix_zeros [of "unat n" 12 4] assms by simp
  then have v: "base_value 16 (rev (digs 16 (unat n))) = ?b * 2 ^ 16"
    by (simp add: base_value_append base_value_zeros del: digs.simps)
  have b: "?b < 2 ^ 48" using digs_bound by (intro base_value_12) auto
  then have "unat (of_nat (?b * 2 ^ 16) :: u64) = ?b * 2 ^ 16"
    by (simp only: unat_of_nat len_num0 len_bit0) simp
  then show ?thesis
    by (simp add: Reverse_def Reverse_loop_spec v drop_bit_eq_div unat_div_distrib del: digs.simps of_nat_mult)
qed

lemma Reverse_bound: "unat n < 2 ^ 48 \<Longrightarrow> unat (Reverse n) < 2 ^ 48"
  using base_value_12 [of "rev (digs 12 (unat n))"] digs_bound by (auto simp: Reverse_digs simp del: digs.simps)

lemma digs_Reverse: "unat n < 2 ^ 48 \<Longrightarrow> digs 12 (unat (Reverse n)) = rev (digs 12 (unat n))"
  using digs_base_value [of "rev (digs 12 (unat n))"] digs_bound
  by (auto simp: Reverse_digs simp del: digs.simps)

lemma Reverse_Reverse:
  assumes "unat n < 2 ^ 48"
  shows "Reverse (Reverse n) = n"
proof -
  have "unat (Reverse (Reverse n)) = unat n mod 16 ^ 12"
    by (simp only: Reverse_digs [OF Reverse_bound [OF assms]] digs_Reverse [OF assms] rev_rev_ident
        base_value_digs)
  with assms show ?thesis by (simp add: word_unat_eq_iff)
qed

lemma Serial_Reverse:
  "unat n < 2 ^ 48 \<Longrightarrow> ReverseSerialNumber (IntToSerialNumber (Reverse n)) = IntToSerialNumber n"
  by (simp add: ReverseSerialNumber_def IntToSerialNumber_digs digs_Reverse rev_map del: digs.simps)

text \<open>
  For a text of twelve lower-case hexadecimal digits, parsing the reversed text gives
  the number the word-level nibble reversal computes from the parsed text, and reversing
  that number again gives the original one.
\<close>

theorem reverse_text_number:
  assumes "length s = 12" and "hex_text s"
  shows "\<exists>n. stoull16 s = Inr n \<and> stoull16 (ReverseSerialNumber s) = Inr (Reverse n) \<and>
             Reverse (Reverse n) = n \<and> unat n < 2 ^ 48"
proof -
  obtain ds where ds: "s = map hex_digit ds" "\<forall>d\<in>set ds. d < 16" "length ds = 12"
    using assms by (metis hex_text_digits)
  let ?n = "of_nat (base_value 16 ds) :: u64"
  have u: "unat ?n = base_value 16 ds" "unat ?n < 2 ^ 48"
    using unat_base_12 base_value_12 ds by auto
  have dg: "digs 12 (unat ?n) = ds" using digs_base_value [of ds] ds(2,3) u(1) by (simp del: digs.simps)
  have ne: "ds \<noteq> []" using ds(3) by auto
  have "stoull16 s = Inr ?n" using ds ne by (simp add: stoull16_hex)
  moreover have "stoull16 (ReverseSerialNumber s) = Inr (of_nat (base_value 16 (rev ds)))"
    using stoull16_hex [of "rev ds"] ds ne by (simp add: ReverseSerialNumber_def rev_map)
  moreover have "of_nat (base_value 16 (rev ds)) = Reverse ?n"
    using Reverse_digs [OF u(2)] dg unat_base_12 [of "rev ds"] ds(2,3)
    by (simp add: word_unat_eq_iff del: digs.simps)
  ultimately show ?thesis using u(2) Reverse_Reverse by auto
qed

theorem reverse_text_number_witness:
  "\<exists>n. stoull16 ''24f5a207a130'' = Inr n \<and>
       stoull16 (ReverseSerialNumber ''24f5a207a130'') = Inr (Reverse n) \<and> Reverse (Reverse n) = n \<and> unat n < 2 ^ 48"
  using reverse_text_number [of "''24f5a207a130''"] by (simp add: hex_text_def)

section \<open>The invariant of the cache\<close>

text \<open>
  The first vector is sorted without duplicates, the second one is sorted and holds exactly the
  numbers of the first, read backwards.
\<close>

definition sc_inv :: "serial_cache \<Rightarrow> bool" where
  "sc_inv c \<longleftrightarrow> sorted (SNs c) \<and> distinct (SNs c) \<and> sorted (Reverse_SNs c) \<and>
     mset (Reverse_SNs c) = image_mset Reverse (mset (SNs c)) \<and> (\<forall>n\<in>set (SNs c). unat n < 2 ^ 48)"

lemma insert_at_lower_bound_insort: "insert_at_lower_bound x xs = insort x xs"
  by (induction xs) (auto simp: insert_at_lower_bound_def)

lemma sc_inv_empty [gw_inv]: "sc_inv sc_empty" and sc_inv_Stop [gw_inv]: "sc_inv (sc_Stop c)"
  by (simp_all add: sc_inv_def sc_empty_def sc_Stop_def)

lemma stoull_12:
  assumes "length s = 12" and "hex_text s"
  obtains n where "stoull16 s = Inr n" "stoull16 (ReverseSerialNumber s) = Inr (Reverse n)"
    "unat n < 2 ^ 48"
proof -
  obtain ds where ds: "s = map hex_digit ds" "\<forall>d\<in>set ds. d < 16" "length ds = 12"
    using assms by (metis hex_text_digits)
  let ?n = "of_nat (base_value 16 ds) :: u64"
  have u: "unat ?n = base_value 16 ds" "unat ?n < 2 ^ 48"
    using unat_base_12 base_value_12 ds by auto
  have dg: "digs 12 (unat ?n) = ds" using digs_base_value [of ds] ds(2,3) u(1) by (simp del: digs.simps)
  have ne: "ds \<noteq> []" using ds(3) by auto
  have "stoull16 s = Inr ?n" using ds ne by (simp add: stoull16_hex)
  moreover have "stoull16 (ReverseSerialNumber s) = Inr (of_nat (base_value 16 (rev ds)))"
    using stoull16_hex [of "rev ds"] ds ne by (simp add: ReverseSerialNumber_def rev_map)
  moreover have "of_nat (base_value 16 (rev ds)) = Reverse ?n"
    using Reverse_digs [OF u(2)] dg unat_base_12 [of "rev ds"] ds(2,3)
    by (simp add: word_unat_eq_iff del: digs.simps)
  ultimately show ?thesis using u(2) that by simp
qed

text \<open>
  Adding a serial number of twelve hexadecimal digits raises no error, keeps the two
  vectors sorted and consistent with each other, and makes exactly that number known in
  addition to those known before.
\<close>

lemma AddSerialNumber_correct:
  assumes "sc_inv c" and "length s = 12" and "hex_text s" and "SerialNumberToInt s = Inr n"
  shows "fst (AddSerialNumber s c) = Inr () \<and> sc_inv (snd (AddSerialNumber s c)) \<and>
         (\<forall>m. NumberExists m (snd (AddSerialNumber s c)) = (m = n \<or> NumberExists m c))"
proof -
  have "stoull16 s = Inr n" "stoull16 (ReverseSerialNumber s) = Inr (Reverse n)" "unat n < 2 ^ 48"
    using stoull_12 [OF assms(2,3)] assms(4) by (auto simp: SerialNumberToInt_def)
  with assms(1) show ?thesis
    by (auto simp: AddSerialNumber_def sc_inv_def NumberExists_def Let_def insert_at_lower_bound_insort
        sorted_insort distinct_insort set_insort_key)
qed

text \<open>
  Deleting a serial number of twelve hexadecimal digits raises no error, keeps the
  vectors consistent and removes exactly that number.
\<close>

lemma DeleteSerialNumber_correct:
  assumes "sc_inv c" and "length s = 12" and "hex_text s" and "SerialNumberToInt s = Inr n"
  shows "fst (DeleteSerialNumber s c) = Inr () \<and> sc_inv (snd (DeleteSerialNumber s c)) \<and>
         (\<forall>m. NumberExists m (snd (DeleteSerialNumber s c)) = (m \<noteq> n \<and> NumberExists m c))"
proof -
  have "stoull16 s = Inr n" "stoull16 (ReverseSerialNumber s) = Inr (Reverse n)"
    using stoull_12 [OF assms(2,3)] assms(4) by (auto simp: SerialNumberToInt_def)
  with assms(1) show ?thesis
    by (auto simp: DeleteSerialNumber_def sc_inv_def NumberExists_def Let_def sorted_remove1
        image_mset_Diff dest: in_set_remove1 notin_set_remove1)
qed

section \<open>Searching\<close>

lemma prefix_number:
  assumes p: "\<forall>d\<in>set p. d < 16" and k: "length p + j = 12" and x: "unat x < 2 ^ 48"
  shows "map hex_digit p = take (length p) (IntToSerialNumber x) \<longleftrightarrow> unat x div 16 ^ j = base_value 16 p"
proof -
  have b: "unat x div 16 ^ j < 16 ^ length p"
    using x k power_add [of "16::nat" "length p" j] by (simp add: less_mult_imp_div_less)
  have t: "take (length p) (digs 12 (unat x)) = digs (length p) (unat x div 16 ^ j)"
    using take_digs [of "length p" j "unat x"] k by simp
  have "map hex_digit p = take (length p) (IntToSerialNumber x) \<longleftrightarrow> p = digs (length p) (unat x div 16 ^ j)"
    using hex_digit_inj [of p "digs (length p) (unat x div 16 ^ j)"] p digs_bound
    by (auto simp: IntToSerialNumber_digs take_map t simp del: digs.simps)
  also have "\<dots> \<longleftrightarrow> unat x div 16 ^ j = base_value 16 p"
    using base_value_digs [of "length p" "unat x div 16 ^ j"] b digs_base_value [OF p] by auto
  finally show ?thesis .
qed

lemma sorted_interval:
  fixes xs :: "'a::linorder list"
  assumes "sorted xs" and "\<forall>x\<in>set xs. P x \<longleftrightarrow> lo \<le> x \<and> Q x"
    and "\<forall>x y. x \<le> y \<longrightarrow> Q y \<longrightarrow> Q x"
  shows "takeWhile P (dropWhile (\<lambda>y. y < lo) xs) = filter P xs"
  using assms(1,2)
proof (induction xs)
  case (Cons x xs)
  show ?case
  proof (cases "x < lo")
    case True
    with Cons show ?thesis by (auto dest: leD)
  next
    case False
    have ge: "\<forall>y\<in>set xs. x \<le> y" using Cons.prems(1) by simp
    have P: "\<forall>y\<in>set xs. P y = Q y" "P x = Q x"
      using False ge Cons.prems(2) by (auto simp: not_less intro: order_trans)
    have d: "dropWhile (\<lambda>y. y < lo) xs = xs"
      using False ge by (cases xs) (auto simp: not_less)
    show ?thesis
    proof (cases "Q x")
      case True
      with False Cons P d show ?thesis by simp
    next
      case nQ: False
      then have "\<forall>y\<in>set xs. \<not> P y" using ge P assms(3) by blast
      with False nQ P show ?thesis by (simp add: filter_empty_conv)
    qed
  qed
qed simp

lemma ReturnNumbers_loop_takeWhile:
  "(\<forall>x\<in>set xs. unat x < 2 ^ 48) \<Longrightarrow>
   ReturnNumbers_loop s n r xs =
     map (if r then Reverse else id) (take n (takeWhile (\<lambda>x. s = take (length s) (IntToSerialNumber x)) xs))"
proof (induction xs arbitrary: n)
  case (Cons x xs)
  then show ?case by (cases n; cases r) (simp_all add: Serial_Reverse)
qed simp

lemma stoull_padded:
  assumes "hex_text s" and "length s < 12" and "s \<noteq> []"
  obtains ds where "s = map hex_digit ds" "\<forall>d\<in>set ds. d < 16" "length ds = length s"
    "stoull16 (s @ replicate (12 - length s) (CHR ''0'')) =
       Inr (of_nat (base_value 16 ds * 16 ^ (12 - length s)))"
    "base_value 16 ds * 16 ^ (12 - length s) < 2 ^ 48"
proof -
  obtain ds where ds: "s = map hex_digit ds" "\<forall>d\<in>set ds. d < 16" "length ds = length s"
    using assms(1) by (rule hex_text_digits)
  let ?j = "12 - length s"
  have "CHR ''0'' = hex_digit 0" by (simp add: hex_digit_def)
  then have e: "s @ replicate ?j (CHR ''0'') = map hex_digit (ds @ replicate ?j 0)"
    by (simp add: ds(1))
  have v: "base_value 16 (ds @ replicate ?j 0) = base_value 16 ds * 16 ^ ?j"
    by (simp add: base_value_append base_value_zeros)
  have "base_value 16 (ds @ replicate ?j 0) < 2 ^ 48"
    by (rule base_value_12) (use ds assms(2) in auto)
  moreover have "stoull16 (s @ replicate ?j (CHR ''0'')) = Inr (of_nat (base_value 16 (ds @ replicate ?j 0)))"
    unfolding e by (rule stoull16_hex) (use ds assms(2,3) in auto)
  ultimately show ?thesis using that ds unfolding v by blast
qed

lemma ReturnNumbers_prefix:
  assumes "sorted arr" and bnd: "\<forall>x\<in>set arr. unat x < 2 ^ 48"
    and "hex_text s" and "length s < 12" and "s \<noteq> []"
  shows "ReturnNumbers s hm arr r =
    Inr (map (if r then Reverse else id)
          (take (unat hm) (filter (\<lambda>x. s = take (length s) (IntToSerialNumber x)) arr)))"
proof -
  let ?j = "12 - length s" and ?P = "\<lambda>x. s = take (length s) (IntToSerialNumber x)"
  obtain ds where ds: "s = map hex_digit ds" "\<forall>d\<in>set ds. d < 16" "length ds = length s"
    and st: "stoull16 (s @ replicate ?j (CHR ''0'')) = Inr (of_nat (base_value 16 ds * 16 ^ ?j))"
    and b: "base_value 16 ds * 16 ^ ?j < 2 ^ 48"
    using stoull_padded [OF assms(3-5)] by blast
  let ?lo = "of_nat (base_value 16 ds * 16 ^ ?j) :: u64"
  have lo: "unat ?lo = base_value 16 ds * 16 ^ ?j"
    using b by (simp add: unat_of_nat del: of_nat_mult)
  have P: "?P x \<longleftrightarrow> unat x div 16 ^ ?j = base_value 16 ds" if "x \<in> set arr" for x
    using prefix_number [OF ds(2), of ?j x] assms(4) bnd that unfolding ds(3) ds(1) [symmetric] by simp
  have "takeWhile ?P (dropWhile (\<lambda>y. y < ?lo) arr) = filter ?P arr"
  proof (rule sorted_interval [where Q = "\<lambda>x. unat x div 16 ^ ?j \<le> base_value 16 ds"])
    have q: "v * 16 ^ ?j \<le> n \<longleftrightarrow> v \<le> n div 16 ^ ?j" for v n :: nat
      by (simp add: less_eq_div_iff_mult_less_eq)
    show "\<forall>x\<in>set arr. ?P x \<longleftrightarrow> ?lo \<le> x \<and> unat x div 16 ^ ?j \<le> base_value 16 ds"
      using P unfolding word_le_nat_alt lo q by (metis le_antisym order_refl)
    show "\<forall>x y. x \<le> y \<longrightarrow> unat y div 16 ^ ?j \<le> base_value 16 ds \<longrightarrow> unat x div 16 ^ ?j \<le> base_value 16 ds"
      by (meson div_le_mono order_trans word_le_nat_alt)
  qed (rule assms(1))
  moreover have "\<forall>x\<in>set (dropWhile (\<lambda>y. y < ?lo) arr). unat x < 2 ^ 48"
    using bnd by (auto dest: set_dropWhileD)
  ultimately show ?thesis
    using assms(4) by (simp add: ReturnNumbers_def st ReturnNumbers_loop_takeWhile del: of_nat_mult)
qed

text \<open>What a search is asked for: the numbers whose printed form has the given ending.\<close>

definition has_suffix :: "string \<Rightarrow> u64 \<Rightarrow> bool" where
  "has_suffix s n \<longleftrightarrow> drop (12 - length s) (IntToSerialNumber n) = s"

definition has_prefix :: "string \<Rightarrow> u64 \<Rightarrow> bool" where
  "has_prefix s n \<longleftrightarrow> s = take (length s) (IntToSerialNumber n)"

text \<open>
  C31: in a consistent cache a search for a non-empty text of fewer than twelve hexadecimal
  digits gives, in increasing order, the first numbers that start with it, as many as asked
  for, and no other.
\<close>

theorem FindNumbers_prefix:
  assumes "sc_inv c" and "hex_text s" and "s \<noteq> []" and "length s < 12"
  shows "FindNumbers s hm c = Inr (take (unat hm) (filter (has_prefix s) (SNs c)))"
proof -
  have "CHR ''*'' \<notin> set ''0123456789abcdef''" by simp
  then have "hd s \<noteq> CHR ''*''" using assms(2,3) by (cases s) (auto simp: hex_text_def)
  then have "FindNumbers s hm c = ReturnNumbers s hm (SNs c) False"
    using assms(3) by (cases s) (simp_all add: FindNumbers_def)
  moreover have "has_prefix s = (\<lambda>n. s = take (length s) (IntToSerialNumber n))"
    by (rule ext) (simp add: has_prefix_def)
  ultimately show ?thesis
    using ReturnNumbers_prefix [OF _ _ assms(2,4,3), of "SNs c" hm False] assms(1) by (simp add: sc_inv_def)
qed

lemma Serial_rev: "unat n < 2 ^ 48 \<Longrightarrow> IntToSerialNumber (Reverse n) = rev (IntToSerialNumber n)"
  by (simp add: IntToSerialNumber_digs digs_Reverse rev_map del: digs.simps)

lemma length_Serial: "length (IntToSerialNumber n) = 12"
  by (simp add: IntToSerialNumber_digs)

lemma has_suffix_Reverse:
  "unat n < 2 ^ 48 \<Longrightarrow>
   rev s = take (length (rev s)) (IntToSerialNumber (Reverse n)) \<longleftrightarrow> has_suffix s n"
  by (simp add: Serial_rev has_suffix_def take_rev length_Serial) auto

lemma hex_text_rev: "hex_text (rev s) = hex_text s"
  by (simp add: hex_text_def list_all_iff)

text \<open>
  A search for a star and fewer than twelve hexadecimal digits gives distinct known numbers
  that end in these digits, and as many as were asked for and exist.
\<close>

theorem FindNumbers_suffix:
  assumes "sc_inv c" and "hex_text s" and "s \<noteq> []" and "length s < 12"
  shows "\<exists>A. FindNumbers (CHR ''*'' # s) hm c = Inr A \<and> distinct A \<and>
             set A \<subseteq> {n \<in> set (SNs c). has_suffix s n} \<and>
             length A = min (unat hm) (length (filter (has_suffix s) (SNs c)))"
proof -
  let ?P = "\<lambda>x. rev s = take (length (rev s)) (IntToSerialNumber x)"
  let ?R = "take (unat hm) (filter ?P (Reverse_SNs c))"
  have b: "\<forall>n\<in>set (SNs c). unat n < 2 ^ 48" and m: "mset (Reverse_SNs c) = image_mset Reverse (mset (SNs c))"
    and dist: "distinct (SNs c)" and srt: "sorted (Reverse_SNs c)"
    using assms(1) by (simp_all add: sc_inv_def)
  have set_R: "set (Reverse_SNs c) = Reverse ` set (SNs c)"
    using arg_cong [OF m, of set_mset] by simp
  have bR: "\<forall>x\<in>set (Reverse_SNs c). unat x < 2 ^ 48" using b Reverse_bound by (auto simp: set_R)
  have inj: "inj_on Reverse (set (Reverse_SNs c))" using bR Reverse_Reverse by (metis inj_onI)
  have inj': "inj_on Reverse (set (SNs c))" using b Reverse_Reverse by (metis inj_onI)
  have "mset (Reverse_SNs c) = mset (map Reverse (SNs c))" by (simp add: m)
  then have dR: "distinct (Reverse_SNs c)"
    using dist inj' by (metis distinct_map mset_eq_imp_distinct_iff)
  have find: "FindNumbers (CHR ''*'' # s) hm c = Inr (map Reverse ?R)"
    using ReturnNumbers_prefix [OF srt bR, of "rev s" hm True] assms(2-4)
    by (simp add: FindNumbers_def hex_text_rev)
  have "distinct (map Reverse ?R)"
    using dR inj by (auto simp: distinct_map intro!: distinct_take inj_on_subset [OF inj] dest!: in_set_takeD)
  moreover have "set (map Reverse ?R) \<subseteq> {n \<in> set (SNs c). has_suffix s n}"
    using b Reverse_Reverse has_suffix_Reverse by (auto simp: set_R dest!: in_set_takeD)
  moreover have "length (filter ?P (Reverse_SNs c)) = length (filter (has_suffix s) (SNs c))"
  proof -
    have "length (filter ?P (Reverse_SNs c)) = size (filter_mset ?P (image_mset Reverse (mset (SNs c))))"
      by (metis m mset_filter size_mset)
    also have "\<dots> = size (filter_mset (\<lambda>n. ?P (Reverse n)) (mset (SNs c)))"
      by (simp add: filter_mset_image_mset)
    also have "filter_mset (\<lambda>n. ?P (Reverse n)) (mset (SNs c)) = filter_mset (has_suffix s) (mset (SNs c))"
      by (rule filter_mset_cong) (use b has_suffix_Reverse in auto)
    finally show ?thesis by (metis mset_filter size_mset)
  qed
  ultimately show ?thesis using find by (intro exI [of _ "map Reverse ?R"]) (simp add: min.commute)
qed

text \<open>A cache of two numbers, to evaluate the properties on.\<close>

definition sc_example :: serial_cache where
  "sc_example = \<lparr> SNs = [0x24f5a207a130, 0x24f5a207a131],
                  Reverse_SNs = [0x031a702a5f42, 0x131a702a5f42] \<rparr>"

lemma Reverse_examples: "Reverse 0x24f5a207a130 = 0x031a702a5f42" "Reverse 0x24f5a207a131 = 0x131a702a5f42"
  by code_simp+

lemma sc_inv_example: "sc_inv sc_example"
  by (simp add: sc_inv_def sc_example_def Reverse_examples)

lemma stoull_example: "stoull16 ''24f5a207a131'' = Inr 0x24f5a207a131"
  using stoull16_hex [of "[2,4,15,5,10,2,0,7,10,1,3,1]"] by (simp add: hex_digit_def)

theorem FindNumbers_prefix_witness:
  "FindNumbers ''24f5a2'' 1 sc_example = Inr (take 1 (filter (has_prefix ''24f5a2'') (SNs sc_example)))"
  using FindNumbers_prefix [of sc_example "''24f5a2''" 1] by (simp add: sc_inv_example hex_text_def)

theorem FindNumbers_suffix_witness:
  "\<exists>A. FindNumbers ''*131'' 5 sc_example = Inr A \<and> distinct A \<and>
       set A \<subseteq> {n \<in> set (SNs sc_example). has_suffix ''131'' n}"
  using FindNumbers_suffix [of sc_example "''131''" 5] by (auto simp add: sc_inv_example hex_text_def)

text \<open>
  A text that is not a serial number can leave the two vectors inconsistent: the forward number
  is stored before the reversed text is parsed.
\<close>

lemma AddSerialNumber_half: "AddSerialNumber ''1x'' sc_empty = (Inl Invalid_Argument, \<lparr> SNs = [1], Reverse_SNs = [] \<rparr>)"
  by (simp add: AddSerialNumber_def stoull16_def strip_sign_def strip_0x_def isspace_def isxdigit_def
      isdigit_def less_eq_char_def hex_value_def char_code_def sc_empty_def ReverseSerialNumber_def
      insert_at_lower_bound_def Let_def)

end
