(* ===== verification/GW_Provision.thy ===== *)
theory GW_Provision
  imports GW_Devices
begin

text \<open>
  Provisioning of devices seen for the first time: the default configurations of
  \<^verbatim>\<open>src/storage/storage_defconfig.cpp\<close>, the capability rows of \<^verbatim>\<open>storage_capabilities.cpp\<close>, the automatic
  creation of a device in \<^verbatim>\<open>storage_device.cpp\<close>, and the tags its dashboard groups devices by.
\<close>

section \<open>Default configurations\<close>

definition defconfig_of_row :: "codec \<Rightarrow> def_config_row \<Rightarrow> def_config" where
  "defconfig_of_row c r =
     (case r of (a, b, m, d, cr, lm, pl) \<Rightarrow>
        \<lparr> dc_name = a, dc_configuration = b, dc_models = strs_in c m, dc_description = d, dc_created = cr,
          dc_lastModified = lm, dc_platform = pl \<rparr>)"

definition defconfig_to_row :: "codec \<Rightarrow> def_config \<Rightarrow> def_config_row" where
  "defconfig_to_row c d =
     (dc_name d, dc_configuration d, strs_out c (dc_models d), dc_description d, dc_created d,
      dc_lastModified d, dc_platform d)"

text \<open>The name argument is looked up, the name of the object is inserted; a row with that name is an error.\<close>

definition CreateDefaultConfiguration ::
    "poco \<Rightarrow> codec \<Rightarrow> string \<Rightarrow> def_config \<Rightarrow> storage \<Rightarrow> bool storage_result" where
  "CreateDefaultConfiguration p c name d st =
     (if \<not> readable st then (Inr False, st)
      else if name \<noteq> [] \<and> om_find (def_rows st) name \<noteq> None then (Inr False, st)
      else if Config_Valid p (dc_configuration d) then
        (if writable st \<and> om_find (def_rows st) (dc_name d) = None
         then (Inr True, st\<lparr> def_rows := om_set (dc_name d) (defconfig_to_row c d) (def_rows st) \<rparr>)
         else (Inr False, st))
      else (Inr False, st))"

definition DeleteDefaultConfiguration :: "string \<Rightarrow> storage \<Rightarrow> bool storage_result" where
  "DeleteDefaultConfiguration name st =
     (if writable st then (Inr True, st\<lparr> def_rows := om_erase name (def_rows st) \<rparr>) else (Inr False, st))"

definition UpdateDefaultConfiguration :: "codec \<Rightarrow> u64 \<Rightarrow> string \<Rightarrow> def_config \<Rightarrow> storage \<Rightarrow> bool storage_result" where
  "UpdateDefaultConfiguration c now name d st =
     (let d = d\<lparr> dc_lastModified := now \<rparr> in
      if \<not> writable st then (Inr False, st)
      else if om_find (def_rows st) name = None then (Inr True, st)
      else if dc_name d \<noteq> name \<and> om_find (def_rows st) (dc_name d) \<noteq> None then (Inr False, st)
      else (Inr True, st\<lparr> def_rows := om_set (dc_name d) (defconfig_to_row c d) (om_erase name (def_rows st)) \<rparr>))"

definition GetDefaultConfiguration :: "codec \<Rightarrow> string \<Rightarrow> storage \<Rightarrow> def_config option" where
  "GetDefaultConfiguration c name st =
     (if readable st then map_option (defconfig_of_row c) (om_find (def_rows st) name) else None)"

definition DefaultConfigurationAlreadyExists :: "string \<Rightarrow> storage \<Rightarrow> bool" where
  "DefaultConfigurationAlreadyExists name st \<longleftrightarrow> readable st \<and> om_find (def_rows st) name \<noteq> None"

definition GetDefaultConfigurations :: "codec \<Rightarrow> nat \<Rightarrow> nat \<Rightarrow> storage \<Rightarrow> def_config list option" where
  "GetDefaultConfigurations c from howmany st =
     (if readable st
      then Some (map (defconfig_of_row c) (take howmany (drop from (map snd (def_rows st))))) else None)"

definition GetDefaultConfigurationsCount :: "storage \<Rightarrow> nat" where
  "GetDefaultConfigurationsCount st = (if readable st then length (def_rows st) else 0)"

text \<open>
  \<open>cfg\<close> is the object the caller passes by reference: its platform is what the loop compares with,
  not the platform of the default configuration under the loop.
\<close>

fun find_default :: "string \<Rightarrow> string \<Rightarrow> def_config \<Rightarrow> def_config list \<Rightarrow> def_config option" where
  "find_default model platform cfg [] = None"
| "find_default model platform cfg (d # ds) =
     (if (\<exists>m\<in>set (dc_models d). (m = ''*'' \<or> m = model) \<and> dc_platform cfg = platform) then Some d
      else find_default model platform cfg ds)"

definition FindDefaultConfigurationForModel ::
    "codec \<Rightarrow> string \<Rightarrow> string \<Rightarrow> def_config \<Rightarrow> storage \<Rightarrow> def_config option" where
  "FindDefaultConfigurationForModel c model platform cfg st =
     (if readable st
      then find_default model platform cfg (map (\<lambda>(k, r). defconfig_of_row c r) (def_rows st)) else None)"

text \<open>A default-constructed object; its two time stamps are not initialised and never read.\<close>

definition fresh_def_config :: "u64 \<Rightarrow> u64 \<Rightarrow> def_config" where
  "fresh_def_config g g' =
     \<lparr> dc_name = [], dc_configuration = [], dc_models = [], dc_description = [], dc_created = g,
       dc_lastModified = g', dc_platform = [] \<rparr>"

lemma find_default_platform: "dc_platform cfg \<noteq> platform \<Longrightarrow> find_default model platform cfg ds = None"
  by (induction ds) auto

text \<open>
  The search for a default configuration, started with a fresh object as its only caller does,
  finds nothing for a device that names its platform, whatever default configurations are stored.
\<close>

theorem FindDefaultConfiguration_never:
  "platform \<noteq> [] \<Longrightarrow> FindDefaultConfigurationForModel c model platform (fresh_def_config g g') st = None"
  by (simp add: FindDefaultConfigurationForModel_def fresh_def_config_def find_default_platform)

text \<open>
  A default configuration that was created is found again by its name, with the fields it was
  created with.
\<close>

theorem DefaultConfiguration_created:
  assumes "om_wf (def_rows st)" and "readable st" and "writable st" and "om_find (def_rows st) (dc_name d) = None"
    and "Config_Valid p (dc_configuration d)" and "strs_in c (strs_out c (dc_models d)) = dc_models d"
  shows "\<exists>st'. CreateDefaultConfiguration p c (dc_name d) d st = (Inr True, st') \<and>
           GetDefaultConfiguration c (dc_name d) st' = Some d \<and> om_wf (def_rows st')"
  using assms
  by (simp add: CreateDefaultConfiguration_def GetDefaultConfiguration_def om.lookup_same om_wf_set
      defconfig_of_row_def defconfig_to_row_def)

section \<open>Capability rows\<close>

text \<open>\<^verbatim>\<open>insert ... on conflict do update\<close>: the first time stamp of an existing row stays.\<close>

definition upsert_caps :: "u64 \<Rightarrow> string \<Rightarrow> string \<Rightarrow> storage \<Rightarrow> bool storage_result" where
  "upsert_caps now s text st =
     (if \<not> writable st then (Inr False, st)
      else
        let first = (case om_find (caps_rows st) s of None \<Rightarrow> now | Some (_, f, _) \<Rightarrow> f)
        in (Inr True, st\<lparr> caps_rows := om_set s (text, first, now) (caps_rows st) \<rparr>))"

definition CreateDeviceCapabilities :: "u64 \<Rightarrow> string \<Rightarrow> capabilities \<Rightarrow> storage \<Rightarrow> bool storage_result" where
  "CreateDeviceCapabilities now s caps st = upsert_caps now s (AsString caps) st"

text \<open>Adding to the cache, as the storage calls it.\<close>

definition cache_caps ::
    "poco \<Rightarrow> (string \<Rightarrow> cpp_exn + json) \<Rightarrow> (string \<Rightarrow> json \<Rightarrow> cpp_exn + json) \<Rightarrow> capabilities \<Rightarrow> storage \<Rightarrow>
     unit storage_result" where
  "cache_caps p nl_parse nl_erase caps st =
     (case Caps_Add (p_toLower p) nl_parse nl_erase caps (caps_cache st) of
        (r, cc) \<Rightarrow> (r, st\<lparr> caps_cache := cc \<rparr>))"

definition UpdateDeviceCapabilities ::
    "poco \<Rightarrow> (string \<Rightarrow> cpp_exn + json) \<Rightarrow> (string \<Rightarrow> json \<Rightarrow> cpp_exn + json) \<Rightarrow> u64 \<Rightarrow> string \<Rightarrow> capabilities \<Rightarrow>
     storage \<Rightarrow> bool storage_result" where
  "UpdateDeviceCapabilities p nl_parse nl_erase now s caps st =
     (case (if Compatible caps \<noteq> [] \<and> Platform caps \<noteq> [] then cache_caps p nl_parse nl_erase caps st
            else (Inr (), st)) of
        (Inl e, st) \<Rightarrow> if poco_exn e then (Inr False, st) else (Inl e, st)
      | (Inr _, st) \<Rightarrow> upsert_caps now s (AsString caps) st)"

definition GetDeviceCapabilities :: "string \<Rightarrow> storage \<Rightarrow> (string \<times> u64 \<times> u64) option" where
  "GetDeviceCapabilities s st = (if readable st \<and> s \<noteq> [] then om_find (caps_rows st) s else None)"

definition DeleteDeviceCapabilities :: "string \<Rightarrow> storage \<Rightarrow> bool storage_result" where
  "DeleteDeviceCapabilities s st =
     (if writable st then (Inr True, st\<lparr> caps_rows := om_erase s (caps_rows st) \<rparr>) else (Inr False, st))"

section \<open>The country of the radios\<close>

text \<open>
  \<^verbatim>\<open>nlohmann::json::empty\<close> is true of null and of empty containers only. Assigning a member to a
  value that is neither an object nor null raises; the exception is swallowed and the configuration
  stays as it was, but a country already looked up is still answered.
\<close>

definition nl_empty :: "json \<Rightarrow> bool" where
  "nl_empty j = (case j of JNull \<Rightarrow> True | JArr xs \<Rightarrow> xs = [] | JObj o' \<Rightarrow> o' = [] | _ \<Rightarrow> False)"

definition has_country :: "json \<Rightarrow> bool" where
  "has_country j =
     (case j of
        JObj o' \<Rightarrow> (case om_find o' ''country'' of
                     Some v \<Rightarrow> \<not> nl_empty v \<and> v \<noteq> JStr ''**''
                   | None \<Rightarrow> False)
      | _ \<Rightarrow> False)"

fun regulate_radios :: "string \<Rightarrow> string \<Rightarrow> json list \<Rightarrow> json list option \<times> string" where
  "regulate_radios country found [] = (Some [], found)"
| "regulate_radios country found (i # is) =
     (if has_country i then
        (case regulate_radios country found is of (r, f) \<Rightarrow> (map_option (\<lambda>xs. i # xs) r, f))
      else
        let found = (if found = [] then country else found) in
        case (case i of JObj o' \<Rightarrow> Some o' | JNull \<Rightarrow> Some [] | _ \<Rightarrow> None) of
          None \<Rightarrow> (None, found)
        | Some o' \<Rightarrow>
            (case regulate_radios country found is of
               (r, f) \<Rightarrow> (map_option (\<lambda>xs. JObj (om_set ''country'' (JStr found) o') # xs) r, f)))"

definition InsertRadiosCountyRegulation ::
    "(string \<Rightarrow> json option) \<Rightarrow> (json \<Rightarrow> string) \<Rightarrow> string \<Rightarrow> string \<Rightarrow> string \<times> string" where
  "InsertRadiosCountyRegulation nl_parse nl_dump country config =
     (case nl_parse config of
        Some (JObj cfg) \<Rightarrow>
          if j_isArray cfg ''radios'' then
            (case regulate_radios country [] (j_getArray cfg ''radios'') of
               (Some radios, found) \<Rightarrow> (nl_dump (JObj (om_set ''radios'' (JArr radios) cfg)), found)
             | (None, found) \<Rightarrow> (config, found))
          else (config, [])
      | _ \<Rightarrow> (config, []))"

definition country_of :: "json \<Rightarrow> string \<Rightarrow> bool" where
  "country_of j s \<longleftrightarrow> (case j of JObj o' \<Rightarrow> om_find o' ''country'' = Some (JStr s) | _ \<Rightarrow> False)"

lemma regulate_radios_spec:
  "(found = [] \<or> found = country) \<Longrightarrow> (\<forall>o'. JObj o' \<in> set is \<longrightarrow> om_wf o') \<Longrightarrow>
   regulate_radios country found is = (Some rs, f) \<Longrightarrow>
   length rs = length is \<and>
   (\<forall>n<length is. if has_country (is ! n) then rs ! n = is ! n else country_of (rs ! n) country)"
proof (induction "is" arbitrary: found rs f)
  case (Cons i "is")
  show ?case
  proof (cases "has_country i")
    case True
    from Cons.prems(3) True obtain rs' where
      r: "regulate_radios country found is = (Some rs', f)" "rs = i # rs'"
      by (auto split: prod.splits option.splits)
    from Cons.IH [OF Cons.prems(1) _ r(1)] Cons.prems(2) True r(2) show ?thesis
      by (auto simp: nth_Cons split: nat.split)
  next
    case False
    let ?f = "if found = [] then country else found"
    have fc: "?f = country" using Cons.prems(1) by auto
    from Cons.prems(3) False obtain o' rs' where
      o: "(case i of JObj o' \<Rightarrow> Some o' | JNull \<Rightarrow> Some [] | _ \<Rightarrow> None) = Some o'" and
      r: "regulate_radios country country is = (Some rs', f)" "rs = JObj (om_set ''country'' (JStr country) o') # rs'"
      unfolding regulate_radios.simps Let_def fc by (auto split: prod.splits option.splits)
    have "om_wf o'" using o Cons.prems(2) by (cases i) auto
    then have "country_of (JObj (om_set ''country'' (JStr country) o')) country"
      by (simp add: country_of_def om.lookup_same)
    with Cons.IH [OF _ _ r(1)] Cons.prems(2) False r(2) show ?thesis
      by (auto simp: nth_Cons split: nat.split)
  qed
qed simp

text \<open>
  When the loop over the radios completes, every radio that already named a country other than
  the wildcard is unchanged and every other radio has the country of the device's address.
\<close>

theorem radios_country:
  assumes "regulate_radios country [] radios = (Some radios', found)"
    and "\<forall>obj. JObj obj \<in> set radios \<longrightarrow> om_wf obj"
  shows "length radios' = length radios \<and>
         (\<forall>n<length radios. if has_country (radios ! n) then radios' ! n = radios ! n
                            else country_of (radios' ! n) country)"
  using regulate_radios_spec [OF _ assms(2,1)] by simp

theorem radios_country_witness:
  "\<exists>rs' f. regulate_radios ''US'' [] [JObj [(''band'', JStr ''2G'')], JObj [(''country'', JStr ''CA'')]] = (Some rs', f) \<and>
     country_of (rs' ! 0) ''US'' \<and> rs' ! 1 = JObj [(''country'', JStr ''CA'')]"
proof -
  let ?rs = "[JObj [(''band'', JStr ''2G'')], JObj [(''country'', JStr ''CA'')]]"
  obtain rs' f where r: "regulate_radios ''US'' [] ?rs = (Some rs', f)"
    by (simp add: has_country_def om_find_def nl_empty_def Let_def)
  have "\<forall>obj. JObj obj \<in> set ?rs \<longrightarrow> om_wf obj" by (auto simp: om_wf_def)
  with radios_country [OF r] r show ?thesis by (auto simp: has_country_def om_find_def nl_empty_def Let_def)
qed

section \<open>Automatic creation of a device\<close>

text \<open>
  \<open>prov\<close> is what the provisioning service answers, \<open>None\<close> when it is not used or has nothing;
  \<open>use_defaults\<close> is the server's setting. A configuration whose identifier cannot be stored is
  used as it is.
\<close>

definition with_uuid :: "poco \<Rightarrow> u64 \<Rightarrow> string \<Rightarrow> cpp_exn + string" where
  "with_uuid p now text = map_sum id snd (Config_SetUUID p text now)"

definition initial_config ::
    "poco \<Rightarrow> codec \<Rightarrow> u64 \<Rightarrow> string option \<Rightarrow> bool \<Rightarrow> string \<Rightarrow> def_config \<Rightarrow> capabilities \<Rightarrow> storage \<Rightarrow> cpp_exn + string" where
  "initial_config p c now prov use_defaults default_text cfg caps st =
     (case prov of
        Some found \<Rightarrow>
          if found \<noteq> ''none'' then with_uuid p now found
          else (case (if use_defaults then FindDefaultConfigurationForModel c (Compatible caps) (Platform caps) cfg st else None) of
                  Some d \<Rightarrow> with_uuid p now (dc_configuration d)
                | None \<Rightarrow> if Platform caps = ''ap'' then with_uuid p now default_text
                          else Inr (p_stringify p [(''uuid'', JInt (uint now))]))
      | None \<Rightarrow>
          (case (if use_defaults then FindDefaultConfigurationForModel c (Compatible caps) (Platform caps) cfg st else None) of
             Some d \<Rightarrow> with_uuid p now (dc_configuration d)
           | None \<Rightarrow> if Platform caps = ''ap'' then with_uuid p now default_text
                     else Inr (p_stringify p [(''uuid'', JInt (uint now))])))"

definition auto_device ::
    "poco \<Rightarrow> u64 \<Rightarrow> string \<Rightarrow> string \<Rightarrow> string \<Rightarrow> capabilities \<Rightarrow> string \<Rightarrow> bool \<Rightarrow> restrictions \<Rightarrow> device" where
  "auto_device p now s config country caps firmware sim no_restrictions =
     \<lparr> SerialNumber = p_toLower p s, DeviceType = p_toLower p (Platform caps), MACAddress = SerialToMAC s,
       Manufacturer = Model caps, Configuration = config,
       Notes = [\<lparr> created = now, createdBy = [], note_text = ''Auto-provisioned.'' \<rparr>], Owner = [], Location = [],
       Firmware = firmware, dCompatible = (if Compatible caps = [] then Model caps else Compatible caps),
       FWUpdatePolicy = [], UUID = 0, CreationTimestamp = 0, LastConfigurationChange = 0,
       LastConfigurationDownload = 0, LastFWUpdate = 0, Venue = [], DevicePassword = [], subscriber = [],
       entity = [], modified = 0, locale_ident = country, restrictedDevice = False, pendingConfiguration = [],
       pendingConfigurationCmd = [], restrictionDetails = no_restrictions, pendingUUID = 0, simulated = sim,
       lastRecordedContact = 0, certificateExpiryDate = 0, connectReason = [], blackListed = False \<rparr>"

definition CreateDefaultDevice ::
    "poco \<Rightarrow> codec \<Rightarrow> (string \<Rightarrow> cpp_exn + json) \<Rightarrow> (string \<Rightarrow> json \<Rightarrow> cpp_exn + json) \<Rightarrow> (string \<Rightarrow> json option) \<Rightarrow>
     (json \<Rightarrow> string) \<Rightarrow> string option \<Rightarrow> bool \<Rightarrow> string \<Rightarrow> string \<Rightarrow> u64 \<Rightarrow> string \<Rightarrow> capabilities \<Rightarrow> string \<Rightarrow> bool \<Rightarrow>
     storage \<Rightarrow> bool storage_result" where
  "CreateDefaultDevice p c nl_try nl_erase nl_parse nl_dump prov use_defaults default_text country now s caps
     firmware sim st =
     (case (if Platform caps \<noteq> [] \<and> Compatible caps \<noteq> [] then cache_caps p nl_try nl_erase caps st
            else (Inr (), st)) of
        (Inl e, st) \<Rightarrow> (Inl e, st)
      | (Inr _, st) \<Rightarrow>
          (case initial_config p c now prov use_defaults default_text (fresh_def_config 0 0) caps st of
             Inl e \<Rightarrow> (Inl e, st)
           | Inr config \<Rightarrow>
               (case InsertRadiosCountyRegulation nl_parse nl_dump country config of
                  (config, found) \<Rightarrow>
                    let d = auto_device p now s config found caps firmware sim plain_restrictions in
                    CreateDevice p c now now d (snd (CreateDeviceCapabilities now s caps st)))))"

lemma mirrored_caps [simp]:
  "mirrored (st\<lparr> caps_rows := x \<rparr>) = mirrored st" "mirrored (st\<lparr> caps_cache := y \<rparr>) = mirrored st"
  by (simp_all add: mirrored_def storage_wf_def)

lemma cache_caps_frame [gw_frame]:
  "snd (cache_caps p a b caps st) = st\<lparr> caps_cache := caps_cache (snd (cache_caps p a b caps st)) \<rparr>"
  by (simp add: cache_caps_def split: prod.split)

section \<open>Dashboard tags\<close>

definition SECONDS_MONTH :: u64 where "SECONDS_MONTH = 30 * 24 * 60 * 60"
definition SECONDS_WEEK :: u64 where "SECONDS_WEEK = 7 * 24 * 60 * 60"
definition SECONDS_DAY :: u64 where "SECONDS_DAY = 1 * 24 * 60 * 60"
definition SECONDS_HOUR :: u64 where "SECONDS_HOUR = 60 * 60"

definition age_tag :: "u64 \<Rightarrow> string" where
  "age_tag t =
     (if t > SECONDS_MONTH then ''>month'' else if t > SECONDS_WEEK then ''>week''
      else if t > SECONDS_DAY then ''>day'' else if t > SECONDS_HOUR then ''>hour'' else ''now'')"

definition ComputeUpLastContactTag :: "u64 \<Rightarrow> u64 \<Rightarrow> string" where
  "ComputeUpLastContactTag now t1 = age_tag (t1 - now)"

definition ComputeUpTimeTag :: "u64 \<Rightarrow> string" where
  "ComputeUpTimeTag t = age_tag t"

definition ComputeSanityTag :: "u64 \<Rightarrow> string" where
  "ComputeSanityTag t = (if t = 100 then ''100%'' else if t > 90 then ''>90%'' else if t > 60 then ''>60%'' else ''<60%'')"

datatype certificate_validation = NO_CERTIFICATE | VALID_CERTIFICATE | MISMATCH_SERIAL | VERIFIED | SIMULATED

definition ComputeCertificateTag :: "certificate_validation \<Rightarrow> string" where
  "ComputeCertificateTag v =
     (case v of NO_CERTIFICATE \<Rightarrow> ''no certificate'' | VALID_CERTIFICATE \<Rightarrow> ''non TIP certificate''
      | MISMATCH_SERIAL \<Rightarrow> ''serial mismatch'' | VERIFIED \<Rightarrow> ''verified'' | SIMULATED \<Rightarrow> ''simulated'')"

text \<open>
  The last-contact tag subtracts the clock from the contact instead of the other way round,
  so with unsigned arithmetic every contact in the past is tagged as more than a month old, one
  second ago included, until the clock reaches \<^verbatim>\<open>2^63\<close> seconds.
\<close>

theorem last_contact_tag:
  assumes "t < now" and "now < 2 ^ 63"
  shows "ComputeUpLastContactTag now t = ''>month''"
proof -
  have lt: "unat t < unat now" using assms(1) by (simp add: word_less_nat_alt)
  have lt63: "unat now < 2 ^ 63" using assms(2) by (simp add: word_less_nat_alt)
  have "unat (t - now) = 2 ^ 64 + unat t - unat now"
    using lt by (simp add: unat_sub_if_size word_size)
  then have "unat SECONDS_MONTH < unat (t - now)" using lt63 by (simp add: SECONDS_MONTH_def)
  then show ?thesis by (simp add: ComputeUpLastContactTag_def age_tag_def word_less_nat_alt)
qed

theorem last_contact_tag_witness: "ComputeUpLastContactTag 1700000000 1699999999 = ''>month''"
  by (rule last_contact_tag) simp_all

theorem FindDefaultConfiguration_never_witness:
  "FindDefaultConfigurationForModel plain_codec ''m'' ''ap'' (fresh_def_config 0 0)
     (plain_storage\<lparr> def_rows := [(''d'', (''d'', ''{}'', ''*'', [], 0, 0, ''ap''))] \<rparr>) = None"
  by (rule FindDefaultConfiguration_never) simp

lemma plain_storage_fields: "def_rows plain_storage = []" "readable plain_storage" "writable plain_storage"
    "strs_in plain_codec (strs_out plain_codec [x]) = [x]"
  by (simp_all add: plain_storage_def plain_codec_def)

theorem DefaultConfiguration_created_witness:
  "\<exists>st'. CreateDefaultConfiguration plain_poco plain_codec ''d''
            \<lparr> dc_name = ''d'', dc_configuration = ''old'', dc_models = [''*''], dc_description = [],
              dc_created = 0, dc_lastModified = 0, dc_platform = ''ap'' \<rparr> plain_storage = (Inr True, st') \<and>
      om_find (def_rows st') ''d'' \<noteq> None"
  using DefaultConfiguration_created
    [of plain_storage "\<lparr> dc_name = ''d'', dc_configuration = ''old'', dc_models = [''*''], dc_description = [],
              dc_created = 0, dc_lastModified = 0, dc_platform = ''ap'' \<rparr>" plain_poco plain_codec]
    plain_config(1)
  by (auto simp: GetDefaultConfiguration_def plain_storage_fields split: if_splits)

end
