(* ===== verification/GW_ConnState.thy ===== *)
theory GW_ConnState
  imports GW_Provision
begin

text \<open>
  The state of one device connection: the fields of \<^verbatim>\<open>AP_WS_Connection\<close>
  (\<^verbatim>\<open>src/AP_WS_Connection.h\<close>) and of \<^verbatim>\<open>GWObjects::ConnectionState\<close>, the compressed copy of the last
  statistics (\<^verbatim>\<open>Utils::CompressedString\<close>), and the operations that read or write only these: accessors,
  sending, and telemetry. The socket and the logger are left out; a floating-point gauge is kept as the
  text of its value. What an operation sends to another component is returned as a list of effects in
  program order.
\<close>

section \<open>Compressed strings\<close>

record compressed =
  CompressedData :: string
  DecompressedSize :: nat

text \<open>
  \<open>gz\<close> is the complete output of \<^verbatim>\<open>deflate\<close> and \<open>gunz\<close> what \<^verbatim>\<open>inflate\<close> makes of an input with the given room.
  The output buffer has the size of the input: what does not fit is lost.
\<close>

definition CompressIt :: "(string \<Rightarrow> string) \<Rightarrow> string \<Rightarrow> compressed" where
  "CompressIt gz d = \<lparr> CompressedData = take (length d) (gz d), DecompressedSize = length d \<rparr>"

definition DecompressIt :: "(nat \<Rightarrow> string \<Rightarrow> string) \<Rightarrow> compressed \<Rightarrow> string" where
  "DecompressIt gunz c = (if DecompressedSize c \<noteq> 0 then gunz (DecompressedSize c) (CompressedData c) else [])"

text \<open>
  A text that \<^verbatim>\<open>deflate\<close> does not make longer is read back unchanged from its compressed copy.
\<close>

theorem CompressedString_roundtrip:
  assumes "\<forall>d. gunz (length d) (gz d) = d" and "length (gz d) \<le> length d"
  shows "DecompressIt gunz (CompressIt gz d) = d"
  using assms(1) [rule_format, of d] assms(2) by (simp add: DecompressIt_def CompressIt_def)

theorem CompressedString_roundtrip_witness:
  "DecompressIt (\<lambda>n s. rev s) (CompressIt rev ''uptime'') = ''uptime''"
  by (rule CompressedString_roundtrip) simp_all

section \<open>The records\<close>

record health_check =
  h_SerialNumber :: string
  h_UUID :: u64
  h_Data :: string
  h_Recorded :: u64
  h_Sanity :: u64

record conn_state =
  MessageCount :: u64
  s_Address :: string
  s_UUID :: u64
  PendingUUID :: u64
  s_TX :: u64
  s_RX :: u64
  Associations_2G :: u64
  Associations_5G :: u64
  Associations_6G :: u64
  s_Connected :: bool
  s_LastContact :: u64
  s_Firmware :: string
  VerifiedCertificate :: certificate_validation
  s_Compatible :: string
  kafkaClients :: u64
  webSocketClients :: u64
  kafkaPackets :: u64
  websocketPackets :: u64
  s_locale :: string
  started :: u64
  sessionId :: u64
  s_certificateExpiryDate :: u64
  certificateIssuerName :: string
  hasRADIUSSessions :: u64
  s_hasGPS :: bool
  sanity :: u64
  s_connectReason :: string
  uptime :: u64
  totalConnectionTime :: u64
  connectionCompletionTime :: string
  memoryUsed :: string
  s_load :: string
  s_temperature :: string

record connection =
  c_SerialNumber :: string
  c_SerialNumberInt :: u64
  c_Compatible :: string
  Registered :: bool
  PeerAddress :: string
  CId :: string
  CN :: string
  Errors :: u64
  TelemetryReporting :: bool
  TelemetryWebSocketRefCount :: u64
  TelemetryKafkaRefCount :: u64
  TelemetryWebSocketTimer :: u64
  TelemetryKafkaTimer :: u64
  TelemetryInterval :: u64
  TelemetryWebSocketPackets :: u64
  TelemetryKafkaPackets :: u64
  State :: conn_state
  RawLastStats :: compressed
  RawLastHealthcheck :: health_check
  Dead :: bool
  DeviceValidated :: bool
  Restrictions :: restrictions
  RTTYMustBeSecure :: bool
  c_hasGPS :: bool
  c_uuid :: u64
  Simulated :: bool
  c_LastContact :: u64
  IncomingFrame :: string

definition fresh_state :: "u64 \<Rightarrow> conn_state" where
  "fresh_state sid =
     \<lparr> MessageCount = 0, s_Address = [], s_UUID = 0, PendingUUID = 0, s_TX = 0, s_RX = 0, Associations_2G = 0,
       Associations_5G = 0, Associations_6G = 0, s_Connected = False, s_LastContact = 0, s_Firmware = [],
       VerifiedCertificate = NO_CERTIFICATE, s_Compatible = [], kafkaClients = 0, webSocketClients = 0,
       kafkaPackets = 0, websocketPackets = 0, s_locale = [], started = 0, sessionId = sid,
       s_certificateExpiryDate = 0, certificateIssuerName = [], hasRADIUSSessions = 0, s_hasGPS = False,
       sanity = 0, s_connectReason = [], uptime = 0, totalConnectionTime = 0,
       connectionCompletionTime = ''0'', memoryUsed = ''0'', s_load = ''0'', s_temperature = ''0'' \<rparr>"

text \<open>The constructor: the session identifier and a random identifier of its own, nothing else.\<close>

definition fresh_connection :: "u64 \<Rightarrow> u64 \<Rightarrow> connection" where
  "fresh_connection sid uuid =
     \<lparr> c_SerialNumber = [], c_SerialNumberInt = 0, c_Compatible = [], Registered = False, PeerAddress = [],
       CId = [], CN = [],
       Errors = 0, TelemetryReporting = False, TelemetryWebSocketRefCount = 0, TelemetryKafkaRefCount = 0,
       TelemetryWebSocketTimer = 0, TelemetryKafkaTimer = 0, TelemetryInterval = 0,
       TelemetryWebSocketPackets = 0, TelemetryKafkaPackets = 0, State = fresh_state sid,
       RawLastStats = \<lparr> CompressedData = [], DecompressedSize = 0 \<rparr>,
       RawLastHealthcheck = \<lparr> h_SerialNumber = [], h_UUID = 0, h_Data = [], h_Recorded = 0, h_Sanity = 0 \<rparr>,
       Dead = False, DeviceValidated = False, Restrictions = plain_restrictions, RTTYMustBeSecure = False,
       c_hasGPS = False, c_uuid = uuid, Simulated = False, c_LastContact = 0, IncomingFrame = [] \<rparr>"

definition conn_Start :: "u64 \<Rightarrow> connection \<Rightarrow> connection" where
  "conn_Start now c = c\<lparr> Registered := True, c_LastContact := now \<rparr>"

section \<open>Effects\<close>

record device_log =
  dl_SerialNumber :: string
  dl_Log :: string
  dl_Data :: string
  dl_Severity :: u64
  dl_Recorded :: u64
  dl_LogType :: u64
  dl_UUID :: u64

text \<open>
  \<open>Eff_Kafka topic key message\<close> is a message posted to Kafka, \<open>Eff_Command\<close> a command posted for a device with
  its RPC number, \<open>Eff_AddCommand\<close> its record in the command table, \<open>Eff_Notify\<close> a notification for web-socket
  clients; the others carry the name of the call they stand for.
\<close>

datatype effect =
    Eff_AddRX u64
  | Eff_AddTX u64
  | Eff_DecrementConnectionCount
  | Eff_Send string
  | Eff_Pong
  | Eff_Close
  | Eff_Cleanup u64 u64
  | Eff_StartSession u64 u64
  | Eff_ClearQueue u64
  | Eff_CommandResult string jobject
  | Eff_Command u64 string string jobject string
  | Eff_AddCommand string string string string
  | Eff_SetCommandResult string string
  | Eff_Kafka string string jobject
  | Eff_KafkaText string string string
  | Eff_Radius string string string
  | Eff_RadiusDisconnect string
  | Eff_Notify string string
  | Eff_ConfigurationChange string u64 u64
  | Eff_Statistics string u64 string u64
  | Eff_Health health_check
  | Eff_Log device_log
  | Eff_LogEvent u64 device_log
  | Eff_WebSocketTelemetry u64 string
  | Eff_VenueBroadcast string "jobject option" u64

section \<open>Accessors\<close>

text \<open>A dead connection leaves the caller's object as it is; \<open>None\<close> stands for that.\<close>

definition GetLastStats :: "(nat \<Rightarrow> string \<Rightarrow> string) \<Rightarrow> connection \<Rightarrow> string option" where
  "GetLastStats gunz c = (if Dead c then None else Some (DecompressIt gunz (RawLastStats c)))"

definition GetLastHealthCheck :: "connection \<Rightarrow> health_check option" where
  "GetLastHealthCheck c = (if Dead c then None else Some (RawLastHealthcheck c))"

definition conn_GetState :: "connection \<Rightarrow> conn_state option" where
  "conn_GetState c = (if Dead c then None else Some (State c))"

definition SetLastHealthCheck :: "health_check \<Rightarrow> connection \<Rightarrow> connection" where
  "SetLastHealthCheck h c = c\<lparr> RawLastHealthcheck := h \<rparr>"

record telemetry_parameters =
  tp_Reporting :: bool
  tp_Interval :: u64
  tp_WebSocketTimer :: u64
  tp_KafkaTimer :: u64
  tp_WebSocketCount :: u64
  tp_KafkaCount :: u64
  tp_WebSocketPackets :: u64
  tp_KafkaPackets :: u64

definition conn_GetTelemetryParameters :: "connection \<Rightarrow> telemetry_parameters" where
  "conn_GetTelemetryParameters c =
     \<lparr> tp_Reporting = TelemetryReporting c, tp_Interval = TelemetryInterval c,
       tp_WebSocketTimer = TelemetryWebSocketTimer c, tp_KafkaTimer = TelemetryKafkaTimer c,
       tp_WebSocketCount = TelemetryWebSocketRefCount c, tp_KafkaCount = TelemetryKafkaRefCount c,
       tp_WebSocketPackets = TelemetryWebSocketPackets c, tp_KafkaPackets = TelemetryKafkaPackets c \<rparr>"

section \<open>Sending\<close>

text \<open>
  What the socket makes of a frame: the number of bytes sent and acknowledged in time, no
  acknowledgement within four seconds, or a Poco exception.
\<close>

datatype send_outcome = Sent_Acked nat | Sent_Unacked | Send_Failed

definition conn_Send :: "(string \<Rightarrow> send_outcome) \<Rightarrow> string \<Rightarrow> connection \<Rightarrow> bool \<times> connection \<times> effect list" where
  "conn_Send ws payload c =
     (case ws payload of
        Sent_Acked n \<Rightarrow>
          (n = length payload, c\<lparr> State := (State c)\<lparr> s_TX := s_TX (State c) + of_nat n \<rparr> \<rparr>,
           [Eff_Send payload, Eff_AddTX (of_nat n)])
      | Sent_Unacked \<Rightarrow> (False, c, [Eff_Send payload])
      | Send_Failed \<Rightarrow> (False, c, []))"

section \<open>Telemetry\<close>

definition telemetry_message :: "poco \<Rightarrow> string \<Rightarrow> u64 \<Rightarrow> u64 \<Rightarrow> json list option \<Rightarrow> string" where
  "telemetry_message p serial interval rpc types =
     (let params0 = om_set ''interval'' (JInt (uint interval)) (om_set ''serial'' (JStr serial) []);
          params = (case types of None \<Rightarrow> params0 | Some ts \<Rightarrow> om_set ''types'' (JArr ts) params0)
      in p_stringify p
           (om_set ''params'' (JObj params)
             (om_set ''id'' (JInt (uint rpc))
               (om_set ''method'' (JStr ''telemetry'') (om_set ''jsonrpc'' (JStr ''2.0'') [])))))"

definition StartTelemetry ::
    "poco \<Rightarrow> (string \<Rightarrow> send_outcome) \<Rightarrow> u64 \<Rightarrow> string list \<Rightarrow> connection \<Rightarrow> bool \<times> connection \<times> effect list" where
  "StartTelemetry p ws rpc types c =
     (let ts = (if types = [] then map JStr [''wifi-frames'', ''dhcp-snooping'', ''state''] else map JStr types)
      in conn_Send ws (telemetry_message p (c_SerialNumber c) (TelemetryInterval c) rpc (Some ts)) c)"

definition StopTelemetry ::
    "poco \<Rightarrow> (string \<Rightarrow> send_outcome) \<Rightarrow> u64 \<Rightarrow> connection \<Rightarrow> bool \<times> connection \<times> effect list" where
  "StopTelemetry p ws rpc c =
     conn_Send ws (telemetry_message p (c_SerialNumber c) 0 rpc None)
       (c\<lparr> TelemetryWebSocketTimer := 0, TelemetryKafkaTimer := 0, TelemetryInterval := 0,
           TelemetryWebSocketPackets := 0, TelemetryKafkaPackets := 0 \<rparr>)"

definition UpdateCounts :: "connection \<Rightarrow> connection" where
  "UpdateCounts c =
     c\<lparr> State := (State c)\<lparr> kafkaClients := TelemetryKafkaRefCount c,
                            webSocketClients := TelemetryWebSocketRefCount c \<rparr> \<rparr>"

definition shorter_interval :: "u64 \<Rightarrow> u64 \<Rightarrow> u64" where
  "shorter_interval current interval =
     (if current \<noteq> 0 then (if interval < current then interval else current) else interval)"

definition conn_SetWebSocketTelemetryReporting ::
    "poco \<Rightarrow> (string \<Rightarrow> send_outcome) \<Rightarrow> u64 \<Rightarrow> u64 \<Rightarrow> u64 \<Rightarrow> u64 \<Rightarrow> string list \<Rightarrow> connection \<Rightarrow>
     bool \<times> connection \<times> effect list" where
  "conn_SetWebSocketTelemetryReporting p ws now rpc interval lifetime types c =
     (let c = c\<lparr> TelemetryWebSocketRefCount := TelemetryWebSocketRefCount c + 1,
                TelemetryInterval := shorter_interval (TelemetryInterval c) interval,
                TelemetryWebSocketTimer := max (lifetime + now) (TelemetryWebSocketTimer c) \<rparr>;
          c = UpdateCounts c
      in if \<not> TelemetryReporting c then StartTelemetry p ws rpc types (c\<lparr> TelemetryReporting := True \<rparr>)
         else (True, c, []))"

definition conn_SetKafkaTelemetryReporting ::
    "poco \<Rightarrow> (string \<Rightarrow> send_outcome) \<Rightarrow> u64 \<Rightarrow> u64 \<Rightarrow> u64 \<Rightarrow> u64 \<Rightarrow> string list \<Rightarrow> connection \<Rightarrow>
     bool \<times> connection \<times> effect list" where
  "conn_SetKafkaTelemetryReporting p ws now rpc interval lifetime types c =
     (let c = c\<lparr> TelemetryKafkaRefCount := TelemetryKafkaRefCount c + 1,
                TelemetryInterval := shorter_interval (TelemetryInterval c) interval,
                TelemetryKafkaTimer := max (lifetime + now) (TelemetryKafkaTimer c) \<rparr>;
          c = UpdateCounts c
      in if \<not> TelemetryReporting c then StartTelemetry p ws rpc types (c\<lparr> TelemetryReporting := True \<rparr>)
         else (True, c, []))"

text \<open>The two stop operations after the count of their kind is taken down; they answer true always.\<close>

definition stop_if_unused ::
    "poco \<Rightarrow> (string \<Rightarrow> send_outcome) \<Rightarrow> u64 \<Rightarrow> connection \<Rightarrow> bool \<times> connection \<times> effect list" where
  "stop_if_unused p ws rpc c =
     (let c = UpdateCounts c
      in if TelemetryWebSocketRefCount c = 0 \<and> TelemetryKafkaRefCount c = 0
         then (True, snd (StopTelemetry p ws rpc (c\<lparr> TelemetryReporting := False \<rparr>)))
         else (True, c, []))"

definition conn_StopWebSocketTelemetry ::
    "poco \<Rightarrow> (string \<Rightarrow> send_outcome) \<Rightarrow> u64 \<Rightarrow> connection \<Rightarrow> bool \<times> connection \<times> effect list" where
  "conn_StopWebSocketTelemetry p ws rpc c =
     stop_if_unused p ws rpc
       (if TelemetryWebSocketRefCount c \<noteq> 0
        then c\<lparr> TelemetryWebSocketRefCount := TelemetryWebSocketRefCount c - 1 \<rparr> else c)"

definition conn_StopKafkaTelemetry ::
    "poco \<Rightarrow> (string \<Rightarrow> send_outcome) \<Rightarrow> u64 \<Rightarrow> connection \<Rightarrow> bool \<times> connection \<times> effect list" where
  "conn_StopKafkaTelemetry p ws rpc c =
     stop_if_unused p ws rpc
       (if TelemetryKafkaRefCount c \<noteq> 0
        then c\<lparr> TelemetryKafkaRefCount := TelemetryKafkaRefCount c - 1 \<rparr> else c)"

section \<open>The telemetry protocol\<close>

text \<open>The four operations as inputs, and what a run of them does; \<open>ws\<close> may answer differently each time.\<close>

datatype telemetry_op =
    SetWS u64 u64 u64 "string list"
  | SetKafka u64 u64 u64 "string list"
  | StopWS
  | StopKafka

fun telemetry_step ::
    "poco \<Rightarrow> (string \<Rightarrow> send_outcome) \<Rightarrow> u64 \<Rightarrow> telemetry_op \<Rightarrow> connection \<Rightarrow> bool \<times> connection \<times> effect list" where
  "telemetry_step p ws rpc (SetWS now i l ts) c = conn_SetWebSocketTelemetryReporting p ws now rpc i l ts c"
| "telemetry_step p ws rpc (SetKafka now i l ts) c = conn_SetKafkaTelemetryReporting p ws now rpc i l ts c"
| "telemetry_step p ws rpc StopWS c = conn_StopWebSocketTelemetry p ws rpc c"
| "telemetry_step p ws rpc StopKafka c = conn_StopKafkaTelemetry p ws rpc c"

definition telemetry_inv :: "connection \<Rightarrow> bool" where
  "telemetry_inv c \<longleftrightarrow>
     (TelemetryReporting c \<longleftrightarrow> TelemetryWebSocketRefCount c \<noteq> 0 \<or> TelemetryKafkaRefCount c \<noteq> 0) \<and>
     kafkaClients (State c) = TelemetryKafkaRefCount c \<and> webSocketClients (State c) = TelemetryWebSocketRefCount c"

lemma conn_Send_frame:
  "conn_Send ws s c = (r, c', es) \<Longrightarrow>
   TelemetryReporting c' = TelemetryReporting c \<and> TelemetryWebSocketRefCount c' = TelemetryWebSocketRefCount c \<and>
   TelemetryKafkaRefCount c' = TelemetryKafkaRefCount c \<and> kafkaClients (State c') = kafkaClients (State c) \<and>
   webSocketClients (State c') = webSocketClients (State c)"
  by (auto simp: conn_Send_def split: send_outcome.splits)

lemma word_succ_nonzero: "unat (w::u64) < 2 ^ 63 \<Longrightarrow> w + 1 \<noteq> 0"
  by (simp add: word_unat_eq_iff unat_word_ariths)

lemma telemetry_inv_set:
  assumes "telemetry_inv c" and "unat (TelemetryWebSocketRefCount c) < 2 ^ 63"
    and "unat (TelemetryKafkaRefCount c) < 2 ^ 63"
  shows "conn_SetWebSocketTelemetryReporting p ws now rpc i l ts c = (r, c', es) \<Longrightarrow> telemetry_inv c'"
    and "conn_SetKafkaTelemetryReporting p ws now rpc i l ts c = (r, c', es) \<Longrightarrow> telemetry_inv c'"
  using assms word_succ_nonzero
  by (auto simp: conn_SetWebSocketTelemetryReporting_def conn_SetKafkaTelemetryReporting_def StartTelemetry_def
      UpdateCounts_def telemetry_inv_def Let_def dest!: conn_Send_frame split: if_splits)

lemma telemetry_inv_stop_if_unused:
  assumes "TelemetryReporting c \<or> (TelemetryWebSocketRefCount c = 0 \<and> TelemetryKafkaRefCount c = 0)"
    and "stop_if_unused p ws rpc c = (r, c', es)"
  shows "telemetry_inv c'"
proof (cases "TelemetryWebSocketRefCount c = 0 \<and> TelemetryKafkaRefCount c = 0")
  case True
  obtain r1 c1 es1 where s: "StopTelemetry p ws rpc ((UpdateCounts c)\<lparr> TelemetryReporting := False \<rparr>) = (r1, c1, es1)"
    using prod_cases3 by blast
  have "c' = c1" using assms(2) True s by (simp add: stop_if_unused_def UpdateCounts_def)
  with conn_Send_frame [OF s [unfolded StopTelemetry_def]] True show ?thesis
    by (simp add: telemetry_inv_def UpdateCounts_def)
next
  case False
  with assms show ?thesis by (auto simp: stop_if_unused_def UpdateCounts_def telemetry_inv_def Let_def split: if_splits)
qed

lemma telemetry_inv_stop:
  assumes "telemetry_inv c"
  shows "conn_StopWebSocketTelemetry p ws rpc c = (r, c', es) \<Longrightarrow> telemetry_inv c'"
    and "conn_StopKafkaTelemetry p ws rpc c = (r, c', es) \<Longrightarrow> telemetry_inv c'"
proof -
  have r: "TelemetryReporting c \<or> (TelemetryWebSocketRefCount c = 0 \<and> TelemetryKafkaRefCount c = 0)"
    using assms by (auto simp: telemetry_inv_def)
  show "conn_StopWebSocketTelemetry p ws rpc c = (r, c', es) \<Longrightarrow> telemetry_inv c'"
    unfolding conn_StopWebSocketTelemetry_def
    by (rule telemetry_inv_stop_if_unused [rotated], assumption) (use r in auto)
  show "conn_StopKafkaTelemetry p ws rpc c = (r, c', es) \<Longrightarrow> telemetry_inv c'"
    unfolding conn_StopKafkaTelemetry_def
    by (rule telemetry_inv_stop_if_unused [rotated], assumption) (use r in auto)
qed

end
