(* ===== verification/GW_Registry.thy ===== *)
theory GW_Registry
  imports GW_ConnState
begin

text \<open>
  The session registry of \<^verbatim>\<open>src/AP_WS_Server.cpp\<close> and \<^verbatim>\<open>AP_WS_Server.h\<close>. A connection is a shared object:
  \<open>conns\<close> is the store of the objects, and the two arrays of maps hold handles to them, \<open>None\<close> for a null
  pointer. \<open>Sessions\<close> has the connections whose device is not yet known, by session identifier, and
  \<open>SerialNumbers\<close> those of identified devices, by serial number. The janitor thread and the cleanup
  thread are steps on this state; a shard whose lock stays taken is skipped, so which locks are free
  is an argument. Certificates, sockets and the start-up code are not modelled.
\<close>

section \<open>Hashes\<close>

fun MACHash_loop :: "nat \<Rightarrow> u8 \<Rightarrow> u64 \<Rightarrow> u8" where
  "MACHash_loop 0 hash value = hash"
| "MACHash_loop (Suc i) hash value =
     MACHash_loop i (hash XOR ucast ((value AND 0xFF) + 1)) (drop_bit 8 value)"

definition MACHash :: "u64 \<Rightarrow> nat" where
  "MACHash value = unat (MACHash_loop 6 0 value)"

definition MACHash_text :: "string \<Rightarrow> nat" where
  "MACHash_text value = MACHash (MACToInt value)"

definition SessionHash :: "u64 \<Rightarrow> nat" where
  "SessionHash value = unat (value AND 0xFF)"

lemma MACHash_bound: "MACHash v < 256"
  using unsigned_less [of "MACHash_loop 6 0 v", where ?'a = nat] by (simp add: MACHash_def)

lemma SessionHash_bound: "SessionHash v < 256"
proof -
  have "v AND 0xFF \<le> 0xFF" by (rule word_and_le1)
  then have "unat (v AND 0xFF) \<le> unat (0xFF::u64)" by (simp only: word_le_nat_alt)
  then show ?thesis by (simp add: SessionHash_def)
qed

section \<open>State\<close>

type_synonym handle = nat

record server =
  Sessions :: "(u64, handle option) shards"
  SerialNumbers :: "(u64, handle option) shards"
  conns :: "handle \<Rightarrow> connection"
  CleanupQueue :: "(u64 \<times> u64) list"
  NumberOfConnectedDevices :: u64
  AverageDeviceConnectionTime :: u64
  NumberOfConnectingDevices :: u64
  SessionTimeOut :: u64
  LeftOverSessions :: u64
  srv_TX :: u64
  srv_RX :: u64
  SimulatorId :: string
  SimulatorEnabled :: bool
  LookAtProvisioning :: bool
  UseDefaultConfig :: bool
  srv_Running :: bool

abbreviation sid_of :: "server \<Rightarrow> handle \<Rightarrow> u64" where
  "sid_of s h \<equiv> sessionId (State (conns s h))"

definition IsSim :: "string \<Rightarrow> bool" where
  "IsSim serial \<longleftrightarrow> take 6 serial = ''53494d''"

definition IsSimSerialNumber :: "string \<Rightarrow> server \<Rightarrow> bool" where
  "IsSimSerialNumber serial s \<longleftrightarrow> IsSim serial \<and> serial = SimulatorId s"

text \<open>The automatic provisioning setting of \<^verbatim>\<open>Start\<close>; \<open>tokens\<close> are its comma-separated parts.\<close>

definition provisioning_mode :: "string \<Rightarrow> string list \<Rightarrow> server \<Rightarrow> server" where
  "provisioning_mode setting tokens s =
     (if setting \<noteq> ''default'' then
        foldl (\<lambda>s i. if i = ''prov'' then s\<lparr> LookAtProvisioning := True \<rparr> else s\<lparr> UseDefaultConfig := True \<rparr>) s tokens
      else s\<lparr> UseDefaultConfig := True \<rparr>)"

section \<open>Sessions\<close>

definition AddConnection :: "handle \<Rightarrow> server \<Rightarrow> server" where
  "AddConnection h s =
     (if sh_find SessionHash (Sessions s) (sid_of s h) = None
      then s\<lparr> Sessions := sh_set SessionHash (sid_of s h) (Some h) (Sessions s) \<rparr> else s)"

text \<open>The handler of a new web socket: construct, register, start.\<close>

definition handleRequest :: "handle \<Rightarrow> u64 \<Rightarrow> u64 \<Rightarrow> u64 \<Rightarrow> server \<Rightarrow> server" where
  "handleRequest h sid uuid now s =
     (let s = s\<lparr> conns := (conns s)(h := fresh_connection sid uuid),
                NumberOfConnectedDevices := NumberOfConnectedDevices s + 1 \<rparr>;
          s = AddConnection h s
      in s\<lparr> conns := (conns s)(h := conn_Start now (conns s h)) \<rparr>)"

definition StartSession :: "u64 \<Rightarrow> u64 \<Rightarrow> server \<Rightarrow> server" where
  "StartSession session_id serial s =
     (case sh_find SessionHash (Sessions s) session_id of
        None \<Rightarrow> s
      | Some c \<Rightarrow>
          s\<lparr> Sessions := sh_erase SessionHash session_id (Sessions s),
             SerialNumbers := sh_set MACHash serial c (SerialNumbers s) \<rparr>)"

definition EndSession :: "u64 \<Rightarrow> u64 \<Rightarrow> server \<Rightarrow> bool \<times> server" where
  "EndSession session_id serial s =
     (let s = s\<lparr> Sessions := sh_erase SessionHash session_id (Sessions s) \<rparr>
      in case sh_find MACHash (SerialNumbers s) serial of
           Some (Some h) \<Rightarrow>
             if sid_of s h \<noteq> session_id then (False, s)
             else (True, s\<lparr> SerialNumbers := sh_erase MACHash serial (SerialNumbers s) \<rparr>)
         | _ \<Rightarrow> (False, s))"

text \<open>The lookup every request for a device starts with.\<close>

definition device_conn :: "u64 \<Rightarrow> server \<Rightarrow> handle option" where
  "device_conn serial s = (case sh_find MACHash (SerialNumbers s) serial of Some c \<Rightarrow> c | None \<Rightarrow> None)"

definition Disconnect :: "u64 \<Rightarrow> server \<Rightarrow> bool \<times> server" where
  "Disconnect serial s =
     (case device_conn serial s of
        None \<Rightarrow> (False, s)
      | Some h \<Rightarrow>
          (True, s\<lparr> SerialNumbers := sh_erase MACHash serial (SerialNumbers s),
                    Sessions := sh_erase SessionHash (sid_of s h) (Sessions s) \<rparr>))"

definition AddCleanupSession :: "u64 \<Rightarrow> u64 \<Rightarrow> server \<Rightarrow> server" where
  "AddCleanupSession session_id serial s = s\<lparr> CleanupQueue := CleanupQueue s @ [(session_id, serial)] \<rparr>"

text \<open>The inner loop of the cleanup thread, which runs until the queue is empty.\<close>

fun cleanup_entries :: "(u64 \<times> u64) list \<Rightarrow> server \<Rightarrow> server" where
  "cleanup_entries [] s = s"
| "cleanup_entries ((sid, sn) # q) s = cleanup_entries q (snd (EndSession sid sn s))"

definition CleanupSessions :: "server \<Rightarrow> server" where
  "CleanupSessions s =
     (if srv_Running s then cleanup_entries (CleanupQueue s) (s\<lparr> CleanupQueue := [] \<rparr>) else s)"

section \<open>Questions about a device\<close>

definition Connected :: "u64 \<Rightarrow> server \<Rightarrow> bool" where
  "Connected serial s =
     (case device_conn serial s of
        None \<Rightarrow> False
      | Some h \<Rightarrow> \<not> Dead (conns s h) \<and> s_Connected (State (conns s h)))"

definition Connected_restrictions :: "u64 \<Rightarrow> server \<Rightarrow> bool \<times> restrictions option" where
  "Connected_restrictions serial s =
     (case device_conn serial s of
        None \<Rightarrow> (False, None)
      | Some h \<Rightarrow> if Dead (conns s h) then (False, None)
                  else (s_Connected (State (conns s h)), Some (Restrictions (conns s h))))"

definition DeviceRequiresSecureRTTY :: "u64 \<Rightarrow> server \<Rightarrow> bool" where
  "DeviceRequiresSecureRTTY serial s =
     (case device_conn serial s of None \<Rightarrow> False | Some h \<Rightarrow> RTTYMustBeSecure (conns s h))"

definition GetStatistics ::
    "(nat \<Rightarrow> string \<Rightarrow> string) \<Rightarrow> u64 \<Rightarrow> server \<Rightarrow> bool \<times> string option" where
  "GetStatistics gunz serial s =
     (case device_conn serial s of None \<Rightarrow> (False, None) | Some h \<Rightarrow> (True, GetLastStats gunz (conns s h)))"

definition GetState :: "u64 \<Rightarrow> server \<Rightarrow> bool \<times> conn_state option" where
  "GetState serial s =
     (case device_conn serial s of None \<Rightarrow> (False, None) | Some h \<Rightarrow> (True, conn_GetState (conns s h)))"

definition GetHealthcheck :: "u64 \<Rightarrow> server \<Rightarrow> bool \<times> health_check option" where
  "GetHealthcheck serial s =
     (case device_conn serial s of None \<Rightarrow> (False, None) | Some h \<Rightarrow> (True, GetLastHealthCheck (conns s h)))"

definition GetTelemetryParameters :: "u64 \<Rightarrow> server \<Rightarrow> telemetry_parameters option" where
  "GetTelemetryParameters serial s =
     (case device_conn serial s of None \<Rightarrow> None | Some h \<Rightarrow> Some (conn_GetTelemetryParameters (conns s h)))"

text \<open>The shards are visited in order; the answer is always success. A null entry would be dereferenced.\<close>

definition health_in :: "u64 \<Rightarrow> u64 \<Rightarrow> server \<Rightarrow> (u64 \<times> handle option) list \<Rightarrow> cpp_exn + string list" where
  "health_in lo hi s m =
     (if \<exists>e\<in>set m. snd e = None then Inl (Undefined_Behaviour ''null connection'')
      else Inr (map (\<lambda>e. c_SerialNumber (conns s (the (snd e))))
                 (filter (\<lambda>e. let q = h_Sanity (RawLastHealthcheck (conns s (the (snd e)))) in lo \<le> q \<and> q \<le> hi) m)))"

definition GetHealthDevices :: "u64 \<Rightarrow> u64 \<Rightarrow> server \<Rightarrow> cpp_exn + string list" where
  "GetHealthDevices lo hi s =
     foldl (\<lambda>acc i. try_bind acc (\<lambda>xs. map_sum id (\<lambda>ys. xs @ ys) (health_in lo hi s (Sessions s i)))) (Inr []) [0..<256]"

section \<open>Operations on a device's connection\<close>

text \<open>Totals are kept by the server; every other effect is for other components.\<close>

fun server_effect :: "effect \<Rightarrow> server \<Rightarrow> server" where
  "server_effect (Eff_AddRX n) s = s\<lparr> srv_RX := srv_RX s + n \<rparr>"
| "server_effect (Eff_AddTX n) s = s\<lparr> srv_TX := srv_TX s + n \<rparr>"
| "server_effect Eff_DecrementConnectionCount s = s\<lparr> NumberOfConnectedDevices := NumberOfConnectedDevices s - 1 \<rparr>"
| "server_effect (Eff_Cleanup sid sn) s = AddCleanupSession sid sn s"
| "server_effect (Eff_StartSession sid sn) s = StartSession sid sn s"
| "server_effect _ s = s"

definition on_connection :: "handle \<Rightarrow> (connection \<Rightarrow> 'a \<times> connection \<times> effect list) \<Rightarrow> server \<Rightarrow> 'a \<times> server \<times> effect list" where
  "on_connection h f s =
     (case f (conns s h) of
        (r, c, es) \<Rightarrow> (r, foldl (\<lambda>s e. server_effect e s) (s\<lparr> conns := (conns s)(h := c) \<rparr>) es, es))"

definition SendFrame :: "(handle \<Rightarrow> string \<Rightarrow> send_outcome) \<Rightarrow> u64 \<Rightarrow> string \<Rightarrow> server \<Rightarrow> bool \<times> server \<times> effect list" where
  "SendFrame ws serial payload s =
     (case device_conn serial s of
        None \<Rightarrow> (False, s, [])
      | Some h \<Rightarrow> if Dead (conns s h) then (False, s, []) else on_connection h (conn_Send (ws h) payload) s)"

text \<open>A RADIUS packet for a device goes base64-encoded in a JSON frame; \<open>kind\<close> is its key.\<close>

definition radius_payload :: "poco \<Rightarrow> (bytes \<Rightarrow> string) \<Rightarrow> string \<Rightarrow> bytes \<Rightarrow> string" where
  "radius_payload p b64 kind buffer =
     p_stringify p (om_set ''data'' (JStr (b64 buffer)) (om_set ''radius'' (JStr kind) []))"

definition SendRadiusData ::
    "poco \<Rightarrow> (bytes \<Rightarrow> string) \<Rightarrow> string \<Rightarrow> (handle \<Rightarrow> string \<Rightarrow> send_outcome) \<Rightarrow> string \<Rightarrow> bytes \<Rightarrow> server \<Rightarrow>
     cpp_exn + bool \<times> server \<times> effect list" where
  "SendRadiusData p b64 kind ws serial buffer s =
     map_sum id (\<lambda>n. SendFrame ws n (radius_payload p b64 kind buffer) s) (SerialNumberToInt serial)"

definition SetWebSocketTelemetryReporting ::
    "poco \<Rightarrow> (handle \<Rightarrow> string \<Rightarrow> send_outcome) \<Rightarrow> u64 \<Rightarrow> u64 \<Rightarrow> u64 \<Rightarrow> u64 \<Rightarrow> u64 \<Rightarrow> string list \<Rightarrow> server \<Rightarrow>
     server \<times> effect list" where
  "SetWebSocketTelemetryReporting p ws now rpc serial interval lifetime types s =
     (case device_conn serial s of
        None \<Rightarrow> (s, [])
      | Some h \<Rightarrow> snd (on_connection h (conn_SetWebSocketTelemetryReporting p (ws h) now rpc interval lifetime types) s))"

definition SetKafkaTelemetryReporting ::
    "poco \<Rightarrow> (handle \<Rightarrow> string \<Rightarrow> send_outcome) \<Rightarrow> u64 \<Rightarrow> u64 \<Rightarrow> u64 \<Rightarrow> u64 \<Rightarrow> u64 \<Rightarrow> string list \<Rightarrow> server \<Rightarrow>
     server \<times> effect list" where
  "SetKafkaTelemetryReporting p ws now rpc serial interval lifetime types s =
     (case device_conn serial s of
        None \<Rightarrow> (s, [])
      | Some h \<Rightarrow> snd (on_connection h (conn_SetKafkaTelemetryReporting p (ws h) now rpc interval lifetime types) s))"

definition StopWebSocketTelemetry ::
    "poco \<Rightarrow> (handle \<Rightarrow> string \<Rightarrow> send_outcome) \<Rightarrow> u64 \<Rightarrow> u64 \<Rightarrow> server \<Rightarrow> server \<times> effect list" where
  "StopWebSocketTelemetry p ws rpc serial s =
     (case device_conn serial s of
        None \<Rightarrow> (s, [])
      | Some h \<Rightarrow> snd (on_connection h (conn_StopWebSocketTelemetry p (ws h) rpc) s))"

definition StopKafkaTelemetry ::
    "poco \<Rightarrow> (handle \<Rightarrow> string \<Rightarrow> send_outcome) \<Rightarrow> u64 \<Rightarrow> u64 \<Rightarrow> server \<Rightarrow> server \<times> effect list" where
  "StopKafkaTelemetry p ws rpc serial s =
     (case device_conn serial s of
        None \<Rightarrow> (s, [])
      | Some h \<Rightarrow> snd (on_connection h (conn_StopKafkaTelemetry p (ws h) rpc) s))"

section \<open>The janitor\<close>

definition idle :: "server \<Rightarrow> u64 \<Rightarrow> handle \<Rightarrow> bool" where
  "idle s now h \<longleftrightarrow> now > c_LastContact (conns s h) \<and> now - c_LastContact (conns s h) > SessionTimeOut s"

definition to_reclaim :: "server \<Rightarrow> u64 \<Rightarrow> handle \<Rightarrow> bool" where
  "to_reclaim s now h \<longleftrightarrow> Dead (conns s h) \<or> idle s now h"

definition cleanup_entry :: "server \<Rightarrow> handle \<Rightarrow> u64 \<times> u64" where
  "cleanup_entry s h = (sid_of s h, c_SerialNumberInt (conns s h))"

definition live_handles :: "('k \<times> handle option) list \<Rightarrow> handle list" where
  "live_handles m = List.map_filter snd m"

text \<open>Step 1 on one shard of devices: null entries go, dead and idle connections are queued.\<close>

definition scan_devices :: "u64 \<Rightarrow> nat \<Rightarrow> server \<Rightarrow> u64 \<Rightarrow> server \<times> u64" where
  "scan_devices now i s tot =
     (let m = SerialNumbers s i; hs = live_handles m; ok = filter (\<lambda>h. \<not> to_reclaim s now h) hs
      in (s\<lparr> SerialNumbers := (SerialNumbers s)(i := filter (\<lambda>e. snd e \<noteq> None) m),
             CleanupQueue := CleanupQueue s @ map (cleanup_entry s) (filter (to_reclaim s now) hs) \<rparr>,
          tot + sum_list (map (\<lambda>h. if s_Connected (State (conns s h)) then now - started (State (conns s h)) else 0) ok)))"

text \<open>Step 2 on one shard of sessions: the same, and the others are counted as left over.\<close>

definition scan_sessions :: "u64 \<Rightarrow> nat \<Rightarrow> server \<Rightarrow> server" where
  "scan_sessions now i s =
     (let m = Sessions s i; hs = live_handles m
      in s\<lparr> Sessions := (Sessions s)(i := filter (\<lambda>e. snd e \<noteq> None) m),
            CleanupQueue := CleanupQueue s @ map (cleanup_entry s) (filter (to_reclaim s now) hs),
            LeftOverSessions := LeftOverSessions s + of_nat (length (filter (\<lambda>h. \<not> to_reclaim s now h) hs)) \<rparr>)"

definition scan_all_devices :: "(nat \<Rightarrow> bool) \<Rightarrow> u64 \<Rightarrow> server \<Rightarrow> server \<times> u64" where
  "scan_all_devices free now s =
     foldl (\<lambda>(s, t) i. if free i then scan_devices now i s t else (s, t)) (s, 0) [0..<256]"

definition scan_all_sessions :: "(nat \<Rightarrow> bool) \<Rightarrow> u64 \<Rightarrow> server \<Rightarrow> server" where
  "scan_all_sessions free now s = foldl (\<lambda>s i. if free i then scan_sessions now i s else s) s [0..<256]"

definition collect_zombies :: "(nat \<Rightarrow> bool) \<Rightarrow> (nat \<Rightarrow> bool) \<Rightarrow> u64 \<Rightarrow> server \<Rightarrow> server" where
  "collect_zombies free_dev free_ses now s =
     (let (s, tot) = scan_all_devices free_dev now (s\<lparr> NumberOfConnectingDevices := 0, AverageDeviceConnectionTime := 0 \<rparr>);
          s = scan_all_sessions free_ses now (s\<lparr> LeftOverSessions := 0 \<rparr>)
      in s\<lparr> AverageDeviceConnectionTime :=
              (if NumberOfConnectedDevices s > 0 then tot div NumberOfConnectedDevices s else 0) \<rparr>)"

text \<open>One round of the janitor thread: its times of the last zombie run and of the last round are its own state.\<close>

definition janitor_round ::
    "(nat \<Rightarrow> bool) \<Rightarrow> (nat \<Rightarrow> bool) \<Rightarrow> u64 \<Rightarrow> u64 \<Rightarrow> u64 \<Rightarrow> server \<Rightarrow> server \<times> u64 \<times> u64" where
  "janitor_round free_dev free_ses now last_zombie last_garbage s =
     (let (s, last_zombie) =
            (if now - last_zombie > 60 then (collect_zombies free_dev free_ses now s, now) else (s, last_zombie));
          s = (if NumberOfConnectedDevices s \<noteq> 0 \<and> last_garbage > 0
               then s\<lparr> AverageDeviceConnectionTime := AverageDeviceConnectionTime s + (now - last_garbage) \<rparr> else s)
      in (s, last_zombie, now))"

section \<open>The invariant of the registry\<close>

text \<open>
  Both arrays are well-formed maps without null pointers; a session is registered under its own
  identifier, a device under its own number, and no two registered connections share a session.
\<close>

definition registered :: "server \<Rightarrow> handle set" where
  "registered s = {h. (\<exists>k. sh_find SessionHash (Sessions s) k = Some (Some h)) \<or>
                      (\<exists>k. sh_find MACHash (SerialNumbers s) k = Some (Some h))}"

definition no_null :: "('k, handle option) shards \<Rightarrow> bool" where
  "no_null a \<longleftrightarrow> (\<forall>i. list_all (\<lambda>e. snd e \<noteq> None) (a i))"

lemma no_null_set [simp]: "no_null m \<Longrightarrow> no_null (sh_set h k (Some v) m)"
  using set_om_set by (fastforce simp: no_null_def sh_set_def list_all_iff)

lemma no_null_erase [simp]: "no_null m \<Longrightarrow> no_null (sh_erase h k m)"
  by (fastforce simp: no_null_def sh_erase_def om_erase_def list_all_iff)

lemma no_null_empty [simp]: "no_null (\<lambda>_. [])"
  by (simp add: no_null_def)

definition reg_inv :: "server \<Rightarrow> bool" where
  "reg_inv s \<longleftrightarrow>
     sh_wf SessionHash (Sessions s) \<and> sh_wf MACHash (SerialNumbers s) \<and>
     no_null (Sessions s) \<and> no_null (SerialNumbers s) \<and>
     (\<forall>k h. sh_find SessionHash (Sessions s) k = Some (Some h) \<longrightarrow> sid_of s h = k) \<and>
     (\<forall>k h. sh_find MACHash (SerialNumbers s) k = Some (Some h) \<longrightarrow> c_SerialNumberInt (conns s h) = k) \<and>
     inj_on (sid_of s) (registered s)"

lemma sh_find_iff: "sh_wf h m \<Longrightarrow> sh_find h m k = Some v \<longleftrightarrow> (k, v) \<in> set (m (h k))"
  by (simp add: sh_find_def sh_wf_def om_find_iff)

lemma sh_entry: "sh_wf h m \<Longrightarrow> (k, v) \<in> set (m i) \<Longrightarrow> sh_find h m k = Some v"
  by (force simp: sh_find_def sh_wf_def om_find_iff)

lemma device_conn_eq: "device_conn k s = Some h \<longleftrightarrow> sh_find MACHash (SerialNumbers s) k = Some (Some h)"
  by (auto simp: device_conn_def split: option.split)

text \<open>
  Once a session is started, its connection answers for the device and is no longer pending; the
  connections of all other devices are as before.
\<close>

theorem StartSession_registers:
  assumes "reg_inv s" and "sh_find SessionHash (Sessions s) sid = Some (Some h)"
  shows "device_conn serial (StartSession sid serial s) = Some h \<and>
         sh_find SessionHash (Sessions (StartSession sid serial s)) sid = None \<and>
         (\<forall>k. k \<noteq> serial \<longrightarrow> device_conn k (StartSession sid serial s) = device_conn k s)"
  using assms by (simp add: StartSession_def reg_inv_def device_conn_def sh.lookup_same sh.lookup_dropped sh.lookup_other)

text \<open>
  C3: a device that reconnects before its old session is torn down keeps its new connection: ending
  the old session does not unregister the new one, and answers that it ended nothing.
\<close>

theorem EndSession_spares_reconnected:
  assumes "device_conn serial s = Some h" and "sid_of s h \<noteq> old"
  shows "fst (EndSession old serial s) = False \<and> device_conn serial (snd (EndSession old serial s)) = Some h"
  using assms by (simp add: EndSession_def device_conn_def Let_def split: option.splits)

text \<open>
  A pending connection that claims the serial number of a connected device takes its place when its
  session is started, before its certificate is looked at; when it is refused and its session ended, the
  device is registered no more, although its own connection is untouched and alive.
\<close>

theorem refused_claim_evicts:
  assumes "reg_inv s" and "sh_find SessionHash (Sessions s) sid = Some (Some h)"
    and "device_conn serial s = Some genuine"
  shows "device_conn serial (StartSession sid serial s) = Some h \<and>
         device_conn serial (snd (EndSession sid serial (StartSession sid serial s))) = None \<and>
         conns (snd (EndSession sid serial (StartSession sid serial s))) genuine = conns s genuine"
proof -
  have "sid_of s h = sid" using assms(1,2) by (simp add: reg_inv_def)
  moreover have "sh_wf MACHash (SerialNumbers s)" using assms(1) by (simp add: reg_inv_def)
  ultimately show ?thesis
    using assms(2)
    by (simp add: StartSession_def EndSession_def device_conn_def Let_def sh.lookup_same sh.lookup_dropped sh.wf_store)
qed

text \<open>
  The health report looks at pending sessions only: the connection of a device whose session has
  been started is not in it, although it is the one that answers for the device.
\<close>

theorem GetHealthDevices_misses_started:
  assumes "reg_inv s" and "sh_find SessionHash (Sessions s) sid = Some (Some h)"
    and "\<forall>k h'. sh_find SessionHash (Sessions s) k = Some (Some h') \<longrightarrow> h' \<noteq> h \<longrightarrow>
            c_SerialNumber (conns s h') \<noteq> c_SerialNumber (conns s h)"
    and "GetHealthDevices lo hi (StartSession sid serial s) = Inr xs"
  shows "device_conn serial (StartSession sid serial s) = Some h \<and> c_SerialNumber (conns s h) \<notin> set xs"
proof -
  define s' where "s' = StartSession sid serial s"
  have wf: "sh_wf SessionHash (Sessions s)" and own: "\<And>k h. sh_find SessionHash (Sessions s) k = Some (Some h) \<Longrightarrow> sid_of s h = k"
    using assms(1) by (simp_all add: reg_inv_def)
  have cs: "conns s' = conns s" using assms(2) by (simp add: s'_def StartSession_def)
  have ss: "Sessions s' = sh_erase SessionHash sid (Sessions s)" using assms(2) by (simp add: s'_def StartSession_def)
  have other: "c_SerialNumber (conns s h') \<noteq> c_SerialNumber (conns s h)" if "(k, Some h') \<in> set (Sessions s' i)" for k h' i
  proof -
    have "sh_find SessionHash (Sessions s') k = Some (Some h')"
      using that wf by (auto simp: ss intro: sh_entry sh.wf_drop)
    then have "k \<noteq> sid" and f: "sh_find SessionHash (Sessions s) k = Some (Some h')"
      using wf by (auto simp: ss sh.lookup_drop split: if_splits)
    with own [OF assms(2)] own [OF f] have "h' \<noteq> h" by auto
    with assms(3) f show ?thesis by blast
  qed
  have in_shard: "c_SerialNumber (conns s h) \<notin> set ys" if "health_in lo hi s' (Sessions s' i) = Inr ys" for i ys
  proof
    assume "c_SerialNumber (conns s h) \<in> set ys"
    with that obtain e where "e \<in> set (Sessions s' i)" "snd e \<noteq> None"
      "c_SerialNumber (conns s (the (snd e))) = c_SerialNumber (conns s h)"
      unfolding health_in_def cs by (auto simp del: not_None_eq split: if_splits)
    with other show False by (cases e) auto
  qed
  have "c_SerialNumber (conns s h) \<notin> set zs"
    if "foldl (\<lambda>acc i. try_bind acc (\<lambda>xs. map_sum id (\<lambda>ys. xs @ ys) (health_in lo hi s' (Sessions s' i)))) (Inr []) is = Inr zs"
    for "is" zs
    using that
  proof (induction "is" arbitrary: zs rule: rev_induct)
    case (snoc i "is")
    from snoc.prems obtain xs' where
      1: "foldl (\<lambda>acc i. try_bind acc (\<lambda>xs. map_sum id (\<lambda>ys. xs @ ys) (health_in lo hi s' (Sessions s' i)))) (Inr []) is = Inr xs'"
      and 2: "map_sum id (\<lambda>ys. xs' @ ys) (health_in lo hi s' (Sessions s' i)) = Inr zs"
      by (simp only: foldl_append foldl.simps bind_Inr) blast
    from 2 obtain ys where "health_in lo hi s' (Sessions s' i) = Inr ys" "zs = xs' @ ys"
      by (cases "health_in lo hi s' (Sessions s' i)") auto
    with snoc.IH [OF 1] in_shard show ?case by auto
  qed simp
  with assms(4) have "c_SerialNumber (conns s h) \<notin> set xs" by (simp add: GetHealthDevices_def s'_def)
  moreover have "device_conn serial s' = Some h"
    using assms(1,2) by (simp add: s'_def StartSession_def reg_inv_def device_conn_def sh.lookup_same)
  ultimately show ?thesis by (simp add: s'_def)
qed

section \<open>What the janitor reclaims\<close>

definition queued :: "server \<Rightarrow> (u64 \<times> u64) list \<Rightarrow> server" where
  "queued s q = s\<lparr> CleanupQueue := CleanupQueue s @ q \<rparr>"

lemma queued_fields [simp]:
  "Sessions (queued s q) = Sessions s" "SerialNumbers (queued s q) = SerialNumbers s" "conns (queued s q) = conns s"
  "SessionTimeOut (queued s q) = SessionTimeOut s" "CleanupQueue (queued s q) = CleanupQueue s @ q"
  "to_reclaim (queued s q) = to_reclaim s" "cleanup_entry (queued s q) = cleanup_entry s"
  "srv_Running (queued s q) = srv_Running s" "queued (queued s q) r = queued s (q @ r)"
  by (auto simp: queued_def to_reclaim_def idle_def cleanup_entry_def fun_eq_iff)

definition reclaim_list :: "server \<Rightarrow> u64 \<Rightarrow> (u64 \<times> handle option) list \<Rightarrow> (u64 \<times> u64) list" where
  "reclaim_list s now m = map (cleanup_entry s) (filter (to_reclaim s now) (live_handles m))"

lemma reclaim_list_queued [simp]: "reclaim_list (queued s q) = reclaim_list s"
  by (simp add: reclaim_list_def fun_eq_iff)

lemma filter_non_null: "list_all (\<lambda>e. snd e \<noteq> None) m \<Longrightarrow> filter (\<lambda>e. snd e \<noteq> None) m = m"
  by (induction m) auto

lemma scan_all_devices_queue:
  assumes "\<forall>i. list_all (\<lambda>e. snd e \<noteq> None) (SerialNumbers s i)"
  shows "fst (foldl (\<lambda>(s, t) i. if free i then scan_devices now i s t else (s, t)) (s, t) is) =
     queued s (concat (map (\<lambda>i. if free i then reclaim_list s now (SerialNumbers s i) else []) is))"
proof (induction "is" rule: rev_induct)
  case Nil
  show ?case by (simp add: queued_def)
next
  case (snoc i "is")
  let ?q = "concat (map (\<lambda>i. if free i then reclaim_list s now (SerialNumbers s i) else []) is)"
  obtain t' where f: "foldl (\<lambda>(s, t) i. if free i then scan_devices now i s t else (s, t)) (s, t) is = (queued s ?q, t')"
  proof (cases "foldl (\<lambda>(s, t) i. if free i then scan_devices now i s t else (s, t)) (s, t) is")
    case (Pair s1 t1)
    with snoc.IH that show ?thesis by simp
  qed
  have one: "fst (scan_devices now i (queued s ?q) t') = queued (queued s ?q) (reclaim_list s now (SerialNumbers s i))"
    using filter_non_null [OF spec [OF assms, of i]]
    by (simp del: not_None_eq add: scan_devices_def Let_def reclaim_list_def) (simp add: queued_def)
  show ?case
    using one by (simp add: f)
qed

lemma scan_all_sessions_queue:
  assumes "\<forall>i. list_all (\<lambda>e. snd e \<noteq> None) (Sessions s i)"
  shows "\<exists>n. foldl (\<lambda>s i. if free i then scan_sessions now i s else s) s is =
     (queued s (concat (map (\<lambda>i. if free i then reclaim_list s now (Sessions s i) else []) is)))\<lparr> LeftOverSessions := n \<rparr>"
proof (induction "is" rule: rev_induct)
  case Nil
  show ?case by (auto simp: queued_def intro: exI [of _ "LeftOverSessions s"])
next
  case (snoc i "is")
  let ?q = "concat (map (\<lambda>i. if free i then reclaim_list s now (Sessions s i) else []) is)"
  obtain n where f: "foldl (\<lambda>s i. if free i then scan_sessions now i s else s) s is = (queued s ?q)\<lparr> LeftOverSessions := n \<rparr>"
    using snoc.IH by blast
  have r: "to_reclaim ((queued s ?q)\<lparr> LeftOverSessions := n \<rparr>) = to_reclaim s"
    "cleanup_entry ((queued s ?q)\<lparr> LeftOverSessions := n \<rparr>) = cleanup_entry s"
    by (auto simp: to_reclaim_def idle_def cleanup_entry_def fun_eq_iff)
  have one: "scan_sessions now i ((queued s ?q)\<lparr> LeftOverSessions := n \<rparr>) =
      (queued (queued s ?q) (reclaim_list s now (Sessions s i)))\<lparr> LeftOverSessions :=
         n + of_nat (length (filter (\<lambda>h. \<not> to_reclaim s now h) (live_handles (Sessions s i)))) \<rparr>"
    using filter_non_null [OF spec [OF assms, of i]]
    by (simp del: not_None_eq add: scan_sessions_def Let_def reclaim_list_def r) (simp add: queued_def)
  show ?case
  proof (cases "free i")
    case True
    then show ?thesis by (simp only: foldl_append foldl.simps f one if_True) (auto intro!: exI)
  next
    case False
    then show ?thesis by (simp only: foldl_append foldl.simps f if_False) (auto intro!: exI)
  qed
qed

lemma EndSession_device:
  assumes "sh_wf MACHash (SerialNumbers s)"
  shows "device_conn k (snd (EndSession sid sn s)) =
           (case device_conn k s of Some h \<Rightarrow> if k = sn \<and> sid_of s h = sid then None else Some h | None \<Rightarrow> None)"
    and "conns (snd (EndSession sid sn s)) = conns s"
    and "sh_wf MACHash (SerialNumbers (snd (EndSession sid sn s)))"
  using assms
  by (auto simp: EndSession_def device_conn_def Let_def sh.lookup_drop sh.wf_drop split: option.splits)

lemma cleanup_entries_device:
  assumes "sh_wf MACHash (SerialNumbers s)"
  shows "device_conn k (cleanup_entries q s) =
     (case device_conn k s of Some h \<Rightarrow> if (sid_of s h, k) \<in> set q then None else Some h | None \<Rightarrow> None)"
  using assms
proof (induction q s rule: cleanup_entries.induct)
  case (2 sid sn q s)
  from 2 EndSession_device [OF 2(2)] show ?case by (auto split: option.split)
qed (simp split: option.split)

lemma collect_zombies_queue:
  assumes "no_null (Sessions s)" and "no_null (SerialNumbers s)"
  shows "conns (collect_zombies free_dev free_ses now s) = conns s"
    and "Sessions (collect_zombies free_dev free_ses now s) = Sessions s"
    and "SerialNumbers (collect_zombies free_dev free_ses now s) = SerialNumbers s"
    and "srv_Running (collect_zombies free_dev free_ses now s) = srv_Running s"
    and "CleanupQueue (collect_zombies free_dev free_ses now s) = CleanupQueue s @
           concat (map (\<lambda>i. if free_dev i then reclaim_list s now (SerialNumbers s i) else []) [0..<256]) @
           concat (map (\<lambda>i. if free_ses i then reclaim_list s now (Sessions s i) else []) [0..<256])"
proof -
  let ?s0 = "s\<lparr> NumberOfConnectingDevices := 0, AverageDeviceConnectionTime := 0 \<rparr>"
  let ?q1 = "concat (map (\<lambda>i. if free_dev i then reclaim_list s now (SerialNumbers s i) else []) [0..<256])"
  let ?q2 = "concat (map (\<lambda>i. if free_ses i then reclaim_list s now (Sessions s i) else []) [0..<256])"
  have nn: "\<forall>i. list_all (\<lambda>e. snd e \<noteq> None) (SerialNumbers s i)" "\<forall>i. list_all (\<lambda>e. snd e \<noteq> None) (Sessions s i)"
    using assms by (simp_all add: no_null_def)
  have "to_reclaim ?s0 = to_reclaim s" "cleanup_entry ?s0 = cleanup_entry s"
    by (simp_all add: fun_eq_iff to_reclaim_def idle_def cleanup_entry_def)
  then have rl: "reclaim_list ?s0 = reclaim_list s" by (intro ext) (simp add: reclaim_list_def)
  obtain t where 1: "scan_all_devices free_dev now ?s0 = (queued ?s0 ?q1, t)"
  proof (cases "scan_all_devices free_dev now ?s0")
    case (Pair s1 t1)
    with scan_all_devices_queue [of ?s0 free_dev now 0 "[0..<256]"] nn(1) that show ?thesis
      by (simp add: scan_all_devices_def rl del: not_None_eq cong: if_cong)
  qed
  let ?s1 = "(queued ?s0 ?q1)\<lparr> LeftOverSessions := 0 \<rparr>"
  have "to_reclaim ?s1 = to_reclaim s" "cleanup_entry ?s1 = cleanup_entry s"
    by (simp_all add: fun_eq_iff to_reclaim_def idle_def cleanup_entry_def queued_def)
  then have rl1: "reclaim_list ?s1 = reclaim_list s" by (intro ext) (simp add: reclaim_list_def)
  obtain n where 2: "scan_all_sessions free_ses now ?s1 = (queued ?s1 ?q2)\<lparr> LeftOverSessions := n \<rparr>"
    using scan_all_sessions_queue [of ?s1 free_ses now "[0..<256]"] nn(2)
    by (auto simp: scan_all_sessions_def rl1 cong: if_cong)
  have "collect_zombies free_dev free_ses now s =
      ((queued ?s1 ?q2)\<lparr> LeftOverSessions := n \<rparr>)\<lparr> AverageDeviceConnectionTime :=
         (if NumberOfConnectedDevices s > 0 then t div NumberOfConnectedDevices s else 0) \<rparr>"
    unfolding collect_zombies_def Let_def 1 prod.case 2 by (simp add: queued_def)
  then show "conns (collect_zombies free_dev free_ses now s) = conns s"
    and "Sessions (collect_zombies free_dev free_ses now s) = Sessions s"
    and "SerialNumbers (collect_zombies free_dev free_ses now s) = SerialNumbers s"
    and "srv_Running (collect_zombies free_dev free_ses now s) = srv_Running s"
    and "CleanupQueue (collect_zombies free_dev free_ses now s) = CleanupQueue s @ ?q1 @ ?q2"
    by (simp_all add: queued_def)
qed

lemma in_reclaim_list:
  "e \<in> set (reclaim_list s now m) \<longleftrightarrow> (\<exists>k h. (k, Some h) \<in> set m \<and> to_reclaim s now h \<and> e = cleanup_entry s h)"
proof -
  have "h \<in> set (live_handles m) \<longleftrightarrow> (\<exists>k. (k, Some h) \<in> set m)" for h
    by (induction m) (auto simp: live_handles_def List.map_filter_def split: option.splits)
  then show ?thesis by (auto simp: reclaim_list_def)
qed

lemma collect_zombies_entries:
  assumes "no_null (Sessions s)" and "no_null (SerialNumbers s)"
  shows "e \<in> set (CleanupQueue (collect_zombies (\<lambda>_. True) (\<lambda>_. True) now s)) \<longleftrightarrow> e \<in> set (CleanupQueue s) \<or>
     (\<exists>i<256. e \<in> set (reclaim_list s now (SerialNumbers s i)) \<or> e \<in> set (reclaim_list s now (Sessions s i)))"
proof -
  have u: "e \<in> set (concat (map f [0..<n])) \<longleftrightarrow> (\<exists>i<n. e \<in> set (f i))" for f :: "nat \<Rightarrow> (u64 \<times> u64) list" and n
    by auto
  show ?thesis
    unfolding collect_zombies_queue(5) [OF assms] if_True set_append Un_iff u by blast
qed

section \<open>The registries the program can reach\<close>

text \<open>
  \<open>reg_reach used s\<close>: the registry \<open>s\<close> is reached when the identifiers in \<open>used\<close> were handed out to accepted
  web sockets. The identifier of a session comes from one counter that only goes up
  (\<^verbatim>\<open>session_id_++\<close> in the factory), so it is new; the connection is a new object. Every operation
  on the two arrays of maps is a rule, called with any arguments, since a device chooses the number it
  sends and the queue may hold old entries. Everything else the program does (a message that
  changes a connection, its serial number included, a counter, the queue) leaves the maps alone and
  never writes the session identifier of a connection.
\<close>

inductive reg_reach :: "u64 set \<Rightarrow> server \<Rightarrow> bool" where
  start: "Sessions s = (\<lambda>_. []) \<Longrightarrow> SerialNumbers s = (\<lambda>_. []) \<Longrightarrow> reg_reach {} s"
| accept: "reg_reach used s \<Longrightarrow> sid \<notin> used \<Longrightarrow> h \<notin> registered s \<Longrightarrow>
     reg_reach (insert sid used) (handleRequest h sid uuid now s)"
| begins: "reg_reach used s \<Longrightarrow> reg_reach used (StartSession sid serial s)"
| ends: "reg_reach used s \<Longrightarrow> reg_reach used (snd (EndSession sid serial s))"
| disconnected: "reg_reach used s \<Longrightarrow> reg_reach used (snd (Disconnect serial s))"
| zombies: "reg_reach used s \<Longrightarrow> reg_reach used (collect_zombies free_dev free_ses now s)"
| cleanup: "reg_reach used s \<Longrightarrow> reg_reach used (CleanupSessions s)"
| others: "reg_reach used s \<Longrightarrow> Sessions s' = Sessions s \<Longrightarrow> SerialNumbers s' = SerialNumbers s \<Longrightarrow>
     (\<And>h. sid_of s' h = sid_of s h) \<Longrightarrow> reg_reach used s'"

text \<open>Well-formed maps without null pointers, and registered connections told apart by their session.\<close>

definition reg_ok :: "u64 set \<Rightarrow> server \<Rightarrow> bool" where
  "reg_ok used s \<longleftrightarrow>
     sh_wf SessionHash (Sessions s) \<and> sh_wf MACHash (SerialNumbers s) \<and>
     no_null (Sessions s) \<and> no_null (SerialNumbers s) \<and>
     inj_on (sid_of s) (registered s) \<and> sid_of s ` registered s \<subseteq> used"

lemma reg_ok_shrink:
  assumes "reg_ok used s" and "registered s' \<subseteq> registered s" and "\<And>h. sid_of s' h = sid_of s h"
    and "sh_wf SessionHash (Sessions s')" and "sh_wf MACHash (SerialNumbers s')"
    and "no_null (Sessions s')" and "no_null (SerialNumbers s')"
  shows "reg_ok used s'"
proof -
  have "inj_on (sid_of s') (registered s')"
    using assms(1-3) by (auto simp: reg_ok_def inj_on_def subset_iff)
  moreover have "sid_of s' ` registered s' \<subseteq> used"
    using assms(1-3) by (auto simp: reg_ok_def image_subset_iff subset_iff)
  ultimately show ?thesis using assms(4-7) by (simp add: reg_ok_def)
qed

lemma registered_subset:
  assumes "\<And>k h. sh_find SessionHash (Sessions s') k = Some (Some h) \<Longrightarrow> h \<in> registered s"
    and "\<And>k h. sh_find MACHash (SerialNumbers s') k = Some (Some h) \<Longrightarrow> h \<in> registered s"
  shows "registered s' \<subseteq> registered s"
proof
  fix h assume "h \<in> registered s'"
  then show "h \<in> registered s" unfolding registered_def [of s'] using assms by blast
qed

lemma reg_ok_StartSession: "reg_ok used s \<Longrightarrow> reg_ok used (StartSession sid serial s)"
proof (cases "sh_find SessionHash (Sessions s) sid")
  case (Some c)
  assume ok: "reg_ok used s"
  with Some obtain h where c: "c = Some h"
    by (cases c) (force simp: reg_ok_def no_null_def list_all_iff sh_find_iff)+
  show ?thesis
  proof (rule reg_ok_shrink [OF ok])
    show "registered (StartSession sid serial s) \<subseteq> registered s"
      using ok Some c
      by (auto simp: registered_def StartSession_def reg_ok_def sh.lookup_drop sh.lookup_store split: if_splits)
  qed (use ok Some c in \<open>auto simp: StartSession_def reg_ok_def sh.wf_drop sh.wf_store\<close>)
qed (simp add: StartSession_def)

lemma reg_ok_drop:
  assumes "reg_ok used s" and "Sessions s' = Sessions s \<or> Sessions s' = sh_erase SessionHash sid (Sessions s)"
    and "SerialNumbers s' = SerialNumbers s \<or> SerialNumbers s' = sh_erase MACHash serial (SerialNumbers s)"
    and "conns s' = conns s"
  shows "reg_ok used s'"
proof (rule reg_ok_shrink [OF assms(1)])
  have wf: "sh_wf SessionHash (Sessions s)" "sh_wf MACHash (SerialNumbers s)" "no_null (Sessions s)" "no_null (SerialNumbers s)"
    using assms(1) by (simp_all add: reg_ok_def)
  show "registered s' \<subseteq> registered s"
  proof (rule registered_subset)
    show "h \<in> registered s" if "sh_find SessionHash (Sessions s') k = Some (Some h)" for k h
      using that assms(2) wf(1) by (auto simp: registered_def sh.lookup_drop split: if_splits)
    show "h \<in> registered s" if "sh_find MACHash (SerialNumbers s') k = Some (Some h)" for k h
      using that assms(3) wf(2) by (auto simp: registered_def sh.lookup_drop split: if_splits)
  qed
  show "sid_of s' h = sid_of s h" for h using assms(4) by simp
  show "sh_wf SessionHash (Sessions s')" using assms(2) wf(1) by (auto intro: sh.wf_drop)
  show "sh_wf MACHash (SerialNumbers s')" using assms(3) wf(2) by (auto intro: sh.wf_drop)
  show "no_null (Sessions s')" using assms(2) wf(3) by auto
  show "no_null (SerialNumbers s')" using assms(3) wf(4) by auto
qed

lemma reg_ok_EndSession: "reg_ok used s \<Longrightarrow> reg_ok used (snd (EndSession sid serial s))"
  by (erule reg_ok_drop [where sid = sid and serial = serial]) (simp_all add: EndSession_def Let_def split: option.split)

lemma reg_ok_Disconnect: "reg_ok used s \<Longrightarrow> reg_ok used (snd (Disconnect serial s))"
proof (cases "device_conn serial s")
  case (Some h)
  assume "reg_ok used s"
  then show ?thesis
    by (rule reg_ok_drop [where sid = "sid_of s h" and serial = serial]) (simp_all add: Disconnect_def Some)
qed (simp add: Disconnect_def)

lemma reg_ok_same_maps:
  assumes "reg_ok used s" and "Sessions s' = Sessions s" and "SerialNumbers s' = SerialNumbers s"
    and "\<And>h. sid_of s' h = sid_of s h"
  shows "reg_ok used s'"
  by (rule reg_ok_shrink [OF assms(1)]) (use assms in \<open>auto simp: reg_ok_def registered_def\<close>)

lemma reg_ok_collect: "reg_ok used s \<Longrightarrow> reg_ok used (collect_zombies free_dev free_ses now s)"
  by (rule reg_ok_same_maps) (simp_all add: collect_zombies_queue reg_ok_def)

lemma reg_ok_cleanup: "reg_ok used s \<Longrightarrow> reg_ok used (CleanupSessions s)"
proof -
  have "reg_ok used (cleanup_entries q t)" if "reg_ok used t" for q t
    using that by (induction q t rule: cleanup_entries.induct) (auto intro: reg_ok_EndSession)
  moreover assume "reg_ok used s"
  moreover from this have "reg_ok used (s\<lparr> CleanupQueue := [] \<rparr>)" by (rule reg_ok_same_maps) simp_all
  ultimately show ?thesis by (simp add: CleanupSessions_def)
qed

lemma conn_Start_sid: "sessionId (State (conn_Start now c)) = sessionId (State c)"
  by (simp add: conn_Start_def)

lemma reg_ok_handleRequest:
  assumes "reg_ok used s" and "sid \<notin> used" and "h \<notin> registered s"
  shows "reg_ok (insert sid used) (handleRequest h sid uuid now s)"
proof -
  let ?s = "s\<lparr> conns := (conns s)(h := fresh_connection sid uuid),
               NumberOfConnectedDevices := NumberOfConnectedDevices s + 1 \<rparr>"
  let ?t = "AddConnection h ?s"
  have sid: "sid_of ?s h' = (if h' = h then sid else sid_of s h')" for h'
    by (simp add: fresh_connection_def fresh_state_def)
  have reg: "registered ?t \<subseteq> insert h (registered s)"
    using assms(1) by (auto simp: registered_def AddConnection_def reg_ok_def sh.lookup_store split: if_splits)
  have t: "conns ?t = conns ?s" by (simp add: AddConnection_def)
  have used: "sid_of s h' \<in> used" if "h' \<in> registered s" for h'
    using that assms(1) by (auto simp: reg_ok_def)
  have inj: "inj_on (sid_of s) (registered s)" using assms(1) by (simp add: reg_ok_def)
  have "inj_on (sid_of ?s) (insert h (registered s))"
  proof (rule inj_onI)
    fix a b assume "a \<in> insert h (registered s)" "b \<in> insert h (registered s)" "sid_of ?s a = sid_of ?s b"
    with used assms(2,3) inj_onD [OF inj] show "a = b" unfolding sid by (auto split: if_splits)
  qed
  then have "inj_on (sid_of ?t) (registered ?t)"
    unfolding t using reg by (rule inj_on_subset)
  moreover have "sid_of ?t h' \<in> insert sid used" if "h' \<in> registered ?t" for h'
    unfolding t sid using that reg used by auto
  then have "sid_of ?t ` registered ?t \<subseteq> insert sid used" by blast
  moreover have "sh_wf SessionHash (Sessions ?t)" "sh_wf MACHash (SerialNumbers ?t)" "no_null (Sessions ?t)"
    "no_null (SerialNumbers ?t)"
    using assms(1) by (simp_all add: reg_ok_def AddConnection_def sh.wf_store)
  ultimately have "reg_ok (insert sid used) ?t" by (simp add: reg_ok_def)
  then show ?thesis
    by (rule reg_ok_same_maps) (auto simp: handleRequest_def Let_def AddConnection_def fun_eq_iff conn_Start_sid)
qed

lemma reg_reach_ok: "reg_reach used s \<Longrightarrow> reg_ok used s"
proof (induction rule: reg_reach.induct)
  case (start s)
  then show ?case by (simp add: reg_ok_def registered_def)
next
  case (others used s s')
  from others.IH others.hyps(2-4) show ?case by (rule reg_ok_same_maps)
qed (auto intro: reg_ok_handleRequest reg_ok_StartSession reg_ok_EndSession reg_ok_Disconnect reg_ok_collect reg_ok_cleanup)

lemma same_session:
  assumes "reg_ok used s" and "(k, Some h) \<in> set (SerialNumbers s i) \<or> (k, Some h) \<in> set (Sessions s i)"
    and "device_conn k' s = Some h'" and "sid_of s h = sid_of s h'"
  shows "h = h'"
proof -
  have "h \<in> registered s" using assms(1,2) by (auto simp: registered_def reg_ok_def dest: sh_entry)
  moreover have "h' \<in> registered s" using assms(3) by (auto simp: registered_def device_conn_eq)
  ultimately show ?thesis using assms(1,4) by (auto simp: reg_ok_def dest: inj_onD)
qed

lemma collect_zombies_mem:
  assumes "reg_ok used s" and "device_conn k s = Some h"
  shows "(sid_of s h, k) \<in> set (CleanupQueue (collect_zombies (\<lambda>_. True) (\<lambda>_. True) now s)) \<longleftrightarrow>
     (sid_of s h, k) \<in> set (CleanupQueue s) \<or> to_reclaim s now h \<and> c_SerialNumberInt (conns s h) = k"
proof -
  have nn: "no_null (Sessions s)" "no_null (SerialNumbers s)" and wf: "sh_wf MACHash (SerialNumbers s)"
    using assms(1) by (simp_all add: reg_ok_def)
  have "(k, Some h) \<in> set (SerialNumbers s (MACHash k))"
    using assms(2) by (simp only: device_conn_eq sh_find_iff [OF wf])
  then have own: "to_reclaim s now h \<Longrightarrow> c_SerialNumberInt (conns s h) = k \<Longrightarrow>
      (sid_of s h, k) \<in> set (reclaim_list s now (SerialNumbers s (MACHash k)))"
    unfolding in_reclaim_list cleanup_entry_def by blast
  have only: "to_reclaim s now h \<and> c_SerialNumberInt (conns s h) = k"
    if e: "(sid_of s h, k) \<in> set (reclaim_list s now (SerialNumbers s i)) \<or>
           (sid_of s h, k) \<in> set (reclaim_list s now (Sessions s i))" for i
  proof -
    from e obtain k' h' where m: "(k', Some h') \<in> set (SerialNumbers s i) \<or> (k', Some h') \<in> set (Sessions s i)"
      and r: "to_reclaim s now h'" "(sid_of s h, k) = cleanup_entry s h'" unfolding in_reclaim_list by blast
    have "h' = h" using same_session [OF assms(1) m assms(2)] r(2) by (simp add: cleanup_entry_def)
    with r show ?thesis by (simp add: cleanup_entry_def)
  qed
  show ?thesis unfolding collect_zombies_entries [OF nn] using own only MACHash_bound [of k] by blast
qed

text \<open>
  C2: in every registry the program can reach, with every lock free, one zombie collection followed by
  the cleanup thread unregisters a device exactly when its session waits in the cleanup queue already, or
  when its connection is dead or silent for longer than the session time-out and still carries the serial
  number it is registered under. Every other device keeps the connection it had; so a dead connection
  that took another number after its session was started is never collected.
\<close>

theorem janitor_exact:
  assumes "reg_reach used s" and "srv_Running s"
  shows "device_conn k (CleanupSessions (collect_zombies (\<lambda>_. True) (\<lambda>_. True) now s)) =
     (case device_conn k s of
        None \<Rightarrow> None
      | Some h \<Rightarrow>
          if (sid_of s h, k) \<in> set (CleanupQueue s) \<or> to_reclaim s now h \<and> c_SerialNumberInt (conns s h) = k
          then None else Some h)"
proof -
  define z where "z = collect_zombies (\<lambda>_. True) (\<lambda>_. True) now s"
  have ok: "reg_ok used s" using assms(1) by (rule reg_reach_ok)
  then have nn: "no_null (Sessions s)" "no_null (SerialNumbers s)" and wf: "sh_wf MACHash (SerialNumbers s)"
    by (simp_all add: reg_ok_def)
  have zf: "conns z = conns s" "SerialNumbers z = SerialNumbers s" "srv_Running z = srv_Running s"
    by (simp_all add: z_def collect_zombies_queue [OF nn])
  have "CleanupSessions z = cleanup_entries (CleanupQueue z) (z\<lparr> CleanupQueue := [] \<rparr>)"
    using assms(2) zf(3) by (simp add: CleanupSessions_def)
  moreover have "device_conn k (cleanup_entries (CleanupQueue z) (z\<lparr> CleanupQueue := [] \<rparr>)) =
      (case device_conn k s of Some h \<Rightarrow> if (sid_of s h, k) \<in> set (CleanupQueue z) then None else Some h | None \<Rightarrow> None)"
    using cleanup_entries_device [of "z\<lparr> CleanupQueue := [] \<rparr>" k "CleanupQueue z"] wf zf(1,2)
    by (simp add: device_conn_def cong: option.case_cong)
  ultimately show ?thesis
    using collect_zombies_mem [OF ok, of k _ now] by (simp add: z_def split: option.split)
qed

section \<open>Every operation keeps the invariant\<close>

lemma registered_StartSession:
  assumes "reg_inv s" and "sh_find SessionHash (Sessions s) sid = Some (Some h)"
  shows "registered (StartSession sid sn s) \<subseteq> registered s"
  using assms
  by (auto simp: registered_def StartSession_def reg_inv_def sh.lookup_drop sh.lookup_store split: if_splits)

lemma reg_inv_AddConnection:
  assumes "reg_inv s" and "\<forall>h'\<in>registered s. h' \<noteq> h \<longrightarrow> sid_of s h' \<noteq> sid_of s h"
  shows "reg_inv (AddConnection h s)"
proof -
  have "registered (AddConnection h s) \<subseteq> insert h (registered s)"
    using assms(1) by (auto simp: registered_def AddConnection_def reg_inv_def sh.lookup_store split: if_splits)
  moreover have "inj_on (sid_of s) (insert h (registered s))"
    using assms by (auto simp: reg_inv_def inj_on_def)
  ultimately have "inj_on (sid_of s) (registered (AddConnection h s))" by (rule inj_on_subset [rotated])
  with assms(1) show ?thesis
    by (auto simp: reg_inv_def AddConnection_def sh.wf_store sh.lookup_store  split: if_splits)
qed

lemma reg_inv_StartSession:
  assumes "reg_inv s" and "sh_find SessionHash (Sessions s) sid = Some (Some h)"
    and "c_SerialNumberInt (conns s h) = sn"
  shows "reg_inv (StartSession sid sn s)"
proof -
  have "inj_on (sid_of s) (registered (StartSession sid sn s))"
    using registered_StartSession [OF assms(1,2)] assms(1) by (auto simp: reg_inv_def intro: inj_on_subset)
  with assms show ?thesis
    by (auto simp: reg_inv_def StartSession_def sh.wf_store sh.wf_drop sh.lookup_store sh.lookup_drop
         split: if_splits)
qed

lemma reg_inv_EndSession:
  assumes "reg_inv s"
  shows "reg_inv (snd (EndSession sid sn s))"
proof -
  have "registered (snd (EndSession sid sn s)) \<subseteq> registered s"
    using assms by (auto simp: registered_def EndSession_def reg_inv_def Let_def sh.lookup_drop split: option.splits if_splits)
  then have "inj_on (sid_of s) (registered (snd (EndSession sid sn s)))"
    using assms by (auto simp: reg_inv_def intro: inj_on_subset)
  with assms show ?thesis
    by (auto simp: reg_inv_def EndSession_def Let_def sh.wf_drop sh.lookup_drop split: option.splits if_splits)
qed

text \<open>The empty registry.\<close>

definition fresh_server :: server where
  "fresh_server =
     \<lparr> Sessions = (\<lambda>_. []), SerialNumbers = (\<lambda>_. []), conns = (\<lambda>h. fresh_connection (of_nat h) 0), CleanupQueue = [],
       NumberOfConnectedDevices = 0, AverageDeviceConnectionTime = 0, NumberOfConnectingDevices = 0,
       SessionTimeOut = 600, LeftOverSessions = 0, srv_TX = 0, srv_RX = 0, SimulatorId = [],
       SimulatorEnabled = False, LookAtProvisioning = False, UseDefaultConfig = True, srv_Running = True \<rparr>"

lemma reg_inv_fresh [gw_inv]: "reg_inv fresh_server"
  by (simp add: reg_inv_def fresh_server_def registered_def)

text \<open>A registry with one pending connection, then started, to evaluate the properties on.\<close>

lemma reg_example_1:
  "sh_find SessionHash (Sessions (AddConnection 1 fresh_server)) 1 = Some (Some 1)"
  "reg_inv (AddConnection 1 fresh_server)"
proof -
  have "registered fresh_server = {}" by (simp add: registered_def fresh_server_def)
  with reg_inv_fresh show "reg_inv (AddConnection 1 fresh_server)" by (intro reg_inv_AddConnection) auto
  show "sh_find SessionHash (Sessions (AddConnection 1 fresh_server)) 1 = Some (Some 1)"
    by (simp add: AddConnection_def fresh_server_def fresh_connection_def fresh_state_def sh.lookup_same)
qed

lemma reg_example_2:
  "reg_inv (StartSession 1 0 (AddConnection 1 fresh_server))"
  "device_conn 0 (StartSession 1 0 (AddConnection 1 fresh_server)) = Some 1"
  "sid_of (StartSession 1 0 (AddConnection 1 fresh_server)) 1 = 1"
  "srv_Running (StartSession 1 0 (AddConnection 1 fresh_server))"
  "CleanupQueue (StartSession 1 0 (AddConnection 1 fresh_server)) = []"
  "to_reclaim (StartSession 1 0 (AddConnection 1 fresh_server)) 1000 1"
proof -
  let ?s = "AddConnection 1 fresh_server"
  have c: "conns ?s = conns fresh_server" by (simp add: AddConnection_def)
  have n: "c_SerialNumberInt (conns ?s 1) = 0"
    unfolding c by (simp add: fresh_server_def fresh_connection_def)
  show "reg_inv (StartSession 1 0 ?s)"
    using reg_inv_StartSession [OF reg_example_1(2,1) n] .
  show "device_conn 0 (StartSession 1 0 ?s) = Some 1"
    using reg_example_1 by (simp add: StartSession_def device_conn_def reg_inv_def sh.lookup_same)
  show "sid_of (StartSession 1 0 ?s) 1 = 1" "srv_Running (StartSession 1 0 ?s)" "CleanupQueue (StartSession 1 0 ?s) = []"
    "to_reclaim (StartSession 1 0 ?s) 1000 1"
    using reg_example_1(1)
    by (simp_all add: StartSession_def c to_reclaim_def idle_def)
      (simp_all add: AddConnection_def fresh_server_def fresh_connection_def fresh_state_def)
qed

theorem StartSession_registers_witness:
  "device_conn 7 (StartSession 1 7 (AddConnection 1 fresh_server)) = Some 1"
  using StartSession_registers [OF reg_example_1(2,1)] by blast

theorem EndSession_spares_reconnected_witness:
  "device_conn 0 (snd (EndSession 9 0 (StartSession 1 0 (AddConnection 1 fresh_server)))) = Some 1"
  using EndSession_spares_reconnected [OF reg_example_2(2)] reg_example_2(3) by simp

lemma reg_example_3:
  "reg_inv (AddConnection 2 (StartSession 1 0 (AddConnection 1 fresh_server)))"
  "sh_find SessionHash (Sessions (AddConnection 2 (StartSession 1 0 (AddConnection 1 fresh_server)))) 2 = Some (Some 2)"
  "device_conn 0 (AddConnection 2 (StartSession 1 0 (AddConnection 1 fresh_server))) = Some 1"
proof -
  let ?s = "StartSession 1 0 (AddConnection 1 fresh_server)"
  have c: "sid_of ?s 2 = 2" "sid_of ?s 1 = 1"
    using reg_example_1(1)
    by (simp_all add: StartSession_def) (simp_all add: AddConnection_def fresh_server_def fresh_connection_def fresh_state_def)
  have only: "registered ?s \<subseteq> {1}"
    using reg_example_1
    by (auto simp: registered_def StartSession_def reg_inv_def sh.lookup_store sh.lookup_drop split: if_splits)
      (auto simp: AddConnection_def fresh_server_def fresh_connection_def fresh_state_def sh.lookup_store split: if_splits)
  then show "reg_inv (AddConnection 2 ?s)"
    using c by (intro reg_inv_AddConnection reg_example_2(1)) auto
  have "sh_find SessionHash (Sessions ?s) 2 \<noteq> Some (Some h)" for h
  proof
    assume "sh_find SessionHash (Sessions ?s) 2 = Some (Some h)"
    then have "sid_of ?s h = 2" "h \<in> registered ?s" using reg_example_2(1) by (auto simp: reg_inv_def registered_def)
    with only c show False by auto
  qed
  then have "sh_find SessionHash (Sessions ?s) 2 = None"
    using reg_example_2(1) by (cases "sh_find SessionHash (Sessions ?s) 2") (force simp: reg_inv_def no_null_def list_all_iff sh_find_iff)+
  then show "sh_find SessionHash (Sessions (AddConnection 2 ?s)) 2 = Some (Some 2)"
    using reg_example_2(1) c by (simp add: AddConnection_def reg_inv_def sh.lookup_same)
  show "device_conn 0 (AddConnection 2 ?s) = Some 1"
    using reg_example_2(2) by (simp add: AddConnection_def device_conn_def)
qed

theorem refused_claim_evicts_witness:
  "device_conn 0 (snd (EndSession 2 0 (StartSession 2 0
     (AddConnection 2 (StartSession 1 0 (AddConnection 1 fresh_server)))))) = None"
  using refused_claim_evicts [OF reg_example_3] by blast

lemma GetHealthDevices_no_sessions:
  assumes "\<And>i. Sessions s i = []"
  shows "GetHealthDevices lo hi s = Inr []"
proof -
  have "foldl (\<lambda>acc i. try_bind acc (\<lambda>xs. map_sum id (\<lambda>ys. xs @ ys) (health_in lo hi s (Sessions s i)))) (Inr []) is = Inr []"
    for "is" :: "nat list" by (induction "is") (simp_all add: assms health_in_def try_bind_def)
  then show ?thesis unfolding GetHealthDevices_def by blast
qed

theorem GetHealthDevices_misses_started_witness:
  "\<exists>xs. GetHealthDevices 0 100 (StartSession 1 7 (AddConnection 1 fresh_server)) = Inr xs \<and>
     device_conn 7 (StartSession 1 7 (AddConnection 1 fresh_server)) = Some 1 \<and>
     c_SerialNumber (conns (AddConnection 1 fresh_server) 1) \<notin> set xs"
proof -
  have "\<forall>k h'. sh_find SessionHash (Sessions (AddConnection 1 fresh_server)) k = Some (Some h') \<longrightarrow> h' = 1"
    by (auto simp: AddConnection_def fresh_server_def fresh_connection_def fresh_state_def sh.lookup_store split: if_splits)
  moreover have "Sessions (StartSession 1 7 (AddConnection 1 fresh_server)) i = []" for i
    using reg_example_1(1)
    by (simp add: StartSession_def AddConnection_def fresh_server_def fresh_connection_def fresh_state_def sh_find_def
        sh_set_def sh_erase_def om_find_def om_erase_def)
  ultimately show ?thesis
    using GetHealthDevices_misses_started [OF reg_example_1(2,1)] GetHealthDevices_no_sessions by blast
qed

text \<open>
  A device whose dead connection is collected, and one that sent a second number and stays for ever: both are
  reached from the empty registry by accepting a socket and starting its session.
\<close>

definition one_device :: "u64 \<Rightarrow> server" where
  "one_device serial =
     (let s = StartSession 1 7 (handleRequest 1 1 0 0 fresh_server)
      in s\<lparr> conns := (conns s)(1 := (conns s 1)\<lparr> Dead := True, c_SerialNumberInt := serial \<rparr>) \<rparr>)"

lemma one_device_reached: "reg_reach {1} (one_device serial)"
proof -
  have "reg_reach {} fresh_server" by (rule reg_reach.start) (simp_all add: fresh_server_def)
  then have "reg_reach {1} (handleRequest 1 1 0 0 fresh_server)"
    by (rule reg_reach.accept) (simp_all add: registered_def fresh_server_def)
  then have "reg_reach {1} (StartSession 1 7 (handleRequest 1 1 0 0 fresh_server))" by (rule reg_reach.begins)
  then show ?thesis by (rule reg_reach.others) (auto simp: one_device_def Let_def)
qed

lemma one_device_facts:
  "device_conn 7 (one_device serial) = Some 1" "srv_Running (one_device serial)" "CleanupQueue (one_device serial) = []"
  "Dead (conns (one_device serial) 1)" "c_SerialNumberInt (conns (one_device serial) 1) = serial"
proof -
  have "sh_find SessionHash (Sessions (handleRequest 1 1 0 0 fresh_server)) 1 = Some (Some 1)"
    by (simp add: handleRequest_def Let_def AddConnection_def fresh_server_def fresh_connection_def fresh_state_def sh.lookup_same)
  moreover have "sh_wf MACHash (SerialNumbers (handleRequest 1 1 0 0 fresh_server))"
    by (simp add: handleRequest_def Let_def AddConnection_def fresh_server_def)
  ultimately show "device_conn 7 (one_device serial) = Some 1" "srv_Running (one_device serial)"
    "CleanupQueue (one_device serial) = []" "Dead (conns (one_device serial) 1)"
    "c_SerialNumberInt (conns (one_device serial) 1) = serial"
    by (simp_all add: one_device_def Let_def StartSession_def device_conn_def sh.lookup_same)
      (simp_all add: handleRequest_def Let_def AddConnection_def fresh_server_def)
qed

theorem janitor_exact_witness:
  "device_conn 7 (CleanupSessions (collect_zombies (\<lambda>_. True) (\<lambda>_. True) 1000 (one_device 7))) = None \<and>
   device_conn 7 (CleanupSessions (collect_zombies (\<lambda>_. True) (\<lambda>_. True) 1000 (one_device 8))) = Some 1"
  using janitor_exact [OF one_device_reached one_device_facts(2), of 7 1000] one_device_facts
  by (simp add: to_reclaim_def)

end
