(* ===== verification/GW_Rest.thy ===== *)
theory GW_Rest
  imports GW_Devices
begin

text \<open>
  The JSON side of the REST objects: the field helpers of \<^verbatim>\<open>src/framework/RESTAPI_utils.h\<close> and the
  conversions of the objects a device row and a connection hold
  (\<^verbatim>\<open>src/RESTObjects/RESTAPI_GWobjects.cpp\<close>, \<^verbatim>\<open>RESTAPI_SecurityObjects.cpp\<close>). A \<^verbatim>\<open>from_json\<close> assigns the
  fields in order and stops at the first exception with the earlier fields assigned.
\<close>

section \<open>Field helpers\<close>

definition obj_set :: "string \<Rightarrow> json \<Rightarrow> jobject \<Rightarrow> jobject" where
  "obj_set field v obj = om_set field v obj"

definition str_to_json :: "string \<Rightarrow> string \<Rightarrow> jobject \<Rightarrow> jobject" where
  "str_to_json field s = obj_set field (JStr s)"

definition bool_to_json :: "string \<Rightarrow> bool \<Rightarrow> jobject \<Rightarrow> jobject" where
  "bool_to_json field b = obj_set field (JBool b)"

definition u64_to_json :: "string \<Rightarrow> u64 \<Rightarrow> jobject \<Rightarrow> jobject" where
  "u64_to_json field u = obj_set field (JInt (uint u))"

definition strs_to_json :: "string \<Rightarrow> string list \<Rightarrow> jobject \<Rightarrow> jobject" where
  "strs_to_json field ss = obj_set field (JArr (map JStr ss))"

definition sub_to_json :: "string \<Rightarrow> jobject \<Rightarrow> jobject \<Rightarrow> jobject" where
  "sub_to_json field sub = obj_set field (JObj sub)"

text \<open>A reader changes its object or raises; a missing or null member changes nothing.\<close>

type_synonym 'a reader = "'a \<Rightarrow> cpp_exn + 'a"

definition when_present :: "jobject \<Rightarrow> string \<Rightarrow> (json \<Rightarrow> cpp_exn + 'b) \<Rightarrow> ('b \<Rightarrow> 'a \<Rightarrow> 'a) \<Rightarrow> 'a reader" where
  "when_present obj field conv upd x =
     (if j_has obj field \<and> \<not> j_isNull obj field then map_sum id (\<lambda>v. upd v x) (conv (j_get obj field)) else Inr x)"

definition str_from_json :: "poco \<Rightarrow> jobject \<Rightarrow> string \<Rightarrow> (string \<Rightarrow> 'a \<Rightarrow> 'a) \<Rightarrow> 'a reader" where
  "str_from_json p obj field upd = when_present obj field (p_string p) upd"

definition bool_from_json :: "poco \<Rightarrow> jobject \<Rightarrow> string \<Rightarrow> (bool \<Rightarrow> 'a \<Rightarrow> 'a) \<Rightarrow> 'a reader" where
  "bool_from_json p obj field upd = when_present obj field (\<lambda>j. map_sum id (\<lambda>s. s = ''true'') (p_string p j)) upd"

definition u64_from_json :: "poco \<Rightarrow> jobject \<Rightarrow> string \<Rightarrow> (u64 \<Rightarrow> 'a \<Rightarrow> 'a) \<Rightarrow> 'a reader" where
  "u64_from_json p obj field upd = when_present obj field (p_u64 p) upd"

fun strings_of :: "poco \<Rightarrow> json list \<Rightarrow> cpp_exn + string list" where
  "strings_of p [] = Inr []"
| "strings_of p (j # js) = try_bind (p_string p j) (\<lambda>s. map_sum id (\<lambda>ss. s # ss) (strings_of p js))"

definition strs_from_json :: "poco \<Rightarrow> jobject \<Rightarrow> string \<Rightarrow> (string list \<Rightarrow> 'a \<Rightarrow> 'a) \<Rightarrow> 'a reader" where
  "strs_from_json p obj field upd x =
     (if j_isArray obj field then map_sum id (\<lambda>v. upd v x) (strings_of p (j_getArray obj field)) else Inr x)"

definition sub_from_json :: "jobject \<Rightarrow> string \<Rightarrow> (jobject \<Rightarrow> 'a \<Rightarrow> 'a) \<Rightarrow> 'a reader" where
  "sub_from_json obj field upd x = Inr (if j_isObject obj field then upd (j_getObject obj field) x else x)"

text \<open>The readers one after the other: success, and the object with all fields before the failure.\<close>

fun read_fields :: "'a reader list \<Rightarrow> 'a \<Rightarrow> bool \<times> 'a" where
  "read_fields [] x = (True, x)"
| "read_fields (r # rs) x = (case r x of Inl _ \<Rightarrow> (False, x) | Inr y \<Rightarrow> read_fields rs y)"

section \<open>Objects\<close>

definition KeyInfo_to_json :: "key_info \<Rightarrow> jobject" where
  "KeyInfo_to_json k = str_to_json ''algo'' (algo k) (str_to_json ''vendor'' (vendor k) [])"

definition KeyInfo_from_json :: "poco \<Rightarrow> jobject \<Rightarrow> key_info \<Rightarrow> bool \<times> key_info" where
  "KeyInfo_from_json p obj =
     read_fields [str_from_json p obj ''vendor'' (\<lambda>v k. k\<lparr> vendor := v \<rparr>),
                  str_from_json p obj ''algo'' (\<lambda>v k. k\<lparr> algo := v \<rparr>)]"

definition Restrictions_to_json :: "restrictions \<Rightarrow> jobject" where
  "Restrictions_to_json r =
     sub_to_json ''key_info'' (KeyInfo_to_json (r_key_info r))
       (strs_to_json ''country'' (r_country r)
         (bool_to_json ''commands'' (r_commands r)
           (bool_to_json ''upgrade'' (r_upgrade r)
             (bool_to_json ''developer'' (r_developer r)
               (bool_to_json ''tty'' (r_tty r)
                 (bool_to_json ''rtty'' (r_rtty r)
                   (bool_to_json ''ssh'' (r_ssh r)
                     (bool_to_json ''dfs'' (r_dfs r) []))))))))"

definition Restrictions_from_json :: "poco \<Rightarrow> jobject \<Rightarrow> restrictions \<Rightarrow> bool \<times> restrictions" where
  "Restrictions_from_json p obj =
     read_fields [bool_from_json p obj ''dfs'' (\<lambda>v r. r\<lparr> r_dfs := v \<rparr>),
                  bool_from_json p obj ''ssh'' (\<lambda>v r. r\<lparr> r_ssh := v \<rparr>),
                  bool_from_json p obj ''rtty'' (\<lambda>v r. r\<lparr> r_rtty := v \<rparr>),
                  bool_from_json p obj ''tty'' (\<lambda>v r. r\<lparr> r_tty := v \<rparr>),
                  bool_from_json p obj ''developer'' (\<lambda>v r. r\<lparr> r_developer := v \<rparr>),
                  bool_from_json p obj ''upgrade'' (\<lambda>v r. r\<lparr> r_upgrade := v \<rparr>),
                  bool_from_json p obj ''commands'' (\<lambda>v r. r\<lparr> r_commands := v \<rparr>),
                  strs_from_json p obj ''country'' (\<lambda>v r. r\<lparr> r_country := v \<rparr>),
                  sub_from_json obj ''key_info'' (\<lambda>o' r. r\<lparr> r_key_info := snd (KeyInfo_from_json p o' (r_key_info r)) \<rparr>)]"

text \<open>\<^verbatim>\<open>operator!=\<close>; the field \<^verbatim>\<open>tty\<close> is not compared.\<close>

definition KeyInfo_differ :: "key_info \<Rightarrow> key_info \<Rightarrow> bool" where
  "KeyInfo_differ k t \<longleftrightarrow> algo t \<noteq> algo k \<or> vendor t \<noteq> vendor k"

definition Restrictions_differ :: "restrictions \<Rightarrow> restrictions \<Rightarrow> bool" where
  "Restrictions_differ r t \<longleftrightarrow>
     r_dfs t \<noteq> r_dfs r \<or> r_rtty t \<noteq> r_rtty r \<or> r_upgrade t \<noteq> r_upgrade r \<or> r_commands t \<noteq> r_commands r \<or>
     r_developer t \<noteq> r_developer r \<or> r_ssh t \<noteq> r_ssh r \<or> KeyInfo_differ (r_key_info t) (r_key_info r) \<or>
     r_country t \<noteq> r_country r"

definition NoteInfo_to_json :: "note_info \<Rightarrow> jobject" where
  "NoteInfo_to_json n =
     str_to_json ''note'' (note_text n) (str_to_json ''createdBy'' (createdBy n) (u64_to_json ''created'' (created n) []))"

definition NoteInfo_from_json :: "poco \<Rightarrow> jobject \<Rightarrow> note_info \<Rightarrow> bool \<times> note_info" where
  "NoteInfo_from_json p obj =
     read_fields [u64_from_json p obj ''created'' (\<lambda>v n. n\<lparr> created := v \<rparr>),
                  str_from_json p obj ''createdBy'' (\<lambda>v n. n\<lparr> createdBy := v \<rparr>),
                  str_from_json p obj ''note'' (\<lambda>v n. n\<lparr> note_text := v \<rparr>)]"

section \<open>Round trips\<close>

lemma om_wf_obj_set [simp]: "om_wf obj \<Longrightarrow> om_wf (obj_set k v obj)"
  by (simp add: obj_set_def om_wf_set)

lemma om_find_obj_set [simp]: "om_wf obj \<Longrightarrow> om_find (obj_set k v obj) k' = (if k' = k then Some v else om_find obj k')"
  by (simp add: obj_set_def om_find_set)

lemmas json_writers = str_to_json_def bool_to_json_def u64_to_json_def strs_to_json_def sub_to_json_def

lemmas json_readers = str_from_json_def bool_from_json_def u64_from_json_def strs_from_json_def sub_from_json_def
  when_present_def j_has_def j_get_def j_isNull_def j_isArray_def j_getArray_def j_isObject_def j_getObject_def

text \<open>What the readers need of \<^verbatim>\<open>Var::toString\<close> and of the conversion to \<^verbatim>\<open>uint64_t\<close>.\<close>

definition var_strings :: "poco \<Rightarrow> bool" where
  "var_strings p \<longleftrightarrow> (\<forall>s. p_string p (JStr s) = Inr s) \<and> p_string p (JBool True) = Inr ''true'' \<and>
     p_string p (JBool False) = Inr ''false''"

lemma strings_of_JStr: "var_strings p \<Longrightarrow> strings_of p (map JStr ss) = Inr ss"
  by (induction ss) (simp_all add: var_strings_def)

lemma bool_string: "var_strings p \<Longrightarrow> \<exists>s. p_string p (JBool b) = Inr s \<and> (s = ''true'') = b"
  by (cases b) (simp_all add: var_strings_def)

lemma KeyInfo_roundtrip: "var_strings p \<Longrightarrow> KeyInfo_from_json p (KeyInfo_to_json k) k0 = (True, k)"
  by (simp add: KeyInfo_from_json_def KeyInfo_to_json_def json_writers json_readers var_strings_def)

text \<open>
  Restrictions written to JSON and read into any object give the same restrictions, without a
  failure, key information and country list included.
\<close>

theorem Restrictions_roundtrip:
  assumes "var_strings p"
  shows "Restrictions_from_json p (Restrictions_to_json r) r0 = (True, r)"
proof -
  have b: "map_sum id (\<lambda>s. s = ''true'') (p_string p (JBool b)) = Inr b" for b
    using bool_string [OF assms, of b] by auto
  show ?thesis
    by (simp add: Restrictions_from_json_def Restrictions_to_json_def json_writers json_readers b
        strings_of_JStr [OF assms] KeyInfo_roundtrip [OF assms, unfolded json_writers])
qed

text \<open>
  Two restrictions that differ compare as different, except when they differ in their \<^verbatim>\<open>tty\<close>
  permission only: then the comparison takes them for equal.
\<close>

theorem Restrictions_differ_tty:
  "Restrictions_differ r t \<longleftrightarrow> r\<lparr> r_tty := False \<rparr> \<noteq> t\<lparr> r_tty := False \<rparr>"
  by (cases r; cases t; cases "r_key_info r"; cases "r_key_info t")
    (auto simp: Restrictions_differ_def KeyInfo_differ_def)

lemma NoteInfo_roundtrip:
  "var_strings p \<Longrightarrow> p_u64 p (JInt (uint (created n))) = Inr (created n) \<Longrightarrow>
   NoteInfo_from_json p (NoteInfo_to_json n) n0 = (True, n)"
  by (simp add: NoteInfo_from_json_def NoteInfo_to_json_def json_writers json_readers var_strings_def)

theorem Restrictions_roundtrip_witness:
  "let p = (poco_of [])\<lparr> p_string := (\<lambda>j. case j of JStr s \<Rightarrow> Inr s | JBool b \<Rightarrow> Inr (if b then ''true'' else ''false'')
                                      | _ \<Rightarrow> Inl (Poco_Exception [])) \<rparr>;
       r = plain_restrictions\<lparr> r_ssh := True, r_country := [''CA'', ''US''] \<rparr>
   in Restrictions_from_json p (Restrictions_to_json r) plain_restrictions = (True, r)"
  unfolding Let_def by (rule Restrictions_roundtrip) (simp add: var_strings_def)

end
