(* ===== verification/GW_Text.thy ===== *)
theory GW_Text
  imports GW_Utils "HOL-Library.Multiset"
begin

text \<open>
  The second half of the text utilities of \<^verbatim>\<open>src/framework/utils.cpp\<close> and \<^verbatim>\<open>utils.h\<close>: base64, the
  wildcard matcher of the RADIUS session search, the number validator with its static regular
  expression, the password generator and the decompression loop. The pseudo-random generator is
  the sequence of its outputs, \<open>shuffle\<close> is \<^verbatim>\<open>std::shuffle\<close> and \<open>uncompress\<close> zlib's function.
\<close>

section \<open>Base64\<close>

definition kEncodeLookup :: string where
  "kEncodeLookup = ''ABCDEFGHIJKLMNOPQRSTUVWXYZabcdefghijklmnopqrstuvwxyz0123456789+/''"

definition enc_char :: "u32 \<Rightarrow> char" where
  "enc_char i = kEncodeLookup ! unat i"

text \<open>The full triples of the first loop, then the one or two bytes of the final \<^verbatim>\<open>switch\<close>.\<close>

fun base64encode :: "bytes \<Rightarrow> string" where
  "base64encode (a # b # c # rest) =
     (let temp = push_bit 16 (ucast a) + push_bit 8 (ucast b) + ucast c :: u32
      in enc_char (drop_bit 18 (temp AND 0x00FC0000)) #
         enc_char (drop_bit 12 (temp AND 0x0003F000)) #
         enc_char (drop_bit 6 (temp AND 0x00000FC0)) #
         enc_char (temp AND 0x0000003F) # base64encode rest)"
| "base64encode [a, b] =
     (let temp = push_bit 16 (ucast a) + push_bit 8 (ucast b) :: u32
      in [enc_char (drop_bit 18 (temp AND 0x00FC0000)),
          enc_char (drop_bit 12 (temp AND 0x0003F000)),
          enc_char (drop_bit 6 (temp AND 0x00000FC0)), CHR ''=''])"
| "base64encode [a] =
     (let temp = push_bit 16 (ucast a) :: u32
      in [enc_char (drop_bit 18 (temp AND 0x00FC0000)),
          enc_char (drop_bit 12 (temp AND 0x0003F000)), CHR ''='', CHR ''=''])"
| "base64encode [] = []"

text \<open>
  The value a character contributes; \<^verbatim>\<open>char\<close> is signed, so a byte of 0x80 or more is negative
  and falls through every range test. Subtracting 0x47 and adding 0x04 act on the code.
\<close>

definition dec_char :: "char \<Rightarrow> nat option" where
  "dec_char ch =
     (let n = char_code ch in
      if 0x41 \<le> n \<and> n \<le> 0x5A then Some (n - 0x41)
      else if 0x61 \<le> n \<and> n \<le> 0x7A then Some (n - 0x47)
      else if 0x30 \<le> n \<and> n \<le> 0x39 then Some (n + 0x04)
      else if n = 0x2B then Some 0x3E
      else if n = 0x2F then Some 0x3F
      else None)"

text \<open>
  One step per character: \<open>i\<close> counts the characters of the current group, \<open>temp\<close> keeps the
  bits read so far (and, above them, those of earlier groups, which every output masks away).
\<close>

fun base64decode_loop :: "u32 \<Rightarrow> nat \<Rightarrow> bytes \<Rightarrow> string \<Rightarrow> cpp_exn + bytes" where
  "base64decode_loop temp i decoded [] = Inr decoded"
| "base64decode_loop temp i decoded (ch # rest) =
     (let temp = push_bit 6 temp in
      case dec_char ch of
        Some v \<Rightarrow>
          (let temp = temp OR of_nat v in
           if i < 3 then base64decode_loop temp (Suc i) decoded rest
           else base64decode_loop temp 0
                  (decoded @ [ucast (drop_bit 16 temp AND 0xFF),
                              ucast (drop_bit 8 temp AND 0xFF),
                              ucast (temp AND 0xFF)]) rest)
      | None \<Rightarrow>
          if ch = CHR ''='' then
            (case length (ch # rest) of
               Suc 0 \<Rightarrow> Inr (decoded @ [ucast (drop_bit 16 temp AND 0xFF),
                                       ucast (drop_bit 8 temp AND 0xFF)])
             | Suc (Suc 0) \<Rightarrow> Inr (decoded @ [ucast (drop_bit 10 temp AND 0xFF)])
             | _ \<Rightarrow> Inl (Runtime_Error ''Invalid padding in base64!''))
          else Inl (Runtime_Error ''Invalid character in base64!''))"

definition base64decode :: "string \<Rightarrow> cpp_exn + bytes" where
  "base64decode input =
     (if length input mod 4 \<noteq> 0 then Inl (Runtime_Error ''Invalid base64 length!'')
      else base64decode_loop 0 0 [] input)"

section \<open>Wildcard matching\<close>

text \<open>
  \<^verbatim>\<open>match\<close> walks two NUL-terminated strings; a list is such a string without its terminator, and
  \<open>None\<close> is a read past the terminator. A \<^verbatim>\<open>?\<close> in the pattern advances the text whatever is
  there, the terminator included.
\<close>

fun skip_stars :: "string \<Rightarrow> string" where
  "skip_stars (a # b # cs) =
     (if a = CHR ''*'' \<and> b = CHR ''*'' then skip_stars (b # cs) else a # b # cs)"
| "skip_stars cs = cs"

lemma length_skip_stars: "length (skip_stars cs) \<le> length cs"
  by (induction cs rule: skip_stars.induct) auto

lemma skip_stars_Cons: "\<exists>d ds. skip_stars (c # cs) = d # ds"
  by (induction "c # cs" arbitrary: c cs rule: skip_stars.induct) auto

function match :: "string \<Rightarrow> string \<Rightarrow> bool option" where
  "match first second =
     (case first of
        [] \<Rightarrow> Some (second = [])
      | _ # _ \<Rightarrow>
          (case skip_stars first of
             [] \<Rightarrow> None
           | f # fs \<Rightarrow>
               if f = CHR ''*'' \<and> fs \<noteq> [] \<and> second = [] then Some False
               else if f = CHR ''?'' \<or> (second \<noteq> [] \<and> f = hd second) then
                 (case second of [] \<Rightarrow> None | _ # ss \<Rightarrow> match fs ss)
               else if f = CHR ''*'' then
                 (case match fs second of
                    None \<Rightarrow> None
                  | Some True \<Rightarrow> Some True
                  | Some False \<Rightarrow> (case second of [] \<Rightarrow> None | _ # ss \<Rightarrow> match (f # fs) ss))
               else Some False))"
  by pat_completeness auto
termination
proof (relation "measure (\<lambda>(p, t). length p + length t)", goal_cases)
  case (2 p t a b f fs s ss)
  then show ?case using length_skip_stars [of p] by simp
next
  case (3 p t a b f fs)
  then show ?case using length_skip_stars [of p] by simp
next
  case (4 p t a b f fs x2 s ss)
  then show ?case using length_skip_stars [of p] by simp
qed simp

declare match.simps [simp del]

text \<open>What a wildcard pattern means: \<^verbatim>\<open>?\<close> one character, \<^verbatim>\<open>*\<close> any number of them.\<close>

fun glob :: "string \<Rightarrow> string \<Rightarrow> bool" where
  "glob [] t = (t = [])"
| "glob (c # p) t =
     (if c = CHR ''*'' then (\<exists>k\<le>length t. glob p (drop k t))
      else case t of [] \<Rightarrow> False | d # t' \<Rightarrow> (c = CHR ''?'' \<or> c = d) \<and> glob p t')"

section \<open>The number validator\<close>

text \<open>
  The regular expression is a function-local \<^verbatim>\<open>static\<close>: the Boolean is its state, true once an
  unsigned call has replaced the pattern, and no call puts the signed pattern back.
\<close>

definition all_digits1 :: "string \<Rightarrow> bool" where
  "all_digits1 s \<longleftrightarrow> s \<noteq> [] \<and> list_all isdigit s"

definition matches_unsigned :: "string \<Rightarrow> bool" where
  "matches_unsigned s \<longleftrightarrow>
     (let whole = takeWhile (\<lambda>c. c \<noteq> CHR ''.'') s in
      all_digits1 whole \<and>
      (case dropWhile (\<lambda>c. c \<noteq> CHR ''.'') s of [] \<Rightarrow> True | _ # frac \<Rightarrow> all_digits1 frac))"

definition matches_signed :: "string \<Rightarrow> bool" where
  "matches_signed s \<longleftrightarrow>
     (case s of c # cs \<Rightarrow> matches_unsigned (if c = CHR ''-'' then cs else s) | [] \<Rightarrow> False)"

definition ValidNumber :: "bool \<Rightarrow> string \<Rightarrow> bool \<Rightarrow> bool \<times> bool" where
  "ValidNumber unsigned_regex number isSigned =
     (let unsigned_regex = (if \<not> isSigned then True else unsigned_regex)
      in (if unsigned_regex then matches_unsigned number else matches_signed number,
          unsigned_regex))"

section \<open>The password generator\<close>

definition lowercaseChars :: string where
  "lowercaseChars = ''abcdefghijklmnopqrstuvwxyz''"

definition uppercaseChars :: string where
  "uppercaseChars = ''ABCDEFGHIJKLMNOPQRSTUVWXYZ''"

definition digitChars :: string where
  "digitChars = ''0123456789''"

definition specialChars :: string where
  "specialChars = ''!@#$%^&*()_+[]{}|;:,.<>?''"

definition pick :: "string \<Rightarrow> u32 \<Rightarrow> char" where
  "pick cs r = cs ! (unat r mod length cs)"

text \<open>\<open>g n\<close> is the generator's n-th output; \<open>pos\<close> counts the outputs drawn so far.\<close>

fun gen_chars :: "(nat \<Rightarrow> u32) \<Rightarrow> nat \<Rightarrow> string \<Rightarrow> nat \<Rightarrow> string" where
  "gen_chars g pos cs 0 = []"
| "gen_chars g pos cs (Suc n) = pick cs (g pos) # gen_chars g (Suc pos) cs n"

fun gen_rest :: "(nat \<Rightarrow> u32) \<Rightarrow> nat \<Rightarrow> nat \<Rightarrow> string" where
  "gen_rest g pos 0 = []"
| "gen_rest g pos (Suc n) =
     (let category = unat (g pos) mod 4;
          cs = (if category = 0 then lowercaseChars
                else if category = 1 then uppercaseChars
                else if category = 2 then digitChars else specialChars)
      in pick cs (g (Suc pos)) # gen_rest g (Suc (Suc pos)) n)"

definition generateStrongPassword ::
    "(nat \<Rightarrow> u32) \<Rightarrow> (string \<Rightarrow> string) \<Rightarrow> int \<Rightarrow> int \<Rightarrow> int \<Rightarrow> int \<Rightarrow> int \<Rightarrow> int \<Rightarrow> string" where
  "generateStrongPassword g shuffle minLength maxLength numDigits minLowercase minSpecial minUppercase =
     (if minLength < 1 \<or> minLength > maxLength \<or>
         minLowercase + minUppercase + numDigits + minSpecial > maxLength
      then ''Invalid parameters''
      else
        let nl = nat minLowercase; nu = nat minUppercase; nd = nat numDigits; ns = nat minSpecial;
            password = gen_chars g 0 lowercaseChars nl @ gen_chars g nl uppercaseChars nu @
                       gen_chars g (nl + nu) digitChars nd @
                       gen_chars g (nl + nu + nd) specialChars ns;
            remainingLength = maxLength - int (length password)
        in shuffle (password @ gen_rest g (nl + nu + nd + ns) (nat remainingLength)))"

section \<open>The decompression loop\<close>

text \<open>What zlib's \<^verbatim>\<open>uncompress\<close> reports for an output buffer of the given size.\<close>

datatype z_status = Z_OK string | Z_BUF_ERROR | Z_FAILED

text \<open>
  \<open>factor\<close> is raised by ten on every buffer error until it reaches 300. On success a NUL is
  stored behind the output: when the output fills the buffer that store is outside it.
\<close>

function uncompress_loop ::
    "(nat \<Rightarrow> string \<Rightarrow> z_status) \<Rightarrow> string \<Rightarrow> nat \<Rightarrow> nat \<Rightarrow> cpp_exn + string option" where
  "uncompress_loop uncompress raw factor MaxSize =
     (case uncompress MaxSize raw of
        Z_OK out \<Rightarrow>
          if length out < MaxSize then Inr (Some (c_str out))
          else Inl (Undefined_Behaviour ''store behind the buffer'')
      | Z_BUF_ERROR \<Rightarrow>
          if factor < 300
          then uncompress_loop uncompress raw (factor + 10) (length raw * (factor + 10))
          else Inr None
      | Z_FAILED \<Rightarrow> Inr None)"
  by pat_completeness auto
termination
  by (relation "measure (\<lambda>(u, r, factor, m). 300 - factor)") auto

declare uncompress_loop.simps [simp del]

definition ExtractBase64CompressedData ::
    "(string \<Rightarrow> string) \<Rightarrow> (nat \<Rightarrow> string \<Rightarrow> z_status) \<Rightarrow> string \<Rightarrow> u64 \<Rightarrow> cpp_exn + string option" where
  "ExtractBase64CompressedData b64 uncompress CompressedData compress_sz =
     (let raw = b64 CompressedData
      in uncompress_loop uncompress raw 20
           (if compress_sz \<noteq> 0 then unat (compress_sz + 5000) else length raw * 20))"

section \<open>Facts about the matcher\<close>

lemma skip_stars_shape: "skip_stars p = CHR ''*'' # g # gs \<Longrightarrow> g \<noteq> CHR ''*''"
  by (induction p rule: skip_stars.induct) (auto split: if_splits)

lemma set_skip_stars: "set (skip_stars p) = set p"
  by (induction p rule: skip_stars.induct) auto

lemma glob_star:
  "glob (CHR ''*'' # p) t \<longleftrightarrow> glob p t \<or> (t \<noteq> [] \<and> glob (CHR ''*'' # p) (tl t))"
proof (cases t)
  case (Cons d t')
  have "(\<exists>k\<le>Suc (length t'). glob p (drop k (d # t'))) \<longleftrightarrow>
        glob p (d # t') \<or> (\<exists>k\<le>length t'. glob p (drop k t'))"
    by (metis Suc_le_mono drop0 drop_Suc_Cons not0_implies_Suc le0)
  with Cons show ?thesis by simp
qed simp

lemma glob_star_star: "glob (CHR ''*'' # CHR ''*'' # p) t \<longleftrightarrow> glob (CHR ''*'' # p) t"
proof (induction t)
  case Nil
  show ?case by simp
next
  case (Cons c t)
  then show ?case by (metis glob_star list.sel(3))
qed

lemma glob_skip_stars: "glob (skip_stars p) t = glob p t"
proof (induction p rule: skip_stars.induct)
  case (1 a b cs)
  show ?case
  proof (cases "a = CHR ''*'' \<and> b = CHR ''*''")
    case True
    with 1 show ?thesis by (simp add: glob_star_star del: glob.simps)
  qed simp
qed simp_all

text \<open>One unfolding, with the pattern already stripped to \<open>f # fs\<close>.\<close>

lemma match_unfold:
  assumes "p \<noteq> []" and "skip_stars p = f # fs"
  shows "match p t =
     (if f = CHR ''*'' \<and> fs \<noteq> [] \<and> t = [] then Some False
      else if f = CHR ''?'' \<or> (t \<noteq> [] \<and> f = hd t) then
        (case t of [] \<Rightarrow> None | _ # ss \<Rightarrow> match fs ss)
      else if f = CHR ''*'' then
        (case match fs t of
           None \<Rightarrow> None
         | Some True \<Rightarrow> Some True
         | Some False \<Rightarrow> (case t of [] \<Rightarrow> None | _ # ss \<Rightarrow> match (f # fs) ss))
      else Some False)"
proof -
  from assms(1) obtain a b where p: "p = a # b" by (cases p) auto
  show ?thesis
    by (subst match.simps [of p t]) (simp only: p list.case assms(2) [unfolded p])
qed

definition match_ok :: "string \<Rightarrow> string \<Rightarrow> bool" where
  "match_ok p t \<longleftrightarrow> (case match p t of Some b \<Rightarrow> b = glob p t | None \<Rightarrow> CHR ''?'' \<in> set p)"

lemma match_ok_Nil: "match_ok [] t"
  by (simp add: match_ok_def match.simps)

lemma glob_Cons_Nil: "glob (f # fs) [] \<longleftrightarrow> f = CHR ''*'' \<and> glob fs []"
  by simp

lemma glob_Cons_Cons:
  "glob (f # fs) (s # ss) \<longleftrightarrow>
     (if f = CHR ''*'' then glob fs (s # ss) \<or> glob (f # fs) ss
      else (f = CHR ''?'' \<or> f = s) \<and> glob fs ss)"
  using glob_star [of fs "s # ss"] by (cases "f = CHR ''*''") simp_all

lemma match_ok_step_Nil:
  assumes "p \<noteq> []" and sk: "skip_stars p = f # fs" and "match_ok fs []"
  shows "match_ok p []"
proof -
  have gl: "glob p [] \<longleftrightarrow> f = CHR ''*'' \<and> glob fs []"
    using glob_skip_stars [of p "[]"] sk glob_Cons_Nil by metis
  have st: "set p = insert f (set fs)" using set_skip_stars [of p] sk by simp
  have m: "match p [] = (if f = CHR ''*'' \<and> fs \<noteq> [] then Some False
      else if f = CHR ''?'' then None
      else if f = CHR ''*'' then
        (case match fs [] of None \<Rightarrow> None | Some True \<Rightarrow> Some True | Some False \<Rightarrow> None)
      else Some False)"
    using match_unfold [OF assms(1) sk, of "[]"] by (simp split: option.split bool.split)
  show ?thesis
  proof (cases "f = CHR ''*'' \<and> fs \<noteq> []")
    case True
    then obtain g gs where "fs = g # gs" by (cases fs) auto
    with True sk skip_stars_shape [of p g gs] have "\<not> glob fs []" by simp
    with True show ?thesis by (simp add: match_ok_def m gl)
  next
    case False
    then show ?thesis using assms(3) by (auto simp: match_ok_def m gl st match.simps [of "[]"])
  qed
qed

lemma match_ok_step_Cons:
  assumes "p \<noteq> []" and sk: "skip_stars p = f # fs" and "s \<noteq> CHR ''*''"
    and "match_ok fs (s # ss)" and "match_ok fs ss" and "match_ok (f # fs) ss"
  shows "match_ok p (s # ss)"
proof -
  have gl: "glob p (s # ss) \<longleftrightarrow> glob (f # fs) (s # ss)"
    using glob_skip_stars [of p "s # ss"] sk by metis
  have st: "set p = insert f (set fs)" using set_skip_stars [of p] sk by simp
  have m: "match p (s # ss) = (if f = CHR ''?'' \<or> f = s then match fs ss
      else if f = CHR ''*'' then
        (case match fs (s # ss) of None \<Rightarrow> None | Some True \<Rightarrow> Some True
         | Some False \<Rightarrow> match (f # fs) ss)
      else Some False)"
    using match_unfold [OF assms(1) sk, of "s # ss"] by (simp split: option.split bool.split)
  show ?thesis
    unfolding match_ok_def m gl glob_Cons_Cons st
    using assms(3-6) unfolding match_ok_def
    by (auto simp del: glob.simps split: option.splits bool.splits)
qed

text \<open>
  On a text without stars the matcher agrees with the meaning of wildcard patterns, and the
  patterns on which it reads behind the text contain a question mark.
\<close>

theorem match_glob:
  assumes "CHR ''*'' \<notin> set t"
  shows "case match p t of Some b \<Rightarrow> b = glob p t | None \<Rightarrow> CHR ''?'' \<in> set p"
proof -
  have "CHR ''*'' \<notin> set t \<Longrightarrow> match_ok p t"
  proof (induction "length p + length t" arbitrary: p t rule: less_induct)
    case less
    show ?case
    proof (cases "p = []")
      case False
      then obtain f fs where sk: "skip_stars p = f # fs" using skip_stars_Cons by (metis neq_Nil_conv)
      have len: "length fs < length p" using length_skip_stars [of p] sk by simp
      show ?thesis
      proof (cases t)
        case Nil
        with less len show ?thesis by (simp add: match_ok_step_Nil [OF False sk])
      next
        case (Cons s ss)
        have "match_ok p (s # ss)"
          by (rule match_ok_step_Cons [OF False sk])
            (use less.prems len Cons in \<open>auto intro: less.hyps\<close>)
        with Cons show ?thesis by simp
      qed
    qed (simp add: match_ok_Nil)
  qed
  with assms show ?thesis by (simp add: match_ok_def)
qed

theorem match_glob_witness:
  "CHR ''*'' \<notin> set ''aa:bb'' \<and>
   (case match ''a*:?b'' ''aa:bb'' of Some b \<Rightarrow> b = glob ''a*:?b'' ''aa:bb''
    | None \<Rightarrow> CHR ''?'' \<in> set ''a*:?b'')"
proof -
  have h: "CHR ''*'' \<notin> set ''aa:bb''" by simp
  show ?thesis using h match_glob [OF h, of "''a*:?b''"] by simp
qed

lemma match_reads_past_end: "match ''?'' [] = None" and match_literal_star: "match ''*'' ''*a'' = Some False"
  by (simp_all add: match.simps)

section \<open>Facts about base64\<close>

lemma enc_dec_table: "map dec_char kEncodeLookup = map Some [0..<64]"
  by (simp add: kEncodeLookup_def dec_char_def char_code_def upt_conv_Cons)

lemma dec_enc:
  assumes "unat w < 64"
  shows "dec_char (enc_char w) = Some (unat w)"
proof -
  have "length kEncodeLookup = 64" by (simp add: kEncodeLookup_def)
  then have "dec_char (kEncodeLookup ! unat w) = map dec_char kEncodeLookup ! unat w"
    using assms by simp
  also have "\<dots> = Some (unat w)" using assms by (simp add: enc_dec_table)
  finally show ?thesis by (simp add: enc_char_def)
qed

lemma dec_pad: "dec_char (CHR ''='') = None"
  by (simp add: dec_char_def char_code_def)

lemma byte_high_bit [simp]: "8 \<le> n \<Longrightarrow> \<not> bit (b::u8) n"
  using bit_imp_le_length [of b n] by auto

text \<open>The three bytes as disjoint fields of the accumulator, and the six-bit groups it is cut into.\<close>

definition group24 :: "u8 \<Rightarrow> u8 \<Rightarrow> u8 \<Rightarrow> u32" where
  "group24 a b c = push_bit 16 (ucast a) + push_bit 8 (ucast b) + ucast c"

lemma group24_or: "group24 a b c = push_bit 16 (ucast a) OR push_bit 8 (ucast b) OR ucast c"
proof -
  have 1: "push_bit 16 (ucast a) AND push_bit 8 (ucast b) = (0::u32)"
    by (rule bit_word_eqI) (auto simp: bit_simps dest!: bit_imp_le_length)
  have 2: "(push_bit 16 (ucast a) OR push_bit 8 (ucast b)) AND ucast c = (0::u32)"
    by (rule bit_word_eqI) (auto simp: bit_simps dest!: bit_imp_le_length)
  show ?thesis
    by (simp add: group24_def disjunctive_add_eq_or 1 2 or.assoc)
qed

lemma all_less_8: "(\<forall>n<8. P n) \<longleftrightarrow> P 0 \<and> P 1 \<and> P 2 \<and> P 3 \<and> P 4 \<and> P 5 \<and> P 6 \<and> P (7::nat)"
  by (simp add: numeral_eq_Suc All_less_Suc conj_ac)

lemma bit_eq_8: "(\<forall>n<8. bit v n = bit w n) \<Longrightarrow> v = (w::u8)"
  by (rule bit_word_eqI) simp

lemma sextet_bounds:
  "unat (drop_bit 18 (t AND (0x00FC0000::u32))) < 64"
  "unat (drop_bit 12 (t AND (0x0003F000::u32))) < 64"
  "unat (drop_bit 6 (t AND (0x00000FC0::u32))) < 64"
  "unat (t AND (0x0000003F::u32)) < 64"
proof -
  have *: "unat w < 64" if "w = w AND (0x3F::u32)" for w
  proof -
    have "w AND 0x3F \<le> 0x3F" by (rule word_and_le1)
    then have "unat (w AND 0x3F) \<le> unat (0x3F::u32)" by (simp only: word_le_nat_alt)
    with that show ?thesis by simp
  qed
  have m: "(0x3F::u32) = mask 6" "(0x00FC0000::u32) = push_bit 18 (mask 6)"
    "(0x0003F000::u32) = push_bit 12 (mask 6)" "(0x00000FC0::u32) = push_bit 6 (mask 6)"
    by (simp_all add: mask_eq_exp_minus_1)
  show "unat (drop_bit 18 (t AND (0x00FC0000::u32))) < 64"
    by (rule *, rule bit_word_eqI) (auto simp: m bit_simps)
  show "unat (drop_bit 12 (t AND (0x0003F000::u32))) < 64"
    by (rule *, rule bit_word_eqI) (auto simp: m bit_simps)
  show "unat (drop_bit 6 (t AND (0x00000FC0::u32))) < 64"
    by (rule *, rule bit_word_eqI) (auto simp: m bit_simps)
  show "unat (t AND (0x0000003F::u32)) < 64"
    by (rule *, rule bit_word_eqI) (auto simp: bit_simps)
qed

definition shift_in :: "u32 \<Rightarrow> u32 \<Rightarrow> u32" where
  "shift_in t w = push_bit 6 t OR w"

lemma regroup:
  fixes a b c :: u8 and t :: u32
  defines "g \<equiv> group24 a b c"
  defines "t4 \<equiv> shift_in (shift_in (shift_in (shift_in t (drop_bit 18 (g AND 0x00FC0000)))
               (drop_bit 12 (g AND 0x0003F000))) (drop_bit 6 (g AND 0x00000FC0))) (g AND 0x0000003F)"
  shows "ucast (drop_bit 16 t4 AND 0xFF) = a" and "ucast (drop_bit 8 t4 AND 0xFF) = b"
    and "ucast (t4 AND 0xFF) = c"
  unfolding g_def t4_def group24_or shift_in_def
  by (rule bit_eq_8; unfold all_less_8; simp add: bit_simps)+

lemma regroup_one:
  fixes a :: u8 and t :: u32
  defines "g \<equiv> push_bit 16 (ucast a)"
  shows "ucast (drop_bit 10 (push_bit 6 (shift_in (shift_in t (drop_bit 18 (g AND 0x00FC0000)))
               (drop_bit 12 (g AND 0x0003F000)))) AND 0xFF) = a"
  unfolding g_def shift_in_def
  by (rule bit_eq_8; unfold all_less_8; simp add: bit_simps)

lemma decode_sextet:
  assumes "unat w < 64" and "i < 3"
  shows "base64decode_loop t i out (enc_char w # rest) = base64decode_loop (shift_in t w) (Suc i) out rest"
  using assms by (simp add: dec_enc shift_in_def Let_def)

lemma decode_sextet_last:
  assumes "unat w < 64"
  shows "base64decode_loop t 3 out (enc_char w # rest) =
    base64decode_loop (shift_in t w) 0
      (out @ [ucast (drop_bit 16 (shift_in t w) AND 0xFF), ucast (drop_bit 8 (shift_in t w) AND 0xFF),
              ucast (shift_in t w AND 0xFF)]) rest"
  using assms by (simp add: dec_enc shift_in_def Let_def)

lemmas decode_group = decode_sextet [OF sextet_bounds(1)] decode_sextet [OF sextet_bounds(2)]
  decode_sextet [OF sextet_bounds(3)]

lemma decode_triple:
  "\<exists>t'. base64decode_loop t 0 out (base64encode (a # b # c # bs)) =
        base64decode_loop t' 0 (out @ [a, b, c]) (base64encode bs)"
  by (simp only: base64encode.simps Let_def group24_def [symmetric] decode_group One_nat_def
        zero_less_numeral Suc_1 lessI numeral_3_eq_3 less_Suc_eq simp_thms
        decode_sextet_last [OF sextet_bounds(4), unfolded numeral_3_eq_3] regroup) blast

lemma decode_pad1:
  "base64decode_loop t i out [CHR ''=''] =
     Inr (out @ [ucast (drop_bit 16 (push_bit 6 t) AND 0xFF), ucast (drop_bit 8 (push_bit 6 t) AND 0xFF)])"
  by (simp add: dec_pad Let_def)

lemma decode_pad2:
  "base64decode_loop t i out [CHR ''='', CHR ''=''] =
     Inr (out @ [ucast (drop_bit 10 (push_bit 6 t) AND 0xFF)])"
  by (simp add: dec_pad Let_def)

lemma decode_two: "base64decode_loop t 0 out (base64encode [a, b]) = Inr (out @ [a, b])"
proof -
  have g: "push_bit 16 (ucast a) + push_bit 8 (ucast b) = group24 a b 0" by (simp add: group24_def)
  have m: "(0x3F::u32) = mask 6" by (simp add: mask_eq_exp_minus_1)
  have z: "shift_in (w :: u32) (group24 a b 0 AND 0x3F) = push_bit 6 w" for w
    unfolding group24_or shift_in_def m
    by (rule bit_word_eqI) (auto simp: bit_simps not_less)
  show ?thesis
    by (simp only: base64encode.simps Let_def g decode_group One_nat_def zero_less_numeral Suc_1
        lessI numeral_3_eq_3 less_Suc_eq simp_thms decode_pad1)
      (simp only: regroup [of _ a b 0, unfolded z])
qed

lemma decode_one: "base64decode_loop t 0 out (base64encode [a]) = Inr (out @ [a])"
  by (simp only: base64encode.simps Let_def decode_group One_nat_def zero_less_numeral Suc_1
        lessI numeral_3_eq_3 less_Suc_eq simp_thms decode_pad2 regroup_one)

lemma decode_encode_loop: "base64decode_loop t 0 out (base64encode bs) = Inr (out @ bs)"
proof (induction bs arbitrary: t out rule: base64encode.induct)
  case (1 a b c rest)
  obtain t' where "base64decode_loop t 0 out (base64encode (a # b # c # rest)) =
        base64decode_loop t' 0 (out @ [a, b, c]) (base64encode rest)"
    using decode_triple by blast
  with 1 show ?case by simp
next
  case (2 a b) show ?case by (rule decode_two)
next
  case (3 a) show ?case by (rule decode_one)
qed simp

lemma length_base64encode: "length (base64encode bs) mod 4 = 0"
  by (induction bs rule: base64encode.induct) (simp_all add: Let_def)

text \<open>
  Decoding the base64 text of any byte sequence raises no error and gives the same
  bytes, for each of the three lengths of the last group.
\<close>

theorem base64_roundtrip: "base64decode (base64encode bs) = Inr bs"
  by (simp add: base64decode_def length_base64encode decode_encode_loop)

section \<open>Facts about the password generator\<close>

definition chars_of :: "string \<Rightarrow> string \<Rightarrow> nat" where
  "chars_of cs pw = length (filter (\<lambda>c. c \<in> set cs) pw)"

lemma chars_of_mset: "mset pw = mset pw' \<Longrightarrow> chars_of cs pw = chars_of cs pw'"
  by (metis chars_of_def mset_filter size_mset)

lemma pick_in: "cs \<noteq> [] \<Longrightarrow> pick cs r \<in> set cs"
  by (simp add: pick_def)

lemma length_gen_chars [simp]: "length (gen_chars g pos cs n) = n"
  by (induction n arbitrary: pos) simp_all

lemma length_gen_rest [simp]: "length (gen_rest g pos n) = n"
  by (induction n arbitrary: pos) (simp_all add: Let_def)

lemma chars_of_gen_chars: "cs \<noteq> [] \<Longrightarrow> chars_of cs (gen_chars g pos cs n) = n"
  by (induction n arbitrary: pos) (simp_all add: chars_of_def pick_in)

lemma chars_of_append: "chars_of cs (a @ b) = chars_of cs a + chars_of cs b"
  by (simp add: chars_of_def)

text \<open>
  With consistent parameters the generated password has exactly the requested maximal
  length and at least the requested number of characters of each class, whatever the random
  numbers are, when \<^verbatim>\<open>std::shuffle\<close> permutes its argument.
\<close>

theorem generateStrongPassword_classes:
  assumes "\<forall>s. mset (shuffle s) = mset s"
    and "1 \<le> minLength" and "minLength \<le> maxLength"
    and "0 \<le> numDigits" and "0 \<le> minLowercase" and "0 \<le> minSpecial" and "0 \<le> minUppercase"
    and "minLowercase + minUppercase + numDigits + minSpecial \<le> maxLength"
  shows "let pw = generateStrongPassword g shuffle minLength maxLength numDigits minLowercase
                    minSpecial minUppercase
         in int (length pw) = maxLength \<and> minLowercase \<le> int (chars_of lowercaseChars pw) \<and>
            minUppercase \<le> int (chars_of uppercaseChars pw) \<and>
            numDigits \<le> int (chars_of digitChars pw) \<and> minSpecial \<le> int (chars_of specialChars pw)"
proof -
  let ?nl = "nat minLowercase" and ?nu = "nat minUppercase" and ?nd = "nat numDigits"
    and ?ns = "nat minSpecial"
  define core where "core = gen_chars g 0 lowercaseChars ?nl @ gen_chars g ?nl uppercaseChars ?nu @
      gen_chars g (?nl + ?nu) digitChars ?nd @ gen_chars g (?nl + ?nu + ?nd) specialChars ?ns"
  define rest where "rest = gen_rest g (?nl + ?nu + ?nd + ?ns) (nat (maxLength - int (length core)))"
  define pw where "pw = generateStrongPassword g shuffle minLength maxLength numDigits minLowercase
                    minSpecial minUppercase"
  have pw: "pw = shuffle (core @ rest)"
    using assms(2,3,8) by (simp add: pw_def generateStrongPassword_def core_def rest_def Let_def)
  have m: "mset pw = mset (core @ rest)" by (simp add: pw assms(1))
  have ne: "lowercaseChars \<noteq> []" "uppercaseChars \<noteq> []" "digitChars \<noteq> []" "specialChars \<noteq> []"
    by (simp_all add: lowercaseChars_def uppercaseChars_def digitChars_def specialChars_def)
  have len: "length core = ?nl + ?nu + ?nd + ?ns" by (simp add: core_def)
  have "length pw = length core + length rest" using m by (metis length_append size_mset)
  with len assms(4-8) have 1: "int (length pw) = maxLength" by (simp add: rest_def)
  have c: "chars_of cs pw = chars_of cs core + chars_of cs rest" for cs
    using chars_of_mset [OF m] by (simp add: chars_of_append)
  have 2: "?nl \<le> chars_of lowercaseChars pw" "?nu \<le> chars_of uppercaseChars pw"
    "?nd \<le> chars_of digitChars pw" "?ns \<le> chars_of specialChars pw"
    by (simp_all add: c core_def chars_of_append chars_of_gen_chars ne)
  show ?thesis using 1 2 by (simp add: pw_def [symmetric] Let_def nat_le_iff)
qed

theorem generateStrongPassword_classes_witness:
  "(\<forall>s::string. mset (rev s) = mset s) \<and>
   (let pw = generateStrongPassword (\<lambda>n. of_nat (7 * n)) rev 4 8 2 1 1 1
    in length pw = 8 \<and> 2 \<le> chars_of digitChars pw)"
  using generateStrongPassword_classes [of rev 4 8 2 1 1 1 "\<lambda>n. of_nat (7 * n)"]
  by (simp add: Let_def)

section \<open>Facts about the number validator and decompression\<close>

text \<open>
  The number validator depends on its history: once any caller has validated an unsigned
  number, a number with a leading minus sign is refused even when signed numbers are asked for.
\<close>

theorem ValidNumber_sticky:
  "(let (_, st) = ValidNumber st0 n False in ValidNumber st (CHR ''-'' # m) True) = (False, True)"
  by (simp add: ValidNumber_def matches_unsigned_def all_digits1_def isdigit_def)

lemma ValidNumber_fresh: "fst (ValidNumber False ''-1'' True) = True"
  by (simp add: ValidNumber_def matches_signed_def matches_unsigned_def all_digits1_def isdigit_def less_eq_char_def)

lemma uncompress_loop_finds:
  assumes "\<forall>j<k. uncompress (length raw * (factor + 10 * j)) raw = Z_BUF_ERROR"
    and "uncompress (length raw * (factor + 10 * k)) raw = Z_OK out"
    and "length out < length raw * (factor + 10 * k)" and "factor + 10 * k \<le> 300"
  shows "uncompress_loop uncompress raw factor (length raw * factor) = Inr (Some (c_str out))"
  using assms
proof (induction k arbitrary: factor)
  case 0
  then show ?case by (subst uncompress_loop.simps) simp
next
  case (Suc k)
  have "\<forall>j<k. uncompress (length raw * ((factor + 10) + 10 * j)) raw = Z_BUF_ERROR"
  proof (intro allI impI)
    fix j assume "j < k"
    then show "uncompress (length raw * ((factor + 10) + 10 * j)) raw = Z_BUF_ERROR"
      using Suc.prems(1)[rule_format, of "Suc j"] by (simp add: algebra_simps)
  qed
  moreover have "uncompress (length raw * factor) raw = Z_BUF_ERROR"
    using Suc.prems(1) [rule_format, of 0] by simp
  moreover have "uncompress (length raw * ((factor + 10) + 10 * k)) raw = Z_OK out"
    "length out < length raw * ((factor + 10) + 10 * k)"
    using Suc.prems(2,3) by (simp_all add: algebra_simps)
  ultimately show ?case
    using Suc.IH [of "factor + 10"] Suc.prems(4) by (subst uncompress_loop.simps) simp
qed

text \<open>
  Without a size hint the decompression of a base64 text gives the inflated text, when it is
  shorter than the first of the buffer sizes 20, 30, ..., 300 times the compressed length that
  zlib does not answer with a buffer error.
\<close>

theorem ExtractBase64CompressedData_finds:
  assumes "\<forall>j<k. uncompress (length (b64 d) * (20 + 10 * j)) (b64 d) = Z_BUF_ERROR"
    and "uncompress (length (b64 d) * (20 + 10 * k)) (b64 d) = Z_OK out"
    and "length out < length (b64 d) * (20 + 10 * k)" and "k \<le> 28"
  shows "ExtractBase64CompressedData b64 uncompress d 0 = Inr (Some (c_str out))"
  using uncompress_loop_finds [of k uncompress "b64 d" 20 out] assms
  by (simp add: ExtractBase64CompressedData_def)

theorem ExtractBase64CompressedData_finds_witness:
  "ExtractBase64CompressedData id (\<lambda>n s. if n < 25 then Z_BUF_ERROR else Z_OK (replicate 25 (hd s)))
     ''a'' 0 = Inr (Some (c_str (replicate 25 (CHR ''a''))))"
  using ExtractBase64CompressedData_finds
    [of 1 "\<lambda>n s. if n < 25 then Z_BUF_ERROR else Z_OK (replicate 25 (hd s))" id "''a''"
        "replicate 25 (CHR ''a'')"]
  by simp

lemma uncompress_store_behind:
  "uncompress_loop (\<lambda>n s. Z_OK (replicate n (CHR ''a''))) ''a'' 20 20 =
     Inl (Undefined_Behaviour ''store behind the buffer'')"
  by (subst uncompress_loop.simps) simp

end
