(* ===== verification/GW_Upgrade.thy ===== *)
theory GW_Upgrade
  imports GW_Registry GW_Rest GW_Text
begin

text \<open>
  The world an event of a device is processed in, and the first thing built on it: the comparison of the
  configuration a device runs with the stored one (\<^verbatim>\<open>src/AP_WS_LookForUpgrade.cpp\<close>), which completes a pending
  change, brings the stored identifier up to date, or sends the stored configuration to the device. An
  operation is a function of the world that gives its result, or the exception it raises, and the world at
  that point, so that what was done before an exception stays done.
\<close>

section \<open>The environment of an event\<close>

text \<open>
  What an event reads and does not change: the libraries, the clock (read once per event), the services
  of other components as the answers they give, the server and its settings. \<open>garbage\<close> is what an
  uninitialised variable holds.
\<close>

record env =
  e_poco :: poco
  e_codec :: codec
  e_ws :: "string \<Rightarrow> send_outcome"
  e_now :: u64
  e_server :: server
  e_mismatch_depth :: int
  e_allow_mismatch :: bool
  e_kafka :: bool
  e_kafka_no_state :: bool
  e_kafka_no_health :: bool
  e_blacklist :: "u64 \<Rightarrow> (string \<times> string \<times> u64) option"
  e_new_uuid :: string
  e_garbage :: u64
  e_gz :: "string \<Rightarrow> string"
  e_country :: "string \<Rightarrow> string"
  e_peer :: string
  e_autoprov :: bool
  e_must_upgrade :: "string \<Rightarrow> string \<Rightarrow> string option"
  e_prov :: "string option"
  e_default_text :: string
  e_nl_try :: "string \<Rightarrow> cpp_exn + json"
  e_nl_erase :: "string \<Rightarrow> json \<Rightarrow> cpp_exn + json"
  e_nl_parse :: "string \<Rightarrow> json option"
  e_nl_dump :: "json \<Rightarrow> string"
  e_completion :: string
  e_percent :: "u64 \<Rightarrow> u64 \<Rightarrow> string"
  e_double :: "json \<Rightarrow> cpp_exn + string"
  e_bool :: "json \<Rightarrow> cpp_exn + bool"
  e_array_text :: "json list \<Rightarrow> string"
  e_trim :: "string \<Rightarrow> string"
  e_b64 :: "string \<Rightarrow> string"
  e_b64_strict :: "string \<Rightarrow> cpp_exn + string"
  e_uncompress :: "nat \<Rightarrow> string \<Rightarrow> z_status"
  e_is_struct :: "json \<Rightarrow> bool"
  e_close :: "cpp_exn + unit"
  e_pong :: "cpp_exn + unit"

section \<open>Operations with exceptions on a state\<close>

record world =
  w_conn :: connection
  w_store :: storage
  w_effects :: "effect list"
  w_rpc :: u64

type_synonym ('s, 'a) op = "'s \<Rightarrow> (cpp_exn + 'a) \<times> 's"
type_synonym 'a act = "(world, 'a) op"

named_theorems gw_act \<open>the meaning of the operations on worlds\<close>

definition ret :: "'a \<Rightarrow> ('s, 'a) op" where
  "ret x w = (Inr x, w)"

definition lift_exn :: "cpp_exn + 'a \<Rightarrow> ('s, 'a) op" where
  "lift_exn r w = (r, w)"

definition andThen :: "('s, 'a) op \<Rightarrow> ('a \<Rightarrow> ('s, 'b) op) \<Rightarrow> ('s, 'b) op" where
  "andThen m f w = (case m w of (Inl e, w') \<Rightarrow> (Inl e, w') | (Inr x, w') \<Rightarrow> f x w')"

definition on_conn :: "(connection \<Rightarrow> connection) \<Rightarrow> unit act" where
  "on_conn f w = (Inr (), w\<lparr> w_conn := f (w_conn w) \<rparr>)"

definition on_state :: "(conn_state \<Rightarrow> conn_state) \<Rightarrow> unit act" where
  "on_state f = on_conn (\<lambda>c. c\<lparr> State := f (State c) \<rparr>)"

definition emit :: "effect \<Rightarrow> unit act" where
  "emit x w = (Inr (), w\<lparr> w_effects := w_effects w @ [x] \<rparr>)"

definition on_store :: "(storage \<Rightarrow> (cpp_exn + 'a) \<times> storage) \<Rightarrow> 'a act" where
  "on_store f w = (case f (w_store w) of (r, st) \<Rightarrow> (r, w\<lparr> w_store := st \<rparr>))"

definition conn_op :: "(connection \<Rightarrow> 'a \<times> connection \<times> effect list) \<Rightarrow> 'a act" where
  "conn_op f w = (case f (w_conn w) of (r, c, es) \<Rightarrow> (Inr r, w\<lparr> w_conn := c, w_effects := w_effects w @ es \<rparr>))"

definition with_conn :: "(connection \<Rightarrow> 'a act) \<Rightarrow> 'a act" where
  "with_conn f w = f (w_conn w) w"

definition with_store :: "(storage \<Rightarrow> 'a act) \<Rightarrow> 'a act" where
  "with_store f w = f (w_store w) w"

definition perform_if :: "bool \<Rightarrow> ('s, unit) op \<Rightarrow> ('s, unit) op" where
  "perform_if b m = (if b then m else ret ())"

definition Next_RPC_ID :: "u64 act" where
  "Next_RPC_ID w = (Inr (w_rpc w + 1), w\<lparr> w_rpc := w_rpc w + 1 \<rparr>)"

definition count_error :: "unit act" where
  "count_error = on_conn (\<lambda>c. c\<lparr> Errors := Errors c + 1 \<rparr>)"

lemma andThen_Inr:
  "andThen m f w = (Inr y, w'') \<longleftrightarrow> (\<exists>x w'. m w = (Inr x, w') \<and> f x w' = (Inr y, w''))"
  by (auto simp: andThen_def split: prod.split sum.split)

lemmas act_defs [gw_act] =
  ret_def lift_exn_def andThen_def on_conn_def on_state_def emit_def on_store_def conn_op_def with_conn_def
  with_store_def perform_if_def Next_RPC_ID_def count_error_def

definition catch_exn :: "(cpp_exn \<Rightarrow> bool) \<Rightarrow> ('s, unit) op \<Rightarrow> ('s, unit) op" where
  "catch_exn caught m w = (case m w of (Inl x, w') \<Rightarrow> (if caught x then Inr () else Inl x, w') | r \<Rightarrow> r)"

text \<open>Whether an exception is one that \<^verbatim>\<open>catch (...)\<close> can see.\<close>

fun catchable :: "cpp_exn \<Rightarrow> bool" where
  "catchable (Undefined_Behaviour _) = False"
| "catchable _ = True"

definition recover :: "('s, 'a) op \<Rightarrow> ('s, 'a) op \<Rightarrow> ('s, 'a) op" where
  "recover m h w =
     (case m w of (Inl x, w') \<Rightarrow> if catchable x then h w' else (Inl x, w') | (Inr v, w') \<Rightarrow> (Inr v, w'))"

section \<open>Operations that respect a relation\<close>

definition keeps :: "('s \<Rightarrow> 's \<Rightarrow> bool) \<Rightarrow> ('s, 'a) op \<Rightarrow> bool" where
  "keeps R m \<longleftrightarrow> (\<forall>w. R w (snd (m w)))"

lemma keepsD: "keeps R m \<Longrightarrow> m w = (r, w') \<Longrightarrow> R w w'"
  by (metis keeps_def snd_conv)

lemma keeps_step: "keeps R m \<Longrightarrow> R w (snd (m w))"
  by (simp add: keeps_def)

lemma keeps_with_conn: "(\<And>c. keeps R (f c)) \<Longrightarrow> keeps R (with_conn f)"
  by (simp add: keeps_def with_conn_def)

lemma keeps_with_store: "(\<And>c. keeps R (f c)) \<Longrightarrow> keeps R (with_store f)"
  by (simp add: keeps_def with_store_def)

lemma keeps_if: "(b \<Longrightarrow> keeps R m) \<Longrightarrow> (\<not> b \<Longrightarrow> keeps R m') \<Longrightarrow> keeps R (if b then m else m')"
  by simp

lemma keeps_option: "keeps R m \<Longrightarrow> (\<And>x. keeps R (f x)) \<Longrightarrow> keeps R (case v of None \<Rightarrow> m | Some x \<Rightarrow> f x)"
  by (simp split: option.split)

lemma keeps_prod: "(\<And>x y. keeps R (f x y)) \<Longrightarrow> keeps R (case v of (x, y) \<Rightarrow> f x y)"
  by (simp split: prod.split)

text \<open>Sequencing, conditions and exceptions keep what their parts keep, for a reflexive and transitive relation.\<close>

locale state_order =
  fixes R :: "'s \<Rightarrow> 's \<Rightarrow> bool"
  assumes refl: "R w w"
    and trans: "R w w' \<Longrightarrow> R w' w'' \<Longrightarrow> R w w''"
begin

lemma keeps_ret: "keeps R (ret x)"
  by (simp add: keeps_def ret_def refl)

lemma keeps_lift: "keeps R (lift_exn x)"
  by (simp add: keeps_def lift_exn_def refl)

lemma keeps_andThen:
  assumes "keeps R m" and "\<And>x. keeps R (f x)"
  shows "keeps R (andThen m f)"
proof -
  have "R w (snd (andThen m f w))" for w
    using assms(1) [unfolded keeps_def, rule_format, of w] assms(2) [unfolded keeps_def, rule_format] trans
    by (cases "m w"; cases "fst (m w)") (auto simp: andThen_def)
  then show ?thesis by (simp add: keeps_def)
qed

lemma keeps_perform_if: "keeps R m \<Longrightarrow> keeps R (perform_if b m)"
  by (simp add: perform_if_def keeps_ret)

lemma keeps_catch: "keeps R m \<Longrightarrow> keeps R (catch_exn P m)"
  by (simp add: keeps_def catch_exn_def split: prod.split sum.split) (metis snd_conv)

lemma keeps_recover:
  assumes "keeps R m" and "keeps R h"
  shows "keeps R (recover m h)"
proof -
  have "R w (snd (recover m h w))" for w
    using assms(1) [unfolded keeps_def, rule_format, of w] assms(2) [unfolded keeps_def, rule_format] trans
    by (cases "m w"; cases "fst (m w)") (auto simp: recover_def)
  then show ?thesis by (simp add: keeps_def)
qed

lemmas basic_rules = keeps_ret keeps_lift keeps_andThen keeps_perform_if keeps_catch keeps_recover
  keeps_with_conn keeps_with_store keeps_if keeps_option keeps_prod

end

section \<open>Looking for an upgrade\<close>

definition set_PendingUUID :: "u64 \<Rightarrow> unit act" where
  "set_PendingUUID u = on_state (\<lambda>s. s\<lparr> PendingUUID := u \<rparr>)"

text \<open>The last part: the stored configuration goes to the device under the identifier \<open>new\<close>.\<close>

definition push_configuration :: "env \<Rightarrow> u64 \<Rightarrow> device \<Rightarrow> u64 \<Rightarrow> (bool \<times> u64) act" where
  "push_configuration e uuid d new = with_conn (\<lambda>c.
     andThen (lift_exn (map_sum id snd (Config_SetUUID (e_poco e) (Configuration d) new))) (\<lambda>text.
       let d = d\<lparr> UUID := new, Configuration := text, pendingUUID := new \<rparr> in
       andThen (set_PendingUUID new) (\<lambda>_.
       andThen (on_store (UpdateDevice (e_codec e) (e_now e) d)) (\<lambda>_.
       andThen (lift_exn (parse_object (e_poco e) text)) (\<lambda>cfg.
         let params = om_set ''config'' (JObj cfg) (om_set ''when'' (JInt 0)
                        (om_set ''uuid'' (JInt (uint new)) (om_set ''serial'' (JStr (c_SerialNumber c)) []))) in
         andThen (emit (Eff_AddCommand (c_SerialNumber c) (e_new_uuid e) ''configure'' (p_stringify (e_poco e) params))) (\<lambda>_.
         andThen Next_RPC_ID (\<lambda>rpc.
         andThen (emit (Eff_Command rpc (c_SerialNumber c) ''configure'' params (e_new_uuid e))) (\<lambda>_.
         andThen (emit (Eff_ConfigurationChange (SerialNumber d) uuid new)) (\<lambda>_.
         ret (True, new))))))))))"

text \<open>The second result is \<^verbatim>\<open>UpgradedUUID\<close>, an output parameter that some paths leave as it was.\<close>

definition LookForUpgrade :: "env \<Rightarrow> u64 \<Rightarrow> u64 \<Rightarrow> (bool \<times> u64) act" where
  "LookForUpgrade e uuid upgraded =
     (if uuid = 0 then ret (False, upgraded) else
      with_conn (\<lambda>c. with_store (\<lambda>st.
        let good = GetCurrentConfig (c_SerialNumberInt c) (configs st); pending = PendingUUID (State c) in
        if good \<noteq> 0 \<and> (good = uuid \<or> good = pending)
        then andThen (set_PendingUUID 0) (\<lambda>_. ret (False, uuid))
        else case GetDevice (e_codec e) (c_SerialNumber c) st of
          None \<Rightarrow> ret (False, upgraded)
        | Some d \<Rightarrow>
            if pending \<noteq> 0 \<and> uuid = pending then
              andThen (on_store (CompleteDeviceConfigurationChange (e_poco e) (e_codec e) (e_now e) (c_SerialNumber c))) (\<lambda>_.
              andThen (set_PendingUUID 0) (\<lambda>_. ret (True, uuid)))
            else if DeviceType d = ''switch'' \<and> length (Configuration d) < 20 then ret (False, upgraded)
            else
              let d = (if UUID d = 0 then d\<lparr> UUID := Config_UUID (e_poco e) (Configuration d) \<rparr> else d) in
              if UUID d = uuid then
                andThen (set_PendingUUID 0) (\<lambda>_.
                andThen (on_store (UpdateDevice (e_codec e) (e_now e)
                   (d\<lparr> UUID := uuid, pendingUUID := 0, pendingConfiguration := [], pendingConfigurationCmd := [] \<rparr>))) (\<lambda>_.
                andThen (on_store (\<lambda>st. (Inr (), st\<lparr> configs := SetCurrentConfig (c_SerialNumberInt c) uuid (configs st) \<rparr>))) (\<lambda>_.
                ret (False, uuid))))
              else push_configuration e uuid d (if uuid > UUID d then uuid + 2 else UUID d))))"

section \<open>What updating and completing do to a known device\<close>

text \<open>A device of a readable and writable table, and its number.\<close>

definition known :: "codec \<Rightarrow> string \<Rightarrow> u64 \<Rightarrow> device \<Rightarrow> storage \<Rightarrow> bool" where
  "known c s n d st \<longleftrightarrow>
     storage_wf st \<and> readable st \<and> writable st \<and> codec_ok c d \<and> GetDevice c s st = Some d \<and> SerialNumberToInt s = Inr n"

lemma knownD:
  assumes "known c s n d st"
  shows "\<exists>r. om_find (devices st) s = Some r" and "SerialNumber d = s" and "\<not> blackListed d"
    and "om_wf (devices st)" and "om_wf (configs st)"
proof -
  from assms obtain r where r: "om_find (devices st) s = Some r" "d = of_row c r" "storage_wf st"
    by (auto simp: known_def GetDevice_def)
  then show "\<exists>r. om_find (devices st) s = Some r" "SerialNumber d = s" "\<not> blackListed d"
    using storage_wf_find [OF r(3,1)] by (simp_all add: blackListed_of_row)
  show "om_wf (devices st)" "om_wf (configs st)" using r(3) by (simp_all add: storage_wf_def rows_ok_def)
qed

lemma exec_update_known:
  assumes k: "known c s n d st" and d': "SerialNumber d' = s" "codec_ok c d'" "\<not> blackListed d'"
  shows "exec_update s (to_row c d') st = (Inr True, st\<lparr> devices := om_set s (to_row c d') (devices st) \<rparr>)"
    and "known c s n d' (st\<lparr> devices := om_set s (to_row c d') (devices st) \<rparr>)"
  using knownD [OF k] k d'
  by (auto simp: known_def exec_update_def GetDevice_def storage_wf_def om.lookup_same of_row_to_row rows_ok_set)

lemma UpdateDevice_known:
  assumes k: "known c s n d st" and d': "SerialNumber d' = s" "codec_ok c d'" "\<not> blackListed d'"
  shows "\<exists>st'. UpdateDevice c now d' st = (Inr True, st') \<and> known c s n (d'\<lparr> modified := now \<rparr>) st' \<and>
               configs st' = configs st"
  using exec_update_known [OF k, of "d'\<lparr> modified := now \<rparr>"] d'
  by (simp add: UpdateDevice_def Let_def codec_ok_def)

lemma known_configs:
  "known c s n d st \<Longrightarrow> known c s n d (st\<lparr> configs := SetCurrentConfig m u (configs st) \<rparr>)"
  by (auto simp: known_def GetDevice_def storage_wf_def SetCurrentConfig_def om_wf_set)

definition completed :: "u64 \<Rightarrow> device \<Rightarrow> device" where
  "completed now d =
     d\<lparr> Configuration := (if pendingConfiguration d \<noteq> [] then pendingConfiguration d else Configuration d),
        pendingConfiguration := [], UUID := pendingUUID d, pendingUUID := 0, LastConfigurationChange := now \<rparr>"

lemma Complete_known:
  assumes k: "known c s n d st" and p: "pendingUUID d \<noteq> 0"
  shows "\<exists>st'. CompleteDeviceConfigurationChange po c now s st = (Inr True, st') \<and>
               known c s n (completed now d) st' \<and> GetCurrentConfig n (configs st') = pendingUUID d"
proof -
  let ?u = "pendingUUID d" and ?d = "completed now d"
  let ?st = "st\<lparr> configs := SetCurrentConfig n ?u (configs st) \<rparr>"
  have d: "SerialNumber ?d = s" "codec_ok c ?d" "\<not> blackListed ?d"
    using knownD [OF k] k by (simp_all add: completed_def known_def codec_ok_def)
  have e: "completed now d = d\<lparr> UUID := ?u, pendingUUID := 0, LastConfigurationChange := now \<rparr>"
    if "pendingConfiguration d = []"
    using that by (cases d) (simp add: completed_def)
  note u = exec_update_known [OF known_configs [OF k, of n ?u] d]
  have "CompleteDeviceConfigurationChange po c now s st = exec_update s (to_row c ?d) ?st"
    using k p e
    by (cases "pendingConfiguration d = []")
      (simp_all add: known_def CompleteDeviceConfigurationChange_def set_config_id_def SetCurrentConfigurationID_def
        Let_def, simp add: completed_def)
  then show ?thesis using u knownD [OF k] by (simp add: GetCurrentConfig_Set)
qed

section \<open>The cycle of an upgrade\<close>

definition upgrade_target :: "u64 \<Rightarrow> u64 \<Rightarrow> u64" where
  "upgrade_target uuid stored = (if uuid > stored then uuid + 2 else stored)"

text \<open>The identifier of the stored configuration, which a row without one takes from the text.\<close>

definition stored_uuid :: "env \<Rightarrow> device \<Rightarrow> u64" where
  "stored_uuid e d = (if UUID d = 0 then Config_UUID (e_poco e) (Configuration d) else UUID d)"

text \<open>
  When a report of \<open>uuid\<close> makes the gateway send the stored configuration: the device is known, it reports an
  identifier that is neither zero, the stored one, nor the one waited for, the cache expects neither that
  identifier nor the one waited for, and a switch has a real configuration. The last condition is the
  one identifier for which the newer one would be zero.
\<close>

definition outdated :: "env \<Rightarrow> world \<Rightarrow> u64 \<Rightarrow> u64 \<Rightarrow> device \<Rightarrow> bool" where
  "outdated e w n uuid d \<longleftrightarrow>
     known (e_codec e) (c_SerialNumber (w_conn w)) n d (w_store w) \<and> c_SerialNumberInt (w_conn w) = n \<and>
     uuid \<noteq> 0 \<and> uuid \<noteq> stored_uuid e d \<and>
     (let good = GetCurrentConfig n (configs (w_store w)); pending = PendingUUID (State (w_conn w)) in
        (good = 0 \<or> good \<noteq> uuid \<and> good \<noteq> pending) \<and> (pending = 0 \<or> pending \<noteq> uuid)) \<and>
     (DeviceType d = ''switch'' \<longrightarrow> 20 \<le> length (Configuration d)) \<and> uuid + 2 \<noteq> 0"

lemma upgrade_target_nonzero: "outdated e w n uuid d \<Longrightarrow> upgrade_target uuid (stored_uuid e d) \<noteq> 0"
  by (cases "uuid = 0") (auto simp: upgrade_target_def outdated_def word_gt_0)

lemma push_configuration_uuid: "push_configuration e uuid (d\<lparr> UUID := u \<rparr>) new = push_configuration e uuid d new"
  by (simp add: push_configuration_def)

lemma LookForUpgrade_outdated:
  assumes "outdated e w n uuid d"
  shows "LookForUpgrade e uuid x w = push_configuration e uuid d (upgrade_target uuid (stored_uuid e d)) w"
proof -
  have d: "GetDevice (e_codec e) (c_SerialNumber (w_conn w)) (w_store w) = Some d"
    using assms by (simp add: outdated_def known_def)
  let ?good = "GetCurrentConfig (c_SerialNumberInt (w_conn w)) (configs (w_store w))" and ?pending = "PendingUUID (State (w_conn w))"
  have c: "uuid \<noteq> 0" "\<not> (?good \<noteq> 0 \<and> (?good = uuid \<or> ?good = ?pending))" "\<not> (?pending \<noteq> 0 \<and> uuid = ?pending)"
    "\<not> (DeviceType d = ''switch'' \<and> length (Configuration d) < 20)" "stored_uuid e d \<noteq> uuid"
    using assms by (auto simp: outdated_def Let_def)
  have u: "UUID (if UUID d = 0 then d\<lparr> UUID := Config_UUID (e_poco e) (Configuration d) \<rparr> else d) = stored_uuid e d"
    by (simp add: stored_uuid_def)
  have p: "push_configuration e uuid (if UUID d = 0 then d\<lparr> UUID := Config_UUID (e_poco e) (Configuration d) \<rparr> else d) new =
      push_configuration e uuid d new" for new
    by (simp add: push_configuration_uuid)
  show ?thesis
    unfolding LookForUpgrade_def with_conn_def with_store_def Let_def d option.case u p if_not_P [OF c(1)] if_not_P [OF c(2)]
      if_not_P [OF c(3)] if_not_P [OF c(4)] if_not_P [OF c(5)]
    by (simp add: upgrade_target_def)
qed

lemma LookForUpgrade_pushes:
  assumes o: "outdated e w n uuid d"
    and set: "Config_SetUUID (e_poco e) (Configuration d) (upgrade_target uuid (stored_uuid e d)) = Inr (ok, text)"
    and parse: "parse_object (e_poco e) text = Inr cfg"
  shows "\<exists>w' es. LookForUpgrade e uuid x w = (Inr (True, upgrade_target uuid (stored_uuid e d)), w') \<and>
           w_conn w' = (w_conn w)\<lparr> State := (State (w_conn w))\<lparr> PendingUUID := upgrade_target uuid (stored_uuid e d) \<rparr> \<rparr> \<and>
           known (e_codec e) (c_SerialNumber (w_conn w)) n
             (d\<lparr> UUID := upgrade_target uuid (stored_uuid e d), Configuration := text,
                 pendingUUID := upgrade_target uuid (stored_uuid e d), modified := e_now e \<rparr>) (w_store w') \<and>
           configs (w_store w') = configs (w_store w) \<and>
           (\<exists>rpc params. w_effects w' = w_effects w @ es \<and> om_find params ''config'' = Some (JObj cfg) \<and>
              Eff_Command rpc (c_SerialNumber (w_conn w)) ''configure'' params (e_new_uuid e) \<in> set es)"
proof -
  let ?t = "upgrade_target uuid (stored_uuid e d)"
  let ?d = "d\<lparr> UUID := ?t, Configuration := text, pendingUUID := ?t \<rparr>"
  have k: "known (e_codec e) (c_SerialNumber (w_conn w)) n d (w_store w)" using o by (simp add: outdated_def)
  have d: "SerialNumber ?d = c_SerialNumber (w_conn w)" "codec_ok (e_codec e) ?d" "\<not> blackListed ?d"
    using knownD [OF k] k by (simp_all add: known_def codec_ok_def)
  obtain st where st: "UpdateDevice (e_codec e) (e_now e) ?d (w_store w) = (Inr True, st)"
    "known (e_codec e) (c_SerialNumber (w_conn w)) n (?d\<lparr> modified := e_now e \<rparr>) st" "configs st = configs (w_store w)"
    using UpdateDevice_known [OF k d] by blast
  let ?p = "om_set ''config'' (JObj cfg) (om_set ''when'' (JInt 0)
     (om_set ''uuid'' (JInt (uint ?t)) (om_set ''serial'' (JStr (c_SerialNumber (w_conn w))) [])))"
  have f: "om_find ?p ''config'' = Some (JObj cfg)" by (rule om.lookup_same) (simp add: om_wf_def)
  have "LookForUpgrade e uuid x w = push_configuration e uuid d ?t w"
    by (rule LookForUpgrade_outdated [OF o])
  also have "push_configuration e uuid d ?t w = (Inr (True, ?t),
     w\<lparr> w_conn := (w_conn w)\<lparr> State := (State (w_conn w))\<lparr> PendingUUID := ?t \<rparr> \<rparr>, w_store := st, w_rpc := w_rpc w + 1,
        w_effects := w_effects w @
          [Eff_AddCommand (c_SerialNumber (w_conn w)) (e_new_uuid e) ''configure'' (p_stringify (e_poco e) ?p),
           Eff_Command (w_rpc w + 1) (c_SerialNumber (w_conn w)) ''configure'' ?p (e_new_uuid e),
           Eff_ConfigurationChange (SerialNumber d) uuid ?t] \<rparr>)"
    using set parse st(1) by (simp add: push_configuration_def set_PendingUUID_def gw_act Let_def del: om_set.simps)
  finally show ?thesis using st(2,3) f by fastforce
qed

lemma LookForUpgrade_completes:
  assumes k: "known (e_codec e) (c_SerialNumber (w_conn w)) n d (w_store w)" and n: "c_SerialNumberInt (w_conn w) = n"
    and p: "PendingUUID (State (w_conn w)) = t" "pendingUUID d = t" "t \<noteq> 0" "GetCurrentConfig n (configs (w_store w)) \<noteq> t"
  shows "\<exists>st. LookForUpgrade e t x w =
             (Inr (True, t), w\<lparr> w_conn := (w_conn w)\<lparr> State := (State (w_conn w))\<lparr> PendingUUID := 0 \<rparr> \<rparr>, w_store := st \<rparr>) \<and>
           known (e_codec e) (c_SerialNumber (w_conn w)) n (completed (e_now e) d) st \<and>
           GetCurrentConfig n (configs st) = t"
proof -
  have "pendingUUID d \<noteq> 0" using p by simp
  with Complete_known [OF k, where po = "e_poco e" and now = "e_now e"] p(2) obtain st where
    st: "CompleteDeviceConfigurationChange (e_poco e) (e_codec e) (e_now e) (c_SerialNumber (w_conn w)) (w_store w) = (Inr True, st)"
    "known (e_codec e) (c_SerialNumber (w_conn w)) n (completed (e_now e) d) st" "GetCurrentConfig n (configs st) = t"
    by auto
  have "GetDevice (e_codec e) (c_SerialNumber (w_conn w)) (w_store w) = Some d" using k by (simp add: known_def)
  with n p st show ?thesis by (intro exI [of _ st]) (auto simp: LookForUpgrade_def set_PendingUUID_def gw_act)
qed

lemma LookForUpgrade_expected:
  assumes "GetCurrentConfig (c_SerialNumberInt (w_conn w)) (configs (w_store w)) = t" and "t \<noteq> 0"
  shows "LookForUpgrade e t x w =
           (Inr (False, t), w\<lparr> w_conn := (w_conn w)\<lparr> State := (State (w_conn w))\<lparr> PendingUUID := 0 \<rparr> \<rparr> \<rparr>)"
  using assms by (simp add: LookForUpgrade_def set_PendingUUID_def gw_act Let_def)

text \<open>
  C4: while the data base works and its JSON columns can be read back, whenever a known device reports an identifier
  (not 0 or 2^64 - 2) other than the stored one, the one the cache expects and the one it was sent, the cache does not
  expect the one it was sent, and the stored text can be given an identifier (for a switch, has 20 characters), the
  gateway sends it the stored configuration, under its identifier or the reported one plus two when that is greater.
  When the device then reports the identifier it was sent, the change is completed, unless the cache expected
  it already: then the report is taken as it is and the row keeps it as pending. In both cases the row and the cache
  end with it, and a further report of it changes nothing. The stored text is what was sent, except
  that a completion takes an older pending text still in the row, which the device never got.
\<close>

theorem upgrade_cycle:
  fixes e :: env and w :: world and uuid :: u64 and d :: device
  defines "t \<equiv> upgrade_target uuid (stored_uuid e d)"
  defines "expected \<equiv> GetCurrentConfig (c_SerialNumberInt (w_conn w)) (configs (w_store w)) = t"
  assumes "outdated e w n uuid d"
    and "Config_SetUUID (e_poco e) (Configuration d) t = Inr (ok, text)"
    and "parse_object (e_poco e) text = Inr cfg"
  shows "\<exists>w1 w2 d2. LookForUpgrade e uuid x w = (Inr (True, t), w1) \<and>
           (\<exists>rpc params. Eff_Command rpc (c_SerialNumber (w_conn w)) ''configure'' params (e_new_uuid e) \<in> set (w_effects w1) \<and>
              om_find params ''config'' = Some (JObj cfg)) \<and>
           LookForUpgrade e t x w1 = (Inr (\<not> expected, t), w2) \<and> w_effects w2 = w_effects w1 \<and>
           GetDevice (e_codec e) (c_SerialNumber (w_conn w)) (w_store w2) = Some d2 \<and>
           UUID d2 = t \<and> pendingUUID d2 = (if expected then t else 0) \<and>
           Configuration d2 = (if expected \<or> pendingConfiguration d = [] then text else pendingConfiguration d) \<and>
           GetCurrentConfig n (configs (w_store w2)) = t \<and> PendingUUID (State (w_conn w2)) = 0 \<and>
           LookForUpgrade e t x w2 = (Inr (False, t), w2)"
proof -
  let ?s = "c_SerialNumber (w_conn w)"
  let ?d1 = "d\<lparr> UUID := t, Configuration := text, pendingUUID := t, modified := e_now e \<rparr>"
  let ?idle = "\<lambda>w. (w_conn w)\<lparr> State := (State (w_conn w))\<lparr> PendingUUID := 0 \<rparr> \<rparr>"
  from LookForUpgrade_pushes [OF assms(3) assms(4) [unfolded t_def] assms(5)] obtain w1 es rpc params where w1:
    "LookForUpgrade e uuid x w = (Inr (True, t), w1)"
    "w_conn w1 = (w_conn w)\<lparr> State := (State (w_conn w))\<lparr> PendingUUID := t \<rparr> \<rparr>"
    "known (e_codec e) ?s n ?d1 (w_store w1)" "configs (w_store w1) = configs (w_store w)"
    "w_effects w1 = w_effects w @ es" "om_find params ''config'' = Some (JObj cfg)"
    "Eff_Command rpc ?s ''configure'' params (e_new_uuid e) \<in> set es" unfolding t_def by metis
  have t: "t \<noteq> 0" using upgrade_target_nonzero [OF assms(3)] by (simp add: t_def)
  have n: "c_SerialNumberInt (w_conn w) = n" using assms(3) by (simp add: outdated_def)
  obtain st d2 where st: "LookForUpgrade e t x w1 = (Inr (\<not> expected, t), w1\<lparr> w_conn := ?idle w1, w_store := st \<rparr>)"
    "known (e_codec e) ?s n d2 st" "GetCurrentConfig n (configs st) = t"
    "UUID d2 = t" "pendingUUID d2 = (if expected then t else 0)"
    "Configuration d2 = (if expected \<or> pendingConfiguration d = [] then text else pendingConfiguration d)"
  proof (cases expected)
    case True
    then have g: "GetCurrentConfig n (configs (w_store w1)) = t" using n w1(4) by (simp add: expected_def)
    with LookForUpgrade_expected [of w1 t e x] t n w1(2,3) True show ?thesis
      by (intro that [of "w_store w1" ?d1]) simp_all
  next
    case False
    have "\<exists>st. LookForUpgrade e t x w1 = (Inr (True, t), w1\<lparr> w_conn := ?idle w1, w_store := st \<rparr>) \<and>
           known (e_codec e) (c_SerialNumber (w_conn w1)) n (completed (e_now e) ?d1) st \<and>
           GetCurrentConfig n (configs st) = t"
      by (rule LookForUpgrade_completes) (use w1 t n False in \<open>simp_all add: expected_def\<close>)
    with w1(2) False show ?thesis by (auto simp: completed_def intro: that)
  qed
  let ?w2 = "w1\<lparr> w_conn := ?idle w1, w_store := st \<rparr>"
  have "LookForUpgrade e t x ?w2 = (Inr (False, t), ?w2)"
    using LookForUpgrade_expected [of ?w2 t e x] st(3) t n w1(2) by simp
  with w1 st show ?thesis
    by (intro exI [of _ w1] exI [of _ ?w2] exI [of _ d2]) (auto simp: known_def)
qed

section \<open>A world to evaluate the properties on\<close>

definition plain_env :: env where
  "plain_env =
     \<lparr> e_poco = plain_poco, e_codec = plain_codec, e_ws = (\<lambda>s. Sent_Acked (length s)), e_now = 100,
       e_server = fresh_server, e_mismatch_depth = 2, e_allow_mismatch = True, e_kafka = False, e_kafka_no_state = False,
       e_kafka_no_health = False, e_blacklist = (\<lambda>_. None), e_new_uuid = ''new-uuid'', e_garbage = 77, e_gz = (\<lambda>s. s),
       e_country = (\<lambda>_. ''US''), e_peer = ''10.0.0.1:80'', e_autoprov = True, e_must_upgrade = (\<lambda>_ _. None),
       e_prov = None, e_default_text = ''old'', e_nl_try = (\<lambda>_. Inl (Runtime_Error ''no'')),
       e_nl_erase = (\<lambda>_ j. Inr j), e_nl_parse = (\<lambda>_. None), e_nl_dump = (\<lambda>_. []), e_completion = ''0'',
       e_percent = (\<lambda>_ _. ''0''), e_double = (\<lambda>_. Inr ''0''), e_bool = (\<lambda>j. Inr (j = JBool True)),
       e_array_text = (\<lambda>_. ''[]''), e_trim = (\<lambda>s. s), e_b64 = (\<lambda>s. s), e_b64_strict = (\<lambda>s. Inr s),
       e_uncompress = (\<lambda>_ _. Z_FAILED), e_is_struct = (\<lambda>_. False), e_close = Inr (),
       e_pong = Inr () \<rparr>"

definition plain_conn :: connection where
  "plain_conn = (fresh_connection 5 6)\<lparr> c_SerialNumber := ''24f5a207a131'', c_SerialNumberInt := 0x24f5a207a131 \<rparr>"

definition plain_world :: world where
  "plain_world = \<lparr> w_conn = plain_conn, w_store = plain_storage, w_effects = [], w_rpc = 0 \<rparr>"

lemma plain_known: "known plain_codec ''24f5a207a131'' 0x24f5a207a131 (plain_device ''24f5a207a131'') plain_storage"
  using plain_wf plain_codec_ok plain_GetDevice plain_number by (simp add: known_def) (simp add: plain_storage_def)

lemma plain_uuid: "UUID (plain_device s) = 2" "DeviceType (plain_device s) = ''ap''" "pendingConfiguration (plain_device s) = []"
  by (simp_all add: plain_device_def)

lemma plain_outdated:
  "outdated plain_env (plain_world\<lparr> w_store := (w_store plain_world)\<lparr> configs := c \<rparr> \<rparr>) 0x24f5a207a131 5 (plain_device ''24f5a207a131'')"
  if "c = [] \<or> c = [(0x24f5a207a131, 7)]"
  using plain_known that
  by (auto simp: outdated_def plain_env_def plain_world_def plain_conn_def plain_uuid stored_uuid_def fresh_connection_def
      fresh_state_def GetCurrentConfig_def known_def GetDevice_def storage_wf_def om_wf_def om_find_def)

text \<open>Once with an empty cache, and once with a cache that expects the identifier the device is sent.\<close>

theorem upgrade_cycle_witness:
  "(\<exists>w1 w2. LookForUpgrade plain_env 5 0 (plain_world\<lparr> w_store := (w_store plain_world)\<lparr> configs := [] \<rparr> \<rparr>) = (Inr (True, 7), w1) \<and>
           LookForUpgrade plain_env 7 0 w1 = (Inr (True, 7), w2) \<and> LookForUpgrade plain_env 7 0 w2 = (Inr (False, 7), w2)) \<and>
   (\<exists>w1 w2. LookForUpgrade plain_env 5 0 (plain_world\<lparr> w_store := (w_store plain_world)\<lparr> configs := [(0x24f5a207a131, 7)] \<rparr> \<rparr>) =
             (Inr (True, 7), w1) \<and> LookForUpgrade plain_env 7 0 w1 = (Inr (False, 7), w2))"
proof -
  let ?d = "plain_device ''24f5a207a131''"
  have t: "upgrade_target 5 (stored_uuid plain_env ?d) = 7"
    by (simp add: upgrade_target_def stored_uuid_def plain_uuid)
  have s: "Config_SetUUID (e_poco plain_env) (Configuration ?d) (upgrade_target 5 (stored_uuid plain_env ?d)) = Inr (True, ''new'')"
    using plain_config t by (simp add: plain_env_def)
  have p: "parse_object (e_poco plain_env) ''new'' = Inr [(''uuid'', JInt 7)]"
    by (simp add: plain_env_def plain_poco_def poco_of_def parse_object_def extract_object_def)
  have n: "c_SerialNumberInt (w_conn plain_world) = 0x24f5a207a131" by (simp add: plain_world_def plain_conn_def)
  have g: "GetCurrentConfig 0x24f5a207a131 [] \<noteq> 7" "GetCurrentConfig 0x24f5a207a131 [(0x24f5a207a131, 7)] = 7"
    by (simp_all add: GetCurrentConfig_def om_find_def)
  show ?thesis
    using upgrade_cycle [OF plain_outdated [of "[]"] s p, of 0]
      upgrade_cycle [OF plain_outdated [of "[(0x24f5a207a131, 7)]"] s p, of 0] g
    unfolding t by (auto simp: n)
qed

end
