(* ===== verification/GW_Events.thy ===== *)
theory GW_Events
  imports GW_Upgrade
begin

text \<open>
  The handlers of the events a device sends (\<^verbatim>\<open>src/AP_WS_Process_*.cpp\<close>) and the end of a connection.
  Each is an operation on a world; the parameters of the event are a JSON object. A null pointer to a JSON
  object that the code follows raises Poco's null pointer exception, as it does there.
\<close>

section \<open>Parameters\<close>

definition u64_of :: "env \<Rightarrow> jobject \<Rightarrow> string \<Rightarrow> u64 act" where
  "u64_of e params k = lift_exn (p_u64 (e_poco e) (j_get params k))"

definition text_of :: "env \<Rightarrow> jobject \<Rightarrow> string \<Rightarrow> string act" where
  "text_of e params k = lift_exn (p_string (e_poco e) (j_get params k))"

definition opt_text_of :: "env \<Rightarrow> jobject \<Rightarrow> string \<Rightarrow> string act" where
  "opt_text_of e params k = (if j_has params k then text_of e params k else ret [])"

definition object_at :: "jobject \<Rightarrow> string \<Rightarrow> jobject option" where
  "object_at obj k = (case om_find obj k of Some (JObj o') \<Rightarrow> Some o' | _ \<Rightarrow> None)"

definition deref :: "'a option \<Rightarrow> cpp_exn + 'a" where
  "deref x = (case x of Some v \<Rightarrow> Inr v | None \<Rightarrow> Inl (Poco_Exception ''NullPointerException''))"

definition require_connected :: "unit act \<Rightarrow> unit act" where
  "require_connected m = with_conn (\<lambda>c. if s_Connected (State c) then m else count_error)"

lemmas event_defs [gw_act] = u64_of_def text_of_def opt_text_of_def require_connected_def

section \<open>Messages to other components\<close>

text \<open>\<^verbatim>\<open>GWKafkaEvents::Send\<close>.\<close>

definition gw_event :: "env \<Rightarrow> u64 \<Rightarrow> string \<Rightarrow> u64 \<Rightarrow> jobject \<Rightarrow> unit act" where
  "gw_event e serial type timestamp payload =
     perform_if (e_kafka e)
       (emit (Eff_Kafka ''device_event_queue'' (IntToSerialNumber serial)
         (om_set ''payload'' (JObj payload) (om_set ''timestamp'' (JInt (uint timestamp))
           (om_set ''type'' (JStr type) [])))))"

text \<open>A log record goes to the storage and, with Kafka, out as an event.\<close>

definition log_entry :: "env \<Rightarrow> device_log \<Rightarrow> unit act" where
  "log_entry e l =
     andThen (emit (Eff_Log l)) (\<lambda>_. perform_if (e_kafka e) (emit (Eff_LogEvent (MACToInt (dl_SerialNumber l)) l)))"

definition disconnect_message :: "env \<Rightarrow> string \<Rightarrow> u64 \<Rightarrow> jobject" where
  "disconnect_message e serial uuid =
     om_set ''disconnection''
       (JObj (om_set ''uuid'' (JInt (uint uuid)) (om_set ''timestamp'' (JInt (uint (e_now e)))
               (om_set ''serialNumber'' (JStr serial) [])))) []"

definition DeviceDisconnectionCleanup :: "env \<Rightarrow> string \<Rightarrow> u64 \<Rightarrow> unit act" where
  "DeviceDisconnectionCleanup e serial uuid =
     andThen (perform_if (e_kafka e) (emit (Eff_Kafka ''connection'' serial (disconnect_message e serial uuid)))) (\<lambda>_.
     andThen (emit (Eff_RadiusDisconnect serial)) (\<lambda>_.
     emit (Eff_Notify ''DeviceDisconnected'' serial)))"

text \<open>A connection is ended once, whoever asks for it.\<close>

definition EndConnection :: "env \<Rightarrow> unit act" where
  "EndConnection e = with_conn (\<lambda>c.
     if Dead c then ret () else
     andThen (on_conn (\<lambda>c. c\<lparr> Dead := True \<rparr>)) (\<lambda>_.
     andThen (perform_if (c_SerialNumber c \<noteq> [] \<and> s_LastContact (State c) \<noteq> 0)
       (andThen (on_store (SetDeviceLastRecordedContact (c_SerialNumber c) (s_LastContact (State c)))) (\<lambda>_. ret ()))) (\<lambda>_.
     andThen (on_conn (\<lambda>c. c\<lparr> Registered := False \<rparr>)) (\<lambda>_.
     andThen (emit Eff_Close) (\<lambda>_.
     andThen (lift_exn (e_close e)) (\<lambda>_.
     andThen (perform_if (c_SerialNumber c \<noteq> []) (DeviceDisconnectionCleanup e (c_SerialNumber c) (c_uuid c))) (\<lambda>_.
     emit (Eff_Cleanup (sessionId (State c)) (c_SerialNumberInt c)))))))))"

section \<open>State and health\<close>

text \<open>What the last statistics text tells about the device; any Poco exception ends the reading.\<close>

definition read_stats :: "env \<Rightarrow> string \<Rightarrow> unit act" where
  "read_stats e text =
     andThen (lift_exn (parse_object (e_poco e) text)) (\<lambda>stats.
     andThen (on_state (\<lambda>s. s\<lparr> s_hasGPS := j_isObject stats ''gps'' \<rparr>)) (\<lambda>_.
     andThen (lift_exn (deref (object_at stats ''unit''))) (\<lambda>unit.
     andThen (lift_exn (deref (object_at unit ''memory''))) (\<lambda>memory.
     andThen (u64_of e memory ''total'') (\<lambda>total.
     andThen (u64_of e memory ''free'') (\<lambda>free.
     andThen (perform_if (total > 0) (on_state (\<lambda>s. s\<lparr> memoryUsed := e_percent e total free \<rparr>))) (\<lambda>_.
     andThen (perform_if (j_isArray unit ''load'' \<and> length (j_getArray unit ''load'') > 1)
       (andThen (lift_exn (e_double e (j_getArray unit ''load'' ! 1))) (\<lambda>v. on_state (\<lambda>s. s\<lparr> s_load := v \<rparr>)))) (\<lambda>_.
     perform_if (j_isArray unit ''temperature'' \<and> length (j_getArray unit ''temperature'') > 1)
       (andThen (lift_exn (e_double e (j_getArray unit ''temperature'' ! 0))) (\<lambda>v.
          on_state (\<lambda>s. s\<lparr> s_temperature := v \<rparr>)))))))))))"

definition SetLastStats :: "env \<Rightarrow> string \<Rightarrow> unit act" where
  "SetLastStats e text =
     andThen (on_conn (\<lambda>c. c\<lparr> RawLastStats := CompressIt (e_gz e) text \<rparr>)) (\<lambda>_.
     catch_exn poco_exn (read_stats e text))"

text \<open>
  The identifier kept is what \<^verbatim>\<open>LookForUpgrade\<close> put in an uninitialised variable. When the counting raises,
  the connection ends and its counters cannot be read any more; they are left as they were here.
\<close>

definition Process_state :: "env \<Rightarrow> jobject \<Rightarrow> unit act" where
  "Process_state e params = require_connected (
     if j_has params ''uuid'' \<and> j_has params ''state'' then
       andThen (u64_of e params ''uuid'') (\<lambda>uuid.
       andThen (text_of e params ''state'') (\<lambda>text.
       andThen (opt_text_of e params ''request_uuid'') (\<lambda>request.
       andThen (with_conn (\<lambda>c. perform_if (\<not> Simulated c)
         (andThen (LookForUpgrade e uuid (e_garbage e)) (\<lambda>(_, upgraded). on_state (\<lambda>s. s\<lparr> s_UUID := upgraded \<rparr>))))) (\<lambda>_.
       andThen (SetLastStats e text) (\<lambda>_.
       with_conn (\<lambda>c.
       andThen (emit (Eff_Statistics (c_SerialNumber c) uuid text (e_now e))) (\<lambda>_.
       andThen (perform_if (request \<noteq> []) (emit (Eff_SetCommandResult request text))) (\<lambda>_.
       andThen (lift_exn (deref (object_at params ''state''))) (\<lambda>obj.
       andThen (lift_exn (ComputeAssociations (e_poco e) obj (uptime (State c)))) (\<lambda>(_, k, up).
       andThen (on_state (\<lambda>s. s\<lparr> Associations_2G := Radios_2G k, Associations_5G := Radios_5G k,
                                  Associations_6G := Radios_6G k, uptime := up \<rparr>)) (\<lambda>_.
       andThen (perform_if (e_kafka e \<and> \<not> e_kafka_no_state e) (emit (Eff_Kafka ''state'' (c_SerialNumber c) params))) (\<lambda>_.
       emit (Eff_Notify ''DeviceStatistics'' (c_SerialNumber c))))))))))))))
     else ret ())"

definition Process_healthcheck :: "env \<Rightarrow> jobject \<Rightarrow> unit act" where
  "Process_healthcheck e params = require_connected (
     if j_has params ''uuid'' \<and> j_has params ''sanity'' \<and> j_has params ''data'' then
       andThen (u64_of e params ''uuid'') (\<lambda>uuid.
       andThen (u64_of e params ''sanity'') (\<lambda>s.
       andThen (on_state (\<lambda>st. st\<lparr> sanity := s \<rparr>)) (\<lambda>_.
       andThen (text_of e params ''data'') (\<lambda>text.
       let data = (if text = [] then ''{}'' else text) in
       andThen (opt_text_of e params ''request_uuid'') (\<lambda>request.
       with_conn (\<lambda>c.
       let check = \<lparr> h_SerialNumber = c_SerialNumber c, h_UUID = uuid, h_Data = data, h_Recorded = e_now e, h_Sanity = s \<rparr> in
       andThen (emit (Eff_Health check)) (\<lambda>_.
       andThen (perform_if (request \<noteq> []) (emit (Eff_SetCommandResult request data))) (\<lambda>_.
       andThen (on_conn (SetLastHealthCheck check)) (\<lambda>_.
       perform_if (e_kafka e \<and> \<not> e_kafka_no_health e) (emit (Eff_Kafka ''healthcheck'' (c_SerialNumber c) params)))))))))))
     else ret ())"

section \<open>Logs\<close>

definition crlf :: string where
  "crlf = [CHR 0x0D, CHR 0x0A]"

fun lines_text :: "poco \<Rightarrow> json list \<Rightarrow> cpp_exn + string" where
  "lines_text p [] = Inr []"
| "lines_text p (x # xs) = try_bind (p_string p x) (\<lambda>s. map_sum id (\<lambda>r. s @ crlf @ r) (lines_text p xs))"

definition loglines :: "env \<Rightarrow> jobject \<Rightarrow> string act" where
  "loglines e params =
     lift_exn (case j_get params ''loglines'' of JArr xs \<Rightarrow> lines_text (e_poco e) xs | _ \<Rightarrow> Inr [])"

definition Process_log :: "env \<Rightarrow> jobject \<Rightarrow> unit act" where
  "Process_log e params = require_connected (
     if j_has params ''log'' \<and> j_has params ''severity'' then
       andThen (text_of e params ''log'') (\<lambda>log.
       andThen (if j_has params ''data'' \<and> e_is_struct e (j_get params ''data'') then text_of e params ''data'' else ret ''{}'') (\<lambda>data.
       andThen (u64_of e params ''severity'') (\<lambda>severity.
       with_conn (\<lambda>c. log_entry e
         \<lparr> dl_SerialNumber = c_SerialNumber c, dl_Log = log, dl_Data = data, dl_Severity = severity,
           dl_Recorded = e_now e, dl_LogType = 0, dl_UUID = s_UUID (State c) \<rparr>))))
     else ret ())"

definition Process_crashlog :: "env \<Rightarrow> jobject \<Rightarrow> unit act" where
  "Process_crashlog e params =
     (if j_has params ''uuid'' \<and> j_has params ''loglines'' then
       andThen (loglines e params) (\<lambda>text.
       andThen (u64_of e params ''uuid'') (\<lambda>uuid.
       with_conn (\<lambda>c. log_entry e
         \<lparr> dl_SerialNumber = c_SerialNumber c, dl_Log = text, dl_Data = [], dl_Severity = 0,
           dl_Recorded = e_now e, dl_LogType = 1, dl_UUID = uuid \<rparr>)))
     else ret ())"

definition Process_rebootLog :: "env \<Rightarrow> jobject \<Rightarrow> unit act" where
  "Process_rebootLog e params =
     (if j_has params ''uuid'' \<and> j_isArray params ''info'' \<and> j_has params ''type'' \<and> j_has params ''date'' then
       andThen (text_of e params ''type'') (\<lambda>log.
       andThen (u64_of e params ''date'') (\<lambda>date.
       andThen (u64_of e params ''uuid'') (\<lambda>uuid.
       with_conn (\<lambda>c. log_entry e
         \<lparr> dl_SerialNumber = c_SerialNumber c, dl_Log = log,
           dl_Data = ''{ '' @ [CHR 0x22] @ ''info'' @ [CHR 0x22] @ '' : '' @ e_array_text e (j_getArray params ''info'') @ ''}'',
           dl_Severity = 6, dl_Recorded = date, dl_LogType = 2, dl_UUID = uuid \<rparr>))))
     else ret ())"

text \<open>A device in recovery mode that asks for it is rebooted: the command is posted, then recorded.\<close>

definition post_reboot :: "env \<Rightarrow> connection \<Rightarrow> unit act" where
  "post_reboot e c =
     (let params = om_set ''when'' (JInt 0) (om_set ''serial'' (JStr (c_SerialNumber c)) []) in
      andThen Next_RPC_ID (\<lambda>rpc.
      andThen (emit (Eff_Command rpc (c_SerialNumber c) ''reboot'' params (e_new_uuid e))) (\<lambda>_.
      emit (Eff_AddCommand (c_SerialNumber c) (e_new_uuid e) ''reboot'' (p_stringify (e_poco e) params)))))"

definition Process_recovery :: "env \<Rightarrow> jobject \<Rightarrow> unit act" where
  "Process_recovery e params =
     (if j_has params ''serial'' \<and> j_has params ''firmware'' \<and> j_has params ''uuid'' \<and> j_has params ''reboot'' \<and>
         j_has params ''loglines'' then
       andThen (text_of e params ''firmware'') (\<lambda>firmware.
       andThen (loglines e params) (\<lambda>text.
       with_conn (\<lambda>c.
       andThen (emit (Eff_Log
         \<lparr> dl_SerialNumber = c_SerialNumber c, dl_Log = ''Firmware: '' @ firmware @ crlf @ text, dl_Data = [],
           dl_Severity = 0, dl_Recorded = e_now e, dl_LogType = 1, dl_UUID = 0 \<rparr>)) (\<lambda>_.
       andThen (text_of e params ''reboot'') (\<lambda>reboot.
       perform_if (reboot = ''true'') (post_reboot e c))))))
     else ret ())"

section \<open>Small events\<close>

definition Process_ping :: "env \<Rightarrow> jobject \<Rightarrow> unit act" where
  "Process_ping e params =
     (if j_has params ''uuid'' then andThen (u64_of e params ''uuid'') (\<lambda>_. ret ()) else ret ())"

definition Process_cfgpending :: "env \<Rightarrow> jobject \<Rightarrow> unit act" where
  "Process_cfgpending e params = require_connected (
     if j_has params ''uuid'' \<and> j_has params ''active'' then
       andThen (u64_of e params ''uuid'') (\<lambda>_. andThen (u64_of e params ''active'') (\<lambda>_. ret ()))
     else ret ())"

text \<open>The password goes to the device named in the message.\<close>

definition Process_deviceupdate :: "env \<Rightarrow> jobject \<Rightarrow> string \<Rightarrow> unit act" where
  "Process_deviceupdate e params serial = require_connected (
     if j_has params ''currentPassword'' then
       andThen (text_of e params ''currentPassword'') (\<lambda>password.
       andThen (on_store (SetDevicePassword serial password)) (\<lambda>_. ret ()))
     else ret ())"

definition Process_venuebroadcast :: "env \<Rightarrow> jobject \<Rightarrow> unit act" where
  "Process_venuebroadcast e params =
     (if j_has params ''data'' \<and> j_has params ''serial'' \<and> j_has params ''timestamp'' then
       andThen (text_of e params ''serial'') (\<lambda>serial.
       andThen (u64_of e params ''timestamp'') (\<lambda>ts.
       emit (Eff_VenueBroadcast serial (object_at params ''data'') ts)))
     else ret ())"

definition forward :: "env \<Rightarrow> string \<Rightarrow> jobject \<Rightarrow> unit act" where
  "forward e topic params = require_connected (with_conn (\<lambda>c.
     perform_if (j_has params ''serial'' \<and> j_has params ''data'' \<and> e_kafka e)
       (emit (Eff_Kafka topic (c_SerialNumber c) params))))"

definition Process_wifiscan :: "env \<Rightarrow> jobject \<Rightarrow> unit act" where
  "Process_wifiscan e params = forward e ''wifiscan'' params"

definition Process_alarm :: "env \<Rightarrow> jobject \<Rightarrow> unit act" where
  "Process_alarm e params = forward e ''alerts'' params"

text \<open>
  The event message: the array under \<^verbatim>\<open>event\<close> holds a time stamp and an object with a type and a payload.
  Whatever goes wrong is swallowed.
\<close>

definition array_get :: "json list \<Rightarrow> nat \<Rightarrow> json" where
  "array_get xs i = (if i < length xs then xs ! i else JNull)"

definition event_message :: "poco \<Rightarrow> jobject \<Rightarrow> cpp_exn + string \<times> jobject" where
  "event_message p params =
     try_bind (deref (object_at params ''data'')) (\<lambda>data.
     try_bind (deref (if j_isArray data ''event'' then Some (j_getArray data ''event'') else None)) (\<lambda>event.
     try_bind (p_u64 p (array_get event 0)) (\<lambda>ts.
     try_bind (deref (case array_get event 1 of JObj o' \<Rightarrow> Some o' | _ \<Rightarrow> None)) (\<lambda>details.
     try_bind (case j_get details ''type'' of JStr t \<Rightarrow> Inr t | _ \<Rightarrow> Inl (Poco_Exception ''BadCastException'')) (\<lambda>type.
     Inr (if take 4 type = ''rrm.'' then ''rrm'' else ''device_event_queue'',
          om_set ''payload'' (case object_at details ''payload'' of Some o' \<Rightarrow> JObj o' | None \<Rightarrow> JNull)
            (om_set ''timestamp'' (JInt (uint ts)) (om_set ''type'' (JStr type) []))))))))"

definition Process_event :: "env \<Rightarrow> jobject \<Rightarrow> unit act" where
  "Process_event e params = require_connected (catch_exn (\<lambda>_. True) (with_conn (\<lambda>c.
     perform_if (j_has params ''serial'' \<and> j_has params ''data'' \<and> e_kafka e)
       (andThen (lift_exn (event_message (e_poco e) params)) (\<lambda>(topic, msg).
          emit (Eff_Kafka topic (c_SerialNumber c) msg))))))"

section \<open>Telemetry\<close>

definition telemetry_to_websocket :: "env \<Rightarrow> string \<Rightarrow> unit act" where
  "telemetry_to_websocket e payload = with_conn (\<lambda>c.
     perform_if (TelemetryWebSocketRefCount c \<noteq> 0)
       (if e_now e < TelemetryWebSocketTimer c then
          andThen (on_conn (\<lambda>c. c\<lparr> TelemetryWebSocketPackets := TelemetryWebSocketPackets c + 1,
              State := (State c)\<lparr> websocketPackets := TelemetryWebSocketPackets c + 1 \<rparr> \<rparr>)) (\<lambda>_.
          emit (Eff_WebSocketTelemetry (c_SerialNumberInt c) payload))
        else andThen Next_RPC_ID (\<lambda>rpc.
          andThen (conn_op (conn_StopWebSocketTelemetry (e_poco e) (e_ws e) rpc)) (\<lambda>_. ret ()))))"

definition telemetry_to_kafka :: "env \<Rightarrow> string \<Rightarrow> unit act" where
  "telemetry_to_kafka e payload = with_conn (\<lambda>c.
     perform_if (TelemetryKafkaRefCount c \<noteq> 0)
       (if e_kafka e \<and> e_now e < TelemetryKafkaTimer c then
          andThen (on_conn (\<lambda>c. c\<lparr> TelemetryKafkaPackets := TelemetryKafkaPackets c + 1,
              State := (State c)\<lparr> kafkaPackets := TelemetryKafkaPackets c + 1 \<rparr> \<rparr>)) (\<lambda>_.
          emit (Eff_KafkaText ''device_telemetry'' (c_SerialNumber c) payload))
        else andThen Next_RPC_ID (\<lambda>rpc.
          andThen (conn_op (conn_StopKafkaTelemetry (e_poco e) (e_ws e) rpc)) (\<lambda>_. ret ()))))"

definition Process_telemetry :: "env \<Rightarrow> jobject \<Rightarrow> unit act" where
  "Process_telemetry e params = require_connected (with_conn (\<lambda>c.
     if TelemetryReporting c \<or> j_has params ''adhoc'' then
       (if j_has params ''data'' then
          andThen (lift_exn (extract_object (j_get params ''data''))) (\<lambda>obj.
          let payload = p_stringify (e_poco e) (om_set ''timestamp'' (JInt (uint (e_now e))) obj) in
          if j_has params ''adhoc'' then emit (Eff_KafkaText ''device_telemetry'' (c_SerialNumber c) payload)
          else andThen (telemetry_to_websocket e payload) (\<lambda>_. telemetry_to_kafka e payload))
        else ret ())
     else andThen Next_RPC_ID (\<lambda>rpc.
            andThen (conn_op (StopTelemetry (e_poco e) (e_ws e) rpc)) (\<lambda>_. ret ()))))"

end
