(* ===== verification/GW_Connect.thy ===== *)
theory GW_Connect
  imports GW_Events
begin

text \<open>
  The first event of a device (\<^verbatim>\<open>src/AP_WS_Process_connect.cpp\<close>): the session is registered under the serial
  number the message names, the device is provisioned, refused or brought up to date in the table, its
  configuration is compared with the stored one, and its certificate is matched with its serial number.
\<close>

section \<open>The device record\<close>

text \<open>One test of the handler: a condition on the record, a change of it, and the count of changes.\<close>

definition touch :: "(device \<Rightarrow> bool) \<Rightarrow> (device \<Rightarrow> device) \<Rightarrow> device \<times> nat \<Rightarrow> device \<times> nat" where
  "touch b f x = (if b (fst x) then (f (fst x), snd x + 1) else x)"

definition refresh_firmware :: "u64 \<Rightarrow> string \<Rightarrow> device \<times> nat \<Rightarrow> device \<times> nat" where
  "refresh_firmware now firmware x =
     (if firmware = [] then x
      else if firmware \<noteq> Firmware (fst x) then touch (\<lambda>_. True) (\<lambda>d. d\<lparr> Firmware := firmware, LastFWUpdate := now \<rparr>) x
      else touch (\<lambda>d. LastFWUpdate d = 0) (\<lambda>d. d\<lparr> LastFWUpdate := now \<rparr>) x)"

definition refresh_device ::
    "u64 \<Rightarrow> connection \<Rightarrow> string \<Rightarrow> string option \<Rightarrow> string \<Rightarrow> string \<Rightarrow> bool \<Rightarrow> device \<Rightarrow> device \<times> nat" where
  "refresh_device now c firmware reason password platform restricted d =
     (let s = State c;
          x = refresh_firmware now firmware (d, 0);
          x = (case reason of None \<Rightarrow> x | Some r \<Rightarrow> touch (\<lambda>_. True) (\<lambda>d. d\<lparr> connectReason := r \<rparr>) x);
          x = touch (\<lambda>d. DevicePassword d \<noteq> password)
                (\<lambda>d. d\<lparr> DevicePassword := (if password = [] then ''openwifi'' else password) \<rparr>) x;
          x = touch (\<lambda>d. lastRecordedContact d = 0) (\<lambda>d. d\<lparr> lastRecordedContact := now \<rparr>) x;
          x = touch (\<lambda>d. simulated d \<and> VerifiedCertificate s \<noteq> SIMULATED) (\<lambda>d. d\<lparr> simulated := False \<rparr>) x;
          x = touch (\<lambda>d. \<not> simulated d \<and> VerifiedCertificate s = SIMULATED) (\<lambda>d. d\<lparr> simulated := True \<rparr>) x;
          x = touch (\<lambda>d. locale_ident d \<noteq> s_locale s) (\<lambda>d. d\<lparr> locale_ident := s_locale s \<rparr>) x;
          x = touch (\<lambda>d. c_Compatible c \<noteq> dCompatible d) (\<lambda>d. d\<lparr> dCompatible := c_Compatible c \<rparr>) x;
          x = touch (\<lambda>d. platform \<noteq> DeviceType d) (\<lambda>d. d\<lparr> DeviceType := platform \<rparr>) x;
          x = touch (\<lambda>d. restricted \<noteq> restrictedDevice d) (\<lambda>d. d\<lparr> restrictedDevice := restricted \<rparr>) x;
          x = touch (\<lambda>d. Restrictions_differ (Restrictions c) (restrictionDetails d))
                (\<lambda>d. d\<lparr> restrictionDetails := Restrictions c \<rparr>) x
      in touch (\<lambda>d. certificateExpiryDate d \<noteq> s_certificateExpiryDate s)
           (\<lambda>d. d\<lparr> certificateExpiryDate := s_certificateExpiryDate s \<rparr>) x)"

text \<open>The messages of a firmware change: the notification, then the Kafka event at the end of its scope.\<close>

definition announce_firmware :: "env \<Rightarrow> connection \<Rightarrow> string \<Rightarrow> device \<Rightarrow> unit act" where
  "announce_firmware e c firmware d =
     perform_if (firmware \<noteq> [] \<and> firmware \<noteq> Firmware d)
       (andThen (emit (Eff_Notify ''DeviceFirmwareUpdated'' (c_SerialNumber c))) (\<lambda>_.
        gw_event e (c_SerialNumberInt c) ''unit.firmware_change'' (e_now e)
          (om_set ''newFirmware'' (JStr firmware) (om_set ''oldFirmware'' (JStr (Firmware d)) []))))"

definition update_known_device :: "env \<Rightarrow> capabilities \<Rightarrow> string \<Rightarrow> string option \<Rightarrow> string \<Rightarrow> bool \<Rightarrow> device \<Rightarrow> unit act" where
  "update_known_device e caps firmware reason password restricted d = with_conn (\<lambda>c.
     andThen (on_store (UpdateDeviceCapabilities (e_poco e) (e_nl_try e) (e_nl_erase e) (e_now e) (c_SerialNumber c) caps)) (\<lambda>_.
     andThen (announce_firmware e c firmware d) (\<lambda>_.
     case refresh_device (e_now e) c firmware reason password (p_toLower (e_poco e) (Platform caps)) restricted d of
       (d', n) \<Rightarrow> if n \<noteq> 0 then andThen (on_store (UpdateDevice (e_codec e) (e_now e) d')) (\<lambda>_. ret ()) else ret ())))"

section \<open>Provisioning\<close>

definition upgrade_message :: "env \<Rightarrow> string \<Rightarrow> string \<Rightarrow> string" where
  "upgrade_message e serial url =
     p_stringify (e_poco e)
       (om_set ''id'' (JInt 1)
         (om_set ''params''
           (JObj (om_set ''keep_redirector'' (JInt 1) (om_set ''uri'' (JStr url) (om_set ''when'' (JInt 0)
                   (om_set ''serialNumber'' (JStr serial) [])))))
           (om_set ''method'' (JStr ''upgrade'') (om_set ''jsonrpc'' (JStr ''2.0'') []))))"

definition not_provisioned :: "env \<Rightarrow> connection \<Rightarrow> string \<Rightarrow> unit act" where
  "not_provisioned e c firmware =
     perform_if (e_kafka e)
       (emit (Eff_Kafka ''device_event_queue'' (c_SerialNumber c)
         (om_set ''payload''
           (JObj (om_set ''IP'' (JStr (CId c)) (om_set ''deviceType'' (JStr (c_Compatible c))
                   (om_set ''firmware'' (JStr firmware) []))))
           (om_set ''timestamp'' (JInt (uint (e_now e))) (om_set ''type'' (JStr ''device.not_provisioned'') [])))))"

text \<open>Whether the device may go on is the result.\<close>

definition provision :: "env \<Rightarrow> capabilities \<Rightarrow> string \<Rightarrow> string option \<Rightarrow> string \<Rightarrow> bool \<Rightarrow> bool act" where
  "provision e caps firmware reason password restricted = with_conn (\<lambda>c. with_store (\<lambda>st.
     case GetDevice (e_codec e) (c_SerialNumber c) st of
       None \<Rightarrow>
         if e_autoprov e then
           (case e_must_upgrade e (c_Compatible c) firmware of
              Some url \<Rightarrow> andThen (conn_op (conn_Send (e_ws e) (upgrade_message e (c_SerialNumber c) url))) (\<lambda>_. ret False)
            | None \<Rightarrow>
                andThen (on_store (CreateDefaultDevice (e_poco e) (e_codec e) (e_nl_try e) (e_nl_erase e) (e_nl_parse e)
                  (e_nl_dump e) (e_prov e) (UseDefaultConfig (e_server e)) (e_default_text e) (e_country e (PeerAddress c))
                  (e_now e) (c_SerialNumber c) caps firmware (VerifiedCertificate (State c) = SIMULATED))) (\<lambda>_. ret True))
         else andThen (not_provisioned e c firmware) (\<lambda>_. andThen (EndConnection e) (\<lambda>_. ret False))
     | Some d \<Rightarrow> andThen (update_known_device e caps firmware reason password restricted d) (\<lambda>_. ret True)))"

section \<open>The certificate\<close>

text \<open>The certificate named one device, the message another; whether the connection may stay is the result.\<close>

definition check_certificate :: "env \<Rightarrow> bool act" where
  "check_certificate e = with_conn (\<lambda>c.
     if VerifiedCertificate (State c) = VALID_CERTIFICATE then
       andThen (lift_exn (SerialNumberMatch (CN c) (c_SerialNumber c) (e_mismatch_depth e))) (\<lambda>same.
       if same \<or> IsSimSerialNumber (CN c) (e_server e)
       then andThen (on_state (\<lambda>s. s\<lparr> VerifiedCertificate := VERIFIED \<rparr>)) (\<lambda>_. ret True)
       else andThen (on_state (\<lambda>s. s\<lparr> VerifiedCertificate := MISMATCH_SERIAL \<rparr>)) (\<lambda>_.
            if e_allow_mismatch e then ret True else andThen (EndConnection e) (\<lambda>_. ret False)))
     else ret True)"

definition connected_message :: "env \<Rightarrow> connection \<Rightarrow> jobject \<Rightarrow> jobject" where
  "connected_message e c params =
     om_set ''uuid'' (JInt (uint (c_uuid c))) (om_set ''timestamp'' (JInt (uint (e_now e)))
       (om_set ''locale'' (JStr (s_locale (State c))) (om_set ''connectionIp'' (JStr (CId c)) params)))"

section \<open>The handler\<close>

text \<open>What the message says of the connection, before the capabilities object is looked into.\<close>

definition take_identity :: "env \<Rightarrow> jobject \<Rightarrow> string \<Rightarrow> u64 \<Rightarrow> string \<Rightarrow> capabilities act" where
  "take_identity e params serial uuid firmware =
     andThen (on_conn (\<lambda>c. c\<lparr> c_SerialNumber := serial \<rparr>)) (\<lambda>_.
     andThen (lift_exn (SerialNumberToInt serial)) (\<lambda>n.
     andThen (on_conn (\<lambda>c. c\<lparr> c_SerialNumberInt := n \<rparr>)) (\<lambda>_.
     andThen (emit (Eff_ClearQueue n)) (\<lambda>_.
     andThen (with_conn (\<lambda>c. emit (Eff_StartSession (sessionId (State c)) n))) (\<lambda>_.
     andThen (lift_exn (case object_at params ''capabilities'' of
                Some obj \<Rightarrow> make_Capabilities (e_poco e) obj
              | None \<Rightarrow> Inr \<lparr> Compatible = [], Model = [], Platform = [], AsString = [] \<rparr>)) (\<lambda>caps.
     andThen (on_conn (\<lambda>c. c\<lparr> c_Compatible := Compatible caps \<rparr>)) (\<lambda>_.
     andThen (on_state (\<lambda>s. s\<lparr> s_UUID := uuid, s_Firmware := firmware, PendingUUID := 0,
                               s_Address := FormatIPv6 (e_peer e) \<rparr>)) (\<lambda>_.
     andThen (on_conn (\<lambda>c. c\<lparr> CId := c_SerialNumber c @ ''@'' @ CId c \<rparr>)) (\<lambda>_. ret caps)))))))))"

definition read_restrictions :: "env \<Rightarrow> jobject \<Rightarrow> unit act" where
  "read_restrictions e obj =
     andThen (perform_if (j_has obj ''restrictions'')
       (on_conn (\<lambda>c. c\<lparr> Restrictions := snd (Restrictions_from_json (e_poco e) (j_getObject obj ''restrictions'') (Restrictions c)) \<rparr>))) (\<lambda>_.
     andThen (perform_if (j_has obj ''developer'' \<and> \<not> j_isNull obj ''developer'')
       (andThen (lift_exn (e_bool e (j_get obj ''developer''))) (\<lambda>b.
          on_conn (\<lambda>c. c\<lparr> Restrictions := (Restrictions c)\<lparr> r_developer := b \<rparr> \<rparr>)))) (\<lambda>_.
     perform_if (j_has obj ''secure-rtty'')
       (andThen (lift_exn (e_bool e (j_get obj ''secure-rtty''))) (\<lambda>b. on_conn (\<lambda>c. c\<lparr> RTTYMustBeSecure := b \<rparr>)))))"

definition finish_connect :: "env \<Rightarrow> jobject \<Rightarrow> u64 \<Rightarrow> unit act" where
  "finish_connect e params uuid =
     andThen (with_conn (\<lambda>c. perform_if (\<not> Simulated c)
       (andThen (LookForUpgrade e uuid 0) (\<lambda>(changed, up). perform_if changed (on_state (\<lambda>s. s\<lparr> s_UUID := up \<rparr>)))))) (\<lambda>_.
     andThen (on_conn (\<lambda>c. c\<lparr> State := (State c)\<lparr> s_Compatible := c_Compatible c, s_Connected := True,
                                                  connectionCompletionTime := e_completion e \<rparr> \<rparr>)) (\<lambda>_.
     andThen (check_certificate e) (\<lambda>stays.
     if \<not> stays then ret () else with_conn (\<lambda>c.
       andThen (emit (Eff_Notify ''DeviceConnected'' (c_SerialNumber c))) (\<lambda>_.
       perform_if (e_kafka e) (emit (Eff_Kafka ''connection'' (c_SerialNumber c) (connected_message e c params))))))))"

definition Process_connect :: "env \<Rightarrow> jobject \<Rightarrow> string \<Rightarrow> unit act" where
  "Process_connect e params serial =
     (if j_has params ''uuid'' \<and> j_has params ''firmware'' \<and> j_has params ''capabilities'' then
        andThen (u64_of e params ''uuid'') (\<lambda>uuid.
        andThen (text_of e params ''firmware'') (\<lambda>firmware.
        andThen (opt_text_of e params ''password'') (\<lambda>password.
        andThen (take_identity e params serial uuid firmware) (\<lambda>caps.
        andThen (if j_has params ''reason'' then andThen (text_of e params ''reason'') (\<lambda>r. ret (Some r)) else ret None) (\<lambda>reason.
        andThen (on_state (\<lambda>s. case reason of Some r \<Rightarrow> s\<lparr> s_connectReason := r \<rparr> | None \<Rightarrow> s)) (\<lambda>_.
        andThen (lift_exn (deref (object_at params ''capabilities''))) (\<lambda>obj.
        andThen (read_restrictions e obj) (\<lambda>_.
        andThen (on_conn (\<lambda>c. c\<lparr> State := (State c)\<lparr> s_locale :=
            e_country e (if take 7 (PeerAddress c) = ''::ffff:'' then drop 7 (PeerAddress c) else PeerAddress c) \<rparr> \<rparr>)) (\<lambda>_.
        andThen (provision e caps firmware reason password (j_has obj ''restrictions'')) (\<lambda>goes_on.
        if goes_on then finish_connect e params uuid else ret ()))))))))))
      else count_error)"

end
