(* ===== verification/GW_Connection.thy ===== *)
theory GW_Connection
  imports GW_Connect
begin

text \<open>
  A connection as a reactor of socket events (\<^verbatim>\<open>src/AP_WS_Connection.cpp\<close>): the validation of the
  certificate, the frames of the web socket and their accumulation into messages, the dispatch of a
  message to its handler, and what the exceptions raised on the way do to the connection. \<^verbatim>\<open>catch (...)\<close>
  catches everything but undefined behaviour.
\<close>

section \<open>The kinds of events\<close>

datatype EVENT_MSG =
    ET_UNKNOWN
  | ET_CONNECT
  | ET_STATE
  | ET_HEALTHCHECK
  | ET_LOG
  | ET_CRASHLOG
  | ET_PING
  | ET_CFGPENDING
  | ET_RECOVERY
  | ET_DEVICEUPDATE
  | ET_TELEMETRY
  | ET_VENUEBROADCAST
  | ET_EVENT
  | ET_WIFISCAN
  | ET_ALARM
  | ET_REBOOTLOG

text \<open>\<^verbatim>\<open>strcmp\<close> sees the text up to its first NUL.\<close>

definition EventFromString :: "string \<Rightarrow> EVENT_MSG" where
  "EventFromString s =
     (let m = c_str s in
      if m = ''state'' then ET_STATE
      else if m = ''healthcheck'' then ET_HEALTHCHECK
      else if m = ''connect'' then ET_CONNECT
      else if m = ''cfgpending'' then ET_CFGPENDING
      else if m = ''crashlog'' then ET_CRASHLOG
      else if m = ''deviceupdate'' then ET_DEVICEUPDATE
      else if m = ''log'' then ET_LOG
      else if m = ''ping'' then ET_PING
      else if m = ''recovery'' then ET_RECOVERY
      else if m = ''telemetry'' then ET_TELEMETRY
      else if m = ''venue_broadcast'' then ET_VENUEBROADCAST
      else if m = ''event'' then ET_EVENT
      else if m = ''wifiscan'' then ET_WIFISCAN
      else if m = ''alarm'' then ET_ALARM
      else if m = ''rebootLog'' then ET_REBOOTLOG
      else ET_UNKNOWN)"

section \<open>The certificate of the socket\<close>

text \<open>What the TLS socket tells; looking at it may raise.\<close>

record tls =
  t_host :: string
  t_peer :: string
  t_secure :: bool
  t_has_certificate :: bool
  t_certificate_ok :: bool
  t_commonName :: string
  t_expires :: u64
  t_issuer :: string

definition blacklisted_event :: "env \<Rightarrow> string \<times> string \<times> u64 \<Rightarrow> unit act" where
  "blacklisted_event e why = with_conn (\<lambda>c.
     andThen (lift_exn (SerialNumberToInt (CN c))) (\<lambda>n.
     case why of (reason, author, since) \<Rightarrow>
       gw_event e n ''blacklisted_device'' (e_now e)
         (om_set ''ipaddress'' (JStr (CId c)) (om_set ''created'' (JInt (uint since))
           (om_set ''author'' (JStr author) (om_set ''reason'' (JStr reason) []))))))"

definition validate :: "env \<Rightarrow> cpp_exn + tls \<Rightarrow> bool act" where
  "validate e socket =
     andThen (lift_exn socket) (\<lambda>t.
     andThen (on_conn (\<lambda>c. c\<lparr> PeerAddress := t_host t, CId := FormatIPv6 (t_peer t),
                               State := (State c)\<lparr> started := e_now e \<rparr> \<rparr>)) (\<lambda>_.
     if \<not> t_secure t then ret False
     else if \<not> t_has_certificate t \<or> \<not> t_certificate_ok t then
       andThen (on_state (\<lambda>s. s\<lparr> VerifiedCertificate := NO_CERTIFICATE \<rparr>)) (\<lambda>_. ret False)
     else
       let cn = e_trim e (p_toLower (e_poco e) (t_commonName t)) in
       andThen (on_conn (\<lambda>c. c\<lparr> CN := cn \<rparr>)) (\<lambda>_.
       if \<not> ValidSerialNumber cn then ret False
       else
         andThen (on_conn (\<lambda>c. c\<lparr> c_SerialNumber := cn \<rparr>)) (\<lambda>_.
         andThen (lift_exn (SerialNumberToInt cn)) (\<lambda>n.
         andThen (on_conn (\<lambda>c. c\<lparr> c_SerialNumberInt := n,
                                   State := (State c)\<lparr> VerifiedCertificate := VALID_CERTIFICATE \<rparr> \<rparr>)) (\<lambda>_.
         if IsSim cn \<and> \<not> SimulatorEnabled (e_server e) then ret False
         else
           andThen (perform_if (IsSim cn) (on_conn (\<lambda>c. c\<lparr> Simulated := True,
                     State := (State c)\<lparr> VerifiedCertificate := SIMULATED \<rparr> \<rparr>))) (\<lambda>_.
           case (if cn \<noteq> [] then e_blacklist e n else None) of
             Some why \<Rightarrow> andThen (blacklisted_event e why) (\<lambda>_. ret False)
           | None \<Rightarrow>
               andThen (on_conn (\<lambda>c. c\<lparr> DeviceValidated := True,
                 State := (State c)\<lparr> s_certificateExpiryDate := t_expires t, certificateIssuerName := t_issuer t \<rparr> \<rparr>)) (\<lambda>_.
               ret True))))))))"

definition ValidatedDevice :: "env \<Rightarrow> cpp_exn + tls \<Rightarrow> bool act" where
  "ValidatedDevice e socket = with_conn (\<lambda>c.
     if Dead c then ret False
     else if DeviceValidated c then ret True
     else recover (validate e socket) (andThen (EndConnection e) (\<lambda>_. ret False)))"

section \<open>Messages\<close>

definition ProcessJSONRPCResult :: "env \<Rightarrow> jobject \<Rightarrow> unit act" where
  "ProcessJSONRPCResult e doc =
     andThen (text_of e doc ''id'') (\<lambda>_. with_conn (\<lambda>c. emit (Eff_CommandResult (c_SerialNumber c) doc)))"

text \<open>
  Compressed parameters are expanded first; the result is the parameters to go on with. A text that
  cannot be decompressed is an error of the device, a Poco exception on the way is not.
\<close>

definition expand_params :: "env \<Rightarrow> jobject \<Rightarrow> jobject option act" where
  "expand_params e params w =
     (if \<not> j_has params ''compress_64'' then (Inr (Some params), w)
      else
        (case andThen (text_of e params ''compress_64'') (\<lambda>data.
              andThen (if j_has params ''compress_sz'' then u64_of e params ''compress_sz'' else ret 0) (\<lambda>sz.
              andThen (lift_exn (ExtractBase64CompressedData (e_b64 e) (e_uncompress e) data sz)) (\<lambda>r.
              case r of
                Some text \<Rightarrow> andThen (lift_exn (parse_object (e_poco e) text)) (\<lambda>obj. ret (Some obj))
              | None \<Rightarrow> andThen count_error (\<lambda>_. ret None)))) w of
           (Inl x, w') \<Rightarrow> (if poco_exn x then Inr None else Inl x, w')
         | r \<Rightarrow> r))"

definition dispatch :: "env \<Rightarrow> EVENT_MSG \<Rightarrow> jobject \<Rightarrow> string \<Rightarrow> unit act" where
  "dispatch e event params serial =
     (case event of
        ET_CONNECT \<Rightarrow> Process_connect e params serial
      | ET_STATE \<Rightarrow> Process_state e params
      | ET_HEALTHCHECK \<Rightarrow> Process_healthcheck e params
      | ET_LOG \<Rightarrow> Process_log e params
      | ET_CRASHLOG \<Rightarrow> Process_crashlog e params
      | ET_PING \<Rightarrow> Process_ping e params
      | ET_CFGPENDING \<Rightarrow> Process_cfgpending e params
      | ET_RECOVERY \<Rightarrow> Process_recovery e params
      | ET_DEVICEUPDATE \<Rightarrow> Process_deviceupdate e params serial
      | ET_TELEMETRY \<Rightarrow> Process_telemetry e params
      | ET_VENUEBROADCAST \<Rightarrow> Process_venuebroadcast e params
      | ET_EVENT \<Rightarrow> Process_event e params
      | ET_ALARM \<Rightarrow> Process_alarm e params
      | ET_WIFISCAN \<Rightarrow> Process_wifiscan e params
      | ET_REBOOTLOG \<Rightarrow> Process_rebootLog e params
      | ET_UNKNOWN \<Rightarrow> count_error)"

definition ProcessJSONRPCEvent :: "env \<Rightarrow> jobject \<Rightarrow> unit act" where
  "ProcessJSONRPCEvent e doc =
     andThen (text_of e doc ''method'') (\<lambda>name.
     let event = EventFromString name in
     if event = ET_UNKNOWN then count_error
     else if \<not> j_isObject doc ''params'' then count_error
     else andThen (expand_params e (j_getObject doc ''params'')) (\<lambda>expanded.
       case expanded of
         None \<Rightarrow> ret ()
       | Some params \<Rightarrow>
           if \<not> j_has params ''serial'' then ret ()
           else andThen (text_of e params ''serial'') (\<lambda>name.
             let serial = e_trim e (p_toLower (e_poco e) name) in
             if \<not> ValidSerialNumber serial then lift_exn (Inl (Poco_Exception ''ILLEGAL-DEVICE-NAME''))
             else with_conn (\<lambda>c.
               case e_blacklist e (c_SerialNumberInt c) of
                 Some why \<Rightarrow> andThen (blacklisted_event e why) (\<lambda>_. lift_exn (Inl (Poco_Exception ''BLACKLIST'')))
               | None \<Rightarrow> dispatch e event params serial))))"

definition ProcessIncomingRadiusData :: "env \<Rightarrow> jobject \<Rightarrow> unit act" where
  "ProcessIncomingRadiusData e doc =
     (if j_has doc ''data'' then
        andThen (text_of e doc ''radius'') (\<lambda>kind.
        perform_if (kind = ''acct'' \<or> kind = ''auth'' \<or> kind = ''coa'')
          (andThen (text_of e doc ''data'') (\<lambda>data.
           andThen (lift_exn (e_b64_strict e data)) (\<lambda>bytes.
           with_conn (\<lambda>c. emit (Eff_Radius kind (c_SerialNumber c) bytes)))))) 
      else ret ())"

section \<open>Frames\<close>

definition ProcessWSFinalPayload :: "env \<Rightarrow> unit act" where
  "ProcessWSFinalPayload e = with_conn (\<lambda>c.
     if IncomingFrame c = [] then ret ()
     else
       andThen (on_conn (\<lambda>c. c\<lparr> IncomingFrame := IncomingFrame c @ [CHR 0x00] \<rparr>)) (\<lambda>_.
       andThen (lift_exn (parse_object (e_poco e) (c_str (IncomingFrame c)))) (\<lambda>doc.
       andThen
         (if j_has doc ''jsonrpc'' then
            (if j_has doc ''method'' \<and> j_has doc ''params'' then ProcessJSONRPCEvent e doc
             else if j_has doc ''result'' \<and> j_has doc ''id'' then ProcessJSONRPCResult e doc
             else ret ())
          else if j_has doc ''radius'' then ProcessIncomingRadiusData e doc
          else count_error) (\<lambda>_.
       on_conn (\<lambda>c. c\<lparr> IncomingFrame := [] \<rparr>)))))"

text \<open>What the socket delivers: the size it reports, the bytes and the flags, or an exception.\<close>

record frame =
  f_size :: int
  f_data :: string
  f_flags :: u32

text \<open>How the handling of a frame ended: by a return from it, or at its end with the kill flag.\<close>

datatype frame_end = Returned | Finished bool

definition ping_message :: "env \<Rightarrow> connection \<Rightarrow> jobject" where
  "ping_message e c =
     om_set ''ping''
       (JObj (om_set ''locale'' (JStr (s_locale (State c))) (om_set ''uuid'' (JInt (uint (c_uuid c)))
         (om_set ''timestamp'' (JInt (uint (e_now e))) (om_set ''connectionIp'' (JStr (CId c))
           (om_set ''compatible'' (JStr (c_Compatible c)) (om_set ''serialNumber'' (JStr (c_SerialNumber c))
             (om_set ''firmware'' (JStr (s_Firmware (State c))) [])))))))) []"

definition answer_ping :: "env \<Rightarrow> unit act" where
  "answer_ping e = with_conn (\<lambda>c.
     andThen (lift_exn (e_pong e)) (\<lambda>_.
     andThen (emit Eff_Pong) (\<lambda>_.
     perform_if (e_kafka e) (emit (Eff_Kafka ''connection'' (c_SerialNumber c) (ping_message e c))))))"

definition take_frame :: "env \<Rightarrow> frame \<Rightarrow> unit act" where
  "take_frame e f =
     andThen (perform_if (f_size f > 0)
       (andThen (on_conn (\<lambda>c. c\<lparr> IncomingFrame := IncomingFrame c @ f_data f,
                    State := (State c)\<lparr> s_RX := s_RX (State c) + of_int (f_size f) \<rparr> \<rparr>)) (\<lambda>_.
        emit (Eff_AddRX (of_int (f_size f)))))) (\<lambda>_.
     on_state (\<lambda>s. s\<lparr> MessageCount := MessageCount s + 1, s_LastContact := e_now e \<rparr>))"

definition final_frame :: "env \<Rightarrow> frame \<Rightarrow> frame_end act" where
  "final_frame e f =
     andThen (perform_if (f_flags f AND 0x80 \<noteq> 0) (ProcessWSFinalPayload e)) (\<lambda>_. ret (Finished False))"

definition handle_frame :: "env \<Rightarrow> cpp_exn + frame \<Rightarrow> frame_end act" where
  "handle_frame e incoming =
     andThen (lift_exn incoming) (\<lambda>f.
     let op = f_flags f AND 0x0F in
     if f_size f = 0 \<and> f_flags f = 0 then andThen (EndConnection e) (\<lambda>_. ret Returned)
     else
       andThen (take_frame e f) (\<lambda>_.
       if op = 0x09 then andThen (answer_ping e) (\<lambda>_. ret Returned)
       else if op = 0x0A then ret Returned
       else if op = 0x00 then final_frame e f
       else if op = 0x02 then ret Returned
       else if op = 0x01 then final_frame e f
       else if op = 0x08 then ret (Finished True)
       else andThen count_error (\<lambda>_. ret Returned)))"

definition ProcessIncomingFrame :: "env \<Rightarrow> cpp_exn + frame \<Rightarrow> unit act" where
  "ProcessIncomingFrame e incoming =
     andThen (recover (handle_frame e incoming) (ret (Finished True))) (\<lambda>r.
     case r of
       Returned \<Rightarrow> ret ()
     | Finished kill \<Rightarrow> with_conn (\<lambda>c. if \<not> kill \<and> Errors c < 10 then ret () else EndConnection e))"

section \<open>Socket events\<close>

definition OnSocketReadable :: "env \<Rightarrow> cpp_exn + tls \<Rightarrow> cpp_exn + frame \<Rightarrow> unit act" where
  "OnSocketReadable e socket incoming = with_conn (\<lambda>c.
     if Dead c then ret ()
     else
       andThen (on_conn (\<lambda>c. c\<lparr> c_LastContact := e_now e, State := (State c)\<lparr> s_LastContact := e_now e \<rparr> \<rparr>)) (\<lambda>_.
       andThen (if srv_Running (e_server e) then (if DeviceValidated c then ret True else ValidatedDevice e socket)
                else ret False) (\<lambda>ok.
       if ok then recover (ProcessIncomingFrame e incoming) (EndConnection e) else EndConnection e)))"

definition OnSocketShutdown :: "env \<Rightarrow> unit act" where
  "OnSocketShutdown e = EndConnection e"

definition OnSocketError :: "env \<Rightarrow> unit act" where
  "OnSocketError e = EndConnection e"

text \<open>The destructor.\<close>

definition destroy :: "env \<Rightarrow> unit act" where
  "destroy e = andThen (emit Eff_DecrementConnectionCount) (\<lambda>_. EndConnection e)"

end
