(* ===== verification/GW_History.thy ===== *)
theory GW_History
  imports GW_Connection
begin

text \<open>
  What holds over the whole life of a connection, whatever frames and socket events arrive. The locale
  \<open>connection_order\<close> is the interface between the handlers and a relation of worlds: a reflexive and
  transitive relation that the elementary operations and \<open>EndConnection\<close> respect is respected by every
  handler and every socket event; it extends
  \<open>state_order\<close>. Its two interpretations give the history of a connection (it ends once and is handed to
  the cleanup thread once) and the telemetry invariant.
\<close>

section \<open>Operations that respect a relation\<close>

fun is_cleanup :: "effect \<Rightarrow> bool" where
  "is_cleanup (Eff_Cleanup _ _) = True"
| "is_cleanup _ = False"

text \<open>Changes of a connection that touch neither its life, its identity nor its telemetry clients.\<close>

definition quiet :: "(connection \<Rightarrow> connection) \<Rightarrow> bool" where
  "quiet f \<longleftrightarrow> (\<forall>c. Dead (f c) = Dead c \<and> sessionId (State (f c)) = sessionId (State c) \<and> c_uuid (f c) = c_uuid c \<and>
     TelemetryReporting (f c) = TelemetryReporting c \<and> TelemetryWebSocketRefCount (f c) = TelemetryWebSocketRefCount c \<and>
     TelemetryKafkaRefCount (f c) = TelemetryKafkaRefCount c \<and> kafkaClients (State (f c)) = kafkaClients (State c) \<and>
     webSocketClients (State (f c)) = webSocketClients (State c))"

lemma quietI:
  assumes "\<And>c. Dead (f c) = Dead c" and "\<And>c. sessionId (State (f c)) = sessionId (State c)" and "\<And>c. c_uuid (f c) = c_uuid c"
    and "\<And>c. TelemetryReporting (f c) = TelemetryReporting c"
    and "\<And>c. TelemetryWebSocketRefCount (f c) = TelemetryWebSocketRefCount c"
    and "\<And>c. TelemetryKafkaRefCount (f c) = TelemetryKafkaRefCount c"
    and "\<And>c. kafkaClients (State (f c)) = kafkaClients (State c)"
    and "\<And>c. webSocketClients (State (f c)) = webSocketClients (State c)"
  shows "quiet f"
  using assms by (simp add: quiet_def)

text \<open>What a relation needs so that every handler respects it.\<close>

locale connection_order = state_order R for R :: "world \<Rightarrow> world \<Rightarrow> bool" +
  fixes e :: env
  assumes quiet: "quiet f \<Longrightarrow> R w (w\<lparr> w_conn := f (w_conn w) \<rparr>)"
    and stores: "R w (w\<lparr> w_store := st \<rparr>)"
    and rpc: "R w (w\<lparr> w_rpc := n \<rparr>)"
    and emits: "\<not> is_cleanup x \<Longrightarrow> R w (w\<lparr> w_effects := w_effects w @ [x] \<rparr>)"
    and sends: "R w (snd (conn_op (conn_Send ws s) w))"
    and stops: "R w (snd (conn_op (StopTelemetry p ws i) w))"
    and stops_websocket: "R w (snd (conn_op (conn_StopWebSocketTelemetry p ws i) w))"
    and stops_kafka: "R w (snd (conn_op (conn_StopKafkaTelemetry p ws i) w))"
    and ends: "R w (snd (EndConnection e w))"
begin

lemma keeps_on_conn: "quiet f \<Longrightarrow> keeps R (on_conn f)"
  by (simp add: keeps_def on_conn_def quiet)

lemma keeps_on_state:
  "(\<And>s. sessionId (f s) = sessionId s \<and> kafkaClients (f s) = kafkaClients s \<and> webSocketClients (f s) = webSocketClients s) \<Longrightarrow>
   keeps R (on_state f)"
  unfolding on_state_def by (rule keeps_on_conn) (simp add: quiet_def)

lemma keeps_on_store: "keeps R (on_store f)"
  by (simp add: keeps_def on_store_def stores split: prod.split)

lemma keeps_rpc: "keeps R Next_RPC_ID"
  by (simp add: keeps_def Next_RPC_ID_def rpc)

lemma keeps_emit: "\<not> is_cleanup x \<Longrightarrow> keeps R (emit x)"
  by (simp add: keeps_def emit_def emits)

lemma keeps_count_error: "keeps R count_error"
  unfolding count_error_def by (rule keeps_on_conn) (simp add: quiet_def)

lemma keeps_End: "keeps R (EndConnection e)"
  by (simp add: keeps_def ends)

lemma keeps_ops:
  "keeps R (conn_op (conn_Send ws s))" "keeps R (conn_op (StopTelemetry p ws i))"
  "keeps R (conn_op (conn_StopWebSocketTelemetry p ws i))" "keeps R (conn_op (conn_StopKafkaTelemetry p ws i))"
  by (simp_all add: keeps_def sends stops stops_websocket stops_kafka)

lemmas keeps_rules = basic_rules keeps_on_store keeps_rpc keeps_count_error keeps_End keeps_ops

lemma keeps_params: "keeps R (u64_of e' ps k)" "keeps R (text_of e' ps k)" "keeps R (opt_text_of e' ps k)"
  by (simp_all add: u64_of_def text_of_def opt_text_of_def keeps_ret keeps_lift)

lemma keeps_gw_event: "keeps R (gw_event e' n t ts ps)" "keeps R (log_entry e' l)"
  by (simp_all add: gw_event_def log_entry_def keeps_perform_if keeps_emit keeps_andThen)

lemma keeps_LookForUpgrade: "keeps R (LookForUpgrade e' u x)"
  unfolding LookForUpgrade_def push_configuration_def set_PendingUUID_def Let_def
  by (intro keeps_rules keeps_on_state keeps_emit; simp)

lemmas keeps_all = keeps_rules keeps_params keeps_gw_event keeps_LookForUpgrade

lemma keeps_SetLastStats: "keeps R (SetLastStats e' text)"
  unfolding SetLastStats_def read_stats_def
  by (intro keeps_all keeps_on_state keeps_on_conn quietI; simp)

lemma keeps_Process_state: "keeps R (Process_state e' ps)"
  unfolding Process_state_def require_connected_def
  by (intro keeps_all keeps_SetLastStats keeps_on_state keeps_emit; simp)

lemma keeps_Process_healthcheck: "keeps R (Process_healthcheck e' ps)"
  unfolding Process_healthcheck_def require_connected_def Let_def SetLastHealthCheck_def [abs_def]
  by (intro keeps_all keeps_on_state keeps_on_conn keeps_emit quietI; simp)

lemma keeps_logs:
  "keeps R (Process_log e' ps)" "keeps R (Process_crashlog e' ps)" "keeps R (Process_rebootLog e' ps)"
  "keeps R (Process_recovery e' ps)"
  unfolding Process_log_def Process_crashlog_def Process_rebootLog_def Process_recovery_def require_connected_def
    loglines_def post_reboot_def Let_def
  by (intro keeps_all keeps_emit; simp)+

lemma keeps_small:
  "keeps R (Process_ping e' ps)" "keeps R (Process_cfgpending e' ps)" "keeps R (Process_deviceupdate e' ps sn)"
  "keeps R (Process_venuebroadcast e' ps)" "keeps R (Process_wifiscan e' ps)" "keeps R (Process_alarm e' ps)"
  "keeps R (Process_event e' ps)"
  unfolding Process_ping_def Process_cfgpending_def Process_deviceupdate_def Process_venuebroadcast_def
    Process_wifiscan_def Process_alarm_def Process_event_def forward_def require_connected_def
  by (intro keeps_all keeps_emit; simp)+

lemma keeps_Process_telemetry: "keeps R (Process_telemetry e' ps)"
  unfolding Process_telemetry_def telemetry_to_websocket_def telemetry_to_kafka_def require_connected_def Let_def
  by (intro keeps_all keeps_on_conn keeps_emit quietI; simp)

lemma keeps_Process_connect: "keeps R (Process_connect e ps sn)"
  unfolding Process_connect_def take_identity_def read_restrictions_def provision_def not_provisioned_def
    update_known_device_def announce_firmware_def finish_connect_def check_certificate_def
  by (intro keeps_all keeps_on_state keeps_on_conn keeps_emit quietI; simp split: option.split)

lemmas keeps_handlers = keeps_Process_connect keeps_Process_state keeps_Process_healthcheck keeps_logs keeps_small
  keeps_Process_telemetry

lemma keeps_dispatch: "keeps R (dispatch e ev ps sn)"
  by (cases ev) (simp_all add: dispatch_def keeps_handlers keeps_count_error)

lemma keeps_blacklisted: "keeps R (blacklisted_event e' why)"
  unfolding blacklisted_event_def by (intro keeps_all; simp)

lemma keeps_expand: "keeps R (expand_params e' ps)"
proof -
  let ?m = "andThen (text_of e' ps ''compress_64'') (\<lambda>data.
              andThen (if j_has ps ''compress_sz'' then u64_of e' ps ''compress_sz'' else ret 0) (\<lambda>sz.
              andThen (lift_exn (ExtractBase64CompressedData (e_b64 e') (e_uncompress e') data sz)) (\<lambda>r.
              case r of
                Some text \<Rightarrow> andThen (lift_exn (parse_object (e_poco e') text)) (\<lambda>obj. ret (Some obj))
              | None \<Rightarrow> andThen count_error (\<lambda>_. ret None))))"
  have "keeps R ?m" by (intro keeps_all)
  then have "R w (snd (expand_params e' ps w))" for w
    using refl by (cases "?m w"; cases "fst (?m w)") (auto simp: keeps_def expand_params_def split: if_splits dest: spec [of _ w])
  then show ?thesis by (simp add: keeps_def)
qed

lemma keeps_ProcessJSONRPCEvent: "keeps R (ProcessJSONRPCEvent e doc)"
  unfolding ProcessJSONRPCEvent_def Let_def
  by (intro keeps_all keeps_blacklisted keeps_expand keeps_dispatch)

lemma keeps_ProcessWSFinalPayload: "keeps R (ProcessWSFinalPayload e)"
  unfolding ProcessWSFinalPayload_def ProcessJSONRPCResult_def ProcessIncomingRadiusData_def
  by (intro keeps_all keeps_ProcessJSONRPCEvent keeps_on_conn keeps_emit quietI; simp)

lemma keeps_ProcessIncomingFrame: "keeps R (ProcessIncomingFrame e incoming)"
proof -
  have "keeps R (handle_frame e incoming)"
    unfolding handle_frame_def final_frame_def take_frame_def answer_ping_def Let_def
    by (intro keeps_all keeps_ProcessWSFinalPayload keeps_on_state keeps_on_conn keeps_emit quietI; simp)
  then have "keeps R (recover (handle_frame e incoming) (ret (Finished True)))" by (intro keeps_all)
  moreover have "keeps R (case r of Returned \<Rightarrow> ret () | Finished kill \<Rightarrow>
      with_conn (\<lambda>c. if \<not> kill \<and> Errors c < 10 then ret () else EndConnection e))" for r
    by (cases r) (auto intro!: keeps_all)
  ultimately show ?thesis unfolding ProcessIncomingFrame_def by (rule keeps_andThen)
qed

lemma keeps_ValidatedDevice: "keeps R (ValidatedDevice e socket)"
  unfolding ValidatedDevice_def validate_def Let_def
  by (intro keeps_all keeps_blacklisted keeps_on_state keeps_on_conn quietI; simp)

lemma keeps_OnSocketReadable: "keeps R (OnSocketReadable e socket incoming)"
  unfolding OnSocketReadable_def
  by (intro keeps_all keeps_ValidatedDevice keeps_ProcessIncomingFrame keeps_on_conn quietI; simp)

lemma keeps_destroy: "keeps R (destroy e)"
  unfolding destroy_def by (intro keeps_all keeps_emit) simp

end

section \<open>The history of a connection\<close>

text \<open>
  A connection keeps its identity, stays dead, and appends to the effects; a cleanup entry is among the
  new ones exactly when the connection died, at least when the socket could be closed (\<open>closes\<close>).
\<close>

definition history :: "bool \<Rightarrow> world \<Rightarrow> world \<Rightarrow> bool" where
  "history closes w w' \<longleftrightarrow>
     sessionId (State (w_conn w')) = sessionId (State (w_conn w)) \<and> c_uuid (w_conn w') = c_uuid (w_conn w) \<and>
     (Dead (w_conn w) \<longrightarrow> Dead (w_conn w')) \<and>
     (\<exists>es. w_effects w' = w_effects w @ es \<and>
        (filter is_cleanup es = [] \<and> (closes \<longrightarrow> Dead (w_conn w') = Dead (w_conn w)) \<or>
         \<not> Dead (w_conn w) \<and> Dead (w_conn w') \<and>
         (\<exists>n. filter is_cleanup es = [Eff_Cleanup (sessionId (State (w_conn w))) n])))"

lemma history_quietly:
  assumes "sessionId (State (w_conn w')) = sessionId (State (w_conn w))" and "c_uuid (w_conn w') = c_uuid (w_conn w)"
    and "Dead (w_conn w') = Dead (w_conn w)" and "w_effects w' = w_effects w @ es" and "filter is_cleanup es = []"
  shows "history closes w w'"
  using assms by (auto simp: history_def)

lemma history_trans: "history b w w' \<Longrightarrow> history b w' w'' \<Longrightarrow> history b w w''"
  unfolding history_def by (elim conjE exE disjE) (auto simp del: not_Cons_self2)

lemma conn_Send_history:
  "conn_Send ws s c = (r, c', es) \<Longrightarrow>
   Dead c' = Dead c \<and> sessionId (State c') = sessionId (State c) \<and> c_uuid c' = c_uuid c \<and> filter is_cleanup es = []"
  by (auto simp: conn_Send_def split: send_outcome.splits)

lemma stop_history:
  assumes "stop_if_unused p ws i c = (r, c', es)"
  shows "Dead c' = Dead c \<and> sessionId (State c') = sessionId (State c) \<and> c_uuid c' = c_uuid c \<and> filter is_cleanup es = []"
proof -
  obtain r1 c1 es1 where s: "StopTelemetry p ws i ((UpdateCounts c)\<lparr> TelemetryReporting := False \<rparr>) = (r1, c1, es1)"
    using prod_cases3 by blast
  then have "Dead c1 = Dead c \<and> sessionId (State c1) = sessionId (State c) \<and> c_uuid c1 = c_uuid c \<and> filter is_cleanup es1 = []"
    unfolding StopTelemetry_def by (auto dest!: conn_Send_history simp: UpdateCounts_def)
  with s assms show ?thesis by (auto simp: stop_if_unused_def Let_def split: if_splits) (simp_all add: UpdateCounts_def)
qed

lemma update_column_answers [simp]: "update_column s f st \<noteq> (Inl x, st')"
  by (simp add: update_column_def split: option.split)

lemma history_conn_op:
  assumes "\<And>r c' es. f (w_conn w) = (r, c', es) \<Longrightarrow>
     Dead c' = Dead (w_conn w) \<and> sessionId (State c') = sessionId (State (w_conn w)) \<and> c_uuid c' = c_uuid (w_conn w) \<and>
     filter is_cleanup es = []"
  shows "history b w (snd (conn_op f w))"
  using assms by (cases "f (w_conn w)") (auto simp: conn_op_def intro: history_quietly)

lemma history_EndConnection: "history (e_close e = Inr ()) w (snd (EndConnection e w))"
proof (cases "Dead (w_conn w)")
  case True
  then show ?thesis by (simp add: EndConnection_def gw_act) (simp add: history_def)
next
  case False
  then show ?thesis
    by (cases "e_close e")
      (auto simp: EndConnection_def DeviceDisconnectionCleanup_def gw_act history_def SetDeviceLastRecordedContact_def
        split: prod.split sum.split)
qed

interpretation hist: connection_order "history (e_close e = Inr ())" e for e
proof
  fix w w' w'' :: world and f and st and n and x and ws and s and p and i
  show "history (e_close e = Inr ()) w w" by (simp add: history_def)
  show "history (e_close e = Inr ()) w w' \<Longrightarrow> history (e_close e = Inr ()) w' w'' \<Longrightarrow> history (e_close e = Inr ()) w w''"
    by (rule history_trans)
  show "quiet f \<Longrightarrow> history (e_close e = Inr ()) w (w\<lparr> w_conn := f (w_conn w) \<rparr>)"
    by (rule history_quietly [where es = "[]"]) (simp_all add: quiet_def)
  show "history (e_close e = Inr ()) w (w\<lparr> w_store := st \<rparr>)" "history (e_close e = Inr ()) w (w\<lparr> w_rpc := n \<rparr>)"
    by (rule history_quietly [where es = "[]"]; simp)+
  show "\<not> is_cleanup x \<Longrightarrow> history (e_close e = Inr ()) w (w\<lparr> w_effects := w_effects w @ [x] \<rparr>)"
    by (rule history_quietly [where es = "[x]"]) simp_all
  show "history (e_close e = Inr ()) w (snd (conn_op (conn_Send ws s) w))"
    by (rule history_conn_op) (rule conn_Send_history)
  show "history (e_close e = Inr ()) w (snd (conn_op (StopTelemetry p ws i) w))"
    by (rule history_conn_op) (auto simp: StopTelemetry_def dest!: conn_Send_history)
  show "history (e_close e = Inr ()) w (snd (conn_op (conn_StopWebSocketTelemetry p ws i) w))"
    "history (e_close e = Inr ()) w (snd (conn_op (conn_StopKafkaTelemetry p ws i) w))"
    by (rule history_conn_op, auto simp: conn_StopWebSocketTelemetry_def conn_StopKafkaTelemetry_def dest!: stop_history
        split: if_splits)+
  show "history (e_close e = Inr ()) w (snd (EndConnection e w))" by (rule history_EndConnection)
qed

section \<open>Telemetry\<close>

definition telemetry_kept :: "world \<Rightarrow> world \<Rightarrow> bool" where
  "telemetry_kept w w' \<longleftrightarrow> (telemetry_inv (w_conn w) \<longrightarrow> telemetry_inv (w_conn w'))"

lemma telemetry_kept_conn_op:
  assumes "\<And>r c' es. telemetry_inv (w_conn w) \<Longrightarrow> f (w_conn w) = (r, c', es) \<Longrightarrow> telemetry_inv c'"
  shows "telemetry_kept w (snd (conn_op f w))"
  using assms by (cases "f (w_conn w)") (auto simp: conn_op_def telemetry_kept_def)

lemma telemetry_inv_Send: "telemetry_inv c \<Longrightarrow> conn_Send ws s c = (r, c', es) \<Longrightarrow> telemetry_inv c'"
  using conn_Send_frame [of ws s c r c' es] by (simp add: telemetry_inv_def)

lemma telemetry_inv_quiet: "quiet f \<Longrightarrow> telemetry_inv c \<Longrightarrow> telemetry_inv (f c)"
  by (simp add: quiet_def telemetry_inv_def)

interpretation tele: connection_order telemetry_kept e for e
proof
  fix w w' w'' :: world and f and st and n and x and ws and s and p and i
  show "telemetry_kept w w" by (simp add: telemetry_kept_def)
  show "telemetry_kept w w' \<Longrightarrow> telemetry_kept w' w'' \<Longrightarrow> telemetry_kept w w''" by (simp add: telemetry_kept_def)
  show "quiet f \<Longrightarrow> telemetry_kept w (w\<lparr> w_conn := f (w_conn w) \<rparr>)"
    by (simp add: telemetry_kept_def telemetry_inv_quiet)
  show "telemetry_kept w (w\<lparr> w_store := st \<rparr>)" "telemetry_kept w (w\<lparr> w_rpc := n \<rparr>)"
    "telemetry_kept w (w\<lparr> w_effects := w_effects w @ [x] \<rparr>)"
    by (simp_all add: telemetry_kept_def)
  show "telemetry_kept w (snd (conn_op (conn_Send ws s) w))"
    by (rule telemetry_kept_conn_op) (rule telemetry_inv_Send)
  show "telemetry_kept w (snd (conn_op (StopTelemetry p ws i) w))"
    by (rule telemetry_kept_conn_op) (auto simp: StopTelemetry_def telemetry_inv_def elim!: telemetry_inv_Send
        dest!: conn_Send_frame)
  show "telemetry_kept w (snd (conn_op (conn_StopWebSocketTelemetry p ws i) w))"
    "telemetry_kept w (snd (conn_op (conn_StopKafkaTelemetry p ws i) w))"
    by (rule telemetry_kept_conn_op, erule telemetry_inv_stop, assumption)+
  show "telemetry_kept w (snd (EndConnection e w))"
    by (cases "e_close e")
      (auto simp: EndConnection_def DeviceDisconnectionCleanup_def gw_act telemetry_kept_def telemetry_inv_def
        SetDeviceLastRecordedContact_def split: prod.split sum.split)
qed

section \<open>The life of a connection\<close>

text \<open>
  What can happen to a connection: a socket event, a telemetry request of a client (fewer than \<^verbatim>\<open>2^63\<close> at a
  time), or a change that another connection makes to the tables. \<open>closes\<close> restricts the events to those
  in which the socket can be closed.
\<close>

datatype socket_event = Readable "cpp_exn + tls" "cpp_exn + frame" | Shutdown | Socket_Error | Destroyed

fun socket_step :: "env \<Rightarrow> socket_event \<Rightarrow> unit act" where
  "socket_step e (Readable socket incoming) = OnSocketReadable e socket incoming"
| "socket_step e Shutdown = OnSocketShutdown e"
| "socket_step e Socket_Error = OnSocketError e"
| "socket_step e Destroyed = destroy e"

inductive conn_reach :: "bool \<Rightarrow> u64 \<Rightarrow> u64 \<Rightarrow> world \<Rightarrow> bool" for closes sid uuid where
  fresh: "conn_reach closes sid uuid
            \<lparr> w_conn = conn_Start now (fresh_connection sid uuid), w_store = st, w_effects = [], w_rpc = n \<rparr>"
| socket: "conn_reach closes sid uuid w \<Longrightarrow> closes \<longrightarrow> e_close e = Inr () \<Longrightarrow>
           conn_reach closes sid uuid (snd (socket_step e x w))"
| request: "conn_reach closes sid uuid w \<Longrightarrow> unat (TelemetryWebSocketRefCount (w_conn w)) < 2 ^ 63 \<Longrightarrow>
            unat (TelemetryKafkaRefCount (w_conn w)) < 2 ^ 63 \<Longrightarrow>
            conn_reach closes sid uuid (snd (conn_op (telemetry_step p ws rpc op) w))"
| elsewhere: "conn_reach closes sid uuid w \<Longrightarrow> conn_reach closes sid uuid (w\<lparr> w_store := st \<rparr>)"

inductive_cases conn_reachE: "conn_reach closes sid uuid w"

lemma history_socket_step: "history (e_close e = Inr ()) w (snd (socket_step e x w))"
  by (cases x) (simp_all add: OnSocketShutdown_def OnSocketError_def keeps_step hist.keeps_OnSocketReadable
      hist.keeps_destroy hist.ends)

lemma telemetry_socket_step: "telemetry_kept w (snd (socket_step e x w))"
  by (cases x) (simp_all add: OnSocketShutdown_def OnSocketError_def keeps_step tele.keeps_OnSocketReadable
      tele.keeps_destroy tele.ends)

lemma history_request: "history b w (snd (conn_op (telemetry_step p ws rpc op) w))"
proof (rule history_conn_op)
  fix r c' es
  assume s: "telemetry_step p ws rpc op (w_conn w) = (r, c', es)"
  show "Dead c' = Dead (w_conn w) \<and> sessionId (State c') = sessionId (State (w_conn w)) \<and> c_uuid c' = c_uuid (w_conn w) \<and>
        filter is_cleanup es = []"
    using s by (cases op)
      (auto simp: conn_SetWebSocketTelemetryReporting_def conn_SetKafkaTelemetryReporting_def conn_StopWebSocketTelemetry_def
        conn_StopKafkaTelemetry_def StartTelemetry_def UpdateCounts_def Let_def dest!: conn_Send_history stop_history
        split: if_splits)
qed

text \<open>
  C1: whatever a device sends and whatever happens to its socket, in any order and any number of times, the
  connection keeps its session identifier, and it has been handed to the cleanup thread exactly once if
  it is dead and not at all if it is not, provided that closing the socket raises nothing.
\<close>

theorem connection_ends_once:
  assumes "conn_reach True sid uuid w"
  shows "sessionId (State (w_conn w)) = sid \<and>
         (if Dead (w_conn w) then \<exists>n. filter is_cleanup (w_effects w) = [Eff_Cleanup sid n]
          else filter is_cleanup (w_effects w) = [])"
  using assms
proof induction
  case (fresh now st n)
  show ?case by (simp add: conn_Start_def fresh_connection_def fresh_state_def)
next
  case (socket w e x)
  then show ?case using history_socket_step [of e w x] by (auto simp: history_def split: if_splits)
next
  case (request w p ws rpc op)
  then show ?case using history_request [of True w p ws rpc op] by (auto simp: history_def split: if_splits)
next
  case (elsewhere w st)
  then show ?case by simp
qed

theorem connection_ends_once_witness:
  "\<exists>w n. conn_reach True 5 6 w \<and> Dead (w_conn w) \<and> filter is_cleanup (w_effects w) = [Eff_Cleanup 5 n]"
proof -
  let ?w = "snd (socket_step plain_env Shutdown
    \<lparr> w_conn = conn_Start 0 (fresh_connection 5 6), w_store = plain_storage, w_effects = [], w_rpc = 0 \<rparr>)"
  have r: "conn_reach True 5 6 ?w"
    by (rule conn_reach.socket [OF conn_reach.fresh]) (simp add: plain_env_def)
  have "Dead (w_conn ?w)"
    by (simp add: OnSocketShutdown_def EndConnection_def gw_act conn_Start_def fresh_connection_def fresh_state_def plain_env_def)
  with connection_ends_once [OF r] r show ?thesis by auto
qed

text \<open>
  C37: telemetry is on exactly while some web-socket or Kafka client uses it, and the published client counts
  are the reference counts, whatever requests the clients make and whatever the device sends meanwhile.
\<close>

theorem telemetry_reporting_iff_used:
  assumes "conn_reach closes sid uuid w"
  shows "(TelemetryReporting (w_conn w) \<longleftrightarrow>
            TelemetryWebSocketRefCount (w_conn w) \<noteq> 0 \<or> TelemetryKafkaRefCount (w_conn w) \<noteq> 0) \<and>
         kafkaClients (State (w_conn w)) = TelemetryKafkaRefCount (w_conn w) \<and>
         webSocketClients (State (w_conn w)) = TelemetryWebSocketRefCount (w_conn w)"
proof -
  from assms have "telemetry_inv (w_conn w)"
  proof induction
    case (fresh now st n)
    show ?case by (simp add: telemetry_inv_def conn_Start_def fresh_connection_def fresh_state_def)
  next
    case (socket w e x)
    then show ?case using telemetry_socket_step [of w e x] by (simp add: telemetry_kept_def)
  next
    case (request w p ws rpc op)
    obtain r c' es where s: "telemetry_step p ws rpc op (w_conn w) = (r, c', es)" using prod_cases3 by blast
    then have "telemetry_inv c'" using request.IH request.hyps by (cases op) (auto dest: telemetry_inv_set telemetry_inv_stop)
    with s show ?case by (simp add: conn_op_def)
  qed simp
  then show ?thesis by (simp add: telemetry_inv_def)
qed

theorem telemetry_reporting_iff_used_witness:
  "\<exists>w. conn_reach True 5 6 w \<and> TelemetryWebSocketRefCount (w_conn w) = 1 \<and> TelemetryReporting (w_conn w)"
proof -
  let ?w = "snd (conn_op (telemetry_step (poco_of []) (\<lambda>s. Send_Failed) 7 (SetWS 0 60 60 []))
    \<lparr> w_conn = conn_Start 0 (fresh_connection 5 6), w_store = plain_storage, w_effects = [], w_rpc = 0 \<rparr>)"
  have r: "conn_reach True 5 6 ?w"
    by (rule conn_reach.request [OF conn_reach.fresh]) (simp_all add: conn_Start_def fresh_connection_def)
  have "TelemetryWebSocketRefCount (w_conn ?w) = 1"
    by (simp add: conn_op_def conn_SetWebSocketTelemetryReporting_def StartTelemetry_def conn_Send_def UpdateCounts_def
        conn_Start_def fresh_connection_def Let_def)
  with telemetry_reporting_iff_used [OF r] r show ?thesis by auto
qed

end
