(* ===== verification/GW_Admission.thy ===== *)
theory GW_Admission
  imports GW_History
begin

text \<open>
  Which devices get connected and what a connected device can do: the matching of the certificate with
  the serial number of the first message, the events that need a connected device, the upkeep of the
  device record, and what ends a connection after a frame.
\<close>

section \<open>Identity\<close>

text \<open>Who the connection claims to be and what its certificate is worth, unchanged.\<close>

definition same_identity :: "world \<Rightarrow> world \<Rightarrow> bool" where
  "same_identity w w' \<longleftrightarrow>
     CN (w_conn w') = CN (w_conn w) \<and> c_SerialNumber (w_conn w') = c_SerialNumber (w_conn w) \<and>
     VerifiedCertificate (State (w_conn w')) = VerifiedCertificate (State (w_conn w)) \<and>
     s_Connected (State (w_conn w')) = s_Connected (State (w_conn w))"

interpretation ident: state_order same_identity
  by unfold_locales (simp_all add: same_identity_def)

lemma ident_on_conn:
  assumes "\<And>c. CN (f c) = CN c" and "\<And>c. c_SerialNumber (f c) = c_SerialNumber c"
    and "\<And>c. VerifiedCertificate (State (f c)) = VerifiedCertificate (State c)"
    and "\<And>c. s_Connected (State (f c)) = s_Connected (State c)"
  shows "keeps same_identity (on_conn f)"
  using assms by (simp add: keeps_def on_conn_def same_identity_def)

lemma ident_on_state:
  "(\<And>s. VerifiedCertificate (f s) = VerifiedCertificate s \<and> s_Connected (f s) = s_Connected s) \<Longrightarrow> keeps same_identity (on_state f)"
  unfolding on_state_def by (rule ident_on_conn) simp_all

lemma ident_others:
  "keeps same_identity (emit x)" "keeps same_identity (on_store g)" "keeps same_identity Next_RPC_ID"
  "keeps same_identity (conn_op (conn_Send ws s))"
  by (auto simp: keeps_def emit_def on_store_def Next_RPC_ID_def conn_op_def conn_Send_def same_identity_def
      split: prod.split send_outcome.split)

lemmas ident_rules = ident.basic_rules ident_others

lemma ident_EndConnection: "keeps same_identity (EndConnection e)"
  unfolding EndConnection_def DeviceDisconnectionCleanup_def by (intro ident_rules ident_on_conn; simp)

lemma ident_LookForUpgrade: "keeps same_identity (LookForUpgrade e u x)"
  unfolding LookForUpgrade_def push_configuration_def set_PendingUUID_def Let_def
  by (intro ident_rules ident_on_state; simp)

lemma ident_read_restrictions: "keeps same_identity (read_restrictions e obj)"
  unfolding read_restrictions_def by (intro ident_rules ident_on_conn; simp)

lemma ident_provision: "keeps same_identity (provision e caps fw reason pw r)"
  unfolding provision_def not_provisioned_def update_known_device_def announce_firmware_def gw_event_def
  by (intro ident_rules ident_EndConnection)

lemma take_identity_result:
  assumes "take_identity e ps serial u fw w = (Inr caps, w')"
  shows "c_SerialNumber (w_conn w') = serial \<and> CN (w_conn w') = CN (w_conn w) \<and>
         VerifiedCertificate (State (w_conn w')) = VerifiedCertificate (State (w_conn w)) \<and>
         s_Connected (State (w_conn w')) = s_Connected (State (w_conn w))"
  using assms by (auto simp: take_identity_def gw_act split: sum.splits)

lemma EndConnection_Dead: "EndConnection e w = (r, w') \<Longrightarrow> Dead (w_conn w')"
proof -
  have "Dead (w_conn (snd (EndConnection e w)))"
    using history_EndConnection [of e w]
    by (cases "Dead (w_conn w)"; cases "e_close e")
      (auto simp: EndConnection_def DeviceDisconnectionCleanup_def gw_act SetDeviceLastRecordedContact_def
        split: prod.split sum.split)
  then show "EndConnection e w = (r, w') \<Longrightarrow> Dead (w_conn w')" by simp
qed

lemma check_certificate_result:
  assumes "check_certificate e w = (Inr stays, w')" and "VerifiedCertificate (State (w_conn w)) = VALID_CERTIFICATE"
    and "\<not> e_allow_mismatch e" and "\<not> Dead (w_conn w')"
  shows "SerialNumberMatch (CN (w_conn w)) (c_SerialNumber (w_conn w)) (e_mismatch_depth e) = Inr True \<or>
         IsSimSerialNumber (CN (w_conn w)) (e_server e)"
  using assms
  by (auto simp: check_certificate_def with_conn_def lift_exn_def ret_def on_state_def on_conn_def andThen_def
      split: sum.splits if_splits prod.splits dest!: EndConnection_Dead)

lemma lift_exn_Inr: "lift_exn r w = (Inr x, w') \<longleftrightarrow> r = Inr x \<and> w' = w"
  by (auto simp: lift_exn_def)

lemma params_unchanged:
  "u64_of e ps k w = (Inr x, w') \<Longrightarrow> w' = w" "text_of e ps k w = (Inr y, w') \<Longrightarrow> w' = w"
  "opt_text_of e ps k w = (Inr y, w') \<Longrightarrow> w' = w"
  by (auto simp: u64_of_def text_of_def opt_text_of_def lift_exn_def ret_def split: if_splits)

lemma finish_connect_result:
  assumes "finish_connect e ps u w = (Inr (), w')" and "VerifiedCertificate (State (w_conn w)) = VALID_CERTIFICATE"
    and "\<not> e_allow_mismatch e" and "\<not> Dead (w_conn w')"
  shows "SerialNumberMatch (CN (w_conn w)) (c_SerialNumber (w_conn w)) (e_mismatch_depth e) = Inr True \<or>
         IsSimSerialNumber (CN (w_conn w)) (e_server e)"
proof -
  have k: "keeps same_identity (with_conn (\<lambda>c. perform_if (\<not> Simulated c)
       (andThen (LookForUpgrade e u 0) (\<lambda>(changed, up). perform_if changed (on_state (\<lambda>s. s\<lparr> s_UUID := up \<rparr>))))))"
    by (intro ident_rules ident_LookForUpgrade ident_on_state; simp)
  let ?f = "\<lambda>c. c\<lparr> State := (State c)\<lparr> s_Compatible := c_Compatible c, s_Connected := True,
                                     connectionCompletionTime := e_completion e \<rparr> \<rparr>"
  let ?rest = "\<lambda>stays. if \<not> stays then ret () else with_conn (\<lambda>c.
       andThen (emit (Eff_Notify ''DeviceConnected'' (c_SerialNumber c))) (\<lambda>_.
       perform_if (e_kafka e) (emit (Eff_Kafka ''connection'' (c_SerialNumber c) (connected_message e c ps)))))"
  from assms(1) obtain x w1 y w2 stays w3 where s:
    "with_conn (\<lambda>c. perform_if (\<not> Simulated c) (andThen (LookForUpgrade e u 0)
       (\<lambda>(changed, up). perform_if changed (on_state (\<lambda>s. s\<lparr> s_UUID := up \<rparr>))))) w = (Inr x, w1)"
    "on_conn ?f w1 = (Inr y, w2)" "check_certificate e w2 = (Inr stays, w3)" "?rest stays w3 = (Inr (), w')"
    unfolding finish_connect_def andThen_Inr [where f = "\<lambda>_. andThen (on_conn _) _"]
      andThen_Inr [where m = "on_conn _"] andThen_Inr [where m = "check_certificate _"] by blast
  have "same_identity w w1" using keepsD [OF k s(1)] .
  then have w2: "CN (w_conn w2) = CN (w_conn w)" "c_SerialNumber (w_conn w2) = c_SerialNumber (w_conn w)"
    "VerifiedCertificate (State (w_conn w2)) = VerifiedCertificate (State (w_conn w))"
    using s(2) by (auto simp: same_identity_def on_conn_def)
  have "w_conn w' = w_conn w3" using s(4) by (auto simp: gw_act split: if_splits)
  with check_certificate_result [OF s(3)] w2 assms(2-4) show ?thesis by simp
qed

text \<open>
  C5: where serial number mismatches are not allowed, a device with a valid certificate that gets through
  its first message connected and alive has a certificate for the serial number the message names, up to
  the configured number of low bits, or the certificate of the configured simulator.
\<close>

theorem connect_respects_certificate:
  assumes "Process_connect e params serial w = (Inr (), w')"
    and "VerifiedCertificate (State (w_conn w)) = VALID_CERTIFICATE" and "\<not> s_Connected (State (w_conn w))"
    and "\<not> e_allow_mismatch e" and "s_Connected (State (w_conn w'))" and "\<not> Dead (w_conn w')"
  shows "SerialNumberMatch (CN (w_conn w)) serial (e_mismatch_depth e) = Inr True \<or>
         IsSimSerialNumber (CN (w_conn w)) (e_server e)"
proof (cases "j_has params ''uuid'' \<and> j_has params ''firmware'' \<and> j_has params ''capabilities''")
  case False
  with assms(1,3,5) show ?thesis by (auto simp: Process_connect_def gw_act)
next
  case True
  have k: "keeps same_identity (if j_has params ''reason'' then andThen (text_of e params ''reason'') (\<lambda>r. ret (Some r)) else ret None)"
    unfolding text_of_def by (intro ident_rules)
  have k2: "keeps same_identity (on_state (\<lambda>s. case reason of Some r \<Rightarrow> s\<lparr> s_connectReason := r \<rparr> | None \<Rightarrow> s))" for reason
    by (rule ident_on_state) (simp split: option.split)
  have k3: "keeps same_identity (on_conn (\<lambda>c. c\<lparr> State := (State c)\<lparr> s_locale := g c \<rparr> \<rparr>))" for g
    by (rule ident_on_conn) simp_all
  from assms(1) True obtain uuid wa fw wb pw wc caps w1 reason w2 x w3 obj wd y w4 z w5 goes_on w6 where e:
    "u64_of e params ''uuid'' w = (Inr uuid, wa)" "text_of e params ''firmware'' wa = (Inr fw, wb)"
    "opt_text_of e params ''password'' wb = (Inr pw, wc)"
    "take_identity e params serial uuid fw wc = (Inr caps, w1)"
    "(if j_has params ''reason'' then andThen (text_of e params ''reason'') (\<lambda>r. ret (Some r)) else ret None) w1 = (Inr reason, w2)"
    "on_state (\<lambda>s. case reason of Some r \<Rightarrow> s\<lparr> s_connectReason := r \<rparr> | None \<Rightarrow> s) w2 = (Inr x, w3)"
    "lift_exn (deref (object_at params ''capabilities'')) w3 = (Inr obj, wd)"
    "read_restrictions e obj wd = (Inr y, w4)"
    "on_conn (\<lambda>c. c\<lparr> State := (State c)\<lparr> s_locale :=
       e_country e (if take 7 (PeerAddress c) = ''::ffff:'' then drop 7 (PeerAddress c) else PeerAddress c) \<rparr> \<rparr>) w4 = (Inr z, w5)"
    "provision e caps fw reason pw (j_has obj ''restrictions'') w5 = (Inr goes_on, w6)"
    "(if goes_on then finish_connect e params uuid else ret ()) w6 = (Inr (), w')"
    unfolding Process_connect_def if_P [OF True] andThen_Inr by blast
  have steps: "take_identity e params serial uuid fw w = (Inr caps, w1)" "same_identity w1 w2" "same_identity w2 w3"
    "same_identity w3 w4" "same_identity w4 w5"
    using e(1-4) e(7) keepsD [OF k e(5)] keepsD [OF k2 e(6)] keepsD [OF ident_read_restrictions e(8)] keepsD [OF k3 e(9)]
    by (auto simp: lift_exn_Inr dest!: params_unchanged)
  have "same_identity w1 w6"
    using steps(2-5) keepsD [OF ident_provision e(10)] by (simp add: same_identity_def)
  with take_identity_result [OF steps(1)] e(11) assms(2-6) finish_connect_result [of e params uuid w6 w'] show ?thesis
    by (auto simp: same_identity_def ret_def split: if_splits)
qed

text \<open>A first message to evaluate the handler on: a known device, a table that takes no changes.\<close>

definition strict_env :: env where
  "strict_env = plain_env\<lparr> e_allow_mismatch := False \<rparr>"

definition connect_params :: jobject where
  "connect_params = [(''capabilities'', JObj []), (''firmware'', JStr ''fw''), (''uuid'', JInt 0)]"

definition validated_world :: world where
  "validated_world = plain_world\<lparr> w_conn := plain_conn\<lparr> CN := ''24f5a207a131'',
     State := (State plain_conn)\<lparr> VerifiedCertificate := VALID_CERTIFICATE \<rparr> \<rparr>,
     w_store := plain_storage\<lparr> writable := False \<rparr> \<rparr>"

lemma connect_run:
  "\<exists>w'. Process_connect strict_env connect_params ''24f5a207a131'' validated_world = (Inr (), w') \<and>
        s_Connected (State (w_conn w')) \<and> \<not> Dead (w_conn w')"
proof -
  have g: "GetDevice plain_codec ''24f5a207a131'' (plain_storage\<lparr> writable := False \<rparr>) = Some (plain_device ''24f5a207a131'')"
    using plain_GetDevice by (simp add: GetDevice_def plain_storage_def)
  have m: "SerialNumberMatch ''24f5a207a131'' ''24f5a207a131'' 2 = Inr True"
    using plain_number by (simp add: SerialNumberMatch_def)
  show ?thesis
    using g m plain_number
    by (simp add: Process_connect_def take_identity_def read_restrictions_def provision_def update_known_device_def
        announce_firmware_def finish_connect_def check_certificate_def gw_act strict_env_def plain_env_def
        connect_params_def validated_world_def plain_world_def plain_conn_def j_has_def j_get_def object_at_def deref_def
        gw_event_def LookForUpgrade_def Let_def
        plain_poco_def poco_of_def om_find_def make_Capabilities_def read_member_def fresh_connection_def fresh_state_def
        UpdateDeviceCapabilities_def upsert_caps_def UpdateDevice_def exec_update_def split: prod.split sum.split)
qed

theorem connect_respects_certificate_witness:
  "\<exists>w'. Process_connect strict_env connect_params ''24f5a207a131'' validated_world = (Inr (), w') \<and>
        s_Connected (State (w_conn w')) \<and> \<not> Dead (w_conn w') \<and>
        (SerialNumberMatch (CN (w_conn validated_world)) ''24f5a207a131'' 2 = Inr True \<or>
         IsSimSerialNumber (CN (w_conn validated_world)) fresh_server)"
proof -
  obtain w' where w': "Process_connect strict_env connect_params ''24f5a207a131'' validated_world = (Inr (), w')"
    "s_Connected (State (w_conn w'))" "\<not> Dead (w_conn w')"
    using connect_run by blast
  from connect_respects_certificate [OF w'(1) _ _ _ w'(2,3)] have
    "SerialNumberMatch (CN (w_conn validated_world)) ''24f5a207a131'' (e_mismatch_depth strict_env) = Inr True \<or>
     IsSimSerialNumber (CN (w_conn validated_world)) (e_server strict_env)"
    by (simp add: validated_world_def strict_env_def plain_conn_def fresh_connection_def fresh_state_def)
  with w' show ?thesis by (simp add: strict_env_def plain_env_def)
qed

section \<open>The upkeep of the device record\<close>

lemma touch_keeps: "(\<And>d. S (f d) = S d) \<Longrightarrow> S (fst (touch b f x)) = S (fst x)"
  by (simp add: touch_def)

lemmas untouched = touch_keeps [where S = Firmware] touch_keeps [where S = LastFWUpdate] touch_keeps [where S = DevicePassword]
  touch_keeps [where S = lastRecordedContact] touch_keeps [where S = simulated] touch_keeps [where S = locale_ident]
  touch_keeps [where S = dCompatible] touch_keeps [where S = DeviceType] touch_keeps [where S = restrictedDevice]
  touch_keeps [where S = restrictionDetails] touch_keeps [where S = certificateExpiryDate]

lemma touched: "(\<And>d. b d \<Longrightarrow> P (f d)) \<Longrightarrow> (\<And>d. \<not> b d \<Longrightarrow> P d) \<Longrightarrow> P (fst (touch b f x))"
  by (simp add: touch_def)

text \<open>What a refresh leaves in the fields it looks at.\<close>

lemma refreshed:
  assumes n: "now \<noteq> 0" and d': "d' = fst (refresh_device now c firmware None password platform restricted d)"
  shows "firmware \<noteq> [] \<Longrightarrow> Firmware d' = firmware \<and> LastFWUpdate d' \<noteq> 0"
    and "DevicePassword d' = password \<longleftrightarrow> password \<noteq> [] \<or> DevicePassword d = []"
    and "lastRecordedContact d' \<noteq> 0" and "simulated d' \<longleftrightarrow> VerifiedCertificate (State c) = SIMULATED"
    and "locale_ident d' = s_locale (State c)" and "dCompatible d' = c_Compatible c" and "DeviceType d' = platform"
    and "restrictedDevice d' = restricted" and "\<not> Restrictions_differ (Restrictions c) (restrictionDetails d')"
    and "certificateExpiryDate d' = s_certificateExpiryDate (State c)"
proof -
  note r = d' refresh_device_def Let_def untouched
  show "firmware \<noteq> [] \<Longrightarrow> Firmware d' = firmware \<and> LastFWUpdate d' \<noteq> 0"
    using n by (simp add: r split del: if_split) (simp add: refresh_firmware_def touch_def)
  show "DevicePassword d' = password \<longleftrightarrow> password \<noteq> [] \<or> DevicePassword d = []"
    by (simp add: r split del: if_split) (auto simp: touch_def refresh_firmware_def)
  show "lastRecordedContact d' \<noteq> 0"
    using n by (simp add: r split del: if_split) (simp add: touch_def)
  show "simulated d' \<longleftrightarrow> VerifiedCertificate (State c) = SIMULATED"
    by (simp add: r split del: if_split) (auto simp: touch_def)
  show "locale_ident d' = s_locale (State c)"
    by (simp add: r split del: if_split) (rule touched [where P = "\<lambda>d. locale_ident d = s_locale (State c)"]; simp)
  show "dCompatible d' = c_Compatible c"
    by (simp add: r split del: if_split) (rule touched [where P = "\<lambda>d. dCompatible d = c_Compatible c"]; simp)
  show "DeviceType d' = platform"
    by (simp add: r split del: if_split) (rule touched [where P = "\<lambda>d. DeviceType d = platform"]; simp)
  show "restrictedDevice d' = restricted"
    by (simp add: r split del: if_split) (rule touched [where P = "\<lambda>d. restrictedDevice d = restricted"]; simp)
  show "\<not> Restrictions_differ (Restrictions c) (restrictionDetails d')"
    by (simp add: r split del: if_split) (rule touched [where P = "\<lambda>d. \<not> Restrictions_differ (Restrictions c) (restrictionDetails d)"];
      simp add: Restrictions_differ_def KeyInfo_differ_def)
  show "certificateExpiryDate d' = s_certificateExpiryDate (State c)"
    by (simp add: r split del: if_split) (rule touched [where P = "\<lambda>d. certificateExpiryDate d = s_certificateExpiryDate (State c)"]; simp)
qed

lemma refresh_nothing:
  assumes "firmware \<noteq> [] \<Longrightarrow> Firmware d = firmware \<and> LastFWUpdate d \<noteq> 0"
    and "lastRecordedContact d \<noteq> 0" and "simulated d \<longleftrightarrow> VerifiedCertificate (State c) = SIMULATED"
    and "locale_ident d = s_locale (State c)" and "dCompatible d = c_Compatible c" and "DeviceType d = platform"
    and "restrictedDevice d = restricted" and "\<not> Restrictions_differ (Restrictions c) (restrictionDetails d)"
    and "certificateExpiryDate d = s_certificateExpiryDate (State c)"
  shows "snd (refresh_device now c firmware None password platform restricted d) = (if DevicePassword d \<noteq> password then 1 else 0)"
proof -
  have "refresh_firmware now firmware (d, 0) = (d, 0)" using assms(1) by (simp add: refresh_firmware_def touch_def)
  with assms(2-) show ?thesis by (cases "DevicePassword d = password") (simp_all add: refresh_device_def touch_def Let_def)
qed

text \<open>
  Connecting again with the same firmware, platform, certificate and capabilities finds nothing to
  update in the record the last connection left, unless the device sends no password and one is stored:
  that one is set to the default, which differs from the empty one again, so that the record is written
  at every connection.
\<close>

theorem refresh_device_stable:
  assumes "now \<noteq> 0"
  shows "snd (refresh_device now' c firmware None password platform restricted
                (fst (refresh_device now c firmware None password platform restricted d))) =
         (if password = [] \<and> DevicePassword d \<noteq> [] then 1 else 0)"
  using refreshed [OF assms refl, where c = c and firmware = firmware and password = password and platform = platform
      and restricted = restricted and d = d]
  by (subst refresh_nothing) auto

theorem refresh_device_stable_witness:
  "snd (refresh_device 9 plain_conn ''fw'' None [] ''ap'' False
          (fst (refresh_device 7 plain_conn ''fw'' None [] ''ap'' False
            ((plain_device ''24f5a207a131'')\<lparr> DevicePassword := ''secret'' \<rparr>)))) = 1"
  by (subst refresh_device_stable) simp_all

section \<open>Frames\<close>

text \<open>
  C38: a connection that is alive after a frame has had it handled without an exception and without a
  closing frame, and when the frame was looked at to its end, the device has made fewer than ten errors.
\<close>

theorem frame_survivors:
  assumes "ProcessIncomingFrame e incoming w = (Inr (), w')" and "\<not> Dead (w_conn w')"
  shows "\<exists>r. handle_frame e incoming w = (Inr r, w') \<and> r \<noteq> Finished True \<and>
             (r = Finished False \<longrightarrow> Errors (w_conn w') < 10)"
proof -
  from assms(1) obtain r w1 where r: "recover (handle_frame e incoming) (ret (Finished True)) w = (Inr r, w1)"
    and rest: "(case r of Returned \<Rightarrow> ret () | Finished kill \<Rightarrow>
      with_conn (\<lambda>c. if \<not> kill \<and> Errors c < 10 then ret () else EndConnection e)) w1 = (Inr (), w')"
    unfolding ProcessIncomingFrame_def andThen_Inr by blast
  have alive: "r \<noteq> Finished True \<and> w' = w1 \<and> (r = Finished False \<longrightarrow> Errors (w_conn w') < 10)"
    using rest assms(2) EndConnection_Dead [of e w1 "Inr ()" w']
    by (cases r) (auto simp: ret_def with_conn_def split: if_splits)
  then have "handle_frame e incoming w = (Inr r, w1)"
    using r by (auto simp: recover_def ret_def split: prod.splits sum.splits if_splits)
  with alive show ?thesis by blast
qed

theorem frame_survivors_witness:
  "\<exists>w'. ProcessIncomingFrame plain_env (Inr \<lparr> f_size = 2, f_data = ''{}'', f_flags = 1 \<rparr>) plain_world = (Inr (), w') \<and>
        (\<exists>r. handle_frame plain_env (Inr \<lparr> f_size = 2, f_data = ''{}'', f_flags = 1 \<rparr>) plain_world = (Inr r, w'))"
proof -
  obtain w' where w': "ProcessIncomingFrame plain_env (Inr \<lparr> f_size = 2, f_data = ''{}'', f_flags = 1 \<rparr>) plain_world = (Inr (), w')"
    "\<not> Dead (w_conn w')"
    by (simp add: ProcessIncomingFrame_def handle_frame_def take_frame_def final_frame_def recover_def gw_act Let_def
        plain_world_def plain_conn_def fresh_connection_def)
  from frame_survivors [OF this] w'(1) show ?thesis by blast
qed

text \<open>
  The payload of a ping is left in the buffer of incoming text, in front of the next message: between
  two fragments of a message, or before one, a ping with a payload changes what is parsed.
\<close>

theorem ping_payload_kept:
  assumes "e_pong e = Inr ()" and "n > 0"
  shows "\<exists>w'. ProcessIncomingFrame e (Inr \<lparr> f_size = n, f_data = payload, f_flags = 0x89 \<rparr>) w = (Inr (), w') \<and>
              IncomingFrame (w_conn w') = IncomingFrame (w_conn w) @ payload \<and>
              Dead (w_conn w') = Dead (w_conn w)"
  using assms
  by (simp add: ProcessIncomingFrame_def handle_frame_def take_frame_def answer_ping_def recover_def gw_act Let_def)

theorem ping_payload_kept_witness:
  "\<exists>w'. ProcessIncomingFrame plain_env (Inr \<lparr> f_size = 2, f_data = ''hi'', f_flags = 0x89 \<rparr>) plain_world = (Inr (), w') \<and>
        IncomingFrame (w_conn w') = ''hi''"
  using ping_payload_kept [of plain_env 2 "''hi''" plain_world]
  by (auto simp: plain_env_def plain_world_def plain_conn_def fresh_connection_def)

text \<open>
  A binary frame, which the handler means to end the connection for, leaves it alive: the flag it sets
  is lost by the return that follows. Its bytes stay in the buffer too.
\<close>

theorem binary_frame_survives:
  assumes "f_flags f AND 0x0F = 2"
  shows "\<exists>w'. ProcessIncomingFrame e (Inr f) w = (Inr (), w') \<and> Dead (w_conn w') = Dead (w_conn w) \<and>
              Errors (w_conn w') = Errors (w_conn w) \<and>
              IncomingFrame (w_conn w') = IncomingFrame (w_conn w) @ (if f_size f > 0 then f_data f else [])"
proof -
  have "f_flags f \<noteq> 0" using assms by auto
  with assms show ?thesis
    by (simp add: ProcessIncomingFrame_def handle_frame_def take_frame_def recover_def gw_act Let_def)
qed

theorem binary_frame_survives_witness:
  "\<exists>w'. ProcessIncomingFrame plain_env (Inr \<lparr> f_size = 1, f_data = ''x'', f_flags = 0x82 \<rparr>) plain_world = (Inr (), w') \<and>
        \<not> Dead (w_conn w') \<and> IncomingFrame (w_conn w') = ''x''"
  using binary_frame_survives [of "\<lparr> f_size = 1, f_data = ''x'', f_flags = 0x82 \<rparr>" plain_env plain_world]
  by (auto simp: plain_world_def plain_conn_def fresh_connection_def)

section \<open>Events before the first message\<close>

text \<open>
  C39: of a device that is not connected, the events about its state, health, log, pending configuration,
  password, telemetry, alarms, scans and events only count an error; nothing of theirs is processed.
\<close>

theorem unconnected_events:
  assumes "\<not> s_Connected (State (w_conn w))"
    and "ev \<in> {ET_STATE, ET_HEALTHCHECK, ET_LOG, ET_CFGPENDING, ET_DEVICEUPDATE, ET_TELEMETRY, ET_EVENT, ET_ALARM, ET_WIFISCAN}"
  shows "dispatch e ev params serial w =
           (Inr (), w\<lparr> w_conn := (w_conn w)\<lparr> Errors := Errors (w_conn w) + 1 \<rparr> \<rparr>)"
  using assms
  by (auto simp: dispatch_def Process_state_def Process_healthcheck_def Process_log_def Process_cfgpending_def
      Process_deviceupdate_def Process_telemetry_def Process_event_def Process_alarm_def Process_wifiscan_def
      forward_def require_connected_def with_conn_def count_error_def on_conn_def)

theorem unconnected_events_witness:
  "\<exists>w'. dispatch plain_env ET_DEVICEUPDATE [(''currentPassword'', JStr ''x'')] ''24f5a207a131'' plain_world = (Inr (), w') \<and>
        Errors (w_conn w') = 1 \<and> w_store w' = plain_storage"
  using unconnected_events [of plain_world ET_DEVICEUPDATE plain_env "[(''currentPassword'', JStr ''x'')]" "''24f5a207a131''"]
  by (auto simp: plain_world_def plain_conn_def fresh_connection_def fresh_state_def)

lemma plain_store:
  "devices plain_storage = [(''24f5a207a131'', to_row plain_codec (plain_device ''24f5a207a131''))]"
  "readable plain_storage" "writable plain_storage"
  by (simp_all add: plain_storage_def)

text \<open>
  A connected device can set the login password of any other device: the password of a device
  update goes to the row of the serial number the message names, whoever sent it.
\<close>

theorem deviceupdate_any_device:
  assumes "s_Connected (State (w_conn w))" and "writable (w_store w)"
    and "j_has params ''currentPassword''" and "p_string (e_poco e) (j_get params ''currentPassword'') = Inr pw"
    and "om_find (devices (w_store w)) serial = Some r"
  shows "\<exists>w'. dispatch e ET_DEVICEUPDATE params serial w = (Inr (), w') \<and> w_conn w' = w_conn w \<and>
              devices (w_store w') = om_set serial (row_set_DevicePassword pw r) (devices (w_store w))"
  using assms
  by (simp add: dispatch_def Process_deviceupdate_def gw_act SetDevicePassword_def update_column_def)

theorem deviceupdate_any_device_witness:
  "\<exists>w w'. c_SerialNumber (w_conn w) = ''000000000000'' \<and>
     dispatch plain_env ET_DEVICEUPDATE [(''currentPassword'', JStr ''x'')] ''24f5a207a131'' w = (Inr (), w') \<and>
     devices (w_store w') = [(''24f5a207a131'', row_set_DevicePassword ''x'' (to_row plain_codec (plain_device ''24f5a207a131'')))]"
proof -
  let ?c = "plain_conn\<lparr> c_SerialNumber := ''000000000000'', State := (State plain_conn)\<lparr> s_Connected := True \<rparr> \<rparr>"
  let ?w = "plain_world\<lparr> w_conn := ?c \<rparr>"
  have "\<exists>w'. dispatch plain_env ET_DEVICEUPDATE [(''currentPassword'', JStr ''x'')] ''24f5a207a131'' ?w = (Inr (), w') \<and>
          w_conn w' = w_conn ?w \<and> devices (w_store w') =
            om_set ''24f5a207a131'' (row_set_DevicePassword ''x'' (to_row plain_codec (plain_device ''24f5a207a131''))) (devices (w_store ?w))"
    by (rule deviceupdate_any_device)
      (simp_all add: plain_world_def plain_store j_has_def j_get_def om_find_def plain_env_def plain_poco_def poco_of_def)
  then obtain w' where "dispatch plain_env ET_DEVICEUPDATE [(''currentPassword'', JStr ''x'')] ''24f5a207a131'' ?w = (Inr (), w')"
    "devices (w_store w') = [(''24f5a207a131'', row_set_DevicePassword ''x'' (to_row plain_codec (plain_device ''24f5a207a131'')))]"
    by (auto simp: plain_world_def plain_store)
  then show ?thesis by (intro exI [of _ ?w] exI [of _ w']) simp
qed

end
