(* ===== verification/GW_Radius.thy ===== *)
theory GW_Radius
  imports GW_Json
begin

text \<open>
  RADIUS packets (\<^verbatim>\<open>src/RADIUS_helpers.h\<close>): the packed buffer of a packet, the list of attributes found in
  it, and the operations that read and edit attributes in place. The buffer of attributes has 4096 bytes; an
  access behind it has undefined behaviour. The length field is kept by its value. MD5, HMAC, the tokenizer and
  socket addresses belong to Poco and are parameters.
\<close>

section \<open>Names\<close>

definition radius_command_values :: "(nat \<times> string) list" where
  "radius_command_values =
     [(1, ''Access-Request''), (2, ''Access-Accept''), (3, ''Access-Reject''), (4, ''Accounting-Request''),
      (5, ''Accounting-Response''), (11, ''Access-Challenge''), (12, ''Status-Server''), (13, ''Status-Client''),
      (40, ''Disconnect-Request''), (41, ''Disconnect-ACK''), (42, ''Disconnect-NAK''), (43, ''CoA-Request''),
      (44, ''CoA-ACK''), (45, ''CoA-NAK''), (255, ''Reserved''), (6, ''Accounting-Status''), (7, ''Password-Request''),
      (8, ''Password-Ack''), (9, ''Password-Reject''), (10, ''Accounting-Message''), (21, ''Resource-Free-Request''),
      (22, ''Resource-Free-Response''), (23, ''Resource-Query-Request''), (24, ''Resource-Query-Response''),
      (25, ''Alternate-Resource-Reclaim-Request'')]"

definition radius_attribute_names :: "(nat \<times> string) list" where
  "radius_attribute_names =
     [(1, ''User-Name''), (2, ''User-Password''), (3, ''CHAP-Password''), (4, ''NAS-IP Address''), (5, ''NAS-Port''),
      (6, ''Service-Type''), (7, ''Framed-Protocol''), (8, ''Framed-IP-Address''), (9, ''Framed-IP-Netmask''),
      (10, ''Framed-Routing''), (11, ''Filter-Id''), (12, ''Framed-MTU''), (13, ''Framed-Compression''),
      (14, ''Login-IP-Host''), (15, ''Login-Service''), (16, ''Login-TCP-Port''), (18, ''Reply-Message''),
      (19, ''Callback-Number''), (20, ''Callback-ID''), (22, ''Framed-Route''), (23, ''Framed-IPX-Network''),
      (24, ''State''), (25, ''Class''), (26, ''Vendor-Specific''), (27, ''Session-Timeout''), (28, ''Idle-Timeout''),
      (29, ''Termination-Action''), (30, ''Called-Station-Id''), (31, ''Calling-Station-Id''), (32, ''NAS-Identifier''),
      (33, ''Proxy-State''), (34, ''Login-LAT-Service''), (35, ''Login-LAT-Node''), (36, ''Login-LAT-Group''),
      (37, ''Framed-AppleTalk-Link''), (38, ''Framed-AppleTalk-Network''), (39, ''Framed-AppleTalk-Zone''),
      (40, ''Acct-Status-Type''), (41, ''Acct-Delay-Time''), (42, ''Acct-Input-Octets''), (43, ''Acct-Output-Octets''),
      (44, ''Acct-Session-Id''), (45, ''Acct-Authentic''), (46, ''Acct-Session-Time''), (47, ''Acct-Input-Packets''),
      (48, ''Acct-Output-Packets''), (49, ''Acct-Terminate-Cause''), (50, ''Acct-Multi-Session-Id''),
      (51, ''Acct-Link-Count''), (52, ''Acct-Input-Gigawords''), (53, ''Acct-Output-Gigawords''),
      (55, ''Event-Timestamp''), (60, ''CHAP-Challenge''), (61, ''NAS-Port-Type''), (62, ''Port-Limit''),
      (63, ''Login-LAT-Port''), (64, ''Tunnel-Type3''), (65, ''Tunnel-Medium-Type1''), (66, ''Tunnel-Client-Endpoint''),
      (67, ''Tunnel-Server-Endpoint1''), (68, ''Acct-Tunnel-Connection-ID''), (69, ''Tunnel-Password1''),
      (70, ''ARAP-Password''), (71, ''ARAP-Features''), (72, ''ARAP-Zone-Access''), (73, ''ARAP-Security''),
      (74, ''ARAP-Security-Data''), (75, ''Password-Retry''), (76, ''Prompt''), (77, ''Connect-Info''),
      (78, ''Configuration-Token''), (79, ''EAP-Message''), (80, ''Message-Authenticator''),
      (81, ''Tunnel-Private-Group-ID''), (82, ''Tunnel-Assignment-ID1''), (83, ''Tunnel-Preference''),
      (84, ''ARAP-Challenge-Response''), (85, ''Acct-Interim-Interval''), (86, ''Acct-Tunnel-Packets-Lost''),
      (87, ''NAS-Port-ID''), (88, ''Framed-Pool''), (89, ''Chargeable-User-Identity''), (90, ''Tunnel-Client-Auth-ID''),
      (91, ''Tunnel-Server-Auth-ID'')]"

text \<open>The walk stops at the sentinel, whose number is zero and whose name is a null pointer.\<close>

definition tok_name :: "(nat \<times> string) list \<Rightarrow> nat \<Rightarrow> string option" where
  "tok_name toks cmd = (case map_of toks cmd of Some name \<Rightarrow> Some name | None \<Rightarrow> if cmd = 0 then None else Some ''Unknown'')"

definition CommandName :: "u8 \<Rightarrow> string option" where
  "CommandName cmd = tok_name radius_command_values (unat cmd)"

definition AttributeName :: "u8 \<Rightarrow> string option" where
  "AttributeName cmd = tok_name radius_attribute_names (unat cmd)"

section \<open>Packets\<close>

record radius_attribute =
  at_type :: u8
  at_pos :: u16
  at_len :: u32

record raw_packet =
  rp_code :: u8
  rp_identifier :: u8
  rp_rawlen :: u16
  rp_authenticator :: bytes
  rp_attributes :: bytes

text \<open>The packed structure in memory, and the structure in 4116 bytes of memory.\<close>

definition raw_bytes :: "raw_packet \<Rightarrow> bytes" where
  "raw_bytes p =
     [rp_code p, rp_identifier p, ucast (drop_bit 8 (rp_rawlen p)), ucast (rp_rawlen p)] @ rp_authenticator p @ rp_attributes p"

definition raw_of_bytes :: "bytes \<Rightarrow> raw_packet" where
  "raw_of_bytes bs =
     \<lparr> rp_code = bs ! 0, rp_identifier = bs ! 1, rp_rawlen = push_bit 8 (ucast (bs ! 2)) OR ucast (bs ! 3),
       rp_authenticator = take 16 (drop 4 bs), rp_attributes = drop 20 bs \<rparr>"

definition zero_packet :: "u8 \<Rightarrow> raw_packet" where
  "zero_packet c =
     \<lparr> rp_code = c, rp_identifier = 0, rp_rawlen = 0, rp_authenticator = replicate 16 0, rp_attributes = replicate 4096 0 \<rparr>"

record radius_packet =
  Attrs :: "radius_attribute list"
  P :: raw_packet
  Size :: u16
  Valid :: bool

text \<open>
  Attributes are looked for in what the pointer \<open>Buffer\<close> can reach; at most 25 are found. The comparison is
  one of 32-bit words, and the position one of 16 bits.
\<close>

fun parse_loop ::
    "nat \<Rightarrow> u32 \<Rightarrow> bytes \<Rightarrow> u16 \<Rightarrow> u16 \<Rightarrow> radius_attribute list \<Rightarrow> cpp_exn + bool \<times> radius_attribute list" where
  "parse_loop 0 offset buf sz pos attrs = Inr (True, attrs)"
| "parse_loop (Suc x) offset buf sz pos attrs =
     (if \<not> pos < sz then Inr (True, attrs)
      else if \<not> unat pos + 1 < length buf then Inl (Undefined_Behaviour ''read behind the attributes'')
      else
        let l = buf ! (unat pos + 1);
            a = \<lparr> at_type = buf ! unat pos, at_pos = ucast ((ucast pos :: u32) + 2 + offset), at_len = ucast l - 2 \<rparr>
        in if (ucast pos :: u32) + at_len a \<le> ucast sz then
             (if l = 0 then Inr (False, attrs @ [a])
              else parse_loop x offset buf sz (pos + ucast l) (attrs @ [a]))
           else Inr (False, attrs))"

definition ParseRadius :: "u32 \<Rightarrow> bytes \<Rightarrow> u16 \<Rightarrow> cpp_exn + bool \<times> radius_attribute list" where
  "ParseRadius offset buf sz = parse_loop 25 offset buf sz 0 []"

definition reparse :: "radius_packet \<Rightarrow> cpp_exn + radius_packet" where
  "reparse p = map_sum id (\<lambda>(ok, attrs). p\<lparr> Valid := ok, Attrs := attrs \<rparr>) (ParseRadius 0 (rp_attributes (P p)) (Size p - 20))"

definition make_packet :: "bytes \<Rightarrow> cpp_exn + radius_packet" where
  "make_packet bs =
     (let p = \<lparr> Attrs = [], P = zero_packet 1, Size = 0, Valid = False \<rparr> in
      if length bs \<ge> 4116 then Inr p
      else
        let raw = raw_of_bytes (bs @ drop (length bs) (raw_bytes (zero_packet 1)));
            p = p\<lparr> P := raw, Size := of_nat (length bs) \<rparr>
        in if Size p = rp_rawlen raw then reparse p else Inr p)"

definition empty_packet :: radius_packet where
  "empty_packet = \<lparr> Attrs = [], P = zero_packet 0, Size = 20, Valid = False \<rparr>"

definition ReParse :: "radius_packet \<Rightarrow> cpp_exn + radius_packet" where
  "ReParse p = reparse (p\<lparr> P := (P p)\<lparr> rp_rawlen := Size p \<rparr> \<rparr>)"

definition Evaluate :: "u16 \<Rightarrow> radius_packet \<Rightarrow> cpp_exn + radius_packet" where
  "Evaluate sz p = reparse (p\<lparr> Size := sz \<rparr>)"

definition packet_IsAuthentication :: "radius_packet \<Rightarrow> bool" where
  "packet_IsAuthentication p \<longleftrightarrow> rp_code (P p) \<in> {1, 2, 11, 3, 21, 22, 23, 24, 25}"

definition packet_IsAccounting :: "radius_packet \<Rightarrow> bool" where
  "packet_IsAccounting p \<longleftrightarrow> rp_code (P p) \<in> {4, 5, 6, 10}"

definition packet_IsAuthority :: "radius_packet \<Rightarrow> bool" where
  "packet_IsAuthority p \<longleftrightarrow> rp_code (P p) \<in> {40, 41, 42, 43, 44, 45}"

text \<open>The loop over the table takes the sentinel too; a string made of its null name is undefined.\<close>

definition PacketTypeToString :: "radius_packet \<Rightarrow> cpp_exn + string" where
  "PacketTypeToString p =
     (case map_of radius_command_values (unat (rp_code (P p))) of
        Some name \<Rightarrow> Inr name
      | None \<Rightarrow> if rp_code (P p) = 0 then Inl (Undefined_Behaviour ''string of a null pointer'') else Inr ''Unknown'')"

section \<open>Reading attributes\<close>

definition text_of_bytes :: "bytes \<Rightarrow> string" where
  "text_of_bytes bs = map (\<lambda>b. char_of (unat b)) bs"

definition bytes_of_text :: "string \<Rightarrow> bytes" where
  "bytes_of_text s = map (\<lambda>c. of_nat (char_code c)) s"

definition attr_bytes :: "radius_packet \<Rightarrow> radius_attribute \<Rightarrow> cpp_exn + bytes" where
  "attr_bytes p a =
     (if unat (at_pos a) + unat (at_len a) \<le> length (rp_attributes (P p))
      then Inr (take (unat (at_len a)) (drop (unat (at_pos a)) (rp_attributes (P p))))
      else Inl (Undefined_Behaviour ''read behind the attributes''))"

text \<open>Where the attribute ends, computed with 32-bit words.\<close>

definition attr_end :: "radius_attribute \<Rightarrow> nat" where
  "attr_end a = unat ((ucast (at_pos a) :: u32) + at_len a)"

definition first_attr :: "u8 \<Rightarrow> radius_packet \<Rightarrow> radius_attribute option" where
  "first_attr t p = find (\<lambda>a. at_type a = t) (Attrs p)"

definition HasAttribute :: "u8 \<Rightarrow> radius_packet \<Rightarrow> bool" where
  "HasAttribute t p \<longleftrightarrow> (\<exists>a\<in>set (Attrs p). at_type a = t)"

text \<open>The first attribute of a type that is not empty, as a text; the empty text when there is none.\<close>

definition extract_nonempty :: "u8 \<Rightarrow> radius_packet \<Rightarrow> cpp_exn + string" where
  "extract_nonempty t p =
     (case find (\<lambda>a. at_type a = t \<and> at_len a > 0) (Attrs p) of
        None \<Rightarrow> Inr []
      | Some a \<Rightarrow> map_sum id text_of_bytes (attr_bytes p a))"

definition ExtractCallingStationID :: "radius_packet \<Rightarrow> cpp_exn + string" where
  "ExtractCallingStationID p = extract_nonempty 31 p"

definition ExtractAccountingSessionID :: "radius_packet \<Rightarrow> cpp_exn + string" where
  "ExtractAccountingSessionID p = extract_nonempty 44 p"

definition ExtractAccountingMultiSessionID :: "radius_packet \<Rightarrow> cpp_exn + string" where
  "ExtractAccountingMultiSessionID p = extract_nonempty 50 p"

definition ExtractCalledStationID :: "radius_packet \<Rightarrow> cpp_exn + string" where
  "ExtractCalledStationID p = extract_nonempty 30 p"

definition UserName :: "radius_packet \<Rightarrow> cpp_exn + string" where
  "UserName p =
     (case first_attr 1 p of None \<Rightarrow> Inr [] | Some a \<Rightarrow> map_sum id text_of_bytes (attr_bytes p a))"

text \<open>\<open>tokens s sep\<close> is \<^verbatim>\<open>Poco::StringTokenizer\<close>. Four parts, separated by bars or else by colons.\<close>

definition proxy_parts :: "(string \<Rightarrow> string \<Rightarrow> string list) \<Rightarrow> string \<Rightarrow> string list option" where
  "proxy_parts tokens s =
     (let ps = tokens s ''|'' in
      if length ps = 4 then Some ps
      else let ps = tokens s '':'' in if length ps = 4 then Some ps else None)"

definition ExtractSerialNumberFromProxyState ::
    "(string \<Rightarrow> string \<Rightarrow> string list) \<Rightarrow> radius_packet \<Rightarrow> cpp_exn + string" where
  "ExtractSerialNumberFromProxyState tokens p =
     (case first_attr 33 p of
        None \<Rightarrow> Inr []
      | Some a \<Rightarrow> map_sum id (\<lambda>bs. case proxy_parts tokens (text_of_bytes bs) of Some ps \<Rightarrow> ps ! 0 | None \<Rightarrow> []) (attr_bytes p a))"

definition proxy_attr :: "radius_packet \<Rightarrow> radius_attribute option" where
  "proxy_attr p = find (\<lambda>a. at_type a = 33 \<and> at_len a > 2) (Attrs p)"

definition ExtractProxyStateDestination ::
    "(string \<Rightarrow> string \<Rightarrow> string list) \<Rightarrow> (string \<Rightarrow> string \<Rightarrow> cpp_exn + string) \<Rightarrow> radius_packet \<Rightarrow> cpp_exn + string" where
  "ExtractProxyStateDestination tokens address p =
     (case proxy_attr p of
        None \<Rightarrow> Inr []
      | Some a \<Rightarrow> try_bind (attr_bytes p a) (\<lambda>bs.
          case proxy_parts tokens (text_of_bytes bs) of Some ps \<Rightarrow> address (ps ! 1) (ps ! 2) | None \<Rightarrow> Inr []))"

definition ExtractProxyStateDestinationIPint ::
    "(string \<Rightarrow> string \<Rightarrow> string list) \<Rightarrow> (string \<Rightarrow> bytes option) \<Rightarrow> radius_packet \<Rightarrow> cpp_exn + u32" where
  "ExtractProxyStateDestinationIPint tokens try_ip p =
     (case proxy_attr p of
        None \<Rightarrow> Inr 0
      | Some a \<Rightarrow> try_bind (attr_bytes p a) (\<lambda>bs.
          case proxy_parts tokens (text_of_bytes bs) of Some ps \<Rightarrow> Inr (IPtoInt try_ip (ps ! 1)) | None \<Rightarrow> Inr 0))"

text \<open>The result is the source of the reply, when it is one.\<close>

definition IsStatusMessageReply :: "(string \<Rightarrow> string \<Rightarrow> string list) \<Rightarrow> radius_packet \<Rightarrow> cpp_exn + string option" where
  "IsStatusMessageReply tokens p =
     (case first_attr 33 p of
        None \<Rightarrow> Inr None
      | Some a \<Rightarrow> map_sum id (\<lambda>bs. case tokens (text_of_bytes bs) '':'' of
          [kind, source] \<Rightarrow> if kind = ''status'' then Some source else None
        | _ \<Rightarrow> None) (attr_bytes p a))"

text \<open>
  The serial number of a vendor attribute of the project: the vendor number in network order, then attributes
  of the same form. Dashes are left out.
\<close>

definition vendor_id :: "radius_packet \<Rightarrow> radius_attribute \<Rightarrow> cpp_exn + u32" where
  "vendor_id p a = map_sum id (\<lambda>bs. word_rcat bs) (attr_bytes p (a\<lparr> at_len := 4 \<rparr>))"

fun serial_TIP :: "radius_packet \<Rightarrow> radius_attribute list \<Rightarrow> cpp_exn + string" where
  "serial_TIP p [] = Inr []"
| "serial_TIP p (a # as) =
     (if at_type a \<noteq> 26 then serial_TIP p as
      else try_bind (vendor_id p a) (\<lambda>v.
        if v = 58888 \<and> at_len a > 6 then
          try_bind (ParseRadius (ucast (at_pos a) + 4) (drop (unat (at_pos a) + 4) (rp_attributes (P p))) (ucast (at_len a - 6)))
            (\<lambda>(ok, vas).
               case (if ok then find (\<lambda>v. at_type v = 1) vas else None) of
                 Some v \<Rightarrow> map_sum id (\<lambda>bs. filter (\<lambda>c. c \<noteq> CHR ''-'') (text_of_bytes bs)) (attr_bytes p v)
               | None \<Rightarrow> serial_TIP p as)
        else serial_TIP p as))"

definition ExtractSerialNumberTIP :: "radius_packet \<Rightarrow> cpp_exn + string" where
  "ExtractSerialNumberTIP p = serial_TIP p (Attrs p)"

section \<open>Editing attributes\<close>

text \<open>\<^verbatim>\<open>memcpy\<close> into the attributes, and \<^verbatim>\<open>memmove\<close> within them.\<close>

definition poke :: "nat \<Rightarrow> bytes \<Rightarrow> bytes \<Rightarrow> cpp_exn + bytes" where
  "poke i bs m =
     (if i + length bs \<le> length m then Inr (take i m @ bs @ drop (i + length bs) m)
      else Inl (Undefined_Behaviour ''write behind the attributes''))"

definition memmove :: "nat \<Rightarrow> nat \<Rightarrow> nat \<Rightarrow> bytes \<Rightarrow> cpp_exn + bytes" where
  "memmove dst src n m =
     (if src + n \<le> length m then poke dst (take n (drop src m)) m
      else Inl (Undefined_Behaviour ''read behind the attributes''))"

definition set_attributes :: "radius_packet \<Rightarrow> bytes \<Rightarrow> radius_packet" where
  "set_attributes p m = p\<lparr> P := (P p)\<lparr> rp_attributes := m \<rparr> \<rparr>"

definition be16 :: "u16 \<Rightarrow> bytes" where
  "be16 v = [ucast (drop_bit 8 v), ucast v]"

definition be32 :: "u32 \<Rightarrow> bytes" where
  "be32 v = [ucast (drop_bit 24 v), ucast (drop_bit 16 v), ucast (drop_bit 8 v), ucast v]"

text \<open>Numbers are written over the value of the first attribute of the type, whatever its length.\<close>

definition replace_number :: "u8 \<Rightarrow> bytes \<Rightarrow> radius_packet \<Rightarrow> cpp_exn + radius_packet" where
  "replace_number t bs p =
     (case first_attr t p of
        None \<Rightarrow> Inr p
      | Some a \<Rightarrow> map_sum id (set_attributes p) (poke (unat (at_pos a)) bs (rp_attributes (P p))))"

definition ReplaceAttribute_u8 :: "u8 \<Rightarrow> u8 \<Rightarrow> radius_packet \<Rightarrow> cpp_exn + radius_packet" where
  "ReplaceAttribute_u8 t v p = replace_number t [v] p"

definition ReplaceAttribute_u16 :: "u8 \<Rightarrow> u16 \<Rightarrow> radius_packet \<Rightarrow> cpp_exn + radius_packet" where
  "ReplaceAttribute_u16 t v p = replace_number t (be16 v) p"

definition ReplaceAttribute_u32 :: "u8 \<Rightarrow> u32 \<Rightarrow> radius_packet \<Rightarrow> cpp_exn + radius_packet" where
  "ReplaceAttribute_u32 t v p = replace_number t (be32 v) p"

text \<open>
  A text may change the length of the attribute: the bytes behind it move, as many as the whole packet has.
  The length of the text is a byte.
\<close>

definition ReplaceAttribute :: "u8 \<Rightarrow> bytes \<Rightarrow> radius_packet \<Rightarrow> cpp_exn + radius_packet" where
  "ReplaceAttribute t v p =
     (case first_attr t p of
        None \<Rightarrow> Inr p
      | Some a \<Rightarrow>
          let n = of_nat (length v) :: u32; pos = unat (at_pos a); src = attr_end a; m = rp_attributes (P p) in
          if n = at_len a then map_sum id (set_attributes p) (poke pos v m)
          else if n < at_len a then
            let shrink = at_len a - n in
            try_bind (poke pos v m) (\<lambda>m.
            try_bind (poke (pos - 1) [ucast n + 2] m) (\<lambda>m.
            try_bind (memmove (pos + length v) src (unat (ucast (Size p) - shrink)) m) (\<lambda>m.
            ReParse ((set_attributes p m)\<lparr> Size := Size p - ucast shrink \<rparr>))))
          else
            let augment = n - at_len a in
            try_bind (memmove (pos + length v) src (unat (ucast (Size p) + augment)) m) (\<lambda>m.
            try_bind (poke pos v m) (\<lambda>m.
            try_bind (poke (pos - 1) [ucast n + 2] m) (\<lambda>m.
            ReParse ((set_attributes p m)\<lparr> Size := Size p + ucast augment \<rparr>)))))"

definition RemoveAttribute :: "u8 \<Rightarrow> radius_packet \<Rightarrow> cpp_exn + radius_packet" where
  "RemoveAttribute t p =
     (case first_attr t p of
        None \<Rightarrow> Inr p
      | Some a \<Rightarrow>
          let shrink = at_len a + 2; pos = unat (at_pos a) in
          try_bind (memmove (pos - 2) (attr_end a) (unat (ucast (Size p) - shrink)) (rp_attributes (P p))) (\<lambda>m.
          ReParse ((set_attributes p m)\<lparr> Size := Size p - ucast shrink \<rparr>)))"

text \<open>A new attribute at the end, or behind the first attribute of type \<open>loc\<close>.\<close>

definition AppendAttribute :: "u8 \<Rightarrow> bytes \<Rightarrow> radius_packet \<Rightarrow> cpp_exn + radius_packet" where
  "AppendAttribute t v p =
     (let sz = (if Size p < 20 then 20 else Size p) in
      try_bind (poke (unat (sz - 20)) ([t, of_nat (length v) + 2] @ v) (rp_attributes (P p))) (\<lambda>m.
      ReParse ((set_attributes p m)\<lparr> Size := sz + 2 + of_nat (length v) \<rparr>)))"

definition AppendAttribute_u8 :: "u8 \<Rightarrow> u8 \<Rightarrow> radius_packet \<Rightarrow> cpp_exn + radius_packet" where
  "AppendAttribute_u8 t v p = AppendAttribute t [v] p"

definition AppendAttribute_u16 :: "u8 \<Rightarrow> u16 \<Rightarrow> radius_packet \<Rightarrow> cpp_exn + radius_packet" where
  "AppendAttribute_u16 t v p = AppendAttribute t (be16 v) p"

definition AppendAttribute_u32 :: "u8 \<Rightarrow> u32 \<Rightarrow> radius_packet \<Rightarrow> cpp_exn + radius_packet" where
  "AppendAttribute_u32 t v p = AppendAttribute t (be32 v) p"

definition AddAttribute :: "u8 \<Rightarrow> u8 \<Rightarrow> bytes \<Rightarrow> radius_packet \<Rightarrow> cpp_exn + radius_packet" where
  "AddAttribute loc t v p =
     (case first_attr loc p of
        None \<Rightarrow> Inr p
      | Some a \<Rightarrow>
          let e = attr_end a in
          try_bind (memmove (e + 2 + length v) e (unat (ucast (Size p) - (ucast (at_pos a) + at_len a))) (rp_attributes (P p))) (\<lambda>m.
          try_bind (poke e ([t, of_nat (length v) + 2] @ v) m) (\<lambda>m.
          ReParse ((set_attributes p m)\<lparr> Size := Size p + 2 + of_nat (length v) \<rparr>))))"

definition AddAttribute_u8 :: "u8 \<Rightarrow> u8 \<Rightarrow> u8 \<Rightarrow> radius_packet \<Rightarrow> cpp_exn + radius_packet" where
  "AddAttribute_u8 loc t v p = AddAttribute loc t [v] p"

definition AddAttribute_u16 :: "u8 \<Rightarrow> u8 \<Rightarrow> u16 \<Rightarrow> radius_packet \<Rightarrow> cpp_exn + radius_packet" where
  "AddAttribute_u16 loc t v p = AddAttribute loc t (be16 v) p"

definition AddAttribute_u32 :: "u8 \<Rightarrow> u8 \<Rightarrow> u32 \<Rightarrow> radius_packet \<Rightarrow> cpp_exn + radius_packet" where
  "AddAttribute_u32 loc t v p = AddAttribute loc t (be32 v) p"

definition ReplaceOrAdd :: "u8 \<Rightarrow> bytes \<Rightarrow> radius_packet \<Rightarrow> cpp_exn + radius_packet" where
  "ReplaceOrAdd t v p = (if HasAttribute t p then ReplaceAttribute t v p else AppendAttribute t v p)"

definition ReplaceOrAdd_u8 :: "u8 \<Rightarrow> u8 \<Rightarrow> radius_packet \<Rightarrow> cpp_exn + radius_packet" where
  "ReplaceOrAdd_u8 t v p = (if HasAttribute t p then ReplaceAttribute_u8 t v p else AppendAttribute_u8 t v p)"

definition ReplaceOrAdd_u16 :: "u8 \<Rightarrow> u16 \<Rightarrow> radius_packet \<Rightarrow> cpp_exn + radius_packet" where
  "ReplaceOrAdd_u16 t v p = (if HasAttribute t p then ReplaceAttribute_u16 t v p else AppendAttribute_u16 t v p)"

definition ReplaceOrAdd_u32 :: "u8 \<Rightarrow> u32 \<Rightarrow> radius_packet \<Rightarrow> cpp_exn + radius_packet" where
  "ReplaceOrAdd_u32 t v p = (if HasAttribute t p then ReplaceAttribute_u32 t v p else AppendAttribute_u32 t v p)"
text \<open>Given as strings, the values lose what their length has above a byte.\<close>

definition byte_length :: "string \<Rightarrow> bytes" where
  "byte_length s = take (length s mod 256) (bytes_of_text s)"

definition ReplaceAttribute_text :: "u8 \<Rightarrow> string \<Rightarrow> radius_packet \<Rightarrow> cpp_exn + radius_packet" where
  "ReplaceAttribute_text t s p = ReplaceAttribute t (byte_length s) p"

definition AppendAttribute_text :: "u8 \<Rightarrow> string \<Rightarrow> radius_packet \<Rightarrow> cpp_exn + radius_packet" where
  "AppendAttribute_text t s p = AppendAttribute t (byte_length s) p"

definition AddAttribute_text :: "u8 \<Rightarrow> u8 \<Rightarrow> string \<Rightarrow> radius_packet \<Rightarrow> cpp_exn + radius_packet" where
  "AddAttribute_text loc t s p = AddAttribute loc t (byte_length s) p"

definition ReplaceOrAdd_text :: "u8 \<Rightarrow> string \<Rightarrow> radius_packet \<Rightarrow> cpp_exn + radius_packet" where
  "ReplaceOrAdd_text t s p = ReplaceOrAdd t (byte_length s) p"

section \<open>Authenticators\<close>

text \<open>
  The 16 bytes of the last attribute 80, and the attributes with those bytes zero. \<open>hmac\<close> is HMAC-MD5 of a
  secret and a text, \<open>md5\<close> is MD5.
\<close>

definition peek :: "nat \<Rightarrow> nat \<Rightarrow> bytes \<Rightarrow> cpp_exn + bytes" where
  "peek i n m = (if i + n \<le> length m then Inr (take n (drop i m)) else Inl (Undefined_Behaviour ''read behind the attributes''))"

fun zero_authenticators :: "radius_attribute list \<Rightarrow> bytes \<Rightarrow> bytes \<Rightarrow> bytes \<Rightarrow> cpp_exn + bytes \<times> bytes" where
  "zero_authenticators [] orig old m = Inr (old, m)"
| "zero_authenticators (a # as) orig old m =
     (if at_type a = 80 then
        try_bind (peek (unat (at_pos a)) 16 orig) (\<lambda>old.
        try_bind (poke (unat (at_pos a)) (replicate 16 0) m) (\<lambda>m.
        zero_authenticators as orig old m))
      else zero_authenticators as orig old m)"

fun write_authenticators :: "radius_attribute list \<Rightarrow> bytes \<Rightarrow> bytes \<Rightarrow> cpp_exn + bytes" where
  "write_authenticators [] new m = Inr m"
| "write_authenticators (a # as) new m =
     (if at_type a = 80 then try_bind (poke (unat (at_pos a)) new m) (write_authenticators as new)
      else write_authenticators as new m)"

definition signed_part :: "radius_packet \<Rightarrow> bytes \<Rightarrow> cpp_exn + bytes" where
  "signed_part p m =
     (if unat (Size p) \<le> 4116 then Inr (take (unat (Size p)) (raw_bytes ((P p)\<lparr> rp_attributes := m \<rparr>)))
      else Inl (Undefined_Behaviour ''read behind the packet''))"

definition authenticators :: "(string \<Rightarrow> bytes \<Rightarrow> bytes) \<Rightarrow> string \<Rightarrow> radius_packet \<Rightarrow> cpp_exn + bytes \<times> bytes" where
  "authenticators hmac secret p =
     try_bind (zero_authenticators (Attrs p) (rp_attributes (P p)) (replicate 16 0) (rp_attributes (P p))) (\<lambda>(old, m).
     map_sum id (\<lambda>bs. (old, hmac secret bs)) (signed_part p m))"

definition ComputeMessageAuthenticator ::
    "(string \<Rightarrow> bytes \<Rightarrow> bytes) \<Rightarrow> string \<Rightarrow> radius_packet \<Rightarrow> cpp_exn + radius_packet" where
  "ComputeMessageAuthenticator hmac secret p =
     (if rp_code (P p) \<noteq> 1 then Inr p
      else try_bind (authenticators hmac secret p) (\<lambda>(old, new).
        if old = new then Inr p
        else map_sum id (set_attributes p) (write_authenticators (Attrs p) new (rp_attributes (P p)))))"

definition VerifyMessageAuthenticator :: "(string \<Rightarrow> bytes \<Rightarrow> bytes) \<Rightarrow> string \<Rightarrow> radius_packet \<Rightarrow> cpp_exn + bool" where
  "VerifyMessageAuthenticator hmac secret p =
     (if rp_code (P p) \<noteq> 1 then Inr True
      else map_sum id (\<lambda>(old, new). old = new) (authenticators hmac secret p))"

definition RecomputeAuthenticator :: "(bytes \<Rightarrow> bytes) \<Rightarrow> string \<Rightarrow> radius_packet \<Rightarrow> cpp_exn + radius_packet" where
  "RecomputeAuthenticator md5 secret p =
     (let p = p\<lparr> P := (P p)\<lparr> rp_authenticator := replicate 16 0, rp_rawlen := Size p \<rparr> \<rparr> in
      map_sum id (\<lambda>bs. p\<lparr> P := (P p)\<lparr> rp_authenticator := md5 (bs @ bytes_of_text secret) \<rparr> \<rparr>)
        (signed_part p (rp_attributes (P p))))"

section \<open>Packets to send\<close>

record output_packet =
  op_P :: raw_packet
  AttributesLen :: u16
  op_Secret :: string

definition fresh_output :: "string \<Rightarrow> output_packet" where
  "fresh_output secret = \<lparr> op_P = zero_packet 1, AttributesLen = 0, op_Secret = secret \<rparr>"

definition output_AddAttribute :: "u8 \<Rightarrow> bytes \<Rightarrow> output_packet \<Rightarrow> cpp_exn + output_packet" where
  "output_AddAttribute t v p =
     map_sum id (\<lambda>m. p\<lparr> op_P := (op_P p)\<lparr> rp_attributes := m \<rparr>, AttributesLen := AttributesLen p + 2 + of_nat (length v) \<rparr>)
       (poke (unat (AttributesLen p)) ([t, of_nat (length v) + 2] @ v) (rp_attributes (op_P p)))"

text \<open>\<open>rnd\<close> are the successive results of \<^verbatim>\<open>std::rand\<close>: the identifier, then the authenticator.\<close>

definition MakeStatusMessage ::
    "(string \<Rightarrow> bytes \<Rightarrow> bytes) \<Rightarrow> (nat \<Rightarrow> u8) \<Rightarrow> string \<Rightarrow> output_packet \<Rightarrow> cpp_exn + output_packet" where
  "MakeStatusMessage hmac rnd source p =
     (let p = p\<lparr> op_P := (op_P p)\<lparr> rp_code := 12, rp_identifier := rnd 0, rp_authenticator := map rnd [1..<17] \<rparr> \<rparr>;
          full = ''status:'' @ source in
      try_bind (output_AddAttribute 33 (byte_length full) p) (\<lambda>p.
      try_bind (output_AddAttribute 80 (replicate 16 0) p) (\<lambda>p.
      let len = 20 + unat (AttributesLen p);
          p = p\<lparr> op_P := (op_P p)\<lparr> rp_rawlen := of_nat len \<rparr> \<rparr> in
      if len > 4116 then Inl (Undefined_Behaviour ''read behind the packet'')
      else map_sum id (\<lambda>m. p\<lparr> op_P := (op_P p)\<lparr> rp_attributes := m \<rparr> \<rparr>)
        (poke (length full + 4) (hmac (op_Secret p) (take len (raw_bytes (op_P p)))) (rp_attributes (op_P p))))))"

definition output_Data :: "output_packet \<Rightarrow> bytes" where
  "output_Data p = take (unat (rp_rawlen (op_P p))) (raw_bytes (op_P p))"

end
