(* ===== verification/GW_RadiusSpec.thy ===== *)
theory GW_RadiusSpec
  imports GW_Radius
begin

text \<open>
  What a RADIUS packet means: a list of attributes, each a type and a value. The parser reads back what the
  encoding of such a list wrote, and the in-place operations are operations on the list, as long as the
  packet is small enough for the blocks they move.
\<close>

section \<open>Lists of attributes and their encoding\<close>

type_synonym avp = "u8 \<times> bytes"

fun encode :: "avp list \<Rightarrow> bytes" where
  "encode [] = []"
| "encode ((t, v) # avs) = [t, of_nat (length v) + 2] @ v @ encode avs"

fun layout :: "nat \<Rightarrow> avp list \<Rightarrow> radius_attribute list" where
  "layout i [] = []"
| "layout i ((t, v) # avs) =
     \<lparr> at_type = t, at_pos = of_nat (i + 2), at_len = of_nat (length v) \<rparr> # layout (i + 2 + length v) avs"

definition avps_ok :: "avp list \<Rightarrow> bool" where
  "avps_ok avs \<longleftrightarrow> (\<forall>(t, v)\<in>set avs. length v \<le> 253)"

lemma encode_append [simp]: "encode (xs @ ys) = encode xs @ encode ys"
  by (induction xs rule: encode.induct) simp_all

lemma layout_append: "layout i (xs @ ys) = layout i xs @ layout (i + length (encode xs)) ys"
  by (induction i xs rule: layout.induct) (simp_all add: add.assoc)

lemma avps_ok_simps [simp]:
  "avps_ok []" "avps_ok ((t, v) # avs) \<longleftrightarrow> length v \<le> 253 \<and> avps_ok avs" "avps_ok (xs @ ys) \<longleftrightarrow> avps_ok xs \<and> avps_ok ys"
  by (auto simp: avps_ok_def)

lemma length_layout [simp]: "length (layout i avs) = length avs"
  by (induction i avs rule: layout.induct) simp_all

lemma unat_len8: "n \<le> 253 \<Longrightarrow> unat (of_nat n + 2 :: u8) = n + 2"
  by (simp add: unat_word_ariths unat_of_nat)

lemma ucast_len8: "n \<le> 253 \<Longrightarrow> (ucast (of_nat n + 2 :: u8) :: u32) - 2 = of_nat n"
proof -
  assume n: "n \<le> 253"
  then have "(ucast (of_nat n + 2 :: u8) :: u32) = of_nat (n + 2)"
    by (metis unat_len8 of_nat_unat)
  then show ?thesis by simp
qed

lemma unat_widen [simp]:
  "unat (ucast (w :: u16) :: u32) = unat w" "unat (ucast (b :: u8) :: u16) = unat b" "unat (ucast (b :: u8) :: u32) = unat b"
proof -
  have "unat w < 65536" "unat b < 256"
    using unsigned_less [of w, where 'a = nat] unsigned_less [of b, where 'a = nat] by simp_all
  then show "unat (ucast w :: u32) = unat w" "unat (ucast b :: u16) = unat b" "unat (ucast b :: u32) = unat b"
    by (simp_all add: unsigned_ucast_eq take_bit_eq_mod)
qed

lemma ucast_of_nat_u16: "(ucast (of_nat n :: u32) :: u16) = of_nat n"
  by (rule word_unat_eq_iff [THEN iffD2])
    (simp add: unsigned_ucast_eq take_bit_eq_mod unat_of_nat mod_mod_cancel)

section \<open>Parsing what was encoded\<close>

lemma parse_loop_encode:
  assumes "avps_ok avs" and "length pre = unat pos" and "unat sz = unat pos + length (encode avs)"
  shows "parse_loop x off (pre @ encode avs @ rest) sz pos attrs =
         Inr (True, attrs @ layout (unat pos + unat off) (take x avs))"
  using assms
proof (induction avs arbitrary: x pre pos attrs)
  case Nil
  then show ?case by (cases x) (simp_all add: word_less_nat_alt)
next
  case (Cons av avs)
  obtain t v where av: "av = (t, v)" by (cases av)
  show ?case
  proof (cases x)
    case (Suc y)
    let ?l = "of_nat (length v) + 2 :: u8"
    have v: "length v \<le> 253" and ok: "avps_ok avs" using Cons.prems(1) av by simp_all
    have sz: "unat sz = unat pos + 2 + length v + length (encode avs)" using Cons.prems(3) av by simp
    have sz16: "unat sz < 65536" using unsigned_less [of sz, where 'a = nat] by simp
    have pos16: "unat pos < 65536" using unsigned_less [of pos, where 'a = nat] by simp
    have step: "unat (pos + ucast ?l) = unat pos + 2 + length v"
      using sz sz16 unat_len8 [OF v] by (simp only: unat_word_ariths unat_widen) simp
    have fit: "unat ((ucast pos :: u32) + of_nat (length v)) = unat pos + length v"
      using v pos16 by (simp add: unat_word_ariths unat_of_nat)
    have le: "(ucast pos :: u32) + of_nat (length v) \<le> ucast sz"
      using fit sz sz16 by (simp add: word_le_nat_alt)
    have nz: "?l \<noteq> 0" using unat_len8 [OF v] by (metis add_is_0 numeral_neq_zero unat_0)
    have apos: "(ucast ((ucast pos :: u32) + 2 + off) :: u16) = of_nat (unat pos + unat off + 2)"
    proof -
      have "(ucast pos :: u32) + 2 + off = of_nat (unat pos + unat off + 2)"
        by (simp add: of_nat_unat)
      then show ?thesis by (simp only: ucast_of_nat_u16)
    qed
    have buf: "(pre @ encode (av # avs) @ rest) ! unat pos = t" "(pre @ encode (av # avs) @ rest) ! (unat pos + 1) = ?l"
      "unat pos + 1 < length (pre @ encode (av # avs) @ rest)"
      using Cons.prems(2) av by (simp_all add: nth_append)
    have lt: "pos < sz" using sz by (simp add: word_less_nat_alt)
    have IH: "parse_loop y off ((pre @ [t, ?l] @ v) @ encode avs @ rest) sz (pos + ucast ?l) as =
        Inr (True, as @ layout (unat (pos + ucast ?l) + unat off) (take y avs))" for as
      by (rule Cons.IH [OF ok]) (use Cons.prems(2) step sz in simp_all)
    show ?thesis
      unfolding Suc parse_loop.simps Let_def buf ucast_len8 [OF v] apos
      using lt buf(3) le nz IH av
      by (simp add: step ac_simps)
  qed simp
qed

lemma parse_encode:
  assumes "avps_ok avs" and "unat sz = length (encode avs)" and "length avs \<le> 25"
  shows "ParseRadius off (encode avs @ rest) sz = Inr (True, layout (unat off) avs)"
  using parse_loop_encode [OF assms(1), where pre = "[]" and pos = 0 and sz = sz and x = 25 and off = off and rest = rest and attrs = "[]"]
    assms(2,3) by (simp add: ParseRadius_def)

section \<open>Packets that hold a list of attributes\<close>

definition pkt_ok :: "radius_packet \<Rightarrow> avp list \<Rightarrow> bool" where
  "pkt_ok p avs \<longleftrightarrow>
     avps_ok avs \<and> length avs \<le> 25 \<and> length (rp_authenticator (P p)) = 16 \<and> length (rp_attributes (P p)) = 4096 \<and>
     (\<exists>rest. rp_attributes (P p) = encode avs @ rest) \<and> unat (Size p) = 20 + length (encode avs) \<and>
     rp_rawlen (P p) = Size p \<and> Attrs p = layout 0 avs \<and> Valid p"

lemma pkt_okD:
  assumes "pkt_ok p avs"
  shows "avps_ok avs" "length avs \<le> 25" "length (rp_attributes (P p)) = 4096" "unat (Size p) = 20 + length (encode avs)"
    "Attrs p = layout 0 avs" "length (rp_authenticator (P p)) = 16" "length (encode avs) \<le> 4096"
  using assms by (auto simp: pkt_ok_def)

lemma ReParse_ok:
  assumes "avps_ok avs" and "length avs \<le> 25" and "rp_attributes (P p) = encode avs @ rest"
    and "length (rp_attributes (P p)) = 4096" and "length (rp_authenticator (P p)) = 16"
    and "unat (Size p) = 20 + length (encode avs)"
  shows "\<exists>p'. ReParse p = Inr p' \<and> pkt_ok p' avs \<and> rp_code (P p') = rp_code (P p)"
proof -
  have "unat (Size p - 20) = length (encode avs)"
    using assms(6) by (simp add: unat_sub_if_size word_size)
  with assms show ?thesis
    by (simp add: ReParse_def reparse_def parse_encode pkt_ok_def)
qed

lemma first_with_type:
  "t \<in> fst ` set avs \<Longrightarrow> \<exists>pre v post. avs = pre @ (t, v) # post \<and> t \<notin> fst ` set pre"
proof (induction avs)
  case (Cons av avs)
  show ?case
  proof (cases "fst av = t")
    case True
    then show ?thesis by (intro exI [of _ "[]"]) (cases av, simp)
  next
    case False
    then obtain pre v post where "avs = pre @ (t, v) # post" "t \<notin> fst ` set pre" using Cons by auto
    with False show ?thesis by (intro exI [of _ "av # pre"]) auto
  qed
qed simp

lemma find_layout:
  "t \<notin> fst ` set pre \<Longrightarrow> find (\<lambda>a. at_type a = t) (layout i pre) = None"
  "t \<notin> fst ` set pre \<Longrightarrow> find (\<lambda>a. at_type a = t) (layout i (pre @ (t, v) # post)) =
     Some \<lparr> at_type = t, at_pos = of_nat (i + length (encode pre) + 2), at_len = of_nat (length v) \<rparr>"
  by (induction i pre rule: layout.induct) (auto simp: add.assoc)

lemma first_attr_ok:
  assumes "pkt_ok p avs"
  shows "t \<notin> fst ` set avs \<Longrightarrow> first_attr t p = None"
    and "avs = pre @ (t, v) # post \<Longrightarrow> t \<notin> fst ` set pre \<Longrightarrow>
         first_attr t p = Some \<lparr> at_type = t, at_pos = of_nat (length (encode pre) + 2), at_len = of_nat (length v) \<rparr>"
  using find_layout(1) [of t avs 0] find_layout(2) [of t pre 0 v post]
  by (simp_all add: first_attr_def pkt_okD(5) [OF assms])

lemma HasAttribute_ok: "pkt_ok p avs \<Longrightarrow> HasAttribute t p \<longleftrightarrow> t \<in> fst ` set avs"
proof -
  assume "pkt_ok p avs"
  moreover have "(\<exists>a\<in>set (layout i avs). at_type a = t) \<longleftrightarrow> t \<in> fst ` set avs" for i
    by (induction i avs rule: layout.induct) auto
  ultimately show ?thesis by (simp add: HasAttribute_def pkt_okD)
qed

section \<open>Editing\<close>

text \<open>The first attribute of a type gets another value, or goes.\<close>

fun replace_first :: "u8 \<Rightarrow> bytes \<Rightarrow> avp list \<Rightarrow> avp list" where
  "replace_first t v [] = []"
| "replace_first t v (av # avs) = (if fst av = t then (t, v) # avs else av # replace_first t v avs)"

fun remove_first :: "u8 \<Rightarrow> avp list \<Rightarrow> avp list" where
  "remove_first t [] = []"
| "remove_first t (av # avs) = (if fst av = t then avs else av # remove_first t avs)"

lemma edit_first [simp]:
  assumes "t \<notin> fst ` set pre"
  shows "replace_first t v (pre @ (t, w) # post) = pre @ (t, v) # post"
    and "remove_first t (pre @ (t, w) # post) = pre @ post"
  using assms by (induction pre) auto

lemma edit_absent [simp]: "t \<notin> fst ` set avs \<Longrightarrow> replace_first t v avs = avs" "t \<notin> fst ` set avs \<Longrightarrow> remove_first t avs = avs"
  by (induction avs) auto

lemma poke_here: "i = length pre \<Longrightarrow> length bs = length old \<Longrightarrow> poke i bs (pre @ old @ post) = Inr (pre @ bs @ post)"
  by (simp add: poke_def)

lemma small_nat:
  "n < 65536 \<Longrightarrow> unat (of_nat n :: u16) = n" "n < 4294967296 \<Longrightarrow> unat (of_nat n :: u32) = n"
  "m < 4294967296 \<Longrightarrow> n < 4294967296 \<Longrightarrow> (of_nat m :: u32) = of_nat n \<longleftrightarrow> m = n"
  "m < 4294967296 \<Longrightarrow> n < 4294967296 \<Longrightarrow> (of_nat m :: u32) < of_nat n \<longleftrightarrow> m < n"
  by (simp_all add: unat_of_nat word_less_nat_alt word_unat_eq_iff)

lemma len_byte: "length v \<le> 253 \<Longrightarrow> (ucast (of_nat (length v) :: u32) :: u8) + 2 = of_nat (length v) + 2"
  by (simp add: word_unat_eq_iff unsigned_ucast_eq take_bit_eq_mod unat_of_nat unat_word_ariths mod_mod_cancel)

lemma size_shift:
  assumes "unat sz = n" and "k \<le> n" and "k < 65536" 
  shows "unat ((ucast (sz :: u16) :: u32) - of_nat k) = n - k" and "unat (sz - ucast (of_nat k :: u32)) = n - k"
    and "n + j < 65536 \<Longrightarrow> unat ((ucast sz :: u32) + of_nat j) = n + j"
    and "n + j < 65536 \<Longrightarrow> unat (sz + ucast (of_nat j :: u32)) = n + j"
proof -
  have "unat sz < 65536" using unsigned_less [of sz, where 'a = nat] by simp
  with assms show "unat ((ucast sz :: u32) - of_nat k) = n - k" "unat (sz - ucast (of_nat k :: u32)) = n - k"
    "n + j < 65536 \<Longrightarrow> unat ((ucast sz :: u32) + of_nat j) = n + j"
    "n + j < 65536 \<Longrightarrow> unat (sz + ucast (of_nat j :: u32)) = n + j"
    by (simp_all add: unat_sub_if_size word_size small_nat ucast_of_nat_u16 unat_word_ariths)
qed

lemma AppendAttribute_ok:
  assumes "pkt_ok p avs" and "length v \<le> 253" and "length avs < 25" and "length (encode avs) + length v \<le> 4094"
  shows "\<exists>p'. AppendAttribute t v p = Inr p' \<and> pkt_ok p' (avs @ [(t, v)]) \<and> rp_code (P p') = rp_code (P p)"
proof -
  let ?e = "length (encode avs)" and ?l = "of_nat (length v) + 2 :: u8"
  note d = pkt_okD [OF assms(1)]
  obtain rest where m: "rp_attributes (P p) = encode avs @ rest" using assms(1) by (auto simp: pkt_ok_def)
  have rest: "length rest = 4096 - ?e" using d(3) m by simp
  have split: "rest = take (2 + length v) rest @ drop (2 + length v) rest" by simp
  have sz: "\<not> Size p < 20" using d(4) by (simp add: word_less_nat_alt)
  have at: "unat (Size p - 20) = ?e" using d(4) by (simp add: unat_sub_if_size word_size)
  have poke: "poke ?e ([t, ?l] @ v) (rp_attributes (P p)) = Inr (encode avs @ ([t, ?l] @ v) @ drop (2 + length v) rest)"
    unfolding m by (subst split, rule poke_here) (use rest assms(4) in simp_all)
  let ?p = "(set_attributes p (encode avs @ ([t, ?l] @ v) @ drop (2 + length v) rest))
              \<lparr> Size := Size p + 2 + of_nat (length v) \<rparr>"
  have "unat (Size p + 2 + of_nat (length v)) = 20 + length (encode (avs @ [(t, v)]))"
    using d(4) assms(2,4) by (simp add: unat_word_ariths unat_of_nat)
  then have "\<exists>p'. ReParse ?p = Inr p' \<and> pkt_ok p' (avs @ [(t, v)]) \<and> rp_code (P p') = rp_code (P ?p)"
    by (intro ReParse_ok [where rest = "drop (2 + length v) rest"])
      (use d assms(2,3,4) rest in \<open>simp_all add: set_attributes_def\<close>)
  then show ?thesis
    using sz at poke by (simp add: AppendAttribute_def Let_def set_attributes_def)
qed

text \<open>A block moved to where \<open>pre\<close> ends; only its first part is known.\<close>

lemma memmove_here:
  assumes "src = length (before :: bytes)" and "length (known @ extra) = n" and "m = before @ known @ extra @ post"
    and "dst = length (pre :: bytes)" and "take dst m = pre" and "dst + n \<le> length m"
  shows "\<exists>tail. memmove dst src n m = Inr (pre @ known @ tail) \<and> length (pre @ known @ tail) = length m"
proof -
  have "take n (drop src m) = known @ extra" using assms(1,2,3) by (metis append.assoc append_eq_conv_conj)
  moreover have "src + n \<le> length m" using assms(1,2,3) by simp
  ultimately have "memmove dst src n m = Inr (pre @ known @ extra @ drop (dst + n) m)"
    using assms(2,5,6) by (simp add: memmove_def poke_def)
  moreover have "length (pre @ known @ extra @ drop (dst + n) m) = length m"
    using assms(2,4,6) by simp
  ultimately show ?thesis by blast
qed

lemma take_past: "take (length xs + k) (xs @ ys) = xs @ take k ys"
  by simp

lemma drop_past: "drop (length xs + k) (xs @ ys) = drop k ys"
  by simp

lemma attr_end_ok:
  "i + 2 < 65536 \<Longrightarrow> n < 65536 \<Longrightarrow>
   attr_end \<lparr> at_type = t, at_pos = of_nat (i + 2), at_len = of_nat n \<rparr> = i + 2 + n"
  by (simp add: attr_end_def unat_word_ariths unat_of_nat)

text \<open>Both cases of a changed length end like this.\<close>

lemma replaced_ok:
  assumes "pkt_ok p (pre @ (t, w) # post)" and "length v \<le> 253"
    and "length m = 4096" and "m = encode (pre @ [(t, v)]) @ encode post @ tail"
    and "unat sz = 20 + length (encode (pre @ (t, v) # post))"
  shows "\<exists>p'. ReParse ((set_attributes p m)\<lparr> Size := sz \<rparr>) = Inr p' \<and> pkt_ok p' (pre @ (t, v) # post) \<and>
              rp_code (P p') = rp_code (P p)"
  using ReParse_ok [of "pre @ (t, v) # post" "(set_attributes p m)\<lparr> Size := sz \<rparr>" tail] pkt_okD [OF assms(1)] assms(2-5)
  by (simp add: set_attributes_def)

text \<open>The three cases of a replacement, over natural numbers.\<close>

lemma ReplaceAttribute_cases:
  assumes fa: "first_attr t p = Some \<lparr> at_type = t, at_pos = of_nat (i + 2), at_len = of_nat n \<rparr>"
    and i: "i + 2 < 65536" and n: "n \<le> 253" "length v \<le> 253" and sz: "n \<le> unat (Size p)" "unat (Size p) \<le> 65000"
  shows "length v = n \<Longrightarrow> ReplaceAttribute t v p = map_sum id (set_attributes p) (poke (i + 2) v (rp_attributes (P p)))"
    and "length v < n \<Longrightarrow> ReplaceAttribute t v p =
      try_bind (poke (i + 2) v (rp_attributes (P p))) (\<lambda>m.
      try_bind (poke (i + 1) [of_nat (length v) + 2] m) (\<lambda>m.
      try_bind (memmove (i + 2 + length v) (i + 2 + n) (unat (Size p) - (n - length v)) m) (\<lambda>m.
      ReParse ((set_attributes p m)\<lparr> Size := Size p - ucast (of_nat (n - length v) :: u32) \<rparr>))))"
    and "n < length v \<Longrightarrow> ReplaceAttribute t v p =
      try_bind (memmove (i + 2 + length v) (i + 2 + n) (unat (Size p) + (length v - n)) (rp_attributes (P p))) (\<lambda>m.
      try_bind (poke (i + 2) v m) (\<lambda>m.
      try_bind (poke (i + 1) [of_nat (length v) + 2] m) (\<lambda>m.
      ReParse ((set_attributes p m)\<lparr> Size := Size p + ucast (of_nat (length v - n) :: u32) \<rparr>))))"
proof -
  have e: "attr_end \<lparr> at_type = t, at_pos = of_nat (i + 2), at_len = of_nat n \<rparr> = i + 2 + n"
    by (rule attr_end_ok) (use i n in simp_all)
  have pos: "unat (of_nat (i + 2) :: u16) = i + 2" by (rule small_nat(1) [OF i])
  note unf = ReplaceAttribute_def fa option.case radius_attribute.select_convs Let_def e pos
  { assume "length v = n"
    then show "ReplaceAttribute t v p = map_sum id (set_attributes p) (poke (i + 2) v (rp_attributes (P p)))"
      unfolding unf by simp }
  { assume l: "length v < n"
    have "(of_nat n - of_nat (length v) :: u32) = of_nat (n - length v)" using l by (simp add: of_nat_diff)
    moreover have "unat ((ucast (Size p) :: u32) - of_nat (n - length v)) = unat (Size p) - (n - length v)"
      by (rule size_shift(1) [OF refl]) (use n sz in simp_all)
    moreover have "(of_nat (length v) :: u32) \<noteq> of_nat n" "(of_nat (length v) :: u32) < of_nat n"
      using l n by (simp_all add: small_nat)
    ultimately show "ReplaceAttribute t v p =
      try_bind (poke (i + 2) v (rp_attributes (P p))) (\<lambda>m.
      try_bind (poke (i + 1) [of_nat (length v) + 2] m) (\<lambda>m.
      try_bind (memmove (i + 2 + length v) (i + 2 + n) (unat (Size p) - (n - length v)) m) (\<lambda>m.
      ReParse ((set_attributes p m)\<lparr> Size := Size p - ucast (of_nat (n - length v) :: u32) \<rparr>))))"
      unfolding unf len_byte [OF n(2)] by simp }
  { assume l: "n < length v"
    have "(of_nat (length v) - of_nat n :: u32) = of_nat (length v - n)" using l by (simp add: of_nat_diff)
    moreover have "unat ((ucast (Size p) :: u32) + of_nat (length v - n)) = unat (Size p) + (length v - n)"
      by (rule size_shift(3) [OF refl, of 0]) (use n sz in simp_all)
    moreover have "(of_nat (length v) :: u32) \<noteq> of_nat n" "\<not> (of_nat (length v) :: u32) < of_nat n"
      using l n by (simp_all add: small_nat)
    ultimately show "ReplaceAttribute t v p =
      try_bind (memmove (i + 2 + length v) (i + 2 + n) (unat (Size p) + (length v - n)) (rp_attributes (P p))) (\<lambda>m.
      try_bind (poke (i + 2) v m) (\<lambda>m.
      try_bind (poke (i + 1) [of_nat (length v) + 2] m) (\<lambda>m.
      ReParse ((set_attributes p m)\<lparr> Size := Size p + ucast (of_nat (length v - n) :: u32) \<rparr>))))"
      unfolding unf len_byte [OF n(2)] by simp }
qed

lemma ReplaceAttribute_ok:
  assumes ok: "pkt_ok p (pre @ (t, w) # post)" and new: "t \<notin> fst ` set pre" and v: "length v \<le> 253"
    and small: "unat (Size p) \<le> 1800"
  shows "\<exists>p'. ReplaceAttribute t v p = Inr p' \<and> pkt_ok p' (pre @ (t, v) # post) \<and> rp_code (P p') = rp_code (P p)"
proof -
  define l l0 where l: "l = (of_nat (length v) + 2 :: u8)" and l0: "l0 = (of_nat (length w) + 2 :: u8)"
  let ?E = "encode pre" and ?i = "length (encode pre)"
  note d = pkt_okD [OF ok]
  obtain rest where m: "rp_attributes (P p) = ?E @ [t, l0] @ w @ encode post @ rest"
    using ok unfolding l0 by (auto simp: pkt_ok_def)
  have w: "length w \<le> 253" using d(1) by simp
  have sz: "unat (Size p) = 22 + ?i + length w + length (encode post)" using d(4) by simp
  have i: "?i + 2 < 65536" using sz small by simp
  have len: "length rest = 4096 - (?i + 2 + length w + length (encode post))" using d(3) m by simp
  have big: "length w \<le> unat (Size p)" "unat (Size p) \<le> 65000" using sz small by simp_all
  note c = ReplaceAttribute_cases [OF first_attr_ok(2) [OF ok refl new] i w v big, unfolded m, folded l]
  have byte: "poke (?i + 1) [l] (?E @ [t, l0] @ xs) = Inr (?E @ [t, l] @ xs)" for xs
    using poke_here [of "?i + 1" "?E @ [t]" "[l]" "[l0]" xs] by simp
  consider "length v = length w" | "length v < length w" | "length w < length v" by linarith
  then show ?thesis
  proof cases
    case 1
    have "poke (?i + 2) v (?E @ [t, l0] @ w @ encode post @ rest) = Inr ((?E @ [t, l0]) @ v @ encode post @ rest)"
      using poke_here [of "?i + 2" "?E @ [t, l0]" v w "encode post @ rest"] 1 by simp
    then have "ReplaceAttribute t v p = Inr (set_attributes p (?E @ [t, l] @ v @ encode post @ rest))"
      unfolding c(1) [OF 1] using 1 by (simp add: l l0)
    moreover have "pkt_ok (set_attributes p (?E @ [t, l] @ v @ encode post @ rest)) (pre @ (t, v) # post)"
      using ok 1 m unfolding l by (simp add: pkt_ok_def set_attributes_def layout_append l0)
    ultimately show ?thesis by (simp add: set_attributes_def)
  next
    case 2
    let ?k = "length w - length v"
    obtain w1 w2 where w12: "w = w1 @ w2" "length w1 = length v"
      using 2 append_take_drop_id [of "length v" w] by (metis length_take min.absorb4)
    have 1: "poke (?i + 2) v (?E @ [t, l0] @ w @ encode post @ rest) = Inr (?E @ [t, l0] @ v @ w2 @ encode post @ rest)"
      using poke_here [of "?i + 2" "?E @ [t, l0]" v w1 "w2 @ encode post @ rest"] w12(2) by (simp add: w12(1))
    obtain tail where tail: "memmove (?i + 2 + length v) (?i + 2 + length w) (unat (Size p) - ?k) (?E @ [t, l] @ v @ w2 @ encode post @ rest) =
        Inr ((?E @ [t, l] @ v) @ encode post @ tail)" "length ((?E @ [t, l] @ v) @ encode post @ tail) = 4096"
      using memmove_here [of "?i + 2 + length w" "?E @ [t, l] @ v @ w2" "encode post"
          "take (22 + ?i + length v) rest" "unat (Size p) - ?k" "?E @ [t, l] @ v @ w2 @ encode post @ rest"
          "drop (22 + ?i + length v) rest" "?i + 2 + length v" "?E @ [t, l] @ v"]
        w12 len sz small v w 2 by auto
    have "\<exists>p'. ReParse ((set_attributes p ((?E @ [t, l] @ v) @ encode post @ tail))\<lparr> Size := Size p - ucast (of_nat ?k :: u32) \<rparr>) = Inr p' \<and>
        pkt_ok p' (pre @ (t, v) # post) \<and> rp_code (P p') = rp_code (P p)"
      by (rule replaced_ok [OF ok v tail(2)]) (use size_shift(2) [OF refl, of ?k "Size p"] sz w 2 in \<open>simp_all add: l\<close>)
    then show ?thesis
      unfolding c(2) [OF 2] 1 try_bind_simps byte tail(1) .
  next
    case 3
    let ?k = "length v - length w" and ?R = "encode post @ rest"
    have k: "?k \<le> length ?R" using len small sz v 3 by simp
    have dst: "take (?i + 2 + length v) (?E @ [t, l0] @ w @ ?R) = ?E @ [t, l0] @ w @ take ?k ?R" using 3 by simp
    have m4096: "length (?E @ [t, l0] @ w @ ?R) = 4096" using d(3) m by simp
    have "\<exists>tail. memmove (?i + 2 + length v) (?i + 2 + length w) (unat (Size p) + ?k) (?E @ [t, l0] @ w @ ?R) =
        Inr ((?E @ [t, l0] @ w @ take ?k ?R) @ encode post @ tail) \<and>
        length ((?E @ [t, l0] @ w @ take ?k ?R) @ encode post @ tail) = length (?E @ [t, l0] @ w @ ?R)"
    proof (rule memmove_here [where before = "?E @ [t, l0] @ w" and extra = "take (unat (Size p) + ?k - length (encode post)) rest"
          and post = "drop (unat (Size p) + ?k - length (encode post)) rest"])
      show "length (encode post @ take (unat (Size p) + ?k - length (encode post)) rest) = unat (Size p) + ?k"
        using sz small len v 3 by simp
      show "?i + 2 + length v = length (?E @ [t, l0] @ w @ take ?k ?R)" using k 3 by simp
      show "?i + 2 + length v + (unat (Size p) + ?k) \<le> length (?E @ [t, l0] @ w @ ?R)"
        unfolding m4096 using sz small v 3 by simp
    qed (use dst in simp_all)
    then obtain tail where tail: "memmove (?i + 2 + length v) (?i + 2 + length w) (unat (Size p) + ?k) (?E @ [t, l0] @ w @ ?R) =
        Inr ((?E @ [t, l0] @ w @ take ?k ?R) @ encode post @ tail)"
      "length ((?E @ [t, l0] @ w @ take ?k ?R) @ encode post @ tail) = 4096" unfolding m4096 by blast
    have 1: "poke (?i + 2) v ((?E @ [t, l0] @ w @ take ?k ?R) @ encode post @ tail) = Inr (?E @ [t, l0] @ v @ encode post @ tail)"
      using poke_here [of "?i + 2" "?E @ [t, l0]" v "w @ take ?k ?R" "encode post @ tail"] k 3 by simp
    have "\<exists>p'. ReParse ((set_attributes p (?E @ [t, l] @ v @ encode post @ tail))\<lparr> Size := Size p + ucast (of_nat ?k :: u32) \<rparr>) = Inr p' \<and>
        pkt_ok p' (pre @ (t, v) # post) \<and> rp_code (P p') = rp_code (P p)"
      by (rule replaced_ok [OF ok v]) (use size_shift(4) [OF refl, of 0 "Size p" ?k] sz v 3 k tail(2) in \<open>simp_all add: l\<close>)
    then show ?thesis
      unfolding c(3) [OF 3] tail(1) try_bind_simps 1 byte .
  qed
qed

lemma replace_number_ok:
  assumes ok: "pkt_ok p (pre @ (t, w) # post)" and new: "t \<notin> fst ` set pre" and v: "length v = length w"
  shows "\<exists>p'. replace_number t v p = Inr p' \<and> pkt_ok p' (pre @ (t, v) # post) \<and> rp_code (P p') = rp_code (P p)"
proof -
  define l where l: "l = (of_nat (length w) + 2 :: u8)"
  let ?E = "encode pre" and ?i = "length (encode pre)"
  note d = pkt_okD [OF ok]
  obtain rest where m: "rp_attributes (P p) = ?E @ [t, l] @ w @ encode post @ rest"
    using ok unfolding l by (auto simp: pkt_ok_def)
  have "?i + 2 < 65536" using d(7) by simp
  then have pos: "unat (of_nat (?i + 2) :: u16) = ?i + 2" by (rule small_nat(1))
  have "poke (?i + 2) v (?E @ [t, l] @ w @ encode post @ rest) = Inr ((?E @ [t, l]) @ v @ encode post @ rest)"
    using poke_here [of "?i + 2" "?E @ [t, l]" v w "encode post @ rest"] v by simp
  then have "replace_number t v p = Inr (set_attributes p (?E @ [t, l] @ v @ encode post @ rest))"
    unfolding replace_number_def first_attr_ok(2) [OF ok refl new] m option.case radius_attribute.select_convs pos by simp
  moreover have "pkt_ok (set_attributes p (?E @ [t, l] @ v @ encode post @ rest)) (pre @ (t, v) # post)"
    using ok v m by (simp add: pkt_ok_def set_attributes_def layout_append l)
  ultimately show ?thesis by (simp add: set_attributes_def)
qed

lemma RemoveAttribute_ok:
  assumes ok: "pkt_ok p (pre @ (t, w) # post)" and new: "t \<notin> fst ` set pre" and small: "unat (Size p) \<le> 1800"
  shows "\<exists>p'. RemoveAttribute t p = Inr p' \<and> pkt_ok p' (pre @ post) \<and> rp_code (P p') = rp_code (P p)"
proof -
  define l where l: "l = (of_nat (length w) + 2 :: u8)"
  let ?E = "encode pre" and ?i = "length (encode pre)"
  note d = pkt_okD [OF ok]
  obtain rest where m: "rp_attributes (P p) = ?E @ [t, l] @ w @ encode post @ rest"
    using ok unfolding l by (auto simp: pkt_ok_def)
  have w: "length w \<le> 253" using d(1) by simp
  have sz: "unat (Size p) = 22 + ?i + length w + length (encode post)" using d(4) by simp
  have i: "?i + 2 < 65536" using sz small by simp
  have pos: "unat (of_nat (?i + 2) :: u16) = ?i + 2" by (rule small_nat(1) [OF i])
  have e: "attr_end \<lparr> at_type = t, at_pos = of_nat (?i + 2), at_len = of_nat (length w) \<rparr> = ?i + 2 + length w"
    by (rule attr_end_ok) (use i w in simp_all)
  have two: "(of_nat (length w) + 2 :: u32) = of_nat (length w + 2)" by simp
  have k: "length w + 2 \<le> unat (Size p)" "length w + 2 < 65536" using sz w by simp_all
  note n = size_shift(1,2) [OF refl k]
  have len: "length rest = 4096 - (?i + 2 + length w + length (encode post))" using d(3) m by simp
  have m4096: "length (?E @ [t, l] @ w @ encode post @ rest) = 4096" using d(3) m by simp
  have "\<exists>tail. memmove ?i (?i + 2 + length w) (unat (Size p) - (length w + 2)) (?E @ [t, l] @ w @ encode post @ rest) =
      Inr (?E @ encode post @ tail) \<and> length (?E @ encode post @ tail) = length (?E @ [t, l] @ w @ encode post @ rest)"
  proof (rule memmove_here [where before = "?E @ [t, l] @ w" and extra = "take (20 + ?i) rest" and post = "drop (20 + ?i) rest"])
    show "length (encode post @ take (20 + ?i) rest) = unat (Size p) - (length w + 2)" using sz small len by simp
    show "?i + (unat (Size p) - (length w + 2)) \<le> length (?E @ [t, l] @ w @ encode post @ rest)"
      unfolding m4096 using sz small by simp
  qed simp_all
  then obtain tail where tail: "memmove ?i (?i + 2 + length w) (unat (Size p) - (length w + 2)) (?E @ [t, l] @ w @ encode post @ rest) =
      Inr (?E @ encode post @ tail)" "length (?E @ encode post @ tail) = 4096" unfolding m4096 by blast
  have "\<exists>p'. ReParse ((set_attributes p (?E @ encode post @ tail))\<lparr> Size := Size p - ucast (of_nat (length w + 2) :: u32) \<rparr>) = Inr p' \<and>
      pkt_ok p' (pre @ post) \<and> rp_code (P p') = rp_code (P p)"
    using ReParse_ok [of "pre @ post" "(set_attributes p (?E @ encode post @ tail))
        \<lparr> Size := Size p - ucast (of_nat (length w + 2) :: u32) \<rparr>" tail] n(2) d sz tail(2)
    by (simp add: set_attributes_def)
  moreover have "RemoveAttribute t p =
      ReParse ((set_attributes p (?E @ encode post @ tail))\<lparr> Size := Size p - ucast (of_nat (length w + 2) :: u32) \<rparr>)"
    unfolding RemoveAttribute_def first_attr_ok(2) [OF ok refl new] m option.case radius_attribute.select_convs Let_def pos e two n(1)
    using tail(1) by simp
  ultimately show ?thesis by simp
qed

lemma AddAttribute_ok:
  assumes ok: "pkt_ok p (pre @ (t, w) # post)" and new: "t \<notin> fst ` set pre" and v: "length v \<le> 253"
    and small: "unat (Size p) \<le> 1800" and room: "length (pre @ (t, w) # post) < 25"
  shows "\<exists>p'. AddAttribute t t' v p = Inr p' \<and> pkt_ok p' (pre @ (t, w) # (t', v) # post) \<and> rp_code (P p') = rp_code (P p)"
proof -
  define l l' where l: "l = (of_nat (length w) + 2 :: u8)" and l': "l' = (of_nat (length v) + 2 :: u8)"
  let ?E = "encode pre" and ?i = "length (encode pre)" and ?R = "\<lambda>rest. encode post @ rest"
  note d = pkt_okD [OF ok]
  obtain rest where m: "rp_attributes (P p) = ?E @ [t, l] @ w @ encode post @ rest"
    using ok unfolding l by (auto simp: pkt_ok_def)
  have w: "length w \<le> 253" using d(1) by simp
  have sz: "unat (Size p) = 22 + ?i + length w + length (encode post)" using d(4) by simp
  have i: "?i + 2 < 65536" using sz small by simp
  let ?e = "?i + 2 + length w"
  have e: "attr_end \<lparr> at_type = t, at_pos = of_nat (?i + 2), at_len = of_nat (length w) \<rparr> = ?e"
    by (rule attr_end_ok) (use i w in simp_all)
  have here: "(ucast (of_nat (?i + 2) :: u16) + of_nat (length w) :: u32) = of_nat ?e"
    using i w by (simp add: word_unat_eq_iff unat_word_ariths unat_of_nat)
  have n: "unat ((ucast (Size p) :: u32) - of_nat ?e) = unat (Size p) - ?e"
    by (rule size_shift(1) [OF refl]) (use sz small in simp_all)
  have len: "length rest = 4096 - (?e + length (encode post))" using d(3) m by simp
  have m4096: "length (?E @ [t, l] @ w @ ?R rest) = 4096" using d(3) m by simp
  let ?B = "?E @ [t, l] @ w" and ?X = "take (2 + length v) (?R rest)"
  have X: "length ?X = 2 + length v" using len sz small v by simp
  have "\<exists>tail. memmove (?e + 2 + length v) ?e (unat (Size p) - ?e) (?E @ [t, l] @ w @ ?R rest) =
      Inr ((?B @ ?X) @ encode post @ tail) \<and> length ((?B @ ?X) @ encode post @ tail) = length (?E @ [t, l] @ w @ ?R rest)"
  proof (rule memmove_here [where before = ?B and extra = "take 20 rest" and post = "drop 20 rest"])
    show "length (encode post @ take 20 rest) = unat (Size p) - ?e" using sz small len by simp
    show "?e + 2 + length v = length (?B @ ?X)" using X by simp
    show "take (?e + 2 + length v) (?E @ [t, l] @ w @ ?R rest) = ?B @ ?X"
      using take_past [of ?B "2 + length v" "?R rest"] by simp
    show "?e + 2 + length v + (unat (Size p) - ?e) \<le> length (?E @ [t, l] @ w @ ?R rest)"
      unfolding m4096 using sz small v by simp
  qed simp_all
  then obtain tail where tail: "memmove (?e + 2 + length v) ?e (unat (Size p) - ?e) (?E @ [t, l] @ w @ ?R rest) =
      Inr ((?B @ ?X) @ encode post @ tail)" "length ((?B @ ?X) @ encode post @ tail) = 4096" unfolding m4096 by blast
  have poke: "poke ?e ([t', l'] @ v) ((?B @ ?X) @ encode post @ tail) = Inr (?B @ ([t', l'] @ v) @ encode post @ tail)"
    using poke_here [of ?e ?B "[t', l'] @ v" ?X "encode post @ tail"] X by simp
  have "\<exists>p'. ReParse ((set_attributes p (?B @ ([t', l'] @ v) @ encode post @ tail))\<lparr> Size := Size p + 2 + of_nat (length v) \<rparr>) = Inr p' \<and>
      pkt_ok p' (pre @ (t, w) # (t', v) # post) \<and> rp_code (P p') = rp_code (P p)"
    using ReParse_ok [of "pre @ (t, w) # (t', v) # post"
        "(set_attributes p (?B @ ([t', l'] @ v) @ encode post @ tail))\<lparr> Size := Size p + 2 + of_nat (length v) \<rparr>" tail]
      d sz small v room tail(2) X
    by (simp add: set_attributes_def l l' unat_word_ariths unat_of_nat)
  moreover have "AddAttribute t t' v p =
      ReParse ((set_attributes p (?B @ ([t', l'] @ v) @ encode post @ tail))\<lparr> Size := Size p + 2 + of_nat (length v) \<rparr>)"
    unfolding AddAttribute_def first_attr_ok(2) [OF ok refl new] m option.case radius_attribute.select_convs Let_def e here n tail(1)
      try_bind_simps l' [symmetric] poke ..
  ultimately show ?thesis by simp
qed

text \<open>What is read is the value.\<close>

lemma attr_bytes_ok:
  assumes ok: "pkt_ok p (pre @ (t, v) # post)"
  shows "attr_bytes p \<lparr> at_type = t, at_pos = of_nat (length (encode pre) + 2), at_len = of_nat (length v) \<rparr> = Inr v"
proof -
  note d = pkt_okD [OF ok]
  obtain rest where m: "rp_attributes (P p) = encode pre @ [t, of_nat (length v) + 2] @ v @ encode post @ rest"
    using ok by (auto simp: pkt_ok_def)
  have "length (encode pre) + 2 < 65536" "length v < 4294967296" using d(7) by simp_all
  then have u: "unat (of_nat (length (encode pre) + 2) :: u16) = length (encode pre) + 2" "unat (of_nat (length v) :: u32) = length v"
    by (simp_all only: small_nat)
  show ?thesis
    unfolding attr_bytes_def radius_attribute.select_convs u m by simp
qed

section \<open>The contract of a packet\<close>

text \<open>What those who build and edit packets rely on: a packet holds a list of attributes.\<close>

fun try_each :: "('a \<Rightarrow> 'p \<Rightarrow> 'e + 'p) \<Rightarrow> 'a list \<Rightarrow> 'p \<Rightarrow> 'e + 'p" where
  "try_each f [] p = Inr p"
| "try_each f (x # xs) p = try_bind (f x p) (try_each f xs)"

definition put_avp :: "u8 \<Rightarrow> bytes \<Rightarrow> avp list \<Rightarrow> avp list" where
  "put_avp t v avs = (if t \<in> fst ` set avs then replace_first t v avs else avs @ [(t, v)])"

locale attribute_store =
  fixes holds :: "'p \<Rightarrow> avp list \<Rightarrow> bool"
    and append :: "u8 \<Rightarrow> bytes \<Rightarrow> 'p \<Rightarrow> cpp_exn + 'p"
    and replace :: "u8 \<Rightarrow> bytes \<Rightarrow> 'p \<Rightarrow> cpp_exn + 'p"
    and has :: "u8 \<Rightarrow> 'p \<Rightarrow> bool"
  assumes has_law: "holds p avs \<Longrightarrow> has t p \<longleftrightarrow> t \<in> fst ` set avs"
    and append_law: "holds p avs \<Longrightarrow> length avs < 25 \<Longrightarrow> length (encode avs) \<le> 1780 \<Longrightarrow> length v \<le> 253 \<Longrightarrow>
          \<exists>p'. append t v p = Inr p' \<and> holds p' (avs @ [(t, v)])"
    and replace_law: "holds p avs \<Longrightarrow> t \<in> fst ` set avs \<Longrightarrow> length (encode avs) \<le> 1780 \<Longrightarrow> length v \<le> 253 \<Longrightarrow>
          \<exists>p'. replace t v p = Inr p' \<and> holds p' (replace_first t v avs)"
begin

lemma put_law:
  assumes "holds p avs" and "length avs < 25" and "length (encode avs) \<le> 1780" and "length v \<le> 253"
  shows "\<exists>p'. (if has t p then replace t v p else append t v p) = Inr p' \<and> holds p' (put_avp t v avs)"
  using has_law [OF assms(1)] append_law [OF assms] replace_law [OF assms(1) _ assms(3,4)] by (simp add: put_avp_def)

lemma append_each:
  assumes "holds p avs" and "avps_ok new" and "length avs + length new \<le> 25"
    and "length (encode avs) + length (encode new) \<le> 1780"
  shows "\<exists>p'. try_each (\<lambda>(t, v). append t v) new p = Inr p' \<and> holds p' (avs @ new)"
  using assms
proof (induction new arbitrary: p avs)
  case (Cons av new)
  obtain t v where av: "av = (t, v)" by (cases av)
  obtain p1 where 1: "append t v p = Inr p1" "holds p1 (avs @ [(t, v)])"
    using append_law [OF Cons.prems(1), of v t] Cons.prems(2-4) av by auto
  have "\<exists>p'. try_each (\<lambda>(t, v). append t v) new p1 = Inr p' \<and> holds p' ((avs @ [(t, v)]) @ new)"
    by (rule Cons.IH [OF 1(2)]) (use Cons.prems(2-4) av in simp_all)
  with 1(1) av show ?case by simp
qed simp

end

interpretation pk: attribute_store pkt_ok AppendAttribute ReplaceAttribute HasAttribute
proof
  fix p avs t and v :: bytes
  assume ok: "pkt_ok p avs"
  then show "HasAttribute t p \<longleftrightarrow> t \<in> fst ` set avs" by (rule HasAttribute_ok)
  { assume "length avs < 25" "length (encode avs) \<le> 1780" "length v \<le> 253"
    then show "\<exists>p'. AppendAttribute t v p = Inr p' \<and> pkt_ok p' (avs @ [(t, v)])"
      using AppendAttribute_ok [OF ok, of v t] by auto }
  assume "t \<in> fst ` set avs" "length (encode avs) \<le> 1780" "length v \<le> 253"
  then show "\<exists>p'. ReplaceAttribute t v p = Inr p' \<and> pkt_ok p' (replace_first t v avs)"
    using first_with_type [of t avs] ReplaceAttribute_ok [of p _ t _ _ v] ok pkt_okD(4) [OF ok] by fastforce
qed

section \<open>Message authenticators\<close>

definition set_authenticators :: "bytes \<Rightarrow> avp list \<Rightarrow> avp list" where
  "set_authenticators new avs = map (\<lambda>(t, v). if t = 80 then (t, new) else (t, v)) avs"

definition last_authenticator :: "bytes \<Rightarrow> avp list \<Rightarrow> bytes" where
  "last_authenticator old avs = foldl (\<lambda>o' (t, v). if t = 80 then v else o') old avs"

text \<open>Every message authenticator has the length of an MD5 digest.\<close>

definition signable :: "avp list \<Rightarrow> bool" where
  "signable avs \<longleftrightarrow> avps_ok avs \<and> (\<forall>(t, v)\<in>set avs. t = 80 \<longrightarrow> length v = 16) \<and> length (encode avs) \<le> 4096"

lemma signable_Cons:
  "signable ((t, v) # avs) \<Longrightarrow> signable avs \<and> length v \<le> 253 \<and> (t = 80 \<longrightarrow> length v = 16)"
  by (auto simp: signable_def)

lemma authenticators_known:
  "last_authenticator old (set_authenticators new avs) = (if 80 \<in> fst ` set avs then new else old)"
  "set_authenticators a (set_authenticators b avs) = set_authenticators a avs"
proof -
  have "last_authenticator new (set_authenticators new avs) = new" for avs
    by (induction avs) (auto simp: last_authenticator_def set_authenticators_def)
  then show "last_authenticator old (set_authenticators new avs) = (if 80 \<in> fst ` set avs then new else old)"
    by (induction avs) (force simp: last_authenticator_def set_authenticators_def)+
  show "set_authenticators a (set_authenticators b avs) = set_authenticators a avs"
    by (induction avs) (auto simp: set_authenticators_def split: if_splits)
qed

lemma set_authenticators_shape:
  assumes "length new = 16" and "signable avs"
  shows "layout i (set_authenticators new avs) = layout i avs" "length (encode (set_authenticators new avs)) = length (encode avs)"
    "signable (set_authenticators new avs)"
proof -
  show 1: "layout i (set_authenticators new avs) = layout i avs" for i
    using assms(2) by (induction i avs rule: layout.induct) (auto simp: set_authenticators_def assms(1) dest!: signable_Cons)
  show 2: "length (encode (set_authenticators new avs)) = length (encode avs)"
    using assms(2) by (induction avs rule: encode.induct) (auto simp: set_authenticators_def assms(1) dest!: signable_Cons)
  show "signable (set_authenticators new avs)"
    using assms 2 by (auto simp: signable_def avps_ok_def set_authenticators_def split: if_splits)
qed

text \<open>The two loops over the attributes, started behind \<open>A\<close>.\<close>

lemma poke_attribute:
  assumes "length (A :: bytes) + 2 + length old < 65536" and "length new = length old"
  shows "poke (unat (of_nat (length A + 2) :: u16)) new (A @ [t, l] @ old @ xs) = Inr (A @ [t, l] @ new @ xs)"
proof -
  have "length A + 2 < 65536" using assms(1) by simp
  then have "unat (of_nat (length A + 2) :: u16) = length (A @ [t, l])" by (simp only: small_nat) simp
  then show ?thesis using poke_here [of "length (A @ [t, l])" "A @ [t, l]" new old xs] assms(2) by simp
qed

lemma write_authenticators_ok:
  assumes "signable avs" and "length new = 16" and "length A + length (encode avs) \<le> 4096"
  shows "write_authenticators (layout (length A) avs) new (A @ encode avs @ rest) = Inr (A @ encode (set_authenticators new avs) @ rest)"
  using assms
proof (induction avs arbitrary: A)
  case (Cons av avs)
  obtain t v where av: "av = (t, v)" by (cases av)
  note s = signable_Cons [OF Cons.prems(1) [unfolded av]]
  define l where l: "l = (of_nat (length v) + 2 :: u8)"
  let ?w = "if t = 80 then new else v"
  have w: "length ?w = length v" using s Cons.prems(2) by simp
  have IH: "write_authenticators (layout (length (A @ [t, l] @ ?w)) avs) new ((A @ [t, l] @ ?w) @ encode avs @ rest) =
      Inr ((A @ [t, l] @ ?w) @ encode (set_authenticators new avs) @ rest)"
    by (rule Cons.IH) (use s Cons.prems(2,3) w av in simp_all)
  have "poke (unat (of_nat (length A + 2) :: u16)) new (A @ [t, l] @ v @ encode avs @ rest) = Inr (A @ [t, l] @ new @ encode avs @ rest)"
    if "t = 80" by (rule poke_attribute) (use that s Cons.prems(2,3) av in simp_all)
  moreover have "t = 80 \<Longrightarrow> l = 18" using s l by simp
  ultimately show ?case
    using IH w Cons.prems(2) s by (auto simp: av set_authenticators_def l [symmetric] add.assoc)
qed (simp add: set_authenticators_def)

lemma zero_authenticators_ok:
  assumes "signable avs" and "length A = length B" and "length A + length (encode avs) \<le> 4096"
  shows "zero_authenticators (layout (length A) avs) (B @ encode avs @ rest) old (A @ encode avs @ rest) =
         Inr (last_authenticator old avs, A @ encode (set_authenticators (replicate 16 0) avs) @ rest)"
  using assms
proof (induction avs arbitrary: A B old)
  case (Cons av avs)
  obtain t v where av: "av = (t, v)" by (cases av)
  note s = signable_Cons [OF Cons.prems(1) [unfolded av]]
  define l where l: "l = (of_nat (length v) + 2 :: u8)"
  let ?w = "if t = 80 then replicate 16 0 else v"
  have w: "length ?w = length v" using s by simp
  have IH: "zero_authenticators (layout (length (A @ [t, l] @ ?w)) avs) ((B @ [t, l] @ v) @ encode avs @ rest) old
        ((A @ [t, l] @ ?w) @ encode avs @ rest) =
      Inr (last_authenticator old avs, (A @ [t, l] @ ?w) @ encode (set_authenticators (replicate 16 0) avs) @ rest)" for old
    by (rule Cons.IH) (use s Cons.prems(2,3) w av in simp_all)
  have poke: "poke (unat (of_nat (length A + 2) :: u16)) (replicate 16 0) (A @ [t, l] @ v @ encode avs @ rest) =
      Inr (A @ [t, l] @ replicate 16 0 @ encode avs @ rest)"
    if "t = 80" by (rule poke_attribute) (use that s Cons.prems(3) av in simp_all)
  have pos: "unat (2 + of_nat (length A) :: u16) = length A + 2"
    using small_nat(1) [of "length A + 2"] Cons.prems(3) av by simp
  have l18: "t = 80 \<Longrightarrow> l = 18" using s l by simp
  have peek: "peek (length A + 2) 16 (B @ [t, l] @ v @ encode avs @ rest) = Inr v" if "t = 80"
    using that s Cons.prems(2) by (simp add: peek_def)
  show ?case
    using IH w poke peek s l18 by (auto simp: av set_authenticators_def last_authenticator_def l [symmetric] add.assoc pos)
qed (simp add: set_authenticators_def last_authenticator_def)

lemma authenticators_ok:
  assumes ok: "pkt_ok p avs" and s: "signable avs" and m: "rp_attributes (P p) = encode avs @ rest"
  shows "authenticators hmac secret p = Inr (last_authenticator (replicate 16 0) avs,
    hmac secret (take (unat (Size p)) (raw_bytes ((P p)\<lparr> rp_attributes := encode (set_authenticators (replicate 16 0) avs) @ rest \<rparr>))))"
proof -
  have "unat (Size p) \<le> 4116" using pkt_okD(4,7) [OF ok] by simp
  then show ?thesis
    using zero_authenticators_ok [of avs "[]" "[]" rest "replicate 16 0"] s m
    by (simp add: authenticators_def pkt_okD(5) [OF ok] signed_part_def signable_def)
qed

section \<open>Properties of packets\<close>

lemma make_packet_bytes:
  assumes "avps_ok avs" and "length avs \<le> 25" and "length (encode avs) < 4096" and "length auth = 16"
  shows "\<exists>p. make_packet ([c, i] @ be16 (of_nat (20 + length (encode avs))) @ auth @ encode avs) = Inr p \<and>
             Valid p \<and> rp_code (P p) = c \<and> pkt_ok p avs \<and>
             (\<forall>pre t v post. avs = pre @ (t, v) # post \<and> t \<notin> fst ` set pre \<longrightarrow>
                (\<exists>a. first_attr t p = Some a \<and> attr_bytes p a = Inr v))"
proof -
  let ?n = "20 + length (encode avs)" and ?sz = "of_nat (20 + length (encode avs)) :: u16"
  let ?bs = "[c, i] @ be16 ?sz @ auth @ encode avs"
  let ?rest = "replicate (4096 - length (encode avs)) (0 :: u8)"
  define raw where "raw = \<lparr> rp_code = c, rp_identifier = i, rp_rawlen = ?sz, rp_authenticator = auth, rp_attributes = encode avs @ ?rest \<rparr>"
  have sz: "unat ?sz = ?n" by (rule small_nat(1)) (use assms(3) in simp)
  have fill: "drop (length ?bs) (raw_bytes (zero_packet 1)) = ?rest"
    using assms(4) drop_past [of "[1, 0, 0, 0 :: u8] @ replicate 16 0" "length (encode avs)" "replicate 4096 0"]
    by (simp add: be16_def raw_bytes_def zero_packet_def)
  have join16: "push_bit 8 (ucast (ucast (drop_bit 8 x) :: u8)) OR ucast (ucast x :: u8) = (x :: u16)" for x
    by (rule bit_word_eqI) (auto simp: bit_simps)
  have "raw_of_bytes (?bs @ ?rest) = raw"
    using assms(4) by (simp add: raw_of_bytes_def raw_def be16_def join16)
  then have "make_packet ?bs = reparse \<lparr> Attrs = [], P = raw, Size = ?sz, Valid = False \<rparr>"
    using assms(3,4) fill by (simp add: make_packet_def Let_def be16_def raw_def)
  moreover have "unat (?sz - 20) = length (encode avs)"
    using sz by (subst unat_sub_if_size) (simp add: word_size)
  ultimately have mp: "make_packet ?bs = Inr \<lparr> Attrs = layout 0 avs, P = raw, Size = ?sz, Valid = True \<rparr>"
    using assms(1,2) by (simp add: reparse_def raw_def parse_encode)
  have ok: "pkt_ok \<lparr> Attrs = layout 0 avs, P = raw, Size = ?sz, Valid = True \<rparr> avs"
    using assms sz by (simp add: pkt_ok_def raw_def)
  have "\<forall>pre t v post. avs = pre @ (t, v) # post \<and> t \<notin> fst ` set pre \<longrightarrow>
      (\<exists>a. first_attr t \<lparr> Attrs = layout 0 avs, P = raw, Size = ?sz, Valid = True \<rparr> = Some a \<and>
           attr_bytes \<lparr> Attrs = layout 0 avs, P = raw, Size = ?sz, Valid = True \<rparr> a = Inr v)"
    using first_attr_ok(2) [OF ok] attr_bytes_ok ok by blast
  with mp ok show ?thesis by (intro exI [of _ "\<lparr> Attrs = layout 0 avs, P = raw, Size = ?sz, Valid = True \<rparr>"]) (simp add: raw_def)
qed

text \<open>
  A packet of a header with its length and up to 25 encoded attributes is recognised as valid, and it holds
  exactly these attributes: the first of each type is read back byte for byte.
\<close>

theorem make_packet_encoded:
  assumes "avps_ok avs" and "length avs \<le> 25" and "length (encode avs) < 4096" and "length auth = 16"
  shows "\<exists>p. make_packet ([c, i] @ be16 (of_nat (20 + length (encode avs))) @ auth @ encode avs) = Inr p \<and>
             Valid p \<and> rp_code (P p) = c \<and> pkt_ok p avs \<and>
             (\<forall>pre t v post. avs = pre @ (t, v) # post \<and> t \<notin> fst ` set pre \<longrightarrow>
                (\<exists>a. first_attr t p = Some a \<and> attr_bytes p a = Inr v))"
  using make_packet_bytes [OF assms] .

lemma two_attributes:
  "avps_ok [(1, [97, 98]), (44, [49])]" "length (encode [(1, [97, 98 :: u8]), (44, [49])]) < 4096"
  by simp_all

theorem make_packet_encoded_witness:
  "\<exists>p. make_packet ([1, 7, 0, 27] @ replicate 16 0 @ [1, 4, 97, 98, 44, 3, 49]) = Inr p \<and> Valid p \<and>
       pkt_ok p [(1, [97, 98]), (44, [49])]"
  using make_packet_encoded [of "[(1, [97, 98]), (44, [49])]" "replicate 16 0" 1 7] two_attributes
  by (auto simp: be16_def)

text \<open>
  C32: editing a packet edits its list of attributes: setting an attribute replaces the first of its type or
  appends it, and removing deletes the first of its type, wherever it stands and whatever the lengths are, for
  well-formed packets of at most 1800 bytes with fewer than 25 attributes, and values of at most 253 bytes.
\<close>

theorem packet_edits:
  assumes "pkt_ok p avs" and "unat (Size p) \<le> 1800" and "length avs < 25" and "length v \<le> 253"
  shows "(\<exists>p'. ReplaceOrAdd t v p = Inr p' \<and> pkt_ok p' (put_avp t v avs)) \<and>
         (\<exists>p'. RemoveAttribute t p = Inr p' \<and> pkt_ok p' (remove_first t avs))"
proof -
  have small: "length (encode avs) \<le> 1780" using assms(2) pkt_okD(4) [OF assms(1)] by simp
  have "\<exists>p'. RemoveAttribute t p = Inr p' \<and> pkt_ok p' (remove_first t avs)"
  proof (cases "t \<in> fst ` set avs")
    case True
    obtain pre w post where avs: "avs = pre @ (t, w) # post" "t \<notin> fst ` set pre" using first_with_type [OF True] by blast
    show ?thesis
      using RemoveAttribute_ok [OF assms(1) [unfolded avs(1)] avs(2) assms(2)] unfolding avs(1) edit_first(2) [OF avs(2)] by blast
  next
    case False
    then show ?thesis using first_attr_ok(1) [OF assms(1)] assms(1) by (simp add: RemoveAttribute_def)
  qed
  with pk.put_law [OF assms(1,3) small assms(4)] show ?thesis by (simp add: ReplaceOrAdd_def)
qed

theorem packet_edits_witness:
  "\<exists>p p'. make_packet ([1, 7, 0, 27] @ replicate 16 0 @ [1, 4, 97, 98, 44, 3, 49]) = Inr p \<and>
          ReplaceOrAdd 1 [120] p = Inr p' \<and> pkt_ok p' [(1, [120]), (44, [49])]"
proof -
  obtain p where p: "make_packet ([1, 7, 0, 27] @ replicate 16 0 @ [1, 4, 97, 98, 44, 3, 49]) = Inr p"
    "pkt_ok p [(1, [97, 98]), (44, [49])]"
    using make_packet_bytes [of "[(1, [97, 98]), (44, [49])]" "replicate 16 0" 1 7] two_attributes by (auto simp: be16_def)
  have "unat (Size p) \<le> 1800" using pkt_okD(4) [OF p(2)] by simp
  with packet_edits [OF p(2), of "[120]" 1] p(1) show ?thesis by (auto simp: put_avp_def)
qed

text \<open>
  After the message authenticator of an access request has been computed with a secret, verifying it with
  that secret succeeds; the other attributes, and the types of all of them, are as before.
\<close>

theorem authenticator_verifies:
  assumes "pkt_ok p avs" and "signable avs" and "80 \<in> fst ` set avs" and "rp_code (P p) = 1"
    and "\<forall>s b. length (hmac s b) = 16"
  shows "\<exists>p' avs'. ComputeMessageAuthenticator hmac secret p = Inr p' \<and> VerifyMessageAuthenticator hmac secret p' = Inr True \<and>
           pkt_ok p' avs' \<and> map fst avs' = map fst avs \<and>
           filter (\<lambda>av. fst av \<noteq> 80) avs' = filter (\<lambda>av. fst av \<noteq> 80) avs"
proof -
  obtain rest where m: "rp_attributes (P p) = encode avs @ rest" using assms(1) by (auto simp: pkt_ok_def)
  note au = authenticators_ok [OF assms(1,2) m, of hmac secret]
  define new where "new = hmac secret (take (unat (Size p))
      (raw_bytes ((P p)\<lparr> rp_attributes := encode (set_authenticators (replicate 16 0) avs) @ rest \<rparr>)))"
  note au = au [folded new_def]
  show ?thesis
  proof (cases "last_authenticator (replicate 16 0) avs = new")
    case True
    then have "ComputeMessageAuthenticator hmac secret p = Inr p" "VerifyMessageAuthenticator hmac secret p = Inr True"
      using au assms(4) by (simp_all add: ComputeMessageAuthenticator_def VerifyMessageAuthenticator_def)
    with assms(1) show ?thesis by blast
  next
    case False
    have new: "length new = 16" unfolding new_def using assms(5) by blast
    note sh = set_authenticators_shape [OF new assms(2)]
    let ?avs = "set_authenticators new avs" and ?p = "set_attributes p (encode (set_authenticators new avs) @ rest)"
    have c: "ComputeMessageAuthenticator hmac secret p = Inr ?p"
      using au False assms(2,4) new m pkt_okD(5) [OF assms(1)] write_authenticators_ok [of avs new "[]" rest]
      by (simp add: ComputeMessageAuthenticator_def signable_def)
    have ok: "pkt_ok ?p ?avs"
      using assms(1) m sh by (auto simp: pkt_ok_def set_attributes_def signable_def set_authenticators_def)
    have "authenticators hmac secret ?p = Inr (new, new)"
      using authenticators_ok [OF ok sh(3), of rest hmac secret] assms(3)
      by (simp add: set_attributes_def authenticators_known new_def)
    then have v: "VerifyMessageAuthenticator hmac secret ?p = Inr True"
      using assms(4) by (simp add: VerifyMessageAuthenticator_def set_attributes_def)
    have "map fst ?avs = map fst avs" "filter (\<lambda>av. fst av \<noteq> 80) ?avs = filter (\<lambda>av. fst av \<noteq> 80) avs"
      by (induction avs) (auto simp: set_authenticators_def split: if_splits)
    with c v ok show ?thesis by blast
  qed
qed

theorem authenticator_verifies_witness:
  "\<exists>p p'. make_packet ([1, 7, 0, 38] @ replicate 16 0 @ [80, 18] @ replicate 16 0) = Inr p \<and>
     ComputeMessageAuthenticator (\<lambda>_ _. replicate 16 5) ''secret'' p = Inr p' \<and>
     VerifyMessageAuthenticator (\<lambda>_ _. replicate 16 5) ''secret'' p' = Inr True"
proof -
  obtain p where p: "make_packet ([1, 7, 0, 38] @ replicate 16 0 @ [80, 18] @ replicate 16 0) = Inr p"
    "pkt_ok p [(80, replicate 16 0)]" "rp_code (P p) = 1"
    using make_packet_bytes [of "[(80, replicate 16 0)]" "replicate 16 0" 1 7] by (auto simp: be16_def)
  have "signable [(80, replicate 16 0)]" by (simp add: signable_def)
  with authenticator_verifies [OF p(2) _ _ p(3), of "\<lambda>_ _. replicate 16 5" "''secret''"] p(1) show ?thesis by auto
qed

lemma parse_loop_bounds:
  assumes "parse_loop x 0 buf sz pos attrs = Inr (True, attrs')" and "length buf \<le> 4096" and "a \<in> set attrs'"
  shows "a \<in> set attrs \<or> at_len a = -1 \<or> unat (at_pos a) + unat (at_len a) \<le> unat sz + 2"
  using assms
proof (induction x arbitrary: pos attrs)
  case (Suc x)
  define b where "b = \<lparr> at_type = buf ! unat pos, at_pos = ucast ((ucast pos :: u32) + 2), at_len = (ucast (buf ! (unat pos + 1)) :: u32) - 2 \<rparr>"
  show ?case
  proof (cases "pos < sz")
    case True
    have read: "unat pos + 1 < length buf" using Suc.prems(1) True by (auto split: if_splits)
    let ?l = "buf ! (unat pos + 1)"
    have fits: "(ucast pos :: u32) + at_len b \<le> ucast sz" and l: "?l \<noteq> 0"
      using Suc.prems(1) True by (auto simp: b_def Let_def split: if_splits)
    have rest: "parse_loop x 0 buf sz (pos + ucast ?l) (attrs @ [b]) = Inr (True, attrs')"
      using Suc.prems(1) True by (auto simp: b_def Let_def split: if_splits)
    have ib: "at_len b = -1 \<or> unat (at_pos b) + unat (at_len b) \<le> unat sz + 2"
    proof (cases "unat ?l = 1")
      case True
      then have "?l = 1" by (simp add: word_unat_eq_iff)
      then show ?thesis by (simp add: b_def)
    next
      case False
      then have "2 \<le> unat ?l" using l by (simp add: word_unat_eq_iff)
      then have n: "unat (at_len b) = unat ?l - 2" by (simp add: b_def unat_sub_if_size word_size)
      have "unat ?l < 256" using unsigned_less [of ?l, where 'a = nat] by simp
      then have "unat ((ucast pos :: u32) + at_len b) = unat pos + (unat ?l - 2)"
        using n read Suc.prems(2) by (simp add: unat_word_ariths)
      then have "unat pos + (unat ?l - 2) \<le> unat sz" using fits by (simp add: word_le_nat_alt)
      moreover have "unat (at_pos b) = unat pos + 2"
        using read Suc.prems(2) by (simp add: b_def unsigned_ucast_eq take_bit_eq_mod unat_word_ariths)
      ultimately show ?thesis using n by simp
    qed
    from Suc.IH [OF rest Suc.prems(2,3)] ib show ?thesis by auto
  qed (use Suc.prems in simp)
qed simp

text \<open>
  C33: in a valid packet the value of an attribute ends at most two bytes behind the packet, because the test
  leaves out the two bytes of its head; the exception is an attribute whose length byte is 1: it is accepted with
  a length of four gigabytes, and reading it is undefined.
\<close>

theorem parsed_attributes_bounds:
  assumes "make_packet bs = Inr p" and "Valid p" and "a \<in> set (Attrs p)"
  shows "unat (at_pos a) + unat (at_len a) \<le> unat (Size p - 20) + 2 \<or>
         (at_len a = -1 \<and> attr_bytes p a = Inl (Undefined_Behaviour ''read behind the attributes''))"
proof -
  define q where "q = \<lparr> Attrs = [], P = raw_of_bytes (bs @ drop (length bs) (raw_bytes (zero_packet 1))), Size = of_nat (length bs), Valid = False \<rparr>"
  have sz: "length bs < 4116" and rp: "reparse q = Inr p"
    using assms(1,2) by (auto simp: make_packet_def Let_def q_def split: if_splits)
  have len: "length (rp_attributes (P q)) = 4096"
    using sz by (simp add: q_def raw_of_bytes_def raw_bytes_def zero_packet_def)
  obtain ok attrs where r: "ParseRadius 0 (rp_attributes (P q)) (Size q - 20) = Inr (ok, attrs)" "p = q\<lparr> Valid := ok, Attrs := attrs \<rparr>"
    using rp by (cases "ParseRadius 0 (rp_attributes (P q)) (Size q - 20)") (auto simp: reparse_def)
  then have a: "parse_loop 25 0 (rp_attributes (P q)) (Size q - 20) 0 [] = Inr (True, attrs)"
    and p: "p = q\<lparr> Valid := True, Attrs := attrs \<rparr>"
    using assms(2) by (simp_all add: ParseRadius_def del: parse_loop.simps)
  from parse_loop_bounds [OF a _ _] len assms(3) p
  have "at_len a = -1 \<or> unat (at_pos a) + unat (at_len a) \<le> unat (Size p - 20) + 2" by fastforce
  moreover have "unat (-1 :: u32) = 4294967295" by (simp add: unsigned_minus_1_eq_mask mask_eq_exp_minus_1)
  then have "attr_bytes p a = Inl (Undefined_Behaviour ''read behind the attributes'')" if "at_len a = -1"
    using that len p by (simp add: attr_bytes_def)
  ultimately show ?thesis by blast
qed

lemma parse_loop_step:
  assumes "pos < sz" and "unat pos + 1 < length buf" and "buf ! (unat pos + 1) = l" and "l \<noteq> 0"
    and "(ucast pos :: u32) + (ucast l - 2) \<le> ucast sz"
  shows "parse_loop (Suc x) offset buf sz pos attrs =
         parse_loop x offset buf sz (pos + ucast l)
           (attrs @ [\<lparr> at_type = buf ! unat pos, at_pos = ucast ((ucast pos :: u32) + 2 + offset), at_len = ucast l - 2 \<rparr>])"
  using assms by simp

lemma parse_loop_done: "\<not> pos < sz \<Longrightarrow> parse_loop x offset buf sz pos attrs = Inr (True, attrs)"
  by (cases x) simp_all

lemma parse_short_attribute:
  "ParseRadius 0 ([1, 3, 97, 33, 1, 3, 9] @ rest) 7 =
   Inr (True, [\<lparr> at_type = 1, at_pos = 2, at_len = 1 \<rparr>, \<lparr> at_type = 33, at_pos = 5, at_len = -1 \<rparr>, \<lparr> at_type = 1, at_pos = 6, at_len = 1 \<rparr>])"
proof -
  let ?buf = "[1, 3, 97, 33, 1, 3, 9] @ rest"
  have "parse_loop (Suc (Suc (Suc 22))) 0 ?buf 7 0 [] =
        Inr (True, [\<lparr> at_type = 1, at_pos = 2, at_len = 1 \<rparr>, \<lparr> at_type = 33, at_pos = 5, at_len = -1 \<rparr>, \<lparr> at_type = 1, at_pos = 6, at_len = 1 \<rparr>])"
    apply (subst parse_loop_step [where l = 3], simp, simp, simp, simp, simp)
    apply (subst parse_loop_step [where l = 1], simp, simp, simp, simp, simp)
    apply (subst parse_loop_step [where l = 3], simp, simp, simp, simp, simp)
    apply (subst parse_loop_done, simp, simp)
    done
  then show ?thesis by (simp add: ParseRadius_def del: parse_loop.simps)
qed

theorem parsed_attributes_bounds_witness:
  "\<exists>p a. make_packet ([1, 7, 0, 27] @ replicate 16 0 @ [1, 3, 97, 33, 1, 3, 9]) = Inr p \<and> Valid p \<and> a \<in> set (Attrs p) \<and>
         at_len a = -1 \<and> attr_bytes p a = Inl (Undefined_Behaviour ''read behind the attributes'')"
proof -
  let ?bs = "[1, 7, 0, 27] @ replicate 16 0 @ [1, 3, 97, 33, 1, 3, 9]" and ?a = "\<lparr> at_type = 33, at_pos = 5, at_len = -1 \<rparr>"
  have raw: "rp_attributes (raw_of_bytes ([1, 7, 0, 27] @ replicate 16 0 @ [1, 3, 97, 33, 1, 3, 9] @ xs)) = [1, 3, 97, 33, 1, 3, 9] @ xs"
    "rp_rawlen (raw_of_bytes ([1, 7, 0, 27] @ replicate 16 0 @ [1, 3, 97, 33, 1, 3, 9] @ xs)) = 27" for xs
    by (simp_all add: raw_of_bytes_def drop_past)
  obtain p where p: "make_packet ?bs = Inr p" "Valid p" "?a \<in> set (Attrs p)"
    by (simp add: make_packet_def Let_def reparse_def raw parse_short_attribute del: append.simps)
  from parsed_attributes_bounds [OF p] have "attr_bytes p ?a = Inl (Undefined_Behaviour ''read behind the attributes'')"
    using unsigned_less [of "Size p - 20", where 'a = nat] by (simp add: unsigned_minus_1_eq_mask mask_eq_exp_minus_1)
  with p show ?thesis by (intro exI [of _ p] exI [of _ ?a]) simp
qed

end
