(* ===== verification/GW_RadiusConfig.thy ===== *)
theory GW_RadiusConfig
  imports GW_Rest
begin

text \<open>
  The configuration of the RADIUS proxy: pools of servers, their JSON form
  (\<^verbatim>\<open>src/RESTObjects/RESTAPI_GWobjects.cpp\<close>) and the requests that set it
  (\<^verbatim>\<open>src/RESTAPI/RESTAPI_radiusProxyConfig_handler.cpp\<close>). A JSON reader here keeps what it had read of a list when
  an element of it raises, and a list of objects is read behind what is there.
\<close>

section \<open>Pools\<close>

record radius_server =
  rs_name :: string
  rs_ip :: string
  rs_port :: u16
  rs_weight :: u64
  rs_secret :: string
  rs_certificate :: string
  rs_radsec :: bool
  rs_allowSelfSigned :: bool
  rs_radsecPort :: u16
  rs_radsecSecret :: string
  rs_radsecKey :: string
  rs_radsecCert :: string
  rs_radsecCacerts :: "string list"
  rs_radsecRealms :: "string list"
  rs_ignore :: bool

record radius_servers =
  rc_strategy :: string
  rc_monitor :: bool
  rc_monitorMethod :: string
  rc_methodParameters :: "string list"
  rc_servers :: "radius_server list"

record radius_pool =
  pool_name :: string
  pool_description :: string
  pool_authConfig :: radius_servers
  pool_acctConfig :: radius_servers
  pool_coaConfig :: radius_servers
  pool_useByDefault :: bool
  pool_radsecPoolType :: string
  pool_poolProxyIp :: string
  pool_radsecKeepAlive :: u64
  pool_enabled :: bool

definition new_server :: radius_server where
  "new_server =
     \<lparr> rs_name = [], rs_ip = [], rs_port = 0, rs_weight = 0, rs_secret = [], rs_certificate = [], rs_radsec = False,
       rs_allowSelfSigned = False, rs_radsecPort = 2083, rs_radsecSecret = [], rs_radsecKey = [], rs_radsecCert = [],
       rs_radsecCacerts = [], rs_radsecRealms = [], rs_ignore = False \<rparr>"

definition new_servers :: radius_servers where
  "new_servers = \<lparr> rc_strategy = [], rc_monitor = False, rc_monitorMethod = [], rc_methodParameters = [], rc_servers = [] \<rparr>"

definition new_pool :: radius_pool where
  "new_pool =
     \<lparr> pool_name = [], pool_description = [], pool_authConfig = new_servers, pool_acctConfig = new_servers, pool_coaConfig = new_servers,
       pool_useByDefault = False, pool_radsecPoolType = [], pool_poolProxyIp = [], pool_radsecKeepAlive = 25, pool_enabled = True \<rparr>"

datatype endpoint_type = Endpoint_generic | Endpoint_radsec | Endpoint_globalreach | Endpoint_orion | Endpoint_unknown

definition RadiusEndpointType :: "string \<Rightarrow> endpoint_type" where
  "RadiusEndpointType t =
     (if t = ''generic'' then Endpoint_generic
      else if t = ''radsec'' then Endpoint_radsec
      else if t = ''globalreach'' then Endpoint_globalreach
      else if t = ''orion'' then Endpoint_orion
      else Endpoint_unknown)"

section \<open>Readers\<close>

text \<open>A reader answers whether it went through, with the object as far as it was read.\<close>

type_synonym 'a partial_reader = "'a \<Rightarrow> bool \<times> 'a"

definition whole :: "'a reader \<Rightarrow> 'a partial_reader" where
  "whole r x = (case r x of Inl _ \<Rightarrow> (False, x) | Inr y \<Rightarrow> (True, y))"

fun read_all :: "'a partial_reader list \<Rightarrow> 'a partial_reader" where
  "read_all [] x = (True, x)"
| "read_all (r # rs) x = (case r x of (True, y) \<Rightarrow> read_all rs y | (False, y) \<Rightarrow> (False, y))"

definition u16_from_json :: "poco \<Rightarrow> jobject \<Rightarrow> string \<Rightarrow> (u16 \<Rightarrow> 'a \<Rightarrow> 'a) \<Rightarrow> 'a reader" where
  "u16_from_json p obj field upd =
     when_present obj field (\<lambda>j. try_bind (p_u64 p j) (\<lambda>v. if v \<le> 65535 then Inr (ucast v) else Inl (Poco_Exception ''RangeException''))) upd"

definition u16_to_json :: "string \<Rightarrow> u16 \<Rightarrow> jobject \<Rightarrow> jobject" where
  "u16_to_json field u = obj_set field (JInt (uint u))"

definition objs_to_json :: "string \<Rightarrow> jobject list \<Rightarrow> jobject \<Rightarrow> jobject" where
  "objs_to_json field os = obj_set field (JArr (map JObj os))"

fun push_strings :: "poco \<Rightarrow> json list \<Rightarrow> string list partial_reader" where
  "push_strings p [] xs = (True, xs)"
| "push_strings p (j # js) xs = (case p_string p j of Inl _ \<Rightarrow> (False, xs) | Inr s \<Rightarrow> push_strings p js (xs @ [s]))"

fun push_objects :: "(jobject \<Rightarrow> 'b) \<Rightarrow> json list \<Rightarrow> 'b list partial_reader" where
  "push_objects item [] xs = (True, xs)"
| "push_objects item (j # js) xs = (case extract_object j of Inl _ \<Rightarrow> (False, xs) | Inr obj \<Rightarrow> push_objects item js (xs @ [item obj]))"

definition list_from_json :: "poco \<Rightarrow> jobject \<Rightarrow> string \<Rightarrow> (string list \<Rightarrow> 'a \<Rightarrow> 'a) \<Rightarrow> 'a partial_reader" where
  "list_from_json p obj field upd x =
     (if j_isArray obj field then map_prod id (\<lambda>v. upd v x) (push_strings p (j_getArray obj field) []) else (True, x))"

definition objs_from_json ::
    "(jobject \<Rightarrow> 'b) \<Rightarrow> jobject \<Rightarrow> string \<Rightarrow> ('a \<Rightarrow> 'b list) \<Rightarrow> ('b list \<Rightarrow> 'a \<Rightarrow> 'a) \<Rightarrow> 'a partial_reader" where
  "objs_from_json item obj field get upd x =
     (if j_isArray obj field then map_prod id (\<lambda>v. upd v x) (push_objects item (j_getArray obj field) (get x)) else (True, x))"

section \<open>Conversions\<close>

definition RadiusProxyServerEntry_to_json :: "radius_server \<Rightarrow> jobject" where
  "RadiusProxyServerEntry_to_json s =
     foldl (\<lambda>o' f. f o') []
       [str_to_json ''name'' (rs_name s), str_to_json ''ip'' (rs_ip s), u16_to_json ''port'' (rs_port s),
        u64_to_json ''weight'' (rs_weight s), str_to_json ''secret'' (rs_secret s),
        str_to_json ''certificate'' (rs_certificate s), bool_to_json ''radsec'' (rs_radsec s),
        bool_to_json ''allowSelfSigned'' (rs_allowSelfSigned s), u16_to_json ''radsecPort'' (rs_radsecPort s),
        str_to_json ''radsecSecret'' (rs_radsecSecret s), strs_to_json ''radsecCacerts'' (rs_radsecCacerts s),
        str_to_json ''radsecCert'' (rs_radsecCert s), str_to_json ''radsecKey'' (rs_radsecKey s),
        strs_to_json ''radsecRealms'' (rs_radsecRealms s), bool_to_json ''ignore'' (rs_ignore s)]"

definition RadiusProxyServerEntry_from_json :: "poco \<Rightarrow> jobject \<Rightarrow> radius_server partial_reader" where
  "RadiusProxyServerEntry_from_json p obj =
     read_all
       [whole (str_from_json p obj ''name'' (\<lambda>v s. s\<lparr> rs_name := v \<rparr>)),
        whole (str_from_json p obj ''ip'' (\<lambda>v s. s\<lparr> rs_ip := v \<rparr>)),
        whole (u16_from_json p obj ''port'' (\<lambda>v s. s\<lparr> rs_port := v \<rparr>)),
        whole (u64_from_json p obj ''weight'' (\<lambda>v s. s\<lparr> rs_weight := v \<rparr>)),
        whole (str_from_json p obj ''secret'' (\<lambda>v s. s\<lparr> rs_secret := v \<rparr>)),
        whole (str_from_json p obj ''certificate'' (\<lambda>v s. s\<lparr> rs_certificate := v \<rparr>)),
        whole (bool_from_json p obj ''radsec'' (\<lambda>v s. s\<lparr> rs_radsec := v \<rparr>)),
        whole (bool_from_json p obj ''allowSelfSigned'' (\<lambda>v s. s\<lparr> rs_allowSelfSigned := v \<rparr>)),
        whole (str_from_json p obj ''radsecSecret'' (\<lambda>v s. s\<lparr> rs_radsecSecret := v \<rparr>)),
        whole (u16_from_json p obj ''radsecPort'' (\<lambda>v s. s\<lparr> rs_radsecPort := v \<rparr>)),
        list_from_json p obj ''radsecCacerts'' (\<lambda>v s. s\<lparr> rs_radsecCacerts := v \<rparr>),
        whole (str_from_json p obj ''radsecCert'' (\<lambda>v s. s\<lparr> rs_radsecCert := v \<rparr>)),
        whole (str_from_json p obj ''radsecKey'' (\<lambda>v s. s\<lparr> rs_radsecKey := v \<rparr>)),
        list_from_json p obj ''radsecRealms'' (\<lambda>v s. s\<lparr> rs_radsecRealms := v \<rparr>),
        whole (bool_from_json p obj ''ignore'' (\<lambda>v s. s\<lparr> rs_ignore := v \<rparr>))]"

definition RadiusProxyServerConfig_to_json :: "radius_servers \<Rightarrow> jobject" where
  "RadiusProxyServerConfig_to_json c =
     foldl (\<lambda>o' f. f o') []
       [str_to_json ''strategy'' (rc_strategy c), bool_to_json ''monitor'' (rc_monitor c),
        str_to_json ''monitorMethod'' (rc_monitorMethod c), strs_to_json ''methodParameters'' (rc_methodParameters c),
        objs_to_json ''servers'' (map RadiusProxyServerEntry_to_json (rc_servers c))]"

definition RadiusProxyServerConfig_from_json :: "poco \<Rightarrow> jobject \<Rightarrow> radius_servers partial_reader" where
  "RadiusProxyServerConfig_from_json p obj =
     read_all
       [whole (str_from_json p obj ''strategy'' (\<lambda>v c. c\<lparr> rc_strategy := v \<rparr>)),
        whole (bool_from_json p obj ''monitor'' (\<lambda>v c. c\<lparr> rc_monitor := v \<rparr>)),
        whole (str_from_json p obj ''monitorMethod'' (\<lambda>v c. c\<lparr> rc_monitorMethod := v \<rparr>)),
        list_from_json p obj ''methodParameters'' (\<lambda>v c. c\<lparr> rc_methodParameters := v \<rparr>),
        objs_from_json (\<lambda>o'. snd (RadiusProxyServerEntry_from_json p o' new_server)) obj ''servers''
          rc_servers (\<lambda>v c. c\<lparr> rc_servers := v \<rparr>)]"

definition RadiusProxyPool_to_json :: "radius_pool \<Rightarrow> jobject" where
  "RadiusProxyPool_to_json r =
     foldl (\<lambda>o' f. f o') []
       [str_to_json ''name'' (pool_name r), str_to_json ''description'' (pool_description r),
        sub_to_json ''authConfig'' (RadiusProxyServerConfig_to_json (pool_authConfig r)),
        sub_to_json ''acctConfig'' (RadiusProxyServerConfig_to_json (pool_acctConfig r)),
        sub_to_json ''coaConfig'' (RadiusProxyServerConfig_to_json (pool_coaConfig r)),
        bool_to_json ''useByDefault'' (pool_useByDefault r), u64_to_json ''radsecKeepAlive'' (pool_radsecKeepAlive r),
        str_to_json ''poolProxyIp'' (pool_poolProxyIp r), str_to_json ''radsecPoolType'' (pool_radsecPoolType r),
        bool_to_json ''enabled'' (pool_enabled r)]"

definition RadiusProxyPool_from_json :: "poco \<Rightarrow> jobject \<Rightarrow> radius_pool partial_reader" where
  "RadiusProxyPool_from_json p obj =
     (let servers = (\<lambda>o' c. snd (RadiusProxyServerConfig_from_json p o' c)) in
      read_all
       [whole (str_from_json p obj ''name'' (\<lambda>v r. r\<lparr> pool_name := v \<rparr>)),
        whole (str_from_json p obj ''description'' (\<lambda>v r. r\<lparr> pool_description := v \<rparr>)),
        whole (sub_from_json obj ''authConfig'' (\<lambda>o' r. r\<lparr> pool_authConfig := servers o' (pool_authConfig r) \<rparr>)),
        whole (sub_from_json obj ''acctConfig'' (\<lambda>o' r. r\<lparr> pool_acctConfig := servers o' (pool_acctConfig r) \<rparr>)),
        whole (sub_from_json obj ''coaConfig'' (\<lambda>o' r. r\<lparr> pool_coaConfig := servers o' (pool_coaConfig r) \<rparr>)),
        whole (bool_from_json p obj ''useByDefault'' (\<lambda>v r. r\<lparr> pool_useByDefault := v \<rparr>)),
        whole (u64_from_json p obj ''radsecKeepAlive'' (\<lambda>v r. r\<lparr> pool_radsecKeepAlive := v \<rparr>)),
        whole (str_from_json p obj ''poolProxyIp'' (\<lambda>v r. r\<lparr> pool_poolProxyIp := v \<rparr>)),
        whole (str_from_json p obj ''radsecPoolType'' (\<lambda>v r. r\<lparr> pool_radsecPoolType := v \<rparr>)),
        whole (bool_from_json p obj ''enabled'' (\<lambda>v r. r\<lparr> pool_enabled := v \<rparr>))])"

definition RadiusProxyPoolList_to_json :: "radius_pool list \<Rightarrow> jobject" where
  "RadiusProxyPoolList_to_json pools = objs_to_json ''pools'' (map RadiusProxyPool_to_json pools) []"

definition RadiusProxyPoolList_from_json :: "poco \<Rightarrow> jobject \<Rightarrow> radius_pool list partial_reader" where
  "RadiusProxyPoolList_from_json p obj =
     objs_from_json (\<lambda>o'. snd (RadiusProxyPool_from_json p o' new_pool)) obj ''pools'' id (\<lambda>v _. v)"

section \<open>Setting the configuration\<close>

text \<open>\<open>ip\<close> are the bytes of an address, where the text is one.\<close>

definition ValidRadiusPoolServerType :: "string \<Rightarrow> bool" where
  "ValidRadiusPoolServerType t \<longleftrightarrow> t \<in> {''radsec'', ''generic'', ''orion'', ''globalreach''}"

definition server_fault :: "(string \<Rightarrow> bytes option) \<Rightarrow> string \<Rightarrow> radius_server \<Rightarrow> string option" where
  "server_fault ip strategy s =
     (if ip (rs_ip s) = None \<or> rs_port s = 0 then Some ''InvalidRadiusServerEntry''
      else if strategy = ''weighted'' \<and> rs_weight s = 0 then Some ''InvalidRadiusServerWeigth''
      else None)"

text \<open>The first fault of a list.\<close>

fun first_fault :: "('a \<Rightarrow> string option) \<Rightarrow> 'a list \<Rightarrow> string option" where
  "first_fault f [] = None"
| "first_fault f (x # xs) = (case f x of Some e \<Rightarrow> Some e | None \<Rightarrow> first_fault f xs)"

definition servers_fault :: "(string \<Rightarrow> bytes option) \<Rightarrow> radius_servers \<Rightarrow> string option" where
  "servers_fault ip c =
     (if rc_servers c = [] then None
      else if rc_strategy c \<notin> {''random'', ''round_robin'', ''weighted''} then Some ''InvalidRadiusProxyStrategy''
      else if rc_monitorMethod c \<notin> {''none'', ''https'', ''radius''} then Some ''InvalidRadiusProxyMonitorMethod''
      else if rc_servers c = [] then Some ''MustHaveAtLeastOneRadiusServer''
      else first_fault (server_fault ip (rc_strategy c)) (rc_servers c))"

definition complete_pool :: "radius_pool \<Rightarrow> radius_pool" where
  "complete_pool r =
     (let r = (if pool_radsecPoolType r = [] then r\<lparr> pool_radsecPoolType := ''generic'' \<rparr> else r) in
      if pool_radsecKeepAlive r = 0 then r\<lparr> pool_radsecKeepAlive := 25 \<rparr> else r)"

definition pool_fault :: "(string \<Rightarrow> bytes option) \<Rightarrow> radius_pool \<Rightarrow> string option" where
  "pool_fault ip r =
     (if pool_name r = [] then Some ''PoolNameInvalid''
      else if \<not> ValidRadiusPoolServerType (pool_radsecPoolType (complete_pool r)) then Some ''NotAValidRadiusPoolType''
      else first_fault (servers_fault ip) [pool_acctConfig r, pool_authConfig r, pool_coaConfig r])"

text \<open>What is read is checked and completed pool by pool; the first fault is the answer.\<close>

definition radius_DoPut ::
    "poco \<Rightarrow> (string \<Rightarrow> bytes option) \<Rightarrow> bool \<Rightarrow> jobject \<Rightarrow> radius_pool list rest_reply" where
  "radius_DoPut p ip allowed body =
     (if \<not> allowed then Rest_UnAuthorized ''ACCESS_DENIED''
      else case RadiusProxyPoolList_from_json p body [] of
        (ok, pools) \<Rightarrow>
          if \<not> ok \<or> pools = [] then Rest_BadRequest ''InvalidJSONDocument''
          else case first_fault (pool_fault ip) pools of
            Some e \<Rightarrow> Rest_BadRequest e
          | None \<Rightarrow> Rest_Object (map complete_pool pools))"

section \<open>What is kept\<close>

lemmas partial_readers = whole_def list_from_json_def objs_from_json_def u16_from_json_def

lemma push_strings_JStr: "var_strings p \<Longrightarrow> push_strings p (map JStr ss) xs = (True, xs @ ss)"
  by (induction ss arbitrary: xs) (simp_all add: var_strings_def)

lemma push_objects_JObj: "push_objects item (map (\<lambda>x. JObj (w x)) ys) xs = (True, xs @ map (\<lambda>x. item (w x)) ys)"
  by (induction ys arbitrary: xs) (simp_all add: extract_object_def)

text \<open>What the readers need of numbers.\<close>

definition var_numbers :: "poco \<Rightarrow> bool" where
  "var_numbers p \<longleftrightarrow> (\<forall>u :: u64. p_u64 p (JInt (uint u)) = Inr u)"

lemma u16_number: "var_numbers p \<Longrightarrow> p_u64 p (JInt (uint (w :: u16))) = Inr (ucast w)"
proof -
  assume "var_numbers p"
  moreover have "uint w = uint (ucast w :: u64)"
    by (simp add: uint_up_ucast is_up)
  ultimately show ?thesis unfolding var_numbers_def by metis
qed

lemma u16_small: "(ucast (w :: u16) :: u64) \<le> 65535" "(ucast (ucast (w :: u16) :: u64) :: u16) = w"
proof -
  have "unat w < 65536" using unsigned_less [of w, where 'a = nat] by simp
  then show "(ucast w :: u64) \<le> 65535" by (simp add: word_le_nat_alt unsigned_ucast_eq take_bit_eq_mod)
  show "(ucast (ucast w :: u64) :: u16) = w" by (simp add: ucast_up_ucast_id is_up)
qed

lemmas pool_writers = json_writers u16_to_json_def objs_to_json_def

lemma bool_read: "var_strings p \<Longrightarrow> map_sum id (\<lambda>s. s = ''true'') (p_string p (JBool b)) = Inr b"
  using bool_string [of p b] by auto

lemma entry_roundtrip:
  assumes "var_strings p" and "var_numbers p"
  shows "RadiusProxyServerEntry_from_json p (RadiusProxyServerEntry_to_json s) s0 = (True, s)"
proof -
  have "p_string p (JStr x) = Inr x" "p_u64 p (JInt (uint u)) = Inr u" for x u
    using assms by (simp_all add: var_strings_def var_numbers_def)
  then show ?thesis
    by (simp add: RadiusProxyServerEntry_from_json_def RadiusProxyServerEntry_to_json_def pool_writers json_readers
        partial_readers bool_read [OF assms(1)] push_strings_JStr [OF assms(1)] u16_number [OF assms(2)] u16_small)
qed

lemma servers_roundtrip:
  assumes "var_strings p" and "var_numbers p" and "rc_servers c0 = []"
  shows "RadiusProxyServerConfig_from_json p (RadiusProxyServerConfig_to_json c) c0 = (True, c)"
proof -
  have "p_string p (JStr x) = Inr x" for x using assms(1) by (simp add: var_strings_def)
  then show ?thesis
    by (simp add: RadiusProxyServerConfig_from_json_def RadiusProxyServerConfig_to_json_def pool_writers json_readers
        partial_readers bool_read [OF assms(1)] push_strings_JStr [OF assms(1)] push_objects_JObj assms(3)
        entry_roundtrip [OF assms(1,2)] o_def)
qed

lemma pool_roundtrip:
  assumes "var_strings p" and "var_numbers p"
  shows "RadiusProxyPool_from_json p (RadiusProxyPool_to_json r) new_pool = (True, r)"
proof -
  have "p_string p (JStr x) = Inr x" "p_u64 p (JInt (uint u)) = Inr u" for x u
    using assms by (simp_all add: var_strings_def var_numbers_def)
  then show ?thesis
    by (simp add: RadiusProxyPool_from_json_def RadiusProxyPool_to_json_def pool_writers json_readers Let_def
        partial_readers bool_read [OF assms(1)] servers_roundtrip [OF assms] new_pool_def new_servers_def)
qed

lemma RadiusProxyPoolList_from_json_ok:
  assumes "var_strings p" and "var_numbers p"
  shows "RadiusProxyPoolList_from_json p (RadiusProxyPoolList_to_json pools) [] = (True, pools)"
  by (simp add: RadiusProxyPoolList_from_json_def RadiusProxyPoolList_to_json_def pool_writers json_readers partial_readers
      push_objects_JObj pool_roundtrip [OF assms] o_def)

text \<open>
  A list of pools written to JSON, as it is kept in the file of the proxy, is read back into the same list.
\<close>

theorem RadiusProxyPoolList_roundtrip:
  assumes "var_strings p" and "var_numbers p"
  shows "RadiusProxyPoolList_from_json p (RadiusProxyPoolList_to_json pools) [] = (True, pools)"
  using RadiusProxyPoolList_from_json_ok [OF assms] .

lemma first_fault_None: "first_fault f xs = None \<longleftrightarrow> (\<forall>x\<in>set xs. f x = None)"
  by (induction xs) (auto split: option.splits)

section \<open>A configuration to evaluate the properties on\<close>

definition reading_poco :: poco where
  "reading_poco =
     (poco_of [])\<lparr> p_string := (\<lambda>j. case j of JStr s \<Rightarrow> Inr s | JBool b \<Rightarrow> Inr (if b then ''true'' else ''false'') | _ \<Rightarrow> Inl (Poco_Exception [])),
                   p_u64 := (\<lambda>j. case j of JInt i \<Rightarrow> Inr (word_of_int i) | _ \<Rightarrow> Inl (Poco_Exception [])) \<rparr>"

lemma reading_ok: "var_strings reading_poco" "var_numbers reading_poco"
  by (simp_all add: reading_poco_def var_strings_def var_numbers_def)

definition plain_radius_server :: radius_server where
  "plain_radius_server = new_server\<lparr> rs_ip := ''10.0.0.1'', rs_port := 1812 \<rparr>"

definition plain_radius_pool :: radius_pool where
  "plain_radius_pool =
     new_pool\<lparr> pool_name := ''p'', pool_radsecPoolType := ''generic'', pool_poolProxyIp := ''10.0.0.1'',
       pool_authConfig := new_servers\<lparr> rc_servers := [plain_radius_server] \<rparr>,
       pool_acctConfig := new_servers\<lparr> rc_servers := [plain_radius_server] \<rparr> \<rparr>"

theorem RadiusProxyPoolList_roundtrip_witness:
  "RadiusProxyPoolList_from_json reading_poco (RadiusProxyPoolList_to_json [plain_radius_pool]) [] = (True, [plain_radius_pool])"
  by (rule RadiusProxyPoolList_roundtrip [OF reading_ok])

end
