(* ===== verification/GW_RadiusProxy.thy ===== *)
theory GW_RadiusProxy
  imports GW_RadiusSpec GW_RadiusConfig
begin

text \<open>
  The RADIUS proxy: the connection to the servers of a pool (\<^verbatim>\<open>src/RADIUS_Destination.h\<close>) and the routing of the
  packets of the devices to them and back (\<^verbatim>\<open>src/RADIUS_proxy_server.cpp\<close>). What is sent is a list of effects. The
  sockets, certificates and random numbers are the fields of an environment; logging is left out.
\<close>

section \<open>Environment and effects\<close>

text \<open>
  \<open>n_certificate\<close>: the files and the TLS context of a server could be made, and its certificate has not expired;
  \<open>n_address\<close>: its address and port make a socket address; \<open>n_connect\<close>: it took the connection; \<open>n_verify\<close>: its
  certificate was accepted; \<open>n_bind\<close>: the UDP socket of a kind could be made and bound to its port; \<open>n_send\<close>: how many bytes TLS took; \<open>n_ipv4\<close>: whether an address and a port
  make a socket address, and whether it is one of version 4.
\<close>

datatype radius_kind = Radius_auth | Radius_acct | Radius_coa

record net_env =
  n_certificate :: "radius_server \<Rightarrow> cpp_exn + bool"
  n_address :: "radius_server \<Rightarrow> bool"
  n_connect :: "radius_server \<Rightarrow> bool"
  n_verify :: "radius_server \<Rightarrow> bool"
  n_bind :: "radius_kind \<Rightarrow> bool"
  n_send :: "bytes \<Rightarrow> cpp_exn + nat"
  n_hmac :: "string \<Rightarrow> bytes \<Rightarrow> bytes"
  n_md5 :: "bytes \<Rightarrow> bytes"
  n_rnd :: "nat \<Rightarrow> u8"
  n_tokens :: "string \<Rightarrow> string \<Rightarrow> string list"
  n_ip :: "string \<Rightarrow> bytes option"
  n_sockaddr :: "string \<Rightarrow> string \<Rightarrow> cpp_exn + string"
  n_ipv4 :: "string \<Rightarrow> u16 \<Rightarrow> bool option"

datatype radius_effect =
    Udp_Send radius_kind string u16 bytes
  | Tls_Send string bytes
  | To_Device radius_kind string bytes

text \<open>The handlers of exceptions take every one; undefined behaviour is none.\<close>

fun undefined_exn :: "cpp_exn \<Rightarrow> bool" where
  "undefined_exn (Undefined_Behaviour s) = True"
| "undefined_exn e = False"

definition swallow :: "'a \<Rightarrow> cpp_exn + 'a \<Rightarrow> cpp_exn + 'a" where
  "swallow dflt r = (case r of Inl e \<Rightarrow> if undefined_exn e then Inl e else Inr dflt | Inr x \<Rightarrow> Inr x)"

text \<open>The length of a packet is taken as a number of 16 bits.\<close>

definition packet_of :: "bytes \<Rightarrow> cpp_exn + radius_packet" where
  "packet_of buffer = make_packet (take (length buffer mod 65536) buffer)"

text \<open>What \<^verbatim>\<open>Buffer\<close> and \<^verbatim>\<open>Size\<close> of a packet stand for.\<close>

definition packet_data :: "radius_packet \<Rightarrow> cpp_exn + bytes" where
  "packet_data p = signed_part p (rp_attributes (P p))"

section \<open>Connections to the servers of a pool\<close>

text \<open>\<open>de_udp\<close>: the UDP sockets that are there.\<close>

record destination =
  de_pool :: radius_pool
  de_type :: endpoint_type
  de_connected :: bool
  de_try_again :: bool
  de_server :: nat
  de_udp :: "radius_kind set"

definition new_destination :: "radius_pool \<Rightarrow> destination" where
  "new_destination r =
     \<lparr> de_pool = r, de_type = RadiusEndpointType (pool_radsecPoolType r), de_connected = False, de_try_again = True,
       de_server = 0, de_udp = {} \<rparr>"

abbreviation auth_servers :: "destination \<Rightarrow> radius_server list" where
  "auth_servers d \<equiv> rc_servers (pool_authConfig (de_pool d))"

abbreviation acct_servers :: "destination \<Rightarrow> radius_server list" where
  "acct_servers d \<equiv> rc_servers (pool_acctConfig (de_pool d))"

abbreviation coa_servers :: "destination \<Rightarrow> radius_server list" where
  "coa_servers d \<equiv> rc_servers (pool_coaConfig (de_pool d))"

definition nth_server :: "radius_server list \<Rightarrow> nat \<Rightarrow> cpp_exn + radius_server" where
  "nth_server ss i = (if i < length ss then Inr (ss ! i) else Inl (Undefined_Behaviour ''no such server''))"

text \<open>
  An operation that may raise leaves the state it had reached. The servers are tried in their order; \<open>i\<close> is the number
  of the first one left.
\<close>

fun and_then :: "(cpp_exn + 'a) \<times> 's \<Rightarrow> ('s \<Rightarrow> (cpp_exn + 'b) \<times> 's) \<Rightarrow> (cpp_exn + 'b) \<times> 's" where
  "and_then (Inl er, d) f = (Inl er, d)"
| "and_then (Inr x, d) f = f d"

fun connect_servers :: "net_env \<Rightarrow> radius_server list \<Rightarrow> radius_server list \<Rightarrow> nat \<Rightarrow> (cpp_exn + bool) \<times> nat" where
  "connect_servers e auth [] i = (Inr False, 0)"
| "connect_servers e auth (s # ss) i =
     (if \<not> n_address e s then (Inl (Poco_Exception ''address''), i)
      else if \<not> n_connect e s then connect_servers e auth ss (Suc i)
      else case nth_server auth i of
        Inl er \<Rightarrow> (Inl er, i)
      | Inr a \<Rightarrow> if rs_allowSelfSigned a \<or> n_verify e s then (Inr True, i) else connect_servers e auth ss (Suc i))"

definition connect_tls :: "net_env \<Rightarrow> nat \<Rightarrow> destination \<Rightarrow> (cpp_exn + bool) \<times> destination" where
  "connect_tls e certificates d =
     (if \<not> de_try_again d then (Inr False, d\<lparr> de_server := 0 \<rparr>)
      else case nth_server (acct_servers d) (de_server d) of
        Inl er \<Rightarrow> (Inl er, d)
      | Inr s \<Rightarrow>
          if length (rs_radsecCacerts s) < certificates then (Inl (Undefined_Behaviour ''no such certificate''), d)
          else case n_certificate e s of
            Inl er \<Rightarrow> (Inl er, d)
          | Inr valid \<Rightarrow>
              if \<not> valid then (Inr False, d)
              else case connect_servers e (auth_servers d) (acct_servers d) 0 of
                (res, i) \<Rightarrow> (res, d\<lparr> de_server := i, de_connected := (res = Inr True \<or> de_connected d) \<rparr>))"

definition Connect_Orion :: "net_env \<Rightarrow> destination \<Rightarrow> (cpp_exn + bool) \<times> destination" where
  "Connect_Orion e d = connect_tls e 0 d"

text \<open>Two certificates of the server are used, whether it has them or not.\<close>

definition Connect_GlobalReach :: "net_env \<Rightarrow> destination \<Rightarrow> (cpp_exn + bool) \<times> destination" where
  "Connect_GlobalReach e d = connect_tls e 2 d"

definition Connect_Radsec :: "destination \<Rightarrow> (cpp_exn + bool) \<times> destination" where
  "Connect_Radsec d = (Inr True, d)"

text \<open>The sockets are made one after the other; the ones before a socket that cannot be made stay.\<close>

definition make_socket :: "net_env \<Rightarrow> radius_kind \<Rightarrow> destination \<Rightarrow> (cpp_exn + unit) \<times> destination" where
  "make_socket e kind d =
     (if n_bind e kind then (Inr (), d\<lparr> de_udp := insert kind (de_udp d) \<rparr>) else (Inl (Poco_Exception ''bind''), d))"

definition Connect_Generic :: "net_env \<Rightarrow> destination \<Rightarrow> (cpp_exn + bool) \<times> destination" where
  "Connect_Generic e d =
     (if de_try_again d \<and> \<not> de_connected d then
        and_then (make_socket e Radius_auth d) (\<lambda>d.
        and_then (make_socket e Radius_acct d) (\<lambda>d.
        and_then (make_socket e Radius_coa d) (\<lambda>d.
        (Inr True, d\<lparr> de_connected := True \<rparr>))))
      else (Inr True, d))"

definition destination_Connect :: "net_env \<Rightarrow> destination \<Rightarrow> (cpp_exn + bool) \<times> destination" where
  "destination_Connect e d =
     (case de_type d of
        Endpoint_orion \<Rightarrow> Connect_Orion e d
      | Endpoint_globalreach \<Rightarrow> Connect_GlobalReach e d
      | Endpoint_radsec \<Rightarrow> Connect_Radsec d
      | _ \<Rightarrow> Connect_Generic e d)"

definition destination_Disconnect :: "destination \<Rightarrow> destination" where
  "destination_Disconnect d =
     (if \<not> de_connected d then d
      else if de_type d = Endpoint_generic then d\<lparr> de_udp := {}, de_connected := False \<rparr>
      else d\<lparr> de_connected := False \<rparr>)"

definition destination_Stop :: "destination \<Rightarrow> destination" where
  "destination_Stop d = destination_Disconnect (d\<lparr> de_try_again := False \<rparr>)"

text \<open>
  One turn of the thread that keeps the connection, with its delay, the time of its last try and of the last
  message that kept the connection alive. \<open>None\<close> is the end of the thread, and so is an exception: it leaves the
  connection as far as it had come.
\<close>

record reconnect =
  CurrentDelay :: u64
  LastTry :: u64
  LastKeepAlive :: u64

definition new_reconnect :: reconnect where
  "new_reconnect = \<lparr> CurrentDelay = 10, LastTry = 0, LastKeepAlive = 0 \<rparr>"

text \<open>A type without TLS has no socket to send through.\<close>

definition tls_send :: "net_env \<Rightarrow> destination \<Rightarrow> bytes \<Rightarrow> cpp_exn + nat" where
  "tls_send e d bs =
     (if de_type d \<in> {Endpoint_orion, Endpoint_globalreach} then n_send e bs
      else Inl (Undefined_Behaviour ''send through a null socket''))"

definition keep_alive :: "net_env \<Rightarrow> destination \<Rightarrow> cpp_exn + radius_effect list" where
  "keep_alive e d =
     try_bind (nth_server (auth_servers d) (de_server d)) (\<lambda>s.
     try_bind (MakeStatusMessage (n_hmac e) (n_rnd e) (rs_name s) (fresh_output (rs_radsecSecret s))) (\<lambda>m.
     if de_type d \<noteq> Endpoint_generic
     then map_sum id (\<lambda>_. [Tls_Send (pool_name (de_pool d)) (output_Data m)]) (tls_send e d (output_Data m))
     else Inr []))"

definition destination_turn ::
    "net_env \<Rightarrow> u64 \<Rightarrow> reconnect \<Rightarrow> destination \<Rightarrow> (cpp_exn + (reconnect \<times> radius_effect list) option) \<times> destination" where
  "destination_turn e now r d =
     (if \<not> de_try_again d then (Inr None, d)
      else if \<not> de_connected d then
        (if LastTry r = 0 \<or> now - LastTry r > CurrentDelay r then
           case destination_Connect e d of
             (Inl er, d) \<Rightarrow> (Inl er, d)
           | (Inr ok, d) \<Rightarrow>
               let delay = (if ok then 10 else if CurrentDelay r * 2 > 300 then 10 else CurrentDelay r * 2)
               in (Inr (Some (r\<lparr> LastTry := now, CurrentDelay := delay \<rparr>, [])), d)
         else (Inr (Some (r, [])), d))
      else if now - LastKeepAlive r > pool_radsecKeepAlive (de_pool d) then
        (map_sum id (\<lambda>es. Some (r\<lparr> LastKeepAlive := now \<rparr>, es)) (keep_alive e d), d)
      else (Inr (Some (r, [])), d))"

section \<open>To the servers\<close>

definition tls_bytes :: "net_env \<Rightarrow> destination \<Rightarrow> bytes \<Rightarrow> cpp_exn + bool \<times> radius_effect list" where
  "tls_bytes e d bs =
     swallow (False, []) (map_sum id (\<lambda>n. (n = length bs, [Tls_Send (pool_name (de_pool d)) bs])) (tls_send e d bs))"

text \<open>A packet whose authenticator is not that of the secret of the connection gets it first.\<close>

definition destination_SendData :: "net_env \<Rightarrow> bytes \<Rightarrow> destination \<Rightarrow> cpp_exn + bool \<times> radius_effect list" where
  "destination_SendData e buffer d =
     (if \<not> de_connected d then Inr (False, [])
      else try_bind (packet_of buffer) (\<lambda>p.
        try_bind (nth_server (auth_servers d) (de_server d)) (\<lambda>s.
        try_bind (VerifyMessageAuthenticator (n_hmac e) (rs_radsecSecret s) p) (\<lambda>verified.
          if verified then tls_bytes e d buffer
          else try_bind (ComputeMessageAuthenticator (n_hmac e) (rs_radsecSecret s) p) (\<lambda>p.
            if length buffer \<le> 4116 then tls_bytes e d (take (length buffer) (raw_bytes (P p)))
            else Inl (Undefined_Behaviour ''read behind the packet''))))))"

text \<open>A datagram goes to the first server, through the socket of its kind.\<close>

definition send_datagram :: "net_env \<Rightarrow> radius_kind \<Rightarrow> radius_server list \<Rightarrow> bytes \<Rightarrow> destination \<Rightarrow> cpp_exn + radius_effect list" where
  "send_datagram e kind ss buffer d =
     (if kind \<notin> de_udp d then Inl (Undefined_Behaviour ''send through a null socket'')
      else try_bind (nth_server ss 0) (\<lambda>s.
        if n_address e s then Inr [Udp_Send kind (rs_ip s) (rs_port s) buffer] else Inl (Poco_Exception ''address'')))"

definition SendRadiusDataAuthData :: "net_env \<Rightarrow> bytes \<Rightarrow> destination \<Rightarrow> cpp_exn + radius_effect list" where
  "SendRadiusDataAuthData e buffer d = send_datagram e Radius_auth (auth_servers d) buffer d"

definition SendRadiusDataAcctData :: "net_env \<Rightarrow> bytes \<Rightarrow> destination \<Rightarrow> cpp_exn + radius_effect list" where
  "SendRadiusDataAcctData e buffer d = send_datagram e Radius_acct (acct_servers d) buffer d"

definition SendRadiusDataCoAData :: "net_env \<Rightarrow> bytes \<Rightarrow> destination \<Rightarrow> cpp_exn + radius_effect list" where
  "SendRadiusDataCoAData e buffer d = send_datagram e Radius_coa (coa_servers d) buffer d"

section \<open>From the servers\<close>

text \<open>A device is addressed by the number its serial number stands for.\<close>

definition to_device :: "radius_kind \<Rightarrow> string \<Rightarrow> bytes \<Rightarrow> cpp_exn + radius_effect list" where
  "to_device kind serial bs = map_sum id (\<lambda>_. [To_Device kind serial bs]) (SerialNumberToInt serial)"

definition deliver :: "radius_kind \<Rightarrow> cpp_exn + string \<Rightarrow> bytes \<Rightarrow> cpp_exn + radius_effect list" where
  "deliver kind serial bs = try_bind serial (\<lambda>s. if s = [] then Inr [] else to_device kind s bs)"

text \<open>\<open>received\<close> are the bytes read from the TLS socket, or the exception reading them raised.\<close>

definition onData :: "net_env \<Rightarrow> cpp_exn + bytes \<Rightarrow> destination \<Rightarrow> cpp_exn + radius_effect list \<times> destination" where
  "onData e received d =
     swallow ([], destination_Disconnect d)
       (try_bind received (\<lambda>bs.
          if length bs < 20 then Inr ([], destination_Disconnect d)
          else try_bind (packet_of bs) (\<lambda>p.
            map_sum id (\<lambda>es. (es, d))
              (if packet_IsAuthentication p then deliver Radius_auth (ExtractSerialNumberFromProxyState (n_tokens e) p) bs
               else if packet_IsAccounting p then deliver Radius_acct (ExtractSerialNumberFromProxyState (n_tokens e) p) bs
               else if packet_IsAuthority p then deliver Radius_coa (ExtractSerialNumberTIP p) bs
               else Inr []))))"

text \<open>A datagram is read into an empty packet, whose length field is not compared with what was read.\<close>

definition datagram_packet :: "bytes \<Rightarrow> cpp_exn + radius_packet" where
  "datagram_packet bs =
     Evaluate (of_nat (length bs)) (empty_packet\<lparr> P := raw_of_bytes (bs @ drop (length bs) (raw_bytes (P empty_packet))) \<rparr>)"

definition on_datagram ::
    "radius_kind \<Rightarrow> (radius_packet \<Rightarrow> cpp_exn + string) \<Rightarrow> (radius_packet \<Rightarrow> cpp_exn + string) \<Rightarrow> bytes \<Rightarrow>
     cpp_exn + radius_effect list" where
  "on_datagram kind serial_of look received =
     (let bs = take 4116 received in
      if length bs < 43 then Inr []
      else try_bind (datagram_packet bs) (\<lambda>p.
        try_bind (serial_of p) (\<lambda>s.
        if s = [] then Inr []
        else try_bind (look p) (\<lambda>_. try_bind (packet_data p) (\<lambda>out. to_device kind s out)))))"

definition stations :: "radius_packet \<Rightarrow> cpp_exn + string" where
  "stations p = try_bind (ExtractCallingStationID p) (\<lambda>_. ExtractCalledStationID p)"

definition OnAccountingSocketReadable :: "net_env \<Rightarrow> bytes \<Rightarrow> cpp_exn + radius_effect list" where
  "OnAccountingSocketReadable e = on_datagram Radius_acct (ExtractSerialNumberFromProxyState (n_tokens e)) (\<lambda>_. Inr [])"

definition OnAuthenticationSocketReadable :: "net_env \<Rightarrow> bytes \<Rightarrow> cpp_exn + radius_effect list" where
  "OnAuthenticationSocketReadable e = on_datagram Radius_auth (ExtractSerialNumberFromProxyState (n_tokens e)) stations"

definition OnCoASocketReadable :: "bytes \<Rightarrow> cpp_exn + radius_effect list" where
  "OnCoASocketReadable = on_datagram Radius_coa ExtractSerialNumberTIP stations"

section \<open>The proxy\<close>

record proxy_server =
  ps_Addr :: "string \<times> u16"
  ps_ipv4 :: bool
  ps_state :: u64
  ps_step :: u64
  ps_weight :: u64
  ps_available :: bool
  ps_strategy :: string
  ps_monitor :: bool
  ps_monitorMethod :: string
  ps_methodParameters :: "string list"
  ps_useAsDefault :: bool
  ps_useRADSEC :: bool
  ps_realms :: "string list"
  ps_secret :: string
  ps_poolProxyIp :: string

record proxy_pool =
  AuthV4 :: "proxy_server list"
  AuthV6 :: "proxy_server list"
  AcctV4 :: "proxy_server list"
  AcctV6 :: "proxy_server list"
  CoaV4 :: "proxy_server list"
  CoaV6 :: "proxy_server list"

text \<open>The file of the configuration: there is none, or what its text parses to.\<close>

record radius_proxy =
  px_enabled :: bool
  px_running :: bool
  px_pool_list :: "radius_pool list"
  px_pools :: "proxy_pool list"
  px_default_index :: nat
  px_default_radsec :: bool
  px_dests :: "(u32, destination) omap"
  px_file :: "(cpp_exn + jobject) option"

definition fresh_proxy :: radius_proxy where
  "fresh_proxy =
     \<lparr> px_enabled = False, px_running = False, px_pool_list = [], px_pools = [], px_default_index = 0,
       px_default_radsec = False, px_dests = [], px_file = None \<rparr>"

definition proxy_Continue :: "radius_proxy \<Rightarrow> bool" where
  "proxy_Continue px \<longleftrightarrow> px_running px \<and> px_enabled px \<and> px_pools px \<noteq> []"

text \<open>
  Servers whose address is none are skipped. The weights are counted over the servers of one family. Whether the
  default is a RADSEC server is known only as far as the list was read.
\<close>

definition proxy_server_of :: "radius_servers \<Rightarrow> bool \<Rightarrow> string \<Rightarrow> bool \<Rightarrow> radius_server \<Rightarrow> proxy_server" where
  "proxy_server_of c dflt pool_ip v4 s =
     \<lparr> ps_Addr = (rs_ip s, rs_port s), ps_ipv4 = v4, ps_state = 0, ps_step = 0, ps_weight = rs_weight s, ps_available = True,
       ps_strategy = rc_strategy c, ps_monitor = rc_monitor c, ps_monitorMethod = rc_monitorMethod c,
       ps_methodParameters = rc_methodParameters c, ps_useAsDefault = dflt, ps_useRADSEC = rs_radsec s,
       ps_realms = rs_radsecRealms s, ps_secret = rs_secret s, ps_poolProxyIp = pool_ip \<rparr>"

fun collect_servers ::
    "net_env \<Rightarrow> (bool \<Rightarrow> radius_server \<Rightarrow> proxy_server) \<Rightarrow> radius_server list \<Rightarrow> bool \<times> proxy_server list" where
  "collect_servers e f [] = (True, [])"
| "collect_servers e f (s # ss) =
     (if n_ip e (rs_ip s) = None then collect_servers e f ss
      else case n_ipv4 e (rs_ip s) (rs_port s) of
        None \<Rightarrow> (False, [])
      | Some v4 \<Rightarrow> map_prod id (\<lambda>ps. f v4 s # ps) (collect_servers e f ss))"

definition with_steps :: "proxy_server list \<Rightarrow> proxy_server list" where
  "with_steps ps =
     (let total = sum_list (map ps_weight ps) in
      map (\<lambda>p. p\<lparr> ps_step := (if total = 0 then 1000 else 1000 - (1000 * ps_weight p) div total) \<rparr>) ps)"

definition ParseServerList ::
    "net_env \<Rightarrow> radius_servers \<Rightarrow> bool \<Rightarrow> string \<Rightarrow> bool \<times> bool \<times> proxy_server list \<times> proxy_server list" where
  "ParseServerList e c dflt pool_ip =
     (case collect_servers e (proxy_server_of c dflt pool_ip) (rc_servers c) of (ok, ps) \<Rightarrow>
        (ok, dflt \<and> (\<exists>p\<in>set ps. ps_useRADSEC p), with_steps (filter ps_ipv4 ps), with_steps (filter (\<lambda>p. \<not> ps_ipv4 p) ps)))"

definition ResetConfig :: "radius_proxy \<Rightarrow> radius_proxy" where
  "ResetConfig px = px\<lparr> px_pool_list := [], px_pools := [], px_default_index := 0, px_default_radsec := False \<rparr>"

text \<open>An exception ends the reading with the pools before it.\<close>

fun parse_pools :: "net_env \<Rightarrow> radius_pool list \<Rightarrow> radius_proxy \<Rightarrow> radius_proxy" where
  "parse_pools e [] px = px"
| "parse_pools e (r # rs) px =
     (let parse = (\<lambda>c. ParseServerList e c (pool_useByDefault r) (pool_poolProxyIp r));
          (ok_a, radsec_a, a4, a6) = parse (pool_authConfig r);
          (ok_b, radsec_b, b4, b6) = parse (pool_acctConfig r);
          (ok_c, radsec_c, c4, c6) = parse (pool_coaConfig r);
          radsec = (\<lambda>b. px\<lparr> px_default_radsec := px_default_radsec px \<or> b \<rparr>)
      in if \<not> ok_a then radsec radsec_a
         else if \<not> ok_b then radsec (radsec_a \<or> radsec_b)
         else if \<not> ok_c then radsec (radsec_a \<or> radsec_b \<or> radsec_c)
         else parse_pools e rs ((radsec (radsec_a \<or> radsec_b \<or> radsec_c))\<lparr> px_pools := px_pools px @
                [\<lparr> AuthV4 = a4, AuthV6 = a6, AcctV4 = b4, AcctV6 = b6, CoaV4 = c4, CoaV6 = c6 \<rparr>] \<rparr>))"

definition proxy_ParseConfig :: "poco \<Rightarrow> net_env \<Rightarrow> radius_proxy \<Rightarrow> radius_proxy" where
  "proxy_ParseConfig p e px =
     (case px_file px of
        Some (Inr obj) \<Rightarrow>
          (case RadiusProxyPoolList_from_json p obj [] of
             (True, pools) \<Rightarrow> parse_pools e pools ((ResetConfig px)\<lparr> px_pool_list := pools \<rparr>)
           | (False, _) \<Rightarrow> px)
      | _ \<Rightarrow> px)"

definition StopRADIUSDestinations :: "radius_proxy \<Rightarrow> radius_proxy" where
  "StopRADIUSDestinations px = px\<lparr> px_dests := [] \<rparr>"

definition StartRADIUSDestinations :: "net_env \<Rightarrow> radius_proxy \<Rightarrow> radius_proxy" where
  "StartRADIUSDestinations e px =
     px\<lparr> px_dests := foldl (\<lambda>ds r. if pool_enabled r then om_set (IPtoInt (n_ip e) (pool_poolProxyIp r)) (new_destination r) ds else ds)
                        (px_dests px) (px_pool_list px) \<rparr>"

text \<open>\<open>enabled\<close> is the setting of the service.\<close>

definition proxy_Start :: "poco \<Rightarrow> net_env \<Rightarrow> bool \<Rightarrow> radius_proxy \<Rightarrow> radius_proxy" where
  "proxy_Start p e enabled px =
     (if \<not> enabled \<and> px_file px = None then StopRADIUSDestinations (px\<lparr> px_enabled := enabled \<rparr>)
      else (StartRADIUSDestinations e (proxy_ParseConfig p e (px\<lparr> px_enabled := True \<rparr>)))\<lparr> px_running := True \<rparr>)"

definition proxy_Stop :: "radius_proxy \<Rightarrow> radius_proxy" where
  "proxy_Stop px =
     (if px_enabled px \<and> px_running px then (StopRADIUSDestinations px)\<lparr> px_running := False \<rparr> else px)"

definition proxy_SetConfig :: "poco \<Rightarrow> net_env \<Rightarrow> bool \<Rightarrow> radius_pool list \<Rightarrow> radius_proxy \<Rightarrow> radius_proxy" where
  "proxy_SetConfig p e enabled pools px =
     proxy_Start p e enabled
       ((ResetConfig (proxy_Stop (px\<lparr> px_file := Some (Inr (RadiusProxyPoolList_to_json pools)) \<rparr>)))\<lparr> px_pool_list := pools \<rparr>)"

definition proxy_DeleteConfig :: "radius_proxy \<Rightarrow> radius_proxy" where
  "proxy_DeleteConfig px = ResetConfig (proxy_Stop (px\<lparr> px_file := None \<rparr>))"

definition proxy_GetConfig :: "radius_proxy \<Rightarrow> radius_pool list" where
  "proxy_GetConfig px = px_pool_list px"

section \<open>Routing\<close>

text \<open>
  The pool of a packet is the one of the address it names. The packet and the secret are changed for the caller,
  who is given both.
\<close>

definition RouteAndSendAccountingPacket ::
    "net_env \<Rightarrow> string \<Rightarrow> radius_packet \<Rightarrow> bool \<Rightarrow> string \<Rightarrow> radius_proxy \<Rightarrow> cpp_exn + radius_packet \<times> string \<times> radius_effect list" where
  "RouteAndSendAccountingPacket e destination p recompute secret px =
     (case Split destination CHR '':'' of
        [] \<Rightarrow> Inl (Undefined_Behaviour ''first part of an empty text'')
      | host # _ \<Rightarrow>
          (case om_find (px_dests px) (IPtoInt (n_ip e) host) of
             None \<Rightarrow> Inr (p, secret, [])
           | Some d \<Rightarrow>
               if de_type d \<noteq> Endpoint_generic then
                 try_bind (nth_server (acct_servers d) 0) (\<lambda>s.
                 try_bind (if recompute then RecomputeAuthenticator (n_md5 e) (rs_secret s) p else Inr p) (\<lambda>p.
                 try_bind (packet_data p) (\<lambda>buffer.
                 map_sum id (\<lambda>(_, es). (p, rs_secret s, es)) (destination_SendData e buffer d))))
               else
                 try_bind (packet_data p) (\<lambda>buffer.
                 map_sum id (\<lambda>es. (p, secret, es)) (swallow [] (SendRadiusDataAcctData e buffer d)))))"

text \<open>What the tracker of the sessions is told: destination, serial number, packet and secret.\<close>

type_synonym session_note = "string \<times> string \<times> radius_packet \<times> string"

definition SendAccountingData ::
    "net_env \<Rightarrow> string \<Rightarrow> bytes \<Rightarrow> radius_proxy \<Rightarrow> cpp_exn + radius_effect list \<times> session_note option" where
  "SendAccountingData e serial buffer px =
     (if \<not> proxy_Continue px then Inr ([], None)
      else swallow ([], None)
        (try_bind (packet_of buffer) (\<lambda>p.
         try_bind (ExtractProxyStateDestination (n_tokens e) (n_sockaddr e) p) (\<lambda>destination.
         map_sum id (\<lambda>(p, secret, es). (es, Some (destination, serial, p, secret)))
           (RouteAndSendAccountingPacket e destination p False [] px)))))"

text \<open>\<open>look\<close> is what else is read of the packet.\<close>

definition route_data ::
    "net_env \<Rightarrow> (radius_packet \<Rightarrow> cpp_exn + string) \<Rightarrow> (net_env \<Rightarrow> bytes \<Rightarrow> destination \<Rightarrow> cpp_exn + radius_effect list) \<Rightarrow>
     bytes \<Rightarrow> radius_proxy \<Rightarrow> cpp_exn + radius_effect list" where
  "route_data e look datagram buffer px =
     (if \<not> proxy_Continue px then Inr []
      else swallow []
        (try_bind (packet_of buffer) (\<lambda>p.
         try_bind (look p) (\<lambda>_.
         try_bind (ExtractProxyStateDestinationIPint (n_tokens e) (n_ip e) p) (\<lambda>ip.
         case om_find (px_dests px) ip of
           None \<Rightarrow> Inr []
         | Some d \<Rightarrow> if de_type d \<noteq> Endpoint_generic then map_sum id snd (destination_SendData e buffer d) else datagram e buffer d)))))"

definition SendAuthenticationData :: "net_env \<Rightarrow> bytes \<Rightarrow> radius_proxy \<Rightarrow> cpp_exn + radius_effect list" where
  "SendAuthenticationData e = route_data e (\<lambda>_. Inr []) SendRadiusDataAuthData"

definition SendCoAData :: "net_env \<Rightarrow> bytes \<Rightarrow> radius_proxy \<Rightarrow> cpp_exn + radius_effect list" where
  "SendCoAData e = route_data e stations SendRadiusDataCoAData"

end
