(* ===== verification/GW_RadiusSessions.thy ===== *)
theory GW_RadiusSessions
  imports GW_RadiusProxy GW_Text
begin

text \<open>
  The tracker of accounting sessions (\<^verbatim>\<open>src/RADIUSSessionTracker.cpp\<close>): by device and session, what the accounting
  packets that pass through the proxy say; sessions of a device that goes are stopped at the server. The requests
  on sessions are those of \<^verbatim>\<open>src/RESTAPI/RESTAPI_radiussessions_handler.cpp\<close>.
\<close>

section \<open>What a packet says\<close>

record session_info =
  si_UserName :: string
  si_CallingStationId :: string
  si_CalledStationId :: string
  si_AccountingSessionId :: string
  si_AccountingMultiSessionId :: string
  si_ChargeableUserIdentity :: string
  si_Interface :: string
  si_nasId :: string
  si_PacketType :: u8
  si_InputOctets :: u32
  si_OutputOctets :: u32
  si_InputPackets :: u32
  si_OutputPackets :: u32
  si_InputGigaWords :: u32
  si_OutputGigaWords :: u32
  si_SessionTime :: u32

definition no_info :: session_info where
  "no_info =
     \<lparr> si_UserName = [], si_CallingStationId = [], si_CalledStationId = [], si_AccountingSessionId = [],
       si_AccountingMultiSessionId = [], si_ChargeableUserIdentity = [], si_Interface = [], si_nasId = [],
       si_PacketType = 0, si_InputOctets = 0, si_OutputOctets = 0, si_InputPackets = 0, si_OutputPackets = 0,
       si_InputGigaWords = 0, si_OutputGigaWords = 0, si_SessionTime = 0 \<rparr>"

text \<open>The text of an attribute; the number in its first four bytes, or in the fourth, whatever its length.\<close>

definition attr_text :: "radius_packet \<Rightarrow> radius_attribute \<Rightarrow> cpp_exn + string" where
  "attr_text p a = map_sum id text_of_bytes (attr_bytes p a)"

definition GetUiInt32 :: "radius_packet \<Rightarrow> radius_attribute \<Rightarrow> cpp_exn + u32" where
  "GetUiInt32 p a = map_sum id word_rcat (peek (unat (at_pos a)) 4 (rp_attributes (P p)))"

definition fourth_byte :: "radius_packet \<Rightarrow> radius_attribute \<Rightarrow> cpp_exn + u8" where
  "fourth_byte p a = map_sum id hd (peek (unat (at_pos a) + 3) 1 (rp_attributes (P p)))"

definition proxy_interface :: "(string \<Rightarrow> string \<Rightarrow> string list) \<Rightarrow> string \<Rightarrow> session_info \<Rightarrow> session_info" where
  "proxy_interface tokens s i = (let ps = tokens s '':'' in if length ps = 4 then i\<lparr> si_Interface := ps ! 3 \<rparr> else i)"

definition read_identity ::
    "(string \<Rightarrow> string \<Rightarrow> string list) \<Rightarrow> radius_packet \<Rightarrow> radius_attribute \<Rightarrow> session_info \<Rightarrow> cpp_exn + session_info" where
  "read_identity tokens p a i =
     (let t = at_type a; text = (\<lambda>upd. map_sum id (\<lambda>s. upd s) (attr_text p a)) in
      if t = 1 then text (\<lambda>s. i\<lparr> si_UserName := s \<rparr>)
      else if t = 31 then text (\<lambda>s. i\<lparr> si_CallingStationId := s \<rparr>)
      else if t = 30 then text (\<lambda>s. i\<lparr> si_CalledStationId := s \<rparr>)
      else if t = 44 then text (\<lambda>s. i\<lparr> si_AccountingSessionId := s \<rparr>)
      else if t = 50 then text (\<lambda>s. i\<lparr> si_AccountingMultiSessionId := s \<rparr>)
      else if t = 89 then text (\<lambda>s. i\<lparr> si_ChargeableUserIdentity := s \<rparr>)
      else if t = 33 then text (\<lambda>s. proxy_interface tokens s i)
      else Inr i)"

definition read_authentication ::
    "(string \<Rightarrow> string \<Rightarrow> string list) \<Rightarrow> radius_packet \<Rightarrow> radius_attribute \<Rightarrow> session_info \<Rightarrow> cpp_exn + session_info" where
  "read_authentication tokens p a i =
     (if at_type a = 32 then map_sum id (\<lambda>s. i\<lparr> si_nasId := s \<rparr>) (attr_text p a) else read_identity tokens p a i)"

definition read_accounting ::
    "(string \<Rightarrow> string \<Rightarrow> string list) \<Rightarrow> radius_packet \<Rightarrow> radius_attribute \<Rightarrow> session_info \<Rightarrow> cpp_exn + session_info" where
  "read_accounting tokens p a i =
     (let t = at_type a; number = (\<lambda>upd. map_sum id (\<lambda>n. upd n) (GetUiInt32 p a)) in
      if t = 40 then map_sum id (\<lambda>b. i\<lparr> si_PacketType := b \<rparr>) (fourth_byte p a)
      else if t = 42 then number (\<lambda>n. i\<lparr> si_InputOctets := n \<rparr>)
      else if t = 47 then number (\<lambda>n. i\<lparr> si_InputPackets := n \<rparr>)
      else if t = 52 then number (\<lambda>n. i\<lparr> si_InputGigaWords := n \<rparr>)
      else if t = 43 then number (\<lambda>n. i\<lparr> si_OutputOctets := n \<rparr>)
      else if t = 48 then number (\<lambda>n. i\<lparr> si_OutputPackets := n \<rparr>)
      else if t = 53 then number (\<lambda>n. i\<lparr> si_OutputGigaWords := n \<rparr>)
      else if t = 46 then number (\<lambda>n. i\<lparr> si_SessionTime := n \<rparr>)
      else read_identity tokens p a i)"

section \<open>Sessions\<close>

record radius_session =
  s_started :: u64
  s_lastTransaction :: u64
  s_serialNumber :: string
  s_destination :: string
  s_userName :: string
  s_accountingSessionId :: string
  s_accountingMultiSessionId :: string
  s_callingStationId :: string
  s_chargeableUserIdentity :: string
  s_secret :: string
  s_interface :: string
  s_nasId :: string
  s_inputPackets :: u64
  s_outputPackets :: u64
  s_inputOctets :: u64
  s_outputOctets :: u64
  s_inputGigaWords :: u64
  s_outputGigaWords :: u64
  s_sessionTime :: u32
  s_calledStationId :: string
  s_accountingPacket :: radius_packet

type_synonym session_map = "(string, radius_session) omap"
type_synonym sessions = "(string, session_map) omap"

definition new_session :: radius_session where
  "new_session =
     \<lparr> s_started = 0, s_lastTransaction = 0, s_serialNumber = [], s_destination = [], s_userName = [],
       s_accountingSessionId = [], s_accountingMultiSessionId = [], s_callingStationId = [],
       s_chargeableUserIdentity = [], s_secret = [], s_interface = [], s_nasId = [], s_inputPackets = 0,
       s_outputPackets = 0, s_inputOctets = 0, s_outputOctets = 0, s_inputGigaWords = 0, s_outputGigaWords = 0,
       s_sessionTime = 0, s_calledStationId = [], s_accountingPacket = empty_packet \<rparr>"

definition identified :: "u64 \<Rightarrow> string \<Rightarrow> string \<Rightarrow> session_info \<Rightarrow> radius_session" where
  "identified now serial secret i =
     new_session\<lparr> s_serialNumber := serial, s_started := now, s_lastTransaction := now, s_userName := si_UserName i,
       s_callingStationId := si_CallingStationId i, s_calledStationId := si_CalledStationId i,
       s_accountingSessionId := si_AccountingSessionId i, s_accountingMultiSessionId := si_AccountingMultiSessionId i,
       s_chargeableUserIdentity := si_ChargeableUserIdentity i, s_interface := si_Interface i, s_secret := secret \<rparr>"

text \<open>The number of packets sent is stored as the number of octets.\<close>

definition counted :: "string \<Rightarrow> radius_packet \<Rightarrow> session_info \<Rightarrow> radius_session \<Rightarrow> radius_session" where
  "counted destination p i s =
     s\<lparr> s_accountingPacket := p, s_destination := destination, s_inputOctets := ucast (si_InputOctets i),
       s_inputPackets := ucast (si_InputPackets i), s_inputGigaWords := ucast (si_InputGigaWords i),
       s_outputOctets := ucast (si_OutputPackets i), s_outputGigaWords := ucast (si_OutputGigaWords i),
       s_sessionTime := si_SessionTime i \<rparr>"

definition session_index :: "session_info \<Rightarrow> string" where
  "session_index i = si_AccountingSessionId i @ si_AccountingMultiSessionId i"

definition device_sessions :: "string \<Rightarrow> sessions \<Rightarrow> session_map" where
  "device_sessions serial ss = (case om_find ss serial of Some m \<Rightarrow> m | None \<Rightarrow> [])"

text \<open>The entry of a device is made by any message; it may stay empty.\<close>

definition ProcessAuthenticationSession ::
    "(string \<Rightarrow> string \<Rightarrow> string list) \<Rightarrow> u64 \<Rightarrow> session_note \<Rightarrow> sessions \<Rightarrow> cpp_exn + sessions" where
  "ProcessAuthenticationSession tokens now note ss =
     (case note of (destination, serial, p, secret) \<Rightarrow>
        map_sum id (\<lambda>i.
          let m = device_sessions serial ss in
          om_set serial
            (case om_find m (session_index i) of
               None \<Rightarrow> om_set (session_index i) ((identified now serial secret i)\<lparr> s_nasId := si_nasId i \<rparr>) m
             | Some s \<Rightarrow> om_set (session_index i) (s\<lparr> s_lastTransaction := now \<rparr>) m) ss)
          (try_each (read_authentication tokens p) (Attrs p) no_info))"

definition account :: "u64 \<Rightarrow> string \<Rightarrow> string \<Rightarrow> radius_packet \<Rightarrow> string \<Rightarrow> session_info \<Rightarrow> session_map \<Rightarrow> session_map" where
  "account now destination serial p secret i m =
     (case om_find m (session_index i) of
        None \<Rightarrow>
          if si_PacketType i \<noteq> 1 \<and> si_PacketType i \<noteq> 3 then m
          else om_set (session_index i) (counted destination p i (identified now serial secret i)) m
      | Some s \<Rightarrow>
          if si_PacketType i = 2 then om_erase (session_index i) m
          else om_set (session_index i) (counted destination p i (s\<lparr> s_lastTransaction := now \<rparr>)) m)"

definition ProcessAccountingSession ::
    "(string \<Rightarrow> string \<Rightarrow> string list) \<Rightarrow> u64 \<Rightarrow> session_note \<Rightarrow> sessions \<Rightarrow> cpp_exn + sessions" where
  "ProcessAccountingSession tokens now note ss =
     (case note of (destination, serial, p, secret) \<Rightarrow>
        map_sum id (\<lambda>i. om_set serial (account now destination serial p secret i (device_sessions serial ss)) ss)
          (try_each (read_accounting tokens p) (Attrs p) no_info))"

text \<open>
  Whether an authentication is queued: not, when its station and session are the key of a session. The keys are of
  another form.
\<close>

definition AddAuthenticationSession :: "string \<Rightarrow> radius_packet \<Rightarrow> sessions \<Rightarrow> cpp_exn + bool" where
  "AddAuthenticationSession serial p ss =
     (case om_find ss serial of
        None \<Rightarrow> Inr True
      | Some m \<Rightarrow> try_bind (ExtractCallingStationID p) (\<lambda>station.
          map_sum id (\<lambda>acct. om_find m (station @ acct) = None) (ExtractAccountingSessionID p)))"

text \<open>Every two minutes: what had no transaction for ten minutes goes, and devices without sessions.\<close>

definition SessionTimeout :: u64 where
  "SessionTimeout = 10 * 60"

definition GarbageCollection :: "u64 \<Rightarrow> sessions \<Rightarrow> sessions" where
  "GarbageCollection now ss =
     filter (\<lambda>(serial, m). m \<noteq> [])
       (map (\<lambda>(serial, m). (serial, filter (\<lambda>(k, s). \<not> now - s_lastTransaction s > SessionTimeout) m)) ss)"

text \<open>A device that goes: its sessions are stopped at their servers, one after the other.\<close>

definition stop_packet :: "u32 \<Rightarrow> radius_packet \<Rightarrow> cpp_exn + radius_packet" where
  "stop_packet now p =
     (let p = p\<lparr> P := (P p)\<lparr> rp_identifier := rp_identifier (P p) + 1 \<rparr> \<rparr> in
      try_bind (ReplaceAttribute_u32 40 2 p) (\<lambda>p.
      try_bind (ReplaceOrAdd_u32 55 now p) (\<lambda>p.
      AppendAttribute_u32 49 2 p)))"

fun stop_sessions :: "net_env \<Rightarrow> radius_proxy \<Rightarrow> u32 \<Rightarrow> session_map \<Rightarrow> cpp_exn + radius_effect list" where
  "stop_sessions e px now [] = Inr []"
| "stop_sessions e px now ((k, s) # m) =
     try_bind (stop_packet now (s_accountingPacket s)) (\<lambda>p.
     try_bind (RouteAndSendAccountingPacket e (s_destination s) p True (s_secret s) px) (\<lambda>(_, _, es).
     map_sum id (\<lambda>es'. es @ es') (stop_sessions e px now m)))"

definition DisconnectSession ::
    "net_env \<Rightarrow> radius_proxy \<Rightarrow> u32 \<Rightarrow> string \<Rightarrow> sessions \<Rightarrow> cpp_exn + radius_effect list \<times> sessions" where
  "DisconnectSession e px now serial ss =
     (case om_find ss serial of
        None \<Rightarrow> Inr ([], ss)
      | Some m \<Rightarrow> map_sum id (\<lambda>es. (es, om_erase serial ss)) (stop_sessions e px now m))"

section \<open>Ending sessions by request\<close>

definition append_text :: "u8 \<Rightarrow> string \<Rightarrow> radius_packet \<Rightarrow> cpp_exn + radius_packet" where
  "append_text t s p = (if s = [] then Inr p else AppendAttribute_text t s p)"

definition SendCoADM_session :: "net_env \<Rightarrow> radius_session \<Rightarrow> cpp_exn + radius_effect list" where
  "SendCoADM_session e s =
     (let p = empty_packet\<lparr> P := (P empty_packet)\<lparr> rp_code := 40, rp_identifier := n_rnd e 0 \<rparr> \<rparr> in
      try_bind (AppendAttribute_text 1 (s_userName s) p) (\<lambda>p.
      try_bind (AppendAttribute_u32 4 0x7f000001 p) (\<lambda>p.
      try_bind (append_text 30 (s_calledStationId s) p) (\<lambda>p.
      try_bind (append_text 31 (s_callingStationId s) p) (\<lambda>p.
      try_bind (append_text 32 (s_nasId s) p) (\<lambda>p.
      try_bind (append_text 44 (s_accountingSessionId s) p) (\<lambda>p.
      try_bind (append_text 50 (s_accountingMultiSessionId s) p) (\<lambda>p.
      try_bind (AppendAttribute_text 33 (s_serialNumber s @ '':0.0.0.0:3799:'' @ s_interface s) p) (\<lambda>p.
      try_bind (RecomputeAuthenticator (n_md5 e) (s_secret s) p) (\<lambda>p.
      try_bind (packet_data p) (\<lambda>bs.
      to_device Radius_coa (s_serialNumber s) bs)))))))))))"

definition SendCoADM :: "net_env \<Rightarrow> string \<Rightarrow> string \<Rightarrow> sessions \<Rightarrow> cpp_exn + bool \<times> radius_effect list" where
  "SendCoADM e serial index ss =
     (case om_find ss serial of
        None \<Rightarrow> Inr (False, [])
      | Some m \<Rightarrow>
          (case om_find m index of
             None \<Rightarrow> Inr (True, [])
           | Some s \<Rightarrow> map_sum id (Pair True) (SendCoADM_session e s)))"

fun send_all_CoADM :: "net_env \<Rightarrow> radius_session list \<Rightarrow> cpp_exn + radius_effect list" where
  "send_all_CoADM e [] = Inr []"
| "send_all_CoADM e (s # l) =
     try_bind (SendCoADM_session e s) (\<lambda>es. map_sum id (\<lambda>es'. es @ es') (send_all_CoADM e l))"

definition all_sessions :: "sessions \<Rightarrow> radius_session list" where
  "all_sessions ss = concat (map (\<lambda>(serial, m). map snd m) ss)"

definition DisconnectUser :: "net_env \<Rightarrow> string \<Rightarrow> sessions \<Rightarrow> cpp_exn + bool \<times> radius_effect list" where
  "DisconnectUser e user ss =
     map_sum id (Pair True) (send_all_CoADM e (filter (\<lambda>s. s_userName s = user) (all_sessions ss)))"

section \<open>Looking sessions up\<close>

definition GetAPList :: "sessions \<Rightarrow> string list" where
  "GetAPList ss = map fst ss"

definition GetAPSessions :: "string \<Rightarrow> sessions \<Rightarrow> radius_session list" where
  "GetAPSessions serial ss = map snd (device_sessions serial ss)"

definition HasSessions :: "string \<Rightarrow> sessions \<Rightarrow> nat" where
  "HasSessions serial ss = length (device_sessions serial ss)"

text \<open>The matcher may read behind the text.\<close>

fun matching :: "string \<Rightarrow> (radius_session \<Rightarrow> string) \<Rightarrow> radius_session list \<Rightarrow> cpp_exn + radius_session list" where
  "matching pattern f [] = Inr []"
| "matching pattern f (s # l) =
     (case match pattern (f s) of
        None \<Rightarrow> Inl (Undefined_Behaviour ''read behind the text'')
      | Some b \<Rightarrow> map_sum id (\<lambda>l'. if b then s # l' else l') (matching pattern f l))"

definition GetUserNameAPSessions :: "string \<Rightarrow> sessions \<Rightarrow> cpp_exn + radius_session list" where
  "GetUserNameAPSessions user ss = matching user s_userName (all_sessions ss)"

definition GetMACAPSessions :: "string \<Rightarrow> sessions \<Rightarrow> cpp_exn + radius_session list" where
  "GetMACAPSessions mac ss = matching mac s_callingStationId (all_sessions ss)"

section \<open>Requests\<close>

definition MayBeAMAC :: "string \<Rightarrow> bool" where
  "MayBeAMAC mac \<longleftrightarrow> list_all (\<lambda>c. isxdigit c \<or> c = CHR '':'' \<or> c = CHR ''-'' \<or> c = CHR ''*'') mac"

text \<open>A colon behind every other character, from the first one or from the second.\<close>

fun InsertDelimiters :: "bool \<Rightarrow> string \<Rightarrow> string" where
  "InsertDelimiters first [] = []"
| "InsertDelimiters first [c] = [c]"
| "InsertDelimiters first (c # c' # cs) =
     (if first then c # InsertDelimiters False (c' # cs) else c # CHR '':'' # InsertDelimiters True (c' # cs))"

definition StripDelimiters :: "string \<Rightarrow> string" where
  "StripDelimiters v = filter (\<lambda>c. c \<noteq> CHR '':'' \<and> c \<noteq> CHR ''-'') v"

definition ConvertToMac :: "(string \<Rightarrow> string) \<Rightarrow> string \<Rightarrow> string" where
  "ConvertToMac upper v =
     (let r = StripDelimiters (upper v) in
      if length r = 12 then InsertDelimiters True r
      else if CHR ''*'' \<notin> set r then []
      else if r ! 0 = CHR ''*'' then InsertDelimiters (even (length r)) r
      else InsertDelimiters True r)"

text \<open>The answer is a list of serial numbers or of sessions. The user is looked for in lower case.\<close>

type_synonym session_list = "string list + radius_session list"

definition sessions_by_mac :: "(string \<Rightarrow> string) \<Rightarrow> string \<Rightarrow> string \<Rightarrow> sessions \<Rightarrow> cpp_exn + session_list rest_reply" where
  "sessions_by_mac upper mac serial ss =
     (if mac \<noteq> [] then
        map_sum id (\<lambda>l. Rest_Object (Inr l)) (GetMACAPSessions (map (\<lambda>c. if c = CHR '':'' then CHR ''-'' else c) (upper mac)) ss)
      else if serial = [] \<or> \<not> ValidSerialNumber serial then Inr (Rest_BadRequest ''MissingOrInvalidParameters'')
      else Inr (Rest_Object (Inr (GetAPSessions serial ss))))"

definition radiussessions_DoGet ::
    "(string \<Rightarrow> string) \<Rightarrow> (string \<Rightarrow> string) \<Rightarrow> bool \<Rightarrow> string \<Rightarrow> string \<Rightarrow> string \<Rightarrow> sessions \<Rightarrow> cpp_exn + session_list rest_reply" where
  "radiussessions_DoGet lower upper serials_only mac user serial ss =
     (if serials_only then Inr (Rest_Object (Inl (GetAPList ss)))
      else if user = [] then sessions_by_mac upper mac serial ss
      else try_bind (GetUserNameAPSessions (lower user) ss) (\<lambda>l.
        if l = [] \<and> MayBeAMAC (lower user) then sessions_by_mac upper (ConvertToMac upper (lower user)) serial ss
        else Inr (Rest_Object (Inr l))))"

record coadm_parameters =
  cp_accountingSessionId :: string
  cp_accountingMultiSessionId :: string
  cp_callingStationId :: string
  cp_chargeableUserIdentity :: string
  cp_userName :: string

definition RadiusCoADMParameters_from_json :: "poco \<Rightarrow> jobject \<Rightarrow> coadm_parameters \<Rightarrow> bool \<times> coadm_parameters" where
  "RadiusCoADMParameters_from_json p obj =
     read_fields [str_from_json p obj ''accountingSessionId'' (\<lambda>v c. c\<lparr> cp_accountingSessionId := v \<rparr>),
                  str_from_json p obj ''accountingMultiSessionId'' (\<lambda>v c. c\<lparr> cp_accountingMultiSessionId := v \<rparr>),
                  str_from_json p obj ''callingStationId'' (\<lambda>v c. c\<lparr> cp_callingStationId := v \<rparr>),
                  str_from_json p obj ''chargeableUserIdentity'' (\<lambda>v c. c\<lparr> cp_chargeableUserIdentity := v \<rparr>),
                  str_from_json p obj ''userName'' (\<lambda>v c. c\<lparr> cp_userName := v \<rparr>)]"

definition radiussessions_DoPut ::
    "poco \<Rightarrow> net_env \<Rightarrow> string \<Rightarrow> string \<Rightarrow> jobject \<Rightarrow> sessions \<Rightarrow> cpp_exn + unit rest_reply \<times> radius_effect list" where
  "radiussessions_DoPut p e serial operation body ss =
     (let bad = (\<lambda>why. Inr (Rest_BadRequest why, []));
          finish = map_sum id (\<lambda>(ok, es). (if ok then Rest_OK else Rest_BadRequest ''CouldNotPerformCommand'', es))
      in if serial = [] \<or> \<not> ValidSerialNumber serial then bad ''MissingOrInvalidParameters''
      else case RadiusCoADMParameters_from_json p body \<lparr> cp_accountingSessionId = [], cp_accountingMultiSessionId = [],
             cp_callingStationId = [], cp_chargeableUserIdentity = [], cp_userName = [] \<rparr> of
        (False, _) \<Rightarrow> bad ''InvalidJSONDocument''
      | (True, c) \<Rightarrow>
          if operation = ''coadm'' then
            (if cp_callingStationId c = [] \<or> cp_accountingSessionId c = [] \<or> cp_accountingMultiSessionId c = []
             then bad ''MissingOrInvalidParameters''
             else finish (SendCoADM e serial (cp_accountingSessionId c @ cp_accountingMultiSessionId c) ss))
          else if operation = ''disconnectUser'' \<and> cp_userName c \<noteq> [] then finish (DisconnectUser e (cp_userName c) ss)
          else bad ''InvalidCommand'')"

end
