(* ===== verification/GW_RadiusTracking.thy ===== *)
theory GW_RadiusTracking
  imports GW_RadiusSessions
begin

text \<open>
  What the tracker of the accounting sessions and the proxy do for well-formed packets: the tracker follows the
  history of the messages of each session, and what is sent is made of the attributes of what came in.
\<close>

section \<open>Reading well-formed packets\<close>

lemma text_bytes [simp]: "text_of_bytes (bytes_of_text s) = s"
proof -
  have "char_of (unat (of_nat (char_code c) :: u8)) = c" for c
    using of_char_mod_256 [of c, where 'a = nat] by (simp add: char_code_def unat_of_nat)
  then show ?thesis by (simp add: text_of_bytes_def bytes_of_text_def o_def map_idI)
qed

definition counter_types :: "u8 set" where
  "counter_types = {40, 42, 43, 46, 47, 48, 52, 53, 55}"

definition counters_ok :: "avp list \<Rightarrow> bool" where
  "counters_ok avs \<longleftrightarrow> (\<forall>(t, v)\<in>set avs. t \<in> counter_types \<longrightarrow> length v = 4)"

definition identity_step :: "(string \<Rightarrow> string \<Rightarrow> string list) \<Rightarrow> avp \<Rightarrow> session_info \<Rightarrow> session_info" where
  "identity_step tokens av i =
     (let s = text_of_bytes (snd av) in
      if fst av = 1 then i\<lparr> si_UserName := s \<rparr>
      else if fst av = 31 then i\<lparr> si_CallingStationId := s \<rparr>
      else if fst av = 30 then i\<lparr> si_CalledStationId := s \<rparr>
      else if fst av = 44 then i\<lparr> si_AccountingSessionId := s \<rparr>
      else if fst av = 50 then i\<lparr> si_AccountingMultiSessionId := s \<rparr>
      else if fst av = 89 then i\<lparr> si_ChargeableUserIdentity := s \<rparr>
      else if fst av = 33 then proxy_interface tokens s i
      else i)"

definition accounting_step :: "(string \<Rightarrow> string \<Rightarrow> string list) \<Rightarrow> avp \<Rightarrow> session_info \<Rightarrow> session_info" where
  "accounting_step tokens av i =
     (let n = word_rcat (snd av) in
      if fst av = 40 then i\<lparr> si_PacketType := snd av ! 3 \<rparr>
      else if fst av = 42 then i\<lparr> si_InputOctets := n \<rparr>
      else if fst av = 47 then i\<lparr> si_InputPackets := n \<rparr>
      else if fst av = 52 then i\<lparr> si_InputGigaWords := n \<rparr>
      else if fst av = 43 then i\<lparr> si_OutputOctets := n \<rparr>
      else if fst av = 48 then i\<lparr> si_OutputPackets := n \<rparr>
      else if fst av = 53 then i\<lparr> si_OutputGigaWords := n \<rparr>
      else if fst av = 46 then i\<lparr> si_SessionTime := n \<rparr>
      else identity_step tokens av i)"

definition info_of :: "(string \<Rightarrow> string \<Rightarrow> string list) \<Rightarrow> avp list \<Rightarrow> session_info" where
  "info_of tokens avs = fold (accounting_step tokens) avs no_info"

lemma value_at:
  assumes "pkt_ok p (pre @ (t, v) # post)"
  obtains l rest where "rp_attributes (P p) = encode pre @ [t, l] @ v @ rest"
    and "unat (of_nat (length (encode pre) + 2) :: u16) = length (encode pre) + 2"
proof -
  obtain rest where "rp_attributes (P p) = encode pre @ [t, of_nat (length v) + 2] @ v @ encode post @ rest"
    using assms by (auto simp: pkt_ok_def)
  moreover have "length (encode pre) + 2 < 65536" using pkt_okD(7) [OF assms] by simp
  then have "unat (of_nat (length (encode pre) + 2) :: u16) = length (encode pre) + 2" by (simp only: small_nat)
  ultimately show thesis by (rule that)
qed

lemma number_at:
  assumes "pkt_ok p (pre @ (t, v) # post)" and "length v = 4"
  shows "GetUiInt32 p \<lparr> at_type = t', at_pos = of_nat (length (encode pre) + 2), at_len = n \<rparr> = Inr (word_rcat v)"
    and "fourth_byte p \<lparr> at_type = t', at_pos = of_nat (length (encode pre) + 2), at_len = n \<rparr> = Inr (v ! 3)"
proof -
  obtain l rest where m: "rp_attributes (P p) = encode pre @ [t, l] @ v @ rest"
    "unat (of_nat (length (encode pre) + 2) :: u16) = length (encode pre) + 2" using value_at [OF assms(1)] .
  show "GetUiInt32 p \<lparr> at_type = t', at_pos = of_nat (length (encode pre) + 2), at_len = n \<rparr> = Inr (word_rcat v)"
    using m assms(2) by (simp add: GetUiInt32_def peek_def)
  obtain a b c d where v: "v = [a, b, c, d]"
    using assms(2) by (auto simp: numeral_eq_Suc length_Suc_conv)
  show "fourth_byte p \<lparr> at_type = t', at_pos = of_nat (length (encode pre) + 2), at_len = n \<rparr> = Inr (v ! 3)"
    using m by (simp add: fourth_byte_def peek_def v)
qed

lemma try_each_layout:
  assumes "pkt_ok p (pre @ avs)"
    and "\<And>pre t v post i. pkt_ok p (pre @ (t, v) # post) \<Longrightarrow> (t, v) \<in> set avs \<Longrightarrow>
           f \<lparr> at_type = t, at_pos = of_nat (length (encode pre) + 2), at_len = of_nat (length v) \<rparr> i = Inr (g (t, v) i)"
  shows "try_each f (layout (length (encode pre)) avs) i = Inr (fold g avs i)"
  using assms
proof (induction avs arbitrary: pre i)
  case (Cons av avs)
  obtain t v where av: "av = (t, v)" by (cases av)
  have "try_each f (layout (length (encode (pre @ [av]))) avs) (g av i) = Inr (fold g avs (g av i))"
    by (rule Cons.IH) (use Cons.prems in auto)
  with Cons.prems(2) [of pre t v avs i] Cons.prems(1) av show ?case by simp
qed simp

lemma read_accounting_ok:
  assumes "pkt_ok p avs" and "counters_ok avs"
  shows "try_each (read_accounting tokens p) (Attrs p) no_info = Inr (info_of tokens avs)"
proof -
  have "read_accounting tokens p \<lparr> at_type = t, at_pos = of_nat (length (encode pre) + 2), at_len = of_nat (length v) \<rparr> i =
      Inr (accounting_step tokens (t, v) i)" if ok: "pkt_ok p (pre @ (t, v) # post)" and "(t, v) \<in> set avs" for pre t v post i
  proof -
    have "length v = 4" if "t \<in> counter_types" using that assms(2) \<open>(t, v) \<in> set avs\<close> by (auto simp: counters_ok_def)
    then show ?thesis
      using number_at [OF ok, where n = "of_nat (length v)"] attr_bytes_ok [OF ok]
      by (cases "t \<in> counter_types") (auto simp: read_accounting_def accounting_step_def Let_def read_identity_def identity_step_def attr_text_def counter_types_def)
  qed
  from try_each_layout [of p "[]" avs "read_accounting tokens p" "accounting_step tokens", OF _ this] assms(1)
  show ?thesis by (simp add: info_of_def pkt_okD(5))
qed

section \<open>The packets that stop sessions\<close>

definition packet_head :: "radius_packet \<Rightarrow> u8 \<times> u8 \<times> bytes" where
  "packet_head p = (rp_code (P p), rp_identifier (P p), rp_authenticator (P p))"

lemma reparse_head: "reparse p = Inr p' \<Longrightarrow> P p' = P p"
  by (auto simp: reparse_def map_sum_def split: sum.splits)

lemma ReParse_head: "ReParse p = Inr p' \<Longrightarrow> packet_head p' = packet_head p"
  by (auto simp: ReParse_def packet_head_def dest!: reparse_head)

lemma edits_head:
  "replace_number t bs p = Inr p' \<Longrightarrow> packet_head p' = packet_head p"
  "AppendAttribute t bs p = Inr p' \<Longrightarrow> packet_head p' = packet_head p"
  by (auto simp: replace_number_def AppendAttribute_def set_attributes_def packet_head_def map_sum_def try_bind_def Let_def
      split: option.splits sum.splits dest!: ReParse_head)

lemma replace_u32_ok:
  assumes "pkt_ok p avs" and "t \<in> fst ` set avs" and "\<forall>v. (t, v) \<in> set avs \<longrightarrow> length v = 4"
  shows "\<exists>p'. ReplaceAttribute_u32 t n p = Inr p' \<and> pkt_ok p' (replace_first t (be32 n) avs) \<and> packet_head p' = packet_head p"
proof -
  obtain pre v post where avs: "avs = pre @ (t, v) # post" "t \<notin> fst ` set pre" using first_with_type [OF assms(2)] by blast
  then have "length (be32 n) = length v" using assms(3) by (auto simp: be32_def)
  from replace_number_ok [OF assms(1) [unfolded avs(1)] avs(2) this] show ?thesis
    using edits_head(1) by (auto simp: ReplaceAttribute_u32_def avs)
qed

lemma append_u32_ok:
  assumes "pkt_ok p avs" and "length avs < 25" and "length (encode avs) \<le> 1780"
  shows "\<exists>p'. AppendAttribute_u32 t n p = Inr p' \<and> pkt_ok p' (avs @ [(t, be32 n)]) \<and> packet_head p' = packet_head p"
  using pk.append_law [OF assms, of "be32 n" t] edits_head(2) by (auto simp: AppendAttribute_u32_def be32_def)

lemma replace_first_shape [simp]:
  "length (replace_first t v avs) = length avs" "fst ` set (replace_first t v avs) = fst ` set avs"
  by (induction avs) (auto split: if_splits)

lemma encode_replace_le: "length (encode (replace_first t v avs)) \<le> length (encode avs) + length v"
  by (induction t v avs rule: replace_first.induct) auto

lemma replace_first_in: "av \<in> set (replace_first t v avs) \<Longrightarrow> av = (t, v) \<or> av \<in> set avs"
  by (induction avs) (auto split: if_splits)

definition stop_avps :: "u32 \<Rightarrow> avp list \<Rightarrow> avp list" where
  "stop_avps now avs = put_avp 55 (be32 now) (replace_first 40 (be32 2) avs) @ [(49, be32 2)]"

text \<open>An accounting packet that can be turned into one that stops.\<close>

definition stoppable :: "radius_packet \<Rightarrow> avp list \<Rightarrow> bool" where
  "stoppable p avs \<longleftrightarrow> pkt_ok p avs \<and> counters_ok avs \<and> 40 \<in> fst ` set avs \<and> unat (Size p) \<le> 1700 \<and> length avs \<le> 22 \<and>
     rp_code (P p) = 4"

lemma stop_packet_ok:
  assumes "stoppable p avs"
  shows "\<exists>p'. stop_packet now p = Inr p' \<and> pkt_ok p' (stop_avps now avs) \<and> rp_code (P p') = 4 \<and>
              rp_identifier (P p') = rp_identifier (P p) + 1 \<and> rp_authenticator (P p') = rp_authenticator (P p)"
proof -
  note s = assms [unfolded stoppable_def]
  let ?p = "p\<lparr> P := (P p)\<lparr> rp_identifier := rp_identifier (P p) + 1 \<rparr> \<rparr>" and ?avs = "replace_first 40 (be32 2) avs"
  have ok: "pkt_ok ?p avs" using s by (simp add: pkt_ok_def)
  have four: "\<forall>v. (t, v) \<in> set avs \<longrightarrow> length v = 4" if "t \<in> counter_types" for t
    using s that by (auto simp: counters_ok_def)
  have small: "length (encode avs) \<le> 1680" using s pkt_okD(4) [of p avs] by simp
  obtain p1 where p1: "ReplaceAttribute_u32 40 2 ?p = Inr p1" "pkt_ok p1 ?avs" "packet_head p1 = packet_head ?p"
    using replace_u32_ok [OF ok, of 40 2] s four [of 40] by (auto simp: counter_types_def)
  have small1: "length (encode ?avs) \<le> 1684" using encode_replace_le [of 40 "be32 2" avs] small by (simp add: be32_def)
  have four1: "\<forall>v. (55, v) \<in> set ?avs \<longrightarrow> length v = 4"
    using four [of 55] by (auto simp: counter_types_def dest!: replace_first_in)
  obtain p2 where p2: "ReplaceOrAdd_u32 55 now p1 = Inr p2" "pkt_ok p2 (put_avp 55 (be32 now) ?avs)" "packet_head p2 = packet_head p1"
  proof (cases "55 \<in> fst ` set ?avs")
    case True
    then show thesis
      using replace_u32_ok [OF p1(2) True four1, of now] HasAttribute_ok [OF p1(2), of 55] that
      by (auto simp: ReplaceOrAdd_u32_def put_avp_def)
  next
    case False
    then show thesis
      using append_u32_ok [OF p1(2), of 55 now] HasAttribute_ok [OF p1(2), of 55] that s small1
      by (auto simp: ReplaceOrAdd_u32_def put_avp_def)
  qed
  have "length (put_avp 55 (be32 now) ?avs) < 25" "length (encode (put_avp 55 (be32 now) ?avs)) \<le> 1780"
    using s small1 encode_replace_le [of 55 "be32 now" ?avs] by (auto simp: put_avp_def be32_def)
  from append_u32_ok [OF p2(2) this, of 49 2] obtain p3 where
    p3: "AppendAttribute_u32 49 2 p2 = Inr p3" "pkt_ok p3 (stop_avps now avs)" "packet_head p3 = packet_head p2"
    by (auto simp: stop_avps_def)
  have "stop_packet now p = Inr p3" using p1(1) p2(1) p3(1) by (simp add: stop_packet_def Let_def)
  moreover have "packet_head p3 = packet_head ?p" using p1(3) p2(3) p3(3) by simp
  ultimately show ?thesis using p3(2) s by (auto simp: packet_head_def)
qed

section \<open>Routing accounting packets\<close>

definition wire :: "u8 \<Rightarrow> u8 \<Rightarrow> bytes \<Rightarrow> avp list \<Rightarrow> bytes" where
  "wire c i auth avs = [c, i] @ be16 (of_nat (20 + length (encode avs))) @ auth @ encode avs"

lemma length_wire [simp]: "length auth = 16 \<Longrightarrow> length (wire c i auth avs) = 20 + length (encode avs)"
  by (simp add: wire_def be16_def)

lemma packet_data_ok:
  assumes "pkt_ok p avs"
  shows "packet_data p = Inr (wire (rp_code (P p)) (rp_identifier (P p)) (rp_authenticator (P p)) avs)"
proof -
  note d = pkt_okD [OF assms]
  obtain rest where m: "rp_attributes (P p) = encode avs @ rest" "rp_rawlen (P p) = Size p" using assms by (auto simp: pkt_ok_def)
  have sz: "Size p = of_nat (20 + length (encode avs))" using d(4) by (metis of_nat_unat ucast_id)
  have whole: "raw_bytes ((P p)\<lparr> rp_attributes := rp_attributes (P p) \<rparr>) =
      wire (rp_code (P p)) (rp_identifier (P p)) (rp_authenticator (P p)) avs @ rest"
    unfolding m(1) by (simp add: raw_bytes_def wire_def be16_def m sz)
  have "unat (Size p) \<le> 4116" "unat (Size p) = length (wire (rp_code (P p)) (rp_identifier (P p)) (rp_authenticator (P p)) avs)"
    using d by simp_all
  then show ?thesis unfolding packet_data_def signed_part_def whole by simp
qed

lemma packet_of_wire:
  assumes "avps_ok avs" and "length avs \<le> 25" and "length (encode avs) < 4096" and "length auth = 16"
  shows "\<exists>p. packet_of (wire c i auth avs) = Inr p \<and> pkt_ok p avs \<and> rp_code (P p) = c"
proof -
  have "length (wire c i auth avs) mod 65536 = length (wire c i auth avs)" using assms(3,4) by simp
  then have "packet_of (wire c i auth avs) = make_packet (wire c i auth avs)" by (simp add: packet_of_def)
  then show ?thesis using make_packet_bytes [OF assms, of c i] by (auto simp: wire_def)
qed

text \<open>Where a packet that stops a session goes, and with which authenticator.\<close>

definition stop_effect :: "net_env \<Rightarrow> u32 \<Rightarrow> destination \<Rightarrow> radius_packet \<Rightarrow> avp list \<Rightarrow> radius_effect" where
  "stop_effect e now d p avs =
     (let s = hd (acct_servers d);
          bs = (\<lambda>auth. wire 4 (rp_identifier (P p) + 1) auth (stop_avps now avs))
      in if de_type d = Endpoint_generic then Udp_Send Radius_acct (rs_ip s) (rs_port s) (bs (rp_authenticator (P p)))
         else Tls_Send (pool_name (de_pool d))
                (bs (n_md5 e (bs (replicate 16 0) @ bytes_of_text (rs_secret s)))))"

text \<open>A destination that is there and takes what is sent.\<close>

definition usable :: "net_env \<Rightarrow> destination \<Rightarrow> bool" where
  "usable e d \<longleftrightarrow> acct_servers d \<noteq> [] \<and>
     (if de_type d = Endpoint_generic then Radius_acct \<in> de_udp d \<and> n_address e (hd (acct_servers d))
      else de_type d \<in> {Endpoint_orion, Endpoint_globalreach} \<and> de_connected d \<and> de_server d < length (auth_servers d) \<and>
           (\<forall>bs. \<exists>n. n_send e bs = Inr n) \<and> (\<forall>bs. length (n_md5 e bs) = 16))"

lemma stop_avps_small:
  assumes "stoppable p avs"
  shows "length (encode (stop_avps now avs)) < 4096"
proof -
  have "length (encode avs) \<le> 1680" using assms pkt_okD(4) [of p avs] by (simp add: stoppable_def)
  then show ?thesis
    using encode_replace_le [of 40 "be32 2" avs] encode_replace_le [of 55 "be32 now" "replace_first 40 (be32 2) avs"]
    by (simp add: stop_avps_def put_avp_def be32_def)
qed

lemma route_stop:
  assumes "stoppable p avs" and "usable e d" and "Split destination CHR '':'' = host # parts"
    and "om_find (px_dests px) (IPtoInt (n_ip e) host) = Some d"
  shows "\<exists>p1 p2 secret'. stop_packet now p = Inr p1 \<and>
           RouteAndSendAccountingPacket e destination p1 True secret px = Inr (p2, secret', [stop_effect e now d p avs])"
proof -
  obtain p1 where p1: "stop_packet now p = Inr p1" "pkt_ok p1 (stop_avps now avs)" "rp_code (P p1) = 4"
    "rp_identifier (P p1) = rp_identifier (P p) + 1" "rp_authenticator (P p1) = rp_authenticator (P p)"
    using stop_packet_ok [OF assms(1), of now] by blast
  obtain s ss where s: "acct_servers d = s # ss" using assms(2) by (cases "acct_servers d") (simp_all add: usable_def)
  show ?thesis
  proof (cases "de_type d = Endpoint_generic")
    case True
    then show ?thesis
      using p1 assms(2-4) s packet_data_ok [OF p1(2)]
      by (simp add: RouteAndSendAccountingPacket_def SendRadiusDataAcctData_def send_datagram_def nth_server_def usable_def
          swallow_def stop_effect_def Let_def)
  next
    case False
    let ?bs = "\<lambda>auth. wire 4 (rp_identifier (P p) + 1) auth (stop_avps now avs)"
    let ?auth = "n_md5 e (?bs (replicate 16 0) @ bytes_of_text (rs_secret s))"
    define p0 where "p0 = p1\<lparr> P := (P p1)\<lparr> rp_authenticator := replicate 16 0, rp_rawlen := Size p1 \<rparr> \<rparr>"
    define p2 where "p2 = p0\<lparr> P := (P p0)\<lparr> rp_authenticator := ?auth \<rparr> \<rparr>"
    have md5: "length (n_md5 e bs) = 16" for bs using assms(2) False by (simp add: usable_def)
    have ok0: "pkt_ok p0 (stop_avps now avs)" and ok2: "pkt_ok p2 (stop_avps now avs)"
      using p1(2) md5 by (auto simp: pkt_ok_def p0_def p2_def)
    have h0: "rp_code (P p0) = 4" "rp_identifier (P p0) = rp_identifier (P p) + 1" "rp_authenticator (P p0) = replicate 16 0"
      using p1(3,4) by (simp_all add: p0_def)
    have h2: "rp_code (P p2) = 4" "rp_identifier (P p2) = rp_identifier (P p) + 1" "rp_authenticator (P p2) = ?auth"
      using h0 by (simp_all add: p2_def)
    have "signed_part p0 (rp_attributes (P p1)) = Inr (?bs (replicate 16 0))"
      using packet_data_ok [OF ok0] h0 by (simp add: packet_data_def p0_def)
    then have rc: "RecomputeAuthenticator (n_md5 e) (rs_secret s) p1 = Inr p2"
      by (simp add: RecomputeAuthenticator_def Let_def p0_def [symmetric] p2_def) (simp add: p0_def)
    have data: "packet_data p2 = Inr (?bs ?auth)" using packet_data_ok [OF ok2] h2 by simp
    obtain q where q: "packet_of (?bs ?auth) = Inr q" "rp_code (P q) = 4"
      using packet_of_wire [OF pkt_okD(1,2) [OF ok2] stop_avps_small [OF assms(1)] md5] by metis
    obtain n where n: "n_send e (?bs ?auth) = Inr n" using assms(2) False by (auto simp: usable_def)
    have "destination_SendData e (?bs ?auth) d = Inr (n = length (?bs ?auth), [Tls_Send (pool_name (de_pool d)) (?bs ?auth)])"
      using assms(2) False q n
      by (auto simp: destination_SendData_def usable_def nth_server_def VerifyMessageAuthenticator_def tls_bytes_def tls_send_def swallow_def)
    then show ?thesis
      using p1(1) assms(3,4) s False rc data
      by (simp add: RouteAndSendAccountingPacket_def nth_server_def stop_effect_def Let_def)
  qed
qed

section \<open>Sessions and their history\<close>

definition session_at :: "sessions \<Rightarrow> string \<times> string \<Rightarrow> radius_session option" where
  "session_at ss k = om_find (device_sessions (fst k) ss) (snd k)"

definition sessions_ok :: "sessions \<Rightarrow> bool" where
  "sessions_ok ss \<longleftrightarrow> om_wf ss \<and> (\<forall>m\<in>snd ` set ss. om_wf m)"

lemma device_sessions_wf: "sessions_ok ss \<Longrightarrow> om_wf (device_sessions serial ss)"
  by (cases "om_find ss serial") (force simp: sessions_ok_def device_sessions_def dest: om_find_in_set)+

lemma om_values_set: "snd ` set (om_set k v m) \<subseteq> insert v (snd ` set m)"
  by (induction k v m rule: om_set.induct) auto

lemma store_device:
  assumes "sessions_ok ss" and "om_wf m"
  shows "sessions_ok (om_set serial m ss)"
    and "session_at (om_set serial m ss) k = (if fst k = serial then om_find m (snd k) else session_at ss k)"
proof -
  have "\<forall>m'\<in>snd ` set (om_set serial m ss). om_wf m'"
    using assms om_values_set [of serial m ss] unfolding sessions_ok_def by blast
  with assms show "sessions_ok (om_set serial m ss)" by (simp add: sessions_ok_def om_wf_set)
  show "session_at (om_set serial m ss) k = (if fst k = serial then om_find m (snd k) else session_at ss k)"
    using assms by (simp add: sessions_ok_def session_at_def device_sessions_def om_find_set)
qed

lemma drop_device:
  assumes "sessions_ok ss"
  shows "sessions_ok (om_erase serial ss)"
    and "session_at (om_erase serial ss) k = (if fst k = serial then None else session_at ss k)"
  using assms by (auto simp: sessions_ok_def om_wf_erase session_at_def device_sessions_def om_find_erase)
    (auto simp: om_erase_def)

definition fresh_enough :: "u64 \<Rightarrow> radius_session \<Rightarrow> bool" where
  "fresh_enough now s \<longleftrightarrow> \<not> now - s_lastTransaction s > SessionTimeout"

lemma collected:
  assumes "sessions_ok ss"
  shows "sessions_ok (GarbageCollection now ss)"
    and "session_at (GarbageCollection now ss) k =
           (case session_at ss k of Some s \<Rightarrow> if fresh_enough now s then Some s else None | None \<Rightarrow> None)"
proof -
  let ?keep = "\<lambda>m. filter (\<lambda>(k, s). fresh_enough now s) m"
  have gc: "GarbageCollection now ss = filter (\<lambda>(serial, m). m \<noteq> []) (map (\<lambda>(serial, m). (serial, ?keep m)) ss)"
    by (simp add: GarbageCollection_def fresh_enough_def)
  have keys: "map fst (map (\<lambda>(serial, m). (serial, ?keep m)) ss) = map fst ss" by (induction ss) auto
  have wf: "om_wf (map (\<lambda>(serial, m). (serial, ?keep m)) ss)" using assms unfolding om_wf_def keys by (simp add: sessions_ok_def om_wf_def)
  then show "sessions_ok (GarbageCollection now ss)"
    using assms by (auto simp: gc sessions_ok_def om_wf_filter)
  have "om_find (map (\<lambda>(serial, m). (serial, ?keep m)) ss) serial = map_option ?keep (om_find ss serial)" for serial
    by (induction ss) (auto simp: om_find_def)
  then have "device_sessions (fst k) (GarbageCollection now ss) = ?keep (device_sessions (fst k) ss)"
    by (auto simp: device_sessions_def gc om_find_filter [OF wf] split: option.splits)
  then show "session_at (GarbageCollection now ss) k =
      (case session_at ss k of Some s \<Rightarrow> if fresh_enough now s then Some s else None | None \<Rightarrow> None)"
    using om_find_filter [OF device_sessions_wf [OF assms]] by (simp add: session_at_def split: option.split)
qed

text \<open>
  What happens to the tracker: an accounting packet with these attributes passes, a device goes, the collection
  runs. The history of a session is the time of its last transaction, while it is open.
\<close>

datatype tracker_event =
    Accounted u64 session_note "avp list"
  | Device_Gone u32 string
  | Collected u64

fun tracker_step :: "net_env \<Rightarrow> radius_proxy \<Rightarrow> tracker_event \<Rightarrow> sessions \<Rightarrow> cpp_exn + sessions" where
  "tracker_step e px (Accounted now note avs) ss = ProcessAccountingSession (n_tokens e) now note ss"
| "tracker_step e px (Device_Gone now serial) ss = map_sum id snd (DisconnectSession e px now serial ss)"
| "tracker_step e px (Collected now) ss = Inr (GarbageCollection now ss)"

fun last_seen :: "(string \<Rightarrow> string \<Rightarrow> string list) \<Rightarrow> string \<times> string \<Rightarrow> tracker_event \<Rightarrow> u64 option \<Rightarrow> u64 option" where
  "last_seen tokens k (Accounted now (destination, serial, p, secret) avs) seen =
     (let i = info_of tokens avs in
      if k \<noteq> (serial, session_index i) then seen
      else if si_PacketType i = 1 \<or> si_PacketType i = 3 then Some now
      else if si_PacketType i = 2 then None
      else map_option (\<lambda>_. now) seen)"
| "last_seen tokens k (Device_Gone now serial) seen = (if fst k = serial then None else seen)"
| "last_seen tokens k (Collected now) seen =
     (case seen of Some t \<Rightarrow> if now - t > 600 then None else seen | None \<Rightarrow> None)"

text \<open>Packets that the proxy can stop, for a destination of one of its pools.\<close>

definition routed :: "net_env \<Rightarrow> radius_proxy \<Rightarrow> string \<Rightarrow> bool" where
  "routed e px destination \<longleftrightarrow>
     (\<exists>host parts d. Split destination CHR '':'' = host # parts \<and> om_find (px_dests px) (IPtoInt (n_ip e) host) = Some d \<and> usable e d)"

fun event_ok :: "net_env \<Rightarrow> radius_proxy \<Rightarrow> tracker_event \<Rightarrow> bool" where
  "event_ok e px (Accounted now (destination, serial, p, secret) avs) \<longleftrightarrow> stoppable p avs \<and> routed e px destination"
| "event_ok e px (Device_Gone now serial) \<longleftrightarrow> True"
| "event_ok e px (Collected now) \<longleftrightarrow> True"

definition tracked :: "net_env \<Rightarrow> radius_proxy \<Rightarrow> sessions \<Rightarrow> (string \<times> string \<Rightarrow> u64 option) \<Rightarrow> bool" where
  "tracked e px ss seen \<longleftrightarrow> sessions_ok ss \<and> (\<forall>k. map_option s_lastTransaction (session_at ss k) = seen k) \<and>
     (\<forall>k s. session_at ss k = Some s \<longrightarrow> (\<exists>avs. stoppable (s_accountingPacket s) avs) \<and> routed e px (s_destination s))"

lemma stop_all:
  assumes "\<forall>(k, s)\<in>set m. (\<exists>avs. stoppable (s_accountingPacket s) avs) \<and> routed e px (s_destination s)"
  shows "\<exists>es. stop_sessions e px now m = Inr es"
  using assms
proof (induction m)
  case (Cons x m)
  obtain k s where x: "x = (k, s)" by (cases x)
  obtain avs host parts d where s: "stoppable (s_accountingPacket s) avs" "Split (s_destination s) CHR '':'' = host # parts"
    "om_find (px_dests px) (IPtoInt (n_ip e) host) = Some d" "usable e d" using Cons.prems x by (auto simp: routed_def)
  obtain p1 p2 secret' where r: "stop_packet now (s_accountingPacket s) = Inr p1"
    "RouteAndSendAccountingPacket e (s_destination s) p1 True (s_secret s) px = Inr (p2, secret', [stop_effect e now d (s_accountingPacket s) avs])"
    using route_stop [OF s(1,4,2,3)] by blast
  obtain es where "stop_sessions e px now m = Inr es" using Cons.IH Cons.prems by auto
  with r x show ?case by simp
qed simp

lemma account_at:
  assumes "om_wf m"
  shows "om_wf (account now destination serial p secret i m)"
    and "om_find (account now destination serial p secret i m) k =
           (if k \<noteq> session_index i then om_find m k
            else case om_find m k of
              None \<Rightarrow> if si_PacketType i = 1 \<or> si_PacketType i = 3 then Some (counted destination p i (identified now serial secret i)) else None
            | Some s \<Rightarrow> if si_PacketType i = 2 then None else Some (counted destination p i (s\<lparr> s_lastTransaction := now \<rparr>)))"
  using assms by (auto simp: account_def om_wf_set om_wf_erase om_find_set om_find_erase split: option.splits)

lemma counted_simps [simp]:
  "s_lastTransaction (counted destination p i s) = s_lastTransaction s" "s_accountingPacket (counted destination p i s) = p"
  "s_destination (counted destination p i s) = destination" "s_lastTransaction (identified now serial secret i) = now"
  by (simp_all add: counted_def identified_def)

lemma tracker_step_ok:
  assumes "tracked e px ss seen" and "event_ok e px ev"
  shows "\<exists>ss'. tracker_step e px ev ss = Inr ss' \<and> tracked e px ss' (\<lambda>k. last_seen (n_tokens e) k ev (seen k))"
proof -
  have ok: "sessions_ok ss" and seen: "\<And>k. seen k = map_option s_lastTransaction (session_at ss k)"
    and st: "\<And>k s. session_at ss k = Some s \<Longrightarrow> (\<exists>avs. stoppable (s_accountingPacket s) avs) \<and> routed e px (s_destination s)"
    using assms(1) by (auto simp: tracked_def)
  show ?thesis
  proof (cases ev)
    case (Accounted now nt avs)
    obtain destination serial p secret where nt: "nt = (destination, serial, p, secret)" by (cases nt)
    have p: "stoppable p avs" "routed e px destination" using assms(2) Accounted nt by simp_all
    let ?i = "info_of (n_tokens e) avs" and ?m = "device_sessions serial ss"
    let ?ss = "om_set serial (account now destination serial p secret ?i ?m) ss"
    note wf = device_sessions_wf [OF ok, of serial]
    have at: "session_at ?ss k =
        (if k \<noteq> (serial, session_index ?i) then session_at ss k
         else case session_at ss k of
           None \<Rightarrow> if si_PacketType ?i = 1 \<or> si_PacketType ?i = 3 then Some (counted destination p ?i (identified now serial secret ?i)) else None
         | Some s \<Rightarrow> if si_PacketType ?i = 2 then None else Some (counted destination p ?i (s\<lparr> s_lastTransaction := now \<rparr>)))" for k
      unfolding store_device(2) [OF ok account_at(1) [OF wf]] account_at(2) [OF wf] by (cases k) (simp add: session_at_def)
    have "tracker_step e px ev ss = Inr ?ss"
      using read_accounting_ok [of p avs] p(1) by (simp add: Accounted nt ProcessAccountingSession_def stoppable_def)
    moreover have "map_option s_lastTransaction (session_at ?ss k) = last_seen (n_tokens e) k ev (seen k)" for k
      by (auto simp: at seen Accounted nt Let_def split: option.splits)
    moreover have "(\<exists>avs. stoppable (s_accountingPacket s) avs) \<and> routed e px (s_destination s)" if "session_at ?ss k = Some s" for k s
      using that p st [of k] by (auto simp: at split: if_splits option.splits)
    ultimately show ?thesis using store_device(1) [OF ok account_at(1) [OF wf]] by (auto simp: tracked_def)
  next
    case (Device_Gone now serial)
    have each: "(\<exists>avs. stoppable (s_accountingPacket s) avs) \<and> routed e px (s_destination s)"
      if "om_find ss serial = Some m" "(k, s) \<in> set m" for m k s
    proof (rule st [of "(serial, k)"])
      show "session_at ss (serial, k) = Some s"
        using that device_sessions_wf [OF ok, of serial] by (simp add: session_at_def device_sessions_def om_find_iff)
    qed
    have gone: "tracker_step e px ev ss = Inr (om_erase serial ss)"
    proof (cases "om_find ss serial")
      case None
      then have "om_erase serial ss = ss" by (auto simp: om_erase_def om_find_def map_of_eq_None_iff intro!: filter_True)
      with None show ?thesis by (simp add: Device_Gone DisconnectSession_def)
    next
      case (Some m)
      then obtain es where "stop_sessions e px now m = Inr es" using stop_all [of m e px now] each by fast
      with Some show ?thesis by (simp add: Device_Gone DisconnectSession_def)
    qed
    then show ?thesis using drop_device [OF ok, of serial] st by (auto simp: tracked_def seen Device_Gone split: if_splits)
  next
    case (Collected now)
    then show ?thesis
      using collected [OF ok, of now] st
      by (auto simp: tracked_def seen fresh_enough_def SessionTimeout_def split: option.splits if_splits)
  qed
qed

text \<open>
  C35: the open sessions of the tracker, and the times of their last transactions, are those the history of the
  messages gives: a start or an interim update opens a session or keeps it open, a stop, the loss of its device, or
  ten minutes of silence at a collection close it. The packets are well formed, and their servers can be reached.
\<close>

theorem sessions_follow_history:
  assumes "\<forall>ev\<in>set evs. event_ok e px ev"
  shows "\<exists>ss. try_each (tracker_step e px) evs [] = Inr ss \<and>
              (\<forall>k. map_option s_lastTransaction (session_at ss k) = fold (last_seen (n_tokens e) k) evs None)"
proof -
  have "\<exists>ss'. try_each (tracker_step e px) evs ss = Inr ss' \<and> tracked e px ss' (\<lambda>k. fold (last_seen (n_tokens e) k) evs (seen k))"
    if "tracked e px ss seen" for ss seen
    using assms that
  proof (induction evs arbitrary: ss seen)
    case (Cons ev evs)
    obtain ss1 where 1: "tracker_step e px ev ss = Inr ss1" "tracked e px ss1 (\<lambda>k. last_seen (n_tokens e) k ev (seen k))"
      using tracker_step_ok [OF Cons.prems(2)] Cons.prems(1) by force
    from Cons.IH [OF _ 1(2)] Cons.prems(1) 1(1) show ?case by simp
  qed simp
  moreover have "tracked e px [] (\<lambda>k. None)" by (simp add: tracked_def sessions_ok_def session_at_def device_sessions_def)
  ultimately show ?thesis by (fastforce simp: tracked_def)
qed

text \<open>
  When a device goes, one accounting stop is sent for each of its sessions, to the first accounting server of the
  pool of the session, with the next identifier and the attributes of its last packet; the sessions of other
  devices stay. For a server behind TLS the authenticator is computed anew; for a generic one it is still that of the
  packet that came before, though what it signs has changed.
\<close>

theorem disconnect_stops_sessions:
  assumes "sessions_ok ss" and "om_find ss serial = Some m"
    and "\<forall>(k, s)\<in>set m. stoppable (s_accountingPacket s) (avs k) \<and> usable e (d k) \<and>
           (\<exists>host parts. Split (s_destination s) CHR '':'' = host # parts \<and> om_find (px_dests px) (IPtoInt (n_ip e) host) = Some (d k))"
  shows "\<exists>ss'. DisconnectSession e px now serial ss =
             Inr (map (\<lambda>(k, s). stop_effect e now (d k) (s_accountingPacket s) (avs k)) m, ss') \<and>
           (\<forall>k. session_at ss' k = (if fst k = serial then None else session_at ss k))"
proof -
  have "stop_sessions e px now m = Inr (map (\<lambda>(k, s). stop_effect e now (d k) (s_accountingPacket s) (avs k)) m)"
    using assms(3)
  proof (induction m)
    case (Cons x m)
    obtain k s where x: "x = (k, s)" by (cases x)
    obtain host parts where s: "stoppable (s_accountingPacket s) (avs k)" "usable e (d k)"
      "Split (s_destination s) CHR '':'' = host # parts" "om_find (px_dests px) (IPtoInt (n_ip e) host) = Some (d k)"
      using Cons.prems x by auto
    obtain p1 p2 secret' where r: "stop_packet now (s_accountingPacket s) = Inr p1"
      "RouteAndSendAccountingPacket e (s_destination s) p1 True (s_secret s) px =
         Inr (p2, secret', [stop_effect e now (d k) (s_accountingPacket s) (avs k)])"
      using route_stop [OF s] by blast
    have "stop_sessions e px now m = Inr (map (\<lambda>(k, s). stop_effect e now (d k) (s_accountingPacket s) (avs k)) m)"
      using Cons.IH Cons.prems by simp
    with r x show ?case by simp
  qed simp
  with assms(2) drop_device(2) [OF assms(1)] show ?thesis by (simp add: DisconnectSession_def)
qed

section \<open>A proxy to evaluate the properties on\<close>

definition plain_net :: net_env where
  "plain_net =
     \<lparr> n_certificate = (\<lambda>_. Inr True), n_address = (\<lambda>_. True), n_connect = (\<lambda>_. True), n_verify = (\<lambda>_. True), n_bind = (\<lambda>_. True),
       n_send = (\<lambda>bs. Inr (length bs)), n_hmac = (\<lambda>_ _. replicate 16 0), n_md5 = (\<lambda>_. replicate 16 0), n_rnd = (\<lambda>_. 0),
       n_tokens = (\<lambda>s sep. Split s (hd sep)), n_ip = (\<lambda>s. if s = ''10.0.0.1'' then Some [10, 0, 0, 1] else None),
       n_sockaddr = (\<lambda>h p. Inr (h @ '':'' @ p)), n_ipv4 = (\<lambda>_ _. Some True) \<rparr>"

definition plain_destination :: destination where
  "plain_destination = (new_destination plain_radius_pool)\<lparr> de_connected := True, de_udp := UNIV \<rparr>"

definition plain_proxy :: radius_proxy where
  "plain_proxy =
     fresh_proxy\<lparr> px_enabled := True, px_running := True, px_pool_list := [plain_radius_pool],
       px_pools := [\<lparr> AuthV4 = [], AuthV6 = [], AcctV4 = [], AcctV6 = [], CoaV4 = [], CoaV6 = [] \<rparr>],
       px_dests := [(IPtoInt (n_ip plain_net) ''10.0.0.1'', plain_destination)] \<rparr>"

definition plain_avps :: "avp list" where
  "plain_avps = [(40, [0, 0, 0, 1]), (44, bytes_of_text ''s''), (33, bytes_of_text ''24f5a207a131:10.0.0.1:1813:wlan'')]"

lemma plain_proxy_simps [simp]:
  "proxy_Continue plain_proxy" "om_find (px_dests plain_proxy) (IPtoInt (n_ip plain_net) ''10.0.0.1'') = Some plain_destination"
  by (simp_all add: proxy_Continue_def plain_proxy_def om_find_def)

lemma plain_destination_simps [simp]:
  "usable plain_net plain_destination" "de_type plain_destination = Endpoint_generic" "de_udp plain_destination = UNIV"
  "rc_servers (pool_authConfig plain_radius_pool) = [plain_radius_server]"
  "rc_servers (pool_acctConfig plain_radius_pool) = [plain_radius_server]"
  "de_pool plain_destination = plain_radius_pool"
  by (simp_all add: usable_def plain_destination_def new_destination_def plain_radius_pool_def RadiusEndpointType_def plain_net_def)

lemma plain_avps_simps [simp]:
  "avps_ok plain_avps" "length plain_avps = 3" "length (encode plain_avps) = 42" "counters_ok plain_avps"
  by (simp_all add: plain_avps_def bytes_of_text_def counters_ok_def counter_types_def)

lemma plain_split: "Split ''10.0.0.1:1813'' CHR '':'' = [''10.0.0.1'', ''1813'']"
  by code_simp

lemma plain_routed: "routed plain_net plain_proxy ''10.0.0.1:1813''"
  unfolding routed_def plain_split by (intro exI conjI) (rule refl, rule plain_proxy_simps, rule plain_destination_simps)

lemma plain_packet:
  obtains p where "packet_of (wire 4 7 (replicate 16 0) plain_avps) = Inr p" "stoppable p plain_avps"
proof -
  obtain p where p: "packet_of (wire 4 7 (replicate 16 0) plain_avps) = Inr p" "pkt_ok p plain_avps" "rp_code (P p) = 4"
    using packet_of_wire [of plain_avps "replicate 16 0" 4 7] by auto
  have "40 \<in> fst ` set plain_avps" by (simp add: plain_avps_def)
  with p that show thesis by (simp add: stoppable_def pkt_okD(4))
qed

theorem sessions_follow_history_witness:
  "\<exists>p ss. stoppable p plain_avps \<and>
     try_each (tracker_step plain_net plain_proxy) [Accounted 5 (''10.0.0.1:1813'', ''ap'', p, []) plain_avps] [] = Inr ss \<and>
     map_option s_lastTransaction (session_at ss (''ap'', ''s'')) = Some 5"
proof -
  obtain p where p: "stoppable p plain_avps" using plain_packet by metis
  have i: "session_index (info_of (n_tokens plain_net) plain_avps) = ''s''" "si_PacketType (info_of (n_tokens plain_net) plain_avps) = 1"
    by (simp_all add: info_of_def plain_avps_def accounting_step_def identity_step_def proxy_interface_def Let_def no_info_def
        session_index_def)
  have "\<forall>ev\<in>set [Accounted 5 (''10.0.0.1:1813'', ''ap'', p, []) plain_avps]. event_ok plain_net plain_proxy ev"
    using p plain_routed by simp
  from sessions_follow_history [OF this] obtain ss where
    ss: "try_each (tracker_step plain_net plain_proxy) [Accounted 5 (''10.0.0.1:1813'', ''ap'', p, []) plain_avps] [] = Inr ss"
      "\<forall>k. map_option s_lastTransaction (session_at ss k) =
           fold (last_seen (n_tokens plain_net) k) [Accounted 5 (''10.0.0.1:1813'', ''ap'', p, []) plain_avps] None"
    by blast
  have "map_option s_lastTransaction (session_at ss (''ap'', ''s'')) = Some 5" unfolding ss(2) [rule_format] by (simp add: i Let_def)
  with p ss(1) show ?thesis by blast
qed

theorem disconnect_stops_sessions_witness:
  "\<exists>p s ss'. s = new_session\<lparr> s_accountingPacket := p, s_destination := ''10.0.0.1:1813'' \<rparr> \<and>
     DisconnectSession plain_net plain_proxy 9 ''ap'' [(''ap'', [(''s'', s)])] =
       Inr ([stop_effect plain_net 9 plain_destination p plain_avps], ss') \<and> session_at ss' (''ap'', ''s'') = None"
proof -
  obtain p where p: "stoppable p plain_avps" using plain_packet by metis
  let ?s = "new_session\<lparr> s_accountingPacket := p, s_destination := ''10.0.0.1:1813'' \<rparr>"
  have "sessions_ok [(''ap'', [(''s'', ?s)])]" "om_find [(''ap'', [(''s'', ?s)])] ''ap'' = Some [(''s'', ?s)]"
    by (simp_all add: sessions_ok_def om_wf_def om_find_def)
  moreover have "\<forall>(k, s)\<in>set [(''s'', ?s)]. stoppable (s_accountingPacket s) ((\<lambda>_. plain_avps) k) \<and>
      usable plain_net ((\<lambda>_. plain_destination) k) \<and> (\<exists>host parts. Split (s_destination s) CHR '':'' = host # parts \<and>
        om_find (px_dests plain_proxy) (IPtoInt (n_ip plain_net) host) = Some ((\<lambda>_. plain_destination) k))"
    using p plain_split by simp
  ultimately obtain ss' where "DisconnectSession plain_net plain_proxy 9 ''ap'' [(''ap'', [(''s'', ?s)])] =
      Inr ([stop_effect plain_net 9 plain_destination p plain_avps], ss')" "session_at ss' (''ap'', ''s'') = None"
    using disconnect_stops_sessions [of "[(''ap'', [(''s'', ?s)])]" "''ap''" "[(''s'', ?s)]" "\<lambda>_. plain_avps" plain_net "\<lambda>_. plain_destination" plain_proxy 9]
    by auto
  then show ?thesis by blast
qed

end
