(* ===== verification/GW_RadiusRouting.thy ===== *)
theory GW_RadiusRouting
  imports GW_RadiusTracking
begin

text \<open>
  Properties of the RADIUS proxy as a whole: which server a packet of a device goes to and which device an answer,
  what a new configuration sets up, and the packets the proxy does not survive.
\<close>

section \<open>Datagrams\<close>

lemma raw_of_wire:
  assumes "length auth = 16" and "length (encode avs) < 4096"
  shows "raw_of_bytes (wire c i auth avs @ rest) =
         \<lparr> rp_code = c, rp_identifier = i, rp_rawlen = of_nat (20 + length (encode avs)), rp_authenticator = auth,
           rp_attributes = encode avs @ rest \<rparr>"
proof -
  have "push_bit 8 (ucast (ucast (drop_bit 8 x) :: u8)) OR ucast (ucast x :: u8) = (x :: u16)" for x
    by (rule bit_word_eqI) (auto simp: bit_simps)
  then show ?thesis using assms(1) by (simp add: raw_of_bytes_def wire_def be16_def)
qed

lemma datagram_wire:
  assumes "avps_ok avs" and "length avs \<le> 25" and "length (encode avs) < 4096" and "length auth = 16"
  shows "\<exists>p. datagram_packet (wire c i auth avs) = Inr p \<and> pkt_ok p avs \<and> rp_code (P p) = c \<and>
             packet_data p = Inr (wire c i auth avs)"
proof -
  let ?sz = "of_nat (20 + length (encode avs)) :: u16" and ?rest = "replicate (4096 - length (encode avs)) (0 :: u8)"
  define raw where "raw = \<lparr> rp_code = c, rp_identifier = i, rp_rawlen = ?sz, rp_authenticator = auth, rp_attributes = encode avs @ ?rest \<rparr>"
  let ?p = "\<lparr> Attrs = layout 0 avs, P = raw, Size = ?sz, Valid = True \<rparr>"
  have sz: "unat ?sz = 20 + length (encode avs)" by (rule small_nat(1)) (use assms(3) in simp)
  have fill: "drop (20 + length (encode avs)) (raw_bytes (zero_packet 0)) = ?rest"
    using drop_past [of "[0, 0, 0, 0 :: u8] @ replicate 16 0" "length (encode avs)" "replicate 4096 0"]
    by (simp add: raw_bytes_def zero_packet_def)
  have "unat (?sz - 20) = length (encode avs)"
    using sz by (subst unat_sub_if_size) (simp add: word_size)
  then have mp: "datagram_packet (wire c i auth avs) = Inr ?p"
    using raw_of_wire [OF assms(4,3), of c i ?rest] assms
    by (simp add: datagram_packet_def fill Evaluate_def reparse_def parse_encode raw_def empty_packet_def)
  have ok: "pkt_ok ?p avs" using assms sz by (simp add: pkt_ok_def raw_def)
  from packet_data_ok [OF ok] mp ok show ?thesis by (auto simp: raw_def)
qed

lemma first_wire_attr:
  assumes "pkt_ok p avs" and "avs = pre @ (t, v) # post" and "t \<notin> fst ` set pre"
  shows "\<exists>a. first_attr t p = Some a \<and> attr_bytes p a = Inr v"
  using first_attr_ok(2) [OF assms(1-3)] attr_bytes_ok assms(1,2) by blast

lemma extract_ok: "pkt_ok p avs \<Longrightarrow> \<exists>s. extract_nonempty t p = Inr s"
proof -
  assume ok: "pkt_ok p avs"
  have "\<exists>s. extract_nonempty t p = Inr s" if "find (\<lambda>a. at_type a = t \<and> at_len a > 0) (Attrs p) = Some a" for a
  proof -
    have "a \<in> set (layout 0 avs)" using that pkt_okD(5) [OF ok] by (auto simp: find_Some_iff)
    moreover have "\<exists>pre t v post. xs = pre @ (t, v) # post \<and>
        a = \<lparr> at_type = t, at_pos = of_nat (i + length (encode pre) + 2), at_len = of_nat (length v) \<rparr>" if "a \<in> set (layout i xs)" for i xs
      using that
    proof (induction i xs rule: layout.induct)
      case (2 i t v xs)
      show ?case
      proof (cases "a \<in> set (layout (i + 2 + length v) xs)")
        case True
        then obtain pre t' w post where "xs = pre @ (t', w) # post"
          "a = \<lparr> at_type = t', at_pos = of_nat (i + 2 + length v + length (encode pre) + 2), at_len = of_nat (length w) \<rparr>"
          using "2.IH" by blast
        then show ?thesis
          by (intro exI [of _ "(t, v) # pre"] exI [of _ t'] exI [of _ w] exI [of _ post]) (simp add: ac_simps)
      next
        case False
        with 2 show ?thesis by (intro exI [of _ "[]"] exI [of _ t] exI [of _ v] exI [of _ xs]) simp
      qed
    qed simp
    ultimately obtain pre t v post where "avs = pre @ (t, v) # post"
      "a = \<lparr> at_type = t, at_pos = of_nat (length (encode pre) + 2), at_len = of_nat (length v) \<rparr>" by fastforce
    then have "attr_bytes p a = Inr v" using attr_bytes_ok ok by blast
    with that show ?thesis by (simp add: extract_nonempty_def)
  qed
  then show "\<exists>s. extract_nonempty t p = Inr s"
    by (cases "find (\<lambda>a. at_type a = t \<and> at_len a > 0) (Attrs p)") (auto simp: extract_nonempty_def)
qed

lemma stations_ok: "pkt_ok p avs \<Longrightarrow> \<exists>s. stations p = Inr s"
  using extract_ok [of p avs 31] extract_ok [of p avs 30]
  by (auto simp: stations_def ExtractCallingStationID_def ExtractCalledStationID_def)

section \<open>Addresses\<close>

text \<open>The proxy state of a list of attributes, in its four parts.\<close>

definition proxy_state :: "(string \<Rightarrow> string \<Rightarrow> string list) \<Rightarrow> avp list \<Rightarrow> string list \<Rightarrow> bool" where
  "proxy_state tokens avs ps \<longleftrightarrow>
     (\<exists>pre v post. avs = pre @ (33, v) # post \<and> 33 \<notin> fst ` set pre \<and> length v > 2 \<and> proxy_parts tokens (text_of_bytes v) = Some ps)"

lemma proxy_attr_layout:
  "33 \<notin> fst ` set pre \<Longrightarrow> length v > 2 \<Longrightarrow> length v \<le> 253 \<Longrightarrow>
   find (\<lambda>a. at_type a = 33 \<and> at_len a > 2) (layout i (pre @ (33, v) # post)) =
     Some \<lparr> at_type = 33, at_pos = of_nat (i + length (encode pre) + 2), at_len = of_nat (length v) \<rparr>"
proof (induction i pre rule: layout.induct)
  case (1 i)
  have "(2 :: u32) < of_nat (length v)" using 1 by (simp add: word_less_nat_alt unat_of_nat)
  then show ?case by simp
qed (auto simp: add.assoc)

lemma proxy_state_serial:
  assumes "pkt_ok p avs" and "proxy_state tokens avs ps"
  shows "ExtractSerialNumberFromProxyState tokens p = Inr (ps ! 0)"
proof -
  obtain pre v post where v: "avs = pre @ (33, v) # post" "33 \<notin> fst ` set pre" "proxy_parts tokens (text_of_bytes v) = Some ps"
    using assms(2) by (auto simp: proxy_state_def)
  from first_wire_attr [OF assms(1) v(1,2)] v(3) show ?thesis by (auto simp: ExtractSerialNumberFromProxyState_def)
qed

lemma proxy_state_destination:
  assumes "pkt_ok p avs" and "proxy_state (n_tokens e) avs ps"
  shows "ExtractProxyStateDestinationIPint (n_tokens e) (n_ip e) p = Inr (IPtoInt (n_ip e) (ps ! 1))"
    and "ExtractProxyStateDestination (n_tokens e) (n_sockaddr e) p = n_sockaddr e (ps ! 1) (ps ! 2)"
proof -
  obtain pre v post where v: "avs = pre @ (33, v) # post" "33 \<notin> fst ` set pre" "length v > 2"
    "proxy_parts (n_tokens e) (text_of_bytes v) = Some ps"
    using assms(2) by (auto simp: proxy_state_def)
  have len: "length v \<le> 253" using pkt_okD(1) [OF assms(1)] v(1) by simp
  have "\<exists>a. proxy_attr p = Some a \<and> attr_bytes p a = Inr v"
    using proxy_attr_layout [OF v(2,3) len, of 0 post] attr_bytes_ok [OF assms(1) [unfolded v(1)]] pkt_okD(5) [OF assms(1)] v(1)
    by (simp add: proxy_attr_def)
  with v(4) show "ExtractProxyStateDestinationIPint (n_tokens e) (n_ip e) p = Inr (IPtoInt (n_ip e) (ps ! 1))"
    "ExtractProxyStateDestination (n_tokens e) (n_sockaddr e) p = n_sockaddr e (ps ! 1) (ps ! 2)"
    by (auto simp: ExtractProxyStateDestinationIPint_def ExtractProxyStateDestination_def)
qed

section \<open>To a server and back\<close>

lemma wire_packet:
  assumes "avps_ok avs" and "length avs \<le> 25" and "length (encode avs) < 4096" and "length auth = 16"
  obtains p where "packet_of (wire c i auth avs) = Inr p" "pkt_ok p avs" "rp_code (P p) = c" "packet_data p = Inr (wire c i auth avs)"
proof -
  let ?rest = "replicate (4096 - length (encode avs)) (0 :: u8)" and ?sz = "of_nat (20 + length (encode avs)) :: u16"
  obtain p where p: "packet_of (wire c i auth avs) = Inr p" "pkt_ok p avs" "rp_code (P p) = c"
    using packet_of_wire [OF assms] by blast
  have fill: "drop (20 + length (encode avs)) (raw_bytes (zero_packet 1)) = ?rest"
    using drop_past [of "[1, 0, 0, 0 :: u8] @ replicate 16 0" "length (encode avs)" "replicate 4096 0"]
    by (simp add: raw_bytes_def zero_packet_def)
  have "length (wire c i auth avs) mod 65536 = length (wire c i auth avs)" using assms(3,4) by simp
  then have "reparse \<lparr> Attrs = [], P = raw_of_bytes (wire c i auth avs @ ?rest), Size = ?sz, Valid = False \<rparr> = Inr p"
    using p(1) assms(3,4) raw_of_wire [OF assms(4,3), of c i ?rest] fill
    by (simp add: packet_of_def make_packet_def Let_def)
  from reparse_head [OF this] have "rp_identifier (P p) = i" "rp_authenticator (P p) = auth"
    using raw_of_wire [OF assms(4,3), of c i ?rest] by simp_all
  with packet_data_ok [OF p(2)] p show thesis by (intro that) simp_all
qed

text \<open>
  C34: a request of a device whose proxy state names the address of a generic pool goes, byte for byte, to the first
  server of the pool, and an accounting request is told to the tracker; an answer of the server with the same
  serial number in its proxy state goes, byte for byte, to that device. This is while the proxy runs, the
  authentication and the accounting socket of the pool are there, its first servers and the named address make socket
  addresses, and the serial number reads as a hexadecimal number; for well-formed packets of at most 25 attributes below 4096
  bytes, and answers of at least 43 bytes.
\<close>

theorem routed_and_answered:
  assumes "avps_ok avs" and "length avs \<le> 25" and "length (encode avs) < 4096" and "length auth = 16"
    and "proxy_state (n_tokens e) avs ps" and "proxy_Continue px"
    and "om_find (px_dests px) (IPtoInt (n_ip e) (ps ! 1)) = Some d" and "de_type d = Endpoint_generic" and "{Radius_auth, Radius_acct} \<subseteq> de_udp d"
    and "auth_servers d = s # ss" and "acct_servers d = s' # ss'" and "n_address e s" and "n_address e s'"
    and "n_sockaddr e (ps ! 1) (ps ! 2) = Inr destination" and "Split destination CHR '':'' = ps ! 1 # parts"
    and "avps_ok avs'" and "length avs' \<le> 25" and "length (encode avs') < 4096" and "length auth' = 16"
    and "23 \<le> length (encode avs')" and "proxy_state (n_tokens e) avs' ps'" and "ps' ! 0 = ps ! 0"
    and "SerialNumberToInt (ps ! 0) = Inr n" and "ps ! 0 \<noteq> []"
  shows "SendAuthenticationData e (wire c i auth avs) px = Inr [Udp_Send Radius_auth (rs_ip s) (rs_port s) (wire c i auth avs)] \<and>
         (\<exists>p. pkt_ok p avs \<and> SendAccountingData e (ps ! 0) (wire c i auth avs) px =
            Inr ([Udp_Send Radius_acct (rs_ip s') (rs_port s') (wire c i auth avs)], Some (destination, ps ! 0, p, []))) \<and>
         OnAuthenticationSocketReadable e (wire c' i' auth' avs') = Inr [To_Device Radius_auth (ps ! 0) (wire c' i' auth' avs')] \<and>
         OnAccountingSocketReadable e (wire c' i' auth' avs') = Inr [To_Device Radius_acct (ps ! 0) (wire c' i' auth' avs')]"
proof -
  obtain p where p: "packet_of (wire c i auth avs) = Inr p" "pkt_ok p avs" "packet_data p = Inr (wire c i auth avs)"
    using wire_packet [OF assms(1-4)] by metis
  note st = proxy_state_destination [OF p(2) assms(5)]
  have "SendAuthenticationData e (wire c i auth avs) px = Inr [Udp_Send Radius_auth (rs_ip s) (rs_port s) (wire c i auth avs)]"
    using p st assms(6-12)
    by (simp add: SendAuthenticationData_def route_data_def swallow_def SendRadiusDataAuthData_def send_datagram_def nth_server_def)
  moreover have "SendAccountingData e (ps ! 0) (wire c i auth avs) px =
      Inr ([Udp_Send Radius_acct (rs_ip s') (rs_port s') (wire c i auth avs)], Some (destination, ps ! 0, p, []))"
    using p st assms(6-15)
    by (simp add: SendAccountingData_def RouteAndSendAccountingPacket_def swallow_def SendRadiusDataAcctData_def
        send_datagram_def nth_server_def)
  moreover obtain q where q: "datagram_packet (wire c' i' auth' avs') = Inr q" "pkt_ok q avs'" "packet_data q = Inr (wire c' i' auth' avs')"
    using datagram_wire [OF assms(16-19)] by metis
  moreover have "take 4116 (wire c' i' auth' avs') = wire c' i' auth' avs'" "\<not> length (wire c' i' auth' avs') < 43"
    using assms(18-20) by simp_all
  moreover obtain s where "stations q = Inr s" using stations_ok [OF q(2)] by blast
  ultimately show ?thesis
    using proxy_state_serial [OF q(2) assms(21)] assms(22-24) p(2)
    by (auto simp: OnAuthenticationSocketReadable_def OnAccountingSocketReadable_def on_datagram_def to_device_def Let_def
        simp del: take_all_iff length_wire)
qed

text \<open>
  An accounting request without a proxy state is undefined behaviour: the empty text of its destination has no
  first part. Any device can send one, when a proxy is configured.
\<close>

theorem accounting_needs_proxy_state:
  assumes "avps_ok avs" and "length avs \<le> 25" and "length (encode avs) < 4096" and "length auth = 16"
    and "33 \<notin> fst ` set avs" and "proxy_Continue px"
  shows "\<exists>why. SendAccountingData e serial (wire c i auth avs) px = Inl (Undefined_Behaviour why)"
proof -
  obtain p where p: "packet_of (wire c i auth avs) = Inr p" "pkt_ok p avs" using wire_packet [OF assms(1-4)] by metis
  have "find (\<lambda>a. at_type a = 33 \<and> at_len a > 2) (layout j xs) = None" if "33 \<notin> fst ` set xs" for j xs
    using that by (induction j xs rule: layout.induct) auto
  then have "proxy_attr p = None" using assms(5) pkt_okD(5) [OF p(2)] by (simp add: proxy_attr_def)
  then have "ExtractProxyStateDestination (n_tokens e) (n_sockaddr e) p = Inr []" by (simp add: ExtractProxyStateDestination_def)
  with p(1) assms(6) show ?thesis by (simp add: SendAccountingData_def RouteAndSendAccountingPacket_def swallow_def)
qed

section \<open>Setting the configuration\<close>

lemma parse_pools_frame [simp]:
  "px_pool_list (parse_pools e rs px) = px_pool_list px" "px_dests (parse_pools e rs px) = px_dests px"
  "px_enabled (parse_pools e rs px) = px_enabled px"
  by (induction e rs px rule: parse_pools.induct) (simp_all add: Let_def split: prod.split)

lemma new_dests:
  fixes key :: "radius_pool \<Rightarrow> u32"
  assumes "ds = foldl (\<lambda>ds r. if on r then om_set (key r) (f r) ds else ds) [] rs"
  shows "om_wf ds \<and> om_find ds k = map_option f (find (\<lambda>r. on r \<and> key r = k) (rev rs))"
  using assms
proof (induction rs arbitrary: ds rule: rev_induct)
  case (snoc r rs)
  then show ?case by (auto simp: om_wf_set om_find_set)
qed simp

definition proxy_inv :: "radius_proxy \<Rightarrow> bool" where
  "proxy_inv px \<longleftrightarrow> px_dests px = [] \<or> px_enabled px \<and> px_running px"

lemma SetConfig_dests:
  assumes "var_strings p" and "var_numbers p" and "proxy_inv px" and "px' = proxy_SetConfig p e enabled pools px"
  shows "px_pool_list px' = pools \<and> px_running px' \<and> px_enabled px' \<and>
         (\<forall>ip. om_find (px_dests px') ip =
            map_option new_destination (find (\<lambda>r. pool_enabled r \<and> IPtoInt (n_ip e) (pool_poolProxyIp r) = ip) (rev pools)))"
proof -
  let ?px = "(ResetConfig (proxy_Stop (px\<lparr> px_file := Some (Inr (RadiusProxyPoolList_to_json pools)) \<rparr>)))\<lparr> px_pool_list := pools \<rparr>"
  have kept: "px_file ?px = Some (Inr (RadiusProxyPoolList_to_json pools))" and none: "px_dests ?px = []"
    using assms(3) by (auto simp: ResetConfig_def proxy_Stop_def StopRADIUSDestinations_def proxy_inv_def)
  have px': "px' = (StartRADIUSDestinations e (proxy_ParseConfig p e (?px\<lparr> px_enabled := True \<rparr>)))\<lparr> px_running := True \<rparr>"
    using kept by (simp add: assms(4) proxy_SetConfig_def proxy_Start_def)
  have parsed: "px_pool_list (proxy_ParseConfig p e (?px\<lparr> px_enabled := True \<rparr>)) = pools"
    "px_dests (proxy_ParseConfig p e (?px\<lparr> px_enabled := True \<rparr>)) = []" "px_enabled (proxy_ParseConfig p e (?px\<lparr> px_enabled := True \<rparr>))"
    using kept none RadiusProxyPoolList_from_json_ok [OF assms(1,2), of pools] by (simp_all add: proxy_ParseConfig_def ResetConfig_def)
  from parsed new_dests [OF refl, where on = pool_enabled and key = "\<lambda>r. IPtoInt (n_ip e) (pool_poolProxyIp r)" and f = new_destination]
  show ?thesis
    by (simp add: px' StartRADIUSDestinations_def)
qed

text \<open>
  A new configuration is the one that is then read back, and there is one new connection for each address of an
  enabled pool, that of the last pool with the address; no connection of the configuration before is left. The
  operations of the proxy keep what this needs: without the proxy running there are no connections.
\<close>

theorem SetConfig_applies:
  assumes "var_strings p" and "var_numbers p" and "proxy_inv px" and "px' = proxy_SetConfig p e enabled pools px"
  shows "proxy_GetConfig px' = pools \<and> proxy_inv px' \<and> px_running px' \<and> proxy_inv (proxy_DeleteConfig px') \<and>
         px_dests (proxy_DeleteConfig px') = [] \<and>
         (\<forall>ip. om_find (px_dests px') ip =
            map_option new_destination (find (\<lambda>r. pool_enabled r \<and> IPtoInt (n_ip e) (pool_poolProxyIp r) = ip) (rev pools)))"
  using SetConfig_dests [OF assms]
  by (simp add: proxy_GetConfig_def proxy_inv_def proxy_DeleteConfig_def proxy_Stop_def StopRADIUSDestinations_def ResetConfig_def)

text \<open>
  From a new configuration until the thread of a generic pool has made its sockets, which takes five seconds at
  least, a request for that pool is undefined behaviour.
\<close>

theorem fresh_pool_crashes:
  assumes "var_strings p" and "var_numbers p" and "proxy_inv px" and "px' = proxy_SetConfig p e enabled pools px"
    and "proxy_Continue px'"
    and "find (\<lambda>r. pool_enabled r \<and> IPtoInt (n_ip e) (pool_poolProxyIp r) = IPtoInt (n_ip e) (ps ! 1)) (rev pools) = Some r"
    and "RadiusEndpointType (pool_radsecPoolType r) = Endpoint_generic"
    and "avps_ok avs" and "length avs \<le> 25" and "length (encode avs) < 4096" and "length auth = 16"
    and "proxy_state (n_tokens e) avs ps"
  shows "\<exists>why. SendAuthenticationData e (wire c i auth avs) px' = Inl (Undefined_Behaviour why)"
proof -
  obtain q where q: "packet_of (wire c i auth avs) = Inr q" "pkt_ok q avs" using wire_packet [OF assms(8-11)] by metis
  have "om_find (px_dests px') (IPtoInt (n_ip e) (ps ! 1)) = Some (new_destination r)"
    using SetConfig_dests [OF assms(1-4)] assms(6) by simp
  with q proxy_state_destination(1) [OF q(2) assms(12)] assms(5,7) show ?thesis
    by (simp add: SendAuthenticationData_def route_data_def SendRadiusDataAuthData_def send_datagram_def new_destination_def swallow_def)
qed

lemma first_fault_Some: "first_fault f xs = Some err \<Longrightarrow> \<exists>x\<in>set xs. f x = Some err"
  by (induction xs) (auto split: option.splits)

lemma server_fault_None:
  "server_fault ip strategy s = None \<longleftrightarrow> ip (rs_ip s) \<noteq> None \<and> rs_port s \<noteq> 0 \<and> (strategy = ''weighted'' \<longrightarrow> rs_weight s \<noteq> 0)"
  by (simp add: server_fault_def)

lemma server_fault_Some: "server_fault ip strategy s = Some err \<Longrightarrow> err \<noteq> ''MustHaveAtLeastOneRadiusServer''"
  by (auto simp: server_fault_def split: if_splits)

lemma servers_fault_None: "servers_fault ip c = None \<Longrightarrow> s \<in> set (rc_servers c) \<Longrightarrow> server_fault ip (rc_strategy c) s = None"
  by (auto simp: servers_fault_def first_fault_None split: if_splits)

lemma servers_fault_Some: "servers_fault ip c = Some err \<Longrightarrow> err \<noteq> ''MustHaveAtLeastOneRadiusServer''"
  by (auto simp: servers_fault_def dest!: first_fault_Some server_fault_Some split: if_splits)

lemma pool_fault_Some: "pool_fault ip r = Some err \<Longrightarrow> err \<noteq> ''MustHaveAtLeastOneRadiusServer''"
  by (auto simp: pool_fault_def dest!: servers_fault_Some split: if_splits option.splits)

lemma complete_pool_simps [simp]:
  "pool_name (complete_pool r) = pool_name r" "pool_authConfig (complete_pool r) = pool_authConfig r"
  "pool_acctConfig (complete_pool r) = pool_acctConfig r" "pool_coaConfig (complete_pool r) = pool_coaConfig r"
  "pool_radsecKeepAlive (complete_pool r) \<noteq> 0"
  by (simp_all add: complete_pool_def Let_def)

lemma pool_fault_None:
  assumes "pool_fault ip r = None"
  shows "pool_name r \<noteq> []" "RadiusEndpointType (pool_radsecPoolType (complete_pool r)) \<noteq> Endpoint_unknown"
    "c \<in> {pool_authConfig r, pool_acctConfig r, pool_coaConfig r} \<Longrightarrow> servers_fault ip c = None"
  using assms by (auto simp: pool_fault_def ValidRadiusPoolServerType_def RadiusEndpointType_def split: if_splits option.splits)

text \<open>
  A configuration that is accepted has only pools with a name and a known type that are kept alive, and servers
  with an address and a port, and with a weight where it counts. That a list of servers is not empty is never
  asked, for empty ones are skipped before: the answer for that is never given.
\<close>

theorem accepted_pools:
  assumes "radius_DoPut p ip allowed body = answer"
  shows "answer \<noteq> Rest_BadRequest ''MustHaveAtLeastOneRadiusServer'' \<and>
         (\<forall>pools r. answer = Rest_Object pools \<and> r \<in> set pools \<longrightarrow>
            pool_name r \<noteq> [] \<and> RadiusEndpointType (pool_radsecPoolType r) \<noteq> Endpoint_unknown \<and> pool_radsecKeepAlive r \<noteq> 0 \<and>
            (\<forall>c\<in>{pool_authConfig r, pool_acctConfig r, pool_coaConfig r}. \<forall>s\<in>set (rc_servers c).
               ip (rs_ip s) \<noteq> None \<and> rs_port s \<noteq> 0 \<and> (rc_strategy c = ''weighted'' \<longrightarrow> rs_weight s \<noteq> 0)))"
proof -
  obtain ok given where g: "RadiusProxyPoolList_from_json p body [] = (ok, given)" by (cases "RadiusProxyPoolList_from_json p body []")
  have "answer \<noteq> Rest_BadRequest ''MustHaveAtLeastOneRadiusServer''"
    using assms g by (auto simp: radius_DoPut_def dest!: first_fault_Some pool_fault_Some split: if_splits option.splits)
  moreover have "pool_fault ip r = None" if "answer = Rest_Object pools" "r \<in> set given" for pools r
    using assms g that by (auto simp: radius_DoPut_def first_fault_None split: if_splits option.splits)
  moreover have "pools = map complete_pool given" if "answer = Rest_Object pools" for pools
    using assms g that by (auto simp: radius_DoPut_def split: if_splits option.splits)
  moreover have "pool_name r \<noteq> [] \<and> RadiusEndpointType (pool_radsecPoolType r) \<noteq> Endpoint_unknown \<and> pool_radsecKeepAlive r \<noteq> 0 \<and>
      (\<forall>c\<in>{pool_authConfig r, pool_acctConfig r, pool_coaConfig r}. \<forall>s\<in>set (rc_servers c).
         ip (rs_ip s) \<noteq> None \<and> rs_port s \<noteq> 0 \<and> (rc_strategy c = ''weighted'' \<longrightarrow> rs_weight s \<noteq> 0))"
    if a: "answer = Rest_Object pools" and r: "r \<in> set pools" for pools r
  proof -
    obtain r0 where r0: "r0 \<in> set given" "r = complete_pool r0" using calculation(3) [OF a] r by auto
    note f = pool_fault_None [OF calculation(2) [OF a r0(1)]]
    have "server_fault ip (rc_strategy c) s = None"
      if "c \<in> {pool_authConfig r, pool_acctConfig r, pool_coaConfig r}" "s \<in> set (rc_servers c)" for c s
      by (rule servers_fault_None [OF f(3)]) (use that r0(2) in simp_all)
    with f(1,2) r0(2) show ?thesis unfolding server_fault_None by simp
  qed
  ultimately show ?thesis by blast
qed

section \<open>Connections\<close>

text \<open>
  What the thread of a pool, the reactor and the proxy do to a connection. The thread is its variables, or \<open>None\<close> when it
  has ended; an exception in one of its turns ends it too. The tries of the thread to connect are kept with the delay
  after each, the last one first; a try sets the time of the last one.
\<close>

type_synonym tries = "(u64 \<times> u64) list"

definition noted :: "reconnect \<Rightarrow> reconnect \<Rightarrow> tries \<Rightarrow> tries" where
  "noted r r' hs = (if LastTry r' = LastTry r then hs else (LastTry r', CurrentDelay r') # hs)"

inductive pool_reach :: "radius_pool \<Rightarrow> tries \<Rightarrow> reconnect option \<Rightarrow> destination \<Rightarrow> bool" where
  reach_new: "pool_reach pool [] (Some new_reconnect) (new_destination pool)"
| reach_turn: "pool_reach pool hs (Some r) d \<Longrightarrow> now \<noteq> 0 \<Longrightarrow> destination_turn e now r d = (Inr (Some (r', es)), d') \<Longrightarrow>
     pool_reach pool (noted r r' hs) (Some r') d'"
| reach_end: "pool_reach pool hs (Some r) d \<Longrightarrow> destination_turn e now r d = (Inr None, d') \<Longrightarrow> pool_reach pool hs None d'"
| reach_raise: "pool_reach pool hs (Some r) d \<Longrightarrow> destination_turn e now r d = (Inl er, d') \<Longrightarrow> \<not> undefined_exn er \<Longrightarrow>
     pool_reach pool hs None d'"
| reach_data: "pool_reach pool hs th d \<Longrightarrow> onData e received d = Inr (es, d') \<Longrightarrow> pool_reach pool hs th d'"
| reach_error: "pool_reach pool hs th d \<Longrightarrow> pool_reach pool hs th (destination_Disconnect d)"
| reach_stop: "pool_reach pool hs th d \<Longrightarrow> pool_reach pool hs th (destination_Stop d)"

text \<open>The sockets of a generic pool: all when connected, none otherwise as long as the thread runs.\<close>

definition connection_inv :: "radius_pool \<Rightarrow> bool \<Rightarrow> destination \<Rightarrow> bool" where
  "connection_inv pool alive d \<longleftrightarrow> de_pool d = pool \<and> de_type d = RadiusEndpointType (pool_radsecPoolType pool) \<and>
     (de_type d = Endpoint_generic \<longrightarrow>
        (if de_connected d then de_udp d = {Radius_auth, Radius_acct, Radius_coa}
         else de_udp d = {} \<or> \<not> alive \<and> de_udp d \<in> {{Radius_auth}, {Radius_auth, Radius_acct}})) \<and>
     (de_connected d \<longrightarrow> de_type d \<noteq> Endpoint_radsec)"

text \<open>Between two tries there is more than the delay after the first; the delay is doubled, or 10 again.\<close>

fun spaced :: "tries \<Rightarrow> bool" where
  "spaced [] = True"
| "spaced [(t, w)] = (w \<in> {10, 20})"
| "spaced ((t', w') # (t, w) # hs) = (w < t' - t \<and> w' \<in> {10, w * 2} \<and> w' \<in> {10, 20, 40, 80, 160} \<and> spaced ((t, w) # hs))"

lemma spaced_delay: "spaced ((t, w) # hs) \<Longrightarrow> w \<in> {10, 20, 40, 80, 160}"
  by (cases hs) auto

definition last_try :: "tries \<Rightarrow> u64 \<times> u64" where
  "last_try hs = (case hs of [] \<Rightarrow> (0, 10) | h # _ \<Rightarrow> h)"

definition delay_inv :: "tries \<Rightarrow> reconnect \<Rightarrow> bool" where
  "delay_inv hs r \<longleftrightarrow> last_try hs = (LastTry r, CurrentDelay r) \<and> (hs \<noteq> [] \<longrightarrow> LastTry r \<noteq> 0)"

lemma connection_inv_alive: "connection_inv pool alive d \<Longrightarrow> connection_inv pool False d"
  by (auto simp: connection_inv_def)

lemma connection_inv_ends: "connection_inv pool alive d \<Longrightarrow> connection_inv pool alive (destination_Disconnect d)"
  by (auto simp: connection_inv_def destination_Disconnect_def)

lemma connection_inv_stop: "connection_inv pool alive d \<Longrightarrow> connection_inv pool alive (destination_Stop d)"
  unfolding destination_Stop_def by (rule connection_inv_ends) (auto simp: connection_inv_def)

lemma onData_end: "onData e received d = Inr (es, d') \<Longrightarrow> d' = d \<or> d' = destination_Disconnect d"
  by (auto simp: onData_def swallow_def try_bind_def map_sum_def split: sum.splits if_splits)

lemma connect_tls_inv:
  "connect_tls e n d = (res, d') \<Longrightarrow> de_pool d' = de_pool d \<and> de_type d' = de_type d"
  by (auto simp: connect_tls_def split: if_splits sum.splits prod.splits)

lemma connect_inv:
  assumes "destination_Connect e d = (res, d')" and "connection_inv pool True d"
  shows "connection_inv pool (\<not> isl res) d'"
proof (cases "de_type d \<in> {Endpoint_orion, Endpoint_globalreach}")
  case True
  then have "\<exists>n. connect_tls e n d = (res, d')"
    using assms(1) by (auto simp: destination_Connect_def Connect_Orion_def Connect_GlobalReach_def)
  with connect_tls_inv True assms(2) show ?thesis by (fastforce simp: connection_inv_def)
next
  case False
  with assms show ?thesis
    by (auto simp: destination_Connect_def Connect_Radsec_def Connect_Generic_def make_socket_def connection_inv_def
        split: endpoint_type.splits if_splits)
qed

text \<open>A turn leaves the connection as it is, or is a try for which the delay is over.\<close>

lemma turn_cases:
  assumes "destination_turn e now r d = (res, d')"
  obtains "d' = d" "\<And>r' es. res = Inr (Some (r', es)) \<Longrightarrow> LastTry r' = LastTry r \<and> CurrentDelay r' = CurrentDelay r"
  | er where "destination_Connect e d = (Inl er, d')" "res = Inl er"
  | ok r' where "destination_Connect e d = (Inr ok, d')" "res = Inr (Some (r', []))" "LastTry r' = now"
    "CurrentDelay r' = (if ok \<or> CurrentDelay r * 2 > 300 then 10 else CurrentDelay r * 2)"
    "LastTry r = 0 \<or> CurrentDelay r < now - LastTry r"
  using assms
  by (auto simp: destination_turn_def Let_def map_sum_def split: if_splits sum.splits prod.splits)

lemma noted_inv:
  assumes "spaced hs" and "delay_inv hs r" and "now \<noteq> 0" and "LastTry r' = now"
    and "CurrentDelay r' = (if ok \<or> CurrentDelay r * 2 > 300 then 10 else CurrentDelay r * 2)"
    and "LastTry r = 0 \<or> CurrentDelay r < now - LastTry r"
  shows "spaced (noted r r' hs) \<and> delay_inv (noted r r' hs) r'"
proof (cases hs)
  case Nil
  with assms show ?thesis by (auto simp: delay_inv_def last_try_def noted_def)
next
  case (Cons h hs')
  then have h: "h = (LastTry r, CurrentDelay r)" "LastTry r \<noteq> 0" using assms(2) by (auto simp: delay_inv_def last_try_def)
  have "CurrentDelay r \<in> {10, 20, 40, 80, 160}" using assms(1) unfolding Cons h(1) by (rule spaced_delay)
  with assms h show ?thesis by (auto simp: Cons delay_inv_def last_try_def noted_def)
qed

lemma pool_reach_inv:
  "pool_reach pool hs th d \<Longrightarrow>
   spaced hs \<and> (\<forall>r. th = Some r \<longrightarrow> delay_inv hs r) \<and> connection_inv pool (th \<noteq> None) d"
proof (induction rule: pool_reach.induct)
  case (reach_new pool)
  then show ?case by (simp add: new_reconnect_def new_destination_def connection_inv_def delay_inv_def last_try_def)
next
  case (reach_turn pool hs r d now e r' es d')
  have inv: "spaced hs" "delay_inv hs r" "connection_inv pool True d" using reach_turn.IH by simp_all
  from reach_turn.hyps(3) show ?case
  proof (cases rule: turn_cases)
    case 1
    then have "LastTry r' = LastTry r" "CurrentDelay r' = CurrentDelay r" by blast+
    with inv 1(1) show ?thesis by (simp add: noted_def delay_inv_def)
  next
    case (3 ok r'')
    then have "spaced (noted r r' hs) \<and> delay_inv (noted r r' hs) r'"
      by (intro noted_inv [OF inv(1,2) reach_turn.hyps(2), of r' ok]) simp_all
    with connect_inv [OF 3(1) inv(3)] show ?thesis by simp
  qed simp
next
  case (reach_end pool hs r d e now d')
  from reach_end.hyps(2) have "d' = d" by (cases rule: turn_cases) simp_all
  with reach_end.IH connection_inv_alive show ?case by auto
next
  case (reach_raise pool hs r d e now er d')
  have inv: "spaced hs" "connection_inv pool True d" using reach_raise.IH by simp_all
  from reach_raise.hyps(2) have "connection_inv pool False d'"
    by (cases rule: turn_cases) (use inv(2) connection_inv_alive connect_inv [OF _ inv(2)] in fastforce)+
  with inv(1) show ?case by simp
next
  case (reach_data pool hs th d e received es d')
  then show ?case using onData_end connection_inv_ends by blast
qed (simp_all add: connection_inv_ends connection_inv_stop)


section \<open>The properties on the plain proxy\<close>

lemma plain_state: "proxy_state (n_tokens plain_net) plain_avps [''24f5a207a131'', ''10.0.0.1'', ''1813'', ''wlan'']"
proof -
  have "Split ''24f5a207a131:10.0.0.1:1813:wlan'' CHR ''|'' = [''24f5a207a131:10.0.0.1:1813:wlan'']"
    "Split ''24f5a207a131:10.0.0.1:1813:wlan'' CHR '':'' = [''24f5a207a131'', ''10.0.0.1'', ''1813'', ''wlan'']" by code_simp+
  then have "proxy_parts (n_tokens plain_net) ''24f5a207a131:10.0.0.1:1813:wlan'' = Some [''24f5a207a131'', ''10.0.0.1'', ''1813'', ''wlan'']"
    by (simp add: proxy_parts_def plain_net_def Let_def)
  moreover have "2 < length (bytes_of_text ''24f5a207a131:10.0.0.1:1813:wlan'')" by (simp add: bytes_of_text_def)
  moreover have "plain_avps = [(40, [0, 0, 0, 1]), (44, bytes_of_text ''s'')] @ (33, bytes_of_text ''24f5a207a131:10.0.0.1:1813:wlan'') # []"
    by (simp add: plain_avps_def)
  moreover have "33 \<notin> fst ` set [(40 :: u8, [0, 0, 0, 1 :: u8]), (44, bytes_of_text ''s'')]" by simp
  ultimately show ?thesis unfolding proxy_state_def by (intro exI conjI) (assumption | simp)+
qed

theorem routed_and_answered_witness:
  "SendAuthenticationData plain_net (wire 1 7 (replicate 16 0) plain_avps) plain_proxy =
     Inr [Udp_Send Radius_auth ''10.0.0.1'' 1812 (wire 1 7 (replicate 16 0) plain_avps)] \<and>
   OnAuthenticationSocketReadable plain_net (wire 2 7 (replicate 16 0) plain_avps) =
     Inr [To_Device Radius_auth ''24f5a207a131'' (wire 2 7 (replicate 16 0) plain_avps)]"
proof -
  have n: "n_address plain_net plain_radius_server" "n_sockaddr plain_net ''10.0.0.1'' ''1813'' = Inr ''10.0.0.1:1813''"
    "rs_ip plain_radius_server = ''10.0.0.1''" "rs_port plain_radius_server = 1812"
    by (simp_all add: plain_net_def plain_radius_server_def)
  show ?thesis
    using routed_and_answered [of plain_avps "replicate 16 0" plain_net "[''24f5a207a131'', ''10.0.0.1'', ''1813'', ''wlan'']" plain_proxy
        plain_destination plain_radius_server "[]" plain_radius_server "[]" "''10.0.0.1:1813''" "[''1813'']" plain_avps "replicate 16 0"
        "[''24f5a207a131'', ''10.0.0.1'', ''1813'', ''wlan'']" _ 1 7 2 7] plain_state plain_number plain_split n
    by simp
qed

theorem accounting_needs_proxy_state_witness:
  "\<exists>why. SendAccountingData plain_net ''ap'' (wire 4 7 (replicate 16 0) [(40, [0, 0, 0, 1])]) plain_proxy = Inl (Undefined_Behaviour why)"
  by (rule accounting_needs_proxy_state) simp_all

theorem SetConfig_applies_witness:
  "om_find (px_dests (proxy_SetConfig reading_poco plain_net True [plain_radius_pool] plain_proxy)) (IPtoInt (n_ip plain_net) ''10.0.0.1'') =
   Some (new_destination plain_radius_pool)"
proof -
  have "proxy_inv plain_proxy" by (simp add: proxy_inv_def plain_proxy_def)
  moreover have "pool_enabled plain_radius_pool" "pool_poolProxyIp plain_radius_pool = ''10.0.0.1''"
    by (simp_all add: plain_radius_pool_def new_pool_def)
  ultimately show ?thesis using SetConfig_applies [OF reading_ok _ refl, of plain_proxy plain_net True "[plain_radius_pool]"] by simp
qed

theorem fresh_pool_crashes_witness:
  "\<exists>why. SendAuthenticationData plain_net (wire 1 7 (replicate 16 0) plain_avps)
     (proxy_SetConfig reading_poco plain_net True [plain_radius_pool] plain_proxy) = Inl (Undefined_Behaviour why)"
proof -
  have inv: "proxy_inv plain_proxy" by (simp add: proxy_inv_def plain_proxy_def)
  have "RadiusProxyPoolList_from_json reading_poco (RadiusProxyPoolList_to_json [plain_radius_pool]) [] = (True, [plain_radius_pool])"
    using RadiusProxyPoolList_from_json_ok [OF reading_ok] .
  then have run: "proxy_Continue (proxy_SetConfig reading_poco plain_net True [plain_radius_pool] plain_proxy)"
    by (simp add: proxy_Continue_def proxy_SetConfig_def proxy_Start_def StartRADIUSDestinations_def proxy_ParseConfig_def
        ResetConfig_def proxy_Stop_def StopRADIUSDestinations_def plain_proxy_def ParseServerList_def plain_radius_pool_def
        new_pool_def new_servers_def plain_radius_server_def new_server_def plain_net_def Let_def)
  have pool: "pool_enabled plain_radius_pool" "pool_poolProxyIp plain_radius_pool = ''10.0.0.1''"
    "RadiusEndpointType (pool_radsecPoolType plain_radius_pool) = Endpoint_generic"
    by (simp_all add: plain_radius_pool_def new_pool_def RadiusEndpointType_def)
  then have "find (\<lambda>r. pool_enabled r \<and> IPtoInt (n_ip plain_net) (pool_poolProxyIp r) =
      IPtoInt (n_ip plain_net) ([''24f5a207a131'', ''10.0.0.1'', ''1813'', ''wlan''] ! 1)) (rev [plain_radius_pool]) = Some plain_radius_pool"
    by simp
  from fresh_pool_crashes [OF reading_ok inv refl run this pool(3) _ _ _ _ plain_state] show ?thesis by simp
qed

theorem accepted_pools_witness:
  "\<exists>answer. radius_DoPut reading_poco (\<lambda>_. Some [10, 0, 0, 1]) True (RadiusProxyPoolList_to_json [plain_radius_pool]) = answer \<and>
     answer \<noteq> Rest_BadRequest ''MustHaveAtLeastOneRadiusServer''"
  using accepted_pools [OF refl] by blast


end
