(* ===== verification/GW_Handler.thy ===== *)
theory GW_Handler
  imports GW_Upgrade GW_Rest
begin

text \<open>
  Requests of the REST interface (\<^verbatim>\<open>src/framework/RESTAPI_Handler.h\<close>): which handler a path selects and what it binds,
  the parameters behind the question mark, the checks before a handler runs, and what becomes of its exceptions.
  HTTP itself, the parser of the body and the authorization service are parameters. A path is cut at its slashes by
  \<open>tokens\<close> (\<^verbatim>\<open>Poco::StringTokenizer\<close> without options: empty parts are kept).
\<close>

section \<open>Paths\<close>

type_synonym bindings = "(string, string) omap"

text \<open>
  One endpoint against the parts of the path. A part that differs from a name in braces is bound to it; a first
  mismatch ends the comparison, and what was bound before it stays.
\<close>

fun match_items :: "(string \<Rightarrow> string) \<Rightarrow> (string \<times> string) list \<Rightarrow> bindings \<Rightarrow> bool \<times> bindings" where
  "match_items lower [] b = (True, b)"
| "match_items lower ((path, item) # rest) b =
     (if path \<noteq> item then
        (if item \<noteq> [] \<and> hd item = CHR ''{''
         then match_items lower rest (om_set (lower (take (length item - 2) (drop 1 item))) path b)
         else (False, b))
      else match_items lower rest b)"

fun match_endpoints ::
    "(string \<Rightarrow> string) \<Rightarrow> (string \<Rightarrow> string list) \<Rightarrow> string list \<Rightarrow> string list \<Rightarrow> bindings \<Rightarrow> bool \<times> bindings" where
  "match_endpoints lower tokens path [] b = (False, b)"
| "match_endpoints lower tokens path (endpoint # rest) b =
     (let items = tokens endpoint in
      if length path \<noteq> length items then match_endpoints lower tokens path rest b
      else case match_items lower (zip path items) b of
             (True, b) \<Rightarrow> (True, b)
           | (False, b) \<Rightarrow> match_endpoints lower tokens path rest b)"

definition ParseBindings ::
    "(string \<Rightarrow> string) \<Rightarrow> (string \<Rightarrow> string list) \<Rightarrow> string \<Rightarrow> string list \<Rightarrow> bool \<times> bindings" where
  "ParseBindings lower tokens request endpoints = match_endpoints lower tokens (tokens request) endpoints []"

text \<open>The first class with a matching path gets the request; the rest go to the handler of the unknown.\<close>

fun RESTAPI_Router ::
    "(string \<Rightarrow> string) \<Rightarrow> (string \<Rightarrow> string list) \<Rightarrow> string \<Rightarrow> (string list \<times> 'h) list \<Rightarrow> 'h option \<times> bindings" where
  "RESTAPI_Router lower tokens path [] = (None, [])"
| "RESTAPI_Router lower tokens path ((endpoints, h) # rest) =
     (case ParseBindings lower tokens path endpoints of
        (True, b) \<Rightarrow> (Some h, b)
      | (False, b) \<Rightarrow> if rest = [] then (None, b) else RESTAPI_Router lower tokens path rest)"

definition GetBinding :: "(string \<Rightarrow> string) \<Rightarrow> string \<Rightarrow> string \<Rightarrow> bindings \<Rightarrow> string" where
  "GetBinding lower name dflt b = (case om_find b (lower name) of None \<Rightarrow> dflt | Some v \<Rightarrow> v)"

section \<open>Parameters\<close>

type_synonym parameters = "(string \<times> string) list"

definition is_number :: "string \<Rightarrow> bool" where
  "is_number s \<longleftrightarrow> s \<noteq> [] \<and> list_all isdigit s"

definition is_bool :: "string \<Rightarrow> bool" where
  "is_bool s \<longleftrightarrow> s = ''true'' \<or> s = ''false''"

text \<open>\<^verbatim>\<open>std::stoull\<close> on digits: the value, or out of range.\<close>

definition digits_value :: "string \<Rightarrow> nat" where
  "digits_value s = base_value 10 (map hex_value s)"

definition stoull_digits :: "string \<Rightarrow> cpp_exn + u64" where
  "stoull_digits s = (if digits_value s < 2 ^ 64 then Inr (of_nat (digits_value s)) else Inl Out_Of_Range)"

definition GetParameter_u64 :: "string \<Rightarrow> u64 \<Rightarrow> parameters \<Rightarrow> cpp_exn + u64" where
  "GetParameter_u64 name dflt ps =
     (case map_of ps name of
        None \<Rightarrow> Inr dflt
      | Some v \<Rightarrow> if is_number v then stoull_digits v else Inr dflt)"

definition GetBoolParameter :: "string \<Rightarrow> bool \<Rightarrow> parameters \<Rightarrow> bool" where
  "GetBoolParameter name dflt ps =
     (case map_of ps name of None \<Rightarrow> dflt | Some v \<Rightarrow> if is_bool v then v = ''true'' else dflt)"

definition GetParameter :: "string \<Rightarrow> string \<Rightarrow> parameters \<Rightarrow> string" where
  "GetParameter name dflt ps = (case map_of ps name of None \<Rightarrow> dflt | Some v \<Rightarrow> v)"

definition HasParameter :: "string \<Rightarrow> parameters \<Rightarrow> string option" where
  "HasParameter name ps = map_of ps name"

record query_block =
  qb_SerialNumber :: string
  qb_StartDate :: u64
  qb_EndDate :: u64
  qb_Offset :: u64
  qb_Limit :: u64
  qb_Filter :: string
  qb_Lifetime :: bool
  qb_LogType :: u64
  qb_LastOnly :: bool
  qb_Newest :: bool
  qb_CountOnly :: bool
  qb_AdditionalInfo :: bool
  qb_Select :: "string list"

text \<open>Both tokenizers, of paths and of selections, are without options; the separator is an argument.\<close>

definition InitQueryBlock :: "(string \<Rightarrow> string list) \<Rightarrow> parameters \<Rightarrow> cpp_exn + query_block" where
  "InitQueryBlock commas ps =
     try_bind (GetParameter_u64 ''startDate'' 0 ps) (\<lambda>from.
     try_bind (GetParameter_u64 ''endDate'' 0 ps) (\<lambda>til.
     try_bind (GetParameter_u64 ''offset'' 0 ps) (\<lambda>offset.
     try_bind (GetParameter_u64 ''limit'' 100 ps) (\<lambda>limit.
     try_bind (GetParameter_u64 ''logType'' 0 ps) (\<lambda>ty.
     Inr \<lparr> qb_SerialNumber = GetParameter ''serialNumber'' [] ps, qb_StartDate = from, qb_EndDate = til,
           qb_Offset = offset, qb_Limit = limit, qb_Filter = GetParameter ''filter'' [] ps,
           qb_Lifetime = GetBoolParameter ''lifetime'' False ps, qb_LogType = ty,
           qb_LastOnly = GetBoolParameter ''lastOnly'' False ps, qb_Newest = GetBoolParameter ''newest'' False ps,
           qb_CountOnly = GetBoolParameter ''countOnly'' False ps,
           qb_AdditionalInfo = GetBoolParameter ''withExtendedInfo'' False ps,
           qb_Select = commas (GetParameter ''select'' [] ps) \<rparr>)))))"

section \<open>Members of a body\<close>

definition Get :: "poco \<Rightarrow> string \<Rightarrow> jobject \<Rightarrow> u64 \<Rightarrow> cpp_exn + u64" where
  "Get p field obj dflt = (if j_has obj field then p_u64 p (j_get obj field) else Inr dflt)"

definition GetS :: "poco \<Rightarrow> string \<Rightarrow> jobject \<Rightarrow> string \<Rightarrow> cpp_exn + string" where
  "GetS p field obj dflt = (if j_has obj field then p_string p (j_get obj field) else Inr dflt)"

definition GetB :: "poco \<Rightarrow> string \<Rightarrow> jobject \<Rightarrow> bool \<Rightarrow> cpp_exn + bool" where
  "GetB p field obj dflt =
     (if j_has obj field then map_sum id (\<lambda>s. s = ''true'') (p_string p (j_get obj field)) else Inr dflt)"

definition GetWhen :: "poco \<Rightarrow> jobject \<Rightarrow> cpp_exn + u64" where
  "GetWhen p obj = Get p ''when'' obj 0"

section \<open>A request\<close>

datatype user_role = UNKNOWN | ROOT | ADMIN | SUBSCRIBER | CSR | SYSTEM | INSTALLER | NOC | ACCOUNTING | PARTNER

fun UserTypeToString :: "user_role \<Rightarrow> string" where
  "UserTypeToString ROOT = ''root''"
| "UserTypeToString ADMIN = ''admin''"
| "UserTypeToString SUBSCRIBER = ''subscriber''"
| "UserTypeToString PARTNER = ''partner''"
| "UserTypeToString CSR = ''csr''"
| "UserTypeToString SYSTEM = ''system''"
| "UserTypeToString INSTALLER = ''installer''"
| "UserTypeToString NOC = ''noc''"
| "UserTypeToString ACCOUNTING = ''accounting''"
| "UserTypeToString UNKNOWN = ''unknown''"

text \<open>Who asks: the role, the e-mail address or service name, the name of the account and its refresh token.\<close>

record user =
  u_role :: user_role
  u_requester :: string
  u_username :: string
  u_refresh_token :: string

text \<open>
  \<open>rq_json\<close> is the text of the body when there is one of the type \<^verbatim>\<open>application/json\<close>, \<open>rq_parameters\<close> the
  parameters of the URI. \<open>rq_internal\<close> tells the internal server from the public one.
\<close>

record request =
  rq_method :: string
  rq_json :: "string option"
  rq_parameters :: parameters
  rq_bindings :: bindings
  rq_internal :: bool

text \<open>What a handler is given; a body that was not there is a null pointer, whose use raises.\<close>

record call_data =
  hd_request :: request
  hd_body :: "jobject option"
  hd_user :: user
  hd_query :: query_block

definition ParsedBody :: "call_data \<Rightarrow> cpp_exn + jobject" where
  "ParsedBody h = (case hd_body h of None \<Rightarrow> Inl (Poco_Exception ''NullPointerException'') | Some obj \<Rightarrow> Inr obj)"

text \<open>The answer of the authorization service: the user, or whether the token had expired and the service was reached.\<close>

datatype authorization = Allowed user | Denied (expired: bool) (contacted: bool)

section \<open>Handling a request\<close>

definition parse_body :: "poco \<Rightarrow> request \<Rightarrow> cpp_exn + jobject option" where
  "parse_body p rq = (case rq_json rq of None \<Rightarrow> Inr None | Some text \<Rightarrow> map_sum id Some (parse_object p text))"

text \<open>Nothing is answered here for \<^verbatim>\<open>OPTIONS\<close> but the allowed methods.\<close>

definition ContinueProcessing :: "string list \<Rightarrow> request \<Rightarrow> 'a rest_reply option" where
  "ContinueProcessing methods rq =
     (if rq_method rq = ''OPTIONS'' then Some Rest_OK
      else if rq_method rq \<notin> set methods then Some (Rest_BadRequest ''UnsupportedHTTPMethod'')
      else None)"

record ('s, 'a) rest_methods =
  rm_Get :: "call_data \<Rightarrow> ('s, 'a rest_reply) op"
  rm_Post :: "call_data \<Rightarrow> ('s, 'a rest_reply) op"
  rm_Delete :: "call_data \<Rightarrow> ('s, 'a rest_reply) op"
  rm_Put :: "call_data \<Rightarrow> ('s, 'a rest_reply) op"

definition rest_dispatch :: "('s, 'a) rest_methods \<Rightarrow> call_data \<Rightarrow> ('s, 'a rest_reply) op" where
  "rest_dispatch hs h =
     (let m = rq_method (hd_request h) in
      if m = ''GET'' then rm_Get hs h
      else if m = ''POST'' then rm_Post hs h
      else if m = ''DELETE'' then rm_Delete hs h
      else if m = ''PUT'' then rm_Put hs h
      else ret (Rest_BadRequest ''UnsupportedHTTPMethod''))"

text \<open>
  \<^verbatim>\<open>handleRequest\<close>. The handlers of the gateway are not limited in their rate, and all but the one for the telemetry web socket ask for authorization. The
  methods are those of the class. A Poco exception ends in a bad request with what was done before it done; any
  other exception leaves the function.
\<close>

definition rest_handle ::
    "poco \<Rightarrow> (string \<Rightarrow> string list) \<Rightarrow> (request \<Rightarrow> authorization) \<Rightarrow> string list \<Rightarrow> ('s, 'a) rest_methods \<Rightarrow> request \<Rightarrow>
     ('s, 'a rest_reply) op" where
  "rest_handle p commas authorize methods hs rq s =
     (case (andThen (lift_exn (parse_body p rq)) (\<lambda>body.
            case ContinueProcessing methods rq of
              Some r \<Rightarrow> ret r
            | None \<Rightarrow>
                (case authorize rq of
                   Denied True _ \<Rightarrow> ret (Rest_UnAuthorized ''EXPIRED_TOKEN'')
                 | Denied False True \<Rightarrow> ret (Rest_UnAuthorized ''INVALID_TOKEN'')
                 | Denied False False \<Rightarrow> ret (Rest_UnAuthorized ''SECURITY_SERVICE_UNREACHABLE'')
                 | Allowed u \<Rightarrow>
                     andThen (lift_exn (InitQueryBlock commas (rq_parameters rq))) (\<lambda>qb.
                       rest_dispatch hs \<lparr> hd_request = rq, hd_body = body, hd_user = u, hd_query = qb \<rparr>)))) s of
        (Inl e, s') \<Rightarrow> if poco_exn e then (Inr (Rest_BadRequest ''InternalError''), s') else (Inl e, s')
      | r \<Rightarrow> r)"

section \<open>What a path binds\<close>

definition is_param :: "string \<Rightarrow> bool" where
  "is_param item \<longleftrightarrow> item \<noteq> [] \<and> hd item = CHR ''{''"

definition param_name :: "string \<Rightarrow> string" where
  "param_name item = take (length item - 2) (drop 1 item)"

text \<open>The parts of a path made from an endpoint by a value for each of its names.\<close>

definition fill :: "(string \<Rightarrow> string) \<Rightarrow> (string \<Rightarrow> string) \<Rightarrow> string list \<Rightarrow> string list" where
  "fill lower val items = map (\<lambda>item. if is_param item then val (lower (param_name item)) else item) items"

lemma length_fill [simp]: "length (fill lower val items) = length items"
  by (simp add: fill_def)

lemma match_items_fill:
  assumes "\<forall>item\<in>set items. is_param item \<longrightarrow> val (lower (param_name item)) \<noteq> item" and "om_wf b"
  shows "\<exists>b'. match_items lower (zip (fill lower val items) items) b = (True, b') \<and>
           (\<forall>k. om_find b' k = (if \<exists>item\<in>set items. is_param item \<and> lower (param_name item) = k then Some (val k) else om_find b k))"
  using assms
proof (induction items arbitrary: b)
  case Nil
  then show ?case by (simp add: fill_def)
next
  case (Cons item items)
  let ?k = "lower (param_name item)"
  show ?case
  proof (cases "is_param item")
    case True
    let ?b = "om_set ?k (val ?k) b"
    have wf: "om_wf ?b" using Cons.prems(2) by (rule om_wf_set)
    obtain b' where b': "match_items lower (zip (fill lower val items) items) ?b = (True, b')"
      "\<forall>k. om_find b' k = (if \<exists>item\<in>set items. is_param item \<and> lower (param_name item) = k then Some (val k) else om_find ?b k)"
      using Cons.IH [OF _ wf] Cons.prems(1) by auto
    have "match_items lower (zip (fill lower val (item # items)) (item # items)) b = (True, b')"
      using b'(1) True Cons.prems(1) by (simp add: fill_def is_param_def param_name_def)
    moreover have "om_find b' k = (if \<exists>i\<in>set (item # items). is_param i \<and> lower (param_name i) = k then Some (val k) else om_find b k)" for k
      using b'(2) True om_find_set [OF Cons.prems(2)] by auto
    ultimately show ?thesis by blast
  next
    case False
    then show ?thesis using Cons.IH [of b] Cons.prems by (auto simp: fill_def)
  qed
qed

lemma match_endpoints_other:
  assumes "\<forall>e\<in>set before. length (tokens e) \<noteq> length path"
  shows "match_endpoints lower tokens path (before @ rest) b = match_endpoints lower tokens path rest b"
  using assms by (induction before) simp_all

text \<open>
  A path that is made from an endpoint by putting a value for each name in braces is matched by it, and each name
  is bound to its value, whatever its case; endpoints with another number of parts may come before it. (A value
  that is the name in its braces itself is not bound.)
\<close>

theorem path_binds_values:
  assumes "tokens endpoint = items" and "tokens request = fill lower val items"
    and "\<forall>e\<in>set before. length (tokens e) \<noteq> length items"
    and "\<forall>item\<in>set items. is_param item \<longrightarrow> val (lower (param_name item)) \<noteq> item"
  shows "\<exists>b. ParseBindings lower tokens request (before @ endpoint # others) = (True, b) \<and>
           (\<forall>item\<in>set items. is_param item \<longrightarrow> GetBinding lower (param_name item) dflt b = val (lower (param_name item)))"
proof -
  obtain b where b: "match_items lower (zip (fill lower val items) items) [] = (True, b)"
    "\<forall>k. om_find b k = (if \<exists>item\<in>set items. is_param item \<and> lower (param_name item) = k then Some (val k) else om_find [] k)"
    using match_items_fill [of items val lower "[]"] assms(4) by (auto simp: om_wf_def)
  have "ParseBindings lower tokens request (before @ endpoint # others) = (True, b)"
    using b(1) assms(1,2) match_endpoints_other [of before tokens "fill lower val items"] assms(3)
    by (simp add: ParseBindings_def)
  moreover have "GetBinding lower (param_name item) dflt b = val (lower (param_name item))" if "item \<in> set items" "is_param item" for item
    using b(2) that by (auto simp: GetBinding_def)
  ultimately show ?thesis by blast
qed

section \<open>Who is let in\<close>

lemma rest_handle_refused:
  assumes "rq_method rq \<notin> set methods \<or> (\<forall>u. authorize rq \<noteq> Allowed u)"
  shows "snd (rest_handle p commas authorize methods hs rq s) = s \<and> fst (rest_handle p commas authorize methods hs rq s) \<noteq> Inr (Rest_Object obj)"
proof (cases "parse_body p rq")
  case (Inl e)
  then show ?thesis by (simp add: rest_handle_def andThen_def lift_exn_def)
next
  case body: (Inr body)
  show ?thesis
  proof (cases "rq_method rq = ''OPTIONS'' \<or> rq_method rq \<notin> set methods")
    case True
    with body show ?thesis by (auto simp: rest_handle_def andThen_def lift_exn_def ret_def ContinueProcessing_def)
  next
    case False
    with assms obtain a b where "authorize rq = Denied a b" by (cases "authorize rq") auto
    with body False show ?thesis
      by (cases a; cases b) (simp_all add: rest_handle_def andThen_def lift_exn_def ret_def ContinueProcessing_def)
  qed
qed

text \<open>
  C23: nothing happens on a request whose method the class does not have, or whose sender the authorization service
  does not let in: no handler runs, the state is the same, and the answer is no object, but for a refused sender
  the reason of the refusal. A request that is let in, with a readable query, gets what the handler of its method
  answers in the state the handler leaves; when the handler, or the parser of the body before anything else,
  raises an exception of Poco, the answer is a bad request for an internal error, and what was done before the
  exception stays done. Any other exception leaves the function.
\<close>

theorem request_guarded:
  fixes p commas authorize methods and hs :: "('s, 'a) rest_methods" and rq and s :: 's
  defines "outcome \<equiv> rest_handle p commas authorize methods hs rq s"
  shows "(rq_method rq \<notin> set methods \<or> (\<forall>u. authorize rq \<noteq> Allowed u) \<longrightarrow>
            snd outcome = s \<and> (\<forall>obj. fst outcome \<noteq> Inr (Rest_Object obj))) \<and>
         (\<forall>why. parse_body p rq = Inl (Poco_Exception why) \<longrightarrow> outcome = (Inr (Rest_BadRequest ''InternalError''), s)) \<and>
         (\<forall>body. parse_body p rq = Inr body \<and> rq_method rq \<in> set methods \<and> rq_method rq \<noteq> ''OPTIONS'' \<longrightarrow>
            (\<forall>expired contacted. authorize rq = Denied expired contacted \<longrightarrow>
               outcome = (Inr (Rest_UnAuthorized (if expired then ''EXPIRED_TOKEN'' else if contacted then ''INVALID_TOKEN''
                                                  else ''SECURITY_SERVICE_UNREACHABLE'')), s)) \<and>
            (\<forall>u qb. authorize rq = Allowed u \<and> InitQueryBlock commas (rq_parameters rq) = Inr qb \<longrightarrow>
               outcome = (case rest_dispatch hs \<lparr> hd_request = rq, hd_body = body, hd_user = u, hd_query = qb \<rparr> s of
                  (Inl (Poco_Exception why), s') \<Rightarrow> (Inr (Rest_BadRequest ''InternalError''), s')
                | r \<Rightarrow> r)))"
proof (intro conjI allI impI; (elim conjE)?)
  assume "rq_method rq \<notin> set methods \<or> (\<forall>u. authorize rq \<noteq> Allowed u)"
  note refused = rest_handle_refused [of rq methods authorize, OF this]
  show "snd outcome = s" unfolding outcome_def by (rule refused [THEN conjunct1])
  show "fst outcome \<noteq> Inr (Rest_Object obj)" for obj unfolding outcome_def by (rule refused [THEN conjunct2])
next
  show "outcome = (Inr (Rest_BadRequest ''InternalError''), s)" if "parse_body p rq = Inl (Poco_Exception why)" for why
    using that by (simp add: outcome_def rest_handle_def andThen_def lift_exn_def poco_exn_def)
next
  fix body expired contacted
  assume "parse_body p rq = Inr body" "rq_method rq \<in> set methods" "rq_method rq \<noteq> ''OPTIONS''" "authorize rq = Denied expired contacted"
  then show "outcome = (Inr (Rest_UnAuthorized (if expired then ''EXPIRED_TOKEN'' else if contacted then ''INVALID_TOKEN''
                                               else ''SECURITY_SERVICE_UNREACHABLE'')), s)"
    by (cases expired; cases contacted) (simp_all add: outcome_def rest_handle_def andThen_def lift_exn_def ret_def ContinueProcessing_def)
next
  fix body u qb
  assume *: "parse_body p rq = Inr body" "rq_method rq \<in> set methods" "rq_method rq \<noteq> ''OPTIONS''" "authorize rq = Allowed u"
    "InitQueryBlock commas (rq_parameters rq) = Inr qb"
  let ?r = "rest_dispatch hs \<lparr> hd_request = rq, hd_body = body, hd_user = u, hd_query = qb \<rparr> s"
  have "outcome = (case ?r of (Inl e, s') \<Rightarrow> if poco_exn e then (Inr (Rest_BadRequest ''InternalError''), s') else (Inl e, s') | r \<Rightarrow> r)"
    using * by (simp add: outcome_def rest_handle_def andThen_def lift_exn_def ContinueProcessing_def cong: if_cong split: prod.split sum.split)
  also have "\<dots> = (case ?r of (Inl (Poco_Exception why), s') \<Rightarrow> (Inr (Rest_BadRequest ''InternalError''), s') | r \<Rightarrow> r)"
    by (auto simp: poco_exn_def split: prod.split sum.split cpp_exn.split)
  finally show "outcome = (case ?r of (Inl (Poco_Exception why), s') \<Rightarrow> (Inr (Rest_BadRequest ''InternalError''), s') | r \<Rightarrow> r)" .
qed

lemma stoull_digits_large: "digits_value v \<ge> 2 ^ 64 \<Longrightarrow> stoull_digits v = Inl Out_Of_Range"
  by (simp add: stoull_digits_def)

lemma try_bind_Inl: "try_bind r f = Inl e \<longleftrightarrow> r = Inl e \<or> (\<exists>x. r = Inr x \<and> f x = Inl e)"
  by (cases r) simp_all

lemma GetParameter_u64_range: "GetParameter_u64 name d ps = Inl e \<Longrightarrow> e = Out_Of_Range"
  by (simp add: GetParameter_u64_def stoull_digits_def split: option.splits if_splits)

lemma InitQueryBlock_only_range: "InitQueryBlock commas ps = Inl e \<Longrightarrow> e = Out_Of_Range"
  by (auto simp: InitQueryBlock_def try_bind_Inl dest: GetParameter_u64_range)

lemma InitQueryBlock_raises:
  assumes "name \<in> {''startDate'', ''endDate'', ''offset'', ''limit'', ''logType''}"
    and "\<And>d. GetParameter_u64 name d ps = Inl Out_Of_Range"
  shows "InitQueryBlock commas ps = Inl Out_Of_Range"
proof -
  have raise: "try_bind (GetParameter_u64 n d ps) f = Inl Out_Of_Range" if "n = name \<or> (\<forall>x. f x = Inl Out_Of_Range)" for n d f
    using that assms(2) by (cases "GetParameter_u64 n d ps") (auto dest: GetParameter_u64_range)
  show ?thesis
    using assms(1) unfolding InitQueryBlock_def
    by (elim insertE emptyE) (auto intro!: raise)
qed

text \<open>
  A number of the query that does not fit into 64 bits raises an exception that is not Poco's: it leaves the
  function that handles requests, and there is no answer.
\<close>

theorem large_number_escapes:
  assumes "parse_body p rq = Inr body" and "rq_method rq \<in> set methods" and "rq_method rq \<noteq> ''OPTIONS''"
    and "authorize rq = Allowed u" and "name \<in> {''startDate'', ''endDate'', ''offset'', ''limit'', ''logType''}"
    and "map_of (rq_parameters rq) name = Some v" and "is_number v" and "2 ^ 64 \<le> digits_value v"
  shows "rest_handle p commas authorize methods hs rq s = (Inl Out_Of_Range, s)"
proof -
  have v: "GetParameter_u64 name d (rq_parameters rq) = Inl Out_Of_Range" for d
    using assms(6-8) by (simp add: GetParameter_u64_def stoull_digits_large)
  have "InitQueryBlock commas (rq_parameters rq) = Inl Out_Of_Range"
    using InitQueryBlock_raises [OF assms(5)] v by blast
  then show ?thesis
    using assms(1-4) by (simp add: rest_handle_def andThen_def lift_exn_def ContinueProcessing_def poco_exn_def)
qed

section \<open>Concrete requests\<close>

definition slashes :: "string \<Rightarrow> string list" where
  "slashes s =
     (if s = ''/api/v1/device/{serialNumber}/{command}'' then [[], ''api'', ''v1'', ''device'', ''{serialNumber}'', ''{command}'']
      else if s = ''/api/v1/device/24f5a207a130/reboot'' then [[], ''api'', ''v1'', ''device'', ''24f5a207a130'', ''reboot'']
      else [s])"

theorem path_binds_values_witness:
  "\<exists>b. ParseBindings id slashes ''/api/v1/device/24f5a207a130/reboot'' [''/api/v1/devices'', ''/api/v1/device/{serialNumber}/{command}''] = (True, b) \<and>
     GetBinding id ''serialNumber'' [] b = ''24f5a207a130'' \<and> GetBinding id ''command'' [] b = ''reboot''"
proof -
  let ?val = "\<lambda>k. if k = ''command'' then ''reboot'' else ''24f5a207a130''"
  have "\<exists>b. ParseBindings id slashes ''/api/v1/device/24f5a207a130/reboot'' ([''/api/v1/devices''] @ ''/api/v1/device/{serialNumber}/{command}'' # []) = (True, b) \<and>
     (\<forall>item\<in>set [[], ''api'', ''v1'', ''device'', ''{serialNumber}'', ''{command}'']. is_param item \<longrightarrow>
        GetBinding id (param_name item) [] b = ?val (id (param_name item)))"
    by (rule path_binds_values) (simp_all add: slashes_def fill_def is_param_def param_name_def)
  then show ?thesis by (simp add: is_param_def param_name_def)
qed

definition limit_request :: request where
  "limit_request = \<lparr> rq_method = ''GET'', rq_json = None, rq_parameters = [(''limit'', ''18446744073709551616'')], rq_bindings = [],
     rq_internal = False \<rparr>"

definition plain_user :: user where
  "plain_user = \<lparr> u_role = ROOT, u_requester = ''root'', u_username = ''root'', u_refresh_token = ''t'' \<rparr>"

text \<open>Methods that answer with the number of the calls so far.\<close>

definition counting :: "(nat, nat) rest_methods" where
  "counting = (let f = (\<lambda>h n. (Inr (Rest_Object n), Suc n)) in \<lparr> rm_Get = f, rm_Post = f, rm_Delete = f, rm_Put = f \<rparr>)"

text \<open>A method that counts its call and then raises.\<close>

definition raising :: "(nat, nat) rest_methods" where
  "raising = (let f = (\<lambda>h n. (Inl (Poco_Exception ''DataException''), Suc n)) in \<lparr> rm_Get = f, rm_Post = f, rm_Delete = f, rm_Put = f \<rparr>)"

definition bare_request :: request where
  "bare_request = \<lparr> rq_method = ''GET'', rq_json = None, rq_parameters = [], rq_bindings = [], rq_internal = False \<rparr>"

theorem request_guarded_witness:
  "rest_handle plain_poco (\<lambda>_. []) (\<lambda>_. Denied True True) [''GET''] counting bare_request 5 = (Inr (Rest_UnAuthorized ''EXPIRED_TOKEN''), 5) \<and>
   rest_handle plain_poco (\<lambda>_. []) (\<lambda>_. Allowed plain_user) [''GET''] raising bare_request 5 =
     (Inr (Rest_BadRequest ''InternalError''), 6)"
proof -
  have b: "parse_body plain_poco bare_request = Inr None" "rq_method bare_request \<in> set [''GET'']" "rq_method bare_request \<noteq> ''OPTIONS''"
    by (simp_all add: parse_body_def bare_request_def)
  obtain qb where qb: "InitQueryBlock (\<lambda>_. []) (rq_parameters bare_request) = Inr qb"
    by (simp add: InitQueryBlock_def bare_request_def GetParameter_u64_def try_bind_def)
  note g = request_guarded [THEN conjunct2, THEN conjunct2, THEN spec, THEN mp, OF conjI [OF b(1) conjI [OF b(2,3)]]]
  show ?thesis
    using g [of "\<lambda>_. Denied True True" "\<lambda>_. []" counting 5, THEN conjunct1, rule_format, OF refl]
      g [of "\<lambda>_. Allowed plain_user" "\<lambda>_. []" raising 5, THEN conjunct2, rule_format, OF conjI [OF refl qb]]
    by (simp add: rest_dispatch_def raising_def bare_request_def Let_def)
qed

theorem large_number_escapes_witness:
  "rest_handle plain_poco (\<lambda>_. []) (\<lambda>_. Allowed plain_user) [''GET''] counting limit_request 5 = (Inl Out_Of_Range, 5)"
  by (rule large_number_escapes [where name = "''limit''" and v = "''18446744073709551616''" and body = None])
     (simp_all add: limit_request_def parse_body_def is_number_def isdigit_def digits_value_def hex_value_def char_code_def
        less_eq_char_def)

end
