(* ===== verification/GW_Commands.thy ===== *)
theory GW_Commands
  imports GW_Connection
begin

text \<open>
  The command manager (\<^verbatim>\<open>src/CommandManager.cpp\<close>, \<^verbatim>\<open>CommandManager.h\<close>): the requests sent to devices and not
  yet answered, the thread that takes the answers, the timer that drops requests after ten minutes, and
  the scheduler that sends the commands waiting in the table. A promise is a handle into a store of values;
  setting it twice raises. Times of submission are in milliseconds. The command table is written through
  its own storage calls, which are recorded as effects.
\<close>

section \<open>The commands of an access point\<close>

datatype ap_command =
    AP_capabilities | AP_logs | AP_healthchecks | AP_statistics | AP_status | AP_rtty | AP_configure | AP_upgrade
  | AP_reboot | AP_factory | AP_leds | AP_trace | AP_request | AP_wifiscan | AP_eventqueue | AP_telemetry | AP_ping
  | AP_script | AP_rrm | AP_certupdate | AP_transfer | AP_powercycle | AP_fixedconfig | AP_cablediagnostics
  | AP_reenroll | AP_package | AP_unknown

definition uCentralAPCommands :: "(string \<times> ap_command) list" where
  "uCentralAPCommands =
     [(''capabilities'', AP_capabilities), (''logs'', AP_logs), (''healthchecks'', AP_healthchecks),
      (''statistics'', AP_statistics), (''status'', AP_status), (''rtty'', AP_rtty), (''configure'', AP_configure),
      (''upgrade'', AP_upgrade), (''reboot'', AP_reboot), (''factory'', AP_factory), (''leds'', AP_leds),
      (''trace'', AP_trace), (''request'', AP_request), (''wifiscan'', AP_wifiscan), (''eventqueue'', AP_eventqueue),
      (''telemetry'', AP_telemetry), (''ping'', AP_ping), (''script'', AP_script), (''rrm'', AP_rrm),
      (''certupdate'', AP_certupdate), (''transfer'', AP_transfer), (''powercycle'', AP_powercycle),
      (''fixedconfig'', AP_fixedconfig), (''cable-diagnostics'', AP_cablediagnostics), (''reenroll'', AP_reenroll),
      (''package'', AP_package)]"

definition to_apcommand :: "string \<Rightarrow> ap_command" where
  "to_apcommand s = (case map_of uCentralAPCommands (c_str s) of Some c \<Rightarrow> c | None \<Rightarrow> AP_unknown)"

section \<open>State\<close>

record command_info =
  ci_Id :: u64
  ci_SerialNumber :: u64
  ci_Command :: ap_command
  ci_UUID :: string
  ci_State :: u64
  ci_submitted :: int
  ci_rpc_entry :: "nat option"
  ci_Deferred :: bool

datatype command_effect =
    Cmd_Completed string jobject
  | Cmd_CancelWaitFile string string
  | Cmd_TimedOut string
  | Cmd_LastTry string
  | Cmd_Executed string

record manager =
  Outstanding :: "(u64, command_info) omap"
  ResponseQueue :: "(u64 \<times> jobject) list"
  RPC_Id :: u64
  promises :: "nat \<Rightarrow> jobject option"
  next_promise :: nat
  m_store :: storage
  m_server :: server
  commandTimeOut :: u64
  m_Running :: bool
  m_effects :: "command_effect list"

type_synonym 'a mgr = "(manager, 'a) op"

definition log_command :: "command_effect \<Rightarrow> unit mgr" where
  "log_command x m = (Inr (), m\<lparr> m_effects := m_effects m @ [x] \<rparr>)"

definition on_outstanding :: "((u64, command_info) omap \<Rightarrow> (u64, command_info) omap) \<Rightarrow> unit mgr" where
  "on_outstanding f m = (Inr (), m\<lparr> Outstanding := f (Outstanding m) \<rparr>)"

text \<open>\<^verbatim>\<open>std::promise::set_value\<close>.\<close>

definition set_value :: "nat option \<Rightarrow> jobject \<Rightarrow> unit mgr" where
  "set_value entry v m =
     (case entry of
        None \<Rightarrow> (Inr (), m)
      | Some p \<Rightarrow> if promises m p \<noteq> None then (Inl (Runtime_Error ''promise_already_satisfied''), m)
                  else (Inr (), m\<lparr> promises := (promises m)(p := Some v) \<rparr>))"

section \<open>Answers\<close>

definition PostCommandResult :: "string \<Rightarrow> jobject \<Rightarrow> unit mgr" where
  "PostCommandResult serial obj =
     andThen (lift_exn (SerialNumberToInt serial)) (\<lambda>n m. (Inr (), m\<lparr> ResponseQueue := ResponseQueue m @ [(n, obj)] \<rparr>))"

text \<open>The error code under \<^verbatim>\<open>status\<close> of a result.\<close>

definition error_code :: "poco \<Rightarrow> jobject \<Rightarrow> cpp_exn + u64" where
  "error_code p result = try_bind (deref (object_at result ''status'')) (\<lambda>status. p_u64 p (j_get status ''error''))"

text \<open>Where an answered request and its promise go.\<close>

definition finish_request :: "command_info \<Rightarrow> jobject \<Rightarrow> unit mgr" where
  "finish_request c payload =
     andThen (on_outstanding (om_erase (ci_Id c))) (\<lambda>_. set_value (ci_rpc_entry c) payload)"

definition CompleteTelemetryCommand :: "command_info \<Rightarrow> jobject \<Rightarrow> unit mgr" where
  "CompleteTelemetryCommand c payload =
     andThen (log_command (Cmd_Completed (ci_UUID c) payload)) (\<lambda>_. finish_request c payload)"

definition on_mstore :: "(storage \<Rightarrow> (cpp_exn + 'a) \<times> storage) \<Rightarrow> 'a mgr" where
  "on_mstore f m = (case f (m_store m) of (r, st) \<Rightarrow> (r, m\<lparr> m_store := st \<rparr>))"

text \<open>Error 2 is the device's refusal of the configuration; any other answer completes the change.\<close>

definition CompleteConfigureCommand :: "poco \<Rightarrow> codec \<Rightarrow> u64 \<Rightarrow> command_info \<Rightarrow> jobject \<Rightarrow> unit mgr" where
  "CompleteConfigureCommand p cd now c payload =
     andThen (log_command (Cmd_Completed (ci_UUID c) payload)) (\<lambda>_.
     andThen
       (if j_has payload ''result'' then
          andThen (lift_exn (deref (object_at payload ''result''))) (\<lambda>result.
          if j_has result ''status'' \<and> j_has result ''serial'' then
            andThen (lift_exn (p_string p (j_get result ''serial''))) (\<lambda>serial.
            andThen (lift_exn (error_code p result)) (\<lambda>err.
            andThen (on_mstore (if err = 2 then RollbackDeviceConfigurationChange cd now serial
                                else CompleteDeviceConfigurationChange p cd now serial)) (\<lambda>_. ret ())))
          else ret ())
        else ret ()) (\<lambda>_.
     finish_request c payload))"

definition set_state :: "command_info \<Rightarrow> u64 \<Rightarrow> unit mgr" where
  "set_state c s = on_outstanding (om_set (ci_Id c) (c\<lparr> ci_State := s \<rparr>))"

text \<open>
  A deferred script is answered twice: first that it has been started (state 2), which the caller waits
  for, then with its result (state 1). The result is the new state and whether the caller gets the answer.
\<close>

definition script_answer :: "poco \<Rightarrow> command_info \<Rightarrow> jobject \<Rightarrow> (u64 \<times> bool) mgr" where
  "script_answer p c payload =
     (if ci_State c = 2 then
        (if j_has payload ''result'' then
           andThen (lift_exn (deref (object_at payload ''result''))) (\<lambda>result.
           if j_has result ''status'' then
             andThen (lift_exn (error_code p result)) (\<lambda>err.
             andThen (log_command (Cmd_Completed (ci_UUID c) payload)) (\<lambda>_.
             if err = 0 then ret (1, True)
             else andThen (lift_exn (p_string p (j_get (j_getObject result ''status'') ''result''))) (\<lambda>txt.
                  andThen (log_command (Cmd_CancelWaitFile (ci_UUID c) txt)) (\<lambda>_. ret (0, True)))))
           else ret (2, True))
         else ret (0, True))
      else if ci_State c = 1 then
        andThen (log_command (Cmd_Completed (ci_UUID c) payload)) (\<lambda>_. ret (0, \<not> ci_Deferred c))
      else ret (ci_State c, True))"

definition CompleteScriptCommand :: "poco \<Rightarrow> command_info \<Rightarrow> jobject \<Rightarrow> unit mgr" where
  "CompleteScriptCommand p c payload =
     andThen (script_answer p c payload) (\<lambda>(s, reply).
     andThen (if s = 0 then on_outstanding (om_erase (ci_Id c)) else set_state c s) (\<lambda>_.
     if reply then set_value (ci_rpc_entry c) payload else ret ()))"

text \<open>One answer; identifiers 0 and 1 are nobody's.\<close>

definition handle_response :: "poco \<Rightarrow> codec \<Rightarrow> u64 \<Rightarrow> u64 \<Rightarrow> jobject \<Rightarrow> unit mgr" where
  "handle_response p cd now serial payload m =
     (if \<not> j_has payload ''id'' then (Inr (), m)
      else case p_u64 p (j_get payload ''id'') of
        Inl x \<Rightarrow> (Inl x, m)
      | Inr i \<Rightarrow>
          if i \<le> 1 then (Inr (), m)
          else case om_find (Outstanding m) i of
            None \<Rightarrow> (Inr (), m)
          | Some c \<Rightarrow>
              if ci_SerialNumber c \<noteq> serial then (Inr (), m)
              else if ci_Command c = AP_script then CompleteScriptCommand p c payload m
              else if ci_Command c = AP_telemetry then CompleteTelemetryCommand c payload m
              else if ci_Command c = AP_configure \<and> ci_rpc_entry c = None
              then CompleteConfigureCommand p cd now c payload m
              else andThen (log_command (Cmd_Completed (ci_UUID c) payload)) (\<lambda>_. finish_request (c\<lparr> ci_Id := i \<rparr>) payload) m)"

text \<open>The thread: exceptions are logged and the loop goes on.\<close>

definition process_response :: "poco \<Rightarrow> codec \<Rightarrow> u64 \<Rightarrow> u64 \<times> jobject \<Rightarrow> manager \<Rightarrow> manager" where
  "process_response p cd now r m = snd (handle_response p cd now (fst r) (snd r) m)"

definition mgr_run :: "poco \<Rightarrow> codec \<Rightarrow> u64 \<Rightarrow> manager \<Rightarrow> manager" where
  "mgr_run p cd now m =
     (if m_Running m
      then foldl (\<lambda>m r. process_response p cd now r m) (m\<lparr> ResponseQueue := [] \<rparr>) (ResponseQueue m) else m)"

section \<open>Requests\<close>

definition command_message :: "poco \<Rightarrow> u64 \<Rightarrow> string \<Rightarrow> jobject \<Rightarrow> string" where
  "command_message p i method params =
     p_stringify p
       (om_set ''params'' (JObj params)
         (om_set ''method'' (JStr method)
           (om_set ''id'' (JInt (uint i)) (om_set ''jsonrpc'' (JStr ''2.0'') []))))"

definition send_to_device :: "(handle \<Rightarrow> string \<Rightarrow> send_outcome) \<Rightarrow> u64 \<Rightarrow> string \<Rightarrow> bool mgr" where
  "send_to_device ws n text m =
     (case SendFrame ws n text (m_server m) of (b, s, _) \<Rightarrow> (Inr b, m\<lparr> m_server := s \<rparr>))"

text \<open>
  The request is entered before it is sent, because the answer may come before the sending returns, and
  taken out again when it could not be sent. The result says whether it was sent and names the promise.
\<close>

definition PostCommand ::
    "poco \<Rightarrow> (handle \<Rightarrow> string \<Rightarrow> send_outcome) \<Rightarrow> int \<Rightarrow> u64 \<Rightarrow> ap_command \<Rightarrow> string \<Rightarrow> string \<Rightarrow> jobject \<Rightarrow> string \<Rightarrow>
     bool \<Rightarrow> bool \<Rightarrow> bool \<Rightarrow> (bool \<times> nat option) mgr" where
  "PostCommand p ws now rpc_id cmd serial method params uuid oneway rpc deferred =
     andThen (lift_exn (SerialNumberToInt serial)) (\<lambda>n m.
       let entry = (if rpc then Some (next_promise m) else None);
           c = \<lparr> ci_Id = (if oneway then 1 else rpc_id), ci_SerialNumber = n, ci_Command = cmd, ci_UUID = uuid,
                 ci_State = (if cmd = AP_script \<and> deferred then 2 else 1), ci_submitted = now, ci_rpc_entry = entry,
                 ci_Deferred = deferred \<rparr>;
           m = (if rpc then m\<lparr> next_promise := next_promise m + 1 \<rparr> else m);
           m = (if oneway then m else m\<lparr> Outstanding := om_set rpc_id c (Outstanding m) \<rparr>)
       in andThen (send_to_device ws n (command_message p rpc_id method params)) (\<lambda>sent.
            if sent then ret (True, entry)
            else andThen (if oneway then ret () else on_outstanding (om_erase rpc_id)) (\<lambda>_. ret (False, None))) m)"

definition mgr_Next_RPC_ID :: "u64 mgr" where
  "mgr_Next_RPC_ID m = (Inr (RPC_Id m + 1), m\<lparr> RPC_Id := RPC_Id m + 1 \<rparr>)"

definition FireAndForget :: "poco \<Rightarrow> (handle \<Rightarrow> string \<Rightarrow> send_outcome) \<Rightarrow> string \<Rightarrow> string \<Rightarrow> jobject \<Rightarrow> bool mgr" where
  "FireAndForget p ws serial method params =
     andThen (lift_exn (SerialNumberToInt serial)) (\<lambda>n. send_to_device ws n (command_message p 0 method params))"

section \<open>The table of outstanding requests\<close>

definition RemovePendingCommand :: "u64 \<Rightarrow> manager \<Rightarrow> manager" where
  "RemovePendingCommand i m = m\<lparr> Outstanding := om_erase i (Outstanding m) \<rparr>"

definition CommandRunningForDevice :: "u64 \<Rightarrow> manager \<Rightarrow> (string \<times> ap_command) option" where
  "CommandRunningForDevice serial m =
     map_option (\<lambda>(_, c). (ci_UUID c, ci_Command c)) (find (\<lambda>(_, c). ci_SerialNumber c = serial) (Outstanding m))"

definition ClearQueue :: "u64 \<Rightarrow> manager \<Rightarrow> manager" where
  "ClearQueue serial m = m\<lparr> Outstanding := filter (\<lambda>(_, c). ci_SerialNumber c \<noteq> serial) (Outstanding m) \<rparr>"

definition RemoveCommand :: "string \<Rightarrow> manager \<Rightarrow> manager" where
  "RemoveCommand uuid m =
     (case find (\<lambda>(_, c). ci_UUID c = uuid) (Outstanding m) of
        None \<Rightarrow> m
      | Some (i, _) \<Rightarrow> m\<lparr> Outstanding := om_erase i (Outstanding m) \<rparr>)"

definition IsCommandRunning :: "string \<Rightarrow> manager \<Rightarrow> bool" where
  "IsCommandRunning uuid m \<longleftrightarrow> (\<exists>e\<in>set (Outstanding m). ci_UUID (snd e) = uuid)"

section \<open>The timers\<close>

definition timed_out :: "int \<Rightarrow> command_info \<Rightarrow> bool" where
  "timed_out now c \<longleftrightarrow> now - ci_submitted c > 10 * 60 * 1000"

definition timeout_effects :: "command_info \<Rightarrow> command_effect list" where
  "timeout_effects c =
     (if (ci_Command c = AP_script \<and> ci_Deferred c) \<or> ci_Command c = AP_trace
      then [Cmd_CancelWaitFile (ci_UUID c) ''No response.''] else []) @ [Cmd_TimedOut (ci_UUID c)]"

definition onJanitorTimer :: "int \<Rightarrow> manager \<Rightarrow> manager" where
  "onJanitorTimer now m =
     m\<lparr> Outstanding := filter (\<lambda>(_, c). \<not> timed_out now c) (Outstanding m),
        m_effects := m_effects m @ concat (map (\<lambda>(_, c). timeout_effects c) (filter (\<lambda>(_, c). timed_out now c) (Outstanding m))) \<rparr>"

record command_details =
  cd_UUID :: string
  cd_SerialNumber :: string
  cd_Command :: string
  cd_Details :: string
  cd_Submitted :: u64

text \<open>One command of the table; an exception marks it as executed.\<close>

definition try_command ::
    "poco \<Rightarrow> (handle \<Rightarrow> string \<Rightarrow> send_outcome) \<Rightarrow> int \<Rightarrow> u64 \<Rightarrow> command_details \<Rightarrow> unit mgr" where
  "try_command p ws now_ms now cmd m =
     (if IsCommandRunning (cd_UUID cmd) m then (Inr (), m)
      else if now - cd_Submitted cmd > commandTimeOut m then log_command (Cmd_TimedOut (cd_UUID cmd)) m
      else andThen (lift_exn (SerialNumberToInt (cd_SerialNumber cmd))) (\<lambda>n m.
        if \<not> Connected n (m_server m) then log_command (Cmd_LastTry (cd_UUID cmd)) m
        else if CommandRunningForDevice n m \<noteq> None then (Inr (), m)
        else
          andThen (lift_exn (parse_object p (cd_Details cmd))) (\<lambda>params.
          andThen mgr_Next_RPC_ID (\<lambda>i.
          andThen (PostCommand p ws now_ms i (to_apcommand (cd_Command cmd)) (cd_SerialNumber cmd) (cd_Command cmd)
                     params (cd_UUID cmd) False False False) (\<lambda>(sent, _).
          log_command (if sent then Cmd_Executed (cd_UUID cmd) else Cmd_LastTry (cd_UUID cmd))))) m) m)"

definition schedule_one ::
    "poco \<Rightarrow> (handle \<Rightarrow> string \<Rightarrow> send_outcome) \<Rightarrow> int \<Rightarrow> u64 \<Rightarrow> manager \<Rightarrow> command_details \<Rightarrow> manager" where
  "schedule_one p ws now_ms now m cmd =
     (if \<not> m_Running m then m
      else snd (recover (try_command p ws now_ms now cmd) (log_command (Cmd_Executed (cd_UUID cmd))) m))"

text \<open>The batches are what the storage answers to the successive queries; the first empty one or failure ends the run.\<close>

fun onCommandRunnerTimer ::
    "poco \<Rightarrow> (handle \<Rightarrow> string \<Rightarrow> send_outcome) \<Rightarrow> int \<Rightarrow> u64 \<Rightarrow> command_details list option list \<Rightarrow> manager \<Rightarrow> manager" where
  "onCommandRunnerTimer p ws now_ms now [] m = m"
| "onCommandRunnerTimer p ws now_ms now (None # _) m = m"
| "onCommandRunnerTimer p ws now_ms now (Some [] # _) m = m"
| "onCommandRunnerTimer p ws now_ms now (Some cmds # batches) m =
     onCommandRunnerTimer p ws now_ms now batches (foldl (schedule_one p ws now_ms now) m cmds)"

section \<open>Who can answer what\<close>

text \<open>Keys are the identifiers of the requests, and no two requests share a promise.\<close>

definition mgr_inv :: "manager \<Rightarrow> bool" where
  "mgr_inv m \<longleftrightarrow>
     om_wf (Outstanding m) \<and> (\<forall>k c. om_find (Outstanding m) k = Some c \<longrightarrow> ci_Id c = k) \<and>
     (\<forall>k c k' c' q. om_find (Outstanding m) k = Some c \<and> om_find (Outstanding m) k' = Some c' \<and>
        ci_rpc_entry c = Some q \<and> ci_rpc_entry c' = Some q \<longrightarrow> k = k') \<and>
     (\<forall>k c q. om_find (Outstanding m) k = Some c \<and> ci_rpc_entry c = Some q \<longrightarrow> q < next_promise m)"

lemma mgr_inv_frame [simp]:
  "mgr_inv (m\<lparr> ResponseQueue := rs \<rparr>) = mgr_inv m" "mgr_inv (m\<lparr> m_effects := es \<rparr>) = mgr_inv m"
  "mgr_inv (m\<lparr> m_server := s \<rparr>) = mgr_inv m" "mgr_inv (m\<lparr> RPC_Id := i \<rparr>) = mgr_inv m"
  unfolding mgr_inv_def by simp_all

text \<open>The entries as a function, and what an answer to the request \<open>c0\<close> may change of it.\<close>

definition answers :: "command_info \<Rightarrow> manager \<Rightarrow> manager \<Rightarrow> bool" where
  "answers c0 m m' \<longleftrightarrow>
     (om_wf (Outstanding m) \<longrightarrow> om_wf (Outstanding m') \<and>
        (\<forall>k. k \<noteq> ci_Id c0 \<longrightarrow> om_find (Outstanding m') k = om_find (Outstanding m) k) \<and>
        (om_find (Outstanding m') (ci_Id c0) = om_find (Outstanding m) (ci_Id c0) \<or>
         om_find (Outstanding m') (ci_Id c0) = None \<or>
         (\<exists>s. om_find (Outstanding m') (ci_Id c0) = Some (c0\<lparr> ci_State := s \<rparr>)))) \<and>
     (\<forall>q. ci_rpc_entry c0 \<noteq> Some q \<longrightarrow> promises m' q = promises m q) \<and>
     next_promise m' = next_promise m \<and> ResponseQueue m' = ResponseQueue m"

interpretation ans: state_order "answers c0" for c0
proof
  fix m m' m'' :: manager
  show "answers c0 m m" by (simp add: answers_def)
  show "answers c0 m m' \<Longrightarrow> answers c0 m' m'' \<Longrightarrow> answers c0 m m''" unfolding answers_def by (elim conjE) metis
qed

lemma answers_ops:
  "keeps (answers c0) (log_command x)" "keeps (answers c0) (on_mstore f)" "keeps (answers c0) (set_value (ci_rpc_entry c0) v)"
  "keeps (answers c0) (on_outstanding (om_erase (ci_Id c0)))" "keeps (answers c0) (set_state c0 s)"
  by (auto simp: keeps_def log_command_def on_mstore_def set_value_def on_outstanding_def set_state_def answers_def
      om.wf_drop om.wf_store om.lookup_drop om.lookup_store split: prod.split option.split)

lemmas answers_rules = ans.basic_rules answers_ops

lemma answers_completions:
  "keeps (answers c) (finish_request c v)" "keeps (answers c) (CompleteTelemetryCommand c v)"
  "keeps (answers c) (CompleteConfigureCommand p cd now c v)" "keeps (answers c) (script_answer p c v)"
  "keeps (answers c) (CompleteScriptCommand p c v)"
proof -
  show f: "keeps (answers c) (finish_request c v)"
    unfolding finish_request_def by (intro answers_rules)
  show "keeps (answers c) (CompleteTelemetryCommand c v)" "keeps (answers c) (CompleteConfigureCommand p cd now c v)"
    unfolding CompleteTelemetryCommand_def CompleteConfigureCommand_def by (intro answers_rules f)+
  show s: "keeps (answers c) (script_answer p c v)"
    unfolding script_answer_def by (intro answers_rules)
  show "keeps (answers c) (CompleteScriptCommand p c v)"
    unfolding CompleteScriptCommand_def by (intro answers_rules s)
qed

lemma same_id: "ci_Id c = i \<Longrightarrow> c\<lparr> ci_Id := i \<rparr> = c"
  by (cases c) simp

lemma handle_response_answers:
  assumes "mgr_inv m"
  shows "snd (handle_response p cd now serial v m) = m \<or>
         (\<exists>c. om_find (Outstanding m) (ci_Id c) = Some c \<and> ci_SerialNumber c = serial \<and>
              answers c m (snd (handle_response p cd now serial v m)))"
proof (cases "\<exists>i c. j_has v ''id'' \<and> p_u64 p (j_get v ''id'') = Inr i \<and> \<not> i \<le> 1 \<and>
    om_find (Outstanding m) i = Some c \<and> ci_SerialNumber c = serial")
  case True
  then obtain i c where ic: "j_has v ''id''" "p_u64 p (j_get v ''id'') = Inr i" "\<not> i \<le> 1"
    "om_find (Outstanding m) i = Some c" "ci_SerialNumber c = serial" by blast
  then have i: "ci_Id c = i" using assms by (simp add: mgr_inv_def)
  have plain: "keeps (answers c) (andThen (log_command x) (\<lambda>_. finish_request (c\<lparr> ci_Id := i \<rparr>) v))" for x
    unfolding same_id [OF i] by (intro answers_rules answers_completions)
  have "answers c m (snd (handle_response p cd now serial v m))"
    using ic keeps_step [OF plain] keeps_step [OF answers_completions(2)] keeps_step [OF answers_completions(3)]
      keeps_step [OF answers_completions(5)]
    by (simp add: handle_response_def)
  with ic i show ?thesis by blast
next
  case False
  then show ?thesis by (auto simp: handle_response_def split: sum.splits option.splits)
qed

text \<open>Every request left was there before, up to its state.\<close>

lemma answers_origin:
  assumes "answers c0 m m'" and "om_wf (Outstanding m)" and "om_find (Outstanding m) (ci_Id c0) = Some c0"
    and "om_find (Outstanding m') k = Some c"
  shows "\<exists>c1 s. om_find (Outstanding m) k = Some c1 \<and> c = c1\<lparr> ci_State := s \<rparr>"
proof (cases "k = ci_Id c0")
  case True
  have "\<exists>s. c0 = c0\<lparr> ci_State := s \<rparr>" by (rule exI [of _ "ci_State c0"]) (cases c0, simp)
  with assms True show ?thesis by (auto simp: answers_def)
next
  case False
  then have "om_find (Outstanding m) k = Some c" using assms(1,2,4) by (simp add: answers_def)
  moreover have "c = c\<lparr> ci_State := ci_State c \<rparr>" by (cases c) simp
  ultimately show ?thesis by blast
qed

lemma mgr_inv_answers:
  assumes inv: "mgr_inv m" and a: "answers c0 m m'" and c0: "om_find (Outstanding m) (ci_Id c0) = Some c0"
  shows "mgr_inv m'"
proof -
  have wf: "om_wf (Outstanding m)" using inv by (simp add: mgr_inv_def)
  have o: "\<exists>c1. om_find (Outstanding m) k = Some c1 \<and> ci_Id c = ci_Id c1 \<and> ci_rpc_entry c = ci_rpc_entry c1"
    if "om_find (Outstanding m') k = Some c" for k c
    using answers_origin [OF a wf c0 that] by auto
  have n: "next_promise m' = next_promise m" and wf': "om_wf (Outstanding m')" using a wf by (simp_all add: answers_def)
  show ?thesis
    unfolding mgr_inv_def n
  proof (intro conjI allI impI wf')
    fix k c assume "om_find (Outstanding m') k = Some c"
    with o inv show "ci_Id c = k" by (fastforce simp: mgr_inv_def)
  next
    fix k c k' c' q
    assume "om_find (Outstanding m') k = Some c \<and> om_find (Outstanding m') k' = Some c' \<and>
      ci_rpc_entry c = Some q \<and> ci_rpc_entry c' = Some q"
    with o [of k c] o [of k' c'] inv show "k = k'" unfolding mgr_inv_def by metis
  next
    fix k c q assume "om_find (Outstanding m') k = Some c \<and> ci_rpc_entry c = Some q"
    with o [of k c] inv show "q < next_promise m" unfolding mgr_inv_def by metis
  qed
qed

lemma process_response_other:
  assumes inv: "mgr_inv m" and k: "om_find (Outstanding m) k = Some c" and n: "fst r \<noteq> ci_SerialNumber c"
  shows "mgr_inv (process_response p cd now r m)"
    and "om_find (Outstanding (process_response p cd now r m)) k = Some c"
    and "ci_rpc_entry c = Some q \<Longrightarrow> promises (process_response p cd now r m) q = promises m q"
proof -
  let ?m' = "process_response p cd now r m"
  consider "?m' = m" | c0 where "om_find (Outstanding m) (ci_Id c0) = Some c0" "ci_SerialNumber c0 = fst r" "answers c0 m ?m'"
    using handle_response_answers [OF inv, of p cd now "fst r" "snd r"] by (auto simp: process_response_def)
  then have "mgr_inv ?m' \<and> om_find (Outstanding ?m') k = Some c \<and> (ci_rpc_entry c = Some q \<longrightarrow> promises ?m' q = promises m q)"
  proof cases
    case 2
    have kid: "k \<noteq> ci_Id c0" using 2(1,2) k n by auto
    have "ci_rpc_entry c = Some q \<Longrightarrow> ci_rpc_entry c0 \<noteq> Some q" using inv k 2(1) kid unfolding mgr_inv_def by metis
    moreover have "om_wf (Outstanding m)" using inv by (simp add: mgr_inv_def)
    ultimately show ?thesis using 2 k kid mgr_inv_answers [OF inv 2(3,1)] by (simp add: answers_def)
  qed (use inv k in simp)
  then show "mgr_inv ?m'" "om_find (Outstanding ?m') k = Some c" "ci_rpc_entry c = Some q \<Longrightarrow> promises ?m' q = promises m q"
    by simp_all
qed

text \<open>
  C6: however many answers other devices send, whatever they contain and whatever identifiers they claim, a
  request to a device stays outstanding as it is and the promise behind it is not touched: only the
  device a request was sent to can answer it.
\<close>

theorem answers_only_own_requests:
  assumes "mgr_inv m" and "om_find (Outstanding m) k = Some c"
    and "\<forall>r\<in>set (ResponseQueue m). fst r \<noteq> ci_SerialNumber c"
  shows "om_find (Outstanding (mgr_run p cd now m)) k = Some c \<and>
         (\<forall>q. ci_rpc_entry c = Some q \<longrightarrow> promises (mgr_run p cd now m) q = promises m q)"
proof -
  have "mgr_inv (foldl (\<lambda>m r. process_response p cd now r m) m rs) \<and>
        om_find (Outstanding (foldl (\<lambda>m r. process_response p cd now r m) m rs)) k = Some c \<and>
        (\<forall>q. ci_rpc_entry c = Some q \<longrightarrow> promises (foldl (\<lambda>m r. process_response p cd now r m) m rs) q = promises m q)"
    if "mgr_inv m" "om_find (Outstanding m) k = Some c" "\<forall>r\<in>set rs. fst r \<noteq> ci_SerialNumber c" for rs m
    using that
  proof (induction rs arbitrary: m)
    case (Cons r rs)
    have n: "fst r \<noteq> ci_SerialNumber c" using Cons.prems(3) by simp
    note 1 = process_response_other [OF Cons.prems(1,2) n, where p = p and cd = cd and now = now]
    from Cons.IH [OF 1(1,2)] Cons.prems(3) 1(3) show ?case by simp
  qed simp
  from this [of "m\<lparr> ResponseQueue := [] \<rparr>" "ResponseQueue m"] assms show ?thesis by (simp add: mgr_run_def)
qed

section \<open>What an answer does\<close>

text \<open>An answer to the request \<open>i\<close>, as the library reads it.\<close>

definition answer_to :: "poco \<Rightarrow> u64 \<Rightarrow> jobject \<Rightarrow> bool" where
  "answer_to p i payload \<longleftrightarrow> j_has payload ''id'' \<and> p_u64 p (j_get payload ''id'') = Inr i \<and> \<not> i \<le> 1"

text \<open>
  A deferred script is answered in two steps: the answer that it has been started goes to the caller
  and the request stays; the next one is recorded, removes the request and does not touch what the caller
  got, so that no promise is set twice.
\<close>

theorem deferred_script_protocol:
  assumes "mgr_inv m" and "om_find (Outstanding m) i = Some c" and "ci_Command c = AP_script" and "ci_State c = 2"
    and "ci_Deferred c" and "ci_rpc_entry c = Some q" and "promises m q = None"
    and "answer_to p i ack" and "answer_to p i final"
    and "object_at ack ''result'' = Some result" and "j_has ack ''result''" and "j_has result ''status''"
    and "error_code p result = Inr 0"
  shows "\<exists>m1. process_response p cd now (ci_SerialNumber c, ack) m = m1 \<and>
           promises m1 q = Some ack \<and> om_find (Outstanding m1) i = Some (c\<lparr> ci_State := 1 \<rparr>) \<and>
           promises (process_response p cd now (ci_SerialNumber c, final) m1) = promises m1 \<and>
           om_find (Outstanding (process_response p cd now (ci_SerialNumber c, final) m1)) i = None \<and>
           m_effects (process_response p cd now (ci_SerialNumber c, final) m1) =
             m_effects m @ [Cmd_Completed (ci_UUID c) ack, Cmd_Completed (ci_UUID c) final]"
proof -
  have wf: "om_wf (Outstanding m)" and i: "ci_Id c = i" using assms(1,2) by (simp_all add: mgr_inv_def)
  have p1: "process_response p cd now (ci_SerialNumber c, ack) m =
      m\<lparr> Outstanding := om_set i (c\<lparr> ci_State := 1 \<rparr>) (Outstanding m), promises := (promises m)(q := Some ack),
         m_effects := m_effects m @ [Cmd_Completed (ci_UUID c) ack] \<rparr>" (is "_ = ?m1")
    using assms(2-8,10-13) i
    by (simp add: process_response_def handle_response_def answer_to_def CompleteScriptCommand_def script_answer_def
        set_state_def on_outstanding_def log_command_def set_value_def andThen_def lift_exn_def ret_def deref_def
        del: not_None_eq)
  have f1: "om_find (Outstanding ?m1) i = Some (c\<lparr> ci_State := 1 \<rparr>)" using wf by (simp add: om.lookup_same)
  have p2: "process_response p cd now (ci_SerialNumber c, final) ?m1 =
      ?m1\<lparr> Outstanding := om_erase i (Outstanding ?m1), m_effects := m_effects ?m1 @ [Cmd_Completed (ci_UUID c) final] \<rparr>"
    using assms(3,5,9) i f1
    by (simp add: process_response_def handle_response_def answer_to_def CompleteScriptCommand_def script_answer_def
        on_outstanding_def log_command_def andThen_def ret_def del: not_None_eq)
  show ?thesis
    by (rule exI [of _ ?m1]) (use p1 p2 f1 wf in \<open>simp add: om.lookup_dropped om.wf_store\<close>)
qed

text \<open>
  The answer to a configuration command that nobody waits for decides the pending change of the device it
  names: error code 2 rolls it back, any other code completes it; the answer is recorded and the request
  is gone, whatever the storage says.
\<close>

theorem configure_answer_decides:
  assumes "mgr_inv m" and "om_find (Outstanding m) i = Some c" and "ci_Command c = AP_configure" and "ci_rpc_entry c = None"
    and "answer_to p i payload" and "object_at payload ''result'' = Some result" and "j_has payload ''result''"
    and "j_has result ''status''" and "j_has result ''serial''" and "p_string p (j_get result ''serial'') = Inr serial"
    and "error_code p result = Inr err"
    and "(if err = 2 then RollbackDeviceConfigurationChange cd now serial (m_store m)
          else CompleteDeviceConfigurationChange p cd now serial (m_store m)) = (Inr ok, st)"
  shows "process_response p cd now (ci_SerialNumber c, payload) m =
           m\<lparr> m_store := st, Outstanding := om_erase i (Outstanding m),
              m_effects := m_effects m @ [Cmd_Completed (ci_UUID c) payload] \<rparr>"
proof -
  have "ci_Id c = i" using assms(1,2) by (simp add: mgr_inv_def)
  with assms(2-12) show ?thesis
    by (cases "err = 2")
      (simp_all add: process_response_def handle_response_def answer_to_def CompleteConfigureCommand_def finish_request_def
        on_mstore_def on_outstanding_def log_command_def set_value_def andThen_def lift_exn_def ret_def deref_def)
qed

text \<open>
  An answer to a configuration command whose status is not an object raises in the middle of its
  handling: it is recorded, but the request stays outstanding and the pending change undecided, and the
  device counts as busy until the janitor drops the request.
\<close>

theorem configure_malformed_answer:
  assumes "mgr_inv m" and "om_find (Outstanding m) i = Some c" and "ci_Command c = AP_configure" and "ci_rpc_entry c = None"
    and "answer_to p i payload" and "object_at payload ''result'' = Some result" and "j_has payload ''result''"
    and "j_has result ''status''" and "object_at result ''status'' = None" and "j_has result ''serial''"
  shows "Outstanding (process_response p cd now (ci_SerialNumber c, payload) m) = Outstanding m \<and>
         m_store (process_response p cd now (ci_SerialNumber c, payload) m) = m_store m \<and>
         CommandRunningForDevice (ci_SerialNumber c) (process_response p cd now (ci_SerialNumber c, payload) m) \<noteq> None"
proof -
  have "(i, c) \<in> set (Outstanding m)" using assms(2) by (rule om_find_in_set)
  then have "find (\<lambda>(_, c'). ci_SerialNumber c' = ci_SerialNumber c) (Outstanding m) \<noteq> None"
    by (auto simp: find_None_iff)
  moreover have "process_response p cd now (ci_SerialNumber c, payload) m =
      m\<lparr> m_effects := m_effects m @ [Cmd_Completed (ci_UUID c) payload] \<rparr>"
    using assms(2-10)
    by (cases "p_string p (j_get result ''serial'')")
      (simp_all add: process_response_def handle_response_def answer_to_def CompleteConfigureCommand_def
        log_command_def andThen_def lift_exn_def deref_def error_code_def)
  ultimately show ?thesis by (simp add: CommandRunningForDevice_def del: not_None_eq)
qed

section \<open>Sending, dropping and scheduling\<close>

text \<open>
  A command that is sent is outstanding under its identifier for the device it names, one that could not
  be sent is not, and the other requests are as before.
\<close>

theorem PostCommand_outstanding:
  assumes "om_wf (Outstanding m)"
    and "PostCommand p ws now i cmd serial method params uuid False rpc deferred m = (Inr (sent, entry), m')"
  shows "(\<forall>k. k \<noteq> i \<longrightarrow> om_find (Outstanding m') k = om_find (Outstanding m) k) \<and>
         (if sent then \<exists>c n. om_find (Outstanding m') i = Some c \<and> SerialNumberToInt serial = Inr n \<and>
                             ci_SerialNumber c = n \<and> ci_Id c = i \<and> ci_UUID c = uuid \<and> ci_rpc_entry c = entry
          else om_find (Outstanding m') i = None \<and> entry = None)"
  using assms
  by (auto simp: PostCommand_def andThen_def lift_exn_def ret_def send_to_device_def on_outstanding_def Let_def
      om.lookup_store om.lookup_drop om.wf_store split: sum.splits prod.splits if_splits)

text \<open>
  The janitor drops exactly the requests older than ten minutes, and reports as timed out exactly the
  commands of those.
\<close>

theorem janitor_drops_old:
  assumes "om_wf (Outstanding m)"
  shows "(\<forall>k. om_find (Outstanding (onJanitorTimer now m)) k =
            (case om_find (Outstanding m) k of
               Some c \<Rightarrow> if now - ci_submitted c > 600000 then None else Some c | None \<Rightarrow> None)) \<and>
         (\<exists>es. m_effects (onJanitorTimer now m) = m_effects m @ es \<and>
            (\<forall>u. Cmd_TimedOut u \<in> set es \<longleftrightarrow>
               (\<exists>k c. om_find (Outstanding m) k = Some c \<and> now - ci_submitted c > 600000 \<and> ci_UUID c = u)))"
proof (rule conjI)
  show "\<forall>k. om_find (Outstanding (onJanitorTimer now m)) k =
            (case om_find (Outstanding m) k of
               Some c \<Rightarrow> if now - ci_submitted c > 600000 then None else Some c | None \<Rightarrow> None)"
    using om_find_filter [OF assms, of "\<lambda>(_, c). \<not> timed_out now c"]
    by (auto simp: onJanitorTimer_def timed_out_def split: option.split)
  let ?es = "concat (map (\<lambda>(_, c). timeout_effects c) (filter (\<lambda>(_, c). timed_out now c) (Outstanding m)))"
  have one: "Cmd_TimedOut u \<in> set (timeout_effects c) \<longleftrightarrow> ci_UUID c = u" for u c
    by (auto simp: timeout_effects_def)
  have "Cmd_TimedOut u \<in> set ?es \<longleftrightarrow> (\<exists>k c. (k, c) \<in> set (Outstanding m) \<and> timed_out now c \<and> ci_UUID c = u)" for u
    by (force simp: one)
  then show "\<exists>es. m_effects (onJanitorTimer now m) = m_effects m @ es \<and>
      (\<forall>u. Cmd_TimedOut u \<in> set es \<longleftrightarrow>
         (\<exists>k c. om_find (Outstanding m) k = Some c \<and> now - ci_submitted c > 600000 \<and> ci_UUID c = u))"
    using om_find_iff [OF assms] by (intro exI [of _ ?es]) (simp add: onJanitorTimer_def timed_out_def)
qed

text \<open>No device has two requests outstanding.\<close>

definition one_request_each :: "(u64, command_info) omap \<Rightarrow> bool" where
  "one_request_each requests \<longleftrightarrow> om_wf requests \<and>
     (\<forall>k c k' c'. om_find requests k = Some c \<and> om_find requests k' = Some c' \<and>
        ci_SerialNumber c = ci_SerialNumber c' \<longrightarrow> k = k')"

definition one_each :: "manager \<Rightarrow> bool" where
  "one_each m \<longleftrightarrow> one_request_each (Outstanding m)"

lemma one_each_set:
  assumes "one_each m" and "CommandRunningForDevice (ci_SerialNumber c) m = None"
  shows "one_each (m\<lparr> Outstanding := om_set i c (Outstanding m) \<rparr>)"
proof -
  have wf: "om_wf (Outstanding m)" using assms(1) by (simp add: one_each_def one_request_each_def)
  have "ci_SerialNumber c' \<noteq> ci_SerialNumber c" if "om_find (Outstanding m) k = Some c'" for k c'
    using assms(2) om_find_in_set [OF that] by (auto simp: CommandRunningForDevice_def find_None_iff)
  with assms(1) wf show ?thesis
    by (auto simp: one_each_def one_request_each_def om.lookup_store om.wf_store split: if_splits) metis+
qed

lemma one_each_erase: "one_each m \<Longrightarrow> one_each (m\<lparr> Outstanding := om_erase i (Outstanding m) \<rparr>)"
  by (auto simp: one_each_def one_request_each_def om.lookup_drop om.wf_drop split: if_splits)

lemma one_each_frame [simp]:
  "one_each (m\<lparr> m_effects := es \<rparr>) = one_each m" "one_each (m\<lparr> m_server := s \<rparr>) = one_each m"
  "one_each (m\<lparr> RPC_Id := i \<rparr>) = one_each m"
  by (simp_all add: one_each_def one_request_each_def)

lemma one_each_cong: "one_each m \<Longrightarrow> Outstanding m' = Outstanding m \<Longrightarrow> one_each m'"
  by (simp add: one_each_def)

lemma one_each_Post:
  assumes "one_each m" and "\<forall>n. SerialNumberToInt serial = Inr n \<longrightarrow> CommandRunningForDevice n m = None"
  shows "one_each (snd (PostCommand p ws now i cmd serial method params uuid False False deferred m))"
proof (cases "SerialNumberToInt serial")
  case (Inl x)
  with assms(1) show ?thesis by (simp add: PostCommand_def andThen_def lift_exn_def)
next
  case (Inr n)
  let ?c = "\<lparr> ci_Id = i, ci_SerialNumber = n, ci_Command = cmd, ci_UUID = uuid,
     ci_State = (if cmd = AP_script \<and> deferred then 2 else 1), ci_submitted = now, ci_rpc_entry = None, ci_Deferred = deferred \<rparr>"
  have o: "one_each (m\<lparr> Outstanding := om_set i ?c (Outstanding m) \<rparr>)"
    using assms Inr by (intro one_each_set) auto
  have set: "one_each (m\<lparr> Outstanding := om_set i ?c (Outstanding m), m_server := s \<rparr>)" for s
    by (rule one_each_cong [OF o]) simp
  have erase: "one_each (m\<lparr> m_server := s, Outstanding := om_erase i (om_set i ?c (Outstanding m)) \<rparr>)" for s
    by (rule one_each_cong [OF one_each_erase [OF o, of i]]) simp
  from Inr set erase show ?thesis
    by (auto simp: PostCommand_def andThen_def lift_exn_def ret_def send_to_device_def on_outstanding_def Let_def
        simp del: one_each_frame split: prod.split)
qed

lemma one_each_try:
  assumes "one_each m"
  shows "one_each (snd (try_command p ws now_ms now cmd m))"
proof -
  have post: "one_each (snd (PostCommand p ws now_ms i c (cd_SerialNumber cmd) s ps u False False False (m\<lparr> RPC_Id := j \<rparr>)))"
    if "SerialNumberToInt (cd_SerialNumber cmd) = Inr n" "CommandRunningForDevice n m = None" for n i c s ps u j
    using assms that by (intro one_each_Post) (simp_all add: CommandRunningForDevice_def)
  show ?thesis
    using assms post
    by (auto simp: try_command_def log_command_def andThen_def lift_exn_def mgr_Next_RPC_ID_def
        simp del: not_None_eq split: sum.split prod.split) (metis snd_conv)+
qed

text \<open>
  C7: a run of the scheduler over any number of batches never leaves a device with two requests outstanding
  when none had, whatever the batches hold, whichever sends fail and whichever commands raise.
\<close>

theorem scheduler_one_each:
  assumes "one_each m"
  shows "one_each (onCommandRunnerTimer p ws now_ms now batches m)"
proof -
  have one: "one_each (schedule_one p ws now_ms now m cmd)" if "one_each m" for m cmd
    using that one_each_try [OF that, of p ws now_ms now cmd]
    by (auto simp: schedule_one_def recover_def log_command_def split: prod.split sum.split)
  have batch: "one_each (foldl (schedule_one p ws now_ms now) m cmds)" if "one_each m" for m cmds
    using that by (induction cmds arbitrary: m) (simp_all add: one)
  show ?thesis
    using assms
  proof (induction batches arbitrary: m)
    case (Cons b bs)
    then show ?case by (cases b; cases "the b") (simp_all add: batch one)
  qed simp
qed

section \<open>Requests to evaluate the properties on\<close>

definition plain_request :: "ap_command \<Rightarrow> u64 \<Rightarrow> nat option \<Rightarrow> command_info" where
  "plain_request cmd st entry =
     \<lparr> ci_Id = 5, ci_SerialNumber = 0x24f5a207a131, ci_Command = cmd, ci_UUID = ''u'', ci_State = st, ci_submitted = 0,
       ci_rpc_entry = entry, ci_Deferred = True \<rparr>"

definition plain_manager :: "command_info \<Rightarrow> (u64 \<times> jobject) list \<Rightarrow> manager" where
  "plain_manager c rs =
     \<lparr> Outstanding = [(5, c)], ResponseQueue = rs, RPC_Id = 5, promises = (\<lambda>_. None), next_promise = 1,
       m_store = plain_storage, m_server = fresh_server, commandTimeOut = 60, m_Running = True, m_effects = [] \<rparr>"

definition plain_answer :: "json \<Rightarrow> jobject" where
  "plain_answer status =
     [(''id'', JInt 5), (''result'', JObj [(''serial'', JStr ''24f5a207a131''), (''status'', status)])]"

lemma plain_manager_inv: "ci_rpc_entry c = None \<or> ci_rpc_entry c = Some 0 \<Longrightarrow> ci_Id c = 5 \<Longrightarrow> mgr_inv (plain_manager c rs)"
  by (auto simp: mgr_inv_def plain_manager_def om_wf_def om_find_def split: if_splits)

lemma plain_answer_to: "answer_to plain_poco 5 (plain_answer s)"
  by (simp add: answer_to_def plain_answer_def plain_poco_def poco_of_def j_has_def j_get_def om_find_def word_le_nat_alt)

lemma plain_manager_find: "om_find (Outstanding (plain_manager c rs)) 5 = Some c" "promises (plain_manager c rs) q = None"
  by (simp_all add: plain_manager_def om_find_def)

lemma plain_answer_parts:
  "object_at (plain_answer s) ''result'' = Some [(''serial'', JStr ''24f5a207a131''), (''status'', s)]"
  "j_has (plain_answer s) ''result''"
  "j_has [(''serial'', JStr ''24f5a207a131''), (''status'', s)] ''status''"
  "j_has [(''serial'', JStr ''24f5a207a131''), (''status'', s)] ''serial''"
  by (simp_all add: object_at_def plain_answer_def j_has_def om_find_def)

theorem answers_only_own_requests_witness:
  "om_find (Outstanding (mgr_run plain_poco plain_codec 9
     (plain_manager (plain_request AP_reboot 1 (Some 0)) [(7, plain_answer JNull), (8, plain_answer JNull)]))) 5 =
   Some (plain_request AP_reboot 1 (Some 0))"
proof -
  let ?m = "plain_manager (plain_request AP_reboot 1 (Some 0)) [(7, plain_answer JNull), (8, plain_answer JNull)]"
  have "mgr_inv ?m" by (rule plain_manager_inv) (simp_all add: plain_request_def)
  moreover have "\<forall>r\<in>set (ResponseQueue ?m). fst r \<noteq> ci_SerialNumber (plain_request AP_reboot 1 (Some 0))"
    by (simp add: plain_manager_def plain_request_def)
  ultimately show ?thesis using answers_only_own_requests [OF _ plain_manager_find(1)] by blast
qed

theorem deferred_script_protocol_witness:
  "\<exists>m1. process_response plain_poco plain_codec 9 (0x24f5a207a131, plain_answer (JObj [(''error'', JInt 0)]))
           (plain_manager (plain_request AP_script 2 (Some 0)) []) = m1 \<and>
        promises m1 0 = Some (plain_answer (JObj [(''error'', JInt 0)])) \<and>
        om_find (Outstanding (process_response plain_poco plain_codec 9 (0x24f5a207a131, plain_answer JNull) m1)) 5 = None"
proof -
  let ?c = "plain_request AP_script 2 (Some 0)"
  have i: "mgr_inv (plain_manager ?c [])" by (rule plain_manager_inv) (simp_all add: plain_request_def)
  have e: "error_code plain_poco [(''serial'', JStr ''24f5a207a131''), (''status'', JObj [(''error'', JInt 0)])] = Inr 0"
    by (simp add: error_code_def object_at_def deref_def om_find_def j_get_def plain_poco_def poco_of_def)
  from deferred_script_protocol [OF i plain_manager_find(1) _ _ _ _ plain_manager_find(2) plain_answer_to
      plain_answer_to [of JNull] plain_answer_parts(1,2,3) e, where cd = plain_codec and now = 9 and q = 0]
  show ?thesis by (simp add: plain_request_def)
qed

theorem configure_answer_decides_witness:
  "\<exists>st. process_response plain_poco plain_codec 9 (0x24f5a207a131, plain_answer (JObj [(''error'', JInt 2)]))
           (plain_manager (plain_request AP_configure 1 None) []) =
         (plain_manager (plain_request AP_configure 1 None) [])
           \<lparr> m_store := st, Outstanding := [], m_effects := [Cmd_Completed ''u'' (plain_answer (JObj [(''error'', JInt 2)]))] \<rparr> \<and>
        RollbackDeviceConfigurationChange plain_codec 9 ''24f5a207a131'' plain_storage = (Inr True, st)"
proof -
  let ?c = "plain_request AP_configure 1 None"
  have i: "mgr_inv (plain_manager ?c [])" by (rule plain_manager_inv) (simp_all add: plain_request_def)
  have e: "error_code plain_poco [(''serial'', JStr ''24f5a207a131''), (''status'', JObj [(''error'', JInt 2)])] = Inr 2"
    by (simp add: error_code_def object_at_def deref_def om_find_def j_get_def plain_poco_def poco_of_def)
  have s: "p_string plain_poco (j_get [(''serial'', JStr ''24f5a207a131''), (''status'', JObj [(''error'', JInt 2)])] ''serial'') =
      Inr ''24f5a207a131''"
    by (simp add: j_get_def om_find_def plain_poco_def poco_of_def)
  obtain st where r: "RollbackDeviceConfigurationChange plain_codec 9 ''24f5a207a131'' plain_storage = (Inr True, st)"
    using plain_GetDevice plain_number
    by (auto simp: RollbackDeviceConfigurationChange_def set_config_id_def SetCurrentConfigurationID_def exec_update_def Let_def)
      (auto simp: plain_storage_def om_find_def)
  have "(if (2::u64) = 2 then RollbackDeviceConfigurationChange plain_codec 9 ''24f5a207a131'' (m_store (plain_manager ?c []))
         else CompleteDeviceConfigurationChange plain_poco plain_codec 9 ''24f5a207a131'' (m_store (plain_manager ?c []))) = (Inr True, st)"
    using r by (simp add: plain_manager_def)
  from configure_answer_decides [OF i plain_manager_find(1) _ _ plain_answer_to plain_answer_parts(1,2,3,4) s e this] r
  show ?thesis by (simp add: plain_request_def) (simp add: plain_manager_def om_erase_def)
qed

theorem configure_malformed_answer_witness:
  "CommandRunningForDevice 0x24f5a207a131 (process_response plain_poco plain_codec 9
     (0x24f5a207a131, plain_answer (JStr ''ok'')) (plain_manager (plain_request AP_configure 1 None) [])) \<noteq> None"
proof -
  let ?c = "plain_request AP_configure 1 None"
  have i: "mgr_inv (plain_manager ?c [])" by (rule plain_manager_inv) (simp_all add: plain_request_def)
  have n: "object_at [(''serial'', JStr ''24f5a207a131''), (''status'', JStr ''ok'')] ''status'' = None"
    by (simp add: object_at_def om_find_def)
  from configure_malformed_answer [OF i plain_manager_find(1) _ _ plain_answer_to plain_answer_parts(1,2,3) n plain_answer_parts(4),
      of plain_codec 9]
  show ?thesis by (simp add: plain_request_def del: not_None_eq)
qed

theorem PostCommand_outstanding_witness:
  "\<exists>m'. PostCommand plain_poco (\<lambda>_ _. Send_Failed) 0 9 AP_reboot ''24f5a207a131'' ''reboot'' [] ''v'' False False False
          (plain_manager (plain_request AP_configure 1 None) []) = (Inr (False, None), m') \<and>
        om_find (Outstanding m') 9 = None \<and> om_find (Outstanding m') 5 = Some (plain_request AP_configure 1 None)"
proof -
  let ?m = "plain_manager (plain_request AP_configure 1 None) []"
  have "device_conn n (m_server ?m) = None" for n
    by (simp add: plain_manager_def fresh_server_def device_conn_def sh_find_def)
  then obtain m' where m': "PostCommand plain_poco (\<lambda>_ _. Send_Failed) 0 9 AP_reboot ''24f5a207a131'' ''reboot'' [] ''v'' False False False
      ?m = (Inr (False, None), m')"
    using plain_number
    by (simp add: PostCommand_def andThen_def lift_exn_def ret_def send_to_device_def on_outstanding_def SendFrame_def Let_def)
  have "om_wf (Outstanding ?m)" by (simp add: plain_manager_def om_wf_def)
  from PostCommand_outstanding [OF this m'] m' plain_manager_find(1) show ?thesis by auto
qed

theorem janitor_drops_old_witness:
  "om_find (Outstanding (onJanitorTimer 600001 (plain_manager (plain_request AP_trace 1 None) []))) 5 = None"
proof -
  have "om_wf (Outstanding (plain_manager (plain_request AP_trace 1 None) []))" by (simp add: plain_manager_def om_wf_def)
  from janitor_drops_old [OF this, of 600001] plain_manager_find(1) [of "plain_request AP_trace 1 None" "[]"]
  show ?thesis by (simp add: plain_request_def)
qed

theorem scheduler_one_each_witness:
  "one_each (onCommandRunnerTimer plain_poco (\<lambda>_ _. Send_Failed) 0 0
     [Some [\<lparr> cd_UUID = ''v'', cd_SerialNumber = ''24f5a207a131'', cd_Command = ''reboot'', cd_Details = ''old'', cd_Submitted = 0 \<rparr>]]
     (plain_manager (plain_request AP_trace 1 None) []))"
  by (rule scheduler_one_each) (simp add: one_each_def one_request_each_def plain_manager_def om_wf_def om_find_def)

end
