(* ===== verification/GW_CommandTable.thy ===== *)
theory GW_CommandTable
  imports GW_Commands
begin

text \<open>
  The table of commands and the table of uploaded files (\<^verbatim>\<open>src/storage/storage_command.cpp\<close>), and what becomes
  of the calls the command manager makes on them. Rows are in the order of their insertion, which is also the order
  in which a query returns rows its \<^verbatim>\<open>ORDER BY\<close> does not tell apart. Columns are signed numbers of 64 bits: a
  parameter is stored and compared as one, while a number written into the text of a statement keeps its value.
  A failing database is a \<^verbatim>\<open>Poco::Exception\<close>, logged and turned into \<open>False\<close>.
\<close>

section \<open>Rows\<close>

datatype execution_type =
    COMMAND_PENDING | COMMAND_EXECUTED | COMMAND_COMPLETED | COMMAND_TIMEDOUT | COMMAND_FAILED | COMMAND_EXPIRED
  | COMMAND_EXECUTING

fun execution_text :: "execution_type \<Rightarrow> string" where
  "execution_text COMMAND_PENDING = ''pending''"
| "execution_text COMMAND_EXECUTED = ''executed''"
| "execution_text COMMAND_COMPLETED = ''completed''"
| "execution_text COMMAND_TIMEDOUT = ''timedout''"
| "execution_text COMMAND_FAILED = ''failed''"
| "execution_text COMMAND_EXPIRED = ''expired''"
| "execution_text COMMAND_EXECUTING = ''executing''"

text \<open>The execution time is a double that is only copied: its bits.\<close>

record command_row =
  cr_UUID :: string
  cr_SerialNumber :: string
  cr_Command :: string
  cr_Status :: string
  cr_SubmittedBy :: string
  cr_Results :: string
  cr_Details :: string
  cr_ErrorText :: string
  cr_Submitted :: u64
  cr_Executed :: u64
  cr_Completed :: u64
  cr_RunAt :: u64
  cr_ErrorCode :: u64
  cr_Custom :: u64
  cr_WaitingForFile :: u64
  cr_AttachDate :: u64
  cr_AttachSize :: u64
  cr_AttachType :: string
  cr_executionTime :: u64
  cr_lastTry :: u64
  cr_deferred :: bool

record file_row =
  fu_UUID :: string
  fu_Type :: string
  fu_Created :: u64
  fu_Content :: string

record command_db =
  CommandList :: "command_row list"
  FileUploads :: "file_row list"
  cdb_readable :: bool
  cdb_writable :: bool

text \<open>One statement that changes tables.\<close>

definition cdb_exec :: "(command_db \<Rightarrow> command_db) \<Rightarrow> command_db \<Rightarrow> bool \<times> command_db" where
  "cdb_exec f db = (if cdb_writable db then (True, f db) else (False, db))"

definition update_where :: "(command_row \<Rightarrow> bool) \<Rightarrow> (command_row \<Rightarrow> command_row) \<Rightarrow> command_db \<Rightarrow> command_db" where
  "update_where sel f db = db\<lparr> CommandList := map (\<lambda>r. if sel r then f r else r) (CommandList db) \<rparr>"

definition update_uuid :: "string \<Rightarrow> (command_row \<Rightarrow> command_row) \<Rightarrow> command_db \<Rightarrow> bool \<times> command_db" where
  "update_uuid uuid f = cdb_exec (update_where (\<lambda>r. cr_UUID r = uuid) f)"

text \<open>The selection of a device and of a span of dates, zero standing for an open end.\<close>

definition in_span :: "u64 \<Rightarrow> u64 \<Rightarrow> u64 \<Rightarrow> bool" where
  "in_span from til d \<longleftrightarrow> (from = 0 \<or> uint from \<le> sint d) \<and> (til = 0 \<or> sint d \<le> uint til)"

definition of_device :: "string \<Rightarrow> string \<Rightarrow> bool" where
  "of_device serial s \<longleftrightarrow> serial = [] \<or> s = serial"

text \<open>\<^verbatim>\<open>ORDER BY d ASC\<close> and \<^verbatim>\<open>DESC\<close>, and \<^verbatim>\<open>ComputeRange\<close>.\<close>

definition order_asc :: "('r \<Rightarrow> u64) \<Rightarrow> 'r list \<Rightarrow> 'r list" where
  "order_asc d rs = sort_key (\<lambda>r. sint (d r)) rs"

definition order_desc :: "('r \<Rightarrow> u64) \<Rightarrow> 'r list \<Rightarrow> 'r list" where
  "order_desc d rs = sort_key (\<lambda>r. - sint (d r)) rs"

definition ComputeRange :: "nat \<Rightarrow> nat \<Rightarrow> 'r list \<Rightarrow> 'r list" where
  "ComputeRange from howmany rs = take howmany (drop from rs)"

section \<open>Adding, finding and deleting commands\<close>

definition RemoveOldCommands :: "string \<Rightarrow> string \<Rightarrow> command_db \<Rightarrow> bool \<times> command_db" where
  "RemoveOldCommands serial cmd =
     cdb_exec (\<lambda>db. db\<lparr> CommandList :=
       filter (\<lambda>r. \<not> (cr_SerialNumber r = serial \<and> cr_Command r = cmd \<and> cr_Completed r = 0)) (CommandList db) \<rparr>)"

text \<open>What adding a command writes into the caller's object.\<close>

definition stamp_command :: "u64 \<Rightarrow> execution_type \<Rightarrow> command_row \<Rightarrow> command_row" where
  "stamp_command now ty c =
     (let c = c\<lparr> cr_Status := execution_text ty \<rparr>;
          c = (if ty \<in> {COMMAND_COMPLETED, COMMAND_TIMEDOUT, COMMAND_FAILED, COMMAND_EXPIRED, COMMAND_EXECUTED}
               then c\<lparr> cr_Executed := now \<rparr> else c)
      in if ty \<in> {COMMAND_COMPLETED, COMMAND_TIMEDOUT, COMMAND_FAILED, COMMAND_EXPIRED}
         then c\<lparr> cr_Completed := now \<rparr> else c)"

text \<open>The identifier is the primary key; old commands are gone even when the insertion then fails.\<close>

definition AddCommand :: "u64 \<Rightarrow> string \<Rightarrow> command_row \<Rightarrow> execution_type \<Rightarrow> command_db \<Rightarrow> bool \<times> command_db" where
  "AddCommand now serial c ty db =
     (let c = stamp_command now ty c; db = snd (RemoveOldCommands serial (cr_Command c) db) in
      if cr_UUID c \<in> cr_UUID ` set (CommandList db) then (False, db)
      else cdb_exec (\<lambda>db. db\<lparr> CommandList := CommandList db @ [c] \<rparr>) db)"

definition GetCommands :: "string \<Rightarrow> u64 \<Rightarrow> u64 \<Rightarrow> nat \<Rightarrow> nat \<Rightarrow> command_db \<Rightarrow> command_row list option" where
  "GetCommands serial from til offset howmany db =
     (if cdb_readable db then
        Some (ComputeRange offset howmany (order_asc cr_Submitted
          (filter (\<lambda>r. of_device serial (cr_SerialNumber r) \<and> in_span from til (cr_Submitted r)) (CommandList db))))
      else None)"

definition DeleteCommands :: "string \<Rightarrow> u64 \<Rightarrow> u64 \<Rightarrow> command_db \<Rightarrow> bool \<times> command_db" where
  "DeleteCommands serial from til =
     cdb_exec (\<lambda>db. db\<lparr> CommandList :=
       filter (\<lambda>r. \<not> (of_device serial (cr_SerialNumber r) \<and> in_span from til (cr_Submitted r))) (CommandList db) \<rparr>)"

text \<open>The statement has its \<^verbatim>\<open>WHERE\<close> behind its \<^verbatim>\<open>ORDER BY\<close>: no database takes it.\<close>

definition GetNonExecutedCommands :: "nat \<Rightarrow> command_row list \<Rightarrow> bool \<times> command_row list" where
  "GetNonExecutedCommands howmany cmds = (\<not> length cmds < howmany, cmds)"

text \<open>A query that finds no row leaves the tuple it fills as it was made, and answers success.\<close>

definition blank_command :: command_row where
  "blank_command =
     \<lparr> cr_UUID = [], cr_SerialNumber = [], cr_Command = [], cr_Status = [], cr_SubmittedBy = [], cr_Results = [],
       cr_Details = [], cr_ErrorText = [], cr_Submitted = 0, cr_Executed = 0, cr_Completed = 0, cr_RunAt = 0,
       cr_ErrorCode = 0, cr_Custom = 0, cr_WaitingForFile = 0, cr_AttachDate = 0, cr_AttachSize = 0, cr_AttachType = [],
       cr_executionTime = 0, cr_lastTry = 0, cr_deferred = False \<rparr>"

definition find_command :: "string \<Rightarrow> command_db \<Rightarrow> command_row option" where
  "find_command uuid db = find (\<lambda>r. cr_UUID r = uuid) (CommandList db)"

definition GetCommand :: "string \<Rightarrow> command_db \<Rightarrow> command_row option" where
  "GetCommand uuid db =
     (if cdb_readable db then Some (case find_command uuid db of Some r \<Rightarrow> r | None \<Rightarrow> blank_command) else None)"

definition DeleteCommand :: "string \<Rightarrow> command_db \<Rightarrow> bool \<times> command_db" where
  "DeleteCommand uuid =
     cdb_exec (\<lambda>db. db\<lparr> CommandList := filter (\<lambda>r. cr_UUID r \<noteq> uuid) (CommandList db),
                        FileUploads := filter (\<lambda>f. fu_UUID f \<noteq> uuid) (FileUploads db) \<rparr>)"

definition GetNewestCommands :: "string \<Rightarrow> nat \<Rightarrow> command_db \<Rightarrow> command_row list option" where
  "GetNewestCommands serial howmany db =
     (if cdb_readable db then
        Some (ComputeRange 0 howmany (order_desc cr_Submitted (filter (\<lambda>r. cr_SerialNumber r = serial) (CommandList db))))
      else None)"

definition RemoveCommandListRecordsOlderThan :: "u64 \<Rightarrow> command_db \<Rightarrow> bool \<times> command_db" where
  "RemoveCommandListRecordsOlderThan date =
     cdb_exec (\<lambda>db. db\<lparr> CommandList := filter (\<lambda>r. \<not> sint (cr_Submitted r) < sint date) (CommandList db) \<rparr>)"

section \<open>The life of a command\<close>

definition UpdateCommand :: "string \<Rightarrow> command_row \<Rightarrow> command_db \<Rightarrow> bool \<times> command_db" where
  "UpdateCommand uuid c =
     update_uuid uuid (\<lambda>r. r\<lparr> cr_Status := cr_Status c, cr_Executed := cr_Executed c, cr_Completed := cr_Completed c,
       cr_Results := cr_Results c, cr_ErrorText := cr_ErrorText c, cr_ErrorCode := cr_ErrorCode c \<rparr>)"

definition SetCommandExecuted :: "u64 \<Rightarrow> string \<Rightarrow> command_db \<Rightarrow> bool \<times> command_db" where
  "SetCommandExecuted now uuid =
     update_uuid uuid (\<lambda>r. r\<lparr> cr_Executed := now, cr_Status := execution_text COMMAND_EXECUTED \<rparr>)"

definition RemovedExpiredCommands :: "u64 \<Rightarrow> u64 \<Rightarrow> command_db \<Rightarrow> command_db" where
  "RemovedExpiredCommands now timeout db =
     snd (cdb_exec (update_where (\<lambda>r. sint (cr_Submitted r) < sint (now - timeout) \<and> cr_Executed r = 0)
            (\<lambda>r. r\<lparr> cr_Executed := now, cr_Status := execution_text COMMAND_EXPIRED \<rparr>)) db)"

definition SetCommandLastTry :: "u64 \<Rightarrow> string \<Rightarrow> command_db \<Rightarrow> bool \<times> command_db" where
  "SetCommandLastTry now uuid = update_uuid uuid (\<lambda>r. r\<lparr> cr_lastTry := now \<rparr>)"

definition RemoveTimedOutCommands :: "u64 \<Rightarrow> u64 \<Rightarrow> command_db \<Rightarrow> command_db" where
  "RemoveTimedOutCommands now timeout db =
     snd (cdb_exec (update_where (\<lambda>r. sint (cr_Submitted r) < sint (now - timeout) \<and> cr_Completed r = 0)
            (\<lambda>r. r\<lparr> cr_Executed := now, cr_Status := ''timedout'' \<rparr>)) db)"

definition SetCommandTimedOut :: "u64 \<Rightarrow> string \<Rightarrow> command_db \<Rightarrow> bool \<times> command_db" where
  "SetCommandTimedOut now uuid =
     update_uuid uuid (\<lambda>r. r\<lparr> cr_Executed := now, cr_Status := execution_text COMMAND_TIMEDOUT \<rparr>)"

definition CommandExecuted :: "u64 \<Rightarrow> string \<Rightarrow> command_db \<Rightarrow> bool \<times> command_db" where
  "CommandExecuted now uuid = update_uuid uuid (\<lambda>r. r\<lparr> cr_Executed := now \<rparr>)"

definition SetCommandResult :: "u64 \<Rightarrow> string \<Rightarrow> string \<Rightarrow> command_db \<Rightarrow> bool \<times> command_db" where
  "SetCommandResult now uuid result =
     update_uuid uuid (\<lambda>r. r\<lparr> cr_Completed := now, cr_Results := result, cr_Status := execution_text COMMAND_COMPLETED \<rparr>)"

text \<open>
  The answer of the device: error code, error text and the result as a text. An answer of another form
  raises, and then the command stays as it is.
\<close>

definition answer_outcome :: "poco \<Rightarrow> jobject \<Rightarrow> cpp_exn + u64 \<times> string \<times> string" where
  "answer_outcome p vars =
     (if \<not> j_has vars ''result'' then Inr (0, [], [])
      else try_bind (extract_object (j_get vars ''result'')) (\<lambda>result.
        if \<not> j_has result ''status'' then Inr (0, [], [])
        else try_bind (extract_object (j_get result ''status'')) (\<lambda>status.
          try_bind (if j_has status ''error'' then p_u64 p (j_get status ''error'') else Inr 0) (\<lambda>code.
          try_bind (if j_has status ''text'' then p_string p (j_get status ''text'') else Inr []) (\<lambda>text.
          Inr (code, text, p_stringify p result))))))"

definition CommandCompleted ::
    "poco \<Rightarrow> u64 \<Rightarrow> string \<Rightarrow> jobject \<Rightarrow> u64 \<Rightarrow> bool \<Rightarrow> command_db \<Rightarrow> (cpp_exn + bool) \<times> command_db" where
  "CommandCompleted p now uuid vars et full db =
     (case answer_outcome p vars of
        Inl e \<Rightarrow> (if poco_exn e then Inr False else Inl e, db)
      | Inr (code, text, results) \<Rightarrow>
          map_prod Inr id (update_uuid uuid (\<lambda>r. r\<lparr> cr_Completed := (if full then now else 0), cr_ErrorCode := code,
            cr_ErrorText := text, cr_Results := results, cr_Status := execution_text COMMAND_COMPLETED,
            cr_executionTime := et \<rparr>) db))"

text \<open>Commands that are due: not executed, not tried again too soon; of those, the ones whose device is connected.\<close>

definition ready :: "u64 \<Rightarrow> u64 \<Rightarrow> command_row \<Rightarrow> bool" where
  "ready now retry r \<longleftrightarrow>
     sint (cr_RunAt r) \<le> sint now \<and> cr_Executed r = 0 \<and> (cr_lastTry r = 0 \<or> uint now - sint (cr_lastTry r) > uint retry)"

fun keep_connected :: "(u64 \<Rightarrow> bool) \<Rightarrow> command_row list \<Rightarrow> cpp_exn + command_row list" where
  "keep_connected connected [] = Inr []"
| "keep_connected connected (r # rs) =
     try_bind (SerialNumberToInt (cr_SerialNumber r)) (\<lambda>n.
     map_sum id (\<lambda>kept. if connected n then r # kept else kept) (keep_connected connected rs))"

definition ready_rows :: "u64 \<Rightarrow> u64 \<Rightarrow> command_db \<Rightarrow> command_row list" where
  "ready_rows now retry db = order_asc cr_Submitted (filter (ready now retry) (CommandList db))"

definition GetReadyToExecuteCommands ::
    "u64 \<Rightarrow> u64 \<Rightarrow> (u64 \<Rightarrow> bool) \<Rightarrow> nat \<Rightarrow> nat \<Rightarrow> command_db \<Rightarrow> cpp_exn + command_row list option" where
  "GetReadyToExecuteCommands now retry connected offset howmany db =
     (if \<not> cdb_readable db then Inr None
      else map_sum id Some (keep_connected connected (ComputeRange offset howmany (ready_rows now retry db))))"

section \<open>Uploaded files\<close>

definition CancelWaitFile :: "u64 \<Rightarrow> string \<Rightarrow> string \<Rightarrow> command_db \<Rightarrow> bool \<times> command_db" where
  "CancelWaitFile now uuid error_text =
     update_uuid uuid (\<lambda>r. r\<lparr> cr_WaitingForFile := 0, cr_AttachDate := now, cr_AttachSize := 0,
       cr_ErrorText := error_text, cr_Completed := now \<rparr>)"

definition AttachFileDataToCommand ::
    "u64 \<Rightarrow> nat \<Rightarrow> string \<Rightarrow> string \<Rightarrow> string \<Rightarrow> command_db \<Rightarrow> bool \<times> command_db" where
  "AttachFileDataToCommand now maxsize uuid content ty db =
     (if length content < maxsize \<and> uuid \<in> fu_UUID ` set (FileUploads db) then (False, db)
      else cdb_exec (\<lambda>db.
        let db = (if length content < maxsize
                  then db\<lparr> FileUploads := FileUploads db @ [\<lparr> fu_UUID = uuid, fu_Type = ty, fu_Created = now, fu_Content = content \<rparr>] \<rparr>
                  else db)
        in update_where (\<lambda>r. cr_UUID r = uuid)
             (\<lambda>r. r\<lparr> cr_WaitingForFile := 0, cr_AttachDate := now, cr_AttachSize := of_nat (length content) \<rparr>) db) db)"

text \<open>The content, its type and whether a file is awaited; an unknown command has the empty serial number.\<close>

definition GetAttachedFileContent :: "string \<Rightarrow> string \<Rightarrow> command_db \<Rightarrow> (string \<times> string \<times> u64 option) option" where
  "GetAttachedFileContent uuid serial db =
     (if \<not> cdb_readable db then None
      else
        let row = find_command uuid db in
        if (case row of Some r \<Rightarrow> cr_SerialNumber r | None \<Rightarrow> []) \<noteq> serial then None
        else
          let waiting = map_option cr_WaitingForFile row in
          case find (\<lambda>f. fu_UUID f = uuid) (FileUploads db) of
            Some f \<Rightarrow> Some (fu_Content f, fu_Type f, waiting)
          | None \<Rightarrow> Some ([], [], waiting))"

definition RemoveAttachedFile :: "string \<Rightarrow> command_db \<Rightarrow> bool \<times> command_db" where
  "RemoveAttachedFile uuid = cdb_exec (\<lambda>db. db\<lparr> FileUploads := filter (\<lambda>f. fu_UUID f \<noteq> uuid) (FileUploads db) \<rparr>)"

definition RemoveUploadedFilesRecordsOlderThan :: "u64 \<Rightarrow> command_db \<Rightarrow> bool \<times> command_db" where
  "RemoveUploadedFilesRecordsOlderThan date =
     cdb_exec (\<lambda>db. db\<lparr> FileUploads := filter (\<lambda>f. \<not> sint (fu_Created f) < sint date) (FileUploads db) \<rparr>)"

section \<open>Counting\<close>

definition UpdateCountedMap :: "u64 \<Rightarrow> string \<Rightarrow> (string, u64) omap \<Rightarrow> (string, u64) omap" where
  "UpdateCountedMap increment s m =
     (case om_find m s of None \<Rightarrow> om_set s increment m | Some n \<Rightarrow> om_set s (n + increment) m)"

definition AnalyzeCommands :: "(string, u64) omap \<Rightarrow> command_db \<Rightarrow> (string, u64) omap option" where
  "AnalyzeCommands m db =
     (if cdb_readable db then
        Some (foldl (\<lambda>m r. if cr_Command r \<noteq> [] then UpdateCountedMap 1 (cr_Command r) m else m) m (CommandList db))
      else None)"

end
