(* ===== verification/GW_Tables.thy ===== *)
theory GW_Tables
  imports GW_CommandTable "HOL-Library.Multiset"
begin

text \<open>
  The tables of dated records: statistics, device logs and health checks (\<^verbatim>\<open>src/storage/storage_statistics.cpp\<close>,
  \<^verbatim>\<open>storage_logs.cpp\<close>, \<^verbatim>\<open>storage_healthcheck.cpp\<close>), and the archiver that drops what is old
  (\<^verbatim>\<open>src/StorageArchiver.cpp\<close>). The locale \<open>dated_table\<close> is what the three have in common.
\<close>

section \<open>A table of dated records\<close>

record 'r table =
  rows :: "'r list"
  t_readable :: bool
  t_writable :: bool

definition t_change :: "('r list \<Rightarrow> 'r list) \<Rightarrow> 'r table \<Rightarrow> bool \<times> 'r table" where
  "t_change f t = (if t_writable t then (True, t\<lparr> rows := f (rows t) \<rparr>) else (False, t))"

definition t_query :: "('r list \<Rightarrow> 'a) \<Rightarrow> 'r table \<Rightarrow> 'a option" where
  "t_query f t = (if t_readable t then Some (f (rows t)) else None)"

section \<open>Statistics\<close>

record statistics =
  st_SerialNumber :: string
  st_UUID :: u64
  st_Data :: string
  st_Recorded :: u64

definition of_stats :: "string \<Rightarrow> u64 \<Rightarrow> u64 \<Rightarrow> statistics \<Rightarrow> bool" where
  "of_stats serial from til r \<longleftrightarrow> of_device serial (st_SerialNumber r) \<and> in_span from til (st_Recorded r)"

definition AddStatisticsData :: "statistics \<Rightarrow> statistics table \<Rightarrow> bool \<times> statistics table" where
  "AddStatisticsData s = t_change (\<lambda>rs. rs @ [s])"

definition GetNumberOfStatisticsDataRecords :: "string \<Rightarrow> u64 \<Rightarrow> u64 \<Rightarrow> statistics table \<Rightarrow> nat option" where
  "GetNumberOfStatisticsDataRecords serial from til = t_query (\<lambda>rs. length (filter (of_stats serial from til) rs))"

definition GetStatisticsData :: "string \<Rightarrow> u64 \<Rightarrow> u64 \<Rightarrow> nat \<Rightarrow> nat \<Rightarrow> statistics table \<Rightarrow> statistics list option" where
  "GetStatisticsData serial from til offset howmany =
     t_query (\<lambda>rs. ComputeRange offset howmany (order_asc st_Recorded (filter (of_stats serial from til) rs)))"

definition GetNewestStatisticsData :: "string \<Rightarrow> nat \<Rightarrow> statistics table \<Rightarrow> statistics list option" where
  "GetNewestStatisticsData serial howmany =
     t_query (\<lambda>rs. ComputeRange 0 howmany (order_desc st_Recorded (filter (\<lambda>r. st_SerialNumber r = serial) rs)))"

definition DeleteStatisticsData :: "string \<Rightarrow> u64 \<Rightarrow> u64 \<Rightarrow> statistics table \<Rightarrow> bool \<times> statistics table" where
  "DeleteStatisticsData serial from til = t_change (filter (\<lambda>r. \<not> of_stats serial from til r))"

definition RemoveStatisticsRecordsOlderThan :: "u64 \<Rightarrow> statistics table \<Rightarrow> bool \<times> statistics table" where
  "RemoveStatisticsRecordsOlderThan date = t_change (filter (\<lambda>r. \<not> sint (st_Recorded r) < sint date))"

section \<open>Device logs\<close>

text \<open>A log has a type, which every selection names.\<close>

definition of_logs :: "string \<Rightarrow> u64 \<Rightarrow> u64 \<Rightarrow> u64 \<Rightarrow> device_log \<Rightarrow> bool" where
  "of_logs serial from til ty r \<longleftrightarrow>
     of_device serial (dl_SerialNumber r) \<and> in_span from til (dl_Recorded r) \<and> dl_LogType r = ty"

definition AddLog :: "device_log \<Rightarrow> device_log table \<Rightarrow> bool \<times> device_log table" where
  "AddLog l = t_change (\<lambda>rs. rs @ [l])"

definition GetLogData :: "string \<Rightarrow> u64 \<Rightarrow> u64 \<Rightarrow> nat \<Rightarrow> nat \<Rightarrow> u64 \<Rightarrow> device_log table \<Rightarrow> device_log list option" where
  "GetLogData serial from til offset howmany ty =
     t_query (\<lambda>rs. ComputeRange offset howmany (order_desc dl_Recorded (filter (of_logs serial from til ty) rs)))"

definition DeleteLogData :: "string \<Rightarrow> u64 \<Rightarrow> u64 \<Rightarrow> u64 \<Rightarrow> device_log table \<Rightarrow> bool \<times> device_log table" where
  "DeleteLogData serial from til ty = t_change (filter (\<lambda>r. \<not> of_logs serial from til ty r))"

definition GetNewestLogData :: "string \<Rightarrow> nat \<Rightarrow> u64 \<Rightarrow> device_log table \<Rightarrow> device_log list option" where
  "GetNewestLogData serial howmany ty =
     t_query (\<lambda>rs. ComputeRange 0 howmany (order_desc dl_Recorded
       (filter (\<lambda>r. dl_SerialNumber r = serial \<and> dl_LogType r = ty) rs)))"

definition RemoveDeviceLogsRecordsOlderThan :: "u64 \<Rightarrow> device_log table \<Rightarrow> bool \<times> device_log table" where
  "RemoveDeviceLogsRecordsOlderThan date = t_change (filter (\<lambda>r. \<not> sint (dl_Recorded r) < sint date))"

section \<open>Health checks\<close>

definition of_checks :: "string \<Rightarrow> u64 \<Rightarrow> u64 \<Rightarrow> health_check \<Rightarrow> bool" where
  "of_checks serial from til r \<longleftrightarrow> of_device serial (h_SerialNumber r) \<and> in_span from til (h_Recorded r)"

definition AddHealthCheckData :: "health_check \<Rightarrow> health_check table \<Rightarrow> bool \<times> health_check table" where
  "AddHealthCheckData h = t_change (\<lambda>rs. rs @ [h])"

definition GetHealthCheckData :: "string \<Rightarrow> u64 \<Rightarrow> u64 \<Rightarrow> nat \<Rightarrow> nat \<Rightarrow> health_check table \<Rightarrow> health_check list option" where
  "GetHealthCheckData serial from til offset howmany =
     t_query (\<lambda>rs. ComputeRange offset howmany (order_asc h_Recorded (filter (of_checks serial from til) rs)))"

definition GetNewestHealthCheckData :: "string \<Rightarrow> nat \<Rightarrow> health_check table \<Rightarrow> health_check list option" where
  "GetNewestHealthCheckData serial howmany =
     t_query (\<lambda>rs. ComputeRange 0 howmany (order_desc h_Recorded (filter (\<lambda>r. h_SerialNumber r = serial) rs)))"

definition DeleteHealthCheckData :: "string \<Rightarrow> u64 \<Rightarrow> u64 \<Rightarrow> health_check table \<Rightarrow> bool \<times> health_check table" where
  "DeleteHealthCheckData serial from til = t_change (filter (\<lambda>r. \<not> of_checks serial from til r))"

definition RemoveHealthChecksRecordsOlderThan :: "u64 \<Rightarrow> health_check table \<Rightarrow> bool \<times> health_check table" where
  "RemoveHealthChecksRecordsOlderThan date = t_change (filter (\<lambda>r. \<not> sint (h_Recorded r) < sint date))"

section \<open>The archiver\<close>

record archive_tables =
  a_health :: "health_check table"
  a_stats :: "statistics table"
  a_logs :: "device_log table"
  a_commands :: command_db

definition AllInternalDBNames :: "string list" where
  "AllInternalDBNames = [''healthchecks'', ''statistics'', ''devicelogs'', ''commandlist'', ''fileuploads'']"

definition AddDb :: "string \<Rightarrow> u64 \<Rightarrow> (string, u64) omap \<Rightarrow> (string, u64) omap" where
  "AddDb name retain dbs = om_set name retain dbs"

definition fresh_archiver :: "(string, u64) omap" where
  "fresh_archiver = foldl (\<lambda>dbs db. om_set db 7 dbs) [] AllInternalDBNames"

text \<open>The settings are the twenty pairs of a name and a number of days; \<open>icompare\<close> compares without case.\<close>

definition configure_archiver :: "(string \<Rightarrow> string \<Rightarrow> bool) \<Rightarrow> (string \<times> int) list \<Rightarrow> (string, u64) omap" where
  "configure_archiver icompare settings =
     foldl (\<lambda>dbs (name, keep).
       if name \<noteq> []
       then foldl (\<lambda>dbs db. if icompare name db then AddDb db (word_of_int keep) dbs else dbs) dbs AllInternalDBNames
       else dbs) fresh_archiver (take 20 settings)"

definition cutoff :: "u64 \<Rightarrow> u64 \<Rightarrow> u64" where
  "cutoff now keep = now - keep * 24 * 60 * 60"

definition archive_one :: "u64 \<Rightarrow> archive_tables \<Rightarrow> string \<times> u64 \<Rightarrow> archive_tables" where
  "archive_one now t db =
     (case db of (name, keep) \<Rightarrow>
        if name = ''healthchecks''
        then t\<lparr> a_health := snd (RemoveHealthChecksRecordsOlderThan (cutoff now keep) (a_health t)) \<rparr>
        else if name = ''statistics''
        then t\<lparr> a_stats := snd (RemoveStatisticsRecordsOlderThan (cutoff now keep) (a_stats t)) \<rparr>
        else if name = ''devicelogs''
        then t\<lparr> a_logs := snd (RemoveDeviceLogsRecordsOlderThan (cutoff now keep) (a_logs t)) \<rparr>
        else if name = ''commandlist''
        then t\<lparr> a_commands := snd (RemoveCommandListRecordsOlderThan (cutoff now keep) (a_commands t)) \<rparr>
        else if name = ''fileuploads''
        then t\<lparr> a_commands := snd (RemoveUploadedFilesRecordsOlderThan (cutoff now keep) (a_commands t)) \<rparr>
        else t)"

definition archiver_onTimer :: "u64 \<Rightarrow> (string, u64) omap \<Rightarrow> archive_tables \<Rightarrow> archive_tables" where
  "archiver_onTimer now dbs t = foldl (archive_one now) t dbs"

text \<open>
  The time of the first run: \<open>h\<close>, \<open>mi\<close>, \<open>s\<close> is the time of the day, \<open>H\<close> and \<open>M\<close> the schedule, the clock not being
  put forward or back that day. A schedule that is no time of the day is an exception of the library.
\<close>

definition CalculateDelta :: "nat \<Rightarrow> nat \<Rightarrow> nat \<Rightarrow> nat \<Rightarrow> nat \<Rightarrow> cpp_exn + nat" where
  "CalculateDelta h mi s H M =
     (if \<not> (H < 24 \<and> M < 60) then Inl (Poco_Exception ''InvalidArgumentException'')
      else
        let dt = h * 3600 + mi * 60 + s; scheduled = H * 3600 + M * 60 in
        if h < H \<or> (h = H \<and> mi < M) then Inr (scheduled - dt) else Inr (24 * 60 * 60 - (dt - scheduled)))"

definition archiver_schedule :: "(string \<Rightarrow> string list) \<Rightarrow> (string \<Rightarrow> nat) \<Rightarrow> string \<Rightarrow> nat \<times> nat" where
  "archiver_schedule tokens strtoull schedule =
     (case tokens schedule of [h, m] \<Rightarrow> (strtoull h, strtoull m) | _ \<Rightarrow> (3, 0))"

section \<open>What the tables have in common\<close>

locale dated_table =
  fixes add :: "'r \<Rightarrow> 'r table \<Rightarrow> bool \<times> 'r table"
    and select :: "'q \<Rightarrow> nat \<Rightarrow> nat \<Rightarrow> 'r table \<Rightarrow> 'r list option"
    and purge :: "'q \<Rightarrow> 'r table \<Rightarrow> bool \<times> 'r table"
    and drop_older :: "u64 \<Rightarrow> 'r table \<Rightarrow> bool \<times> 'r table"
    and matches :: "'q \<Rightarrow> 'r \<Rightarrow> bool"
    and stamp :: "'r \<Rightarrow> u64"
    and arrange :: "'r list \<Rightarrow> 'r list"
  assumes add_law: "t_writable t \<Longrightarrow> add r t = (True, t\<lparr> rows := rows t @ [r] \<rparr>)"
    and select_law: "t_readable t \<Longrightarrow> select q i n t = Some (take n (drop i (arrange (filter (matches q) (rows t)))))"
    and purge_law: "t_writable t \<Longrightarrow> purge q t = (True, t\<lparr> rows := filter (\<lambda>r. \<not> matches q r) (rows t) \<rparr>)"
    and older_law: "t_writable t \<Longrightarrow> drop_older d t = (True, t\<lparr> rows := filter (\<lambda>r. \<not> sint (stamp r) < sint d) (rows t) \<rparr>)"
    and arrange_law: "mset (arrange rs) = mset rs"
begin

lemma page_list:
  assumes "t_readable t"
  shows "concat (map (\<lambda>i. the (select q (i * n) n t)) [0..<k]) = take (k * n) (arrange (filter (matches q) (rows t)))"
proof (induction k)
  case (Suc k)
  then show ?case
    using assms take_add [of "k * n" n "arrange (filter (matches q) (rows t))"] by (simp add: select_law add.commute)
qed simp

lemma pages_complete:
  assumes "t_readable t" and "length (filter (matches q) (rows t)) \<le> k * n"
  shows "mset (concat (map (\<lambda>i. the (select q (i * n) n t)) [0..<k])) = mset (filter (matches q) (rows t))"
proof -
  have "length (arrange (filter (matches q) (rows t))) \<le> k * n"
    using assms(2) arrange_law [THEN mset_eq_length] by metis
  then show ?thesis by (simp add: page_list [OF assms(1)] arrange_law)
qed

lemma selected_matches: "t_readable t \<Longrightarrow> select q i n t = Some rs \<Longrightarrow> r \<in> set rs \<Longrightarrow> r \<in> set (rows t) \<and> matches q r"
  using arrange_law [THEN mset_eq_setD, of "filter (matches q) (rows t)"]
  by (auto simp: select_law dest!: in_set_takeD in_set_dropD)

lemma purged_empty:
  assumes "t_readable t" and "t_writable t"
  shows "select q i n (snd (purge q t)) = Some []"
proof -
  have "arrange [] = []" using arrange_law [of "[]"] by simp
  moreover have "filter (matches q) (filter (\<lambda>r. \<not> matches q r) (rows t)) = []" by (simp add: filter_empty_conv)
  ultimately show ?thesis using assms by (simp add: purge_law select_law)
qed

end

lemma order_laws: "mset (order_asc d rs) = mset rs" "mset (order_desc d rs) = mset rs"
  by (simp_all add: order_asc_def order_desc_def)

interpretation stats: dated_table AddStatisticsData "\<lambda>(serial, from, til). GetStatisticsData serial from til"
  "\<lambda>(serial, from, til). DeleteStatisticsData serial from til" RemoveStatisticsRecordsOlderThan
  "\<lambda>(serial, from, til). of_stats serial from til" st_Recorded "order_asc st_Recorded"
  by unfold_locales (auto simp: AddStatisticsData_def GetStatisticsData_def DeleteStatisticsData_def
      RemoveStatisticsRecordsOlderThan_def t_change_def t_query_def ComputeRange_def order_laws)

interpretation logs: dated_table AddLog "\<lambda>(serial, from, til, ty) i n. GetLogData serial from til i n ty"
  "\<lambda>(serial, from, til, ty). DeleteLogData serial from til ty" RemoveDeviceLogsRecordsOlderThan
  "\<lambda>(serial, from, til, ty). of_logs serial from til ty" dl_Recorded "order_desc dl_Recorded"
  by unfold_locales (auto simp: AddLog_def GetLogData_def DeleteLogData_def RemoveDeviceLogsRecordsOlderThan_def
      t_change_def t_query_def ComputeRange_def order_laws)

interpretation checks: dated_table AddHealthCheckData "\<lambda>(serial, from, til). GetHealthCheckData serial from til"
  "\<lambda>(serial, from, til). DeleteHealthCheckData serial from til" RemoveHealthChecksRecordsOlderThan
  "\<lambda>(serial, from, til). of_checks serial from til" h_Recorded "order_asc h_Recorded"
  by unfold_locales (auto simp: AddHealthCheckData_def GetHealthCheckData_def DeleteHealthCheckData_def
      RemoveHealthChecksRecordsOlderThan_def t_change_def t_query_def ComputeRange_def order_laws)

text \<open>
  Reading the logs of a device page by page gives each selected log once, and no other, whatever the size of the
  pages, when enough of them are read; deleting the selection leaves every page of it empty.
\<close>

theorem log_pages:
  assumes "t_readable t" and "length (filter (of_logs serial from til ty) (rows t)) \<le> k * n"
  shows "mset (concat (map (\<lambda>i. the (GetLogData serial from til (i * n) n ty t)) [0..<k])) =
           mset (filter (of_logs serial from til ty) (rows t)) \<and>
         (t_writable t \<longrightarrow> GetLogData serial from til i n ty (snd (DeleteLogData serial from til ty t)) = Some [])"
  using logs.pages_complete [of t "(serial, from, til, ty)" k n] logs.purged_empty [of t "(serial, from, til, ty)" i n] assms
  by simp

text \<open>
  A run of the archiver with its default settings, in a database that takes changes, drops from each of the five
  tables the records older than seven days and keeps every other.
\<close>

theorem archiver_week:
  assumes "t_writable (a_health t)" and "t_writable (a_stats t)" and "t_writable (a_logs t)" and "cdb_writable (a_commands t)"
    and "week = now - 604800" and "t' = archiver_onTimer now fresh_archiver t"
  shows "rows (a_health t') = filter (\<lambda>r. sint week \<le> sint (h_Recorded r)) (rows (a_health t)) \<and>
         rows (a_stats t') = filter (\<lambda>r. sint week \<le> sint (st_Recorded r)) (rows (a_stats t)) \<and>
         rows (a_logs t') = filter (\<lambda>r. sint week \<le> sint (dl_Recorded r)) (rows (a_logs t)) \<and>
         CommandList (a_commands t') = filter (\<lambda>r. sint week \<le> sint (cr_Submitted r)) (CommandList (a_commands t)) \<and>
         FileUploads (a_commands t') = filter (\<lambda>f. sint week \<le> sint (fu_Created f)) (FileUploads (a_commands t))"
proof -
  have dbs: "fresh_archiver = [(''commandlist'', 7), (''devicelogs'', 7), (''fileuploads'', 7), (''healthchecks'', 7), (''statistics'', 7)]"
    by (simp add: fresh_archiver_def AllInternalDBNames_def)
  have c: "cutoff now 7 = week" by (simp add: cutoff_def assms(5))
  show ?thesis
    using assms(1-4)
    by (simp add: assms(6) archiver_onTimer_def dbs archive_one_def c RemoveCommandListRecordsOlderThan_def cdb_exec_def
        RemoveUploadedFilesRecordsOlderThan_def stats.older_law logs.older_law checks.older_law not_less)
qed

text \<open>
  The archiver first runs after at least a second and at most a day, and then the clock shows its schedule.
\<close>

theorem archiver_first_run:
  assumes "h < 24" and "mi < 60" and "s < 60" and "CalculateDelta h mi s H M = Inr d"
  shows "0 < d \<and> d \<le> 86400 \<and> (h * 3600 + mi * 60 + s + d) mod 86400 = H * 3600 + M * 60"
proof -
  have HM: "H < 24" "M < 60" using assms(4) by (auto simp: CalculateDelta_def split: if_splits)
  show ?thesis
  proof (cases "h < H \<or> (h = H \<and> mi < M)")
    case True
    then have "h * 3600 + mi * 60 + s < H * 3600 + M * 60" using assms(1-3) HM by auto
    with True assms(4) HM show ?thesis by (auto simp: CalculateDelta_def Let_def)
  next
    case False
    then have le: "H * 3600 + M * 60 \<le> h * 3600 + mi * 60 + s" using assms(1-3) HM by auto
    have d: "d = 86400 - (h * 3600 + mi * 60 + s - (H * 3600 + M * 60))"
      using False assms(4) HM by (auto simp: CalculateDelta_def Let_def split: if_splits)
    with le assms(1-3) have "h * 3600 + mi * 60 + s + d = H * 3600 + M * 60 + 86400" "0 < d" "d \<le> 86400" by auto
    with HM show ?thesis by (simp add: mod_if)
  qed
qed

section \<open>Tables to evaluate the properties on\<close>

definition log_at :: "u64 \<Rightarrow> device_log" where
  "log_at d =
     \<lparr> dl_SerialNumber = ''24f5a207a131'', dl_Log = [], dl_Data = [], dl_Severity = 0, dl_Recorded = d, dl_LogType = 1, dl_UUID = 0 \<rparr>"

definition table_of :: "'r list \<Rightarrow> 'r table" where
  "table_of rs = \<lparr> rows = rs, t_readable = True, t_writable = True \<rparr>"

theorem log_pages_witness:
  "mset (concat (map (\<lambda>i. the (GetLogData [] 5 0 (i * 2) 2 1 (table_of [log_at 3, log_at 9, log_at 5, log_at 7]))) [0..<2])) =
   {#log_at 9, log_at 5, log_at 7#}"
proof -
  have "filter (of_logs [] 5 0 1) [log_at 3, log_at 9, log_at 5, log_at 7] = [log_at 9, log_at 5, log_at 7]"
    by (simp add: of_logs_def of_device_def in_span_def log_at_def)
  with log_pages [of "table_of [log_at 3, log_at 9, log_at 5, log_at 7]" "[]" 5 0 1 2 2 0] show ?thesis
    by (simp add: table_of_def)
qed

theorem archiver_week_witness:
  "rows (a_logs (archiver_onTimer 700000 fresh_archiver
     \<lparr> a_health = table_of [], a_stats = table_of [], a_logs = table_of [log_at 1000, log_at 99000],
       a_commands = \<lparr> CommandList = [], FileUploads = [], cdb_readable = True, cdb_writable = True \<rparr> \<rparr>)) = [log_at 99000]"
  using archiver_week [of "\<lparr> a_health = table_of [], a_stats = table_of [], a_logs = table_of [log_at 1000, log_at 99000],
       a_commands = \<lparr> CommandList = [], FileUploads = [], cdb_readable = True, cdb_writable = True \<rparr> \<rparr>" 95200 700000, OF _ _ _ _ _ refl]
  by (simp add: table_of_def log_at_def)

theorem archiver_first_run_witness: "\<exists>d. CalculateDelta 22 30 5 3 0 = Inr d \<and> d \<le> 86400 \<and> (81005 + d) mod 86400 = 10800"
proof -
  have d: "CalculateDelta 22 30 5 3 0 = Inr 16195" by (simp add: CalculateDelta_def)
  from archiver_first_run [OF _ _ _ d] d show ?thesis by auto
qed

end
