(* ===== verification/GW_CommandObjects.thy ===== *)
theory GW_CommandObjects
  imports GW_RadiusConfig GW_Tables
begin

text \<open>
  The objects of the commands given to a device and of what is answered about one
  (\<^verbatim>\<open>src/RESTObjects/RESTAPI_GWobjects.cpp\<close>): their JSON form and their readers. A number of the type \<^verbatim>\<open>double\<close> is
  printed by the parameter \<open>real\<close>. A member that a structure does not initialise has the value that is given as
  \<open>garbage\<close>.
\<close>

section \<open>What is answered\<close>

text \<open>A text that must be an object, an empty one standing for the empty object.\<close>

definition EmbedDocument :: "poco \<Rightarrow> string \<Rightarrow> string \<Rightarrow> jobject \<Rightarrow> cpp_exn + jobject" where
  "EmbedDocument p name text obj =
     map_sum id (\<lambda>d. sub_to_json name d obj) (parse_object p (if text = [] then ''{}'' else text))"

definition writes :: "(jobject \<Rightarrow> jobject) list \<Rightarrow> jobject \<Rightarrow> jobject" where
  "writes fs obj = foldl (\<lambda>o' f. f o') obj fs"

definition Statistics_to_json :: "poco \<Rightarrow> statistics \<Rightarrow> cpp_exn + jobject" where
  "Statistics_to_json p s =
     map_sum id (writes [u64_to_json ''UUID'' (st_UUID s), u64_to_json ''recorded'' (st_Recorded s)])
       (EmbedDocument p ''data'' (st_Data s) [])"

definition Capabilities_to_json :: "poco \<Rightarrow> string \<times> u64 \<times> u64 \<Rightarrow> cpp_exn + jobject" where
  "Capabilities_to_json p caps =
     (case caps of (text, first, last_) \<Rightarrow>
        map_sum id (writes [u64_to_json ''firstUpdate'' first, u64_to_json ''lastUpdate'' last_])
          (EmbedDocument p ''capabilities'' text []))"

definition DeviceLog_to_json :: "poco \<Rightarrow> device_log \<Rightarrow> cpp_exn + jobject" where
  "DeviceLog_to_json p l =
     map_sum id (writes [str_to_json ''log'' (dl_Log l), u64_to_json ''severity'' (dl_Severity l),
                         u64_to_json ''recorded'' (dl_Recorded l), u64_to_json ''logType'' (dl_LogType l),
                         u64_to_json ''UUID'' (dl_UUID l)])
       (EmbedDocument p ''data'' (dl_Data l) [])"

definition HealthCheck_to_json :: "poco \<Rightarrow> health_check \<Rightarrow> cpp_exn + jobject" where
  "HealthCheck_to_json p h =
     map_sum id (writes [u64_to_json ''UUID'' (h_UUID h), u64_to_json ''sanity'' (h_Sanity h),
                         u64_to_json ''recorded'' (h_Recorded h)])
       (EmbedDocument p ''values'' (h_Data h) [])"

definition CommandDetails_to_json :: "poco \<Rightarrow> (u64 \<Rightarrow> string) \<Rightarrow> command_row \<Rightarrow> cpp_exn + jobject" where
  "CommandDetails_to_json p real c =
     try_bind (EmbedDocument p ''details'' (cr_Details c) []) (\<lambda>obj.
     map_sum id
       (writes
          [str_to_json ''UUID'' (cr_UUID c), str_to_json ''serialNumber'' (cr_SerialNumber c),
           str_to_json ''command'' (cr_Command c), str_to_json ''errorText'' (cr_ErrorText c),
           str_to_json ''submittedBy'' (cr_SubmittedBy c), str_to_json ''status'' (cr_Status c),
           u64_to_json ''submitted'' (cr_Submitted c), u64_to_json ''executed'' (cr_Executed c),
           u64_to_json ''completed'' (cr_Completed c), u64_to_json ''when'' (cr_RunAt c),
           u64_to_json ''errorCode'' (cr_ErrorCode c), u64_to_json ''custom'' (cr_Custom c),
           u64_to_json ''waitingForFile'' (cr_WaitingForFile c), u64_to_json ''attachFile'' (cr_AttachDate c),
           obj_set ''executionTime'' (JReal (real (cr_executionTime c))), u64_to_json ''lastTry'' (cr_lastTry c),
           bool_to_json ''deferred'' (cr_deferred c)])
       (EmbedDocument p ''results'' (cr_Results c) obj))"

fun certificate_text :: "certificate_validation \<Rightarrow> string" where
  "certificate_text NO_CERTIFICATE = ''NO_CERTIFICATE''"
| "certificate_text VALID_CERTIFICATE = ''VALID_CERTIFICATE''"
| "certificate_text MISMATCH_SERIAL = ''MISMATCH_SERIAL''"
| "certificate_text VERIFIED = ''VERIFIED''"
| "certificate_text SIMULATED = ''SIMULATED''"

text \<open>The state of a connection, with the number of the RADIUS sessions of its device.\<close>

definition ConnectionState_to_json :: "u64 \<Rightarrow> u64 \<Rightarrow> conn_state \<Rightarrow> jobject \<Rightarrow> jobject" where
  "ConnectionState_to_json now radius s =
     writes
       [str_to_json ''ipAddress'' (s_Address s), u64_to_json ''txBytes'' (s_TX s), u64_to_json ''rxBytes'' (s_RX s),
        u64_to_json ''messageCount'' (MessageCount s), u64_to_json ''UUID'' (s_UUID s),
        bool_to_json ''connected'' (s_Connected s), str_to_json ''firmware'' (s_Firmware s),
        u64_to_json ''lastContact'' (s_LastContact s), u64_to_json ''associations_2G'' (Associations_2G s),
        u64_to_json ''associations_5G'' (Associations_5G s), u64_to_json ''associations_6G'' (Associations_6G s),
        u64_to_json ''webSocketClients'' (webSocketClients s), u64_to_json ''websocketPackets'' (websocketPackets s),
        u64_to_json ''kafkaClients'' (kafkaClients s), u64_to_json ''kafkaPackets'' (kafkaPackets s),
        str_to_json ''locale'' (s_locale s), u64_to_json ''started'' (started s), u64_to_json ''sessionId'' (sessionId s),
        obj_set ''connectionCompletionTime'' (JReal (connectionCompletionTime s)),
        u64_to_json ''totalConnectionTime'' (now - started s),
        u64_to_json ''certificateExpiryDate'' (s_certificateExpiryDate s),
        str_to_json ''certificateIssuerName'' (certificateIssuerName s), str_to_json ''connectReason'' (s_connectReason s),
        u64_to_json ''uptime'' (uptime s), str_to_json ''compatible'' (s_Compatible s),
        u64_to_json ''hasRADIUSSessions'' radius, bool_to_json ''hasGPS'' (s_hasGPS s), u64_to_json ''sanity'' (sanity s),
        obj_set ''memoryUsed'' (JReal (memoryUsed s)), obj_set ''load'' (JReal (s_load s)),
        obj_set ''temperature'' (JReal (s_temperature s)),
        str_to_json ''verifiedCertificate'' (certificate_text (VerifiedCertificate s))]"

text \<open>A session of a remote terminal.\<close>

record rtty_session =
  rtty_SerialNumber :: string
  rtty_Server :: string
  rtty_Port :: u64
  rtty_Token :: string
  rtty_TimeOut :: u64
  rtty_ConnectionId :: string
  rtty_Started :: u64
  rtty_CommandUUID :: string
  rtty_ViewPort :: u64
  rtty_DevicePassword :: string

definition RttySessionDetails_to_json :: "rtty_session \<Rightarrow> jobject" where
  "RttySessionDetails_to_json r =
     writes
       [str_to_json ''serialNumber'' (rtty_SerialNumber r), str_to_json ''server'' (rtty_Server r),
        u64_to_json ''port'' (rtty_Port r), str_to_json ''token'' (rtty_Token r), u64_to_json ''timeout'' (rtty_TimeOut r),
        str_to_json ''connectionId'' (rtty_ConnectionId r), str_to_json ''commandUUID'' (rtty_CommandUUID r),
        u64_to_json ''started'' (rtty_Started r), u64_to_json ''viewport'' (rtty_ViewPort r),
        str_to_json ''password'' (rtty_DevicePassword r)] []"

section \<open>What is asked for\<close>

record script_request =
  sr_serialNumber :: string
  sr_timeout :: u64
  sr_type :: string
  sr_script :: string
  sr_scriptId :: string
  sr_when :: u64
  sr_signature :: string
  sr_deferred :: bool
  sr_uri :: string

definition new_script_request :: "u64 \<Rightarrow> bool \<Rightarrow> script_request" where
  "new_script_request garbage garbage_flag =
     \<lparr> sr_serialNumber = [], sr_timeout = 30, sr_type = [], sr_script = [], sr_scriptId = [], sr_when = garbage,
       sr_signature = [], sr_deferred = garbage_flag, sr_uri = [] \<rparr>"

definition ScriptRequest_from_json :: "poco \<Rightarrow> jobject \<Rightarrow> script_request \<Rightarrow> bool \<times> script_request" where
  "ScriptRequest_from_json p obj =
     read_fields
       [str_from_json p obj ''serialNumber'' (\<lambda>v s. s\<lparr> sr_serialNumber := v \<rparr>),
        u64_from_json p obj ''timeout'' (\<lambda>v s. s\<lparr> sr_timeout := v \<rparr>),
        str_from_json p obj ''type'' (\<lambda>v s. s\<lparr> sr_type := v \<rparr>),
        str_from_json p obj ''script'' (\<lambda>v s. s\<lparr> sr_script := v \<rparr>),
        str_from_json p obj ''scriptId'' (\<lambda>v s. s\<lparr> sr_scriptId := v \<rparr>),
        u64_from_json p obj ''when'' (\<lambda>v s. s\<lparr> sr_when := v \<rparr>),
        str_from_json p obj ''signature'' (\<lambda>v s. s\<lparr> sr_signature := v \<rparr>),
        bool_from_json p obj ''deferred'' (\<lambda>v s. s\<lparr> sr_deferred := v \<rparr>),
        str_from_json p obj ''uri'' (\<lambda>v s. s\<lparr> sr_uri := v \<rparr>)]"

text \<open>A stored script.\<close>

record script_entry =
  se_id :: string
  se_name :: string
  se_description :: string
  se_uri :: string
  se_content :: string
  se_version :: string
  se_type :: string
  se_created :: u64
  se_modified :: u64
  se_author :: string
  se_restricted :: "string list"
  se_deferred :: bool
  se_timeout :: u64
  se_defaultUploadURI :: string

text \<open>
  The other requests are read only to see that they can be; of what is read only the time of a power cycle, of a
  cable diagnosis and of an enrolment is used, and it is not initialised.
\<close>

definition DeviceTransferRequest_readable :: "poco \<Rightarrow> jobject \<Rightarrow> bool" where
  "DeviceTransferRequest_readable p obj =
     fst (read_fields [str_from_json p obj ''serialNumber'' (\<lambda>_. id), str_from_json p obj ''server'' (\<lambda>_. id),
                       u64_from_json p obj ''port'' (\<lambda>_. id)] ())"

definition DeviceCertificateUpdateRequest_readable :: "poco \<Rightarrow> jobject \<Rightarrow> bool" where
  "DeviceCertificateUpdateRequest_readable p obj =
     fst (read_fields [str_from_json p obj ''serial'' (\<lambda>_. id), str_from_json p obj ''encodedCertificate'' (\<lambda>_. id)] ())"

definition FixedConfig_readable :: "poco \<Rightarrow> jobject \<Rightarrow> bool" where
  "FixedConfig_readable p obj =
     fst (read_fields [str_from_json p obj ''serial'' (\<lambda>_. id), str_from_json p obj ''country'' (\<lambda>_. id)] ())"

definition PowerCycleRequest_when :: "poco \<Rightarrow> u64 \<Rightarrow> jobject \<Rightarrow> bool \<times> u64" where
  "PowerCycleRequest_when p garbage obj =
     read_all [whole (str_from_json p obj ''serial'' (\<lambda>_. id)), whole (u64_from_json p obj ''when'' (\<lambda>v _. v)),
               objs_from_json (\<lambda>_. ()) obj ''ports'' (\<lambda>_. []) (\<lambda>_. id)] garbage"

definition CableDiagnostics_when :: "poco \<Rightarrow> u64 \<Rightarrow> jobject \<Rightarrow> bool \<times> u64" where
  "CableDiagnostics_when p garbage obj =
     read_all [whole (str_from_json p obj ''serial'' (\<lambda>_. id)), whole (u64_from_json p obj ''when'' (\<lambda>v _. v)),
               list_from_json p obj ''ports'' (\<lambda>_. id)] garbage"

definition ReEnroll_when :: "poco \<Rightarrow> u64 \<Rightarrow> jobject \<Rightarrow> bool \<times> u64" where
  "ReEnroll_when p garbage obj =
     read_fields [str_from_json p obj ''serial'' (\<lambda>_. id), u64_from_json p obj ''when'' (\<lambda>v _. v)] garbage"

text \<open>
  The packages to install and to remove. An address that is not of a web server makes the reader of a package
  answer false, which the reader of the list does not look at: the package stays in the list.
\<close>

definition ToBeInstalled_from_json :: "poco \<Rightarrow> (string \<Rightarrow> cpp_exn + string) \<Rightarrow> jobject \<Rightarrow> bool \<times> string \<times> string" where
  "ToBeInstalled_from_json p scheme obj =
     (case read_fields [str_from_json p obj ''name'' (\<lambda>v (n, u). (v, u)), str_from_json p obj ''url'' (\<lambda>v (n, u). (n, v))] ([], []) of
        (False, x) \<Rightarrow> (False, x)
      | (True, x) \<Rightarrow> (case scheme (snd x) of Inl _ \<Rightarrow> (False, x) | Inr s \<Rightarrow> (s \<in> {''http'', ''https''}, x)))"

definition ToBeInstalled_to_json :: "string \<times> string \<Rightarrow> jobject" where
  "ToBeInstalled_to_json x = writes [str_to_json ''name'' (fst x), str_to_json ''url'' (snd x)] []"

definition PackageInstall_pkgs :: "poco \<Rightarrow> (string \<Rightarrow> cpp_exn + string) \<Rightarrow> jobject \<Rightarrow> bool \<times> (string \<times> string) list" where
  "PackageInstall_pkgs p scheme obj =
     read_all [whole (str_from_json p obj ''serialNumber'' (\<lambda>_. id)), whole (u64_from_json p obj ''when'' (\<lambda>_. id)),
               objs_from_json (\<lambda>o'. snd (ToBeInstalled_from_json p scheme o')) obj ''packages'' (\<lambda>x. x) (\<lambda>v _. v)] []"

definition ToBeRemoved_from_json :: "poco \<Rightarrow> jobject \<Rightarrow> bool \<times> string" where
  "ToBeRemoved_from_json p obj = read_fields [str_from_json p obj ''name'' (\<lambda>v _. v)] []"

definition ToBeRemoved_to_json :: "string \<Rightarrow> jobject" where
  "ToBeRemoved_to_json n = str_to_json ''name'' n []"

definition PackageRemove_pkgs :: "poco \<Rightarrow> jobject \<Rightarrow> bool \<times> string list" where
  "PackageRemove_pkgs p obj =
     read_all [whole (str_from_json p obj ''serialNumber'' (\<lambda>_. id)),
               objs_from_json (\<lambda>o'. snd (ToBeRemoved_from_json p o')) obj ''packages'' (\<lambda>x. x) (\<lambda>v _. v)] []"

end
