(* ===== verification/GW_Scheduler.thy ===== *)
theory GW_Scheduler
  imports GW_CommandTable
begin

text \<open>
  The scheduler of \<^verbatim>\<open>src/CommandManager.cpp\<close> together with the table it works on: what a run sends, and what the
  calls the manager records do to the rows of the commands.
\<close>

section \<open>The calls of the manager on the table\<close>

text \<open>\<open>et\<close> is the measured time of the exchange; the statuses of the calls are not looked at by the manager.\<close>

fun perform_effect :: "poco \<Rightarrow> u64 \<Rightarrow> u64 \<Rightarrow> command_effect \<Rightarrow> command_db \<Rightarrow> command_db" where
  "perform_effect p now et (Cmd_Completed uuid vars) db = snd (CommandCompleted p now uuid vars et True db)"
| "perform_effect p now et (Cmd_CancelWaitFile uuid txt) db = snd (CancelWaitFile now uuid txt db)"
| "perform_effect p now et (Cmd_TimedOut uuid) db = snd (SetCommandTimedOut now uuid db)"
| "perform_effect p now et (Cmd_LastTry uuid) db = snd (SetCommandLastTry now uuid db)"
| "perform_effect p now et (Cmd_Executed uuid) db = snd (SetCommandExecuted now uuid db)"

definition perform_all :: "poco \<Rightarrow> u64 \<Rightarrow> u64 \<Rightarrow> command_effect list \<Rightarrow> command_db \<Rightarrow> command_db" where
  "perform_all p now et es db = foldl (\<lambda>db e. perform_effect p now et e db) db es"

fun effect_uuid :: "command_effect \<Rightarrow> string" where
  "effect_uuid (Cmd_Completed uuid _) = uuid"
| "effect_uuid (Cmd_CancelWaitFile uuid _) = uuid"
| "effect_uuid (Cmd_TimedOut uuid) = uuid"
| "effect_uuid (Cmd_LastTry uuid) = uuid"
| "effect_uuid (Cmd_Executed uuid) = uuid"

definition details_of :: "command_row \<Rightarrow> command_details" where
  "details_of r =
     \<lparr> cd_UUID = cr_UUID r, cd_SerialNumber = cr_SerialNumber r, cd_Command = cr_Command r, cd_Details = cr_Details r,
       cd_Submitted = cr_Submitted r \<rparr>"

section \<open>A run\<close>

text \<open>What the calls recorded since \<open>m\<close> make of the table.\<close>

definition since :: "manager \<Rightarrow> manager \<Rightarrow> command_effect list" where
  "since m m' = drop (length (m_effects m)) (m_effects m')"

definition run_batch ::
    "poco \<Rightarrow> (handle \<Rightarrow> string \<Rightarrow> send_outcome) \<Rightarrow> int \<Rightarrow> u64 \<Rightarrow> u64 \<Rightarrow> command_row list \<Rightarrow> manager \<times> command_db \<Rightarrow>
     manager \<times> command_db" where
  "run_batch p ws now_ms now et rows w =
     (let m' = foldl (schedule_one p ws now_ms now) (fst w) (map details_of rows)
      in (m', perform_all p now et (since (fst w) m') (snd w)))"

definition next_batch :: "u64 \<Rightarrow> u64 \<Rightarrow> nat \<Rightarrow> manager \<times> command_db \<Rightarrow> command_row list" where
  "next_batch now retry offset w =
     (case GetReadyToExecuteCommands now retry (\<lambda>n. Connected n (m_server (fst w))) offset 200 (snd w) of
        Inr (Some rows) \<Rightarrow> rows
      | _ \<Rightarrow> [])"

lemma length_update_where [simp]: "length (CommandList (update_where sel f db)) = length (CommandList db)"
  by (simp add: update_where_def)

lemma length_update_uuid [simp]: "length (CommandList (snd (update_uuid u f db))) = length (CommandList db)"
  by (simp add: update_uuid_def cdb_exec_def)

lemma length_perform_effect [simp]: "length (CommandList (perform_effect p now et e db)) = length (CommandList db)"
  by (cases e) (simp_all add: CommandCompleted_def CancelWaitFile_def SetCommandTimedOut_def SetCommandLastTry_def
      SetCommandExecuted_def split: sum.split prod.split)

lemma length_perform_all [simp]: "length (CommandList (perform_all p now et es db)) = length (CommandList db)"
  unfolding perform_all_def by (induction es arbitrary: db) simp_all

lemma length_run_batch [simp]:
  "length (CommandList (snd (run_batch p ws now_ms now et rows w))) = length (CommandList (snd w))"
  by (simp add: run_batch_def Let_def)

lemma keep_connected_subset: "keep_connected f rs = Inr kept \<Longrightarrow> kept = filter (\<lambda>r. \<exists>n. SerialNumberToInt (cr_SerialNumber r) = Inr n \<and> f n) rs"
proof (induction rs arbitrary: kept)
  case (Cons r rs)
  then show ?case
    by (cases "SerialNumberToInt (cr_SerialNumber r)"; cases "keep_connected f rs") auto
qed simp

lemma next_batch_rows:
  "set (next_batch now retry offset w) \<subseteq> set (drop offset (ready_rows now retry (snd w)))"
  "distinct (map cr_UUID (CommandList (snd w))) \<Longrightarrow> distinct (map cr_UUID (next_batch now retry offset w))"
proof -
  let ?page = "ComputeRange offset 200 (ready_rows now retry (snd w))"
  consider "next_batch now retry offset w = []"
    | f where "next_batch now retry offset w = filter f ?page"
    by (cases "cdb_readable (snd w)"; cases "keep_connected (\<lambda>n. Connected n (m_server (fst w))) ?page")
      (auto simp: next_batch_def GetReadyToExecuteCommands_def dest: keep_connected_subset)
  note c = this
  show "set (next_batch now retry offset w) \<subseteq> set (drop offset (ready_rows now retry (snd w)))"
    by (cases rule: c) (auto simp: ComputeRange_def dest: in_set_takeD)
  assume d: "distinct (map cr_UUID (CommandList (snd w)))"
  have "distinct (map cr_UUID (ready_rows now retry (snd w)))"
    using d by (simp add: ready_rows_def order_asc_def distinct_map inj_on_def)
  then have "distinct (map cr_UUID (filter f ?page))" for f
    by (auto simp: ComputeRange_def distinct_map inj_on_def dest!: in_set_takeD in_set_dropD)
  then show "distinct (map cr_UUID (next_batch now retry offset w))" by (cases rule: c) auto
qed

lemma next_batch_end:
  assumes "next_batch now retry offset w \<noteq> []"
  shows "offset < length (CommandList (snd w))"
proof (rule ccontr)
  assume "\<not> offset < length (CommandList (snd w))"
  moreover have "length (ready_rows now retry (snd w)) \<le> length (CommandList (snd w))"
    by (simp add: ready_rows_def order_asc_def)
  ultimately have "drop offset (ready_rows now retry (snd w)) = []" by simp
  with next_batch_rows(1) [of now retry offset w] assms show False by simp
qed

text \<open>
  The loop: the offset grows by the number of commands a query returned, though the rows the query selects
  become fewer. It ends because the table has no more rows than it had.
\<close>

function run_batches ::
    "poco \<Rightarrow> (handle \<Rightarrow> string \<Rightarrow> send_outcome) \<Rightarrow> int \<Rightarrow> u64 \<Rightarrow> u64 \<Rightarrow> u64 \<Rightarrow> nat \<Rightarrow> manager \<times> command_db \<Rightarrow>
     manager \<times> command_db" where
  "run_batches p ws now_ms now et retry offset w =
     (let rows = next_batch now retry offset w in
      if rows = [] then w
      else run_batches p ws now_ms now et retry (offset + length rows) (run_batch p ws now_ms now et rows w))"
  by pat_completeness auto
termination
proof (relation "measure (\<lambda>(p, ws, now_ms, now, et, retry, offset, w). length (CommandList (snd w)) - offset)")
  fix p ws now_ms now et retry offset w rows
  assume "rows = next_batch now retry offset w" "rows \<noteq> []"
  then show "((p, ws, now_ms, now, et, retry, offset + length rows, run_batch p ws now_ms now et rows w),
        p, ws, now_ms, now, et, retry, offset, w)
       \<in> measure (\<lambda>(p, ws, now_ms, now, et, retry, offset, w). length (CommandList (snd w)) - offset)"
    using next_batch_end [of now retry offset w] by (simp add: diff_less_mono2)
qed simp

declare run_batches.simps [simp del]

definition age_commands :: "u64 \<Rightarrow> u64 \<Rightarrow> command_db \<Rightarrow> command_db" where
  "age_commands now timeout db = RemoveTimedOutCommands now timeout (RemovedExpiredCommands now timeout db)"

definition run_scheduler ::
    "poco \<Rightarrow> (handle \<Rightarrow> string \<Rightarrow> send_outcome) \<Rightarrow> int \<Rightarrow> u64 \<Rightarrow> u64 \<Rightarrow> u64 \<Rightarrow> manager \<times> command_db \<Rightarrow> manager \<times> command_db" where
  "run_scheduler p ws now_ms now et retry w =
     run_batches p ws now_ms now et retry 0 (fst w, age_commands now (commandTimeOut (fst w)) (snd w))"

section \<open>What a step records\<close>

lemma PostCommand_effects [simp]:
  "m_effects (snd (PostCommand p ws now i cmd serial method params uuid oneway rpc deferred m)) = m_effects m"
  by (auto simp: PostCommand_def andThen_def lift_exn_def ret_def send_to_device_def on_outstanding_def Let_def
      split: sum.split prod.split)

definition one_call :: "string \<Rightarrow> command_effect list \<Rightarrow> bool" where
  "one_call uuid es \<longleftrightarrow> es = [] \<or> (\<exists>e. es = [e] \<and> effect_uuid e = uuid)"

lemma one_call_simps [simp]: "one_call uuid []" "one_call uuid [e] \<longleftrightarrow> effect_uuid e = uuid"
  by (simp_all add: one_call_def)

lemma try_command_effects:
  "\<exists>es. m_effects (snd (try_command p ws now_ms now cmd m)) = m_effects m @ es \<and> one_call (cd_UUID cmd) es \<and>
        (fst (try_command p ws now_ms now cmd m) \<noteq> Inr () \<longrightarrow> es = [])"
proof -
  have post: "m_effects m' = m_effects m"
    if "PostCommand p ws now_ms i c s t ps u False False False (m\<lparr> RPC_Id := j \<rparr>) = (r, m')" for i c s t ps u j r m'
    using PostCommand_effects [of p ws now_ms i c s t ps u False False False "m\<lparr> RPC_Id := j \<rparr>"] that by simp
  show ?thesis
    by (auto simp: try_command_def log_command_def andThen_def lift_exn_def mgr_Next_RPC_ID_def one_call_def
        simp del: not_None_eq split: sum.split prod.split dest: post)
qed

lemma schedule_one_effects:
  "\<exists>es. m_effects (schedule_one p ws now_ms now m cmd) = m_effects m @ es \<and> one_call (cd_UUID cmd) es"
proof -
  obtain es where es: "m_effects (snd (try_command p ws now_ms now cmd m)) = m_effects m @ es" "one_call (cd_UUID cmd) es"
    "fst (try_command p ws now_ms now cmd m) \<noteq> Inr () \<longrightarrow> es = []"
    using try_command_effects by blast
  then show ?thesis
    by (cases "try_command p ws now_ms now cmd m"; cases "fst (try_command p ws now_ms now cmd m)")
      (auto simp: schedule_one_def recover_def log_command_def)
qed

lemma batch_effects:
  "\<exists>es. m_effects (foldl (schedule_one p ws now_ms now) m cmds) = m_effects m @ es \<and>
        set (map effect_uuid es) \<subseteq> set (map cd_UUID cmds) \<and>
        (distinct (map cd_UUID cmds) \<longrightarrow> distinct (map effect_uuid es))"
proof (induction cmds arbitrary: m)
  case (Cons c cmds)
  let ?m = "schedule_one p ws now_ms now m c"
  obtain e1 where e1: "m_effects ?m = m_effects m @ e1" "one_call (cd_UUID c) e1"
    using schedule_one_effects by blast
  obtain e2 where e2: "m_effects (foldl (schedule_one p ws now_ms now) ?m cmds) = m_effects ?m @ e2"
    "set (map effect_uuid e2) \<subseteq> set (map cd_UUID cmds)"
    "distinct (map cd_UUID cmds) \<longrightarrow> distinct (map effect_uuid e2)"
    using Cons.IH [of ?m] by blast
  from e1 e2 show ?case by (intro exI [of _ "e1 @ e2"]) (auto simp: one_call_def)
qed simp

section \<open>What the calls make of a row\<close>

definition done_row :: "string \<Rightarrow> command_db \<Rightarrow> bool" where
  "done_row uuid db \<longleftrightarrow> (\<exists>r. find_command uuid db = Some r \<and> cr_Executed r \<noteq> 0)"

definition open_row :: "string \<Rightarrow> command_db \<Rightarrow> bool" where
  "open_row uuid db \<longleftrightarrow> (\<exists>r. find_command uuid db = Some r \<and> cr_Executed r = 0)"

lemma done_not_open: "done_row uuid db \<Longrightarrow> \<not> open_row uuid db"
  by (auto simp: done_row_def open_row_def)

lemma find_map:
  "(\<And>r. key (f r) = key r) \<Longrightarrow> find (\<lambda>r. key r = k) (map f rs) = map_option f (find (\<lambda>r. key r = k) rs)"
  by (induction rs) auto

lemma find_update_where:
  assumes "\<And>r. cr_UUID (f r) = cr_UUID r"
  shows "find_command uuid (update_where sel f db) = map_option (\<lambda>r. if sel r then f r else r) (find_command uuid db)"
proof -
  have "\<And>r. cr_UUID (if sel r then f r else r) = cr_UUID r" using assms by simp
  from find_map [of cr_UUID, OF this] show ?thesis by (simp add: find_command_def update_where_def)
qed

lemma find_command_uuid: "find_command uuid db = Some r \<Longrightarrow> cr_UUID r = uuid"
  by (auto simp: find_command_def find_Some_iff)

lemma find_update_uuid:
  assumes "\<And>r. cr_UUID (f r) = cr_UUID r"
  shows "find_command u (snd (update_uuid uuid f db)) =
         (if cdb_writable db \<and> u = uuid then map_option f (find_command u db) else find_command u db)"
proof -
  have "map_option (\<lambda>r. if cr_UUID r = uuid then f r else r) (find_command u db) =
        (if u = uuid then map_option f (find_command u db) else find_command u db)"
    by (cases "find_command u db") (auto dest: find_command_uuid)
  then show ?thesis by (cases "u = uuid") (simp_all add: update_uuid_def cdb_exec_def find_update_where [OF assms])
qed

lemma find_perform:
  "find_command u (perform_effect p now et e db) = find_command u db \<or>
   (\<exists>r r'. find_command u db = Some r \<and> find_command u (perform_effect p now et e db) = Some r' \<and>
      u = effect_uuid e \<and> (cr_Executed r' = cr_Executed r \<or> cr_Executed r' = now))"
  by (cases e; cases "find_command u db")
    (auto simp: CommandCompleted_def CancelWaitFile_def SetCommandTimedOut_def SetCommandLastTry_def
      SetCommandExecuted_def find_update_uuid split: sum.split prod.split)

lemma writable_perform [simp]: "cdb_writable (perform_effect p now et e db) = cdb_writable db"
  by (cases e) (simp_all add: CommandCompleted_def CancelWaitFile_def SetCommandTimedOut_def SetCommandLastTry_def
      SetCommandExecuted_def update_uuid_def cdb_exec_def update_where_def split: sum.split prod.split)

lemma uuids_perform [simp]: "map cr_UUID (CommandList (perform_effect p now et e db)) = map cr_UUID (CommandList db)"
  by (cases e) (simp_all add: CommandCompleted_def CancelWaitFile_def SetCommandTimedOut_def SetCommandLastTry_def
      SetCommandExecuted_def update_uuid_def cdb_exec_def update_where_def split: sum.split prod.split)

lemma perform_all_frame [simp]:
  "cdb_writable (perform_all p now et es db) = cdb_writable db"
  "map cr_UUID (CommandList (perform_all p now et es db)) = map cr_UUID (CommandList db)"
  unfolding perform_all_def by (induction es arbitrary: db) simp_all

lemma done_perform: "done_row u db \<Longrightarrow> now \<noteq> 0 \<Longrightarrow> done_row u (perform_effect p now et e db)"
  using find_perform [of u p now et e db] by (auto simp: done_row_def)

lemma done_perform_all: "done_row u db \<Longrightarrow> now \<noteq> 0 \<Longrightarrow> done_row u (perform_all p now et es db)"
  unfolding perform_all_def by (induction es arbitrary: db) (simp_all add: done_perform)

lemma done_executed:
  assumes "Cmd_Executed u \<in> set es" and "find_command u db \<noteq> None" and "cdb_writable db" and "now \<noteq> 0"
  shows "done_row u (perform_all p now et es db)"
  using assms(1-3)
proof (induction es arbitrary: db)
  case (Cons e es)
  show ?case
  proof (cases "e = Cmd_Executed u")
    case True
    then have "done_row u (perform_effect p now et e db)"
      using Cons.prems assms(4) by (auto simp: done_row_def SetCommandExecuted_def find_update_uuid)
    from done_perform_all [OF this assms(4)] show ?thesis by (simp add: perform_all_def)
  next
    case False
    have "find_command u (perform_effect p now et e db) \<noteq> None"
      using find_perform [of u p now et e db] Cons.prems(2) by auto
    with Cons False show ?thesis by (simp add: perform_all_def)
  qed
qed simp

lemma open_before:
  assumes "open_row u (perform_all p now et es db)" and "now \<noteq> 0" and "find_command u db \<noteq> None"
  shows "open_row u db"
  using assms done_perform_all [of u db now p et es] done_not_open by (fastforce simp: done_row_def open_row_def)

section \<open>A run\<close>

definition executed :: "command_effect list \<Rightarrow> string list" where
  "executed es = concat (map (\<lambda>e. case e of Cmd_Executed u \<Rightarrow> [u] | _ \<Rightarrow> []) es)"

lemma executed_simps [simp]: "executed [] = []" "executed (es @ es') = executed es @ executed es'"
  by (simp_all add: executed_def)

lemma in_executed: "u \<in> set (executed es) \<longleftrightarrow> Cmd_Executed u \<in> set es"
  by (auto simp: executed_def split: command_effect.splits)

lemma executed_distinct: "distinct (map effect_uuid es) \<Longrightarrow> distinct (executed es)"
proof (induction es)
  case (Cons e es)
  have "u \<in> set (executed es) \<Longrightarrow> u \<in> effect_uuid ` set es" for u
    by (metis effect_uuid.simps(5) image_eqI in_executed)
  with Cons show ?case by (cases e) (auto simp: executed_def)
qed simp

text \<open>What is recorded from one state to a later one, and what it says of the rows.\<close>

definition sound_run :: "manager \<times> command_db \<Rightarrow> manager \<times> command_db \<Rightarrow> bool" where
  "sound_run w w' \<longleftrightarrow>
     m_effects (fst w') = m_effects (fst w) @ since (fst w) (fst w') \<and>
     cdb_writable (snd w') = cdb_writable (snd w) \<and>
     map cr_UUID (CommandList (snd w')) = map cr_UUID (CommandList (snd w)) \<and>
     distinct (executed (since (fst w) (fst w'))) \<and>
     (\<forall>u\<in>set (executed (since (fst w) (fst w'))). open_row u (snd w) \<and> done_row u (snd w')) \<and>
     (\<forall>u. done_row u (snd w) \<longrightarrow> done_row u (snd w')) \<and>
     (\<forall>u. open_row u (snd w') \<longrightarrow> open_row u (snd w))"

lemma sound_run_refl: "sound_run w w"
  by (simp add: sound_run_def since_def)

lemma since_append:
  assumes "m_effects m' = m_effects m @ since m m'" and "m_effects m'' = m_effects m' @ since m' m''"
  shows "since m m'' = since m m' @ since m' m''" "m_effects m'' = m_effects m @ since m m''"
proof -
  from assms have "m_effects m'' = m_effects m @ since m m' @ since m' m''" by simp
  then show "since m m'' = since m m' @ since m' m''" by (simp add: since_def [of m m''])
  with assms show "m_effects m'' = m_effects m @ since m m''" by simp
qed

lemma sound_run_trans:
  assumes "sound_run w w'" and "sound_run w' w''"
  shows "sound_run w w''"
proof -
  have s: "m_effects (fst w') = m_effects (fst w) @ since (fst w) (fst w')"
    "m_effects (fst w'') = m_effects (fst w') @ since (fst w') (fst w'')"
    using assms by (simp_all add: sound_run_def)
  have "set (executed (since (fst w) (fst w'))) \<inter> set (executed (since (fst w') (fst w''))) = {}"
    using assms done_not_open by (fastforce simp: sound_run_def)
  with assms since_append [OF s] show ?thesis by (auto simp: sound_run_def)
qed

lemma find_distinct: "distinct (map key rs) \<Longrightarrow> r \<in> set rs \<Longrightarrow> find (\<lambda>x. key x = key r) rs = Some r"
  by (induction rs) auto

lemma find_command_unique:
  "distinct (map cr_UUID (CommandList db)) \<Longrightarrow> r \<in> set (CommandList db) \<Longrightarrow> cr_UUID r = u \<Longrightarrow> find_command u db = Some r"
  by (auto simp: find_command_def find_distinct)

lemma find_command_known: "find_command u db \<noteq> None \<longleftrightarrow> u \<in> set (map cr_UUID (CommandList db))"
  by (auto simp: find_command_def find_None_iff simp del: not_None_eq)

lemma rows_open:
  assumes "distinct (map cr_UUID (CommandList (snd w)))" and "u \<in> cr_UUID ` set (next_batch now retry offset w)"
  shows "open_row u (snd w)"
proof -
  obtain r where r: "r \<in> set (CommandList (snd w))" "ready now retry r" "cr_UUID r = u"
    using assms(2) next_batch_rows(1) [of now retry offset w]
    by (auto simp: ready_rows_def order_asc_def dest!: subsetD in_set_dropD)
  then have "find_command u (snd w) = Some r" using find_command_unique [OF assms(1)] by blast
  with r show ?thesis by (auto simp: open_row_def ready_def)
qed

lemma run_batch_sound:
  assumes "distinct (map cr_UUID (CommandList (snd w)))" and "cdb_writable (snd w)" and "now \<noteq> 0"
  shows "sound_run w (run_batch p ws now_ms now et (next_batch now retry offset w) w)"
proof -
  let ?rows = "next_batch now retry offset w"
  obtain es where es: "m_effects (foldl (schedule_one p ws now_ms now) (fst w) (map details_of ?rows)) = m_effects (fst w) @ es"
    "set (map effect_uuid es) \<subseteq> cr_UUID ` set ?rows" "distinct (map effect_uuid es)"
    using batch_effects [of p ws now_ms now "fst w" "map details_of ?rows"] next_batch_rows(2) [OF assms(1), of now retry offset]
    by (auto simp: details_of_def comp_def image_image)
  then have since: "since (fst w) (foldl (schedule_one p ws now_ms now) (fst w) (map details_of ?rows)) = es"
    by (simp add: since_def)
  have open_es: "open_row u (snd w)" if "u \<in> set (executed es)" for u
    using that es(2) rows_open [OF assms(1), of u now retry offset] by (auto simp: in_executed)
  have "done_row u (perform_all p now et es (snd w))" if "u \<in> set (executed es)" for u
    using that open_es [OF that] done_executed [of u es "snd w" now p et] assms(2,3) by (auto simp: in_executed open_row_def)
  moreover have "open_row u (snd w)" if "open_row u (perform_all p now et es (snd w))" for u
  proof -
    have "find_command u (perform_all p now et es (snd w)) \<noteq> None" using that by (auto simp: open_row_def)
    then have "find_command u (snd w) \<noteq> None" unfolding find_command_known by simp
    from open_before [OF that assms(3) this] show ?thesis .
  qed
  ultimately show ?thesis
    using since es open_es executed_distinct [OF es(3)] done_perform_all [OF _ assms(3)]
    by (simp add: sound_run_def run_batch_def Let_def)
qed

lemma run_batches_sound:
  assumes "distinct (map cr_UUID (CommandList (snd w)))" and "cdb_writable (snd w)" and "now \<noteq> 0"
  shows "sound_run w (run_batches p ws now_ms now et retry offset w)"
  using assms
proof (induction p ws now_ms now et retry offset w rule: run_batches.induct)
  case (1 p ws now_ms now et retry offset w)
  let ?rows = "next_batch now retry offset w" and ?w = "run_batch p ws now_ms now et (next_batch now retry offset w) w"
  show ?case
  proof (cases "?rows = []")
    case True
    then show ?thesis by (simp add: run_batches.simps [of p ws now_ms now et retry offset w] sound_run_refl)
  next
    case False
    have b: "sound_run w ?w" using run_batch_sound "1.prems" by blast
    then have "sound_run ?w (run_batches p ws now_ms now et retry (offset + length ?rows) ?w)"
      using 1 False by (simp add: sound_run_def)
    from sound_run_trans [OF b this] False show ?thesis
      by (simp add: run_batches.simps [of p ws now_ms now et retry offset w] Let_def)
  qed
qed

lemma age_frame [simp]:
  "cdb_writable (age_commands now t db) = cdb_writable db"
  "map cr_UUID (CommandList (age_commands now t db)) = map cr_UUID (CommandList db)"
  by (auto simp: age_commands_def RemoveTimedOutCommands_def RemovedExpiredCommands_def cdb_exec_def update_where_def)

lemma age_open: "open_row u (age_commands now t db) \<Longrightarrow> now \<noteq> 0 \<Longrightarrow> open_row u db"
  by (cases "find_command u db")
    (auto simp: open_row_def age_commands_def RemoveTimedOutCommands_def RemovedExpiredCommands_def cdb_exec_def
      find_update_where split: if_splits)

text \<open>
  C10: in a run of the scheduler no command is marked as executed twice, and one that is was not executed before
  and is afterwards: whichever commands the table holds, whichever sends fail, and although the offset of the
  queries moves while the rows they select change. The table has its primary key and takes changes.
\<close>

theorem scheduler_once:
  assumes "distinct (map cr_UUID (CommandList (snd w)))" and "cdb_writable (snd w)" and "now \<noteq> 0"
    and "w' = run_scheduler p ws now_ms now et retry w"
  shows "distinct (executed (since (fst w) (fst w'))) \<and>
         (\<forall>u\<in>set (executed (since (fst w) (fst w'))). open_row u (snd w) \<and> done_row u (snd w'))"
proof -
  let ?w = "(fst w, age_commands now (commandTimeOut (fst w)) (snd w))"
  have "sound_run ?w w'"
    unfolding assms(4) run_scheduler_def by (rule run_batches_sound) (simp_all add: assms(1-3))
  with age_open assms(3) show ?thesis unfolding sound_run_def by fastforce
qed

lemma keep_connected_bad:
  "r \<in> set rs \<Longrightarrow> SerialNumberToInt (cr_SerialNumber r) = Inl e \<Longrightarrow> \<exists>e'. keep_connected f rs = Inl e'"
proof (induction rs)
  case (Cons a rs)
  then show ?case by (cases "SerialNumberToInt (cr_SerialNumber a)") auto
qed simp

text \<open>
  When the first 200 commands that are due belong to devices that are not connected, or one of them has a
  serial number that is not one, a run sends nothing: the commands behind them wait, though their devices are
  connected, until the ones in front have expired.
\<close>

theorem scheduler_blocked:
  assumes "db = age_commands now (commandTimeOut (fst w)) (snd w)"
    and "(\<exists>r\<in>set (take 200 (ready_rows now retry db)). \<exists>e. SerialNumberToInt (cr_SerialNumber r) = Inl e) \<or>
         (\<forall>r\<in>set (take 200 (ready_rows now retry db)). \<forall>n. SerialNumberToInt (cr_SerialNumber r) = Inr n \<longrightarrow> \<not> Connected n (m_server (fst w)))"
  shows "run_scheduler p ws now_ms now et retry w = (fst w, db)"
proof -
  let ?f = "\<lambda>n. Connected n (m_server (fst w))" and ?page = "take 200 (ready_rows now retry db)"
  have "(\<exists>e. keep_connected ?f ?page = Inl e) \<or> keep_connected ?f ?page = Inr []"
    using assms(2) keep_connected_bad [of _ ?page _ ?f] keep_connected_subset [of ?f ?page]
    by (cases "keep_connected ?f ?page") (auto simp: filter_empty_conv)
  then have "next_batch now retry 0 (fst w, db) = []"
    by (auto simp: next_batch_def GetReadyToExecuteCommands_def ComputeRange_def)
  with assms(1) show ?thesis
    by (simp add: run_scheduler_def run_batches.simps [of p ws now_ms now et retry 0 "(fst w, age_commands now (commandTimeOut (fst w)) (snd w))"])
qed

lemma find_absent: "k \<notin> key ` set rs \<Longrightarrow> find (\<lambda>r. key r = k) rs = None"
  by (auto simp: find_None_iff)

lemma find_snoc: "find P rs = None \<Longrightarrow> P r \<Longrightarrow> find P (rs @ [r]) = Some r"
  by (induction rs) (auto split: if_splits)

text \<open>
  Adding a command removes the uncompleted ones of the same name of the device, also one that has been sent
  and whose answer is still to come: that answer then changes nothing.
\<close>

theorem AddCommand_supersedes:
  assumes "AddCommand now serial c ty db = (True, db')" and "distinct (map cr_UUID (CommandList db))"
    and "old \<in> set (CommandList db)" and "cr_SerialNumber old = serial" and "cr_Command old = cr_Command c"
    and "cr_Completed old = 0" and "cr_UUID old \<noteq> cr_UUID c"
  shows "find_command (cr_UUID c) db' = Some (stamp_command now ty c) \<and> find_command (cr_UUID old) db' = None \<and>
         snd (CommandCompleted p t (cr_UUID old) vars et full db') = db' \<and>
         (\<forall>r\<in>set (CommandList db'). cr_SerialNumber r = serial \<and> cr_Command r = cr_Command c \<and> cr_Completed r = 0 \<longrightarrow>
            cr_UUID r = cr_UUID c)"
proof -
  have u: "cr_UUID (stamp_command now ty c) = cr_UUID c" "cr_Command (stamp_command now ty c) = cr_Command c"
    by (simp_all add: stamp_command_def Let_def)
  have w: "cdb_writable db"
    using assms(1) by (auto simp: AddCommand_def Let_def RemoveOldCommands_def cdb_exec_def split: if_splits)
  let ?kept = "filter (\<lambda>r. \<not> (cr_SerialNumber r = serial \<and> cr_Command r = cr_Command c \<and> cr_Completed r = 0)) (CommandList db)"
  have db': "CommandList db' = ?kept @ [stamp_command now ty c]" "cr_UUID c \<notin> cr_UUID ` set ?kept"
    using assms(1) w by (auto simp: AddCommand_def Let_def RemoveOldCommands_def cdb_exec_def u split: if_splits)
  have "cr_UUID old \<notin> cr_UUID ` set ?kept"
    using assms(2-6) by (auto simp: distinct_map dest: inj_onD)
  then have gone: "cr_UUID old \<notin> set (map cr_UUID (CommandList db'))" using assms(7) db' u by simp
  then have "find_command (cr_UUID old) db' = None" using find_command_known [of "cr_UUID old" db'] by blast
  moreover have "find_command (cr_UUID c) db' = Some (stamp_command now ty c)"
  proof -
    have "find (\<lambda>r. cr_UUID r = cr_UUID c) ?kept = None" by (rule find_absent [OF db'(2)])
    with db'(1) u(1) show ?thesis by (simp add: find_command_def find_snoc del: find.simps)
  qed
  moreover have "snd (update_uuid (cr_UUID old) f db') = db'" for f
  proof -
    have "map (\<lambda>r. if cr_UUID r = cr_UUID old then f r else r) (CommandList db') = CommandList db'"
      using gone by (intro map_idI) (metis image_eqI list.set_map)
    then show ?thesis by (simp add: update_uuid_def cdb_exec_def update_where_def)
  qed
  ultimately show ?thesis
    using db' u by (auto simp: CommandCompleted_def split: sum.split prod.split)
qed

section \<open>Tables to evaluate the properties on\<close>

definition due_command :: "string \<Rightarrow> string \<Rightarrow> command_row" where
  "due_command uuid serial =
     blank_command\<lparr> cr_UUID := uuid, cr_SerialNumber := serial, cr_Command := ''reboot'', cr_Details := ''old'', cr_Submitted := 50 \<rparr>"

definition plain_db :: "command_row list \<Rightarrow> command_db" where
  "plain_db rows = \<lparr> CommandList = rows, FileUploads = [], cdb_readable = True, cdb_writable = True \<rparr>"

definition connected_manager :: manager where
  "connected_manager =
     (plain_manager (plain_request AP_trace 1 None) [])\<lparr> Outstanding := [], m_server := StartSession 1 0 (AddConnection 1 fresh_server) \<rparr>"

lemma plain_db_simps [simp]:
  "CommandList (plain_db rows) = rows" "cdb_writable (plain_db rows)" "cdb_readable (plain_db rows)"
  by (simp_all add: plain_db_def)

lemma due_command_simps [simp]:
  "cr_UUID (due_command u s) = u" "cr_SerialNumber (due_command u s) = s" "cr_Submitted (due_command u s) = 50"
  "cr_Executed (due_command u s) = 0" "cr_Completed (due_command u s) = 0" "cr_RunAt (due_command u s) = 0"
  "cr_lastTry (due_command u s) = 0" "cr_Command (due_command u s) = ''reboot''"
  by (simp_all add: due_command_def blank_command_def)

lemma age_due: "\<forall>r\<in>set rows. \<exists>u s. r = due_command u s \<Longrightarrow> age_commands 100 60 (plain_db rows) = plain_db rows"
  by (auto simp: age_commands_def RemoveTimedOutCommands_def RemovedExpiredCommands_def cdb_exec_def update_where_def
      plain_db_def intro!: map_idI)

theorem scheduler_once_witness:
  "distinct (executed (since connected_manager (fst (run_scheduler plain_poco (\<lambda>_ _. Sent_Acked 5) 0 100 0 120
     (connected_manager, plain_db [due_command ''v'' ''0'', due_command ''x'' ''1''])))))"
  using scheduler_once [of "(connected_manager, plain_db [due_command ''v'' ''0'', due_command ''x'' ''1''])" 100,
      OF _ _ _ refl, of plain_poco "\<lambda>_ _. Sent_Acked 5" 0 0 120]
  by simp

theorem scheduler_blocked_witness:
  "run_scheduler plain_poco (\<lambda>_ _. Sent_Acked 5) 0 100 0 120
     (connected_manager, plain_db [due_command ''v'' ''no'', due_command ''x'' ''0'']) =
   (connected_manager, plain_db [due_command ''v'' ''no'', due_command ''x'' ''0''])"
proof -
  let ?db = "plain_db [due_command ''v'' ''no'', due_command ''x'' ''0'']"
  have t: "commandTimeOut connected_manager = 60" by (simp add: connected_manager_def plain_manager_def)
  have bad: "SerialNumberToInt ''no'' = Inl Invalid_Argument" by code_simp
  have db: "?db = age_commands 100 (commandTimeOut (fst (connected_manager, ?db))) (snd (connected_manager, ?db))"
    unfolding fst_conv snd_conv t by (rule age_due [symmetric]) auto
  have "due_command ''v'' ''no'' \<in> set (take 200 (ready_rows 100 120 ?db))"
    by (simp add: ready_rows_def order_asc_def ready_def)
  with bad have "\<exists>r\<in>set (take 200 (ready_rows 100 120 ?db)). \<exists>e. SerialNumberToInt (cr_SerialNumber r) = Inl e"
    by force
  from scheduler_blocked [OF db disjI1, OF this] show ?thesis by simp
qed

theorem AddCommand_supersedes_witness:
  "\<exists>db'. AddCommand 60 ''0'' (due_command ''x'' ''0'') COMMAND_PENDING (plain_db [due_command ''v'' ''0'']) = (True, db') \<and>
     snd (CommandCompleted plain_poco 70 ''v'' [] 0 True db') = db'"
proof -
  obtain db' where db': "AddCommand 60 ''0'' (due_command ''x'' ''0'') COMMAND_PENDING (plain_db [due_command ''v'' ''0'']) = (True, db')"
    by (simp add: AddCommand_def Let_def RemoveOldCommands_def cdb_exec_def stamp_command_def)
  from AddCommand_supersedes [OF this, of "due_command ''v'' ''0''"] db' show ?thesis by auto
qed

end
