(* ===== verification/GW_Rpc.thy ===== *)
theory GW_Rpc
  imports GW_Scheduler
begin

text \<open>
  A command given by an operator (\<^verbatim>\<open>src/RESTAPI/RESTAPI_RPC.cpp\<close>): it is sent through the command manager, its
  answer is awaited, and its record goes into the table of commands. What happens during the wait is a parameter
  \<open>during\<close> on the manager and the table; the answer has come when the promise has a value after it. \<open>handler\<close> is
  the REST handler, or \<open>None\<close> for the null pointer; of it only the parameter \<^verbatim>\<open>strict\<close> of the request matters.
\<close>

section \<open>Replies\<close>

datatype reply = No_Reply | Reply_Command command_row nat | Reply_Object | Reply_Status nat

definition command_status :: "bool \<Rightarrow> command_row \<Rightarrow> nat" where
  "command_status strict c =
     (if cr_ErrorCode c > 0 \<and> \<not> (cr_Command c = ''configure'' \<and> \<not> strict) then 400 else 200)"

definition SetCommandStatus :: "u64 \<Rightarrow> bool option \<Rightarrow> execution_type \<Rightarrow> command_row \<Rightarrow> command_db \<Rightarrow> reply \<times> command_db" where
  "SetCommandStatus now handler ty c db =
     (case AddCommand now (cr_SerialNumber c) c ty db of (ok, db') \<Rightarrow>
        (case handler of
           None \<Rightarrow> No_Reply
         | Some strict \<Rightarrow>
             if ok then Reply_Command (stamp_command now ty c) (command_status strict c) else Reply_Status 500,
         db'))"

section \<open>Answers\<close>

text \<open>
  \<open>x_scan\<close> is the text of a decoded scan, \<open>x_quote\<close> a string as JSON. The clock is read for the submission
  (\<open>x_t0\<close>), after the sending (\<open>x_t1\<close>) and at the end (\<open>x_t2\<close>).
\<close>

record rpc_env =
  x_poco :: poco
  x_ws :: "handle \<Rightarrow> string \<Rightarrow> send_outcome"
  x_scan :: "jobject \<Rightarrow> string"
  x_quote :: "string \<Rightarrow> string"
  x_b64 :: "string \<Rightarrow> string"
  x_uncompress :: "nat \<Rightarrow> string \<Rightarrow> z_status"
  x_ms :: int
  x_t0 :: u64
  x_t1 :: u64
  x_t2 :: u64
  x_et :: u64

text \<open>A compressed result is written behind the plain one.\<close>

definition answer_text :: "rpc_env \<Rightarrow> command_row \<Rightarrow> jobject \<Rightarrow> jobject \<Rightarrow> cpp_exn + string" where
  "answer_text e c result answer =
     (let plain = (if cr_Command c = ''wifiscan'' then x_scan e result else p_stringify (x_poco e) result) in
      if \<not> j_has answer ''result_64'' then Inr plain
      else
        try_bind (if j_has answer ''result_sz'' then p_u64 (x_poco e) (j_get answer ''result_sz'') else Inr 0) (\<lambda>sz.
        try_bind (p_string (x_poco e) (j_get answer ''result_64'')) (\<lambda>text.
        try_bind (ExtractBase64CompressedData (x_b64 e) (x_uncompress e) text sz) (\<lambda>data.
        Inr (plain @ x_quote e (case data of Some d \<Rightarrow> d | None \<Rightarrow> []))))))"

text \<open>
  The command after its answer, the type of its record, and whether it went the whole way to completion. A
  refused configuration asks the handler for its parameter, also when there is none.
\<close>

definition judge_answer ::
    "rpc_env \<Rightarrow> bool option \<Rightarrow> command_row \<Rightarrow> jobject \<Rightarrow> cpp_exn + command_row \<times> execution_type \<times> bool" where
  "judge_answer e handler c answer =
     (if \<not> j_isObject answer ''result'' then Inr (c, COMMAND_FAILED, False)
      else
        let result = j_getObject answer ''result'' in
        if \<not> j_isObject result ''status''
        then Inr (c\<lparr> cr_executionTime := x_et e \<rparr>, if cr_Command c = ''ping'' then COMMAND_COMPLETED else COMMAND_FAILED, False)
        else
          let status = j_getObject result ''status'' in
          try_bind (if j_has status ''error'' then p_u64 (x_poco e) (j_get status ''error'') else Inr (cr_ErrorCode c)) (\<lambda>code.
          try_bind (if j_has status ''text'' then p_string (x_poco e) (j_get status ''text'') else Inr (cr_ErrorText c)) (\<lambda>text.
          try_bind (answer_text e c result answer) (\<lambda>results.
          let c = c\<lparr> cr_ErrorCode := code, cr_ErrorText := text, cr_Results := results, cr_Status := ''completed'',
                     cr_Completed := x_t2 e, cr_executionTime := x_et e \<rparr>;
              c = (if code \<noteq> 0 \<and> cr_Command c \<in> {''trace'', ''script''}
                   then c\<lparr> cr_WaitingForFile := 0, cr_AttachDate := 0, cr_AttachSize := 0, cr_AttachType := [] \<rparr> else c)
          in if code = 0 then Inr (c, COMMAND_COMPLETED, True)
             else if cr_Command c \<noteq> ''configure'' then Inr (c, COMMAND_FAILED, False)
             else case handler of
               None \<Rightarrow> Inl (Undefined_Behaviour ''call through a null handler'')
             | Some strict \<Rightarrow> if strict then Inr (c, COMMAND_FAILED, False) else Inr (c, COMMAND_COMPLETED, True)))))"

section \<open>The whole exchange\<close>

text \<open>The reply, the command as the caller sees it then, and the event of a changed configuration.\<close>

record rpc_out =
  ro_reply :: reply
  ro_command :: command_row
  ro_event :: "(u64 \<times> u64 \<times> jobject) option"

type_synonym rpc_result = "(cpp_exn + rpc_out) \<times> manager \<times> command_db"

definition leave :: "u64 \<Rightarrow> bool option \<Rightarrow> execution_type \<Rightarrow> command_row \<Rightarrow> manager \<times> command_db \<Rightarrow> rpc_result" where
  "leave now handler ty c w =
     (case SetCommandStatus now handler ty c (snd w) of (r, db) \<Rightarrow>
        (Inr \<lparr> ro_reply = r, ro_command = stamp_command now ty c, ro_event = None \<rparr>, fst w, db))"

definition complete_command ::
    "rpc_env \<Rightarrow> bool option \<Rightarrow> bool \<Rightarrow> jobject \<Rightarrow> u64 \<Rightarrow> command_row \<Rightarrow> manager \<times> command_db \<Rightarrow> rpc_result" where
  "complete_command e handler object params n c w =
     (let db = snd (AddCommand (x_t2 e) (cr_SerialNumber c) c COMMAND_COMPLETED (snd w));
          c' = stamp_command (x_t2 e) COMMAND_COMPLETED c
      in (Inr \<lparr> ro_reply = (case handler of None \<Rightarrow> No_Reply | Some _ \<Rightarrow> if object then Reply_Object else Reply_Command c' 200),
               ro_command = c',
               ro_event = (if cr_ErrorCode c = 0 \<and> cr_Command c = ''configure'' \<and> j_isObject params ''config''
                           then Some (n, x_t2 e, j_getObject params ''config'') else None) \<rparr>,
          fst w, db))"

definition await_answer ::
    "rpc_env \<Rightarrow> u64 \<Rightarrow> bool \<Rightarrow> bool option \<Rightarrow> bool \<Rightarrow> jobject \<Rightarrow> u64 \<Rightarrow> command_row \<Rightarrow> nat \<Rightarrow> manager \<times> command_db \<Rightarrow>
     rpc_result" where
  "await_answer e rpc_id RetryLater handler object params n c promise w =
     (case promises (fst w) promise of
        Some answer \<Rightarrow>
          (case judge_answer e handler c answer of
             Inl x \<Rightarrow> (Inl x, w)
           | Inr (c, ty, whole) \<Rightarrow>
               if whole then complete_command e handler object params n c w else leave (x_t2 e) handler ty c w)
      | None \<Rightarrow>
          leave (x_t2 e) handler (if RetryLater then COMMAND_PENDING else COMMAND_FAILED) c
            (RemovePendingCommand rpc_id (fst w), snd w))"

definition WaitForCommand ::
    "rpc_env \<Rightarrow> (manager \<times> command_db \<Rightarrow> manager \<times> command_db) \<Rightarrow> u64 \<Rightarrow> ap_command \<Rightarrow> bool \<Rightarrow> command_row \<Rightarrow> jobject \<Rightarrow>
     bool \<Rightarrow> bool option \<Rightarrow> bool \<Rightarrow> manager \<times> command_db \<Rightarrow> rpc_result" where
  "WaitForCommand e during rpc_id cmd RetryLater c params object handler deferred w =
     (let c = c\<lparr> cr_Submitted := x_t0 e, cr_Executed := 0 \<rparr> in
      case SerialNumberToInt (cr_SerialNumber c) of
        Inl x \<Rightarrow> (Inl x, w)
      | Inr n \<Rightarrow>
          let connected = Connected n (m_server (fst w)) in
          if cr_RunAt c \<noteq> 0 \<or> (\<not> connected \<and> RetryLater) then leave (x_t0 e) handler COMMAND_PENDING c w
          else if \<not> connected then leave (x_t0 e) handler COMMAND_FAILED c w
          else
            case PostCommand (x_poco e) (x_ws e) (x_ms e) rpc_id cmd (cr_SerialNumber c) (cr_Command c) params
                   (cr_UUID c) False True deferred (fst w) of
              (Inl x, m) \<Rightarrow> (Inl x, m, snd w)
            | (Inr (sent, entry), m) \<Rightarrow>
                if RetryLater \<and> (\<not> sent \<or> entry = None) then leave (x_t1 e) handler COMMAND_PENDING c (m, snd w)
                else if \<not> RetryLater \<and> \<not> sent then leave (x_t1 e) handler COMMAND_FAILED c (m, snd w)
                else
                  (case entry of
                     None \<Rightarrow> (Inl (Undefined_Behaviour ''access through a null promise''), m, snd w)
                   | Some promise \<Rightarrow>
                       await_answer e rpc_id RetryLater handler object params n (c\<lparr> cr_Executed := x_t1 e \<rparr>) promise
                         (during (m, snd w))))"

section \<open>What is left in the table\<close>

lemma stamp_simps [simp]:
  "cr_UUID (stamp_command now ty c) = cr_UUID c" "cr_Command (stamp_command now ty c) = cr_Command c"
  "cr_SerialNumber (stamp_command now ty c) = cr_SerialNumber c" "cr_Submitted (stamp_command now ty c) = cr_Submitted c"
  "cr_RunAt (stamp_command now ty c) = cr_RunAt c" "cr_lastTry (stamp_command now ty c) = cr_lastTry c"
  "cr_Details (stamp_command now ty c) = cr_Details c" "cr_ErrorCode (stamp_command now ty c) = cr_ErrorCode c"
  "cr_Status (stamp_command now ty c) = execution_text ty" "cr_Results (stamp_command now ty c) = cr_Results c"
  "cr_Executed (stamp_command now COMMAND_PENDING c) = cr_Executed c"
  "cr_ErrorText (stamp_command now ty c) = cr_ErrorText c"
  by (simp_all add: stamp_command_def Let_def)

lemma AddCommand_fresh:
  assumes "cdb_writable db" and "cr_UUID c \<notin> cr_UUID ` set (CommandList db)"
  obtains kept where "AddCommand now serial c ty db = (True, db\<lparr> CommandList := kept @ [stamp_command now ty c] \<rparr>)"
    "set kept \<subseteq> set (CommandList db)" "cr_UUID c \<notin> cr_UUID ` set kept"
proof
  let ?kept = "filter (\<lambda>r. \<not> (cr_SerialNumber r = serial \<and> cr_Command r = cr_Command c \<and> cr_Completed r = 0)) (CommandList db)"
  have "cr_UUID c \<notin> cr_UUID ` set ?kept" using assms(2) by auto
  with assms(1) show "AddCommand now serial c ty db = (True, db\<lparr> CommandList := ?kept @ [stamp_command now ty c] \<rparr>)"
    by (simp add: AddCommand_def Let_def RemoveOldCommands_def cdb_exec_def)
  show "set ?kept \<subseteq> set (CommandList db)" "cr_UUID c \<notin> cr_UUID ` set ?kept" using assms(2) by auto
qed

lemma find_added:
  "u \<notin> cr_UUID ` set kept \<Longrightarrow> cr_UUID r = u \<Longrightarrow> find_command u (db\<lparr> CommandList := kept @ [r] \<rparr>) = Some r"
  by (simp add: find_command_def find_snoc find_absent)

lemma leave_fresh:
  assumes "cdb_writable (snd w)" and "cr_UUID c \<notin> cr_UUID ` set (CommandList (snd w))"
  shows "\<exists>out kept. leave now handler ty c w = (Inr out, fst w, (snd w)\<lparr> CommandList := kept @ [stamp_command now ty c] \<rparr>) \<and>
           set kept \<subseteq> set (CommandList (snd w)) \<and> cr_UUID c \<notin> cr_UUID ` set kept"
proof -
  obtain kept where k: "AddCommand now (cr_SerialNumber c) c ty (snd w) = (True, (snd w)\<lparr> CommandList := kept @ [stamp_command now ty c] \<rparr>)"
    "set kept \<subseteq> set (CommandList (snd w))" "cr_UUID c \<notin> cr_UUID ` set kept"
    using AddCommand_fresh [OF assms] by blast
  then show ?thesis by (auto simp: leave_def SetCommandStatus_def)
qed

lemma unanswered_left:
  assumes "SerialNumberToInt (cr_SerialNumber c) = Inr n" and "cr_RunAt c = 0" and "Connected n (m_server m)"
    and "PostCommand (x_poco e) (x_ws e) (x_ms e) rpc_id cmd (cr_SerialNumber c) (cr_Command c) params (cr_UUID c)
           False True deferred m = (Inr (True, Some q), m1)"
    and "promises (fst (during (m1, db))) q = None"
  shows "WaitForCommand e during rpc_id cmd True c params object handler deferred (m, db) =
      leave (x_t2 e) handler COMMAND_PENDING (c\<lparr> cr_Submitted := x_t0 e, cr_Executed := x_t1 e \<rparr>)
        (RemovePendingCommand rpc_id (fst (during (m1, db))), snd (during (m1, db)))"
  using assms by (simp add: WaitForCommand_def Let_def await_answer_def)

text \<open>
  A command that was sent to its device and got no answer in time is entered as pending, to be tried again, but
  with the time of its sending as that of its execution: whatever the time, the scheduler never finds it due.
\<close>

theorem unanswered_never_ready:
  assumes "SerialNumberToInt (cr_SerialNumber c) = Inr n" and "cr_RunAt c = 0" and "Connected n (m_server m)"
    and "PostCommand (x_poco e) (x_ws e) (x_ms e) rpc_id cmd (cr_SerialNumber c) (cr_Command c) params (cr_UUID c)
           False True deferred m = (Inr (True, Some q), m1)"
    and "promises (fst (during (m1, db))) q = None" and "cdb_writable (snd (during (m1, db)))"
    and "cr_UUID c \<notin> cr_UUID ` set (CommandList (snd (during (m1, db))))" and "x_t1 e \<noteq> 0"
  shows "\<exists>out m2 db2 r. WaitForCommand e during rpc_id cmd True c params object handler deferred (m, db) = (Inr out, m2, db2) \<and>
           find_command (cr_UUID c) db2 = Some r \<and> cr_Status r = ''pending'' \<and>
           (\<forall>now retry. \<not> ready now retry r \<and> r \<notin> set (ready_rows now retry db2))"
proof -
  let ?c = "c\<lparr> cr_Submitted := x_t0 e, cr_Executed := x_t1 e \<rparr>" and ?w = "during (m1, db)"
  have "cr_UUID ?c \<notin> cr_UUID ` set (CommandList (snd ?w))" using assms(7) by simp
  from leave_fresh [of "(RemovePendingCommand rpc_id (fst ?w), snd ?w)" ?c "x_t2 e" handler COMMAND_PENDING] this assms(6)
  obtain out kept where l: "leave (x_t2 e) handler COMMAND_PENDING ?c (RemovePendingCommand rpc_id (fst ?w), snd ?w) =
      (Inr out, RemovePendingCommand rpc_id (fst ?w), (snd ?w)\<lparr> CommandList := kept @ [stamp_command (x_t2 e) COMMAND_PENDING ?c] \<rparr>)"
      "cr_UUID c \<notin> cr_UUID ` set kept" by auto
  have "WaitForCommand e during rpc_id cmd True c params object handler deferred (m, db) =
      leave (x_t2 e) handler COMMAND_PENDING ?c (RemovePendingCommand rpc_id (fst ?w), snd ?w)"
    by (rule unanswered_left [of c n m e rpc_id cmd params deferred q m1 during db, OF assms(1-5)])
  moreover have "\<not> ready now retry (stamp_command (x_t2 e) COMMAND_PENDING ?c)" for now retry
    using assms(8) by (simp add: ready_def)
  moreover have "cr_Status (stamp_command (x_t2 e) COMMAND_PENDING ?c) = ''pending''" by simp
  ultimately show ?thesis
    using l find_added [OF l(2), of "stamp_command (x_t2 e) COMMAND_PENDING ?c" "snd ?w"]
    by (fastforce simp: ready_rows_def order_asc_def)
qed

lemma aged_ready:
  assumes "now \<noteq> 0" and "r \<in> set (CommandList (age_commands now t db))" and "ready now' retry r"
  shows "r \<in> set (CommandList db)"
  using assms
  by (auto simp: age_commands_def RemoveTimedOutCommands_def RemovedExpiredCommands_def cdb_exec_def update_where_def
      ready_def split: if_splits)

lemma age_append:
  assumes "\<not> sint (cr_Submitted r) < sint (now - t)"
  shows "CommandList (age_commands now t (db\<lparr> CommandList := kept @ [r] \<rparr>)) =
         CommandList (age_commands now t (db\<lparr> CommandList := kept \<rparr>)) @ [r]"
  using assms by (auto simp: age_commands_def RemoveTimedOutCommands_def RemovedExpiredCommands_def cdb_exec_def update_where_def)

lemma age_flags [simp]: "cdb_readable (age_commands now t db) = cdb_readable db"
  by (auto simp: age_commands_def RemoveTimedOutCommands_def RemovedExpiredCommands_def cdb_exec_def update_where_def)

text \<open>One due command, its device connected and idle: the step of the scheduler sends it.\<close>

lemma details_simps:
  "cd_UUID (details_of r) = cr_UUID r" "cd_SerialNumber (details_of r) = cr_SerialNumber r"
  "cd_Command (details_of r) = cr_Command r" "cd_Details (details_of r) = cr_Details r" "cd_Submitted (details_of r) = cr_Submitted r"
  by (simp_all add: details_of_def)

lemma step_lift: "andThen (lift_exn (Inr x)) f w = f x w"
  by (simp add: andThen_def lift_exn_def)

lemma schedule_sends:
  assumes "m_Running m" and "\<not> IsCommandRunning (cr_UUID r) m" and "\<not> now - cr_Submitted r > commandTimeOut m"
    and "SerialNumberToInt (cr_SerialNumber r) = Inr n" and "Connected n (m_server m)" and "CommandRunningForDevice n m = None"
    and "parse_object p (cr_Details r) = Inr params"
    and "PostCommand p ws now_ms (RPC_Id m + 1) (to_apcommand (cr_Command r)) (cr_SerialNumber r) (cr_Command r) params
           (cr_UUID r) False False False (m\<lparr> RPC_Id := RPC_Id m + 1 \<rparr>) = (Inr (True, entry), m1)"
  shows "schedule_one p ws now_ms now m (details_of r) = m1\<lparr> m_effects := m_effects m @ [Cmd_Executed (cr_UUID r)] \<rparr>"
proof -
  have "m_effects m1 = m_effects m"
    using PostCommand_effects [of p ws now_ms "RPC_Id m + 1" "to_apcommand (cr_Command r)" "cr_SerialNumber r" "cr_Command r"
        params "cr_UUID r" False False False "m\<lparr> RPC_Id := RPC_Id m + 1 \<rparr>"] assms(8) by simp
  moreover have post: "andThen (PostCommand p ws now_ms (RPC_Id m + 1) (to_apcommand (cr_Command r)) (cr_SerialNumber r)
      (cr_Command r) params (cr_UUID r) False False False) f (m\<lparr> RPC_Id := RPC_Id m + 1 \<rparr>) = f (True, entry) m1"
    for f :: "bool \<times> nat option \<Rightarrow> unit mgr"
    using assms(8) by (simp add: andThen_def)
  moreover have "andThen mgr_Next_RPC_ID f m = f (RPC_Id m + 1) (m\<lparr> RPC_Id := RPC_Id m + 1 \<rparr>)" for f :: "u64 \<Rightarrow> unit mgr"
    by (simp add: andThen_def mgr_Next_RPC_ID_def)
  ultimately have "try_command p ws now_ms now (details_of r) m = (Inr (), m1\<lparr> m_effects := m_effects m @ [Cmd_Executed (cr_UUID r)] \<rparr>)"
    using assms(2-7) post by (simp add: try_command_def details_simps step_lift log_command_def)
  with assms(1) show ?thesis by (simp add: schedule_one_def recover_def)
qed

lemma run_single:
  assumes "cdb_readable db" and "cdb_writable db" and "now \<noteq> 0"
    and "filter (ready now retry) (CommandList db) = [r]" and "SerialNumberToInt (cr_SerialNumber r) = Inr n"
    and "Connected n (m_server m)"
    and "schedule_one p ws now_ms now m (details_of r) = m1" and "m_effects m1 = m_effects m @ [Cmd_Executed (cr_UUID r)]"
  shows "run_batches p ws now_ms now et retry 0 (m, db) = (m1, snd (SetCommandExecuted now (cr_UUID r) db))"
proof -
  let ?db = "snd (SetCommandExecuted now (cr_UUID r) db)"
  have b: "next_batch now retry 0 (m, db) = [r]"
    using assms by (simp add: next_batch_def GetReadyToExecuteCommands_def ComputeRange_def ready_rows_def order_asc_def)
  have run: "run_batch p ws now_ms now et [r] (m, db) = (m1, ?db)"
    using assms by (simp add: run_batch_def since_def perform_all_def)
  have still: "x \<in> set (CommandList db) \<and> x \<noteq> r" if xin: "x \<in> set (CommandList ?db)" and xr: "ready now retry x" for x
  proof -
    obtain y where y: "y \<in> set (CommandList db)" "x = (if cr_UUID y = cr_UUID r then y\<lparr> cr_Executed := now, cr_Status := ''executed'' \<rparr> else y)"
      using xin assms(2) by (auto simp: SetCommandExecuted_def update_uuid_def cdb_exec_def update_where_def)
    have "cr_Executed x = 0" using xr by (simp add: ready_def)
    with y(2) assms(3) have "cr_UUID y \<noteq> cr_UUID r" by (cases "cr_UUID y = cr_UUID r") simp_all
    with y show ?thesis by auto
  qed
  have "filter (ready now retry) (CommandList ?db) = []"
  proof (rule ccontr)
    assume "filter (ready now retry) (CommandList ?db) \<noteq> []"
    then obtain x where "x \<in> set (CommandList ?db)" "ready now retry x" by (auto simp: filter_empty_conv)
    with still have "x \<in> set (filter (ready now retry) (CommandList db))" "x \<noteq> r" by auto
    with assms(4) show False by simp
  qed
  then have "next_batch now retry 1 (m1, ?db) = []"
    using next_batch_rows(1) [of now retry 1 "(m1, ?db)"] by (simp add: ready_rows_def order_asc_def)
  then have "run_batches p ws now_ms now et retry 1 (m1, ?db) = (m1, ?db)"
    by (subst run_batches.simps) simp
  moreover have "run_batches p ws now_ms now et retry 0 (m, db) = run_batches p ws now_ms now et retry 1 (m1, ?db)"
    using b run by (subst run_batches.simps) simp
  ultimately show ?thesis by simp
qed

text \<open>
  C8: a command for a device that is not connected is entered as pending and nothing is sent. When the device is
  connected later, and idle, before the command has expired, the next run of the scheduler sends it once, and it is
  executed then. No other command of the table is due at that time.
\<close>

theorem queued_command_delivered:
  assumes "SerialNumberToInt (cr_SerialNumber c) = Inr n" and "cr_RunAt c = 0" and "cr_lastTry c = 0"
    and "\<not> Connected n (m_server m)" and "cdb_readable db" and "cdb_writable db"
    and "cr_UUID c \<notin> cr_UUID ` set (CommandList db)" and "\<forall>r\<in>set (CommandList db). \<not> ready now retry r"
    and "0 \<le> sint now" and "now \<noteq> 0" and "\<not> sint (x_t0 e) < sint (now - commandTimeOut m')"
    and "\<not> now - x_t0 e > commandTimeOut m'"
    and "m_Running m'" and "\<not> IsCommandRunning (cr_UUID c) m'" and "Connected n (m_server m')"
    and "CommandRunningForDevice n m' = None" and "parse_object p (cr_Details c) = Inr params'"
    and "PostCommand p ws now_ms (RPC_Id m' + 1) (to_apcommand (cr_Command c)) (cr_SerialNumber c) (cr_Command c) params'
           (cr_UUID c) False False False (m'\<lparr> RPC_Id := RPC_Id m' + 1 \<rparr>) = (Inr (True, entry), m'')"
  shows "\<exists>out db1 db2. WaitForCommand e during rpc_id cmd True c params object handler deferred (m, db) = (Inr out, m, db1) \<and>
           run_scheduler p ws now_ms now et retry (m', db1) =
             (m''\<lparr> m_effects := m_effects m' @ [Cmd_Executed (cr_UUID c)] \<rparr>, db2) \<and>
           done_row (cr_UUID c) db2"
proof -
  let ?c = "c\<lparr> cr_Submitted := x_t0 e, cr_Executed := 0 \<rparr>"
  define r where "r = stamp_command (x_t0 e) COMMAND_PENDING ?c"
  have r: "cr_UUID r = cr_UUID c" "cr_SerialNumber r = cr_SerialNumber c" "cr_Command r = cr_Command c"
    "cr_Details r = cr_Details c" "cr_Submitted r = x_t0 e" "ready now retry r"
    using assms(2,3,9) by (simp_all add: r_def ready_def)
  obtain out kept where l: "leave (x_t0 e) handler COMMAND_PENDING ?c (m, db) = (Inr out, m, db\<lparr> CommandList := kept @ [r] \<rparr>)"
    "set kept \<subseteq> set (CommandList db)" "cr_UUID c \<notin> cr_UUID ` set kept"
    using leave_fresh [of "(m, db)" ?c "x_t0 e" handler COMMAND_PENDING] assms(6,7) by (auto simp: r_def)
  let ?db1 = "db\<lparr> CommandList := kept @ [r] \<rparr>"
  have w: "WaitForCommand e during rpc_id cmd True c params object handler deferred (m, db) = (Inr out, m, ?db1)"
    using assms(1,2,4) l(1) by (simp add: WaitForCommand_def Let_def)
  let ?aged = "age_commands now (commandTimeOut m') ?db1"
  let ?rest = "age_commands now (commandTimeOut m') (db\<lparr> CommandList := kept \<rparr>)"
  have aged: "CommandList ?aged = CommandList ?rest @ [r]" by (rule age_append) (use r assms(11) in simp)
  have "filter (ready now retry) (CommandList ?rest) = []"
    using aged_ready [OF assms(10), of _ "commandTimeOut m'" "db\<lparr> CommandList := kept \<rparr>" now retry] l(2) assms(8)
    by (auto simp: filter_empty_conv)
  with aged r(6) have one: "filter (ready now retry) (CommandList ?aged) = [r]" by simp
  have step: "schedule_one p ws now_ms now m' (details_of r) = m''\<lparr> m_effects := m_effects m' @ [Cmd_Executed (cr_UUID r)] \<rparr>"
    by (rule schedule_sends) (use assms(1,12-18) r in simp_all)
  have run: "run_scheduler p ws now_ms now et retry (m', ?db1) =
      (m''\<lparr> m_effects := m_effects m' @ [Cmd_Executed (cr_UUID c)] \<rparr>, snd (SetCommandExecuted now (cr_UUID c) ?aged))"
    using run_single [OF _ _ assms(10) one _ assms(15) step] assms(1,5,6) r by (simp add: run_scheduler_def)
  have "find_command (cr_UUID c) ?aged \<noteq> None"
    unfolding find_command_known aged using r(1) by simp
  then have "done_row (cr_UUID c) (snd (SetCommandExecuted now (cr_UUID c) ?aged))"
    using assms(6,10) by (auto simp: done_row_def SetCommandExecuted_def find_update_uuid)
  with w run show ?thesis by blast
qed

lemma post_sent:
  assumes "om_wf (Outstanding m)" and "SerialNumberToInt serial = Inr n"
    and "PostCommand p ws now i cmd serial method params uuid False True deferred m = (Inr (True, Some q), m1)"
  shows "\<exists>c. om_find (Outstanding m1) i = Some c \<and> ci_Id c = i \<and> ci_SerialNumber c = n \<and> ci_Command c = cmd \<and>
             ci_rpc_entry c = Some q \<and> ci_State c = (if cmd = AP_script \<and> deferred then 2 else 1) \<and> ci_Deferred c = deferred"
    and "q = next_promise m" "promises m1 = promises m" "om_wf (Outstanding m1)"
  using assms
  by (auto simp: PostCommand_def andThen_def lift_exn_def ret_def send_to_device_def on_outstanding_def Let_def
      om.lookup_store om.wf_store split: sum.splits prod.splits if_splits)

text \<open>The answers that end a wait: any, except that the first answer to a deferred script has an error code of zero.\<close>

definition ends_wait :: "poco \<Rightarrow> command_info \<Rightarrow> jobject \<Rightarrow> bool" where
  "ends_wait p c answer \<longleftrightarrow>
     (ci_Command c = AP_script \<and> ci_State c = 2 \<longrightarrow>
        j_isObject answer ''result'' \<and> j_isObject (j_getObject answer ''result'') ''status'' \<and>
        p_u64 p (j_get (j_getObject (j_getObject answer ''result'') ''status'') ''error'') = Inr 0)"

lemma object_there:
  "j_isObject obj k \<Longrightarrow> j_has obj k \<and> object_at obj k = Some (j_getObject obj k)"
  by (auto simp: j_isObject_def j_has_def object_at_def j_getObject_def split: option.splits json.splits)

lemma answer_taken:
  assumes "om_find (Outstanding m) i = Some c" and "ci_Id c = i" and "ci_SerialNumber c = n" and "ci_rpc_entry c = Some q"
    and "ci_State c = (if ci_Command c = AP_script \<and> ci_Deferred c then 2 else 1)" and "ends_wait p c answer"
    and "promises m q = None" and "\<not> i \<le> 1"
    and "j_has answer ''id''" and "p_u64 p (j_get answer ''id'') = Inr i" and "om_wf (Outstanding m)"
  shows "promises (process_response p cd t (n, answer) m) q = Some answer"
    and "om_find (Outstanding (process_response p cd t (n, answer) m)) i =
           (if ci_Command c = AP_script \<and> ci_Deferred c then Some (c\<lparr> ci_State := 1 \<rparr>) else None)"
proof -
  consider (deferred) "ci_Command c = AP_script" "ci_Deferred c" | (script) "ci_Command c = AP_script" "\<not> ci_Deferred c"
    | (plain) "ci_Command c \<noteq> AP_script" by blast
  then have "promises (process_response p cd t (n, answer) m) q = Some answer \<and>
      om_find (Outstanding (process_response p cd t (n, answer) m)) i =
        (if ci_Command c = AP_script \<and> ci_Deferred c then Some (c\<lparr> ci_State := 1 \<rparr>) else None)"
  proof cases
    case deferred
    then have o: "j_isObject answer ''result''" "j_isObject (j_getObject answer ''result'') ''status''"
      "p_u64 p (j_get (j_getObject (j_getObject answer ''result'') ''status'') ''error'') = Inr 0"
      using assms(5,6) by (simp_all add: ends_wait_def)
    have "script_answer p c answer m = (Inr (1, True), m\<lparr> m_effects := m_effects m @ [Cmd_Completed (ci_UUID c) answer] \<rparr>)"
      using deferred assms(5) object_there [OF o(1)] object_there [OF o(2)] o(3)
      by (simp add: script_answer_def error_code_def deref_def lift_exn_def log_command_def andThen_def ret_def)
    with deferred assms show ?thesis
      by (simp add: process_response_def handle_response_def CompleteScriptCommand_def set_state_def on_outstanding_def
          set_value_def andThen_def om.lookup_same)
  next
    case script
    with assms show ?thesis
      by (simp add: process_response_def handle_response_def CompleteScriptCommand_def script_answer_def log_command_def
          on_outstanding_def set_value_def andThen_def ret_def om.lookup_drop)
  next
    case plain
    with assms show ?thesis
      by (auto simp: process_response_def handle_response_def finish_request_def log_command_def on_outstanding_def
          set_value_def andThen_def CompleteTelemetryCommand_def om.lookup_drop)
  qed
  then show "promises (process_response p cd t (n, answer) m) q = Some answer"
    and "om_find (Outstanding (process_response p cd t (n, answer) m)) i =
           (if ci_Command c = AP_script \<and> ci_Deferred c then Some (c\<lparr> ci_State := 1 \<rparr>) else None)" by simp_all
qed


section \<open>An exchange to evaluate the properties on\<close>

definition online_server :: server where
  "online_server =
     fresh_server\<lparr> conns := (\<lambda>_. (fresh_connection 1 0)\<lparr> State := (fresh_state 1)\<lparr> s_Connected := True \<rparr> \<rparr>),
                   SerialNumbers := sh_set MACHash 0x24f5a207a131 (Some 1) (\<lambda>_. []) \<rparr>"

definition online_manager :: manager where
  "online_manager = (plain_manager (plain_request AP_trace 1 None) [])\<lparr> Outstanding := [], m_server := online_server \<rparr>"

definition offline_manager :: manager where
  "offline_manager = online_manager\<lparr> m_server := fresh_server \<rparr>"

definition details_poco :: poco where
  "details_poco = poco_of [(''old'', [])]"

definition plain_rpc :: rpc_env where
  "plain_rpc =
     \<lparr> x_poco = details_poco, x_ws = (\<lambda>_ s. Sent_Acked (length s)), x_scan = (\<lambda>_. []), x_quote = id, x_b64 = id,
       x_uncompress = (\<lambda>_ _. Z_FAILED), x_ms = 0, x_t0 = 50, x_t1 = 51, x_t2 = 52, x_et = 7 \<rparr>"

lemma online_device: "device_conn 0x24f5a207a131 online_server = Some 1" "device_conn n fresh_server = None"
  by (simp_all add: online_server_def device_conn_def sh.lookup_same fresh_server_def sh_find_def)
    (simp add: sh_set_def om_find_def)

lemma online_connected: "Connected 0x24f5a207a131 online_server" "\<not> Connected n fresh_server"
  using online_device by (simp_all add: Connected_def) (simp add: online_server_def fresh_connection_def)

lemma zero_number: "SerialNumberToInt ''24f5a207a131'' = Inr 0x24f5a207a131"
  by (rule plain_number)

lemma online_simps [simp]:
  "m_server online_manager = online_server" "Outstanding online_manager = []" "m_Running online_manager"
  "commandTimeOut online_manager = 60" "promises online_manager q = None" "m_server offline_manager = fresh_server"
  by (simp_all add: online_manager_def offline_manager_def plain_manager_def)

lemma rpc_simps [simp]:
  "x_poco plain_rpc = details_poco" "x_ws plain_rpc = (\<lambda>_ s. Sent_Acked (length s))" "x_ms plain_rpc = 0" "x_t0 plain_rpc = 50"
  "x_t1 plain_rpc = 51" "x_t2 plain_rpc = 52"
  by (simp_all add: plain_rpc_def)

lemma online_post:
  assumes "Outstanding m = []" and "m_server m = online_server"
  obtains m' where "PostCommand p (\<lambda>_ s. Sent_Acked (length s)) now i cmd ''24f5a207a131'' method params uuid False rpc deferred m =
    (Inr (True, if rpc then Some (next_promise m) else None), m')"
proof
  have "\<not> Dead (conns online_server 1)" by (simp add: online_server_def fresh_connection_def)
  then show "PostCommand p (\<lambda>_ s. Sent_Acked (length s)) now i cmd ''24f5a207a131'' method params uuid False rpc deferred m =
    (Inr (True, if rpc then Some (next_promise m) else None),
     snd (PostCommand p (\<lambda>_ s. Sent_Acked (length s)) now i cmd ''24f5a207a131'' method params uuid False rpc deferred m))"
    using assms zero_number online_device(1)
    by (simp add: PostCommand_def andThen_def lift_exn_def ret_def send_to_device_def SendFrame_def on_connection_def
        conn_Send_def Let_def split: prod.split)
qed

theorem unanswered_never_ready_witness:
  "\<exists>out m2 db2 r. WaitForCommand plain_rpc id 9 AP_reboot True (due_command ''v'' ''24f5a207a131'') [] False (Some False) False
       (online_manager, plain_db []) = (Inr out, m2, db2) \<and>
     find_command ''v'' db2 = Some r \<and> cr_Status r = ''pending'' \<and> \<not> ready 1000 120 r"
proof -
  obtain m' where m': "PostCommand details_poco (\<lambda>_ s. Sent_Acked (length s)) 0 9 AP_reboot ''24f5a207a131'' ''reboot'' [] ''v'' False True False online_manager =
     (Inr (True, Some (next_promise online_manager)), m')"
    using online_post [of online_manager details_poco 0 9 AP_reboot "''reboot''" "[]" "''v''" True False] by auto
  have "promises m' (next_promise online_manager) = None"
    using post_sent(3) [OF _ zero_number m'] by (simp add: om_wf_def)
  with unanswered_never_ready [of "due_command ''v'' ''24f5a207a131''" "0x24f5a207a131" online_manager plain_rpc 9 AP_reboot "[]" False
      "next_promise online_manager" m' id "plain_db []" False "Some False"] m' zero_number online_connected(1)
  show ?thesis by auto
qed

theorem queued_command_delivered_witness:
  "\<exists>out db1 db2 m''. WaitForCommand plain_rpc id 9 AP_reboot True (due_command ''v'' ''24f5a207a131'') [] False (Some False) False
       (offline_manager, plain_db []) = (Inr out, offline_manager, db1) \<and>
     run_scheduler details_poco (\<lambda>_ s. Sent_Acked (length s)) 0 100 0 120 (online_manager, db1) = (m'', db2) \<and>
     Cmd_Executed ''v'' \<in> set (m_effects m'') \<and> done_row ''v'' db2"
proof -
  obtain m'' where m'': "PostCommand details_poco (\<lambda>_ s. Sent_Acked (length s)) 0 (RPC_Id online_manager + 1) (to_apcommand ''reboot'') ''24f5a207a131''
      ''reboot'' [] ''v'' False False False (online_manager\<lparr> RPC_Id := RPC_Id online_manager + 1 \<rparr>) = (Inr (True, None), m'')"
    using online_post [of "online_manager\<lparr> RPC_Id := RPC_Id online_manager + 1 \<rparr>" details_poco 0 "RPC_Id online_manager + 1"
        "to_apcommand ''reboot''" "''reboot''" "[]" "''v''" False False] by auto
  have d: "parse_object details_poco (cr_Details (due_command ''v'' ''24f5a207a131'')) = Inr []"
    by (simp add: details_poco_def poco_of_def parse_object_def extract_object_def due_command_def)
  have idle: "\<not> IsCommandRunning ''v'' online_manager" "CommandRunningForDevice 0x24f5a207a131 online_manager = None"
    by (simp_all add: IsCommandRunning_def CommandRunningForDevice_def)
  from queued_command_delivered [of "due_command ''v'' ''24f5a207a131''" "0x24f5a207a131" offline_manager "plain_db []" 100 120 plain_rpc online_manager
      details_poco "[]" "\<lambda>_ s. Sent_Acked (length s)" 0 None m'' id 9 AP_reboot "[]" False "Some False" False 0]
    m'' d idle zero_number online_connected
  show ?thesis by fastforce
qed

definition reboot_answer :: jobject where
  "reboot_answer = [(''id'', JInt 9), (''result'', JObj [(''status'', JObj [(''error'', JInt 0), (''text'', JStr ''Success'')])])]"

lemma reboot_answer_shape:
  "j_has reboot_answer ''id''" "p_u64 details_poco (j_get reboot_answer ''id'') = Inr 9" "j_isObject reboot_answer ''result''"
  "j_isObject (j_getObject reboot_answer ''result'') ''status''"
  "j_getObject (j_getObject reboot_answer ''result'') ''status'' = [(''error'', JInt 0), (''text'', JStr ''Success'')]"
  "j_has [(''error'', JInt 0), (''text'', JStr ''Success'')] ''error''" "j_has [(''error'', JInt 0), (''text'', JStr ''Success'')] ''text''"
  "p_u64 details_poco (j_get [(''error'', JInt 0), (''text'', JStr ''Success'')] ''error'') = Inr 0"
  "p_string details_poco (j_get [(''error'', JInt 0), (''text'', JStr ''Success'')] ''text'') = Inr ''Success''"
  "answer_text plain_rpc (due_command ''v'' ''24f5a207a131'') (j_getObject reboot_answer ''result'') reboot_answer =
     Inr (p_stringify details_poco (j_getObject reboot_answer ''result''))"
  by (simp_all add: reboot_answer_def j_has_def j_get_def j_isObject_def j_getObject_def om_find_def details_poco_def poco_of_def
      answer_text_def due_command_def plain_rpc_def)


end
