(* ===== verification/GW_DeviceState.thy ===== *)
theory GW_DeviceState
  imports GW_Handler GW_CommandObjects GW_Rpc GW_RadiusSessions
begin

text \<open>
  What is asked about a device and deleted of it (\<^verbatim>\<open>src/RESTAPI/RESTAPI_device_commandHandler.cpp\<close>, \<^verbatim>\<open>DoGet\<close> and
  \<^verbatim>\<open>DoDelete\<close> apart from packages and terminals), and the state all commands of the handler work on: the command
  manager with the storage and the server, the dated tables with the command table, the scripts, the RADIUS sessions,
  and a list of the calls that leave it.
\<close>

section \<open>State and surroundings\<close>

datatype gateway_effect =
    Gw_ExpectUpload string u64 string
  | Gw_Kafka string string string
  | Gw_ConfigChanged u64 u64 jobject
  | Gw_Server effect

record gateway =
  g_mgr :: manager
  g_tables :: archive_tables
  g_scripts :: "script_entry list"
  g_radius :: sessions
  g_effects :: "gateway_effect list"

abbreviation g_store :: "gateway \<Rightarrow> storage" where
  "g_store g \<equiv> m_store (g_mgr g)"

abbreviation g_server :: "gateway \<Rightarrow> server" where
  "g_server g \<equiv> m_server (g_mgr g)"

abbreviation g_commands :: "gateway \<Rightarrow> command_db" where
  "g_commands g \<equiv> a_commands (g_tables g)"

text \<open>
  \<open>q_during\<close> is what happens while an answer is awaited. \<open>q_validate\<close> is the configuration validator: the error, if
  there is one. \<open>q_sign\<close> and \<open>q_sign_uri\<close> are the signatures of a script and of an address, empty when there is no
  key. \<open>q_uri\<close> gives the scheme of an address. The garbage is what variables hold that are not initialised.
\<close>

record cmd_env =
  q_rpc :: rpc_env
  q_during :: "manager \<times> command_db \<Rightarrow> manager \<times> command_db"
  q_codec :: codec
  q_now :: u64
  q_millis :: int
  q_new_uuid :: string
  q_replace :: "string \<Rightarrow> string \<Rightarrow> string \<Rightarrow> string"
  q_validate :: "string \<Rightarrow> string \<Rightarrow> bool \<Rightarrow> string option"
  q_truth :: "json \<Rightarrow> cpp_exn + bool"
  q_deflate :: "nat \<Rightarrow> string \<Rightarrow> bytes option"
  q_sign :: "restrictions \<Rightarrow> string \<Rightarrow> string"
  q_sign_uri :: "restrictions \<Rightarrow> string \<Rightarrow> string"
  q_uri :: "string \<Rightarrow> cpp_exn + string"
  q_upload :: string
  q_real :: "u64 \<Rightarrow> string"
  q_ms_text :: "u64 \<Rightarrow> string"
  q_gunz :: "nat \<Rightarrow> string \<Rightarrow> string"
  q_setting :: "string \<Rightarrow> string \<Rightarrow> string"
  q_number :: "string \<Rightarrow> u64 \<Rightarrow> u64"
  q_rtty_enabled :: bool
  q_rtty_internal :: bool
  q_rtty_id :: string
  q_rtty_token :: string
  q_rtty_endpoint :: "string \<Rightarrow> string \<Rightarrow> string \<Rightarrow> string \<Rightarrow> bool \<Rightarrow> bool"
  q_telemetry_endpoint :: "u64 \<Rightarrow> string \<Rightarrow> string option"
  q_garbage :: u64
  q_garbage_flag :: bool
  q_garbage_telemetry :: telemetry_parameters

abbreviation q_poco :: "cmd_env \<Rightarrow> poco" where
  "q_poco q \<equiv> x_poco (q_rpc q)"

text \<open>What is answered: a JSON value, the text of one, the reply of a command, or only a status.\<close>

datatype payload = Pay_Json jobject | Pay_Text string | Pay_Rpc reply | Pay_Status nat

type_synonym 'a gop = "(gateway, 'a) op"

definition bad :: "string \<Rightarrow> payload rest_reply gop" where
  "bad why = ret (Rest_BadRequest why)"

definition refused :: "string \<Rightarrow> payload rest_reply gop" where
  "refused why = ret (Rest_UnAuthorized why)"

definition answer :: "jobject \<Rightarrow> payload rest_reply gop" where
  "answer obj = ret (Rest_Object (Pay_Json obj))"

definition with_gw :: "(gateway \<Rightarrow> 'a gop) \<Rightarrow> 'a gop" where
  "with_gw f g = f g g"

definition on_mgr :: "'a mgr \<Rightarrow> 'a gop" where
  "on_mgr f g = (case f (g_mgr g) of (r, m) \<Rightarrow> (r, g\<lparr> g_mgr := m \<rparr>))"

definition on_gw_store :: "(storage \<Rightarrow> (cpp_exn + 'a) \<times> storage) \<Rightarrow> 'a gop" where
  "on_gw_store f g = (case f (g_store g) of (r, st) \<Rightarrow> (r, g\<lparr> g_mgr := (g_mgr g)\<lparr> m_store := st \<rparr> \<rparr>))"

definition on_gw_server :: "(server \<Rightarrow> server \<times> effect list) \<Rightarrow> unit gop" where
  "on_gw_server f g =
     (case f (g_server g) of (s, es) \<Rightarrow>
        (Inr (), g\<lparr> g_mgr := (g_mgr g)\<lparr> m_server := s \<rparr>, g_effects := g_effects g @ map Gw_Server es \<rparr>))"

definition on_tables :: "(archive_tables \<Rightarrow> 'a \<times> archive_tables) \<Rightarrow> 'a gop" where
  "on_tables f g = (case f (g_tables g) of (r, t) \<Rightarrow> (Inr r, g\<lparr> g_tables := t \<rparr>))"

definition gw_emit :: "gateway_effect \<Rightarrow> unit gop" where
  "gw_emit x g = (Inr (), g\<lparr> g_effects := g_effects g @ [x] \<rparr>)"

text \<open>The device, the identifiers made for the command, and what the server says of the device's restrictions.\<close>

record cmd_call =
  cc_data :: call_data
  cc_serial :: string
  cc_int :: u64
  cc_uuid :: string
  cc_rpc :: u64
  cc_restrictions :: restrictions

section \<open>Statistics, logs, health checks\<close>

text \<open>The conversion of a list ends at the first exception; a failed query leaves the list empty.\<close>

fun all_json :: "('r \<Rightarrow> cpp_exn + jobject) \<Rightarrow> 'r list \<Rightarrow> cpp_exn + jobject list" where
  "all_json f [] = Inr []"
| "all_json f (r # rs) = try_bind (f r) (\<lambda>o'. map_sum id (\<lambda>os. o' # os) (all_json f rs))"

definition answer_list :: "string \<Rightarrow> string \<Rightarrow> ('r \<Rightarrow> cpp_exn + jobject) \<Rightarrow> 'r list option \<Rightarrow> payload rest_reply gop" where
  "answer_list name serial f rs =
     andThen (lift_exn (all_json f (case rs of None \<Rightarrow> [] | Some xs \<Rightarrow> xs))) (\<lambda>os.
       answer (writes [objs_to_json name os, str_to_json ''serialNumber'' serial] []))"

definition rest_GetCapabilities :: "cmd_env \<Rightarrow> cmd_call \<Rightarrow> payload rest_reply gop" where
  "rest_GetCapabilities q k = with_gw (\<lambda>g.
     case GetDeviceCapabilities (cc_serial k) (g_store g) of
       None \<Rightarrow> ret Rest_NotFound
     | Some caps \<Rightarrow> andThen (lift_exn (Capabilities_to_json (q_poco q) caps)) (\<lambda>obj.
                     answer (str_to_json ''serialNumber'' (cc_serial k) obj)))"

definition DeleteCapabilities :: "cmd_call \<Rightarrow> payload rest_reply gop" where
  "DeleteCapabilities k =
     andThen (on_gw_store (DeleteDeviceCapabilities (cc_serial k))) (\<lambda>ok. ret (if ok then Rest_OK else Rest_NotFound))"

text \<open>The statistics of now, the newest, a count, or those of a span, at most a hundred.\<close>

definition rest_GetStatistics :: "cmd_env \<Rightarrow> cmd_call \<Rightarrow> payload rest_reply gop" where
  "rest_GetStatistics q k = with_gw (\<lambda>g.
     let qb = hd_query (cc_data k); s = cc_serial k; t = a_stats (g_tables g) in
     if qb_LastOnly qb then
       (case GetStatistics (q_gunz q) (cc_int k) (g_server g) of
          (True, Some stats) \<Rightarrow>
            if stats \<noteq> [] then ret (Rest_Object (Pay_Text stats))
            else if Connected (cc_int k) (g_server g) then bad ''NoDeviceStatisticsYet'' else bad ''DeviceNotConnected''
        | _ \<Rightarrow> if Connected (cc_int k) (g_server g) then bad ''NoDeviceStatisticsYet'' else bad ''DeviceNotConnected'')
     else if qb_Newest qb then
       answer_list ''data'' s (Statistics_to_json (q_poco q)) (GetNewestStatisticsData s (unat (qb_Limit qb)) t)
     else if qb_CountOnly qb then
       answer (u64_to_json ''count''
                 (case GetNumberOfStatisticsDataRecords s (qb_StartDate qb) (qb_EndDate qb) t of None \<Rightarrow> 0 | Some n \<Rightarrow> of_nat n) [])
     else
       answer_list ''data'' s (Statistics_to_json (q_poco q))
         (GetStatisticsData s (qb_StartDate qb) (qb_EndDate qb) (unat (qb_Offset qb)) (unat (min (qb_Limit qb) 100)) t))"

definition DeleteStatistics :: "cmd_call \<Rightarrow> payload rest_reply gop" where
  "DeleteStatistics k =
     (let qb = hd_query (cc_data k) in
      andThen (on_tables (\<lambda>t. case DeleteStatisticsData (cc_serial k) (qb_StartDate qb) (qb_EndDate qb) (a_stats t) of
                 (ok, x) \<Rightarrow> (ok, t\<lparr> a_stats := x \<rparr>)))
        (\<lambda>ok. ret (if ok then Rest_OK else Rest_NotFound)))"

text \<open>The state of a connection that has ended is that of a new one.\<close>

definition GetStatus :: "cmd_env \<Rightarrow> cmd_call \<Rightarrow> payload rest_reply gop" where
  "GetStatus q k = with_gw (\<lambda>g.
     case GetState (cc_int k) (g_server g) of
       (True, s) \<Rightarrow> answer (ConnectionState_to_json (q_now q) (of_nat (HasSessions (cc_serial k) (g_radius g)))
                             (case s of None \<Rightarrow> fresh_state 0 | Some x \<Rightarrow> x) [])
     | (False, _) \<Rightarrow> answer (writes [str_to_json ''serialNumber'' (cc_serial k), bool_to_json ''connected'' False] []))"

definition GetLogs :: "cmd_env \<Rightarrow> cmd_call \<Rightarrow> payload rest_reply gop" where
  "GetLogs q k = with_gw (\<lambda>g.
     let qb = hd_query (cc_data k); s = cc_serial k; t = a_logs (g_tables g) in
     answer_list ''values'' s (DeviceLog_to_json (q_poco q))
       (if qb_Newest qb then GetNewestLogData s (unat (qb_Limit qb)) (qb_LogType qb) t
        else GetLogData s (qb_StartDate qb) (qb_EndDate qb) (unat (qb_Offset qb)) (unat (qb_Limit qb)) (qb_LogType qb) t))"

definition DeleteLogs :: "cmd_call \<Rightarrow> payload rest_reply gop" where
  "DeleteLogs k =
     (let qb = hd_query (cc_data k) in
      andThen (on_tables (\<lambda>t. case DeleteLogData (cc_serial k) (qb_StartDate qb) (qb_EndDate qb) (qb_LogType qb) (a_logs t) of
                 (ok, x) \<Rightarrow> (ok, t\<lparr> a_logs := x \<rparr>)))
        (\<lambda>ok. if ok then ret Rest_OK else bad ''NoRecordsDeleted''))"

definition blank_check :: health_check where
  "blank_check = \<lparr> h_SerialNumber = [], h_UUID = 0, h_Data = [], h_Recorded = 0, h_Sanity = 0 \<rparr>"

definition GetChecks :: "cmd_env \<Rightarrow> cmd_call \<Rightarrow> payload rest_reply gop" where
  "GetChecks q k = with_gw (\<lambda>g.
     let qb = hd_query (cc_data k); s = cc_serial k; t = a_health (g_tables g) in
     if qb_LastOnly qb then
       (case GetHealthcheck (cc_int k) (g_server g) of
          (True, h) \<Rightarrow> andThen (lift_exn (HealthCheck_to_json (q_poco q) (case h of None \<Rightarrow> blank_check | Some x \<Rightarrow> x))) answer
        | (False, _) \<Rightarrow> ret Rest_NotFound)
     else
       answer_list ''values'' s (HealthCheck_to_json (q_poco q))
         (if qb_Newest qb then GetNewestHealthCheckData s (unat (qb_Limit qb)) t
          else GetHealthCheckData s (qb_StartDate qb) (qb_EndDate qb) (unat (qb_Offset qb)) (unat (qb_Limit qb)) t))"

definition DeleteChecks :: "cmd_call \<Rightarrow> payload rest_reply gop" where
  "DeleteChecks k =
     (let qb = hd_query (cc_data k) in
      andThen (on_tables (\<lambda>t. case DeleteHealthCheckData (cc_serial k) (qb_StartDate qb) (qb_EndDate qb) (a_health t) of
                 (ok, x) \<Rightarrow> (ok, t\<lparr> a_health := x \<rparr>)))
        (\<lambda>ok. if ok then ret Rest_OK else bad ''NoRecordsDeleted''))"

end
