(* ===== verification/GW_DeviceCommands.thy ===== *)
theory GW_DeviceCommands
  imports GW_DeviceState
begin

text \<open>
  The commands an operator gives to a device (\<^verbatim>\<open>src/RESTAPI/RESTAPI_device_commandHandler.cpp\<close>): one definition per
  method, in the order of the file, and at the end \<^verbatim>\<open>DoGet\<close>, \<^verbatim>\<open>DoDelete\<close>, \<^verbatim>\<open>DoPost\<close> with its table. Each is given the
  identifiers made for the command; what it checks, enters and sends is written out, logging is not.
\<close>

section \<open>Shared steps\<close>

definition IsDeviceSimulated :: "cmd_env \<Rightarrow> string \<Rightarrow> gateway \<Rightarrow> bool" where
  "IsDeviceSimulated q serial g = (case GetDevice (q_codec q) serial (g_store g) of None \<Rightarrow> False | Some d \<Rightarrow> simulated d)"

definition unless_simulated :: "cmd_env \<Rightarrow> cmd_call \<Rightarrow> payload rest_reply gop \<Rightarrow> payload rest_reply gop" where
  "unless_simulated q k f = with_gw (\<lambda>g.
     if IsDeviceSimulated q (cc_serial k) g then bad ''SimulatedDeviceNotSupported'' else f)"

definition privileged :: "cmd_call \<Rightarrow> payload rest_reply gop \<Rightarrow> payload rest_reply gop" where
  "privileged k f =
     (if u_role (hd_user (cc_data k)) \<noteq> ROOT \<and> u_role (hd_user (cc_data k)) \<noteq> ADMIN then refused ''ACCESS_DENIED'' else f)"

definition with_body :: "cmd_call \<Rightarrow> (jobject \<Rightarrow> payload rest_reply gop) \<Rightarrow> payload rest_reply gop" where
  "with_body k f = andThen (lift_exn (ParsedBody (cc_data k))) f"

definition same_serial :: "cmd_env \<Rightarrow> cmd_call \<Rightarrow> jobject \<Rightarrow> payload rest_reply gop \<Rightarrow> payload rest_reply gop" where
  "same_serial q k obj f =
     andThen (lift_exn (p_string (q_poco q) (j_get obj ''serialNumber''))) (\<lambda>s.
       if s \<noteq> cc_serial k then bad ''SerialNumberMismatch'' else f)"

text \<open>The record of a command; \<^verbatim>\<open>Submitted\<close> is the time of its making.\<close>

definition new_command :: "cmd_env \<Rightarrow> cmd_call \<Rightarrow> string \<Rightarrow> u64 \<Rightarrow> string \<Rightarrow> command_row" where
  "new_command q k name run_at details =
     blank_command\<lparr> cr_SerialNumber := cc_serial k, cr_UUID := cc_uuid k, cr_SubmittedBy := u_requester (hd_user (cc_data k)),
                    cr_Command := name, cr_RunAt := run_at, cr_Details := details, cr_Submitted := q_now q \<rparr>"

definition strict_of :: "cmd_call \<Rightarrow> bool" where
  "strict_of k = GetBoolParameter ''strict'' False (rq_parameters (hd_request (cc_data k)))"

text \<open>The exchange with the device; a changed configuration is announced.\<close>

definition exchange ::
    "cmd_env \<Rightarrow> cmd_call \<Rightarrow> ap_command \<Rightarrow> bool \<Rightarrow> command_row \<Rightarrow> jobject \<Rightarrow> bool \<Rightarrow> bool option \<Rightarrow> bool \<Rightarrow> rpc_out gop" where
  "exchange q k cmd retry c params object handler deferred g =
     (case WaitForCommand (q_rpc q) (q_during q) (cc_rpc k) cmd retry c params object handler deferred (g_mgr g, g_commands g) of
        (r, m, db) \<Rightarrow>
          (r, g\<lparr> g_mgr := m, g_tables := (g_tables g)\<lparr> a_commands := db \<rparr>,
                 g_effects := g_effects g @
                   (case r of Inr out \<Rightarrow> (case ro_event out of None \<Rightarrow> [] | Some (n, u, cfg) \<Rightarrow> [Gw_ConfigChanged n u cfg])
                            | Inl _ \<Rightarrow> []) \<rparr>))"

definition replied :: "rpc_out \<Rightarrow> payload rest_reply gop" where
  "replied out = ret (Rest_Object (Pay_Rpc (ro_reply out)))"

definition send_and_reply :: "cmd_env \<Rightarrow> cmd_call \<Rightarrow> ap_command \<Rightarrow> bool \<Rightarrow> command_row \<Rightarrow> jobject \<Rightarrow> payload rest_reply gop" where
  "send_and_reply q k cmd retry c params = andThen (exchange q k cmd retry c params False (Some (strict_of k)) False) replied"

abbreviation json_text :: "cmd_env \<Rightarrow> jobject \<Rightarrow> string" where
  "json_text q obj \<equiv> p_stringify (q_poco q) obj"

section \<open>Packages\<close>

text \<open>The exchange has no handler to reply through; the results in the record are the answer.\<close>

definition package_exchange :: "cmd_env \<Rightarrow> cmd_call \<Rightarrow> jobject \<Rightarrow> payload rest_reply gop" where
  "package_exchange q k params =
     andThen (exchange q k AP_package False (new_command q k ''package'' 0 (json_text q params)) params False None False) (\<lambda>out.
     andThen (lift_exn (CommandDetails_to_json (q_poco q) (q_real q) (ro_command out))) (\<lambda>obj.
     andThen (lift_exn (extract_object (j_get obj ''results''))) answer))"

definition GetPackages :: "cmd_env \<Rightarrow> cmd_call \<Rightarrow> string \<Rightarrow> payload rest_reply gop" where
  "GetPackages q k pkg =
     unless_simulated q k
       (package_exchange q k (writes [str_to_json ''op'' ''list'', str_to_json ''serial'' (cc_serial k), str_to_json ''package'' pkg] []))"

definition package_change ::
    "cmd_env \<Rightarrow> cmd_call \<Rightarrow> string \<Rightarrow> (jobject \<Rightarrow> bool \<times> jobject list) \<Rightarrow> payload rest_reply gop" where
  "package_change q k operation pkgs =
     privileged k (unless_simulated q k (with_body k (\<lambda>obj.
       if \<not> j_has obj ''serialNumber'' then bad ''MissingOrInvalidParameters''
       else same_serial q k obj
         (case pkgs obj of
            (False, _) \<Rightarrow> bad ''MissingOrInvalidParameters''
          | (True, ps) \<Rightarrow>
              package_exchange q k
                (writes [str_to_json ''op'' operation, str_to_json ''serial'' (cc_serial k), objs_to_json ''packages'' ps] [])))))"

definition PackageInstall :: "cmd_env \<Rightarrow> cmd_call \<Rightarrow> payload rest_reply gop" where
  "PackageInstall q k =
     package_change q k ''install'' (\<lambda>obj. map_prod id (map ToBeInstalled_to_json) (PackageInstall_pkgs (q_poco q) (q_uri q) obj))"

definition DeletePackages :: "cmd_env \<Rightarrow> cmd_call \<Rightarrow> payload rest_reply gop" where
  "DeletePackages q k =
     package_change q k ''delete'' (\<lambda>obj. map_prod id (map ToBeRemoved_to_json) (PackageRemove_pkgs (q_poco q) obj))"

section \<open>Ping\<close>

text \<open>Whether the device told its time is looked for in what was stored; any exception of that is swallowed.\<close>

definition device_time_told :: "poco \<Rightarrow> string \<Rightarrow> bool" where
  "device_time_told p text =
     (case try_bind (parse_object p text) (\<lambda>o'.
             if j_has o' ''results'' then map_sum id (\<lambda>r. j_has r ''deviceUTCTime'') (extract_object (j_get o' ''results''))
             else Inr False) of
        Inl _ \<Rightarrow> False
      | Inr b \<Rightarrow> b)"

definition Ping :: "cmd_env \<Rightarrow> cmd_call \<Rightarrow> payload rest_reply gop" where
  "Ping q k = with_body k (\<lambda>obj.
     if \<not> j_has obj ''serialNumber'' then bad ''MissingSerialNumber''
     else same_serial q k obj
       (let params = str_to_json ''serial'' (cc_serial k) [] in
        andThen (exchange q k AP_ping False (new_command q k ''ping'' 0 (json_text q params)) params False None False) (\<lambda>out.
        with_gw (\<lambda>g.
          case GetCommand (cc_uuid k) (g_commands g) of
            None \<Rightarrow> ret Rest_NotFound
          | Some c \<Rightarrow>
              answer (writes
                ([str_to_json ''latency'' (q_ms_text q (cr_executionTime (ro_command out))),
                  str_to_json ''serialNumber'' (cc_serial k), obj_set ''currentUTCTime'' (JInt (q_millis q))] @
                 (if device_time_told (q_poco q) (cr_Results c) then [bool_to_json ''deviceUTCTime'' True] else [])) [])))))"

section \<open>Scripts\<close>

definition ValidateScriptType :: "string \<Rightarrow> bool" where
  "ValidateScriptType t \<longleftrightarrow> t = ''shell'' \<or> t = ''bundle''"

text \<open>\<^verbatim>\<open>ScriptDB().GetRecord\<close>: the first row with the value.\<close>

definition find_script :: "string \<Rightarrow> gateway \<Rightarrow> script_entry option" where
  "find_script ident g =
     (if ValidUUID ident then find (\<lambda>s. se_id s = ident) (g_scripts g) else find (\<lambda>s. se_name s = ident) (g_scripts g))"

text \<open>Why a request is refused before anything is looked up.\<close>

definition script_refusal :: "cmd_env \<Rightarrow> cmd_call \<Rightarrow> script_request \<Rightarrow> payload rest_reply option" where
  "script_refusal q k s =
     (let diagnostic = (sr_type s = ''diagnostic'') in
      if sr_script s \<noteq> [] \<and> sr_scriptId s \<noteq> [] then Some (Rest_UnAuthorized ''InvalidScriptSelection'')
      else if \<not> rq_internal (hd_request (cc_data k)) \<and> u_role (hd_user (cc_data k)) \<noteq> ROOT \<and> sr_scriptId s = []
      then Some (Rest_UnAuthorized ''ACCESS_DENIED'')
      else if sr_script s = [] \<and> sr_scriptId s = [] \<and> \<not> diagnostic then Some (Rest_BadRequest ''InvalidScriptSelection'')
      else if diagnostic \<and> (sr_scriptId s \<noteq> [] \<or> sr_script s \<noteq> []) then Some (Rest_BadRequest ''InvalidScriptSelection'')
      else if cc_serial k \<noteq> sr_serialNumber s then Some (Rest_BadRequest ''SerialNumberMismatch'')
      else if sr_uri s \<noteq> [] \<and> (\<exists>e. q_uri q (sr_uri s) = Inl e) then Some (Rest_BadRequest ''InvalidURI'')
      else None)"

text \<open>What is to be run, and its text as it is sent: a stored script, for which the role counts, or the one given.\<close>

definition chosen_script ::
    "cmd_call \<Rightarrow> jobject \<Rightarrow> script_request \<Rightarrow> gateway \<Rightarrow> payload rest_reply + script_request \<times> string" where
  "chosen_script k obj s g =
     (let role = u_role (hd_user (cc_data k)) in
      if sr_scriptId s \<noteq> [] then
        (case find_script (sr_scriptId s) g of
           None \<Rightarrow> Inl (Rest_BadRequest ''MissingOrInvalidParameters'')
         | Some e \<Rightarrow>
             if role \<noteq> ROOT \<and> UserTypeToString role \<notin> set (se_restricted e) then Inl (Rest_UnAuthorized ''ACCESS_DENIED'')
             else
               let s = s\<lparr> sr_script := se_content e, sr_type := se_type e \<rparr>;
                   s = (if \<not> j_has obj ''deferred'' then s\<lparr> sr_deferred := se_deferred e \<rparr> else s);
                   s = (if \<not> j_has obj ''timeout'' then s\<lparr> sr_timeout := se_timeout e \<rparr> else s)
               in Inr (s, base64encode (map of_char (sr_script s))))
      else if sr_type s \<noteq> ''diagnostic'' \<and> \<not> ValidateScriptType (sr_type s)
      then Inl (Rest_BadRequest ''MissingOrInvalidParameters'')
      else Inr (s, if sr_type s \<noteq> ''diagnostic'' then sr_script s else []))"

text \<open>
  The parameters are made in the order of the code: a signature that was given goes in, one that is made for a
  restricted device is made after that, and only looked at.
\<close>

definition script_params :: "cmd_env \<Rightarrow> cmd_call \<Rightarrow> bool \<Rightarrow> script_request \<Rightarrow> string \<Rightarrow> jobject" where
  "script_params q k diagnostic s encoded =
     writes
       ([str_to_json ''serial'' (cc_serial k),
         (if sr_deferred s then str_to_json ''uri'' (sr_uri s)
          else u64_to_json ''timeout'' (if sr_timeout s = 0 then 30 else sr_timeout s))] @
        (if sr_signature s \<noteq> [] then [str_to_json ''signature'' (sr_signature s)] else []) @
        [str_to_json ''type'' (sr_type s)] @
        (if \<not> diagnostic then [str_to_json ''script'' encoded] else []) @
        [u64_to_json ''when'' (sr_when s)]) []"

definition script_command :: "cmd_env \<Rightarrow> cmd_call \<Rightarrow> bool \<Rightarrow> device \<Rightarrow> script_request \<Rightarrow> string \<Rightarrow> payload rest_reply gop" where
  "script_command q k diagnostic d s encoded =
     (let s = (if sr_deferred s \<and> sr_uri s = [] then s\<lparr> sr_uri := q_upload q @ cc_uuid k \<rparr> else s);
          params = script_params q k diagnostic s encoded;
          c = (new_command q k ''script'' 0 (json_text q params))\<lparr> cr_WaitingForFile := (if sr_deferred s then 1 else 0),
                                                              cr_deferred := sr_deferred s \<rparr>
      in if \<not> r_developer (cc_restrictions k) \<and> restrictedDevice d \<and> sr_signature s = [] \<and>
            q_sign q (cc_restrictions k) (sr_script s) = []
         then bad ''DeviceRequiresSignature''
         else
           andThen (gw_emit (Gw_ExpectUpload (cc_uuid k) 15 (if sr_type s = ''shell'' then ''txt'' else ''tgz''))) (\<lambda>_.
           andThen (exchange q k AP_script False c params False (Some (strict_of k)) (sr_deferred s)) replied))"

definition Script :: "cmd_env \<Rightarrow> cmd_call \<Rightarrow> payload rest_reply gop" where
  "Script q k = unless_simulated q k (with_body k (\<lambda>obj.
     case ScriptRequest_from_json (q_poco q) obj (new_script_request (q_garbage q) (q_garbage_flag q)) of
       (False, _) \<Rightarrow> bad ''InvalidJSONDocument''
     | (True, s) \<Rightarrow>
         (case script_refusal q k s of
            Some r \<Rightarrow> ret r
          | None \<Rightarrow> with_gw (\<lambda>g.
              case GetDevice (q_codec q) (cc_serial k) (g_store g) of
                None \<Rightarrow> ret Rest_NotFound
              | Some d \<Rightarrow>
                  (case chosen_script k obj s g of
                     Inl r \<Rightarrow> ret r
                   | Inr (s', encoded) \<Rightarrow> script_command q k (sr_type s = ''diagnostic'') d s' encoded)))))"

section \<open>Configure\<close>

text \<open>\<^verbatim>\<open>CompressAndEncodeBase64\<close>: the compressed data must not be longer than the text.\<close>

definition CompressAndEncodeBase64 :: "(nat \<Rightarrow> string \<Rightarrow> bytes option) \<Rightarrow> string \<Rightarrow> string option" where
  "CompressAndEncodeBase64 deflate text = map_option base64encode (deflate (length text) text)"

text \<open>What is sent of a configuration: compressed, when the device says it can read that.\<close>

definition config_params :: "cmd_env \<Rightarrow> cmd_call \<Rightarrow> jobject \<Rightarrow> storage \<Rightarrow> cpp_exn + jobject" where
  "config_params q k params st =
     (case GetDeviceCapabilities (cc_serial k) st of
        None \<Rightarrow> Inr params
      | Some caps \<Rightarrow>
          try_bind (Capabilities_to_json (q_poco q) caps) (\<lambda>obj.
            let caps = j_getObject obj ''capabilities'' in
            if \<not> j_has caps ''compress_cmd'' then Inr params
            else map_sum id (\<lambda>on.
                   if \<not> on then params
                   else case CompressAndEncodeBase64 (q_deflate q) (json_text q params) of
                          None \<Rightarrow> params
                        | Some data \<Rightarrow> writes [str_to_json ''compress_64'' data,
                                             u64_to_json ''compress_sz'' (of_nat (length (json_text q params)))] [])
                 (q_truth q (j_get caps ''compress_cmd''))))"

definition configure_exchange :: "cmd_env \<Rightarrow> cmd_call \<Rightarrow> u64 \<Rightarrow> u64 \<Rightarrow> string \<Rightarrow> payload rest_reply gop" where
  "configure_exchange q k when uuid config =
     andThen (lift_exn (Config_to_json (q_poco q) config)) (\<lambda>cfg.
       let params = writes [str_to_json ''serial'' (cc_serial k), u64_to_json ''uuid'' uuid, u64_to_json ''when'' when,
                            sub_to_json ''config'' cfg] [] in
       with_gw (\<lambda>g.
       andThen (lift_exn (config_params q k params (g_store g))) (\<lambda>sent.
       andThen (exchange q k AP_configure True (new_command q k ''configure'' when (json_text q params)) sent False
                  (Some (strict_of k)) False) (\<lambda>out.
       let c = ro_command out in
       if cr_Executed c = 0 then replied out
       else andThen
              (on_gw_store (if cr_ErrorCode c = 2 then RollbackDeviceConfigurationChange (q_codec q) (q_now q) (cc_serial k)
                            else CompleteDeviceConfigurationChange (q_poco q) (q_codec q) (q_now q) (cc_serial k)))
              (\<lambda>_. replied out)))))"

definition Configure :: "cmd_env \<Rightarrow> cmd_call \<Rightarrow> payload rest_reply gop" where
  "Configure q k = with_body k (\<lambda>obj.
     if \<not> (j_has obj ''serialNumber'' \<and> j_has obj ''UUID'' \<and> j_has obj ''configuration'') then bad ''MissingOrInvalidParameters''
     else same_serial q k obj (with_gw (\<lambda>g.
       case GetDevice (q_codec q) (cc_serial k) (g_store g) of
         None \<Rightarrow> ret Rest_NotFound
       | Some d \<Rightarrow>
           andThen (lift_exn (GetS (q_poco q) ''configuration'' obj ''{}'')) (\<lambda>config.
           case q_validate q (DeviceType d) config (strict_of k) of
             Some e \<Rightarrow> bad (''ConfigBlockInvalid '' @ e)
           | None \<Rightarrow>
               andThen (lift_exn (GetWhen (q_poco q) obj)) (\<lambda>when.
               andThen (on_gw_store (SetPendingDeviceConfiguration (q_poco q) (q_codec q) (q_now q) (cc_serial k) config 0)) (\<lambda>r.
               case r of
                 None \<Rightarrow> bad ''RecordNotUpdated''
               | Some (config, uuid) \<Rightarrow> configure_exchange q k when uuid config))))))"

end
