(* ===== verification/GW_DevicePost.thy ===== *)
theory GW_DevicePost
  imports GW_DeviceCommands
begin

text \<open>
  The commands an operator gives to a device, continued, and the three entry points of
  \<^verbatim>\<open>src/RESTAPI/RESTAPI_device_commandHandler.cpp\<close>.
\<close>

section \<open>Commands with parameters of their own\<close>

text \<open>Most commands: some members must be there, the serial number must be that of the path.\<close>

definition checked ::
    "cmd_env \<Rightarrow> cmd_call \<Rightarrow> string list \<Rightarrow> string \<Rightarrow> (jobject \<Rightarrow> payload rest_reply gop) \<Rightarrow> payload rest_reply gop" where
  "checked q k needed why f =
     with_body k (\<lambda>obj. if \<exists>m\<in>set needed. \<not> j_has obj m then bad why else same_serial q k obj (f obj))"

text \<open>The restrictions are those of the row; the key to sign with is looked for when no signature is given.\<close>

definition Upgrade :: "cmd_env \<Rightarrow> cmd_call \<Rightarrow> payload rest_reply gop" where
  "Upgrade q k = checked q k [''uri'', ''serialNumber''] ''MissingOrInvalidParameters'' (\<lambda>obj. with_gw (\<lambda>g.
     case GetDevice (q_codec q) (cc_serial k) (g_store g) of
       None \<Rightarrow> ret Rest_NotFound
     | Some d \<Rightarrow>
         let given = GetParameter ''FWsignature'' [] (rq_parameters (hd_request (cc_data k))); r = restrictionDetails d in
         andThen (lift_exn (GetS (q_poco q) ''uri'' obj [])) (\<lambda>uri.
         andThen (lift_exn (GetWhen (q_poco q) obj)) (\<lambda>when.
         andThen (lift_exn (GetB (q_poco q) ''keepRedirector'' obj True)) (\<lambda>keep.
         andThen (lift_exn (if r_upgrade r \<and> given = [] then map_sum id (\<lambda>_. q_sign_uri q r uri) (q_uri q uri) else Inr given)) (\<lambda>signature.
         if \<not> r_developer (cc_restrictions k) \<and> signature = [] \<and> r_upgrade r then bad ''DeviceRequiresSignature''
         else
           let params = writes ([str_to_json ''serial'' (cc_serial k), str_to_json ''uri'' uri,
                                 obj_set ''keep_redirector'' (JInt (if keep then 1 else 0))] @
                                (if signature \<noteq> [] then [str_to_json ''signature'' signature] else []) @
                                [u64_to_json ''when'' when]) []
           in send_and_reply q k AP_upgrade True (new_command q k ''upgrade'' when (json_text q params)) params))))))"

definition Reboot :: "cmd_env \<Rightarrow> cmd_call \<Rightarrow> payload rest_reply gop" where
  "Reboot q k = checked q k [''serialNumber''] ''MissingSerialNumber'' (\<lambda>obj.
     andThen (lift_exn (GetWhen (q_poco q) obj)) (\<lambda>when.
       let params = writes [str_to_json ''serial'' (cc_serial k), u64_to_json ''when'' when] []
       in send_and_reply q k AP_reboot False (new_command q k ''reboot'' when (json_text q params)) params))"

definition Factory :: "cmd_env \<Rightarrow> cmd_call \<Rightarrow> payload rest_reply gop" where
  "Factory q k = checked q k [''keepRedirector'', ''serialNumber''] ''MissingOrInvalidParameters'' (\<lambda>obj.
     andThen (lift_exn (GetB (q_poco q) ''keepRedirector'' obj True)) (\<lambda>keep.
     andThen (lift_exn (GetWhen (q_poco q) obj)) (\<lambda>when.
       let params = writes [str_to_json ''serial'' (cc_serial k), obj_set ''keep_redirector'' (JInt (if keep then 1 else 0)),
                            u64_to_json ''when'' when] []
       in send_and_reply q k AP_factory True (new_command q k ''factory'' when (json_text q params)) params)))"

definition LEDs :: "cmd_env \<Rightarrow> cmd_call \<Rightarrow> payload rest_reply gop" where
  "LEDs q k = checked q k [''pattern'', ''serialNumber''] ''MissingOrInvalidParameters'' (\<lambda>obj.
     andThen (lift_exn (GetS (q_poco q) ''pattern'' obj ''blink'')) (\<lambda>pattern.
     if pattern \<notin> {''on'', ''off'', ''blink''} then bad ''MissingOrInvalidParameters''
     else
     andThen (lift_exn (Get (q_poco q) ''duration'' obj 30)) (\<lambda>duration.
     andThen (lift_exn (GetWhen (q_poco q) obj)) (\<lambda>when.
       let params = writes [str_to_json ''serial'' (cc_serial k), u64_to_json ''duration'' duration,
                            u64_to_json ''when'' when, str_to_json ''pattern'' pattern] []
       in send_and_reply q k AP_leds False (new_command q k ''leds'' when (json_text q params)) params))))"

text \<open>What a trace is limited by: a time, or a number of packets, or thirty seconds.\<close>

definition trace_limit :: "cmd_env \<Rightarrow> jobject \<Rightarrow> cpp_exn + (jobject \<Rightarrow> jobject)" where
  "trace_limit q obj =
     (if j_has obj ''duration'' then map_sum id (u64_to_json ''duration'') (Get (q_poco q) ''duration'' obj 30)
      else if j_has obj ''numberOfPackets'' then map_sum id (u64_to_json ''packets'') (Get (q_poco q) ''numberOfPackets'' obj 100)
      else Inr (obj_set ''duration'' (JInt 30)))"

definition Trace :: "cmd_env \<Rightarrow> cmd_call \<Rightarrow> payload rest_reply gop" where
  "Trace q k = unless_simulated q k (with_body k (\<lambda>obj.
     if \<not> (j_has obj ''serialNumber'' \<and> (j_has obj ''network'' \<or> j_has obj ''interface'')) then bad ''MissingOrInvalidParameters''
     else same_serial q k obj
       (andThen (lift_exn (GetS (q_poco q) ''network'' obj [])) (\<lambda>network.
        andThen (lift_exn (GetS (q_poco q) ''interface'' obj [])) (\<lambda>interface.
        andThen (lift_exn (trace_limit q obj)) (\<lambda>limit.
          let params = writes [limit, str_to_json ''serial'' (cc_serial k), obj_set ''when'' (JInt 0), str_to_json ''network'' network,
                               str_to_json ''interface'' interface, str_to_json ''uri'' (q_upload q @ cc_uuid k)] [];
              c = (new_command q k ''trace'' 0 (json_text q params))\<lparr> cr_WaitingForFile := 1, cr_AttachType := ''pcap'' \<rparr>
          in andThen (gw_emit (Gw_ExpectUpload (cc_uuid k) 10 ''pcap'')) (\<lambda>_. send_and_reply q k AP_trace False c params)))))))"

text \<open>What came back of a scan and of an event queue goes to Kafka, unless there was an error.\<close>

definition send_and_publish :: "cmd_env \<Rightarrow> cmd_call \<Rightarrow> ap_command \<Rightarrow> string \<Rightarrow> command_row \<Rightarrow> jobject \<Rightarrow> payload rest_reply gop" where
  "send_and_publish q k cmd topic c params =
     andThen (exchange q k cmd False c params False (Some (strict_of k)) False) (\<lambda>out.
       if cr_ErrorCode (ro_command out) = 0
       then andThen (gw_emit (Gw_Kafka topic (cc_serial k) (cr_Results (ro_command out)))) (\<lambda>_. replied out)
       else replied out)"

definition WifiScan :: "cmd_env \<Rightarrow> cmd_call \<Rightarrow> payload rest_reply gop" where
  "WifiScan q k = unless_simulated q k (with_body k (\<lambda>obj. same_serial q k obj
     (andThen (lift_exn (GetB (q_poco q) ''override_dfs'' obj True)) (\<lambda>override.
      andThen (lift_exn (GetB (q_poco q) ''activeScan'' obj False)) (\<lambda>active.
      andThen (lift_exn (Get (q_poco q) ''bandwidth'' obj 0)) (\<lambda>bandwidth.
      if \<not> r_developer (cc_restrictions k) \<and> r_dfs (cc_restrictions k) \<and> override then bad ''DeviceIsRestricted''
      else
        let params = writes ([str_to_json ''serial'' (cc_serial k), bool_to_json ''override_dfs'' override, bool_to_json ''active'' active] @
                             (if j_isArray obj ''ies'' then [obj_set ''ies'' (JArr (j_getArray obj ''ies''))] else []) @
                             (if bandwidth \<noteq> 0 then [u64_to_json ''bandwidth'' bandwidth] else [])) []
        in send_and_publish q k AP_wifiscan ''wifiscan'' (new_command q k ''wifiscan'' 0 (json_text q params)) params))))))"

definition EventQueue :: "cmd_env \<Rightarrow> cmd_call \<Rightarrow> payload rest_reply gop" where
  "EventQueue q k = unless_simulated q k (with_body k (\<lambda>obj.
     if \<not> (j_has obj ''serialNumber'' \<and> j_isArray obj ''types'') then bad ''MissingOrInvalidParameters''
     else same_serial q k obj
       (let params = writes [str_to_json ''serial'' (cc_serial k), obj_set ''types'' (JArr (j_getArray obj ''types''))] []
        in send_and_publish q k AP_eventqueue ''device_event_queue'' (new_command q k ''event'' 0 (json_text q params)) params)))"

definition MakeRequest :: "cmd_env \<Rightarrow> cmd_call \<Rightarrow> payload rest_reply gop" where
  "MakeRequest q k = unless_simulated q k (with_body k (\<lambda>obj.
     if \<not> (j_has obj ''serialNumber'' \<and> j_has obj ''message'') then bad ''MissingOrInvalidParameters''
     else
       andThen (lift_exn (GetS (q_poco q) ''serialNumber'' obj [])) (\<lambda>s.
       andThen (lift_exn (GetS (q_poco q) ''message'' obj [])) (\<lambda>message.
       if s \<noteq> cc_serial k \<or> message \<notin> {''state'', ''healthcheck''} then bad ''MissingOrInvalidParameters''
       else
       andThen (lift_exn (GetWhen (q_poco q) obj)) (\<lambda>when.
         let params = writes [str_to_json ''serial'' (cc_serial k), u64_to_json ''when'' when, str_to_json ''message'' message,
                              str_to_json ''request_uuid'' (cc_uuid k)] []
         in send_and_reply q k AP_request False (new_command q k ''request'' when (json_text q params)) params)))))"

section \<open>Remote terminals\<close>

text \<open>The identifiers of a session come from hashes; with the internal server the token does too.\<close>

definition rtty_details :: "cmd_env \<Rightarrow> cmd_call \<Rightarrow> rtty_session" where
  "rtty_details q k =
     \<lparr> rtty_SerialNumber = cc_serial k, rtty_Server = q_setting q ''rtty.server'' ''localhost'', rtty_Port = q_number q ''rtty.port'' 5912,
       rtty_Token = (if q_rtty_internal q then q_rtty_token q else q_setting q ''rtty.token'' ''nothing''),
       rtty_TimeOut = q_number q ''rtty.timeout'' 60, rtty_ConnectionId = q_rtty_id q, rtty_Started = q_now q,
       rtty_CommandUUID = cc_uuid k, rtty_ViewPort = q_number q ''rtty.viewport'' 5913, rtty_DevicePassword = [] \<rparr>"

definition Rtty :: "cmd_env \<Rightarrow> cmd_call \<Rightarrow> payload rest_reply gop" where
  "Rtty q k = unless_simulated q k
     (if \<not> r_developer (cc_restrictions k) \<and> r_rtty (cc_restrictions k) then bad ''DeviceIsRestricted''
      else if \<not> q_rtty_enabled q then ret (Rest_Object (Pay_Status 503))
      else with_gw (\<lambda>g.
        case GetDevice (q_codec q) (cc_serial k) (g_store g) of
          None \<Rightarrow> ret Rest_NotFound
        | Some d \<Rightarrow>
            let r = rtty_details q k;
                mTLS = DeviceRequiresSecureRTTY (cc_int k) (g_server g) in
            if q_rtty_internal q \<and>
               \<not> q_rtty_endpoint q (rtty_ConnectionId r) (rtty_Token r) (u_requester (hd_user (cc_data k))) (cc_serial k) mTLS
            then bad ''MaximumRTTYSessionsReached''
            else
              let params = writes [str_to_json ''method'' ''rtty'', str_to_json ''serial'' (cc_serial k),
                                   str_to_json ''id'' (rtty_ConnectionId r), str_to_json ''token'' (rtty_Token r),
                                   str_to_json ''server'' (rtty_Server r), u64_to_json ''port'' (rtty_Port r),
                                   str_to_json ''user'' (u_username (hd_user (cc_data k))), u64_to_json ''timeout'' (rtty_TimeOut r),
                                   str_to_json ''password'' (DevicePassword d)] []
              in andThen (exchange q k AP_rtty False (new_command q k ''rtty'' 0 (json_text q params)) params True (Some (strict_of k)) False)
                   (\<lambda>out. case ro_reply out of
                            Reply_Object \<Rightarrow> answer (RttySessionDetails_to_json r)
                          | _ \<Rightarrow> replied out)))"

section \<open>Telemetry\<close>

definition add_command :: "u64 \<Rightarrow> string \<Rightarrow> command_row \<Rightarrow> execution_type \<Rightarrow> unit gop" where
  "add_command now serial c ty = on_tables (\<lambda>t. ((), t\<lparr> a_commands := snd (AddCommand now serial c ty (a_commands t)) \<rparr>))"

text \<open>The reports are turned on or off at the connection of the device; the answer of an endpoint may fail.\<close>

definition telemetry_action :: "cmd_env \<Rightarrow> cmd_call \<Rightarrow> bool \<Rightarrow> u64 \<Rightarrow> u64 \<Rightarrow> string list \<Rightarrow> jobject option gop" where
  "telemetry_action q k kafka interval lifetime types =
     (let p = q_poco q; ws = x_ws (q_rpc q); now = q_now q; n = cc_int k; rpc = cc_rpc k in
      if kafka then
        if interval \<noteq> 0 then
          andThen (on_gw_server (SetKafkaTelemetryReporting p ws now rpc n interval lifetime types)) (\<lambda>_.
            ret (Some (writes [str_to_json ''action'' ''Kafka telemetry started.'', str_to_json ''uuid'' (cc_uuid k)] [])))
        else
          andThen (on_gw_server (StopKafkaTelemetry p ws rpc n)) (\<lambda>_. ret (Some (str_to_json ''action'' ''Kafka telemetry stopped.'' [])))
      else
        if interval \<noteq> 0 then
          andThen (on_gw_server (SetWebSocketTelemetryReporting p ws now rpc n interval lifetime types)) (\<lambda>_.
            ret (case q_telemetry_endpoint q n (cc_uuid k) of
                   None \<Rightarrow> None
                 | Some uri \<Rightarrow> Some (writes [str_to_json ''action'' ''WebSocket telemetry started.'', str_to_json ''serialNumber'' (cc_serial k),
                                         str_to_json ''uuid'' (cc_uuid k), str_to_json ''uri'' uri] [])))
        else
          andThen (on_gw_server (StopWebSocketTelemetry p ws rpc n)) (\<lambda>_. ret (Some (str_to_json ''action'' ''WebSocket telemetry stopped.'' []))))"

definition telemetry_record :: "cmd_env \<Rightarrow> cmd_call \<Rightarrow> bool \<Rightarrow> u64 \<Rightarrow> command_row" where
  "telemetry_record q k kafka interval =
     (new_command q k ''telemetry'' 0 (json_text q (writes [bool_to_json ''kafkaOnly'' kafka, u64_to_json ''interval'' interval] [])))
       \<lparr> cr_Status := ''completed'', cr_Submitted := q_now q, cr_Completed := q_now q, cr_Executed := q_now q,
         cr_Results := '' { '' @ [CHR 0x22] @ ''result'' @ [CHR 0x22] @ '' : '' @ [CHR 0x22] @ ''success'' @ [CHR 0x22] @ '' } '' \<rparr>"

text \<open>The state of the reports now; when the device is gone the variables were never written.\<close>

definition telemetry_status :: "cmd_env \<Rightarrow> cmd_call \<Rightarrow> gateway \<Rightarrow> jobject" where
  "telemetry_status q k g =
     (let t = (case GetTelemetryParameters (cc_int k) (g_server g) of None \<Rightarrow> q_garbage_telemetry q | Some t \<Rightarrow> t) in
      writes [bool_to_json ''running'' (tp_Reporting t), u64_to_json ''interval'' (tp_Interval t),
              u64_to_json ''websocketTimer'' (tp_WebSocketTimer t), u64_to_json ''kafkaTimer'' (tp_KafkaTimer t),
              u64_to_json ''websocketClients'' (tp_WebSocketCount t), u64_to_json ''kafkaClients'' (tp_KafkaCount t),
              u64_to_json ''kafkaPackets'' (tp_KafkaPackets t), u64_to_json ''websocketPackets'' (tp_WebSocketPackets t)] [])"

definition Telemetry :: "cmd_env \<Rightarrow> cmd_call \<Rightarrow> payload rest_reply gop" where
  "Telemetry q k = unless_simulated q k (with_body k (\<lambda>obj.
     if \<not> (j_has obj ''serialNumber'' \<and> j_has obj ''interval'' \<and> j_isArray obj ''types'') then bad ''MissingOrInvalidParameters''
     else same_serial q k obj
       (andThen (lift_exn (GetB (q_poco q) ''kafka'' obj False)) (\<lambda>kafka.
        andThen (lift_exn (Get (q_poco q) ''interval'' obj 5)) (\<lambda>interval.
        andThen (lift_exn (Get (q_poco q) ''lifetime'' obj 3600)) (\<lambda>lifetime.
        andThen (lift_exn (strings_of (q_poco q) (j_getArray obj ''types''))) (\<lambda>types.
        andThen
          (if GetBoolParameter ''statusOnly'' False (rq_parameters (hd_request (cc_data k)))
           then ret (Some (str_to_json ''action'' ''Telemetry status only.'' []))
           else andThen (telemetry_action q k kafka interval lifetime types) (\<lambda>r.
                  case r of
                    None \<Rightarrow> ret None
                  | Some a \<Rightarrow> andThen (add_command (q_now q) (cc_serial k) (telemetry_record q k kafka interval) COMMAND_COMPLETED)
                               (\<lambda>_. ret (Some a))))
          (\<lambda>r. case r of
                 None \<Rightarrow> bad ''InternalError''
               | Some a \<Rightarrow> with_gw (\<lambda>g. answer (sub_to_json ''status'' (telemetry_status q k g) a))))))))))"

section \<open>Radio resources\<close>

definition rrm_actions :: "string list" where
  "rrm_actions = [''kick'', ''channel_switch'', ''tx_power'', ''beacon_request'', ''bss_transition'', ''neighbors'']"

text \<open>The first action that is not one ends the check; one that is no object raises.\<close>

fun rrm_fault :: "poco \<Rightarrow> json list \<Rightarrow> cpp_exn + string option" where
  "rrm_fault p [] = Inr None"
| "rrm_fault p (j # js) =
     try_bind (extract_object j) (\<lambda>a.
       if \<not> j_has a ''action'' then Inr (Some ''MissingOrInvalidParameters'')
       else try_bind (p_string p (j_get a ''action'')) (\<lambda>s.
         if s \<notin> set rrm_actions then Inr (Some ''InvalidRRMAction'') else rrm_fault p js))"

definition RRM :: "cmd_env \<Rightarrow> cmd_call \<Rightarrow> payload rest_reply gop" where
  "RRM q k = unless_simulated q k (privileged k (with_body k (\<lambda>obj.
     if \<not> j_isArray obj ''actions'' then bad ''MissingOrInvalidParameters''
     else
       andThen (lift_exn (rrm_fault (q_poco q) (j_getArray obj ''actions''))) (\<lambda>fault.
       case fault of
         Some why \<Rightarrow> bad why
       | None \<Rightarrow>
           let params = writes [str_to_json ''serial'' (cc_serial k), obj_set ''actions'' (JArr (j_getArray obj ''actions''))] [];
               c = new_command q k ''rrm'' 0 (json_text q params)
           in andThen (on_mgr (FireAndForget (q_poco q) (x_ws (q_rpc q)) (cc_serial k) ''rrm'' params)) (\<lambda>sent.
                andThen (add_command (q_now q) (cc_serial k) (c\<lparr> cr_Status := (if sent then ''completed'' else ''failed'') \<rparr>) COMMAND_COMPLETED)
                  (\<lambda>_. if sent then ret Rest_OK else bad ''CouldNotPerformCommand''))))))"

section \<open>Commands passed on as they are\<close>

text \<open>The body itself is what is sent; its serial number is not compared with that of the path.\<close>

definition pass_on :: "cmd_env \<Rightarrow> cmd_call \<Rightarrow> ap_command \<Rightarrow> string \<Rightarrow> (jobject \<Rightarrow> bool \<times> u64) \<Rightarrow> payload rest_reply gop" where
  "pass_on q k cmd name read = with_body k (\<lambda>obj.
     case read obj of
       (False, _) \<Rightarrow> bad ''MissingOrInvalidParameters''
     | (True, when) \<Rightarrow> send_and_reply q k cmd False (new_command q k name when (json_text q obj)) obj)"

definition Transfer :: "cmd_env \<Rightarrow> cmd_call \<Rightarrow> payload rest_reply gop" where
  "Transfer q k = privileged k (unless_simulated q k
     (pass_on q k AP_transfer ''transfer'' (\<lambda>obj. (DeviceTransferRequest_readable (q_poco q) obj, 0))))"

definition CertUpdate :: "cmd_env \<Rightarrow> cmd_call \<Rightarrow> payload rest_reply gop" where
  "CertUpdate q k = privileged k (unless_simulated q k
     (pass_on q k AP_certupdate ''certupdate'' (\<lambda>obj.
        (DeviceCertificateUpdateRequest_readable (q_poco q) obj \<and> DeviceTransferRequest_readable (q_poco q) obj, 0))))"

definition PowerCycle :: "cmd_env \<Rightarrow> cmd_call \<Rightarrow> payload rest_reply gop" where
  "PowerCycle q k = privileged k (unless_simulated q k
     (pass_on q k AP_powercycle ''powercycle'' (PowerCycleRequest_when (q_poco q) (q_garbage q))))"

definition FixedConfig :: "cmd_env \<Rightarrow> cmd_call \<Rightarrow> payload rest_reply gop" where
  "FixedConfig q k = unless_simulated q k
     (pass_on q k AP_fixedconfig ''fixedconfig'' (\<lambda>obj. (FixedConfig_readable (q_poco q) obj, 0)))"

definition CableDiagnostics :: "cmd_env \<Rightarrow> cmd_call \<Rightarrow> payload rest_reply gop" where
  "CableDiagnostics q k = privileged k (unless_simulated q k
     (pass_on q k AP_cablediagnostics ''cable-diagnostics'' (CableDiagnostics_when (q_poco q) (q_garbage q))))"

definition ReEnroll :: "cmd_env \<Rightarrow> cmd_call \<Rightarrow> payload rest_reply gop" where
  "ReEnroll q k = privileged k (unless_simulated q k
     (pass_on q k AP_reenroll ''reenroll'' (ReEnroll_when (q_poco q) (q_garbage q))))"

section \<open>Requests\<close>

text \<open>The command of the path with what it demands: no other command under way, a connected device.\<close>

type_synonym post_command = "ap_command \<times> bool \<times> bool \<times> (cmd_env \<Rightarrow> cmd_call \<Rightarrow> payload rest_reply gop)"

definition PostCommands :: "post_command list" where
  "PostCommands =
     [(AP_configure, False, False, Configure), (AP_upgrade, False, False, Upgrade), (AP_reboot, False, True, Reboot),
      (AP_factory, False, False, Factory), (AP_leds, False, True, LEDs), (AP_trace, False, True, Trace),
      (AP_request, False, True, MakeRequest), (AP_wifiscan, False, True, WifiScan), (AP_eventqueue, False, True, EventQueue),
      (AP_telemetry, False, True, Telemetry), (AP_ping, False, True, Ping), (AP_rrm, False, True, RRM),
      (AP_certupdate, False, True, CertUpdate), (AP_transfer, False, True, Transfer), (AP_script, False, True, Script),
      (AP_powercycle, False, True, PowerCycle), (AP_fixedconfig, False, True, FixedConfig),
      (AP_cablediagnostics, False, True, CableDiagnostics), (AP_reenroll, False, True, ReEnroll), (AP_package, False, True, PackageInstall)]"

text \<open>\<^verbatim>\<open>to_string\<close>; the unknown command has no name.\<close>

definition ap_to_string :: "ap_command \<Rightarrow> cpp_exn + string" where
  "ap_to_string c =
     (case find (\<lambda>(_, d). d = c) uCentralAPCommands of
        None \<Rightarrow> Inl (Undefined_Behaviour ''read behind the command names'')
      | Some (name, _) \<Rightarrow> Inr name)"

definition ValidateParameters :: "cmd_env \<Rightarrow> call_data \<Rightarrow> (string \<times> string) option" where
  "ValidateParameters q h =
     (let b = rq_bindings (hd_request h); lower = p_toLower (q_poco q);
          cmd = GetBinding lower ''command'' [] b; serial = GetBinding lower ''serialNumber'' [] b in
      if cmd = [] \<or> serial = [] then None else Some (cmd, serial))"

text \<open>
  The checks all three entry points begin with: parameters, a MAC address, a known command and device;
  \<^verbatim>\<open>DoPost\<close> looks at the command first, the others at the device.
\<close>

definition device_request ::
    "cmd_env \<Rightarrow> bool \<Rightarrow> call_data \<Rightarrow> (ap_command \<Rightarrow> string \<Rightarrow> u64 \<Rightarrow> payload rest_reply gop) \<Rightarrow> payload rest_reply gop" where
  "device_request q device_first h f =
     (case ValidateParameters q h of
        None \<Rightarrow> bad ''MissingOrInvalidParameters''
      | Some (cmd, serial) \<Rightarrow>
          (case NormalizeMac (q_replace q) (p_toLower (q_poco q)) serial of
             (False, _) \<Rightarrow> bad ''MissingSerialNumber''
           | (True, serial) \<Rightarrow> with_gw (\<lambda>g.
               if to_apcommand cmd = AP_unknown then
                 (if device_first \<and> GetDevice (q_codec q) serial (g_store g) = None
                  then ret Rest_NotFound else bad ''InvalidCommand'')
               else if GetDevice (q_codec q) serial (g_store g) = None then ret Rest_NotFound
               else andThen (lift_exn (SerialNumberToInt serial)) (\<lambda>n. f (to_apcommand cmd) serial n))))"

text \<open>The identifiers of a command are made once it may proceed.\<close>

definition proceed ::
    "cmd_env \<Rightarrow> call_data \<Rightarrow> string \<Rightarrow> u64 \<Rightarrow> restrictions \<Rightarrow> (cmd_call \<Rightarrow> payload rest_reply gop) \<Rightarrow> payload rest_reply gop" where
  "proceed q h serial n r f =
     andThen (on_mgr mgr_Next_RPC_ID) (\<lambda>rpc.
       f \<lparr> cc_data = h, cc_serial = serial, cc_int = n, cc_uuid = q_new_uuid q, cc_rpc = rpc, cc_restrictions = r \<rparr>)"

definition when_connected ::
    "u64 \<Rightarrow> (restrictions \<Rightarrow> payload rest_reply gop) \<Rightarrow> payload rest_reply gop" where
  "when_connected n f = with_gw (\<lambda>g.
     case Connected_restrictions n (g_server g) of
       (True, r) \<Rightarrow> f (case r of None \<Rightarrow> plain_restrictions | Some x \<Rightarrow> x)
     | (False, _) \<Rightarrow> bad ''DeviceNotConnected'')"

definition command_DoGet :: "cmd_env \<Rightarrow> call_data \<Rightarrow> payload rest_reply gop" where
  "command_DoGet q h = device_request q True h (\<lambda>cmd serial n.
     let k = \<lparr> cc_data = h, cc_serial = serial, cc_int = n, cc_uuid = [], cc_rpc = 0, cc_restrictions = plain_restrictions \<rparr> in
     case cmd of
       AP_capabilities \<Rightarrow> rest_GetCapabilities q k
     | AP_logs \<Rightarrow> GetLogs q k
     | AP_healthchecks \<Rightarrow> GetChecks q k
     | AP_statistics \<Rightarrow> rest_GetStatistics q k
     | AP_status \<Rightarrow> GetStatus q k
     | AP_rtty \<Rightarrow> when_connected n (\<lambda>r. proceed q h serial n r (Rtty q))
     | AP_package \<Rightarrow> when_connected n (\<lambda>r.
         let names = map snd (filter (\<lambda>x. fst x = ''pkgName'') (rq_parameters (hd_request h))) in
         if names = [] \<or> last names = [] then bad ''MissingOrInvalidParameters''
         else proceed q h serial n r (\<lambda>k. GetPackages q k (last names)))
     | _ \<Rightarrow> bad ''InvalidCommand'')"

definition command_DoDelete :: "cmd_env \<Rightarrow> call_data \<Rightarrow> payload rest_reply gop" where
  "command_DoDelete q h = device_request q True h (\<lambda>cmd serial n.
     let k = \<lparr> cc_data = h, cc_serial = serial, cc_int = n, cc_uuid = [], cc_rpc = 0, cc_restrictions = plain_restrictions \<rparr> in
     case cmd of
       AP_capabilities \<Rightarrow> DeleteCapabilities k
     | AP_logs \<Rightarrow> DeleteLogs k
     | AP_healthchecks \<Rightarrow> DeleteChecks k
     | AP_statistics \<Rightarrow> DeleteStatistics k
     | AP_package \<Rightarrow> when_connected n (\<lambda>r. proceed q h serial n r (DeletePackages q))
     | _ \<Rightarrow> bad ''InvalidCommand'')"

text \<open>A command that does not need a connection is given no restrictions.\<close>

definition run_post :: "cmd_env \<Rightarrow> call_data \<Rightarrow> string \<Rightarrow> u64 \<Rightarrow> post_command \<Rightarrow> payload rest_reply gop" where
  "run_post q h serial n pc =
     (case pc of (_, parallel, connection, f) \<Rightarrow>
        let go = (\<lambda>r. with_gw (\<lambda>g.
              case (if parallel then None else CommandRunningForDevice n (g_mgr g)) of
                Some (uuid, running) \<Rightarrow>
                  andThen (lift_exn (ap_to_string running)) (\<lambda>name.
                    bad (''DeviceIsAlreadyBusy UUID='' @ uuid @ '' Command='' @ name))
              | None \<Rightarrow> proceed q h serial n r (f q)))
        in if connection then when_connected n go else go plain_restrictions)"

definition command_DoPost :: "cmd_env \<Rightarrow> call_data \<Rightarrow> payload rest_reply gop" where
  "command_DoPost q h = device_request q False h (\<lambda>cmd serial n.
     case find (\<lambda>pc. fst pc = cmd) PostCommands of
       None \<Rightarrow> bad ''InvalidCommand''
     | Some pc \<Rightarrow> run_post q h serial n pc)"

end
