(* ===== verification/GW_DeviceRules.thy ===== *)
theory GW_DeviceRules
  imports GW_DevicePost
begin

text \<open>
  What holds of every command given to a device. \<open>stays\<close> relates two states that differ, apart from the dated
  tables, only in what belongs to one device: rows of the command table, the row of the device, requests under way,
  its connection. It is an order, every primitive step of the handlers keeps it, and so every handler does.
\<close>

section \<open>Staying with one device\<close>

definition rows_stay :: "string \<Rightarrow> string \<Rightarrow> string \<Rightarrow> command_db \<Rightarrow> command_db \<Rightarrow> bool" where
  "rows_stay serial uuid who db db' \<longleftrightarrow>
     (\<forall>r\<in>set (CommandList db'). r \<in> set (CommandList db) \<or> (cr_SerialNumber r = serial \<and> cr_UUID r = uuid \<and> cr_SubmittedBy r = who)) \<and>
     filter (\<lambda>r. cr_SerialNumber r \<noteq> serial) (CommandList db') = filter (\<lambda>r. cr_SerialNumber r \<noteq> serial) (CommandList db)"

definition devices_stay :: "string \<Rightarrow> storage \<Rightarrow> storage \<Rightarrow> bool" where
  "devices_stay serial st st' \<longleftrightarrow>
     (om_wf (devices st) \<longrightarrow> om_wf (devices st') \<and> (\<forall>s. s \<noteq> serial \<longrightarrow> om_find (devices st') s = om_find (devices st) s))"

definition requests_stay :: "u64 \<Rightarrow> string \<Rightarrow> u64 \<Rightarrow> manager \<Rightarrow> manager \<Rightarrow> bool" where
  "requests_stay n uuid rpc m m' \<longleftrightarrow>
     (\<forall>x\<in>set (Outstanding m'). x \<in> set (Outstanding m) \<or> (ci_SerialNumber (snd x) = n \<and> ci_UUID (snd x) = uuid)) \<and>
     (\<forall>x\<in>set (Outstanding m). ci_SerialNumber (snd x) \<noteq> n \<longrightarrow> fst x \<noteq> rpc \<longrightarrow> x \<in> set (Outstanding m'))"

definition connections_stay :: "u64 \<Rightarrow> server \<Rightarrow> server \<Rightarrow> bool" where
  "connections_stay n s s' \<longleftrightarrow>
     SerialNumbers s' = SerialNumbers s \<and> (\<forall>h. device_conn n s \<noteq> Some h \<longrightarrow> conns s' h = conns s h)"

definition stays_w :: "string \<Rightarrow> u64 \<Rightarrow> string \<Rightarrow> string \<Rightarrow> u64 \<Rightarrow> manager \<times> command_db \<Rightarrow> manager \<times> command_db \<Rightarrow> bool" where
  "stays_w serial n uuid who rpc w w' \<longleftrightarrow>
     rows_stay serial uuid who (snd w) (snd w') \<and> devices_stay serial (m_store (fst w)) (m_store (fst w')) \<and>
     requests_stay n uuid rpc (fst w) (fst w') \<and> connections_stay n (m_server (fst w)) (m_server (fst w'))"

definition stays :: "string \<Rightarrow> u64 \<Rightarrow> string \<Rightarrow> string \<Rightarrow> u64 \<Rightarrow> gateway \<Rightarrow> gateway \<Rightarrow> bool" where
  "stays serial n uuid who rpc g g' \<longleftrightarrow> stays_w serial n uuid who rpc (g_mgr g, g_commands g) (g_mgr g', g_commands g')"

lemma device_conn_same: "SerialNumbers s' = SerialNumbers s \<Longrightarrow> device_conn n s' = device_conn n s"
  by (simp add: device_conn_def)

lemma stays_w_refl: "stays_w serial n uuid who rpc w w"
  by (simp add: stays_w_def rows_stay_def devices_stay_def requests_stay_def connections_stay_def)

lemma stays_w_trans:
  assumes "stays_w serial n uuid who rpc w w'" and "stays_w serial n uuid who rpc w' w''"
  shows "stays_w serial n uuid who rpc w w''"
proof -
  have "rows_stay serial uuid who (snd w) (snd w'')" using assms unfolding stays_w_def rows_stay_def by (metis (no_types))
  moreover have "devices_stay serial (m_store (fst w)) (m_store (fst w''))"
    using assms unfolding stays_w_def devices_stay_def by (metis (no_types))
  moreover have "requests_stay n uuid rpc (fst w) (fst w'')" using assms unfolding stays_w_def requests_stay_def by blast
  moreover have "connections_stay n (m_server (fst w)) (m_server (fst w''))"
    using assms device_conn_same unfolding stays_w_def connections_stay_def by metis
  ultimately show ?thesis by (simp add: stays_w_def)
qed

interpretation own: state_order "stays serial n uuid who rpc" for serial n uuid who rpc
  by unfold_locales (auto simp: stays_def stays_w_refl elim: stays_w_trans)

section \<open>The primitive steps\<close>

lemma in_om_set: "x \<in> set (om_set k v m) \<Longrightarrow> x = (k, v) \<or> x \<in> set m"
  by (induction m) (auto split: if_splits)

lemma in_om_set_other: "(i, x) \<in> set m \<Longrightarrow> i \<noteq> k \<Longrightarrow> (i, x) \<in> set (om_set k v m)"
  by (induction m) auto

lemma in_om_erase_other: "(i, x) \<in> set m \<Longrightarrow> i \<noteq> k \<Longrightarrow> (i, x) \<in> set (om_erase k m)"
  by (simp add: om_erase_def)

lemma in_om_erase: "x \<in> set (om_erase k m) \<Longrightarrow> x \<in> set m"
  by (cases x) (auto dest: om_in_erase)

lemma keeps_with_gw: "(\<And>g. keeps R (f g)) \<Longrightarrow> keeps R (with_gw f)"
  by (simp add: keeps_def with_gw_def)

lemma keeps_bool_pair: "(\<And>y. keeps R (f y)) \<Longrightarrow> (\<And>y. keeps R (f' y)) \<Longrightarrow> keeps R (case v of (True, y) \<Rightarrow> f y | (False, y) \<Rightarrow> f' y)"
  by (simp split: prod.split bool.split)

lemma rows_stay_AddCommand:
  assumes "cr_SerialNumber c = serial" and "cr_UUID c = uuid" and "cr_SubmittedBy c = who"
  shows "rows_stay serial uuid who db (snd (AddCommand now serial c ty db))"
proof -
  have "cr_SubmittedBy (stamp_command now ty c) = cr_SubmittedBy c" by (simp add: stamp_command_def Let_def)
  with assms show ?thesis
    by (auto simp: rows_stay_def AddCommand_def Let_def RemoveOldCommands_def cdb_exec_def intro!: filter_cong)
qed

definition only_sends :: "effect list \<Rightarrow> bool" where
  "only_sends es \<longleftrightarrow> (\<forall>e\<in>set es. \<exists>x. e = Eff_Send x \<or> (\<exists>y. e = Eff_AddTX y))"

lemma only_sends_Nil [simp]: "only_sends []"
  by (simp add: only_sends_def)

lemma only_sends_effects:
  "only_sends es \<Longrightarrow> SerialNumbers (foldl (\<lambda>s e. server_effect e s) t es) = SerialNumbers t \<and> conns (foldl (\<lambda>s e. server_effect e s) t es) = conns t"
  unfolding only_sends_def by (induction es arbitrary: t) fastforce+

lemma conn_Send_only_sends: "conn_Send ws payload c = (b, c', es) \<Longrightarrow> only_sends es"
  by (auto simp: conn_Send_def only_sends_def split: send_outcome.splits)

lemma connections_stay_SendFrame:
  assumes "SendFrame ws n payload s = (b, s', es)"
  shows "connections_stay n s s'"
proof (cases "device_conn n s")
  case None
  with assms show ?thesis by (simp add: SendFrame_def connections_stay_def)
next
  case (Some h)
  with assms show ?thesis
    by (cases "conn_Send (ws h) payload (conns s h)")
       (auto simp: SendFrame_def connections_stay_def on_connection_def only_sends_effects [OF conn_Send_only_sends] split: if_splits)
qed

lemma requests_stay_add:
  "ci_SerialNumber c = n \<Longrightarrow> ci_UUID c = uuid \<Longrightarrow> requests_stay n uuid rpc m (m\<lparr> Outstanding := om_set rpc c (Outstanding m) \<rparr>)"
  by (auto simp: requests_stay_def dest: in_om_set intro: in_om_set_other)

lemma PostCommand_stays:
  assumes "PostCommand p ws ms rpc_id cmd serial name params uuid False rpc deferred m = (r, m')" and "SerialNumberToInt serial = Inr n"
  shows "stays_w serial n uuid who rpc_id (m, db) (m', db)"
proof -
  let ?s = "SendFrame ws n (command_message p rpc_id name params) (m_server m)"
  have c: "connections_stay n (m_server m) (fst (snd ?s))"
    using connections_stay_SendFrame [of ws n _ "m_server m" "fst ?s" "fst (snd ?s)" "snd (snd ?s)"] by simp
  have "m_store m' = m_store m \<and> m_server m' = fst (snd ?s) \<and> requests_stay n uuid rpc_id m m'"
    using assms
    by (auto simp: PostCommand_def andThen_def lift_exn_def ret_def Let_def send_to_device_def on_outstanding_def requests_stay_def
        split: prod.splits if_splits dest!: in_om_set in_om_erase intro!: in_om_set_other in_om_erase_other)
  then show ?thesis using c by (simp add: stays_w_def rows_stay_def devices_stay_def)
qed

lemma leave_stays:
  assumes "cr_SerialNumber c = serial" and "cr_UUID c = uuid" and "cr_SubmittedBy c = who"
  shows "stays_w serial n uuid who rpc w (snd (leave now handler ty c w))"
  using rows_stay_AddCommand [OF assms, of "snd w" now ty] assms
  by (auto simp: leave_def SetCommandStatus_def stays_w_def devices_stay_def requests_stay_def connections_stay_def
      split: prod.splits option.splits)

lemma judged_same:
  assumes "judge_answer e handler c a = Inr (c', ty, done_it)"
  shows "cr_SerialNumber c' = cr_SerialNumber c \<and> cr_UUID c' = cr_UUID c \<and> cr_SubmittedBy c' = cr_SubmittedBy c"
  using assms
  by (auto simp: judge_answer_def Let_def try_bind_def split: sum.splits if_splits option.splits prod.splits)

lemma await_stays:
  assumes "cr_SerialNumber c = serial" and "cr_UUID c = uuid" and "cr_SubmittedBy c = who"
  shows "stays_w serial n uuid who rpc_id w (snd (await_answer e rpc_id retry handler object params k c promise w))"
proof (cases "promises (fst w) promise")
  case None
  have "stays_w serial n uuid who rpc_id w (RemovePendingCommand rpc_id (fst w), snd w)"
    by (auto simp: stays_w_def rows_stay_def devices_stay_def requests_stay_def connections_stay_def RemovePendingCommand_def
        dest: in_om_erase intro: in_om_erase_other)
  with None show ?thesis
    using leave_stays [OF assms] stays_w_trans by (auto simp: await_answer_def)
next
  case (Some a)
  show ?thesis
  proof (cases "judge_answer e handler c a")
    case (Inl x)
    with Some show ?thesis by (simp add: await_answer_def stays_w_refl)
  next
    case (Inr j)
    obtain c' ty done_it where j: "j = (c', ty, done_it)" by (cases j)
    have c': "cr_SerialNumber c' = serial" "cr_UUID c' = uuid" "cr_SubmittedBy c' = who"
      using judged_same Inr j assms by fastforce+
    have "stays_w serial n uuid who rpc_id w (snd (complete_command e handler object params k c' w))"
      using rows_stay_AddCommand [OF c', of "snd w" "x_t2 e" COMMAND_COMPLETED] c'
      by (simp add: complete_command_def Let_def stays_w_def devices_stay_def requests_stay_def connections_stay_def)
    then show ?thesis
      using Some Inr j leave_stays [OF c'] by (simp add: await_answer_def)
  qed
qed

lemma WaitForCommand_stays:
  assumes c: "cr_SerialNumber c = serial" "cr_UUID c = uuid" "cr_SubmittedBy c = who"
    and n: "SerialNumberToInt serial = Inr n" and during: "\<And>w. stays_w serial n uuid who rpc_id w (during w)"
  shows "stays_w serial n uuid who rpc_id w (snd (WaitForCommand e during rpc_id cmd retry c params object handler deferred w))"
proof -
  let ?c = "c\<lparr> cr_Submitted := x_t0 e, cr_Executed := 0 \<rparr>" and ?sent = "c\<lparr> cr_Submitted := x_t0 e, cr_Executed := x_t1 e \<rparr>"
  have leave: "stays_w serial n uuid who rpc_id w (snd (leave now handler ty ?c w))" for now ty w
    by (rule leave_stays) (simp_all add: c)
  obtain m db where w: "w = (m, db)" by (cases w)
  obtain r m' where post: "PostCommand (x_poco e) (x_ws e) (x_ms e) rpc_id cmd serial (cr_Command c) params uuid False True deferred m = (r, m')"
    by (cases "PostCommand (x_poco e) (x_ws e) (x_ms e) rpc_id cmd serial (cr_Command c) params uuid False True deferred m")
  have p: "stays_w serial n uuid who rpc_id w (m', db)" using PostCommand_stays [OF post n] w by simp
  have after: "stays_w serial n uuid who rpc_id w (snd (leave now handler ty ?c (m', db)))" for now ty
    using stays_w_trans [OF p leave] .
  have await: "stays_w serial n uuid who rpc_id w (snd (await_answer e rpc_id retry handler object params n ?sent q (during (m', db))))" for q
    using stays_w_trans [OF stays_w_trans [OF p during] await_stays [of ?sent]] c by simp
  show ?thesis
    using post n c leave [of w "x_t0 e"] after await p
    by (auto simp: WaitForCommand_def Let_def w split: sum.splits prod.splits option.splits)
qed

section \<open>The steps of the handlers\<close>

text \<open>The identifier is that of the serial number, and what happens during an exchange stays with the device too.\<close>

definition calm :: "cmd_env \<Rightarrow> cmd_call \<Rightarrow> bool" where
  "calm q k \<longleftrightarrow> SerialNumberToInt (cc_serial k) = Inr (cc_int k) \<and>
     (\<forall>w. stays_w (cc_serial k) (cc_int k) (cc_uuid k) (u_requester (hd_user (cc_data k))) (cc_rpc k) w (q_during q w))"

abbreviation mine :: "cmd_call \<Rightarrow> gateway \<Rightarrow> gateway \<Rightarrow> bool" where
  "mine k \<equiv> stays (cc_serial k) (cc_int k) (cc_uuid k) (u_requester (hd_user (cc_data k))) (cc_rpc k)"

definition own_command :: "cmd_call \<Rightarrow> command_row \<Rightarrow> bool" where
  "own_command k c \<longleftrightarrow> cr_SerialNumber c = cc_serial k \<and> cr_UUID c = cc_uuid k \<and> cr_SubmittedBy c = u_requester (hd_user (cc_data k))"

lemma own_new_command [simp]: "own_command k (new_command q k name at details)"
  by (simp add: own_command_def new_command_def)

lemma own_command_updates [simp]:
  "own_command k (c\<lparr> cr_WaitingForFile := a \<rparr>) = own_command k c" "own_command k (c\<lparr> cr_deferred := b \<rparr>) = own_command k c"
  "own_command k (c\<lparr> cr_AttachType := t \<rparr>) = own_command k c" "own_command k (c\<lparr> cr_Status := t \<rparr>) = own_command k c"
  "own_command k (c\<lparr> cr_Completed := u \<rparr>) = own_command k c" "own_command k (c\<lparr> cr_Executed := u \<rparr>) = own_command k c"
  "own_command k (c\<lparr> cr_Submitted := u \<rparr>) = own_command k c" "own_command k (c\<lparr> cr_Results := t \<rparr>) = own_command k c"
  by (simp_all add: own_command_def)

lemma keeps_exchange:
  assumes "calm q k" and "own_command k c"
  shows "keeps (mine k) (exchange q k cmd retry c params object handler deferred)"
proof -
  have "mine k g (snd (exchange q k cmd retry c params object handler deferred g))" for g
    using WaitForCommand_stays [of c "cc_serial k" "cc_uuid k" "u_requester (hd_user (cc_data k))" "cc_int k" "cc_rpc k" "q_during q"
        "(g_mgr g, g_commands g)" "q_rpc q" cmd retry params object handler deferred] assms
    by (auto simp: exchange_def calm_def own_command_def stays_def split: prod.splits)
  then show ?thesis by (simp add: keeps_def)
qed

lemma keeps_gw_emit: "keeps (mine k) (gw_emit x)"
  by (simp add: keeps_def gw_emit_def stays_def stays_w_refl)

lemma keeps_Next: "keeps (mine k) (on_mgr mgr_Next_RPC_ID)"
  by (simp add: keeps_def on_mgr_def mgr_Next_RPC_ID_def stays_def stays_w_def rows_stay_def devices_stay_def requests_stay_def
      connections_stay_def)

lemma keeps_FireAndForget:
  assumes "calm q k"
  shows "keeps (mine k) (on_mgr (FireAndForget p ws (cc_serial k) name params))"
  using assms
  by (auto simp: keeps_def on_mgr_def FireAndForget_def andThen_def lift_exn_def send_to_device_def calm_def stays_def stays_w_def
      rows_stay_def devices_stay_def requests_stay_def dest: connections_stay_SendFrame split: prod.splits)

lemma keeps_store:
  assumes "\<And>st. devices_stay (cc_serial k) st (snd (f st))"
  shows "keeps (mine k) (on_gw_store f)"
  using assms
  by (auto simp: keeps_def on_gw_store_def stays_def stays_w_def rows_stay_def requests_stay_def connections_stay_def split: prod.splits)
     (metis snd_conv)

lemma devices_stay_refl [simp]: "devices_stay s st st"
  by (simp add: devices_stay_def)

lemma devices_stay_exec_update: "devices_stay s st (snd (exec_update s r st))"
  by (auto simp: exec_update_def devices_stay_def om_wf_set om_find_set)

lemma devices_stay_config_id:
  "devices st' = devices st \<Longrightarrow> devices_stay s st st'' = devices_stay s st' st''"
  by (simp add: devices_stay_def)

lemma set_config_id_devices [simp]: "devices (snd (set_config_id s i st)) = devices st"
  by (simp add: set_config_id_def split: sum.split)

lemma devices_stay_after:
  "devices_stay s st (snd (case set_config_id s i st of (Inl e, st') \<Rightarrow> (Inl e, st') | (Inr x, st') \<Rightarrow> exec_update s r st'))"
proof -
  obtain x st' where i: "set_config_id s i st = (x, st')" by (cases "set_config_id s i st")
  then have d: "devices st' = devices st" using set_config_id_devices [of s i st] by simp
  show ?thesis
  proof (cases x)
    case (Inl e)
    with i d show ?thesis by (simp add: devices_stay_def)
  next
    case (Inr y)
    then show ?thesis using i devices_stay_exec_update [of s st' r] devices_stay_config_id [OF d] by simp
  qed
qed

lemma devices_stay_pending: "devices_stay s st (snd (SetPendingDeviceConfiguration p cd now s config u st))"
proof (cases "Config_Valid p config")
  case valid: True
  show ?thesis
  proof (cases "GetDevice cd s st")
    case (Some d)
    let ?u = "if u = 0 then if LastConfigurationChange d = now then now + 1 else now else u"
    show ?thesis
    proof (cases "Config_SetUUID p config ?u")
      case (Inr r)
      obtain b t where r: "r = (b, t)" by (cases r)
      let ?r = "to_row cd (d\<lparr> pendingUUID := ?u, pendingConfiguration := t \<rparr>)"
      obtain y st' where e: "exec_update s ?r st = (y, st')" by (cases "exec_update s ?r st")
      have "devices_stay s st st'" using devices_stay_exec_update [of s st ?r] e by simp
      then show ?thesis using valid Some Inr r e
        by (cases b; cases y) (auto simp: SetPendingDeviceConfiguration_def Let_def split: bool.split)
    qed (use valid Some in \<open>simp add: SetPendingDeviceConfiguration_def Let_def\<close>)
  qed (use valid in \<open>simp add: SetPendingDeviceConfiguration_def\<close>)
qed (simp add: SetPendingDeviceConfiguration_def)

lemma keeps_configuration:
  "keeps (mine k) (on_gw_store (SetPendingDeviceConfiguration p cd now (cc_serial k) config u))"
  "keeps (mine k) (on_gw_store (RollbackDeviceConfigurationChange cd now (cc_serial k)))"
  "keeps (mine k) (on_gw_store (CompleteDeviceConfigurationChange p cd now (cc_serial k)))"
  "keeps (mine k) (on_gw_store (DeleteDeviceCapabilities (cc_serial k)))"
proof -
  show "keeps (mine k) (on_gw_store (SetPendingDeviceConfiguration p cd now (cc_serial k) config u))"
    by (intro keeps_store devices_stay_pending)
  show "keeps (mine k) (on_gw_store (RollbackDeviceConfigurationChange cd now (cc_serial k)))"
  proof (rule keeps_store)
    show "devices_stay (cc_serial k) st (snd (RollbackDeviceConfigurationChange cd now (cc_serial k) st))" for st
      by (cases "GetDevice cd (cc_serial k) st") (simp_all add: RollbackDeviceConfigurationChange_def Let_def devices_stay_after)
  qed
  show "keeps (mine k) (on_gw_store (CompleteDeviceConfigurationChange p cd now (cc_serial k)))"
  proof (rule keeps_store)
    show "devices_stay (cc_serial k) st (snd (CompleteDeviceConfigurationChange p cd now (cc_serial k) st))" for st
      by (cases "GetDevice cd (cc_serial k) st") (simp_all add: CompleteDeviceConfigurationChange_def Let_def devices_stay_after)
  qed
  show "keeps (mine k) (on_gw_store (DeleteDeviceCapabilities (cc_serial k)))"
    by (rule keeps_store) (simp add: DeleteDeviceCapabilities_def devices_stay_def)
qed

lemma connections_stay_on:
  assumes "device_conn n s = Some h" and "only_sends es" and "f (conns s h) = (r, c, es)"
  shows "connections_stay n s (fst (snd (on_connection h f s)))"
proof -
  note only_sends_effects [OF assms(2)]
  with assms(1,3) show ?thesis by (simp add: on_connection_def connections_stay_def)
qed

text \<open>The four requests for reports only send.\<close>

lemma reports_only_send:
  "conn_SetKafkaTelemetryReporting p ws now rpc i l ts c = (b, c', es) \<Longrightarrow> only_sends es"
  "conn_SetWebSocketTelemetryReporting p ws now rpc i l ts c = (b, c', es) \<Longrightarrow> only_sends es"
  "conn_StopKafkaTelemetry p ws rpc c = (b, c', es) \<Longrightarrow> only_sends es"
  "conn_StopWebSocketTelemetry p ws rpc c = (b, c', es) \<Longrightarrow> only_sends es"
proof -
  show "conn_SetKafkaTelemetryReporting p ws now rpc i l ts c = (b, c', es) \<Longrightarrow> only_sends es"
    by (auto simp: conn_SetKafkaTelemetryReporting_def Let_def StartTelemetry_def dest: conn_Send_only_sends split: if_splits)
  show "conn_SetWebSocketTelemetryReporting p ws now rpc i l ts c = (b, c', es) \<Longrightarrow> only_sends es"
    by (auto simp: conn_SetWebSocketTelemetryReporting_def Let_def StartTelemetry_def dest: conn_Send_only_sends split: if_splits)
  have stop: "only_sends es" if "stop_if_unused p ws rpc c = (b, c', es)" for c
  proof (cases "StopTelemetry p ws rpc ((UpdateCounts c)\<lparr> TelemetryReporting := False \<rparr>)")
    case (fields b' c'' es')
    with that have "es = es' \<or> es = []" by (auto simp: stop_if_unused_def Let_def split: if_splits)
    then show ?thesis using fields conn_Send_only_sends by (fastforce simp: StopTelemetry_def only_sends_def)
  qed
  show "conn_StopKafkaTelemetry p ws rpc c = (b, c', es) \<Longrightarrow> only_sends es"
    "conn_StopWebSocketTelemetry p ws rpc c = (b, c', es) \<Longrightarrow> only_sends es"
    unfolding conn_StopKafkaTelemetry_def conn_StopWebSocketTelemetry_def by (erule stop)+
qed

lemma keeps_server:
  assumes "\<And>s. connections_stay (cc_int k) s (fst (f s))"
  shows "keeps (mine k) (on_gw_server f)"
  using assms
  by (auto simp: keeps_def on_gw_server_def stays_def stays_w_def rows_stay_def requests_stay_def split: prod.splits) (metis fst_conv)

lemma connections_stay_refl [simp]: "connections_stay n s s"
  by (simp add: connections_stay_def)

lemma keeps_reports:
  "keeps (mine k) (on_gw_server (SetKafkaTelemetryReporting p ws now rpc (cc_int k) i l ts))"
  "keeps (mine k) (on_gw_server (SetWebSocketTelemetryReporting p ws now rpc (cc_int k) i l ts))"
  "keeps (mine k) (on_gw_server (StopKafkaTelemetry p ws rpc (cc_int k)))"
  "keeps (mine k) (on_gw_server (StopWebSocketTelemetry p ws rpc (cc_int k)))"
proof -
  have on: "connections_stay (cc_int k) s (fst (case device_conn (cc_int k) s of None \<Rightarrow> (s, []) | Some h \<Rightarrow> snd (on_connection h (f h) s)))"
    if "\<And>h c r c' es. f h c = (r, c', es) \<Longrightarrow> only_sends es"
    for s and f :: "handle \<Rightarrow> connection \<Rightarrow> bool \<times> connection \<times> effect list"
  proof (cases "device_conn (cc_int k) s")
    case (Some h)
    then show ?thesis using connections_stay_on [OF Some] that by (cases "f h (conns s h)") force
  qed simp
  show "keeps (mine k) (on_gw_server (SetKafkaTelemetryReporting p ws now rpc (cc_int k) i l ts))"
    by (intro keeps_server) (unfold SetKafkaTelemetryReporting_def, rule on, erule reports_only_send)
  show "keeps (mine k) (on_gw_server (SetWebSocketTelemetryReporting p ws now rpc (cc_int k) i l ts))"
    by (intro keeps_server) (unfold SetWebSocketTelemetryReporting_def, rule on, erule reports_only_send)
  show "keeps (mine k) (on_gw_server (StopKafkaTelemetry p ws rpc (cc_int k)))"
    by (intro keeps_server) (unfold StopKafkaTelemetry_def, rule on, erule reports_only_send)
  show "keeps (mine k) (on_gw_server (StopWebSocketTelemetry p ws rpc (cc_int k)))"
    by (intro keeps_server) (unfold StopWebSocketTelemetry_def, rule on, erule reports_only_send)
qed

lemma keeps_add_command: "own_command k c \<Longrightarrow> keeps (mine k) (add_command now (cc_serial k) c ty)"
  by (auto simp: keeps_def add_command_def on_tables_def stays_def stays_w_def devices_stay_def requests_stay_def connections_stay_def
      own_command_def intro: rows_stay_AddCommand)

section \<open>The handlers\<close>

lemma keeps_bool: "keeps R m \<Longrightarrow> keeps R m' \<Longrightarrow> keeps R (case b of True \<Rightarrow> m | False \<Rightarrow> m')"
  by (cases b) simp_all

lemma keeps_sum: "(\<And>x. keeps R (f x)) \<Longrightarrow> (\<And>y. keeps R (f' y)) \<Longrightarrow> keeps R (case v of Inl x \<Rightarrow> f x | Inr y \<Rightarrow> f' y)"
  by (cases v) simp_all

lemma keeps_answers:
  "keeps (mine k) (bad why)" "keeps (mine k) (refused why)" "keeps (mine k) (answer obj)" "keeps (mine k) (replied out)"
  by (simp_all add: bad_def refused_def answer_def replied_def own.keeps_ret)

lemma keeps_guards:
  "keeps (mine k) f \<Longrightarrow> keeps (mine k) (unless_simulated q k f)"
  "keeps (mine k) f \<Longrightarrow> keeps (mine k) (privileged k f)"
  "(\<And>obj. keeps (mine k) (h obj)) \<Longrightarrow> keeps (mine k) (with_body k h)"
  "keeps (mine k) f \<Longrightarrow> keeps (mine k) (same_serial q k obj f)"
  "(\<And>obj. keeps (mine k) (h obj)) \<Longrightarrow> keeps (mine k) (checked q k needed why h)"
  unfolding unless_simulated_def privileged_def with_body_def same_serial_def checked_def
  by (intro own.basic_rules keeps_with_gw keeps_answers; assumption)+

lemma keeps_exchanges:
  assumes "calm q k"
  shows "own_command k c \<Longrightarrow> keeps (mine k) (send_and_reply q k cmd retry c params)"
    and "own_command k c \<Longrightarrow> keeps (mine k) (send_and_publish q k cmd topic c params)"
    and "keeps (mine k) (package_exchange q k params)"
  unfolding send_and_reply_def send_and_publish_def package_exchange_def
  by (intro own.basic_rules keeps_answers keeps_gw_emit keeps_exchange [OF assms]; simp)+

lemmas mine_rules = own.basic_rules keeps_bool keeps_sum keeps_with_gw keeps_answers keeps_guards keeps_gw_emit keeps_configuration
  keeps_reports keeps_Next

lemma handlers_stay:
  assumes "calm q k"
  shows "keeps (mine k) (GetPackages q k pkg)" "keeps (mine k) (package_change q k op pkgs)" "keeps (mine k) (Ping q k)"
    "keeps (mine k) (Script q k)" "keeps (mine k) (Configure q k)" "keeps (mine k) (Upgrade q k)" "keeps (mine k) (Reboot q k)"
    "keeps (mine k) (Factory q k)" "keeps (mine k) (LEDs q k)" "keeps (mine k) (Trace q k)" "keeps (mine k) (WifiScan q k)"
    "keeps (mine k) (EventQueue q k)" "keeps (mine k) (MakeRequest q k)" "keeps (mine k) (RRM q k)"
    "keeps (mine k) (pass_on q k cmd name read)"
proof -
  note rules = mine_rules keeps_exchanges [OF assms] keeps_exchange [OF assms] keeps_FireAndForget [OF assms] keeps_add_command
  show "keeps (mine k) (GetPackages q k pkg)" unfolding GetPackages_def by (intro rules)
  show "keeps (mine k) (package_change q k op pkgs)" unfolding package_change_def by (intro rules)
  show "keeps (mine k) (Ping q k)" unfolding Ping_def Let_def by (intro rules) simp_all
  show "keeps (mine k) (Script q k)" unfolding Script_def script_command_def Let_def by (intro rules) simp_all
  show "keeps (mine k) (Configure q k)" unfolding Configure_def configure_exchange_def Let_def
    by (intro rules) (simp_all add: keeps_configuration)
  show "keeps (mine k) (Upgrade q k)" unfolding Upgrade_def Let_def by (intro rules) simp_all
  show "keeps (mine k) (Reboot q k)" unfolding Reboot_def Let_def by (intro rules) simp_all
  show "keeps (mine k) (Factory q k)" unfolding Factory_def Let_def by (intro rules) simp_all
  show "keeps (mine k) (LEDs q k)" unfolding LEDs_def Let_def by (intro rules) simp_all
  show "keeps (mine k) (Trace q k)" unfolding Trace_def Let_def by (intro rules) simp_all
  show "keeps (mine k) (WifiScan q k)" unfolding WifiScan_def Let_def by (intro rules) simp_all
  show "keeps (mine k) (EventQueue q k)" unfolding EventQueue_def Let_def by (intro rules) simp_all
  show "keeps (mine k) (MakeRequest q k)" unfolding MakeRequest_def Let_def by (intro rules) simp_all
  show "keeps (mine k) (RRM q k)" unfolding RRM_def Let_def by (intro rules) simp_all
  show "keeps (mine k) (pass_on q k cmd name read)" unfolding pass_on_def by (intro rules) simp_all
qed

lemma keeps_reply_case: "(\<And>r. keeps R (f r)) \<Longrightarrow> keeps R m \<Longrightarrow> keeps R (case r of Reply_Object \<Rightarrow> m | _ \<Rightarrow> f r)"
  by (cases r) simp_all

lemma Rtty_stays:
  assumes "calm q k"
  shows "keeps (mine k) (Rtty q k)"
proof -
  have out: "keeps (mine k) (case r of Reply_Object \<Rightarrow> answer obj | _ \<Rightarrow> replied out)" for r obj out
    by (cases r) (simp_all add: keeps_answers)
  show ?thesis unfolding Rtty_def Let_def
    by (intro mine_rules keeps_exchange [OF assms] out) simp_all
qed

lemma own_telemetry_record [simp]: "own_command k (telemetry_record q k kafka interval)"
  by (simp add: telemetry_record_def)

lemma Telemetry_stays: "keeps (mine k) (Telemetry q k)"
proof -
  have act: "keeps (mine k) (telemetry_action q k kafka i l ts)" for kafka i l ts
    unfolding telemetry_action_def Let_def by (intro mine_rules)
  show ?thesis unfolding Telemetry_def
    by (intro mine_rules act keeps_add_command own_telemetry_record)
qed

lemma post_commands_stay:
  assumes "pc \<in> set PostCommands" and "calm q k"
  shows "keeps (mine k) (snd (snd (snd pc)) q k)"
proof -
  note stay = handlers_stay [OF assms(2)] Rtty_stays [OF assms(2)] Telemetry_stays
  have more: "keeps (mine k) (PackageInstall q k)" "keeps (mine k) (Transfer q k)" "keeps (mine k) (CertUpdate q k)"
    "keeps (mine k) (PowerCycle q k)" "keeps (mine k) (FixedConfig q k)" "keeps (mine k) (CableDiagnostics q k)" "keeps (mine k) (ReEnroll q k)"
    unfolding PackageInstall_def Transfer_def CertUpdate_def PowerCycle_def FixedConfig_def CableDiagnostics_def ReEnroll_def
    by (intro keeps_guards stay)+
  from assms(1) show ?thesis
    unfolding PostCommands_def by (auto simp: stay more)
qed

text \<open>The identifier of the request is the next one, so at this level the relation depends on where it starts.\<close>

definition stays_next :: "string \<Rightarrow> u64 \<Rightarrow> string \<Rightarrow> string \<Rightarrow> gateway \<Rightarrow> gateway \<Rightarrow> bool" where
  "stays_next serial n uuid who g g' \<longleftrightarrow> stays serial n uuid who (RPC_Id (g_mgr g) + 1) g g'"

lemma proceed_stays:
  assumes "\<And>k. calm q k \<Longrightarrow> keeps (mine k) (f k)" and "SerialNumberToInt serial = Inr n"
    and "\<And>w. stays_w serial n (q_new_uuid q) (u_requester (hd_user h)) (RPC_Id (g_mgr g) + 1) w (q_during q w)"
  shows "stays_next serial n (q_new_uuid q) (u_requester (hd_user h)) g (snd (proceed q h serial n r f g))"
proof -
  let ?k = "\<lparr> cc_data = h, cc_serial = serial, cc_int = n, cc_uuid = q_new_uuid q, cc_rpc = RPC_Id (g_mgr g) + 1, cc_restrictions = r \<rparr>"
  let ?g = "g\<lparr> g_mgr := (g_mgr g)\<lparr> RPC_Id := RPC_Id (g_mgr g) + 1 \<rparr> \<rparr>"
  have "mine ?k ?g (snd (f ?k ?g))"
    using assms(1) [of ?k] assms(2,3) by (simp add: calm_def keeps_def)
  moreover have "mine ?k g ?g" using keeps_step [OF keeps_Next [of ?k], of g] by (simp add: on_mgr_def mgr_Next_RPC_ID_def)
  ultimately have "mine ?k g (snd (f ?k ?g))" by (rule own.trans [rotated])
  then show ?thesis by (simp add: proceed_def andThen_def on_mgr_def mgr_Next_RPC_ID_def stays_next_def)
qed

lemma andThen_value: "andThen (lift_exn (Inr x)) f = f x"
  by (rule ext) (simp add: step_lift)

lemma find_in_set: "find good xs = Some x \<Longrightarrow> x \<in> set xs"
  by (auto simp: find_Some_iff)

lemma stays_next_inert: "snd (f g) = g \<Longrightarrow> stays_next serial n uuid who g (snd (f g))"
  by (simp add: stays_next_def own.refl)

text \<open>What belongs to other devices is as it was.\<close>

definition others_untouched :: "string \<Rightarrow> u64 \<Rightarrow> gateway \<Rightarrow> gateway \<Rightarrow> bool" where
  "others_untouched serial n g g' \<longleftrightarrow>
     filter (\<lambda>r. cr_SerialNumber r \<noteq> serial) (CommandList (g_commands g')) =
       filter (\<lambda>r. cr_SerialNumber r \<noteq> serial) (CommandList (g_commands g)) \<and>
     (\<forall>x. ci_SerialNumber (snd x) \<noteq> n \<longrightarrow> (x \<in> set (Outstanding (g_mgr g')) \<longleftrightarrow> x \<in> set (Outstanding (g_mgr g)))) \<and>
     devices_stay serial (g_store g) (g_store g') \<and> connections_stay n (g_server g) (g_server g')"

lemma stays_next_others:
  assumes "stays_next serial n uuid who g g'"
    and "\<And>x. x \<in> set (Outstanding (g_mgr g)) \<Longrightarrow> ci_SerialNumber (snd x) \<noteq> n \<Longrightarrow> fst x \<noteq> RPC_Id (g_mgr g) + 1"
  shows "others_untouched serial n g g'"
  using assms unfolding stays_next_def stays_def stays_w_def rows_stay_def requests_stay_def others_untouched_def fst_conv snd_conv
  by blast

end
