(* ===== verification/GW_DeviceProps.thy ===== *)
theory GW_DeviceProps
  imports GW_DeviceRules
begin

text \<open>
  Properties of the commands given to a device: who is refused, what a script and an upgrade need, what becomes of a
  configuration the device does not answer, and where requests are passed on unchecked.
\<close>

section \<open>Refusals\<close>

definition only_counted :: "gateway \<Rightarrow> gateway \<Rightarrow> bool" where
  "only_counted g g' \<longleftrightarrow> (\<exists>i. g' = g\<lparr> g_mgr := (g_mgr g)\<lparr> RPC_Id := i \<rparr> \<rparr>)"

definition denied :: "cpp_exn + payload rest_reply \<Rightarrow> bool" where
  "denied r \<longleftrightarrow> (\<exists>why. r = Inr (Rest_BadRequest why) \<or> r = Inr (Rest_UnAuthorized why)) \<or> r = Inr Rest_NotFound"

definition denies :: "payload rest_reply gop \<Rightarrow> gateway \<Rightarrow> bool" where
  "denies f g \<longleftrightarrow> denied (fst (f g)) \<and> snd (f g) = g"

lemma denies_basic [simp]: "denies (bad why) g" "denies (refused why) g" "denies (ret Rest_NotFound) g"
  by (simp_all add: denies_def denied_def bad_def refused_def ret_def)

lemma denies_with_gw [simp]: "denies (with_gw f) g \<longleftrightarrow> denies (f g) g"
  by (simp add: denies_def with_gw_def)

lemma denies_simulated [simp]: "denies (unless_simulated q k f) g \<longleftrightarrow> IsDeviceSimulated q (cc_serial k) g \<or> denies f g"
  by (simp add: unless_simulated_def)

lemma denies_privileged [simp]: "denies (privileged k f) g \<longleftrightarrow> u_role (hd_user (cc_data k)) \<notin> {ROOT, ADMIN} \<or> denies f g"
  by (simp add: privileged_def)

definition not_for_simulated :: "ap_command set" where
  "not_for_simulated = {AP_trace, AP_request, AP_wifiscan, AP_eventqueue, AP_telemetry, AP_rrm, AP_certupdate, AP_transfer,
     AP_script, AP_powercycle, AP_fixedconfig, AP_cablediagnostics, AP_reenroll, AP_package}"

definition for_administrators :: "ap_command set" where
  "for_administrators = {AP_rrm, AP_certupdate, AP_transfer, AP_powercycle, AP_cablediagnostics, AP_reenroll, AP_package}"

lemma handler_denies:
  assumes "(c, par, conn, f) \<in> set PostCommands"
    and "IsDeviceSimulated q (cc_serial k) g \<and> c \<in> not_for_simulated \<or>
         u_role (hd_user (cc_data k)) \<notin> {ROOT, ADMIN} \<and> c \<in> for_administrators"
  shows "denies (f q k) g"
proof -
  note defs = Trace_def MakeRequest_def WifiScan_def EventQueue_def Telemetry_def RRM_def CertUpdate_def Transfer_def Script_def
    PowerCycle_def FixedConfig_def CableDiagnostics_def ReEnroll_def PackageInstall_def package_change_def
  from assms(1) have "c \<in> not_for_simulated \<Longrightarrow> IsDeviceSimulated q (cc_serial k) g \<Longrightarrow> denies (f q k) g"
    unfolding PostCommands_def not_for_simulated_def by (auto simp: defs)
  moreover from assms(1) have "c \<in> for_administrators \<Longrightarrow> u_role (hd_user (cc_data k)) \<notin> {ROOT, ADMIN} \<Longrightarrow> denies (f q k) g"
    unfolding PostCommands_def for_administrators_def by (auto simp: defs)
  ultimately show ?thesis using assms(2) by blast
qed

text \<open>The entries of the table are found by their commands, and none allows another command beside it.\<close>

lemma find_key_distinct: "distinct (map fst xs) \<Longrightarrow> x \<in> set xs \<Longrightarrow> find (\<lambda>y. fst y = fst x) xs = Some x"
  by (induction xs) (auto simp: image_iff)

lemma find_post:
  assumes "pc \<in> set PostCommands"
  shows "find (\<lambda>x. fst x = fst pc) PostCommands = Some pc" and "\<not> fst (snd pc)"
proof -
  have "distinct (map fst PostCommands)" by (simp add: PostCommands_def)
  then show "find (\<lambda>x. fst x = fst pc) PostCommands = Some pc" using assms by (rule find_key_distinct)
  show "\<not> fst (snd pc)" using assms unfolding PostCommands_def by auto
qed

text \<open>
  C19: a command is refused and nothing is done, but for counting the number given to it, when the device is busy with
  another one, when it needs a connection that is not there, when it is not for a simulated device, and when it is
  for administrators and the user is none.
\<close>

theorem refused_commands_do_nothing:
  assumes "ValidateParameters q h = Some (cmd, path)" and "NormalizeMac (q_replace q) (p_toLower (q_poco q)) path = (True, serial)"
    and "SerialNumberToInt serial = Inr n" and "pc \<in> set PostCommands" and "to_apcommand cmd = fst pc"
    and "(\<exists>uuid c. CommandRunningForDevice n (g_mgr g) = Some (uuid, c) \<and> c \<noteq> AP_unknown) \<or>
         fst (snd (snd pc)) \<and> \<not> fst (Connected_restrictions n (g_server g)) \<or>
         IsDeviceSimulated q serial g \<and> fst pc \<in> not_for_simulated \<and> CommandRunningForDevice n (g_mgr g) = None \<or>
         u_role (hd_user h) \<notin> {ROOT, ADMIN} \<and> fst pc \<in> for_administrators \<and> CommandRunningForDevice n (g_mgr g) = None"
  shows "denied (fst (command_DoPost q h g)) \<and> only_counted g (snd (command_DoPost q h g))"
proof -
  have counted: "only_counted g g" by (auto simp: only_counted_def intro: exI [of _ "RPC_Id (g_mgr g)"])
  obtain c par conn f where pc: "pc = (c, par, conn, f)" by (cases pc)
  have par: "\<not> par" and found: "find (\<lambda>x. fst x = c) PostCommands = Some pc" using find_post [OF assms(4)] pc by simp_all
  have known: "c \<noteq> AP_unknown" using assms(4) pc unfolding PostCommands_def by auto
  let ?go = "\<lambda>r. with_gw (\<lambda>g. case CommandRunningForDevice n (g_mgr g) of
       Some (uuid, running) \<Rightarrow> andThen (lift_exn (ap_to_string running)) (\<lambda>name.
         bad (''DeviceIsAlreadyBusy UUID='' @ uuid @ '' Command='' @ name))
     | None \<Rightarrow> proceed q h serial n r (f q))"
  have names: "\<exists>name. ap_to_string c = Inr name" if "c \<noteq> AP_unknown" for c
    using that by (cases c) (simp_all add: ap_to_string_def uCentralAPCommands_def)
  have go: "denied (fst (?go r g)) \<and> only_counted g (snd (?go r g))" if "\<not> (conn \<and> \<not> fst (Connected_restrictions n (g_server g)))" for r
  proof (cases "CommandRunningForDevice n (g_mgr g)")
    case (Some x)
    obtain uuid c' where x: "x = (uuid, c')" by (cases x)
    then have "c' \<noteq> AP_unknown" using assms(6) Some that pc by auto
    then obtain name where "ap_to_string c' = Inr name" using names by blast
    then show ?thesis using Some x counted by (simp add: with_gw_def andThen_value bad_def ret_def denied_def)
  next
    case None
    let ?k = "\<lparr> cc_data = h, cc_serial = serial, cc_int = n, cc_uuid = q_new_uuid q, cc_rpc = RPC_Id (g_mgr g) + 1, cc_restrictions = r \<rparr>"
    let ?g = "g\<lparr> g_mgr := (g_mgr g)\<lparr> RPC_Id := RPC_Id (g_mgr g) + 1 \<rparr> \<rparr>"
    have "denies (f q ?k) ?g"
      using assms(6) None that handler_denies [of c par conn f q ?k ?g] assms(4) pc by (auto simp: IsDeviceSimulated_def)
    then show ?thesis
      using None by (auto simp: with_gw_def proceed_def andThen_def on_mgr_def mgr_Next_RPC_ID_def denies_def only_counted_def)
  qed
  have run: "denied (fst (run_post q h serial n pc g)) \<and> only_counted g (snd (run_post q h serial n pc g))"
  proof (cases "conn \<and> \<not> fst (Connected_restrictions n (g_server g))")
    case True
    then obtain r where "Connected_restrictions n (g_server g) = (False, r)" by (cases "Connected_restrictions n (g_server g)") auto
    with True counted show ?thesis by (simp add: run_post_def pc when_connected_def with_gw_def bad_def ret_def denied_def)
  next
    case False
    show ?thesis
    proof (cases conn)
      case True
      with False obtain r where "Connected_restrictions n (g_server g) = (True, r)" by (cases "Connected_restrictions n (g_server g)") auto
      with True go [OF False] par show ?thesis by (simp add: run_post_def pc when_connected_def with_gw_def [of "\<lambda>g. case Connected_restrictions n (g_server g) of (True, r) \<Rightarrow> h g r | (False, _) \<Rightarrow> h' g" for h h'])
    next
      case False
      with go par show ?thesis by (simp add: run_post_def pc)
    qed
  qed
  show ?thesis
  proof (cases "GetDevice (q_codec q) serial (g_store g)")
    case None
    with assms(1,2,5) known pc counted show ?thesis
      by (simp add: command_DoPost_def device_request_def with_gw_def ret_def denied_def)
  next
    case (Some d)
    have "command_DoPost q h g = run_post q h serial n pc g"
      using assms(1-3,5) known pc Some found
      by (simp add: command_DoPost_def device_request_def with_gw_def [of "\<lambda>g. if _ g then _ g else _ g"] andThen_value)
    with run show ?thesis by simp
  qed
qed

section \<open>Whose things are touched\<close>

text \<open>
  C18: a command given to a device touches only what belongs to it. What it enters into the command table is for this
  device, under the new identifier, in the name of who asked, and so is a request it leaves with the
  manager; the rows of all other devices, the requests under way to them, their device rows and their
  connections are exactly as they were. This holds as long as no request of another device is under the next
  request identifier (they are handed out in increasing order), and what happens during the wait for the
  answer concerns this device only too.
\<close>

theorem command_stays_with_device:
  assumes "ValidateParameters q h = Some (cmd, path)" and "NormalizeMac (q_replace q) (p_toLower (q_poco q)) path = (True, serial)"
    and "SerialNumberToInt serial = Inr n"
    and "\<forall>w. stays_w serial n (q_new_uuid q) (u_requester (hd_user h)) (RPC_Id (g_mgr g) + 1) w (q_during q w)"
    and "\<forall>x\<in>set (Outstanding (g_mgr g)). ci_SerialNumber (snd x) \<noteq> n \<longrightarrow> fst x \<noteq> RPC_Id (g_mgr g) + 1"
  shows "others_untouched serial n g (snd (command_DoPost q h g)) \<and>
         (\<forall>r\<in>set (CommandList (g_commands (snd (command_DoPost q h g)))). r \<in> set (CommandList (g_commands g)) \<or>
            cr_SerialNumber r = serial \<and> cr_UUID r = q_new_uuid q \<and> cr_SubmittedBy r = u_requester (hd_user h)) \<and>
         (\<forall>x\<in>set (Outstanding (g_mgr (snd (command_DoPost q h g)))). x \<in> set (Outstanding (g_mgr g)) \<or>
            ci_SerialNumber (snd x) = n \<and> ci_UUID (snd x) = q_new_uuid q)"
proof -
  let ?R = "stays_next serial n (q_new_uuid q) (u_requester (hd_user h))"
  have inert: "?R g (snd (bad why g))" "?R g (snd (ret r g))" "?R g (snd (andThen (lift_exn x) (\<lambda>y. bad (f y)) g))" for why r x f
    by (rule stays_next_inert; simp add: bad_def ret_def andThen_def lift_exn_def split: sum.split)+
  have posted: "?R g (snd (run_post q h serial n pc g))" if "pc \<in> set PostCommands" for pc
  proof -
    obtain c par conn f where pc: "pc = (c, par, conn, f)" by (cases pc)
    have "?R g (snd (proceed q h serial n r (f q) g))" for r
      using proceed_stays [of q "f q" serial n h g r] post_commands_stay [OF that] assms(3,4) pc by simp
    then show ?thesis
      by (simp add: run_post_def pc Let_def when_connected_def with_gw_def inert split: prod.split bool.split option.split)
  qed
  have "?R g (snd (command_DoPost q h g))"
    using posted find_in_set [of _ PostCommands]
    by (simp add: command_DoPost_def device_request_def assms(1-3) andThen_value with_gw_def inert split: option.split)
  then show ?thesis
    using stays_next_others assms(5)
    unfolding stays_next_def stays_def stays_w_def rows_stay_def requests_stay_def fst_conv snd_conv by blast
qed

section \<open>Scripts and upgrades\<close>

lemma with_body_step: "with_body k f g = (case hd_body (cc_data k) of None \<Rightarrow> (Inl (Poco_Exception ''NullPointerException''), g) | Some obj \<Rightarrow> f obj g)"
  by (simp add: with_body_def ParsedBody_def andThen_def lift_exn_def split: option.split)

lemma find_script_in: "find_script ident g = Some e \<Longrightarrow> e \<in> set (g_scripts g) \<and> (se_id e = ident \<or> se_name e = ident)"
  using find_in_set [of _ "g_scripts g" e] by (auto simp: find_script_def find_Some_iff split: if_splits)

lemma chosen_by_role:
  assumes "chosen_script k obj s g = Inr (s', encoded)" and "sr_scriptId s \<noteq> []" and "u_role (hd_user (cc_data k)) \<noteq> ROOT"
  shows "\<exists>e\<in>set (g_scripts g). (se_id e = sr_scriptId s \<or> se_name e = sr_scriptId s) \<and>
           UserTypeToString (u_role (hd_user (cc_data k))) \<in> set (se_restricted e) \<and> sr_script s' = se_content e \<and>
           sr_type s' = se_type e \<and> encoded = base64encode (map of_char (se_content e))"
proof -
  obtain e where e: "find_script (sr_scriptId s) g = Some e"
    using assms(1,2) by (cases "find_script (sr_scriptId s) g") (simp_all add: chosen_script_def Let_def)
  have "UserTypeToString (u_role (hd_user (cc_data k))) \<in> set (se_restricted e)"
    using assms e by (auto simp: chosen_script_def Let_def split: if_splits)
  moreover have "sr_script s' = se_content e \<and> sr_type s' = se_type e \<and> encoded = base64encode (map of_char (se_content e))"
    using assms(1,2) e calculation by (auto simp: chosen_script_def Let_def)
  ultimately show ?thesis using find_script_in [OF e] by blast
qed

lemma no_object:
  "script_refusal q k s = Some r \<Longrightarrow> r \<noteq> Rest_Object x" "chosen_script k obj s g = Inl r \<Longrightarrow> r \<noteq> Rest_Object x"
  by (auto simp: script_refusal_def chosen_script_def Let_def split: if_splits option.splits)

text \<open>
  A user of the public server who is not root can only have a stored script run, and only one that names the role
  of the user: what is given to the device is the text and the type of that script.
\<close>

theorem scripts_by_role:
  assumes "u_role (hd_user (cc_data k)) \<noteq> ROOT" and "\<not> rq_internal (hd_request (cc_data k))"
    and "fst (Script q k g) = Inr (Rest_Object given)"
  shows "\<exists>obj s s' d e. hd_body (cc_data k) = Some obj \<and>
           ScriptRequest_from_json (q_poco q) obj (new_script_request (q_garbage q) (q_garbage_flag q)) = (True, s) \<and>
           e \<in> set (g_scripts g) \<and> (se_id e = sr_scriptId s \<or> se_name e = sr_scriptId s) \<and>
           UserTypeToString (u_role (hd_user (cc_data k))) \<in> set (se_restricted e) \<and>
           sr_script s' = se_content e \<and> sr_type s' = se_type e \<and>
           Script q k g = script_command q k (sr_type s = ''diagnostic'') d s' (base64encode (map of_char (se_content e))) g"
proof -
  have sim: "\<not> IsDeviceSimulated q (cc_serial k) g"
    using assms(3) by (auto simp: Script_def unless_simulated_def with_gw_def bad_def ret_def)
  obtain obj where body: "hd_body (cc_data k) = Some obj"
    using assms(3) sim by (cases "hd_body (cc_data k)") (simp_all add: Script_def unless_simulated_def with_gw_def with_body_step)
  obtain b s where read: "ScriptRequest_from_json (q_poco q) obj (new_script_request (q_garbage q) (q_garbage_flag q)) = (b, s)"
    by (cases "ScriptRequest_from_json (q_poco q) obj (new_script_request (q_garbage q) (q_garbage_flag q))")
  note step = Script_def unless_simulated_def with_gw_def with_body_step sim body read
  have b: b using assms(3) by (cases b) (simp_all add: step bad_def ret_def)
  have ok: "script_refusal q k s = None"
    using assms(3) b no_object(1) by (cases "script_refusal q k s") (auto simp: step ret_def)
  obtain d where d: "GetDevice (q_codec q) (cc_serial k) (g_store g) = Some d"
    using assms(3) b ok by (cases "GetDevice (q_codec q) (cc_serial k) (g_store g)") (simp_all add: step ret_def)
  obtain s' encoded where chosen: "chosen_script k obj s g = Inr (s', encoded)"
  proof (cases "chosen_script k obj s g")
    case (Inl r)
    with assms(3) b ok d no_object(2) show ?thesis by (fastforce simp: step ret_def)
  next
    case (Inr x)
    then show ?thesis using that by (cases x) simp
  qed
  have run: "hd_body (cc_data k) = Some obj"
    "ScriptRequest_from_json (q_poco q) obj (new_script_request (q_garbage q) (q_garbage_flag q)) = (True, s)"
    "script_refusal q k s = None" "chosen_script k obj s g = Inr (s', encoded)"
    "Script q k g = script_command q k (sr_type s = ''diagnostic'') d s' encoded g"
    using b ok d chosen by (simp_all add: step)
  have "sr_scriptId s \<noteq> []"
    using run(3) assms(1,2) by (auto simp: script_refusal_def Let_def split: if_splits)
  from chosen_by_role [OF run(4) this assms(1)] run show ?thesis by blast
qed

lemma no_signature: "sr_signature s = [] \<Longrightarrow> \<not> j_has (script_params q k diagnostic s encoded) ''signature''"
  by (simp add: script_params_def writes_def str_to_json_def u64_to_json_def obj_set_def j_has_def om_find_set_any)
    (simp add: om_find_def)

text \<open>
  For a restricted device the gateway makes the signature of a script when none is given, and runs the script
  with parameters that do not have it.
\<close>

theorem made_signature_not_sent:
  assumes "sr_signature s = []" and "q_sign q (cc_restrictions k) (sr_script s) \<noteq> []" and "restrictedDevice d"
  shows "\<exists>params c. \<not> j_has params ''signature'' \<and> cr_Details c = json_text q params \<and>
           script_command q k diagnostic d s encoded g =
             andThen (gw_emit (Gw_ExpectUpload (cc_uuid k) 15 (if sr_type s = ''shell'' then ''txt'' else ''tgz''))) (\<lambda>_.
             andThen (exchange q k AP_script False c params False (Some (strict_of k)) (sr_deferred s)) replied) g"
proof -
  let ?s = "if sr_deferred s \<and> sr_uri s = [] then s\<lparr> sr_uri := q_upload q @ cc_uuid k \<rparr> else s"
  have s: "sr_signature ?s = []" "sr_script ?s = sr_script s" "sr_type ?s = sr_type s" "sr_deferred ?s = sr_deferred s"
    using assms(1) by simp_all
  let ?params = "script_params q k diagnostic ?s encoded"
  let ?c = "(new_command q k ''script'' 0 (json_text q ?params))\<lparr> cr_WaitingForFile := (if sr_deferred ?s then 1 else 0),
                                                              cr_deferred := sr_deferred ?s \<rparr>"
  have "cr_Details ?c = json_text q ?params" by (simp add: new_command_def)
  moreover have "\<not> j_has ?params ''signature''" by (rule no_signature [OF s(1)])
  ultimately show ?thesis using assms(2) s by (intro exI [of _ ?params] exI [of _ ?c]) (simp add: script_command_def Let_def)
qed

text \<open>
  For a device whose row restricts upgrades the gateway sends an upgrade only with a signature: the one of the
  request, or the one it makes of the address. A device known for development is not asked.
\<close>

theorem restricted_upgrade_signed:
  assumes "fst (Upgrade q k g) = Inr (Rest_Object given)" and "GetDevice (q_codec q) (cc_serial k) (g_store g) = Some d"
    and "r_upgrade (restrictionDetails d)" and "\<not> r_developer (cc_restrictions k)"
  shows "\<exists>params signature when. Upgrade q k g = send_and_reply q k AP_upgrade True (new_command q k ''upgrade'' when (json_text q params)) params g \<and>
           j_get params ''signature'' = JStr signature \<and> signature \<noteq> [] \<and>
           (signature = GetParameter ''FWsignature'' [] (rq_parameters (hd_request (cc_data k))) \<or>
            (\<exists>uri. signature = q_sign_uri q (restrictionDetails d) uri))"
proof -
  let ?given = "GetParameter ''FWsignature'' [] (rq_parameters (hd_request (cc_data k)))" and ?p = "q_poco q"
  obtain obj where body: "hd_body (cc_data k) = Some obj"
    using assms(1) by (cases "hd_body (cc_data k)") (simp_all add: Upgrade_def checked_def with_body_step)
  note start = Upgrade_def checked_def with_body_step body
  have has: "j_has obj ''uri''" "j_has obj ''serialNumber''"
    using assms(1) by (auto simp: start bad_def ret_def split: if_splits)
  obtain s where s: "p_string ?p (j_get obj ''serialNumber'') = Inr s"
    using assms(1) by (cases "p_string ?p (j_get obj ''serialNumber'')") (simp_all add: start has same_serial_def andThen_def lift_exn_def)
  have same: "s = cc_serial k"
    using assms(1) by (auto simp: start has same_serial_def s step_lift bad_def ret_def split: if_splits)
  note on = start has same_serial_def s [unfolded same] step_lift with_gw_def assms(2) Let_def
  obtain uri where uri: "GetS ?p ''uri'' obj [] = Inr uri"
    using assms(1) by (cases "GetS ?p ''uri'' obj []") (simp_all add: on, simp add: andThen_def lift_exn_def)
  obtain run_at where at: "GetWhen ?p obj = Inr run_at"
    using assms(1) by (cases "GetWhen ?p obj") (simp_all add: on uri, simp add: andThen_def lift_exn_def)
  obtain keep where keep: "GetB ?p ''keepRedirector'' obj True = Inr keep"
    using assms(1) by (cases "GetB ?p ''keepRedirector'' obj True") (simp_all add: on uri at, simp add: andThen_def lift_exn_def)
  obtain sig where sig: "(if ?given = [] then map_sum id (\<lambda>_. q_sign_uri q (restrictionDetails d) uri) (q_uri q uri) else Inr ?given) = Inr sig"
  proof (cases "?given = [] \<and> (\<exists>e. q_uri q uri = Inl e)")
    case True
    then obtain e where "?given = []" "q_uri q uri = Inl e" by blast
    with assms(1,3) have False by (simp add: on uri at keep) (simp add: andThen_def lift_exn_def)
    then show ?thesis ..
  next
    case False
    then show ?thesis using that by (cases "q_uri q uri"; cases "?given = []") simp_all
  qed
  have sig': "(if r_upgrade (restrictionDetails d) \<and> ?given = [] then map_sum id (\<lambda>_. q_sign_uri q (restrictionDetails d) uri) (q_uri q uri)
      else Inr ?given) = Inr sig" using sig assms(3) by simp
  have ne: "sig \<noteq> []"
  proof
    assume "sig = []"
    with assms(1,3,4) sig' show False by (simp add: on uri at keep bad_def ret_def del: if_bool_eq_conj if_split)
  qed
  let ?params = "writes ([str_to_json ''serial'' (cc_serial k), str_to_json ''uri'' uri,
       obj_set ''keep_redirector'' (JInt (if keep then 1 else 0))] @ [str_to_json ''signature'' sig] @ [u64_to_json ''when'' run_at]) []"
  have "Upgrade q k g = send_and_reply q k AP_upgrade True (new_command q k ''upgrade'' run_at (json_text q ?params)) ?params g"
    using assms(3,4) ne sig' by (simp add: on uri at keep del: if_split)
  moreover have "j_get ?params ''signature'' = JStr sig"
    by (simp add: writes_def str_to_json_def u64_to_json_def obj_set_def j_get_def) (simp add: om_find_def)
  moreover have "sig = ?given \<or> (\<exists>uri. sig = q_sign_uri q (restrictionDetails d) uri)"
    using sig by (auto split: if_splits) (cases "q_uri q uri"; auto)
  ultimately show ?thesis using ne by blast
qed

section \<open>A configuration that is not answered\<close>

text \<open>
  C20: a configuration that was sent to a connected device, and that the device never answers, is entered as pending
  among the commands, and yet becomes the configuration of the device: nothing is pending in its row afterwards.
\<close>

theorem unanswered_configuration_applied:
  assumes "storage_wf st" and "codec_ok (q_codec q) d" and "readable st" and "writable st"
    and "GetDevice (q_codec q) (cc_serial k) st = Some d" and "SerialNumberToInt (cc_serial k) = Inr n"
    and "SetPendingDeviceConfiguration (q_poco q) (q_codec q) now (cc_serial k) config 0 st = (Inr (Some (config', u)), g_store g)"
    and "config' \<noteq> []" and "u \<noteq> 0" and "Config_to_json (q_poco q) config' = Inr cfg"
    and "config_params q k (writes [str_to_json ''serial'' (cc_serial k), u64_to_json ''uuid'' u, u64_to_json ''when'' 0,
                                    sub_to_json ''config'' cfg] []) (g_store g) = Inr sent"
    and "Connected n (g_server g)"
    and "PostCommand (q_poco q) (x_ws (q_rpc q)) (x_ms (q_rpc q)) (cc_rpc k) AP_configure (cc_serial k) ''configure'' sent (cc_uuid k)
           False True False (g_mgr g) = (Inr (True, Some pr), m1)"
    and "promises m1 pr = None" and "m_store m1 = g_store g" and "q_during q (m1, g_commands g) = (m1, g_commands g)"
    and "cdb_writable (g_commands g)" and "cc_uuid k \<notin> cr_UUID ` set (CommandList (g_commands g))" and "x_t1 (q_rpc q) \<noteq> 0"
  shows "\<exists>given g' row d'. configure_exchange q k 0 u config' g = (Inr (Rest_Object given), g') \<and>
           find_command (cc_uuid k) (g_commands g') = Some row \<and> cr_Status row = ''pending'' \<and>
           GetDevice (q_codec q) (cc_serial k) (g_store g') = Some d' \<and> Configuration d' = config' \<and> UUID d' = u \<and>
           pendingConfiguration d' = [] \<and> pendingUUID d' = 0"
proof -
  let ?params = "writes [str_to_json ''serial'' (cc_serial k), u64_to_json ''uuid'' u, u64_to_json ''when'' 0, sub_to_json ''config'' cfg] []"
  let ?c = "new_command q k ''configure'' 0 (json_text q ?params)" and ?e = "q_rpc q"
  let ?cc = "?c\<lparr> cr_Submitted := x_t0 ?e, cr_Executed := x_t1 ?e \<rparr>"
  have fields: "cr_SerialNumber ?c = cc_serial k" "cr_RunAt ?c = 0" "cr_Command ?c = ''configure''" "cr_UUID ?c = cc_uuid k" "cr_ErrorCode ?c = 0"
    by (simp_all add: new_command_def blank_command_def)
  have wait: "WaitForCommand ?e (q_during q) (cc_rpc k) AP_configure True ?c sent False (Some (strict_of k)) False (g_mgr g, g_commands g) =
      leave (x_t2 ?e) (Some (strict_of k)) COMMAND_PENDING ?cc (RemovePendingCommand (cc_rpc k) m1, g_commands g)"
    using unanswered_left [of ?c n "g_mgr g" ?e "cc_rpc k" AP_configure sent False pr m1 "q_during q" "g_commands g" False "Some (strict_of k)"]
      fields assms(6,12-14,16) by simp
  obtain out kept where l: "leave (x_t2 ?e) (Some (strict_of k)) COMMAND_PENDING ?cc (RemovePendingCommand (cc_rpc k) m1, g_commands g) =
      (Inr out, RemovePendingCommand (cc_rpc k) m1, (g_commands g)\<lparr> CommandList := kept @ [stamp_command (x_t2 ?e) COMMAND_PENDING ?cc] \<rparr>)"
      "cc_uuid k \<notin> cr_UUID ` set kept"
    using leave_fresh [of "(RemovePendingCommand (cc_rpc k) m1, g_commands g)" ?cc "x_t2 ?e" "Some (strict_of k)" COMMAND_PENDING]
      assms(17,18) fields by auto
  have out: "ro_command out = stamp_command (x_t2 ?e) COMMAND_PENDING ?cc" "ro_event out = None"
    using l(1) by (auto simp: leave_def split: prod.splits)
  let ?db = "(g_commands g)\<lparr> CommandList := kept @ [stamp_command (x_t2 ?e) COMMAND_PENDING ?cc] \<rparr>"
  let ?g = "g\<lparr> g_mgr := RemovePendingCommand (cc_rpc k) m1, g_tables := (g_tables g)\<lparr> a_commands := ?db \<rparr> \<rparr>"
  have ex: "exchange q k AP_configure True ?c sent False (Some (strict_of k)) False g = (Inr out, ?g)"
    using wait l(1) out(2) by (simp add: exchange_def)
  obtain st2 d2 where st2: "CompleteDeviceConfigurationChange (q_poco q) (q_codec q) (q_now q) (cc_serial k) (g_store g) = (Inr True, st2)"
    "GetDevice (q_codec q) (cc_serial k) st2 = Some d2" "Configuration d2 = config'" "UUID d2 = u" "pendingConfiguration d2 = []" "pendingUUID d2 = 0"
    using pending_completed [OF assms(1-9), of "q_now q"] by blast
  have store: "g_store ?g = g_store g" using assms(15) by (simp add: RemovePendingCommand_def)
  let ?g' = "?g\<lparr> g_mgr := (g_mgr ?g)\<lparr> m_store := st2 \<rparr> \<rparr>"
  have "cr_Executed (ro_command out) \<noteq> 0" "cr_ErrorCode (ro_command out) \<noteq> 2" using out(1) assms(19) fields(5) by simp_all
  then have "configure_exchange q k 0 u config' g = (Inr (Rest_Object (Pay_Rpc (ro_reply out))), ?g')"
    using st2(1) store
    by (simp add: configure_exchange_def assms(10,11) step_lift Let_def with_gw_def andThen_def [of "exchange _ _ _ _ _ _ _ _ _"] ex)
       (simp add: andThen_def on_gw_store_def replied_def ret_def)
  moreover have "find_command (cc_uuid k) (g_commands ?g') = Some (stamp_command (x_t2 ?e) COMMAND_PENDING ?cc)"
    using find_added [OF l(2), of "stamp_command (x_t2 ?e) COMMAND_PENDING ?cc" "g_commands g"] fields by simp
  ultimately show ?thesis using st2 by (intro exI) (auto intro: stamp_simps)
qed

section \<open>A gateway to evaluate the properties on\<close>

definition plain_table :: "'r table" where
  "plain_table = \<lparr> rows = [], t_readable = True, t_writable = True \<rparr>"

definition plain_script :: script_entry where
  "plain_script =
     \<lparr> se_id = ''a-1'', se_name = ''n'', se_description = [], se_uri = [], se_content = ''ls'', se_version = [], se_type = ''shell'',
       se_created = 0, se_modified = 0, se_author = [], se_restricted = [''csr''], se_deferred = False, se_timeout = 30,
       se_defaultUploadURI = [] \<rparr>"

definition plain_gateway :: "manager \<Rightarrow> gateway" where
  "plain_gateway m =
     \<lparr> g_mgr = m, g_tables = \<lparr> a_health = plain_table, a_stats = plain_table, a_logs = plain_table, a_commands = plain_db [] \<rparr>,
       g_scripts = [plain_script], g_radius = [], g_effects = [] \<rparr>"

definition plain_cmd_env :: "codec \<Rightarrow> poco \<Rightarrow> cmd_env" where
  "plain_cmd_env c p =
     \<lparr> q_rpc = plain_rpc\<lparr> x_poco := p \<rparr>, q_during = id, q_codec = c, q_now = 7, q_millis = 0, q_new_uuid = ''v'', q_replace = (\<lambda>s _ _. s),
       q_validate = (\<lambda>_ _ _. None), q_truth = (\<lambda>_. Inr False), q_deflate = (\<lambda>_ _. None), q_sign = (\<lambda>_ _. ''s''),
       q_sign_uri = (\<lambda>_ _. ''s''), q_uri = (\<lambda>u. Inr u), q_upload = ''u'', q_real = (\<lambda>_. []), q_ms_text = (\<lambda>_. []), q_gunz = (\<lambda>_ _. []),
       q_setting = (\<lambda>_ d. d), q_number = (\<lambda>_ d. d), q_rtty_enabled = False, q_rtty_internal = False, q_rtty_id = [], q_rtty_token = [],
       q_rtty_endpoint = (\<lambda>_ _ _ _ _. True), q_telemetry_endpoint = (\<lambda>_ _. None), q_garbage = 3, q_garbage_flag = False,
       q_garbage_telemetry = \<lparr> tp_Reporting = False, tp_Interval = 0, tp_WebSocketTimer = 0, tp_KafkaTimer = 0, tp_WebSocketCount = 0,
         tp_KafkaCount = 0, tp_WebSocketPackets = 0, tp_KafkaPackets = 0 \<rparr> \<rparr>"

definition plain_data :: "user_role \<Rightarrow> string \<Rightarrow> jobject \<Rightarrow> call_data" where
  "plain_data role cmd obj =
     \<lparr> hd_request = \<lparr> rq_method = ''POST'', rq_json = None, rq_parameters = [], rq_bindings = [(''command'', cmd), (''serialnumber'', ''24f5a207a131'')],
                      rq_internal = False \<rparr>,
       hd_body = Some obj, hd_user = plain_user\<lparr> u_role := role \<rparr>,
       hd_query = \<lparr> qb_SerialNumber = [], qb_StartDate = 0, qb_EndDate = 0, qb_Offset = 0, qb_Limit = 0, qb_Filter = [], qb_Lifetime = False,
                    qb_LogType = 0, qb_LastOnly = False, qb_Newest = False, qb_CountOnly = False, qb_AdditionalInfo = False, qb_Select = [] \<rparr> \<rparr>"

definition plain_call :: "user_role \<Rightarrow> jobject \<Rightarrow> cmd_call" where
  "plain_call role obj =
     \<lparr> cc_data = plain_data role [] obj, cc_serial = ''24f5a207a131'', cc_int = 0x24f5a207a131, cc_uuid = ''v'', cc_rpc = 9,
       cc_restrictions = plain_restrictions \<rparr>"

definition lower_serial :: poco where
  "lower_serial = details_poco\<lparr> p_toLower := (\<lambda>s. if s = ''serialNumber'' then ''serialnumber'' else s) \<rparr>"

lemma plain_validated:
  "cmd \<noteq> [] \<Longrightarrow> ValidateParameters (plain_cmd_env c lower_serial) (plain_data role cmd obj) = Some (cmd, ''24f5a207a131'')"
  by (simp add: ValidateParameters_def GetBinding_def plain_cmd_env_def plain_data_def lower_serial_def om_find_def)

lemma plain_normal:
  "NormalizeMac (q_replace (plain_cmd_env c lower_serial)) (p_toLower (q_poco (plain_cmd_env c lower_serial))) ''24f5a207a131'' = (True, ''24f5a207a131'')"
  by (simp add: plain_cmd_env_def lower_serial_def NormalizeMac_def isxdigit_def isdigit_def)

lemma plain_fields [simp]:
  "q_new_uuid (plain_cmd_env c p) = ''v''" "q_during (plain_cmd_env c p) = id" "q_rpc (plain_cmd_env c p) = plain_rpc\<lparr> x_poco := p \<rparr>"
  "q_codec (plain_cmd_env c p) = c" "u_requester (hd_user (plain_data role cmd obj)) = ''root''" "u_role (hd_user (plain_data role cmd obj)) = role"
  "hd_body (plain_data role cmd obj) = Some obj" "rq_internal (hd_request (plain_data role cmd obj)) = False"
  "rq_parameters (hd_request (plain_data role cmd obj)) = []" "q_sign (plain_cmd_env c p) = (\<lambda>_ _. ''s'')" "q_sign_uri (plain_cmd_env c p) = (\<lambda>_ _. ''s'')"
  "q_uri (plain_cmd_env c p) = (\<lambda>u. Inr u)" "g_mgr (plain_gateway m) = m" "g_scripts (plain_gateway m) = [plain_script]"
  "a_commands (g_tables (plain_gateway m)) = plain_db []" "cc_data (plain_call role obj) = plain_data role [] obj"
  "cc_serial (plain_call role obj) = ''24f5a207a131''" "cc_int (plain_call role obj) = 0x24f5a207a131" "cc_uuid (plain_call role obj) = ''v''"
  "cc_rpc (plain_call role obj) = 9" "cc_restrictions (plain_call role obj) = plain_restrictions"
  by (simp_all add: plain_cmd_env_def plain_data_def plain_user_def plain_gateway_def plain_call_def)

lemma plain_command [simp]: "to_apcommand ''rrm'' = AP_rrm"
  by (simp add: to_apcommand_def uCentralAPCommands_def c_str_def char_code_def)

theorem command_stays_with_device_witness:
  "others_untouched ''24f5a207a131'' 0x24f5a207a131 (plain_gateway online_manager)
     (snd (command_DoPost (plain_cmd_env plain_codec lower_serial) (plain_data ROOT ''reboot'' []) (plain_gateway online_manager)))"
  using command_stays_with_device [OF plain_validated plain_normal zero_number, of "''reboot''" plain_codec ROOT "[]" "plain_gateway online_manager"]
  by (simp add: stays_w_refl)

theorem refused_commands_do_nothing_witness:
  "denied (fst (command_DoPost (plain_cmd_env plain_codec lower_serial) (plain_data CSR ''rrm'' []) (plain_gateway online_manager))) \<and>
   only_counted (plain_gateway online_manager)
     (snd (command_DoPost (plain_cmd_env plain_codec lower_serial) (plain_data CSR ''rrm'' []) (plain_gateway online_manager)))"
proof -
  have idle: "CommandRunningForDevice 0x24f5a207a131 online_manager = None" by (simp add: CommandRunningForDevice_def)
  have rrm: "(AP_rrm, False, True, RRM) \<in> set PostCommands" "AP_rrm \<in> for_administrators"
    by (simp_all add: PostCommands_def for_administrators_def)
  show ?thesis
    by (rule refused_commands_do_nothing [OF plain_validated plain_normal zero_number rrm(1)]) (simp_all add: idle rrm(2))
qed

text \<open>A device that is not connected: what is given to it is entered as failed or pending.\<close>

definition script_body :: jobject where
  "script_body = [(''scriptId'', JStr ''a-1''), (''serialNumber'', JStr ''24f5a207a131''), (''type'', JStr ''shell''), (''when'', JInt 0)]"

lemma offline_exchange:
  assumes "cr_SerialNumber c = ''24f5a207a131''"
  shows "\<exists>out g'. exchange (plain_cmd_env cd p) (plain_call role obj) cmd retry c params object handler deferred (plain_gateway offline_manager\<lparr> g_effects := es \<rparr>) = (Inr out, g')"
  using assms zero_number online_connected(2)
  by (auto simp: exchange_def WaitForCommand_def Let_def leave_def split: prod.splits)

lemma offline_device:
  "GetDevice plain_codec ''24f5a207a131'' (m_store offline_manager) = Some (plain_device ''24f5a207a131'')"
  "m_store offline_manager = plain_storage" "m_store online_manager = plain_storage"
  by (simp_all add: offline_manager_def online_manager_def plain_manager_def plain_GetDevice)

lemma not_simulated: "\<not> IsDeviceSimulated (plain_cmd_env plain_codec p) ''24f5a207a131'' (plain_gateway offline_manager)"
  by (simp add: IsDeviceSimulated_def offline_device plain_GetDevice) (simp add: plain_device_def)

definition script_asked :: script_request where
  "script_asked = (new_script_request 3 False)\<lparr> sr_serialNumber := ''24f5a207a131'', sr_type := ''shell'', sr_scriptId := ''a-1'', sr_when := 0 \<rparr>"

lemma script_read: "ScriptRequest_from_json details_poco script_body (new_script_request 3 False) = (True, script_asked)"
  by (simp add: ScriptRequest_from_json_def str_from_json_def u64_from_json_def bool_from_json_def when_present_def script_body_def
      j_has_def j_get_def j_isNull_def om_find_def details_poco_def poco_of_def script_asked_def new_script_request_def)

definition script_given :: script_request where
  "script_given = script_asked\<lparr> sr_script := ''ls'', sr_type := ''shell'', sr_deferred := False, sr_timeout := 30 \<rparr>"

lemma script_found: "find_script ''a-1'' (plain_gateway m) = Some plain_script"
  by (simp add: find_script_def plain_script_def ValidUUID_def isxdigit_def isdigit_def)

lemma script_runs:
  "\<exists>out. fst (Script (plain_cmd_env plain_codec details_poco) (plain_call CSR script_body) (plain_gateway offline_manager)) = Inr (Rest_Object (Pay_Rpc out))"
proof -
  let ?q = "plain_cmd_env plain_codec details_poco" and ?k = "plain_call CSR script_body" and ?g = "plain_gateway offline_manager"
  let ?d = "plain_device ''24f5a207a131''"
  define encoded where "encoded = base64encode (map of_char ''ls'')"
  have refusal: "script_refusal ?q ?k script_asked = None"
    by (simp add: script_refusal_def script_asked_def new_script_request_def Let_def)
  have "j_has script_body ''deferred'' = False" "j_has script_body ''timeout'' = False"
    by (simp_all add: script_body_def j_has_def om_find_def)
  then have chosen: "chosen_script ?k script_body script_asked ?g = Inr (script_given, encoded)"
    using script_found [of offline_manager]
    by (simp add: chosen_script_def script_asked_def new_script_request_def plain_script_def script_given_def Let_def encoded_def)
  have g: "q_garbage ?q = 3" "q_garbage_flag ?q = False" "q_poco ?q = details_poco" by (simp_all add: plain_cmd_env_def)
  have run: "Script ?q ?k ?g = script_command ?q ?k False ?d script_given encoded ?g"
    using not_simulated script_read refusal chosen offline_device g
    by (simp add: Script_def unless_simulated_def with_gw_def with_body_step) (simp add: script_asked_def)
  let ?params = "script_params ?q ?k False script_given encoded"
  let ?c = "(new_command ?q ?k ''script'' 0 (json_text ?q ?params))\<lparr> cr_WaitingForFile := 0, cr_deferred := False \<rparr>"
  have "cr_SerialNumber ?c = ''24f5a207a131''" by (simp add: new_command_def)
  from offline_exchange [OF this] obtain out g' where ex: "exchange ?q ?k AP_script False ?c ?params False (Some (strict_of ?k)) False
      (?g\<lparr> g_effects := [Gw_ExpectUpload ''v'' 15 ''txt''] \<rparr>) = (Inr out, g')" by blast
  have flat: "sr_deferred script_given = False" "sr_type script_given = ''shell''" "restrictedDevice ?d = False" "g_effects ?g = []"
    by (simp_all add: script_given_def script_asked_def new_script_request_def plain_device_def plain_gateway_def)
  have "Script ?q ?k ?g = (Inr (Rest_Object (Pay_Rpc (ro_reply out))), g')"
    unfolding run using ex by (simp add: script_command_def flat Let_def andThen_def gw_emit_def replied_def ret_def)
  then show ?thesis by simp
qed

theorem scripts_by_role_witness:
  "\<exists>given e. fst (Script (plain_cmd_env plain_codec details_poco) (plain_call CSR script_body) (plain_gateway offline_manager)) = Inr (Rest_Object given) \<and>
     e \<in> set (g_scripts (plain_gateway offline_manager)) \<and> UserTypeToString CSR \<in> set (se_restricted e)"
proof -
  obtain out where out: "fst (Script (plain_cmd_env plain_codec details_poco) (plain_call CSR script_body) (plain_gateway offline_manager)) =
      Inr (Rest_Object (Pay_Rpc out))" using script_runs by blast
  from scripts_by_role [OF _ _ out] out show ?thesis by auto
qed

theorem made_signature_not_sent_witness:
  "\<exists>params. \<not> j_has params ''signature'' \<and>
     (\<exists>c. script_command (plain_cmd_env plain_codec details_poco) (plain_call ROOT []) False ((plain_device ''24f5a207a131'')\<lparr> restrictedDevice := True \<rparr>)
            script_given ''bHM='' (plain_gateway offline_manager) =
          andThen (gw_emit (Gw_ExpectUpload ''v'' 15 ''txt'')) (\<lambda>_.
          andThen (exchange (plain_cmd_env plain_codec details_poco) (plain_call ROOT []) AP_script False c params False
                     (Some (strict_of (plain_call ROOT []))) False) replied) (plain_gateway offline_manager))"
  using made_signature_not_sent [of script_given "plain_cmd_env plain_codec details_poco" "plain_call ROOT []"
      "(plain_device ''24f5a207a131'')\<lparr> restrictedDevice := True \<rparr>" False "''bHM=''" "plain_gateway offline_manager"]
  by (auto simp: script_given_def script_asked_def new_script_request_def)

definition upgrade_body :: jobject where
  "upgrade_body = [(''serialNumber'', JStr ''24f5a207a131''), (''uri'', JStr ''f'')]"

definition strict_codec :: codec where
  "strict_codec = plain_codec\<lparr> restr_in := (\<lambda>_. plain_restrictions\<lparr> r_upgrade := True \<rparr>) \<rparr>"

lemma strict_device:
  "GetDevice strict_codec ''24f5a207a131'' plain_storage = Some ((plain_device ''24f5a207a131'')\<lparr> restrictionDetails := plain_restrictions\<lparr> r_upgrade := True \<rparr> \<rparr>)"
  by (simp add: GetDevice_def plain_storage_def om_find_def strict_codec_def to_row_def plain_codec_def plain_device_def)

lemma upgrade_runs:
  "\<exists>out. fst (Upgrade (plain_cmd_env strict_codec details_poco) (plain_call ROOT upgrade_body) (plain_gateway offline_manager)) = Inr (Rest_Object (Pay_Rpc out))"
proof -
  let ?q = "plain_cmd_env strict_codec details_poco" and ?k = "plain_call ROOT upgrade_body" and ?g = "plain_gateway offline_manager"
  have members: "j_has upgrade_body ''uri''" "j_has upgrade_body ''serialNumber''" "\<not> j_has upgrade_body ''when''" "\<not> j_has upgrade_body ''keepRedirector''"
    "p_string details_poco (j_get upgrade_body ''serialNumber'') = Inr ''24f5a207a131''" "p_string details_poco (j_get upgrade_body ''uri'') = Inr ''f''"
    by (simp_all add: upgrade_body_def j_has_def j_get_def om_find_def details_poco_def poco_of_def)
  have flat: "g_effects ?g = []" "?g\<lparr> g_effects := [] \<rparr> = ?g" "GetParameter ''FWsignature'' [] [] = []"
    "\<not> r_developer plain_restrictions"
    by (simp_all add: plain_gateway_def GetParameter_def plain_restrictions_def)
  have sends: "\<exists>out. fst (send_and_reply ?q ?k AP_upgrade True (new_command ?q ?k ''upgrade'' 0 t) params ?g) = Inr (Rest_Object (Pay_Rpc out))" for t params
  proof -
    have "cr_SerialNumber (new_command ?q ?k ''upgrade'' 0 t) = ''24f5a207a131''" by (simp add: new_command_def)
    from offline_exchange [OF this, of strict_codec details_poco ROOT upgrade_body AP_upgrade True params False "Some (strict_of ?k)" False "[]"] flat
    show ?thesis by (auto simp: send_and_reply_def andThen_def replied_def ret_def)
  qed
  show ?thesis
    using members flat strict_device offline_device(2)
    by (simp add: Upgrade_def checked_def with_body_step same_serial_def step_lift with_gw_def GetS_def GetB_def GetWhen_def Get_def Let_def)
       (rule sends)
qed

theorem restricted_upgrade_signed_witness:
  "\<exists>params signature when. Upgrade (plain_cmd_env strict_codec details_poco) (plain_call ROOT upgrade_body) (plain_gateway offline_manager) =
     send_and_reply (plain_cmd_env strict_codec details_poco) (plain_call ROOT upgrade_body) AP_upgrade True
       (new_command (plain_cmd_env strict_codec details_poco) (plain_call ROOT upgrade_body) ''upgrade'' when (p_stringify details_poco params)) params
       (plain_gateway offline_manager) \<and>
     j_get params ''signature'' = JStr signature \<and> signature \<noteq> []"
proof -
  obtain out where out: "fst (Upgrade (plain_cmd_env strict_codec details_poco) (plain_call ROOT upgrade_body) (plain_gateway offline_manager)) =
      Inr (Rest_Object (Pay_Rpc out))" using upgrade_runs by blast
  have "\<not> r_developer plain_restrictions" by (simp add: plain_restrictions_def)
  with restricted_upgrade_signed [OF out] strict_device offline_device(2) show ?thesis by simp blast
qed

lemma post_store: "PostCommand p ws ms rpc_id cmd serial name params uuid once rpc deferred m = (r, m') \<Longrightarrow> m_store m' = m_store m"
  by (auto simp: PostCommand_def andThen_def lift_exn_def ret_def Let_def send_to_device_def on_outstanding_def
      split: sum.splits prod.splits if_splits)

theorem unanswered_configuration_applied_witness:
  "\<exists>given g g' row d'. configure_exchange (plain_cmd_env plain_codec plain_poco) (plain_call ROOT []) 0 7 ''new'' g = (Inr (Rest_Object given), g') \<and>
     find_command ''v'' (g_commands g') = Some row \<and> cr_Status row = ''pending'' \<and>
     GetDevice plain_codec ''24f5a207a131'' (g_store g') = Some d' \<and> Configuration d' = ''new''"
proof -
  let ?q = "plain_cmd_env plain_codec plain_poco" and ?k = "plain_call ROOT []"
  define st where "st = snd (SetPendingDeviceConfiguration plain_poco plain_codec 7 ''24f5a207a131'' ''old'' 0 plain_storage)"
  have last: "LastConfigurationChange (plain_device s) = 0" for s by (simp add: plain_device_def)
  have pending: "SetPendingDeviceConfiguration plain_poco plain_codec 7 ''24f5a207a131'' ''old'' 0 plain_storage = (Inr (Some (''new'', 7)), st)"
    using plain_config plain_GetDevice last
    by (simp add: st_def SetPendingDeviceConfiguration_def exec_update_def) (simp add: plain_storage_def)
  have "caps_rows st = []" using pending
    by (auto simp: SetPendingDeviceConfiguration_def exec_update_def Let_def plain_storage_def split: option.splits if_splits sum.splits prod.splits bool.splits)
  then have params: "config_params ?q ?k params st = Inr params" for params
    by (simp add: config_params_def GetDeviceCapabilities_def om_find_def)
  have io: "readable plain_storage" "writable plain_storage" by (simp_all add: plain_storage_def)
  let ?m = "online_manager\<lparr> m_store := st \<rparr>"
  obtain m1 where m1: "PostCommand plain_poco (\<lambda>_ s. Sent_Acked (length s)) 0 9 AP_configure ''24f5a207a131'' ''configure''
      (writes [str_to_json ''serial'' ''24f5a207a131'', u64_to_json ''uuid'' 7, u64_to_json ''when'' 0, sub_to_json ''config'' [(''uuid'', JInt 7)]] [])
      ''v'' False True False ?m = (Inr (True, Some (next_promise ?m)), m1)"
    using online_post [of ?m plain_poco 0 9 AP_configure "''configure''" _ "''v''" True False] by auto
  have "promises m1 (next_promise ?m) = None" using post_sent(3) [OF _ zero_number m1] by (simp add: om_wf_def)
  moreover have "m_store m1 = st"
    using post_store [OF m1] by simp
  moreover have "Config_to_json plain_poco ''new'' = Inr [(''uuid'', JInt 7)]"
    by (simp add: Config_to_json_def plain_poco_def poco_of_def parse_object_def extract_object_def)
  ultimately show ?thesis
    using unanswered_configuration_applied [of plain_storage ?q "plain_device ''24f5a207a131''" ?k "0x24f5a207a131" 7 "''old''" "''new''" 7
        "plain_gateway ?m" "[(''uuid'', JInt 7)]" "writes [str_to_json ''serial'' ''24f5a207a131'', u64_to_json ''uuid'' 7, u64_to_json ''when'' 0,
           sub_to_json ''config'' [(''uuid'', JInt 7)]] []" "next_promise ?m" m1]
      plain_wf plain_codec_ok plain_GetDevice plain_number pending m1 params online_connected(1) io
    by (simp add: plain_rpc_def) blast
qed

end
