(* ===== verification/GW_ScanTables.thy ===== *)
theory GW_ScanTables
  imports GW_Upgrade
begin

unbundle bit_operations_syntax

text \<open>
  The value tables of the Wi-Fi scan parser (\<^verbatim>\<open>src/ParseWifiScan.h\<close>), the look-up in them, its single bits and its
  hexadecimal and binary texts.
\<close>

section \<open>Value tables\<close>

type_synonym value_string = "(u32 \<times> string option) list"

definition txbf_antenna_flags :: value_string where
  "txbf_antenna_flags =
     [(0, Some ''1 TX antenna sounding''), (0x01, Some ''2 TX antenna sounding''), (0x02, Some ''3 TX antenna sounding''),
      (0x03, Some ''4 TX antenna sounding''), (0, None)]"

definition txbf_feedback_flags :: value_string where
  "txbf_feedback_flags =
     [(0, Some ''not supported''), (0x01, Some ''delayed feedback capable''), (0x02, Some ''immediate feedback capable''),
      (0x03, Some ''delayed and immediate feedback capable''), (0, None)]"

definition txbf_calib_flag :: value_string where
  "txbf_calib_flag =
     [(0, Some ''incapable''), (0x01, Some ''Limited involvement, cannot initiate''),
      (0x02, Some ''Limited involvement, can initiate''), (0x03, Some ''Fully capable''), (0, None)]"

definition txbf_chan_est_flags :: value_string where
  "txbf_chan_est_flags =
     [(0, Some ''1 space time stream''), (0x01, Some ''2 space time streams''), (0x02, Some ''3 space time streams''),
      (0x03, Some ''4 space time streams''), (0, None)]"

definition txbf_min_group_flags :: value_string where
  "txbf_min_group_flags =
     [(0, Some ''No grouping supported''), (0x01, Some ''Groups of 1,2 supported''), (0x02, Some ''Groups of 1,4 supported''),
      (0x03, Some ''Groups of 1,2,4 supported''), (0, None)]"

definition vht_max_mpdu_length_flag :: value_string where
  "vht_max_mpdu_length_flag =
     [(0, Some ''3 895''), (0x01, Some ''7 991''), (0x02, Some ''11 454''), (0x03, Some ''Reserved''), (0, None)]"

definition vht_supported_chan_width_set_flag :: value_string where
  "vht_supported_chan_width_set_flag =
     [(0, Some ''Neither 160MHz nor 80+80 supported''), (0x01, Some ''160MHz supported''),
      (0x02, Some ''160MHz and 80+80 Supported''), (0x03, Some ''Reserved''), (0, None)]"

definition vht_rx_stbc_flag :: value_string where
  "vht_rx_stbc_flag =
     [(0, Some ''None''), (0x01, Some ''1 Spatial Stream Supported''), (0x02, Some ''1 to 2 Spatial Stream Supported''),
      (0x03, Some ''1 to 3 Spatial Stream Supported''), (0x04, Some ''1 to 4 Spatial Stream Supported''),
      (0x02, Some ''160MHz and 80+80 Supported''), (0x05, Some ''Reserved''), (0x06, Some ''Reserved''),
      (0x07, Some ''Reserved''), (0, None)]"

definition num_plus_one_3bit_flag :: value_string where
  "num_plus_one_3bit_flag =
     [(0, Some ''1''), (0x01, Some ''2''), (0x02, Some ''3''), (0x03, Some ''4''), (0x04, Some ''5''), (0x05, Some ''6''),
      (0x06, Some ''7''), (0x07, Some ''8''), (0, None)]"

definition vht_max_ampdu_flag :: value_string where
  "vht_max_ampdu_flag =
     [(0, Some ''8 191''), (0x01, Some ''16 383''), (0x02, Some ''32 767''), (0x03, Some ''65,535''), (0x04, Some ''131 071''),
      (0x05, Some ''262 143''), (0x06, Some ''524 287''), (0x07, Some ''1 048 575''), (0, None)]"

definition vht_link_adapt_flag :: value_string where
  "vht_link_adapt_flag =
     [(0, Some ''No Feedback''), (0x01, Some ''Reserved (logically only solicited feedback)''),
      (0x02, Some ''Unsolicited feedback only''),
      (0x03, Some ''Both (can provide unsolicited feedback and respond to VHT MRQ)''), (0, None)]"

definition ieee80211_supported_rates_vals :: value_string where
  "ieee80211_supported_rates_vals =
     [(0x02, Some ''1''), (0x03, Some ''1.5''), (0x04, Some ''2''), (0x05, Some ''2.5''), (0x06, Some ''3''),
      (0x09, Some ''4.5''), (0x0b, Some ''5.5''), (0x0c, Some ''6''), (0x12, Some ''9''), (0x16, Some ''11''),
      (0x18, Some ''12''), (0x1b, Some ''13.5''), (0x24, Some ''18''), (0x2c, Some ''22''), (0x30, Some ''24''),
      (0x36, Some ''27''), (0x42, Some ''33''), (0x48, Some ''36''), (0x60, Some ''48''), (0x6c, Some ''54''),
      (0x82, Some ''1(B)''), (0x83, Some ''1.5(B)''), (0x84, Some ''2(B)''), (0x85, Some ''2.5(B)''), (0x86, Some ''3(B)''),
      (0x89, Some ''4.5(B)''), (0x8b, Some ''5.5(B)''), (0x8c, Some ''6(B)''), (0x92, Some ''9(B)''), (0x96, Some ''11(B)''),
      (0x98, Some ''12(B)''), (0x9b, Some ''13.5(B)''), (0xa4, Some ''18(B)''), (0xac, Some ''22(B)''), (0xb0, Some ''24(B)''),
      (0xb6, Some ''27(B)''), (0xc2, Some ''33(B)''), (0xc8, Some ''36(B)''), (0xe0, Some ''48(B)''), (0xec, Some ''54(B)''),
      (0xff, Some ''BSS requires support for mandatory features of HT PHY (IEEE 802.11 - Clause 20)''), (0, None)]"

definition environment_vals :: value_string where
  "environment_vals =
     [(0x20, Some ''Any''), (0x4f, Some ''Outdoor''), (0x49, Some ''Indoor''), (0, None)]"

definition service_interval_granularity_vals :: value_string where
  "service_interval_granularity_vals =
     [(0, Some ''5 ms''), (1, Some ''10 ms''), (2, Some ''15 ms''), (3, Some ''20 ms''), (4, Some ''25 ms''),
      (5, Some ''30 ms''), (6, Some ''35 ms''), (7, Some ''40 ms''), (0, None)]"

definition ieee80211_rsn_cipher_vals :: value_string where
  "ieee80211_rsn_cipher_vals =
     [(0, Some ''NONE''), (1, Some ''WEP (40-bit)''), (2, Some ''TKIP''), (3, Some ''AES (OCB)''), (4, Some ''AES (CCM)''),
      (5, Some ''WEP (104-bit)''), (6, Some ''BIP''), (7, Some ''Group addressed traffic not allowed''), (0, None)]"

definition ieee80211_rsn_keymgmt_vals :: value_string where
  "ieee80211_rsn_keymgmt_vals =
     [(0, Some ''NONE''), (1, Some ''WPA''), (2, Some ''PSK''), (3, Some ''FT over IEEE 802.1X''), (4, Some ''FT using PSK''),
      (5, Some ''WPA (SHA256)''), (6, Some ''PSK (SHA256)''), (7, Some ''TDLS / TPK Handshake''), (0, None)]"

definition rsn_cap_replay_counter :: value_string where
  "rsn_cap_replay_counter =
     [(0, Some ''1 replay counter per PTKSA/GTKSA/STAKeySA''), (0x01, Some ''2 replay counters per PTKSA/GTKSA/STAKeySA''),
      (0x02, Some ''4 replay counters per PTKSA/GTKSA/STAKeySA''), (0x03, Some ''16 replay counters per PTKSA/GTKSA/STAKeySA''),
      (0, None)]"

definition ieee802111_wfa_ie_type_vals :: value_string where
  "ieee802111_wfa_ie_type_vals =
     [(1, Some ''WPA Information Element''), (2, Some ''WMM/WME''), (4, Some ''WPS''), (0, None)]"

definition ieee80211_wfa_ie_wpa_cipher_vals :: value_string where
  "ieee80211_wfa_ie_wpa_cipher_vals =
     [(0, Some ''NONE''), (1, Some ''WEP (40-bit)''), (2, Some ''TKIP''), (3, Some ''AES (OCB)''), (4, Some ''AES (CCM)''),
      (5, Some ''WEP (104-bit)''), (6, Some ''BIP''), (7, Some ''Group addressed traffic not allowed''), (0, None)]"

definition ieee80211_wfa_ie_wpa_keymgmt_vals :: value_string where
  "ieee80211_wfa_ie_wpa_keymgmt_vals =
     [(0, Some ''NONE''), (1, Some ''WPA''), (2, Some ''PSK''), (3, Some ''FT over IEEE 802.1X''), (4, Some ''FT using PSK''),
      (5, Some ''WPA (SHA256)''), (6, Some ''PSK (SHA256)''), (7, Some ''TDLS / TPK Handshake''), (0, None)]"

definition ieee802111_wfa_ie_wme_type :: value_string where
  "ieee802111_wfa_ie_wme_type =
     [(0, Some ''Information Element''), (1, Some ''Parameter Element''), (2, Some ''TSPEC Element''), (0, None)]"

definition ieee802111_wfa_ie_wme_qos_info_sta_max_sp_length_vals :: value_string where
  "ieee802111_wfa_ie_wme_qos_info_sta_max_sp_length_vals =
     [(0, Some ''WMM AP may deliver all buffered frames (MSDUs and MMPDUs)''),
      (1, Some ''WMM AP may deliver a maximum of 2 buffered frames (MSDUs and MMPDUs) per USP''),
      (2, Some ''WMM AP may deliver a maximum of 4 buffered frames (MSDUs and MMPDUs) per USP''),
      (3, Some ''WMM AP may deliver a maximum of 6 buffered frames (MSDUs and MMPDUs) per USP''), (0, None)]"

definition ieee80211_wfa_ie_wme_acs_vals :: value_string where
  "ieee80211_wfa_ie_wme_acs_vals =
     [(0, Some ''Best Effort''), (1, Some ''Background''), (2, Some ''Video''), (3, Some ''Voice''), (0, None)]"

definition ieee80211_wfa_ie_wme_tspec_tsinfo_direction_vals :: value_string where
  "ieee80211_wfa_ie_wme_tspec_tsinfo_direction_vals =
     [(0, Some ''Uplink''), (1, Some ''Downlink''), (2, Some ''Direct link''), (3, Some ''Bidirectional link''), (0, None)]"

definition ieee80211_wfa_ie_wme_tspec_tsinfo_psb_vals :: value_string where
  "ieee80211_wfa_ie_wme_tspec_tsinfo_psb_vals =
     [(0, Some ''Legacy''), (1, Some ''U-APSD''), (0, None)]"

definition ieee80211_wfa_ie_wme_tspec_tsinfo_up_vals :: value_string where
  "ieee80211_wfa_ie_wme_tspec_tsinfo_up_vals =
     [(0, Some ''Best Effort''), (1, Some ''Background''), (2, Some ''Spare''), (3, Some ''Excellent Effort''),
      (4, Some ''Controlled Load''), (5, Some ''Video''), (6, Some ''Voice''), (7, Some ''Network Control''), (0, None)]"

definition hta_ext_chan_offset_flag :: value_string where
  "hta_ext_chan_offset_flag =
     [(0, Some ''No Extension Channel''), (0x01, Some ''Extension Channel above control channel''), (0x02, Some ''Undefined''),
      (0x03, Some ''Extension Channel below control channel''), (0, None)]"

definition hta_service_interval_flag :: value_string where
  "hta_service_interval_flag =
     [(0, Some ''5ms''), (0x01, Some ''10ms''), (0x02, Some ''15ms''), (0x03, Some ''20ms''), (0x04, Some ''25ms''),
      (0x05, Some ''30ms''), (0x06, Some ''35ms''), (0x07, Some ''40ms''), (0, None)]"

definition hta_operating_mode_flag :: value_string where
  "hta_operating_mode_flag =
     [(0, Some ''Pure HT, no protection''), (0x01, Some ''There may be non-HT devices (control & ext channel)''),
      (0x02, Some ''No non-HT is associated, but at least 1 20MHz is. protect on''),
      (0x03, Some ''Mixed: no non-HT is associated, protect on''), (0, None)]"

text \<open>The last entry of a table has no text.\<close>

fun VALS :: "value_string \<Rightarrow> u32 \<Rightarrow> string" where
  "VALS [] v = ''unknown''"
| "VALS ((k, t) # vals) v = (case t of Some s \<Rightarrow> if k = v then s else VALS vals v | None \<Rightarrow> VALS vals v)"

section \<open>Bits and texts\<close>

text \<open>The two overloads of \<^verbatim>\<open>bitSet\<close>; the mask of the last bit of a byte is \<open>0x90\<close>.\<close>

definition bitSet_u8 :: "u8 \<Rightarrow> nat \<Rightarrow> bool" where
  "bitSet_u8 c n \<longleftrightarrow> (if n < 7 then c AND push_bit n 1 \<noteq> 0 else if n = 7 then c AND 0x90 \<noteq> 0 else False)"

definition bitSet_u16 :: "u16 \<Rightarrow> nat \<Rightarrow> bool" where
  "bitSet_u16 c n \<longleftrightarrow> n < 16 \<and> c AND push_bit n 1 \<noteq> 0"

definition hex_of_byte :: "u8 \<Rightarrow> string" where
  "hex_of_byte c = [hex_digit (unat (drop_bit 4 (c AND 0xf0))), hex_digit (unat (c AND 0x0f))]"

fun BufferToHex :: "char \<Rightarrow> bytes \<Rightarrow> string" where
  "BufferToHex sep [] = []"
| "BufferToHex sep [c] = hex_of_byte c"
| "BufferToHex sep (c # cs) = hex_of_byte c @ sep # BufferToHex sep cs"

fun bit_string :: "nat \<Rightarrow> u8 \<Rightarrow> string" where
  "bit_string 0 c = []"
| "bit_string (Suc n) c = (if c AND 0x80 \<noteq> 0 then CHR ''1'' else CHR ''0'') # bit_string n (push_bit 1 c)"

definition bitString :: "u8 \<Rightarrow> string" where
  "bitString c = bit_string 8 c"

text \<open>The values of a field: some bits of a number, or the name a table has for them.\<close>

definition bits :: "u32 \<Rightarrow> u32 \<Rightarrow> nat \<Rightarrow> json" where
  "bits w m n = JInt (uint (drop_bit n (w AND m)))"

definition named :: "value_string \<Rightarrow> u32 \<Rightarrow> u32 \<Rightarrow> nat \<Rightarrow> json" where
  "named t w m n = JStr (VALS t (drop_bit n (w AND m)))"

end
