(* ===== verification/GW_ScanElements.thy ===== *)
theory GW_ScanElements
  imports GW_ScanTables
begin

text \<open>
  The information elements of a Wi-Fi scan (\<^verbatim>\<open>src/ParseWifiScan.h\<close>): reading the bytes of one, and one definition per
  decoder. A decoder runs on the data, a position and the JSON value it fills. Reading past the end of the data is
  undefined behaviour; the value of an expression that would overflow an \<^verbatim>\<open>int\<close> is taken modulo its width.
\<close>

unbundle bit_operations_syntax

section \<open>Reading and writing\<close>

record dissector =
  ds_data :: bytes
  ds_offset :: nat
  ds_content :: json

type_synonym 'a dis = "(dissector, 'a) op"

definition byte_at :: "nat \<Rightarrow> u8 dis" where
  "byte_at i s =
     (if i < length (ds_data s) then Inr (ds_data s ! i) else Inl (Undefined_Behaviour ''read past the end of the data''), s)"

definition peek_bytes :: "nat \<Rightarrow> bytes dis" where
  "peek_bytes n s =
     (if n = 0 \<or> ds_offset s + n \<le> length (ds_data s) then Inr (take n (drop (ds_offset s) (ds_data s)))
      else Inl (Undefined_Behaviour ''read past the end of the data''), s)"

definition skip_bytes :: "nat \<Rightarrow> unit dis" where
  "skip_bytes n s = (Inr (), s\<lparr> ds_offset := ds_offset s + n \<rparr>)"

definition take_bytes :: "nat \<Rightarrow> bytes dis" where
  "take_bytes n = andThen (peek_bytes n) (\<lambda>b. andThen (skip_bytes n) (\<lambda>_. ret b))"

definition next_byte :: "u8 dis" where
  "next_byte = andThen (take_bytes 1) (\<lambda>b. ret (hd b))"

definition with_dis :: "(dissector \<Rightarrow> 'a dis) \<Rightarrow> 'a dis" where
  "with_dis f s = f s s"

text \<open>How many bytes are left.\<close>

definition left :: "dissector \<Rightarrow> nat" where
  "left s = length (ds_data s) - ds_offset s"

definition le_value :: "bytes \<Rightarrow> u32" where
  "le_value b = foldr (\<lambda>x v. ucast x + v * 256) b 0"

definition GetUInt16 :: "u16 dis" where
  "GetUInt16 = andThen (take_bytes 2) (\<lambda>b. ret (ucast (le_value b)))"

definition GetUInt24 :: "u32 dis" where
  "GetUInt24 = andThen (take_bytes 3) (\<lambda>b. ret (le_value b))"

definition GetUInt24Big :: "u32 dis" where
  "GetUInt24Big = andThen (take_bytes 3) (\<lambda>b. ret (le_value (rev b)))"

definition GetUInt32 :: "u32 dis" where
  "GetUInt32 = andThen (take_bytes 4) (\<lambda>b. ret (le_value b))"

text \<open>
  \<^verbatim>\<open>content["a"]["b"] = v\<close>: a null value becomes an object, another value that is no object raises.
\<close>

fun put_path :: "string list \<Rightarrow> json \<Rightarrow> json \<Rightarrow> cpp_exn + json" where
  "put_path [] v j = Inr v"
| "put_path (k # ks) v JNull = map_sum id (\<lambda>x. JObj [(k, x)]) (put_path ks v JNull)"
| "put_path (k # ks) v (JObj obj) =
     map_sum id (\<lambda>x. JObj (om_set k x obj)) (put_path ks v (case om_find obj k of None \<Rightarrow> JNull | Some j \<Rightarrow> j))"
| "put_path (k # ks) v _ = Inl (Runtime_Error ''type_error'')"

type_synonym fields = "(string list \<times> json) list"

definition put_field :: "string list \<times> json \<Rightarrow> unit dis" where
  "put_field f s =
     (case put_path (fst f) (snd f) (ds_content s) of
        Inl e \<Rightarrow> (Inl e, s)
      | Inr j \<Rightarrow> (Inr (), s\<lparr> ds_content := j \<rparr>))"

fun puts :: "fields \<Rightarrow> unit dis" where
  "puts [] = ret ()"
| "puts (f # fs) = andThen (put_field f) (\<lambda>_. puts fs)"

definition put :: "string \<Rightarrow> json \<Rightarrow> unit dis" where
  "put k v = put_field ([k], v)"

definition under :: "string \<Rightarrow> (string \<times> json) list \<Rightarrow> fields" where
  "under section_name fs = map (\<lambda>(k, v). ([section_name, k], v)) fs"

definition number :: "'a::len word \<Rightarrow> json" where
  "number w = JInt (uint w)"

definition object_of :: "(string \<times> json) list \<Rightarrow> json" where
  "object_of fs = JObj (foldl (\<lambda>obj (k, v). om_set k v obj) [] fs)"

text \<open>One value per bit, from the lowest.\<close>

definition bit_fields :: "string list \<Rightarrow> u8 \<Rightarrow> (string \<times> json) list" where
  "bit_fields names b = map (\<lambda>(i, n). (n, bits (ucast b) (push_bit i 1) i)) (enumerate 0 names)"

text \<open>What every decoder of an element makes of its content.\<close>

definition new_ie :: "string \<Rightarrow> u64 \<Rightarrow> json \<Rightarrow> json" where
  "new_ie name ty content = object_of [(''name'', JStr name), (''content'', content), (''type'', number ty)]"

definition dissect :: "unit dis \<Rightarrow> bytes \<Rightarrow> cpp_exn + json" where
  "dissect body data =
     (case body \<lparr> ds_data = data, ds_offset = 0, ds_content = JNull \<rparr> of
        (Inl e, _) \<Rightarrow> Inl e
      | (Inr _, s) \<Rightarrow> Inr (ds_content s))"

definition element :: "string \<Rightarrow> u64 \<Rightarrow> unit dis \<Rightarrow> bytes \<Rightarrow> cpp_exn + json" where
  "element name ty body data = map_sum id (new_ie name ty) (dissect body data)"

section \<open>Rates, channels, loads\<close>

definition WLAN_EID_SUPP_RATES :: u64 where "WLAN_EID_SUPP_RATES = 1"
definition WLAN_EID_FH_PARAMS :: u64 where "WLAN_EID_FH_PARAMS = 2"
definition WLAN_EID_DS_PARAMS :: u64 where "WLAN_EID_DS_PARAMS = 3"
definition WLAN_EID_TIM :: u64 where "WLAN_EID_TIM = 5"
definition WLAN_EID_COUNTRY :: u64 where "WLAN_EID_COUNTRY = 7"
definition WLAN_EID_QBSS_LOAD :: u64 where "WLAN_EID_QBSS_LOAD = 11"
definition WLAN_EID_PWR_CONSTRAINT :: u64 where "WLAN_EID_PWR_CONSTRAINT = 32"
definition WLAN_EID_TPC_REPORT :: u64 where "WLAN_EID_TPC_REPORT = 35"
definition WLAN_EID_ERP_INFO :: u64 where "WLAN_EID_ERP_INFO = 42"
definition WLAN_EID_HT_CAPABILITY :: u64 where "WLAN_EID_HT_CAPABILITY = 45"
definition WLAN_EID_RSN :: u64 where "WLAN_EID_RSN = 48"
definition WLAN_EID_EXT_SUPP_RATES :: u64 where "WLAN_EID_EXT_SUPP_RATES = 50"
definition WLAN_EID_SUPPORTED_REGULATORY_CLASSES :: u64 where "WLAN_EID_SUPPORTED_REGULATORY_CLASSES = 59"
definition WLAN_EID_RRM_ENABLED_CAPABILITIES :: u64 where "WLAN_EID_RRM_ENABLED_CAPABILITIES = 70"
definition WLAN_EID_EXT_CAPABILITY :: u64 where "WLAN_EID_EXT_CAPABILITY = 127"
definition WLAN_EID_VHT_CAPABILITY :: u64 where "WLAN_EID_VHT_CAPABILITY = 191"
definition WLAN_EID_TX_POWER_ENVELOPE :: u64 where "WLAN_EID_TX_POWER_ENVELOPE = 195"
definition WLAN_EID_VENDOR_SPECIFIC :: u64 where "WLAN_EID_VENDOR_SPECIFIC = 221"
definition WLAN_EID_EXTENSION :: u64 where "WLAN_EID_EXTENSION = 255"

definition rate_name :: "u8 \<Rightarrow> string" where
  "rate_name c = VALS ieee80211_supported_rates_vals (ucast c)"

definition WFS_WLAN_EID_SUPP_RATES :: "bytes \<Rightarrow> cpp_exn + json" where
  "WFS_WLAN_EID_SUPP_RATES data =
     Inr (new_ie ''Supported Rates (Mbps)'' WLAN_EID_SUPP_RATES (JArr (map (JStr \<circ> rate_name) data)))"

definition WFS_WLAN_EID_FH_PARAMS :: "bytes \<Rightarrow> cpp_exn + json" where
  "WFS_WLAN_EID_FH_PARAMS = element ''FH Params'' WLAN_EID_FH_PARAMS
     (andThen (byte_at 0) (\<lambda>a. andThen (byte_at 1) (\<lambda>b.
      andThen (put ''Dwell Time'' (number (ucast a * 256 + ucast b :: u32))) (\<lambda>_.
      andThen (byte_at 2) (\<lambda>c. andThen (put ''Hop Set'' (number c)) (\<lambda>_.
      andThen (byte_at 3) (\<lambda>d. andThen (put ''Hop Pattern'' (number d)) (\<lambda>_.
      andThen (byte_at 4) (\<lambda>e. put ''Hop Index'' (number e))))))))))"

definition WFS_WLAN_EID_DS_PARAMS :: "bytes \<Rightarrow> cpp_exn + json" where
  "WFS_WLAN_EID_DS_PARAMS = element ''DS Params'' WLAN_EID_DS_PARAMS
     (andThen (byte_at 0) (\<lambda>a. put ''current_channel'' (number a)))"

definition WFS_WLAN_EID_TIM :: "bytes \<Rightarrow> cpp_exn + json" where
  "WFS_WLAN_EID_TIM data = element ''Traffic Indication Map (TIM)'' WLAN_EID_TIM
     (if 4 \<le> length data then
        andThen next_byte (\<lambda>a. andThen (put ''DTIM count'' (number a)) (\<lambda>_.
        andThen next_byte (\<lambda>b. andThen (put ''DTIM period'' (number b)) (\<lambda>_.
        andThen next_byte (\<lambda>c.
        andThen (puts (under ''Bitmap control'' [(''Multicast'', bits (ucast c) 0x01 0), (''Bitmap Offset'', bits (ucast c) 0xFE 1)])) (\<lambda>_.
        with_dis (\<lambda>s.
          if ds_offset s < length data
          then andThen (peek_bytes (left s)) (\<lambda>rest.
                 puts (under ''Bitmap control'' [(''Partial Virtual Bitmap'', JStr (BufferToHex (CHR '' '') rest))]))
          else ret ())))))))
      else ret ()) data"

text \<open>The channels of a country come in threes; what is left over is not looked at.\<close>

fun country_constraints :: "bytes \<Rightarrow> json list" where
  "country_constraints (a # b # c # rest) =
     object_of [(''Country Info'', object_of
       (if a \<le> 200
        then [(''First Channel Number'', number a), (''Number of Channels'', number b),
              (''Maximum Transmit Power Level (in dBm)'', number c)]
        else [(''Regulatory Extension Identifier'', number a), (''Regulatory Class'', number b), (''Coverage Class'', number c)]))]
     # country_constraints rest"
| "country_constraints _ = []"

definition WFS_WLAN_EID_COUNTRY :: "bytes \<Rightarrow> cpp_exn + json" where
  "WFS_WLAN_EID_COUNTRY data = element ''country'' WLAN_EID_COUNTRY
     (andThen (byte_at 0) (\<lambda>a. andThen (byte_at 1) (\<lambda>b.
      andThen (put ''Code'' (JStr [char_of (unat a), char_of (unat b)])) (\<lambda>_.
      andThen (byte_at 2) (\<lambda>c. andThen (put ''Environment'' (JStr (VALS environment_vals (ucast c)))) (\<lambda>_.
      put ''constraints'' (JArr (country_constraints (drop 3 data)))))))))
     data"

text \<open>Both forms read one byte more than the length they test for.\<close>

definition WFS_WLAN_EID_QBSS_LOAD :: "bytes \<Rightarrow> cpp_exn + json" where
  "WFS_WLAN_EID_QBSS_LOAD data = element ''QBSS Load'' WLAN_EID_QBSS_LOAD
     (if length data = 4 \<or> length data = 5 then
        andThen (byte_at 1) (\<lambda>b. andThen (byte_at 2) (\<lambda>c. andThen (byte_at 3) (\<lambda>d. andThen (byte_at 4) (\<lambda>e.
          let station = number (ucast c + ucast b * 256 :: u32) in
          if length data = 4
          then puts (under ''Cisco QBSS Version 1 - non CCA''
                 [(''QBSS Version'', JInt 1), (''Station Count'', station), (''Channel Utilization'', number d),
                  (''Available Admission Capabilities'', number e)])
          else andThen (byte_at 5) (\<lambda>f.
                 puts (under ''802.11e CCA Version''
                   [(''QBSS Version'', JInt 2), (''Station Count'', station), (''Channel Utilization'', number d),
                    (''Available Admission Capabilities'', number (ucast e + ucast f * 256 :: u32))]))))))
      else ret ()) data"

definition WFS_WLAN_EID_PWR_CONSTRAINT :: "bytes \<Rightarrow> cpp_exn + json" where
  "WFS_WLAN_EID_PWR_CONSTRAINT = element ''Local Power Constraint'' WLAN_EID_PWR_CONSTRAINT
     (andThen (byte_at 0) (\<lambda>a. put ''Local Power Constraint'' (number a)))"

definition WFS_WLAN_EID_ERP_INFO :: "bytes \<Rightarrow> cpp_exn + json" where
  "WFS_WLAN_EID_ERP_INFO = element ''ERP Information'' WLAN_EID_ERP_INFO
     (andThen (byte_at 0) (\<lambda>a.
        puts [([''Non ERP Present''], JBool (bitSet_u8 a 0)), ([''Use Protection''], JBool (bitSet_u8 a 1)),
              ([''Barker Preamble Mode''], JBool (bitSet_u8 a 2))]))"

definition WFS_WLAN_EID_TPC_REPORT :: "bytes \<Rightarrow> cpp_exn + json" where
  "WFS_WLAN_EID_TPC_REPORT data = element ''TPC Report'' WLAN_EID_TPC_REPORT
     (if length data = 2 then
        andThen (byte_at 0) (\<lambda>a. andThen (byte_at 1) (\<lambda>b.
          puts [([''Transmit Power''], number a), ([''Link Margin''], number b)]))
      else ret ()) data"

text \<open>\<^verbatim>\<open>std::to_string\<close> of a number that is not negative.\<close>

fun decimal :: "nat \<Rightarrow> string" where
  "decimal n = (if n < 10 then [hex_digit n] else decimal (n div 10) @ [hex_digit (n mod 10)])"

declare decimal.simps [simp del]

fun joined :: "string list \<Rightarrow> string" where
  "joined [] = []"
| "joined [x] = x"
| "joined (x # xs) = x @ '', '' @ joined xs"

definition WFS_WLAN_EID_SUPPORTED_REGULATORY_CLASSES :: "bytes \<Rightarrow> cpp_exn + json" where
  "WFS_WLAN_EID_SUPPORTED_REGULATORY_CLASSES data =
     element ''Supported Regulatory Classes'' WLAN_EID_SUPPORTED_REGULATORY_CLASSES
     (if 2 \<le> length data then
        andThen (byte_at 0) (\<lambda>a.
          puts [([''Current Regulatory Class''], number a),
                ([''Alternate Regulatory Classes''], JStr (joined (map (\<lambda>x. decimal (unat x)) (drop 1 data))))])
      else ret ()) data"

definition WFS_WLAN_EID_EXT_SUPP_RATES :: "bytes \<Rightarrow> cpp_exn + json" where
  "WFS_WLAN_EID_EXT_SUPP_RATES = (\<lambda>data. element ''Supported Rates'' WLAN_EID_EXT_SUPP_RATES
     (put ''Supported Rates'' (JStr (joined (map rate_name data) @ '' [Mbit/sec]''))) data)"

text \<open>The first byte says how many values follow; those from the fifth on are not read.\<close>

fun tx_power :: "nat \<Rightarrow> nat \<Rightarrow> unit dis" where
  "tx_power i 0 = ret ()"
| "tx_power i (Suc n) =
     (let last = ''Local Max Tx Pwr Constraint 160MHz/80+80 MHz'';
          name = (case i of 0 \<Rightarrow> ''Local Max Tx Pwr Constraint 20MHz'' | Suc 0 \<Rightarrow> ''Local Max Tx Pwr Constraint 40MHz''
                          | Suc (Suc 0) \<Rightarrow> ''Local Max Tx Pwr Constraint 80MHz'' | _ \<Rightarrow> last)
      in andThen (if i \<le> 3 then andThen (byte_at (i + 1)) (\<lambda>v. puts (under ''Tx Pwr Info'' [(name, number v)]))
                  else puts (under ''Tx Pwr Info'' [(name, JInt 0xff)]))
           (\<lambda>_. tx_power (i + 1) n))"

definition WFS_WLAN_EID_TX_POWER_ENVELOPE :: "bytes \<Rightarrow> cpp_exn + json" where
  "WFS_WLAN_EID_TX_POWER_ENVELOPE data = element ''Tx Pwr Info'' WLAN_EID_TX_POWER_ENVELOPE
     (if 2 \<le> length data \<and> length data \<le> 5 then andThen (byte_at 0) (\<lambda>n. tx_power 0 (Suc (unat n))) else ret ()) data"

end
