(* ===== verification/GW_ScanCaps.thy ===== *)
theory GW_ScanCaps
  imports GW_ScanElements
begin

text \<open>
  The capability elements of a Wi-Fi scan (\<^verbatim>\<open>src/ParseWifiScan.h\<close>): high and very high throughput, radio measurements,
  extended capabilities. The masks and shifts are those of the code, also where a shift does not fit its mask.
\<close>

unbundle bit_operations_syntax

section \<open>High throughput\<close>

definition ParseMCSset :: "unit dis" where
  "ParseMCSset = andThen (peek_bytes 4) (\<lambda>b.
     puts (under ''MCS Set'' (zip [''Rx Bitmask Bits 0-7'', ''Rx Bitmask Bits 8-15'', ''Rx Bitmask Bits 16-23'', ''Rx Bitmask Bits 24-31'']
                                  (map (JStr \<circ> bitString) b))))"

definition ht_info_fields :: "u16 \<Rightarrow> (string \<times> json) list" where
  "ht_info_fields caps =
     [(''HT LDPC coding capability'', JBool (bitSet_u16 caps 0)), (''HT Support channel width'', JBool (bitSet_u16 caps 1)),
      (''HT Green Field'', bits (ucast caps) 0xc0 4), (''HT Short GI for 20MHz'', JBool (bitSet_u16 caps 5)),
      (''HT Short GI for 40MHz'', JBool (bitSet_u16 caps 6)), (''HT Tx STBC'', JBool (bitSet_u16 caps 7)),
      (''HT Rx STBC'', bits (ucast caps) 0x300 8), (''HT Delayed Block ACK'', JBool (bitSet_u16 caps 11)),
      (''HT Max A-MSDU length'', JBool (bitSet_u16 caps 12)), (''HT PSMP Support'', JBool (bitSet_u16 caps 13)),
      (''HT Forty MHz Intolerant'', JBool (bitSet_u16 caps 14)),
      (''HT L-SIG TXOP Protection support'', JBool (bitSet_u16 caps 15))]"

definition ampdu_fields :: "u8 \<Rightarrow> (string \<times> json) list" where
  "ampdu_fields caps =
     [(''Maximum Rx A-MPDU Length'', bits (ucast caps) 0x3 0), (''MPDU Density'', bits (ucast caps) 0x1c 2)]"

definition ht_pco_fields :: "u8 \<Rightarrow> (string \<times> json) list" where
  "ht_pco_fields caps =
     [(''Transmitter supports PCO'', bits (ucast caps) 0x1 0),
      (''Time needed to transition between 20MHz and 40MHz'', bits (ucast caps) 0x6 1)]"

definition ht_mcs_fields :: "u8 \<Rightarrow> (string \<times> json) list" where
  "ht_mcs_fields caps =
     [(''MCS Feedback capability'', bits (ucast caps) 0x3 0), (''High Throughput'', bits (ucast caps) 0x4 2),
      (''Reverse Direction Responder'', bits (ucast caps) 0x8 3)]"

definition txbf_fields :: "u32 \<Rightarrow> (string \<times> json) list" where
  "txbf_fields caps =
     [(''Transmit Beamforming'', bits caps 0x1 0), (''Receive Staggered Sounding'', bits caps 0x2 1),
      (''Transmit Staggered Sounding'', bits caps 0x4 2), (''Receive Null Data packet (NDP)'', bits caps 0x8 3),
      (''Transmit Null Data packet (NDP)'', bits caps 0x10 4), (''Implicit TxBF capable'', bits caps 0x20 5),
      (''Calibration'', named txbf_calib_flag caps 0xc0 6),
      (''STA can apply TxBF using CSI explicit feedback'', bits caps 0x100 8),
      (''STA can apply TxBF using uncompressed beamforming feedback matrix'', bits caps 0x200 9),
      (''STA can apply TxBF using compressed beamforming feedback matrix'', bits caps 0x400 10),
      (''Receiver can return explicit CSI feedback'', named txbf_feedback_flags caps 0x1800 11),
      (''Receiver can return explicit uncompressed Beamforming Feedback Matrix'', named txbf_feedback_flags caps 0x6000 13),
      (''STA can compress and use compressed Beamforming Feedback Matrix'', named txbf_feedback_flags caps 0x18000 15),
      (''Minimal grouping used for explicit feedback reports'', named txbf_min_group_flags caps 0x60000 17),
      (''Max antennae STA can support when CSI feedback required'', named txbf_antenna_flags caps 0x180000 19),
      (''Max antennae STA can support when uncompressed Beamforming feedback required'', named txbf_antenna_flags caps 0x600000 21),
      (''Max antennae STA can support when compressed Beamforming feedback required'', named txbf_antenna_flags caps 0x1800000 23),
      (''Maximum number of rows of CSI explicit feedback'', named txbf_antenna_flags caps 0x6000000 25),
      (''Maximum number of space time streams for which channel dimensions can be simultaneously estimated'', named txbf_chan_est_flags caps 0x18000000 27)]"

definition asel_fields :: "u8 \<Rightarrow> (string \<times> json) list" where
  "asel_fields caps =
     [(''Antenna Selection Capable'', bits (ucast caps) 0x1 0), (''Antenna Selection Capable TXCSI'', bits (ucast caps) 0x2 1),
      (''Antenna Indices Feedback Based Tx ASEL'', bits (ucast caps) 0x4 2),
      (''Explicit CSI Feedback'', bits (ucast caps) 0x8 3), (''Antenna Indices Feedback'', bits (ucast caps) 0x10 4),
      (''Rx ASEL'', bits (ucast caps) 0x20 5), (''Tx Sounding PPDUs'', bits (ucast caps) 0x40 6)]"

definition dissect_ht_capability_ie :: "u32 \<Rightarrow> unit dis" where
  "dissect_ht_capability_ie len =
     (if len = 26 then
        andThen GetUInt16 (\<lambda>ht. andThen (puts (under ''HT Capabilities Info'' (ht_info_fields ht))) (\<lambda>_.
        andThen next_byte (\<lambda>ampdu. andThen (puts (under ''A-MPDU Parameters'' (ampdu_fields ampdu))) (\<lambda>_.
        andThen ParseMCSset (\<lambda>_. andThen (skip_bytes 16) (\<lambda>_.
        andThen next_byte (\<lambda>pco. andThen (puts (under ''HT Extended Capabilities'' (ht_pco_fields pco))) (\<lambda>_.
        andThen next_byte (\<lambda>mcs. andThen (puts (under ''HT Extended Capabilities'' (ht_mcs_fields mcs))) (\<lambda>_.
        andThen GetUInt32 (\<lambda>txbf.
        andThen (puts (under ''Transmit Beam Forming (TxBF) Capabilities'' (txbf_fields txbf))) (\<lambda>_.
        andThen (peek_bytes 1) (\<lambda>asel.
        puts (under ''Antenna Selection (ASEL) Capabilities'' (asel_fields (hd asel))))))))))))))))
      else ret ())"

text \<open>The variable that takes the two words is one byte wide.\<close>

definition ht_additional_fields :: "u8 \<Rightarrow> (string \<times> json) list" where
  "ht_additional_fields caps =
     [(''Extension Channel Offset'', named hta_ext_chan_offset_flag (ucast caps) 0x3 0),
      (''Recommended Tx Channel Width'', bits (ucast caps) 0x3 2),
      (''Reduced Interframe Spacing (RIFS) Mode'', bits (ucast caps) 0x8 3),
      (''Controlled Access Only'', bits (ucast caps) 0x10 4),
      (''Service Interval Granularity'', named hta_service_interval_flag (ucast caps) 0xe0 5)]"

definition ht_operating_fields :: "u8 \<Rightarrow> (string \<times> json) list" where
  "ht_operating_fields caps =
     [(''Operating Mode'', named hta_operating_mode_flag (ucast caps) 0x3 0),
      (''Non Greenfield (GF) devices Present'', bits (ucast caps) 0x4 2)]"

definition ht_basic_fields :: "u8 \<Rightarrow> (string \<times> json) list" where
  "ht_basic_fields caps =
     [(''Basic STB Modulation and Coding Scheme (MCS)'', bits (ucast caps) 0x7f 0),
      (''Dual Clear To Send (CTS) Protection'', bits (ucast caps) 0x80 7), (''Secondary Beacon'', bits (ucast caps) 0x100 8),
      (''L-SIG TXOP Protection Support'', bits (ucast caps) 0x200 9),
      (''Phased Coexistence Operation (PCO) Active'', bits (ucast caps) 0x400 10),
      (''Phased Coexistence Operation (PCO) Phase'', bits (ucast caps) 0x800 11)]"

definition dissect_ht_info_ie_1_0 :: "u32 \<Rightarrow> unit dis" where
  "dissect_ht_info_ie_1_0 len =
     (if len \<noteq> 22 then ret ()
      else
        andThen next_byte (\<lambda>channel. andThen (put ''HT Control Channel'' (number channel)) (\<lambda>_.
        andThen next_byte (\<lambda>a. andThen (puts (under ''HT Additional Capabilities'' (ht_additional_fields a))) (\<lambda>_.
        andThen GetUInt16 (\<lambda>b. andThen (puts (under ''HT Additional Capabilities'' (ht_operating_fields (ucast b)))) (\<lambda>_.
        andThen GetUInt16 (\<lambda>c. andThen (puts (under ''HT Additional Capabilities'' (ht_basic_fields (ucast c)))) (\<lambda>_.
        ParseMCSset)))))))))"

definition WFS_WLAN_EID_HT_CAPABILITY :: "bytes \<Rightarrow> cpp_exn + json" where
  "WFS_WLAN_EID_HT_CAPABILITY data = element ''HT Capabilities'' WLAN_EID_HT_CAPABILITY
     (if length data = 26 then dissect_ht_capability_ie (of_nat (length data)) else ret ()) data"

section \<open>Very high throughput\<close>

definition vht_fields :: "u32 \<Rightarrow> (string \<times> json) list" where
  "vht_fields caps =
     [(''Maximum MPDU Length'', named vht_max_mpdu_length_flag caps 0x3 0),
      (''Supported Channel Width Set'', named vht_supported_chan_width_set_flag caps 0xc 2), (''Rx LDPC'', bits caps 0x10 4),
      (''Short GI for 80MHz'', bits caps 0x20 5), (''Short GI for 160MHz and 80+80MHz'', bits caps 0x40 6),
      (''Tx STBC'', bits caps 0x80 7), (''Rx STBC'', named vht_rx_stbc_flag caps 0x700 8),
      (''SU Beam-former Capable'', bits caps 0x800 11), (''SU Beam-formee Capable'', bits caps 0x1000 12),
      (''Compressed Steering Number of Beamformer Antennas Supported'', named num_plus_one_3bit_flag caps 0xe000 13),
      (''Number of Sounding Dimensions'', named num_plus_one_3bit_flag caps 0x70000 16),
      (''MU Beam-former Capable'', named num_plus_one_3bit_flag caps 0x80000 17),
      (''MU Beam-formee Capable'', bits caps 0x200000 18), (''VHT TXOP PS'', bits caps 0x400000 19),
      (''HTC-VHT Capable VHT variant HT Control field'', bits caps 0x400000 20),
      (''Max A-MPDU Length'', named vht_max_ampdu_flag caps 0x3800000 21),
      (''VHT Link Adaptation'', named vht_link_adapt_flag caps 0xc000000 24),
      (''Rx Antenna Pattern Consistency'', bits caps 0x10000000 28),
      (''Tx Antenna Pattern Consistency'', bits caps 0x20000000 29)]"

definition WFS_WLAN_EID_VHT_CAPABILITY :: "bytes \<Rightarrow> cpp_exn + json" where
  "WFS_WLAN_EID_VHT_CAPABILITY data = element ''VHT Capabilities Info'' WLAN_EID_VHT_CAPABILITY
     (if length data = 12
      then andThen GetUInt32 (\<lambda>caps. andThen (puts (under ''VHT Capabilities Info'' (vht_fields caps))) (\<lambda>_. ParseMCSset))
      else ret ()) data"

section \<open>Radio measurements\<close>

definition rm_fields_0 :: "u8 \<Rightarrow> (string \<times> json) list" where
  "rm_fields_0 caps =
     [(''Link Measurement'', bits (ucast caps) 0x1 0), (''Neighbor Report'', bits (ucast caps) 0x2 1),
      (''Parallel Measurements'', bits (ucast caps) 0x4 2), (''Repeated Measurements'', bits (ucast caps) 0x8 3),
      (''Beacon Passive Measurement'', bits (ucast caps) 0x10 4), (''Beacon Active Measurement'', bits (ucast caps) 0x20 5),
      (''Beacon Table Measurement'', bits (ucast caps) 0x40 6),
      (''Beacon Measurement Reporting Conditions'', bits (ucast caps) 0x80 7)]"

definition rm_fields_1 :: "u8 \<Rightarrow> (string \<times> json) list" where
  "rm_fields_1 caps =
     [(''Frame Measurement'', bits (ucast caps) 0x1 0), (''Channel Load Measurement'', bits (ucast caps) 0x2 1),
      (''Noise Histogram Measurement'', bits (ucast caps) 0x4 2), (''Statistics Measurement'', bits (ucast caps) 0x8 3),
      (''LCI Measurement'', bits (ucast caps) 0x10 4), (''LCI Azimuth capability'', bits (ucast caps) 0x20 5),
      (''Transmit Stream/Category Measurement'', bits (ucast caps) 0x40 6),
      (''Triggered Transmit Stream/Category Measurement'', bits (ucast caps) 0x80 7)]"

definition rm_fields_2 :: "u8 \<Rightarrow> (string \<times> json) list" where
  "rm_fields_2 caps =
     [(''AP Channel Report capability'', bits (ucast caps) 0x7 0), (''RM MIB capability'', bits (ucast caps) 0x2 1),
      (''Operating Channel Max Measurement Duration'', bits (ucast caps) 0x1c 2),
      (''Nonoperating Channel Max Measurement Duration'', bits (ucast caps) 0xe0 5)]"

definition rm_fields_3 :: "u8 \<Rightarrow> (string \<times> json) list" where
  "rm_fields_3 caps =
     [(''Measurement Pilotcapability'', bits (ucast caps) 0x7 0), (''RM MIB capability'', bits (ucast caps) 0x8 3),
      (''Neighbor Report TSF Offset'', bits (ucast caps) 0x10 4), (''RCPI Measurement capability'', bits (ucast caps) 0x20 5),
      (''RSNI Measurement capability'', bits (ucast caps) 0x40 6),
      (''BSS Average Access Delay capability'', bits (ucast caps) 0x80 7)]"

definition rm_fields_4 :: "u8 \<Rightarrow> (string \<times> json) list" where
  "rm_fields_4 caps =
     [(''BSS Available Admission Capacity capability'', bits (ucast caps) 0x1 0),
      (''Antenna capability'', bits (ucast caps) 0x2 1)]"

text \<open>A capability that is written twice has its second value.\<close>

definition WFS_WLAN_EID_RRM_ENABLED_CAPABILITIES :: "bytes \<Rightarrow> cpp_exn + json" where
  "WFS_WLAN_EID_RRM_ENABLED_CAPABILITIES data = element ''RM Capabilities'' WLAN_EID_RRM_ENABLED_CAPABILITIES
     (if length data = 5
      then andThen (take_bytes 5) (\<lambda>b.
             puts (under ''RM Capabilities''
               (rm_fields_0 (b ! 0) @ rm_fields_1 (b ! 1) @ rm_fields_2 (b ! 2) @ rm_fields_3 (b ! 3) @ rm_fields_4 (b ! 4))))
      else ret ()) data"

section \<open>Extended capabilities\<close>

definition ext_names_0 :: "string list" where
  "ext_names_0 =
     [''20/40 BSS Coexistence Management Support'', ''On-demand beacon'', ''Extended Channel Switching'',
      ''WAVE indication'', ''PSMP Capability'', ''Reserved'', ''S-PSMP Support'', ''Event'']"

definition ext_names_1 :: "string list" where
  "ext_names_1 =
     [''Diagnostics'', ''Multicast Diagnostics'', ''Location Tracking'', ''FMS'', ''Proxy ARP Service'',
      ''Collocated Interference Reporting'', ''Civic Location'', ''Geospatial Location'']"

definition ext_names_2 :: "string list" where
  "ext_names_2 =
     [''TFS'', ''WNM-Sleep Mode'', ''TIM Broadcast'', ''BSS Transition'', ''QoS Traffic Capability'', ''AC Station Count'',
      ''Multiple BSSID'', ''Timing Measurement'']"

definition ext_names_3 :: "string list" where
  "ext_names_3 =
     [''Channel Usage'', ''SSID List'', ''DMS'', ''UTC TSF Offset'', ''Peer U-APSD Buffer STA Support'',
      ''TDLS Peer PSM Support'', ''TDLS channel switching'', ''Interworking'']"

definition ext_names_4 :: "string list" where
  "ext_names_4 =
     [''QoS Map'', ''EBR'', ''SSPN Interface'', ''Reserved'', ''MSGCF Capability'', ''TDLS support'', ''TDLS Prohibited'',
      ''TDLS Channel Switching Prohibited'']"

definition ext_fields_5 :: "u8 \<Rightarrow> (string \<times> json) list" where
  "ext_fields_5 caps =
     [(''Reject Unadmitted Frame'', bits (ucast caps) 0x1 0),
      (''Service Interval Granularity'', named service_interval_granularity_vals (ucast caps) 0xe 1),
      (''Identifier Location'', bits (ucast caps) 0x10 4), (''U-APSD Coexistence'', bits (ucast caps) 0x20 5),
      (''WNM-Notification'', bits (ucast caps) 0x40 6), (''Reserved'', bits (ucast caps) 0x80 7)]"

definition ext_fields :: "nat \<Rightarrow> u8 \<Rightarrow> (string \<times> json) list" where
  "ext_fields i b =
     (if i < 5 then bit_fields ([ext_names_0, ext_names_1, ext_names_2, ext_names_3, ext_names_4] ! i) b
      else if i = 5 then ext_fields_5 b
      else [(''UTF-8 SSID'', bits (ucast b) 0x1 0)])"

text \<open>The first seven bytes are looked at, as many as there are.\<close>

fun ext_bytes :: "nat \<Rightarrow> bytes \<Rightarrow> (string \<times> json) list" where
  "ext_bytes i [] = []"
| "ext_bytes i (b # bs) = ext_fields i b @ ext_bytes (i + 1) bs"

definition WFS_WLAN_EID_EXT_CAPABILITY :: "bytes \<Rightarrow> cpp_exn + json" where
  "WFS_WLAN_EID_EXT_CAPABILITY data = element ''Extended Capabilities'' WLAN_EID_EXT_CAPABILITY
     (puts (under ''Extended Capabilities'' (ext_bytes 0 (take 7 data)))) data"

end
