(* ===== verification/GW_ScanVendor.thy ===== *)
theory GW_ScanVendor
  imports GW_ScanCaps
begin

text \<open>
  The elements of a Wi-Fi scan with lists of cipher suites and those of vendors (\<^verbatim>\<open>src/ParseWifiScan.h\<close>). A length
  that is handed on is a 32-bit number, from which one is taken without looking whether it is zero.
\<close>

unbundle bit_operations_syntax

section \<open>Cipher suites\<close>

definition OUI_ATHEROS :: u32 where "OUI_ATHEROS = 0x00037F"
definition OUI_ARUBA :: u32 where "OUI_ARUBA = 0x000B86"
definition OUI_RSN :: u32 where "OUI_RSN = 0x000FAC"
definition OUI_NINTENDO :: u32 where "OUI_NINTENDO = 0x001F32"
definition OUI_CISCOWL :: u32 where "OUI_CISCOWL = 0x004096"
definition OUI_MARVELL :: u32 where "OUI_MARVELL = 0x005043"
definition OUI_WPAWME :: u32 where "OUI_WPAWME = 0x0050F2"
definition OUI_PRE11N :: u32 where "OUI_PRE11N = 0x00904C"
definition OUI_WFA :: u32 where "OUI_WFA = 0x506F9A"

text \<open>An organization and a type, the type by its name when the organization is the one of the table.\<close>

definition cipher_suite :: "char \<Rightarrow> u32 \<Rightarrow> value_string \<Rightarrow> (string \<times> string) dis" where
  "cipher_suite sep oui table =
     andThen (take_bytes 3) (\<lambda>b. andThen next_byte (\<lambda>t.
       ret (BufferToHex sep b, if le_value (rev b) = oui then VALS table (ucast t) else BufferToHex sep [t])))"

definition suite_entry :: "char \<Rightarrow> u32 \<Rightarrow> value_string \<Rightarrow> string \<Rightarrow> json dis" where
  "suite_entry sep oui table what =
     andThen (cipher_suite sep oui table) (\<lambda>(o', t). ret (object_of [(what @ '' OUI'', JStr o'), (what @ '' type'', JStr t)]))"

fun repeat_dis :: "nat \<Rightarrow> 'a dis \<Rightarrow> 'a list dis" where
  "repeat_dis 0 f = ret []"
| "repeat_dis (Suc n) f = andThen f (\<lambda>x. andThen (repeat_dis n f) (\<lambda>xs. ret (x # xs)))"

definition when_left :: "nat \<Rightarrow> unit dis \<Rightarrow> unit dis" where
  "when_left n f = with_dis (\<lambda>s. if ds_offset s + n \<le> length (ds_data s) then f else ret ())"

text \<open>The list is only read when all of it is there; for the count it is enough that one byte is left.\<close>

definition counted_list :: "string \<Rightarrow> string \<Rightarrow> nat \<Rightarrow> json dis \<Rightarrow> unit dis" where
  "counted_list count_key list_key width entry =
     andThen GetUInt16 (\<lambda>n. andThen (put count_key (number n)) (\<lambda>_.
       when_left (unat n * width) (andThen (repeat_dis (unat n) entry) (\<lambda>es. put list_key (JArr es)))))"

definition rsn_cap_fields :: "u16 \<Rightarrow> (string \<times> json) list" where
  "rsn_cap_fields c =
     [(''RSN Pre-Auth capabilities'', bits (ucast c) 0x1 0), (''RSN No Pairwise capabilities'', bits (ucast c) 0x2 1),
      (''RSN PTKSA Replay Counter capabilities'', named rsn_cap_replay_counter (ucast c) 0xc 2),
      (''RSN GTKSA Replay Counter capabilities'', named rsn_cap_replay_counter (ucast c) 0x30 4),
      (''Management Frame Protection Required'', bits (ucast c) 0x40 6),
      (''Management Frame Protection Capable'', bits (ucast c) 0x80 7), (''PeerKey Enabled'', bits (ucast c) 0x200 9)]"

definition WFS_WLAN_EID_RSN :: "bytes \<Rightarrow> cpp_exn + json" where
  "WFS_WLAN_EID_RSN = element ''RSN'' WLAN_EID_RSN
     (andThen GetUInt16 (\<lambda>v. andThen (put ''RSN Version'' (number v)) (\<lambda>_.
      andThen (cipher_suite (CHR '':'') OUI_RSN ieee80211_rsn_cipher_vals) (\<lambda>(o', t).
      andThen (puts [([''Group Cipher Suite OUI''], JStr o'), ([''Group Cipher Suite type''], JStr t)]) (\<lambda>_.
      andThen (when_left 1 (counted_list ''Pairwise Cipher Suite Count'' ''Pairwise Cipher Suite List'' 4
                 (suite_entry (CHR '':'') OUI_RSN ieee80211_rsn_cipher_vals ''Group Cipher Suite''))) (\<lambda>_.
      andThen (when_left 1 (counted_list ''Auth Key Management (AKM) Suite Count'' ''Auth Key Management (AKM) List'' 4
                 (suite_entry (CHR '':'') OUI_RSN ieee80211_rsn_keymgmt_vals ''Auth Key Management (AKM)''))) (\<lambda>_.
      andThen (when_left 2 (andThen GetUInt16 (\<lambda>c. puts (under ''RSN Capabilities'' (rsn_cap_fields c))))) (\<lambda>_.
      andThen (when_left 2 (counted_list ''PMKID Count'' ''PMKID List'' 16
                 (andThen (take_bytes 16) (\<lambda>b. ret (object_of [(''PMKID'', JStr (BufferToHex (CHR '' '') b))]))))) (\<lambda>_.
      when_left 4 (andThen (cipher_suite (CHR '':'') OUI_RSN ieee80211_rsn_cipher_vals) (\<lambda>(o', t).
        puts (under ''Group Management Cipher Suite''
          [(''Group Management Cipher Suite OUI'', JStr o'), (''Group Management Cipher Suite type'', JStr t)]))))))))))))"

section \<open>Vendors\<close>

text \<open>\<^verbatim>\<open>BufferToHex\<close> of so many bytes from a position, whatever the length says.\<close>

definition hex_at :: "nat \<Rightarrow> u32 \<Rightarrow> string dis" where
  "hex_at i len s =
     (if i + unat len \<le> length (ds_data s) then Inr (BufferToHex (CHR '' '') (take (unat len) (drop i (ds_data s))))
      else Inl (Undefined_Behaviour ''read past the end of the data''), s)"

text \<open>The kind of frame is fixed to a probe request, of which the first branch is.\<close>

definition qos_fields :: "nat \<Rightarrow> u8 \<Rightarrow> (string \<times> json) list" where
  "qos_fields ftype b =
     (if ftype \<in> {0x00, 0x04, 0x02}
      then [(''Max SP Length'', named ieee802111_wfa_ie_wme_qos_info_sta_max_sp_length_vals (ucast b) 0x60 5),
            (''AC_BE'', bits (ucast b) 0x08 3), (''AC_BK'', bits (ucast b) 0x04 2), (''AC_VI'', bits (ucast b) 0x02 1),
            (''AC_VO'', bits (ucast b) 0x01 0)]
      else if ftype \<in> {0x08, 0x05, 0x01, 0x03}
      then [(''U-APSD'', bits (ucast b) 0x80 4), (''Parameter Set Count'', bits (ucast b) 0x0f 0)]
      else [(''invalid'', JBool True)])"

definition dissect_qos_info :: "u32 \<Rightarrow> json dis" where
  "dissect_qos_info l =
     (if l < 1 then ret JNull
      else andThen (peek_bytes 1) (\<lambda>b. ret (object_of [(''WME QoS Info'', object_of (qos_fields 0x04 (hd b)))])))"

definition wme_ac_value :: "bytes \<Rightarrow> json" where
  "wme_ac_value b = object_of
     [(''ACI'', named ieee80211_wfa_ie_wme_acs_vals (ucast (b ! 0)) 0x60 5),
      (''Admission Control Mandatory'', bits (ucast (b ! 0)) 0x10 4), (''AIFSN'', bits (ucast (b ! 0)) 0x0f 5),
      (''ECW Max'', bits (ucast (b ! 1)) 0xf0 4), (''ECW Min'', bits (ucast (b ! 1)) 0x0f 0),
      (''TXOP Limit'', number (ucast (b ! 2) + ucast (b ! 3) * 256 :: u32))]"

definition wme_ac_entry :: "json dis" where
  "wme_ac_entry = andThen (take_bytes 4) (\<lambda>b. ret (wme_ac_value b))"

fun put_numbers :: "string \<Rightarrow> (string \<times> nat) list \<Rightarrow> unit dis" where
  "put_numbers section_name [] = ret ()"
| "put_numbers section_name ((k, n) # ks) =
     andThen (take_bytes n) (\<lambda>b. andThen (puts (under section_name [(k, number (le_value b))])) (\<lambda>_. put_numbers section_name ks))"

definition wme_tspec :: "unit dis" where
  "wme_tspec =
     andThen GetUInt24 (\<lambda>tid.
     andThen (puts (under ''TS Info''
       [(''TID'', bits tid 0x1E 1), (''Direction'', named ieee80211_wfa_ie_wme_tspec_tsinfo_direction_vals tid 0x60 5),
        (''PSB'', named ieee80211_wfa_ie_wme_tspec_tsinfo_psb_vals tid 0x400 10),
        (''UP'', named ieee80211_wfa_ie_wme_tspec_tsinfo_up_vals tid 0x3800 11)])) (\<lambda>_.
     put_numbers ''TS Info''
       [(''Normal MSDU Size'', 2), (''Maximum MSDU Size'', 2), (''Minimum Service Interval'', 4), (''Maximum Service Interval'', 4),
        (''Inactivity Interval'', 4), (''Suspension Interval'', 4), (''Service Start Time'', 4), (''Minimum Data Rate'', 4),
        (''Mean Data Rate'', 4), (''Peak Data Rate'', 4), (''Burst Size'', 4), (''Delay Bound'', 4), (''Minimum PHY Rate'', 4),
        (''Surplus Bandwidth Allowance'', 2), (''Medium Time'', 2)]))"

text \<open>The lists of WPA are read without a look at what is left, and the second goes where the first was.\<close>

definition wpa_suites :: "string \<Rightarrow> value_string \<Rightarrow> string \<Rightarrow> unit dis" where
  "wpa_suites count_key table what =
     andThen GetUInt16 (\<lambda>n. andThen (put count_key (number n)) (\<lambda>_.
     andThen (repeat_dis (unat n) (suite_entry (CHR '' '') OUI_WPAWME table what)) (\<lambda>es.
     put ''Unicast Cipher Suite List'' (JArr es))))"

definition wpa_element :: "unit dis" where
  "wpa_element =
     andThen GetUInt16 (\<lambda>v. andThen (put ''WPA Version'' (number v)) (\<lambda>_.
     andThen (cipher_suite (CHR '' '') OUI_WPAWME ieee80211_wfa_ie_wpa_cipher_vals) (\<lambda>(_, t).
     andThen (put ''Multicast Cipher Suite type'' (JStr t)) (\<lambda>_.
     andThen (wpa_suites ''Unicast Cipher Suite Count'' ieee80211_wfa_ie_wpa_cipher_vals ''Unicast Cipher Suite'') (\<lambda>_.
     wpa_suites ''Auth Key Management (AKM) Suite Count'' ieee80211_wfa_ie_wpa_keymgmt_vals ''Auth Key Management (AKM)'')))))"

definition wme_element :: "u32 \<Rightarrow> unit dis" where
  "wme_element l =
     andThen next_byte (\<lambda>sub. andThen (put ''WME Subtype'' (JStr (VALS ieee802111_wfa_ie_wme_type (ucast sub)))) (\<lambda>_.
     andThen next_byte (\<lambda>v. andThen (put ''WME Version'' (number v)) (\<lambda>_.
     if sub = 0 then andThen (dissect_qos_info (l - 3)) (put ''WME QoS Info'')
     else if sub = 1
     then andThen (dissect_qos_info (l - 3)) (\<lambda>q. andThen (put ''WME QoS Info'' q) (\<lambda>_.
          andThen (skip_bytes 2) (\<lambda>_. andThen (repeat_dis 4 wme_ac_entry) (\<lambda>es.
          puts (under ''Ac Parameters'' [(''ACI / AIFSN Field'', JArr es)])))))
     else if sub = 2 then wme_tspec
     else ret ()))))"

definition dissect_vendor_ie_wpawme :: "u32 \<Rightarrow> unit dis" where
  "dissect_vendor_ie_wpawme l =
     andThen (put ''vendor'' (JStr ''Wi-Fi : WPA / WME'')) (\<lambda>_.
     andThen (byte_at 0) (\<lambda>ty. andThen (put ''type'' (JStr (VALS ieee802111_wfa_ie_type_vals (ucast ty)))) (\<lambda>_.
     andThen (skip_bytes 1) (\<lambda>_.
     if 1 < l then
       if ty = 1 then wpa_element
       else if ty = 2 then wme_element l
       else if ty = 4 then andThen (hex_at 1 (l - 1)) (\<lambda>h. put ''TLV Block'' (JStr h))
       else andThen (hex_at 1 (l - 1)) (\<lambda>h. put ''Data'' (JStr h))
     else ret ()))))"

definition dissect_vendor_ie_rsn :: "u32 \<Rightarrow> unit dis" where
  "dissect_vendor_ie_rsn l =
     andThen (put ''vendor'' (JStr ''Wi-Fi : RSN'')) (\<lambda>_. andThen (byte_at 0) (\<lambda>ty.
     if ty = 4 then andThen (hex_at 1 16) (\<lambda>h. put ''RSN PMKID'' (JStr h))
     else andThen (hex_at 1 (l - 1)) (\<lambda>h. put ''RSN Unknown'' (JStr h))))"

text \<open>One is taken from the length twice.\<close>

definition dissect_vendor_ie_ht :: "u32 \<Rightarrow> unit dis" where
  "dissect_vendor_ie_ht len =
     (let l = len - 1 in
      andThen (put ''vendor'' (JStr ''Wi-Fi : 802.11 Pre-N'')) (\<lambda>_. andThen (byte_at 0) (\<lambda>ty.
      if ty = 51 then andThen (skip_bytes 1) (\<lambda>_. dissect_ht_capability_ie (l - 1))
      else if ty = 52 then andThen (skip_bytes 1) (\<lambda>_. dissect_ht_info_ie_1_0 (l - 1))
      else andThen (hex_at 1 (l - 1)) (\<lambda>h. put ''802.11n (Pre) Unknown Data'' (JStr h)))))"

definition vendor_data :: "string \<Rightarrow> u32 \<Rightarrow> unit dis" where
  "vendor_data name l =
     andThen (put ''vendor'' (JStr name)) (\<lambda>_. andThen (hex_at 1 (l - 1)) (\<lambda>h. put ''Data'' (JStr h)))"

definition dissect_vendor_ie_wfa :: "u32 \<Rightarrow> unit dis" where
  "dissect_vendor_ie_wfa = vendor_data ''Wi-Fi Alliance''"

definition dissect_vendor_ie_aironet :: "u32 \<Rightarrow> unit dis" where
  "dissect_vendor_ie_aironet = vendor_data ''Cisco Wireless (Aironet)''"

definition dissect_vendor_ie_marvell :: "u32 \<Rightarrow> unit dis" where
  "dissect_vendor_ie_marvell = vendor_data ''Marvell Semiconductor''"

definition dissect_vendor_ie_atheros :: "u32 \<Rightarrow> unit dis" where
  "dissect_vendor_ie_atheros = vendor_data ''Atheros Communications''"

definition dissect_vendor_ie_aruba :: "u32 \<Rightarrow> unit dis" where
  "dissect_vendor_ie_aruba = vendor_data ''Aruba Networks''"

definition dissect_vendor_ie_nintendo :: "u32 \<Rightarrow> unit dis" where
  "dissect_vendor_ie_nintendo = vendor_data ''Nintendo''"

text \<open>The decoder of an organization, which is given the length of what follows its identifier.\<close>

definition vendor_decoders :: "(u32 \<times> (u32 \<Rightarrow> unit dis)) list" where
  "vendor_decoders =
     [(OUI_WPAWME, dissect_vendor_ie_wpawme), (OUI_RSN, dissect_vendor_ie_rsn), (OUI_PRE11N, dissect_vendor_ie_ht),
      (OUI_WFA, dissect_vendor_ie_wfa), (OUI_CISCOWL, dissect_vendor_ie_aironet), (OUI_MARVELL, dissect_vendor_ie_marvell),
      (OUI_ATHEROS, dissect_vendor_ie_atheros), (OUI_ARUBA, dissect_vendor_ie_aruba), (OUI_NINTENDO, dissect_vendor_ie_nintendo)]"

definition vendor_content :: "bytes \<Rightarrow> cpp_exn + json" where
  "vendor_content data =
     (if length data < 3 then Inr JNull
      else
        let rest = drop 3 data in
        (case map_of vendor_decoders (le_value (rev (take 3 data))) of
           Some f \<Rightarrow> dissect (f (of_nat (length rest))) rest
         | None \<Rightarrow> Inr (object_of [(''content'', JStr (BufferToHex (CHR '' '') data))])))"

definition WFS_WLAN_EID_VENDOR_SPECIFIC :: "bytes \<Rightarrow> cpp_exn + json" where
  "WFS_WLAN_EID_VENDOR_SPECIFIC data = map_sum id (new_ie ''Vendor Specific'' WLAN_EID_VENDOR_SPECIFIC) (vendor_content data)"

text \<open>The extensions the code tells apart are all shown in the same way.\<close>

definition WFS_WLAN_EID_EXTENSION :: "bytes \<Rightarrow> cpp_exn + json" where
  "WFS_WLAN_EID_EXTENSION data = element ''EI Extensions'' WLAN_EID_EXTENSION
     (andThen (byte_at 0) (\<lambda>_. andThen (hex_at 0 1) (\<lambda>h. andThen (put ''Extension EID'' (JStr h)) (\<lambda>_.
      andThen (hex_at 1 (of_nat (length data) - 1)) (\<lambda>r. put ''Block'' (JStr r)))))) data"

end
