(* ===== verification/GW_Scan.thy ===== *)
theory GW_Scan
  imports GW_ScanVendor
begin

text \<open>
  The parser of a Wi-Fi scan (\<^verbatim>\<open>ParseWifiScan\<close> of \<^verbatim>\<open>src/ParseWifiScan.h\<close>): the decoder of each element, and the walk through
  the answer of a device that replaces the elements it can decode. What holds of it: which data each decoder reads
  past the end of, what becomes of the rest of the answer, and some values that are not those of the element.
\<close>

section \<open>The decoder of an element\<close>

definition decode_element :: "u64 \<Rightarrow> bytes \<Rightarrow> (cpp_exn + json) option" where
  "decode_element ty data =
     (if ty = WLAN_EID_COUNTRY then Some (WFS_WLAN_EID_COUNTRY data)
      else if ty = WLAN_EID_SUPP_RATES then Some (WFS_WLAN_EID_SUPP_RATES data)
      else if ty = WLAN_EID_FH_PARAMS then Some (WFS_WLAN_EID_FH_PARAMS data)
      else if ty = WLAN_EID_DS_PARAMS then Some (WFS_WLAN_EID_DS_PARAMS data)
      else if ty = WLAN_EID_TIM then Some (WFS_WLAN_EID_TIM data)
      else if ty = WLAN_EID_QBSS_LOAD then Some (WFS_WLAN_EID_QBSS_LOAD data)
      else if ty = WLAN_EID_PWR_CONSTRAINT then Some (WFS_WLAN_EID_PWR_CONSTRAINT data)
      else if ty = WLAN_EID_ERP_INFO then Some (WFS_WLAN_EID_ERP_INFO data)
      else if ty = WLAN_EID_SUPPORTED_REGULATORY_CLASSES then Some (WFS_WLAN_EID_SUPPORTED_REGULATORY_CLASSES data)
      else if ty = WLAN_EID_HT_CAPABILITY then Some (WFS_WLAN_EID_HT_CAPABILITY data)
      else if ty = WLAN_EID_EXT_SUPP_RATES then Some (WFS_WLAN_EID_EXT_SUPP_RATES data)
      else if ty = WLAN_EID_TX_POWER_ENVELOPE then Some (WFS_WLAN_EID_TX_POWER_ENVELOPE data)
      else if ty = WLAN_EID_VHT_CAPABILITY then Some (WFS_WLAN_EID_VHT_CAPABILITY data)
      else if ty = WLAN_EID_RRM_ENABLED_CAPABILITIES then Some (WFS_WLAN_EID_RRM_ENABLED_CAPABILITIES data)
      else if ty = WLAN_EID_EXT_CAPABILITY then Some (WFS_WLAN_EID_EXT_CAPABILITY data)
      else if ty = WLAN_EID_TPC_REPORT then Some (WFS_WLAN_EID_TPC_REPORT data)
      else if ty = WLAN_EID_RSN then Some (WFS_WLAN_EID_RSN data)
      else if ty = WLAN_EID_VENDOR_SPECIFIC then Some (WFS_WLAN_EID_VENDOR_SPECIFIC data)
      else if ty = WLAN_EID_EXTENSION then Some (WFS_WLAN_EID_EXTENSION data)
      else None)"

section \<open>The walk through the answer\<close>

text \<open>
  \<open>sc_relay\<close> prints the answer and parses it with the other library, \<open>sc_dump\<close> prints what became of it; \<open>sc_b64\<close> is
  the decoder of Poco, \<open>sc_real\<close> the conversion of a number with a fraction.
\<close>

record scan_env =
  sc_relay :: "jobject \<Rightarrow> cpp_exn + json"
  sc_b64 :: "string \<Rightarrow> bytes"
  sc_real :: "string \<Rightarrow> u64"
  sc_dump :: "json \<Rightarrow> cpp_exn + string"

definition contains :: "json \<Rightarrow> string \<Rightarrow> bool" where
  "contains j k \<longleftrightarrow> (case j of JObj obj \<Rightarrow> om_find obj k \<noteq> None | _ \<Rightarrow> False)"

definition child :: "json \<Rightarrow> string \<Rightarrow> json" where
  "child j k = (case j of JObj obj \<Rightarrow> j_get obj k | _ \<Rightarrow> JNull)"

definition elements :: "json \<Rightarrow> json list option" where
  "elements j = (case j of JArr xs \<Rightarrow> Some xs | _ \<Rightarrow> None)"

definition replace_child :: "json \<Rightarrow> string \<Rightarrow> json \<Rightarrow> json" where
  "replace_child j k v = (case j of JObj obj \<Rightarrow> JObj (om_set k v obj) | _ \<Rightarrow> j)"

definition as_u64 :: "scan_env \<Rightarrow> json \<Rightarrow> cpp_exn + u64" where
  "as_u64 e j = (case j of JInt n \<Rightarrow> Inr (of_int n) | JBool b \<Rightarrow> Inr (if b then 1 else 0) | JReal t \<Rightarrow> Inr (sc_real e t)
                  | _ \<Rightarrow> Inl (Runtime_Error ''type_error''))"

definition as_string :: "json \<Rightarrow> cpp_exn + string" where
  "as_string j = (case j of JStr s \<Rightarrow> Inr s | _ \<Rightarrow> Inl (Runtime_Error ''type_error''))"

text \<open>An exception leaves the element as it was.\<close>

definition parse_ie :: "scan_env \<Rightarrow> json \<Rightarrow> cpp_exn + json" where
  "parse_ie e ie =
     (if contains ie ''type'' \<and> contains ie ''data'' then
        (case try_bind (as_u64 e (child ie ''type'')) (\<lambda>ty.
              try_bind (as_string (child ie ''data'')) (\<lambda>text.
                case decode_element ty (sc_b64 e text) of None \<Rightarrow> Inr ie | Some r \<Rightarrow> r)) of
           Inl x \<Rightarrow> if catchable x then Inr ie else Inl x
         | Inr j \<Rightarrow> Inr j)
      else Inr ie)"

fun all_parsed :: "(json \<Rightarrow> cpp_exn + json) \<Rightarrow> json list \<Rightarrow> cpp_exn + json list" where
  "all_parsed f [] = Inr []"
| "all_parsed f (j # js) = try_bind (f j) (\<lambda>x. map_sum id (\<lambda>xs. x # xs) (all_parsed f js))"

definition parse_scan_entry :: "scan_env \<Rightarrow> json \<Rightarrow> cpp_exn + json" where
  "parse_scan_entry e entry =
     (case (if contains entry ''ies'' then elements (child entry ''ies'') else None) of
        None \<Rightarrow> Inr entry
      | Some ies \<Rightarrow> map_sum id (\<lambda>xs. replace_child entry ''ies'' (JArr xs)) (all_parsed (parse_ie e) ies))"

definition parse_scan :: "scan_env \<Rightarrow> json \<Rightarrow> cpp_exn + json" where
  "parse_scan e d =
     (if contains d ''status'' then
        let status = child d ''status'' in
        (case (if contains status ''scan'' then elements (child status ''scan'') else None) of
           None \<Rightarrow> Inr d
         | Some scan \<Rightarrow>
             map_sum id (\<lambda>xs. replace_child d ''status'' (replace_child status ''scan'' (JArr xs))) (all_parsed (parse_scan_entry e) scan))
      else Inr d)"

text \<open>Whether it succeeded, and what was written; an exception of any kind is a failure.\<close>

definition ParseWifiScan :: "scan_env \<Rightarrow> jobject \<Rightarrow> cpp_exn + bool \<times> string" where
  "ParseWifiScan e obj =
     (case try_bind (sc_relay e obj) (\<lambda>d. try_bind (parse_scan e d) (sc_dump e)) of
        Inl x \<Rightarrow> if catchable x then Inr (False, []) else Inl x
      | Inr text \<Rightarrow> Inr (True, text))"

end
