(* ===== verification/GW_ScanReads.thy ===== *)
theory GW_ScanReads
  imports GW_Scan
begin

text \<open>
  How the decoders of a scan run. \<open>reads\<close> says of a reader how many bytes it takes and what it makes of them; the rules
  of \<open>scan_run\<close> rewrite a decoder on a state step by step, until its outcome is a condition on the length of the data.
\<close>

named_theorems scan_run \<open>one step of a decoder\<close>

abbreviation past_end :: cpp_exn where
  "past_end \<equiv> Undefined_Behaviour ''read past the end of the data''"

section \<open>Readers\<close>

definition reads :: "'a dis \<Rightarrow> nat \<Rightarrow> (bytes \<Rightarrow> 'a) \<Rightarrow> bool" where
  "reads f n v \<longleftrightarrow> (\<forall>s. if n = 0 \<or> ds_offset s + n \<le> length (ds_data s)
     then f s = (Inr (v (take n (drop (ds_offset s) (ds_data s)))), s\<lparr> ds_offset := ds_offset s + n \<rparr>)
     else fst (f s) = Inl past_end)"

lemma reads_ret: "reads (ret x) 0 (\<lambda>_. x)"
  by (simp add: reads_def ret_def)

lemma reads_take: "reads (take_bytes n) n (\<lambda>b. b)"
  by (simp add: reads_def take_bytes_def peek_bytes_def skip_bytes_def andThen_def ret_def)

lemma reads_bind:
  assumes "reads f m v" and "\<And>b. length b = m \<Longrightarrow> reads (g (v b)) n (w b)"
  shows "reads (andThen f g) (m + n) (\<lambda>b. w (take m b) (drop m b))"
  unfolding reads_def
proof
  fix s :: dissector
  let ?i = "ds_offset s" and ?d = "ds_data s"
  let ?b = "take m (drop ?i ?d)" and ?s = "s\<lparr> ds_offset := ?i + m \<rparr>" and ?all = "take (m + n) (drop ?i ?d)"
  have all: "take m ?all = ?b" "drop m ?all = take n (drop (?i + m) ?d)" by (simp_all add: drop_take add.commute)
  show "if m + n = 0 \<or> ?i + (m + n) \<le> length ?d
     then andThen f g s = (Inr (w (take m ?all) (drop m ?all)), s\<lparr> ds_offset := ?i + (m + n) \<rparr>)
     else fst (andThen f g s) = Inl past_end"
  proof (cases "m = 0 \<or> ?i + m \<le> length ?d")
    case True
    then have f: "f s = (Inr (v ?b), ?s)" using assms(1) by (simp add: reads_def)
    have "length ?b = m" using True by auto
    from assms(2) [OF this] have g: "if n = 0 \<or> ?i + m + n \<le> length ?d
       then g (v ?b) ?s = (Inr (w ?b (take n (drop (?i + m) ?d))), s\<lparr> ds_offset := ?i + m + n \<rparr>)
       else fst (g (v ?b) ?s) = Inl past_end"
      unfolding reads_def by (auto dest: spec [of _ ?s])
    show ?thesis
    proof (cases "n = 0 \<or> ?i + m + n \<le> length ?d")
      case fits: True
      with True have "m + n = 0 \<or> ?i + (m + n) \<le> length ?d" by auto
      then show ?thesis using f g fits by (simp only: all if_True) (simp add: andThen_def add.assoc)
    next
      case False
      then have "\<not> (m + n = 0 \<or> ?i + (m + n) \<le> length ?d)" by auto
      then show ?thesis using f g False by (simp only: if_False) (simp add: andThen_def)
    qed
  next
    case False
    then have "fst (f s) = Inl past_end" using assms(1) by (simp add: reads_def)
    moreover have "\<not> (m + n = 0 \<or> ?i + (m + n) \<le> length ?d)" using False by auto
    ultimately show ?thesis by (simp only: if_False) (auto simp: andThen_def split: sum.split prod.split)
  qed
qed

lemma reads_map: "reads f n v \<Longrightarrow> reads (andThen f (\<lambda>x. ret (h x))) n (\<lambda>b. h (v b))"
  using reads_bind [of f n v "\<lambda>x. ret (h x)" 0 "\<lambda>b _. h (v b)"] by (simp add: reads_ret) (auto simp: reads_def)

lemma reads_next: "reads next_byte 1 hd"
  unfolding next_byte_def by (rule reads_map [OF reads_take])

lemma reads_numbers:
  "reads GetUInt16 2 (\<lambda>b. ucast (le_value b))" "reads GetUInt24 3 le_value" "reads GetUInt24Big 3 (\<lambda>b. le_value (rev b))"
  "reads GetUInt32 4 le_value"
  unfolding GetUInt16_def GetUInt24_def GetUInt24Big_def GetUInt32_def by (rule reads_map [OF reads_take])+

definition suite_text :: "char \<Rightarrow> u32 \<Rightarrow> value_string \<Rightarrow> bytes \<Rightarrow> string \<times> string" where
  "suite_text sep oui table b =
     (BufferToHex sep (take 3 b),
      if le_value (rev (take 3 b)) = oui then VALS table (ucast (b ! 3)) else BufferToHex sep [b ! 3])"

lemma reads_cong: "reads f n v \<Longrightarrow> (\<And>b. length b = n \<Longrightarrow> v b = w b) \<Longrightarrow> reads f n w"
  by (auto simp: reads_def)

lemma reads_suite: "reads (cipher_suite sep oui table) 4 (suite_text sep oui table)"
proof -
  have "reads (cipher_suite sep oui table) (3 + 1)
      (\<lambda>b. (\<lambda>b t. (BufferToHex sep b, if le_value (rev b) = oui then VALS table (ucast (hd t)) else BufferToHex sep [hd t]))
         (take 3 b) (drop 3 b))"
    unfolding cipher_suite_def by (rule reads_bind [OF reads_take]) (rule reads_map [OF reads_next])
  then have "reads (cipher_suite sep oui table) 4
      (\<lambda>b. (\<lambda>b t. (BufferToHex sep b, if le_value (rev b) = oui then VALS table (ucast (hd t)) else BufferToHex sep [hd t]))
         (take 3 b) (drop 3 b))" by simp
  then show ?thesis by (rule reads_cong) (simp add: suite_text_def hd_drop_conv_nth)
qed

lemma reads_entry:
  "reads (suite_entry sep oui table what) 4
     (\<lambda>b. object_of [(what @ '' OUI'', JStr (fst (suite_text sep oui table b))), (what @ '' type'', JStr (snd (suite_text sep oui table b)))])"
  unfolding suite_entry_def case_prod_beta by (rule reads_map [OF reads_suite])

fun blocks :: "nat \<Rightarrow> nat \<Rightarrow> bytes \<Rightarrow> bytes list" where
  "blocks 0 m b = []"
| "blocks (Suc n) m b = take m b # blocks n m (drop m b)"

lemma reads_repeat: "reads f m v \<Longrightarrow> reads (repeat_dis n f) (n * m) (\<lambda>b. map v (blocks n m b))"
proof (induction n)
  case 0
  then show ?case by (simp add: reads_ret)
next
  case (Suc n)
  have "reads (andThen f (\<lambda>x. andThen (repeat_dis n f) (\<lambda>xs. ret (x # xs)))) (m + n * m)
      (\<lambda>b. (\<lambda>b c. v b # map v (blocks n m c)) (take m b) (drop m b))"
    by (rule reads_bind [OF Suc.prems]) (rule reads_map [OF Suc.IH [OF Suc.prems]])
  then show ?case by simp
qed

section \<open>Running a decoder\<close>

abbreviation dis_at :: "bytes \<Rightarrow> nat \<Rightarrow> json \<Rightarrow> dissector" where
  "dis_at d i c \<equiv> \<lparr> ds_data = d, ds_offset = i, ds_content = c \<rparr>"

lemma run_reads:
  assumes "reads f n v"
  shows "fst (andThen f g (dis_at d i c)) = (if n = 0 \<or> i + n \<le> length d then fst (g (v (take n (drop i d))) (dis_at d (i + n) c)) else Inl past_end)"
proof (cases "n = 0 \<or> i + n \<le> length d")
  case True
  with assms have "f (dis_at d i c) = (Inr (v (take n (drop i d))), dis_at d (i + n) c)" by (simp add: reads_def)
  with True show ?thesis by (simp add: andThen_def)
next
  case False
  then have "fst (f (dis_at d i c)) = Inl past_end" using assms by (simp add: reads_def)
  with False show ?thesis by (auto simp: andThen_def split: prod.split sum.split)
qed

lemmas run_readers [scan_run] =
  run_reads [OF reads_next] run_reads [OF reads_take] reads_numbers [THEN run_reads] run_reads [OF reads_suite] run_reads [OF reads_entry]
  run_reads [OF reads_repeat [OF reads_entry]]

lemma run_byte [scan_run]:
  "fst (andThen (byte_at j) g (dis_at d i c)) = (if j < length d then fst (g (d ! j) (dis_at d i c)) else Inl past_end)"
  by (simp add: andThen_def byte_at_def)

lemma run_peek [scan_run]:
  "fst (andThen (peek_bytes n) g (dis_at d i c)) = (if n = 0 \<or> i + n \<le> length d then fst (g (take n (drop i d)) (dis_at d i c)) else Inl past_end)"
  by (simp add: andThen_def peek_bytes_def)

lemma run_hex [scan_run]:
  "fst (andThen (hex_at j l) g (dis_at d i c)) =
     (if j + unat l \<le> length d then fst (g (BufferToHex (CHR '' '') (take (unat l) (drop j d))) (dis_at d i c)) else Inl past_end)"
  by (simp add: andThen_def hex_at_def)

lemma run_control [scan_run]:
  "fst (andThen (skip_bytes n) g (dis_at d i c)) = fst (g () (dis_at d (i + n) c))"
  "fst (ret x (dis_at d i c)) = Inr x"
  "fst (andThen (ret x) g' (dis_at d i c)) = fst (g' x (dis_at d i c))"
  "fst (with_dis h (dis_at d i c)) = fst (h (dis_at d i c) (dis_at d i c))"
  "fst (andThen (andThen f f') g'' (dis_at d i c)) = fst (andThen f (\<lambda>x. andThen (f' x) g'') (dis_at d i c))"
  by (auto simp: andThen_def skip_bytes_def ret_def with_dis_def split: prod.split sum.split)

lemma run_when:
  "fst (andThen (when_left n f) g (dis_at d i c)) =
     (if i + n \<le> length d then fst (andThen f g (dis_at d i c)) else fst (g () (dis_at d i c)))"
  "fst (when_left n f (dis_at d i c)) = (if i + n \<le> length d then fst (f (dis_at d i c)) else Inr ())"
  by (auto simp: andThen_def ret_def with_dis_def when_left_def split: prod.split sum.split)

text \<open>What is written: values in the object itself, and in one of its sections.\<close>

definition objectlike :: "json \<Rightarrow> bool" where
  "objectlike c \<longleftrightarrow> c = JNull \<or> (\<exists>obj. c = JObj obj)"

definition sub :: "json \<Rightarrow> string \<Rightarrow> json" where
  "sub c k = (case c of JObj obj \<Rightarrow> (case om_find obj k of None \<Rightarrow> JNull | Some j \<Rightarrow> j) | _ \<Rightarrow> JNull)"

definition set1 :: "string \<Rightarrow> json \<Rightarrow> json \<Rightarrow> json" where
  "set1 k v c = (case c of JObj obj \<Rightarrow> JObj (om_set k v obj) | _ \<Rightarrow> JObj [(k, v)])"

definition set2 :: "string \<Rightarrow> (string \<times> json) list \<Rightarrow> json \<Rightarrow> json" where
  "set2 name fs c = foldl (\<lambda>c (k, v). set1 name (set1 k v (sub c name)) c) c fs"

definition open_at :: "string \<Rightarrow> json \<Rightarrow> bool" where
  "open_at name c \<longleftrightarrow> objectlike c \<and> objectlike (sub c name)"

lemma sub_set1 [simp]: "sub (set1 k v c) k' = (if k' = k then v else sub c k')"
  by (cases c) (auto simp: sub_def set1_def om_find_set_any om_find_def [of "[(k, v)]"])

lemma objectlike_simps [simp]: "objectlike JNull" "objectlike (JObj obj)" "objectlike (set1 k v c)" "sub JNull k = JNull"
  by (auto simp: objectlike_def set1_def sub_def split: json.split)

lemma set2_simps: "set2 name [] c = c" "set2 name ((k, v) # fs) c = set2 name fs (set1 name (set1 k v (sub c name)) c)"
  by (simp_all add: set2_def)

lemma objectlike_set2 [simp]: "objectlike c \<Longrightarrow> objectlike (set2 name fs c)"
  by (induction fs arbitrary: c) (auto simp: set2_simps)

lemma sub_set2 [simp]: "name' \<noteq> name \<Longrightarrow> sub (set2 name fs c) name' = sub c name'"
  by (induction fs arbitrary: c) (auto simp: set2_simps)

lemma sub_set2_same: "objectlike (sub c name) \<Longrightarrow> objectlike (sub (set2 name fs c) name)"
  by (induction fs arbitrary: c) (auto simp: set2_simps)

lemma open_at_simps [simp]:
  "open_at name JNull" "name \<noteq> k \<Longrightarrow> open_at name c \<Longrightarrow> open_at name (set1 k v c)"
  "open_at name c \<Longrightarrow> open_at name (set2 name' fs c)" "open_at name c \<Longrightarrow> objectlike c"
  by (auto simp: open_at_def) (cases "name = name'", simp_all add: sub_set2_same)

lemma put_path_one: "objectlike c \<Longrightarrow> put_path [k] v c = Inr (set1 k v c)"
  by (auto simp: objectlike_def set1_def)

lemma put_path_two: "open_at name c \<Longrightarrow> put_path [name, k] v c = Inr (set1 name (set1 k v (sub c name)) c)"
  by (auto simp: open_at_def objectlike_def set1_def sub_def split: option.splits)

lemma run_put [scan_run]:
  "objectlike c \<Longrightarrow> fst (andThen (put_field ([k], v)) g (dis_at d i c)) = fst (g () (dis_at d i (set1 k v c)))"
  "objectlike c \<Longrightarrow> fst (put_field ([k], v) (dis_at d i c)) = Inr ()"
  "objectlike c \<Longrightarrow> fst (andThen (put k v) g (dis_at d i c)) = fst (g () (dis_at d i (set1 k v c)))"
  "objectlike c \<Longrightarrow> fst (put k v (dis_at d i c)) = Inr ()"
  by (simp_all add: put_def put_field_def andThen_def put_path_one)

lemma puts_under:
  "open_at name c \<Longrightarrow> puts (under name fs) (dis_at d i c) = (Inr (), dis_at d i (set2 name fs c))"
proof (induction fs arbitrary: c)
  case Nil
  then show ?case by (simp add: under_def ret_def set2_simps)
next
  case (Cons f fs)
  obtain k v where f: "f = (k, v)" by (cases f)
  have "open_at name (set1 name (set1 k v (sub c name)) c)" by (simp add: open_at_def)
  from Cons.IH [OF this] Cons.prems show ?case
    by (simp add: f under_def andThen_def put_field_def put_path_two set2_simps)
qed

lemma run_under [scan_run]:
  "open_at name c \<Longrightarrow> fst (andThen (puts (under name fs)) g (dis_at d i c)) = fst (g () (dis_at d i (set2 name fs c)))"
  "open_at name c \<Longrightarrow> fst (puts (under name fs) (dis_at d i c)) = Inr ()"
  by (simp_all add: puts_under andThen_def)

section \<open>Outcomes\<close>

text \<open>A decoder succeeds on the data that are long enough for it, and reads past their end otherwise.\<close>

definition exact :: "u64 \<Rightarrow> bool \<Rightarrow> cpp_exn + json \<Rightarrow> bool" where
  "exact ty P r \<longleftrightarrow> (if P then \<exists>name content. r = Inr (new_ie name ty content) else r = Inl past_end)"

lemma dissect_run: "dissect f d = (case fst (f (dis_at d 0 JNull)) of Inl e \<Rightarrow> Inl e | Inr _ \<Rightarrow> Inr (ds_content (snd (f (dis_at d 0 JNull)))))"
  by (simp add: dissect_def split: prod.split sum.split)

lemma exact_element:
  "fst (f (dis_at d 0 JNull)) = (if P then Inr () else Inl past_end) \<Longrightarrow> exact ty P (element name ty f d)"
  by (auto simp: exact_def element_def dissect_run)

lemma exact_dissect:
  "fst (f (dis_at d 0 JNull)) = (if P then Inr () else Inl past_end) \<Longrightarrow> exact ty P (map_sum id (new_ie name ty) (dissect f d))"
  by (auto simp: exact_def dissect_run)

end
