(* ===== verification/GW_ScanBounds.thy ===== *)
theory GW_ScanBounds
  imports GW_ScanReads
begin

text \<open>
  Which data the decoders of a scan read past the end of: \<open>fits\<close> says it for each type of element, exactly. From this,
  what the whole parser does with an answer, and which of its elements it changes.
\<close>

section \<open>Long enough\<close>

definition u16_at :: "bytes \<Rightarrow> nat \<Rightarrow> nat" where
  "u16_at d i = unat (ucast (le_value (take 2 (drop i d))) :: u16)"

text \<open>The position behind a list with its count, when at least \<open>k\<close> bytes are left; none when the count is cut off.\<close>

definition after_counted :: "nat \<Rightarrow> nat \<Rightarrow> bytes \<Rightarrow> nat \<Rightarrow> nat option" where
  "after_counted k w d i =
     (if \<not> i + k \<le> length d then Some i
      else if \<not> i + 2 \<le> length d then None
      else Some (if i + 2 + u16_at d i * w \<le> length d then i + 2 + u16_at d i * w else i + 2))"

definition rsn_fits :: "bytes \<Rightarrow> bool" where
  "rsn_fits d \<longleftrightarrow> 6 \<le> length d \<and> (case after_counted 1 4 d 6 of None \<Rightarrow> False | Some i \<Rightarrow> after_counted 1 4 d i \<noteq> None)"

definition wpa_fits :: "bytes \<Rightarrow> bool" where
  "wpa_fits d \<longleftrightarrow> 9 \<le> length d \<and>
     (let i = 9 + u16_at d 7 * 4 in i + 2 \<le> length d \<and> i + 2 + u16_at d i * 4 \<le> length d)"

definition wme_fits :: "bytes \<Rightarrow> bool" where
  "wme_fits d \<longleftrightarrow> 3 \<le> length d \<and> (d ! 1 = 1 \<longrightarrow> 21 \<le> length d) \<and> (d ! 1 = 2 \<longrightarrow> 58 \<le> length d)"

definition vendor_fits :: "u32 \<Rightarrow> bytes \<Rightarrow> bool" where
  "vendor_fits oui d \<longleftrightarrow>
     (if oui \<notin> fst ` set vendor_decoders then True
      else d \<noteq> [] \<and>
        (if oui = OUI_WPAWME then 1 < length d \<longrightarrow> (if hd d = 1 then wpa_fits d else if hd d = 2 then wme_fits d else True)
         else if oui = OUI_RSN then hd d = 4 \<longrightarrow> 17 \<le> length d
         else if oui = OUI_PRE11N then hd d \<notin> {51, 52} \<longrightarrow> 2 \<le> length d
         else True))"

definition fits :: "u64 \<Rightarrow> bytes \<Rightarrow> bool" where
  "fits ty d \<longleftrightarrow>
     (if ty = WLAN_EID_COUNTRY then 3 \<le> length d
      else if ty = WLAN_EID_FH_PARAMS then 5 \<le> length d
      else if ty \<in> {WLAN_EID_DS_PARAMS, WLAN_EID_PWR_CONSTRAINT, WLAN_EID_ERP_INFO, WLAN_EID_EXTENSION} then d \<noteq> []
      else if ty = WLAN_EID_QBSS_LOAD then length d \<noteq> 4 \<and> length d \<noteq> 5
      else if ty = WLAN_EID_TX_POWER_ENVELOPE
      then 2 \<le> length d \<and> length d \<le> 5 \<longrightarrow> min (unat (hd d)) 3 + 1 < length d
      else if ty = WLAN_EID_RSN then rsn_fits d
      else if ty = WLAN_EID_VENDOR_SPECIFIC
      then 3 \<le> length d \<longrightarrow> vendor_fits (le_value (rev (take 3 d))) (drop 3 d)
      else True)"

section \<open>Decoders of fixed layout\<close>

lemma exact_simple:
  "exact WLAN_EID_SUPP_RATES True (WFS_WLAN_EID_SUPP_RATES d)"
  "exact WLAN_EID_FH_PARAMS (5 \<le> length d) (WFS_WLAN_EID_FH_PARAMS d)"
  "exact WLAN_EID_DS_PARAMS (d \<noteq> []) (WFS_WLAN_EID_DS_PARAMS d)"
  "exact WLAN_EID_TIM True (WFS_WLAN_EID_TIM d)"
  "exact WLAN_EID_COUNTRY (3 \<le> length d) (WFS_WLAN_EID_COUNTRY d)"
  "exact WLAN_EID_QBSS_LOAD (length d \<noteq> 4 \<and> length d \<noteq> 5) (WFS_WLAN_EID_QBSS_LOAD d)"
  "exact WLAN_EID_PWR_CONSTRAINT (d \<noteq> []) (WFS_WLAN_EID_PWR_CONSTRAINT d)"
  "exact WLAN_EID_ERP_INFO (d \<noteq> []) (WFS_WLAN_EID_ERP_INFO d)"
  "exact WLAN_EID_TPC_REPORT True (WFS_WLAN_EID_TPC_REPORT d)"
  "exact WLAN_EID_SUPPORTED_REGULATORY_CLASSES True (WFS_WLAN_EID_SUPPORTED_REGULATORY_CLASSES d)"
  "exact WLAN_EID_EXT_SUPP_RATES True (WFS_WLAN_EID_EXT_SUPP_RATES d)"
  subgoal by (auto simp: exact_def WFS_WLAN_EID_SUPP_RATES_def)
  subgoal unfolding WFS_WLAN_EID_FH_PARAMS_def by (rule exact_element) (simp add: scan_run)
  subgoal unfolding WFS_WLAN_EID_DS_PARAMS_def by (rule exact_element) (simp add: scan_run)
  subgoal unfolding WFS_WLAN_EID_TIM_def by (rule exact_element) (auto simp: scan_run left_def)
  subgoal unfolding WFS_WLAN_EID_COUNTRY_def by (rule exact_element) (simp add: scan_run)
  subgoal unfolding WFS_WLAN_EID_QBSS_LOAD_def by (rule exact_element) (auto simp: scan_run Let_def)
  subgoal unfolding WFS_WLAN_EID_PWR_CONSTRAINT_def by (rule exact_element) (simp add: scan_run)
  subgoal unfolding WFS_WLAN_EID_ERP_INFO_def by (rule exact_element) (simp add: scan_run)
  subgoal unfolding WFS_WLAN_EID_TPC_REPORT_def by (rule exact_element) (simp add: scan_run)
  subgoal unfolding WFS_WLAN_EID_SUPPORTED_REGULATORY_CLASSES_def by (rule exact_element) (simp add: scan_run)
  subgoal unfolding WFS_WLAN_EID_EXT_SUPP_RATES_def by (rule exact_element) (simp add: scan_run)
  done

lemma run_mcs [scan_run]:
  "open_at ''MCS Set'' c \<Longrightarrow> fst (andThen ParseMCSset g (dis_at d i c)) =
     (if i + 4 \<le> length d
      then fst (g () (dis_at d i (set2 ''MCS Set''
             (zip [''Rx Bitmask Bits 0-7'', ''Rx Bitmask Bits 8-15'', ''Rx Bitmask Bits 16-23'', ''Rx Bitmask Bits 24-31'']
                  (map (JStr \<circ> bitString) (take 4 (drop i d)))) c)))
      else Inl past_end)"
  "open_at ''MCS Set'' c \<Longrightarrow> fst (ParseMCSset (dis_at d i c)) = (if i + 4 \<le> length d then Inr () else Inl past_end)"
  by (simp_all add: ParseMCSset_def scan_run)

definition ht_sections :: "string list" where
  "ht_sections =
     [''HT Capabilities Info'', ''A-MPDU Parameters'', ''MCS Set'', ''HT Extended Capabilities'',
      ''Transmit Beam Forming (TxBF) Capabilities'', ''Antenna Selection (ASEL) Capabilities'', ''HT Additional Capabilities'']"

definition all_open :: "string list \<Rightarrow> json \<Rightarrow> bool" where
  "all_open names c \<longleftrightarrow> (\<forall>name\<in>set names. open_at name c)"

lemma all_openD: "all_open ht_sections c \<Longrightarrow> name \<in> set ht_sections \<Longrightarrow> open_at name c"
  by (simp add: all_open_def)

lemma all_open_simps [simp]:
  "all_open names JNull" "all_open names c \<Longrightarrow> all_open names (set2 name fs c)"
  "k \<notin> set names \<Longrightarrow> all_open names c \<Longrightarrow> all_open names (set1 k v c)"
  by (auto simp: all_open_def intro: open_at_simps)

lemma run_open:
  assumes "all_open ht_sections c" and "name \<in> set ht_sections"
  shows "fst (andThen (puts (under name fs)) g (dis_at d i c)) = fst (g () (dis_at d i (set2 name fs c)))"
    and "fst (puts (under name fs) (dis_at d i c)) = Inr ()"
  by (simp_all add: run_under all_openD [OF assms])

lemma ht_section_members:
  "''HT Capabilities Info'' \<in> set ht_sections" "''A-MPDU Parameters'' \<in> set ht_sections" "''MCS Set'' \<in> set ht_sections"
  "''HT Extended Capabilities'' \<in> set ht_sections" "''Transmit Beam Forming (TxBF) Capabilities'' \<in> set ht_sections"
  "''Antenna Selection (ASEL) Capabilities'' \<in> set ht_sections" "''HT Additional Capabilities'' \<in> set ht_sections"
  "''HT Control Channel'' \<notin> set ht_sections" "''vendor'' \<notin> set ht_sections"
  by (simp_all add: ht_sections_def)

lemmas run_ht_rules =
  run_readers run_peek run_control run_put run_open ht_section_members all_open_simps all_openD [of _ "''MCS Set''"] run_mcs

lemma run_ht:
  assumes "all_open ht_sections c"
  shows "l = 26 \<longrightarrow> i + 26 \<le> length d \<Longrightarrow> fst (dissect_ht_capability_ie l (dis_at d i c)) = Inr ()"
    and "l = 22 \<longrightarrow> i + 10 \<le> length d \<Longrightarrow> fst (dissect_ht_info_ie_1_0 l (dis_at d i c)) = Inr ()"
proof -
  have "objectlike c" using all_openD [OF assms ht_section_members(1)] by simp
  then show "l = 26 \<longrightarrow> i + 26 \<le> length d \<Longrightarrow> fst (dissect_ht_capability_ie l (dis_at d i c)) = Inr ()"
    using assms by (simp add: dissect_ht_capability_ie_def run_ht_rules del: open_at_simps) arith
  show "l = 22 \<longrightarrow> i + 10 \<le> length d \<Longrightarrow> fst (dissect_ht_info_ie_1_0 l (dis_at d i c)) = Inr ()"
    using assms \<open>objectlike c\<close> by (simp add: dissect_ht_info_ie_1_0_def run_ht_rules del: open_at_simps) arith
qed

lemma exact_capabilities:
  "exact WLAN_EID_HT_CAPABILITY True (WFS_WLAN_EID_HT_CAPABILITY d)"
  "exact WLAN_EID_VHT_CAPABILITY True (WFS_WLAN_EID_VHT_CAPABILITY d)"
  "exact WLAN_EID_RRM_ENABLED_CAPABILITIES True (WFS_WLAN_EID_RRM_ENABLED_CAPABILITIES d)"
  "exact WLAN_EID_EXT_CAPABILITY True (WFS_WLAN_EID_EXT_CAPABILITY d)"
  subgoal unfolding WFS_WLAN_EID_HT_CAPABILITY_def by (rule exact_element) (simp add: scan_run run_ht)
  subgoal unfolding WFS_WLAN_EID_VHT_CAPABILITY_def by (rule exact_element) (simp add: scan_run)
  subgoal unfolding WFS_WLAN_EID_RRM_ENABLED_CAPABILITIES_def by (rule exact_element) (simp add: scan_run)
  subgoal unfolding WFS_WLAN_EID_EXT_CAPABILITY_def by (rule exact_element) (simp add: scan_run)
  done

section \<open>The power envelope\<close>

lemma run_tx:
  "open_at ''Tx Pwr Info'' c \<Longrightarrow>
     fst (tx_power i n (dis_at d j c)) = (if n = 0 \<or> 3 < i \<or> min (i + n - 1) 3 + 1 < length d then Inr () else Inl past_end)"
proof (induction n arbitrary: i c)
  case 0
  then show ?case by (simp add: scan_run)
next
  case (Suc n)
  have o: "open_at ''Tx Pwr Info'' (set2 ''Tx Pwr Info'' fs c)" for fs using Suc.prems by simp
  show ?case
  proof (cases "i \<le> 3")
    case True
    then show ?thesis
      using Suc.IH [OF o] by (auto simp: scan_run run_under [OF Suc.prems] Let_def min_def)
  next
    case False
    then show ?thesis
      using Suc.IH [OF o] by (simp add: scan_run run_under [OF Suc.prems] Let_def)
  qed
qed

lemma exact_tx:
  "exact WLAN_EID_TX_POWER_ENVELOPE (2 \<le> length d \<and> length d \<le> 5 \<longrightarrow> min (unat (hd d)) 3 + 1 < length d)
     (WFS_WLAN_EID_TX_POWER_ENVELOPE d)"
  unfolding WFS_WLAN_EID_TX_POWER_ENVELOPE_def
  by (rule exact_element, cases d) (auto simp: scan_run run_tx simp del: tx_power.simps)

section \<open>Lists with a count\<close>

definition counted_content :: "nat \<Rightarrow> nat \<Rightarrow> string \<Rightarrow> string \<Rightarrow> (bytes \<Rightarrow> json) \<Rightarrow> bytes \<Rightarrow> nat \<Rightarrow> json \<Rightarrow> json" where
  "counted_content k w count_key list_key v d i c =
     (if \<not> i + k \<le> length d then c
      else
        let n = u16_at d i; c = set1 count_key (number (ucast (le_value (take 2 (drop i d))) :: u16)) c in
        if i + 2 + n * w \<le> length d then set1 list_key (JArr (map v (blocks n w (take (n * w) (drop (i + 2) d))))) c else c)"

lemma counted_open [simp]:
  "objectlike c \<Longrightarrow> objectlike (counted_content k w ck lk v d i c)"
  "open_at name c \<Longrightarrow> name \<noteq> ck \<Longrightarrow> name \<noteq> lk \<Longrightarrow> open_at name (counted_content k w ck lk v d i c)"
  by (auto simp: counted_content_def Let_def)

lemma run_counted:
  assumes "reads entry w v" and "objectlike c"
  shows "fst (andThen (when_left k (counted_list ck lk w entry)) g (dis_at d i c)) =
    (case after_counted k w d i of None \<Rightarrow> Inl past_end | Some j \<Rightarrow> fst (g () (dis_at d j (counted_content k w ck lk v d i c))))"
  using assms(2)
  by (simp add: counted_list_def scan_run run_when run_reads [OF reads_repeat [OF assms(1)]] after_counted_def counted_content_def u16_at_def Let_def
      add.assoc)

lemma reads_pmkid: "reads (andThen (take_bytes 16) (\<lambda>b. ret (object_of [(''PMKID'', JStr (BufferToHex (CHR '' '') b))]))) 16
    (\<lambda>b. object_of [(''PMKID'', JStr (BufferToHex (CHR '' '') b))])"
  by (rule reads_map [OF reads_take])

lemma after_pmkids: "after_counted 2 w d i \<noteq> None"
  by (simp add: after_counted_def)

lemmas rsn_rules =
  run_readers run_control run_put run_under run_counted [OF reads_entry] run_counted [OF reads_pmkid]
  run_when(1) [where f = "andThen GetUInt16 h" for h] run_when(2)

lemma exact_rsn: "exact WLAN_EID_RSN (rsn_fits d) (WFS_WLAN_EID_RSN d)"
  unfolding WFS_WLAN_EID_RSN_def
  by (rule exact_element) (simp add: rsn_rules case_prod_beta rsn_fits_def after_pmkids split: option.split)

section \<open>Vendors\<close>

lemma run_numbers:
  "open_at name c \<Longrightarrow>
     fst (put_numbers name ks (dis_at d i c)) = (if ks = [] \<or> i + sum_list (map snd ks) \<le> length d then Inr () else Inl past_end)"
  if "\<forall>x\<in>set ks. 0 < snd x"
  using that
proof (induction ks arbitrary: i c)
  case Nil
  then show ?case by (simp add: scan_run)
next
  case (Cons x ks)
  obtain k n where x: "x = (k, n)" by (cases x)
  have "open_at name (set2 name fs c)" for fs using Cons.prems by simp
  with Cons.IH [of _ "i + n"] Cons.prems show ?case by (auto simp: x scan_run)
qed

lemma run_tspec: "open_at ''TS Info'' c \<Longrightarrow> fst (wme_tspec (dis_at d i c)) = (if i + 55 \<le> length d then Inr () else Inl past_end)"
  by (simp add: wme_tspec_def scan_run run_numbers del: put_numbers.simps)

lemma reads_ac: "reads wme_ac_entry 4 wme_ac_value"
  unfolding wme_ac_entry_def by (rule reads_map [OF reads_take])

lemma run_qos:
  "fst (andThen (dissect_qos_info l) g (dis_at d i c)) =
     (if l < 1 then fst (g JNull (dis_at d i c))
      else if i + 1 \<le> length d
      then fst (g (object_of [(''WME QoS Info'', object_of (qos_fields 0x04 (hd (take 1 (drop i d)))))]) (dis_at d i c))
      else Inl past_end)"
  by (simp add: dissect_qos_info_def scan_run)

lemma word_length:
  assumes "n < 2 ^ 32"
  shows "k \<le> n \<Longrightarrow> unat (of_nat n - of_nat k :: u32) = n - k" and "unat (of_nat n :: u32) = n"
proof -
  show n: "unat (of_nat n :: u32) = n" using assms by (simp add: unat_of_nat)
  assume "k \<le> n"
  then have "unat (of_nat k :: u32) = k" using assms by (simp add: unat_of_nat)
  with n \<open>k \<le> n\<close> show "unat (of_nat n - of_nat k :: u32) = n - k" by (simp add: unat_sub word_le_nat_alt)
qed

lemma run_wpa: "objectlike c \<Longrightarrow> fst (wpa_element (dis_at d 1 c)) = (if wpa_fits d then Inr () else Inl past_end)"
  by (auto simp: wpa_element_def wpa_suites_def case_prod_beta scan_run wpa_fits_def u16_at_def Let_def add.commute)

lemma run_wme:
  assumes "open_at ''TS Info'' c" and "open_at ''Ac Parameters'' c" and "length d < 2 ^ 32" and "1 < length d"
  shows "fst (wme_element (of_nat (length d)) (dis_at d 1 c)) = (if wme_fits d then Inr () else Inl past_end)"
proof (cases "3 \<le> length d")
  case True
  have w: "(of_nat (length d) - 3 :: u32) < 1 \<longleftrightarrow> length d = 3"
    using word_length(1) [OF assms(3) True] True by (simp add: word_less_nat_alt)
  have h: "hd (take 1 (drop 1 d)) = d ! 1" using assms(4) by (simp add: hd_drop_conv_nth)
  have "objectlike c" using assms(1) by simp
  then show ?thesis
    using assms True w
    by (auto simp: wme_element_def scan_run run_qos run_tspec run_reads [OF reads_repeat [OF reads_ac]] wme_fits_def hd_drop_conv_nth
        simp del: repeat_dis.simps)
next
  case False
  have "objectlike c" using assms(1) by simp
  then show ?thesis using assms False by (simp add: wme_element_def scan_run wme_fits_def)
qed

lemma run_vendor_data:
  assumes "length d < 2 ^ 32"
  shows "fst (vendor_data name (of_nat (length d)) (dis_at d 0 JNull)) = (if d \<noteq> [] then Inr () else Inl past_end)"
proof (cases "d = []")
  case True
  then show ?thesis by (simp add: vendor_data_def scan_run)
next
  case False
  then have "unat (of_nat (length d) - 1 :: u32) = length d - 1"
    using word_length(1) [OF assms, of 1] by (cases d) simp_all
  with False show ?thesis by (cases d) (simp_all add: vendor_data_def scan_run)
qed

lemma run_wpawme:
  assumes "length d < 2 ^ 32"
  shows "fst (dissect_vendor_ie_wpawme (of_nat (length d)) (dis_at d 0 JNull)) =
    (if d \<noteq> [] \<and> (1 < length d \<longrightarrow> (if hd d = 1 then wpa_fits d else if hd d = 2 then wme_fits d else True)) then Inr () else Inl past_end)"
proof (cases "1 < length d")
  case True
  have "1 < (of_nat (length d) :: u32)" using True word_length(2) [OF assms] by (simp add: word_less_nat_alt)
  moreover have "unat (of_nat (length d) - 1 :: u32) = length d - 1" using word_length(1) [OF assms, of 1] True by simp
  moreover have "hd d = d ! 0" using True by (cases d) simp_all
  ultimately show ?thesis
    using True assms by (auto simp: dissect_vendor_ie_wpawme_def scan_run run_wpa [unfolded One_nat_def] run_wme [unfolded One_nat_def])
next
  case False
  have "\<not> 1 < (of_nat (length d) :: u32)" using False word_length(2) [OF assms] by (simp add: word_less_nat_alt)
  with False show ?thesis by (auto simp: dissect_vendor_ie_wpawme_def scan_run)
qed

lemma run_rsn_vendor:
  assumes "length d < 2 ^ 32"
  shows "fst (dissect_vendor_ie_rsn (of_nat (length d)) (dis_at d 0 JNull)) =
    (if d \<noteq> [] \<and> (hd d = 4 \<longrightarrow> 17 \<le> length d) then Inr () else Inl past_end)"
proof (cases "d = []")
  case True
  then show ?thesis by (simp add: dissect_vendor_ie_rsn_def scan_run)
next
  case False
  then have "unat (of_nat (length d) - 1 :: u32) = length d - 1" "hd d = d ! 0"
    using word_length(1) [OF assms, of 1] by (cases d; simp)+
  with False show ?thesis by (auto simp: dissect_vendor_ie_rsn_def scan_run Suc_le_eq)
qed

lemma run_pre11n:
  assumes "length d < 2 ^ 32"
  shows "fst (dissect_vendor_ie_ht (of_nat (length d)) (dis_at d 0 JNull)) =
    (if d \<noteq> [] \<and> (hd d \<notin> {51, 52} \<longrightarrow> 2 \<le> length d) then Inr () else Inl past_end)"
proof (cases "2 \<le> length d")
  case True
  have l: "unat (of_nat (length d) - 1 - 1 :: u32) = length d - 2"
    using word_length(1) [OF assms True] by (simp add: diff_diff_eq)
  have "of_nat (length d) - 1 - 1 = (26 :: u32) \<longrightarrow> 1 + 26 \<le> length d" "of_nat (length d) - 1 - 1 = (22 :: u32) \<longrightarrow> 1 + 10 \<le> length d"
    using l True by auto
  moreover have "hd d = d ! 0" "d \<noteq> []" using True by (cases d; simp)+
  ultimately show ?thesis
    using l True by (auto simp: dissect_vendor_ie_ht_def Let_def scan_run run_ht ht_section_members)
next
  case False
  show ?thesis
  proof (cases d)
    case Nil
    then show ?thesis by (simp add: dissect_vendor_ie_ht_def Let_def scan_run)
  next
    case (Cons x xs)
    with False have "d = [x]" by (cases xs) simp_all
    then show ?thesis by (simp add: dissect_vendor_ie_ht_def Let_def scan_run run_ht ht_section_members unat_eq_zero)
  qed
qed

lemmas oui_defs =
  OUI_WPAWME_def OUI_RSN_def OUI_PRE11N_def OUI_WFA_def OUI_CISCOWL_def OUI_MARVELL_def OUI_ATHEROS_def OUI_ARUBA_def OUI_NINTENDO_def

lemma run_vendor:
  assumes "(oui, f) \<in> set vendor_decoders" and "length r < 2 ^ 32"
  shows "fst (f (of_nat (length r)) (dis_at r 0 JNull)) = (if vendor_fits oui r then Inr () else Inl past_end)"
proof -
  have "oui \<in> fst ` set vendor_decoders" using assms(1) by force
  then have fits: "vendor_fits oui r \<longleftrightarrow> r \<noteq> [] \<and>
        (if oui = OUI_WPAWME then 1 < length r \<longrightarrow> (if hd r = 1 then wpa_fits r else if hd r = 2 then wme_fits r else True)
         else if oui = OUI_RSN then hd r = 4 \<longrightarrow> 17 \<le> length r
         else if oui = OUI_PRE11N then hd r \<notin> {51, 52} \<longrightarrow> 2 \<le> length r
         else True)" by (simp only: vendor_fits_def not_not if_False simp_thms)
  note runs = run_wpawme [OF assms(2)] run_rsn_vendor [OF assms(2)] run_pre11n [OF assms(2)] run_vendor_data [OF assms(2)]
    dissect_vendor_ie_wfa_def dissect_vendor_ie_aironet_def dissect_vendor_ie_marvell_def dissect_vendor_ie_atheros_def
    dissect_vendor_ie_aruba_def dissect_vendor_ie_nintendo_def
  from assms(1) show ?thesis
    unfolding fits vendor_decoders_def list.set insert_iff empty_iff prod.inject
    by (elim disjE conjE FalseE; hypsubst; simp only: runs; simp add: oui_defs)
qed

lemma exact_vendor:
  assumes "length d < 2 ^ 32"
  shows "exact WLAN_EID_VENDOR_SPECIFIC (3 \<le> length d \<longrightarrow> vendor_fits (le_value (rev (take 3 d))) (drop 3 d)) (WFS_WLAN_EID_VENDOR_SPECIFIC d)"
proof (cases "3 \<le> length d")
  case True
  let ?oui = "le_value (rev (take 3 d))" and ?r = "drop 3 d"
  have r: "length ?r < 2 ^ 32" using assms by simp
  show ?thesis
  proof (cases "map_of vendor_decoders ?oui")
    case None
    then have "?oui \<notin> fst ` set vendor_decoders" by (simp add: map_of_eq_None_iff)
    with None True show ?thesis
      by (auto simp: WFS_WLAN_EID_VENDOR_SPECIFIC_def vendor_content_def exact_def vendor_fits_def)
  next
    case (Some f)
    from run_vendor [OF map_of_SomeD [OF Some] r] exact_dissect
    show ?thesis using Some True by (simp add: WFS_WLAN_EID_VENDOR_SPECIFIC_def vendor_content_def Let_def)
  qed
next
  case False
  then show ?thesis by (auto simp: WFS_WLAN_EID_VENDOR_SPECIFIC_def vendor_content_def exact_def)
qed

lemma exact_extension:
  assumes "length d < 2 ^ 32"
  shows "exact WLAN_EID_EXTENSION (d \<noteq> []) (WFS_WLAN_EID_EXTENSION d)"
proof -
  have "unat (of_nat (length d) - 1 :: u32) = length d - 1" if "d \<noteq> []"
    using word_length(1) [OF assms, of 1] that by (cases d) simp_all
  then show ?thesis unfolding WFS_WLAN_EID_EXTENSION_def by (intro exact_element) (auto simp: scan_run Suc_le_eq)
qed

section \<open>All elements\<close>

lemmas eid_defs =
  WLAN_EID_SUPP_RATES_def WLAN_EID_FH_PARAMS_def WLAN_EID_DS_PARAMS_def WLAN_EID_TIM_def WLAN_EID_COUNTRY_def WLAN_EID_QBSS_LOAD_def
  WLAN_EID_PWR_CONSTRAINT_def WLAN_EID_TPC_REPORT_def WLAN_EID_ERP_INFO_def WLAN_EID_HT_CAPABILITY_def WLAN_EID_RSN_def
  WLAN_EID_EXT_SUPP_RATES_def WLAN_EID_SUPPORTED_REGULATORY_CLASSES_def WLAN_EID_RRM_ENABLED_CAPABILITIES_def
  WLAN_EID_EXT_CAPABILITY_def WLAN_EID_VHT_CAPABILITY_def WLAN_EID_TX_POWER_ENVELOPE_def WLAN_EID_VENDOR_SPECIFIC_def WLAN_EID_EXTENSION_def

lemmas exact_all =
  exact_simple exact_capabilities exact_tx [unfolded Suc_eq_plus1 [symmetric]] exact_rsn

lemma if_Some_cases: "(if P then Some x else y) = Some r \<Longrightarrow> (P \<Longrightarrow> x = r \<Longrightarrow> thesis) \<Longrightarrow> (\<not> P \<Longrightarrow> y = Some r \<Longrightarrow> thesis) \<Longrightarrow> thesis"
  by (cases P) simp_all

lemma decode_exact:
  assumes "decode_element ty d = Some r" and "length d < 2 ^ 32"
  shows "exact ty (fits ty d) r"
proof -
  note exact_rest = exact_vendor [OF assms(2)] exact_extension [OF assms(2)]
  from assms(1) show ?thesis
    unfolding decode_element_def
    by (elim if_Some_cases; (hypsubst?); simp add: fits_def eid_defs exact_all [unfolded eid_defs] exact_rest [unfolded eid_defs])
qed

end
