(* ===== verification/GW_ScanProps.thy ===== *)
theory GW_ScanProps
  imports GW_ScanBounds
begin

text \<open>
  What holds of the scan parser as a whole: the answers it reads past the end of, and what it leaves alone.
\<close>

unbundle bit_operations_syntax

section \<open>The elements of an answer\<close>

definition listed_in :: "json \<Rightarrow> string \<Rightarrow> json list option" where
  "listed_in j k = (if contains j k then elements (child j k) else None)"

definition scan_entries :: "json \<Rightarrow> json list" where
  "scan_entries d = (if contains d ''status'' then case listed_in (child d ''status'') ''scan'' of None \<Rightarrow> [] | Some xs \<Rightarrow> xs else [])"

definition entry_ies :: "json \<Rightarrow> json list" where
  "entry_ies entry = (case listed_in entry ''ies'' of None \<Rightarrow> [] | Some xs \<Rightarrow> xs)"

definition ie_fits :: "scan_env \<Rightarrow> json \<Rightarrow> bool" where
  "ie_fits e ie \<longleftrightarrow>
     (if contains ie ''type'' \<and> contains ie ''data''
      then (case as_u64 e (child ie ''type'') of
              Inl _ \<Rightarrow> True
            | Inr ty \<Rightarrow> (case as_string (child ie ''data'') of Inl _ \<Rightarrow> True | Inr text \<Rightarrow> fits ty (sc_b64 e text)))
      else True)"

definition decoded_as :: "scan_env \<Rightarrow> json \<Rightarrow> json \<Rightarrow> bool" where
  "decoded_as e ie ie' \<longleftrightarrow>
     ie' = ie \<or> (\<exists>ty name content. as_u64 e (child ie ''type'') = Inr ty \<and> ie' = new_ie name ty content)"

lemma conversions_catchable: "as_u64 e j = Inl x \<Longrightarrow> catchable x" "as_string j = Inl x \<Longrightarrow> catchable x"
  by (auto simp: as_u64_def as_string_def split: json.splits)

lemma undecoded_fits: "decode_element ty d = None \<Longrightarrow> fits ty d"
  by (auto simp: decode_element_def fits_def split: if_splits)

lemma parse_ie_outcome:
  assumes "\<And>text. length (sc_b64 e text) < 2 ^ 32"
  shows "if ie_fits e ie then \<exists>ie'. parse_ie e ie = Inr ie' \<and> decoded_as e ie ie' else parse_ie e ie = Inl past_end"
proof (cases "contains ie ''type'' \<and> contains ie ''data''")
  case False
  then have "parse_ie e ie = Inr ie" "ie_fits e ie" unfolding parse_ie_def ie_fits_def by presburger+
  then show ?thesis by (simp add: decoded_as_def)
next
  case has: True
  show ?thesis
  proof (cases "as_u64 e (child ie ''type'')")
    case (Inl x)
    with has conversions_catchable show ?thesis by (simp add: parse_ie_def ie_fits_def decoded_as_def)
  next
    case ty: (Inr ty)
    show ?thesis
    proof (cases "as_string (child ie ''data'')")
      case (Inl x)
      with has ty conversions_catchable show ?thesis by (simp add: parse_ie_def ie_fits_def decoded_as_def)
    next
      case data: (Inr t)
      show ?thesis
      proof (cases "decode_element ty (sc_b64 e t)")
        case None
        with has ty data undecoded_fits show ?thesis by (simp add: parse_ie_def ie_fits_def decoded_as_def)
      next
        case (Some r)
        have run: "parse_ie e ie = (case r of Inl x \<Rightarrow> if catchable x then Inr ie else Inl x | Inr j \<Rightarrow> Inr j)"
          using Some has ty data by (simp add: parse_ie_def)
        have fit: "ie_fits e ie \<longleftrightarrow> fits ty (sc_b64 e t)" using has ty data by (simp add: ie_fits_def)
        note ex = decode_exact [OF Some assms, unfolded exact_def]
        show ?thesis
        proof (cases "fits ty (sc_b64 e t)")
          case True
          with ex obtain name content where "r = Inr (new_ie name ty content)" by auto
          with True ty run fit show ?thesis by (auto simp: decoded_as_def)
        next
          case False
          with ex run fit show ?thesis by simp
        qed
      qed
    qed
  qed
qed

lemma all_parsed_outcome:
  assumes "\<And>x. x \<in> set xs \<Longrightarrow> if P x then \<exists>y. f x = Inr y \<and> R x y else f x = Inl e"
  shows "if \<forall>x\<in>set xs. P x then \<exists>ys. all_parsed f xs = Inr ys \<and> list_all2 R xs ys else all_parsed f xs = Inl e"
  using assms
proof (induction xs)
  case (Cons x xs)
  have x: "if P x then \<exists>y. f x = Inr y \<and> R x y else f x = Inl e" using Cons.prems by simp
  have "if \<forall>x\<in>set xs. P x then \<exists>ys. all_parsed f xs = Inr ys \<and> list_all2 R xs ys else all_parsed f xs = Inl e"
    using Cons by simp
  with x show ?case by (cases "P x"; cases "\<forall>x\<in>set xs. P x") auto
qed simp

definition entry_decoded :: "scan_env \<Rightarrow> json \<Rightarrow> json \<Rightarrow> bool" where
  "entry_decoded e entry entry' \<longleftrightarrow>
     (case listed_in entry ''ies'' of
        None \<Rightarrow> entry' = entry
      | Some ies \<Rightarrow> \<exists>ies'. list_all2 (decoded_as e) ies ies' \<and> entry' = replace_child entry ''ies'' (JArr ies'))"

lemma parse_entry_outcome:
  assumes "\<And>text. length (sc_b64 e text) < 2 ^ 32"
  shows "if \<forall>ie\<in>set (entry_ies entry). ie_fits e ie then \<exists>y. parse_scan_entry e entry = Inr y \<and> entry_decoded e entry y
         else parse_scan_entry e entry = Inl past_end"
proof (cases "listed_in entry ''ies''")
  case None
  then show ?thesis by (simp add: parse_scan_entry_def entry_ies_def entry_decoded_def listed_in_def [symmetric])
next
  case (Some ies)
  have "if \<forall>ie\<in>set ies. ie_fits e ie then \<exists>ys. all_parsed (parse_ie e) ies = Inr ys \<and> list_all2 (decoded_as e) ies ys
        else all_parsed (parse_ie e) ies = Inl past_end"
    by (rule all_parsed_outcome) (rule parse_ie_outcome [OF assms])
  with Some show ?thesis
    by (auto simp: parse_scan_entry_def entry_ies_def entry_decoded_def listed_in_def [symmetric] split: if_splits)
qed

definition scan_decoded :: "scan_env \<Rightarrow> json \<Rightarrow> json \<Rightarrow> bool" where
  "scan_decoded e d d' \<longleftrightarrow>
     (if contains d ''status'' \<and> listed_in (child d ''status'') ''scan'' \<noteq> None
      then \<exists>entries. list_all2 (entry_decoded e) (scan_entries d) entries \<and>
             d' = replace_child d ''status'' (replace_child (child d ''status'') ''scan'' (JArr entries))
      else d' = d)"

lemma parse_scan_outcome:
  assumes "\<And>text. length (sc_b64 e text) < 2 ^ 32"
  shows "if \<forall>entry\<in>set (scan_entries d). \<forall>ie\<in>set (entry_ies entry). ie_fits e ie
         then \<exists>d'. parse_scan e d = Inr d' \<and> scan_decoded e d d' else parse_scan e d = Inl past_end"
proof (cases "contains d ''status''")
  case False
  then show ?thesis by (simp add: parse_scan_def scan_entries_def scan_decoded_def)
next
  case True
  show ?thesis
  proof (cases "listed_in (child d ''status'') ''scan''")
    case None
    with True show ?thesis by (simp add: parse_scan_def scan_entries_def scan_decoded_def Let_def listed_in_def [symmetric])
  next
    case (Some entries)
    have "if \<forall>entry\<in>set entries. \<forall>ie\<in>set (entry_ies entry). ie_fits e ie
       then \<exists>ys. all_parsed (parse_scan_entry e) entries = Inr ys \<and> list_all2 (entry_decoded e) entries ys
       else all_parsed (parse_scan_entry e) entries = Inl past_end"
      by (rule all_parsed_outcome) (rule parse_entry_outcome [OF assms])
    with True Some show ?thesis
      by (auto simp: parse_scan_def scan_entries_def scan_decoded_def Let_def listed_in_def [symmetric] split: if_splits)
  qed
qed

text \<open>
  C21: the parser reads past the end of the data of an element if and only if one of the elements of the answer is too
  short for its decoder, which \<open>fits\<close> says for each type; otherwise it ends, each element is as it was or decoded, and
  only an exception of the library that prints the result makes it fail. (The data are shorter than four gigabytes,
  and the printing does not read past an end.)
\<close>

theorem scan_overreads_iff:
  assumes "sc_relay e obj = Inr d" and "\<forall>t. length (sc_b64 e t) < 2 ^ 32" and "\<forall>j why. sc_dump e j \<noteq> Inl (Undefined_Behaviour why)"
  shows "if \<forall>entry\<in>set (scan_entries d). \<forall>ie\<in>set (entry_ies entry). ie_fits e ie
         then \<exists>d'. scan_decoded e d d' \<and>
                ParseWifiScan e obj = Inr (case sc_dump e d' of Inl _ \<Rightarrow> (False, []) | Inr result \<Rightarrow> (True, result))
         else ParseWifiScan e obj = Inl (Undefined_Behaviour ''read past the end of the data'')"
proof -
  have caught: "sc_dump e j = Inl x \<Longrightarrow> catchable x" for j x using assms(3) by (cases x) auto
  note outcome = parse_scan_outcome [of e d]
  show ?thesis
  proof (cases "\<forall>entry\<in>set (scan_entries d). \<forall>ie\<in>set (entry_ies entry). ie_fits e ie")
    case True
    then obtain d' where d': "parse_scan e d = Inr d'" "scan_decoded e d d'" using outcome assms(2) by auto
    then have "ParseWifiScan e obj = Inr (case sc_dump e d' of Inl _ \<Rightarrow> (False, []) | Inr result \<Rightarrow> (True, result))"
      using assms(1) caught by (auto simp: ParseWifiScan_def split: sum.split)
    with True d' show ?thesis by auto
  next
    case False
    then have "parse_scan e d = Inl past_end" using outcome assms(2) by (auto split: if_splits)
    with False assms(1) show ?thesis by (simp only: if_False) (simp add: ParseWifiScan_def)
  qed
qed

section \<open>Values that are not those of the element\<close>

lemma vht_exponent: "drop_bit 21 caps AND 28 = 4 * (drop_bit 23 caps AND 7 :: u32)"
proof -
  have m: "28 = (push_bit 2 7 :: u32)" by simp
  have four: "4 * x = push_bit 2 x" for x :: u32 by (simp add: push_bit_eq_mult)
  show ?thesis unfolding m four by (rule bit_word_eqI) (auto simp only: bit_and_iff bit_push_bit_iff bit_drop_bit_eq o_apply; simp)
qed

lemma small_word: "(x :: u32) < 8 \<Longrightarrow> x = 0 \<or> x = 1 \<or> x = 2 \<or> x = 3 \<or> x = 4 \<or> x = 5 \<or> x = 6 \<or> x = 7"
proof -
  assume "x < 8"
  then have "unat x < 8" by (simp add: word_less_nat_alt)
  then have "unat x = 0 \<or> unat x = 1 \<or> unat x = 2 \<or> unat x = 3 \<or> unat x = 4 \<or> unat x = 5 \<or> unat x = 6 \<or> unat x = 7" by arith
  then show ?thesis by (auto simp: word_unat_eq_iff)
qed

text \<open>
  The largest length of an aggregate of very high throughput is two to the power of thirteen plus a three-bit
  exponent. Its bits are shifted two places too little: for an exponent of one the parser gives the length of four,
  for all from two on none.
\<close>

theorem vht_length_misread:
  "map_of (vht_fields caps) ''Max A-MPDU Length'' =
     Some (JStr (let n = drop_bit 23 caps AND 7 in if n = 0 then ''8 191'' else if n = 1 then ''131 071'' else ''unknown''))"
proof -
  let ?n = "drop_bit 23 caps AND 7 :: u32"
  have "?n < 8" by (rule le_less_trans [of _ 7]) (simp_all add: word_and_le1)
  then have "VALS vht_max_ampdu_flag (4 * ?n) = (if ?n = 0 then ''8 191'' else if ?n = 1 then ''131 071'' else ''unknown'')"
    by (auto dest!: small_word simp: vht_max_ampdu_flag_def)
  then show ?thesis by (simp add: vht_fields_def named_def vht_exponent Let_def)
qed

section \<open>Concrete answers\<close>

definition plain_scan :: scan_env where
  "plain_scan =
     \<lparr> sc_relay = (\<lambda>obj. Inr (JObj obj)),
       sc_b64 = (\<lambda>t. if t = ''UG+a'' then [0x50, 0x6F, 0x9A] else if t = ''AQIDBAU='' then [1, 2, 3, 4, 5] else [7]),
       sc_real = (\<lambda>_. 0), sc_dump = (\<lambda>_. Inr ''ok'') \<rparr>"

definition scan_of :: "(u64 \<times> string) list \<Rightarrow> jobject" where
  "scan_of ies =
     [(''status'', JObj [(''scan'', JArr [JObj [(''ies'', JArr (map (\<lambda>(ty, t). JObj [(''data'', JStr t), (''type'', JInt (uint ty))]) ies))]])])]"

lemma scan_of_ies:
  "scan_entries (JObj (scan_of ies)) =
     [JObj [(''ies'', JArr (map (\<lambda>(ty, t). JObj [(''data'', JStr t), (''type'', JInt (uint ty))]) ies))]]"
  "entry_ies (JObj [(''ies'', JArr xs)]) = xs"
  by (simp_all add: scan_entries_def entry_ies_def scan_of_def listed_in_def contains_def child_def elements_def j_get_def om_find_def)

lemma plain_short: "length (sc_b64 plain_scan t) < 2 ^ 32"
  by (simp add: plain_scan_def)

lemma plain_ie_fits: "ie_fits plain_scan (JObj [(''data'', JStr t), (''type'', JInt (uint ty))]) = fits ty (sc_b64 plain_scan t)"
  by (simp add: ie_fits_def contains_def child_def j_get_def om_find_def as_u64_def as_string_def)

text \<open>A vendor element of the Wi-Fi Alliance with nothing in it, behind a channel.\<close>

theorem scan_overreads_iff_witness:
  "ParseWifiScan plain_scan (scan_of [(3, ''x''), (221, ''UG+a'')]) = Inl (Undefined_Behaviour ''read past the end of the data'')"
proof -
  have short: "\<not> fits 221 [0x50, 0x6F, 0x9A]"
    by (simp add: fits_def eid_defs vendor_fits_def vendor_decoders_def oui_defs le_value_def)
  have "\<not> ie_fits plain_scan (JObj [(''data'', JStr ''UG+a''), (''type'', JInt (uint (221 :: u64)))])"
    unfolding plain_ie_fits using short by (simp add: plain_scan_def)
  then show ?thesis
    using scan_overreads_iff [of plain_scan "scan_of [(3, ''x''), (221, ''UG+a'')]" "JObj (scan_of [(3, ''x''), (221, ''UG+a'')])"]
    by (simp add: scan_of_ies plain_scan_def del: uint_numeral uint_bintrunc)
qed

end
