(* ===== verification/GW_ScanReadBack.thy ===== *)
theory GW_ScanReadBack
  imports GW_ScanProps
begin

text \<open>
  What an access point announces is what the parsed scan says. \<open>announcement\<close> is the content of an information element
  as the standard IEEE 802.11 has it, \<open>ie_bytes\<close> its bytes, \<open>ie_report\<close> the object an operator reads. The elements
  whose decoders look at their bytes one by one are here; those the decoders misread are not.
\<close>

unbundle bit_operations_syntax

section \<open>Elements\<close>

text \<open>Channels with their greatest power, or a regulatory class, told apart by the first byte.\<close>

datatype country_part = Channels u8 u8 u8 | Regulatory u8 u8 u8

fun part_ok :: "country_part \<Rightarrow> bool" where
  "part_ok (Channels ch n dbm) \<longleftrightarrow> ch \<le> 200"
| "part_ok (Regulatory ident cls coverage) \<longleftrightarrow> 200 < ident"

fun part_bytes :: "country_part \<Rightarrow> bytes" where
  "part_bytes (Channels ch n dbm) = [ch, n, dbm]"
| "part_bytes (Regulatory ident cls coverage) = [ident, cls, coverage]"

fun part_report :: "country_part \<Rightarrow> json" where
  "part_report (Channels ch n dbm) = object_of [(''Country Info'', object_of
     [(''First Channel Number'', number ch), (''Number of Channels'', number n),
      (''Maximum Transmit Power Level (in dBm)'', number dbm)])]"
| "part_report (Regulatory ident cls coverage) = object_of [(''Country Info'', object_of
     [(''Regulatory Extension Identifier'', number ident), (''Regulatory Class'', number cls), (''Coverage Class'', number coverage)])]"

datatype surroundings = Any_Place | Outdoor | Indoor

fun surroundings_byte :: "surroundings \<Rightarrow> u8" where
  "surroundings_byte Any_Place = 0x20"
| "surroundings_byte Outdoor = 0x4F"
| "surroundings_byte Indoor = 0x49"

fun surroundings_name :: "surroundings \<Rightarrow> string" where
  "surroundings_name Any_Place = ''Any''"
| "surroundings_name Outdoor = ''Outdoor''"
| "surroundings_name Indoor = ''Indoor''"

datatype announcement =
    Current_Channel u8
  | Country char char surroundings "country_part list" bytes
  | Traffic_Map u8 u8 bool u8 bytes
  | Power_Constraint u8
  | Erp bool bool bool
  | Tpc u8 u8
  | Regulatory_Classes u8 "u8 list"

text \<open>What is behind the last full part of a country element is padding; a bitmap has its offset in seven bits.\<close>

fun ie_ok :: "announcement \<Rightarrow> bool" where
  "ie_ok (Country a b place parts pad) \<longleftrightarrow> list_all part_ok parts \<and> length pad < 3"
| "ie_ok (Traffic_Map dtim period multicast offset bitmap) \<longleftrightarrow> offset < 128 \<and> bitmap \<noteq> []"
| "ie_ok (Regulatory_Classes current others) \<longleftrightarrow> others \<noteq> []"
| "ie_ok _ \<longleftrightarrow> True"

fun ie_type :: "announcement \<Rightarrow> u64" where
  "ie_type (Current_Channel _) = 3"
| "ie_type (Country _ _ _ _ _) = 7"
| "ie_type (Traffic_Map _ _ _ _ _) = 5"
| "ie_type (Power_Constraint _) = 32"
| "ie_type (Erp _ _ _) = 42"
| "ie_type (Tpc _ _) = 35"
| "ie_type (Regulatory_Classes _ _) = 59"

fun ie_bytes :: "announcement \<Rightarrow> bytes" where
  "ie_bytes (Current_Channel c) = [c]"
| "ie_bytes (Country a b place parts pad) = of_char a # of_char b # surroundings_byte place # concat (map part_bytes parts) @ pad"
| "ie_bytes (Traffic_Map dtim period multicast offset bitmap) =
     dtim # period # (push_bit 1 offset OR of_bool multicast) # bitmap"
| "ie_bytes (Power_Constraint p) = [p]"
| "ie_bytes (Erp non_erp protect barker) = [of_bool non_erp + 2 * of_bool protect + 4 * of_bool barker]"
| "ie_bytes (Tpc dbm margin) = [dbm, margin]"
| "ie_bytes (Regulatory_Classes current others) = current # others"

fun ie_report :: "announcement \<Rightarrow> json" where
  "ie_report (Current_Channel c) = new_ie ''DS Params'' 3 (object_of [(''current_channel'', number c)])"
| "ie_report (Country a b place parts pad) = new_ie ''country'' 7 (object_of
     [(''Code'', JStr [a, b]), (''Environment'', JStr (surroundings_name place)), (''constraints'', JArr (map part_report parts))])"
| "ie_report (Traffic_Map dtim period multicast offset bitmap) = new_ie ''Traffic Indication Map (TIM)'' 5 (object_of
     [(''DTIM count'', number dtim), (''DTIM period'', number period),
      (''Bitmap control'', object_of
         [(''Multicast'', JInt (of_bool multicast)), (''Bitmap Offset'', number offset),
          (''Partial Virtual Bitmap'', JStr (BufferToHex (CHR '' '') bitmap))])])"
| "ie_report (Power_Constraint p) = new_ie ''Local Power Constraint'' 32 (object_of [(''Local Power Constraint'', number p)])"
| "ie_report (Erp non_erp protect barker) = new_ie ''ERP Information'' 42 (object_of
     [(''Non ERP Present'', JBool non_erp), (''Use Protection'', JBool protect), (''Barker Preamble Mode'', JBool barker)])"
| "ie_report (Tpc dbm margin) = new_ie ''TPC Report'' 35 (object_of [(''Transmit Power'', number dbm), (''Link Margin'', number margin)])"
| "ie_report (Regulatory_Classes current others) = new_ie ''Supported Regulatory Classes'' 59 (object_of
     [(''Current Regulatory Class'', number current),
      (''Alternate Regulatory Classes'', JStr (joined (map (\<lambda>c. decimal (unat c)) others)))])"

section \<open>One element\<close>

lemma char_of_byte: "char_of (unat (of_char c :: u8)) = c"
proof -
  have "unat (of_nat (of_char c) :: u8) = of_char c mod 2 ^ LENGTH(8)" by (simp only: unat_of_nat)
  also have "\<dots> = of_char c" by simp
  finally have "unat (of_nat (of_char c) :: u8) = of_char c" .
  then show ?thesis by (simp only: of_nat_of_char char_of_char)
qed

lemma country_constraints_parts:
  "list_all part_ok parts \<Longrightarrow> length pad < 3 \<Longrightarrow>
   country_constraints (concat (map part_bytes parts) @ pad) = map part_report parts"
proof (induction parts)
  case Nil
  then show ?case by (cases pad rule: country_constraints.cases) auto
next
  case (Cons part parts)
  then show ?case by (cases part) auto
qed

lemma surroundings_read: "VALS environment_vals (ucast (surroundings_byte place)) = surroundings_name place"
  by (cases place) (simp_all add: environment_vals_def)

lemma tim_bits:
  fixes offset :: u8
  assumes "offset < 128"
  shows "bits (ucast (push_bit 1 offset OR of_bool multicast)) 1 0 = JInt (of_bool multicast)"
    and "bits (ucast (push_bit 1 offset OR of_bool multicast)) 0xFE 1 = number offset"
proof -
  let ?w = "ucast (push_bit 1 offset OR of_bool multicast) :: u32"
  have "?w AND 1 = of_bool multicast"
    by (rule bit_word_eqI) (simp only: bit_and_iff bit_ucast_iff bit_or_iff bit_push_bit_iff bit_1_iff bit_of_bool_iff, auto)
  then show "bits ?w 1 0 = JInt (of_bool multicast)" by (simp add: bits_def)
  have seven: "n < 7" if "bit offset n" for n
  proof (rule ccontr)
    assume "\<not> n < 7"
    then have "(2::nat) ^ 7 \<le> 2 ^ n" by (intro power_increasing) simp_all
    moreover have "unat offset < 128" using assms by (simp add: word_less_nat_alt)
    ultimately have "drop_bit n (unat offset) = 0" by (simp add: drop_bit_eq_div)
    then have "drop_bit n offset = 0" by (simp only: unat_eq_0 flip: unat_drop_bit_eq)
    with that show False by (simp only: bit_iff_odd_drop_bit) simp
  qed
  have fe: "(0xFE :: u32) = push_bit 1 (mask 7)" by (simp add: mask_eq_exp_minus_1)
  have "drop_bit 1 (?w AND 0xFE) = ucast offset"
    unfolding fe
    by (rule bit_word_eqI)
      (simp only: bit_drop_bit_eq o_apply bit_and_iff bit_ucast_iff bit_or_iff bit_push_bit_iff bit_mask_iff bit_of_bool_iff, auto dest: seven)
  moreover have "uint (ucast offset :: u32) = uint offset" by (rule uint_up_ucast) (simp add: is_up)
  ultimately show "bits ?w 0xFE 1 = number offset" by (simp only: bits_def number_def)
qed

lemmas run_defs = element_def dissect_def andThen_def byte_at_def put_def put_field_def under_def ret_def next_byte_def take_bytes_def
  peek_bytes_def skip_bytes_def with_dis_def left_def object_of_def

lemma decoded:
  assumes "ie_ok a"
  shows "decode_element (ie_type a) (ie_bytes a) = Some (Inr (ie_report a))"
proof (cases a)
  case (Current_Channel c)
  then show ?thesis by (simp add: decode_element_def eid_defs WFS_WLAN_EID_DS_PARAMS_def run_defs)
next
  case (Country x y place parts pad)
  then show ?thesis using assms
    by (simp add: decode_element_def eid_defs WFS_WLAN_EID_COUNTRY_def run_defs char_of_byte surroundings_read
        country_constraints_parts)
next
  case (Traffic_Map dtim period multicast offset bitmap)
  then have "offset < 128" "bitmap \<noteq> []" using assms by simp_all
  with Traffic_Map tim_bits [of offset multicast] show ?thesis
    by (simp add: decode_element_def eid_defs WFS_WLAN_EID_TIM_def run_defs Suc_le_eq om_find_def)
next
  case (Power_Constraint p)
  then show ?thesis by (simp add: decode_element_def eid_defs WFS_WLAN_EID_PWR_CONSTRAINT_def run_defs)
next
  case (Erp x y z)
  then show ?thesis
    by (cases x; cases y; cases z) (simp_all add: decode_element_def eid_defs WFS_WLAN_EID_ERP_INFO_def run_defs bitSet_u8_def)
next
  case (Tpc dbm margin)
  then show ?thesis by (simp add: decode_element_def eid_defs WFS_WLAN_EID_TPC_REPORT_def run_defs)
next
  case (Regulatory_Classes current others)
  then show ?thesis using assms
    by (simp add: decode_element_def eid_defs WFS_WLAN_EID_SUPPORTED_REGULATORY_CLASSES_def run_defs Suc_le_eq)
qed

section \<open>The whole answer\<close>

text \<open>\<open>announces e ie a\<close>: the element \<open>ie\<close> of an answer has the type of \<open>a\<close>, and its data are the bytes of \<open>a\<close>.\<close>

definition announces :: "scan_env \<Rightarrow> json \<Rightarrow> announcement \<Rightarrow> bool" where
  "announces e ie a \<longleftrightarrow>
     ie_ok a \<and> contains ie ''type'' \<and> contains ie ''data'' \<and> as_u64 e (child ie ''type'') = Inr (ie_type a) \<and>
     (\<exists>t. child ie ''data'' = JStr t \<and> sc_b64 e t = ie_bytes a)"

lemma parse_announced: "announces e ie a \<Longrightarrow> parse_ie e ie = Inr (ie_report a)"
  by (auto simp: announces_def parse_ie_def as_string_def try_bind_def decoded)

lemma all_parsed_map: "list_all2 (\<lambda>x y. f x = Inr (g y)) xs ys \<Longrightarrow> all_parsed f xs = Inr (map g ys)"
  by (induction rule: list_all2_induct) (simp_all add: try_bind_def)

definition entry_announces :: "scan_env \<Rightarrow> json \<Rightarrow> announcement list \<Rightarrow> bool" where
  "entry_announces e entry as \<longleftrightarrow> (\<exists>ies. listed_in entry ''ies'' = Some ies \<and> list_all2 (announces e) ies as)"

definition entry_report :: "json \<times> announcement list \<Rightarrow> json" where
  "entry_report x = replace_child (fst x) ''ies'' (JArr (map ie_report (snd x)))"

lemma parse_announced_entry: "entry_announces e entry as \<Longrightarrow> parse_scan_entry e entry = Inr (entry_report (entry, as))"
proof -
  assume "entry_announces e entry as"
  then obtain ies where ies: "listed_in entry ''ies'' = Some ies" "list_all2 (announces e) ies as"
    by (auto simp: entry_announces_def)
  have "all_parsed (parse_ie e) ies = Inr (map ie_report as)"
    by (rule all_parsed_map, rule list_all2_mono [OF ies(2)]) (rule parse_announced)
  with ies(1) show ?thesis by (simp add: parse_scan_entry_def entry_report_def listed_in_def)
qed

text \<open>
  C22: what the access points around a device announce is what the parsed scan reports: for every answer whose entries list
  elements that carry a channel, a country with its surroundings and any number of channel ranges and
  regulatory classes (and padding), a traffic map, a power constraint, ERP flags, a transmit power or
  regulatory classes, encoded as IEEE 802.11 has them, the parser writes the same entries with
  each element, in its place, as the object that names these values; nothing else of the answer changes.
\<close>

theorem announcements_read_back:
  assumes "sc_relay e obj = Inr d" and "contains d ''status''"
    and "listed_in (child d ''status'') ''scan'' = Some entries"
    and "list_all2 (entry_announces e) entries announced"
    and "sc_dump e (replace_child d ''status'' (replace_child (child d ''status'') ''scan''
           (JArr (map entry_report (zip entries announced))))) = Inr text"
  shows "ParseWifiScan e obj = Inr (True, text)"
proof -
  have "list_all2 (\<lambda>x y. parse_scan_entry e x = Inr (entry_report y)) entries (zip entries announced)"
    using assms(4) by (auto simp: list_all2_conv_all_nth intro: parse_announced_entry)
  then have "all_parsed (parse_scan_entry e) entries = Inr (map entry_report (zip entries announced))" by (rule all_parsed_map)
  with assms show ?thesis
    by (simp add: ParseWifiScan_def parse_scan_def try_bind_def Let_def listed_in_def)
qed

text \<open>A country element of two parts and padding, behind a channel.\<close>

definition country_scan :: scan_env where
  "country_scan =
     \<lparr> sc_relay = (\<lambda>obj. Inr (JObj obj)),
       sc_b64 = (\<lambda>t. if t = ''c'' then [0x55, 0x53, 0x20, 36, 4, 23, 201, 1, 2, 0] else [7]),
       sc_real = (\<lambda>_. 0), sc_dump = (\<lambda>_. Inr ''ok'') \<rparr>"

theorem announcements_read_back_witness:
  "ParseWifiScan country_scan (scan_of [(3, ''x''), (7, ''c'')]) = Inr (True, ''ok'')"
proof -
  let ?as = "[Current_Channel 7, Country (CHR ''U'') (CHR ''S'') Any_Place [Channels 36 4 23, Regulatory 201 1 2] [0]]"
  let ?ies = "map (\<lambda>(ty, t). JObj [(''data'', JStr t), (''type'', JInt (uint ty))]) [(3 :: u64, ''x''), (7, ''c'')]"
  have "list_all2 (announces country_scan) ?ies ?as"
    by (simp add: announces_def contains_def child_def j_get_def om_find_def as_u64_def country_scan_def of_char_def)
  then have "entry_announces country_scan (JObj [(''ies'', JArr ?ies)]) ?as"
    by (simp add: entry_announces_def listed_in_def contains_def child_def elements_def j_get_def om_find_def)
  then show ?thesis
    by (intro announcements_read_back [where d = "JObj (scan_of [(3, ''x''), (7, ''c'')])" and entries = "[JObj [(''ies'', JArr ?ies)]]"
          and announced = "[?as]"])
      (simp_all add: country_scan_def scan_of_def listed_in_def contains_def child_def elements_def j_get_def om_find_def)
qed

end
