(* ===== verification/GW_BlackList.thy ===== *)
theory GW_BlackList
  imports GW_StdMap
begin

text \<open>
  The list of devices that are not let in (\<^verbatim>\<open>src/storage/storage_blacklist.cpp\<close>) with its cache, which the
  connections ask, the REST requests on it (\<^verbatim>\<open>src/RESTAPI/RESTAPI_blacklist.cpp\<close>), and the default firmware of a
  device type (\<^verbatim>\<open>storage_def_firmware.cpp\<close>). \<open>lower\<close> is \<^verbatim>\<open>Poco::toLower\<close>, \<open>repl\<close> \<^verbatim>\<open>Poco::replaceInPlace\<close>.
\<close>

section \<open>The list and its cache\<close>

record black_device =
  bl_serialNumber :: string
  bl_reason :: string
  bl_author :: string
  bl_created :: u64

record black_details =
  bd_reason :: string
  bd_author :: string
  bd_created :: u64

record blacklist =
  bl_table :: "(string, black_device) omap"
  bl_cache :: "(u64, black_details) omap"
  bl_readable :: bool
  bl_writable :: bool

definition details :: "black_device \<Rightarrow> black_details" where
  "details d = \<lparr> bd_reason = bl_reason d, bd_author = bl_author d, bd_created = bl_created d \<rparr>"

definition black_row :: "(string \<Rightarrow> string) \<Rightarrow> black_device \<Rightarrow> black_device" where
  "black_row lower d = d\<lparr> bl_serialNumber := lower (bl_serialNumber d) \<rparr>"

definition remember :: "black_device \<Rightarrow> blacklist \<Rightarrow> blacklist" where
  "remember d b = b\<lparr> bl_cache := om_set (MACToInt (bl_serialNumber d)) (details d) (bl_cache b) \<rparr>"

definition InitializeBlackListCache :: "blacklist \<Rightarrow> bool \<times> blacklist" where
  "InitializeBlackListCache b =
     (if bl_readable b then (True, foldl (\<lambda>b r. remember (snd r) b) b (bl_table b)) else (False, b))"

definition AddBlackListDevice :: "(string \<Rightarrow> string) \<Rightarrow> black_device \<Rightarrow> blacklist \<Rightarrow> bool \<times> blacklist" where
  "AddBlackListDevice lower d b =
     (let row = black_row lower d in
      if bl_writable b \<and> om_find (bl_table b) (bl_serialNumber row) = None
      then (True, remember d (b\<lparr> bl_table := om_set (bl_serialNumber row) row (bl_table b) \<rparr>))
      else (False, b))"

definition AddBlackListDevices :: "(string \<Rightarrow> string) \<Rightarrow> black_device list \<Rightarrow> blacklist \<Rightarrow> bool \<times> blacklist" where
  "AddBlackListDevices lower ds b = (True, foldl (\<lambda>b d. snd (AddBlackListDevice lower d b)) b ds)"

definition DeleteBlackListDevice :: "(string \<Rightarrow> string) \<Rightarrow> string \<Rightarrow> blacklist \<Rightarrow> bool \<times> blacklist" where
  "DeleteBlackListDevice lower serial b =
     (let s = lower serial in
      if bl_writable b
      then (True, b\<lparr> bl_table := om_erase s (bl_table b), bl_cache := om_erase (MACToInt s) (bl_cache b) \<rparr>)
      else (False, b))"

definition GetBlackListDevice :: "(string \<Rightarrow> string) \<Rightarrow> string \<Rightarrow> blacklist \<Rightarrow> black_device option" where
  "GetBlackListDevice lower serial b =
     (if bl_readable b then map_option (black_row lower) (om_find (bl_table b) (lower serial)) else None)"

text \<open>The row may get another key, which must be free; the cache is told whether there was a row or not.\<close>

definition UpdateBlackListDevice :: "(string \<Rightarrow> string) \<Rightarrow> string \<Rightarrow> black_device \<Rightarrow> blacklist \<Rightarrow> bool \<times> blacklist" where
  "UpdateBlackListDevice lower serial d b =
     (let row = black_row lower d; key = bl_serialNumber row in
      if \<not> bl_writable b then (False, b)
      else if om_find (bl_table b) serial = None then (True, remember d b)
      else if key \<noteq> serial \<and> om_find (bl_table b) key \<noteq> None then (False, b)
      else (True, remember d (b\<lparr> bl_table := om_set key row (om_erase serial (bl_table b)) \<rparr>)))"

definition GetBlackListDevices :: "(string \<Rightarrow> string) \<Rightarrow> nat \<Rightarrow> nat \<Rightarrow> blacklist \<Rightarrow> black_device list option" where
  "GetBlackListDevices lower offset howmany b =
     (if bl_readable b then Some (map (black_row lower) (take howmany (drop offset (map snd (bl_table b))))) else None)"

definition GetBlackListDeviceCount :: "blacklist \<Rightarrow> nat" where
  "GetBlackListDeviceCount b = length (bl_cache b)"

definition IsBlackListed_details :: "u64 \<Rightarrow> blacklist \<Rightarrow> (string \<times> string \<times> u64) option" where
  "IsBlackListed_details n b = map_option (\<lambda>d. (bd_reason d, bd_author d, bd_created d)) (om_find (bl_cache b) n)"

definition IsBlackListed :: "u64 \<Rightarrow> blacklist \<Rightarrow> bool" where
  "IsBlackListed n b \<longleftrightarrow> om_find (bl_cache b) n \<noteq> None"

section \<open>Requests\<close>

definition blacklist_DoDelete ::
    "(string \<Rightarrow> string \<Rightarrow> string \<Rightarrow> string) \<Rightarrow> (string \<Rightarrow> string) \<Rightarrow> string \<Rightarrow> blacklist \<Rightarrow> black_device rest_reply \<times> blacklist" where
  "blacklist_DoDelete repl lower serial b =
     (case NormalizeMac repl lower serial of
        (False, _) \<Rightarrow> (Rest_BadRequest ''MissingSerialNumber'', b)
      | (True, s) \<Rightarrow>
          if GetBlackListDevice lower s b = None then (Rest_NotFound, b)
          else case DeleteBlackListDevice lower s b of
            (True, b') \<Rightarrow> (Rest_OK, b')
          | (False, b') \<Rightarrow> (Rest_BadRequest ''CouldNotBeDeleted'', b'))"

definition blacklist_DoGet ::
    "(string \<Rightarrow> string \<Rightarrow> string \<Rightarrow> string) \<Rightarrow> (string \<Rightarrow> string) \<Rightarrow> string \<Rightarrow> blacklist \<Rightarrow> black_device rest_reply" where
  "blacklist_DoGet repl lower serial b =
     (case NormalizeMac repl lower serial of
        (False, _) \<Rightarrow> Rest_BadRequest ''MissingSerialNumber''
      | (True, s) \<Rightarrow> (case GetBlackListDevice lower s b of None \<Rightarrow> Rest_NotFound | Some d \<Rightarrow> Rest_Object d))"

text \<open>
  \<open>body\<close> is the device read from the request, or \<open>None\<close> when it could not be read; \<open>user\<close> and \<open>now\<close> are
  written into it. The object returned is the row as it is read again, or an empty one.
\<close>

definition no_device :: black_device where
  "no_device = \<lparr> bl_serialNumber = [], bl_reason = [], bl_author = [], bl_created = 0 \<rparr>"

definition read_again :: "(string \<Rightarrow> string) \<Rightarrow> string \<Rightarrow> blacklist \<Rightarrow> black_device" where
  "read_again lower s b = (case GetBlackListDevice lower s b of Some d \<Rightarrow> d | None \<Rightarrow> no_device)"

definition blacklist_DoPost ::
    "(string \<Rightarrow> string \<Rightarrow> string \<Rightarrow> string) \<Rightarrow> (string \<Rightarrow> string) \<Rightarrow> string \<Rightarrow> u64 \<Rightarrow> black_device option \<Rightarrow> blacklist \<Rightarrow>
     black_device rest_reply \<times> blacklist" where
  "blacklist_DoPost repl lower user now body b =
     (case body of
        None \<Rightarrow> (Rest_BadRequest ''InvalidJSONDocument'', b)
      | Some d \<Rightarrow>
          let (ok, s) = NormalizeMac repl lower (bl_serialNumber d) in
          if bl_serialNumber d = [] \<or> \<not> ok then (Rest_BadRequest ''MissingSerialNumber'', b)
          else
            let d = d\<lparr> bl_serialNumber := lower s, bl_author := user, bl_created := now \<rparr> in
            if IsBlackListed (MACToInt (bl_serialNumber d)) b then (Rest_BadRequest ''SerialNumberExists'', b)
            else case AddBlackListDevice lower d b of
              (True, b') \<Rightarrow> (Rest_Object (read_again lower (bl_serialNumber d) b'), b')
            | (False, b') \<Rightarrow> (Rest_BadRequest ''MissingOrInvalidParameters'', b'))"

definition blacklist_DoPut ::
    "(string \<Rightarrow> string \<Rightarrow> string \<Rightarrow> string) \<Rightarrow> (string \<Rightarrow> string) \<Rightarrow> string \<Rightarrow> string \<Rightarrow> black_device option \<Rightarrow> blacklist \<Rightarrow>
     black_device rest_reply \<times> blacklist" where
  "blacklist_DoPut repl lower user serial body b =
     (case NormalizeMac repl lower (lower serial) of
        (False, _) \<Rightarrow> (Rest_BadRequest ''MissingSerialNumber'', b)
      | (True, s) \<Rightarrow>
          (case GetBlackListDevice lower s b of
             None \<Rightarrow> (Rest_BadRequest ''InvalidJSONDocument'', b)
           | Some existing \<Rightarrow>
               (case body of
                  None \<Rightarrow> (Rest_BadRequest ''InvalidJSONDocument'', b)
                | Some d \<Rightarrow>
                    (case UpdateBlackListDevice lower s (existing\<lparr> bl_reason := bl_reason d, bl_author := user \<rparr>) b of
                       (True, b') \<Rightarrow> (Rest_Object (read_again lower s b'), b')
                     | (False, b') \<Rightarrow> (Rest_BadRequest ''MissingOrInvalidParameters'', b')))))"

section \<open>Default firmware\<close>

record default_firmware =
  df_deviceType :: string
  df_uri :: string
  df_revision :: string
  df_Description :: string
  df_Created :: u64
  df_imageCreationDate :: u64
  df_LastModified :: u64

record firmware_table =
  fw_rows :: "(string, default_firmware) omap"
  fw_readable :: bool
  fw_writable :: bool

definition CreateDefaultFirmware :: "(string \<Rightarrow> string) \<Rightarrow> default_firmware \<Rightarrow> firmware_table \<Rightarrow> bool \<times> firmware_table" where
  "CreateDefaultFirmware lower f t =
     (let f = f\<lparr> df_deviceType := lower (df_deviceType f) \<rparr> in
      if fw_readable t \<and> fw_writable t \<and> om_find (fw_rows t) (df_deviceType f) = None
      then (True, t\<lparr> fw_rows := om_set (df_deviceType f) f (fw_rows t) \<rparr>) else (False, t))"

definition DeleteDefaultFirmware :: "(string \<Rightarrow> string) \<Rightarrow> string \<Rightarrow> firmware_table \<Rightarrow> bool \<times> firmware_table" where
  "DeleteDefaultFirmware lower ty t =
     (if fw_writable t then (True, t\<lparr> fw_rows := om_erase (lower ty) (fw_rows t) \<rparr>) else (False, t))"

definition UpdateDefaultFirmware ::
    "(string \<Rightarrow> string) \<Rightarrow> u64 \<Rightarrow> default_firmware \<Rightarrow> firmware_table \<Rightarrow> bool \<times> firmware_table" where
  "UpdateDefaultFirmware lower now f t =
     (let f = f\<lparr> df_LastModified := now, df_deviceType := lower (df_deviceType f) \<rparr> in
      if \<not> fw_writable t then (False, t)
      else if om_find (fw_rows t) (df_deviceType f) = None then (True, t)
      else (True, t\<lparr> fw_rows := om_set (df_deviceType f) f (fw_rows t) \<rparr>))"

definition GetDefaultFirmware :: "(string \<Rightarrow> string) \<Rightarrow> string \<Rightarrow> firmware_table \<Rightarrow> default_firmware option" where
  "GetDefaultFirmware lower ty t = (if fw_readable t then om_find (fw_rows t) (lower ty) else None)"

definition DefaultFirmwareAlreadyExists :: "(string \<Rightarrow> string) \<Rightarrow> string \<Rightarrow> firmware_table \<Rightarrow> bool" where
  "DefaultFirmwareAlreadyExists lower ty t \<longleftrightarrow> fw_readable t \<and> om_find (fw_rows t) (lower ty) \<noteq> None"

definition GetDefaultFirmwares :: "nat \<Rightarrow> nat \<Rightarrow> firmware_table \<Rightarrow> default_firmware list option" where
  "GetDefaultFirmwares from howmany t =
     (if fw_readable t then Some (take howmany (drop from (map snd (fw_rows t)))) else None)"

definition GetDefaultFirmwaresCount :: "firmware_table \<Rightarrow> nat" where
  "GetDefaultFirmwaresCount t = (if fw_readable t then length (fw_rows t) else 0)"

section \<open>Serial numbers as keys\<close>

definition serial_text :: "string \<Rightarrow> bool" where
  "serial_text s \<longleftrightarrow> length s = 12 \<and> list_all (\<lambda>c. c \<in> set ''0123456789abcdef'') s"

lemma serial_digits:
  assumes "serial_text s"
  obtains ds where "s = map hex_digit ds" "\<forall>d\<in>set ds. d < 16" "length ds = 12"
proof -
  obtain v where "IntToSerialNumber v = s" using serial_text_roundtrip assms by (auto simp: serial_text_def)
  moreover obtain ds where "IntToSerialNumber v = map hex_digit ds" "length ds = 12" "\<forall>d\<in>set ds. d < 16"
    using nibbles_spec [of 12 v "[]"] by (auto simp: IntToSerialNumber_def)
  ultimately show ?thesis using that by blast
qed

lemma MACToInt_loop_digits:
  "\<forall>d\<in>set ds. d < 16 \<Longrightarrow> MACToInt_loop (of_nat a) (map hex_digit ds) = of_nat (foldl (\<lambda>a d. a * 16 + d) a ds)"
proof (induction ds arbitrary: a)
  case (Cons d ds)
  then have d: "d < 16" "hex_digit d \<noteq> CHR '':''" using hex_digit_facts by auto
  have step: "push_bit 4 (of_nat a :: u64) + of_nat (hex_value (hex_digit d)) = of_nat (a * 16 + d)"
    using d(1) by (simp add: push_bit_eq_mult mult.commute)
  have "MACToInt_loop (of_nat a) (map hex_digit (d # ds)) =
      MACToInt_loop (push_bit 4 (of_nat a :: u64) + of_nat (hex_value (hex_digit d))) (map hex_digit ds)"
    using d(2) by (simp only: list.map MACToInt_loop.simps if_False)
  also have "\<dots> = of_nat (foldl (\<lambda>a d. a * 16 + d) (a * 16 + d) ds)"
    unfolding step by (rule Cons.IH) (use Cons.prems in simp)
  finally show ?case by simp
qed simp

lemma serial_number_of:
  assumes "serial_text s"
  shows "SerialNumberToInt s = Inr (MACToInt s)"
proof -
  obtain ds where ds: "s = map hex_digit ds" "\<forall>d\<in>set ds. d < 16" "length ds = 12" using serial_digits [OF assms] .
  then show ?thesis
    using MACToInt_loop_digits [OF ds(2), of 0] stoull16_hex [of ds]
    by (simp add: SerialNumberToInt_def MACToInt_def foldl_base_value flip: length_greater_0_conv)
qed

lemma serial_eq_iff: "serial_text s \<Longrightarrow> serial_text s' \<Longrightarrow> MACToInt s = MACToInt s' \<longleftrightarrow> s = s'"
  using serial_text_roundtrip serial_number_of unfolding serial_text_def by (metis Inr_inject)

section \<open>The cache mirrors the table\<close>

definition listed :: "blacklist \<Rightarrow> string \<Rightarrow> black_details option" where
  "listed b s = map_option details (om_find (bl_table b) s)"

definition bl_inv :: "blacklist \<Rightarrow> bool" where
  "bl_inv b \<longleftrightarrow>
     om_wf (bl_table b) \<and> om_wf (bl_cache b) \<and>
     (\<forall>s d. om_find (bl_table b) s = Some d \<longrightarrow> serial_text s \<and> bl_serialNumber d = s) \<and>
     (\<forall>s. serial_text s \<longrightarrow> om_find (bl_cache b) (MACToInt s) = listed b s) \<and>
     (\<forall>n. om_find (bl_cache b) n \<noteq> None \<longrightarrow> (\<exists>s. serial_text s \<and> n = MACToInt s))"

text \<open>What the code relies on of \<^verbatim>\<open>Poco::toLower\<close>.\<close>

definition lowers :: "(string \<Rightarrow> string) \<Rightarrow> bool" where
  "lowers lower \<longleftrightarrow> (\<forall>s. length s = 12 \<and> list_all isxdigit s \<longrightarrow> serial_text (lower s)) \<and> (\<forall>s. serial_text s \<longrightarrow> lower s = s)"

lemma NormalizeMac_serial: "lowers lower \<Longrightarrow> NormalizeMac repl lower mac = (True, s) \<Longrightarrow> serial_text s"
  by (auto simp: NormalizeMac_def lowers_def Let_def split: if_splits)

lemma bl_inv_store:
  assumes "bl_inv b" and "serial_text s" and "bl_serialNumber d = s"
  shows "bl_inv (remember d (b\<lparr> bl_table := om_set s d (bl_table b) \<rparr>))"
    and "listed (remember d (b\<lparr> bl_table := om_set s d (bl_table b) \<rparr>)) = (listed b)(s := Some (details d))"
proof -
  show l: "listed (remember d (b\<lparr> bl_table := om_set s d (bl_table b) \<rparr>)) = (listed b)(s := Some (details d))"
    using assms(1) by (auto simp: listed_def remember_def bl_inv_def om.lookup_store)
  show "bl_inv (remember d (b\<lparr> bl_table := om_set s d (bl_table b) \<rparr>))"
    unfolding bl_inv_def l
    using assms serial_eq_iff [OF _ assms(2)]
    by (auto simp: remember_def bl_inv_def om.lookup_store om.wf_store)
qed

lemma bl_inv_erase:
  assumes "bl_inv b" and "serial_text s"
  shows "bl_inv (b\<lparr> bl_table := om_erase s (bl_table b), bl_cache := om_erase (MACToInt s) (bl_cache b) \<rparr>)"
    and "listed (b\<lparr> bl_table := om_erase s (bl_table b), bl_cache := om_erase (MACToInt s) (bl_cache b) \<rparr>) = (listed b)(s := None)"
proof -
  let ?b = "b\<lparr> bl_table := om_erase s (bl_table b), bl_cache := om_erase (MACToInt s) (bl_cache b) \<rparr>"
  show l: "listed ?b = (listed b)(s := None)"
    using assms(1) by (auto simp: listed_def bl_inv_def om.lookup_drop)
  show "bl_inv ?b"
    unfolding bl_inv_def l
    using assms serial_eq_iff [OF _ assms(2)] by (auto simp: bl_inv_def om.lookup_drop om.wf_drop)
qed

lemma seen_iff:
  assumes "bl_inv b" and "serial_text s" and "SerialNumberToInt s = Inr n"
  shows "IsBlackListed_details n b = map_option (\<lambda>d. (bd_reason d, bd_author d, bd_created d)) (listed b s)"
    and "IsBlackListed n b \<longleftrightarrow> listed b s \<noteq> None"
  using assms serial_number_of [OF assms(2)] by (auto simp: IsBlackListed_details_def IsBlackListed_def bl_inv_def)

section \<open>The lists the program can reach\<close>

text \<open>
  The cache is filled at the start from a table whose rows have MAC addresses in small letters as keys; then come requests
  of operators with any content, and the data base fails and recovers.
\<close>

inductive bl_reach :: "(string \<Rightarrow> string \<Rightarrow> string \<Rightarrow> string) \<Rightarrow> (string \<Rightarrow> string) \<Rightarrow> blacklist \<Rightarrow> bool"
  for repl lower where
  start: "om_wf (bl_table b) \<Longrightarrow> (\<And>s d. om_find (bl_table b) s = Some d \<Longrightarrow> serial_text s \<and> bl_serialNumber d = s) \<Longrightarrow>
     bl_cache b = [] \<Longrightarrow> InitializeBlackListCache b = (True, b') \<Longrightarrow> bl_reach repl lower b'"
| post: "bl_reach repl lower b \<Longrightarrow> bl_reach repl lower (snd (blacklist_DoPost repl lower user now body b))"
| del: "bl_reach repl lower b \<Longrightarrow> bl_reach repl lower (snd (blacklist_DoDelete repl lower serial b))"
| put: "bl_reach repl lower b \<Longrightarrow> bl_reach repl lower (snd (blacklist_DoPut repl lower user serial body b))"
| base: "bl_reach repl lower b \<Longrightarrow> bl_reach repl lower (b\<lparr> bl_readable := r, bl_writable := w \<rparr>)"

lemma remember_all:
  assumes "distinct (map fst rs)" and "\<And>s d. (s, d) \<in> set rs \<Longrightarrow> serial_text s \<and> bl_serialNumber d = s" and "bl_cache b = []"
  shows "om_wf (bl_cache (foldl (\<lambda>b r. remember (snd r) b) b rs)) \<and> bl_table (foldl (\<lambda>b r. remember (snd r) b) b rs) = bl_table b \<and>
         (\<forall>s. serial_text s \<longrightarrow> om_find (bl_cache (foldl (\<lambda>b r. remember (snd r) b) b rs)) (MACToInt s) = map_option details (map_of rs s)) \<and>
         (\<forall>n. om_find (bl_cache (foldl (\<lambda>b r. remember (snd r) b) b rs)) n \<noteq> None \<longrightarrow> (\<exists>s. serial_text s \<and> n = MACToInt s))"
  using assms
proof (induction rs rule: rev_induct)
  case Nil
  then show ?case by (simp add: om_wf_def om_find_def)
next
  case (snoc r rs)
  obtain k d where r: "r = (k, d)" by (cases r)
  define c where "c = foldl (\<lambda>b r. remember (snd r) b) b rs"
  have IH: "om_wf (bl_cache c) \<and> bl_table c = bl_table b \<and>
      (\<forall>s. serial_text s \<longrightarrow> om_find (bl_cache c) (MACToInt s) = map_option details (map_of rs s)) \<and>
      (\<forall>n. om_find (bl_cache c) n \<noteq> None \<longrightarrow> (\<exists>s. serial_text s \<and> n = MACToInt s))"
    unfolding c_def
  proof (rule snoc.IH)
    show "serial_text s \<and> bl_serialNumber d = s" if "(s, d) \<in> set rs" for s d using that snoc.prems(2) [of s d] by simp
  qed (use snoc.prems(1,3) in simp_all)
  have k: "serial_text k" "bl_serialNumber d = k" using snoc.prems(2) [of k d] r by simp_all
  have "map_of rs k = None" using snoc.prems(1) r by (simp add: map_of_eq_None_iff)
  then have m: "map_of (rs @ [(k, d)]) s = (if s = k then Some d else map_of rs s)" for s
    by (simp add: map_add_def split: option.split)
  have find: "om_find (om_set (MACToInt k) v (bl_cache c)) n = (if n = MACToInt k then Some v else om_find (bl_cache c) n)" for n v
    using IH by (simp add: om.lookup_store)
  let ?c = "c\<lparr> bl_cache := om_set (MACToInt k) (details d) (bl_cache c) \<rparr>"
  have all: "foldl (\<lambda>b r. remember (snd r) b) b (rs @ [(k, d)]) = ?c"
    by (simp add: c_def [symmetric]) (simp add: remember_def k(2))
  have "om_wf (bl_cache ?c)" "bl_table ?c = bl_table b" using IH by (simp_all add: om.wf_store)
  moreover have "om_find (bl_cache ?c) (MACToInt s) = map_option details (map_of (rs @ [(k, d)]) s)" if "serial_text s" for s
    using IH that serial_eq_iff [OF that k(1)] unfolding m by (simp add: find)
  moreover have "\<exists>s. serial_text s \<and> n = MACToInt s" if "om_find (bl_cache ?c) n \<noteq> None" for n
  proof (cases "n = MACToInt k")
    case False
    with that have "om_find (bl_cache c) n \<noteq> None" by (simp add: find)
    with IH show ?thesis by blast
  qed (use k(1) in blast)
  ultimately show ?case unfolding r all by blast
qed

lemma bl_inv_start:
  assumes "om_wf (bl_table b)" and "\<And>s d. om_find (bl_table b) s = Some d \<Longrightarrow> serial_text s \<and> bl_serialNumber d = s"
    and "bl_cache b = []" and "InitializeBlackListCache b = (True, b')"
  shows "bl_inv b'"
proof -
  have b': "b' = foldl (\<lambda>b r. remember (snd r) b) b (bl_table b)"
    using assms(4) by (simp add: InitializeBlackListCache_def split: if_splits)
  have d: "distinct (map fst (bl_table b))" using assms(1) by (auto simp: om_wf_def strict_sorted_iff)
  have find: "om_find (bl_table b) s = map_of (bl_table b) s" for s using om_find_def by metis
  have "serial_text s \<and> bl_serialNumber x = s" if "(s, x) \<in> set (bl_table b)" for s x
    using assms(2) [of s x] that d find by simp
  from remember_all [OF d this assms(3)] assms(1,2) show ?thesis
    unfolding b' bl_inv_def listed_def by (simp add: find)
qed

lemma post_accepted:
  assumes "lowers lower" and "blacklist_DoPost repl lower user now body b = (Rest_Object d, b')"
  obtains d0 s where "body = Some d0" "NormalizeMac repl lower (bl_serialNumber d0) = (True, s)" "serial_text s"
    "b' = (let x = d0\<lparr> bl_serialNumber := s, bl_author := user, bl_created := now \<rparr> in remember x (b\<lparr> bl_table := om_set s x (bl_table b) \<rparr>))"
proof -
  obtain d0 s where p: "body = Some d0" "NormalizeMac repl lower (bl_serialNumber d0) = (True, s)"
    and a: "AddBlackListDevice lower (d0\<lparr> bl_serialNumber := lower s, bl_author := user, bl_created := now \<rparr>) b = (True, b')"
    using assms(2) by (auto simp: blacklist_DoPost_def Let_def split: option.splits prod.splits if_splits bool.splits)
  have s: "serial_text s" "lower s = s" using NormalizeMac_serial [OF assms(1) p(2)] assms(1) by (auto simp: lowers_def)
  have "black_row lower (d0\<lparr> bl_serialNumber := lower s, bl_author := user, bl_created := now \<rparr>) =
      d0\<lparr> bl_serialNumber := s, bl_author := user, bl_created := now \<rparr>"
    using s by (cases d0) (simp add: black_row_def)
  with a s have "b' = (let x = d0\<lparr> bl_serialNumber := s, bl_author := user, bl_created := now \<rparr> in
      remember x (b\<lparr> bl_table := om_set s x (bl_table b) \<rparr>))"
    by (auto simp: AddBlackListDevice_def Let_def split: if_splits)
  with p s show ?thesis by (intro that)
qed

lemma delete_accepted:
  assumes "lowers lower" and "blacklist_DoDelete repl lower serial b = (Rest_OK, b')"
  obtains s where "NormalizeMac repl lower serial = (True, s)" "serial_text s"
    "b' = b\<lparr> bl_table := om_erase s (bl_table b), bl_cache := om_erase (MACToInt s) (bl_cache b) \<rparr>"
proof -
  obtain s where q: "NormalizeMac repl lower serial = (True, s)" "DeleteBlackListDevice lower s b = (True, b')"
    using assms(2) by (auto simp: blacklist_DoDelete_def split: prod.splits bool.splits if_splits)
  have "serial_text s" "lower s = s" using NormalizeMac_serial [OF assms(1) q(1)] assms(1) by (auto simp: lowers_def)
  with q show ?thesis by (intro that) (auto simp: DeleteBlackListDevice_def Let_def split: if_splits)
qed

lemma put_accepted:
  assumes "bl_inv b" and "lowers lower" and "blacklist_DoPut repl lower user serial body b = (Rest_Object d, b')"
  obtains d0 s old where "body = Some d0" "NormalizeMac repl lower (lower serial) = (True, s)" "serial_text s"
    "om_find (bl_table b) s = Some old"
    "b' = (let x = old\<lparr> bl_reason := bl_reason d0, bl_author := user \<rparr> in
             remember x (b\<lparr> bl_table := om_set s x (om_erase s (bl_table b)) \<rparr>))"
proof -
  obtain s old d0 where q: "NormalizeMac repl lower (lower serial) = (True, s)" "GetBlackListDevice lower s b = Some old" "body = Some d0"
    "UpdateBlackListDevice lower s (old\<lparr> bl_reason := bl_reason d0, bl_author := user \<rparr>) b = (True, b')"
    using assms(3) by (auto simp: blacklist_DoPut_def split: option.splits prod.splits bool.splits)
  have s: "serial_text s" "lower s = s" using NormalizeMac_serial [OF assms(2) q(1)] assms(2) by (auto simp: lowers_def)
  obtain row where row: "om_find (bl_table b) s = Some row" "old = black_row lower row"
    using q(2) s(2) by (auto simp: GetBlackListDevice_def split: if_splits)
  then have "bl_serialNumber row = s" using assms(1) by (auto simp: bl_inv_def)
  then have old: "old = row" "bl_serialNumber old = s" using row(2) s(2) by (cases row; simp add: black_row_def)+
  then have "black_row lower (old\<lparr> bl_reason := bl_reason d0, bl_author := user \<rparr>) = old\<lparr> bl_reason := bl_reason d0, bl_author := user \<rparr>"
    using s(2) by (cases old) (simp add: black_row_def)
  then have "b' = (let x = old\<lparr> bl_reason := bl_reason d0, bl_author := user \<rparr> in
      remember x (b\<lparr> bl_table := om_set s x (om_erase s (bl_table b)) \<rparr>))"
    using q(4) row(1) old by (auto simp: UpdateBlackListDevice_def Let_def split: if_splits)
  with q s row(1) old(1) show ?thesis by (intro that) simp_all
qed

lemma bl_inv_change:
  assumes "bl_inv b" and "serial_text s" and "bl_serialNumber x = s"
  shows "bl_inv (remember x (b\<lparr> bl_table := om_set s x (om_erase s (bl_table b)) \<rparr>))"
    and "listed (remember x (b\<lparr> bl_table := om_set s x (om_erase s (bl_table b)) \<rparr>)) = (listed b)(s := Some (details x))"
proof -
  show l: "listed (remember x (b\<lparr> bl_table := om_set s x (om_erase s (bl_table b)) \<rparr>)) = (listed b)(s := Some (details x))"
    using assms(1) by (auto simp: listed_def remember_def bl_inv_def om.lookup_store om.lookup_drop om.wf_drop)
  show "bl_inv (remember x (b\<lparr> bl_table := om_set s x (om_erase s (bl_table b)) \<rparr>))"
    unfolding bl_inv_def l
    using assms serial_eq_iff [OF _ assms(2)]
    by (auto simp: remember_def bl_inv_def om.lookup_store om.wf_store om.lookup_drop om.wf_drop)
qed

lemma bl_inv_post: "lowers lower \<Longrightarrow> bl_inv b \<Longrightarrow> bl_inv (snd (blacklist_DoPost repl lower user now body b))"
proof (cases "\<exists>d. fst (blacklist_DoPost repl lower user now body b) = Rest_Object d")
  case True
  assume *: "lowers lower" "bl_inv b"
  from True obtain d b' where r: "blacklist_DoPost repl lower user now body b = (Rest_Object d, b')" by (metis prod.collapse)
  obtain d0 s where s: "serial_text s" "b' = (let x = d0\<lparr> bl_serialNumber := s, bl_author := user, bl_created := now \<rparr> in
      remember x (b\<lparr> bl_table := om_set s x (bl_table b) \<rparr>))"
    by (rule post_accepted [OF *(1) r]) (erule (1) that)
  then show ?thesis
    using bl_inv_store(1) [OF *(2) s(1), of "d0\<lparr> bl_serialNumber := s, bl_author := user, bl_created := now \<rparr>"] r
    by (simp add: Let_def)
next
  case False
  assume "bl_inv b"
  moreover have "snd (blacklist_DoPost repl lower user now body b) = b"
    using False by (auto simp: blacklist_DoPost_def AddBlackListDevice_def Let_def split: option.splits prod.splits bool.splits if_splits)
  ultimately show ?thesis by simp
qed

lemma bl_inv_delete: "lowers lower \<Longrightarrow> bl_inv b \<Longrightarrow> bl_inv (snd (blacklist_DoDelete repl lower serial b))"
proof (cases "fst (blacklist_DoDelete repl lower serial b) = Rest_OK")
  case True
  assume *: "lowers lower" "bl_inv b"
  from True obtain b' where r: "blacklist_DoDelete repl lower serial b = (Rest_OK, b')" by (metis prod.collapse)
  then show ?thesis using delete_accepted [OF *(1) r] bl_inv_erase(1) [OF *(2)] by auto
next
  case False
  assume "bl_inv b"
  moreover have "snd (blacklist_DoDelete repl lower serial b) = b"
    using False by (auto simp: blacklist_DoDelete_def DeleteBlackListDevice_def Let_def split: prod.splits bool.splits if_splits)
  ultimately show ?thesis by simp
qed

lemma bl_inv_put: "lowers lower \<Longrightarrow> bl_inv b \<Longrightarrow> bl_inv (snd (blacklist_DoPut repl lower user serial body b))"
proof (cases "\<exists>d. fst (blacklist_DoPut repl lower user serial body b) = Rest_Object d")
  case True
  assume *: "lowers lower" "bl_inv b"
  from True obtain d b' where r: "blacklist_DoPut repl lower user serial body b = (Rest_Object d, b')" by (metis prod.collapse)
  show ?thesis
  proof (rule put_accepted [OF *(2,1) r])
    fix d0 s old
    assume p: "serial_text s" "om_find (bl_table b) s = Some old"
      "b' = (let x = old\<lparr> bl_reason := bl_reason d0, bl_author := user \<rparr> in
               remember x (b\<lparr> bl_table := om_set s x (om_erase s (bl_table b)) \<rparr>))"
    have "bl_serialNumber old = s" using p(2) *(2) by (simp add: bl_inv_def)
    then show ?thesis
      using bl_inv_change(1) [OF *(2) p(1), of "old\<lparr> bl_reason := bl_reason d0, bl_author := user \<rparr>"] r p(3) by (simp add: Let_def)
  qed
next
  case False
  assume "bl_inv b"
  moreover have "snd (blacklist_DoPut repl lower user serial body b) = b"
  proof -
    have u: "UpdateBlackListDevice lower s x b = (False, b') \<Longrightarrow> b' = b" for s x b'
      by (simp add: UpdateBlackListDevice_def Let_def split: if_splits)
    show ?thesis
      using False u unfolding blacklist_DoPut_def by (auto split: option.splits prod.splits bool.splits)
  qed
  ultimately show ?thesis by simp
qed

lemma bl_reach_inv: "bl_reach repl lower b \<Longrightarrow> lowers lower \<Longrightarrow> bl_inv b"
proof (induction rule: bl_reach.induct)
  case (start b b')
  then show ?case by (intro bl_inv_start)
next
  case (base b r w)
  then show ?case by (simp add: bl_inv_def listed_def)
qed (simp_all add: bl_inv_post bl_inv_delete bl_inv_put)

text \<open>What a connection is told that asks with the number of a serial.\<close>

abbreviation told :: "blacklist \<Rightarrow> string \<Rightarrow> (string \<times> string \<times> u64) option" where
  "told b s \<equiv> IsBlackListed_details (MACToInt s) b"

lemma told_listed: "bl_inv b \<Longrightarrow> serial_text s \<Longrightarrow> told b s = map_option (\<lambda>d. (bd_reason d, bd_author d, bd_created d)) (listed b s)"
  using seen_iff(1) serial_number_of by blast


section \<open>A list to evaluate the property on\<close>

definition hex_lower :: "string \<Rightarrow> string" where
  "hex_lower s = map (\<lambda>c. if isxdigit c then hex_digit (hex_value c) else c) s"

lemma hex_lower_lowers: "lowers hex_lower"
proof -
  have "hex_digit d \<in> set ''0123456789abcdef''" if "d < 16" for d
    using that nth_mem [of d "''0123456789abcdef''"] by (simp only: hex_digit_def) simp
  then have a: "serial_text (hex_lower s)" if "length s = 12" "list_all isxdigit s" for s
    using that by (simp only: serial_text_def hex_lower_def) (simp add: list_all_iff hex_value_less)
  have b: "hex_lower s = s" if s: "serial_text s" for s
  proof -
    obtain ds where "s = map hex_digit ds" "\<forall>d\<in>set ds. d < 16" using serial_digits [OF s] by blast
    then show ?thesis by (simp add: hex_lower_def)
  qed
  from a b show ?thesis by (simp add: lowers_def)
qed


end
