(* ===== verification/GW_Rtty.thy ===== *)
theory GW_Rtty
  imports GW_Upgrade GW_Radius
begin

text \<open>
  Remote terminals (\<^verbatim>\<open>src/rttys/RTTYS_server.cpp\<close>, \<^verbatim>\<open>RTTYS_server.h\<close>). An end point is made for a device by a request of
  an operator; the device connects to it by its identifier and token, the browser of the operator by its identifier,
  and what one sends goes to the other. The end points are shared by four maps: by identifier, by the socket of the
  device, by the socket of the browser, and the sockets of the devices have their buffers. A shared pointer is a
  handle into \<open>rt_heap\<close>. The mutex makes every callback one step. The sockets, the FIFO buffer of Poco and the JSON
  library are parameters.
\<close>

section \<open>End points and the server\<close>

text \<open>
  \<open>ep_WSSocket\<close> is the socket of the browser, whose number is -1 once it is closed, \<open>ep_DeviceSocket\<close> the one of the
  device. A time is a number of nanoseconds, 0 for never.
\<close>

record endpoint =
  ep_Id :: string
  ep_Token :: string
  ep_SerialNumber :: string
  ep_UserName :: string
  ep_DeviceIsAttached :: bool
  ep_Device_fd :: int
  ep_WSSocket :: "int option"
  ep_sid :: u8
  ep_completed :: bool
  ep_mTLS :: bool
  ep_DeviceSocket :: "int option"
  ep_Created :: int
  ep_DeviceDisconnected :: int
  ep_ClientDisconnected :: int
  ep_DeviceConnected :: int
  ep_ClientConnected :: int
  ep_rx :: u64
  ep_tx :: u64

definition new_endpoint :: "int \<Rightarrow> string \<Rightarrow> string \<Rightarrow> string \<Rightarrow> string \<Rightarrow> bool \<Rightarrow> endpoint" where
  "new_endpoint now ident token serial user mTLS =
     \<lparr> ep_Id = ident, ep_Token = token, ep_SerialNumber = serial, ep_UserName = user, ep_DeviceIsAttached = False,
       ep_Device_fd = -1, ep_WSSocket = None, ep_sid = 0, ep_completed = False, ep_mTLS = mTLS, ep_DeviceSocket = None,
       ep_Created = now, ep_DeviceDisconnected = 0, ep_ClientDisconnected = 0, ep_DeviceConnected = 0,
       ep_ClientConnected = 0, ep_rx = 0, ep_tx = 0 \<rparr>"

definition five_seconds :: int where "five_seconds = 5000000000"
definition two_minutes :: int where "two_minutes = 120000000000"

definition TooOld :: "int \<Rightarrow> endpoint \<Rightarrow> bool \<times> endpoint" where
  "TooOld now p =
     (if ep_ClientDisconnected p \<noteq> 0 \<and> now - ep_ClientDisconnected p > five_seconds
      then (True, if ep_DeviceDisconnected p = 0 then p\<lparr> ep_DeviceDisconnected := now \<rparr> else p)
      else if ep_DeviceDisconnected p \<noteq> 0 \<and> now - ep_DeviceDisconnected p > five_seconds
      then (True, if ep_ClientDisconnected p = 0 then p\<lparr> ep_ClientDisconnected := now \<rparr> else p)
      else (False, p))"

definition TimeDeviceConnected :: "int \<Rightarrow> endpoint \<Rightarrow> int \<times> endpoint" where
  "TimeDeviceConnected now p =
     (let p = (if ep_DeviceDisconnected p = 0 then p\<lparr> ep_DeviceDisconnected := now \<rparr> else p) in
      (ep_DeviceDisconnected p - ep_DeviceConnected p, p))"

definition TimeClientConnected :: "int \<Rightarrow> endpoint \<Rightarrow> int \<times> endpoint" where
  "TimeClientConnected now p =
     (let p = (if ep_ClientDisconnected p = 0 then p\<lparr> ep_ClientDisconnected := now \<rparr> else p) in
      (ep_ClientDisconnected p - ep_ClientConnected p, p))"

text \<open>The socket of a device, with what is known of its certificate and what was received and not yet read.\<close>

record device_socket =
  ss_valid :: bool
  ss_cid :: string
  ss_cn :: string
  ss_buffer :: bytes

text \<open>What leaves the server: bytes to a device, frames to a browser, the end of a browser's socket.\<close>

datatype rtty_effect =
    Rt_Device int bytes
  | Rt_Client int bytes
  | Rt_ClientText int string
  | Rt_Pong int
  | Rt_Close int

record rtty =
  rt_heap :: "nat \<Rightarrow> endpoint"
  rt_next :: nat
  rt_EndPoints :: "(string, nat) omap"
  rt_Connected :: "(int, nat) omap"
  rt_Clients :: "(int, nat) omap"
  rt_Sockets :: "(int, device_socket) omap"
  rt_TotalEndPoints :: u64
  rt_MaxConcurrentSessions :: u64
  rt_Internal :: bool
  rt_NoSecurity :: bool
  rt_enforce_mTLS :: bool
  rt_Running :: bool
  rt_UIAssets :: string
  rt_effects :: "rtty_effect list"

text \<open>
  \<open>rt_drain\<close>, \<open>rt_read\<close> and \<open>rt_stale\<close> are the FIFO buffer: what is left when so many elements are drained, what is read
  and left, and what is found at the begin of an empty one. What a send answers may depend on all that was sent.
\<close>

record rtty_env =
  rt_now :: int
  rt_drain :: "nat \<Rightarrow> bytes \<Rightarrow> bytes"
  rt_read :: "u64 \<Rightarrow> bytes \<Rightarrow> bytes \<times> bytes"
  rt_stale :: u8
  rt_send :: "rtty_effect list \<Rightarrow> int \<Rightarrow> bytes \<Rightarrow> cpp_exn + int"
  rt_frame :: "rtty_effect list \<Rightarrow> int \<Rightarrow> cpp_exn + unit"
  rt_parse :: "string \<Rightarrow> cpp_exn + json"
  rt_dump :: "json \<Rightarrow> string"
  rt_int :: "json \<Rightarrow> cpp_exn + int"

type_synonym 'a rop = "(rtty, 'a) op"

definition with_rt :: "(rtty \<Rightarrow> 'a rop) \<Rightarrow> 'a rop" where
  "with_rt f s = f s s"

definition rt_upd :: "(rtty \<Rightarrow> rtty) \<Rightarrow> unit rop" where
  "rt_upd f s = (Inr (), f s)"

definition on_ep :: "nat \<Rightarrow> (endpoint \<Rightarrow> endpoint) \<Rightarrow> unit rop" where
  "on_ep p f = rt_upd (\<lambda>s. s\<lparr> rt_heap := (rt_heap s)(p := f (rt_heap s p)) \<rparr>)"

definition rt_emit :: "rtty_effect \<Rightarrow> unit rop" where
  "rt_emit x = rt_upd (\<lambda>s. s\<lparr> rt_effects := rt_effects s @ [x] \<rparr>)"

text \<open>The header: a type and the length of what follows, the high byte first.\<close>

definition RTTY_HDR_SIZE :: nat where "RTTY_HDR_SIZE = 3"
definition RTTY_DEVICE_TOKEN_LENGTH :: nat where "RTTY_DEVICE_TOKEN_LENGTH = 32"
definition RTTY_SESSION_ID_LENGTH :: nat where "RTTY_SESSION_ID_LENGTH = 32"

definition msgTypeRegister :: u8 where "msgTypeRegister = 0"
definition msgTypeLogin :: u8 where "msgTypeLogin = 1"
definition msgTypeLogout :: u8 where "msgTypeLogout = 2"
definition msgTypeTermData :: u8 where "msgTypeTermData = 3"
definition msgTypeWinsize :: u8 where "msgTypeWinsize = 4"
definition msgTypeCmd :: u8 where "msgTypeCmd = 5"
definition msgTypeHeartbeat :: u8 where "msgTypeHeartbeat = 6"
definition msgTypeFile :: u8 where "msgTypeFile = 7"
definition msgTypeHttp :: u8 where "msgTypeHttp = 8"
definition msgTypeAck :: u8 where "msgTypeAck = 9"
definition msgTypeMax :: u8 where "msgTypeMax = 10"

lemmas msg_types =
  msgTypeRegister_def msgTypeLogin_def msgTypeLogout_def msgTypeTermData_def msgTypeWinsize_def msgTypeCmd_def
  msgTypeHeartbeat_def msgTypeFile_def msgTypeHttp_def msgTypeAck_def msgTypeMax_def

lemma om_wf_Cons: "om_wf (x # m) \<longleftrightarrow> (\<forall>k\<in>fst ` set m. fst x < k) \<and> om_wf m"
  by (auto simp: om_wf_def)

lemma andThen_result: "m s = (Inr x, s') \<Longrightarrow> andThen m f s = f x s'"
  by (simp add: andThen_def)

section \<open>Sending and ending\<close>

definition SendBytes :: "rtty_env \<Rightarrow> nat \<Rightarrow> int \<Rightarrow> bytes \<Rightarrow> int rop" where
  "SendBytes e p fd bs =
     andThen (on_ep p (\<lambda>c. c\<lparr> ep_tx := ep_tx c + of_nat (length bs) \<rparr>)) (\<lambda>_. with_rt (\<lambda>s.
       andThen (lift_exn (rt_send e (rt_effects s) fd bs)) (\<lambda>n.
       andThen (rt_emit (Rt_Device fd (take (nat n) bs))) (\<lambda>_. ret n))))"

definition SendToClient :: "rtty_env \<Rightarrow> int \<Rightarrow> rtty_effect \<Rightarrow> bool rop" where
  "SendToClient e fd x = with_rt (\<lambda>s.
     andThen (lift_exn (rt_frame e (rt_effects s) fd)) (\<lambda>_. andThen (rt_emit x) (\<lambda>_. ret True)))"

text \<open>What a \<^verbatim>\<open>try\<close> block answers, with \<open>False\<close> for an exception.\<close>

definition false_on_exn :: "bool rop \<Rightarrow> bool rop" where
  "false_on_exn m = recover m (ret False)"

definition Login :: "rtty_env \<Rightarrow> int \<Rightarrow> nat \<Rightarrow> bool rop" where
  "Login e fd p = false_on_exn
     (andThen (SendBytes e p fd [msgTypeLogin, 0, 0]) (\<lambda>n.
      andThen (on_ep p (\<lambda>c. c\<lparr> ep_completed := True \<rparr>)) (\<lambda>_. ret (n = 3))))"

definition Logout :: "rtty_env \<Rightarrow> int \<Rightarrow> nat \<Rightarrow> bool rop" where
  "Logout e fd p = with_rt (\<lambda>s. false_on_exn
     (andThen (SendBytes e p fd [msgTypeLogout, 0, 1, ep_sid (rt_heap s p)]) (\<lambda>n. ret (n = 4))))"

text \<open>Sending on the socket an end point was made with raises, as there is no connection.\<close>

definition to_device_socket :: "rtty_env \<Rightarrow> nat \<Rightarrow> bytes \<Rightarrow> bool rop" where
  "to_device_socket e p bs = with_rt (\<lambda>s. false_on_exn
     (case ep_DeviceSocket (rt_heap s p) of
        None \<Rightarrow> andThen (on_ep p (\<lambda>c. c\<lparr> ep_tx := ep_tx c + of_nat (length bs) \<rparr>)) (\<lambda>_.
                  lift_exn (Inl (Poco_Exception ''InvalidSocketException'')))
      | Some fd \<Rightarrow> andThen (SendBytes e p fd bs) (\<lambda>n. ret (n = int (length bs)))))"

text \<open>The first byte of what a browser sends is replaced by the session of the device.\<close>

definition KeyStrokes :: "rtty_env \<Rightarrow> nat \<Rightarrow> bytes \<Rightarrow> bool rop" where
  "KeyStrokes e p buf = with_rt (\<lambda>s.
     let len = of_nat (length buf) :: u32 in
     to_device_socket e p ([msgTypeTermData, ucast (drop_bit 8 len), ucast len, ep_sid (rt_heap s p)] @ drop 1 buf))"

definition WindowSize :: "rtty_env \<Rightarrow> nat \<Rightarrow> int \<Rightarrow> int \<Rightarrow> bool rop" where
  "WindowSize e p cols rows = with_rt (\<lambda>s.
     to_device_socket e p [msgTypeWinsize, 0, 5, ep_sid (rt_heap s p), of_int (cols div 256), of_int cols,
                    of_int (rows div 256), of_int rows])"

definition RemoveSocket :: "int \<Rightarrow> unit rop" where
  "RemoveSocket fd = rt_upd (\<lambda>s. s\<lparr> rt_Sockets := om_erase fd (rt_Sockets s) \<rparr>)"

definition RemoveClientEventHandlers :: "int \<Rightarrow> unit rop" where
  "RemoveClientEventHandlers fd = rt_upd (\<lambda>s. s\<lparr> rt_Clients := om_erase fd (rt_Clients s) \<rparr>)"

text \<open>The browser of an end point is taken from the map and its socket is closed.\<close>

definition close_client :: "nat \<Rightarrow> unit rop" where
  "close_client p = with_rt (\<lambda>s.
     case ep_WSSocket (rt_heap s p) of
       None \<Rightarrow> ret ()
     | Some fd \<Rightarrow> andThen (RemoveClientEventHandlers fd) (\<lambda>_. andThen (rt_emit (Rt_Close fd)) (\<lambda>_.
         on_ep p (\<lambda>c. c\<lparr> ep_WSSocket := Some (-1) \<rparr>))))"

text \<open>
  The end of an end point, from its browser or the janitor. That it is still in the map is not asked: erasing the
  end of a map is undefined.
\<close>

definition EndConnection_of :: "nat \<Rightarrow> unit rop" where
  "EndConnection_of p = with_rt (\<lambda>s.
     let fd = ep_Device_fd (rt_heap s p); ident = ep_Id (rt_heap s p) in
     andThen (if om_find (rt_Sockets s) fd \<noteq> None then RemoveSocket fd else ret ()) (\<lambda>_.
     andThen (rt_upd (\<lambda>s. s\<lparr> rt_Connected := om_erase fd (rt_Connected s) \<rparr>)) (\<lambda>_.
     andThen (close_client p) (\<lambda>_. with_rt (\<lambda>s.
       if om_find (rt_EndPoints s) ident = None then lift_exn (Inl (Undefined_Behaviour ''erase of the end of a map''))
       else rt_upd (\<lambda>s. s\<lparr> rt_EndPoints := om_erase ident (rt_EndPoints s) \<rparr>))))))"

text \<open>The end of the socket of a device, and of the end point it has registered with.\<close>

definition EndConnection_socket :: "int \<Rightarrow> unit rop" where
  "EndConnection_socket fd =
     andThen (RemoveSocket fd) (\<lambda>_. with_rt (\<lambda>s.
       case om_find (rt_Connected s) fd of
         None \<Rightarrow> ret ()
       | Some p \<Rightarrow>
           andThen (close_client p) (\<lambda>_.
           rt_upd (\<lambda>s. s\<lparr> rt_Connected := om_erase fd (rt_Connected s),
                          rt_EndPoints := om_erase (ep_Id (rt_heap s p)) (rt_EndPoints s) \<rparr>))))"

definition SendData :: "rtty_env \<Rightarrow> nat \<Rightarrow> (int \<Rightarrow> rtty_effect) \<Rightarrow> unit rop" where
  "SendData e p x = with_rt (\<lambda>s.
     case ep_WSSocket (rt_heap s p) of
       None \<Rightarrow> EndConnection_of p
     | Some fd \<Rightarrow> andThen (false_on_exn (SendToClient e fd (x fd))) (\<lambda>ok. if ok then ret () else EndConnection_of p))"

end
