(* ===== verification/GW_RttyServer.thy ===== *)
theory GW_RttyServer
  imports GW_Rtty
begin

text \<open>
  The callbacks of the terminal server (\<^verbatim>\<open>src/rttys/RTTYS_server.cpp\<close>): the messages of a device, the frames of a
  browser, the making of end points and their end by the timer, and the web server in front of it
  (\<^verbatim>\<open>RTTYS_WebServer.cpp\<close>).
\<close>

section \<open>The messages of a device\<close>

text \<open>\<^verbatim>\<open>*buffer.begin()\<close>, also of an empty buffer.\<close>

definition first_of :: "rtty_env \<Rightarrow> bytes \<Rightarrow> u8" where
  "first_of e b = (if b = [] then rt_stale e else hd b)"

text \<open>A text that ends with a zero byte, or with the buffer. The number bounds the characters read; the length is enough.\<close>

fun ReadString_loop :: "rtty_env \<Rightarrow> nat \<Rightarrow> bytes \<Rightarrow> bytes \<times> bytes" where
  "ReadString_loop e 0 b = ([], b)"
| "ReadString_loop e (Suc n) b =
     (if b = [] then ([], b)
      else if hd b = 0 then ([], rt_drain e 1 b)
      else case ReadString_loop e n (rt_drain e 1 b) of (text, rest) \<Rightarrow> (hd b # text, rest))"

definition ReadString :: "rtty_env \<Rightarrow> bytes \<Rightarrow> string \<times> bytes" where
  "ReadString e b = (case ReadString_loop e (length b) b of (text, rest) \<Rightarrow> (text_of_bytes text, rest))"

text \<open>The other form of the function, which nothing calls: the text, and the position behind it.\<close>

fun ReadString_at :: "bytes \<Rightarrow> nat \<Rightarrow> bytes \<times> nat" where
  "ReadString_at [] i = ([], i)"
| "ReadString_at (c # cs) i = (if c = 0 then ([], i + 1) else case ReadString_at cs (i + 1) of (r, j) \<Rightarrow> (c # r, j))"

text \<open>The end point of a device whose browser is there.\<close>

definition browser_of :: "rtty \<Rightarrow> int \<Rightarrow> (nat \<times> int) option" where
  "browser_of s fd =
     (case om_find (rt_Connected s) fd of
        None \<Rightarrow> None
      | Some p \<Rightarrow> map_option (Pair p) (ep_WSSocket (rt_heap s p)))"

definition FindRegisteredEndPoint :: "rtty \<Rightarrow> string \<Rightarrow> string \<Rightarrow> nat option" where
  "FindRegisteredEndPoint s ident token =
     (case om_find (rt_EndPoints s) ident of
        None \<Rightarrow> None
      | Some p \<Rightarrow> if ep_Token (rt_heap s p) = token then Some p else None)"

text \<open>The acceptance of a registration: the device is attached, and logs in if the browser is already there.\<close>

definition attach_device :: "rtty_env \<Rightarrow> int \<Rightarrow> nat \<Rightarrow> bool rop" where
  "attach_device e fd p = false_on_exn
     (andThen (on_ep p (\<lambda>c. c\<lparr> ep_Device_fd := fd \<rparr>)) (\<lambda>_.
      andThen (rt_upd (\<lambda>s. s\<lparr> rt_Connected := om_set fd p (rt_Connected s) \<rparr>)) (\<lambda>_.
      andThen (SendBytes e p fd [msgTypeRegister, 0, 4, 0, 0x4F, 0x4B, 0]) (\<lambda>n.
      if n \<noteq> 7 then ret False
      else
        andThen (on_ep p (\<lambda>c. c\<lparr> ep_DeviceConnected := rt_now e, ep_DeviceIsAttached := True, ep_DeviceSocket := Some fd \<rparr>)) (\<lambda>_.
        with_rt (\<lambda>s.
          andThen (if ep_WSSocket (rt_heap s p) \<noteq> None then Login e fd p else ret True) (\<lambda>_. ret True)))))))"

definition do_msgTypeRegister :: "rtty_env \<Rightarrow> int \<Rightarrow> bytes \<Rightarrow> (bool \<times> bytes) rop" where
  "do_msgTypeRegister e fd b =
     (case ReadString e b of (ident, b) \<Rightarrow> case ReadString e b of (desc, b) \<Rightarrow> case ReadString e b of (token, b) \<Rightarrow>
      with_rt (\<lambda>s.
        if length ident \<noteq> RTTY_DEVICE_TOKEN_LENGTH \<or> length token \<noteq> RTTY_DEVICE_TOKEN_LENGTH \<or> desc = [] then ret (False, b)
        else
          case FindRegisteredEndPoint s ident token of
            None \<Rightarrow> ret (False, b)
          | Some p \<Rightarrow>
              (case om_find (rt_Sockets s) fd of
                 None \<Rightarrow> ret (False, b)
               | Some k \<Rightarrow>
                   if ep_mTLS (rt_heap s p) \<and> \<not> ss_valid k then ret (False, b)
                   else andThen (attach_device e fd p) (\<lambda>ok. ret (ok, b)))))"

definition do_msgTypeLogin :: "rtty_env \<Rightarrow> int \<Rightarrow> bytes \<Rightarrow> (bool \<times> bytes) rop" where
  "do_msgTypeLogin e fd b = with_rt (\<lambda>s.
     case browser_of s fd of
       None \<Rightarrow> ret (False, b)
     | Some (p, ws) \<Rightarrow>
         let error = first_of e b; b = rt_drain e 1 b in
         if error \<noteq> 0 then ret (False, b)
         else
           andThen (on_ep p (\<lambda>c. c\<lparr> ep_sid := first_of e b \<rparr>)) (\<lambda>_.
           andThen (false_on_exn (SendToClient e ws (Rt_ClientText ws
                      (rt_dump e (JObj [(''err'', JInt (uint error)), (''type'', JStr ''login'')]))))) (\<lambda>ok.
           ret (ok, rt_drain e 1 b))))"

text \<open>
  The data for the browser are collected: the bytes written and how many of them count. The length without the byte
  of the session wraps when the message is empty, and the number of bytes with it.
\<close>

definition do_msgTypeTermData ::
    "rtty_env \<Rightarrow> int \<Rightarrow> bytes \<Rightarrow> nat \<Rightarrow> bytes \<times> u64 \<Rightarrow> (bool \<times> bytes \<times> bytes \<times> u64) rop" where
  "do_msgTypeTermData e fd b len agg = with_rt (\<lambda>s.
     case browser_of s fd of
       None \<Rightarrow> ret (False, b, agg)
     | Some _ \<Rightarrow>
         (case agg of (buf, pos) \<Rightarrow>
          case rt_read e (of_nat len - 1) (rt_drain e 1 b) of (got, rest) \<Rightarrow>
            if length buf < unat pos then lift_exn (Inl (Undefined_Behaviour ''write behind the collected data''))
            else ret (True, rest, take (unat pos) buf @ got, pos + (of_nat len - 1))))"

definition do_msgTypeLogout :: "rtty_env \<Rightarrow> bytes \<Rightarrow> nat \<Rightarrow> (bool \<times> bytes) rop" where
  "do_msgTypeLogout e b len = ret (False, rt_drain e len b)"

text \<open>A message that is taken and not looked at: window size, command, file, HTTP, acknowledgement.\<close>

definition skip_message :: "rtty_env \<Rightarrow> bytes \<Rightarrow> nat \<Rightarrow> (bool \<times> bytes) rop" where
  "skip_message e b len = ret (True, rt_drain e len b)"

definition do_msgTypeHeartbeat :: "rtty_env \<Rightarrow> int \<Rightarrow> bool rop" where
  "do_msgTypeHeartbeat e fd = with_rt (\<lambda>s.
     case om_find (rt_Connected s) fd of
       None \<Rightarrow> ret False
     | Some p \<Rightarrow> false_on_exn (andThen (SendBytes e p fd [msgTypeHeartbeat, 0, 0]) (\<lambda>n. ret (n = 3))))"

definition plain_message :: "(bool \<times> bytes) rop \<Rightarrow> bytes \<times> u64 \<Rightarrow> (bool \<times> bytes \<times> bytes \<times> u64) rop" where
  "plain_message m agg = andThen m (\<lambda>(good, b). ret (good, b, agg))"

definition do_message ::
    "rtty_env \<Rightarrow> int \<Rightarrow> u8 \<Rightarrow> nat \<Rightarrow> bytes \<Rightarrow> bytes \<times> u64 \<Rightarrow> (bool \<times> bytes \<times> bytes \<times> u64) rop" where
  "do_message e fd cmd len b agg =
     (if cmd = msgTypeRegister then plain_message (do_msgTypeRegister e fd b) agg
      else if cmd = msgTypeLogin then plain_message (do_msgTypeLogin e fd b) agg
      else if cmd = msgTypeLogout then plain_message (do_msgTypeLogout e b len) agg
      else if cmd = msgTypeTermData then do_msgTypeTermData e fd b len agg
      else if cmd = msgTypeHeartbeat then plain_message (andThen (do_msgTypeHeartbeat e fd) (\<lambda>ok. ret (ok, b))) agg
      else if cmd \<in> {msgTypeWinsize, msgTypeCmd, msgTypeFile, msgTypeHttp, msgTypeAck, msgTypeMax}
      then plain_message (skip_message e b len) agg
      else ret (False, b, agg))"

text \<open>
  The messages in a buffer, as far as they are complete. The number bounds the messages; as each takes its header, the
  length of the buffer is enough.
\<close>

fun device_messages :: "rtty_env \<Rightarrow> int \<Rightarrow> nat \<Rightarrow> bytes \<Rightarrow> bytes \<times> u64 \<Rightarrow> (bool \<times> bytes \<times> bytes \<times> u64) rop" where
  "device_messages e fd 0 b agg = ret (True, b, agg)"
| "device_messages e fd (Suc n) b agg =
     (if length b < RTTY_HDR_SIZE then ret (True, b, agg)
      else
        let cmd = b ! 0; len = unat (b ! 1) * 256 + unat (b ! 2) in
        if length b < RTTY_HDR_SIZE + len then ret (True, b, agg)
        else
          andThen (do_message e fd cmd len (rt_drain e RTTY_HDR_SIZE b) agg) (\<lambda>(good, b, agg).
            if good then device_messages e fd n b agg else ret (False, b, agg)))"

text \<open>The collected data go to the browser in one frame; their number becomes an \<^verbatim>\<open>int\<close>.\<close>

definition EmptyBuffer :: "rtty_env \<Rightarrow> int \<Rightarrow> bytes \<Rightarrow> u64 \<Rightarrow> unit rop" where
  "EmptyBuffer e fd buf len = with_rt (\<lambda>s.
     case browser_of s fd of
       None \<Rightarrow> ret ()
     | Some (p, ws) \<Rightarrow>
         if length buf < unat len then lift_exn (Inl (Undefined_Behaviour ''send of more than was collected''))
         else andThen (SendToClient e ws (Rt_Client ws (take (unat len) buf))) (\<lambda>_.
                on_ep p (\<lambda>c. c\<lparr> ep_rx := ep_rx c + len \<rparr>)))"

definition set_buffer :: "int \<Rightarrow> bytes \<Rightarrow> unit rop" where
  "set_buffer fd b = rt_upd (\<lambda>s. case om_find (rt_Sockets s) fd of
     None \<Rightarrow> s | Some k \<Rightarrow> s\<lparr> rt_Sockets := om_set fd (k\<lparr> ss_buffer := b \<rparr>) (rt_Sockets s) \<rparr>)"

text \<open>What was received: some bytes, none when the device closes, or an exception.\<close>

definition onConnectedDeviceSocketReadable :: "rtty_env \<Rightarrow> int \<Rightarrow> cpp_exn + bytes \<Rightarrow> unit rop" where
  "onConnectedDeviceSocketReadable e fd received = with_rt (\<lambda>s.
     case om_find (rt_Sockets s) fd of
       None \<Rightarrow> ret ()
     | Some k \<Rightarrow>
         (case received of
            Inl _ \<Rightarrow> EndConnection_socket fd
          | Inr bs \<Rightarrow>
              if bs = [] then EndConnection_socket fd
              else
                let b = ss_buffer k @ bs in
                recover
                  (andThen (device_messages e fd (length b) b ([], 0)) (\<lambda>(good, b, buf, pos).
                   andThen (set_buffer fd b) (\<lambda>_.
                   andThen (if 0 < pos then EmptyBuffer e fd buf pos else ret ()) (\<lambda>_.
                   if good then ret () else EndConnection_socket fd))))
                  (EndConnection_socket fd)))"

definition onConnectedDeviceSocketShutdown :: "int \<Rightarrow> unit rop" where
  "onConnectedDeviceSocketShutdown fd = EndConnection_socket fd"

definition onConnectedDeviceSocketError :: "int \<Rightarrow> unit rop" where
  "onConnectedDeviceSocketError fd = EndConnection_socket fd"

text \<open>A heartbeat that is sent unasked; no handler is registered for it.\<close>

definition onConnectedDeviceTimeOut :: "rtty_env \<Rightarrow> int \<Rightarrow> unit rop" where
  "onConnectedDeviceTimeOut e fd = with_rt (\<lambda>s.
     case rt_send e (rt_effects s) fd [msgTypeHeartbeat, 0, 0] of
       Inl x \<Rightarrow> if catchable x then ret () else lift_exn (Inl x)
     | Inr n \<Rightarrow> rt_emit (Rt_Device fd (take (nat n) [msgTypeHeartbeat, 0, 0])))"

section \<open>The frames of a browser\<close>

text \<open>
  What \<^verbatim>\<open>receiveFrame\<close> gives: an exception, nothing yet, or a frame by its operation. A frame is at most 64000 bytes
  long. A frame of a ping is answered; the answer may raise.
\<close>

datatype browser_frame = Fr_Raise cpp_exn | Fr_Again | Fr_Frame nat bytes

definition FRAME_OP_CONT :: nat where "FRAME_OP_CONT = 0"
definition FRAME_OP_TEXT :: nat where "FRAME_OP_TEXT = 1"
definition FRAME_OP_BINARY :: nat where "FRAME_OP_BINARY = 2"
definition FRAME_OP_CLOSE :: nat where "FRAME_OP_CLOSE = 8"
definition FRAME_OP_PING :: nat where "FRAME_OP_PING = 9"

lemmas frame_ops = FRAME_OP_CONT_def FRAME_OP_TEXT_def FRAME_OP_BINARY_def FRAME_OP_CLOSE_def FRAME_OP_PING_def

text \<open>What a text asks for; any exception on the way is the end of the connection, and so is a failed send.\<close>

definition text_frame :: "rtty_env \<Rightarrow> nat \<Rightarrow> string \<Rightarrow> bool rop" where
  "text_frame e p text = recover
     (andThen (lift_exn (rt_parse e text)) (\<lambda>doc.
        case doc of
          JObj obj \<Rightarrow>
            if om_find obj ''type'' = Some (JStr ''winsize'') then
              andThen (lift_exn (rt_int e (j_get obj ''cols''))) (\<lambda>cols.
              andThen (lift_exn (rt_int e (j_get obj ''rows''))) (\<lambda>rows. WindowSize e p cols rows))
            else ret True
        | _ \<Rightarrow> ret True))
     (ret False)"

text \<open>A continuation is named as ignored, and falls through to the end of the connection.\<close>

definition browser_operation :: "rtty_env \<Rightarrow> nat \<Rightarrow> int \<Rightarrow> nat \<Rightarrow> bytes \<Rightarrow> bool rop" where
  "browser_operation e p ws oper data =
     (if oper = FRAME_OP_PING then SendToClient e ws (Rt_Pong ws)
      else if oper = FRAME_OP_TEXT then (if data = [] then ret False else text_frame e p (text_of_bytes data))
      else if oper = FRAME_OP_BINARY then (if data = [] then ret False else KeyStrokes e p data)
      else ret (oper \<noteq> FRAME_OP_CONT \<and> oper \<noteq> FRAME_OP_CLOSE))"

definition onClientSocketReadable :: "rtty_env \<Rightarrow> int \<Rightarrow> browser_frame \<Rightarrow> unit rop" where
  "onClientSocketReadable e fd frame = with_rt (\<lambda>s.
     case om_find (rt_Clients s) fd of
       None \<Rightarrow> ret ()
     | Some p \<Rightarrow>
         (case ep_WSSocket (rt_heap s p) of
            None \<Rightarrow> ret ()
          | Some ws \<Rightarrow>
              (case frame of
                 Fr_Again \<Rightarrow> ret ()
               | Fr_Raise x \<Rightarrow> if catchable x then EndConnection_of p else lift_exn (Inl x)
               | Fr_Frame oper data \<Rightarrow>
                   andThen (false_on_exn (browser_operation e p ws oper data)) (\<lambda>ok.
                     if ok then ret () else EndConnection_of p))))"

definition onClientSocketShutdown :: "int \<Rightarrow> unit rop" where
  "onClientSocketShutdown fd = with_rt (\<lambda>s.
     case om_find (rt_Clients s) fd of None \<Rightarrow> ret () | Some p \<Rightarrow> EndConnection_of p)"

definition onClientSocketError :: "int \<Rightarrow> unit rop" where
  "onClientSocketError fd = with_rt (\<lambda>s.
     case om_find (rt_Clients s) fd of None \<Rightarrow> ret () | Some p \<Rightarrow> EndConnection_of p)"

section \<open>Making end points\<close>

text \<open>\<open>free\<close> tells whether the mutex was got within ten seconds.\<close>

definition CreateEndPoint :: "rtty_env \<Rightarrow> bool \<Rightarrow> string \<Rightarrow> string \<Rightarrow> string \<Rightarrow> string \<Rightarrow> bool \<Rightarrow> bool rop" where
  "CreateEndPoint e free ident token user serial mTLS = with_rt (\<lambda>s.
     if \<not> free then ret False
     else if rt_MaxConcurrentSessions s \<noteq> 0 \<and> length (rt_EndPoints s) = unat (rt_MaxConcurrentSessions s) then ret False
     else andThen (rt_upd (\<lambda>s. s\<lparr> rt_heap := (rt_heap s)(rt_next s := new_endpoint (rt_now e) ident token serial user mTLS),
                                 rt_EndPoints := om_set ident (rt_next s) (rt_EndPoints s), rt_next := rt_next s + 1,
                                 rt_TotalEndPoints := rt_TotalEndPoints s + 1 \<rparr>)) (\<lambda>_. ret True))"

definition ValidId :: "rtty \<Rightarrow> string \<Rightarrow> bool" where
  "ValidId s ident \<longleftrightarrow> om_find (rt_EndPoints s) ident \<noteq> None"

definition AddClientEventHandlers :: "int \<Rightarrow> nat \<Rightarrow> unit rop" where
  "AddClientEventHandlers fd p = rt_upd (\<lambda>s. s\<lparr> rt_Clients := om_set fd p (rt_Clients s) \<rparr>)"

text \<open>
  \<open>ws\<close> is the socket made of the request, \<open>options\<close> the setting of its options. An exception of either is logged; the
  socket is in the end point then, but nothing listens to it.
\<close>

definition CreateWSClient :: "rtty_env \<Rightarrow> string \<Rightarrow> cpp_exn + int \<Rightarrow> cpp_exn + unit \<Rightarrow> unit rop" where
  "CreateWSClient e ident ws options = with_rt (\<lambda>s.
     case om_find (rt_EndPoints s) ident of
       None \<Rightarrow> ret ()
     | Some p \<Rightarrow>
         if ep_WSSocket (rt_heap s p) \<noteq> None then ret ()
         else
           recover
             (andThen (lift_exn ws) (\<lambda>fd.
              andThen (on_ep p (\<lambda>c. c\<lparr> ep_WSSocket := Some fd, ep_ClientConnected := rt_now e \<rparr>)) (\<lambda>_.
              andThen (lift_exn options) (\<lambda>_.
              andThen (AddClientEventHandlers fd p) (\<lambda>_. with_rt (\<lambda>s.
                let c = rt_heap s p in
                if ep_DeviceIsAttached c \<and> \<not> ep_completed c \<and> om_find (rt_Sockets s) (ep_Device_fd c) \<noteq> None
                then andThen (Login e (ep_Device_fd c) p) (\<lambda>_. ret ())
                else ret ()))))))
             (ret ()))"

definition onTimer_one :: "rtty_env \<Rightarrow> nat \<Rightarrow> unit rop" where
  "onTimer_one e p = with_rt (\<lambda>s.
     if two_minutes < rt_now e - ep_Created (rt_heap s p) \<and> \<not> ep_completed (rt_heap s p) then EndConnection_of p
     else ret ())"

fun onTimer_loop :: "rtty_env \<Rightarrow> (string \<times> nat) list \<Rightarrow> unit rop" where
  "onTimer_loop e [] = ret ()"
| "onTimer_loop e (m # ms) = andThen (onTimer_one e (snd m)) (\<lambda>_. onTimer_loop e ms)"

definition onTimer :: "rtty_env \<Rightarrow> unit rop" where
  "onTimer e = with_rt (\<lambda>s. onTimer_loop e (rt_EndPoints s))"

section \<open>The sockets of devices\<close>

definition AddNewSocket :: "int \<Rightarrow> bool \<Rightarrow> string \<Rightarrow> string \<Rightarrow> unit rop" where
  "AddNewSocket fd valid cid cn = rt_upd (\<lambda>s.
     s\<lparr> rt_Sockets := om_set fd \<lparr> ss_valid = valid, ss_cid = cid, ss_cn = cn, ss_buffer = [] \<rparr> (rt_Sockets s) \<rparr>)"

text \<open>
  What is known of a connection that comes in: whether it is a TLS one, the attempts at the handshake (what each
  answered and when), and of the certificate its common name and whether it is valid.
\<close>

record incoming =
  in_fd :: int
  in_secure :: bool
  in_start :: u64
  in_handshake :: "(int \<times> u64) list"
  in_cid :: string
  in_certificate :: "(string \<times> bool) option"

fun complete_handshake :: "u64 \<Rightarrow> (int \<times> u64) list \<Rightarrow> bool option" where
  "complete_handshake start [] = None"
| "complete_handshake start ((v, now) # vs) =
     (if v = 1 then Some True else if 30 < now - start then Some False else complete_handshake start vs)"

text \<open>A connection that is not a TLS one is closed, also when the server was started without TLS.\<close>

definition onDeviceAccept :: "incoming \<Rightarrow> unit rop" where
  "onDeviceAccept c =
     (if \<not> in_secure c then ret ()
      else if complete_handshake (in_start c) (in_handshake c) = Some True
      then (case in_certificate c of
              None \<Rightarrow> AddNewSocket (in_fd c) False (in_cid c) []
            | Some (cn, valid) \<Rightarrow> AddNewSocket (in_fd c) valid (in_cid c) cn)
      else ret ())"

text \<open>What the configuration sets when the server starts, and what its stop does.\<close>

definition rtty_Start :: "(string \<Rightarrow> bool) \<Rightarrow> (string \<Rightarrow> u64) \<Rightarrow> string \<Rightarrow> bool \<Rightarrow> unit rop" where
  "rtty_Start flag number_of assets insecure = rt_upd (\<lambda>s.
     let s = s\<lparr> rt_Internal := flag ''rtty.internal'', rt_Running := True \<rparr> in
     if flag ''rtty.internal''
     then s\<lparr> rt_UIAssets := assets, rt_MaxConcurrentSessions := number_of ''rtty.maxsessions'',
             rt_enforce_mTLS := flag ''rtty.enforcemTLS'', rt_NoSecurity := insecure \<rparr>
     else s)"

definition rtty_Stop :: "unit rop" where
  "rtty_Stop = rt_upd (\<lambda>s. s\<lparr> rt_Running := False \<rparr>)"

section \<open>The web server\<close>

text \<open>What a request for a page is answered with; a file with its type and whether it is said to be compressed.\<close>

datatype page =
    Pg_Options
  | Pg_NotAllowed
  | Pg_Redirect string
  | Pg_Authorized
  | Pg_FontSize
  | Pg_Nothing
  | Pg_File string string bool

definition page_type :: "string \<Rightarrow> string" where
  "page_type ext =
     (if ext = ''html'' then ''text/html; charset=utf-8''
      else if ext = ''js'' then ''text/javascript; charset=utf-8''
      else if ext = ''css'' then ''text/css; charset=utf-8''
      else if ext = ''ico'' then ''image/x-icon''
      else if ext = ''woff'' then ''font/woff''
      else if ext = ''woff2'' then ''font/woff2''
      else if ext = ''ttf'' then ''font/ttf''
      else [])"

fun occurs_in :: "string \<Rightarrow> string \<Rightarrow> bool" where
  "occurs_in pat [] \<longleftrightarrow> pat = []"
| "occurs_in pat (c # cs) \<longleftrightarrow> take (length pat) (c # cs) = pat \<or> occurs_in pat cs"

definition IsFileGZipped :: "bytes option \<Rightarrow> bool" where
  "IsFileGZipped content = (case content of Some (a # b # _) \<Rightarrow> a = 0x1f \<and> b = 0x8b | _ \<Rightarrow> False)"

text \<open>\<open>tokens\<close> cuts a path at its slashes, \<open>replace_in\<close> is \<^verbatim>\<open>Poco::replace\<close>; \<open>content\<close> is what a file has, if there is one.\<close>

definition page_handleRequest ::
    "(string \<Rightarrow> string list) \<Rightarrow> (string \<Rightarrow> string \<Rightarrow> string \<Rightarrow> string) \<Rightarrow> (string \<Rightarrow> bytes option) \<Rightarrow> (string \<Rightarrow> string) \<Rightarrow> string \<Rightarrow>
     string \<Rightarrow> string \<Rightarrow> page" where
  "page_handleRequest tokens replace_in content extension assets meth path =
     (let items = tokens path; index = assets @ ''/index.html'';
          full = (if path = ''/'' then index else assets @ path) in
      if meth = ''OPTIONS'' then Pg_Options
      else if meth \<noteq> ''GET'' then Pg_NotAllowed
      else if path \<noteq> ''/'' \<and> 1 < length items \<and> items ! 1 = ''connect''
      then Pg_Redirect (replace_in path ''/connect/'' ''/rtty/'')
      else if path \<noteq> ''/'' \<and> 1 < length items \<and> items ! 1 = ''authorized'' then Pg_Authorized
      else if path \<noteq> ''/'' \<and> 1 < length items \<and> items ! 1 = ''fontsize'' then Pg_FontSize
      else if occurs_in ''../'' full \<or> occurs_in ''~/'' full then Pg_Nothing
      else if content full = None then Pg_File index ''text/html'' False
      else
        let ext = extension full in
        Pg_File full (page_type ext) ((ext = ''js'' \<or> ext = ''css'') \<and> IsFileGZipped (content full)))"

text \<open>The request of a browser for a socket: what it is answered, if it is not the socket.\<close>

definition ws_handleRequest ::
    "rtty_env \<Rightarrow> (string \<Rightarrow> string list) \<Rightarrow> string \<Rightarrow> cpp_exn + int \<Rightarrow> cpp_exn + unit \<Rightarrow> bool rop" where
  "ws_handleRequest e tokens path ws options = with_rt (\<lambda>s.
     let items = tokens path in
     if length items \<noteq> 3 \<or> items ! 1 \<noteq> ''connect'' then ret False
     else if \<not> ValidId s (items ! 2) then ret True
     else recover (andThen (CreateWSClient e (items ! 2) ws options) (\<lambda>_. ret False)) (ret False))"

end
