(* ===== verification/GW_RttyStream.thy ===== *)
theory GW_RttyStream
  imports GW_RttyServer
begin

text \<open>
  The data of a terminal: what a device sends arrives in pieces of any size; the server collects the messages that are
  complete, keeps the begin of the next one, and sends the browser what the messages carry.
\<close>

section \<open>Frames of terminal data\<close>

text \<open>A message of a device: a session and what its program has written.\<close>

definition term_frame :: "u8 \<times> bytes \<Rightarrow> bytes" where
  "term_frame f =
     [msgTypeTermData, of_nat ((length (snd f) + 1) div 256), of_nat ((length (snd f) + 1) mod 256), fst f] @ snd f"

definition sendable :: "u8 \<times> bytes \<Rightarrow> bool" where
  "sendable f \<longleftrightarrow> snd f \<noteq> [] \<and> length (snd f) < 65535"

text \<open>A FIFO buffer drains and reads what is asked for, when that is there and not nothing.\<close>

definition fifo :: "rtty_env \<Rightarrow> bool" where
  "fifo e \<longleftrightarrow>
     (\<forall>n b. 0 < n \<longrightarrow> n \<le> length b \<longrightarrow> rt_drain e n b = drop n b) \<and>
     (\<forall>n b. 0 < n \<longrightarrow> unat n \<le> length b \<longrightarrow> rt_read e n b = (take (unat n) b, drop (unat n) b))"

lemma term_frame_length [simp]: "length (term_frame f) = 4 + length (snd f)"
  by (simp add: term_frame_def)

lemma term_frame_header:
  assumes "sendable f"
  shows "term_frame f ! 0 = msgTypeTermData"
    and "unat (term_frame f ! 1) * 256 + unat (term_frame f ! 2) = length (snd f) + 1"
proof -
  let ?n = "length (snd f) + 1"
  have "?n div 256 < 256" using assms by (auto simp: sendable_def)
  then have "unat (of_nat (?n div 256) :: u8) = ?n div 256" "unat (of_nat (?n mod 256) :: u8) = ?n mod 256"
    by (simp_all add: unat_of_nat take_bit_nat_eq_self)
  then show "unat (term_frame f ! 1) * 256 + unat (term_frame f ! 2) = ?n"
    by (simp add: term_frame_def)
  show "term_frame f ! 0 = msgTypeTermData" by (simp add: term_frame_def)
qed

text \<open>One message of data: its bytes are added to what is collected.\<close>

lemma one_frame:
  assumes "fifo e" and "browser_of s fd = Some (p, ws)" and "sendable f"
    and "length buf < 2 ^ 64"
  shows "do_msgTypeTermData e fd (fst f # snd f @ b) (length (snd f) + 1) (buf, of_nat (length buf)) s =
           (Inr (True, b, buf @ snd f, of_nat (length (buf @ snd f))), s)"
proof -
  let ?d = "snd f"
  have d: "?d \<noteq> []" "length ?d < 2 ^ 64" using assms(3) by (auto simp: sendable_def)
  then have len: "unat (of_nat (length ?d) :: u64) = length ?d" "(0 :: u64) < of_nat (length ?d)"
    by (simp_all add: unat_of_nat take_bit_nat_eq_self word_less_nat_alt)
  have drain: "rt_drain e 1 (fst f # ?d @ b) = ?d @ b" using assms(1) by (simp add: fifo_def)
  have read: "rt_read e (of_nat (length ?d)) (?d @ b) = (?d, b)" using assms(1) len by (simp add: fifo_def)
  have pos: "unat (of_nat (length buf) :: u64) = length buf"
    using assms(4) by (simp add: unat_of_nat take_bit_nat_eq_self)
  show ?thesis
    unfolding do_msgTypeTermData_def with_rt_def
    using drain read pos by (simp add: assms(2) ret_def)
qed

lemma frames_split:
  assumes "fifo e" and "browser_of s fd = Some (p, ws)"
    and "\<forall>f\<in>set fs. sendable f" and "b @ rest = concat (map term_frame fs)" and "length b \<le> n"
    and "length buf + length b < 2 ^ 64"
  shows "\<exists>fs1 fs2 b'. fs = fs1 @ fs2 \<and> b' @ rest = concat (map term_frame fs2) \<and> length (concat (map snd fs1)) + length b' \<le> length b \<and>
           (fs2 = [] \<or> length b' < length (term_frame (hd fs2))) \<and>
           device_messages e fd n b (buf, of_nat (length buf)) s =
             (Inr (True, b', buf @ concat (map snd fs1), of_nat (length (buf @ concat (map snd fs1)))), s)"
  using assms(3-6)
proof (induction fs arbitrary: b n buf)
  case Nil
  then have "device_messages e fd n b (buf, of_nat (length buf)) s = (Inr (True, b, buf, of_nat (length buf)), s)"
    by (cases n) (simp_all add: ret_def RTTY_HDR_SIZE_def)
  with Nil show ?case by simp
next
  case (Cons f fs)
  have f: "sendable f" using Cons.prems(1) by simp
  note hdr = term_frame_header [OF f]
  show ?case
  proof (cases "length (term_frame f) \<le> length b")
    case False
    have same: "b ! i = term_frame f ! i" if "i < length b" for i
    proof -
      have "b ! i = (b @ rest) ! i" using that by (simp add: nth_append)
      also have "\<dots> = (term_frame f @ concat (map term_frame fs)) ! i" using Cons.prems(2) by simp
      also have "\<dots> = term_frame f ! i" using that False by (simp add: nth_append)
      finally show ?thesis .
    qed
    have "device_messages e fd n b (buf, of_nat (length buf)) s = (Inr (True, b, buf, of_nat (length buf)), s)"
    proof (cases n)
      case 0
      then show ?thesis by (simp add: ret_def)
    next
      case (Suc m)
      show ?thesis
      proof (cases "length b < 3")
        case True
        then show ?thesis by (simp add: Suc ret_def RTTY_HDR_SIZE_def)
      next
        case long: False
        then have "unat (b ! 1) * 256 + unat (b ! 2) = length (snd f) + 1"
          using hdr(2) same [of 1] same [of 2] by simp
        with long False show ?thesis by (simp add: Suc ret_def RTTY_HDR_SIZE_def Let_def)
      qed
    qed
    moreover have "b @ rest = concat (map term_frame (f # fs))" using Cons.prems(2) by simp
    ultimately show ?thesis using False by (intro exI [of _ "[]"] exI [of _ "f # fs"] exI [of _ b]) simp
  next
    case True
    let ?k = "length (term_frame f)"
    obtain b1 where b: "b = term_frame f @ b1" and b1: "b1 @ rest = concat (map term_frame fs)"
    proof
      have "take ?k (b @ rest) = term_frame f" "drop ?k (b @ rest) = concat (map term_frame fs)"
        unfolding Cons.prems(2) by simp_all
      with True show "b = term_frame f @ drop ?k b" "drop ?k b @ rest = concat (map term_frame fs)"
        by (simp_all del: term_frame_length) (metis append_take_drop_id)
    qed
    obtain m where n: "n = Suc m" using Cons.prems(3) True by (cases n) auto
    have cmd: "b ! 0 = msgTypeTermData" "unat (b ! 1) * 256 + unat (b ! 2) = length (snd f) + 1"
      using hdr by (simp_all add: b nth_append)
    have drain: "rt_drain e RTTY_HDR_SIZE b = fst f # snd f @ b1"
      using assms(1) True by (simp add: fifo_def RTTY_HDR_SIZE_def b) (simp add: term_frame_def)
    have small: "length buf < 2 ^ 64" using Cons.prems(4) by simp
    have one: "do_message e fd msgTypeTermData (length (snd f) + 1) (rt_drain e RTTY_HDR_SIZE b) (buf, of_nat (length buf)) s =
        (Inr (True, b1, buf @ snd f, of_nat (length (buf @ snd f))), s)"
      unfolding drain using one_frame [OF assms(1,2) f small, of b1] by (simp add: do_message_def msg_types)
    have IH: "\<exists>fs1 fs2 b'. fs = fs1 @ fs2 \<and> b' @ rest = concat (map term_frame fs2) \<and>
        length (concat (map snd fs1)) + length b' \<le> length b1 \<and>
        (fs2 = [] \<or> length b' < length (term_frame (hd fs2))) \<and>
        device_messages e fd m b1 (buf @ snd f, of_nat (length (buf @ snd f))) s =
          (Inr (True, b', (buf @ snd f) @ concat (map snd fs1), of_nat (length ((buf @ snd f) @ concat (map snd fs1)))), s)"
      using Cons.prems b n by (intro Cons.IH [OF _ b1]) auto
    then obtain fs1 fs2 b' where ih: "fs = fs1 @ fs2" "b' @ rest = concat (map term_frame fs2)"
      "length (concat (map snd fs1)) + length b' \<le> length b1" "fs2 = [] \<or> length b' < length (term_frame (hd fs2))"
      "device_messages e fd m b1 (buf @ snd f, of_nat (length (buf @ snd f))) s =
          (Inr (True, b', (buf @ snd f) @ concat (map snd fs1), of_nat (length ((buf @ snd f) @ concat (map snd fs1)))), s)"
      by blast
    have "device_messages e fd n b (buf, of_nat (length buf)) s =
        device_messages e fd m b1 (buf @ snd f, of_nat (length (buf @ snd f))) s"
    proof -
      have "\<not> length b < RTTY_HDR_SIZE" "\<not> length b < RTTY_HDR_SIZE + (length (snd f) + 1)"
        using True by (simp_all add: RTTY_HDR_SIZE_def)
      then show ?thesis unfolding n device_messages.simps Let_def cmd 
        by (simp only: if_False if_True andThen_result [of "do_message e fd msgTypeTermData (length (snd f) + 1) (rt_drain e RTTY_HDR_SIZE b) (buf, of_nat (length buf))", OF one] prod.case)
    qed
    with ih show ?thesis
      by (intro exI [of _ "f # fs1"] exI [of _ fs2] exI [of _ b']) (simp add: b)
  qed
qed

section \<open>What the browser gets\<close>

text \<open>The device of a socket has its browser, and of what it sent, \<open>b\<close> is not yet complete.\<close>

definition terminal_at :: "rtty \<Rightarrow> int \<Rightarrow> nat \<Rightarrow> int \<Rightarrow> bytes \<Rightarrow> bool" where
  "terminal_at s fd p ws b \<longleftrightarrow>
     browser_of s fd = Some (p, ws) \<and> map_option ss_buffer (om_find (rt_Sockets s) fd) = Some b"

definition browser_data :: "int \<Rightarrow> rtty_effect list \<Rightarrow> bytes" where
  "browser_data ws es = concat (map (\<lambda>x. case x of Rt_Client w bs \<Rightarrow> if w = ws then bs else [] | _ \<Rightarrow> []) es)"

lemma browser_data_append [simp]: "browser_data ws (es @ es') = browser_data ws es @ browser_data ws es'"
  by (simp add: browser_data_def)

fun receive_all :: "rtty_env \<Rightarrow> int \<Rightarrow> bytes list \<Rightarrow> unit rop" where
  "receive_all e fd [] = ret ()"
| "receive_all e fd (c # cs) =
     andThen (onConnectedDeviceSocketReadable e fd (Inr c)) (\<lambda>_. receive_all e fd cs)"

lemma set_buffer_result:
  assumes "terminal_at s fd p ws b"
  shows "\<exists>s'. set_buffer fd b' s = (Inr (), s') \<and> terminal_at s' fd p ws b' \<and> rt_effects s' = rt_effects s"
proof -
  from assms obtain k where k: "om_find (rt_Sockets s) fd = Some k" "browser_of s fd = Some (p, ws)"
    by (auto simp: terminal_at_def)
  then have "set_buffer fd b' s = (Inr (), s\<lparr> rt_Sockets := om_set fd (k\<lparr> ss_buffer := b' \<rparr>) (rt_Sockets s) \<rparr>)"
    by (simp add: set_buffer_def rt_upd_def)
  with k show ?thesis
    by (auto simp: terminal_at_def browser_of_def om_find_set_any split: option.splits)
qed

lemma EmptyBuffer_result:
  assumes "terminal_at s fd p ws b" and "\<And>es fd. rt_frame e es fd = Inr ()" and "unat n = length buf"
  shows "\<exists>s'. EmptyBuffer e fd buf n s = (Inr (), s') \<and> terminal_at s' fd p ws b \<and>
           rt_effects s' = rt_effects s @ [Rt_Client ws buf]"
proof -
  let ?s = "s\<lparr> rt_effects := rt_effects s @ [Rt_Client ws buf] \<rparr>"
  let ?s' = "?s\<lparr> rt_heap := (rt_heap ?s)(p := (rt_heap ?s p)\<lparr> ep_rx := ep_rx (rt_heap ?s p) + n \<rparr>) \<rparr>"
  have "EmptyBuffer e fd buf n s = (Inr (), ?s')"
    using assms by (simp add: EmptyBuffer_def with_rt_def terminal_at_def SendToClient_def andThen_def lift_exn_def rt_emit_def
        rt_upd_def on_ep_def ret_def)
  moreover have "terminal_at ?s' fd p ws b"
    using assms(1) by (auto simp: terminal_at_def browser_of_def split: option.splits)
  ultimately show ?thesis by simp
qed

lemma receive_one:
  assumes "fifo e" and "\<And>es fd. rt_frame e es fd = Inr ()" and "terminal_at s fd p ws b"
    and "\<forall>f\<in>set fs. sendable f" and "b @ c @ rest = concat (map term_frame fs)" and "c \<noteq> []"
    and "length (b @ c) < 2 ^ 64"
  shows "\<exists>s' fs1 fs2 b'. onConnectedDeviceSocketReadable e fd (Inr c) s = (Inr (), s') \<and> terminal_at s' fd p ws b' \<and>
           fs = fs1 @ fs2 \<and> b' @ rest = concat (map term_frame fs2) \<and> length b' \<le> length (b @ c) \<and>
           (fs2 = [] \<or> length b' < length (term_frame (hd fs2))) \<and>
           browser_data ws (rt_effects s') = browser_data ws (rt_effects s) @ concat (map snd fs1)"
proof -
  from assms(3) obtain k where k: "om_find (rt_Sockets s) fd = Some k" "ss_buffer k = b" and br: "browser_of s fd = Some (p, ws)"
    by (auto simp: terminal_at_def)
  let ?b = "b @ c"
  have "?b @ rest = concat (map term_frame fs)" "length ([] :: bytes) + length ?b < 2 ^ 64" using assms(5,7) by simp_all
  from frames_split [OF assms(1) br assms(4) this(1) order_refl this(2)]
  obtain fs1 fs2 b' where fs: "fs = fs1 @ fs2" "b' @ rest = concat (map term_frame fs2)"
    and len: "length (concat (map snd fs1)) + length b' \<le> length ?b" and part: "fs2 = [] \<or> length b' < length (term_frame (hd fs2))"
    and msgs: "device_messages e fd (length ?b) ?b ([], 0) s =
      (Inr (True, b', concat (map snd fs1), of_nat (length (concat (map snd fs1)))), s)" by auto
  let ?d = "concat (map snd fs1)"
  have d: "unat (of_nat (length ?d) :: u64) = length ?d"
    using len assms(7) by (simp add: unat_of_nat take_bit_nat_eq_self)
  obtain s1 where s1: "set_buffer fd b' s = (Inr (), s1)" "terminal_at s1 fd p ws b'" "rt_effects s1 = rt_effects s"
    using set_buffer_result [OF assms(3)] by blast
  obtain s2 where s2: "(if 0 < (of_nat (length ?d) :: u64) then EmptyBuffer e fd ?d (of_nat (length ?d)) else ret ()) s1 = (Inr (), s2)"
    "terminal_at s2 fd p ws b'" "browser_data ws (rt_effects s2) = browser_data ws (rt_effects s) @ ?d"
  proof (cases "0 < (of_nat (length ?d) :: u64)")
    case True
    then show thesis using EmptyBuffer_result [OF s1(2) assms(2) d] s1(3) that by (auto simp: browser_data_def)
  next
    case False
    then have "(of_nat (length ?d) :: u64) = 0" by (simp only: word_gt_0 not_not)
    with d have "length ?d = 0" by (metis unat_0)
    then have empty: "?d = []" by (simp only: length_0_conv)
    show thesis
    proof (rule that [of s1])
      show "(if 0 < (of_nat (length ?d) :: u64) then EmptyBuffer e fd ?d (of_nat (length ?d)) else ret ()) s1 = (Inr (), s1)"
        using False by (simp only: if_False ret_def)
    qed (use s1(2,3) empty in \<open>simp_all only: append_Nil2\<close>)
  qed
  let ?rest = "\<lambda>x. case x of (good, b, buf, pos) \<Rightarrow> andThen (set_buffer fd b) (\<lambda>_.
      andThen (if 0 < pos then EmptyBuffer e fd buf pos else ret ()) (\<lambda>_. if good then ret () else EndConnection_socket fd))"
  have tail: "andThen (device_messages e fd (length ?b) ?b ([], 0)) ?rest s = (Inr (), s2)"
    by (subst andThen_result, rule msgs, simp only: prod.case, subst andThen_result, rule s1(1), subst andThen_result, rule s2(1))
       (simp only: ret_def if_True)
  have "onConnectedDeviceSocketReadable e fd (Inr c) s = recover (andThen (device_messages e fd (length ?b) ?b ([], 0)) ?rest) (EndConnection_socket fd) s"
    using k assms(6) by (simp add: onConnectedDeviceSocketReadable_def with_rt_def Let_def)
  also have "\<dots> = (Inr (), s2)" by (simp only: recover_def tail prod.case sum.case)
  finally show ?thesis using s2(2,3) fs len part by (intro exI [of _ s2] exI [of _ fs1] exI [of _ fs2] exI [of _ b']) simp
qed

lemma receive_all_result:
  assumes "fifo e" and "\<And>es fd. rt_frame e es fd = Inr ()" and "terminal_at s fd p ws b"
    and "fs = [] \<or> length b < length (term_frame (hd fs))"
    and "\<forall>f\<in>set fs. sendable f" and "b @ concat cs = concat (map term_frame fs)" and "[] \<notin> set cs"
    and "length (b @ concat cs) < 2 ^ 64"
  shows "\<exists>s'. receive_all e fd cs s = (Inr (), s') \<and> terminal_at s' fd p ws [] \<and>
           browser_data ws (rt_effects s') = browser_data ws (rt_effects s) @ concat (map snd fs)"
  using assms(3-8)
proof (induction cs arbitrary: s b fs)
  case Nil
  then have "fs = []" by (cases fs) auto
  with Nil show ?case by (simp add: ret_def)
next
  case (Cons c cs)
  have now: "b @ c @ concat cs = concat (map term_frame fs)" "c \<noteq> []" using Cons.prems(4,5) by auto
  have "length (b @ c) < 2 ^ 64" using Cons.prems(6) by simp
  from receive_one [OF assms(1,2) Cons.prems(1,3) now this]
  obtain s1 fs1 fs2 b' where s1: "onConnectedDeviceSocketReadable e fd (Inr c) s = (Inr (), s1)" "terminal_at s1 fd p ws b'"
    "fs = fs1 @ fs2" "b' @ concat cs = concat (map term_frame fs2)" "length b' \<le> length (b @ c)"
    "fs2 = [] \<or> length b' < length (term_frame (hd fs2))"
    "browser_data ws (rt_effects s1) = browser_data ws (rt_effects s) @ concat (map snd fs1)" by blast
  have "\<forall>f\<in>set fs2. sendable f" "[] \<notin> set cs" "length (b' @ concat cs) < 2 ^ 64"
    using Cons.prems(3,5,6) s1(3,5) by auto
  from Cons.IH [OF s1(2,6) this(1) s1(4) this(2,3)]
  obtain s' where "receive_all e fd cs s1 = (Inr (), s')" "terminal_at s' fd p ws []"
    "browser_data ws (rt_effects s') = browser_data ws (rt_effects s1) @ concat (map snd fs2)" by blast
  with s1 show ?case by (intro exI [of _ s']) (simp add: andThen_def)
qed

text \<open>
  C13: What the program in a terminal writes reaches the browser whole and in order, however the network cuts it: when
  the chunks a device's socket delivers make up a sequence of data messages, the frames sent to the browser carry
  exactly the data of these messages, one after the other, and nothing is left in the buffer.
\<close>

theorem terminal_data_delivered:
  assumes "fifo e" and "\<And>es fd. rt_frame e es fd = Inr ()" and "terminal_at s fd p ws []"
    and "\<forall>f\<in>set fs. sendable f" and "concat cs = concat (map term_frame fs)" and "[] \<notin> set cs"
    and "length (concat cs) < 2 ^ 64"
  shows "\<exists>s'. receive_all e fd cs s = (Inr (), s') \<and> terminal_at s' fd p ws [] \<and>
           browser_data ws (rt_effects s') = browser_data ws (rt_effects s) @ concat (map snd fs)"
  using receive_all_result [OF assms(1-3) _ assms(4), of cs] assms(5-7) by (cases fs) auto

text \<open>The states of the witnesses: a server that has just started, a FIFO buffer of lists, and sends that succeed.\<close>

definition demo_terminals :: rtty where
  "demo_terminals =
     \<lparr> rt_heap = \<lambda>_. new_endpoint 0 [] [] [] [] False, rt_next = 0, rt_EndPoints = [], rt_Connected = [], rt_Clients = [],
       rt_Sockets = [], rt_TotalEndPoints = 0, rt_MaxConcurrentSessions = 0, rt_Internal = True, rt_NoSecurity = False,
       rt_enforce_mTLS = True, rt_Running = True, rt_UIAssets = [], rt_effects = [] \<rparr>"

definition demo_terminal_env :: "int \<Rightarrow> rtty_env" where
  "demo_terminal_env now =
     \<lparr> rt_now = now, rt_drain = \<lambda>n b. if n = 0 \<or> length b < n then [] else drop n b,
       rt_read = \<lambda>n b. (take (unat n) b, if n = 0 then [] else drop (unat n) b), rt_stale = 0,
       rt_send = \<lambda>_ _ bs. Inr (int (length bs)), rt_frame = \<lambda>_ _. Inr (), rt_parse = \<lambda>_. Inl (Poco_Exception []),
       rt_dump = \<lambda>_. [], rt_int = \<lambda>_. Inr 0 \<rparr>"

definition demo_attached :: rtty where
  "demo_attached = demo_terminals
     \<lparr> rt_heap := \<lambda>_. (new_endpoint 0 [] [] [] [] False)\<lparr> ep_WSSocket := Some 7 \<rparr>, rt_next := 1, rt_Connected := [(5, 0)],
       rt_Sockets := [(5, \<lparr> ss_valid = True, ss_cid = [], ss_cn = [], ss_buffer = [] \<rparr>)] \<rparr>"

theorem terminal_data_delivered_witness:
  "\<exists>s'. receive_all (demo_terminal_env 0) 5 [[3], [0, 3, 9, 65], [66, 3, 0], [2, 9, 67]] demo_attached = (Inr (), s') \<and>
        browser_data 7 (rt_effects s') = [65, 66, 67]"
proof -
  have "fifo (demo_terminal_env 0)"
    by (auto simp: fifo_def demo_terminal_env_def)
  moreover have "rt_frame (demo_terminal_env 0) es fd = Inr ()" for es fd
    by (simp add: demo_terminal_env_def)
  moreover have "terminal_at demo_attached 5 0 7 []"
    by (simp add: terminal_at_def browser_of_def demo_attached_def demo_terminals_def om_find_def)
  moreover have "\<forall>f\<in>set [(9, [65, 66]), (9, [67])]. sendable f"
    by (simp add: sendable_def)
  moreover have "concat [[3], [0, 3, 9, 65], [66, 3, 0], [2, 9, 67]] = concat (map term_frame [(9, [65, 66]), (9, [67])])"
    by (simp add: term_frame_def msgTypeTermData_def)
  ultimately show ?thesis
    using terminal_data_delivered [of "demo_terminal_env 0" demo_attached 5 0 7 "[(9, [65, 66]), (9, [67])]"
        "[[3], [0, 3, 9, 65], [66, 3, 0], [2, 9, 67]]"]
    by (auto simp: demo_attached_def demo_terminals_def browser_data_def)
qed

end
