(* ===== verification/GW_RttyProps.thy ===== *)
theory GW_RttyProps
  imports GW_RttyStream
begin

text \<open>
  What holds of the terminals in every run of the server: the maps stay consistent, so that no end point is erased
  twice, and a device is only attached to an end point that asks for a certificate when its certificate is valid.
  The steps are the callbacks, in any order, with anything received and any outcome of a send.
\<close>

section \<open>The states of the maps\<close>

definition heap_ok :: "rtty \<Rightarrow> bool" where
  "heap_ok s \<longleftrightarrow> (\<forall>p q. p < rt_next s \<longrightarrow> q < rt_next s \<longrightarrow> ep_Id (rt_heap s p) = ep_Id (rt_heap s q) \<longrightarrow> p = q)"

definition endpoints_ok :: "rtty \<Rightarrow> bool" where
  "endpoints_ok s \<longleftrightarrow> om_wf (rt_EndPoints s) \<and>
     (\<forall>ident p. om_find (rt_EndPoints s) ident = Some p \<longrightarrow> p < rt_next s \<and> ep_Id (rt_heap s p) = ident)"

definition connected_ok :: "rtty \<Rightarrow> bool" where
  "connected_ok s \<longleftrightarrow>
     (\<forall>fd p. om_find (rt_Connected s) fd = Some p \<longrightarrow> p < rt_next s \<and>
        (\<exists>k. om_find (rt_Sockets s) fd = Some k \<and> (ep_mTLS (rt_heap s p) \<longrightarrow> ss_valid k)))"

definition clients_ok :: "rtty \<Rightarrow> bool" where
  "clients_ok s \<longleftrightarrow>
     (\<forall>fd p. om_find (rt_Clients s) fd = Some p \<longrightarrow> p < rt_next s \<and> 0 \<le> fd \<and> ep_WSSocket (rt_heap s p) = Some fd \<and>
        om_find (rt_EndPoints s) (ep_Id (rt_heap s p)) = Some p)"

definition rtty_inv :: "rtty \<Rightarrow> bool" where
  "rtty_inv s \<longleftrightarrow> heap_ok s \<and> endpoints_ok s \<and> connected_ok s \<and> clients_ok s"

lemmas rtty_inv_defs = rtty_inv_def heap_ok_def endpoints_ok_def connected_ok_def clients_ok_def

text \<open>A change of an end point that leaves its identifier, its need of a certificate and its browser.\<close>

definition inessential :: "(endpoint \<Rightarrow> endpoint) \<Rightarrow> bool" where
  "inessential f \<longleftrightarrow> (\<forall>c. ep_Id (f c) = ep_Id c \<and> ep_mTLS (f c) = ep_mTLS c \<and> ep_WSSocket (f c) = ep_WSSocket c)"

text \<open>Each part looks at some of the maps, and at some of an end point, only.\<close>

lemma heap_ok_cong:
  "heap_ok s \<Longrightarrow> rt_next s' = rt_next s \<Longrightarrow> (\<And>q. ep_Id (rt_heap s' q) = ep_Id (rt_heap s q)) \<Longrightarrow> heap_ok s'"
  unfolding heap_ok_def by metis

lemma endpoints_ok_cong:
  "endpoints_ok s \<Longrightarrow> rt_next s' = rt_next s \<Longrightarrow> (\<And>q. ep_Id (rt_heap s' q) = ep_Id (rt_heap s q)) \<Longrightarrow>
     rt_EndPoints s' = rt_EndPoints s \<Longrightarrow> endpoints_ok s'"
  unfolding endpoints_ok_def by metis

lemma connected_ok_cong:
  "connected_ok s \<Longrightarrow> rt_next s' = rt_next s \<Longrightarrow> (\<And>q. ep_mTLS (rt_heap s' q) = ep_mTLS (rt_heap s q)) \<Longrightarrow>
     rt_Connected s' = rt_Connected s \<Longrightarrow> rt_Sockets s' = rt_Sockets s \<Longrightarrow> connected_ok s'"
  unfolding connected_ok_def by metis

lemma clients_ok_cong:
  "clients_ok s \<Longrightarrow> rt_next s' = rt_next s \<Longrightarrow> (\<And>q. ep_Id (rt_heap s' q) = ep_Id (rt_heap s q)) \<Longrightarrow>
     (\<And>q. ep_WSSocket (rt_heap s' q) = ep_WSSocket (rt_heap s q)) \<Longrightarrow>
     rt_EndPoints s' = rt_EndPoints s \<Longrightarrow> rt_Clients s' = rt_Clients s \<Longrightarrow> clients_ok s'"
  unfolding clients_ok_def by metis

lemma inv_cong:
  assumes "rtty_inv s" and "rt_next s' = rt_next s" and "rt_EndPoints s' = rt_EndPoints s"
    and "rt_Connected s' = rt_Connected s" and "rt_Clients s' = rt_Clients s"
    and "\<And>fd. map_option ss_valid (om_find (rt_Sockets s') fd) = map_option ss_valid (om_find (rt_Sockets s) fd)"
    and "\<And>q. ep_Id (rt_heap s' q) = ep_Id (rt_heap s q)" and "\<And>q. ep_mTLS (rt_heap s' q) = ep_mTLS (rt_heap s q)"
    and "\<And>q. ep_WSSocket (rt_heap s' q) = ep_WSSocket (rt_heap s q)"
  shows "rtty_inv s'"
proof -
  have "heap_ok s'" "endpoints_ok s'" "clients_ok s'"
    using assms(1) unfolding rtty_inv_def heap_ok_def endpoints_ok_def clients_ok_def assms(2-5,7-9) by blast+
  moreover have "connected_ok s'"
    unfolding connected_ok_def
  proof (intro allI impI)
    fix fd p assume "om_find (rt_Connected s') fd = Some p"
    then obtain k where k: "p < rt_next s" "om_find (rt_Sockets s) fd = Some k" "ep_mTLS (rt_heap s p) \<longrightarrow> ss_valid k"
      using assms(1,4) unfolding rtty_inv_def connected_ok_def by metis
    then obtain k' where "om_find (rt_Sockets s') fd = Some k'" "ss_valid k' = ss_valid k"
      using assms(6) [of fd] by (auto simp: map_option_eq_Some)
    with k show "p < rt_next s' \<and> (\<exists>k. om_find (rt_Sockets s') fd = Some k \<and> (ep_mTLS (rt_heap s' p) \<longrightarrow> ss_valid k))"
      by (simp add: assms(2,8))
  qed
  ultimately show ?thesis by (simp add: rtty_inv_def)
qed

lemma inv_on_heap:
  assumes "inessential f" and "rtty_inv s"
  shows "rtty_inv (s\<lparr> rt_heap := (rt_heap s)(p := f (rt_heap s p)) \<rparr>)"
  by (rule inv_cong [OF assms(2)]) (use assms(1) in \<open>simp_all add: inessential_def\<close>)

section \<open>The end of a connection\<close>

definition without_client :: "nat \<Rightarrow> rtty \<Rightarrow> rtty" where
  "without_client p s =
     (case ep_WSSocket (rt_heap s p) of
        None \<Rightarrow> s
      | Some fd \<Rightarrow> s\<lparr> rt_Clients := om_erase fd (rt_Clients s), rt_effects := rt_effects s @ [Rt_Close fd],
                      rt_heap := (rt_heap s)(p := (rt_heap s p)\<lparr> ep_WSSocket := Some (-1) \<rparr>) \<rparr>)"

definition ended_of :: "nat \<Rightarrow> rtty \<Rightarrow> rtty" where
  "ended_of p s =
     (let s' = without_client p s in
      s'\<lparr> rt_Sockets := om_erase (ep_Device_fd (rt_heap s p)) (rt_Sockets s),
          rt_Connected := om_erase (ep_Device_fd (rt_heap s p)) (rt_Connected s),
          rt_EndPoints := om_erase (ep_Id (rt_heap s p)) (rt_EndPoints s) \<rparr>)"

definition ended_socket :: "int \<Rightarrow> rtty \<Rightarrow> rtty" where
  "ended_socket fd s =
     (case om_find (rt_Connected s) fd of
        None \<Rightarrow> s\<lparr> rt_Sockets := om_erase fd (rt_Sockets s) \<rparr>
      | Some p \<Rightarrow> (without_client p s)\<lparr> rt_Sockets := om_erase fd (rt_Sockets s), rt_Connected := om_erase fd (rt_Connected s),
                    rt_EndPoints := om_erase (ep_Id (rt_heap s p)) (rt_EndPoints s) \<rparr>)"

lemma om_erase_absent: "om_find m k = None \<Longrightarrow> om_erase k m = m"
  by (induction m) (auto simp: om_find_def om_erase_def split: if_splits)

lemmas rt_ops =
  with_rt_def andThen_def ret_def lift_exn_def rt_upd_def on_ep_def rt_emit_def RemoveSocket_def RemoveClientEventHandlers_def

lemma close_client_result: "close_client p s = (Inr (), without_client p s)"
proof (cases "ep_WSSocket (rt_heap s p)")
  case None
  then show ?thesis by (simp add: close_client_def without_client_def with_rt_def ret_def)
next
  case (Some fd)
  then show ?thesis
    by (simp add: close_client_def without_client_def with_rt_def RemoveClientEventHandlers_def rt_emit_def on_ep_def
        andThen_def rt_upd_def del: fun_upd_apply)
qed

lemma RemoveSocket_result: "RemoveSocket fd s = (Inr (), s\<lparr> rt_Sockets := om_erase fd (rt_Sockets s) \<rparr>)"
  by (simp only: RemoveSocket_def rt_upd_def)

lemma remove_known: "(if om_find (rt_Sockets s) fd \<noteq> None then RemoveSocket fd else ret ()) s =
    (Inr (), s\<lparr> rt_Sockets := om_erase fd (rt_Sockets s) \<rparr>)"
proof (cases "om_find (rt_Sockets s) fd = None")
  case True
  then have "s\<lparr> rt_Sockets := om_erase fd (rt_Sockets s) \<rparr> = s" by (simp only: om_erase_absent) simp
  with True show ?thesis by (simp add: ret_def)
next
  case False
  then show ?thesis by (simp add: RemoveSocket_def rt_upd_def)
qed

text \<open>Taking the browser away does not look at the other maps.\<close>

lemma without_client_upd:
  "without_client p (s\<lparr> rt_Sockets := a \<rparr>) = (without_client p s)\<lparr> rt_Sockets := a \<rparr>"
  "without_client p (s\<lparr> rt_Connected := b \<rparr>) = (without_client p s)\<lparr> rt_Connected := b \<rparr>"
  by (simp_all add: without_client_def split: option.split)

lemma EndConnection_of_result:
  assumes "om_find (rt_EndPoints s) (ep_Id (rt_heap s p)) \<noteq> None"
  shows "EndConnection_of p s = (Inr (), ended_of p s)"
proof -
  have ends: "rt_EndPoints (without_client p s) = rt_EndPoints s" by (simp add: without_client_def split: option.split)
  show ?thesis
    unfolding EndConnection_of_def with_rt_def Let_def
    apply (subst andThen_result, rule remove_known)
    apply (subst andThen_result, rule rt_upd_def)
    apply (subst andThen_result, rule close_client_result)
    using assms by (auto simp: rt_upd_def without_client_upd ended_of_def Let_def ends)
qed

lemma EndConnection_socket_result: "EndConnection_socket fd s = (Inr (), ended_socket fd s)"
proof -
  have ends: "rt_EndPoints (without_client p s) = rt_EndPoints s" "rt_Connected (without_client p s) = rt_Connected s"
    "ep_Id (rt_heap (without_client p s) p) = ep_Id (rt_heap s p)" for p
    by (simp_all add: without_client_def split: option.split)
  show ?thesis
    unfolding EndConnection_socket_def
    apply (subst andThen_result, rule RemoveSocket_result)
    apply (cases "om_find (rt_Connected s) fd")
     apply (simp add: with_rt_def ret_def ended_socket_def)
    apply (simp add: with_rt_def)
    apply (subst andThen_result, rule close_client_result)
    by (simp add: rt_upd_def ended_socket_def without_client_upd ends)
qed

lemma without_client_fields:
  "rt_next (without_client p s) = rt_next s" "rt_EndPoints (without_client p s) = rt_EndPoints s"
  "rt_Sockets (without_client p s) = rt_Sockets s" "rt_Connected (without_client p s) = rt_Connected s"
  "ep_Id (rt_heap (without_client p s) q) = ep_Id (rt_heap s q)"
  "ep_mTLS (rt_heap (without_client p s) q) = ep_mTLS (rt_heap s q)"
  "ep_Created (rt_heap (without_client p s) q) = ep_Created (rt_heap s q)"
  "ep_completed (rt_heap (without_client p s) q) = ep_completed (rt_heap s q)"
  "ep_Device_fd (rt_heap (without_client p s) q) = ep_Device_fd (rt_heap s q)"
  by (auto simp: without_client_def split: option.split)

text \<open>Without its browser an end point has no client left, and nobody else loses one.\<close>

lemma without_client_clients:
  assumes "clients_ok s" and "om_find (rt_Clients (without_client p s)) fd = Some q"
  shows "om_find (rt_Clients s) fd = Some q" and "q \<noteq> p" and "rt_heap (without_client p s) q = rt_heap s q"
proof -
  show find: "om_find (rt_Clients s) fd = Some q"
    using assms(2) by (auto simp: without_client_def om_find_erase split: option.splits if_splits)
  then have ws: "ep_WSSocket (rt_heap s q) = Some fd" using assms(1) by (simp add: clients_ok_def)
  show q: "q \<noteq> p"
    using assms(2) ws by (auto simp: without_client_def om_find_erase split: option.splits if_splits)
  then show "rt_heap (without_client p s) q = rt_heap s q" by (auto simp: without_client_def split: option.split)
qed

lemma clients_after:
  assumes "rtty_inv s" and "p < rt_next s"
    and "rt_Clients s' = rt_Clients (without_client p s)" and "rt_heap s' = rt_heap (without_client p s)"
    and "rt_EndPoints s' = om_erase (ep_Id (rt_heap s p)) (rt_EndPoints s)" and "rt_next s' = rt_next s"
  shows "clients_ok s'"
  unfolding clients_ok_def
proof (intro allI impI)
  fix fd q assume "om_find (rt_Clients s') fd = Some q"
  then have q: "om_find (rt_Clients (without_client p s)) fd = Some q" using assms(3) by simp
  have ok: "clients_ok s" using assms(1) by (simp add: rtty_inv_def)
  note old = without_client_clients [OF ok q]
  have c: "q < rt_next s" "0 \<le> fd" "ep_WSSocket (rt_heap s q) = Some fd"
    "om_find (rt_EndPoints s) (ep_Id (rt_heap s q)) = Some q"
    using ok old(1) by (simp_all add: clients_ok_def)
  have "ep_Id (rt_heap s q) \<noteq> ep_Id (rt_heap s p)"
    using assms(1,2) c(1) old(2) by (auto simp: rtty_inv_def heap_ok_def)
  then show "q < rt_next s' \<and> 0 \<le> fd \<and> ep_WSSocket (rt_heap s' q) = Some fd \<and>
      om_find (rt_EndPoints s') (ep_Id (rt_heap s' q)) = Some q"
    using c old(3) assms(4-6) by (simp add: om_find_erase)
qed

lemma inv_ended_of:
  assumes "rtty_inv s" and "p < rt_next s"
  shows "rtty_inv (ended_of p s)"
proof -
  have "clients_ok (ended_of p s)"
    using clients_after [OF assms, of "ended_of p s"] by (simp add: ended_of_def Let_def without_client_fields)
  moreover have "heap_ok (ended_of p s) \<and> endpoints_ok (ended_of p s) \<and> connected_ok (ended_of p s)"
    using assms(1)
    by (auto simp: rtty_inv_defs ended_of_def Let_def without_client_fields om_find_erase om_wf_erase split: if_splits)
  ultimately show ?thesis by (simp add: rtty_inv_def)
qed

lemma inv_ended_socket:
  assumes "rtty_inv s"
  shows "rtty_inv (ended_socket fd s)"
proof (cases "om_find (rt_Connected s) fd")
  case None
  then show ?thesis using assms
    by (auto simp: rtty_inv_defs ended_socket_def om_find_erase)
next
  case (Some p)
  then have p: "p < rt_next s" using assms by (auto simp: rtty_inv_def connected_ok_def)
  have "clients_ok (ended_socket fd s)"
    using clients_after [OF assms p, of "ended_socket fd s"] Some by (simp add: ended_socket_def without_client_fields)
  moreover have "heap_ok (ended_socket fd s) \<and> endpoints_ok (ended_socket fd s) \<and> connected_ok (ended_socket fd s)"
    using assms Some
    by (auto simp: rtty_inv_defs ended_socket_def without_client_fields om_find_erase om_wf_erase split: if_splits)
  ultimately show ?thesis by (simp add: rtty_inv_def)
qed

section \<open>Operations that keep the maps consistent\<close>

definition erase_end :: cpp_exn where
  "erase_end = Undefined_Behaviour ''erase of the end of a map''"

text \<open>From a consistent state an operation leads to a consistent state, and erases no end point that is not there.\<close>

definition safe :: "'a rop \<Rightarrow> rtty \<Rightarrow> bool" where
  "safe m s \<longleftrightarrow> (rtty_inv s \<longrightarrow> rtty_inv (snd (m s)) \<and> fst (m s) \<noteq> Inl erase_end)"

named_theorems rt_safe \<open>operations that keep the maps consistent\<close>

lemma safe_ret [rt_safe]: "safe (ret x) s"
  by (simp add: safe_def ret_def)

lemma safe_lift [rt_safe]: "r \<noteq> Inl erase_end \<Longrightarrow> safe (lift_exn r) s"
  by (simp add: safe_def lift_exn_def)

lemma safe_lift_known [rt_safe]:
  "safe (lift_exn (Inr x)) s" "safe (lift_exn (Inl (Poco_Exception w))) s"
  "w \<noteq> ''erase of the end of a map'' \<Longrightarrow> safe (lift_exn (Inl (Undefined_Behaviour w))) s"
  by (simp_all add: safe_def lift_exn_def erase_end_def)

lemma safe_bind [rt_safe]:
  assumes "safe m s" and "\<And>x s'. rtty_inv s' \<Longrightarrow> m s = (Inr x, s') \<Longrightarrow> safe (f x) s'"
  shows "safe (andThen m f) s"
  using assms by (cases "m s"; cases "fst (m s)") (auto simp: safe_def andThen_def)

lemma safe_recover [rt_safe]:
  assumes "safe m s" and "\<And>s'. rtty_inv s' \<Longrightarrow> safe h s'"
  shows "safe (recover m h) s"
  using assms by (cases "m s"; cases "fst (m s)") (auto simp: safe_def recover_def)

lemma safe_with [rt_safe]: "safe (f s) s \<Longrightarrow> safe (with_rt f) s"
  by (simp add: safe_def with_rt_def)

lemma safe_if [rt_safe]: "(c \<Longrightarrow> safe a s) \<Longrightarrow> (\<not> c \<Longrightarrow> safe b s) \<Longrightarrow> safe (if c then a else b) s"
  by simp

lemma safe_option [rt_safe]:
  "(x = None \<Longrightarrow> safe a s) \<Longrightarrow> (\<And>y. x = Some y \<Longrightarrow> safe (f y) s) \<Longrightarrow> safe (case x of None \<Rightarrow> a | Some y \<Rightarrow> f y) s"
  by (cases x) simp_all

lemma safe_sum [rt_safe]:
  "(\<And>y. x = Inl y \<Longrightarrow> safe (f y) s) \<Longrightarrow> (\<And>y. x = Inr y \<Longrightarrow> safe (g y) s) \<Longrightarrow> safe (case x of Inl y \<Rightarrow> f y | Inr y \<Rightarrow> g y) s"
  by (cases x) simp_all

lemma safe_pair [rt_safe]: "(\<And>a b. x = (a, b) \<Longrightarrow> safe (f a b) s) \<Longrightarrow> safe (case x of (a, b) \<Rightarrow> f a b) s"
  by (cases x) simp

lemma safe_upd: "(rtty_inv s \<Longrightarrow> rtty_inv (f s)) \<Longrightarrow> safe (rt_upd f) s"
  by (simp add: safe_def rt_upd_def)

lemma safe_on_ep [rt_safe]: "inessential f \<Longrightarrow> safe (on_ep p f) s"
  unfolding on_ep_def by (intro safe_upd inv_on_heap)

lemma inessential_updates [rt_safe]:
  "inessential (\<lambda>c. c\<lparr> ep_tx := a c \<rparr>)" "inessential (\<lambda>c. c\<lparr> ep_rx := a c \<rparr>)" "inessential (\<lambda>c. c\<lparr> ep_sid := b \<rparr>)"
  "inessential (\<lambda>c. c\<lparr> ep_completed := d \<rparr>)" "inessential (\<lambda>c. c\<lparr> ep_Device_fd := n \<rparr>)"
  "inessential (\<lambda>c. c\<lparr> ep_DeviceConnected := n, ep_DeviceIsAttached := d, ep_DeviceSocket := x \<rparr>)"
  by (simp_all add: inessential_def)

lemma safe_emit [rt_safe]: "safe (rt_emit x) s"
  unfolding rt_emit_def by (intro safe_upd) (erule inv_cong; simp)

lemma safe_ended_socket [rt_safe]: "safe (EndConnection_socket fd) s"
  by (simp add: safe_def EndConnection_socket_result inv_ended_socket)

lemma safe_ended_of:
  assumes "om_find (rt_EndPoints s) (ep_Id (rt_heap s p)) = Some p"
  shows "safe (EndConnection_of p) s"
  unfolding safe_def
proof
  assume inv: "rtty_inv s"
  with assms have "p < rt_next s" by (auto simp: rtty_inv_def endpoints_ok_def)
  with assms inv show "rtty_inv (snd (EndConnection_of p s)) \<and> fst (EndConnection_of p s) \<noteq> Inl erase_end"
    by (simp add: EndConnection_of_result inv_ended_of)
qed

section \<open>What is sent\<close>

text \<open>The libraries raise exceptions of their own; those are not the erasure of an end point.\<close>

definition env_ok :: "rtty_env \<Rightarrow> bool" where
  "env_ok e \<longleftrightarrow> (\<forall>es fd bs. rt_send e es fd bs \<noteq> Inl erase_end) \<and> (\<forall>es fd. rt_frame e es fd \<noteq> Inl erase_end) \<and>
     (\<forall>text. rt_parse e text \<noteq> Inl erase_end) \<and> (\<forall>j. rt_int e j \<noteq> Inl erase_end)"

lemma env_okD:
  assumes "env_ok e"
  shows "rt_send e es fd bs \<noteq> Inl erase_end" and "rt_frame e es fd \<noteq> Inl erase_end"
    and "rt_parse e text \<noteq> Inl erase_end" and "rt_int e j \<noteq> Inl erase_end"
  using assms by (simp_all add: env_ok_def)

lemma safe_false_on_exn [rt_safe]: "safe m s \<Longrightarrow> safe (false_on_exn m) s"
  unfolding false_on_exn_def by (intro rt_safe)

lemma safe_sends [rt_safe]:
  assumes "env_ok e"
  shows "safe (SendBytes e p fd bs) s" and "safe (SendToClient e fd x) s"
  unfolding SendBytes_def SendToClient_def by (intro rt_safe env_okD [OF assms])+

lemma safe_Login [rt_safe]: "env_ok e \<Longrightarrow> safe (Login e fd p) s"
  unfolding Login_def by (intro rt_safe)

lemma safe_to_device_socket [rt_safe]: "env_ok e \<Longrightarrow> safe (to_device_socket e p bs) s"
  unfolding to_device_socket_def by (intro rt_safe)

lemma safe_strokes [rt_safe]:
  assumes "env_ok e"
  shows "safe (KeyStrokes e p buf) s" and "safe (WindowSize e p cols rows) s"
  unfolding KeyStrokes_def WindowSize_def Let_def by (intro rt_safe assms)+

section \<open>The callbacks\<close>

lemma inv_attached:
  assumes "rtty_inv s" and "p < rt_next s" and "om_find (rt_Sockets s) fd = Some k" and "ep_mTLS (rt_heap s p) \<longrightarrow> ss_valid k"
  shows "rtty_inv (s\<lparr> rt_Connected := om_set fd p (rt_Connected s) \<rparr>)"
  using assms by (auto simp: rtty_inv_defs om_find_set_any)

text \<open>The socket is still there when the end point has noted its number.\<close>

lemma safe_attach:
  assumes "env_ok e" and "p < rt_next s" and "om_find (rt_Sockets s) fd = Some k" and "ep_mTLS (rt_heap s p) \<longrightarrow> ss_valid k"
  shows "safe (attach_device e fd p) s"
proof -
  have attach: "safe (rt_upd (\<lambda>s. s\<lparr> rt_Connected := om_set fd p (rt_Connected s) \<rparr>)) s'"
    if "on_ep p (\<lambda>c. c\<lparr> ep_Device_fd := fd \<rparr>) s = (Inr u, s')" for u s'
  proof (rule safe_upd)
    assume "rtty_inv s'"
    then show "rtty_inv (s'\<lparr> rt_Connected := om_set fd p (rt_Connected s') \<rparr>)"
      using that assms(2-4) by (intro inv_attached) (auto simp: on_ep_def rt_upd_def)
  qed
  show ?thesis unfolding attach_device_def
    by (intro rt_safe assms(1) attach)
qed

lemma safe_register [rt_safe]:
  assumes "env_ok e"
  shows "safe (do_msgTypeRegister e fd b) s"
proof -
  have "safe (attach_device e fd p) s"
    if "FindRegisteredEndPoint s ident token = Some p" "om_find (rt_Sockets s) fd = Some k" "\<not> (ep_mTLS (rt_heap s p) \<and> \<not> ss_valid k)"
    for ident token p k
  proof (cases "rtty_inv s")
    case True
    then have "p < rt_next s"
      using that(1) by (auto simp: FindRegisteredEndPoint_def rtty_inv_def endpoints_ok_def split: option.splits if_splits)
    then show ?thesis using assms that by (intro safe_attach) auto
  next
    case False
    then show ?thesis by (simp add: safe_def)
  qed
  then show ?thesis unfolding do_msgTypeRegister_def by (intro rt_safe) auto
qed

lemma safe_message [rt_safe]:
  assumes "env_ok e"
  shows "safe (do_message e fd cmd len b agg) s"
  unfolding do_message_def plain_message_def do_msgTypeLogin_def do_msgTypeLogout_def do_msgTypeTermData_def
    skip_message_def do_msgTypeHeartbeat_def Let_def
  by (intro rt_safe assms; simp)

lemma safe_messages [rt_safe]: "env_ok e \<Longrightarrow> safe (device_messages e fd n b agg) s"
proof (induction n arbitrary: b agg s)
  case 0
  show ?case by (simp add: rt_safe)
next
  case (Suc n)
  show ?case unfolding device_messages.simps Let_def
    by (intro rt_safe Suc)
qed

lemma safe_set_buffer [rt_safe]: "safe (set_buffer fd b) s"
  unfolding set_buffer_def
  by (intro safe_upd) (erule inv_cong; simp split: option.split; auto simp: om_find_set_any)

lemma safe_device_readable:
  assumes "env_ok e"
  shows "safe (onConnectedDeviceSocketReadable e fd received) s"
  unfolding onConnectedDeviceSocketReadable_def EmptyBuffer_def Let_def
  by (intro rt_safe assms; simp)

text \<open>A browser's end point is the one of its identifier.\<close>

lemma safe_client_end:
  assumes "om_find (rt_Clients s) fd = Some p"
  shows "safe (EndConnection_of p) s"
proof (cases "rtty_inv s")
  case True
  with assms show ?thesis by (intro safe_ended_of) (simp add: rtty_inv_def clients_ok_def)
next
  case False
  then show ?thesis by (simp add: safe_def)
qed

text \<open>What only sends and notes something in an end point leaves the map of the browsers and the end points in it.\<close>

definition same_ends :: "rtty \<Rightarrow> rtty \<Rightarrow> bool" where
  "same_ends s s' \<longleftrightarrow> rt_Clients s' = rt_Clients s \<and> rt_EndPoints s' = rt_EndPoints s \<and>
     (\<forall>q. ep_Id (rt_heap s' q) = ep_Id (rt_heap s q))"

interpretation ends: state_order same_ends
  by unfold_locales (auto simp: same_ends_def)

named_theorems rt_keeps \<open>operations that only send and note\<close>

lemma keeps_rt [rt_keeps]:
  "keeps same_ends (rt_emit x)" "inessential f \<Longrightarrow> keeps same_ends (on_ep p f)"
  by (auto simp: keeps_def same_ends_def rt_emit_def rt_upd_def on_ep_def inessential_def)

lemma keeps_with_rt [rt_keeps]: "(\<And>s. keeps same_ends (f s)) \<Longrightarrow> keeps same_ends (with_rt f)"
  by (simp add: keeps_def with_rt_def)

lemmas rt_kept = ends.basic_rules rt_keeps inessential_updates

lemma keeps_false_on_exn: "keeps same_ends m \<Longrightarrow> keeps same_ends (false_on_exn m)"
  unfolding false_on_exn_def by (intro rt_kept)

lemma keeps_sends: "keeps same_ends (SendBytes e p fd bs)" "keeps same_ends (SendToClient e fd x)"
  unfolding SendBytes_def SendToClient_def by (intro rt_kept)+

lemma keeps_to_device: "keeps same_ends (to_device_socket e p bs)"
  unfolding to_device_socket_def by (intro rt_kept keeps_false_on_exn keeps_sends)

lemma keeps_browser_operation: "keeps same_ends (browser_operation e p ws oper data)"
proof -
  have "keeps same_ends (text_frame e p t)" for t
    unfolding text_frame_def WindowSize_def
    by (intro rt_kept keeps_to_device) (auto intro!: rt_kept keeps_to_device split: json.splits)
  then show ?thesis
    unfolding browser_operation_def KeyStrokes_def Let_def
    by (intro rt_kept keeps_to_device keeps_sends)
qed

lemma safe_browser_operation:
  assumes "env_ok e"
  shows "safe (browser_operation e p ws oper data) s"
proof -
  have "safe (text_frame e p t) s" for t
    unfolding text_frame_def
    by (intro rt_safe env_okD [OF assms] assms) (auto intro!: rt_safe env_okD [OF assms] assms split: json.splits)
  then show ?thesis
    unfolding browser_operation_def by (intro rt_safe assms)
qed

lemma safe_client_readable:
  assumes "env_ok e" and "\<And>x. frame = Fr_Raise x \<Longrightarrow> x \<noteq> erase_end"
  shows "safe (onClientSocketReadable e fd frame) s"
  unfolding onClientSocketReadable_def
proof (intro safe_with safe_option)
  fix p ws assume client: "om_find (rt_Clients s) fd = Some p" and "ep_WSSocket (rt_heap s p) = Some ws"
  show "safe (case frame of Fr_Raise x \<Rightarrow> if catchable x then EndConnection_of p else lift_exn (Inl x)
      | Fr_Again \<Rightarrow> ret ()
      | Fr_Frame oper data \<Rightarrow> andThen (false_on_exn (browser_operation e p ws oper data)) (\<lambda>ok. if ok then ret () else EndConnection_of p)) s"
  proof (cases frame)
    case (Fr_Raise x)
    with assms(2) show ?thesis by (auto intro!: rt_safe safe_client_end [OF client])
  next
    case Fr_Again
    then show ?thesis by (simp add: safe_ret)
  next
    case (Fr_Frame oper data)
    have "safe (if ok then ret () else EndConnection_of p) s'"
      if "rtty_inv s'" "false_on_exn (browser_operation e p ws oper data) s = (Inr ok, s')" for ok s'
    proof -
      have "same_ends s s'" using keeps_false_on_exn [OF keeps_browser_operation] that(2) by (rule keepsD)
      then have "om_find (rt_Clients s') fd = Some p" using client by (simp add: same_ends_def)
      then show ?thesis by (intro safe_if safe_ret safe_client_end)
    qed
    then show ?thesis using Fr_Frame by (simp, intro safe_bind safe_false_on_exn safe_browser_operation assms(1))
  qed
qed (intro safe_ret)+

section \<open>The timer\<close>

definition stale :: "rtty_env \<Rightarrow> rtty \<Rightarrow> string \<times> nat \<Rightarrow> bool" where
  "stale e s m \<longleftrightarrow> two_minutes < rt_now e - ep_Created (rt_heap s (snd m)) \<and> \<not> ep_completed (rt_heap s (snd m))"

lemma stale_ended: "stale e (ended_of p s) m = stale e s m"
  by (simp add: stale_def ended_of_def Let_def without_client_fields)

lemma onTimer_loop_result:
  assumes "rtty_inv s" and "om_wf ms" and "\<forall>m\<in>set ms. om_find (rt_EndPoints s) (fst m) = Some (snd m)"
  shows "\<exists>s'. onTimer_loop e ms s = (Inr (), s') \<and> rtty_inv s' \<and> rt_next s' = rt_next s \<and>
           rt_EndPoints s' = filter (\<lambda>m. m \<notin> set ms \<or> \<not> stale e s m) (rt_EndPoints s) \<and>
           (\<forall>m. stale e s' m = stale e s m)"
  using assms
proof (induction ms arbitrary: s)
  case Nil
  then show ?case by (simp add: ret_def)
next
  case (Cons m ms)
  obtain ident p where m: "m = (ident, p)" by (cases m)
  have p: "om_find (rt_EndPoints s) ident = Some p" "p < rt_next s" "ep_Id (rt_heap s p) = ident"
    using Cons.prems(1,3) m by (auto simp: rtty_inv_def endpoints_ok_def)
  have keys: "ident \<notin> fst ` set ms" and wf: "om_wf ms" using Cons.prems(2) m by (auto simp: om_wf_Cons)
  show ?case
  proof (cases "stale e s m")
    case False
    then have one: "onTimer_one e p s = (Inr (), s)" using m by (auto simp: onTimer_one_def with_rt_def stale_def ret_def)
    obtain s' where s': "onTimer_loop e ms s = (Inr (), s')" "rtty_inv s'" "rt_next s' = rt_next s"
      "rt_EndPoints s' = filter (\<lambda>m. m \<notin> set ms \<or> \<not> stale e s m) (rt_EndPoints s)" "\<forall>m. stale e s' m = stale e s m"
      using Cons.IH [OF Cons.prems(1) wf] Cons.prems(3) by auto
    have "filter (\<lambda>m. m \<notin> set ms \<or> \<not> stale e s m) (rt_EndPoints s) =
        filter (\<lambda>n. n \<notin> set (m # ms) \<or> \<not> stale e s n) (rt_EndPoints s)"
      using False by (intro filter_cong) auto
    with s' show ?thesis by (simp add: m andThen_result [of "onTimer_one e p", OF one])
  next
    case True
    let ?s = "ended_of p s"
    have one: "onTimer_one e p s = (Inr (), ?s)"
      using True m p by (simp add: onTimer_one_def with_rt_def stale_def EndConnection_of_result)
    have ends: "rt_EndPoints ?s = om_erase ident (rt_EndPoints s)" "rt_next ?s = rt_next s"
      by (simp_all add: ended_of_def Let_def without_client_fields p(3))
    have rest: "\<forall>m\<in>set ms. om_find (rt_EndPoints ?s) (fst m) = Some (snd m)"
      using Cons.prems(3) keys by (auto simp: ends om_find_erase)
    obtain s' where s': "onTimer_loop e ms ?s = (Inr (), s')" "rtty_inv s'" "rt_next s' = rt_next ?s"
      "rt_EndPoints s' = filter (\<lambda>m. m \<notin> set ms \<or> \<not> stale e ?s m) (rt_EndPoints ?s)" "\<forall>m. stale e s' m = stale e ?s m"
      using Cons.IH [OF inv_ended_of [OF Cons.prems(1) p(2)] wf rest] by auto
    have only: "n = m" if "n \<in> set (rt_EndPoints s)" "fst n = ident" for n
    proof -
      have "om_wf (rt_EndPoints s)" using Cons.prems(1) by (simp add: rtty_inv_def endpoints_ok_def)
      then have "om_find (rt_EndPoints s) (fst n) = Some (snd n)" using that(1) by (simp add: om_find_iff)
      with that(2) p(1) m show ?thesis by (cases n) simp
    qed
    have "filter (\<lambda>m. m \<notin> set ms \<or> \<not> stale e ?s m) (rt_EndPoints ?s) =
        filter (\<lambda>n. n \<notin> set (m # ms) \<or> \<not> stale e s n) (rt_EndPoints s)"
      unfolding ends om_erase_def filter_filter
    proof (rule filter_cong [OF refl])
      fix n assume n: "n \<in> set (rt_EndPoints s)"
      show "(fst n \<noteq> ident \<and> (n \<notin> set ms \<or> \<not> stale e ?s n)) = (n \<notin> set (m # ms) \<or> \<not> stale e s n)"
      proof (cases "fst n = ident")
        case True
        with n only have "n = m" by blast
        with \<open>stale e s m\<close> True show ?thesis by simp
      next
        case False
        with m have "n \<noteq> m" by auto
        with False show ?thesis by (simp add: stale_ended)
      qed
    qed
    then have "rt_EndPoints s' = filter (\<lambda>n. n \<notin> set (m # ms) \<or> \<not> stale e s n) (rt_EndPoints s)" using s'(4) by (rule trans [rotated])
    moreover have "onTimer_loop e (m # ms) s = (Inr (), s')"
      using s'(1) andThen_result [of "onTimer_one e p", OF one, of "\<lambda>_. onTimer_loop e ms"] by (simp add: m)
    moreover have "rt_next s' = rt_next s" "\<forall>m. stale e s' m = stale e s m" using s'(3,5) ends(2) by (simp_all only: stale_ended) blast
    ultimately show ?thesis using s'(2) by blast
  qed
qed

lemma onTimer_result:
  assumes "rtty_inv s"
  shows "\<exists>s'. onTimer e s = (Inr (), s') \<and> rtty_inv s' \<and> rt_EndPoints s' = filter (\<lambda>m. \<not> stale e s m) (rt_EndPoints s)"
proof -
  have wf: "om_wf (rt_EndPoints s)" using assms by (simp add: rtty_inv_def endpoints_ok_def)
  then have "\<forall>m\<in>set (rt_EndPoints s). om_find (rt_EndPoints s) (fst m) = Some (snd m)" by (auto simp: om_find_iff)
  from onTimer_loop_result [OF assms wf this, of e] obtain s' where
    "onTimer_loop e (rt_EndPoints s) s = (Inr (), s')" "rtty_inv s'"
    "rt_EndPoints s' = filter (\<lambda>m. m \<notin> set (rt_EndPoints s) \<or> \<not> stale e s m) (rt_EndPoints s)" by blast
  moreover have "filter (\<lambda>m. m \<notin> set (rt_EndPoints s) \<or> \<not> stale e s m) (rt_EndPoints s) = filter (\<lambda>m. \<not> stale e s m) (rt_EndPoints s)"
    by (intro filter_cong) auto
  ultimately show ?thesis by (simp add: onTimer_def with_rt_def)
qed

section \<open>New end points, browsers and devices\<close>

lemma safe_CreateEndPoint:
  assumes "\<forall>q<rt_next s. ep_Id (rt_heap s q) \<noteq> ident"
  shows "safe (CreateEndPoint e free ident token user serial mTLS) s"
proof -
  have "rtty_inv (s\<lparr> rt_heap := (rt_heap s)(rt_next s := new_endpoint (rt_now e) ident token serial user mTLS),
          rt_EndPoints := om_set ident (rt_next s) (rt_EndPoints s), rt_next := rt_next s + 1,
          rt_TotalEndPoints := rt_TotalEndPoints s + 1 \<rparr>)" (is "rtty_inv ?s") if inv: "rtty_inv s"
  proof -
    note old = inv [unfolded rtty_inv_def]
    have "heap_ok ?s"
      using old assms by (auto simp: heap_ok_def new_endpoint_def less_Suc_eq)
    moreover have "endpoints_ok ?s"
      using old by (auto simp: endpoints_ok_def om_find_set_any om_wf_set new_endpoint_def less_Suc_eq)
    moreover have "connected_ok ?s"
      using old by (fastforce simp: connected_ok_def less_Suc_eq)
    moreover have "clients_ok ?s"
      unfolding clients_ok_def
    proof (intro allI impI)
      fix fd q assume "om_find (rt_Clients ?s) fd = Some q"
      then have q: "q < rt_next s" "0 \<le> fd" "ep_WSSocket (rt_heap s q) = Some fd" "om_find (rt_EndPoints s) (ep_Id (rt_heap s q)) = Some q"
        using old by (simp_all add: clients_ok_def)
      with assms show "q < rt_next ?s \<and> 0 \<le> fd \<and> ep_WSSocket (rt_heap ?s q) = Some fd \<and>
          om_find (rt_EndPoints ?s) (ep_Id (rt_heap ?s q)) = Some q"
        by (auto simp: om_find_set_any)
    qed
    ultimately show ?thesis by (simp add: rtty_inv_def)
  qed
  then show ?thesis unfolding CreateEndPoint_def by (intro rt_safe safe_upd)
qed

text \<open>A browser comes to an end point that has none yet.\<close>

lemma inv_new_browser:
  assumes "rtty_inv s" and "om_find (rt_EndPoints s) ident = Some p" and "ep_WSSocket (rt_heap s p) = None"
  shows "rtty_inv (s\<lparr> rt_heap := (rt_heap s)(p := (rt_heap s p)\<lparr> ep_WSSocket := Some fd, ep_ClientConnected := now \<rparr>) \<rparr>)" (is "rtty_inv ?s")
proof -
  note old = assms(1) [unfolded rtty_inv_def]
  have "heap_ok ?s" by (rule heap_ok_cong [of s]) (use old in simp_all)
  moreover have "endpoints_ok ?s" by (rule endpoints_ok_cong [of s]) (use old in simp_all)
  moreover have "connected_ok ?s" by (rule connected_ok_cong [of s]) (use old in simp_all)
  moreover have "clients_ok ?s"
    unfolding clients_ok_def
  proof (intro allI impI)
    fix fd' q assume "om_find (rt_Clients ?s) fd' = Some q"
    then have q: "q < rt_next s" "0 \<le> fd'" "ep_WSSocket (rt_heap s q) = Some fd'" "om_find (rt_EndPoints s) (ep_Id (rt_heap s q)) = Some q"
      using old by (simp_all add: clients_ok_def)
    then have "rt_heap ?s q = rt_heap s q" using assms(3) by auto
    with q show "q < rt_next ?s \<and> 0 \<le> fd' \<and> ep_WSSocket (rt_heap ?s q) = Some fd' \<and>
        om_find (rt_EndPoints ?s) (ep_Id (rt_heap ?s q)) = Some q" by (simp del: fun_upd_apply)
  qed
  ultimately show ?thesis by (simp add: rtty_inv_def)
qed

lemma inv_client:
  assumes "rtty_inv s" and "om_find (rt_EndPoints s) (ep_Id (rt_heap s p)) = Some p" and "ep_WSSocket (rt_heap s p) = Some fd" and "0 \<le> fd"
  shows "rtty_inv (s\<lparr> rt_Clients := om_set fd p (rt_Clients s) \<rparr>)" (is "rtty_inv ?s")
proof -
  note old = assms(1) [unfolded rtty_inv_def]
  have "heap_ok ?s" by (rule heap_ok_cong [of s]) (use old in simp_all)
  moreover have "endpoints_ok ?s" by (rule endpoints_ok_cong [of s]) (use old in simp_all)
  moreover have "connected_ok ?s" by (rule connected_ok_cong [of s]) (use old in simp_all)
  moreover have "clients_ok ?s"
    unfolding clients_ok_def
  proof (intro allI impI)
    fix fd' q assume q: "om_find (rt_Clients ?s) fd' = Some q"
    show "q < rt_next ?s \<and> 0 \<le> fd' \<and> ep_WSSocket (rt_heap ?s q) = Some fd' \<and>
        om_find (rt_EndPoints ?s) (ep_Id (rt_heap ?s q)) = Some q"
    proof (cases "fd' = fd")
      case True
      then have "q = p" using q by (simp add: om_find_set_any)
      moreover have "p < rt_next s" using old assms(2) unfolding endpoints_ok_def by blast
      ultimately show ?thesis using True assms(2-4) by simp
    next
      case False
      then have "om_find (rt_Clients s) fd' = Some q" using q by (simp add: om_find_set_any)
      then show ?thesis using old by (simp add: clients_ok_def)
    qed
  qed
  ultimately show ?thesis by (simp add: rtty_inv_def)
qed

lemma safe_CreateWSClient:
  assumes "env_ok e" and "ws \<noteq> Inl erase_end" and "\<And>fd. ws = Inr fd \<Longrightarrow> 0 \<le> fd" and "options \<noteq> Inl erase_end"
  shows "safe (CreateWSClient e ident ws options) s"
proof (cases "rtty_inv s")
  case inv: True
  show ?thesis unfolding CreateWSClient_def
  proof (intro safe_with safe_option safe_ret safe_if safe_recover safe_bind safe_lift assms(2))
    fix p fd s1
    assume p: "om_find (rt_EndPoints s) ident = Some p" "\<not> ep_WSSocket (rt_heap s p) \<noteq> None"
      and "lift_exn ws s = (Inr fd, s1)"
    then have s1: "s1 = s" and fd: "0 \<le> fd" using assms(3) by (auto simp: lift_exn_def)
    let ?s = "s\<lparr> rt_heap := (rt_heap s)(p := (rt_heap s p)\<lparr> ep_WSSocket := Some fd, ep_ClientConnected := rt_now e \<rparr>) \<rparr>"
    have upd: "on_ep p (\<lambda>c. c\<lparr> ep_WSSocket := Some fd, ep_ClientConnected := rt_now e \<rparr>) s = (Inr (), ?s)"
      by (simp only: on_ep_def rt_upd_def)
    have inv': "rtty_inv ?s" using p inv by (intro inv_new_browser) auto
    show "safe (on_ep p (\<lambda>c. c\<lparr> ep_WSSocket := Some fd, ep_ClientConnected := rt_now e \<rparr>)) s1"
      using inv' by (simp add: s1 safe_def upd)
    fix u s2
    assume "on_ep p (\<lambda>c. c\<lparr> ep_WSSocket := Some fd, ep_ClientConnected := rt_now e \<rparr>) s1 = (Inr u, s2)"
    then have s2: "s2 = ?s" using upd s1 by simp
    show "options \<noteq> Inl erase_end" by (rule assms(4))
    fix u' s3 assume "lift_exn options s2 = (Inr u', s3)"
    then have s3: "s3 = ?s" using s2 by (simp add: lift_exn_def)
    have "rtty_inv (?s\<lparr> rt_Clients := om_set fd p (rt_Clients ?s) \<rparr>)"
      using inv' fd p(1) inv by (intro inv_client) (auto simp: rtty_inv_def endpoints_ok_def)
    then show "safe (AddClientEventHandlers fd p) s3"
      unfolding AddClientEventHandlers_def s3 by (intro safe_upd)
  next
    fix p fd s1 u s2 u' s3 v s4
    assume "rtty_inv s4"
    show "safe (let c = rt_heap s4 p in
        if ep_DeviceIsAttached c \<and> \<not> ep_completed c \<and> om_find (rt_Sockets s4) (ep_Device_fd c) \<noteq> None
        then andThen (Login e (ep_Device_fd c) p) (\<lambda>_. ret ()) else ret ()) s4"
      unfolding Let_def by (intro rt_safe assms(1))
  qed
next
  case False
  then show ?thesis by (simp add: safe_def)
qed

lemma safe_onDeviceAccept:
  assumes "om_find (rt_Sockets s) (in_fd c) = None"
  shows "safe (onDeviceAccept c) s"
proof -
  have "rtty_inv (s\<lparr> rt_Sockets := om_set (in_fd c) k (rt_Sockets s) \<rparr>)" (is "rtty_inv ?s") if inv: "rtty_inv s" for k
  proof -
    note old = inv [unfolded rtty_inv_def]
    have "heap_ok ?s" by (rule heap_ok_cong [of s]) (use old in simp_all)
    moreover have "endpoints_ok ?s" by (rule endpoints_ok_cong [of s]) (use old in simp_all)
    moreover have "clients_ok ?s" by (rule clients_ok_cong [of s]) (use old in simp_all)
    moreover have "connected_ok ?s"
      unfolding connected_ok_def
    proof (intro allI impI)
      fix fd p assume "om_find (rt_Connected ?s) fd = Some p"
      then obtain k' where k': "p < rt_next s" "om_find (rt_Sockets s) fd = Some k'" "ep_mTLS (rt_heap s p) \<longrightarrow> ss_valid k'"
        using old by (auto simp: connected_ok_def)
      with assms have "fd \<noteq> in_fd c" by auto
      with k' show "p < rt_next ?s \<and> (\<exists>k. om_find (rt_Sockets ?s) fd = Some k \<and> (ep_mTLS (rt_heap ?s p) \<longrightarrow> ss_valid k))"
        by (simp add: om_find_set_any)
    qed
    ultimately show ?thesis by (simp add: rtty_inv_def)
  qed
  then show ?thesis unfolding onDeviceAccept_def AddNewSocket_def by (intro rt_safe safe_upd)
qed

section \<open>Runs of the server\<close>

datatype terminal_event =
    Ev_Create bool string string string string bool
  | Ev_Browser string "cpp_exn + int" "cpp_exn + unit"
  | Ev_Accept incoming
  | Ev_Device int "cpp_exn + bytes"
  | Ev_DeviceGone int
  | Ev_Frame int browser_frame
  | Ev_BrowserGone int
  | Ev_Timer

definition rtty_event :: "rtty_env \<Rightarrow> terminal_event \<Rightarrow> unit rop" where
  "rtty_event e ev =
     (case ev of
        Ev_Create free ident token user serial mTLS \<Rightarrow> andThen (CreateEndPoint e free ident token user serial mTLS) (\<lambda>_. ret ())
      | Ev_Browser ident ws options \<Rightarrow> CreateWSClient e ident ws options
      | Ev_Accept c \<Rightarrow> onDeviceAccept c
      | Ev_Device fd received \<Rightarrow> onConnectedDeviceSocketReadable e fd received
      | Ev_DeviceGone fd \<Rightarrow> onConnectedDeviceSocketShutdown fd
      | Ev_Frame fd frame \<Rightarrow> onClientSocketReadable e fd frame
      | Ev_BrowserGone fd \<Rightarrow> onClientSocketShutdown fd
      | Ev_Timer \<Rightarrow> onTimer e)"

text \<open>
  What can come: an identifier of a new end point has not been used before, a new socket has a number that no open one
  has, and the libraries raise exceptions of their own.
\<close>

definition may_come :: "rtty \<Rightarrow> terminal_event \<Rightarrow> bool" where
  "may_come s ev =
     (case ev of
        Ev_Create free ident token user serial mTLS \<Rightarrow> \<forall>q<rt_next s. ep_Id (rt_heap s q) \<noteq> ident
      | Ev_Browser ident ws options \<Rightarrow> (case ws of Inl x \<Rightarrow> x \<noteq> erase_end | Inr fd \<Rightarrow> 0 \<le> fd) \<and> options \<noteq> Inl erase_end
      | Ev_Accept c \<Rightarrow> om_find (rt_Sockets s) (in_fd c) = None
      | Ev_Frame fd frame \<Rightarrow> frame \<noteq> Fr_Raise erase_end
      | _ \<Rightarrow> True)"

lemma rtty_event_safe:
  assumes "env_ok e" and "may_come s ev"
  shows "safe (rtty_event e ev) s"
proof (cases ev)
  case (Ev_Create free ident token user serial mTLS)
  with assms show ?thesis
    by (simp add: rtty_event_def may_come_def, intro safe_bind safe_ret safe_CreateEndPoint)
next
  case (Ev_Browser ident ws options)
  with assms show ?thesis by (auto simp: rtty_event_def may_come_def intro!: safe_CreateWSClient)
next
  case (Ev_Accept c)
  with assms show ?thesis by (simp add: rtty_event_def may_come_def safe_onDeviceAccept)
next
  case (Ev_Device fd received)
  with assms show ?thesis by (simp add: rtty_event_def safe_device_readable)
next
  case (Ev_DeviceGone fd)
  then show ?thesis by (simp add: rtty_event_def onConnectedDeviceSocketShutdown_def safe_ended_socket)
next
  case (Ev_Frame fd frame)
  with assms show ?thesis by (auto simp: rtty_event_def may_come_def intro!: safe_client_readable)
next
  case (Ev_BrowserGone fd)
  then show ?thesis
    by (simp add: rtty_event_def onClientSocketShutdown_def, intro safe_with safe_option safe_ret safe_client_end)
next
  case Ev_Timer
  show ?thesis unfolding safe_def
  proof
    assume "rtty_inv s"
    from onTimer_result [OF this, of e] Ev_Timer
    show "rtty_inv (snd (rtty_event e ev s)) \<and> fst (rtty_event e ev s) \<noteq> Inl erase_end" by (auto simp: rtty_event_def)
  qed
qed

definition rtty_fresh :: "rtty \<Rightarrow> bool" where
  "rtty_fresh s \<longleftrightarrow> rt_next s = 0 \<and> rt_EndPoints s = [] \<and> rt_Connected s = [] \<and> rt_Clients s = [] \<and> rt_Sockets s = []"

inductive rtty_reach :: "rtty \<Rightarrow> bool" where
  start: "rtty_fresh s \<Longrightarrow> rtty_reach s"
| event: "rtty_reach s \<Longrightarrow> env_ok e \<Longrightarrow> may_come s ev \<Longrightarrow> rtty_event e ev s = (r, s') \<Longrightarrow> rtty_reach s'"

lemma rtty_reach_inv: "rtty_reach s \<Longrightarrow> rtty_inv s"
proof (induction rule: rtty_reach.induct)
  case (start s)
  then show ?case by (simp add: rtty_fresh_def rtty_inv_defs)
next
  case (event s e ev r s')
  with rtty_event_safe show ?case by (metis safe_def snd_conv)
qed

section \<open>What every run guarantees\<close>

definition demo_token :: string where
  "demo_token = replicate 32 (CHR ''a'')"

text \<open>A device whose certificate is valid registers with an end point that asks for one.\<close>

definition demo_register :: bytes where
  "demo_register = [msgTypeRegister, 0, 68] @ replicate 32 97 @ [0, 100, 0] @ replicate 32 97 @ [0]"

definition demo_events :: "terminal_event list" where
  "demo_events =
     [Ev_Create True demo_token demo_token ''operator'' ''0011'' True,
      Ev_Accept \<lparr> in_fd = 5, in_secure = True, in_start = 0, in_handshake = [(1, 0)], in_cid = ''c'', in_certificate = Some (''0011'', True) \<rparr>,
      Ev_Device 5 (Inr demo_register)]"

fun run_events :: "rtty_env \<Rightarrow> terminal_event list \<Rightarrow> rtty \<Rightarrow> rtty" where
  "run_events e [] s = s"
| "run_events e (ev # evs) s = run_events e evs (snd (rtty_event e ev s))"

fun may_come_all :: "rtty_env \<Rightarrow> terminal_event list \<Rightarrow> rtty \<Rightarrow> bool" where
  "may_come_all e [] s \<longleftrightarrow> True"
| "may_come_all e (ev # evs) s \<longleftrightarrow> may_come s ev \<and> may_come_all e evs (snd (rtty_event e ev s))"

lemma run_events_reach:
  "rtty_reach s \<Longrightarrow> env_ok e \<Longrightarrow> may_come_all e evs s \<Longrightarrow> rtty_reach (run_events e evs s)"
proof (induction evs arbitrary: s)
  case (Cons ev evs)
  have one: "may_come s ev" and rest: "may_come_all e evs (snd (rtty_event e ev s))" using Cons.prems(3) by simp_all
  have "rtty_reach (snd (rtty_event e ev s))"
    by (rule rtty_reach.event [OF Cons.prems(1,2) one prod.collapse [symmetric]])
  from Cons.IH [OF this Cons.prems(2) rest] show ?case by simp
qed simp

lemma demo_start: "rtty_reach demo_terminals"
  by (rule rtty_reach.start) (simp add: rtty_fresh_def demo_terminals_def)

lemma demo_env_ok: "env_ok (demo_terminal_env now)"
  by (simp add: env_ok_def demo_terminal_env_def erase_end_def)

lemma demo_reach: "rtty_reach (run_events (demo_terminal_env 0) demo_events demo_terminals)"
proof (rule run_events_reach [OF demo_start demo_env_ok])
  show "may_come_all (demo_terminal_env 0) demo_events demo_terminals"
    by code_simp
qed

lemma demo_connected:
  "om_find (rt_Connected (run_events (demo_terminal_env 0) demo_events demo_terminals)) 5 = Some 0 \<and>
   ep_mTLS (rt_heap (run_events (demo_terminal_env 0) demo_events demo_terminals) 0)"
  by code_simp

text \<open>
  C12: In every run of the terminal server, whatever devices and browsers send, in whatever order the sockets are read,
  closed and fail and the timer runs, no callback erases an end point that is not in the map any more: the iterator
  that is erased without a look at it is never the end of the map.
\<close>

theorem terminal_never_erased_twice:
  assumes "rtty_reach s" and "env_ok e" and "may_come s ev"
  shows "fst (rtty_event e ev s) \<noteq> Inl (Undefined_Behaviour ''erase of the end of a map'')"
  using rtty_event_safe [OF assms(2,3)] rtty_reach_inv [OF assms(1)]
  by (simp add: safe_def erase_end_def)

theorem terminal_never_erased_twice_witness:
  "fst (rtty_event (demo_terminal_env 0) (Ev_DeviceGone 5) (run_events (demo_terminal_env 0) demo_events demo_terminals)) \<noteq>
     Inl (Undefined_Behaviour ''erase of the end of a map'')"
  by (rule terminal_never_erased_twice [OF demo_reach demo_env_ok]) (simp add: may_come_def)

text \<open>
  C11: In every run of the terminal server, a device that is attached to an end point has an open TLS socket, and when
  the end point asks for a certificate, the certificate of that socket was found valid.
\<close>

theorem terminal_certificate_needed:
  assumes "rtty_reach s" and "om_find (rt_Connected s) fd = Some p"
  shows "\<exists>k. om_find (rt_Sockets s) fd = Some k \<and> (ep_mTLS (rt_heap s p) \<longrightarrow> ss_valid k)"
  using rtty_reach_inv [OF assms(1)] assms(2) unfolding rtty_inv_def connected_ok_def by blast

theorem terminal_certificate_needed_witness:
  "\<exists>k. om_find (rt_Sockets (run_events (demo_terminal_env 0) demo_events demo_terminals)) 5 = Some k \<and> ss_valid k"
  using terminal_certificate_needed [OF demo_reach conjunct1 [OF demo_connected]] demo_connected by blast

text \<open>
  In every reachable state of the terminal server a run of the timer returns and removes exactly the end points
  that were made more than two minutes ago and have not been completed; all others stay, in their order.
\<close>

theorem terminal_timer_exact:
  assumes "rtty_reach s"
  shows "\<exists>s'. onTimer e s = (Inr (), s') \<and> rt_EndPoints s' = filter (\<lambda>m. \<not> stale e s m) (rt_EndPoints s)"
  using onTimer_result [OF rtty_reach_inv [OF assms], of e] by blast

theorem terminal_timer_exact_witness:
  "\<exists>s'. onTimer (demo_terminal_env 130000000000) (run_events (demo_terminal_env 0) (take 1 demo_events) demo_terminals) = (Inr (), s') \<and>
     rt_EndPoints s' = []"
proof -
  let ?s = "run_events (demo_terminal_env 0) (take 1 demo_events) demo_terminals"
  have "rtty_reach ?s"
    by (rule run_events_reach [OF demo_start demo_env_ok]) code_simp
  moreover have "filter (\<lambda>m. \<not> stale (demo_terminal_env 130000000000) ?s m) (rt_EndPoints ?s) = []"
    by code_simp
  ultimately show ?thesis using terminal_timer_exact [of ?s "demo_terminal_env 130000000000"] by simp
qed

end
