(* ===== verification/GW_RttyMeet.thy ===== *)
theory GW_RttyMeet
  imports GW_RttyStream
begin

text \<open>
  How a terminal comes together: the device registers with an end point and the browser asks for its socket, in either
  order.
\<close>

section \<open>The registration of a device\<close>

text \<open>A registration: the identifier, a description and the token, each ended by a zero byte.\<close>

definition register_texts :: "bytes \<Rightarrow> bytes \<Rightarrow> bytes \<Rightarrow> bytes" where
  "register_texts i d t = i @ [0] @ d @ [0] @ t @ [0]"

definition register_message :: "bytes \<Rightarrow> bytes \<Rightarrow> bytes \<Rightarrow> bytes" where
  "register_message i d t =
     (let n = length (register_texts i d t) in [msgTypeRegister, of_nat (n div 256), of_nat (n mod 256)] @ register_texts i d t)"

definition register_answer :: bytes where
  "register_answer = [msgTypeRegister, 0, 4, 0, 0x4F, 0x4B, 0]"

definition login_message :: bytes where
  "login_message = [msgTypeLogin, 0, 0]"

lemma ReadString_loop_text:
  assumes "fifo e" and "0 \<notin> set t" and "length t < n"
  shows "ReadString_loop e n (t @ 0 # b) = (t, b)"
  using assms(2,3)
proof (induction t arbitrary: n)
  case Nil
  then show ?case using assms(1) by (cases n) (simp_all add: fifo_def)
next
  case (Cons c t)
  then obtain m where m: "n = Suc m" by (cases n) auto
  have "rt_drain e 1 (c # t @ 0 # b) = t @ 0 # b" using assms(1) by (simp add: fifo_def)
  with Cons m show ?case by simp
qed

lemma ReadString_text:
  assumes "fifo e" and "0 \<notin> set t"
  shows "ReadString e (t @ 0 # b) = (text_of_bytes t, b)"
  using ReadString_loop_text [OF assms, of "length (t @ 0 # b)" b] by (simp add: ReadString_def)

text \<open>Two stores of end points are the same when every field is.\<close>

lemma heap_eqI:
  fixes h :: "nat \<Rightarrow> endpoint"
  assumes "\<And>q. h q = h' q"
  shows "h = h'"
  using assms by (rule ext)

text \<open>What a registration does when all sends succeed: the state it leaves.\<close>

definition attached :: "rtty_env \<Rightarrow> int \<Rightarrow> nat \<Rightarrow> rtty \<Rightarrow> rtty" where
  "attached e fd p s =
     (let c = rt_heap s p; login = ep_WSSocket c \<noteq> None in
      s\<lparr> rt_heap := (rt_heap s)(p := c\<lparr> ep_Device_fd := fd, ep_tx := ep_tx c + (if login then 10 else 7), ep_DeviceConnected := rt_now e,
             ep_DeviceIsAttached := True, ep_DeviceSocket := Some fd, ep_completed := login \<or> ep_completed c \<rparr>),
         rt_Connected := om_set fd p (rt_Connected s),
         rt_effects := rt_effects s @ [Rt_Device fd register_answer] @ (if login then [Rt_Device fd login_message] else []) \<rparr>)"

lemma attach_device_result:
  assumes "\<And>es fd bs. rt_send e es fd bs = Inr (int (length bs))"
  shows "attach_device e fd p s = (Inr True, attached e fd p s)"
proof -
  have "fst (attach_device e fd p s) = Inr True \<and> snd (attach_device e fd p s) = attached e fd p s"
    by (cases "ep_WSSocket (rt_heap s p)"; intro conjI rtty.equality heap_eqI endpoint.equality)
       (simp_all add: attach_device_def attached_def false_on_exn_def recover_def andThen_def on_ep_def rt_upd_def SendBytes_def with_rt_def
        lift_exn_def rt_emit_def ret_def assms Login_def register_answer_def login_message_def msg_types Let_def add.assoc)
  then show ?thesis by (cases "attach_device e fd p s") simp
qed

text \<open>The socket of the device is known, nothing is left in its buffer, and its certificate is good enough.\<close>

definition may_register :: "rtty \<Rightarrow> int \<Rightarrow> nat \<Rightarrow> bytes \<Rightarrow> bytes \<Rightarrow> bytes \<Rightarrow> bool" where
  "may_register s fd p i d t \<longleftrightarrow> om_wf (rt_Sockets s) \<and>
     (\<exists>k. om_find (rt_Sockets s) fd = Some k \<and> ss_buffer k = [] \<and> (ep_mTLS (rt_heap s p) \<longrightarrow> ss_valid k)) \<and>
     om_find (rt_EndPoints s) (text_of_bytes i) = Some p \<and> ep_Token (rt_heap s p) = text_of_bytes t \<and>
     length i = 32 \<and> length t = 32 \<and> d \<noteq> [] \<and> length d < 65000 \<and> 0 \<notin> set i \<and> 0 \<notin> set d \<and> 0 \<notin> set t"

lemma register_message_result:
  assumes "fifo e" and "\<And>es fd bs. rt_send e es fd bs = Inr (int (length bs))" and "may_register s fd p i d t"
  shows "do_msgTypeRegister e fd (register_texts i d t) s = (Inr (True, []), attached e fd p s)"
proof -
  have texts: "ReadString e (register_texts i d t) = (text_of_bytes i, d @ 0 # t @ [0])"
    "ReadString e (d @ 0 # t @ [0]) = (text_of_bytes d, t @ [0])" "ReadString e (t @ [0]) = (text_of_bytes t, [])"
    using assms(3) ReadString_text [OF assms(1)] by (simp_all add: register_texts_def may_register_def)
  have "length (text_of_bytes i) = 32" "length (text_of_bytes t) = 32" "text_of_bytes d \<noteq> []"
    using assms(3) by (simp_all add: may_register_def text_of_bytes_def)
  with assms(3) attach_device_result [of e fd p s, OF assms(2)] show ?thesis
    by (auto simp: do_msgTypeRegister_def texts with_rt_def RTTY_DEVICE_TOKEN_LENGTH_def may_register_def FindRegisteredEndPoint_def
        andThen_def ret_def)
qed

lemma om_set_same: "om_wf m \<Longrightarrow> om_find m k = Some v \<Longrightarrow> om_set k v m = m"
proof (induction m)
  case (Cons x m)
  obtain a b where x: "x = (a, b)" by (cases x)
  show ?case
  proof (cases "a = k")
    case True
    with Cons x show ?thesis by (simp add: om_find_def)
  next
    case False
    then have m: "om_find m k = Some v" using Cons.prems x by (simp add: om_find_def)
    then have "(k, v) \<in> set m" using Cons.prems x by (auto simp: om_wf_Cons om_find_iff)
    then have "a < k" using Cons.prems(1) x by (auto simp: om_wf_Cons om_wf_def)
    with m Cons x show ?thesis by (auto simp: om_wf_Cons)
  qed
qed (simp add: om_find_def)

lemma register_read:
  assumes "fifo e" and "\<And>es fd bs. rt_send e es fd bs = Inr (int (length bs))" and "may_register s fd p i d t"
  shows "onConnectedDeviceSocketReadable e fd (Inr (register_message i d t)) s = (Inr (), attached e fd p s)"
proof -
  let ?m = "register_message i d t" and ?t = "register_texts i d t"
  let ?n = "length ?t"
  have n: "?n < 65536" using assms(3) by (simp add: register_texts_def may_register_def)
  then have "?n div 256 < 256" by (simp add: less_mult_imp_div_less)
  then have hdr: "?m ! 0 = msgTypeRegister" "unat (?m ! 1) * 256 + unat (?m ! 2) = ?n"
    by (simp_all add: register_message_def Let_def unat_of_nat take_bit_nat_eq_self)
  have len: "length ?m = 3 + ?n" by (simp add: register_message_def Let_def)
  have drain: "rt_drain e RTTY_HDR_SIZE ?m = ?t"
    using assms(1) by (simp add: fifo_def RTTY_HDR_SIZE_def len) (simp add: register_message_def Let_def)
  have one: "do_message e fd msgTypeRegister ?n ?t ([], 0) s = (Inr (True, [], [], 0), attached e fd p s)"
    using register_message_result [OF assms] by (simp add: do_message_def plain_message_def andThen_def ret_def)
  obtain k where k: "om_find (rt_Sockets s) fd = Some k" "ss_buffer k = []" using assms(3) by (auto simp: may_register_def)
  have "device_messages e fd (length ?m) ?m ([], 0) s = (Inr (True, [], [], 0), attached e fd p s)"
  proof -
    have "length ?m = Suc (2 + ?n)" using len by simp
    moreover have "device_messages e fd (2 + ?n) [] ([], 0) (attached e fd p s) = (Inr (True, [], [], 0), attached e fd p s)"
      by (simp add: ret_def RTTY_HDR_SIZE_def)
    moreover have "\<not> length ?m < RTTY_HDR_SIZE" "\<not> length ?m < RTTY_HDR_SIZE + ?n" using len by (simp_all add: RTTY_HDR_SIZE_def)
    ultimately show ?thesis
      by (simp only: device_messages.simps Let_def hdr drain if_False if_True
          andThen_result [of "do_message e fd msgTypeRegister ?n ?t ([], 0)", OF one] prod.case)
  qed
  moreover have "set_buffer fd [] (attached e fd p s) = (Inr (), attached e fd p s)"
  proof -
    have "rt_Sockets (attached e fd p s) = rt_Sockets s" by (simp add: attached_def Let_def)
    then show ?thesis using k assms(3) by (simp add: set_buffer_def rt_upd_def om_set_same may_register_def)
  qed
  moreover have "?m \<noteq> []" using len by auto
  ultimately show ?thesis using k
    by (simp add: onConnectedDeviceSocketReadable_def with_rt_def recover_def andThen_def ret_def Let_def)
qed

section \<open>The browser\<close>

definition browsed :: "rtty_env \<Rightarrow> int \<Rightarrow> nat \<Rightarrow> rtty \<Rightarrow> rtty" where
  "browsed e w p s =
     (let c = rt_heap s p; fd = ep_Device_fd c;
          login = ep_DeviceIsAttached c \<and> \<not> ep_completed c \<and> om_find (rt_Sockets s) fd \<noteq> None in
      s\<lparr> rt_heap := (rt_heap s)(p := c\<lparr> ep_WSSocket := Some w, ep_ClientConnected := rt_now e,
             ep_tx := ep_tx c + (if login then 3 else 0), ep_completed := login \<or> ep_completed c \<rparr>),
         rt_Clients := om_set w p (rt_Clients s),
         rt_effects := rt_effects s @ (if login then [Rt_Device fd login_message] else []) \<rparr>)"

lemma CreateWSClient_result:
  assumes "\<And>es fd bs. rt_send e es fd bs = Inr (int (length bs))"
    and "om_find (rt_EndPoints s) ident = Some p" and "ep_WSSocket (rt_heap s p) = None"
  shows "CreateWSClient e ident (Inr w) (Inr ()) s = (Inr (), browsed e w p s)"
proof -
  let ?c = "rt_heap s p"
  have "fst (CreateWSClient e ident (Inr w) (Inr ()) s) = Inr () \<and> snd (CreateWSClient e ident (Inr w) (Inr ()) s) = browsed e w p s"
    by (cases "ep_DeviceIsAttached ?c \<and> \<not> ep_completed ?c \<and> om_find (rt_Sockets s) (ep_Device_fd ?c) \<noteq> None";
        intro conjI rtty.equality heap_eqI endpoint.equality)
       (simp_all add: CreateWSClient_def browsed_def false_on_exn_def recover_def andThen_def on_ep_def rt_upd_def SendBytes_def with_rt_def
        lift_exn_def rt_emit_def ret_def assms Login_def login_message_def msg_types Let_def AddClientEventHandlers_def,
        auto)
  then show ?thesis by (cases "CreateWSClient e ident (Inr w) (Inr ()) s") simp
qed

lemma meet_state:
  assumes "ep_WSSocket (rt_heap s p) = None" and "\<not> ep_DeviceIsAttached (rt_heap s p)" and "\<not> ep_completed (rt_heap s p)"
    and "om_find (rt_Sockets s) fd \<noteq> None"
  shows "browsed e w p (attached e fd p s) = attached e fd p (browsed e w p s)"
  by (intro rtty.equality heap_eqI endpoint.equality) (use assms in \<open>simp_all add: browsed_def attached_def Let_def\<close>)

text \<open>
  C14: It does not matter whether the device or the browser comes first. When a device registers with the identifier and
  token of an end point and the browser asks for the same end point, both orders succeed and lead to the same state:
  the two are connected through the end point, the session is complete, and the device was accepted and told to log in
  exactly once, in that order.
\<close>

theorem terminal_meets_in_any_order:
  assumes "fifo e" and "\<And>es fd bs. rt_send e es fd bs = Inr (int (length bs))" and "may_register s fd p i d t"
    and "ep_WSSocket (rt_heap s p) = None" and "\<not> ep_DeviceIsAttached (rt_heap s p)" and "\<not> ep_completed (rt_heap s p)"
  shows "\<exists>s'.
    andThen (onConnectedDeviceSocketReadable e fd (Inr (register_message i d t))) (\<lambda>_.
      CreateWSClient e (text_of_bytes i) (Inr w) (Inr ())) s = (Inr (), s') \<and>
    andThen (CreateWSClient e (text_of_bytes i) (Inr w) (Inr ())) (\<lambda>_.
      onConnectedDeviceSocketReadable e fd (Inr (register_message i d t))) s = (Inr (), s') \<and>
    ep_completed (rt_heap s' p) \<and> om_find (rt_Connected s') fd = Some p \<and> om_find (rt_Clients s') w = Some p \<and>
    rt_effects s' = rt_effects s @ [Rt_Device fd register_answer, Rt_Device fd login_message]"
proof -
  have find: "om_find (rt_EndPoints s) (text_of_bytes i) = Some p" and known: "om_find (rt_Sockets s) fd \<noteq> None"
    using assms(3) by (auto simp: may_register_def)
  note device = register_read [OF assms(1,2)]
  let ?a = "attached e fd p s" and ?b = "browsed e w p s"
  have "CreateWSClient e (text_of_bytes i) (Inr w) (Inr ()) ?a = (Inr (), browsed e w p ?a)"
    by (rule CreateWSClient_result [OF assms(2)]) (use find assms(4) in \<open>simp_all add: attached_def Let_def\<close>)
  moreover have "may_register ?b fd p i d t"
    using assms(3) by (simp add: may_register_def browsed_def Let_def)
  from device [OF this] have
    "onConnectedDeviceSocketReadable e fd (Inr (register_message i d t)) ?b = (Inr (), attached e fd p ?b)" .
  moreover note device [OF assms(3)] CreateWSClient_result [OF assms(2) find assms(4), of w] meet_state [OF assms(4-6) known]
  ultimately show ?thesis
    by (intro exI [of _ "attached e fd p ?b"])
       (simp add: andThen_def, simp add: attached_def browsed_def Let_def om_find_set_any assms(4-6))
qed

definition demo_waiting :: rtty where
  "demo_waiting = demo_terminals
     \<lparr> rt_heap := \<lambda>_. new_endpoint 0 (replicate 32 (CHR ''a'')) (replicate 32 (CHR ''a'')) [] [] True, rt_next := 1,
       rt_EndPoints := [(replicate 32 (CHR ''a''), 0)],
       rt_Sockets := [(5, \<lparr> ss_valid = True, ss_cid = [], ss_cn = [], ss_buffer = [] \<rparr>)] \<rparr>"

theorem terminal_meets_in_any_order_witness:
  "\<exists>s'. andThen (CreateWSClient (demo_terminal_env 0) (replicate 32 (CHR ''a'')) (Inr 7) (Inr ())) (\<lambda>_.
      onConnectedDeviceSocketReadable (demo_terminal_env 0) 5 (Inr (register_message (replicate 32 97) [100] (replicate 32 97))))
      demo_waiting = (Inr (), s') \<and> ep_completed (rt_heap s' 0)"
proof -
  have a: "text_of_bytes (replicate 32 97) = replicate 32 (CHR ''a'')" by code_simp
  have "fifo (demo_terminal_env 0)"
    by (auto simp: fifo_def demo_terminal_env_def)
  moreover have "rt_send (demo_terminal_env 0) es fd bs = Inr (int (length bs))" for es fd bs
    by (simp add: demo_terminal_env_def)
  moreover have "may_register demo_waiting 5 0 (replicate 32 97) [100] (replicate 32 97)"
    by (simp add: may_register_def a demo_waiting_def demo_terminals_def om_find_def om_wf_def new_endpoint_def)
  moreover have "ep_WSSocket (rt_heap demo_waiting 0) = None" "\<not> ep_DeviceIsAttached (rt_heap demo_waiting 0)"
    "\<not> ep_completed (rt_heap demo_waiting 0)"
    by (simp_all add: demo_waiting_def new_endpoint_def)
  ultimately show ?thesis
    using terminal_meets_in_any_order [of "demo_terminal_env 0" demo_waiting 5 0 "replicate 32 97" "[100]" "replicate 32 97" 7]
    unfolding a by blast
qed

end
