(* ===== verification/GW_Users.thy ===== *)
theory GW_Users
  imports GW_Handler GW_CommandObjects
begin

text \<open>
  Users and tokens (\<^verbatim>\<open>src/RESTObjects/RESTAPI_SecurityObjects.cpp\<close>): what the security service answers about a token, in
  its JSON form. A reader answers whether it went through; one that is inside another is not asked, and leaves what was
  read before its failure. \<open>same\<close> is \<^verbatim>\<open>Poco::icompare\<close>.
\<close>

section \<open>Roles and rights\<close>

definition UserTypeFromString :: "(string \<Rightarrow> string \<Rightarrow> bool) \<Rightarrow> string \<Rightarrow> user_role" where
  "UserTypeFromString same u =
     (if same u ''root'' then ROOT
      else if same u ''admin'' then ADMIN
      else if same u ''subscriber'' then SUBSCRIBER
      else if same u ''partner'' then PARTNER
      else if same u ''csr'' then CSR
      else if same u ''system'' then SYSTEM
      else if same u ''installer'' then INSTALLER
      else if same u ''noc'' then NOC
      else if same u ''accounting'' then ACCOUNTING
      else UNKNOWN)"

datatype resource_access = Access_NONE | Access_READ | Access_MODIFY | Access_DELETE | Access_CREATE | Access_TEST | Access_MOVE

definition ResourceAccessTypeFromString :: "(string \<Rightarrow> string \<Rightarrow> bool) \<Rightarrow> string \<Rightarrow> resource_access" where
  "ResourceAccessTypeFromString same s =
     (if same s ''READ'' then Access_READ
      else if same s ''MODIFY'' then Access_MODIFY
      else if same s ''DELETE'' then Access_DELETE
      else if same s ''CREATE'' then Access_CREATE
      else if same s ''TEST'' then Access_TEST
      else if same s ''MOVE'' then Access_MOVE
      else Access_NONE)"

fun ResourceAccessTypeToString :: "resource_access \<Rightarrow> string" where
  "ResourceAccessTypeToString Access_READ = ''READ''"
| "ResourceAccessTypeToString Access_MODIFY = ''MODIFY''"
| "ResourceAccessTypeToString Access_DELETE = ''DELETE''"
| "ResourceAccessTypeToString Access_CREATE = ''CREATE''"
| "ResourceAccessTypeToString Access_TEST = ''TEST''"
| "ResourceAccessTypeToString Access_MOVE = ''MOVE''"
| "ResourceAccessTypeToString Access_NONE = ''NONE''"

section \<open>Tokens\<close>

record acl_template =
  acl_Read :: bool
  acl_ReadWrite :: bool
  acl_ReadWriteCreate :: bool
  acl_Delete :: bool
  acl_PortalLogin :: bool

definition new_acl :: acl_template where
  "new_acl = \<lparr> acl_Read = True, acl_ReadWrite = True, acl_ReadWriteCreate = True, acl_Delete = True, acl_PortalLogin = True \<rparr>"

definition AclTemplate_to_json :: "acl_template \<Rightarrow> jobject" where
  "AclTemplate_to_json a =
     writes
       [bool_to_json ''Read'' (acl_Read a), bool_to_json ''ReadWrite'' (acl_ReadWrite a),
        bool_to_json ''ReadWriteCreate'' (acl_ReadWriteCreate a), bool_to_json ''Delete'' (acl_Delete a),
        bool_to_json ''PortalLogin'' (acl_PortalLogin a)] []"

definition AclTemplate_from_json :: "poco \<Rightarrow> jobject \<Rightarrow> acl_template partial_reader" where
  "AclTemplate_from_json p obj =
     read_all
       [whole (bool_from_json p obj ''Read'' (\<lambda>v a. a\<lparr> acl_Read := v \<rparr>)),
        whole (bool_from_json p obj ''ReadWrite'' (\<lambda>v a. a\<lparr> acl_ReadWrite := v \<rparr>)),
        whole (bool_from_json p obj ''ReadWriteCreate'' (\<lambda>v a. a\<lparr> acl_ReadWriteCreate := v \<rparr>)),
        whole (bool_from_json p obj ''Delete'' (\<lambda>v a. a\<lparr> acl_Delete := v \<rparr>)),
        whole (bool_from_json p obj ''PortalLogin'' (\<lambda>v a. a\<lparr> acl_PortalLogin := v \<rparr>))]"

record web_token =
  wt_access_token :: string
  wt_refresh_token :: string
  wt_id_token :: string
  wt_token_type :: string
  wt_username :: string
  wt_userMustChangePassword :: bool
  wt_errorCode :: u64
  wt_expires_in :: u64
  wt_idle_timeout :: u64
  wt_acl_template :: acl_template
  wt_created :: u64
  wt_lastRefresh :: u64

definition new_token :: web_token where
  "new_token =
     \<lparr> wt_access_token = [], wt_refresh_token = [], wt_id_token = [], wt_token_type = [], wt_username = [],
       wt_userMustChangePassword = False, wt_errorCode = 0, wt_expires_in = 0, wt_idle_timeout = 0, wt_acl_template = new_acl,
       wt_created = 0, wt_lastRefresh = 0 \<rparr>"

definition WebToken_to_json :: "web_token \<Rightarrow> jobject" where
  "WebToken_to_json t =
     writes
       [str_to_json ''access_token'' (wt_access_token t), str_to_json ''refresh_token'' (wt_refresh_token t),
        str_to_json ''token_type'' (wt_token_type t), u64_to_json ''expires_in'' (wt_expires_in t),
        u64_to_json ''idle_timeout'' (wt_idle_timeout t), u64_to_json ''created'' (wt_created t),
        str_to_json ''username'' (wt_username t), bool_to_json ''userMustChangePassword'' (wt_userMustChangePassword t),
        u64_to_json ''errorCode'' (wt_errorCode t), sub_to_json ''aclTemplate'' (AclTemplate_to_json (wt_acl_template t)),
        u64_to_json ''errorCode'' (wt_errorCode t), u64_to_json ''lastRefresh'' (wt_lastRefresh t)] []"

definition WebToken_from_json :: "poco \<Rightarrow> jobject \<Rightarrow> web_token partial_reader" where
  "WebToken_from_json p obj =
     read_all
       [whole (sub_from_json obj ''aclTemplate'' (\<lambda>o' t. t\<lparr> wt_acl_template := snd (AclTemplate_from_json p o' (wt_acl_template t)) \<rparr>)),
        whole (str_from_json p obj ''access_token'' (\<lambda>v t. t\<lparr> wt_access_token := v \<rparr>)),
        whole (str_from_json p obj ''refresh_token'' (\<lambda>v t. t\<lparr> wt_refresh_token := v \<rparr>)),
        whole (str_from_json p obj ''token_type'' (\<lambda>v t. t\<lparr> wt_token_type := v \<rparr>)),
        whole (u64_from_json p obj ''expires_in'' (\<lambda>v t. t\<lparr> wt_expires_in := v \<rparr>)),
        whole (u64_from_json p obj ''idle_timeout'' (\<lambda>v t. t\<lparr> wt_idle_timeout := v \<rparr>)),
        whole (u64_from_json p obj ''created'' (\<lambda>v t. t\<lparr> wt_created := v \<rparr>)),
        whole (str_from_json p obj ''username'' (\<lambda>v t. t\<lparr> wt_username := v \<rparr>)),
        whole (bool_from_json p obj ''userMustChangePassword'' (\<lambda>v t. t\<lparr> wt_userMustChangePassword := v \<rparr>)),
        whole (u64_from_json p obj ''lastRefresh'' (\<lambda>v t. t\<lparr> wt_lastRefresh := v \<rparr>))]"

section \<open>Users\<close>

definition new_note :: note_info where
  "new_note = \<lparr> created = 0, createdBy = [], note_text = [] \<rparr>"

record mobile_number =
  mp_number :: string
  mp_verified :: bool
  mp_primary :: bool

definition MobilePhoneNumber_to_json :: "mobile_number \<Rightarrow> jobject" where
  "MobilePhoneNumber_to_json m =
     writes [str_to_json ''number'' (mp_number m), bool_to_json ''verified'' (mp_verified m), bool_to_json ''primary'' (mp_primary m)] []"

definition MobilePhoneNumber_from_json :: "poco \<Rightarrow> jobject \<Rightarrow> mobile_number partial_reader" where
  "MobilePhoneNumber_from_json p obj =
     read_all
       [whole (str_from_json p obj ''number'' (\<lambda>v m. m\<lparr> mp_number := v \<rparr>)),
        whole (bool_from_json p obj ''verified'' (\<lambda>v m. m\<lparr> mp_verified := v \<rparr>)),
        whole (bool_from_json p obj ''primary'' (\<lambda>v m. m\<lparr> mp_primary := v \<rparr>))]"

record mfa_info =
  mfa_enabled :: bool
  mfa_method :: string

definition MfaAuthInfo_to_json :: "mfa_info \<Rightarrow> jobject" where
  "MfaAuthInfo_to_json m = writes [bool_to_json ''enabled'' (mfa_enabled m), str_to_json ''method'' (mfa_method m)] []"

definition MfaAuthInfo_from_json :: "poco \<Rightarrow> jobject \<Rightarrow> mfa_info partial_reader" where
  "MfaAuthInfo_from_json p obj =
     read_all [whole (bool_from_json p obj ''enabled'' (\<lambda>v m. m\<lparr> mfa_enabled := v \<rparr>)),
               whole (str_from_json p obj ''method'' (\<lambda>v m. m\<lparr> mfa_method := v \<rparr>))]"

record login_extensions =
  le_mobiles :: "mobile_number list"
  le_mfa :: mfa_info
  le_authenticatorSecret :: string

definition UserLoginLoginExtensions_to_json :: "login_extensions \<Rightarrow> jobject" where
  "UserLoginLoginExtensions_to_json l =
     writes [objs_to_json ''mobiles'' (map MobilePhoneNumber_to_json (le_mobiles l)),
             sub_to_json ''mfa'' (MfaAuthInfo_to_json (le_mfa l)),
             str_to_json ''authenticatorSecret'' (le_authenticatorSecret l)] []"

definition UserLoginLoginExtensions_from_json :: "poco \<Rightarrow> jobject \<Rightarrow> login_extensions partial_reader" where
  "UserLoginLoginExtensions_from_json p obj =
     read_all
       [objs_from_json (\<lambda>o'. snd (MobilePhoneNumber_from_json p o' \<lparr> mp_number = [], mp_verified = False, mp_primary = False \<rparr>))
          obj ''mobiles'' le_mobiles (\<lambda>v l. l\<lparr> le_mobiles := v \<rparr>),
        whole (sub_from_json obj ''mfa'' (\<lambda>o' l. l\<lparr> le_mfa := snd (MfaAuthInfo_from_json p o' (le_mfa l)) \<rparr>)),
        whole (str_from_json p obj ''authenticatorSecret'' (\<lambda>v l. l\<lparr> le_authenticatorSecret := v \<rparr>))]"

record user_info =
  ui_id :: string
  ui_name :: string
  ui_description :: string
  ui_avatar :: string
  ui_email :: string
  ui_validated :: bool
  ui_validationEmail :: string
  ui_validationDate :: u64
  ui_creationDate :: u64
  ui_validationURI :: string
  ui_changePassword :: bool
  ui_lastLogin :: u64
  ui_currentLoginURI :: string
  ui_lastPasswordChange :: u64
  ui_lastEmailCheck :: u64
  ui_waitingForEmailCheck :: bool
  ui_locale :: string
  ui_notes :: "note_info list"
  ui_location :: string
  ui_owner :: string
  ui_suspended :: bool
  ui_blackListed :: bool
  ui_userRole :: user_role
  ui_userTypeProprietaryInfo :: login_extensions
  ui_securityPolicy :: string
  ui_securityPolicyChange :: u64
  ui_currentPassword :: string
  ui_lastPasswords :: "string list"
  ui_oauthType :: string
  ui_oauthUserInfo :: string
  ui_modified :: u64
  ui_signingUp :: string

definition UserInfo_to_json :: "user_info \<Rightarrow> jobject" where
  "UserInfo_to_json u =
     writes
       [str_to_json ''id'' (ui_id u), str_to_json ''name'' (ui_name u), str_to_json ''description'' (ui_description u),
        str_to_json ''avatar'' (ui_avatar u), str_to_json ''email'' (ui_email u),
        bool_to_json ''validated'' (ui_validated u), str_to_json ''validationEmail'' (ui_validationEmail u),
        u64_to_json ''validationDate'' (ui_validationDate u), u64_to_json ''creationDate'' (ui_creationDate u),
        str_to_json ''validationURI'' (ui_validationURI u), bool_to_json ''changePassword'' (ui_changePassword u),
        u64_to_json ''lastLogin'' (ui_lastLogin u), str_to_json ''currentLoginURI'' (ui_currentLoginURI u),
        u64_to_json ''lastPasswordChange'' (ui_lastPasswordChange u),
        u64_to_json ''lastEmailCheck'' (ui_lastEmailCheck u),
        bool_to_json ''waitingForEmailCheck'' (ui_waitingForEmailCheck u), str_to_json ''locale'' (ui_locale u),
        objs_to_json ''notes'' (map NoteInfo_to_json (ui_notes u)), str_to_json ''location'' (ui_location u),
        str_to_json ''owner'' (ui_owner u), bool_to_json ''suspended'' (ui_suspended u),
        bool_to_json ''blackListed'' (ui_blackListed u), str_to_json ''userRole'' (UserTypeToString (ui_userRole u)),
        sub_to_json ''userTypeProprietaryInfo'' (UserLoginLoginExtensions_to_json (ui_userTypeProprietaryInfo u)),
        str_to_json ''securityPolicy'' (ui_securityPolicy u),
        u64_to_json ''securityPolicyChange'' (ui_securityPolicyChange u),
        str_to_json ''currentPassword'' (ui_currentPassword u), strs_to_json ''lastPasswords'' (ui_lastPasswords u),
        str_to_json ''oauthType'' (ui_oauthType u), str_to_json ''oauthUserInfo'' (ui_oauthUserInfo u),
        u64_to_json ''modified'' (ui_modified u), str_to_json ''signingUp'' (ui_signingUp u)] []"

definition UserInfo_from_json :: "(string \<Rightarrow> string \<Rightarrow> bool) \<Rightarrow> poco \<Rightarrow> jobject \<Rightarrow> user_info partial_reader" where
  "UserInfo_from_json same p obj =
     read_all
       [whole (str_from_json p obj ''id'' (\<lambda>v u. u\<lparr> ui_id := v \<rparr>)),
        whole (str_from_json p obj ''name'' (\<lambda>v u. u\<lparr> ui_name := v \<rparr>)),
        whole (str_from_json p obj ''description'' (\<lambda>v u. u\<lparr> ui_description := v \<rparr>)),
        whole (str_from_json p obj ''avatar'' (\<lambda>v u. u\<lparr> ui_avatar := v \<rparr>)),
        whole (str_from_json p obj ''email'' (\<lambda>v u. u\<lparr> ui_email := v \<rparr>)),
        whole (str_from_json p obj ''validationEmail'' (\<lambda>v u. u\<lparr> ui_validationEmail := v \<rparr>)),
        whole (str_from_json p obj ''validationURI'' (\<lambda>v u. u\<lparr> ui_validationURI := v \<rparr>)),
        whole (str_from_json p obj ''currentLoginURI'' (\<lambda>v u. u\<lparr> ui_currentLoginURI := v \<rparr>)),
        whole (str_from_json p obj ''locale'' (\<lambda>v u. u\<lparr> ui_locale := v \<rparr>)),
        objs_from_json (\<lambda>o'. snd (NoteInfo_from_json p o' new_note)) obj ''notes'' ui_notes (\<lambda>v u. u\<lparr> ui_notes := v \<rparr>),
        whole (str_from_json p obj ''location'' (\<lambda>v u. u\<lparr> ui_location := v \<rparr>)),
        whole (str_from_json p obj ''owner'' (\<lambda>v u. u\<lparr> ui_owner := v \<rparr>)),
        whole (when_present obj ''userRole'' (\<lambda>j. map_sum id (UserTypeFromString same) (p_string p j)) (\<lambda>v u. u\<lparr> ui_userRole := v \<rparr>)),
        whole (str_from_json p obj ''securityPolicy'' (\<lambda>v u. u\<lparr> ui_securityPolicy := v \<rparr>)),
        whole (sub_from_json obj ''userTypeProprietaryInfo'' (\<lambda>o' u. u\<lparr> ui_userTypeProprietaryInfo := snd (UserLoginLoginExtensions_from_json p o' (ui_userTypeProprietaryInfo u)) \<rparr>)),
        whole (u64_from_json p obj ''validationDate'' (\<lambda>v u. u\<lparr> ui_validationDate := v \<rparr>)),
        whole (u64_from_json p obj ''creationDate'' (\<lambda>v u. u\<lparr> ui_creationDate := v \<rparr>)),
        whole (u64_from_json p obj ''lastLogin'' (\<lambda>v u. u\<lparr> ui_lastLogin := v \<rparr>)),
        whole (u64_from_json p obj ''lastPasswordChange'' (\<lambda>v u. u\<lparr> ui_lastPasswordChange := v \<rparr>)),
        whole (u64_from_json p obj ''lastEmailCheck'' (\<lambda>v u. u\<lparr> ui_lastEmailCheck := v \<rparr>)),
        whole (u64_from_json p obj ''securityPolicyChange'' (\<lambda>v u. u\<lparr> ui_securityPolicyChange := v \<rparr>)),
        whole (bool_from_json p obj ''validated'' (\<lambda>v u. u\<lparr> ui_validated := v \<rparr>)),
        whole (bool_from_json p obj ''changePassword'' (\<lambda>v u. u\<lparr> ui_changePassword := v \<rparr>)),
        whole (bool_from_json p obj ''waitingForEmailCheck'' (\<lambda>v u. u\<lparr> ui_waitingForEmailCheck := v \<rparr>)),
        whole (bool_from_json p obj ''suspended'' (\<lambda>v u. u\<lparr> ui_suspended := v \<rparr>)),
        whole (bool_from_json p obj ''blackListed'' (\<lambda>v u. u\<lparr> ui_blackListed := v \<rparr>)),
        whole (str_from_json p obj ''currentPassword'' (\<lambda>v u. u\<lparr> ui_currentPassword := v \<rparr>)),
        list_from_json p obj ''lastPasswords'' (\<lambda>v u. u\<lparr> ui_lastPasswords := v \<rparr>),
        whole (str_from_json p obj ''oauthType'' (\<lambda>v u. u\<lparr> ui_oauthType := v \<rparr>)),
        whole (str_from_json p obj ''oauthUserInfo'' (\<lambda>v u. u\<lparr> ui_oauthUserInfo := v \<rparr>)),
        whole (u64_from_json p obj ''modified'' (\<lambda>v u. u\<lparr> ui_modified := v \<rparr>)),
        whole (str_from_json p obj ''signingUp'' (\<lambda>v u. u\<lparr> ui_signingUp := v \<rparr>))]"

text \<open>A fresh user; the role and the time of the last change are not initialised.\<close>

definition new_user :: "user_role \<Rightarrow> u64 \<Rightarrow> user_info" where
  "new_user role garbage =
     \<lparr> ui_id = [], ui_name = [], ui_description = [], ui_avatar = [], ui_email = [], ui_validated = False,
       ui_validationEmail = [], ui_validationDate = 0, ui_creationDate = 0, ui_validationURI = [], ui_changePassword = False,
       ui_lastLogin = 0, ui_currentLoginURI = [], ui_lastPasswordChange = 0, ui_lastEmailCheck = 0,
       ui_waitingForEmailCheck = False, ui_locale = [], ui_notes = [], ui_location = [], ui_owner = [], ui_suspended = False,
       ui_blackListed = False, ui_userRole = role,
       ui_userTypeProprietaryInfo = \<lparr> le_mobiles = [], le_mfa = \<lparr> mfa_enabled = False, mfa_method = [] \<rparr>, le_authenticatorSecret = [] \<rparr>,
       ui_securityPolicy = [], ui_securityPolicyChange = 0, ui_currentPassword = [], ui_lastPasswords = [], ui_oauthType = [],
       ui_oauthUserInfo = [], ui_modified = garbage, ui_signingUp = [] \<rparr>"

record user_policy =
  up_webtoken :: web_token
  up_userinfo :: user_info

definition UserInfoAndPolicy_to_json :: "user_policy \<Rightarrow> jobject" where
  "UserInfoAndPolicy_to_json u =
     writes [sub_to_json ''tokenInfo'' (WebToken_to_json (up_webtoken u)), sub_to_json ''userInfo'' (UserInfo_to_json (up_userinfo u))] []"

definition UserInfoAndPolicy_from_json :: "(string \<Rightarrow> string \<Rightarrow> bool) \<Rightarrow> poco \<Rightarrow> jobject \<Rightarrow> user_policy partial_reader" where
  "UserInfoAndPolicy_from_json same p obj =
     read_all
       [whole (sub_from_json obj ''tokenInfo'' (\<lambda>o' u. u\<lparr> up_webtoken := snd (WebToken_from_json p o' (up_webtoken u)) \<rparr>)),
        whole (sub_from_json obj ''userInfo'' (\<lambda>o' u. u\<lparr> up_userinfo := snd (UserInfo_from_json same p o' (up_userinfo u)) \<rparr>))]"

text \<open>The notes of a request, with the author and the time put in.\<close>

definition MergeNotes :: "u64 \<Rightarrow> note_info list \<Rightarrow> user_info \<Rightarrow> note_info list \<Rightarrow> note_info list" where
  "MergeNotes now new u existing = existing @ map (\<lambda>n. \<lparr> created = now, createdBy = ui_email u, note_text = note_text n \<rparr>) new"

text \<open>
  \<^verbatim>\<open>to_object_array\<close>: what was read before a failure is kept; \<open>notes_text\<close> is the printed member, \<open>parse_array\<close> the parser
  of a text that must be an array.
\<close>

definition note_array :: "poco \<Rightarrow> (string \<Rightarrow> cpp_exn + json list) \<Rightarrow> string \<Rightarrow> note_info list" where
  "note_array p parse_array text =
     (if text = [] then []
      else case parse_array text of
        Inl _ \<Rightarrow> []
      | Inr js \<Rightarrow> snd (push_objects (\<lambda>o'. snd (NoteInfo_from_json p o' new_note)) js []))"

definition MergeNotes_of ::
    "poco \<Rightarrow> (string \<Rightarrow> cpp_exn + json list) \<Rightarrow> u64 \<Rightarrow> jobject \<Rightarrow> user_info \<Rightarrow> note_info list \<Rightarrow> bool \<times> note_info list" where
  "MergeNotes_of p parse_array now obj u notes =
     (if j_has obj ''notes'' \<and> j_isArray obj ''notes'' then
        case p_string p (j_get obj ''notes'') of
          Inl _ \<Rightarrow> (False, notes)
        | Inr text \<Rightarrow> (True, MergeNotes now (note_array p parse_array text) u notes)
      else (True, notes))"

text \<open>What the handlers look at of a user.\<close>

definition user_of :: "user_policy \<Rightarrow> user" where
  "user_of u =
     \<lparr> u_role = ui_userRole (up_userinfo u), u_requester = ui_email (up_userinfo u), u_username = wt_username (up_webtoken u),
       u_refresh_token = wt_refresh_token (up_webtoken u) \<rparr>"

end
