(* ===== verification/GW_UsersProps.thy ===== *)
theory GW_UsersProps
  imports GW_Users
begin

text \<open>What of a user and of a token survives being written to JSON and read.\<close>

text \<open>What the readers need of the library: texts, truth values, numbers, and the comparison of the names of roles.\<close>

definition var_values :: "poco \<Rightarrow> (string \<Rightarrow> string \<Rightarrow> bool) \<Rightarrow> bool" where
  "var_values p same \<longleftrightarrow> var_strings p \<and> (\<forall>u. p_u64 p (JInt (uint u)) = Inr u) \<and>
     (\<forall>r r'. same (UserTypeToString r) (UserTypeToString r') \<longleftrightarrow> r = r')"

lemma var_valuesD:
  assumes "var_values p same"
  shows "p_string p (JStr s) = Inr s" and "map_sum id (\<lambda>s. s = ''true'') (p_string p (JBool b)) = Inr b"
    and "p_u64 p (JInt (uint u)) = Inr u" and "same (UserTypeToString r) (UserTypeToString r') \<longleftrightarrow> r = r'"
  using assms bool_string [of p b] by (auto simp: var_values_def var_strings_def)

lemma role_roundtrip:
  assumes "var_values p same"
  shows "UserTypeFromString same (UserTypeToString r) = r"
  using var_valuesD(4) [OF assms, of r ROOT] var_valuesD(4) [OF assms, of r ADMIN] var_valuesD(4) [OF assms, of r SUBSCRIBER]
    var_valuesD(4) [OF assms, of r PARTNER] var_valuesD(4) [OF assms, of r CSR] var_valuesD(4) [OF assms, of r SYSTEM]
    var_valuesD(4) [OF assms, of r INSTALLER] var_valuesD(4) [OF assms, of r NOC] var_valuesD(4) [OF assms, of r ACCOUNTING]
  by (cases r) (auto simp: UserTypeFromString_def)

lemma whole_Inr: "r x = Inr y \<Longrightarrow> whole r x = (True, y)"
  by (simp add: whole_def)

lemma push_objects_map: "push_objects item (map (\<lambda>v. JObj (f v)) vs) xs = (True, xs @ map (\<lambda>v. item (f v)) vs)"
  by (induction vs arbitrary: xs) (simp_all add: extract_object_def)

lemma push_strings_map: "(\<And>s. p_string p (JStr s) = Inr s) \<Longrightarrow> push_strings p (map JStr ss) xs = (True, xs @ ss)"
  by (induction ss arbitrary: xs) simp_all

lemmas user_readers =
  json_writers json_readers objs_to_json_def objs_from_json_def list_from_json_def whole_def writes_def push_objects_map comp_def

lemma AclTemplate_roundtrip:
  "var_values p same \<Longrightarrow> AclTemplate_from_json p (AclTemplate_to_json a) a0 = (True, a)"
  by (simp add: AclTemplate_from_json_def AclTemplate_to_json_def user_readers var_valuesD)

lemma WebToken_roundtrip:
  "var_values p same \<Longrightarrow> WebToken_from_json p (WebToken_to_json t) t0 =
     (True, t\<lparr> wt_id_token := wt_id_token t0, wt_errorCode := wt_errorCode t0 \<rparr>)"
  by (simp add: WebToken_from_json_def WebToken_to_json_def user_readers var_valuesD AclTemplate_roundtrip [unfolded writes_def])

lemma NoteInfo_read:
  "var_values p same \<Longrightarrow> NoteInfo_from_json p (NoteInfo_to_json n) n0 = (True, n)"
  by (rule NoteInfo_roundtrip) (simp_all add: var_values_def)

lemma MobilePhoneNumber_roundtrip:
  "var_values p same \<Longrightarrow> MobilePhoneNumber_from_json p (MobilePhoneNumber_to_json m) m0 = (True, m)"
  by (simp add: MobilePhoneNumber_from_json_def MobilePhoneNumber_to_json_def user_readers var_valuesD)

lemma MfaAuthInfo_roundtrip:
  "var_values p same \<Longrightarrow> MfaAuthInfo_from_json p (MfaAuthInfo_to_json m) m0 = (True, m)"
  by (simp add: MfaAuthInfo_from_json_def MfaAuthInfo_to_json_def user_readers var_valuesD)

lemma LoginExtensions_roundtrip:
  "var_values p same \<Longrightarrow> le_mobiles l0 = [] \<Longrightarrow>
   UserLoginLoginExtensions_from_json p (UserLoginLoginExtensions_to_json l) l0 = (True, l)"
  by (simp add: UserLoginLoginExtensions_from_json_def UserLoginLoginExtensions_to_json_def user_readers var_valuesD
      MfaAuthInfo_roundtrip [unfolded writes_def] MobilePhoneNumber_roundtrip [unfolded writes_def])

text \<open>The members of a user, as they are found in its JSON form.\<close>

definition user_members :: "user_info \<Rightarrow> (string \<times> json) list" where
  "user_members u =
     [(''id'', JStr (ui_id u)), (''name'', JStr (ui_name u)), (''description'', JStr (ui_description u)),
      (''avatar'', JStr (ui_avatar u)), (''email'', JStr (ui_email u)),
      (''validated'', JBool (ui_validated u)), (''validationEmail'', JStr (ui_validationEmail u)),
      (''validationDate'', JInt (uint (ui_validationDate u))),
      (''creationDate'', JInt (uint (ui_creationDate u))), (''validationURI'', JStr (ui_validationURI u)),
      (''changePassword'', JBool (ui_changePassword u)), (''lastLogin'', JInt (uint (ui_lastLogin u))),
      (''currentLoginURI'', JStr (ui_currentLoginURI u)),
      (''lastPasswordChange'', JInt (uint (ui_lastPasswordChange u))),
      (''lastEmailCheck'', JInt (uint (ui_lastEmailCheck u))),
      (''waitingForEmailCheck'', JBool (ui_waitingForEmailCheck u)), (''locale'', JStr (ui_locale u)),
      (''notes'', JArr (map (\<lambda>n. JObj (NoteInfo_to_json n)) (ui_notes u))),
      (''location'', JStr (ui_location u)), (''owner'', JStr (ui_owner u)),
      (''suspended'', JBool (ui_suspended u)), (''blackListed'', JBool (ui_blackListed u)),
      (''userRole'', JStr (UserTypeToString (ui_userRole u))),
      (''userTypeProprietaryInfo'', JObj (UserLoginLoginExtensions_to_json (ui_userTypeProprietaryInfo u))),
      (''securityPolicy'', JStr (ui_securityPolicy u)),
      (''securityPolicyChange'', JInt (uint (ui_securityPolicyChange u))),
      (''currentPassword'', JStr (ui_currentPassword u)),
      (''lastPasswords'', JArr (map JStr (ui_lastPasswords u))), (''oauthType'', JStr (ui_oauthType u)),
      (''oauthUserInfo'', JStr (ui_oauthUserInfo u)), (''modified'', JInt (uint (ui_modified u))),
      (''signingUp'', JStr (ui_signingUp u))]"

lemma writes_find: "om_find (writes (map (\<lambda>(k, v). obj_set k v) kvs) obj) k = map_of (rev kvs @ obj) k"
proof (induction kvs arbitrary: obj)
  case (Cons x kvs)
  then show ?case
    by (cases x) (auto simp: writes_def obj_set_def om_find_set_any [unfolded om_find_def] om_find_def map_add_def split: option.splits)
qed (simp add: writes_def om_find_def)

lemma map_of_reversed: "distinct (map fst kvs) \<Longrightarrow> map_of (rev kvs) k = map_of kvs k"
proof (induction kvs)
  case (Cons x kvs)
  obtain a b where x: "x = (a, b)" by (cases x)
  with Cons.prems have "map_of kvs a = None" by (simp add: map_of_eq_None_iff)
  with Cons x show ?case by (cases "k = a") (simp_all add: map_add_def split: option.split)
qed simp

lemma UserInfo_find:
  "om_find (UserInfo_to_json u) k = map_of (user_members u) k"
proof -
  have "UserInfo_to_json u = writes (map (\<lambda>(k, v). obj_set k v) (user_members u)) []"
    by (simp add: UserInfo_to_json_def user_members_def json_writers objs_to_json_def comp_def)
  moreover have "distinct (map fst (user_members u))" by (simp add: user_members_def)
  then have "map_of (rev (user_members u)) k = map_of (user_members u) k" by (rule map_of_reversed)
  ultimately show ?thesis by (simp add: writes_find)
qed

lemma UserInfo_roundtrip:
  assumes "var_values p same" and "ui_notes u0 = []" and "le_mobiles (ui_userTypeProprietaryInfo u0) = []"
  shows "UserInfo_from_json same p (UserInfo_to_json u) u0 = (True, u)"
proof -
  define obj where "obj = UserInfo_to_json u"
  have find: "om_find obj k = map_of (user_members u) k" for k by (simp add: obj_def UserInfo_find)
  have members:
    "om_find obj ''id'' = Some (JStr (ui_id u))"
    "om_find obj ''name'' = Some (JStr (ui_name u))"
    "om_find obj ''description'' = Some (JStr (ui_description u))"
    "om_find obj ''avatar'' = Some (JStr (ui_avatar u))"
    "om_find obj ''email'' = Some (JStr (ui_email u))"
    "om_find obj ''validated'' = Some (JBool (ui_validated u))"
    "om_find obj ''validationEmail'' = Some (JStr (ui_validationEmail u))"
    "om_find obj ''validationDate'' = Some (JInt (uint (ui_validationDate u)))"
    "om_find obj ''creationDate'' = Some (JInt (uint (ui_creationDate u)))"
    "om_find obj ''validationURI'' = Some (JStr (ui_validationURI u))"
    "om_find obj ''changePassword'' = Some (JBool (ui_changePassword u))"
    "om_find obj ''lastLogin'' = Some (JInt (uint (ui_lastLogin u)))"
    "om_find obj ''currentLoginURI'' = Some (JStr (ui_currentLoginURI u))"
    "om_find obj ''lastPasswordChange'' = Some (JInt (uint (ui_lastPasswordChange u)))"
    "om_find obj ''lastEmailCheck'' = Some (JInt (uint (ui_lastEmailCheck u)))"
    "om_find obj ''waitingForEmailCheck'' = Some (JBool (ui_waitingForEmailCheck u))"
    "om_find obj ''locale'' = Some (JStr (ui_locale u))"
    "om_find obj ''notes'' = Some (JArr (map (\<lambda>n. JObj (NoteInfo_to_json n)) (ui_notes u)))"
    "om_find obj ''location'' = Some (JStr (ui_location u))"
    "om_find obj ''owner'' = Some (JStr (ui_owner u))"
    "om_find obj ''suspended'' = Some (JBool (ui_suspended u))"
    "om_find obj ''blackListed'' = Some (JBool (ui_blackListed u))"
    "om_find obj ''userRole'' = Some (JStr (UserTypeToString (ui_userRole u)))"
    "om_find obj ''userTypeProprietaryInfo'' = Some (JObj (UserLoginLoginExtensions_to_json (ui_userTypeProprietaryInfo u)))"
    "om_find obj ''securityPolicy'' = Some (JStr (ui_securityPolicy u))"
    "om_find obj ''securityPolicyChange'' = Some (JInt (uint (ui_securityPolicyChange u)))"
    "om_find obj ''currentPassword'' = Some (JStr (ui_currentPassword u))"
    "om_find obj ''lastPasswords'' = Some (JArr (map JStr (ui_lastPasswords u)))"
    "om_find obj ''oauthType'' = Some (JStr (ui_oauthType u))"
    "om_find obj ''oauthUserInfo'' = Some (JStr (ui_oauthUserInfo u))"
    "om_find obj ''modified'' = Some (JInt (uint (ui_modified u)))"
    "om_find obj ''signingUp'' = Some (JStr (ui_signingUp u))"
    by (simp_all add: find user_members_def)
  have "fst (UserInfo_from_json same p obj u0) \<and> snd (UserInfo_from_json same p obj u0) = u"
    using assms
    by (simp add: UserInfo_from_json_def json_readers objs_from_json_def list_from_json_def whole_def members var_valuesD
        push_strings_map push_objects_map role_roundtrip NoteInfo_read LoginExtensions_roundtrip)
  then show ?thesis by (simp add: obj_def prod_eq_iff)
qed

text \<open>
  What the security service writes of a user and a token is what the gateway reads into a fresh object: the rights, the
  roles, the notes, the telephone numbers, the old passwords and all times come through. The error code of the token
  is written and not read, and its identity token is neither; they keep the values of the fresh object.
\<close>

theorem UserInfoAndPolicy_roundtrip:
  assumes "var_values p same" and "ui_notes (up_userinfo u0) = []"
    and "le_mobiles (ui_userTypeProprietaryInfo (up_userinfo u0)) = []"
  shows "UserInfoAndPolicy_from_json same p (UserInfoAndPolicy_to_json u) u0 =
    (True, u\<lparr> up_webtoken := (up_webtoken u)
       \<lparr> wt_id_token := wt_id_token (up_webtoken u0), wt_errorCode := wt_errorCode (up_webtoken u0) \<rparr> \<rparr>)"
  using assms
  by (simp add: UserInfoAndPolicy_from_json_def UserInfoAndPolicy_to_json_def json_writers json_readers whole_def writes_def
      WebToken_roundtrip UserInfo_roundtrip)

definition demo_library :: poco where
  "demo_library = (poco_of [])
     \<lparr> p_string := (\<lambda>j. case j of JStr s \<Rightarrow> Inr s | JBool b \<Rightarrow> Inr (if b then ''true'' else ''false'') | _ \<Rightarrow> Inl (Poco_Exception [])),
       p_u64 := (\<lambda>j. case j of JInt i \<Rightarrow> Inr (word_of_int i) | _ \<Rightarrow> Inl (Poco_Exception [])) \<rparr>"

lemma UserTypeToString_inj: "UserTypeToString r = UserTypeToString r' \<longleftrightarrow> r = r'"
  by (cases r; cases r') simp_all

theorem UserInfoAndPolicy_roundtrip_witness:
  "let u = \<lparr> up_webtoken = new_token\<lparr> wt_expires_in := 1000, wt_errorCode := 5 \<rparr>,
             up_userinfo = (new_user CSR 7)\<lparr> ui_notes := [\<lparr> created = 1, createdBy = ''a'', note_text = ''n'' \<rparr>], ui_lastPasswords := [''x''] \<rparr> \<rparr>;
       u0 = \<lparr> up_webtoken = new_token, up_userinfo = new_user ROOT 0 \<rparr>
   in UserInfoAndPolicy_from_json (=) demo_library (UserInfoAndPolicy_to_json u) u0 =
        (True, u\<lparr> up_webtoken := new_token\<lparr> wt_expires_in := 1000 \<rparr> \<rparr>)"
proof -
  have "var_values demo_library (=)"
    by (auto simp: var_values_def var_strings_def demo_library_def UserTypeToString_inj)
  then show ?thesis
    by (simp add: Let_def UserInfoAndPolicy_roundtrip new_user_def new_token_def)
qed

end
