(* ===== verification/GW_Services.thy ===== *)
theory GW_Services
  imports GW_Users
begin

text \<open>
  The other services and who is let in (\<^verbatim>\<open>src/framework/MicroService.cpp\<close>, \<^verbatim>\<open>OpenAPIRequests.cpp\<close>, \<^verbatim>\<open>AuthClient.cpp\<close>,
  \<^verbatim>\<open>RESTAPI_RateLimiter.h\<close>, \<^verbatim>\<open>IsAuthorized\<close> of \<^verbatim>\<open>RESTAPI_Handler.h\<close>). The services announce themselves on the message
  bus; the gateway keeps those it has heard of, asks the security service about a token or an API key, and keeps what
  it answered in a cache. A cache of Poco may lose an entry at any time.
\<close>

section \<open>The services\<close>

record service =
  sv_Id :: u64
  sv_Type :: string
  sv_PrivateEndPoint :: string
  sv_PublicEndPoint :: string
  sv_AccessKey :: string
  sv_Version :: string
  sv_LastUpdate :: u64

record micro_service =
  ms_ID :: u64
  ms_AppName :: string
  ms_Hash :: string
  ms_PrivateEndPoint :: string
  ms_PublicEndPoint :: string
  ms_Version :: string
  ms_Services :: "(string, service) omap"
  ms_Cache :: "(string, user_policy) omap"
  ms_ApiKeyCache :: "(string, user_policy \<times> u64) omap"

definition GetServices :: "micro_service \<Rightarrow> service list" where
  "GetServices s = map snd (ms_Services s)"

definition GetServices_of :: "poco \<Rightarrow> string \<Rightarrow> micro_service \<Rightarrow> service list" where
  "GetServices_of p type s = filter (\<lambda>v. sv_Type v = p_toLower p type) (map snd (ms_Services s))"

definition GetPrivateEndPointServiceKey :: "string \<Rightarrow> micro_service \<Rightarrow> service option" where
  "GetPrivateEndPointServiceKey private s = om_find (ms_Services s) private"

definition RemovedCachedToken :: "string \<Rightarrow> micro_service \<Rightarrow> micro_service" where
  "RemovedCachedToken token s =
     s\<lparr> ms_Cache := om_erase token (ms_Cache s), ms_ApiKeyCache := om_erase token (ms_ApiKeyCache s) \<rparr>"

text \<open>What a service tells of itself.\<close>

definition announced :: "poco \<Rightarrow> u64 \<Rightarrow> u64 \<Rightarrow> jobject \<Rightarrow> cpp_exn + service" where
  "announced p now ident obj =
     try_bind (p_string p (j_get obj ''type'')) (\<lambda>type.
     try_bind (p_string p (j_get obj ''privateEndPoint'')) (\<lambda>private.
     try_bind (p_string p (j_get obj ''publicEndPoint'')) (\<lambda>public.
     try_bind (p_string p (j_get obj ''key'')) (\<lambda>key.
     map_sum id
       (\<lambda>version. \<lparr> sv_Id = ident, sv_Type = p_toLower p type, sv_PrivateEndPoint = private, sv_PublicEndPoint = public,
                    sv_AccessKey = key, sv_Version = version, sv_LastUpdate = now \<rparr>)
       (p_string p (j_get obj ''version''))))))"

definition bus_event :: "poco \<Rightarrow> u64 \<Rightarrow> jobject \<Rightarrow> micro_service \<Rightarrow> cpp_exn + micro_service" where
  "bus_event p now obj s =
     try_bind (p_u64 p (j_get obj ''id'')) (\<lambda>ident. try_bind (p_string p (j_get obj ''event'')) (\<lambda>event.
       if ident = ms_ID s then Inr s
       else if event \<in> {''join'', ''keep-alive'', ''leave''} then
         (if j_has obj ''type'' \<and> j_has obj ''publicEndPoint'' \<and> j_has obj ''privateEndPoint'' \<and> j_has obj ''version'' \<and>
             j_has obj ''key''
          then try_bind (p_string p (j_get obj ''privateEndPoint'')) (\<lambda>private.
                 if event = ''leave'' then Inr (s\<lparr> ms_Services := om_erase private (ms_Services s) \<rparr>)
                 else map_sum id (\<lambda>v. s\<lparr> ms_Services := om_set private v (ms_Services s) \<rparr>) (announced p now ident obj))
          else Inr s)
       else if event = ''remove-token'' then
         (if j_has obj ''token'' then map_sum id (\<lambda>token. RemovedCachedToken token s) (p_string p (j_get obj ''token''))
          else Inr s)
       else Inr s))"

definition silent :: "u64 \<Rightarrow> service \<Rightarrow> bool" where
  "silent now v \<longleftrightarrow> 120 < now - sv_LastUpdate v"

definition drop_zombies :: "u64 \<Rightarrow> (string, service) omap \<Rightarrow> (string, service) omap" where
  "drop_zombies now m = filter (\<lambda>(k, v). \<not> silent now v) m"

text \<open>A message; an exception is logged, and the silent services are looked for the next time.\<close>

definition BusMessageReceived :: "poco \<Rightarrow> u64 \<Rightarrow> string \<Rightarrow> (micro_service, unit) op" where
  "BusMessageReceived p now payload s =
     (case try_bind (parse_object p payload) (\<lambda>obj.
             if j_has obj ''id'' \<and> j_has obj ''event'' then bus_event p now obj s else Inr s) of
        Inl x \<Rightarrow> (if poco_exn x then Inr () else Inl x, s)
      | Inr s' \<Rightarrow> (Inr (), s'\<lparr> ms_Services := drop_zombies now (ms_Services s') \<rparr>))"

definition MakeSystemEventMessage :: "poco \<Rightarrow> string \<Rightarrow> micro_service \<Rightarrow> string" where
  "MakeSystemEventMessage p type s =
     p_stringify p
       (writes
          [str_to_json ''event'' type, u64_to_json ''id'' (ms_ID s), str_to_json ''type'' (p_toLower p (ms_AppName s)),
           str_to_json ''publicEndPoint'' (ms_PublicEndPoint s), str_to_json ''privateEndPoint'' (ms_PrivateEndPoint s),
           str_to_json ''key'' (ms_Hash s), str_to_json ''version'' (ms_Version s)] [])"

text \<open>The headers of a request: what is found under a name.\<close>

type_synonym headers = "string \<Rightarrow> string option"

definition IsValidAPIKEY :: "headers \<Rightarrow> micro_service \<Rightarrow> bool" where
  "IsValidAPIKEY hs s \<longleftrightarrow> (case hs ''X-API-KEY'' of None \<Rightarrow> False | Some key \<Rightarrow> key = ms_Hash s)"

section \<open>Asking another service\<close>

record api_request =
  ar_verb :: string
  ar_server :: string
  ar_path :: string
  ar_query :: "(string \<times> string) list"
  ar_headers :: "(string \<times> string) list"
  ar_body :: "string option"

text \<open>A status and the text that came with it, or what was raised on the way.\<close>

type_synonym http = "api_request \<Rightarrow> cpp_exn + (nat \<times> string)"

definition HTTP_OK :: nat where "HTTP_OK = 200"
definition HTTP_GATEWAY_TIMEOUT :: nat where "HTTP_GATEWAY_TIMEOUT = 504"

definition api_headers :: "string \<Rightarrow> service \<Rightarrow> micro_service \<Rightarrow> (string \<times> string) list" where
  "api_headers bearer v s =
     (if bearer = [] then [(''X-API-KEY'', sv_AccessKey v), (''X-INTERNAL-NAME'', ms_PublicEndPoint s)]
      else [(''Authorization'', ''Bearer '' @ bearer)])"

text \<open>
  The loop over the services returns with the answer of the first one. \<open>parses\<close> tells for which status the text is
  parsed; a Poco exception is answered as a timeout.
\<close>

definition api_call ::
    "poco \<Rightarrow> http \<Rightarrow> (nat \<Rightarrow> bool) \<Rightarrow> string \<Rightarrow> (service \<Rightarrow> api_request) \<Rightarrow> micro_service \<Rightarrow> cpp_exn + (nat \<times> jobject option)" where
  "api_call p http parses type request s =
     (case GetServices_of p type s of
        [] \<Rightarrow> Inr (HTTP_GATEWAY_TIMEOUT, None)
      | v # _ \<Rightarrow>
          (case try_bind (http (request v)) (\<lambda>(status, text).
                  if parses status then map_sum id (\<lambda>obj. (status, Some obj)) (parse_object p text) else Inr (status, None)) of
             Inl x \<Rightarrow> if poco_exn x then Inr (HTTP_GATEWAY_TIMEOUT, None) else Inl x
           | r \<Rightarrow> r))"

definition OpenAPIRequestGet_Do ::
    "poco \<Rightarrow> http \<Rightarrow> string \<Rightarrow> string \<Rightarrow> (string \<times> string) list \<Rightarrow> string \<Rightarrow> micro_service \<Rightarrow> cpp_exn + (nat \<times> jobject option)" where
  "OpenAPIRequestGet_Do p http type path query bearer s =
     api_call p http (\<lambda>status. status = HTTP_OK) type
       (\<lambda>v. \<lparr> ar_verb = ''GET'', ar_server = sv_PrivateEndPoint v, ar_path = path, ar_query = query,
              ar_headers = api_headers bearer v s, ar_body = None \<rparr>) s"

definition OpenAPIRequestPut_Do ::
    "poco \<Rightarrow> http \<Rightarrow> string \<Rightarrow> string \<Rightarrow> (string \<times> string) list \<Rightarrow> jobject \<Rightarrow> string \<Rightarrow> micro_service \<Rightarrow>
     cpp_exn + (nat \<times> jobject option)" where
  "OpenAPIRequestPut_Do p http type path query body bearer s =
     api_call p http (\<lambda>_. True) type
       (\<lambda>v. \<lparr> ar_verb = ''PUT'', ar_server = sv_PrivateEndPoint v, ar_path = path, ar_query = query,
              ar_headers = api_headers bearer v s, ar_body = Some (p_stringify p body) \<rparr>) s"

definition OpenAPIRequestPost_Do ::
    "poco \<Rightarrow> http \<Rightarrow> string \<Rightarrow> string \<Rightarrow> (string \<times> string) list \<Rightarrow> jobject \<Rightarrow> string \<Rightarrow> micro_service \<Rightarrow>
     cpp_exn + (nat \<times> jobject option)" where
  "OpenAPIRequestPost_Do p http type path query body bearer s =
     api_call p http (\<lambda>_. True) type
       (\<lambda>v. \<lparr> ar_verb = ''POST'', ar_server = sv_PrivateEndPoint v, ar_path = path, ar_query = query,
              ar_headers = api_headers bearer v s, ar_body = Some (p_stringify p body) \<rparr>) s"

definition OpenAPIRequestDelete_Do ::
    "poco \<Rightarrow> http \<Rightarrow> string \<Rightarrow> string \<Rightarrow> (string \<times> string) list \<Rightarrow> string \<Rightarrow> micro_service \<Rightarrow> cpp_exn + nat" where
  "OpenAPIRequestDelete_Do p http type path query bearer s =
     map_sum id fst (api_call p http (\<lambda>_. False) type
       (\<lambda>v. \<lparr> ar_verb = ''DELETE'', ar_server = sv_PrivateEndPoint v, ar_path = path, ar_query = query,
              ar_headers = api_headers bearer v s, ar_body = None \<rparr>) s)"

section \<open>Tokens and API keys\<close>

text \<open>\<open>au_keeps\<close> tells whether a cache still has the entry of a key; \<open>au_role\<close> and \<open>au_garbage\<close> are what a fresh user holds.\<close>

record auth_env =
  au_poco :: poco
  au_same :: "string \<Rightarrow> string \<Rightarrow> bool"
  au_http :: http
  au_now :: u64
  au_keeps :: "string \<Rightarrow> bool"
  au_role :: user_role
  au_garbage :: u64

definition cache_get :: "auth_env \<Rightarrow> string \<Rightarrow> (string, 'v) omap \<Rightarrow> 'v option \<times> (string, 'v) omap" where
  "cache_get e key m = (if au_keeps e key then (om_find m key, m) else (None, om_erase key m))"

definition fresh_policy :: "auth_env \<Rightarrow> user_policy" where
  "fresh_policy e = \<lparr> up_webtoken = new_token, up_userinfo = new_user (au_role e) (au_garbage e) \<rparr>"

definition IsTokenExpired :: "u64 \<Rightarrow> web_token \<Rightarrow> bool" where
  "IsTokenExpired now t \<longleftrightarrow> wt_expires_in t + wt_created t < now"

definition policy_of :: "auth_env \<Rightarrow> jobject \<Rightarrow> user_policy" where
  "policy_of e obj = snd (UserInfoAndPolicy_from_json (au_same e) (au_poco e) obj (fresh_policy e))"

definition RetrieveTokenInformation :: "auth_env \<Rightarrow> bool \<Rightarrow> string \<Rightarrow> micro_service \<Rightarrow> authorization \<times> micro_service" where
  "RetrieveTokenInformation e sub token s =
     (case OpenAPIRequestGet_Do (au_poco e) (au_http e) ''owsec''
             (if sub then ''/api/v1/validateSubToken'' else ''/api/v1/validateToken'') [(''token'', token)] [] s of
        Inl _ \<Rightarrow> (Denied False False, s)
      | Inr (status, response) \<Rightarrow>
          if status = HTTP_GATEWAY_TIMEOUT then (Denied False False, s)
          else if status = HTTP_OK then
            (case response of
               None \<Rightarrow> (Denied False True, s)
             | Some obj \<Rightarrow>
                 if j_has obj ''tokenInfo'' \<and> j_has obj ''userInfo'' then
                   let u = policy_of e obj in
                   if IsTokenExpired (au_now e) (up_webtoken u) then (Denied True True, s)
                   else (Allowed (user_of u), s\<lparr> ms_Cache := om_set token u (ms_Cache s) \<rparr>)
                 else (Denied False True, s))
          else (Denied False True, s))"

definition auth_IsAuthorized :: "auth_env \<Rightarrow> bool \<Rightarrow> string \<Rightarrow> micro_service \<Rightarrow> authorization \<times> micro_service" where
  "auth_IsAuthorized e sub token s =
     (case cache_get e token (ms_Cache s) of
        (Some u, m) \<Rightarrow>
          if IsTokenExpired (au_now e) (up_webtoken u) then (Denied True False, s\<lparr> ms_Cache := om_erase token m \<rparr>)
          else (Allowed (user_of u), s\<lparr> ms_Cache := m \<rparr>)
      | (None, m) \<Rightarrow> RetrieveTokenInformation e sub token (s\<lparr> ms_Cache := m \<rparr>))"

definition RetrieveApiKeyInformation :: "auth_env \<Rightarrow> string \<Rightarrow> micro_service \<Rightarrow> authorization \<times> micro_service" where
  "RetrieveApiKeyInformation e key s =
     (case OpenAPIRequestGet_Do (au_poco e) (au_http e) ''owsec'' ''/api/v1/validateApiKey'' [(''apikey'', key)] [] s of
        Inl _ \<Rightarrow> (Denied False False, s)
      | Inr (status, response) \<Rightarrow>
          if status = HTTP_GATEWAY_TIMEOUT then (Denied False False, s)
          else if status = HTTP_OK then
            (case response of
               None \<Rightarrow> (Denied False True, s)
             | Some obj \<Rightarrow>
                 if j_has obj ''tokenInfo'' \<and> j_has obj ''userInfo'' \<and> j_has obj ''expiresOn'' then
                   (case p_u64 (au_poco e) (j_get obj ''expiresOn'') of
                      Inl _ \<Rightarrow> (Denied False True, s)
                    | Inr expires \<Rightarrow>
                        let u = policy_of e obj in
                        (Allowed (user_of u), s\<lparr> ms_ApiKeyCache := om_set key (u, expires) (ms_ApiKeyCache s) \<rparr>))
                 else (Denied False True, s))
          else (Denied False True, s))"

text \<open>The comparison of the time is the one of the source: a key of the cache is taken when it \<^emph>\<open>has\<close> expired.\<close>

definition IsValidApiKey :: "auth_env \<Rightarrow> string \<Rightarrow> micro_service \<Rightarrow> authorization \<times> micro_service" where
  "IsValidApiKey e key s =
     (case cache_get e key (ms_ApiKeyCache s) of
        (Some (u, expires), m) \<Rightarrow>
          if expires < au_now e then (Allowed (user_of u), s\<lparr> ms_ApiKeyCache := m \<rparr>)
          else RetrieveApiKeyInformation e key (s\<lparr> ms_ApiKeyCache := om_erase key m \<rparr>)
      | (None, m) \<Rightarrow> RetrieveApiKeyInformation e key (s\<lparr> ms_ApiKeyCache := m \<rparr>))"

text \<open>
  Who is let in: a service by the key of this one, a user by an API key or a token. \<open>bearer\<close> is the token found in the
  headers, or nothing. Of a service nothing but its name is known; its role is what the memory held.
\<close>

definition handler_IsAuthorized ::
    "auth_env \<Rightarrow> (headers \<Rightarrow> string) \<Rightarrow> bool \<Rightarrow> bool \<Rightarrow> headers \<Rightarrow> micro_service \<Rightarrow> authorization \<times> micro_service" where
  "handler_IsAuthorized e bearer internal sub hs s =
     (if internal \<and> hs ''X-INTERNAL-NAME'' \<noteq> None then
        (if IsValidAPIKEY hs s
         then (Allowed ((user_of (fresh_policy e))\<lparr> u_requester := the (hs ''X-INTERNAL-NAME'') \<rparr>), s)
         else (Denied False True, s))
      else if \<not> internal \<and> hs ''X-API-KEY'' \<noteq> None then IsValidApiKey e (the (hs ''X-API-KEY'')) s
      else auth_IsAuthorized e sub (bearer hs) s)"

section \<open>The rate of requests\<close>

text \<open>Calls are counted per path and address, under the hash of both, in a window that starts with the first of them.\<close>

type_synonym rate_cache = "(u64, int \<times> int) omap"

definition IsRateLimited :: "bool \<Rightarrow> int \<Rightarrow> int \<Rightarrow> int \<Rightarrow> u64 \<Rightarrow> rate_cache \<Rightarrow> (cpp_exn + bool) \<times> rate_cache" where
  "IsRateLimited kept now period max_calls key m =
     (case (if kept then om_find m key else None) of
        None \<Rightarrow> (Inr False, om_set key (now, 1) m)
      | Some (since, calls) \<Rightarrow>
          if now - since < period then
            (if calls = 2147483647 then (Inl (Undefined_Behaviour ''overflow of a counter''), m)
             else (Inr (max_calls < calls + 1), om_set key (since, calls + 1) m))
          else (Inr False, om_set key (now, 1) m))"

end
