(* ===== verification/GW_ServicesProps.thy ===== *)
theory GW_ServicesProps
  imports GW_Services
begin

text \<open>
  What is known of the other services after a history of messages, that the gateways of one system let each other in,
  that no token is taken that the security service did not confirm, and which calls are over the limit.
\<close>

section \<open>The services that are known\<close>

text \<open>What a message says: a service is there, a service leaves, or nothing about services. A message that raises says nothing.\<close>

datatype news = There string service | Left string | Nothing_new

text \<open>The messages of the bus with the time of each, and the news they carry for the gateway \<open>own\<close>.\<close>

definition news_of :: "poco \<Rightarrow> u64 \<Rightarrow> u64 \<Rightarrow> jobject \<Rightarrow> cpp_exn + news" where
  "news_of p own now obj =
     (if j_has obj ''id'' \<and> j_has obj ''event'' then
        try_bind (p_u64 p (j_get obj ''id'')) (\<lambda>ident. try_bind (p_string p (j_get obj ''event'')) (\<lambda>event.
          if ident = own then Inr Nothing_new
          else if event \<in> {''join'', ''keep-alive'', ''leave''} then
            (if j_has obj ''type'' \<and> j_has obj ''publicEndPoint'' \<and> j_has obj ''privateEndPoint'' \<and> j_has obj ''version'' \<and>
                j_has obj ''key''
             then try_bind (p_string p (j_get obj ''privateEndPoint'')) (\<lambda>private.
                    if event = ''leave'' then Inr (Left private)
                    else map_sum id (There private) (announced p now ident obj))
             else Inr Nothing_new)
          else if event = ''remove-token'' \<and> j_has obj ''token''
          then map_sum id (\<lambda>_. Nothing_new) (p_string p (j_get obj ''token''))
          else Inr Nothing_new))
      else Inr Nothing_new)"

definition bus_news :: "poco \<Rightarrow> u64 \<Rightarrow> u64 \<Rightarrow> string \<Rightarrow> cpp_exn + news" where
  "bus_news p own now payload = try_bind (parse_object p payload) (news_of p own now)"

fun about :: "string \<Rightarrow> news \<Rightarrow> bool" where
  "about k (There k' v) \<longleftrightarrow> k' = k"
| "about k (Left k') \<longleftrightarrow> k' = k"
| "about k Nothing_new \<longleftrightarrow> False"

text \<open>The messages that did not raise, with the time and the news of each.\<close>

fun read_news :: "poco \<Rightarrow> u64 \<Rightarrow> (u64 \<times> string) list \<Rightarrow> (u64 \<times> news) list" where
  "read_news p own [] = []"
| "read_news p own ((now, payload) # ms) =
     (case bus_news p own now payload of Inl _ \<Rightarrow> read_news p own ms | Inr n \<Rightarrow> (now, n) # read_news p own ms)"

fun receive_messages :: "poco \<Rightarrow> (u64 \<times> string) list \<Rightarrow> micro_service \<Rightarrow> micro_service" where
  "receive_messages p [] s = s"
| "receive_messages p ((now, payload) # ms) s = receive_messages p ms (snd (BusMessageReceived p now payload s))"

text \<open>The last that was said about an end point.\<close>

definition last_word :: "string \<Rightarrow> (u64 \<times> news) list \<Rightarrow> news option" where
  "last_word k ns =
     (let xs = filter (\<lambda>(t, n). about k n) ns in if xs = [] then None else Some (snd (last xs)))"

definition heard_of :: "(u64 \<times> news) list \<Rightarrow> string \<Rightarrow> service option" where
  "heard_of ns k =
     (case last_word k ns of
        Some (There _ v) \<Rightarrow> if silent (fst (last ns)) v then None else Some v
      | _ \<Rightarrow> None)"

lemma last_word_Nil [simp]: "last_word k [] = None"
  by (simp add: last_word_def)

lemma last_word_snoc: "last_word k (ns @ [(t, n)]) = (if about k n then Some n else last_word k ns)"
  by (simp add: last_word_def Let_def)

definition apply_news :: "u64 \<Rightarrow> news \<Rightarrow> (string, service) omap \<Rightarrow> (string, service) omap" where
  "apply_news now n m =
     drop_zombies now (case n of There k v \<Rightarrow> om_set k v m | Left k \<Rightarrow> om_erase k m | Nothing_new \<Rightarrow> m)"

lemma BusMessageReceived_news:
  "ms_Services (snd (BusMessageReceived p now payload s)) =
     (case bus_news p (ms_ID s) now payload of Inl _ \<Rightarrow> ms_Services s | Inr n \<Rightarrow> apply_news now n (ms_Services s))"
  "ms_ID (snd (BusMessageReceived p now payload s)) = ms_ID s"
  by (auto simp: BusMessageReceived_def bus_news_def bus_event_def news_of_def apply_news_def try_bind_def map_sum_def
      RemovedCachedToken_def split: sum.splits)

lemma om_find_drop_zombies:
  "om_wf m \<Longrightarrow> om_find (drop_zombies now m) k = (case om_find m k of Some v \<Rightarrow> if silent now v then None else Some v | None \<Rightarrow> None)"
  by (induction m) (fastforce simp: drop_zombies_def om_find_def om_wf_def dest: map_of_SomeD split: option.splits if_splits)+

lemma apply_news_wf: "om_wf m \<Longrightarrow> om_wf (apply_news now n m)"
  by (cases n) (auto simp: apply_news_def drop_zombies_def om_wf_filter om_wf_set om_wf_erase)

lemma receive_messages_news:
  "ms_Services (receive_messages p ms s) =
     foldl (\<lambda>m (t, n). apply_news t n m) (ms_Services s) (read_news p (ms_ID s) ms)"
proof (induction ms arbitrary: s)
  case (Cons x ms)
  obtain now payload where x: "x = (now, payload)" by (cases x)
  let ?s = "snd (BusMessageReceived p now payload s)"
  show ?case
    using Cons.IH [of ?s] by (simp add: x BusMessageReceived_news split: sum.split)
qed simp

text \<open>A history: its times do not decrease, and who is there was last seen at the time of the message.\<close>

definition dated :: "(u64 \<times> news) list \<Rightarrow> bool" where
  "dated ns \<longleftrightarrow> sorted (map fst ns) \<and> (\<forall>(t, n)\<in>set ns. case n of There _ v \<Rightarrow> sv_LastUpdate v = t | _ \<Rightarrow> True)"

lemma dated_snoc: "dated (ns @ [(t, n)]) \<Longrightarrow> dated ns \<and> (\<forall>(u, _)\<in>set ns. u \<le> t)"
  by (auto simp: dated_def sorted_append)

lemma last_word_in: "last_word k ns = Some n \<Longrightarrow> \<exists>t. (t, n) \<in> set ns"
proof -
  assume n: "last_word k ns = Some n"
  let ?xs = "filter (\<lambda>(t, n). about k n) ns"
  have "?xs \<noteq> []" "n = snd (last ?xs)" using n by (auto simp: last_word_def Let_def split: if_splits)
  then have "last ?xs \<in> set ns" using last_in_set [of ?xs] by auto
  with \<open>n = snd (last ?xs)\<close> show ?thesis by (cases "last ?xs") auto
qed

lemma sorted_last: "sorted (map fst ns) \<Longrightarrow> x \<in> set ns \<Longrightarrow> fst x \<le> fst (last ns)"
  by (induction ns rule: rev_induct) (auto simp: sorted_append)

lemma silent_later:
  assumes "silent t v" and "sv_LastUpdate v \<le> t" and "t \<le> t'"
  shows "silent t' v"
  using assms by (simp add: silent_def word_less_nat_alt word_le_nat_alt unat_sub)

lemma heard_of_history:
  assumes "dated ns"
  shows "om_wf (foldl (\<lambda>m (t, n). apply_news t n m) [] ns) \<and> om_find (foldl (\<lambda>m (t, n). apply_news t n m) [] ns) k = heard_of ns k"
  using assms
proof (induction ns rule: rev_induct)
  case Nil
  then show ?case by (simp add: heard_of_def om_find_def)
next
  case (snoc x ns)
  obtain t n where x: "x = (t, n)" by (cases x)
  let ?m = "foldl (\<lambda>m (t, n). apply_news t n m) [] ns"
  have old: "dated ns" "\<forall>(u, _)\<in>set ns. u \<le> t" using snoc.prems dated_snoc [of ns t n] x by auto
  then have IH: "om_wf ?m" "om_find ?m k = heard_of ns k" using snoc.IH by auto
  have "om_find (apply_news t n ?m) k = heard_of (ns @ [(t, n)]) k"
  proof (cases "about k n")
    case True
    then show ?thesis using IH(1)
      by (cases n) (auto simp: apply_news_def heard_of_def last_word_snoc om_find_drop_zombies om_wf_set om_wf_erase om_find_set om_find_erase)
  next
    case False
    then have keep: "om_find (apply_news t n ?m) k = (case heard_of ns k of Some v \<Rightarrow> if silent t v then None else Some v | None \<Rightarrow> None)"
      using IH by (cases n) (auto simp: apply_news_def om_find_drop_zombies om_wf_set om_wf_erase om_find_set om_find_erase)
    show ?thesis
    proof (cases "\<exists>k' v. last_word k ns = Some (There k' v)")
      case True
      then obtain k' v where v: "last_word k ns = Some (There k' v)" by blast
      then obtain u where u: "(u, There k' v) \<in> set ns" using last_word_in by blast
      then have "sv_LastUpdate v = u" "u \<le> fst (last ns)"
        using old(1) sorted_last [of ns "(u, There k' v)"] by (auto simp: dated_def)
      moreover have "fst (last ns) \<le> t" using old(2) u by (metis case_prodD empty_iff empty_set last_in_set prod.collapse)
      ultimately have "silent (fst (last ns)) v \<Longrightarrow> silent t v" by (auto intro: silent_later)
      with keep v False show ?thesis by (auto simp: heard_of_def last_word_snoc)
    next
      case none: False
      then have "heard_of ns k = None" by (auto simp: heard_of_def split: option.splits news.splits)
      moreover have "heard_of (ns @ [(t, n)]) k = None"
        using none False by (auto simp: heard_of_def last_word_snoc split: option.splits news.splits)
      ultimately show ?thesis using keep by simp
    qed
  qed
  then show ?case using IH(1) apply_news_wf by (simp add: x)
qed

lemma read_news_times: "set (map fst (read_news p own ms)) \<subseteq> fst ` set ms"
  by (induction p own ms rule: read_news.induct) (auto split: sum.splits)

lemma news_of_time: "news_of p own now obj = Inr (There k v) \<Longrightarrow> sv_LastUpdate v = now"
  by (auto simp: news_of_def announced_def try_bind_def map_sum_def split: sum.splits if_splits)

lemma dated_read_news: "sorted (map fst ms) \<Longrightarrow> dated (read_news p own ms)"
proof (induction p own ms rule: read_news.induct)
  case (2 p own now payload ms)
  then have IH: "dated (read_news p own ms)" by (cases "bus_news p own now payload") auto
  have "\<forall>t\<in>fst ` set ms. now \<le> t" using 2 by auto
  then have "\<forall>t\<in>fst ` set (read_news p own ms). now \<le> t" using read_news_times [of p own ms] by (simp only: set_map) blast
  with IH show ?case
    by (auto simp: dated_def bus_news_def try_bind_def dest: news_of_time split: sum.splits news.splits)
qed (simp add: dated_def)

text \<open>
  C15: The gateway knows of the other services exactly what the history of bus messages says: under an end point it has
  the service that was announced there last, unless it has left since or has been silent for more than 120 seconds at
  the last message that was understood. Its own messages and those that cannot be understood count for nothing.
\<close>

theorem services_known_exactly:
  assumes "ms_Services s = []" and "sorted (map fst ms)"
  shows "GetPrivateEndPointServiceKey k (receive_messages p ms s) = heard_of (read_news p (ms_ID s) ms) k"
  using heard_of_history [OF dated_read_news [OF assms(2)]]
  by (simp add: GetPrivateEndPointServiceKey_def receive_messages_news assms(1))

definition demo_service :: micro_service where
  "demo_service =
     \<lparr> ms_ID = 1, ms_AppName = ''owgw'', ms_Hash = ''k1'', ms_PrivateEndPoint = ''g1'', ms_PublicEndPoint = ''G1'', ms_Version = ''3'',
       ms_Services = [], ms_Cache = [], ms_ApiKeyCache = [] \<rparr>"

definition demo_announcement :: "string \<Rightarrow> int \<Rightarrow> string \<Rightarrow> jobject" where
  "demo_announcement event ident private =
     [(''event'', JStr event), (''id'', JInt ident), (''key'', JStr ''k2''), (''privateEndPoint'', JStr private),
      (''publicEndPoint'', JStr ''P''), (''type'', JStr ''owsec''), (''version'', JStr ''3'')]"

theorem services_known_exactly_witness:
  "let p = poco_of [(''m1'', demo_announcement ''join'' 2 ''a''), (''m2'', demo_announcement ''keep-alive'' 3 ''b'')];
       s = receive_messages p [(100, ''m1''), (300, ''m2'')] demo_service
   in GetPrivateEndPointServiceKey ''a'' s = None \<and> GetPrivateEndPointServiceKey ''b'' s \<noteq> None"
proof -
  let ?p = "poco_of [(''m1'', demo_announcement ''join'' 2 ''a''), (''m2'', demo_announcement ''keep-alive'' 3 ''b'')]"
  let ?ms = "[(100, ''m1''), (300, ''m2'')] :: (u64 \<times> string) list"
  have known: "GetPrivateEndPointServiceKey k (receive_messages ?p ?ms demo_service) = heard_of (read_news ?p 1 ?ms) k" for k
    using services_known_exactly [of demo_service ?ms k ?p] by (simp add: demo_service_def)
  have "read_news ?p 1 ?ms =
      [(100, There ''a'' \<lparr> sv_Id = 2, sv_Type = ''owsec'', sv_PrivateEndPoint = ''a'', sv_PublicEndPoint = ''P'', sv_AccessKey = ''k2'', sv_Version = ''3'', sv_LastUpdate = 100 \<rparr>),
       (300, There ''b'' \<lparr> sv_Id = 3, sv_Type = ''owsec'', sv_PrivateEndPoint = ''b'', sv_PublicEndPoint = ''P'', sv_AccessKey = ''k2'', sv_Version = ''3'', sv_LastUpdate = 300 \<rparr>)]"
    by (simp add: poco_of_def demo_announcement_def bus_news_def parse_object_def extract_object_def news_of_def announced_def j_has_def j_get_def om_find_def)
  then show ?thesis
    by (simp add: known Let_def heard_of_def last_word_def silent_def del: read_news.simps receive_messages.simps)
qed

section \<open>Gateways that know each other\<close>

definition event_object :: "poco \<Rightarrow> string \<Rightarrow> micro_service \<Rightarrow> jobject" where
  "event_object p type s =
     writes
       [str_to_json ''event'' type, u64_to_json ''id'' (ms_ID s), str_to_json ''type'' (p_toLower p (ms_AppName s)),
        str_to_json ''publicEndPoint'' (ms_PublicEndPoint s), str_to_json ''privateEndPoint'' (ms_PrivateEndPoint s),
        str_to_json ''key'' (ms_Hash s), str_to_json ''version'' (ms_Version s)] []"

lemma event_object_find:
  "om_find (event_object p type s) k =
     map_of [(''event'', JStr type), (''id'', JInt (uint (ms_ID s))), (''type'', JStr (p_toLower p (ms_AppName s))),
             (''publicEndPoint'', JStr (ms_PublicEndPoint s)), (''privateEndPoint'', JStr (ms_PrivateEndPoint s)),
             (''key'', JStr (ms_Hash s)), (''version'', JStr (ms_Version s))] k"
  by (simp add: event_object_def writes_def str_to_json_def u64_to_json_def)

text \<open>
  C17: Services that have heard of each other let each other in. When one service announces itself on the bus and another
  takes the message, the other knows it under its private end point with its key, and a request that it then sends,
  with the headers it puts on it, is let in by the first as a request of the public end point of the sender.
\<close>

theorem announced_services_let_in:
  assumes "p_parse p (p_stringify p (event_object p type a)) = Inr (JObj (event_object p type a))" and "var_strings p"
    and "p_u64 p (JInt (uint (ms_ID a))) = Inr (ms_ID a)" and "ms_ID a \<noteq> ms_ID b" and "type = ''join'' \<or> type = ''keep-alive''"
    and "om_wf (ms_Services b)"
  shows "\<exists>v. GetPrivateEndPointServiceKey (ms_PrivateEndPoint a) (snd (BusMessageReceived p now (MakeSystemEventMessage p type a) b)) = Some v \<and>
           (\<exists>u. handler_IsAuthorized e bearer True sub (map_of (api_headers [] v b)) a = (Allowed u, a) \<and> u_requester u = ms_PublicEndPoint b)"
proof -
  let ?o = "event_object p type a"
  let ?v = "\<lparr> sv_Id = ms_ID a, sv_Type = p_toLower p (p_toLower p (ms_AppName a)), sv_PrivateEndPoint = ms_PrivateEndPoint a,
              sv_PublicEndPoint = ms_PublicEndPoint a, sv_AccessKey = ms_Hash a, sv_Version = ms_Version a, sv_LastUpdate = now \<rparr>"
  have strings: "p_string p (JStr t) = Inr t" for t using assms(2) by (simp add: var_strings_def)
  have "parse_object p (MakeSystemEventMessage p type a) = Inr ?o"
    using assms(1) by (simp add: MakeSystemEventMessage_def event_object_def parse_object_def extract_object_def)
  then have news: "bus_news p (ms_ID b) now (MakeSystemEventMessage p type a) = Inr (There (ms_PrivateEndPoint a) ?v)"
    using assms(3-5) by (auto simp: bus_news_def news_of_def announced_def j_has_def j_get_def event_object_find strings)
  have "GetPrivateEndPointServiceKey (ms_PrivateEndPoint a) (snd (BusMessageReceived p now (MakeSystemEventMessage p type a) b)) = Some ?v"
    using assms(6) by (simp add: GetPrivateEndPointServiceKey_def BusMessageReceived_news news apply_news_def om_find_drop_zombies om_wf_set
        om_find_set silent_def)
  then show ?thesis
    by (intro exI [of _ ?v]) (simp add: handler_IsAuthorized_def api_headers_def IsValidAPIKEY_def)
qed

theorem announced_services_let_in_witness:
  "let b = demo_service\<lparr> ms_ID := 2, ms_Hash := ''k2'', ms_PublicEndPoint := ''G2'' \<rparr>;
       p = (poco_of [(''m'', event_object (poco_of []) ''join'' demo_service)])
             \<lparr> p_string := (\<lambda>j. case j of JStr s \<Rightarrow> Inr s | JBool b \<Rightarrow> Inr (if b then ''true'' else ''false'') | _ \<Rightarrow> Inl (Poco_Exception [])) \<rparr>
   in \<exists>v. GetPrivateEndPointServiceKey ''g1'' (snd (BusMessageReceived p 7 (MakeSystemEventMessage p ''join'' demo_service) b)) = Some v"
proof -
  let ?p = "(poco_of [(''m'', event_object (poco_of []) ''join'' demo_service)])
             \<lparr> p_string := (\<lambda>j. case j of JStr s \<Rightarrow> Inr s | JBool b \<Rightarrow> Inr (if b then ''true'' else ''false'') | _ \<Rightarrow> Inl (Poco_Exception [])) \<rparr>"
  let ?b = "demo_service\<lparr> ms_ID := 2, ms_Hash := ''k2'', ms_PublicEndPoint := ''G2'' \<rparr>"
  have same: "event_object ?p ''join'' demo_service = event_object (poco_of []) ''join'' demo_service"
    by (simp add: event_object_def poco_of_def)
  have "p_parse ?p (p_stringify ?p (event_object ?p ''join'' demo_service)) = Inr (JObj (event_object ?p ''join'' demo_service))"
    unfolding same by (simp add: poco_of_def)
  moreover have "var_strings ?p" by (simp add: var_strings_def)
  moreover have "p_u64 ?p (JInt (uint (ms_ID demo_service))) = Inr (ms_ID demo_service)" by (simp add: poco_of_def demo_service_def)
  ultimately show ?thesis
    using announced_services_let_in [of ?p "''join''" demo_service ?b 7 undefined "\<lambda>_. []" False]
    by (auto simp: Let_def demo_service_def om_wf_def)
qed

section \<open>Tokens\<close>

text \<open>The security service is asked now and says that the token is the one of \<open>u\<close>.\<close>

definition confirms :: "auth_env \<Rightarrow> bool \<Rightarrow> string \<Rightarrow> micro_service \<Rightarrow> user_policy \<Rightarrow> bool" where
  "confirms e sub token s u \<longleftrightarrow>
     (case OpenAPIRequestGet_Do (au_poco e) (au_http e) ''owsec''
             (if sub then ''/api/v1/validateSubToken'' else ''/api/v1/validateToken'') [(''token'', token)] [] s of
        Inr (status, Some obj) \<Rightarrow> status = HTTP_OK \<and> j_has obj ''tokenInfo'' \<and> j_has obj ''userInfo'' \<and> u = policy_of e obj
      | _ \<Rightarrow> False)"

lemma confirms_cache: "confirms e sub token (s\<lparr> ms_Cache := m \<rparr>) u = confirms e sub token s u"
  by (simp add: confirms_def OpenAPIRequestGet_Do_def api_call_def GetServices_of_def api_headers_def)

lemma RetrieveTokenInformation_result:
  assumes "RetrieveTokenInformation e sub token s = (r, s')"
  shows "(\<exists>u. r = Allowed (user_of u) \<and> confirms e sub token s u \<and> \<not> IsTokenExpired (au_now e) (up_webtoken u) \<and>
             s' = s\<lparr> ms_Cache := om_set token u (ms_Cache s) \<rparr>) \<or>
         ((\<forall>u. r \<noteq> Allowed u) \<and> s' = s)"
  using assms unfolding RetrieveTokenInformation_def confirms_def
  by (auto simp: Let_def split: sum.splits prod.splits option.splits if_splits)

text \<open>
  The runs of the gateway that matter for tokens, with what was confirmed and not revoked since: requests with a token
  or an API key, and messages of the bus, of which one may revoke a token.
\<close>

definition revoked_by :: "poco \<Rightarrow> u64 \<Rightarrow> string \<Rightarrow> string option" where
  "revoked_by p own payload =
     (case parse_object p payload of
        Inl _ \<Rightarrow> None
      | Inr obj \<Rightarrow>
          if j_has obj ''id'' \<and> j_has obj ''event'' \<and> j_has obj ''token'' \<and> p_string p (j_get obj ''event'') = Inr ''remove-token'' then
            (case (p_u64 p (j_get obj ''id''), p_string p (j_get obj ''token'')) of
               (Inr ident, Inr token) \<Rightarrow> if ident = own then None else Some token
             | _ \<Rightarrow> None)
          else None)"

inductive token_run :: "micro_service \<Rightarrow> (string \<times> user_policy) set \<Rightarrow> bool" where
  fresh: "ms_Cache s = [] \<Longrightarrow> token_run s {}"
| token: "token_run s C \<Longrightarrow> auth_IsAuthorized e sub t s = (r, s') \<Longrightarrow> token_run s' (C \<union> {(t, u) |u. confirms e sub t s u})"
| api_key: "token_run s C \<Longrightarrow> IsValidApiKey e t s = (r, s') \<Longrightarrow> token_run s' C"
| message: "token_run s C \<Longrightarrow> BusMessageReceived p now payload s = (r, s') \<Longrightarrow>
     token_run s' {(t, u) \<in> C. revoked_by p (ms_ID s) payload \<noteq> Some t}"

lemma IsValidApiKey_cache: "ms_Cache (snd (IsValidApiKey e t s)) = ms_Cache s"
  by (auto simp: IsValidApiKey_def RetrieveApiKeyInformation_def Let_def split: sum.splits prod.splits option.splits)

lemma BusMessageReceived_cache:
  "ms_Cache (snd (BusMessageReceived p now payload s)) =
     (case revoked_by p (ms_ID s) payload of None \<Rightarrow> ms_Cache s | Some t \<Rightarrow> om_erase t (ms_Cache s))"
  by (auto simp: BusMessageReceived_def bus_event_def revoked_by_def try_bind_def map_sum_def RemovedCachedToken_def
      split: sum.splits)

lemma cached_confirmed:
  assumes "token_run s C"
  shows "om_find (ms_Cache s) t = Some u \<Longrightarrow> (t, u) \<in> C"
  using assms
proof (induction arbitrary: t u rule: token_run.induct)
  case (fresh s)
  then show ?case by (simp add: om_find_def)
next
  case (token s C e sub t' r s')
  show ?case
  proof (cases "fst (cache_get e t' (ms_Cache s))")
    case None
    let ?m = "snd (cache_get e t' (ms_Cache s))"
    have sub: "om_find ?m k = Some v \<Longrightarrow> om_find (ms_Cache s) k = Some v" for k v
      by (auto simp: cache_get_def om_find_erase split: if_splits)
    have "auth_IsAuthorized e sub t' s = RetrieveTokenInformation e sub t' (s\<lparr> ms_Cache := ?m \<rparr>)"
      using None by (cases "cache_get e t' (ms_Cache s)") (simp add: auth_IsAuthorized_def)
    with token.hyps(2) have "RetrieveTokenInformation e sub t' (s\<lparr> ms_Cache := ?m \<rparr>) = (r, s')" by simp
    from RetrieveTokenInformation_result [OF this] show ?thesis
      using token.IH token.prems sub by (auto simp: confirms_cache om_find_set_any split: if_splits)
  next
    case (Some v)
    then have "om_find (ms_Cache s') t = Some u \<Longrightarrow> om_find (ms_Cache s) t = Some u"
      using token.hyps(2) by (auto simp: auth_IsAuthorized_def cache_get_def om_find_erase split: if_splits)
    with token.IH token.prems show ?thesis by blast
  qed
next
  case (api_key s C e t' r s')
  then show ?case using IsValidApiKey_cache [of e t' s] by simp
next
  case (message s C p now payload r s')
  then have "om_find (case revoked_by p (ms_ID s) payload of None \<Rightarrow> ms_Cache s | Some t \<Rightarrow> om_erase t (ms_Cache s)) t = Some u"
    using BusMessageReceived_cache [of p now payload s] by simp
  with message.IH show ?case by (auto simp: om_find_erase split: option.splits if_splits)
qed

text \<open>
  C16: In every run, a token is taken only for a user that the security service has confirmed for it, now or since the
  token was last revoked on the message bus, and only while its time has not passed; caches that lose entries, other
  requests and other messages do not change that.
\<close>

theorem token_confirmed:
  assumes "token_run s C" and "auth_IsAuthorized e sub t s = (Allowed usr, s')"
  shows "\<exists>u. usr = user_of u \<and> \<not> IsTokenExpired (au_now e) (up_webtoken u) \<and> ((t, u) \<in> C \<or> confirms e sub t s u)"
proof (cases "fst (cache_get e t (ms_Cache s))")
  case None
  then have "RetrieveTokenInformation e sub t (s\<lparr> ms_Cache := snd (cache_get e t (ms_Cache s)) \<rparr>) = (Allowed usr, s')"
    using assms(2) by (cases "cache_get e t (ms_Cache s)") (simp add: auth_IsAuthorized_def)
  from RetrieveTokenInformation_result [OF this] show ?thesis by (auto simp: confirms_cache)
next
  case (Some u)
  then have "om_find (ms_Cache s) t = Some u" by (auto simp: cache_get_def split: if_splits)
  with cached_confirmed [OF assms(1)] Some assms(2) show ?thesis
    by (auto simp: auth_IsAuthorized_def split: prod.splits if_splits)
qed

definition demo_confirmation :: jobject where
  "demo_confirmation = [(''tokenInfo'', JObj [(''created'', JInt 5), (''expires_in'', JInt 1000)]), (''userInfo'', JObj [(''email'', JStr ''a@b'')])]"

definition demo_auth :: auth_env where
  "demo_auth =
     \<lparr> au_poco = poco_of [(''yes'', demo_confirmation)], au_same = (=), au_http = \<lambda>_. Inr (200, ''yes''), au_now = 100, au_keeps = \<lambda>_. True,
       au_role = UNKNOWN, au_garbage = 0 \<rparr>"

definition demo_known :: micro_service where
  "demo_known = demo_service
     \<lparr> ms_Services := [(''x'', \<lparr> sv_Id = 9, sv_Type = ''owsec'', sv_PrivateEndPoint = ''x'', sv_PublicEndPoint = ''X'', sv_AccessKey = ''k'',
                                 sv_Version = ''3'', sv_LastUpdate = 90 \<rparr>)] \<rparr>"

lemma demo_asked:
  "OpenAPIRequestGet_Do (au_poco demo_auth) (au_http demo_auth) ''owsec'' ''/api/v1/validateToken'' [(''token'', ''T'')] [] demo_known =
     Inr (HTTP_OK, Some demo_confirmation)"
  by (simp add: OpenAPIRequestGet_Do_def api_call_def GetServices_of_def demo_known_def demo_service_def demo_auth_def poco_of_def
      parse_object_def extract_object_def HTTP_OK_def)

lemma demo_unexpired: "\<not> IsTokenExpired 100 (up_webtoken (policy_of demo_auth demo_confirmation))"
  by (simp add: policy_of_def fresh_policy_def demo_auth_def demo_confirmation_def UserInfoAndPolicy_from_json_def WebToken_from_json_def
      new_token_def whole_def json_readers om_find_def poco_of_def IsTokenExpired_def)

theorem token_confirmed_witness:
  "\<exists>usr s' u. auth_IsAuthorized demo_auth False ''T'' demo_known = (Allowed usr, s') \<and> usr = user_of u \<and>
     confirms demo_auth False ''T'' demo_known u"
proof -
  have "token_run demo_known {}" by (rule token_run.fresh) (simp add: demo_known_def demo_service_def)
  moreover have "auth_IsAuthorized demo_auth False ''T'' demo_known =
      (Allowed (user_of (policy_of demo_auth demo_confirmation)),
       demo_known\<lparr> ms_Cache := om_set ''T'' (policy_of demo_auth demo_confirmation) (ms_Cache demo_known) \<rparr>)"
  proof -
    have "cache_get demo_auth ''T'' (ms_Cache demo_known) = (None, ms_Cache demo_known)"
      by (simp add: cache_get_def demo_known_def demo_service_def demo_auth_def om_find_def)
    moreover have "j_has demo_confirmation ''tokenInfo''" "j_has demo_confirmation ''userInfo''"
      by (simp_all add: demo_confirmation_def j_has_def om_find_def)
    moreover have "au_now demo_auth = 100" by (simp add: demo_auth_def)
    ultimately show ?thesis
      using demo_asked demo_unexpired
      by (simp add: auth_IsAuthorized_def RetrieveTokenInformation_def HTTP_OK_def HTTP_GATEWAY_TIMEOUT_def Let_def)
  qed
  ultimately show ?thesis using token_confirmed [of demo_known "{}" demo_auth False "''T''"] by blast
qed

text \<open>A key of the cache that has expired is taken without asking; one that has not is asked for again.\<close>

lemma expired_api_key_taken:
  "au_keeps e t \<Longrightarrow> om_find (ms_ApiKeyCache s) t = Some (u, expires) \<Longrightarrow> expires < au_now e \<Longrightarrow>
     IsValidApiKey e t s = (Allowed (user_of u), s)"
  by (simp add: IsValidApiKey_def cache_get_def)

section \<open>The rate of requests\<close>

fun rate_calls :: "int \<Rightarrow> int \<Rightarrow> u64 \<Rightarrow> int list \<Rightarrow> rate_cache \<Rightarrow> (cpp_exn + bool) list" where
  "rate_calls period limit key [] m = []"
| "rate_calls period limit key (t # ts) m =
     (case IsRateLimited True t period limit key m of (r, m') \<Rightarrow> r # rate_calls period limit key ts m')"

lemma rate_calls_window:
  assumes "om_find m key = Some (since, calls)" and "\<forall>t\<in>set ts. t - since < period" and "calls + int (length ts) \<le> 2147483647"
  shows "rate_calls period limit key ts m = map (\<lambda>i. Inr (limit < calls + 1 + int i)) [0..<length ts]"
  using assms
proof (induction ts arbitrary: m calls)
  case (Cons t ts)
  have "rate_calls period limit key (t # ts) m =
      Inr (limit < calls + 1) # rate_calls period limit key ts (om_set key (since, calls + 1) m)"
    using Cons.prems by (simp add: IsRateLimited_def)
  also have "rate_calls period limit key ts (om_set key (since, calls + 1) m) =
      map (\<lambda>i. Inr (limit < calls + 1 + 1 + int i)) [0..<length ts]"
    using Cons.prems by (intro Cons.IH) (simp_all add: om_find_set_any)
  finally show ?case by (simp add: upt_conv_Cons map_Suc_upt [symmetric] add.assoc del: upt_Suc)
qed simp

text \<open>
  A client whose entry is kept is limited, in the window that its first call opens, exactly from the call on that comes
  after the allowed number of calls; the first one is never limited.
\<close>

theorem rate_limit_exact:
  assumes "om_find m key = None" and "\<forall>t\<in>set ts. t - t0 < period" and "1 + int (length ts) \<le> 2147483647"
  shows "rate_calls period limit key (t0 # ts) m = Inr False # map (\<lambda>i. Inr (limit < int i + 2)) [0..<length ts]"
proof -
  have "rate_calls period limit key ts (om_set key (t0, 1) m) = map (\<lambda>i. Inr (limit < 1 + 1 + int i)) [0..<length ts]"
    using assms by (intro rate_calls_window) (simp_all add: om_find_set_any)
  then show ?thesis using assms(1) by (simp add: IsRateLimited_def algebra_simps)
qed

end
