(* ===== verification/GW_DeviceRest.thy ===== *)
theory GW_DeviceRest
  imports GW_DeviceState GW_BlackList
begin

text \<open>
  The requests on devices (\<^verbatim>\<open>src/RESTAPI/RESTAPI_device_handler.cpp\<close>, \<^verbatim>\<open>RESTAPI_devices_handler.cpp\<close>,
  \<^verbatim>\<open>RESTAPI_device_helper.h\<close>) with the JSON form of a device (\<^verbatim>\<open>RESTAPI_GWobjects.cpp\<close>): one device is read, created,
  changed, deleted; lists of devices are read by page, selection or platform and deleted by selection, age or pattern.
  The body is the JSON object of the request, or none; using one that is not there raises. An internal error is
  answered as a bad request with its text.
\<close>

section \<open>State and surroundings\<close>

text \<open>\<open>dr_simulated\<close> counts the threads that were started to delete the simulated devices.\<close>

record device_rest =
  dr_store :: storage
  dr_server :: server
  dr_radius :: sessions
  dr_black :: blacklist
  dr_simulated :: nat

datatype configuration_type = Configuration_AP | Configuration_SWITCH

text \<open>
  \<open>re_split\<close> is \<^verbatim>\<open>Poco::StringTokenizer\<close> without options, \<open>re_order\<close> the order of the rows by a clause, \<open>re_like\<close> the
  pattern match of the database; \<open>re_validate\<close> the configuration validator: the error, if there is one. \<open>re_email\<close> is
  the address of the user, empty for another service. There is a time for each reading of the clock.
\<close>

record rest_env =
  re_poco :: poco
  re_codec :: codec
  re_replace :: "string \<Rightarrow> string \<Rightarrow> string \<Rightarrow> string"
  re_split :: "char \<Rightarrow> string \<Rightarrow> string list"
  re_validate :: "configuration_type \<Rightarrow> string \<Rightarrow> bool \<Rightarrow> string option"
  re_order :: "string \<Rightarrow> device_row list \<Rightarrow> device_row list"
  re_like :: "string \<Rightarrow> string \<Rightarrow> bool"
  re_gunz :: "nat \<Rightarrow> string \<Rightarrow> string"
  re_email :: string
  re_note_time :: u64
  re_config_time :: u64
  re_change_time :: u64
  re_create_time :: u64
  re_modify_time :: u64
  re_now :: u64

type_synonym 'a dop = "(device_rest, 'a) op"

definition with_dr :: "(device_rest \<Rightarrow> 'a dop) \<Rightarrow> 'a dop" where
  "with_dr f g = f g g"

definition on_dr_store :: "(storage \<Rightarrow> (cpp_exn + 'a) \<times> storage) \<Rightarrow> 'a dop" where
  "on_dr_store f g = (case f (dr_store g) of (r, st) \<Rightarrow> (r, g\<lparr> dr_store := st \<rparr>))"

definition parameters_of :: "call_data \<Rightarrow> parameters" where
  "parameters_of h = rq_parameters (hd_request h)"

definition serial_binding :: "rest_env \<Rightarrow> call_data \<Rightarrow> string" where
  "serial_binding e h = GetBinding (p_toLower (re_poco e)) ''serialNumber'' [] (rq_bindings (hd_request h))"

definition IsRootOrAdmin :: "user \<Rightarrow> bool" where
  "IsRootOrAdmin u \<longleftrightarrow> u_role u = ROOT \<or> u_role u = ADMIN"

definition Validator_GetType :: "(string \<Rightarrow> string) \<Rightarrow> string \<Rightarrow> configuration_type" where
  "Validator_GetType lower type =
     (if lower type = ''ap'' then Configuration_AP
      else if lower type = ''switch'' then Configuration_SWITCH
      else Configuration_AP)"

section \<open>A device as a JSON object\<close>

definition new_device :: device where
  "new_device =
     \<lparr> SerialNumber = [], DeviceType = [], MACAddress = [], Manufacturer = [], Configuration = [], Notes = [], Owner = [],
       Location = [], Firmware = [], dCompatible = [], FWUpdatePolicy = [], UUID = 0, CreationTimestamp = 0,
       LastConfigurationChange = 0, LastConfigurationDownload = 0, LastFWUpdate = 0, Venue = [], DevicePassword = [],
       subscriber = [], entity = [], modified = 0, locale_ident = [], restrictedDevice = False, pendingConfiguration = [],
       pendingConfigurationCmd = [], restrictionDetails = \<lparr> r_dfs = False, r_ssh = False, r_rtty = False, r_tty = False,
         r_developer = False, r_upgrade = False, r_commands = False, r_country = [], r_key_info = \<lparr> vendor = [], algo = [] \<rparr> \<rparr>,
       pendingUUID = 0, simulated = False, lastRecordedContact = 0, certificateExpiryDate = 0, connectReason = [],
       blackListed = False \<rparr>"

text \<open>The platform and the black list are looked up, not taken from the device; the configuration must be an object.\<close>

definition Device_to_json :: "rest_env \<Rightarrow> device_rest \<Rightarrow> device \<Rightarrow> cpp_exn + jobject" where
  "Device_to_json e g d =
     map_sum id
       (writes
          [objs_to_json ''notes'' (map NoteInfo_to_json (Notes d)),
           u64_to_json ''createdTimestamp'' (CreationTimestamp d),
           u64_to_json ''lastConfigurationChange'' (LastConfigurationChange d),
           u64_to_json ''lastConfigurationDownload'' (LastConfigurationDownload d),
           u64_to_json ''lastFWUpdate'' (LastFWUpdate d), str_to_json ''owner'' (Owner d),
           str_to_json ''location'' (Location d), str_to_json ''venue'' (Venue d), str_to_json ''firmware'' (Firmware d),
           str_to_json ''compatible'' (dCompatible d), str_to_json ''fwUpdatePolicy'' (FWUpdatePolicy d),
           str_to_json ''devicePassword'' (DevicePassword d), str_to_json ''subscriber'' (subscriber d),
           str_to_json ''entity'' (entity d), u64_to_json ''modified'' (modified d), str_to_json ''locale'' (locale_ident d),
           bool_to_json ''restrictedDevice'' (restrictedDevice d),
           str_to_json ''pendingConfiguration'' (pendingConfiguration d),
           str_to_json ''pendingConfigurationCmd'' (pendingConfigurationCmd d),
           sub_to_json ''restrictionDetails'' (Restrictions_to_json (restrictionDetails d)),
           u64_to_json ''pendingUUID'' (pendingUUID d), bool_to_json ''simulated'' (simulated d),
           u64_to_json ''lastRecordedContact'' (lastRecordedContact d),
           u64_to_json ''certificateExpiryDate'' (certificateExpiryDate d),
           str_to_json ''connectReason'' (connectReason d)])
       (EmbedDocument (re_poco e) ''configuration'' (Configuration d)
          (writes
             [str_to_json ''serialNumber'' (SerialNumber d),
              str_to_json ''deviceType'' (Storage_GetPlatform (re_codec e) (SerialNumber d) (dr_store g)),
              bool_to_json ''blackListed'' (IsBlackListed (MACToInt (SerialNumber d)) (dr_black g)),
              str_to_json ''macAddress'' (MACAddress d), str_to_json ''manufacturer'' (Manufacturer d),
              u64_to_json ''UUID'' (UUID d)] []))"

definition Device_to_json_with_status :: "rest_env \<Rightarrow> device_rest \<Rightarrow> device \<Rightarrow> cpp_exn + jobject" where
  "Device_to_json_with_status e g d =
     try_bind (Device_to_json e g d) (\<lambda>obj.
     map_sum id
       (\<lambda>n. case GetState n (dr_server g) of
          (True, s) \<Rightarrow> ConnectionState_to_json (re_now e) (of_nat (HasSessions (SerialNumber d) (dr_radius g)))
                         (case s of None \<Rightarrow> fresh_state 0 | Some x \<Rightarrow> x) obj
        | (False, _) \<Rightarrow>
            writes
              [str_to_json ''ipAddress'' [], u64_to_json ''txBytes'' 0, u64_to_json ''rxBytes'' 0, u64_to_json ''messageCount'' 0,
               bool_to_json ''connected'' False, str_to_json ''lastContact'' [],
               str_to_json ''verifiedCertificate'' ''NO_CERTIFICATE'', u64_to_json ''associations_2G'' 0,
               u64_to_json ''associations_5G'' 0, u64_to_json ''associations_6G'' 0, bool_to_json ''hasRADIUSSessions'' False,
               bool_to_json ''hasGPS'' False, u64_to_json ''sanity'' 0, obj_set ''memoryUsed'' (JReal ''0''),
               u64_to_json ''sanity'' 0, obj_set ''load'' (JReal ''0''), obj_set ''temperature'' (JReal ''0'')] obj)
       (SerialNumberToInt (SerialNumber d)))"

definition Device_from_json :: "poco \<Rightarrow> jobject \<Rightarrow> device partial_reader" where
  "Device_from_json p obj =
     read_all
       [whole (str_from_json p obj ''serialNumber'' (\<lambda>v d. d\<lparr> SerialNumber := v \<rparr>)),
        whole (str_from_json p obj ''deviceType'' (\<lambda>v d. d\<lparr> DeviceType := v \<rparr>)),
        whole (str_from_json p obj ''macAddress'' (\<lambda>v d. d\<lparr> MACAddress := v \<rparr>)),
        whole (str_from_json p obj ''manufacturer'' (\<lambda>v d. d\<lparr> Manufacturer := v \<rparr>)),
        whole (u64_from_json p obj ''UUID'' (\<lambda>v d. d\<lparr> UUID := v \<rparr>)),
        whole (str_from_json p obj ''configuration'' (\<lambda>v d. d\<lparr> Configuration := v \<rparr>)),
        objs_from_json (\<lambda>o'. snd (NoteInfo_from_json p o' \<lparr> created = 0, createdBy = [], note_text = [] \<rparr>)) obj ''notes'' Notes
          (\<lambda>v d. d\<lparr> Notes := v \<rparr>),
        whole (u64_from_json p obj ''createdTimestamp'' (\<lambda>v d. d\<lparr> CreationTimestamp := v \<rparr>)),
        whole (u64_from_json p obj ''lastConfigurationChange'' (\<lambda>v d. d\<lparr> LastConfigurationChange := v \<rparr>)),
        whole (u64_from_json p obj ''lastConfigurationDownload'' (\<lambda>v d. d\<lparr> LastConfigurationDownload := v \<rparr>)),
        whole (u64_from_json p obj ''lastFWUpdate'' (\<lambda>v d. d\<lparr> LastFWUpdate := v \<rparr>)),
        whole (str_from_json p obj ''owner'' (\<lambda>v d. d\<lparr> Owner := v \<rparr>)),
        whole (str_from_json p obj ''location'' (\<lambda>v d. d\<lparr> Location := v \<rparr>)),
        whole (str_from_json p obj ''venue'' (\<lambda>v d. d\<lparr> Venue := v \<rparr>)),
        whole (str_from_json p obj ''firmware'' (\<lambda>v d. d\<lparr> Firmware := v \<rparr>)),
        whole (str_from_json p obj ''compatible'' (\<lambda>v d. d\<lparr> dCompatible := v \<rparr>)),
        whole (str_from_json p obj ''fwUpdatePolicy'' (\<lambda>v d. d\<lparr> FWUpdatePolicy := v \<rparr>)),
        whole (str_from_json p obj ''devicePassword'' (\<lambda>v d. d\<lparr> DevicePassword := v \<rparr>)),
        whole (str_from_json p obj ''subscriber'' (\<lambda>v d. d\<lparr> subscriber := v \<rparr>)),
        whole (str_from_json p obj ''entity'' (\<lambda>v d. d\<lparr> entity := v \<rparr>)),
        whole (u64_from_json p obj ''modified'' (\<lambda>v d. d\<lparr> modified := v \<rparr>)),
        whole (str_from_json p obj ''locale'' (\<lambda>v d. d\<lparr> locale_ident := v \<rparr>)),
        whole (bool_from_json p obj ''restrictedDevice'' (\<lambda>v d. d\<lparr> restrictedDevice := v \<rparr>)),
        whole (str_from_json p obj ''pendingConfiguration'' (\<lambda>v d. d\<lparr> pendingConfiguration := v \<rparr>)),
        whole (str_from_json p obj ''pendingConfigurationCmd'' (\<lambda>v d. d\<lparr> pendingConfigurationCmd := v \<rparr>)),
        whole (sub_from_json obj ''restrictionDetails'' (\<lambda>o' d. d\<lparr> restrictionDetails := snd (Restrictions_from_json p o' (restrictionDetails d)) \<rparr>)),
        whole (u64_from_json p obj ''pendingUUID'' (\<lambda>v d. d\<lparr> pendingUUID := v \<rparr>)),
        whole (bool_from_json p obj ''simulated'' (\<lambda>v d. d\<lparr> simulated := v \<rparr>)),
        whole (u64_from_json p obj ''lastRecordedContact'' (\<lambda>v d. d\<lparr> lastRecordedContact := v \<rparr>)),
        whole (u64_from_json p obj ''certificateExpiryDate'' (\<lambda>v d. d\<lparr> certificateExpiryDate := v \<rparr>)),
        whole (str_from_json p obj ''connectReason'' (\<lambda>v d. d\<lparr> connectReason := v \<rparr>))]"

text \<open>The device with all that its connection last reported; statistics that are no object are an empty one.\<close>

definition CompleteDeviceInfo :: "rest_env \<Rightarrow> device_rest \<Rightarrow> device \<Rightarrow> cpp_exn + jobject" where
  "CompleteDeviceInfo e g d =
     try_bind (SerialNumberToInt (SerialNumber d)) (\<lambda>n.
       let cs = (case snd (GetState n (dr_server g)) of None \<Rightarrow> fresh_state 0 | Some x \<Rightarrow> x);
           hc = (case snd (GetHealthcheck n (dr_server g)) of None \<Rightarrow> blank_check | Some x \<Rightarrow> x);
           stats = (case snd (GetStatistics (re_gunz e) n (dr_server g)) of None \<Rightarrow> [] | Some x \<Rightarrow> x) in
       try_bind (Device_to_json e g d) (\<lambda>info.
       map_sum id
         (\<lambda>health. writes
            [sub_to_json ''deviceInfo'' info,
             sub_to_json ''connectionInfo''
               (ConnectionState_to_json (re_now e) (of_nat (HasSessions (SerialNumber d) (dr_radius g))) cs []),
             sub_to_json ''healthCheckInfo'' health,
             sub_to_json ''statsInfo'' (case parse_object (re_poco e) stats of Inl _ \<Rightarrow> [] | Inr obj \<Rightarrow> obj)] [])
         (HealthCheck_to_json (re_poco e) hc)))"

section \<open>One device\<close>

definition device_DoGet :: "rest_env \<Rightarrow> call_data \<Rightarrow> jobject rest_reply dop" where
  "device_DoGet e h = with_dr (\<lambda>g.
     case NormalizeMac (re_replace e) (p_toLower (re_poco e)) (serial_binding e h) of
       (False, _) \<Rightarrow> ret (Rest_BadRequest ''MissingSerialNumber'')
     | (True, s) \<Rightarrow>
         (case GetDevice (re_codec e) s (dr_store g) of
            None \<Rightarrow> ret Rest_NotFound
          | Some d \<Rightarrow>
              lift_exn (map_sum id Rest_Object
                (if GetBoolParameter ''completeInfo'' False (parameters_of h) then CompleteDeviceInfo e g d
                 else Device_to_json e g d))))"

text \<open>
  A device is deleted, and its connection ended. The branch for all devices of a vendor asks for a normalised serial
  number of six digits; there is none (lemma \<open>no_vendor_deletion\<close>), and it is left out.
\<close>

definition device_DoDelete :: "rest_env \<Rightarrow> call_data \<Rightarrow> jobject rest_reply dop" where
  "device_DoDelete e h =
     (if \<not> IsRootOrAdmin (hd_user h) then ret (Rest_UnAuthorized ''ACCESS_DENIED'')
      else case NormalizeMac (re_replace e) (p_toLower (re_poco e)) (serial_binding e h) of
        (False, _) \<Rightarrow> ret (Rest_BadRequest ''MissingSerialNumber'')
      | (True, s) \<Rightarrow>
          andThen (on_dr_store (DeleteDevice s)) (\<lambda>ok.
            if ok then
              andThen (lift_exn (SerialNumberToInt s)) (\<lambda>n g.
                (Inr Rest_OK, if Connected n (dr_server g) then g\<lparr> dr_server := snd (Disconnect n (dr_server g)) \<rparr> else g))
            else ret Rest_NotFound))"

text \<open>A configuration is only validated, its type being a parameter.\<close>

definition validate_only :: "rest_env \<Rightarrow> call_data \<Rightarrow> jobject rest_reply dop" where
  "validate_only e h =
     andThen (lift_exn (ParsedBody h)) (\<lambda>obj.
       if \<not> j_has obj ''configuration'' then ret (Rest_BadRequest ''MustHaveConfigElement'')
       else andThen (lift_exn (p_string (re_poco e) (j_get obj ''configuration''))) (\<lambda>config.
         let lower = p_toLower (re_poco e);
             fault = re_validate e (Validator_GetType lower (lower (GetParameter ''deviceType'' ''ap'' (parameters_of h)))) config
                       (GetBoolParameter ''strict'' False (parameters_of h))
         in ret (Rest_Object
                   (case fault of
                      None \<Rightarrow> bool_to_json ''valid'' True []
                    | Some why \<Rightarrow> (if why = [] then id else str_to_json ''error'' why) (bool_to_json ''valid'' False [])))))"

text \<open>What the storage leaves in the device it was given to create.\<close>

definition stamped :: "rest_env \<Rightarrow> device \<Rightarrow> cpp_exn + device" where
  "stamped e d =
     map_sum id
       (\<lambda>text. d\<lparr> modified := re_modify_time e, CreationTimestamp := re_create_time e,
                  LastConfigurationDownload := re_create_time e, UUID := re_create_time e,
                  LastConfigurationChange := re_create_time e, Configuration := text \<rparr>)
       (with_uuid (re_poco e) (re_create_time e) (Configuration d))"

definition signed_notes :: "rest_env \<Rightarrow> note_info list \<Rightarrow> note_info list" where
  "signed_notes e = map (\<lambda>n. n\<lparr> createdBy := re_email e, created := re_note_time e \<rparr>)"

text \<open>The device of the body that can be created, or the answer that says why not.\<close>

definition posted_device :: "rest_env \<Rightarrow> call_data \<Rightarrow> string \<Rightarrow> jobject rest_reply + device" where
  "posted_device e h s =
     (let p = re_poco e in
      case (case hd_body h of None \<Rightarrow> (False, new_device) | Some obj \<Rightarrow> Device_from_json p obj new_device) of
        (False, _) \<Rightarrow> Inl (Rest_BadRequest ''InvalidJSONDocument'')
      | (True, d) \<Rightarrow>
          (case NormalizeMac (re_replace e) (p_toLower p) (SerialNumber d) of
             (False, _) \<Rightarrow> Inl (Rest_BadRequest ''InvalidSerialNumber'')
           | (True, own) \<Rightarrow>
               if s \<noteq> own then Inl (Rest_BadRequest ''SerialNumberMismatch'')
               else if Configuration d = [] \<or>
                       re_validate e (Validator_GetType (p_toLower p) (DeviceType d)) (Configuration d)
                         (GetBoolParameter ''strict'' False (parameters_of h)) \<noteq> None
               then Inl (Rest_BadRequest ''ConfigBlockInvalid'')
               else Inr (d\<lparr> SerialNumber := own, Notes := signed_notes e (Notes d) \<rparr>)))"

definition device_DoPost :: "rest_env \<Rightarrow> call_data \<Rightarrow> jobject rest_reply dop" where
  "device_DoPost e h =
     (let p = re_poco e in
      case NormalizeMac (re_replace e) (p_toLower p) (serial_binding e h) of
        (False, _) \<Rightarrow> ret (Rest_BadRequest ''MissingSerialNumber'')
      | (True, s) \<Rightarrow>
          if HasParameter ''validateOnly'' (parameters_of h) = Some ''true'' then validate_only e h
          else case posted_device e h s of
            Inl r \<Rightarrow> ret r
          | Inr d \<Rightarrow>
              andThen (lift_exn (with_uuid p (re_config_time e) (Configuration d))) (\<lambda>text.
                let d = d\<lparr> UUID := re_config_time e, Configuration := text, SerialNumber := p_toLower p (SerialNumber d) \<rparr> in
                andThen (on_dr_store (CreateDevice p (re_codec e) (re_create_time e) (re_modify_time e) d)) (\<lambda>ok.
                  if ok then
                    andThen (lift_exn (stamped e d)) (\<lambda>d.
                    andThen (on_dr_store (set_config_id s (UUID d))) (\<lambda>_.
                      with_dr (\<lambda>g. lift_exn (map_sum id Rest_Object (Device_to_json e g d)))))
                  else ret (Rest_InternalError ''RecordNotCreated''))))"

text \<open>A member of the body, whatever it is, as a text.\<close>

definition AssignIfPresent :: "poco \<Rightarrow> jobject \<Rightarrow> string \<Rightarrow> (string \<Rightarrow> 'a \<Rightarrow> 'a) \<Rightarrow> 'a \<Rightarrow> cpp_exn + 'a" where
  "AssignIfPresent p obj field upd x = (if j_has obj field then map_sum id (\<lambda>v. upd v x) (p_string p (j_get obj field)) else Inr x)"

definition assign_members :: "poco \<Rightarrow> jobject \<Rightarrow> device \<Rightarrow> cpp_exn + device" where
  "assign_members p obj d =
     try_bind (AssignIfPresent p obj ''venue'' (\<lambda>v d. d\<lparr> Venue := v \<rparr>) d) (\<lambda>d.
     try_bind (AssignIfPresent p obj ''owner'' (\<lambda>v d. d\<lparr> Owner := v \<rparr>) d) (\<lambda>d.
     try_bind (AssignIfPresent p obj ''location'' (\<lambda>v d. d\<lparr> Location := v \<rparr>) d) (\<lambda>d.
     try_bind (AssignIfPresent p obj ''subscriber'' (\<lambda>v d. d\<lparr> subscriber := v \<rparr>) d) (\<lambda>d.
     AssignIfPresent p obj ''entity'' (\<lambda>v d. d\<lparr> entity := v \<rparr>) d))))"

text \<open>The device with its new configuration under a new identifier; none in the request leaves the old one.\<close>

definition reconfigured :: "rest_env \<Rightarrow> string \<Rightarrow> device \<Rightarrow> cpp_exn + device" where
  "reconfigured e config d =
     (if config = [] then Inr d
      else map_sum id (\<lambda>text. d\<lparr> Configuration := text, UUID := re_config_time e \<rparr>)
             (with_uuid (re_poco e) (re_config_time e) config))"

definition device_DoPut :: "rest_env \<Rightarrow> call_data \<Rightarrow> jobject rest_reply dop" where
  "device_DoPut e h = with_dr (\<lambda>g.
     let p = re_poco e; c = re_codec e; s = serial_binding e h in
     if \<not> ValidSerialNumber s then ret (Rest_BadRequest ''MissingSerialNumber'')
     else case hd_body h of
       None \<Rightarrow> ret (Rest_BadRequest ''InvalidJSONDocument'')
     | Some obj \<Rightarrow>
         (case Device_from_json p obj new_device of
            (False, _) \<Rightarrow> ret (Rest_BadRequest ''InvalidJSONDocument'')
          | (True, new) \<Rightarrow>
              (case GetDevice c s (dr_store g) of
                 None \<Rightarrow> ret Rest_NotFound
               | Some d \<Rightarrow>
                   if Configuration new \<noteq> [] \<and>
                      re_validate e (Validator_GetType (p_toLower p) (DeviceType d)) (Configuration new)
                        (GetBoolParameter ''strict'' False (parameters_of h)) \<noteq> None
                   then ret (Rest_BadRequest ''ConfigBlockInvalid'')
                   else
                     andThen (lift_exn (try_bind (reconfigured e (Configuration new) d) (assign_members p obj))) (\<lambda>d.
                       let d = d\<lparr> Notes := Notes d @ signed_notes e (Notes new), LastConfigurationChange := re_change_time e \<rparr> in
                       andThen (on_dr_store (UpdateDevice c (re_modify_time e) d)) (\<lambda>ok.
                         if ok then
                           andThen (on_dr_store (set_config_id s (UUID d))) (\<lambda>_.
                             with_dr (\<lambda>g. lift_exn (map_sum id Rest_Object
                               (Device_to_json e g (case GetDevice c s (dr_store g) of None \<Rightarrow> new_device | Some d \<Rightarrow> d)))))
                         else ret (Rest_InternalError ''RecordNotUpdated''))))))"

definition device_methods :: "rest_env \<Rightarrow> (device_rest, jobject) rest_methods" where
  "device_methods e = \<lparr> rm_Get = device_DoGet e, rm_Post = device_DoPost e, rm_Delete = device_DoDelete e, rm_Put = device_DoPut e \<rparr>"

section \<open>Lists of devices\<close>

definition DeviceDbFieldList :: "string list" where
  "DeviceDbFieldList =
     [''SerialNumber'', ''DeviceType'', ''MACAddress'', ''Manufacturer'', ''Configuration'', ''Notes'', ''Owner'', ''Location'',
      ''Firmware'', ''Compatible'', ''FWUpdatePolicy'', ''UUID'', ''CreationTimestamp'', ''LastConfigurationChange'',
      ''LastConfigurationDownload'', ''LastFWUpdate'', ''Venue'', ''DevicePassword'', ''subscriber'', ''entity'', ''modified'',
      ''locale'', ''restrictedDevice'', ''pendingConfiguration'', ''pendingConfigurationCmd'', ''restrictionDetails'',
      ''pendingUUID'', ''simulated'', ''lastRecordedContact'', ''certificateExpiryDate'', ''connectReason'']"

definition ORM_Escape :: "string \<Rightarrow> string" where
  "ORM_Escape s = concat (map (\<lambda>c. if c = CHR 0x27 then [CHR 0x27, CHR 0x27] else [c]) s)"

text \<open>The items of the order, each a field and a direction; the clause so far.\<close>

fun order_items :: "(string \<Rightarrow> string) \<Rightarrow> (string \<Rightarrow> string list) \<Rightarrow> string set \<Rightarrow> string list \<Rightarrow> string \<Rightarrow> string option" where
  "order_items lower colons names [] clause = Some clause"
| "order_items lower colons names (i # items) clause =
     (let t = colons i in
      if length t \<noteq> 2 then None
      else if t ! 1 \<noteq> ''a'' \<and> t ! 1 \<noteq> ''d'' then None
      else if lower (t ! 0) \<notin> names then None
      else order_items lower colons names items
             ((if clause = [] then [] else clause @ '' , '') @ t ! 0 @ (if t ! 1 = ''a'' then '' ASC'' else '' DESC'')))"

text \<open>The clause of the order, or the one given when the list is empty.\<close>

definition PrepareOrderBy :: "(string \<Rightarrow> string) \<Rightarrow> (char \<Rightarrow> string \<Rightarrow> string list) \<Rightarrow> string \<Rightarrow> string \<Rightarrow> string option" where
  "PrepareOrderBy lower split raw clause =
     map_option (\<lambda>l. if l = [] then clause else '' ORDER BY '' @ l)
       (order_items lower (split (CHR '':'')) (lower ` set DeviceDbFieldList) (split (CHR '','') (ORM_Escape raw)) [])"

definition status_or_not :: "rest_env \<Rightarrow> device_rest \<Rightarrow> bool \<Rightarrow> device \<Rightarrow> cpp_exn + jobject" where
  "status_or_not e g status d = (if status then Device_to_json_with_status e g d else Device_to_json e g d)"

definition answer_objects :: "string \<Rightarrow> ('r \<Rightarrow> cpp_exn + jobject) \<Rightarrow> 'r list \<Rightarrow> jobject rest_reply dop" where
  "answer_objects name f rs = andThen (lift_exn (all_json f rs)) (\<lambda>os. ret (Rest_Object (objs_to_json name os [])))"

text \<open>The devices of a selection that have a serial number that could be one and are found.\<close>

definition selected_devices :: "codec \<Rightarrow> string list \<Rightarrow> storage \<Rightarrow> device list" where
  "selected_devices c ss st = List.map_filter (\<lambda>s. if ValidSerialNumber s then GetDevice c s st else None) ss"

definition devices_list :: "rest_env \<Rightarrow> call_data \<Rightarrow> string option \<Rightarrow> string \<Rightarrow> device_rest \<Rightarrow> jobject rest_reply dop" where
  "devices_list e h clause platform g =
     (let ps = parameters_of h; qb = hd_query h; c = re_codec e;
          status = GetBoolParameter ''deviceWithStatus'' False ps;
          name = (if status then ''devicesWithStatus'' else ''devices'');
          order = map_option (re_order e) clause;
          provisioned = GetBoolParameter ''includeProvisioned'' True ps;
          from = unat (qb_Offset qb); howmany = unat (qb_Limit qb) in
      if qb_Select qb \<noteq> [] then
        answer_objects name
          (if GetBoolParameter ''completeInfo'' False ps then CompleteDeviceInfo e g else status_or_not e g status)
          (selected_devices c (qb_Select qb) (dr_store g))
      else if qb_CountOnly qb then
        ret (Rest_Object (case GetDeviceCount c platform (dr_store g) of None \<Rightarrow> [] | Some n \<Rightarrow> u64_to_json ''count'' (of_nat n) []))
      else if GetBoolParameter ''serialOnly'' False ps then
        ret (Rest_Object (strs_to_json ''serialNumbers''
               (case GetDeviceSerialNumbers c from howmany order platform provisioned (dr_store g) of None \<Rightarrow> [] | Some ss \<Rightarrow> ss) []))
      else if GetBoolParameter ''health'' False ps then
        andThen (lift_exn (GetParameter_u64 ''lowLimit'' 30 ps)) (\<lambda>lo.
        andThen (lift_exn (GetParameter_u64 ''highLimit'' 80 ps)) (\<lambda>hi.
        andThen (lift_exn (GetHealthDevices lo hi (dr_server g))) (\<lambda>ss.
          ret (Rest_Object (strs_to_json ''serialNumbers'' ss [])))))
      else
        answer_objects name (status_or_not e g status)
          (case GetDevices c from howmany order platform provisioned (dr_store g) of None \<Rightarrow> [] | Some ds \<Rightarrow> ds))"

text \<open>Without a clause the rows come by serial number.\<close>

definition devices_DoGet :: "rest_env \<Rightarrow> call_data \<Rightarrow> jobject rest_reply dop" where
  "devices_DoGet e h = with_dr (\<lambda>g.
     let p = re_poco e; ps = parameters_of h; s = dr_server g in
     if GetBoolParameter ''connectionStatistics'' False ps then
       ret (Rest_Object
         (writes [u64_to_json ''averageConnectionTime'' (AverageDeviceConnectionTime s),
                  u64_to_json ''connectedDevices'' (NumberOfConnectedDevices s),
                  u64_to_json ''connectingDevices'' (NumberOfConnectingDevices s)] []))
     else if GetBoolParameter ''orderSpec'' False ps then ret (Rest_Object (strs_to_json ''list'' (sort DeviceDbFieldList) []))
     else
       case (case HasParameter ''orderBy'' ps of
               None \<Rightarrow> Some []
             | Some raw \<Rightarrow> PrepareOrderBy (p_toLower p) (re_split e) raw []) of
         None \<Rightarrow> ret (Rest_BadRequest ''InvalidLOrderBy'')
       | Some clause \<Rightarrow>
           let platform = p_toLower p (GetParameter ''platform'' [] ps) in
           if platform \<noteq> [] \<and> platform \<noteq> ''ap'' \<and> platform \<noteq> ''switch'' \<and> platform \<noteq> ''all''
           then ret (Rest_BadRequest ''MissingOrInvalidParameters'')
           else devices_list e h (if clause = [] then None else Some clause) (if platform = ''all'' then [] else platform) g)"

text \<open>
  \<^verbatim>\<open>std::for_each\<close> answers the function it was given, which converted to \<^verbatim>\<open>bool\<close> is true: every pattern is taken.
\<close>

definition ValidMacPatternOnlyChars :: "string \<Rightarrow> bool" where
  "ValidMacPatternOnlyChars s \<longleftrightarrow> True"

fun delete_each :: "string list \<Rightarrow> unit dop" where
  "delete_each [] = ret ()"
| "delete_each (s # ss) = andThen (on_dr_store (DeleteDevice s)) (\<lambda>_. delete_each ss)"

definition devices_DoDelete :: "rest_env \<Rightarrow> call_data \<Rightarrow> jobject rest_reply dop" where
  "devices_DoDelete e h =
     (let p = re_poco e; ps = parameters_of h; select = qb_Select (hd_query h) in
      if \<not> IsRootOrAdmin (hd_user h) then ret (Rest_UnAuthorized ''ACCESS_DENIED'')
      else if GetBoolParameter ''simulatedDevices'' False ps then (\<lambda>g. (Inr Rest_OK, g\<lparr> dr_simulated := dr_simulated g + 1 \<rparr>))
      else if select \<noteq> [] \<and> \<not> ValidSerialNumbers select then ret (Rest_BadRequest ''MissingOrInvalidParameters'')
      else if select \<noteq> [] then andThen (delete_each select) (\<lambda>_. ret Rest_OK)
      else
        let simulatedOnly = GetBoolParameter ''simulatedOnly'' False ps in
        andThen (lift_exn (GetParameter_u64 ''oldestContact'' 0 ps)) (\<lambda>oldest.
          if oldest \<noteq> 0 then
            andThen (on_dr_store (DeleteDevices_older (re_codec e) oldest simulatedOnly)) (\<lambda>_. ret Rest_OK)
          else
            let macPattern = GetParameter ''macPattern'' [] ps in
            if macPattern = [] then ret (Rest_BadRequest ''MissingOrInvalidParameters'')
            else
              let macPattern = re_replace e (p_toLower p macPattern) ''*'' ''%'' in
              if \<not> ValidMacPatternOnlyChars macPattern then ret (Rest_BadRequest ''MissingOrInvalidParameters'')
              else andThen (on_dr_store (DeleteDevices_pattern (re_codec e) (re_like e) macPattern simulatedOnly)) (\<lambda>_. ret Rest_OK)))"

text \<open>The work of a thread that was started.\<close>

definition delete_simulated :: "rest_env \<Rightarrow> unit dop" where
  "delete_simulated e g =
     (if dr_simulated g = 0 then (Inr (), g)
      else andThen (on_dr_store (DeleteSimulatedDevice (re_codec e))) (\<lambda>_. ret ()) (g\<lparr> dr_simulated := dr_simulated g - 1 \<rparr>))"

definition devices_methods :: "rest_env \<Rightarrow> (device_rest, jobject) rest_methods" where
  "devices_methods e =
     \<lparr> rm_Get = devices_DoGet e, rm_Post = (\<lambda>_. ret (Rest_BadRequest ''UnsupportedHTTPMethod'')),
       rm_Delete = devices_DoDelete e, rm_Put = (\<lambda>_. ret (Rest_BadRequest ''UnsupportedHTTPMethod'')) \<rparr>"

end
