(* ===== verification/GW_DeviceRestProps.thy ===== *)
theory GW_DeviceRestProps
  imports GW_DeviceRest
begin

text \<open>
  What holds of the requests on devices: a device that was created is read as it was answered, a change keeps what it
  does not name, a deleted device is gone from the table and from the server, and an order asked for is made of the
  columns of the table.
\<close>

section \<open>The order of a list\<close>

text \<open>A clause from fields and directions.\<close>

definition order_field :: "string \<times> bool \<Rightarrow> string" where
  "order_field s = fst s @ (if snd s then '' ASC'' else '' DESC'')"

fun order_clause :: "string \<Rightarrow> (string \<times> bool) list \<Rightarrow> string" where
  "order_clause clause [] = clause"
| "order_clause clause (s # ss) = order_clause ((if clause = [] then [] else clause @ '' , '') @ order_field s) ss"

definition order_item :: "string \<times> bool \<Rightarrow> string list" where
  "order_item s = [fst s, if snd s then ''a'' else ''d'']"

lemma order_item_iff: "(\<exists>s. t = order_item s) \<longleftrightarrow> length t = 2 \<and> (t ! 1 = ''a'' \<or> t ! 1 = ''d'')"
proof
  assume t: "length t = 2 \<and> (t ! 1 = ''a'' \<or> t ! 1 = ''d'')"
  then obtain x y where xy: "t = [x, y]" by (auto simp: numeral_2_eq_2 length_Suc_conv)
  with t have "t = order_item (x, y = ''a'')" by (auto simp: order_item_def)
  then show "\<exists>s. t = order_item s" ..
next
  assume "\<exists>s. t = order_item s"
  then obtain s where "t = order_item s" ..
  then show "length t = 2 \<and> (t ! 1 = ''a'' \<or> t ! 1 = ''d'')" by (cases "snd s") (simp_all add: order_item_def)
qed

lemma order_item_nth: "order_item s ! 0 = fst s" "order_item s ! Suc 0 = (if snd s then ''a'' else ''d'')" "length (order_item s) = 2"
  by (simp_all add: order_item_def)

lemma order_items_iff:
  "order_items lower colons names items clause = Some r \<longleftrightarrow>
     (\<exists>ss. map colons items = map order_item ss \<and> (\<forall>s\<in>set ss. lower (fst s) \<in> names) \<and> r = order_clause clause ss)"
proof (induction items arbitrary: clause)
  case (Cons i items)
  show ?case
  proof (cases "\<exists>s. colons i = order_item s \<and> lower (fst s) \<in> names")
    case True
    then obtain s where s: "colons i = order_item s" "lower (fst s) \<in> names" by blast
    have unique: "t = s" if "order_item t = order_item s" for t
      using that by (cases t; cases s) (auto simp: order_item_def split: if_splits)
    have "order_items lower colons names (i # items) clause = Some r \<longleftrightarrow>
        order_items lower colons names items ((if clause = [] then [] else clause @ '' , '') @ order_field s) = Some r"
      using s by (auto simp: order_item_nth order_field_def Let_def)
    also have "\<dots> \<longleftrightarrow> (\<exists>ss. map colons items = map order_item ss \<and> (\<forall>s\<in>set ss. lower (fst s) \<in> names) \<and>
        r = order_clause clause (s # ss))"
      by (subst Cons.IH) simp
    also have "\<dots> \<longleftrightarrow> (\<exists>ss. map colons (i # items) = map order_item ss \<and> (\<forall>s\<in>set ss. lower (fst s) \<in> names) \<and>
        r = order_clause clause ss)" (is "?l \<longleftrightarrow> ?r")
    proof
      assume ?l
      then obtain ss where "map colons items = map order_item ss" "\<forall>s\<in>set ss. lower (fst s) \<in> names"
        "r = order_clause clause (s # ss)" by blast
      with s show ?r by (intro exI [of _ "s # ss"]) simp
    next
      assume ?r
      then obtain ss where ss: "map colons (i # items) = map order_item ss" "\<forall>s\<in>set ss. lower (fst s) \<in> names"
        "r = order_clause clause ss" by blast
      then obtain t ss' where "ss = t # ss'" by (cases ss) auto
      with ss s unique [of t] show ?l by (intro exI [of _ ss']) auto
    qed
    finally show ?thesis .
  next
    case False
    then have "order_items lower colons names (i # items) clause = None"
      using order_item_iff [of "colons i"] by (auto simp: order_item_nth Let_def)
    moreover have "\<not> (\<exists>ss. map colons (i # items) = map order_item ss \<and> (\<forall>s\<in>set ss. lower (fst s) \<in> names))"
    proof
      assume "\<exists>ss. map colons (i # items) = map order_item ss \<and> (\<forall>s\<in>set ss. lower (fst s) \<in> names)"
      then obtain ss where "map colons (i # items) = map order_item ss" "\<forall>s\<in>set ss. lower (fst s) \<in> names" by blast
      with False show False by (cases ss) auto
    qed
    ultimately show ?thesis by auto
  qed
qed auto

lemma order_clause_nonempty: "order_clause clause ss = [] \<longleftrightarrow> clause = [] \<and> ss = []"
  by (induction ss arbitrary: clause) (auto simp: order_field_def)

text \<open>
  C27: An order asked for is accepted exactly when every item of its list is a column of the device table, in any case,
  with a direction; the clause that goes into the statement is then made of these columns and directions alone, and of
  nothing else the request contains. An empty list leaves the order by serial number.
\<close>

theorem order_of_columns:
  "PrepareOrderBy lower split raw clause = Some r \<longleftrightarrow>
     (\<exists>ss. map (split (CHR '':'')) (split (CHR '','') (ORM_Escape raw)) = map order_item ss \<and>
           (\<forall>s\<in>set ss. \<exists>column\<in>set DeviceDbFieldList. lower (fst s) = lower column) \<and>
           r = (if ss = [] then clause else '' ORDER BY '' @ order_clause [] ss))"
proof -
  have columns: "(\<forall>s\<in>set ss. lower (fst s) \<in> lower ` set DeviceDbFieldList) \<longleftrightarrow>
      (\<forall>s\<in>set ss. \<exists>column\<in>set DeviceDbFieldList. lower (fst s) = lower column)" for ss :: "(string \<times> bool) list"
    by blast
  have "PrepareOrderBy lower split raw clause = Some r \<longleftrightarrow>
      (\<exists>l. order_items lower (split (CHR '':'')) (lower ` set DeviceDbFieldList) (split (CHR '','') (ORM_Escape raw)) [] = Some l \<and>
           r = (if l = [] then clause else '' ORDER BY '' @ l))"
    by (auto simp: PrepareOrderBy_def)
  then show ?thesis
    unfolding order_items_iff columns by (fastforce simp: order_clause_nonempty)
qed

section \<open>The storage under the requests\<close>

lemma om_set_twice: "om_set k v (om_set k w m) = om_set k v m"
  by (induction m) auto

lemma set_config_id_found:
  "SerialNumberToInt s = Inr n \<Longrightarrow> set_config_id s i st = (Inr (), st\<lparr> configs := SetCurrentConfig n i (configs st) \<rparr>)"
  by (simp add: set_config_id_def SetCurrentConfigurationID_def)

lemma SerialNumberToInt_inj:
  "serial_key s \<Longrightarrow> serial_key t \<Longrightarrow> SerialNumberToInt s = Inr n \<Longrightarrow> SerialNumberToInt t = Inr n \<Longrightarrow> s = t"
  by (metis serial_key_number sum.inject(2))

text \<open>The row of a device that is new, and what the configuration cache then expects of it.\<close>

lemma CreateDevice_new:
  assumes "mirrored st" and "writable st" and "serial_key (SerialNumber d)" and "om_find (devices st) (SerialNumber d) = None"
    and "Config_Valid p (Configuration d)" and "Config_SetUUID p (Configuration d) now = Inr (True, text)"
    and "SerialNumberToInt (SerialNumber d) = Inr n"
  shows "\<exists>st'. CreateDevice p c now now' d st = (Inr True, st') \<and> mirrored st' \<and> readable st' = readable st \<and>
           (\<forall>k. om_find (devices st') k =
             (if k = SerialNumber d
              then Some (to_row c (d\<lparr> modified := now', CreationTimestamp := now, LastConfigurationDownload := now,
                                      UUID := now, LastConfigurationChange := now, Configuration := text \<rparr>))
              else om_find (devices st) k)) \<and>
           GetCurrentConfig n (configs st') = now"
proof -
  obtain st' where st': "CreateDevice p c now now' d st = (Inr True, st')" "mirrored st'"
    using CreateDevice_mirror [OF assms(1-3,5,6)] by blast
  obtain sc where sc: "AddSerialNumber (SerialNumber d) (serials st) = (Inr (), sc)"
    using AddSerialNumber_correct [of "serials st" "SerialNumber d" n] assms(1,3,7)
    by (cases "AddSerialNumber (SerialNumber d) (serials st)") (auto simp: mirrored_def serial_key_def)
  have wf: "om_wf (devices st)" "om_wf (configs st)" using assms(1) by (simp_all add: mirrored_def storage_wf_def rows_ok_def)
  let ?row = "to_row c (d\<lparr> modified := now', CreationTimestamp := now, LastConfigurationDownload := now, UUID := now,
                           LastConfigurationChange := now, Configuration := text \<rparr>)"
  have "st\<lparr> devices := om_set (SerialNumber d) ?row (devices st),
              configs := SetCurrentConfig n now (SetCurrentConfig n now (configs st)), serials := sc \<rparr> = st'"
    using st'(1) assms(2,4-7) sc
    by (simp add: CreateDevice_def set_config_id_def SetCurrentConfigurationID_def insert_row_def Let_def)
  from this [symmetric] show ?thesis
    using st' wf by (simp add: om_find_set GetCurrentConfig_Set SetCurrentConfig_wf)
qed

section \<open>A device that was created\<close>

lemma posted_serial: "posted_device e h s = Inr d \<Longrightarrow> SerialNumber d = s"
  by (auto simp: posted_device_def Let_def split: prod.splits bool.splits if_splits)

lemma Device_to_json_black [simp]: "Device_to_json e g (d\<lparr> blackListed := b \<rparr>) = Device_to_json e g d"
  by (simp add: Device_to_json_def)

lemma with_uuid_object:
  assumes "parse_object p config = Inr obj"
  shows "with_uuid p t config = Inr (p_stringify p (om_set ''uuid'' (JInt (uint t)) obj))"
    and "Config_SetUUID p config t = Inr (True, p_stringify p (om_set ''uuid'' (JInt (uint t)) obj))"
  using assms by (simp_all add: with_uuid_def Config_SetUUID_def)

lemma Device_to_json_object:
  assumes "parse_object (re_poco e) (Configuration d) = Inr obj" and "Configuration d \<noteq> []"
  shows "\<exists>out. Device_to_json e g d = Inr out"
  using assms by (simp add: Device_to_json_def EmbedDocument_def)

definition made :: "rest_env \<Rightarrow> string \<Rightarrow> device \<Rightarrow> device" where
  "made e text d =
     d\<lparr> modified := re_modify_time e, CreationTimestamp := re_create_time e, LastConfigurationDownload := re_create_time e,
        UUID := re_create_time e, LastConfigurationChange := re_create_time e, Configuration := text \<rparr>"

text \<open>The storage after a device was created and its identifier set once more.\<close>

lemma created_stored:
  assumes "mirrored st" and "readable st" and "writable st" and "serial_key s" and "SerialNumberToInt s = Inr n"
    and "SerialNumber d = s" and "GetDevice (re_codec e) s st = None"
    and "Config_Valid (re_poco e) (Configuration d)"
    and "Config_SetUUID (re_poco e) (Configuration d) (re_create_time e) = Inr (True, text)" and "codec_ok (re_codec e) d"
  shows "\<exists>st1 st2. CreateDevice (re_poco e) (re_codec e) (re_create_time e) (re_modify_time e) d st = (Inr True, st1) \<and>
           set_config_id s (re_create_time e) st1 = (Inr (), st2) \<and> mirrored st2 \<and> NumberExists n (serials st2) \<and>
           GetCurrentConfig n (configs st2) = re_create_time e \<and>
           (\<forall>k. GetDevice (re_codec e) k st2 =
             (if k = s then Some ((made e text d)\<lparr> blackListed := False \<rparr>) else GetDevice (re_codec e) k st))"
proof -
  have fresh: "om_find (devices st) (SerialNumber d) = None" using assms(2,6,7) by (simp add: GetDevice_def)
  obtain st1 where st1: "CreateDevice (re_poco e) (re_codec e) (re_create_time e) (re_modify_time e) d st = (Inr True, st1)"
      "mirrored st1" "readable st1"
      "\<And>k. om_find (devices st1) k = (if k = s then Some (to_row (re_codec e) (made e text d)) else om_find (devices st) k)"
    using CreateDevice_new [OF assms(1,3) _ fresh assms(8,9), of n "re_codec e" "re_modify_time e"] assms(2,4-6)
    by (auto simp: made_def)
  let ?st = "st1\<lparr> configs := SetCurrentConfig n (re_create_time e) (configs st1) \<rparr>"
  have "codec_ok (re_codec e) (made e text d)" using assms(10) by (simp add: made_def codec_ok_def)
  then have "GetDevice (re_codec e) k ?st =
      (if k = s then Some ((made e text d)\<lparr> blackListed := False \<rparr>) else GetDevice (re_codec e) k st)" for k
    using st1(3,4) assms(2) by (simp add: GetDevice_def of_row_to_row)
  moreover have "mirrored ?st" using st1(2) by (simp add: mirrored_def storage_wf_def SetCurrentConfig_wf)
  moreover have "s \<in> fst ` set (devices st1)" using st1(4) [of s] om_find_in_set by force
  then have "NumberExists n (serials ?st)" using st1(2) assms(5) by (auto simp: mirrored_def)
  moreover have "GetCurrentConfig n (configs ?st) = re_create_time e"
    using st1(2) by (simp add: GetCurrentConfig_Set mirrored_def storage_wf_def)
  ultimately show ?thesis using st1(1) assms(5) by (intro exI [of _ st1] exI [of _ ?st]) (simp add: set_config_id_found)
qed

text \<open>
  C24: A device that is not in the table and is created by a request can be read: the answer of the request that asks
  for it afterwards is the answer of the one that made it. Its configuration holds the identifier of the moment of its
  creation, which the configuration cache then expects of the device; the cache of serial numbers has it, and every
  other device is as it was.
\<close>

theorem created_device_is_read:
  assumes "NormalizeMac (re_replace e) (p_toLower (re_poco e)) (serial_binding e h) = (True, s)"
    and "HasParameter ''validateOnly'' (parameters_of h) \<noteq> Some ''true''"
    and "posted_device e h s = Inr d"
    and "mirrored (dr_store g)" and "readable (dr_store g)" and "writable (dr_store g)"
    and "serial_key s" and "p_toLower (re_poco e) s = s" and "GetDevice (re_codec e) s (dr_store g) = None"
    and "parse_object (re_poco e) (Configuration d) = Inr obj" and "om_wf obj"
    and "\<forall>t\<in>{re_config_time e, re_create_time e}.
           p_stringify (re_poco e) (om_set ''uuid'' (JInt (uint t)) obj) \<noteq> [] \<and>
           p_parse (re_poco e) (p_stringify (re_poco e) (om_set ''uuid'' (JInt (uint t)) obj)) =
             Inr (JObj (om_set ''uuid'' (JInt (uint t)) obj))"
    and "codec_ok (re_codec e) d"
    and "serial_binding e h' = serial_binding e h" and "\<not> GetBoolParameter ''completeInfo'' False (parameters_of h')"
  shows "\<exists>g' out d' n. device_DoPost e h g = (Inr (Rest_Object out), g') \<and>
           device_DoGet e h' g' = (Inr (Rest_Object out), g') \<and>
           mirrored (dr_store g') \<and> GetDevice (re_codec e) s (dr_store g') = Some d' \<and>
           parse_object (re_poco e) (Configuration d') = Inr (om_set ''uuid'' (JInt (uint (UUID d'))) obj) \<and>
           UUID d' = re_create_time e \<and> SerialNumberToInt s = Inr n \<and>
           GetCurrentConfig n (configs (dr_store g')) = UUID d' \<and> NumberExists n (serials (dr_store g')) \<and>
           (\<forall>k. k \<noteq> s \<longrightarrow> GetDevice (re_codec e) k (dr_store g') = GetDevice (re_codec e) k (dr_store g))"
proof -
  let ?p = "re_poco e"
  let ?c = "re_codec e"
  let ?obj = "\<lambda>t. om_set ''uuid'' (JInt (uint t)) obj"
  let ?text = "\<lambda>t. p_stringify ?p (?obj t)"
  have ser: "SerialNumber d = s" using assms(3) by (rule posted_serial)
  obtain n where n: "SerialNumberToInt s = Inr n" using assms(7) by (metis serial_key_number)
  have parse: "parse_object ?p (?text t) = Inr (?obj t)" if "t \<in> {re_config_time e, re_create_time e}" for t
    using assms(12) that by (auto simp: parse_object_def extract_object_def)
  define d1 where "d1 = d\<lparr> UUID := re_config_time e, Configuration := ?text (re_config_time e), SerialNumber := p_toLower ?p (SerialNumber d) \<rparr>"
  define d2 where "d2 = made e (?text (re_create_time e)) d1"
  have d1: "SerialNumber d1 = s" "Configuration d1 = ?text (re_config_time e)" "codec_ok ?c d1"
    using ser assms(8,13) by (simp_all add: d1_def codec_ok_def)
  have set1: "Config_SetUUID ?p (Configuration d1) (re_create_time e) = Inr (True, ?text (re_create_time e))"
    "with_uuid ?p (re_create_time e) (Configuration d1) = Inr (?text (re_create_time e))"
    using with_uuid_object [OF parse [of "re_config_time e"], of "re_create_time e"] d1(2) by (simp_all add: om_set_twice)
  have valid: "Config_Valid ?p (Configuration d1)"
    using parse [of "re_config_time e"] d1(2) assms(11) by (simp add: Config_Valid_def j_has_def om_find_set)
  obtain st1 st2 where st: "CreateDevice ?p ?c (re_create_time e) (re_modify_time e) d1 (dr_store g) = (Inr True, st1)"
      "set_config_id s (re_create_time e) st1 = (Inr (), st2)" "mirrored st2" "NumberExists n (serials st2)"
      "GetCurrentConfig n (configs st2) = re_create_time e"
      "\<forall>k. GetDevice ?c k st2 = (if k = s then Some (d2\<lparr> blackListed := False \<rparr>) else GetDevice ?c k (dr_store g))"
    using created_stored [OF assms(4-7) n d1(1) assms(9) valid set1(1) d1(3)] d2_def by blast
  let ?g = "g\<lparr> dr_store := st2 \<rparr>"
  have stamp: "stamped e d1 = Inr d2" using set1(2) by (simp add: stamped_def d2_def made_def)
  have d2: "UUID d2 = re_create_time e" "Configuration d2 = ?text (re_create_time e)" by (simp_all add: d2_def made_def)
  have object: "parse_object ?p (Configuration d2) = Inr (?obj (re_create_time e))" using parse d2(2) by simp
  obtain out where out: "Device_to_json e ?g d2 = Inr out"
    using Device_to_json_object [OF object] assms(12) d2(2) by auto
  have "device_DoPost e h g = (Inr (Rest_Object out), ?g)"
    using assms(1-3) with_uuid_object(1) [OF assms(10), of "re_config_time e"] st(1,2) stamp out d2(1)
    by (simp add: device_DoPost_def Let_def andThen_def lift_exn_def on_dr_store_def with_dr_def d1_def [symmetric])
  moreover have "device_DoGet e h' ?g = (Inr (Rest_Object out), ?g)"
    using assms(1,14,15) st(6) out by (simp add: device_DoGet_def with_dr_def lift_exn_def)
  ultimately show ?thesis
    using st n object d2
    by (intro exI [of _ ?g] exI [of _ out] exI [of _ "d2\<lparr> blackListed := False \<rparr>"] exI [of _ n]) simp
qed

section \<open>A device that was deleted\<close>

lemma no_vendor_deletion:
  assumes "NormalizeMac repl lower mac = (True, s)" and "\<And>t. length (lower t) = length t"
  shows "length s \<noteq> 6"
  using assms by (auto simp: NormalizeMac_def Let_def split: if_splits)

lemma device_conn_Disconnect:
  "device_conn k (snd (Disconnect n s)) = (if k = n then None else device_conn k s)"
  by (auto simp: Disconnect_def device_conn_def sh_find_def sh_erase_def om_find_erase split: option.splits)

lemma not_connected_after: "\<not> Connected n (if Connected n s then snd (Disconnect n s) else s)"
  by (simp add: Connected_def device_conn_Disconnect)

text \<open>
  C26: A device is deleted by a request of a root user or an administrator and of nobody else: the answer to others
  changes nothing, for one device and for lists. After a deletion the device is not found and not connected, the cache
  of serial numbers mirrors the table, and every other device and connection is as it was.
\<close>

theorem deleted_device_gone:
  assumes "NormalizeMac (re_replace e) (p_toLower (re_poco e)) (serial_binding e h) = (True, s)"
    and "mirrored (dr_store g)" and "writable (dr_store g)" and "serial_key s"
  shows "if IsRootOrAdmin (hd_user h)
         then \<exists>g' n. device_DoDelete e h g = (Inr Rest_OK, g') \<and> mirrored (dr_store g') \<and>
                (\<forall>k. om_find (devices (dr_store g')) k = (if k = s then None else om_find (devices (dr_store g)) k)) \<and>
                SerialNumberToInt s = Inr n \<and> \<not> Connected n (dr_server g') \<and>
                (\<forall>k. k \<noteq> n \<longrightarrow> device_conn k (dr_server g') = device_conn k (dr_server g))
         else device_DoDelete e h g = (Inr (Rest_UnAuthorized ''ACCESS_DENIED''), g) \<and>
              devices_DoDelete e h g = (Inr (Rest_UnAuthorized ''ACCESS_DENIED''), g)"
proof (cases "IsRootOrAdmin (hd_user h)")
  case True
  obtain n where n: "SerialNumberToInt s = Inr n" using assms(4) by (metis serial_key_number)
  obtain st' where st': "DeleteDevice s (dr_store g) = (Inr True, st')" "mirrored st'"
      "\<And>k. om_find (devices st') k = (if k = s then None else om_find (devices (dr_store g)) k)"
    using DeleteDevice_mirror [OF assms(2-4)] by blast
  let ?s = "if Connected n (dr_server g) then snd (Disconnect n (dr_server g)) else dr_server g"
  let ?g = "g\<lparr> dr_store := st', dr_server := ?s \<rparr>"
  have run: "device_DoDelete e h g = (Inr Rest_OK, ?g)"
    using True assms(1) n st'(1) by (simp add: device_DoDelete_def andThen_def lift_exn_def on_dr_store_def)
  have off: "\<not> Connected n (dr_server ?g)" using not_connected_after [of n "dr_server g"] by simp
  have others: "device_conn k (dr_server ?g) = device_conn k (dr_server g)" if "k \<noteq> n" for k
    using that by (simp add: device_conn_Disconnect)
  have rows: "mirrored (dr_store ?g)"
    "om_find (devices (dr_store ?g)) k = (if k = s then None else om_find (devices (dr_store g)) k)" for k
    using st'(2,3) by simp_all
  show ?thesis using True run off others rows n by (simp only: if_True) blast
next
  case False
  then show ?thesis by (simp add: device_DoDelete_def devices_DoDelete_def ret_def Let_def)
qed

text \<open>A selection: every device of it is deleted, and no other.\<close>

lemma delete_each_mirror:
  assumes "mirrored (dr_store g)" and "writable (dr_store g)" and "\<forall>s\<in>set ss. serial_key s"
  shows "\<exists>g'. delete_each ss g = (Inr (), g') \<and> mirrored (dr_store g') \<and> writable (dr_store g') \<and>
           (\<forall>k. om_find (devices (dr_store g')) k = (if k \<in> set ss then None else om_find (devices (dr_store g)) k))"
  using assms
proof (induction ss arbitrary: g)
  case Nil
  then show ?case by (simp add: ret_def)
next
  case (Cons s ss)
  obtain st' where st': "DeleteDevice s (dr_store g) = (Inr True, st')" "mirrored st'"
      "\<And>k. om_find (devices st') k = (if k = s then None else om_find (devices (dr_store g)) k)"
    using DeleteDevice_mirror [OF Cons.prems(1,2), of s] Cons.prems(3) by auto
  have "writable st'"
    using st'(1) Cons.prems(2) by (auto simp: DeleteDevice_def delete_rows_def Let_def split: prod.splits sum.splits)
  then obtain g' where "delete_each ss (g\<lparr> dr_store := st' \<rparr>) = (Inr (), g')" "mirrored (dr_store g')" "writable (dr_store g')"
      "\<forall>k. om_find (devices (dr_store g')) k = (if k \<in> set ss then None else om_find (devices st') k)"
    using Cons.IH [of "g\<lparr> dr_store := st' \<rparr>"] st'(2) Cons.prems(3) by auto
  then show ?case using st' by (intro exI [of _ g']) (auto simp: andThen_def on_dr_store_def)
qed

theorem selected_devices_gone:
  assumes "mirrored (dr_store g)" and "writable (dr_store g)" and "IsRootOrAdmin (hd_user h)"
    and "\<not> GetBoolParameter ''simulatedDevices'' False (parameters_of h)"
    and "qb_Select (hd_query h) \<noteq> []" and "\<forall>s\<in>set (qb_Select (hd_query h)). serial_key s"
    and "ValidSerialNumbers (qb_Select (hd_query h))"
  shows "\<exists>g'. devices_DoDelete e h g = (Inr Rest_OK, g') \<and> mirrored (dr_store g') \<and>
           (\<forall>k. om_find (devices (dr_store g')) k =
             (if k \<in> set (qb_Select (hd_query h)) then None else om_find (devices (dr_store g)) k))"
  using delete_each_mirror [OF assms(1,2,6)] assms(3-5,7)
  by (auto simp: devices_DoDelete_def Let_def andThen_def ret_def)

text \<open>Whatever the pattern, it reaches the statement.\<close>

lemma every_pattern_deletes:
  assumes "IsRootOrAdmin (hd_user h)" and "\<not> GetBoolParameter ''simulatedDevices'' False (parameters_of h)"
    and "qb_Select (hd_query h) = []" and "GetParameter_u64 ''oldestContact'' 0 (parameters_of h) = Inr 0"
    and "GetParameter ''macPattern'' [] (parameters_of h) = m" and "m \<noteq> []"
  shows "devices_DoDelete e h g =
           andThen (on_dr_store (DeleteDevices_pattern (re_codec e) (re_like e)
             (re_replace e (p_toLower (re_poco e) m) ''*'' ''%'')
             (GetBoolParameter ''simulatedOnly'' False (parameters_of h)))) (\<lambda>_. ret Rest_OK) g"
  using assms by (simp add: devices_DoDelete_def Let_def andThen_def lift_exn_def ValidMacPatternOnlyChars_def)

section \<open>A device that was changed\<close>

definition text_member :: "poco \<Rightarrow> jobject \<Rightarrow> string \<Rightarrow> string \<Rightarrow> string" where
  "text_member p obj field old =
     (if j_has obj field then (case p_string p (j_get obj field) of Inr v \<Rightarrow> v | Inl _ \<Rightarrow> old) else old)"

definition put_members :: "string set" where
  "put_members = {''venue'', ''owner'', ''location'', ''subscriber'', ''entity''}"

lemma AssignIfPresent_member:
  assumes "j_has obj field \<longrightarrow> (\<exists>v. p_string p (j_get obj field) = Inr v)" and "\<And>d. upd (get d) d = d"
  shows "AssignIfPresent p obj field upd d = Inr (upd (text_member p obj field (get d)) d)"
  using assms by (auto simp: AssignIfPresent_def text_member_def)

lemma assign_members_all:
  assumes "\<forall>field\<in>put_members. j_has obj field \<longrightarrow> (\<exists>v. p_string p (j_get obj field) = Inr v)"
  shows "assign_members p obj d =
           Inr (d\<lparr> Venue := text_member p obj ''venue'' (Venue d), Owner := text_member p obj ''owner'' (Owner d),
                   Location := text_member p obj ''location'' (Location d),
                   subscriber := text_member p obj ''subscriber'' (subscriber d),
                   entity := text_member p obj ''entity'' (entity d) \<rparr>)"
  using assms by (simp add: put_members_def assign_members_def AssignIfPresent_member [where get = Venue]
    AssignIfPresent_member [where get = Owner] AssignIfPresent_member [where get = Location]
    AssignIfPresent_member [where get = subscriber] AssignIfPresent_member [where get = entity])

text \<open>The device a change leads to.\<close>

definition changed :: "rest_env \<Rightarrow> jobject \<Rightarrow> device \<Rightarrow> string \<Rightarrow> u64 \<Rightarrow> device \<Rightarrow> device" where
  "changed e obj new config ident d =
     d\<lparr> Configuration := config, UUID := ident,
        Venue := text_member (re_poco e) obj ''venue'' (Venue d), Owner := text_member (re_poco e) obj ''owner'' (Owner d),
        Location := text_member (re_poco e) obj ''location'' (Location d),
        subscriber := text_member (re_poco e) obj ''subscriber'' (subscriber d),
        entity := text_member (re_poco e) obj ''entity'' (entity d),
        Notes := Notes d @ signed_notes e (Notes new), LastConfigurationChange := re_change_time e, modified := re_modify_time e \<rparr>"

lemma device_DoPut_row:
  assumes "ValidSerialNumber (serial_binding e h)" and "hd_body h = Some obj"
    and "Device_from_json (re_poco e) obj new_device = (True, new)"
    and "GetDevice (re_codec e) (serial_binding e h) (dr_store g) = Some d"
    and "Configuration new = [] \<or>
         re_validate e (Validator_GetType (p_toLower (re_poco e)) (DeviceType d)) (Configuration new)
           (GetBoolParameter ''strict'' False (parameters_of h)) = None"
    and "reconfigured e (Configuration new) d = Inr (d\<lparr> Configuration := config, UUID := ident \<rparr>)"
    and "\<forall>field\<in>put_members. j_has obj field \<longrightarrow> (\<exists>v. p_string (re_poco e) (j_get obj field) = Inr v)"
    and "storage_wf (dr_store g)" and "writable (dr_store g)" and "SerialNumberToInt (serial_binding e h) = Inr n"
  shows "\<exists>r st'. device_DoPut e h g = (r, g\<lparr> dr_store := st' \<rparr>) \<and>
           devices st' = om_set (serial_binding e h) (to_row (re_codec e) (changed e obj new config ident d)) (devices (dr_store g)) \<and>
           configs st' = SetCurrentConfig n ident (configs (dr_store g)) \<and> serials st' = serials (dr_store g) \<and>
           readable st' = readable (dr_store g)"
proof -
  let ?s = "serial_binding e h"
  have row: "om_find (devices (dr_store g)) ?s \<noteq> None" "SerialNumber d = ?s"
    using assms(4,8) by (auto simp: GetDevice_def dest: storage_wf_find split: if_splits)
  let ?d = "changed e obj new config ident d"
  let ?st = "(dr_store g)\<lparr> devices := om_set ?s (to_row (re_codec e) ?d) (devices (dr_store g)) \<rparr>"
  let ?st' = "?st\<lparr> configs := SetCurrentConfig n ident (configs ?st) \<rparr>"
  note run = device_DoPut_def with_dr_def andThen_def lift_exn_def on_dr_store_def Let_def assign_members_all
    UpdateDevice_def exec_update_def changed_def set_config_id_found
  obtain rw where rw: "om_find (devices (dr_store g)) ?s = Some rw" using row(1) by blast
  have "snd (device_DoPut e h g) = g\<lparr> dr_store := ?st' \<rparr>"
  proof (cases "Configuration new = []")
    case True
    then show ?thesis using assms(1-4,6,7,9,10) rw row(2) by (simp add: run)
  next
    case False
    with assms(5) have "re_validate e (Validator_GetType (p_toLower (re_poco e)) (DeviceType d)) (Configuration new)
        (GetBoolParameter ''strict'' False (parameters_of h)) = None" by simp
    then show ?thesis using assms(1-4,6,7,9,10) rw row(2) False by (simp add: run)
  qed
  then show ?thesis
    by (intro exI [of _ "fst (device_DoPut e h g)"] exI [of _ ?st']) (simp add: prod_eq_iff)
qed

text \<open>
  C25: A change of a device keeps what the request does not name. Afterwards the row of the device is the one before with
  the members of the body, the notes of the body behind its own, signed by the user, and the times of the change; when
  the body has a configuration, it is stored under the identifier of this moment, otherwise configuration and identifier
  are the old ones. A pending change stays pending. The configuration cache expects the identifier of the row, and every
  other device is as it was.
\<close>

theorem change_keeps_the_rest:
  assumes "ValidSerialNumber (serial_binding e h)" and "hd_body h = Some obj"
    and "Device_from_json (re_poco e) obj new_device = (True, new)"
    and "GetDevice (re_codec e) s (dr_store g) = Some d" and "s = serial_binding e h"
    and "Configuration new = [] \<or>
         re_validate e (Validator_GetType (p_toLower (re_poco e)) (DeviceType d)) (Configuration new)
           (GetBoolParameter ''strict'' False (parameters_of h)) = None \<and>
         parse_object (re_poco e) (Configuration new) = Inr cobj"
    and "\<forall>field\<in>put_members. j_has obj field \<longrightarrow> (\<exists>v. p_string (re_poco e) (j_get obj field) = Inr v)"
    and "storage_wf (dr_store g)" and "writable (dr_store g)" and "SerialNumberToInt s = Inr n"
    and "codec_ok (re_codec e) (d\<lparr> Notes := Notes d @ signed_notes e (Notes new) \<rparr>)"
  shows "\<exists>r g' config ident. device_DoPut e h g = (r, g') \<and>
           (config, ident) =
             (if Configuration new = [] then (Configuration d, UUID d)
              else (p_stringify (re_poco e) (om_set ''uuid'' (JInt (uint (re_config_time e))) cobj), re_config_time e)) \<and>
           GetDevice (re_codec e) s (dr_store g') = Some (changed e obj new config ident d) \<and>
           GetCurrentConfig n (configs (dr_store g')) = ident \<and>
           (\<forall>k. k \<noteq> s \<longrightarrow> GetDevice (re_codec e) k (dr_store g') = GetDevice (re_codec e) k (dr_store g)) \<and>
           serials (dr_store g') = serials (dr_store g) \<and> dr_server g' = dr_server g"
proof -
  define config where "config = (if Configuration new = [] then Configuration d
      else p_stringify (re_poco e) (om_set ''uuid'' (JInt (uint (re_config_time e))) cobj))"
  define ident where "ident = (if Configuration new = [] then UUID d else re_config_time e)"
  have "reconfigured e (Configuration new) d = Inr (d\<lparr> Configuration := config, UUID := ident \<rparr>)"
    using assms(6) with_uuid_object(1) by (auto simp: reconfigured_def config_def ident_def)
  then obtain r st' where st': "device_DoPut e h g = (r, g\<lparr> dr_store := st' \<rparr>)"
      "devices st' = om_set s (to_row (re_codec e) (changed e obj new config ident d)) (devices (dr_store g))"
      "configs st' = SetCurrentConfig n ident (configs (dr_store g))" "serials st' = serials (dr_store g)"
      "readable st' = readable (dr_store g)"
    using device_DoPut_row [where config = config and ident = ident and n = n and e = e and h = h and g = g] assms(1-10) by blast
  have wf: "om_wf (devices (dr_store g))" "om_wf (configs (dr_store g))"
    using assms(8) by (simp_all add: storage_wf_def rows_ok_def)
  have on: "readable (dr_store g)" "\<not> blackListed d"
    using assms(4) by (auto simp: GetDevice_def blackListed_of_row split: if_splits)
  have "of_row (re_codec e) (to_row (re_codec e) (changed e obj new config ident d)) = changed e obj new config ident d"
    using assms(11) on(2) by (subst of_row_to_row) (simp_all add: codec_ok_def changed_def blackListed_upd)
  then have rows: "GetDevice (re_codec e) k st' =
      (if k = s then Some (changed e obj new config ident d) else GetDevice (re_codec e) k (dr_store g))" for k
    using st'(2,5) wf(1) on(1) by (simp add: GetDevice_def om_find_set)
  have "GetCurrentConfig n (configs st') = ident" using st'(3) wf(2) by (simp add: GetCurrentConfig_Set)
  then show ?thesis
    using st'(1,4) rows
    by (intro exI [of _ r] exI [of _ "g\<lparr> dr_store := st' \<rparr>"] exI [of _ config] exI [of _ ident])
       (simp add: config_def ident_def)
qed

section \<open>Requests to evaluate the properties on\<close>

definition cut_at :: "char \<Rightarrow> string \<Rightarrow> string list" where
  "cut_at c s = (if c = CHR '','' then [s] else [takeWhile (\<lambda>x. x \<noteq> c) s, drop 1 (dropWhile (\<lambda>x. x \<noteq> c) s)])"

definition replace_char :: "string \<Rightarrow> string \<Rightarrow> string \<Rightarrow> string" where
  "replace_char s old new = concat (map (\<lambda>c. if [c] = old then new else [c]) s)"

definition noting_codec :: codec where
  "noting_codec = plain_codec
     \<lparr> notes_out := (\<lambda>ns. if ns = [] then ''[]'' else ''[n]''),
       notes_in := (\<lambda>s. if s = ''[n]'' then [\<lparr> created = 5, createdBy = ''me'', note_text = ''hello'' \<rparr>] else []) \<rparr>"

definition demo_rest_env :: rest_env where
  "demo_rest_env =
     \<lparr> re_poco = plain_poco, re_codec = noting_codec, re_replace = replace_char, re_split = cut_at,
       re_validate = (\<lambda>_ _ _. None), re_order = (\<lambda>_ rows. rows), re_like = (\<lambda>_ _. False), re_gunz = (\<lambda>_ s. s), re_email = ''me'',
       re_note_time = 5, re_config_time = 7, re_change_time = 8, re_create_time = 7, re_modify_time = 8, re_now = 9 \<rparr>"

definition demo_rest :: device_rest where
  "demo_rest =
     \<lparr> dr_store = plain_storage, dr_server = online_server, dr_radius = [],
       dr_black = \<lparr> bl_table = [], bl_cache = [], bl_readable = True, bl_writable = True \<rparr>, dr_simulated = 0 \<rparr>"

definition demo_call :: "string \<Rightarrow> jobject option \<Rightarrow> call_data" where
  "demo_call serial body =
     \<lparr> hd_request = \<lparr> rq_method = ''POST'', rq_json = None, rq_parameters = [], rq_bindings = [(''serialNumber'', serial)],
                     rq_internal = False \<rparr>,
       hd_body = body, hd_user = plain_user,
       hd_query = \<lparr> qb_SerialNumber = [], qb_StartDate = 0, qb_EndDate = 0, qb_Offset = 0, qb_Limit = 100, qb_Filter = [],
                   qb_Lifetime = False, qb_LogType = 0, qb_LastOnly = False, qb_Newest = False, qb_CountOnly = False,
                   qb_AdditionalInfo = False, qb_Select = [] \<rparr> \<rparr>"

definition demo_body :: jobject where
  "demo_body = writes [str_to_json ''serialNumber'' ''24f5a207a130'', str_to_json ''configuration'' ''old''] []"

definition demo_change :: jobject where
  "demo_change =
     writes [str_to_json ''owner'' ''you'', str_to_json ''configuration'' ''old'',
             obj_set ''notes'' (JArr [JObj [(''note'', JStr ''hello'')]])] []"

theorem order_of_columns_witness:
  "PrepareOrderBy id cut_at ''serialNumber:d'' [] = None \<and>
   PrepareOrderBy id cut_at ''SerialNumber:d'' [] = Some '' ORDER BY SerialNumber DESC'' \<and>
   PrepareOrderBy id cut_at ''modified:a'' '' ORDER BY x'' = Some '' ORDER BY modified ASC''"
proof -
  have "PrepareOrderBy id cut_at ''SerialNumber:d'' [] = Some '' ORDER BY SerialNumber DESC''"
    by (subst order_of_columns) (rule exI [of _ "[(''SerialNumber'', False)]"], simp add: cut_at_def ORM_Escape_def
        order_item_def order_field_def DeviceDbFieldList_def)
  moreover have "PrepareOrderBy id cut_at ''modified:a'' '' ORDER BY x'' = Some '' ORDER BY modified ASC''"
    by (subst order_of_columns) (rule exI [of _ "[(''modified'', True)]"], simp add: cut_at_def ORM_Escape_def
        order_item_def order_field_def DeviceDbFieldList_def)
  moreover have "PrepareOrderBy id cut_at ''serialNumber:d'' [] = None"
    by (simp add: PrepareOrderBy_def cut_at_def ORM_Escape_def DeviceDbFieldList_def)
  ultimately show ?thesis by blast
qed

lemma demo_serials:
  "NormalizeMac replace_char (\<lambda>s. s) ''24:f5:a2:07:a1:30'' = (True, ''24f5a207a130'')"
  "NormalizeMac replace_char (\<lambda>s. s) ''24-f5-a2-07-a1-31'' = (True, ''24f5a207a131'')"
  by (simp_all add: NormalizeMac_def replace_char_def isxdigit_def isdigit_def Let_def less_eq_char_def)

lemma demo_lower: "p_toLower plain_poco = (\<lambda>s. s)"
  by (simp add: plain_poco_def poco_of_def)

lemma demo_binding: "serial_binding demo_rest_env (demo_call s b) = s"
  by (simp add: serial_binding_def demo_rest_env_def demo_call_def GetBinding_def demo_lower om_find_def)

theorem deleted_device_gone_witness:
  "\<exists>g'. device_DoDelete demo_rest_env (demo_call ''24-f5-a2-07-a1-31'' None) demo_rest = (Inr Rest_OK, g') \<and>
        om_find (devices (dr_store g')) ''24f5a207a131'' = None \<and> Connected 0x24f5a207a131 (dr_server demo_rest) \<and>
        \<not> Connected 0x24f5a207a131 (dr_server g')"
proof -
  have on: "Connected 0x24f5a207a131 (dr_server demo_rest)"
    by (simp add: demo_rest_def online_server_def Connected_def device_conn_def sh_laws fresh_connection_def)
  show ?thesis
    using deleted_device_gone [of demo_rest_env "demo_call ''24-f5-a2-07-a1-31'' None" "''24f5a207a131''" demo_rest]
      demo_serials demo_binding plain_mirrored plain_key plain_number on
    by (auto simp: demo_rest_env_def demo_lower demo_rest_def demo_call_def plain_user_def IsRootOrAdmin_def plain_storage_def)
qed

lemma demo_fields:
  "re_poco demo_rest_env = plain_poco" "re_codec demo_rest_env = noting_codec" "re_replace demo_rest_env = replace_char"
  "re_validate demo_rest_env t c strict = None" "re_email demo_rest_env = ''me''" "re_note_time demo_rest_env = 5"
  "re_config_time demo_rest_env = 7" "re_create_time demo_rest_env = 7" "re_change_time demo_rest_env = 8"
  "re_modify_time demo_rest_env = 8" "dr_store demo_rest = plain_storage"
  "parameters_of (demo_call s b) = []" "hd_body (demo_call s b) = b" "hd_user (demo_call s b) = plain_user"
  by (simp_all add: demo_rest_env_def demo_rest_def parameters_of_def demo_call_def)

lemma plain_string [simp]: "p_string plain_poco (JStr s) = Inr s"
  by (simp add: plain_poco_def poco_of_def)

definition demo_posted :: device where
  "demo_posted = new_device\<lparr> SerialNumber := ''24f5a207a130'', Configuration := ''old'' \<rparr>"

lemma demo_posted_read: "Device_from_json plain_poco demo_body new_device = (True, demo_posted)"
  by (simp add: Device_from_json_def demo_body_def demo_posted_def writes_def json_writers json_readers obj_set_def om_find_set
      whole_def objs_from_json_def om_find_def)

lemma demo_posted_device:
  "posted_device demo_rest_env (demo_call ''24:f5:a2:07:a1:30'' (Some demo_body)) ''24f5a207a130'' = Inr demo_posted"
proof -
  have "NormalizeMac replace_char (\<lambda>s. s) ''24f5a207a130'' = (True, ''24f5a207a130'')"
    by (simp add: NormalizeMac_def replace_char_def isxdigit_def isdigit_def Let_def less_eq_char_def)
  then show ?thesis
    using demo_posted_read
    by (simp add: posted_device_def demo_fields demo_lower demo_posted_def new_device_def signed_notes_def)
qed

theorem created_device_is_read_witness:
  "\<exists>g' out. device_DoPost demo_rest_env (demo_call ''24:f5:a2:07:a1:30'' (Some demo_body)) demo_rest = (Inr (Rest_Object out), g') \<and>
      device_DoGet demo_rest_env (demo_call ''24:f5:a2:07:a1:30'' None) g' = (Inr (Rest_Object out), g') \<and>
      GetCurrentConfig 0x24f5a207a130 (configs (dr_store g')) = 7"
proof -
  have n: "SerialNumberToInt ''24f5a207a130'' = Inr 0x24f5a207a130"
    using stoull16_hex [of "[2,4,15,5,10,2,0,7,10,1,3,0]"] by (simp add: SerialNumberToInt_def hex_digit_def)
  have new: "GetDevice noting_codec ''24f5a207a130'' plain_storage = None"
    by (simp add: GetDevice_def plain_storage_def om_find_def)
  have parse: "parse_object plain_poco ''old'' = Inr [(''uuid'', JInt 2)]"
    by (simp add: plain_poco_def poco_of_def parse_object_def extract_object_def)
  have print: "p_stringify plain_poco [(''uuid'', JInt 7)] = ''new''" "p_parse plain_poco ''new'' = Inr (JObj [(''uuid'', JInt 7)])"
    by (simp_all add: plain_poco_def poco_of_def)
  have codec: "codec_ok noting_codec demo_posted"
    by (simp add: codec_ok_def noting_codec_def plain_codec_def demo_posted_def new_device_def plain_restrictions_def)
  show ?thesis
    using created_device_is_read [of demo_rest_env "demo_call ''24:f5:a2:07:a1:30'' (Some demo_body)" "''24f5a207a130''" demo_posted
        demo_rest "[(''uuid'', JInt 2)]" "demo_call ''24:f5:a2:07:a1:30'' None"]
      demo_serials demo_posted_device plain_mirrored plain_key new parse print codec n
    by (auto simp: demo_fields demo_lower demo_binding HasParameter_def GetBoolParameter_def plain_storage_def om_wf_def
        demo_posted_def)
qed

definition demo_changed :: device where
  "demo_changed = new_device\<lparr> Configuration := ''old'', Notes := [\<lparr> created = 0, createdBy = [], note_text = ''hello'' \<rparr>],
     Owner := ''you'' \<rparr>"

lemma demo_change_members:
  "demo_change = [(''configuration'', JStr ''old''), (''notes'', JArr [JObj [(''note'', JStr ''hello'')]]), (''owner'', JStr ''you'')]"
  by (simp add: demo_change_def writes_def json_writers obj_set_def)

lemma demo_note_read:
  "NoteInfo_from_json plain_poco [(''note'', JStr ''hello'')] \<lparr> created = 0, createdBy = [], note_text = [] \<rparr> =
     (True, \<lparr> created = 0, createdBy = [], note_text = ''hello'' \<rparr>)"
  by (simp add: NoteInfo_from_json_def json_readers om_find_def)

lemma demo_change_read: "Device_from_json plain_poco demo_change new_device = (True, demo_changed)"
proof -
  have "Notes (new_device\<lparr> Configuration := ''old'' \<rparr>) = []" by (simp add: new_device_def)
  then show ?thesis
    by (simp add: Device_from_json_def demo_change_members demo_changed_def json_readers whole_def objs_from_json_def om_find_def
        extract_object_def demo_note_read del: device.simps(6))
qed

theorem change_keeps_the_rest_witness:
  "\<exists>r g' d'. device_DoPut demo_rest_env (demo_call ''24f5a207a131'' (Some demo_change)) demo_rest = (r, g') \<and>
      GetDevice noting_codec ''24f5a207a131'' (dr_store g') = Some d' \<and> Owner d' = ''you'' \<and> DeviceType d' = ''ap'' \<and>
      Configuration d' = ''new'' \<and> Notes d' = [\<lparr> created = 5, createdBy = ''me'', note_text = ''hello'' \<rparr>] \<and>
      GetCurrentConfig 0x24f5a207a131 (configs (dr_store g')) = 7"
proof -
  have d: "GetDevice noting_codec ''24f5a207a131'' plain_storage = Some (plain_device ''24f5a207a131'')"
    by (simp add: GetDevice_def plain_storage_def om_find_def noting_codec_def plain_codec_def plain_device_def to_row_def)
  have parse: "parse_object plain_poco ''old'' = Inr [(''uuid'', JInt 2)]"
    by (simp add: plain_poco_def poco_of_def parse_object_def extract_object_def)
  have print: "p_stringify plain_poco [(''uuid'', JInt 7)] = ''new''"
    by (simp add: plain_poco_def poco_of_def)
  have "ValidSerialNumber ''24f5a207a131''"
    by (simp add: ValidSerialNumber_def SERIAL_NUMBER_LENGTH_def isxdigit_def isdigit_def less_eq_char_def)
  moreover have "\<forall>field\<in>put_members. j_has demo_change field \<longrightarrow> (\<exists>v. p_string plain_poco (j_get demo_change field) = Inr v)"
    by (simp add: put_members_def demo_change_def j_has_def j_get_def writes_def json_writers obj_set_def om_find_def)
  moreover have "codec_ok noting_codec ((plain_device ''24f5a207a131'')\<lparr> Notes := signed_notes demo_rest_env (Notes demo_changed) \<rparr>)"
    by (simp add: codec_ok_def noting_codec_def plain_codec_def plain_device_def demo_changed_def signed_notes_def demo_fields)
  moreover have "writable plain_storage" by (simp add: plain_storage_def)
  moreover have "Notes (plain_device ''24f5a207a131'') = []" by (simp add: plain_device_def)
  ultimately show ?thesis
    using change_keeps_the_rest [of demo_rest_env "demo_call ''24f5a207a131'' (Some demo_change)" demo_change demo_changed
        "''24f5a207a131''" demo_rest "plain_device ''24f5a207a131''" "[(''uuid'', JInt 2)]" "0x24f5a207a131"]
      demo_change_read d plain_wf plain_number parse print
    by (auto simp: demo_fields demo_binding changed_def signed_notes_def demo_changed_def new_device_def text_member_def
        demo_change_def j_has_def j_get_def writes_def json_writers obj_set_def om_find_def plain_device_def)
qed

end
