(* ===== verification/GW_Streams.thy ===== *)
theory GW_Streams
  imports GW_RttyServer GW_Commands GW_Handler
begin

text \<open>
  Telemetry for browsers (\<^verbatim>\<open>src/TelemetryStream.cpp\<close>, \<^verbatim>\<open>TelemetryClient.cpp\<close>, \<^verbatim>\<open>RESTAPI_telemetryWebSocket.cpp\<close>), messages
  from one device to the others of its venue (\<^verbatim>\<open>VenueBroadcaster.h\<close>) and the agent that completes configuration changes
  (\<^verbatim>\<open>AP_WS_ConfigAutoUpgrader.cpp\<close>). Each has a queue and a thread that takes from it; a turn of the thread is one step.
\<close>

section \<open>Telemetry\<close>

text \<open>A set of texts, in order.\<close>

definition sset_insert :: "string \<Rightarrow> string list \<Rightarrow> string list" where
  "sset_insert x xs = (if x \<in> set xs then xs else insort x xs)"

definition sset_erase :: "string \<Rightarrow> string list \<Rightarrow> string list" where
  "sset_erase x xs = filter (\<lambda>y. y \<noteq> x) xs"

text \<open>The browser of an end point: its device and whether the reactor calls it.\<close>

record telemetry_client =
  tc_SerialNumber :: u64
  tc_Registered :: bool

datatype telemetry_notification = Telemetry_Data u64 string | Telemetry_Unregister string

record telemetry_stream =
  ts_Running :: bool
  ts_SerialNumbers :: "(u64, string list) omap"
  ts_Clients :: "(string, telemetry_client option) omap"
  ts_MsgQueue :: "telemetry_notification list"

definition IsValidEndPoint :: "u64 \<Rightarrow> string \<Rightarrow> telemetry_stream \<Rightarrow> bool" where
  "IsValidEndPoint serial uuid t \<longleftrightarrow>
     om_find (ts_Clients t) uuid \<noteq> None \<and>
     (case om_find (ts_SerialNumbers t) serial of None \<Rightarrow> False | Some uuids \<Rightarrow> uuid \<in> set uuids)"

definition serial_uuids :: "u64 \<Rightarrow> telemetry_stream \<Rightarrow> string list" where
  "serial_uuids serial t = (case om_find (ts_SerialNumbers t) serial of None \<Rightarrow> [] | Some uuids \<Rightarrow> uuids)"

definition add_uuid :: "u64 \<Rightarrow> string \<Rightarrow> telemetry_stream \<Rightarrow> telemetry_stream" where
  "add_uuid serial uuid t = t\<lparr> ts_SerialNumbers := om_set serial (sset_insert uuid (serial_uuids serial t)) (ts_SerialNumbers t) \<rparr>"

text \<open>The address of an end point is made by \<open>uri\<close> from its two parameters.\<close>

definition telemetry_CreateEndpoint ::
    "(string \<Rightarrow> string \<Rightarrow> string) \<Rightarrow> u64 \<Rightarrow> string \<Rightarrow> telemetry_stream \<Rightarrow> string \<times> telemetry_stream" where
  "telemetry_CreateEndpoint uri serial uuid t =
     (uri uuid (IntToSerialNumber serial), (add_uuid serial uuid t)\<lparr> ts_Clients := om_set uuid None (ts_Clients t) \<rparr>)"

definition NotifyEndPoint :: "u64 \<Rightarrow> string \<Rightarrow> telemetry_stream \<Rightarrow> telemetry_stream" where
  "NotifyEndPoint serial payload t = t\<lparr> ts_MsgQueue := ts_MsgQueue t @ [Telemetry_Data serial payload] \<rparr>"

definition DeRegisterClient :: "string \<Rightarrow> telemetry_stream \<Rightarrow> telemetry_stream" where
  "DeRegisterClient uuid t = t\<lparr> ts_MsgQueue := ts_MsgQueue t @ [Telemetry_Unregister uuid] \<rparr>"

text \<open>The client is made before it is stored; \<open>starts\<close> tells whether its constructor returns.\<close>

definition NewClient :: "bool \<Rightarrow> string \<Rightarrow> u64 \<Rightarrow> telemetry_stream \<Rightarrow> bool \<times> telemetry_stream" where
  "NewClient starts uuid serial t =
     (if starts
      then (True, (add_uuid serial uuid t)\<lparr> ts_Clients := om_set uuid (Some \<lparr> tc_SerialNumber = serial, tc_Registered = True \<rparr>) (ts_Clients t) \<rparr>)
      else (False, t))"

definition connected_client :: "telemetry_stream \<Rightarrow> string \<Rightarrow> bool" where
  "connected_client t uuid \<longleftrightarrow> (case om_find (ts_Clients t) uuid of Some (Some _) \<Rightarrow> True | _ \<Rightarrow> False)"

text \<open>
  A turn of the thread: what is sent, by end point. A send that raises is logged, and the next client is served.
\<close>

definition telemetry_notify :: "telemetry_notification \<Rightarrow> telemetry_stream \<Rightarrow> (string \<times> string) list \<times> telemetry_stream" where
  "telemetry_notify n t =
     (case n of
        Telemetry_Data serial payload \<Rightarrow>
          (map (\<lambda>uuid. (uuid, payload)) (filter (connected_client t) (serial_uuids serial t)), t)
      | Telemetry_Unregister uuid \<Rightarrow>
          (if om_find (ts_Clients t) uuid = None then ([], t)
           else ([], t\<lparr> ts_SerialNumbers :=
                          filter (\<lambda>(s, uuids). uuids \<noteq> []) (map (\<lambda>(s, uuids). (s, sset_erase uuid uuids)) (ts_SerialNumbers t)),
                        ts_Clients := om_erase uuid (ts_Clients t) \<rparr>)))"

definition telemetry_run :: "telemetry_stream \<Rightarrow> (string \<times> string) list \<times> telemetry_stream" where
  "telemetry_run t =
     (case ts_MsgQueue t of
        [] \<Rightarrow> ([], t)
      | n # q \<Rightarrow> if ts_Running t then telemetry_notify n (t\<lparr> ts_MsgQueue := q \<rparr>) else ([], t))"

subsection \<open>The browsers\<close>

text \<open>The server of the devices, the identifiers of requests, and what left the server.\<close>

record telemetry_world =
  tw_stream :: telemetry_stream
  tw_server :: server
  tw_rpc :: u64
  tw_effects :: "effect list"

definition SendTelemetryShutdown ::
    "poco \<Rightarrow> (handle \<Rightarrow> string \<Rightarrow> send_outcome) \<Rightarrow> string \<Rightarrow> telemetry_world \<Rightarrow> telemetry_world" where
  "SendTelemetryShutdown p ws uuid w =
     (case om_find (ts_Clients (tw_stream w)) uuid of
        Some (Some c) \<Rightarrow>
          let rpc = tw_rpc w + 1 in
          (case StopWebSocketTelemetry p ws rpc (tc_SerialNumber c) (tw_server w) of (s, es) \<Rightarrow>
             w\<lparr> tw_stream := DeRegisterClient uuid
                  ((tw_stream w)\<lparr> ts_Clients := om_set uuid (Some (c\<lparr> tc_Registered := False \<rparr>)) (ts_Clients (tw_stream w)) \<rparr>),
                tw_server := s, tw_rpc := rpc, tw_effects := tw_effects w @ es \<rparr>)
      | _ \<Rightarrow> w)"

text \<open>
  A frame of a browser, by its flags. An empty frame without flags and a close frame end it, and so does an exception, also the one of
  an answer to a ping that could not be sent (\<open>pong\<close>).
\<close>

definition telemetry_frame :: "(cpp_exn + unit) \<Rightarrow> browser_frame \<Rightarrow> bool" where
  "telemetry_frame pong frame =
     (case frame of
        Fr_Raise _ \<Rightarrow> True
      | Fr_Again \<Rightarrow> False
      | Fr_Frame flags data \<Rightarrow>
          let oper = flags mod 16 in
          if data = [] \<and> flags = 0 then True
          else if oper = FRAME_OP_PING then (case pong of Inl _ \<Rightarrow> True | Inr _ \<Rightarrow> False)
          else oper = FRAME_OP_CLOSE)"

definition telemetry_OnSocketReadable ::
    "poco \<Rightarrow> (handle \<Rightarrow> string \<Rightarrow> send_outcome) \<Rightarrow> (cpp_exn + unit) \<Rightarrow> browser_frame \<Rightarrow> string \<Rightarrow> telemetry_world \<Rightarrow> telemetry_world" where
  "telemetry_OnSocketReadable p ws pong frame uuid w =
     (if telemetry_frame pong frame then SendTelemetryShutdown p ws uuid w else w)"

text \<open>The shutdown of a socket and an error on it do the same.\<close>

definition telemetry_OnSocketShutdown ::
    "poco \<Rightarrow> (handle \<Rightarrow> string \<Rightarrow> send_outcome) \<Rightarrow> string \<Rightarrow> telemetry_world \<Rightarrow> telemetry_world" where
  "telemetry_OnSocketShutdown p ws uuid w = SendTelemetryShutdown p ws uuid w"

definition telemetry_OnSocketError ::
    "poco \<Rightarrow> (handle \<Rightarrow> string \<Rightarrow> send_outcome) \<Rightarrow> string \<Rightarrow> telemetry_world \<Rightarrow> telemetry_world" where
  "telemetry_OnSocketError p ws uuid w = SendTelemetryShutdown p ws uuid w"

text \<open>
  A browser that asks for an end point. \<open>upgrade\<close> tells whether it asks for a web socket, \<open>shakes\<close> whether one could be
  made; the last of several parameters of a name counts. The answer is whether it was connected;
  any refusal is a bad request.
\<close>

definition last_parameter :: "string \<Rightarrow> parameters \<Rightarrow> string" where
  "last_parameter name ps = (case map_of (rev ps) name of None \<Rightarrow> [] | Some v \<Rightarrow> v)"

definition telemetry_DoGet ::
    "(string \<Rightarrow> string \<Rightarrow> string \<Rightarrow> string) \<Rightarrow> (string \<Rightarrow> string) \<Rightarrow> bool \<Rightarrow> bool \<Rightarrow> bool \<Rightarrow> parameters \<Rightarrow> telemetry_stream \<Rightarrow>
     bool \<times> telemetry_stream" where
  "telemetry_DoGet repl lower upgrade shakes starts ps t =
     (if \<not> upgrade then (False, t)
      else case NormalizeMac repl lower (last_parameter ''serialNumber'' ps) of
        (False, _) \<Rightarrow> (False, t)
      | (True, s) \<Rightarrow>
          (case SerialNumberToInt s of
             Inl _ \<Rightarrow> (False, t)
           | Inr serial \<Rightarrow>
               let uuid = last_parameter ''uuid'' ps in
               if IsValidEndPoint serial uuid t \<and> shakes then NewClient starts uuid serial t else (False, t)))"

section \<open>Messages to a venue\<close>

record venue_info =
  vi_timestamp :: u64
  vi_serialNumbers :: "string list"

record venue_notification =
  vn_Source :: string
  vn_Data :: "jobject option"
  vn_TimeStamp :: u64

text \<open>\<open>vb_alive\<close>: no exception has ended the thread.\<close>

record venue_broadcaster =
  vb_Venues :: "(string, venue_info) omap"
  vb_BroadcastQueue :: "venue_notification list"
  vb_alive :: bool

definition Broadcast :: "string \<Rightarrow> jobject option \<Rightarrow> u64 \<Rightarrow> venue_broadcaster \<Rightarrow> venue_broadcaster" where
  "Broadcast source data stamp v =
     v\<lparr> vb_BroadcastQueue := vb_BroadcastQueue v @ [\<lparr> vn_Source = source, vn_Data = data, vn_TimeStamp = stamp \<rparr>] \<rparr>"

text \<open>
  The other devices of the venue, from a list that is not older than ten minutes or from the provisioning service:
  \<open>prov\<close> gives the venue and its devices, or nothing.
\<close>

definition fresh_venue :: "u64 \<Rightarrow> string \<Rightarrow> string \<times> venue_info \<Rightarrow> bool" where
  "fresh_venue now source e \<longleftrightarrow> source \<in> set (vi_serialNumbers (snd e)) \<and> now - vi_timestamp (snd e) < 600"

definition FindSerialNumberList ::
    "(string \<Rightarrow> (string \<times> string list) option) \<Rightarrow> u64 \<Rightarrow> string \<Rightarrow> venue_broadcaster \<Rightarrow> string list option \<times> venue_broadcaster" where
  "FindSerialNumberList prov now source v =
     (case find (fresh_venue now source) (vb_Venues v) of
        Some (_, info) \<Rightarrow> (Some (remove1 source (vi_serialNumbers info)), v)
      | None \<Rightarrow>
          (case prov source of
             None \<Rightarrow> (None, v)
           | Some (venue, found) \<Rightarrow>
               let sorted_serials = sort found;
                   v = v\<lparr> vb_Venues := om_set venue \<lparr> vi_timestamp = now, vi_serialNumbers = sorted_serials \<rparr> (vb_Venues v) \<rparr>
               in (if source \<in> set sorted_serials then Some (remove1 source sorted_serials) else None, v)))"

text \<open>The message; data that is not an object is a null pointer, whose printing raises.\<close>

definition venue_message :: "poco \<Rightarrow> venue_notification \<Rightarrow> cpp_exn + string" where
  "venue_message p n =
     (case vn_Data n of
        None \<Rightarrow> Inl (Poco_Exception ''NullPointerException'')
      | Some data \<Rightarrow>
          Inr (p_stringify p
            (foldl (\<lambda>o' f. f o') []
               [str_to_json ''jsonrpc'' ''2.0'', str_to_json ''method'' ''venue_broadcast'',
                sub_to_json ''params''
                  (foldl (\<lambda>o' f. f o') []
                     [str_to_json ''serial'' (vn_Source n), u64_to_json ''timestamp'' (vn_TimeStamp n), sub_to_json ''data'' data])])))"

text \<open>To each device; a serial number that is none raises, and the rest are not served.\<close>

fun send_to_devices ::
    "(handle \<Rightarrow> string \<Rightarrow> send_outcome) \<Rightarrow> string \<Rightarrow> string list \<Rightarrow> server \<times> effect list \<Rightarrow> (cpp_exn + unit) \<times> server \<times> effect list" where
  "send_to_devices ws payload [] (s, es) = (Inr (), s, es)"
| "send_to_devices ws payload (d # ds) (s, es) =
     (case SerialNumberToInt d of
        Inl x \<Rightarrow> (Inl x, s, es)
      | Inr n \<Rightarrow> (case SendFrame ws n payload s of (_, s', es') \<Rightarrow> send_to_devices ws payload ds (s', es @ es')))"

text \<open>A turn of the thread; nothing in it catches an exception.\<close>

definition venue_run ::
    "poco \<Rightarrow> (string \<Rightarrow> (string \<times> string list) option) \<Rightarrow> (handle \<Rightarrow> string \<Rightarrow> send_outcome) \<Rightarrow> u64 \<Rightarrow>
     venue_broadcaster \<times> server \<times> effect list \<Rightarrow> venue_broadcaster \<times> server \<times> effect list" where
  "venue_run p prov ws now w =
     (case w of (v, s, es) \<Rightarrow>
        (case vb_BroadcastQueue v of
           [] \<Rightarrow> (v, s, es)
         | n # q \<Rightarrow>
             if \<not> vb_alive v then (v, s, es)
             else
               (case FindSerialNumberList prov now (vn_Source n) (v\<lparr> vb_BroadcastQueue := q \<rparr>) of
                  (None, v) \<Rightarrow> (v, s, es)
                | (Some ds, v) \<Rightarrow>
                    (case venue_message p n of
                       Inl _ \<Rightarrow> (v\<lparr> vb_alive := False \<rparr>, s, es)
                     | Inr payload \<Rightarrow>
                         (case send_to_devices ws payload ds (s, es) of
                            (Inl _, s, es) \<Rightarrow> (v\<lparr> vb_alive := False \<rparr>, s, es)
                          | (Inr _, s, es) \<Rightarrow> (v, s, es))))))"

text \<open>The calls of a connection that reach the two services.\<close>

fun stream_effect :: "effect \<Rightarrow> telemetry_stream \<times> venue_broadcaster \<Rightarrow> telemetry_stream \<times> venue_broadcaster" where
  "stream_effect (Eff_WebSocketTelemetry serial payload) (t, v) = (NotifyEndPoint serial payload t, v)"
| "stream_effect (Eff_VenueBroadcast source data stamp) (t, v) = (t, Broadcast source data stamp v)"
| "stream_effect _ s = s"

end
