(* ===== verification/GW_StreamsProps.thy ===== *)
theory GW_StreamsProps
  imports GW_Streams
begin

text \<open>
  What holds of telemetry and of messages to a venue along every run: the maps of the stream are a relation between
  devices and browsers, every browser gets what its devices report, once and in order, and a message to a venue goes to
  devices that the provisioning service named at most ten minutes ago.
\<close>

section \<open>The relation of devices and browsers\<close>

definition viewers :: "telemetry_stream \<Rightarrow> (u64 \<times> string) set" where
  "viewers t = {(s, u). u \<in> set (serial_uuids s t)}"

definition stream_inv :: "telemetry_stream \<Rightarrow> bool" where
  "stream_inv t \<longleftrightarrow> om_wf (ts_SerialNumbers t) \<and> om_wf (ts_Clients t) \<and>
     (\<forall>s. sorted (serial_uuids s t) \<and> distinct (serial_uuids s t)) \<and>
     (\<forall>u. om_find (ts_Clients t) u \<noteq> None \<longleftrightarrow> (\<exists>s. (s, u) \<in> viewers t))"

lemma stream_invD:
  assumes "stream_inv t"
  shows "om_wf (ts_SerialNumbers t)" "om_wf (ts_Clients t)" "sorted (serial_uuids s t)" "distinct (serial_uuids s t)"
    "om_find (ts_Clients t) u \<noteq> None \<longleftrightarrow> (\<exists>s. (s, u) \<in> viewers t)"
  using assms by (auto simp: stream_inv_def)

lemma sset_insert [simp]: "set (sset_insert u us) = insert u (set us)"
  by (auto simp: sset_insert_def set_insort_key)

lemma sset_insert_ok: "sorted us \<Longrightarrow> distinct us \<Longrightarrow> sorted (sset_insert u us) \<and> distinct (sset_insert u us)"
  by (simp add: sset_insert_def sorted_insort distinct_insort)

lemma serial_uuids_add [simp]:
  "serial_uuids s (add_uuid serial u t) = (if s = serial then sset_insert u (serial_uuids serial t) else serial_uuids s t)"
  by (simp add: serial_uuids_def add_uuid_def om_find_set_any)

lemma serial_uuids_clients [simp]: "serial_uuids s (t\<lparr> ts_Clients := c \<rparr>) = serial_uuids s t"
  "serial_uuids s (t\<lparr> ts_MsgQueue := q \<rparr>) = serial_uuids s t"
  by (simp_all add: serial_uuids_def)

lemma viewers_clients [simp]: "viewers (t\<lparr> ts_Clients := c \<rparr>) = viewers t" "viewers (t\<lparr> ts_MsgQueue := q \<rparr>) = viewers t"
  by (simp_all add: viewers_def)

lemma viewers_add [simp]: "viewers (add_uuid s u t) = insert (s, u) (viewers t)"
  by (auto simp: viewers_def split: if_splits)

lemma add_uuid_wf: "om_wf (ts_SerialNumbers t) \<Longrightarrow> om_wf (ts_SerialNumbers (add_uuid s u t))"
  by (simp add: add_uuid_def om_wf_set)

lemma add_uuid_fields [simp]: "ts_Clients (add_uuid s u t) = ts_Clients t" "ts_MsgQueue (add_uuid s u t) = ts_MsgQueue t"
  "ts_Running (add_uuid s u t) = ts_Running t"
  by (simp_all add: add_uuid_def)

lemma stream_inv_add:
  assumes "stream_inv t"
  shows "stream_inv ((add_uuid s u t)\<lparr> ts_Clients := om_set u c (ts_Clients t) \<rparr>)"
  using assms by (auto simp: stream_inv_def add_uuid_wf om_wf_set om_find_set_any sset_insert_ok)

lemma stream_inv_queue [simp]: "stream_inv (t\<lparr> ts_MsgQueue := q \<rparr>) = stream_inv t"
  by (simp add: stream_inv_def)

lemma sorted_filter_id: "sorted xs \<Longrightarrow> sorted (filter f xs)"
  using sorted_filter [of "\<lambda>x. x" xs f] by simp

definition without_uuid :: "string \<Rightarrow> telemetry_stream \<Rightarrow> telemetry_stream" where
  "without_uuid uuid t =
     t\<lparr> ts_SerialNumbers := filter (\<lambda>(s, uuids). uuids \<noteq> []) (map (\<lambda>(s, uuids). (s, sset_erase uuid uuids)) (ts_SerialNumbers t)),
        ts_Clients := om_erase uuid (ts_Clients t) \<rparr>"

lemma om_find_map_filter:
  assumes "om_wf m"
  shows "om_find (filter (\<lambda>(k, x). x \<noteq> []) (map (\<lambda>(k, x). (k, f x)) m)) k =
           (case om_find m k of None \<Rightarrow> None | Some x \<Rightarrow> if f x = [] then None else Some (f x))"
  using assms
proof (induction m)
  case (Cons e m)
  obtain k' x where e: "e = (k', x)" by (cases e)
  have "om_find m k' = None" using Cons.prems e
    by (auto simp: om_wf_def om_find_def map_of_eq_None_iff)
  with Cons e show ?case by (auto simp: om_find_def om_wf_def split: option.splits)
qed (simp add: om_find_def)

lemma om_wf_map: "om_wf m \<Longrightarrow> om_wf (map (\<lambda>(k, x). (k, f x)) m)"
  by (simp add: om_wf_def case_prod_unfold comp_def)

lemma serial_uuids_without:
  "om_wf (ts_SerialNumbers t) \<Longrightarrow> serial_uuids s (without_uuid u t) = sset_erase u (serial_uuids s t)"
  by (auto simp: serial_uuids_def without_uuid_def om_find_map_filter sset_erase_def split: option.splits)

lemma Clients_without: "om_find (ts_Clients (without_uuid u t)) v = (if v = u then None else om_find (ts_Clients t) v)"
  by (simp add: without_uuid_def om_find_erase)

lemma viewers_without: "stream_inv t \<Longrightarrow> viewers (without_uuid u t) = {(s, v). (s, v) \<in> viewers t \<and> v \<noteq> u}"
  by (auto simp: viewers_def serial_uuids_without stream_invD(1) sset_erase_def)

lemma stream_inv_without:
  assumes "stream_inv t"
  shows "stream_inv (without_uuid u t)"
proof -
  have "om_wf (ts_SerialNumbers (without_uuid u t))" "om_wf (ts_Clients (without_uuid u t))"
    using stream_invD(1,2) [OF assms] by (simp_all add: without_uuid_def om_wf_filter om_wf_map om_wf_erase)
  moreover have "sorted (serial_uuids s (without_uuid u t)) \<and> distinct (serial_uuids s (without_uuid u t))" for s
    using stream_invD(3,4) [OF assms, of s] by (simp add: serial_uuids_without [OF stream_invD(1) [OF assms]] sset_erase_def sorted_filter_id)
  moreover have "om_find (ts_Clients (without_uuid u t)) v \<noteq> None \<longleftrightarrow> (\<exists>s. (s, v) \<in> viewers (without_uuid u t))" for v
    using stream_invD(5) [OF assms, of v] by (simp add: Clients_without viewers_without [OF assms])
  ultimately show ?thesis by (simp add: stream_inv_def)
qed

section \<open>The stream as a relation\<close>

text \<open>
  What happens to the stream: an end point is made for a device, a browser asks for one, a device reports, a browser
  leaves, the thread takes its turn.
\<close>

datatype stream_event =
    Tel_Create u64 string
  | Tel_Browser bool string u64
  | Tel_Report u64 string
  | Tel_Leave string
  | Tel_Turn

fun stream_step :: "stream_event \<Rightarrow> telemetry_stream \<Rightarrow> (string \<times> string) list \<times> telemetry_stream" where
  "stream_step (Tel_Create s u) t = ([], snd (telemetry_CreateEndpoint (\<lambda>_ _. []) s u t))"
| "stream_step (Tel_Browser starts u s) t = ([], if IsValidEndPoint s u t then snd (NewClient starts u s t) else t)"
| "stream_step (Tel_Report s d) t = ([], NotifyEndPoint s d t)"
| "stream_step (Tel_Leave u) t = ([], DeRegisterClient u t)"
| "stream_step Tel_Turn t = telemetry_run t"

fun stream_steps :: "stream_event list \<Rightarrow> telemetry_stream \<Rightarrow> (string \<times> string) list \<times> telemetry_stream" where
  "stream_steps [] t = ([], t)"
| "stream_steps (ev # evs) t =
     (let (out, t') = stream_step ev t; (outs, t'') = stream_steps evs t' in (out @ outs, t''))"

text \<open>
  The abstract stream: which browser is told of which device, which browsers are there, and what waits.
\<close>

record abstract_stream =
  as_viewers :: "(u64 \<times> string) set"
  as_there :: "string set"
  as_queue :: "telemetry_notification list"

definition abs_stream :: "telemetry_stream \<Rightarrow> abstract_stream" where
  "abs_stream t = \<lparr> as_viewers = viewers t, as_there = {u. connected_client t u}, as_queue = ts_MsgQueue t \<rparr>"

fun abstract_step :: "stream_event \<Rightarrow> abstract_stream \<Rightarrow> (string \<times> string) list \<times> abstract_stream" where
  "abstract_step (Tel_Create s u) a = ([], a\<lparr> as_viewers := insert (s, u) (as_viewers a), as_there := as_there a - {u} \<rparr>)"
| "abstract_step (Tel_Browser starts u s) a =
     ([], if (s, u) \<in> as_viewers a \<and> starts then a\<lparr> as_there := insert u (as_there a) \<rparr> else a)"
| "abstract_step (Tel_Report s d) a = ([], a\<lparr> as_queue := as_queue a @ [Telemetry_Data s d] \<rparr>)"
| "abstract_step (Tel_Leave u) a = ([], a\<lparr> as_queue := as_queue a @ [Telemetry_Unregister u] \<rparr>)"
| "abstract_step Tel_Turn a =
     (case as_queue a of
        [] \<Rightarrow> ([], a)
      | Telemetry_Data s d # q \<Rightarrow>
          (map (\<lambda>u. (u, d)) (sorted_list_of_set {u. (s, u) \<in> as_viewers a \<and> u \<in> as_there a}), a\<lparr> as_queue := q \<rparr>)
      | Telemetry_Unregister u # q \<Rightarrow>
          ([], \<lparr> as_viewers = {(s, v). (s, v) \<in> as_viewers a \<and> v \<noteq> u}, as_there = as_there a - {u}, as_queue = q \<rparr>))"

fun abstract_steps :: "stream_event list \<Rightarrow> abstract_stream \<Rightarrow> (string \<times> string) list \<times> abstract_stream" where
  "abstract_steps [] a = ([], a)"
| "abstract_steps (ev # evs) a =
     (let (out, a') = abstract_step ev a; (outs, a'') = abstract_steps evs a' in (out @ outs, a''))"

lemma connected_viewer: "stream_inv t \<Longrightarrow> connected_client t u \<Longrightarrow> \<exists>s. (s, u) \<in> viewers t"
  using stream_invD(5) [of t u] by (auto simp: connected_client_def split: option.splits)

lemma valid_end_point:
  assumes "stream_inv t"
  shows "IsValidEndPoint s u t \<longleftrightarrow> (s, u) \<in> viewers t"
proof -
  have "(s, u) \<in> viewers t \<Longrightarrow> om_find (ts_Clients t) u \<noteq> None" using stream_invD(5) [OF assms, of u] by blast
  then show ?thesis by (auto simp: IsValidEndPoint_def viewers_def serial_uuids_def split: option.splits)
qed

lemma connected_after:
  "connected_client ((add_uuid s u t)\<lparr> ts_Clients := om_set u c (ts_Clients t) \<rparr>) v = (if v = u then c \<noteq> None else connected_client t v)"
  by (cases c) (simp_all add: connected_client_def om_find_set_any)

lemma connected_queue [simp]: "connected_client (t\<lparr> ts_MsgQueue := q \<rparr>) = connected_client t"
  by (simp add: connected_client_def fun_eq_iff)

lemma connected_without: "connected_client (without_uuid u t) v \<longleftrightarrow> v \<noteq> u \<and> connected_client t v"
  by (auto simp: connected_client_def Clients_without split: option.splits)

lemma served_in_order:
  assumes "stream_inv t"
  shows "filter (connected_client t) (serial_uuids s t) = sorted_list_of_set {u. (s, u) \<in> viewers t \<and> connected_client t u}"
proof -
  let ?us = "filter (connected_client t) (serial_uuids s t)"
  have "{u. (s, u) \<in> viewers t \<and> connected_client t u} = set ?us" by (auto simp: viewers_def)
  moreover have "sorted ?us" "distinct ?us"
    using stream_invD(3,4) [OF assms, of s] by (simp_all add: sorted_filter_id)
  ultimately show ?thesis using sorted_list_of_set.idem_if_sorted_distinct [of ?us] by simp
qed

text \<open>One step, concrete and abstract.\<close>

lemma stream_step_inv:
  assumes "stream_inv t" and "ts_Running t"
  shows "stream_inv (snd (stream_step ev t)) \<and> ts_Running (snd (stream_step ev t))"
proof (cases ev)
  case (Tel_Turn)
  then show ?thesis
    using assms stream_inv_without [of "t\<lparr> ts_MsgQueue := q \<rparr>" for q]
    by (auto simp: telemetry_run_def telemetry_notify_def without_uuid_def split: list.splits telemetry_notification.splits)
qed (use assms in \<open>auto simp: telemetry_CreateEndpoint_def NewClient_def stream_inv_add NotifyEndPoint_def DeRegisterClient_def\<close>)

lemma abs_without:
  assumes "stream_inv t"
  shows "abs_stream (if om_find (ts_Clients t) u = None then t else without_uuid u t) =
    \<lparr> as_viewers = {(s, v). (s, v) \<in> viewers t \<and> v \<noteq> u}, as_there = {v. connected_client t v} - {u}, as_queue = ts_MsgQueue t \<rparr>"
proof (cases "om_find (ts_Clients t) u")
  case None
  then have "(s, u) \<notin> viewers t" for s using stream_invD(5) [OF assms, of u] by blast
  moreover have "\<not> connected_client t u" using None by (simp add: connected_client_def)
  ultimately show ?thesis using None by (auto simp: abs_stream_def)
next
  case (Some c)
  then show ?thesis
    by (auto simp: abs_stream_def viewers_without [OF assms] connected_without) (simp_all add: without_uuid_def)
qed

lemma stream_step_abs:
  assumes "stream_inv t" and "ts_Running t"
  shows "abstract_step ev (abs_stream t) = (fst (stream_step ev t), abs_stream (snd (stream_step ev t)))"
proof (cases ev)
  case (Tel_Create s u)
  then show ?thesis
    by (auto simp: telemetry_CreateEndpoint_def abs_stream_def connected_after)
next
  case (Tel_Browser starts u s)
  then show ?thesis
    using valid_end_point [OF assms(1), of s u]
    by (auto simp: NewClient_def abs_stream_def connected_after)
next
  case Tel_Turn
  show ?thesis
  proof (cases "ts_MsgQueue t")
    case Nil
    then show ?thesis using Tel_Turn by (simp add: telemetry_run_def abs_stream_def)
  next
    case (Cons n q)
    let ?t = "t\<lparr> ts_MsgQueue := q \<rparr>"
    have inv: "stream_inv ?t" using assms(1) by simp
    show ?thesis
    proof (cases n)
      case (Telemetry_Data s d)
      then show ?thesis
        using Tel_Turn Cons assms(2) served_in_order [OF inv, of s]
        by (simp add: telemetry_run_def telemetry_notify_def abs_stream_def)
    next
      case (Telemetry_Unregister u)
      have "telemetry_run t = ([], if om_find (ts_Clients ?t) u = None then ?t else without_uuid u ?t)"
        using Cons Telemetry_Unregister assms(2) by (simp add: telemetry_run_def telemetry_notify_def without_uuid_def)
      then show ?thesis
        using Tel_Turn Cons Telemetry_Unregister abs_without [OF inv, of u] by (simp add: abs_stream_def)
    qed
  qed
qed (auto simp: NotifyEndPoint_def DeRegisterClient_def abs_stream_def)

definition empty_stream :: telemetry_stream where
  "empty_stream = \<lparr> ts_Running = True, ts_SerialNumbers = [], ts_Clients = [], ts_MsgQueue = [] \<rparr>"

lemma empty_stream_inv: "stream_inv empty_stream"
  by (simp add: stream_inv_def empty_stream_def serial_uuids_def om_find_def viewers_def om_wf_def)

lemma stream_steps_abs:
  assumes "stream_inv t" and "ts_Running t"
  shows "abstract_steps evs (abs_stream t) = (fst (stream_steps evs t), abs_stream (snd (stream_steps evs t))) \<and>
         stream_inv (snd (stream_steps evs t))"
  using assms
proof (induction evs arbitrary: t)
  case (Cons ev evs)
  show ?case
    using Cons.IH [of "snd (stream_step ev t)"] stream_step_inv [OF Cons.prems, of ev] stream_step_abs [OF Cons.prems, of ev]
    by (simp add: Let_def case_prod_unfold)
qed simp

text \<open>
  C28: Along every sequence of end points made, browsers coming and leaving, reports and turns of the thread, the two
  maps of the stream are the relation between devices and browsers and the set of browsers that are there: what is sent
  is what the abstract stream sends, each report to every browser that is there for its device, once, and to no other.
\<close>

theorem telemetry_as_relation:
  "abstract_steps evs \<lparr> as_viewers = {}, as_there = {}, as_queue = [] \<rparr> =
     (fst (stream_steps evs empty_stream), abs_stream (snd (stream_steps evs empty_stream)))"
proof -
  have "abs_stream empty_stream = \<lparr> as_viewers = {}, as_there = {}, as_queue = [] \<rparr>"
    by (simp add: abs_stream_def empty_stream_def viewers_def serial_uuids_def connected_client_def om_find_def)
  then show ?thesis
    using stream_steps_abs [OF empty_stream_inv, of evs] by (simp add: empty_stream_def)
qed

section \<open>What a browser gets\<close>

definition devices_of :: "string \<Rightarrow> telemetry_stream \<Rightarrow> u64 set" where
  "devices_of u t = {s. (s, u) \<in> viewers t}"

definition received :: "string \<Rightarrow> (string \<times> string) list \<Rightarrow> string list" where
  "received u out = map snd (filter (\<lambda>e. fst e = u) out)"

fun waiting_report :: "u64 set \<Rightarrow> telemetry_notification \<Rightarrow> string list" where
  "waiting_report own (Telemetry_Data s d) = (if s \<in> own then [d] else [])"
| "waiting_report own (Telemetry_Unregister u) = []"

fun new_report :: "u64 set \<Rightarrow> stream_event \<Rightarrow> string list" where
  "new_report own (Tel_Report s d) = (if s \<in> own then [d] else [])"
| "new_report own _ = []"

definition stays_connected :: "string \<Rightarrow> u64 set \<Rightarrow> telemetry_stream \<Rightarrow> bool" where
  "stays_connected u own t \<longleftrightarrow> stream_inv t \<and> ts_Running t \<and> connected_client t u \<and> devices_of u t = own \<and>
     Telemetry_Unregister u \<notin> set (ts_MsgQueue t)"

fun leaves_alone :: "string \<Rightarrow> stream_event \<Rightarrow> bool" where
  "leaves_alone u (Tel_Create s v) \<longleftrightarrow> v \<noteq> u"
| "leaves_alone u (Tel_Leave v) \<longleftrightarrow> v \<noteq> u"
| "leaves_alone u _ \<longleftrightarrow> True"

lemma filter_one: "distinct xs \<Longrightarrow> filter (\<lambda>x. x = u) xs = (if u \<in> set xs then [u] else [])"
  by (induction xs) auto

lemma received_served:
  assumes "stream_inv t" and "connected_client t u"
  shows "received u (map (\<lambda>v. (v, d)) (filter (connected_client t) (serial_uuids s t))) = (if s \<in> devices_of u t then [d] else [])"
proof -
  have "distinct (filter (connected_client t) (serial_uuids s t))" using stream_invD(4) [OF assms(1)] by simp
  from filter_one [OF this, of u] assms(2) show ?thesis
    by (simp add: received_def filter_map comp_def devices_of_def viewers_def)
qed

lemma devices_of_simps [simp]:
  "devices_of u (t\<lparr> ts_MsgQueue := q \<rparr>) = devices_of u t"
  "devices_of u ((add_uuid s v t)\<lparr> ts_Clients := c \<rparr>) = (if v = u then insert s (devices_of u t) else devices_of u t)"
  by (auto simp: devices_of_def)

lemma devices_of_without: "stream_inv t \<Longrightarrow> v \<noteq> u \<Longrightarrow> devices_of u (without_uuid v t) = devices_of u t"
  by (auto simp: devices_of_def viewers_without)

lemma without_fields [simp]: "ts_MsgQueue (without_uuid v t) = ts_MsgQueue t" "ts_Running (without_uuid v t) = ts_Running t"
  by (simp_all add: without_uuid_def)

lemma turn_of_stream:
  assumes "ts_Running t"
  shows "telemetry_run t =
           (case ts_MsgQueue t of
              [] \<Rightarrow> ([], t)
            | Telemetry_Data s d # q \<Rightarrow> (map (\<lambda>v. (v, d)) (filter (connected_client t) (serial_uuids s t)), t\<lparr> ts_MsgQueue := q \<rparr>)
            | Telemetry_Unregister v # q \<Rightarrow>
                ([], if om_find (ts_Clients t) v = None then t\<lparr> ts_MsgQueue := q \<rparr> else without_uuid v (t\<lparr> ts_MsgQueue := q \<rparr>)))"
  using assms
  by (simp add: telemetry_run_def telemetry_notify_def without_uuid_def split: list.splits telemetry_notification.splits)

lemma turn_keeps:
  assumes "stays_connected u own t"
  shows "stays_connected u own (snd (telemetry_run t)) \<and>
         received u (fst (telemetry_run t)) @ concat (map (waiting_report own) (ts_MsgQueue (snd (telemetry_run t)))) =
           concat (map (waiting_report own) (ts_MsgQueue t))"
proof (cases "ts_MsgQueue t")
  case Nil
  then show ?thesis using assms by (simp add: stays_connected_def turn_of_stream received_def)
next
  case (Cons n q)
  note st = assms [unfolded stays_connected_def]
  let ?t = "t\<lparr> ts_MsgQueue := q \<rparr>"
  show ?thesis
  proof (cases n)
    case (Telemetry_Data s d)
    then show ?thesis using st Cons received_served [of t u d s] by (auto simp: stays_connected_def turn_of_stream)
  next
    case (Telemetry_Unregister v)
    then have v: "v \<noteq> u" "Telemetry_Unregister u \<notin> set q" using st Cons by auto
    have run: "telemetry_run t = ([], if om_find (ts_Clients t) v = None then ?t else without_uuid v ?t)"
      using st Cons Telemetry_Unregister by (simp add: turn_of_stream)
    have "stays_connected u own ?t" using st v(2) by (simp add: stays_connected_def)
    moreover have "stays_connected u own (without_uuid v ?t)"
      using st v by (simp add: stays_connected_def stream_inv_without connected_without devices_of_without)
    ultimately show ?thesis using run Cons Telemetry_Unregister by (simp add: received_def)
  qed
qed

lemma step_keeps:
  assumes "stays_connected u own t" and "leaves_alone u ev"
  shows "stays_connected u own (snd (stream_step ev t)) \<and>
         received u (fst (stream_step ev t)) @ concat (map (waiting_report own) (ts_MsgQueue (snd (stream_step ev t)))) =
           concat (map (waiting_report own) (ts_MsgQueue t)) @ new_report own ev"
proof (cases ev)
  case (Tel_Create s v)
  then show ?thesis
    using assms by (auto simp: stays_connected_def telemetry_CreateEndpoint_def stream_inv_add connected_after received_def)
next
  case (Tel_Browser starts v s)
  have "(s, v) \<in> viewers t \<Longrightarrow> v = u \<Longrightarrow> insert s own = own"
    using assms(1) by (auto simp: stays_connected_def devices_of_def)
  then show ?thesis
    using assms Tel_Browser valid_end_point [of t s v]
    by (auto simp: stays_connected_def NewClient_def stream_inv_add connected_after received_def)
next
  case Tel_Turn
  then show ?thesis using turn_keeps [OF assms(1)] by simp
qed (use assms in \<open>auto simp: stays_connected_def NotifyEndPoint_def DeRegisterClient_def received_def\<close>)

text \<open>
  C29: While a browser is there, it gets every report of its devices, once and in their order: what it was sent, followed
  by what still waits in the queue, is what waited before, followed by what the devices have reported since. Other
  browsers, however they come and leave, do not change that.
\<close>

theorem reports_reach_browser:
  assumes "stays_connected u own t" and "\<forall>ev\<in>set evs. leaves_alone u ev"
  shows "received u (fst (stream_steps evs t)) @ concat (map (waiting_report own) (ts_MsgQueue (snd (stream_steps evs t)))) =
           concat (map (waiting_report own) (ts_MsgQueue t)) @ concat (map (new_report own) evs)"
  using assms
proof (induction evs arbitrary: t)
  case (Cons ev evs)
  have split: "received u (a @ b) = received u a @ received u b" for a b by (simp add: received_def)
  show ?case
    using Cons.IH [of "snd (stream_step ev t)"] step_keeps [OF Cons.prems(1), of ev] Cons.prems(2)
    by (simp add: Let_def case_prod_unfold split)
qed (simp add: received_def)

definition demo_stream_events :: "stream_event list" where
  "demo_stream_events = [Tel_Create 7 ''a'', Tel_Create 7 ''b'', Tel_Browser True ''a'' 7]"

definition demo_stream :: telemetry_stream where
  "demo_stream = snd (stream_steps demo_stream_events empty_stream)"

lemma demo_stream_stays: "stays_connected ''a'' {7} demo_stream"
proof -
  have "stream_inv demo_stream"
    using stream_steps_abs [OF empty_stream_inv, of demo_stream_events] by (simp add: demo_stream_def empty_stream_def)
  then show ?thesis
    by (auto simp: stays_connected_def demo_stream_def demo_stream_events_def empty_stream_def telemetry_CreateEndpoint_def
        NewClient_def IsValidEndPoint_def add_uuid_def serial_uuids_def om_find_def sset_insert_def connected_client_def
        devices_of_def viewers_def split: if_splits)
qed

theorem reports_reach_browser_witness:
  "received ''a'' (fst (stream_steps [Tel_Report 7 ''one'', Tel_Leave ''b'', Tel_Report 8 ''no'', Tel_Report 7 ''two'', Tel_Turn, Tel_Turn, Tel_Turn, Tel_Turn]
     demo_stream)) = [''one'', ''two'']"
proof -
  let ?evs = "[Tel_Report 7 ''one'', Tel_Leave ''b'', Tel_Report 8 ''no'', Tel_Report 7 ''two'', Tel_Turn, Tel_Turn, Tel_Turn, Tel_Turn]"
  have q: "ts_MsgQueue (snd (stream_steps ?evs demo_stream)) = []" "ts_MsgQueue demo_stream = []"
    by (simp_all add: demo_stream_def demo_stream_events_def empty_stream_def telemetry_CreateEndpoint_def
        NewClient_def IsValidEndPoint_def add_uuid_def serial_uuids_def om_find_def sset_insert_def NotifyEndPoint_def
        DeRegisterClient_def telemetry_run_def telemetry_notify_def sset_erase_def om_erase_def)
  have "received ''a'' (fst (stream_steps ?evs demo_stream)) @ concat (map (waiting_report {7}) (ts_MsgQueue (snd (stream_steps ?evs demo_stream)))) =
      concat (map (waiting_report {7}) (ts_MsgQueue demo_stream)) @ concat (map (new_report {7}) ?evs)"
    by (rule reports_reach_browser [OF demo_stream_stays]) simp
  then show ?thesis by (simp only: q) simp
qed

section \<open>Messages to a venue\<close>

text \<open>The times at which the list for a device was looked for; \<open>prov\<close> is the provisioning service at a time.\<close>

fun venue_looks ::
    "(u64 \<Rightarrow> string \<Rightarrow> (string \<times> string list) option) \<Rightarrow> (u64 \<times> string) list \<Rightarrow> venue_broadcaster \<Rightarrow> venue_broadcaster" where
  "venue_looks prov [] v = v"
| "venue_looks prov ((now, source) # looks) v = venue_looks prov looks (snd (FindSerialNumberList (prov now) now source v))"

definition venue_told :: "(u64 \<Rightarrow> string \<Rightarrow> (string \<times> string list) option) \<Rightarrow> (u64 \<times> string) set \<Rightarrow> venue_broadcaster \<Rightarrow> bool" where
  "venue_told prov past v \<longleftrightarrow>
     (\<forall>e\<in>set (vb_Venues v). \<exists>s found. (vi_timestamp (snd e), s) \<in> past \<and>
        prov (vi_timestamp (snd e)) s = Some (fst e, found) \<and> vi_serialNumbers (snd e) = sort found)"

lemma venue_told_step:
  assumes "venue_told prov past v"
  shows "venue_told prov (insert (now, source) past) (snd (FindSerialNumberList (prov now) now source v))"
proof (cases "find (fresh_venue now source) (vb_Venues v) = None \<and> prov now source \<noteq> None")
  case False
  then have "snd (FindSerialNumberList (prov now) now source v) = v"
    by (auto simp: FindSerialNumberList_def split: option.splits)
  with assms show ?thesis unfolding venue_told_def by (metis insertI2)
next
  case True
  then obtain venue found where found: "prov now source = Some (venue, found)" by auto
  let ?info = "\<lparr> vi_timestamp = now, vi_serialNumbers = sort found \<rparr>"
  have v': "snd (FindSerialNumberList (prov now) now source v) = v\<lparr> vb_Venues := om_set venue ?info (vb_Venues v) \<rparr>"
    using True found by (simp add: FindSerialNumberList_def Let_def)
  show ?thesis
    unfolding venue_told_def v'
  proof
    fix e assume "e \<in> set (vb_Venues (v\<lparr> vb_Venues := om_set venue ?info (vb_Venues v) \<rparr>))"
    then consider "e = (venue, ?info)" | "e \<in> set (vb_Venues v)" using set_om_set by fastforce
    then show "\<exists>s found. (vi_timestamp (snd e), s) \<in> insert (now, source) past \<and>
        prov (vi_timestamp (snd e)) s = Some (fst e, found) \<and> vi_serialNumbers (snd e) = sort found"
    proof cases
      case 1
      then show ?thesis using found by (intro exI [of _ source] exI [of _ found]) simp
    next
      case 2
      then show ?thesis using assms unfolding venue_told_def by (metis insertI2)
    qed
  qed
qed

lemma venue_told_looks:
  "venue_told prov past v \<Longrightarrow> venue_told prov (past \<union> set looks) (venue_looks prov looks v)"
proof (induction looks arbitrary: past v)
  case (Cons look looks)
  obtain now source where look: "look = (now, source)" by (cases look)
  show ?case
    using Cons.IH [OF venue_told_step [OF Cons.prems, of now source]] look by simp
qed simp

text \<open>
  C30: A message of a device to its venue goes to devices that the provisioning service named with it in one venue, at
  most ten minutes ago, in order and without the device itself; whatever was asked before, for whatever devices.
\<close>

theorem venue_list_recent:
  assumes "fst (FindSerialNumberList (prov now) now source (venue_looks prov looks v)) = Some ds" and "vb_Venues v = []"
  shows "\<exists>t s venue found. (t, s) \<in> insert (now, source) (set looks) \<and> prov t s = Some (venue, found) \<and>
           now - t < 600 \<and> source \<in> set found \<and> ds = remove1 source (sort found)"
proof (cases "find (fresh_venue now source) (vb_Venues (venue_looks prov looks v))")
  case (Some e)
  have "venue_told prov (set looks) (venue_looks prov looks v)"
    using venue_told_looks [of prov "{}" v looks] assms(2) by (simp add: venue_told_def)
  moreover have "e \<in> set (vb_Venues (venue_looks prov looks v))" "fresh_venue now source e"
    using Some by (auto simp: find_Some_iff)
  ultimately obtain s found where sf: "(vi_timestamp (snd e), s) \<in> set looks" "prov (vi_timestamp (snd e)) s = Some (fst e, found)"
      "vi_serialNumbers (snd e) = sort found"
    unfolding venue_told_def by blast
  have "ds = remove1 source (vi_serialNumbers (snd e))"
    using assms(1) Some by (auto simp: FindSerialNumberList_def split: prod.splits)
  then show ?thesis
    using sf \<open>fresh_venue now source e\<close>
    by (intro exI [of _ "vi_timestamp (snd e)"] exI [of _ s] exI [of _ "fst e"] exI [of _ found]) (simp add: fresh_venue_def)
next
  case None
  then obtain venue found where "prov now source = Some (venue, found)" "source \<in> set found" "ds = remove1 source (sort found)"
    using assms(1) by (auto simp: FindSerialNumberList_def Let_def split: option.splits if_splits)
  then show ?thesis
    by (intro exI [of _ now] exI [of _ source] exI [of _ venue] exI [of _ found]) simp
qed

definition demo_prov :: "u64 \<Rightarrow> string \<Rightarrow> (string \<times> string list) option" where
  "demo_prov t s = (if t = 100 then Some (''v'', [''b'', ''a'']) else None)"

theorem venue_list_recent_witness:
  "\<exists>t s venue found. (t, s) \<in> {(500, ''b''), (100, ''a'')} \<and> demo_prov t s = Some (venue, found) \<and> 500 - t < 600 \<and>
     ''b'' \<in> set found \<and> [''a''] = remove1 ''b'' (sort found)"
proof -
  let ?v = "\<lparr> vb_Venues = [], vb_BroadcastQueue = [], vb_alive = True \<rparr>"
  have "fst (FindSerialNumberList (demo_prov 500) 500 ''b'' (venue_looks demo_prov [(100, ''a'')] ?v)) = Some [''a'']"
    by (simp add: FindSerialNumberList_def demo_prov_def fresh_venue_def Let_def less_eq_char_def)
  from venue_list_recent [OF this] show ?thesis by simp
qed

text \<open>Data that is not an object ends the thread; nothing is sent to any venue from then on.\<close>

lemma venue_data_ends_thread:
  assumes "vb_alive v" and "vb_BroadcastQueue v = n # q" and "vn_Data n = None"
    and "FindSerialNumberList prov now (vn_Source n) (v\<lparr> vb_BroadcastQueue := q \<rparr>) = (Some ds, v')"
  shows "venue_run p prov ws now (v, s, es) = (v'\<lparr> vb_alive := False \<rparr>, s, es)"
  using assms by (simp add: venue_run_def venue_message_def)

lemma venue_dead: "\<not> vb_alive v \<Longrightarrow> venue_run p prov ws now (v, s, es) = (v, s, es)"
  by (simp add: venue_run_def split: list.splits)

end
