(* ===== verification/GW_AutoConfig.thy ===== *)
theory GW_AutoConfig
  imports GW_Devices
begin

text \<open>
  The agent that completes configuration changes (\<^verbatim>\<open>src/AP_WS_ConfigAutoUpgrader.cpp\<close>, \<^verbatim>\<open>AP_WS_ConfigAutoUpgrader.h\<close>):
  what it holds of each device, and the queue of devices whose configuration is to be compared with the stored one. It
  is started with the gateway; nothing in the gateway calls its operations.
\<close>

record config_entry =
  ce_last_check :: u64
  ce_current_config :: u64
  ce_pending_config :: u64

text \<open>\<open>ua_alive\<close>: the thread has not left its loop.\<close>

record upgrade_agent =
  ua_Cache :: "(u64, config_entry) omap"
  ua_Queue :: "(u64 \<times> u64) list"
  ua_alive :: bool

definition SetDeviceCacheEntry :: "u64 \<Rightarrow> u64 \<Rightarrow> u64 \<Rightarrow> u64 \<Rightarrow> upgrade_agent \<Rightarrow> upgrade_agent" where
  "SetDeviceCacheEntry serial t uuid pending a =
     a\<lparr> ua_Cache := om_set serial \<lparr> ce_last_check = t, ce_current_config = uuid, ce_pending_config = pending \<rparr> (ua_Cache a) \<rparr>"

definition AddConfiguration :: "u64 \<Rightarrow> u64 \<Rightarrow> u64 \<Rightarrow> upgrade_agent \<Rightarrow> upgrade_agent" where
  "AddConfiguration now serial uuid a =
     (case om_find (ua_Cache a) serial of
        None \<Rightarrow> SetDeviceCacheEntry serial now uuid 0 a
      | Some c \<Rightarrow>
          if ce_pending_config c = 0
          then a\<lparr> ua_Cache := om_set serial (c\<lparr> ce_last_check := now, ce_current_config := uuid \<rparr>) (ua_Cache a) \<rparr> else a)"

definition AddConfiguration_pending :: "u64 \<Rightarrow> u64 \<Rightarrow> u64 \<Rightarrow> u64 \<Rightarrow> upgrade_agent \<Rightarrow> upgrade_agent" where
  "AddConfiguration_pending now serial uuid pending a =
     (case om_find (ua_Cache a) serial of
        None \<Rightarrow> SetDeviceCacheEntry serial now uuid pending a
      | Some c \<Rightarrow> if ce_pending_config c = 0 then SetDeviceCacheEntry serial now uuid pending a else a)"

definition GetSerialInfo :: "u64 \<Rightarrow> upgrade_agent \<Rightarrow> config_entry" where
  "GetSerialInfo serial a =
     (case om_find (ua_Cache a) serial of
        None \<Rightarrow> \<lparr> ce_last_check = 0, ce_current_config = 0, ce_pending_config = 0 \<rparr>
      | Some c \<Rightarrow> c)"

definition UpdateConfiguration :: "u64 \<Rightarrow> u64 \<Rightarrow> u64 \<Rightarrow> upgrade_agent \<Rightarrow> bool \<times> upgrade_agent" where
  "UpdateConfiguration now serial config a =
     (if serial = 0 then (False, a)
      else case om_find (ua_Cache a) serial of
        None \<Rightarrow> (True, a)
      | Some c \<Rightarrow>
          let queued = a\<lparr> ua_Queue := ua_Queue a @ [(serial, config)] \<rparr> in
          if ce_current_config c = config then (False, a)
          else if config = ce_pending_config c then (True, queued)
          else if config \<noteq> ce_current_config c \<and> ce_pending_config c = 0 then (True, queued)
          else if now - ce_last_check c < 60 * 5 then (False, a)
          else if ce_pending_config c \<noteq> 0 then (False, a)
          else (True, a))"

text \<open>
  A turn of the thread. A device that is not found, or whose identifiers are others, makes it return, for good; an
  exception is logged.
\<close>

definition agent_run :: "poco \<Rightarrow> codec \<Rightarrow> u64 \<Rightarrow> storage \<times> upgrade_agent \<Rightarrow> storage \<times> upgrade_agent" where
  "agent_run p c now w =
     (case w of (st, a) \<Rightarrow>
        (case ua_Queue a of
           [] \<Rightarrow> (st, a)
         | (serial, uuid) # q \<Rightarrow>
             if \<not> ua_alive a then (st, a)
             else
               let a = a\<lparr> ua_Queue := q \<rparr>; s = IntToSerialNumber serial in
               (case GetDevice c s st of
                  None \<Rightarrow> (st, a\<lparr> ua_alive := False \<rparr>)
                | Some d \<Rightarrow>
                    if pendingUUID d \<noteq> 0 \<and> uuid = pendingUUID d then
                      (case CompleteDeviceConfigurationChange p c now s st of
                         (Inl _, st) \<Rightarrow> (st, a)
                       | (Inr _, st) \<Rightarrow> (st, SetDeviceCacheEntry serial now uuid 0 a))
                    else if UUID d = uuid then (st, SetDeviceCacheEntry serial now uuid 0 a)
                    else (st, a\<lparr> ua_alive := False \<rparr>))))"

section \<open>What an entry of the queue does\<close>

text \<open>A check of an unknown device ends the thread: no later entry of the queue is ever looked at.\<close>

lemma agent_dead: "\<not> ua_alive a \<Longrightarrow> agent_run p c now (st, a) = (st, a)"
  by (simp add: agent_run_def split: list.splits)

theorem unknown_device_ends_agent:
  assumes "ua_alive a" and "ua_Queue a = (serial, uuid) # q" and "GetDevice c (IntToSerialNumber serial) st = None"
  shows "((agent_run p c now) ^^ Suc n) (st, a) = (st, a\<lparr> ua_Queue := q, ua_alive := False \<rparr>)"
proof (induction n)
  case 0
  show ?case using assms by (simp add: agent_run_def)
next
  case (Suc n)
  then show ?case by (simp add: agent_dead)
qed

text \<open>An identifier that the storage does not wait for leaves the row of the device as it is.\<close>

lemma agent_completes_only_pending:
  assumes "ua_Queue a = (serial, uuid) # q" and "GetDevice c (IntToSerialNumber serial) st = Some d" and "uuid \<noteq> pendingUUID d"
  shows "fst (agent_run p c now (st, a)) = st"
  using assms by (auto simp: agent_run_def Let_def)

end
