(* ===== verification/Spec2Isabelle.thy ===== *)
theory Spec2Isabelle
  imports GW_Admission GW_RadiusRouting GW_DeviceProps GW_ScanProps GW_ScanReadBack GW_Tables GW_BlackList GW_RttyProps GW_RttyMeet GW_UsersProps
    GW_ServicesProps GW_DeviceRestProps GW_StreamsProps GW_AutoConfig
begin

text \<open>
  A model of the OpenWiFi gateway (\<^verbatim>\<open>wlan-cloud-ucentralgw\<close>): the service that access points connect to by
  web socket, that keeps their configuration, sends them commands and takes their reports.

  \<^bold>\<open>The parts and how they interact.\<close> A device opens a TLS socket; \<^verbatim>\<open>src/AP_WS_Server\<close> makes an
  \<^verbatim>\<open>AP_WS_Connection\<close> of it and keeps it in a map of sessions. The reactor calls the connection when its socket
  is readable; the connection checks the certificate once, takes a frame, and gives each complete JSON
  message to one of the handlers \<^verbatim>\<open>AP_WS_Process_*.cpp\<close>. The first message, \<^verbatim>\<open>connect\<close>, registers the session under
  the serial number of the device, creates or refreshes the row of the device in the storage, and compares the
  configuration the device runs with the stored one (\<^verbatim>\<open>AP_WS_LookForUpgrade.cpp\<close>). Answers to commands go to
  \<^verbatim>\<open>CommandManager\<close>, which matches them with the requests it sent through the server, and completes or rolls back
  configuration changes in the storage. The storage keeps two caches up to date, of known serial numbers
  and of expected configuration identifiers. A connection that ends goes on a queue; the server's cleanup thread
  takes it out of both maps, and its janitor puts there what has gone silent.

  \<^bold>\<open>Theories\<close>, in the order of the calls:

    \<^item> \<^verbatim>\<open>GW_Prelude\<close>: characters, hexadecimal digits, exceptions as values (\<^verbatim>\<open>cpp_exn\<close>), shared lemmas.
    \<^item> \<^verbatim>\<open>GW_Utils\<close>, \<^verbatim>\<open>GW_Text\<close>: \<^verbatim>\<open>framework/utils.cpp\<close>, \<^verbatim>\<open>utils.h\<close>: serial numbers, MAC addresses, validation,
      wildcards, base64, passwords, decompression.
    \<^item> \<^verbatim>\<open>GW_StdMap\<close>: \<^verbatim>\<open>std::map\<close> and the hashed array of maps of the server, behind a locale of laws.
    \<^item> \<^verbatim>\<open>GW_SerialCache\<close>: \<^verbatim>\<open>SerialNumberCache\<close>, refined against the set of known numbers.
    \<^item> \<^verbatim>\<open>GW_Json\<close>: JSON values, \<^verbatim>\<open>Config::Config\<close>, \<^verbatim>\<open>StateUtils\<close>.
    \<^item> \<^verbatim>\<open>GW_Caches\<close>: \<^verbatim>\<open>ConfigurationCache\<close>, \<^verbatim>\<open>CapabilitiesCache\<close>, \<^verbatim>\<open>Config::Capabilities\<close>.
    \<^item> \<^verbatim>\<open>GW_Devices\<close>, \<^verbatim>\<open>GW_Provision\<close>: \<^verbatim>\<open>storage_device.cpp\<close>, \<^verbatim>\<open>storage_defconfig.cpp\<close>, \<^verbatim>\<open>storage_capabilities.cpp\<close>: the
      device table and its caches, pending changes, default configurations, tags.
    \<^item> \<^verbatim>\<open>GW_Rest\<close>: the JSON form of restrictions.
    \<^item> \<^verbatim>\<open>GW_ConnState\<close>: the state of a connection, sending, telemetry requests.
    \<^item> \<^verbatim>\<open>GW_Registry\<close>: \<^verbatim>\<open>AP_WS_Server\<close>.
    \<^item> \<^verbatim>\<open>GW_Upgrade\<close>: the operations of a connection as functions on a world of connection, storage and effects,
      and \<^verbatim>\<open>LookForUpgrade\<close>.
    \<^item> \<^verbatim>\<open>GW_Events\<close>, \<^verbatim>\<open>GW_Connect\<close>, \<^verbatim>\<open>GW_Connection\<close>: the handlers, the first message, frames and dispatch.
    \<^item> \<^verbatim>\<open>GW_History\<close>, \<^verbatim>\<open>GW_Admission\<close>: what holds along every run of a connection, and who is let in.
    \<^item> \<^verbatim>\<open>GW_Commands\<close>: \<^verbatim>\<open>CommandManager\<close>.
    \<^item> \<^verbatim>\<open>GW_CommandTable\<close>: \<^verbatim>\<open>storage_command.cpp\<close>: the rows of the commands and of the uploaded files.
    \<^item> \<^verbatim>\<open>GW_Scheduler\<close>: the scheduler of \<^verbatim>\<open>CommandManager\<close> over the table it reads and writes.
    \<^item> \<^verbatim>\<open>GW_Rpc\<close>: \<^verbatim>\<open>RESTAPI_RPC.cpp\<close>: a command given by an operator, its answer awaited.
    \<^item> \<^verbatim>\<open>GW_Tables\<close>: statistics, logs and health checks (\<^verbatim>\<open>storage_statistics.cpp\<close>, \<^verbatim>\<open>storage_logs.cpp\<close>,
      \<^verbatim>\<open>storage_healthcheck.cpp\<close>) and \<^verbatim>\<open>StorageArchiver\<close>.
    \<^item> \<^verbatim>\<open>GW_BlackList\<close>: \<^verbatim>\<open>storage_blacklist.cpp\<close>, \<^verbatim>\<open>RESTAPI_blacklist.cpp\<close>, \<^verbatim>\<open>storage_def_firmware.cpp\<close>.
    \<^item> \<^verbatim>\<open>GW_Radius\<close>, \<^verbatim>\<open>GW_RadiusSpec\<close>: \<^verbatim>\<open>RADIUS_helpers.h\<close>: packets in memory, and their refinement by lists of
      attributes.
    \<^item> \<^verbatim>\<open>GW_RadiusConfig\<close>: the pools of RADIUS servers, their JSON form and \<^verbatim>\<open>RESTAPI_radiusProxyConfig_handler.cpp\<close>.
    \<^item> \<^verbatim>\<open>GW_RadiusProxy\<close>: \<^verbatim>\<open>RADIUS_Destination.h\<close>, \<^verbatim>\<open>RADIUS_proxy_server.cpp\<close>: the connections to the pools, and the way
      of a packet between a device and a server.
    \<^item> \<^verbatim>\<open>GW_RadiusSessions\<close>: \<^verbatim>\<open>RADIUSSessionTracker.cpp\<close>, \<^verbatim>\<open>RESTAPI_radiussessions_handler.cpp\<close>.
    \<^item> \<^verbatim>\<open>GW_RadiusTracking\<close>, \<^verbatim>\<open>GW_RadiusRouting\<close>: what holds of the sessions and of the proxy along their runs.
    \<^item> \<^verbatim>\<open>GW_Handler\<close>: \<^verbatim>\<open>RESTAPI_Handler.h\<close>: paths and parameters of a request, who is let in, what an exception becomes.
    \<^item> \<^verbatim>\<open>GW_CommandObjects\<close>: the objects of the device commands in \<^verbatim>\<open>RESTAPI_GWobjects.cpp\<close>.
    \<^item> \<^verbatim>\<open>GW_DeviceState\<close>, \<^verbatim>\<open>GW_DeviceCommands\<close>, \<^verbatim>\<open>GW_DevicePost\<close>: \<^verbatim>\<open>RESTAPI_device_commandHandler.cpp\<close>: what is read of a
      device, the commands, the entry points.
    \<^item> \<^verbatim>\<open>GW_DeviceRules\<close>, \<^verbatim>\<open>GW_DeviceProps\<close>: what a command may touch, and what holds of the commands.
    \<^item> \<^verbatim>\<open>GW_ScanTables\<close>, \<^verbatim>\<open>GW_ScanElements\<close>, \<^verbatim>\<open>GW_ScanCaps\<close>, \<^verbatim>\<open>GW_ScanVendor\<close>, \<^verbatim>\<open>GW_Scan\<close>: \<^verbatim>\<open>ParseWifiScan.h\<close>: the tables of
      values, the decoders of the elements, and the parser of the answer.
    \<^item> \<^verbatim>\<open>GW_ScanReads\<close>, \<^verbatim>\<open>GW_ScanBounds\<close>, \<^verbatim>\<open>GW_ScanProps\<close>: which bytes a decoder reads, for which data it reads past their
      end.
    \<^item> \<^verbatim>\<open>GW_ScanReadBack\<close>: the elements an access point sends, encoded, are the values the report names.
    \<^item> \<^verbatim>\<open>GW_Rtty\<close>, \<^verbatim>\<open>GW_RttyServer\<close>: \<^verbatim>\<open>rttys/RTTYS_server.cpp\<close>, \<^verbatim>\<open>RTTYS_WebServer.cpp\<close>: the remote terminals: end
      points, what is sent, the messages of a device, the frames of a browser, the timer.
    \<^item> \<^verbatim>\<open>GW_RttyStream\<close>, \<^verbatim>\<open>GW_RttyMeet\<close>, \<^verbatim>\<open>GW_RttyProps\<close>: the data of a terminal, how its two ends meet, and what holds in every
      run of its server.
    \<^item> \<^verbatim>\<open>GW_Users\<close>: \<^verbatim>\<open>RESTAPI_SecurityObjects.cpp\<close>: users and tokens in their JSON form.
    \<^item> \<^verbatim>\<open>GW_Services\<close>: \<^verbatim>\<open>MicroService.cpp\<close>, \<^verbatim>\<open>OpenAPIRequests.cpp\<close>, \<^verbatim>\<open>AuthClient.cpp\<close>, \<^verbatim>\<open>RESTAPI_RateLimiter.h\<close> and \<^verbatim>\<open>IsAuthorized\<close>:
      the other services, requests to them, tokens and API keys.
    \<^item> \<^verbatim>\<open>GW_UsersProps\<close>, \<^verbatim>\<open>GW_ServicesProps\<close>: what is written of a user is read again; which services are known and which
      tokens are let in after any sequence of messages.
    \<^item> \<^verbatim>\<open>GW_DeviceRest\<close>, \<^verbatim>\<open>GW_DeviceRestProps\<close>: \<^verbatim>\<open>RESTAPI_device_handler.cpp\<close>, \<^verbatim>\<open>RESTAPI_devices_handler.cpp\<close>: devices made,
      read, changed, listed and deleted by an operator.
    \<^item> \<^verbatim>\<open>GW_Streams\<close>, \<^verbatim>\<open>GW_StreamsProps\<close>: \<^verbatim>\<open>TelemetryStream.cpp\<close>, \<^verbatim>\<open>TelemetryClient.cpp\<close>, \<^verbatim>\<open>RESTAPI_telemetryWebSocket.cpp\<close>,
      \<^verbatim>\<open>VenueBroadcaster.h\<close>: reports passed to browsers, and what one device tells the others of its venue.
    \<^item> \<^verbatim>\<open>GW_AutoConfig\<close>: \<^verbatim>\<open>AP_WS_ConfigAutoUpgrader\<close>: the agent that completes pending configurations.

  \<^bold>\<open>Correspondence.\<close> A class is a record, its members the fields; a method is a function of its name that takes
  and returns the record. An exception is the left of a sum; a Poco exception and one of the standard library are
  told apart, because the handlers catch one or both. Integers are words of their width. A map in the order of its
  keys is a sorted association list. Calls that leave the modelled part (Kafka, notifications, commands,
  further tables) are recorded in a list of effects, in their order. What the source cannot tell is a parameter:
  the JSON parser and printer (\<^verbatim>\<open>poco\<close>), the text codec of the JSON columns (\<^verbatim>\<open>codec\<close>), zlib, random numbers, the
  clock, the socket (\<^verbatim>\<open>env\<close>). Hypotheses on parameters are named in the statements and met in the witnesses.

  \<^bold>\<open>Loops.\<close> Recursion is structural or has a measure. Two loops over the FIFO buffer of a device, whose draining is
  a parameter, are given a number of rounds: \<^verbatim>\<open>device_messages\<close> and \<^verbatim>\<open>ReadString_loop\<close> get the length of the buffer,
  which is enough, since a round takes three bytes or one; \<^verbatim>\<open>frames_split\<close> and \<^verbatim>\<open>ReadString_loop_text\<close> hold from that
  number on. The decompression
  loop ends after at most 29 buffer sizes, the wildcard matcher by the length of its texts.

  \<^bold>\<open>What the lemmas show.\<close> \<^verbatim>\<open>GW_StdMap\<close>: the laws of lookup, store and erase, used for every map.
  \<^verbatim>\<open>GW_SerialCache\<close>: both vectors are the sorted set and its reversal, and a search is the filtered set.
  \<^verbatim>\<open>GW_Devices\<close>: well-formed tables and mirrored caches are preserved, and a pending change is completed or undone.
  \<^verbatim>\<open>GW_Registry\<close>: the maps are consistent, the states the
  program reaches (\<^verbatim>\<open>reg_reach\<close>), and which connections the janitor and the cleanup remove there.
  \<^verbatim>\<open>GW_History\<close>: an order of states kept by every operation (\<^verbatim>\<open>state_order\<close>, \<^verbatim>\<open>connection_order\<close>), instantiated with the
  history of a connection and with its telemetry. \<^verbatim>\<open>GW_Commands\<close>: answers touch only the request they answer.
  \<^verbatim>\<open>GW_Scheduler\<close>: what a run marks as executed was due and is marked once. \<^verbatim>\<open>GW_Rpc\<close>: what is left in the table by each
  outcome of a command, up to its delivery by a later run of the scheduler. \<^verbatim>\<open>GW_Tables\<close>: the laws of a dated table
  (\<^verbatim>\<open>dated_table\<close>), of which paging and purging follow for all three. \<^verbatim>\<open>GW_BlackList\<close>: the cache follows the table
  through every sequence of requests (\<^verbatim>\<open>bl_reach\<close>).
  \<^verbatim>\<open>GW_RadiusSpec\<close>: a packet denotes a list of types and values (\<^verbatim>\<open>pkt_ok\<close>), and every edit of its bytes is the
  edit of that list (\<^verbatim>\<open>attribute_store\<close>). \<^verbatim>\<open>GW_RadiusTracking\<close>: the sessions are a function of the history of
  messages. \<^verbatim>\<open>GW_RadiusRouting\<close>: where a packet goes, and the states a connection to a pool can reach,
  with the times of its tries (\<^verbatim>\<open>pool_reach\<close>).
  \<^verbatim>\<open>GW_DeviceRules\<close>: an order of states that says only what belongs to one device has changed (\<^verbatim>\<open>stays\<close>), an instance of
  \<^verbatim>\<open>state_order\<close>: nothing of other devices is lost or new; every command keeps it. \<^verbatim>\<open>GW_DeviceProps\<close>: refused commands do nothing, scripts by the role of the user,
  signatures, configurations that are never answered. \<^verbatim>\<open>GW_ScanReads\<close>: a calculus of readers (\<^verbatim>\<open>reads\<close>), composed as the
  decoders are; \<^verbatim>\<open>GW_ScanBounds\<close> gives of it for every decoder the exact condition (\<^verbatim>\<open>fits\<close>) under which it stays inside.
  \<^verbatim>\<open>GW_RttyProps\<close>: a calculus of operations that keep the maps of the terminal server consistent (\<^verbatim>\<open>safe\<close>), applied to
  every callback, and the states its runs reach (\<^verbatim>\<open>rtty_reach\<close>). \<^verbatim>\<open>GW_RttyStream\<close>: the messages of a stream are found
  however it is cut. \<^verbatim>\<open>GW_RttyMeet\<close>: the registration of a device and the coming of its browser commute.
  \<^verbatim>\<open>GW_UsersProps\<close>: reading back by the members of an object. \<^verbatim>\<open>GW_ServicesProps\<close>: the map of services is what was last
  heard of each (\<^verbatim>\<open>heard_of\<close>), and a token of the cache is one the security service has confirmed (\<^verbatim>\<open>token_run\<close>).
  \<^verbatim>\<open>GW_DeviceRestProps\<close>: what is stored is read again, a change touches the members it names, and the texts of a request
  that reach the database. \<^verbatim>\<open>GW_StreamsProps\<close>: the maps of the stream are a relation of devices and browsers
  (\<^verbatim>\<open>abs_stream\<close>); which reports a browser is sent, and which devices a venue message is sent to.

  \<^bold>\<open>Not modelled.\<close> Threads and locks: each callback is one step, in any order. The scripts table, the
  REST handlers of the remaining resources, the configuration validator (a schema for a library), Kafka, the start-up,
  configuration and logging of the service framework, and the objects of other services.
\<close>

end
